(* ===== verification/Prelude.thy ===== *)
theory Prelude
  imports
    Main
    "HOL-Library.Word"
    "HOL-Library.Char_ord"
    "HOL-Library.List_Lexorder"
    "HOL-Library.Product_Lexorder"
begin

text \<open>
  Shared vocabulary of the development: machine integers with the checked and saturating
  operations of the Rust standard library, \<open>Result\<close> values and the sequencing done by
  Rust's question-mark operator, ordered maps (\<open>BTreeMap\<close>), and sums of claims over the
  entries of a map. Every component theory imports this one.
\<close>

section \<open>Machine integers\<close>

type_synonym u8 = "8 word"
type_synonym u16 = "16 word"
type_synonym u32 = "32 word"
type_synonym u64 = "64 word"

text \<open>
  \<open>checked_add\<close>, \<open>checked_sub\<close>, \<open>saturating_add\<close> and \<open>saturating_sub\<close> of the unsigned
  primitive integers, at any width.
\<close>

definition checked_add :: "'a::len word \<Rightarrow> 'a word \<Rightarrow> 'a word option" where
  "checked_add a b = (if unat a + unat b < 2 ^ LENGTH('a) then Some (a + b) else None)"

definition checked_sub :: "'a::len word \<Rightarrow> 'a word \<Rightarrow> 'a word option" where
  "checked_sub a b = (if b \<le> a then Some (a - b) else None)"

definition saturating_add :: "'a::len word \<Rightarrow> 'a word \<Rightarrow> 'a word" where
  "saturating_add a b = (if unat a + unat b < 2 ^ LENGTH('a) then a + b else - 1)"

definition saturating_sub :: "'a::len word \<Rightarrow> 'a word \<Rightarrow> 'a word" where
  "saturating_sub a b = (if b \<le> a then a - b else 0)"

text \<open>
  The collection \<open>machine\<close> moves goals about words to natural numbers, where linear
  arithmetic closes them.
\<close>

named_theorems machine \<open>characterisations of machine integer operations over nat\<close>

lemma unat_lt_width: "unat (a :: 'a::len word) < 2 ^ LENGTH('a)"
  by (rule unsigned_less)

lemma unat_plus_exact:
  "unat a + unat b < 2 ^ LENGTH('a) \<Longrightarrow> unat (a + b) = unat a + unat (b :: 'a::len word)"
  by (simp add: unat_word_ariths)

lemma checked_add_eq_Some [machine]:
  "checked_add a b = Some c \<longleftrightarrow> unat c = unat a + unat (b :: 'a::len word)"
proof
  assume "checked_add a b = Some c"
  then show "unat c = unat a + unat b"
    by (auto simp: checked_add_def unat_plus_exact split: if_splits)
next
  assume c: "unat c = unat a + unat b"
  then have lt: "unat a + unat b < 2 ^ LENGTH('a)"
    using unat_lt_width [of c] by simp
  then have "c = a + b"
    using c by (simp add: unat_plus_exact word_unat_eq_iff)
  with lt show "checked_add a b = Some c"
    by (simp add: checked_add_def)
qed

lemma checked_add_eq_None [machine]:
  "checked_add a b = None \<longleftrightarrow> 2 ^ LENGTH('a) \<le> unat a + unat (b :: 'a::len word)"
  by (simp add: checked_add_def not_less)

lemma checked_sub_eq_Some [machine]:
  "checked_sub a b = Some c \<longleftrightarrow> unat a = unat c + unat (b :: 'a::len word)"
proof
  assume "checked_sub a b = Some c"
  then show "unat a = unat c + unat b"
    by (auto simp: checked_sub_def unat_sub word_le_nat_alt split: if_splits)
next
  assume a: "unat a = unat c + unat b"
  then have le: "b \<le> a"
    by (simp add: word_le_nat_alt)
  then have "unat (a - b) = unat c"
    using a by (simp add: unat_sub)
  then have "a - b = c"
    by (simp add: word_unat_eq_iff)
  with le show "checked_sub a b = Some c"
    by (simp add: checked_sub_def)
qed

lemma checked_sub_eq_None [machine]:
  "checked_sub a b = None \<longleftrightarrow> unat a < unat (b :: 'a::len word)"
  by (simp add: checked_sub_def word_le_nat_alt)

lemma unat_saturating_sub [machine, simp]:
  "unat (saturating_sub a b) = unat a - unat (b :: 'a::len word)"
  by (auto simp: saturating_sub_def unat_sub word_le_nat_alt)

lemma unat_saturating_add [machine]:
  "unat (saturating_add a b) = min (unat a + unat b) (2 ^ LENGTH('a) - 1)"
  for a b :: "'a::len word"
  using unat_lt_width [of "a + b"]
  by (auto simp: saturating_add_def unat_plus_exact unsigned_minus_1_eq_mask mask_eq_exp_minus_1)

lemmas word_nat [machine] = word_less_nat_alt word_le_nat_alt word_unat_eq_iff

lemma unat_pos: "0 < unat a \<longleftrightarrow> a \<noteq> 0" for a :: "'a::len word"
  by (simp add: unat_gt_0)

text \<open>\<open>try_from\<close> of an unbounded natural (the model of \<open>u128\<close>, \<open>usize\<close> and durations).\<close>

definition try_word :: "nat \<Rightarrow> 'a::len word option" where
  "try_word n = (if n < 2 ^ LENGTH('a) then Some (of_nat n) else None)"

lemma try_word_eq_Some [machine]: "try_word n = Some (c :: 'a::len word) \<longleftrightarrow> unat c = n"
  using unat_lt_width [of c]
  by (auto simp: try_word_def unat_of_nat)

lemma try_word_eq_None [machine]: "(try_word n :: 'a::len word option) = None \<longleftrightarrow> 2 ^ LENGTH('a) \<le> n"
  by (simp add: try_word_def not_less)

section \<open>Results and the question-mark operator\<close>

text \<open>
  A Rust \<open>Result<T, E>\<close> is a value of \<open>'e + 'a\<close>, with \<open>Inl\<close> for \<open>Err\<close>. A function that
  also mutates \<open>self\<close> returns the result together with the state it leaves behind, so that
  an early return keeps the mutations made before it.
\<close>

type_synonym ('e, 'a) result = "'e + 'a"
type_synonym ('s, 'e, 'a) update = "'s \<Rightarrow> ('e + 'a) \<times> 's"

definition ok_or :: "'e \<Rightarrow> 'a option \<Rightarrow> ('e, 'a) result" where
  "ok_or e x = (case x of None \<Rightarrow> Inl e | Some y \<Rightarrow> Inr y)"

definition bind_result :: "('e, 'a) result \<Rightarrow> ('a \<Rightarrow> ('e, 'b) result) \<Rightarrow> ('e, 'b) result" where
  "bind_result r f = (case r of Inl e \<Rightarrow> Inl e | Inr x \<Rightarrow> f x)"

definition map_err :: "('e \<Rightarrow> 'f) \<Rightarrow> ('e, 'a) result \<Rightarrow> ('f, 'a) result" where
  "map_err f r = map_sum f id r"

definition bind_update ::
  "('s, 'e, 'a) update \<Rightarrow> ('a \<Rightarrow> ('s, 'e, 'b) update) \<Rightarrow> ('s, 'e, 'b) update" where
  "bind_update m f s = (case m s of (Inl e, t) \<Rightarrow> (Inl e, t) | (Inr x, t) \<Rightarrow> f x t)"

definition lift_result :: "('s \<Rightarrow> ('e, 'a) result) \<Rightarrow> ('s, 'e, 'a) update" where
  "lift_result f s = (f s, s)"

named_theorems results \<open>inversion of sequenced results\<close>

lemma ok_or_simps [simp]:
  "ok_or e None = Inl e" "ok_or e (Some x) = Inr x"
  by (simp_all add: ok_or_def)

lemma ok_or_eq [results]:
  "ok_or e x = Inr y \<longleftrightarrow> x = Some y"
  "ok_or e x = Inl e' \<longleftrightarrow> x = None \<and> e' = e"
  by (auto simp: ok_or_def split: option.splits)

lemma bind_result_simps [simp]:
  "bind_result (Inl e) f = Inl e" "bind_result (Inr x) f = f x"
  by (simp_all add: bind_result_def)

lemma bind_result_eq_Inr [results]:
  "bind_result r f = Inr y \<longleftrightarrow> (\<exists>x. r = Inr x \<and> f x = Inr y)"
  by (cases r) auto

lemma bind_result_eq_Inl [results]:
  "bind_result r f = Inl e \<longleftrightarrow> r = Inl e \<or> (\<exists>x. r = Inr x \<and> f x = Inl e)"
  by (cases r) auto

lemma map_err_simps [simp]:
  "map_err f (Inl e) = Inl (f e)" "map_err f (Inr x) = Inr x"
  by (simp_all add: map_err_def)

lemma map_err_eq [simp, results]:
  "map_err f r = Inr x \<longleftrightarrow> r = Inr x" "map_err f r = Inl e \<longleftrightarrow> (\<exists>d. r = Inl d \<and> e = f d)"
  by (cases r; auto)+

lemma bind_update_ok: "m s = (Inr x, t) \<Longrightarrow> bind_update m f s = f x t"
  by (simp add: bind_update_def)

lemma bind_update_err: "m s = (Inl e, t) \<Longrightarrow> bind_update m f s = (Inl e, t)"
  by (simp add: bind_update_def)

lemma bind_update_lift:
  "bind_update (lift_result f) g s = (case f s of Inl e \<Rightarrow> (Inl e, s) | Inr x \<Rightarrow> g x s)"
  by (simp add: bind_update_def lift_result_def split: sum.splits)

lemma bind_update_eq_Inr [results]:
  "bind_update m f s = (Inr y, u) \<longleftrightarrow> (\<exists>x t. m s = (Inr x, t) \<and> f x t = (Inr y, u))"
  by (auto simp: bind_update_def split: prod.splits sum.splits)

lemma bind_update_eq_Inl [results]:
  "bind_update m f s = (Inl e, u) \<longleftrightarrow>
     m s = (Inl e, u) \<or> (\<exists>x t. m s = (Inr x, t) \<and> f x t = (Inl e, u))"
  by (auto simp: bind_update_def split: prod.splits sum.splits)

lemma lift_result_eq [results]: "lift_result f s = (r, t) \<longleftrightarrow> r = f s \<and> t = s"
  by (auto simp: lift_result_def)

text \<open>\<open>for x in xs { f(x)?; }\<close> over a state, and the check-only form that reads the state.\<close>

fun for_each :: "('a \<Rightarrow> ('s, 'e, unit) update) \<Rightarrow> 'a list \<Rightarrow> ('s, 'e, unit) update" where
  "for_each f [] = (\<lambda>s. (Inr (), s))"
| "for_each f (x # xs) = bind_update (f x) (\<lambda>_. for_each f xs)"

fun check_each :: "('a \<Rightarrow> ('e, unit) result) \<Rightarrow> 'a list \<Rightarrow> ('e, unit) result" where
  "check_each f [] = Inr ()"
| "check_each f (x # xs) = bind_result (f x) (\<lambda>_. check_each f xs)"

text \<open>\<open>iter().map(f).collect::<Result<Vec<_>, _>>()\<close>: stops at the first error.\<close>

fun collect_result :: "('a \<Rightarrow> ('e, 'b) result) \<Rightarrow> 'a list \<Rightarrow> ('e, 'b list) result" where
  "collect_result f [] = Inr []"
| "collect_result f (x # xs) =
     bind_result (f x) (\<lambda>y. bind_result (collect_result f xs) (\<lambda>ys. Inr (y # ys)))"

lemma check_each_ok [results]:
  "check_each f xs = Inr u \<longleftrightarrow> (\<forall>x \<in> set xs. f x = Inr ())"
  by (induction xs) (auto simp: results)

lemma check_each_errD: "check_each f xs = Inl e \<Longrightarrow> \<exists>x \<in> set xs. f x = Inl e"
  by (induction xs) (auto simp: results)

lemma collect_result_ok:
  "collect_result f xs = Inr ys \<longleftrightarrow> list_all2 (\<lambda>x y. f x = Inr y) xs ys"
  by (induction xs arbitrary: ys) (auto simp: results list_all2_Cons1)

lemma collect_result_errD: "collect_result f xs = Inl e \<Longrightarrow> \<exists>x \<in> set xs. f x = Inl e"
  by (induction xs) (auto simp: results)

text \<open>A loop invariant of \<open>for_each\<close>, whether or not the loop is left early.\<close>

lemma for_each_invariant:
  assumes "for_each f xs s = (r, t)" and "P s"
    and "\<And>x s r t. x \<in> set xs \<Longrightarrow> P s \<Longrightarrow> f x s = (r, t) \<Longrightarrow> P t"
  shows "P t"
  using assms
proof (induction xs arbitrary: s)
  case Nil
  then show ?case by simp
next
  case (Cons x xs)
  obtain r1 s1 where x: "f x s = (r1, s1)" by fastforce
  with Cons.prems have "P s1" by (meson list.set_intros(1))
  show ?case
  proof (cases r1)
    case (Inl e)
    with Cons.prems(1) x \<open>P s1\<close> show ?thesis by (simp add: bind_update_def)
  next
    case (Inr u)
    with Cons.prems(1) x have "for_each f xs s1 = (r, t)" by (simp add: bind_update_def)
    then show ?thesis
      using Cons.IH \<open>P s1\<close> Cons.prems(3) by (meson list.set_intros(2))
  qed
qed

section \<open>Iterators and strings\<close>

text \<open>\<open>Iterator::min\<close>.\<close>

fun list_min :: "'a::linorder list \<Rightarrow> 'a option" where
  "list_min [] = None"
| "list_min (x # xs) = (case list_min xs of None \<Rightarrow> Some x | Some y \<Rightarrow> Some (min x y))"

lemma list_min_None [simp]: "list_min xs = None \<longleftrightarrow> xs = []"
  by (cases xs) (auto split: option.splits)

lemma list_min_Some: "list_min xs = Some m \<longleftrightarrow> m \<in> set xs \<and> (\<forall>x \<in> set xs. m \<le> x)"
proof (induction xs arbitrary: m)
  case Nil
  then show ?case by simp
next
  case (Cons x xs)
  show ?case
  proof (cases "list_min xs")
    case None
    then have "xs = []" by simp
    then show ?thesis by auto
  next
    case (Some y)
    then have "y \<in> set xs" "\<forall>z \<in> set xs. y \<le> z" using Cons.IH by auto
    with Some show ?thesis
      by (auto simp: min_def not_le dest: order_antisym less_imp_le intro: order_trans)
  qed
qed

text \<open>A Rust string is its bytes; \<open>is_ascii\<close> and the visible ASCII range \<open>0x21..=0x7e\<close>.\<close>

definition is_ascii :: "string \<Rightarrow> bool" where
  "is_ascii s \<longleftrightarrow> list_all (\<lambda>c. (of_char c :: nat) < 128) s"

definition is_graphic_byte :: "char \<Rightarrow> bool" where
  "is_graphic_byte c \<longleftrightarrow> 0x21 \<le> (of_char c :: nat) \<and> (of_char c :: nat) \<le> 0x7e"

text \<open>
  The identities of tenants (\<open>ariadnion-core\<close>) and of accounts and providers
  (\<open>ariadnion-account-domain\<close>): validated strings ordered by their bytes.
\<close>

type_synonym TenantId = string
type_synonym AccountId = string
type_synonym ProviderId = string

section \<open>Ordered maps\<close>

text \<open>
  A \<open>BTreeMap<K, V>\<close> is its list of entries in ascending key order. \<open>get\<close> is \<open>map_of\<close>;
  insertion keeps the order and replaces the value of a key that is present; removal drops
  the key. The lookup laws hold for any list, the order invariant \<open>ordered_map\<close> is needed
  where the entries are enumerated.
\<close>

type_synonym ('k, 'v) btree_map = "('k \<times> 'v) list"

definition ordered_map :: "('k::linorder, 'v) btree_map \<Rightarrow> bool" where
  "ordered_map m \<longleftrightarrow> sorted_wrt (<) (map fst m)"

fun bt_insert :: "'k::linorder \<Rightarrow> 'v \<Rightarrow> ('k, 'v) btree_map \<Rightarrow> ('k, 'v) btree_map" where
  "bt_insert k v [] = [(k, v)]"
| "bt_insert k v (e # m) =
     (if k < fst e then (k, v) # e # m
      else if k = fst e then (k, v) # m
      else e # bt_insert k v m)"

definition bt_remove :: "'k \<Rightarrow> ('k, 'v) btree_map \<Rightarrow> ('k, 'v) btree_map" where
  "bt_remove k m = filter (\<lambda>e. fst e \<noteq> k) m"

definition bt_values :: "('k, 'v) btree_map \<Rightarrow> 'v list" where
  "bt_values m = map snd m"

lemma map_of_bt_insert [simp]: "map_of (bt_insert k v m) = (map_of m)(k \<mapsto> v)"
  by (induction m) auto

lemma map_of_bt_remove [simp]: "map_of (bt_remove k m) = (map_of m)(k := None)"
  by (induction m) (auto simp: bt_remove_def)

lemma set_bt_insert_subset: "set (bt_insert k v m) \<subseteq> insert (k, v) (set m)"
  by (induction m) auto

lemma keys_bt_insert: "fst ` set (bt_insert k v m) = insert k (fst ` set m)"
  by (induction m) auto

lemma keys_bt_remove: "fst ` set (bt_remove k m) = fst ` set m - {k}"
  by (auto simp: bt_remove_def)

lemma ordered_map_Nil [simp]: "ordered_map []"
  by (simp add: ordered_map_def)

lemma ordered_map_Cons:
  "ordered_map (e # m) \<longleftrightarrow> (\<forall>k \<in> fst ` set m. fst e < k) \<and> ordered_map m"
  by (simp add: ordered_map_def)

lemma ordered_map_bt_insert [simp, intro]: "ordered_map m \<Longrightarrow> ordered_map (bt_insert k v m)"
proof (induction m)
  case Nil
  then show ?case by (simp add: ordered_map_def)
next
  case (Cons e m)
  then show ?case
    by (auto simp: ordered_map_Cons keys_bt_insert)
qed

lemma ordered_map_bt_remove [simp, intro]: "ordered_map m \<Longrightarrow> ordered_map (bt_remove k m)"
  by (induction m) (auto simp: ordered_map_Cons bt_remove_def)

lemma ordered_map_distinct: "ordered_map m \<Longrightarrow> distinct (map fst m)"
  by (induction m) (auto simp: ordered_map_Cons)

lemma ordered_map_lookup: "ordered_map m \<Longrightarrow> (k, v) \<in> set m \<longleftrightarrow> map_of m k = Some v"
  by (simp add: ordered_map_distinct)

lemma length_bt_insert:
  "ordered_map m \<Longrightarrow>
     length (bt_insert k v m) = (if k \<in> fst ` set m then length m else Suc (length m))"
  by (induction m) (auto simp: ordered_map_Cons)

section \<open>Sums of claims over the records of a map\<close>

text \<open>
  A ledger keeps counters next to the records that justify them. \<open>claims w m\<close> is the sum of
  the weights of all records of \<open>m\<close>: what a counter has to be.
\<close>

definition claims :: "('r \<Rightarrow> nat) \<Rightarrow> ('i \<times> 'r) list \<Rightarrow> nat" where
  "claims w m = sum_list (map (\<lambda>e. w (snd e)) m)"

lemma claims_Nil [simp]: "claims w [] = 0"
  by (simp add: claims_def)

lemma claims_Cons [simp]: "claims w (e # m) = w (snd e) + claims w m"
  by (simp add: claims_def)

lemma claims_cong: "(\<And>i r. (i, r) \<in> set m \<Longrightarrow> w r = w' r) \<Longrightarrow> claims w m = claims w' m"
  unfolding claims_def by (rule arg_cong [where f = sum_list]) auto

lemma claims_eq_0: "claims w m = 0 \<longleftrightarrow> (\<forall>(i, r) \<in> set m. w r = 0)"
  by (induction m) auto

lemma claims_insert_new:
  "map_of m i = None \<Longrightarrow> claims w (bt_insert i r m) = claims w m + w r"
  by (induction m) (auto split: if_splits)

lemma claims_bt_remove_absent: "i \<notin> fst ` set m \<Longrightarrow> claims w (bt_remove i m) = claims w m"
  by (induction m) (auto simp: bt_remove_def)

lemma claims_remove:
  "ordered_map m \<Longrightarrow> map_of m i = Some r \<Longrightarrow> claims w m = claims w (bt_remove i m) + w r"
proof (induction m)
  case Nil
  then show ?case by simp
next
  case (Cons e m)
  show ?case
  proof (cases "fst e = i")
    case True
    with Cons.prems have "i \<notin> fst ` set m" by (auto simp: ordered_map_Cons)
    with True Cons.prems show ?thesis
      using claims_bt_remove_absent [of i m w] by (auto simp: bt_remove_def)
  next
    case False
    with Cons show ?thesis by (auto simp: ordered_map_Cons bt_remove_def)
  qed
qed

lemma claims_update:
  "ordered_map m \<Longrightarrow> map_of m i = Some r \<Longrightarrow>
     claims w (bt_insert i r' m) + w r = claims w m + w r'"
proof (induction m)
  case Nil
  then show ?case by simp
next
  case (Cons e m)
  show ?case
  proof (cases "fst e = i")
    case True
    with Cons.prems show ?thesis by auto
  next
    case False
    with Cons.prems have "map_of m i = Some r" by (cases e) auto
    with Cons.prems have "fst e < i"
      by (auto simp: ordered_map_Cons dest!: map_of_SomeD)
    with False Cons \<open>map_of m i = Some r\<close> show ?thesis
      by (auto simp: ordered_map_Cons)
  qed
qed

lemma claims_ge: "(i, r) \<in> set m \<Longrightarrow> w r \<le> claims w m"
  by (induction m) auto

lemma claims_filter_le: "claims w (filter P m) \<le> claims w m"
  by (induction m) auto

text \<open>An ordered map is determined by its lookups, so updates can be described pointwise.\<close>

lemma ordered_map_eqI:
  assumes "ordered_map m" and "ordered_map m'" and "map_of m = map_of m'"
  shows "m = m'"
proof -
  have "set m = set m'"
    using assms ordered_map_lookup by (metis subsetI subset_antisym surj_pair)
  moreover have "sorted (map fst m)" "sorted (map fst m')" "distinct (map fst m)" "distinct (map fst m')"
    using assms(1,2) by (simp_all add: ordered_map_def strict_sorted_iff)
  moreover from this have "inj_on fst (set m \<union> set m')"
    using \<open>set m = set m'\<close> by (simp add: distinct_map)
  ultimately show ?thesis by (metis map_sorted_distinct_set_unique)
qed

lemma map_of_map_values: "map_of (map (\<lambda>(k, v). (k, f v)) m) k = map_option f (map_of m k)"
  by (induction m) auto

lemma ordered_map_map_values [simp]: "ordered_map (map (\<lambda>(k, v). (k, f v)) m) = ordered_map m"
  by (simp add: ordered_map_def case_prod_unfold comp_def)

lemma claims_map_values: "claims w (map (\<lambda>(k, v). (k, f v)) m) = claims (\<lambda>v. w (f v)) m"
  by (induction m) auto

lemma claims_zero [simp]: "claims (\<lambda>_. 0) m = 0"
  by (induction m) auto

lemma claims_add: "claims (\<lambda>v. w v + w' v) m = claims w m + claims w' m"
  by (induction m) auto

lemma claims_mono: "(\<And>i r. (i, r) \<in> set m \<Longrightarrow> w r \<le> w' r) \<Longrightarrow> claims w m \<le> claims w' m"
  by (induction m) (fastforce simp: add_mono)+

section \<open>Binary search\<close>

text \<open>
  \<open>binary_search_by\<close> of a slice, on the list of its keys: halve the remaining size, moving the
  base when the probe is not greater than the key, and compare once at the end.
\<close>

function binary_search_base :: "'k::linorder list \<Rightarrow> 'k \<Rightarrow> nat \<Rightarrow> nat \<Rightarrow> nat" where
  "binary_search_base ks k base n =
     (if n \<le> 1 then base
      else let half = n div 2; mid = base + half
           in binary_search_base ks k (if k < ks ! mid then base else mid) (n - half))"
  by pat_completeness auto

termination by (relation "measure (\<lambda>(ks, k, base, n). n)") auto

declare binary_search_base.simps [simp del]

definition binary_search :: "'k::linorder list \<Rightarrow> 'k \<Rightarrow> nat option" where
  "binary_search ks k =
     (if ks = [] then None
      else let base = binary_search_base ks k 0 (length ks)
           in if ks ! base = k then Some base else None)"

lemma binary_search_base_bounds:
  "0 < n \<Longrightarrow> base + n \<le> length ks \<Longrightarrow> binary_search_base ks k base n < length ks"
proof (induction n arbitrary: base rule: less_induct)
  case (less n)
  show ?case
  proof (cases "n \<le> 1")
    case True
    with less.prems show ?thesis by (subst binary_search_base.simps) simp
  next
    case False
    let ?base = "if k < ks ! (base + n div 2) then base else base + n div 2"
    have "binary_search_base ks k ?base (n - n div 2) < length ks"
      using less.prems False by (intro less.IH) auto
    with False show ?thesis by (subst binary_search_base.simps) (simp add: Let_def)
  qed
qed

lemma binary_search_base_finds:
  assumes "sorted_wrt (<) ks"
  shows "base \<le> i \<Longrightarrow> i < base + n \<Longrightarrow> base + n \<le> length ks \<Longrightarrow>
    binary_search_base ks (ks ! i) base n = i"
proof (induction n arbitrary: base rule: less_induct)
  case (less n)
  show ?case
  proof (cases "n \<le> 1")
    case True
    with less.prems show ?thesis by (subst binary_search_base.simps) simp
  next
    case False
    let ?mid = "base + n div 2"
    let ?base = "if ks ! i < ks ! ?mid then base else ?mid"
    have mid: "?mid < length ks" and i: "i < length ks" using less.prems False by auto
    have lt: "ks ! i < ks ! ?mid \<longleftrightarrow> i < ?mid"
      using sorted_wrt_nth_less [OF assms] mid i by (metis linorder_cases less_asym order_less_irrefl)
    have half: "0 < n div 2" "n div 2 + n div 2 \<le> n" "n div 2 < n" using False by auto
    have "binary_search_base ks (ks ! i) ?base (n - n div 2) = i"
      using less.prems half lt by (intro less.IH) auto
    with False show ?thesis by (subst binary_search_base.simps) (simp add: Let_def)
  qed
qed

text \<open>On strictly ascending keys the search finds exactly the position of the key.\<close>

lemma binary_search_correct:
  assumes "sorted_wrt (<) ks"
  shows "binary_search ks k = Some i \<longleftrightarrow> i < length ks \<and> ks ! i = k"
proof
  assume "binary_search ks k = Some i"
  then show "i < length ks \<and> ks ! i = k"
    using binary_search_base_bounds [of "length ks" 0 ks k]
    by (auto simp: binary_search_def Let_def split: if_splits)
next
  assume i: "i < length ks \<and> ks ! i = k"
  then have "binary_search_base ks k 0 (length ks) = i"
    using binary_search_base_finds [OF assms, of 0 i "length ks"] by auto
  with i show "binary_search ks k = Some i" by (auto simp: binary_search_def Let_def)
qed

lemma binary_search_None:
  assumes "sorted_wrt (<) ks"
  shows "binary_search ks k = None \<longleftrightarrow> k \<notin> set ks"
  using binary_search_correct [OF assms, of k]
  by (metis in_set_conv_nth not_None_eq option.distinct(1))

end
