(* ===== verification/Interfaces.thy ===== *)
theory Interfaces
  imports Prelude
begin

text \<open>
  The contracts that several components share, as locales. \<open>invariant_system\<close> is a labelled
  transition system with an invariant kept by every step: its client lemmas lift the
  invariant to every reachable state and every run. \<open>publication\<close> is the contract of the
  version-checked publishers (admission policies, budget policies, circuit snapshots): a
  publication succeeds only against the version the caller observed and advances it by one.
  Each component interprets them on its own operations.
\<close>

section \<open>Transition systems\<close>

text \<open>Runs of a labelled step relation, and the states they reach.\<close>

inductive run :: "('s \<Rightarrow> 'l \<Rightarrow> 's \<Rightarrow> bool) \<Rightarrow> 's \<Rightarrow> 'l list \<Rightarrow> 's \<Rightarrow> bool"
  for step where
  run_nil: "run step s [] s"
| run_cons: "step s l t \<Longrightarrow> run step t ls u \<Longrightarrow> run step s (l # ls) u"

inductive_simps run_Nil_iff [simp]: "run step s [] t"
inductive_simps run_Cons_iff: "run step s (l # ls) u"

definition reachable :: "('s \<Rightarrow> bool) \<Rightarrow> ('s \<Rightarrow> 'l \<Rightarrow> 's \<Rightarrow> bool) \<Rightarrow> 's \<Rightarrow> bool" where
  "reachable init step s \<longleftrightarrow> (\<exists>s0 ls. init s0 \<and> run step s0 ls s)"

lemma reachable_init: "init s \<Longrightarrow> reachable init step s"
  unfolding reachable_def using run_nil by metis

lemma run_snoc: "run step s ls t \<Longrightarrow> step t l u \<Longrightarrow> run step s (ls @ [l]) u"
  by (induction rule: run.induct) (auto intro: run.intros)

lemma run_append: "run step s ls t \<Longrightarrow> run step t ms u \<Longrightarrow> run step s (ls @ ms) u"
  by (induction rule: run.induct) (auto intro: run.intros)

lemma reachable_run: "reachable init step s \<Longrightarrow> run step s ls t \<Longrightarrow> reachable init step t"
  unfolding reachable_def using run_append by metis

lemma reachable_step: "reachable init step s \<Longrightarrow> step s l t \<Longrightarrow> reachable init step t"
  unfolding reachable_def using run_snoc by metis

locale invariant_system =
  fixes init :: "'s \<Rightarrow> bool"
    and step :: "'s \<Rightarrow> 'l \<Rightarrow> 's \<Rightarrow> bool"
    and inv :: "'s \<Rightarrow> bool"
  assumes init_inv: "init s \<Longrightarrow> inv s"
    and step_inv: "inv s \<Longrightarrow> step s l t \<Longrightarrow> inv t"
begin

lemma run_inv: "run step s ls t \<Longrightarrow> inv s \<Longrightarrow> inv t"
  by (induction rule: run.induct) (auto intro: step_inv)

lemma reachable_inv: "reachable init step s \<Longrightarrow> inv s"
  unfolding reachable_def by (auto intro: run_inv init_inv)

text \<open>A quantity that no step decreases is monotone along every run.\<close>

lemma run_monotone:
  fixes f :: "'s \<Rightarrow> nat"
  assumes "\<And>s l t. inv s \<Longrightarrow> step s l t \<Longrightarrow> f s \<le> f t" and "run step s ls t" and "inv s"
  shows "f s \<le> f t"
  using assms(2,3)
  by (induction rule: run.induct) (auto intro: step_inv order_trans [OF assms(1)])

end

section \<open>Components of a composed system\<close>

text \<open>
  A composed system uses a component through its operations only: every step of the whole is,
  seen from the component, some sequence of the component's own steps. Then whatever holds of
  every reachable state of the component holds of it inside the composed system.
\<close>

locale component =
  fixes init :: "'s \<Rightarrow> bool"
    and step :: "'s \<Rightarrow> 'l \<Rightarrow> 's \<Rightarrow> bool"
    and part_init :: "'p \<Rightarrow> bool"
    and part_step :: "'p \<Rightarrow> 'm \<Rightarrow> 'p \<Rightarrow> bool"
    and part :: "'s \<Rightarrow> 'p"
  assumes part_starts: "init s \<Longrightarrow> part_init (part s)"
    and part_runs: "step s l t \<Longrightarrow> \<exists>ms. run part_step (part s) ms (part t)"
begin

lemma run_part: "run step s ls t \<Longrightarrow> \<exists>ms. run part_step (part s) ms (part t)"
proof (induction rule: run.induct)
  case (run_nil s)
  then show ?case using run.run_nil by metis
next
  case (run_cons s l t ls u)
  then show ?case using part_runs run_append by metis
qed

lemma reachable_part: "reachable init step s \<Longrightarrow> reachable part_init part_step (part s)"
  unfolding reachable_def using part_starts run_part by metis

end

section \<open>Version-checked publication\<close>

text \<open>
  \<open>publish b v c\<close> offers content \<open>c\<close> against the version \<open>v\<close> the caller has read. Laws: a
  success is against the current version, advances it by exactly one without wrapping and
  makes the offered content current; a refusal leaves the publisher as it was.
\<close>

text \<open>Every offer of a list in turn, with the number of those that succeeded.\<close>

fun publish_all ::
  "('book \<Rightarrow> u64 \<Rightarrow> 'content \<Rightarrow> ('e + 'snap) \<times> 'book) \<Rightarrow>
     'book \<Rightarrow> (u64 \<times> 'content) list \<Rightarrow> nat \<times> 'book" where
  "publish_all publish b [] = (0, b)"
| "publish_all publish b ((v, c) # offers) =
     (case publish b v c of
        (Inl _, b') \<Rightarrow> publish_all publish b' offers
      | (Inr _, b') \<Rightarrow> (case publish_all publish b' offers of (n, b'') \<Rightarrow> (Suc n, b'')))"

locale publication =
  fixes version :: "'book \<Rightarrow> u64"
    and shows_content :: "'book \<Rightarrow> 'content \<Rightarrow> bool"
    and publish :: "'book \<Rightarrow> u64 \<Rightarrow> 'content \<Rightarrow> ('e + 'snap) \<times> 'book"
  assumes publish_current: "publish b v c = (Inr r, b') \<Longrightarrow> version b = v"
    and publish_advances: "publish b v c = (Inr r, b') \<Longrightarrow> unat (version b') = unat v + 1"
    and publish_installs: "publish b v c = (Inr r, b') \<Longrightarrow> shows_content b' c"
    and publish_refused: "publish b v c = (Inl e, b') \<Longrightarrow> b' = b"
begin

lemma publish_success:
  "publish b v c = (Inr r, b') \<Longrightarrow> version b = v \<and> unat (version b') = Suc (unat (version b))"
  using publish_current publish_advances by fastforce

lemma publish_all_counts:
  "publish_all publish b offers = (n, b') \<Longrightarrow> unat (version b') = unat (version b) + n"
proof (induction offers arbitrary: b n b')
  case Nil
  then show ?case by simp
next
  case (Cons offer offers)
  then show ?case
    by (cases offer) (fastforce split: prod.splits sum.splits dest!: publish_refused publish_success)
qed

lemma version_monotone: "publish_all publish b offers = (n, b') \<Longrightarrow> version b \<le> version b'"
  using publish_all_counts by (simp add: word_le_nat_alt)

text \<open>
  Compare-and-swap: once an offer against \<open>v\<close> has succeeded, every later offer against \<open>v\<close>
  is refused, whatever was published in between.
\<close>

lemma stale_offer_refused:
  assumes "publish b v c = (Inr r, b1)" and "publish_all publish b1 offers = (n, b2)"
  shows "\<exists>e. publish b2 v d = (Inl e, b2)"
proof -
  have "unat v < unat (version b2)"
    using publish_advances [OF assms(1)] publish_all_counts [OF assms(2)] by simp
  then have "version b2 \<noteq> v" by auto
  then show ?thesis
    using publish_current publish_refused by (metis prod.collapse sum.collapse(1) sum.collapse(2))
qed

lemma one_winner:
  "publish b v c = (Inr r, b1) \<Longrightarrow> \<exists>e. publish b1 v d = (Inl e, b1)"
  using stale_offer_refused [of b v c r b1 "[]" 0 b1 d] by simp

end

end
