(* ===== verification/Rate_Limit.thy ===== *)
theory Rate_Limit
  imports Interfaces
begin

text \<open>
  The vocabulary of the admission limiter, \<open>ariadnion-rate-limit/src/lib.rs\<close>: error codes,
  limit identities and keys, rate and concurrency rules, the validated policy set and the
  validated admission request. Getters of the Rust structs are the record selectors. The
  lemmas state what the validating constructors establish: \<open>policies_ok\<close> and \<open>request_ok\<close>
  are exactly what the controller of the next theory relies on.
\<close>

section \<open>Constants and error codes\<close>

type_synonym Duration = nat \<comment> \<open>nanoseconds; a \<open>std::time::Duration\<close> counts up to \<open>2^64\<close> seconds\<close>
type_synonym MonotonicTime = u64

definition MAX_LIMIT_ID_BYTES :: nat where "MAX_LIMIT_ID_BYTES = 160"
definition MAX_DIMENSIONS_PER_ADMISSION :: nat where "MAX_DIMENSIONS_PER_ADMISSION = 4"
definition MAX_POLICIES :: nat where "MAX_POLICIES = 131072"
definition MIN_RATE_WINDOW :: Duration where "MIN_RATE_WINDOW = 10 * 1000000"
definition MAX_RATE_WINDOW :: Duration where "MAX_RATE_WINDOW = 60 * 60 * 1000000000"
definition MAX_LEASE_DURATION :: Duration where "MAX_LEASE_DURATION = 15 * 60 * 1000000000"

lemmas limit_constants =
  MAX_LIMIT_ID_BYTES_def MAX_DIMENSIONS_PER_ADMISSION_def MAX_POLICIES_def
  MIN_RATE_WINDOW_def MAX_RATE_WINDOW_def MAX_LEASE_DURATION_def

datatype AdmissionErrorCode =
    InvalidArgument
  | TooManyDimensions
  | TooManyPolicies
  | DuplicateDimension
  | PolicyNotFound
  | PolicyVersionConflict
  | RateLimited
  | ConcurrencyLimited
  | ClockRegressed
  | CounterExhausted
  | LeaseExpired
  | LeaseClosed
  | StateUnavailable

datatype AdmissionRefusalScope = AccountScope | RequestScope

fun request_error_code :: "AdmissionErrorCode \<Rightarrow> string" where
  "request_error_code InvalidArgument = ''ADMISSION_INVALID_ARGUMENT''"
| "request_error_code TooManyDimensions = ''ADMISSION_TOO_MANY_DIMENSIONS''"
| "request_error_code TooManyPolicies = ''ADMISSION_TOO_MANY_POLICIES''"
| "request_error_code DuplicateDimension = ''ADMISSION_DUPLICATE_DIMENSION''"
| "request_error_code PolicyNotFound = ''ADMISSION_POLICY_NOT_FOUND''"
| "request_error_code _ = ''ADMISSION_INVALID_ARGUMENT''"

fun capacity_error_code :: "AdmissionErrorCode \<Rightarrow> string" where
  "capacity_error_code RateLimited = ''ADMISSION_RATE_LIMITED''"
| "capacity_error_code ConcurrencyLimited = ''ADMISSION_CONCURRENCY_LIMITED''"
| "capacity_error_code ClockRegressed = ''ADMISSION_CLOCK_REGRESSED''"
| "capacity_error_code _ = ''ADMISSION_STATE_UNAVAILABLE''"

fun lifecycle_error_code :: "AdmissionErrorCode \<Rightarrow> string" where
  "lifecycle_error_code CounterExhausted = ''ADMISSION_COUNTER_EXHAUSTED''"
| "lifecycle_error_code LeaseExpired = ''ADMISSION_LEASE_EXPIRED''"
| "lifecycle_error_code LeaseClosed = ''ADMISSION_LEASE_CLOSED''"
| "lifecycle_error_code PolicyVersionConflict = ''ADMISSION_POLICY_VERSION_CONFLICT''"
| "lifecycle_error_code StateUnavailable = ''ADMISSION_STATE_UNAVAILABLE''"
| "lifecycle_error_code _ = ''ADMISSION_STATE_UNAVAILABLE''"

definition AdmissionErrorCode_as_str :: "AdmissionErrorCode \<Rightarrow> string" where
  "AdmissionErrorCode_as_str c =
     (if c \<in> {InvalidArgument, TooManyDimensions, TooManyPolicies, DuplicateDimension,
              PolicyNotFound}
      then request_error_code c
      else if c \<in> {RateLimited, ConcurrencyLimited, ClockRegressed}
      then capacity_error_code c
      else lifecycle_error_code c)"

record AdmissionError =
  ae_code :: AdmissionErrorCode
  ae_retry_after :: "Duration option"
  ae_scope :: "AdmissionRefusalScope option"

definition AdmissionError_new :: "AdmissionErrorCode \<Rightarrow> Duration option \<Rightarrow> AdmissionError" where
  "AdmissionError_new c retry = \<lparr>ae_code = c, ae_retry_after = retry, ae_scope = None\<rparr>"

definition AdmissionError_with_scope ::
  "AdmissionErrorCode \<Rightarrow> Duration option \<Rightarrow> AdmissionRefusalScope \<Rightarrow> AdmissionError" where
  "AdmissionError_with_scope c retry scope =
     \<lparr>ae_code = c, ae_retry_after = retry, ae_scope = Some scope\<rparr>"

definition error :: "AdmissionErrorCode \<Rightarrow> AdmissionError" where
  "error c = AdmissionError_new c None"

definition invalid :: AdmissionError where "invalid = error InvalidArgument"
definition exhausted :: AdmissionError where "exhausted = error CounterExhausted"

lemma error_code_simps [simp]:
  "ae_code (error c) = c"
  "ae_code (AdmissionError_with_scope c r s) = c"
  "ae_retry_after (AdmissionError_with_scope c r s) = r"
  "ae_scope (AdmissionError_with_scope c r s) = Some s"
  "ae_code exhausted = CounterExhausted"
  "ae_code invalid = InvalidArgument"
  by (simp_all add: error_def AdmissionError_new_def AdmissionError_with_scope_def
      exhausted_def invalid_def)

section \<open>Monotonic time\<close>

definition time_checked_add ::
  "MonotonicTime \<Rightarrow> Duration \<Rightarrow> (AdmissionError, MonotonicTime) result" where
  "time_checked_add t d =
     bind_result (ok_or exhausted (try_word d)) (\<lambda>nanos. ok_or exhausted (checked_add t nanos))"

definition duration_until :: "MonotonicTime \<Rightarrow> MonotonicTime \<Rightarrow> Duration" where
  "duration_until t later = unat (saturating_sub later t)"

lemma time_checked_add_ok [machine]:
  "time_checked_add t d = Inr t' \<longleftrightarrow> unat t' = unat t + d"
proof
  assume "time_checked_add t d = Inr t'"
  then show "unat t' = unat t + d"
    by (auto simp: time_checked_add_def results machine)
next
  assume t': "unat t' = unat t + d"
  then have d: "try_word d = Some (of_nat d :: u64)"
    using unat_lt_width [of t'] by (simp add: try_word_def)
  then have "unat (of_nat d :: u64) = d"
    by (simp add: try_word_eq_Some)
  then show "time_checked_add t d = Inr t'"
    using t' d by (simp add: time_checked_add_def checked_add_eq_Some ok_or_eq)
qed

lemma time_checked_add_err: "time_checked_add t d = Inl e \<Longrightarrow> e = exhausted"
  by (auto simp: time_checked_add_def results)

section \<open>Identities and keys\<close>

type_synonym TenantLimitId = string
type_synonym AccountLimitId = string
type_synonym UserLimitId = string
type_synonym ApiKeyLimitId = string
type_synonym ModelLimitId = string

definition validate_identity :: "string \<Rightarrow> (AdmissionError, unit) result" where
  "validate_identity value =
     (if value \<noteq> [] \<and> length value \<le> MAX_LIMIT_ID_BYTES \<and> is_ascii value
         \<and> list_all is_graphic_byte value
      then Inr () else Inl invalid)"

text \<open>\<open>parse\<close> of every identity type the macro \<open>define_limit_id!\<close> generates.\<close>

definition limit_id_parse :: "string \<Rightarrow> (AdmissionError, string) result" where
  "limit_id_parse value = bind_result (validate_identity value) (\<lambda>_. Inr value)"

record AccountLimitKey =
  alk_tenant :: TenantLimitId
  alk_account :: AccountLimitId

datatype LimitDimension = TenantDim | AccountDim | UserDim | ApiKeyDim | ModelDim

datatype LimitKey =
    Tenant TenantLimitId
  | Account AccountLimitKey
  | User UserLimitId
  | ApiKey ApiKeyLimitId
  | Model ModelLimitId

fun dimension :: "LimitKey \<Rightarrow> LimitDimension" where
  "dimension (Tenant _) = TenantDim"
| "dimension (Account _) = AccountDim"
| "dimension (User _) = UserDim"
| "dimension (ApiKey _) = ApiKeyDim"
| "dimension (Model _) = ModelDim"

definition refusal_scope :: "LimitDimension \<Rightarrow> AdmissionRefusalScope" where
  "refusal_scope d = (case d of AccountDim \<Rightarrow> AccountScope | _ \<Rightarrow> RequestScope)"

text \<open>
  The order \<open>derive(Ord)\<close> gives \<open>LimitKey\<close>: first the variant, then its fields from left to
  right. It is the lexicographic order of the following rank.
\<close>

fun limit_key_rank :: "LimitKey \<Rightarrow> nat \<times> string \<times> string" where
  "limit_key_rank (Tenant t) = (0, t, [])"
| "limit_key_rank (Account a) = (1, alk_tenant a, alk_account a)"
| "limit_key_rank (User u) = (2, u, [])"
| "limit_key_rank (ApiKey k) = (3, k, [])"
| "limit_key_rank (Model m) = (4, m, [])"

lemma limit_key_rank_inject: "limit_key_rank a = limit_key_rank b \<longleftrightarrow> a = b"
  by (cases a; cases b) auto

instantiation LimitKey :: linorder
begin

definition less_eq_LimitKey :: "LimitKey \<Rightarrow> LimitKey \<Rightarrow> bool" where
  "less_eq_LimitKey a b \<longleftrightarrow> limit_key_rank a \<le> limit_key_rank b"

definition less_LimitKey :: "LimitKey \<Rightarrow> LimitKey \<Rightarrow> bool" where
  "less_LimitKey a b \<longleftrightarrow> limit_key_rank a < limit_key_rank b"

instance
  by standard
    (auto simp: less_eq_LimitKey_def less_LimitKey_def limit_key_rank_inject
      less_le_not_le intro: order_trans dest: order_antisym)

end

section \<open>Rules, policies and policy sets\<close>

type_synonym NonZeroU32 = u32

record RateRule =
  rr_capacity :: NonZeroU32
  rr_window :: Duration

record ConcurrencyRule =
  cr_limit :: NonZeroU32
  cr_lease_duration :: Duration

record LimitPolicy =
  lp_key :: LimitKey
  lp_rate :: "RateRule option"
  lp_concurrency :: "ConcurrencyRule option"

type_synonym AdmissionPolicySet = "(LimitKey, LimitPolicy) btree_map"

definition RateRule_new :: "NonZeroU32 \<Rightarrow> Duration \<Rightarrow> (AdmissionError, RateRule) result" where
  "RateRule_new capacity window =
     (if \<not> (MIN_RATE_WINDOW \<le> window \<and> window \<le> MAX_RATE_WINDOW) then Inl invalid
      else Inr \<lparr>rr_capacity = capacity, rr_window = window\<rparr>)"

definition ConcurrencyRule_new ::
  "NonZeroU32 \<Rightarrow> Duration \<Rightarrow> (AdmissionError, ConcurrencyRule) result" where
  "ConcurrencyRule_new limit lease_duration =
     (if lease_duration = 0 \<or> MAX_LEASE_DURATION < lease_duration then Inl invalid
      else Inr \<lparr>cr_limit = limit, cr_lease_duration = lease_duration\<rparr>)"

definition LimitPolicy_new ::
  "LimitKey \<Rightarrow> RateRule option \<Rightarrow> ConcurrencyRule option \<Rightarrow> (AdmissionError, LimitPolicy) result"
where
  "LimitPolicy_new key rate concurrency =
     (if rate = None \<and> concurrency = None then Inl invalid
      else Inr \<lparr>lp_key = key, lp_rate = rate, lp_concurrency = concurrency\<rparr>)"

text \<open>The insertion loop of \<open>AdmissionPolicySet::new\<close>.\<close>

fun index_policies ::
  "LimitPolicy list \<Rightarrow> AdmissionPolicySet \<Rightarrow> (AdmissionError, AdmissionPolicySet) result" where
  "index_policies [] indexed = Inr indexed"
| "index_policies (policy # policies) indexed =
     (if map_of indexed (lp_key policy) \<noteq> None then Inl (error DuplicateDimension)
      else index_policies policies (bt_insert (lp_key policy) policy indexed))"

definition AdmissionPolicySet_new ::
  "LimitPolicy list \<Rightarrow> (AdmissionError, AdmissionPolicySet) result" where
  "AdmissionPolicySet_new policies =
     (if MAX_POLICIES < length policies then Inl (error TooManyPolicies)
      else index_policies policies [])"

definition policy :: "AdmissionPolicySet \<Rightarrow> LimitKey \<Rightarrow> LimitPolicy option" where
  "policy policies key = map_of policies key"

section \<open>Requests, reservations and snapshots\<close>

record AdmissionRequest =
  rq_keys :: "LimitKey list"
  rq_units :: NonZeroU32

text \<open>The dimension loop of \<open>validate_request_keys\<close>, with the set of dimensions seen.\<close>

fun validate_dimensions ::
  "LimitKey list \<Rightarrow> LimitDimension list \<Rightarrow> (AdmissionError, unit) result" where
  "validate_dimensions [] seen = Inr ()"
| "validate_dimensions (key # keys) seen =
     (if dimension key \<in> set seen then Inl (error DuplicateDimension)
      else validate_dimensions keys (dimension key # seen))"

definition validate_request_keys :: "LimitKey list \<Rightarrow> (AdmissionError, unit) result" where
  "validate_request_keys keys =
     (if keys = [] then Inl invalid
      else if MAX_DIMENSIONS_PER_ADMISSION < length keys then Inl (error TooManyDimensions)
      else validate_dimensions keys [])"

definition AdmissionRequest_new ::
  "LimitKey list \<Rightarrow> NonZeroU32 \<Rightarrow> (AdmissionError, AdmissionRequest) result" where
  "AdmissionRequest_new keys units =
     bind_result (validate_request_keys keys) (\<lambda>_. Inr \<lparr>rq_keys = keys, rq_units = units\<rparr>)"

type_synonym RateReservationId = u64
type_synonym AdmissionLeaseId = u64

record RateReservation =
  rs_id :: RateReservationId
  rs_keys :: "LimitKey list"
  rs_units :: NonZeroU32
  rs_expires_at :: MonotonicTime

record ConcurrencyPermit =
  cp_lease_id :: AdmissionLeaseId
  cp_key :: LimitKey
  cp_expires_at :: MonotonicTime

record LimitSnapshot =
  ls_rate_remaining :: "u32 option"
  ls_rate_resets_at :: "MonotonicTime option"
  ls_concurrency_remaining :: "u32 option"

section \<open>What the validating constructors establish\<close>

text \<open>
  \<open>NonZeroU32\<close> values are words different from zero; the remaining conditions are the checks
  of the constructors.
\<close>

definition rate_rule_ok :: "RateRule \<Rightarrow> bool" where
  "rate_rule_ok r \<longleftrightarrow>
     rr_capacity r \<noteq> 0 \<and> MIN_RATE_WINDOW \<le> rr_window r \<and> rr_window r \<le> MAX_RATE_WINDOW"

definition concurrency_rule_ok :: "ConcurrencyRule \<Rightarrow> bool" where
  "concurrency_rule_ok c \<longleftrightarrow>
     cr_limit c \<noteq> 0 \<and> 0 < cr_lease_duration c \<and> cr_lease_duration c \<le> MAX_LEASE_DURATION"

definition policy_ok :: "LimitPolicy \<Rightarrow> bool" where
  "policy_ok p \<longleftrightarrow>
     (lp_rate p \<noteq> None \<or> lp_concurrency p \<noteq> None)
     \<and> (case lp_rate p of None \<Rightarrow> True | Some r \<Rightarrow> rate_rule_ok r)
     \<and> (case lp_concurrency p of None \<Rightarrow> True | Some c \<Rightarrow> concurrency_rule_ok c)"

definition policies_ok :: "AdmissionPolicySet \<Rightarrow> bool" where
  "policies_ok P \<longleftrightarrow>
     ordered_map P \<and> length P \<le> MAX_POLICIES
     \<and> list_all (\<lambda>(k, p). lp_key p = k \<and> policy_ok p) P"

definition request_ok :: "AdmissionRequest \<Rightarrow> bool" where
  "request_ok r \<longleftrightarrow>
     rq_keys r \<noteq> [] \<and> length (rq_keys r) \<le> MAX_DIMENSIONS_PER_ADMISSION
     \<and> distinct (map dimension (rq_keys r)) \<and> rq_units r \<noteq> 0"

lemma RateRule_new_ok: "capacity \<noteq> 0 \<Longrightarrow> RateRule_new capacity window = Inr r \<Longrightarrow> rate_rule_ok r"
  by (auto simp: RateRule_new_def rate_rule_ok_def split: if_splits)

lemma ConcurrencyRule_new_ok:
  "limit \<noteq> 0 \<Longrightarrow> ConcurrencyRule_new limit d = Inr c \<Longrightarrow> concurrency_rule_ok c"
  by (auto simp: ConcurrencyRule_new_def concurrency_rule_ok_def split: if_splits)

lemma LimitPolicy_new_ok:
  assumes "LimitPolicy_new k rate conc = Inr p"
    and "\<And>r. rate = Some r \<Longrightarrow> rate_rule_ok r" and "\<And>c. conc = Some c \<Longrightarrow> concurrency_rule_ok c"
  shows "policy_ok p"
  using assms by (auto simp: LimitPolicy_new_def policy_ok_def split: if_splits option.splits)

lemma validate_dimensions_ok:
  "validate_dimensions keys seen = Inr u \<longleftrightarrow>
     distinct (map dimension keys) \<and> set (map dimension keys) \<inter> set seen = {}"
  by (induction keys arbitrary: seen) auto

lemma AdmissionRequest_new_ok:
  "units \<noteq> 0 \<Longrightarrow> AdmissionRequest_new keys units = Inr r \<Longrightarrow> request_ok r"
  by (auto simp: AdmissionRequest_new_def validate_request_keys_def request_ok_def results
      validate_dimensions_ok not_less split: if_splits)

lemma index_policies_ok:
  assumes "index_policies policies m = Inr P" and "ordered_map m"
    and "\<forall>p \<in> set policies. policy_ok p" and "\<forall>(k, p) \<in> set m. lp_key p = k \<and> policy_ok p"
  shows "ordered_map P \<and> length P = length m + length policies
    \<and> (\<forall>(k, p) \<in> set P. lp_key p = k \<and> policy_ok p)"
  using assms
proof (induction policies m rule: index_policies.induct)
  case (1 m)
  then show ?case by simp
next
  case (2 p ps m)
  then have new: "lp_key p \<notin> fst ` set m"
    by (auto simp: map_of_eq_None_iff split: if_splits)
  have "\<forall>(k, q) \<in> set (bt_insert (lp_key p) p m). lp_key q = k \<and> policy_ok q"
    using 2 set_bt_insert_subset [of "lp_key p" p m] by auto
  with 2 new show ?case
    by (auto simp: length_bt_insert split: if_splits)
qed

lemma policies_ok_lookup:
  assumes "policies_ok P" and "policy P k = Some p"
  shows "lp_key p = k" and "policy_ok p"
  using assms by (auto simp: policies_ok_def policy_def list_all_iff dest!: map_of_SomeD)

lemma policy_ok_rate: "policy_ok p \<Longrightarrow> lp_rate p = Some r \<Longrightarrow> 0 < rr_window r \<and> rr_capacity r \<noteq> 0"
  by (auto simp: policy_ok_def rate_rule_ok_def limit_constants)

lemma policy_ok_concurrency:
  "policy_ok p \<Longrightarrow> lp_concurrency p = Some c \<Longrightarrow> 0 < cr_lease_duration c \<and> cr_limit c \<noteq> 0"
  by (auto simp: policy_ok_def concurrency_rule_ok_def)

end
