(* ===== verification/Admission_Publication.thy ===== *)
theory Admission_Publication
  imports Rate_Limit
begin

text \<open>
  Publication of admission policies, \<open>ariadnion-rate-limit/src/policy_publication.rs\<close>: the
  book holds one complete snapshot behind a lock and replaces it only against the version the
  caller observed. A poisoned lock is a flag of the book. \<open>Arc\<close> sharing is value copying.
\<close>

type_synonym AdmissionPolicyVersion = u64

definition AdmissionPolicyVersion_initial :: AdmissionPolicyVersion where
  "AdmissionPolicyVersion_initial = 0"

definition AdmissionPolicyVersion_next ::
  "AdmissionPolicyVersion \<Rightarrow> (AdmissionError, AdmissionPolicyVersion) result" where
  "AdmissionPolicyVersion_next v = ok_or (error CounterExhausted) (checked_add v 1)"

record AdmissionPolicySnapshot =
  aps_version :: AdmissionPolicyVersion
  aps_policies :: AdmissionPolicySet

record AdmissionPolicyReceipt =
  apr_snapshot :: AdmissionPolicySnapshot

record AdmissionPolicyBook =
  apb_poisoned :: bool
  apb_snapshot :: AdmissionPolicySnapshot

definition AdmissionPolicyBook_from_snapshot :: "AdmissionPolicySnapshot \<Rightarrow> AdmissionPolicyBook" where
  "AdmissionPolicyBook_from_snapshot s = \<lparr>apb_poisoned = False, apb_snapshot = s\<rparr>"

definition AdmissionPolicyBook_new :: "AdmissionPolicySet \<Rightarrow> AdmissionPolicyBook" where
  "AdmissionPolicyBook_new policies =
     AdmissionPolicyBook_from_snapshot
       \<lparr>aps_version = AdmissionPolicyVersion_initial, aps_policies = policies\<rparr>"

definition AdmissionPolicyBook_publish ::
  "AdmissionPolicyBook \<Rightarrow> AdmissionPolicyVersion \<Rightarrow> AdmissionPolicySet \<Rightarrow>
     (AdmissionError, AdmissionPolicyReceipt) result \<times> AdmissionPolicyBook" where
  "AdmissionPolicyBook_publish book expected_version policies =
     (if apb_poisoned book then (Inl (error StateUnavailable), book)
      else if aps_version (apb_snapshot book) \<noteq> expected_version
      then (Inl (error PolicyVersionConflict), book)
      else case AdmissionPolicyVersion_next expected_version of
             Inl e \<Rightarrow> (Inl e, book)
           | Inr version \<Rightarrow>
               let next = \<lparr>aps_version = version, aps_policies = policies\<rparr>
               in (Inr \<lparr>apr_snapshot = next\<rparr>, book\<lparr>apb_snapshot := next\<rparr>))"

definition AdmissionPolicyBook_current_snapshot ::
  "AdmissionPolicyBook \<Rightarrow> (AdmissionError, AdmissionPolicySnapshot) result" where
  "AdmissionPolicyBook_current_snapshot book =
     (if apb_poisoned book then Inl (error StateUnavailable) else Inr (apb_snapshot book))"

section \<open>The publication contract\<close>

definition policy_book_version :: "AdmissionPolicyBook \<Rightarrow> u64" where
  "policy_book_version book = aps_version (apb_snapshot book)"

definition policy_book_shows :: "AdmissionPolicyBook \<Rightarrow> AdmissionPolicySet \<Rightarrow> bool" where
  "policy_book_shows book policies \<longleftrightarrow>
     (\<exists>s. AdmissionPolicyBook_current_snapshot book = Inr s \<and> aps_policies s = policies)"

lemma AdmissionPolicyBook_publish_ok:
  "AdmissionPolicyBook_publish b v c = (Inr r, b') \<longleftrightarrow>
     \<not> apb_poisoned b \<and> policy_book_version b = v \<and> unat v + 1 < 2 ^ 64
     \<and> r = \<lparr>apr_snapshot = \<lparr>aps_version = v + 1, aps_policies = c\<rparr>\<rparr>
     \<and> b' = b\<lparr>apb_snapshot := \<lparr>aps_version = v + 1, aps_policies = c\<rparr>\<rparr>"
  by (auto simp: AdmissionPolicyBook_publish_def AdmissionPolicyVersion_next_def
      policy_book_version_def checked_add_def Let_def split: if_splits)

lemma AdmissionPolicyBook_publish_err:
  "AdmissionPolicyBook_publish b v c = (Inl e, b') \<Longrightarrow> b' = b"
  by (auto simp: AdmissionPolicyBook_publish_def Let_def split: if_splits sum.splits)

interpretation admission_policies:
  publication policy_book_version policy_book_shows AdmissionPolicyBook_publish
proof
  fix b v c r b' e
  show "policy_book_version b = v" if "AdmissionPolicyBook_publish b v c = (Inr r, b')"
    using that by (simp add: AdmissionPolicyBook_publish_ok)
  show "unat (policy_book_version b') = unat v + 1" if "AdmissionPolicyBook_publish b v c = (Inr r, b')"
    using that by (auto simp: AdmissionPolicyBook_publish_ok policy_book_version_def unat_plus_exact)
  show "policy_book_shows b' c" if "AdmissionPolicyBook_publish b v c = (Inr r, b')"
    using that by (auto simp: AdmissionPolicyBook_publish_ok policy_book_shows_def
        AdmissionPolicyBook_current_snapshot_def)
  show "b' = b" if "AdmissionPolicyBook_publish b v c = (Inl e, b')"
    using that by (rule AdmissionPolicyBook_publish_err)
qed

text \<open>
  Publications of admission policies are a compare-and-swap. Once a publication against a
  version has succeeded, any other publication against the same version is refused and changes
  nothing, whatever sequence of publications happened in between.
\<close>

theorem stale_policy_publication_refused:
  assumes "AdmissionPolicyBook_publish b v c = (Inr r, b1)"
    and "publish_all AdmissionPolicyBook_publish b1 offers = (n, b2)"
  shows "\<exists>e. AdmissionPolicyBook_publish b2 v d = (Inl e, b2)"
  using assms by (rule admission_policies.stale_offer_refused)

theorem stale_policy_publication_refused_witness:
  "\<exists>e. AdmissionPolicyBook_publish
          (snd (AdmissionPolicyBook_publish (AdmissionPolicyBook_new []) 0 [])) 0 [] =
        (Inl e, snd (AdmissionPolicyBook_publish (AdmissionPolicyBook_new []) 0 []))"
proof -
  let ?b = "snd (AdmissionPolicyBook_publish (AdmissionPolicyBook_new []) 0 [])"
  have "AdmissionPolicyBook_publish (AdmissionPolicyBook_new []) 0 [] =
      (Inr \<lparr>apr_snapshot = \<lparr>aps_version = 1, aps_policies = []\<rparr>\<rparr>, ?b)"
    by (simp add: AdmissionPolicyBook_publish_def AdmissionPolicyVersion_next_def checked_add_def
        AdmissionPolicyBook_new_def AdmissionPolicyBook_from_snapshot_def
        AdmissionPolicyVersion_initial_def Let_def)
  moreover have "publish_all AdmissionPolicyBook_publish ?b [] = (0, ?b)" by simp
  ultimately show ?thesis by (rule stale_policy_publication_refused)
qed

end
