(* ===== verification/Account_Circuit.thy ===== *)
theory Account_Circuit
  imports Interfaces
begin

text \<open>
  The account circuit breaker, \<open>ariadnion-account-circuit/src/lib.rs\<close>: policy, observations,
  probe leases, snapshots, the state behind the lock and every operation on it. The lock is a
  poison flag of the circuit and each operation is one critical section; helpers that take
  \<open>&mut\<close> return the changed value, next to the error where they can fail. The theory ends
  with the circuit as a transition system over its public calls.
\<close>

section \<open>Errors, clocks and policy\<close>

definition MAX_THRESHOLD :: u32 where "MAX_THRESHOLD = 1048576"
definition MAX_WINDOW_MILLIS :: u64 where "MAX_WINDOW_MILLIS = 86400000"
definition MAX_LEASE_MILLIS :: u64 where "MAX_LEASE_MILLIS = 300000"
definition MAX_PROBES :: u16 where "MAX_PROBES = 128"

datatype AccountCircuitErrorCode =
    CircuitInvalidArgument
  | AccountMismatch
  | GenerationConflict
  | TimestampOutOfOrder
  | InvalidTransition
  | RecoveryWindowClosed
  | ProbeLimitReached
  | AdministrativeResetRequired
  | LeaseConflict
  | ProbeLeaseExpired
  | VersionExhausted
  | CircuitStateUnavailable

fun circuit_request_error_code :: "AccountCircuitErrorCode \<Rightarrow> string" where
  "circuit_request_error_code CircuitInvalidArgument = ''ACCOUNT_CIRCUIT_INVALID_ARGUMENT''"
| "circuit_request_error_code AccountMismatch = ''ACCOUNT_CIRCUIT_ACCOUNT_MISMATCH''"
| "circuit_request_error_code GenerationConflict = ''ACCOUNT_CIRCUIT_GENERATION_CONFLICT''"
| "circuit_request_error_code TimestampOutOfOrder = ''ACCOUNT_CIRCUIT_TIMESTAMP_OUT_OF_ORDER''"
| "circuit_request_error_code InvalidTransition = ''ACCOUNT_CIRCUIT_INVALID_TRANSITION''"
| "circuit_request_error_code RecoveryWindowClosed = ''ACCOUNT_CIRCUIT_RECOVERY_WINDOW_CLOSED''"
| "circuit_request_error_code _ = ''ACCOUNT_CIRCUIT_INVALID_ARGUMENT''"

fun circuit_state_error_code :: "AccountCircuitErrorCode \<Rightarrow> string" where
  "circuit_state_error_code ProbeLimitReached = ''ACCOUNT_CIRCUIT_PROBE_LIMIT_REACHED''"
| "circuit_state_error_code AdministrativeResetRequired =
     ''ACCOUNT_CIRCUIT_ADMINISTRATIVE_RESET_REQUIRED''"
| "circuit_state_error_code LeaseConflict = ''ACCOUNT_CIRCUIT_LEASE_CONFLICT''"
| "circuit_state_error_code ProbeLeaseExpired = ''ACCOUNT_CIRCUIT_LEASE_EXPIRED''"
| "circuit_state_error_code VersionExhausted = ''ACCOUNT_CIRCUIT_VERSION_EXHAUSTED''"
| "circuit_state_error_code CircuitStateUnavailable = ''ACCOUNT_CIRCUIT_STATE_UNAVAILABLE''"
| "circuit_state_error_code _ = ''ACCOUNT_CIRCUIT_INVALID_ARGUMENT''"

definition AccountCircuitErrorCode_as_str :: "AccountCircuitErrorCode \<Rightarrow> string" where
  "AccountCircuitErrorCode_as_str c =
     (if c \<in> {CircuitInvalidArgument, AccountMismatch, GenerationConflict, TimestampOutOfOrder,
              InvalidTransition, RecoveryWindowClosed}
      then circuit_request_error_code c
      else circuit_state_error_code c)"

text \<open>\<open>AccountCircuitError\<close> is a wrapper around its code; the code stands for it.\<close>

type_synonym AccountCircuitError = AccountCircuitErrorCode

type_synonym MonotonicMillis = u64
type_synonym UtcMillis = u64
type_synonym CircuitGeneration = u64

definition MonotonicMillis_new :: "u64 \<Rightarrow> (AccountCircuitError, MonotonicMillis) result" where
  "MonotonicMillis_new value =
     (if 9000000000000000 < value then Inl CircuitInvalidArgument else Inr value)"

definition CircuitGeneration_initial :: CircuitGeneration where
  "CircuitGeneration_initial = 0"

definition CircuitGeneration_next ::
  "CircuitGeneration \<Rightarrow> (AccountCircuitError, CircuitGeneration) result" where
  "CircuitGeneration_next g = ok_or VersionExhausted (checked_add g 1)"

datatype CircuitState = Closed | Open | HalfOpen | Terminal

datatype CircuitOutcome = Success | Neutral | RetryableFailure | TerminalFailure

record CircuitPolicy =
  failure_threshold :: u32
  policy_recovery_successes :: u32
  recovery_window_millis :: u64
  probe_lease_millis :: u64
  max_half_open_probes :: u16

definition CircuitPolicy_new ::
  "u32 \<Rightarrow> u32 \<Rightarrow> u64 \<Rightarrow> u64 \<Rightarrow> u16 \<Rightarrow> (AccountCircuitError, CircuitPolicy) result" where
  "CircuitPolicy_new threshold successes window lease_millis probes =
     (if \<not> (1 \<le> threshold \<and> threshold \<le> MAX_THRESHOLD
            \<and> 1 \<le> successes \<and> successes \<le> MAX_THRESHOLD
            \<and> 1 \<le> window \<and> window \<le> MAX_WINDOW_MILLIS
            \<and> 1 \<le> lease_millis \<and> lease_millis \<le> MAX_LEASE_MILLIS
            \<and> 1 \<le> probes \<and> probes \<le> MAX_PROBES)
      then Inl CircuitInvalidArgument
      else Inr \<lparr>failure_threshold = threshold, policy_recovery_successes = successes,
                recovery_window_millis = window, probe_lease_millis = lease_millis,
                max_half_open_probes = probes\<rparr>)"

section \<open>Observations, leases and snapshots\<close>

record CircuitObservation =
  co_account_id :: AccountId
  co_generation :: CircuitGeneration
  co_observed_at :: UtcMillis
  co_monotonic :: MonotonicMillis
  co_outcome :: CircuitOutcome

type_synonym ProbeLeaseId = u64

record ProbeLease =
  pl_account_id :: AccountId
  pl_generation :: CircuitGeneration
  pl_id :: ProbeLeaseId
  pl_issued_at :: MonotonicMillis
  pl_expires_at :: MonotonicMillis

record CircuitSnapshot =
  cs_account_id :: AccountId
  cs_generation :: CircuitGeneration
  cs_state :: CircuitState
  consecutive_failures :: u32
  recovery_successes :: u32
  half_open_in_flight :: u16
  opened_at :: "UtcMillis option"
  recovery_eligible_at :: "UtcMillis option"
  last_observed_at :: "UtcMillis option"
  last_monotonic :: "MonotonicMillis option"

definition CircuitSnapshot_initial :: "AccountId \<Rightarrow> CircuitSnapshot" where
  "CircuitSnapshot_initial account_id =
     \<lparr>cs_account_id = account_id, cs_generation = CircuitGeneration_initial, cs_state = Closed,
      consecutive_failures = 0, recovery_successes = 0, half_open_in_flight = 0,
      opened_at = None, recovery_eligible_at = None, last_observed_at = None,
      last_monotonic = None\<rparr>"

record LeaseRecord =
  lr_id :: ProbeLeaseId
  lr_expires_at :: MonotonicMillis

record CircuitStateData =
  sd_snapshot :: CircuitSnapshot
  sd_leases :: "LeaseRecord list"
  sd_next_lease_id :: u64

record AccountCircuit =
  ac_account_id :: AccountId
  ac_policy :: CircuitPolicy
  ac_poisoned :: bool
  ac_state :: CircuitStateData

type_synonym 'a circuit_update = "(CircuitStateData, AccountCircuitError, 'a) update"

definition AccountCircuit_new :: "AccountId \<Rightarrow> CircuitPolicy \<Rightarrow> AccountCircuit" where
  "AccountCircuit_new account_id pol =
     \<lparr>ac_account_id = account_id, ac_policy = pol, ac_poisoned = False,
      ac_state = \<lparr>sd_snapshot = CircuitSnapshot_initial account_id, sd_leases = [],
                   sd_next_lease_id = 1\<rparr>\<rparr>"

section \<open>Snapshot transitions\<close>

definition validate_clock ::
  "CircuitSnapshot \<Rightarrow> UtcMillis \<Rightarrow> MonotonicMillis \<Rightarrow> (AccountCircuitError, unit) result" where
  "validate_clock snapshot observed_at monotonic =
     (if (case last_observed_at snapshot of None \<Rightarrow> False | Some prev \<Rightarrow> observed_at < prev)
         \<or> (case last_monotonic snapshot of None \<Rightarrow> False | Some prev \<Rightarrow> monotonic < prev)
      then Inl TimestampOutOfOrder else Inr ())"

definition validate_observation ::
  "AccountId \<Rightarrow> CircuitSnapshot \<Rightarrow> CircuitObservation \<Rightarrow> (AccountCircuitError, unit) result" where
  "validate_observation account_id snapshot observation =
     (if co_account_id observation \<noteq> account_id then Inl AccountMismatch
      else if co_generation observation \<noteq> cs_generation snapshot then Inl GenerationConflict
      else validate_clock snapshot (co_observed_at observation) (co_monotonic observation))"

definition advance_clock ::
  "UtcMillis \<Rightarrow> MonotonicMillis \<Rightarrow> CircuitSnapshot \<Rightarrow> CircuitSnapshot" where
  "advance_clock observed_at monotonic snapshot =
     snapshot\<lparr>last_observed_at := Some observed_at, last_monotonic := Some monotonic\<rparr>"

definition mark_open ::
  "CircuitPolicy \<Rightarrow> CircuitSnapshot \<Rightarrow> (AccountCircuitError, CircuitSnapshot) result" where
  "mark_open pol snapshot =
     bind_result (ok_or CircuitStateUnavailable (last_observed_at snapshot)) (\<lambda>opened.
     bind_result (ok_or VersionExhausted (checked_add opened (recovery_window_millis pol)))
       (\<lambda>eligible.
        Inr (snapshot\<lparr>cs_state := Open, opened_at := Some opened,
                      recovery_eligible_at := Some eligible, recovery_successes := 0,
                      half_open_in_flight := 0\<rparr>)))"

definition mark_terminal :: "CircuitSnapshot \<Rightarrow> CircuitSnapshot" where
  "mark_terminal snapshot =
     snapshot\<lparr>cs_state := Terminal, opened_at := last_observed_at snapshot,
              recovery_eligible_at := None, recovery_successes := 0,
              half_open_in_flight := 0\<rparr>"

definition fail_closed ::
  "CircuitPolicy \<Rightarrow> CircuitSnapshot \<Rightarrow> (AccountCircuitError, CircuitSnapshot) result" where
  "fail_closed pol snapshot =
     bind_result (mark_open pol snapshot) (\<lambda>s.
     bind_result (CircuitGeneration_next (cs_generation s)) (\<lambda>g.
       Inr (s\<lparr>cs_generation := g\<rparr>)))"

definition clear_recovery_state :: "CircuitSnapshot \<Rightarrow> CircuitSnapshot" where
  "clear_recovery_state snapshot =
     snapshot\<lparr>cs_state := Closed, consecutive_failures := 0, recovery_successes := 0,
              half_open_in_flight := 0, opened_at := None, recovery_eligible_at := None\<rparr>"

definition transition_to_half_open :: "CircuitSnapshot \<Rightarrow> CircuitSnapshot" where
  "transition_to_half_open snapshot =
     (if cs_state snapshot = Open
      then snapshot\<lparr>cs_state := HalfOpen, recovery_successes := 0, half_open_in_flight := 0\<rparr>
      else snapshot)"

fun apply_closed_outcome ::
  "CircuitOutcome \<Rightarrow> CircuitPolicy \<Rightarrow> CircuitSnapshot \<Rightarrow>
     (AccountCircuitError, CircuitSnapshot) result" where
  "apply_closed_outcome Success pol s = Inr (s\<lparr>consecutive_failures := 0\<rparr>)"
| "apply_closed_outcome Neutral pol s = Inr s"
| "apply_closed_outcome RetryableFailure pol s =
     bind_result (ok_or VersionExhausted (checked_add (consecutive_failures s) 1)) (\<lambda>n.
       let s1 = s\<lparr>consecutive_failures := n\<rparr>
       in if failure_threshold pol \<le> n then mark_open pol s1 else Inr s1)"
| "apply_closed_outcome TerminalFailure pol s =
     Inr (s\<lparr>consecutive_failures := failure_threshold pol, cs_state := Terminal,
            opened_at := last_observed_at s, recovery_eligible_at := None\<rparr>)"

definition next_closed_snapshot ::
  "CircuitSnapshot \<Rightarrow> CircuitObservation \<Rightarrow> CircuitPolicy \<Rightarrow>
     (AccountCircuitError, CircuitSnapshot) result" where
  "next_closed_snapshot snapshot observation pol =
     bind_result
       (apply_closed_outcome (co_outcome observation) pol
          (advance_clock (co_observed_at observation) (co_monotonic observation) snapshot))
       (\<lambda>next.
          if cs_state next \<noteq> cs_state snapshot
          then bind_result (CircuitGeneration_next (cs_generation next)) (\<lambda>g.
                 Inr (next\<lparr>cs_generation := g\<rparr>))
          else Inr next)"

definition close_recovered_circuit :: "CircuitPolicy \<Rightarrow> CircuitSnapshot \<Rightarrow> CircuitSnapshot" where
  "close_recovered_circuit pol s =
     (if cs_state s = HalfOpen \<and> policy_recovery_successes pol \<le> recovery_successes s
         \<and> half_open_in_flight s = 0
      then s\<lparr>cs_state := Closed, consecutive_failures := 0, opened_at := None,
             recovery_eligible_at := None\<rparr>
      else s)"

definition apply_probe_outcome ::
  "CircuitOutcome \<Rightarrow> CircuitPolicy \<Rightarrow> CircuitSnapshot \<Rightarrow>
     (AccountCircuitError, CircuitSnapshot) result" where
  "apply_probe_outcome outcome pol s =
     bind_result
       (case outcome of
          Success \<Rightarrow>
            bind_result (ok_or VersionExhausted (checked_add (recovery_successes s) 1)) (\<lambda>n.
              Inr (s\<lparr>recovery_successes := n\<rparr>))
        | Neutral \<Rightarrow> Inr s
        | RetryableFailure \<Rightarrow> mark_open pol s
        | TerminalFailure \<Rightarrow> Inr (mark_terminal s))
       (\<lambda>s1. Inr (close_recovered_circuit pol s1))"

section \<open>Probe admission\<close>

definition validate_probe_state :: "CircuitStateData \<Rightarrow> (AccountCircuitError, unit) result" where
  "validate_probe_state st =
     (if cs_state (sd_snapshot st) = Closed then Inl InvalidTransition
      else if cs_state (sd_snapshot st) = Terminal then Inl AdministrativeResetRequired
      else Inr ())"

definition validate_recovery_window ::
  "CircuitStateData \<Rightarrow> UtcMillis \<Rightarrow> (AccountCircuitError, unit) result" where
  "validate_recovery_window st observed_at =
     bind_result (ok_or CircuitStateUnavailable (recovery_eligible_at (sd_snapshot st))) (\<lambda>eligible.
       if observed_at < eligible then Inl RecoveryWindowClosed else Inr ())"

definition validate_probe_capacity ::
  "CircuitStateData \<Rightarrow> CircuitPolicy \<Rightarrow> (AccountCircuitError, unit) result" where
  "validate_probe_capacity st pol =
     (if unat (max_half_open_probes pol) \<le> length (sd_leases st)
      then Inl ProbeLimitReached else Inr ())"

definition validate_probe_admission ::
  "CircuitStateData \<Rightarrow> CircuitPolicy \<Rightarrow> UtcMillis \<Rightarrow> (AccountCircuitError, unit) result" where
  "validate_probe_admission st pol observed_at =
     bind_result (validate_probe_state st) (\<lambda>_.
     bind_result (validate_recovery_window st observed_at) (\<lambda>_.
     validate_probe_capacity st pol))"

definition prepare_probe_lease ::
  "u64 \<Rightarrow> MonotonicMillis \<Rightarrow> CircuitPolicy \<Rightarrow>
     (AccountCircuitError, ProbeLeaseId \<times> u64 \<times> MonotonicMillis) result" where
  "prepare_probe_lease next_lease_id monotonic pol =
     bind_result (ok_or VersionExhausted (checked_add next_lease_id 1)) (\<lambda>next_id.
     bind_result (ok_or VersionExhausted (checked_add monotonic (probe_lease_millis pol))) (\<lambda>expires.
     bind_result (MonotonicMillis_new expires) (\<lambda>expires_at.
       Inr (next_lease_id, next_id, expires_at))))"

definition admit_probe ::
  "AccountId \<Rightarrow> CircuitPolicy \<Rightarrow> UtcMillis \<Rightarrow> MonotonicMillis \<Rightarrow> ProbeLease circuit_update" where
  "admit_probe account_id pol observed_at monotonic st =
     (case bind_result (validate_probe_admission st pol observed_at) (\<lambda>_.
             prepare_probe_lease (sd_next_lease_id st) monotonic pol) of
        Inl e \<Rightarrow> (Inl e, st)
      | Inr (lid, next_lease_id, expires_at) \<Rightarrow>
          let leases = sd_leases st @ [\<lparr>lr_id = lid, lr_expires_at = expires_at\<rparr>];
              s1 = (transition_to_half_open (sd_snapshot st))\<lparr>half_open_in_flight := of_nat (length leases)\<rparr>;
              s2 = advance_clock observed_at monotonic s1
          in (Inr \<lparr>pl_account_id = account_id, pl_generation = cs_generation s2, pl_id = lid,
                   pl_issued_at = monotonic, pl_expires_at = expires_at\<rparr>,
              \<lparr>sd_snapshot = s2, sd_leases = leases, sd_next_lease_id = next_lease_id\<rparr>))"

definition reclaim_expired_leases ::
  "CircuitPolicy \<Rightarrow> UtcMillis \<Rightarrow> MonotonicMillis \<Rightarrow> unit circuit_update" where
  "reclaim_expired_leases pol observed_at monotonic st =
     (if \<not> list_ex (\<lambda>l. lr_expires_at l \<le> monotonic) (sd_leases st) then (Inr (), st)
      else case fail_closed pol (advance_clock observed_at monotonic (sd_snapshot st)) of
             Inl e \<Rightarrow> (Inl e, st)
           | Inr next \<Rightarrow> (Inl ProbeLeaseExpired, st\<lparr>sd_leases := [], sd_snapshot := next\<rparr>))"

section \<open>Probe completion\<close>

text \<open>\<open>iter().position\<close>.\<close>

fun lease_position :: "ProbeLeaseId \<Rightarrow> LeaseRecord list \<Rightarrow> nat option" where
  "lease_position lid [] = None"
| "lease_position lid (l # ls) =
     (if lr_id l = lid then Some 0 else map_option Suc (lease_position lid ls))"

text \<open>\<open>Vec::remove\<close> of an index in range.\<close>

definition remove_at :: "nat \<Rightarrow> 'a list \<Rightarrow> 'a list" where
  "remove_at i xs = take i xs @ drop (Suc i) xs"

definition validate_lease_request ::
  "AccountId \<Rightarrow> ProbeLease \<Rightarrow> UtcMillis \<Rightarrow> MonotonicMillis \<Rightarrow> CircuitStateData \<Rightarrow>
     (AccountCircuitError, nat) result" where
  "validate_lease_request account_id lease observed_at monotonic st =
     (if pl_account_id lease \<noteq> account_id then Inl AccountMismatch
      else if pl_generation lease \<noteq> cs_generation (sd_snapshot st) then Inl GenerationConflict
      else bind_result (validate_clock (sd_snapshot st) observed_at monotonic) (\<lambda>_.
             ok_or LeaseConflict (lease_position (pl_id lease) (sd_leases st))))"

text \<open>The lease at the index is removed and then all others: no lease is left.\<close>

definition expire_probe ::
  "nat \<Rightarrow> CircuitPolicy \<Rightarrow> UtcMillis \<Rightarrow> MonotonicMillis \<Rightarrow> CircuitSnapshot circuit_update" where
  "expire_probe index pol observed_at monotonic st =
     (case fail_closed pol (advance_clock observed_at monotonic (sd_snapshot st)) of
        Inl e \<Rightarrow> (Inl e, st)
      | Inr next \<Rightarrow> (Inl ProbeLeaseExpired, st\<lparr>sd_leases := [], sd_snapshot := next\<rparr>))"

definition complete_valid_probe ::
  "nat \<Rightarrow> CircuitOutcome \<Rightarrow> UtcMillis \<Rightarrow> MonotonicMillis \<Rightarrow> CircuitPolicy \<Rightarrow>
     CircuitSnapshot circuit_update" where
  "complete_valid_probe index outcome observed_at monotonic pol st =
     (case bind_result
             (apply_probe_outcome outcome pol
                (advance_clock observed_at monotonic
                   ((sd_snapshot st)\<lparr>half_open_in_flight := of_nat (length (sd_leases st) - 1)\<rparr>)))
             (\<lambda>next.
                if cs_state next \<noteq> cs_state (sd_snapshot st)
                then bind_result (CircuitGeneration_next (cs_generation next)) (\<lambda>g.
                       Inr (next\<lparr>cs_generation := g\<rparr>))
                else Inr next) of
        Inl e \<Rightarrow> (Inl e, st)
      | Inr next \<Rightarrow>
          (Inr next,
           st\<lparr>sd_leases :=
                if cs_state next \<noteq> HalfOpen then [] else remove_at index (sd_leases st)\<rparr>))"

section \<open>Public operations\<close>

text \<open>\<open>self.state.write()\<close> followed by a critical section.\<close>

definition with_circuit :: "'a circuit_update \<Rightarrow> (AccountCircuit, AccountCircuitError, 'a) update" where
  "with_circuit f c =
     (if ac_poisoned c then (Inl CircuitStateUnavailable, c)
      else case f (ac_state c) of (r, st) \<Rightarrow> (r, c\<lparr>ac_state := st\<rparr>))"

definition observe ::
  "CircuitObservation \<Rightarrow> (AccountCircuit, AccountCircuitError, CircuitSnapshot) update" where
  "observe observation c =
     with_circuit
       (\<lambda>st. case bind_result (validate_observation (ac_account_id c) (sd_snapshot st) observation) (\<lambda>_.
                   if cs_state (sd_snapshot st) \<noteq> Closed then Inl InvalidTransition
                   else next_closed_snapshot (sd_snapshot st) observation (ac_policy c)) of
                Inl e \<Rightarrow> (Inl e, st)
              | Inr next \<Rightarrow> (Inr next, st\<lparr>sd_snapshot := next\<rparr>)) c"

definition acquire_probe ::
  "CircuitGeneration \<Rightarrow> UtcMillis \<Rightarrow> MonotonicMillis \<Rightarrow>
     (AccountCircuit, AccountCircuitError, ProbeLease) update" where
  "acquire_probe expected_generation observed_at monotonic c =
     with_circuit
       (bind_update (lift_result (\<lambda>st. validate_clock (sd_snapshot st) observed_at monotonic)) (\<lambda>_.
        bind_update (lift_result (\<lambda>st.
            if cs_generation (sd_snapshot st) \<noteq> expected_generation then Inl GenerationConflict
            else Inr ())) (\<lambda>_.
        bind_update (reclaim_expired_leases (ac_policy c) observed_at monotonic) (\<lambda>_.
        admit_probe (ac_account_id c) (ac_policy c) observed_at monotonic)))) c"

definition validate_probe ::
  "ProbeLease \<Rightarrow> UtcMillis \<Rightarrow> MonotonicMillis \<Rightarrow> (AccountCircuit, AccountCircuitError, unit) update"
where
  "validate_probe lease observed_at monotonic c =
     with_circuit
       (bind_update
          (lift_result (validate_lease_request (ac_account_id c) lease observed_at monotonic)) (\<lambda>index st.
          if pl_expires_at lease \<le> monotonic
          then bind_update (expire_probe index (ac_policy c) observed_at monotonic)
                 (\<lambda>_ st'. (Inr (), st')) st
          else (Inr (), st))) c"

definition complete_probe ::
  "ProbeLease \<Rightarrow> CircuitOutcome \<Rightarrow> UtcMillis \<Rightarrow> MonotonicMillis \<Rightarrow>
     (AccountCircuit, AccountCircuitError, CircuitSnapshot) update" where
  "complete_probe lease outcome observed_at monotonic c =
     with_circuit
       (bind_update
          (lift_result (validate_lease_request (ac_account_id c) lease observed_at monotonic)) (\<lambda>index st.
          if pl_expires_at lease \<le> monotonic
          then expire_probe index (ac_policy c) observed_at monotonic st
          else bind_update (complete_valid_probe index outcome observed_at monotonic (ac_policy c))
                 (\<lambda>next st'. (Inr next, st'\<lparr>sd_snapshot := next\<rparr>)) st)) c"

definition reset ::
  "CircuitGeneration \<Rightarrow> UtcMillis \<Rightarrow> MonotonicMillis \<Rightarrow>
     (AccountCircuit, AccountCircuitError, CircuitSnapshot) update" where
  "reset expected_generation observed_at monotonic =
     with_circuit
       (\<lambda>st. case
                (if cs_generation (sd_snapshot st) \<noteq> expected_generation then Inl GenerationConflict
                 else bind_result (validate_clock (sd_snapshot st) observed_at monotonic) (\<lambda>_.
                   if cs_state (sd_snapshot st) \<noteq> Terminal then Inl InvalidTransition
                   else let next = clear_recovery_state (advance_clock observed_at monotonic (sd_snapshot st))
                        in bind_result (CircuitGeneration_next (cs_generation next)) (\<lambda>g.
                             Inr (next\<lparr>cs_generation := g\<rparr>)))) of
                Inl e \<Rightarrow> (Inl e, st)
              | Inr next \<Rightarrow> (Inr next, st\<lparr>sd_leases := [], sd_snapshot := next\<rparr>))"

definition snapshot_value :: "AccountCircuit \<Rightarrow> (AccountCircuitError, CircuitSnapshot) result" where
  "snapshot_value c =
     (if ac_poisoned c then Inl CircuitStateUnavailable else Inr (sd_snapshot (ac_state c)))"

section \<open>The circuit as a transition system\<close>

text \<open>
  Calls from any number of threads interleave at the lock. Leases passed back are arbitrary
  values: no assumption is made on where a caller got them.
\<close>

datatype circuit_call =
    Observe CircuitObservation
  | AcquireProbe CircuitGeneration UtcMillis MonotonicMillis
  | ValidateProbe ProbeLease UtcMillis MonotonicMillis
  | CompleteProbe ProbeLease CircuitOutcome UtcMillis MonotonicMillis
  | Reset CircuitGeneration UtcMillis MonotonicMillis

fun circuit_call_effect :: "circuit_call \<Rightarrow> AccountCircuit \<Rightarrow> AccountCircuit" where
  "circuit_call_effect (Observe obs) c = snd (observe obs c)"
| "circuit_call_effect (AcquireProbe g t m) c = snd (acquire_probe g t m c)"
| "circuit_call_effect (ValidateProbe lease t m) c = snd (validate_probe lease t m c)"
| "circuit_call_effect (CompleteProbe lease outcome t m) c = snd (complete_probe lease outcome t m c)"
| "circuit_call_effect (Reset g t m) c = snd (reset g t m c)"

inductive circuit_step :: "AccountCircuit \<Rightarrow> circuit_call \<Rightarrow> AccountCircuit \<Rightarrow> bool" where
  circuit_call: "circuit_step c l (circuit_call_effect l c)"

inductive_simps circuit_step_iff: "circuit_step c l c'"

definition circuit_policy_ok :: "CircuitPolicy \<Rightarrow> bool" where
  "circuit_policy_ok p \<longleftrightarrow>
     1 \<le> failure_threshold p \<and> failure_threshold p \<le> MAX_THRESHOLD
     \<and> 1 \<le> policy_recovery_successes p \<and> policy_recovery_successes p \<le> MAX_THRESHOLD
     \<and> 1 \<le> recovery_window_millis p \<and> recovery_window_millis p \<le> MAX_WINDOW_MILLIS
     \<and> 1 \<le> probe_lease_millis p \<and> probe_lease_millis p \<le> MAX_LEASE_MILLIS
     \<and> 1 \<le> max_half_open_probes p \<and> max_half_open_probes p \<le> MAX_PROBES"

lemma CircuitPolicy_new_ok: "CircuitPolicy_new f s w l m = Inr p \<Longrightarrow> circuit_policy_ok p"
  by (auto simp: CircuitPolicy_new_def circuit_policy_ok_def split: if_splits)

definition circuit_init :: "AccountCircuit \<Rightarrow> bool" where
  "circuit_init c \<longleftrightarrow>
     circuit_policy_ok (ac_policy c) \<and> c = AccountCircuit_new (ac_account_id c) (ac_policy c)"

end
