(* ===== verification/Circuit_Invariant.thy ===== *)
theory Circuit_Invariant
  imports Account_Circuit
begin

text \<open>
  The invariant of the account circuit and the abstract breaker it implements. \<open>breaker_step\<close>
  is the specification: phases, a generation that numbers them and the probes in flight.
  \<open>moves\<close> collects what every state-changing branch of the code establishes; each branch is
  one lemma, and the transition system of the circuit is interpreted on the result.
\<close>

section \<open>Specification\<close>

text \<open>A breaker in a phase, at a generation, with a number of probes in flight.\<close>

type_synonym breaker = "CircuitState \<times> nat \<times> nat"

inductive breaker_step :: "nat \<Rightarrow> breaker \<Rightarrow> breaker \<Rightarrow> bool" for max_probes where
  stutter: "breaker_step max_probes b b"
| trip: "breaker_step max_probes (Closed, g, 0) (Open, Suc g, 0)"
| condemn_closed: "breaker_step max_probes (Closed, g, 0) (Terminal, Suc g, 0)"
| first_probe: "0 < max_probes \<Longrightarrow> breaker_step max_probes (Open, g, 0) (HalfOpen, g, Suc 0)"
| next_probe: "n < max_probes \<Longrightarrow> breaker_step max_probes (HalfOpen, g, n) (HalfOpen, g, Suc n)"
| probe_answered: "breaker_step max_probes (HalfOpen, g, Suc n) (HalfOpen, g, n)"
| recovered: "breaker_step max_probes (HalfOpen, g, Suc 0) (Closed, Suc g, 0)"
| relapsed: "breaker_step max_probes (HalfOpen, g, Suc n) (Open, Suc g, 0)"
| condemn_probe: "breaker_step max_probes (HalfOpen, g, Suc n) (Terminal, Suc g, 0)"
| reinstated: "breaker_step max_probes (Terminal, g, 0) (Closed, Suc g, 0)"

inductive_simps breaker_step_from_Terminal: "breaker_step m (Terminal, g, n) (ph, g', n')"
inductive_simps breaker_step_iff: "breaker_step m (ph, g, n) (ph', g', n')"

definition breaker_of :: "CircuitStateData \<Rightarrow> breaker" where
  "breaker_of st =
     (cs_state (sd_snapshot st), unat (cs_generation (sd_snapshot st)), length (sd_leases st))"

section \<open>Invariant\<close>

definition snapshot_ok :: "CircuitPolicy \<Rightarrow> CircuitSnapshot \<Rightarrow> bool" where
  "snapshot_ok pol s \<longleftrightarrow>
     (case cs_state s of
        Closed \<Rightarrow> opened_at s = None \<and> recovery_eligible_at s = None
                  \<and> consecutive_failures s < failure_threshold pol
      | Terminal \<Rightarrow> opened_at s \<noteq> None \<and> recovery_eligible_at s = None
      | _ \<Rightarrow> (\<exists>t e. opened_at s = Some t \<and> recovery_eligible_at s = Some e
                \<and> unat e = unat t + unat (recovery_window_millis pol)))
     \<and> (\<forall>t. opened_at s = Some t \<longrightarrow> (\<exists>l. last_observed_at s = Some l \<and> t \<le> l))
     \<and> (cs_state s = HalfOpen \<longrightarrow>
          (\<forall>e. recovery_eligible_at s = Some e \<longrightarrow> (\<exists>l. last_observed_at s = Some l \<and> e \<le> l)))"

definition circuit_ok :: "AccountId \<Rightarrow> CircuitPolicy \<Rightarrow> CircuitStateData \<Rightarrow> bool" where
  "circuit_ok account_id pol st \<longleftrightarrow>
     cs_account_id (sd_snapshot st) = account_id
     \<and> snapshot_ok pol (sd_snapshot st)
     \<and> unat (half_open_in_flight (sd_snapshot st)) = length (sd_leases st)
     \<and> length (sd_leases st) \<le> unat (max_half_open_probes pol)
     \<and> (sd_leases st \<noteq> [] \<longrightarrow> cs_state (sd_snapshot st) = HalfOpen)
     \<and> distinct (map lr_id (sd_leases st))
     \<and> (\<forall>l \<in> set (sd_leases st). lr_id l < sd_next_lease_id st)"

definition circuit_inv :: "AccountCircuit \<Rightarrow> bool" where
  "circuit_inv c \<longleftrightarrow>
     circuit_policy_ok (ac_policy c) \<and> circuit_ok (ac_account_id c) (ac_policy c) (ac_state c)"

text \<open>The clock readings of a snapshot, and their order.\<close>

definition reading_le :: "u64 option \<Rightarrow> u64 option \<Rightarrow> bool" where
  "reading_le a b \<longleftrightarrow> (case a of None \<Rightarrow> True | Some x \<Rightarrow> (\<exists>y. b = Some y \<and> x \<le> y))"

text \<open>What one accepted change of the state establishes.\<close>

definition moves :: "AccountId \<Rightarrow> CircuitPolicy \<Rightarrow> CircuitStateData \<Rightarrow> CircuitStateData \<Rightarrow> bool" where
  "moves account_id pol st st' \<longleftrightarrow>
     circuit_ok account_id pol st'
     \<and> breaker_step (unat (max_half_open_probes pol)) (breaker_of st) (breaker_of st')
     \<and> reading_le (last_observed_at (sd_snapshot st)) (last_observed_at (sd_snapshot st'))
     \<and> reading_le (last_monotonic (sd_snapshot st)) (last_monotonic (sd_snapshot st'))
     \<and> sd_next_lease_id st \<le> sd_next_lease_id st'
     \<and> (\<forall>l \<in> set (sd_leases st'). l \<in> set (sd_leases st) \<or> sd_next_lease_id st \<le> lr_id l)"

lemma reading_le_refl [simp]: "reading_le a a"
  by (auto simp: reading_le_def split: option.splits)

lemma reading_le_trans: "reading_le a b \<Longrightarrow> reading_le b c \<Longrightarrow> reading_le a c"
  by (auto simp: reading_le_def split: option.splits)

lemma moves_refl: "circuit_ok a pol st \<Longrightarrow> moves a pol st st"
  by (simp add: moves_def stutter)

section \<open>Effects of the helpers\<close>

named_theorems circuit_effects \<open>successful outcomes of the circuit's helper functions\<close>

lemma CircuitGeneration_next_ok [circuit_effects]:
  "CircuitGeneration_next g = Inr g' \<longleftrightarrow> unat g' = Suc (unat g)"
  by (simp add: CircuitGeneration_next_def results machine)

lemma mark_open_ok [circuit_effects]:
  "mark_open pol s = Inr s' \<longleftrightarrow>
     (\<exists>t e. last_observed_at s = Some t \<and> unat e = unat t + unat (recovery_window_millis pol)
       \<and> s' = s\<lparr>cs_state := Open, opened_at := Some t, recovery_eligible_at := Some e,
                recovery_successes := 0, half_open_in_flight := 0\<rparr>)"
  by (auto simp: mark_open_def results checked_add_eq_Some)

lemma fail_closed_ok [circuit_effects]:
  "fail_closed pol s = Inr s' \<longleftrightarrow>
     (\<exists>t e g. last_observed_at s = Some t \<and> unat e = unat t + unat (recovery_window_millis pol)
       \<and> unat g = Suc (unat (cs_generation s))
       \<and> s' = s\<lparr>cs_state := Open, opened_at := Some t, recovery_eligible_at := Some e,
                recovery_successes := 0, half_open_in_flight := 0, cs_generation := g\<rparr>)"
  by (force simp: fail_closed_def bind_result_eq_Inr CircuitGeneration_next_ok mark_open_ok)

lemma validate_clock_ok [circuit_effects]:
  "validate_clock s t m = Inr u \<longleftrightarrow>
     reading_le (last_observed_at s) (Some t) \<and> reading_le (last_monotonic s) (Some m)"
  by (auto simp: validate_clock_def reading_le_def not_less split: option.splits if_splits)

lemma advance_clock_simps [simp]:
  "cs_account_id (advance_clock t m s) = cs_account_id s"
  "cs_generation (advance_clock t m s) = cs_generation s"
  "cs_state (advance_clock t m s) = cs_state s"
  "consecutive_failures (advance_clock t m s) = consecutive_failures s"
  "recovery_successes (advance_clock t m s) = recovery_successes s"
  "half_open_in_flight (advance_clock t m s) = half_open_in_flight s"
  "opened_at (advance_clock t m s) = opened_at s"
  "recovery_eligible_at (advance_clock t m s) = recovery_eligible_at s"
  "last_observed_at (advance_clock t m s) = Some t"
  "last_monotonic (advance_clock t m s) = Some m"
  by (simp_all add: advance_clock_def)

lemma snapshot_ok_frame [simp]:
  "snapshot_ok pol (s\<lparr>cs_generation := g\<rparr>) = snapshot_ok pol s"
  "snapshot_ok pol (s\<lparr>half_open_in_flight := k\<rparr>) = snapshot_ok pol s"
  "snapshot_ok pol (s\<lparr>recovery_successes := n\<rparr>) = snapshot_ok pol s"
  by (cases "cs_state s"; simp add: snapshot_ok_def)+

text \<open>A later UTC reading keeps the snapshot invariant.\<close>

lemma snapshot_ok_advance:
  assumes "snapshot_ok pol s" and "reading_le (last_observed_at s) (Some t)"
  shows "snapshot_ok pol (advance_clock t m s)"
  using assms by (auto simp: snapshot_ok_def reading_le_def split: CircuitState.splits option.splits
      intro: order_trans)

section \<open>Every accepted change of the state\<close>

text \<open>Reopening, from a probe that expired: the phase is left and its leases are discarded.\<close>

lemma moves_reopened:
  assumes ok: "circuit_ok a pol st" and some: "sd_leases st \<noteq> []"
    and clock: "validate_clock (sd_snapshot st) t m = Inr ()"
    and upd: "fail_closed pol (advance_clock t m (sd_snapshot st)) = Inr s'"
  shows "moves a pol st (st\<lparr>sd_leases := [], sd_snapshot := s'\<rparr>)"
proof -
  obtain n where n: "length (sd_leases st) = Suc n" using some by (cases "sd_leases st") auto
  have "cs_state (sd_snapshot st) = HalfOpen" using ok some by (simp add: circuit_ok_def)
  with assms n show ?thesis
    by (auto simp: moves_def circuit_ok_def snapshot_ok_def breaker_of_def circuit_effects
        intro: relapsed)
qed

text \<open>The three shapes of a closed-state outcome: still closed, tripped, condemned.\<close>

lemma apply_closed_outcome_cases [consumes 1, case_names closed tripped condemned]:
  assumes "apply_closed_outcome outcome pol s = Inr s'"
  obtains n where "s' = s\<lparr>consecutive_failures := n\<rparr>"
      "n = 0 \<or> n = consecutive_failures s \<or> n < failure_threshold pol"
  | n where "mark_open pol (s\<lparr>consecutive_failures := n\<rparr>) = Inr s'"
  | "s' = s\<lparr>consecutive_failures := failure_threshold pol, cs_state := Terminal,
              opened_at := last_observed_at s, recovery_eligible_at := None\<rparr>"
proof (cases outcome)
  case Success
  with assms that(1) [of 0] show ?thesis by simp
next
  case Neutral
  with assms that(1) [of "consecutive_failures s"] show ?thesis by simp
next
  case RetryableFailure
  with assms obtain n where
    "(if failure_threshold pol \<le> n then mark_open pol (s\<lparr>consecutive_failures := n\<rparr>)
      else Inr (s\<lparr>consecutive_failures := n\<rparr>)) = Inr s'"
    by (auto simp: bind_result_eq_Inr Let_def)
  then show ?thesis
    using that(1) [of n] that(2) [of n] by (cases "failure_threshold pol \<le> n") (simp_all add: not_le)
next
  case TerminalFailure
  with assms that(3) show ?thesis by simp
qed

lemma failure_threshold_pos: "circuit_policy_ok pol \<Longrightarrow> 0 < failure_threshold pol"
  by (auto simp: circuit_policy_ok_def word_less_nat_alt word_le_nat_alt)

lemma next_closed_snapshot_ok:
  assumes upd: "next_closed_snapshot s obs pol = Inr s'" and closed: "cs_state s = Closed"
    and ok: "snapshot_ok pol s" and pol: "circuit_policy_ok pol"
    and clock: "reading_le (last_observed_at s) (Some (co_observed_at obs))"
  shows "cs_account_id s' = cs_account_id s \<and> snapshot_ok pol s'
    \<and> (half_open_in_flight s = 0 \<longrightarrow> half_open_in_flight s' = 0)
    \<and> (cs_state s' = Closed \<and> cs_generation s' = cs_generation s
       \<or> cs_state s' \<in> {Open, Terminal} \<and> unat (cs_generation s') = Suc (unat (cs_generation s)))
    \<and> last_observed_at s' = Some (co_observed_at obs) \<and> last_monotonic s' = Some (co_monotonic obs)"
proof -
  let ?s = "advance_clock (co_observed_at obs) (co_monotonic obs) s"
  obtain s1 where s1: "apply_closed_outcome (co_outcome obs) pol ?s = Inr s1"
    and s': "(if cs_state s1 \<noteq> Closed
              then bind_result (CircuitGeneration_next (cs_generation s1)) (\<lambda>g. Inr (s1\<lparr>cs_generation := g\<rparr>))
              else Inr s1) = Inr s'"
    using upd closed by (auto simp: next_closed_snapshot_def bind_result_eq_Inr)
  have thr: "0 < failure_threshold pol" by (rule failure_threshold_pos [OF pol])
  from s1 show ?thesis
  proof (cases rule: apply_closed_outcome_cases)
    case (closed n)
    then have "n < failure_threshold pol"
      using ok thr \<open>cs_state s = Closed\<close> by (auto simp: snapshot_ok_def)
    with closed s' ok \<open>cs_state s = Closed\<close> show ?thesis by (auto simp: snapshot_ok_def)
  next
    case (tripped n)
    then show ?thesis using s' by (auto simp: mark_open_ok bind_result_eq_Inr circuit_effects snapshot_ok_def)
  next
    case condemned
    then show ?thesis using s' by (auto simp: bind_result_eq_Inr circuit_effects snapshot_ok_def)
  qed
qed

lemma moves_observed:
  assumes ok: "circuit_ok a pol st" and pol: "circuit_policy_ok pol"
    and closed: "cs_state (sd_snapshot st) = Closed"
    and valid: "validate_observation a (sd_snapshot st) obs = Inr ()"
    and upd: "next_closed_snapshot (sd_snapshot st) obs pol = Inr s'"
  shows "moves a pol st (st\<lparr>sd_snapshot := s'\<rparr>)"
proof -
  have clock: "reading_le (last_observed_at (sd_snapshot st)) (Some (co_observed_at obs))"
    "reading_le (last_monotonic (sd_snapshot st)) (Some (co_monotonic obs))"
    using valid by (auto simp: validate_observation_def validate_clock_ok split: if_splits)
  have none: "sd_leases st = []" and zero: "half_open_in_flight (sd_snapshot st) = 0"
    using ok closed by (auto simp: circuit_ok_def word_unat_eq_iff)
  have snap: "snapshot_ok pol (sd_snapshot st)" using ok by (simp add: circuit_ok_def)
  note s' = next_closed_snapshot_ok [OF upd closed snap pol clock(1)]
  show ?thesis
    using ok none closed s' zero clock
    by (auto simp: moves_def circuit_ok_def breaker_of_def intro: breaker_step.intros)
qed

text \<open>Admitting a probe.\<close>

lemma validate_probe_admission_ok:
  "validate_probe_admission st pol t = Inr u \<longleftrightarrow>
     cs_state (sd_snapshot st) \<in> {Open, HalfOpen}
     \<and> (\<exists>e. recovery_eligible_at (sd_snapshot st) = Some e \<and> e \<le> t)
     \<and> length (sd_leases st) < unat (max_half_open_probes pol)"
  by (cases "cs_state (sd_snapshot st)")
    (auto simp: validate_probe_admission_def validate_probe_state_def validate_recovery_window_def
      validate_probe_capacity_def results not_less not_le split: if_splits)

lemma prepare_probe_lease_ok:
  "prepare_probe_lease n m pol = Inr (i, n', e) \<longleftrightarrow>
     i = n \<and> unat n' = Suc (unat n) \<and> unat e = unat m + unat (probe_lease_millis pol)
     \<and> e \<le> 9000000000000000"
  by (auto simp: prepare_probe_lease_def bind_result_eq_Inr ok_or_eq checked_add_eq_Some
      MonotonicMillis_new_def not_less split: if_splits)

lemma admit_probe_cases [consumes 1, case_names refused admitted]:
  assumes "admit_probe a pol t m st = (r, st')"
  obtains e where "r = Inl e" "st' = st"
  | e n' s' where "validate_probe_admission st pol t = Inr ()"
      "unat n' = Suc (unat (sd_next_lease_id st))"
      "unat e = unat m + unat (probe_lease_millis pol)"
      "s' = advance_clock t m ((transition_to_half_open (sd_snapshot st))
              \<lparr>half_open_in_flight := of_nat (Suc (length (sd_leases st)))\<rparr>)"
      "r = Inr \<lparr>pl_account_id = a, pl_generation = cs_generation (sd_snapshot st),
                pl_id = sd_next_lease_id st, pl_issued_at = m, pl_expires_at = e\<rparr>"
      "st' = \<lparr>sd_snapshot = s',
               sd_leases = sd_leases st @ [\<lparr>lr_id = sd_next_lease_id st, lr_expires_at = e\<rparr>],
               sd_next_lease_id = n'\<rparr>"
proof (cases "bind_result (validate_probe_admission st pol t)
    (\<lambda>_. prepare_probe_lease (sd_next_lease_id st) m pol)")
  case (Inl e)
  with assms that(1) [of e] show ?thesis by (simp add: admit_probe_def)
next
  case (Inr x)
  obtain i n' e where x: "x = (i, n', e)" by (cases x) auto
  have ok: "validate_probe_admission st pol t = Inr ()"
    "prepare_probe_lease (sd_next_lease_id st) m pol = Inr (i, n', e)"
    using Inr x by (auto simp: bind_result_eq_Inr)
  then have "i = sd_next_lease_id st" by (simp add: prepare_probe_lease_ok)
  then show ?thesis
    using assms Inr x ok that(2) [of n' e]
    by (auto simp: admit_probe_def Let_def prepare_probe_lease_ok transition_to_half_open_def)
qed

lemma unat_of_nat_probes:
  "circuit_policy_ok pol \<Longrightarrow> n \<le> unat (max_half_open_probes pol) \<Longrightarrow> unat (of_nat n :: u16) = n"
  by (auto simp: circuit_policy_ok_def MAX_PROBES_def word_le_nat_alt unat_of_nat)

lemma moves_admitted:
  assumes ok: "circuit_ok a pol st" and pol: "circuit_policy_ok pol"
    and clock: "validate_clock (sd_snapshot st) t m = Inr ()"
    and adm: "admit_probe a pol t m st = (r, st')"
  shows "moves a pol st st'"
  using adm
proof (cases rule: admit_probe_cases)
  case refused
  then show ?thesis using ok by (simp add: moves_refl)
next
  case (admitted e n' s')
  let ?s = "sd_snapshot st"
  obtain el where el: "cs_state ?s \<in> {Open, HalfOpen}" "recovery_eligible_at ?s = Some el" "el \<le> t"
    "length (sd_leases st) < unat (max_half_open_probes pol)"
    using admitted(1) by (auto simp: validate_probe_admission_ok)
  have "unat (of_nat (Suc (length (sd_leases st))) :: u16) = Suc (length (sd_leases st))"
    using el(4) by (intro unat_of_nat_probes [OF pol]) simp
  moreover have "snapshot_ok pol s'"
    using ok el clock admitted(4)
    by (auto simp: circuit_ok_def snapshot_ok_def transition_to_half_open_def validate_clock_ok
        reading_le_def split: option.splits intro: order_trans)
  moreover have "breaker_step (unat (max_half_open_probes pol)) (breaker_of st) (breaker_of st')"
    using ok el admitted(4,6)
    by (auto simp: circuit_ok_def breaker_of_def transition_to_half_open_def
        intro: breaker_step.intros)
  ultimately show ?thesis
    using ok el(1,4) clock admitted
    by (auto simp: moves_def circuit_ok_def transition_to_half_open_def validate_clock_ok
        word_less_nat_alt word_le_nat_alt)
qed

lemma moves_reclaimed:
  assumes "circuit_ok a pol st" and "validate_clock (sd_snapshot st) t m = Inr ()"
    and "reclaim_expired_leases pol t m st = (r, st')"
  shows "moves a pol st st'"
proof (cases "list_ex (\<lambda>l. lr_expires_at l \<le> m) (sd_leases st)")
  case True
  then have "sd_leases st \<noteq> []" by auto
  with assms True show ?thesis
    by (auto simp: reclaim_expired_leases_def moves_refl moves_reopened split: sum.splits)
qed (use assms in \<open>simp add: reclaim_expired_leases_def moves_refl\<close>)

text \<open>Completing a probe.\<close>

lemma lease_position_Some:
  "lease_position i ls = Some n \<Longrightarrow> n < length ls \<and> lr_id (ls ! n) = i"
  by (induction ls arbitrary: n) (auto split: if_splits)

lemma lease_position_None: "lease_position i ls = None \<longleftrightarrow> i \<notin> lr_id ` set ls"
  by (induction ls) auto

lemma set_remove_at: "set (remove_at i xs) \<subseteq> set xs"
  by (auto simp: remove_at_def dest: in_set_takeD in_set_dropD)

lemma length_remove_at: "i < length xs \<Longrightarrow> length (remove_at i xs) = length xs - 1"
  by (simp add: remove_at_def)

lemma map_remove_at: "map f (remove_at i xs) = remove_at i (map f xs)"
  by (simp add: remove_at_def take_map drop_map)

lemma remove_at_distinct:
  assumes "distinct xs" and "i < length xs"
  shows "distinct (remove_at i xs)" "xs ! i \<notin> set (remove_at i xs)"
proof -
  have "distinct (take i xs @ xs ! i # drop (Suc i) xs)"
    using assms id_take_nth_drop [OF assms(2)] by simp
  then show "distinct (remove_at i xs)" "xs ! i \<notin> set (remove_at i xs)"
    by (auto simp: remove_at_def)
qed

text \<open>The four shapes of a probe's outcome: still half open, recovered, reopened, condemned.\<close>

lemma close_recovered_shapes:
  assumes "cs_state s = HalfOpen"
  shows "close_recovered_circuit pol (s\<lparr>recovery_successes := n\<rparr>) = s\<lparr>recovery_successes := n\<rparr>
    \<or> half_open_in_flight s = 0 \<and> policy_recovery_successes pol \<le> n
      \<and> close_recovered_circuit pol (s\<lparr>recovery_successes := n\<rparr>) =
          s\<lparr>recovery_successes := n, cs_state := Closed, consecutive_failures := 0,
            opened_at := None, recovery_eligible_at := None\<rparr>"
  using assms by (simp add: close_recovered_circuit_def)

lemma apply_probe_outcome_ok:
  assumes "apply_probe_outcome outcome pol s = Inr s'" and half: "cs_state s = HalfOpen"
  shows "(\<exists>n. s' = s\<lparr>recovery_successes := n\<rparr>)
    \<or> (\<exists>n. half_open_in_flight s = 0 \<and> policy_recovery_successes pol \<le> n
        \<and> s' = s\<lparr>recovery_successes := n, cs_state := Closed, consecutive_failures := 0,
                opened_at := None, recovery_eligible_at := None\<rparr>)
    \<or> outcome = RetryableFailure \<and> mark_open pol s = Inr s'
    \<or> outcome = TerminalFailure \<and> s' = mark_terminal s"
proof (cases outcome)
  case Success
  then obtain n where "s' = close_recovered_circuit pol (s\<lparr>recovery_successes := n\<rparr>)"
    using assms(1) by (auto simp: apply_probe_outcome_def bind_result_eq_Inr)
  then show ?thesis using close_recovered_shapes [OF half, of pol n] by metis
next
  case Neutral
  then have "s' = close_recovered_circuit pol (s\<lparr>recovery_successes := recovery_successes s\<rparr>)"
    using assms(1) by (simp add: apply_probe_outcome_def)
  then show ?thesis using close_recovered_shapes [OF half, of pol "recovery_successes s"] by metis
next
  case RetryableFailure
  then show ?thesis
    using assms(1) by (auto simp: apply_probe_outcome_def bind_result_eq_Inr mark_open_ok
        close_recovered_circuit_def)
next
  case TerminalFailure
  then show ?thesis
    using assms(1) by (simp add: apply_probe_outcome_def mark_terminal_def close_recovered_circuit_def)
qed

lemma complete_valid_probe_ok:
  assumes "complete_valid_probe i outcome t m pol st = (Inr s', st')"
  obtains s1 where
    "apply_probe_outcome outcome pol (advance_clock t m ((sd_snapshot st)
        \<lparr>half_open_in_flight := of_nat (length (sd_leases st) - 1)\<rparr>)) = Inr s1"
    "s' = s1 \<and> cs_state s1 = cs_state (sd_snapshot st)
     \<or> cs_state s1 \<noteq> cs_state (sd_snapshot st)
       \<and> (\<exists>g. unat g = Suc (unat (cs_generation s1)) \<and> s' = s1\<lparr>cs_generation := g\<rparr>)"
    "st' = st\<lparr>sd_leases := if cs_state s' \<noteq> HalfOpen then [] else remove_at i (sd_leases st)\<rparr>"
proof -
  let ?s = "advance_clock t m ((sd_snapshot st)\<lparr>half_open_in_flight := of_nat (length (sd_leases st) - 1)\<rparr>)"
  obtain s1 where s1: "apply_probe_outcome outcome pol ?s = Inr s1"
    using assms by (cases "apply_probe_outcome outcome pol ?s") (auto simp: complete_valid_probe_def)
  show ?thesis
  proof (cases "cs_state s1 = cs_state (sd_snapshot st)")
    case True
    then show ?thesis using assms s1 that [OF s1] by (auto simp: complete_valid_probe_def)
  next
    case False
    then obtain g where "CircuitGeneration_next (cs_generation s1) = Inr g"
      using assms s1
      by (cases "CircuitGeneration_next (cs_generation s1)") (auto simp: complete_valid_probe_def)
    then have "s' = s1\<lparr>cs_generation := g\<rparr>" "unat g = Suc (unat (cs_generation s1))"
      "st' = st\<lparr>sd_leases := if cs_state s' \<noteq> HalfOpen then [] else remove_at i (sd_leases st)\<rparr>"
      using False assms s1 CircuitGeneration_next_ok [of "cs_generation s1" g]
      by (auto simp: complete_valid_probe_def)
    with False show ?thesis by (intro that [OF s1]) blast+
  qed
qed

text \<open>The bookkeeping after an answered probe, for each of the four shapes.\<close>

lemma moves_after_probe:
  assumes ok: "circuit_ok a pol st" and pol: "circuit_policy_ok pol"
    and clock: "validate_clock (sd_snapshot st) t m = Inr ()"
    and i: "i < length (sd_leases st)" and k: "length (sd_leases st) = Suc k"
    and s1: "cs_account_id s1 = a" "last_observed_at s1 = Some t" "last_monotonic s1 = Some m"
      "snapshot_ok pol s1" "cs_generation s1 = cs_generation (sd_snapshot st)"
      "cs_state s1 = HalfOpen \<and> half_open_in_flight s1 = of_nat k
       \<or> cs_state s1 = Closed \<and> k = 0 \<and> half_open_in_flight s1 = 0
       \<or> cs_state s1 \<in> {Open, Terminal} \<and> half_open_in_flight s1 = 0"
    and s': "s' = s1 \<and> cs_state s1 = HalfOpen
     \<or> cs_state s1 \<noteq> HalfOpen \<and> (\<exists>g. unat g = Suc (unat (cs_generation s1)) \<and> s' = s1\<lparr>cs_generation := g\<rparr>)"
  shows "moves a pol st (st\<lparr>sd_leases := if cs_state s' \<noteq> HalfOpen then [] else remove_at i (sd_leases st),
    sd_snapshot := s'\<rparr>)"
proof -
  have half: "cs_state (sd_snapshot st) = HalfOpen"
    and le: "length (sd_leases st) \<le> unat (max_half_open_probes pol)"
    using ok i by (auto simp: circuit_ok_def)
  have cnt: "unat (of_nat k :: u16) = k" using k le by (intro unat_of_nat_probes [OF pol]) simp
  have rm: "length (remove_at i (sd_leases st)) = k" "distinct (map lr_id (remove_at i (sd_leases st)))"
    using i k ok remove_at_distinct(1) [of "map lr_id (sd_leases st)" i]
    by (simp_all add: length_remove_at map_remove_at circuit_ok_def)
  have sub: "set (remove_at i (sd_leases st)) \<subseteq> set (sd_leases st)" by (rule set_remove_at)
  have snap: "snapshot_ok pol s'" using s' s1(4) by auto
  show ?thesis
  proof (cases "cs_state s1 = HalfOpen")
    case True
    then have "s' = s1" "half_open_in_flight s1 = of_nat k" using s' s1(6) by auto
    with True show ?thesis
      using ok half k le cnt rm sub snap clock s1
      by (auto simp: moves_def circuit_ok_def breaker_of_def validate_clock_ok intro: probe_answered)
  next
    case False
    then obtain g where "unat g = Suc (unat (cs_generation s1))" "s' = s1\<lparr>cs_generation := g\<rparr>"
      using s' by auto
    with False show ?thesis
      using ok half k snap clock s1
      by (auto simp: moves_def circuit_ok_def breaker_of_def validate_clock_ok
          intro: breaker_step.intros)
  qed
qed

lemma moves_completed:
  assumes ok: "circuit_ok a pol st" and pol: "circuit_policy_ok pol"
    and clock: "validate_clock (sd_snapshot st) t m = Inr ()"
    and i: "lease_position j (sd_leases st) = Some i"
    and comp: "complete_valid_probe i outcome t m pol st = (Inr s', st')"
  shows "moves a pol st (st'\<lparr>sd_snapshot := s'\<rparr>)"
proof -
  let ?s = "sd_snapshot st"
  have lt: "i < length (sd_leases st)" using lease_position_Some [OF i] by simp
  then obtain k where k: "length (sd_leases st) = Suc k" by (cases "length (sd_leases st)") auto
  have half: "cs_state ?s = HalfOpen" and snap: "snapshot_ok pol ?s" and acc: "cs_account_id ?s = a"
    and le: "k \<le> unat (max_half_open_probes pol)"
    using ok lt k by (auto simp: circuit_ok_def)
  let ?u = "advance_clock t m (?s\<lparr>half_open_in_flight := of_nat k\<rparr>)"
  obtain s1 where s1: "apply_probe_outcome outcome pol ?u = Inr s1"
    and s': "s' = s1 \<and> cs_state s1 = HalfOpen
     \<or> cs_state s1 \<noteq> HalfOpen \<and> (\<exists>g. unat g = Suc (unat (cs_generation s1)) \<and> s' = s1\<lparr>cs_generation := g\<rparr>)"
    and st': "st' = st\<lparr>sd_leases := if cs_state s' \<noteq> HalfOpen then [] else remove_at i (sd_leases st)\<rparr>"
    using complete_valid_probe_ok [OF comp] half k by (metis diff_Suc_1)
  have u: "snapshot_ok pol ?u"
    using snap clock by (auto simp: validate_clock_ok intro: snapshot_ok_advance)
  have zero: "k = 0" if "(of_nat k :: u16) = 0"
    using that unat_of_nat_probes [OF pol le] by auto
  have "moves a pol st (st\<lparr>sd_leases := if cs_state s' \<noteq> HalfOpen then [] else remove_at i (sd_leases st),
      sd_snapshot := s'\<rparr>)"
    using apply_probe_outcome_ok [OF s1] half acc u zero failure_threshold_pos [OF pol]
    by (intro moves_after_probe [OF ok pol clock lt k _ _ _ _ _ _ s'])
      (auto simp: mark_open_ok mark_terminal_def snapshot_ok_def)
  then show ?thesis using st' by simp
qed

section \<open>The public operations\<close>

definition circuit_moves :: "AccountCircuit \<Rightarrow> AccountCircuit \<Rightarrow> bool" where
  "circuit_moves c c' \<longleftrightarrow>
     moves (ac_account_id c) (ac_policy c) (ac_state c) (ac_state c')
     \<and> ac_account_id c' = ac_account_id c \<and> ac_policy c' = ac_policy c
     \<and> ac_poisoned c' = ac_poisoned c"

lemma with_circuit_moves:
  assumes "circuit_inv c" and "with_circuit f c = (r, c')"
    and "\<And>r st'. f (ac_state c) = (r, st') \<Longrightarrow> moves (ac_account_id c) (ac_policy c) (ac_state c) st'"
  shows "circuit_moves c c'"
  using assms by (auto simp: with_circuit_def circuit_moves_def circuit_inv_def moves_refl
      split: if_splits prod.splits)

lemma circuit_inv_parts:
  assumes "circuit_inv c"
  shows "circuit_ok (ac_account_id c) (ac_policy c) (ac_state c)" "circuit_policy_ok (ac_policy c)"
  using assms by (simp_all add: circuit_inv_def)

lemma observe_moves:
  assumes "circuit_inv c" and "observe obs c = (r, c')"
  shows "circuit_moves c c'"
  using assms(1) assms(2) [unfolded observe_def]
proof (rule with_circuit_moves)
  note ok = circuit_inv_parts [OF assms(1)]
  show "moves (ac_account_id c) (ac_policy c) (ac_state c) st'"
    if "(case bind_result (validate_observation (ac_account_id c) (sd_snapshot (ac_state c)) obs) (\<lambda>_.
           if cs_state (sd_snapshot (ac_state c)) \<noteq> Closed then Inl InvalidTransition
           else next_closed_snapshot (sd_snapshot (ac_state c)) obs (ac_policy c)) of
         Inl e \<Rightarrow> (Inl e, ac_state c)
       | Inr next \<Rightarrow> (Inr next, (ac_state c)\<lparr>sd_snapshot := next\<rparr>)) = (r, st')" for r st'
    using that ok
    by (auto simp: bind_result_eq_Inr moves_refl moves_observed split: sum.splits if_splits)
qed

lemma acquire_probe_moves:
  assumes "circuit_inv c" and "acquire_probe g t m c = (r, c')"
  shows "circuit_moves c c'"
  using assms(1) assms(2) [unfolded acquire_probe_def]
proof (rule with_circuit_moves)
  note ok = circuit_inv_parts [OF assms(1)]
  have "st1 = ac_state c" if "reclaim_expired_leases (ac_policy c) t m (ac_state c) = (Inr u, st1)" for u st1
    using that by (auto simp: reclaim_expired_leases_def split: if_splits sum.splits)
  then show "moves (ac_account_id c) (ac_policy c) (ac_state c) st'"
    if "bind_update (lift_result (\<lambda>st. validate_clock (sd_snapshot st) t m)) (\<lambda>_.
        bind_update (lift_result (\<lambda>st.
            if cs_generation (sd_snapshot st) \<noteq> g then Inl GenerationConflict else Inr ())) (\<lambda>_.
        bind_update (reclaim_expired_leases (ac_policy c) t m) (\<lambda>_.
        admit_probe (ac_account_id c) (ac_policy c) t m))) (ac_state c) = (r, st')" for r st'
    using that ok moves_reclaimed [OF ok(1)] moves_admitted [OF ok]
    by (cases r) (auto simp: bind_update_eq_Inl bind_update_eq_Inr lift_result_eq moves_refl
        split: if_splits)
qed

lemma validate_lease_request_ok:
  "validate_lease_request a lease t m st = Inr i \<longleftrightarrow>
     pl_account_id lease = a \<and> pl_generation lease = cs_generation (sd_snapshot st)
     \<and> validate_clock (sd_snapshot st) t m = Inr () \<and> lease_position (pl_id lease) (sd_leases st) = Some i"
  by (auto simp: validate_lease_request_def bind_result_eq_Inr ok_or_eq split: if_splits)

lemma moves_expired:
  assumes ok: "circuit_ok a pol st" and "validate_lease_request a lease t m st = Inr i"
    and "expire_probe i pol t m st = (r, st')"
  shows "moves a pol st st'"
proof -
  have "sd_leases st \<noteq> []" and clock: "validate_clock (sd_snapshot st) t m = Inr ()"
    using assms(2) by (auto simp: validate_lease_request_ok dest: lease_position_Some)
  then show ?thesis
    using assms(3) ok moves_reopened [OF ok _ clock]
    by (auto simp: expire_probe_def moves_refl split: sum.splits)
qed

lemma validate_probe_moves:
  assumes "circuit_inv c" and "validate_probe lease t m c = (r, c')"
  shows "circuit_moves c c'"
  using assms(1) assms(2) [unfolded validate_probe_def]
proof (rule with_circuit_moves)
  note ok = circuit_inv_parts [OF assms(1)]
  show "moves (ac_account_id c) (ac_policy c) (ac_state c) st'"
    if "bind_update (lift_result (validate_lease_request (ac_account_id c) lease t m)) (\<lambda>index st.
          if pl_expires_at lease \<le> m
          then bind_update (expire_probe index (ac_policy c) t m) (\<lambda>_ st'. (Inr (), st')) st
          else (Inr (), st)) (ac_state c) = (r, st')" for r st'
  proof (cases "validate_lease_request (ac_account_id c) lease t m (ac_state c)")
    case (Inl e)
    with that ok show ?thesis by (simp add: bind_update_def lift_result_def moves_refl)
  next
    case (Inr i)
    with that ok moves_expired [OF ok(1) Inr] show ?thesis
      by (auto simp: bind_update_def lift_result_def moves_refl split: if_splits prod.splits sum.splits)
  qed
qed

lemma complete_valid_probe_err:
  "complete_valid_probe i outcome t m pol st = (Inl e, st') \<Longrightarrow> st' = st"
  by (auto simp: complete_valid_probe_def split: sum.splits)

lemma complete_probe_moves:
  assumes "circuit_inv c" and "complete_probe lease outcome t m c = (r, c')"
  shows "circuit_moves c c'"
  using assms(1) assms(2) [unfolded complete_probe_def]
proof (rule with_circuit_moves)
  note ok = circuit_inv_parts [OF assms(1)]
  show "moves (ac_account_id c) (ac_policy c) (ac_state c) st'"
    if "bind_update (lift_result (validate_lease_request (ac_account_id c) lease t m)) (\<lambda>index st.
          if pl_expires_at lease \<le> m then expire_probe index (ac_policy c) t m st
          else bind_update (complete_valid_probe index outcome t m (ac_policy c))
                 (\<lambda>next st'. (Inr next, st'\<lparr>sd_snapshot := next\<rparr>)) st) (ac_state c) = (r, st')" for r st'
  proof (cases "validate_lease_request (ac_account_id c) lease t m (ac_state c)")
    case (Inl e)
    with that ok show ?thesis by (simp add: bind_update_def lift_result_def moves_refl)
  next
    case (Inr i)
    then have "validate_clock (sd_snapshot (ac_state c)) t m = Inr ()"
      and "lease_position (pl_id lease) (sd_leases (ac_state c)) = Some i"
      by (simp_all add: validate_lease_request_ok)
    with that Inr ok moves_expired [OF ok(1) Inr] moves_completed [OF ok] show ?thesis
      by (auto simp: bind_update_def lift_result_def moves_refl split: if_splits prod.splits sum.splits
          dest: complete_valid_probe_err)
  qed
qed

lemma moves_reset:
  assumes ok: "circuit_ok a pol st" and pol: "circuit_policy_ok pol"
    and clock: "validate_clock (sd_snapshot st) t m = Inr ()"
    and terminal: "cs_state (sd_snapshot st) = Terminal"
    and g: "unat g = Suc (unat (cs_generation (sd_snapshot st)))"
  shows "moves a pol st (st\<lparr>sd_leases := [], sd_snapshot :=
    (clear_recovery_state (advance_clock t m (sd_snapshot st)))\<lparr>cs_generation := g\<rparr>\<rparr>)"
proof -
  have "sd_leases st = []" using ok terminal by (auto simp: circuit_ok_def)
  then show ?thesis
    using ok terminal g clock failure_threshold_pos [OF pol]
    by (auto simp: moves_def circuit_ok_def breaker_of_def clear_recovery_state_def snapshot_ok_def
        validate_clock_ok intro: reinstated)
qed

lemma reset_moves:
  assumes "circuit_inv c" and "reset g t m c = (r, c')"
  shows "circuit_moves c c'"
  using assms(1) assms(2) [unfolded reset_def]
proof (rule with_circuit_moves)
  note ok = circuit_inv_parts [OF assms(1)]
  show "moves (ac_account_id c) (ac_policy c) (ac_state c) st'"
    if "(case (if cs_generation (sd_snapshot (ac_state c)) \<noteq> g then Inl GenerationConflict
          else bind_result (validate_clock (sd_snapshot (ac_state c)) t m) (\<lambda>_.
            if cs_state (sd_snapshot (ac_state c)) \<noteq> Terminal then Inl InvalidTransition
            else let next = clear_recovery_state (advance_clock t m (sd_snapshot (ac_state c)))
                 in bind_result (CircuitGeneration_next (cs_generation next)) (\<lambda>g.
                      Inr (next\<lparr>cs_generation := g\<rparr>)))) of
         Inl e \<Rightarrow> (Inl e, ac_state c)
       | Inr next \<Rightarrow> (Inr next, (ac_state c)\<lparr>sd_leases := [], sd_snapshot := next\<rparr>)) = (r, st')" for r st'
    using that ok moves_reset [OF ok]
    by (auto simp: bind_result_eq_Inr CircuitGeneration_next_ok clear_recovery_state_def Let_def
        moves_refl split: sum.splits if_splits)
qed

lemmas operation_moves =
  observe_moves acquire_probe_moves validate_probe_moves complete_probe_moves reset_moves

lemma circuit_step_moves:
  assumes "circuit_inv c" and "circuit_step c l c'"
  shows "circuit_moves c c'"
  using assms(2) operation_moves [OF assms(1), OF prod.collapse [symmetric]]
  by (cases l) (simp_all add: circuit_step_iff)

lemma AccountCircuit_new_inv: "circuit_policy_ok pol \<Longrightarrow> circuit_inv (AccountCircuit_new a pol)"
  using failure_threshold_pos [of pol]
  by (simp add: AccountCircuit_new_def CircuitSnapshot_initial_def circuit_inv_def circuit_ok_def
      snapshot_ok_def)

interpretation circuit: invariant_system circuit_init circuit_step circuit_inv
proof
  fix c l c'
  show "circuit_inv c" if "circuit_init c"
    using that AccountCircuit_new_inv [of "ac_policy c" "ac_account_id c"]
    unfolding circuit_init_def by metis
  show "circuit_inv c'" if "circuit_inv c" "circuit_step c l c'"
    using circuit_step_moves [OF that] that(1) by (simp add: circuit_inv_def circuit_moves_def moves_def)
qed

end
