(* ===== verification/Circuit_Properties.thy ===== *)
theory Circuit_Properties
  imports Circuit_Invariant
begin

text \<open>
  Properties of the account circuit over every reachable state, that is over every
  interleaving of calls by any number of threads, with leases that may be forged or stale.
\<close>

section \<open>A concrete circuit\<close>

text \<open>
  Threshold 2, one success to recover, a window of 10 and leases of 5 milliseconds, one probe.
  The circuit after two failures is open; after a probe at time 30 it is half open.
\<close>

definition ex_circuit_policy :: CircuitPolicy where
  "ex_circuit_policy =
     \<lparr>failure_threshold = 2, policy_recovery_successes = 1, recovery_window_millis = 10,
      probe_lease_millis = 5, max_half_open_probes = 1\<rparr>"

definition ex_observation :: "CircuitOutcome \<Rightarrow> u64 \<Rightarrow> CircuitObservation" where
  "ex_observation outcome t =
     \<lparr>co_account_id = ''a'', co_generation = 0, co_observed_at = t, co_monotonic = t,
      co_outcome = outcome\<rparr>"

definition ex_fresh :: AccountCircuit where
  "ex_fresh = AccountCircuit_new ''a'' ex_circuit_policy"

definition ex_circuit :: "CircuitSnapshot \<Rightarrow> LeaseRecord list \<Rightarrow> u64 \<Rightarrow> AccountCircuit" where
  "ex_circuit s ls n =
     \<lparr>ac_account_id = ''a'', ac_policy = ex_circuit_policy, ac_poisoned = False,
      ac_state = \<lparr>sd_snapshot = s, sd_leases = ls, sd_next_lease_id = n\<rparr>\<rparr>"

definition ex_failed :: AccountCircuit where
  "ex_failed = ex_circuit
     \<lparr>cs_account_id = ''a'', cs_generation = 0, cs_state = Closed, consecutive_failures = 1,
      recovery_successes = 0, half_open_in_flight = 0, opened_at = None,
      recovery_eligible_at = None, last_observed_at = Some 10, last_monotonic = Some 10\<rparr> [] 1"

definition ex_open :: AccountCircuit where
  "ex_open = ex_circuit
     \<lparr>cs_account_id = ''a'', cs_generation = 1, cs_state = Open, consecutive_failures = 2,
      recovery_successes = 0, half_open_in_flight = 0, opened_at = Some 15,
      recovery_eligible_at = Some 25, last_observed_at = Some 15, last_monotonic = Some 15\<rparr> [] 1"

definition ex_probing :: AccountCircuit where
  "ex_probing = ex_circuit
     \<lparr>cs_account_id = ''a'', cs_generation = 1, cs_state = HalfOpen, consecutive_failures = 2,
      recovery_successes = 0, half_open_in_flight = 1, opened_at = Some 15,
      recovery_eligible_at = Some 25, last_observed_at = Some 30, last_monotonic = Some 30\<rparr>
     [\<lparr>lr_id = 1, lr_expires_at = 35\<rparr>] 2"

definition ex_terminal :: AccountCircuit where
  "ex_terminal = ex_circuit
     \<lparr>cs_account_id = ''a'', cs_generation = 1, cs_state = Terminal, consecutive_failures = 2,
      recovery_successes = 0, half_open_in_flight = 0, opened_at = Some 10,
      recovery_eligible_at = None, last_observed_at = Some 10, last_monotonic = Some 10\<rparr> [] 1"

definition ex_probe :: ProbeLease where
  "ex_probe = \<lparr>pl_account_id = ''a'', pl_generation = 1, pl_id = 1, pl_issued_at = 30,
               pl_expires_at = 35\<rparr>"

lemmas circuit_exec =
  observe_def acquire_probe_def complete_probe_def validate_probe_def reset_def with_circuit_def
  validate_observation_def validate_clock_def next_closed_snapshot_def advance_clock_def
  mark_open_def mark_terminal_def fail_closed_def clear_recovery_state_def
  transition_to_half_open_def close_recovered_circuit_def apply_probe_outcome_def
  CircuitGeneration_next_def checked_add_def validate_probe_admission_def validate_probe_state_def
  validate_recovery_window_def validate_probe_capacity_def prepare_probe_lease_def
  MonotonicMillis_new_def admit_probe_def reclaim_expired_leases_def validate_lease_request_def
  expire_probe_def complete_valid_probe_def remove_at_def bind_update_def lift_result_def Let_def
  AccountCircuit_new_def CircuitSnapshot_initial_def CircuitGeneration_initial_def ex_circuit_def word_le_nat_alt word_less_nat_alt

lemmas ex_circuit_defs =
  ex_circuit_policy_def ex_observation_def ex_fresh_def ex_open_def ex_probing_def ex_probe_def
  ex_failed_def ex_terminal_def

lemma ex_circuit_policy_ok: "circuit_policy_ok ex_circuit_policy"
  by (simp add: circuit_policy_ok_def ex_circuit_policy_def MAX_THRESHOLD_def MAX_WINDOW_MILLIS_def
      MAX_LEASE_MILLIS_def MAX_PROBES_def)

lemma ex_fresh_init: "circuit_init ex_fresh"
  by (simp add: circuit_init_def ex_fresh_def AccountCircuit_new_def ex_circuit_policy_ok)

lemma ex_circuit_calls:
  "snd (observe (ex_observation RetryableFailure 10) ex_fresh) = ex_failed"
  "snd (observe (ex_observation RetryableFailure 15) ex_failed) = ex_open"
  "acquire_probe 1 30 30 ex_open = (Inr ex_probe, ex_probing)"
  "snd (observe (ex_observation TerminalFailure 10) ex_fresh) = ex_terminal"
  by (simp_all add: circuit_exec ex_circuit_defs)

lemma ex_circuit_steps:
  "circuit_step ex_fresh (Observe (ex_observation RetryableFailure 10)) ex_failed"
  "circuit_step ex_failed (Observe (ex_observation RetryableFailure 15)) ex_open"
  "circuit_step ex_open (AcquireProbe 1 30 30) ex_probing"
  "circuit_step ex_fresh (Observe (ex_observation TerminalFailure 10)) ex_terminal"
  by (simp_all add: circuit_step_iff ex_circuit_calls)

lemma ex_circuit_reachable:
  "reachable circuit_init circuit_step ex_fresh" "reachable circuit_init circuit_step ex_open"
  "reachable circuit_init circuit_step ex_probing" "reachable circuit_init circuit_step ex_terminal"
  using reachable_init [of circuit_init, OF ex_fresh_init] ex_circuit_steps
  by (blast intro: reachable_step)+

lemma reachable_circuit_inv: "reachable circuit_init circuit_step c \<Longrightarrow> circuit_inv c"
  by (rule circuit.reachable_inv)

section \<open>Safety\<close>

text \<open>
  Probes are bounded. In every reachable state the leases outstanding number at most the
  policy's maximum, the published in-flight counter is their number, and there are none unless
  the circuit is half open.
\<close>

theorem probes_are_bounded:
  assumes "reachable circuit_init circuit_step c"
  shows "unat (half_open_in_flight (sd_snapshot (ac_state c))) = length (sd_leases (ac_state c))
    \<and> length (sd_leases (ac_state c)) \<le> unat (max_half_open_probes (ac_policy c))
    \<and> (sd_leases (ac_state c) \<noteq> [] \<longrightarrow> cs_state (sd_snapshot (ac_state c)) = HalfOpen)"
  using reachable_circuit_inv [OF assms] by (simp add: circuit_inv_def circuit_ok_def)

theorem probes_are_bounded_witness:
  "length (sd_leases (ac_state ex_probing)) = 1 \<and> (1 :: nat) \<le> unat (max_half_open_probes ex_circuit_policy)"
  using probes_are_bounded [OF ex_circuit_reachable(3)] by (simp add: ex_probing_def ex_circuit_def)

text \<open>
  C21: The circuit implements the abstract breaker: every call from every reachable state is a
  step of \<open>breaker_step\<close> on the phase, the generation and the number of probes in flight, or
  leaves them as they are. In particular every change of phase except the first probe's advances
  the generation by exactly one.
\<close>

theorem circuit_refines_breaker:
  assumes "reachable circuit_init circuit_step c" and "circuit_step c l c'"
  shows "breaker_step (unat (max_half_open_probes (ac_policy c)))
    (breaker_of (ac_state c)) (breaker_of (ac_state c'))"
  using circuit_step_moves [OF reachable_circuit_inv [OF assms(1)] assms(2)]
  by (simp add: circuit_moves_def moves_def)

theorem circuit_refines_breaker_witness:
  "circuit_step ex_open (AcquireProbe 1 30 30) ex_probing \<and>
   breaker_step 1 (breaker_of (ac_state ex_open)) (breaker_of (ac_state ex_probing))"
  using circuit_refines_breaker [OF ex_circuit_reachable(2) ex_circuit_steps(3)] ex_circuit_steps(3)
  by (simp add: ex_open_def ex_circuit_def ex_circuit_policy_def)

text \<open>
  A terminal circuit stays terminal under every call except an administrative reset against
  its current generation, which closes it and advances the generation.
\<close>

theorem terminal_left_only_by_reset:
  assumes "reachable circuit_init circuit_step c" and "cs_state (sd_snapshot (ac_state c)) = Terminal"
    and "circuit_step c l c'" and "cs_state (sd_snapshot (ac_state c')) \<noteq> Terminal"
  shows "(\<exists>t m. l = Reset (cs_generation (sd_snapshot (ac_state c))) t m)
    \<and> cs_state (sd_snapshot (ac_state c')) = Closed
    \<and> unat (cs_generation (sd_snapshot (ac_state c'))) = Suc (unat (cs_generation (sd_snapshot (ac_state c))))"
proof -
  let ?st = "ac_state c"
  have inv: "circuit_inv c" by (rule reachable_circuit_inv [OF assms(1)])
  have none: "sd_leases ?st = []"
    using inv assms(2) by (auto simp: circuit_inv_def circuit_ok_def)
  have "cs_state (sd_snapshot (ac_state c')) = Closed
    \<and> unat (cs_generation (sd_snapshot (ac_state c'))) = Suc (unat (cs_generation (sd_snapshot ?st)))"
    using circuit_step_moves [OF inv assms(3)] assms(2,4)
    by (auto simp: circuit_moves_def moves_def breaker_of_def breaker_step_from_Terminal)
  moreover have "\<exists>t m. l = Reset (cs_generation (sd_snapshot ?st)) t m"
  proof (cases l)
    case (Observe obs)
    then have "ac_state c' = ?st"
      using assms(2,3)
      by (auto simp: circuit_step_iff observe_def with_circuit_def bind_result_def split: sum.splits)
    with assms(2,4) show ?thesis by simp
  next
    case (AcquireProbe g t m)
    then have "ac_state c' = ?st"
      using assms(2,3) none
      by (auto simp: circuit_step_iff acquire_probe_def with_circuit_def bind_update_def lift_result_def
          reclaim_expired_leases_def admit_probe_def validate_probe_admission_def
          validate_probe_state_def split: sum.splits prod.splits)
    with assms(2,4) show ?thesis by simp
  next
    case (ValidateProbe lease t m)
    then have "ac_state c' = ?st"
      using assms(3) none
      by (auto simp: circuit_step_iff validate_probe_def with_circuit_def bind_update_def
          lift_result_def validate_lease_request_def bind_result_def split: sum.splits)
    with assms(2,4) show ?thesis by simp
  next
    case (CompleteProbe lease outcome t m)
    then have "ac_state c' = ?st"
      using assms(3) none
      by (auto simp: circuit_step_iff complete_probe_def with_circuit_def bind_update_def
          lift_result_def validate_lease_request_def bind_result_def split: sum.splits)
    with assms(2,4) show ?thesis by simp
  next
    case (Reset g t m)
    then have "g = cs_generation (sd_snapshot ?st)"
      using assms(2-4) by (auto simp: circuit_step_iff reset_def with_circuit_def split: if_splits)
    with Reset show ?thesis by blast
  qed
  ultimately show ?thesis by blast
qed

theorem terminal_left_only_by_reset_witness:
  "cs_state (sd_snapshot (ac_state (snd (reset 1 20 20 ex_terminal)))) = Closed \<and>
   unat (cs_generation (sd_snapshot (ac_state (snd (reset 1 20 20 ex_terminal))))) = 2"
proof -
  have step: "circuit_step ex_terminal (Reset 1 20 20) (snd (reset 1 20 20 ex_terminal))"
    by (simp add: circuit_step_iff)
  have "cs_state (sd_snapshot (ac_state (snd (reset 1 20 20 ex_terminal)))) \<noteq> Terminal"
    by (simp add: circuit_exec ex_circuit_defs)
  then show ?thesis
    using terminal_left_only_by_reset [OF ex_circuit_reachable(4) _ step]
    by (simp add: ex_terminal_def ex_circuit_def)
qed

text \<open>A lease that has been issued and is no longer outstanding.\<close>

definition spent :: "ProbeLeaseId \<Rightarrow> AccountCircuit \<Rightarrow> bool" where
  "spent i c \<longleftrightarrow>
     i < sd_next_lease_id (ac_state c) \<and> i \<notin> lr_id ` set (sd_leases (ac_state c))"

lemma spent_step:
  assumes "circuit_inv c" and "circuit_step c l c'" and "spent i c"
  shows "spent i c'"
  using circuit_step_moves [OF assms(1,2)] assms(3)
  by (fastforce simp: circuit_moves_def moves_def spent_def)

lemma spent_run:
  assumes "run circuit_step c ls c'" and "circuit_inv c" and "spent i c"
  shows "spent i c'"
  using assms by (induction rule: run.induct) (auto intro: spent_step circuit.step_inv)

lemma complete_probe_spent:
  assumes "spent (pl_id lease) c"
  shows "\<exists>e. complete_probe lease outcome t m c = (Inl e, c)"
  using assms
  by (auto simp: spent_def complete_probe_def with_circuit_def bind_update_def lift_result_def
      validate_lease_request_def bind_result_def lease_position_None [THEN iffD2] split: sum.splits)

lemma complete_probe_spends:
  assumes inv: "circuit_inv c" and ok: "complete_probe lease outcome t m c = (Inr s, c')"
  shows "spent (pl_id lease) c'"
proof -
  let ?st = "ac_state c"
  obtain i where i: "lease_position (pl_id lease) (sd_leases ?st) = Some i"
    and c': "ac_state c' = (snd (complete_valid_probe i outcome t m (ac_policy c) ?st))\<lparr>sd_snapshot := s\<rparr>"
    and v: "fst (complete_valid_probe i outcome t m (ac_policy c) ?st) = Inr s"
    using ok
    by (cases "validate_lease_request (ac_account_id c) lease t m ?st")
      (auto simp: complete_probe_def with_circuit_def bind_update_def lift_result_def
        validate_lease_request_ok expire_probe_def split: if_splits sum.splits prod.splits)
  have lt: "i < length (sd_leases ?st)" "lr_id (sd_leases ?st ! i) = pl_id lease"
    using lease_position_Some [OF i] by auto
  have d: "distinct (map lr_id (sd_leases ?st))" "\<forall>l \<in> set (sd_leases ?st). lr_id l < sd_next_lease_id ?st"
    using inv by (auto simp: circuit_inv_def circuit_ok_def)
  have "pl_id lease \<notin> lr_id ` set (remove_at i (sd_leases ?st))"
    using remove_at_distinct(2) [OF d(1), of i] lt by (simp flip: map_remove_at)
  moreover have "pl_id lease < sd_next_lease_id ?st" using d(2) lt nth_mem by metis
  ultimately show ?thesis
    using c' v by (auto simp: spent_def complete_valid_probe_def split: sum.splits if_splits)
qed

text \<open>
  C39: A probe lease is answered at most once. After a completion was accepted, completing the
  same lease is refused without effect in every later state, whatever calls came in between.
\<close>

theorem probe_answered_at_most_once:
  assumes "reachable circuit_init circuit_step c"
    and "complete_probe lease outcome t m c = (Inr s, c1)" and "run circuit_step c1 calls c2"
  shows "\<exists>e. complete_probe lease outcome' t' m' c2 = (Inl e, c2)"
proof -
  have inv: "circuit_inv c" by (rule reachable_circuit_inv [OF assms(1)])
  have "circuit_inv c1"
    using circuit.step_inv [OF inv, of "CompleteProbe lease outcome t m"] assms(2)
    by (simp add: circuit_step_iff)
  then have "spent (pl_id lease) c2"
    using spent_run [OF assms(3)] complete_probe_spends [OF inv assms(2)] by blast
  then show ?thesis by (rule complete_probe_spent)
qed

theorem probe_answered_at_most_once_witness:
  "\<exists>s c1. complete_probe ex_probe Success 32 32 ex_probing = (Inr s, c1) \<and>
     (\<exists>e. complete_probe ex_probe Success 33 33 c1 = (Inl e, c1))"
proof -
  obtain s c1 where "complete_probe ex_probe Success 32 32 ex_probing = (Inr s, c1)"
    by (simp add: circuit_exec ex_circuit_defs)
  with probe_answered_at_most_once [OF ex_circuit_reachable(3) this, of "[]" c1] show ?thesis
    by (auto simp: run_nil)
qed

section \<open>Errors\<close>

text \<open>
  A rejected call leaves the circuit exactly as it was: any error of \<open>observe\<close> and \<open>reset\<close>,
  and any error but an expired lease of the probe operations.
\<close>

theorem rejected_calls_change_nothing:
  shows "(\<forall>e c'. observe obs c = (Inl e, c') \<longrightarrow> c' = c)
    \<and> (\<forall>e c'. reset g t m c = (Inl e, c') \<longrightarrow> c' = c)
    \<and> (\<forall>e c'. acquire_probe g t m c = (Inl e, c') \<and> e \<noteq> ProbeLeaseExpired \<longrightarrow> c' = c)
    \<and> (\<forall>e c'. validate_probe lease t m c = (Inl e, c') \<and> e \<noteq> ProbeLeaseExpired \<longrightarrow> c' = c)
    \<and> (\<forall>e c'. complete_probe lease outcome t m c = (Inl e, c') \<and> e \<noteq> ProbeLeaseExpired \<longrightarrow> c' = c)"
proof (intro conjI allI impI)
  fix e c'
  show "c' = c" if "observe obs c = (Inl e, c')"
    using that by (auto simp: observe_def with_circuit_def split: if_splits sum.splits)
  show "c' = c" if "reset g t m c = (Inl e, c')"
    using that by (auto simp: reset_def with_circuit_def split: if_splits sum.splits)
  show "c' = c" if "acquire_probe g t m c = (Inl e, c') \<and> e \<noteq> ProbeLeaseExpired"
    using that by (auto simp: acquire_probe_def with_circuit_def bind_update_def lift_result_def
        reclaim_expired_leases_def admit_probe_def Let_def split: if_splits sum.splits prod.splits)
  show "c' = c" if "validate_probe lease t m c = (Inl e, c') \<and> e \<noteq> ProbeLeaseExpired"
    using that by (auto simp: validate_probe_def with_circuit_def bind_update_def lift_result_def
        expire_probe_def split: if_splits sum.splits prod.splits)
  show "c' = c" if "complete_probe lease outcome t m c = (Inl e, c') \<and> e \<noteq> ProbeLeaseExpired"
    using that by (auto simp: complete_probe_def with_circuit_def bind_update_def lift_result_def
        expire_probe_def complete_valid_probe_def split: if_splits sum.splits prod.splits)
qed

theorem rejected_calls_change_nothing_witness:
  "snd (acquire_probe 1 20 20 ex_open) = ex_open"
proof -
  obtain c' where r: "acquire_probe 1 20 20 ex_open = (Inl RecoveryWindowClosed, c')"
    by (simp add: circuit_exec ex_circuit_defs)
  then have "c' = ex_open"
    using rejected_calls_change_nothing [of undefined ex_open 1 20 20] by blast
  with r show ?thesis by simp
qed

text \<open>
  An expired probe reopens the circuit. When any outstanding lease has expired, an acquisition
  at the current generation with an ordered clock (and no 64-bit overflow) issues no lease: it
  reports the expiry, discards every lease, opens a new recovery window at the observed time and
  advances the generation.
\<close>

theorem expired_probe_reopens:
  assumes "reachable circuit_init circuit_step c" and "\<not> ac_poisoned c"
    and "s = sd_snapshot (ac_state c)" and "validate_clock s t m = Inr ()"
    and "l \<in> set (sd_leases (ac_state c))" and "lr_expires_at l \<le> m"
    and "unat t + unat (recovery_window_millis (ac_policy c)) < 2 ^ 64"
    and "unat (cs_generation s) + 1 < 2 ^ 64"
  shows "acquire_probe (cs_generation s) t m c =
    (Inl ProbeLeaseExpired, c\<lparr>ac_state := (ac_state c)\<lparr>sd_leases := [], sd_snapshot :=
       s\<lparr>cs_generation := cs_generation s + 1, cs_state := Open, recovery_successes := 0,
         half_open_in_flight := 0, opened_at := Some t,
         recovery_eligible_at := Some (t + recovery_window_millis (ac_policy c)),
         last_observed_at := Some t, last_monotonic := Some m\<rparr>\<rparr>\<rparr>)"
proof -
  have "list_ex (\<lambda>l. lr_expires_at l \<le> m) (sd_leases (ac_state c))"
    using assms(5,6) by (auto simp: list_ex_iff)
  with assms show ?thesis
    by (simp add: acquire_probe_def with_circuit_def bind_update_def lift_result_def
        reclaim_expired_leases_def fail_closed_def mark_open_def advance_clock_def
        CircuitGeneration_next_def checked_add_def)
qed

theorem expired_probe_reopens_witness:
  "fst (acquire_probe 1 40 40 ex_probing) = Inl ProbeLeaseExpired \<and>
   cs_state (sd_snapshot (ac_state (snd (acquire_probe 1 40 40 ex_probing)))) = Open"
  using expired_probe_reopens [OF ex_circuit_reachable(3) _ refl, of 40 40 "\<lparr>lr_id = 1, lr_expires_at = 35\<rparr>"]
  by (simp add: ex_probing_def ex_circuit_def validate_clock_def ex_circuit_policy_def)

section \<open>Recovery and tripping\<close>

text \<open>
  A probe is admitted only when the recovery window has elapsed, and then exactly one: the
  circuit was open or half open, its window of \<open>recovery_window_millis\<close> since it opened is over,
  fewer probes than the maximum were in flight, no outstanding lease had expired, and the lease
  has a fresh identity, the current generation and an expiry of the lease time from now.
\<close>

theorem probe_only_after_recovery_window:
  assumes "reachable circuit_init circuit_step c" and "acquire_probe g t m c = (Inr lease, c')"
  shows "cs_state (sd_snapshot (ac_state c)) \<in> {Open, HalfOpen}
    \<and> (\<exists>t0. opened_at (sd_snapshot (ac_state c)) = Some t0
         \<and> unat t0 + unat (recovery_window_millis (ac_policy c)) \<le> unat t)
    \<and> length (sd_leases (ac_state c)) < unat (max_half_open_probes (ac_policy c))
    \<and> (\<forall>l \<in> set (sd_leases (ac_state c)). lr_id l < pl_id lease \<and> m < lr_expires_at l)
    \<and> pl_generation lease = g \<and> cs_generation (sd_snapshot (ac_state c')) = g
    \<and> unat (pl_expires_at lease) = unat m + unat (probe_lease_millis (ac_policy c))
    \<and> sd_leases (ac_state c') =
        sd_leases (ac_state c) @ [\<lparr>lr_id = pl_id lease, lr_expires_at = pl_expires_at lease\<rparr>]"
proof -
  let ?st = "ac_state c"
  have ok: "circuit_ok (ac_account_id c) (ac_policy c) ?st"
    by (rule circuit_inv_parts(1) [OF reachable_circuit_inv [OF assms(1)]])
  have live: "\<not> list_ex (\<lambda>l. lr_expires_at l \<le> m) (sd_leases ?st)"
    and g: "cs_generation (sd_snapshot ?st) = g"
    and adm: "admit_probe (ac_account_id c) (ac_policy c) t m ?st = (Inr lease, ac_state c')"
    using assms(2)
    by (auto simp: acquire_probe_def with_circuit_def bind_update_def lift_result_def
        reclaim_expired_leases_def split: if_splits sum.splits prod.splits)
  from adm show ?thesis
  proof (cases rule: admit_probe_cases)
    case (admitted n' e s')
    then show ?thesis
      using ok live g
      by (auto simp: validate_probe_admission_ok circuit_ok_def snapshot_ok_def list_ex_iff not_le
          word_le_nat_alt word_less_nat_alt transition_to_half_open_def)
  qed simp
qed

theorem probe_only_after_recovery_window_witness:
  "acquire_probe 1 30 30 ex_open = (Inr ex_probe, ex_probing) \<and>
   (\<exists>t0. opened_at (sd_snapshot (ac_state ex_open)) = Some t0
      \<and> unat t0 + unat (recovery_window_millis ex_circuit_policy) \<le> 30)"
  using probe_only_after_recovery_window [OF ex_circuit_reachable(2) ex_circuit_calls(3)] ex_circuit_calls(3)
  by (simp add: ex_open_def ex_circuit_def)

text \<open>
  The specification of the closed phase: how many retryable failures came since the last success,
  outcomes without evidence counting neither way.
\<close>

fun count_outcome :: "nat \<Rightarrow> CircuitOutcome \<Rightarrow> nat" where
  "count_outcome n Success = 0"
| "count_outcome n Neutral = n"
| "count_outcome n RetryableFailure = Suc n"
| "count_outcome n TerminalFailure = n"

definition failure_streak :: "CircuitOutcome list \<Rightarrow> nat" where
  "failure_streak outcomes = foldl count_outcome 0 outcomes"

definition observe_all ::
  "CircuitObservation list \<Rightarrow> (AccountCircuit, AccountCircuitError, unit) update" where
  "observe_all = for_each (\<lambda>obs. bind_update (observe obs) (\<lambda>_ c. (Inr (), c)))"

text \<open>What the closed phase keeps, for a streak of \<open>n\<close> failures.\<close>

definition streak_inv :: "nat \<Rightarrow> AccountCircuit \<Rightarrow> bool" where
  "streak_inv n c \<longleftrightarrow>
     cs_state (sd_snapshot (ac_state c)) = Closed
     \<and> unat (consecutive_failures (sd_snapshot (ac_state c))) = n
     \<and> n < unat (failure_threshold (ac_policy c))"

lemma observe_accepted_closed:
  "observe obs c = (Inr s, c') \<Longrightarrow> cs_state (sd_snapshot (ac_state c)) = Closed"
  by (auto simp: observe_def with_circuit_def bind_result_def split: if_splits sum.splits)

lemma observe_streak:
  assumes inv: "streak_inv n c" and obs: "observe obs c = (Inr s, c')"
  shows "ac_policy c' = ac_policy c
    \<and> (streak_inv (count_outcome n (co_outcome obs)) c' \<and> co_outcome obs \<noteq> TerminalFailure
       \<or> cs_state (sd_snapshot (ac_state c')) = Open
         \<and> count_outcome n (co_outcome obs) = unat (failure_threshold (ac_policy c))
         \<and> co_outcome obs = RetryableFailure
       \<or> cs_state (sd_snapshot (ac_state c')) = Terminal \<and> co_outcome obs = TerminalFailure)"
proof -
  have s: "next_closed_snapshot (sd_snapshot (ac_state c)) obs (ac_policy c) = Inr s"
    and c': "c' = c\<lparr>ac_state := (ac_state c)\<lparr>sd_snapshot := s\<rparr>\<rparr>"
    using obs by (auto simp: observe_def with_circuit_def bind_result_def split: if_splits sum.splits)
  let ?s = "sd_snapshot (ac_state c)"
  obtain s1 where s1: "apply_closed_outcome (co_outcome obs) (ac_policy c)
      (advance_clock (co_observed_at obs) (co_monotonic obs) ?s) = Inr s1"
    and same: "cs_state s = cs_state s1" "consecutive_failures s = consecutive_failures s1"
    using s by (auto simp: next_closed_snapshot_def bind_result_eq_Inr split: if_splits)
  have n: "cs_state ?s = Closed" "unat (consecutive_failures ?s) = n" "n < unat (failure_threshold (ac_policy c))"
    using inv by (simp_all add: streak_inv_def)
  show ?thesis
  proof (cases "co_outcome obs")
    case Success
    with s1 same n show ?thesis by (auto simp: streak_inv_def c')
  next
    case Neutral
    with s1 same n show ?thesis by (auto simp: streak_inv_def c')
  next
    case RetryableFailure
    then obtain k where k: "unat k = Suc n"
      "(if failure_threshold (ac_policy c) \<le> k then mark_open (ac_policy c)
          ((advance_clock (co_observed_at obs) (co_monotonic obs) ?s)\<lparr>consecutive_failures := k\<rparr>)
        else Inr ((advance_clock (co_observed_at obs) (co_monotonic obs) ?s)\<lparr>consecutive_failures := k\<rparr>)) = Inr s1"
      using s1 n(2) by (auto simp: bind_result_eq_Inr ok_or_eq checked_add_eq_Some Let_def)
    show ?thesis
    proof (cases "failure_threshold (ac_policy c) \<le> k")
      case True
      with k have "cs_state s1 = Open" by (auto simp: mark_open_ok)
      with True RetryableFailure k(1) n(3) same show ?thesis by (simp add: c' word_le_nat_alt)
    next
      case False
      with k RetryableFailure n same show ?thesis by (auto simp: c' streak_inv_def word_le_nat_alt)
    qed
  next
    case TerminalFailure
    with s1 same show ?thesis by (auto simp: c')
  qed
qed

lemma observe_all_streak:
  assumes "streak_inv n c" and "observe_all obss c = (Inr u, c')"
  shows "ac_policy c' = ac_policy c
    \<and> (streak_inv (foldl count_outcome n (map co_outcome obss)) c'
      \<or> cs_state (sd_snapshot (ac_state c')) = Open
        \<and> foldl count_outcome n (map co_outcome obss) = unat (failure_threshold (ac_policy c))
      \<or> cs_state (sd_snapshot (ac_state c')) = Terminal
        \<and> obss \<noteq> [] \<and> co_outcome (last obss) = TerminalFailure)"
  using assms
proof (induction obss arbitrary: n c)
  case Nil
  then show ?case by (simp add: observe_all_def)
next
  case (Cons obs obss)
  obtain s c1 where o: "observe obs c = (Inr s, c1)" and rest: "observe_all obss c1 = (Inr u, c')"
    using Cons.prems(2) by (auto simp: observe_all_def bind_update_eq_Inr)
  note first = observe_streak [OF Cons.prems(1) o]
  show ?case
  proof (cases "cs_state (sd_snapshot (ac_state c1)) = Closed")
    case True
    then have "streak_inv (count_outcome n (co_outcome obs)) c1" using first by auto
    from Cons.IH [OF this rest] first show ?thesis by auto
  next
    case False
    have "obss = []"
    proof (cases obss)
      case (Cons obs2 obss2)
      then show ?thesis
        using rest False by (auto simp: observe_all_def bind_update_eq_Inr dest: observe_accepted_closed)
    qed simp
    then show ?thesis using rest first False by (auto simp: observe_all_def)
  qed
qed

text \<open>
  A fresh circuit trips exactly on a streak of failures. After any sequence of accepted
  observations it is closed with fewer failures since the last success than the threshold, or open
  with exactly the threshold, or terminal because the last outcome was terminal.
\<close>

theorem trips_exactly_on_failure_streak:
  assumes "circuit_policy_ok pol" and "observe_all obss (AccountCircuit_new a pol) = (Inr u, c)"
  shows "(cs_state (sd_snapshot (ac_state c)) = Closed
      \<and> unat (consecutive_failures (sd_snapshot (ac_state c))) = failure_streak (map co_outcome obss)
      \<and> failure_streak (map co_outcome obss) < unat (failure_threshold pol))
    \<or> (cs_state (sd_snapshot (ac_state c)) = Open
      \<and> failure_streak (map co_outcome obss) = unat (failure_threshold pol))
    \<or> (cs_state (sd_snapshot (ac_state c)) = Terminal
      \<and> obss \<noteq> [] \<and> co_outcome (last obss) = TerminalFailure)"
proof -
  have "streak_inv 0 (AccountCircuit_new a pol)"
    using failure_threshold_pos [OF assms(1)]
    by (simp add: streak_inv_def AccountCircuit_new_def CircuitSnapshot_initial_def word_less_nat_alt)
  from observe_all_streak [OF this assms(2)] show ?thesis
    by (auto simp: streak_inv_def failure_streak_def AccountCircuit_new_def)
qed

theorem trips_exactly_on_failure_streak_witness:
  "observe_all [ex_observation RetryableFailure 10, ex_observation RetryableFailure 15] ex_fresh = (Inr (), ex_open)
   \<and> failure_streak [RetryableFailure, RetryableFailure] = unat (failure_threshold ex_circuit_policy)"
proof -
  have all: "observe_all [ex_observation RetryableFailure 10, ex_observation RetryableFailure 15] ex_fresh =
      (Inr (), ex_open)"
    by (simp add: observe_all_def circuit_exec ex_circuit_defs)
  show ?thesis
    using trips_exactly_on_failure_streak [OF ex_circuit_policy_ok all [unfolded ex_fresh_def]] all
    by (simp add: ex_open_def ex_circuit_def ex_observation_def)
qed

end
