(* ===== verification/Circuit_Book.thy ===== *)
theory Circuit_Book
  imports Account_Circuit
begin

text \<open>
  Publication of circuit snapshots, \<open>ariadnion-account-circuit/src/snapshot_book.rs\<close>: a
  complete, duplicate-free set of account snapshots in account order, resolved by binary
  search, and the book that replaces it generation by generation. \<open>sort_unstable_by\<close> may
  order equal accounts either way; a set with equal accounts is rejected right after, so the
  stable \<open>sort_key\<close> stands for it.
\<close>

definition MAX_CIRCUIT_SNAPSHOTS :: nat where "MAX_CIRCUIT_SNAPSHOTS = 131072"

datatype CircuitSnapshotBookErrorCode =
    DuplicateAccount
  | CapacityExceeded
  | BookGenerationConflict
  | BookVersionExhausted
  | BookStateUnavailable

fun CircuitSnapshotBookErrorCode_as_str :: "CircuitSnapshotBookErrorCode \<Rightarrow> string" where
  "CircuitSnapshotBookErrorCode_as_str DuplicateAccount =
     ''ACCOUNT_CIRCUIT_SNAPSHOT_DUPLICATE_ACCOUNT''"
| "CircuitSnapshotBookErrorCode_as_str CapacityExceeded =
     ''ACCOUNT_CIRCUIT_SNAPSHOT_CAPACITY_EXCEEDED''"
| "CircuitSnapshotBookErrorCode_as_str BookGenerationConflict =
     ''ACCOUNT_CIRCUIT_SNAPSHOT_GENERATION_CONFLICT''"
| "CircuitSnapshotBookErrorCode_as_str BookVersionExhausted =
     ''ACCOUNT_CIRCUIT_SNAPSHOT_VERSION_EXHAUSTED''"
| "CircuitSnapshotBookErrorCode_as_str BookStateUnavailable =
     ''ACCOUNT_CIRCUIT_SNAPSHOT_STATE_UNAVAILABLE''"

type_synonym CircuitSnapshotBookError = CircuitSnapshotBookErrorCode
type_synonym CircuitSnapshotBookGeneration = u64

definition BookGeneration_initial :: CircuitSnapshotBookGeneration where
  "BookGeneration_initial = 0"

definition BookGeneration_next ::
  "CircuitSnapshotBookGeneration \<Rightarrow> (CircuitSnapshotBookError, CircuitSnapshotBookGeneration) result"
where
  "BookGeneration_next g = ok_or BookVersionExhausted (checked_add g 1)"

record CircuitSnapshotBookSnapshot =
  bs_generation :: CircuitSnapshotBookGeneration
  bs_snapshots :: "CircuitSnapshot list"

text \<open>\<open>windows(2).any(|pair| pair[0].account_id() == pair[1].account_id())\<close>.\<close>

fun adjacent_duplicate :: "CircuitSnapshot list \<Rightarrow> bool" where
  "adjacent_duplicate (x # y # ys) = (cs_account_id x = cs_account_id y \<or> adjacent_duplicate (y # ys))"
| "adjacent_duplicate _ = False"

definition CircuitSnapshotBookSnapshot_new ::
  "CircuitSnapshotBookGeneration \<Rightarrow> CircuitSnapshot list \<Rightarrow>
     (CircuitSnapshotBookError, CircuitSnapshotBookSnapshot) result" where
  "CircuitSnapshotBookSnapshot_new generation snapshots =
     (if MAX_CIRCUIT_SNAPSHOTS < length snapshots then Inl CapacityExceeded
      else let sorted_snapshots = sort_key cs_account_id snapshots
           in if adjacent_duplicate sorted_snapshots then Inl DuplicateAccount
              else Inr \<lparr>bs_generation = generation, bs_snapshots = sorted_snapshots\<rparr>)"

definition book_len :: "CircuitSnapshotBookSnapshot \<Rightarrow> nat" where
  "book_len s = length (bs_snapshots s)"

definition book_is_empty :: "CircuitSnapshotBookSnapshot \<Rightarrow> bool" where
  "book_is_empty s \<longleftrightarrow> bs_snapshots s = []"

definition book_account :: "CircuitSnapshotBookSnapshot \<Rightarrow> AccountId \<Rightarrow> CircuitSnapshot option" where
  "book_account s account_id =
     map_option (\<lambda>index. bs_snapshots s ! index)
       (binary_search (map cs_account_id (bs_snapshots s)) account_id)"

record CircuitSnapshotBook =
  sb_poisoned :: bool
  sb_current :: CircuitSnapshotBookSnapshot

definition CircuitSnapshotBook_from_snapshot ::
  "CircuitSnapshotBookSnapshot \<Rightarrow> CircuitSnapshotBook" where
  "CircuitSnapshotBook_from_snapshot s = \<lparr>sb_poisoned = False, sb_current = s\<rparr>"

definition CircuitSnapshotBook_new ::
  "CircuitSnapshot list \<Rightarrow> (CircuitSnapshotBookError, CircuitSnapshotBook) result" where
  "CircuitSnapshotBook_new snapshots =
     bind_result (CircuitSnapshotBookSnapshot_new BookGeneration_initial snapshots) (\<lambda>s.
       Inr (CircuitSnapshotBook_from_snapshot s))"

definition CircuitSnapshotBook_publish ::
  "CircuitSnapshotBook \<Rightarrow> CircuitSnapshotBookGeneration \<Rightarrow> CircuitSnapshotBookSnapshot \<Rightarrow>
     (CircuitSnapshotBookError, CircuitSnapshotBookSnapshot) result \<times> CircuitSnapshotBook" where
  "CircuitSnapshotBook_publish book expected_generation next =
     (if sb_poisoned book then (Inl BookStateUnavailable, book)
      else if bs_generation (sb_current book) \<noteq> expected_generation
      then (Inl BookGenerationConflict, book)
      else case BookGeneration_next expected_generation of
             Inl e \<Rightarrow> (Inl e, book)
           | Inr g \<Rightarrow>
               if bs_generation next \<noteq> g then (Inl BookGenerationConflict, book)
               else (Inr next, book\<lparr>sb_current := next\<rparr>))"

definition CircuitSnapshotBook_current_snapshot ::
  "CircuitSnapshotBook \<Rightarrow> (CircuitSnapshotBookError, CircuitSnapshotBookSnapshot) result" where
  "CircuitSnapshotBook_current_snapshot book =
     (if sb_poisoned book then Inl BookStateUnavailable else Inr (sb_current book))"

section \<open>The frozen set and its lookup\<close>

lemma adjacent_duplicate_iff:
  "sorted (map cs_account_id ss) \<Longrightarrow> adjacent_duplicate ss \<longleftrightarrow> \<not> distinct (map cs_account_id ss)"
proof (induction ss rule: adjacent_duplicate.induct)
  case (1 x y ys)
  show ?case
  proof (cases "cs_account_id x = cs_account_id y")
    case False
    with "1.prems" have "\<forall>z \<in> set (y # ys). cs_account_id x < cs_account_id z"
      by (auto simp: order_le_less dest: order_less_le_trans)
    with False "1.IH" "1.prems" show ?thesis by auto
  qed simp
qed simp_all

lemma CircuitSnapshotBookSnapshot_new_ok:
  "CircuitSnapshotBookSnapshot_new g ss = Inr s \<longleftrightarrow>
     length ss \<le> MAX_CIRCUIT_SNAPSHOTS \<and> distinct (map cs_account_id ss)
     \<and> s = \<lparr>bs_generation = g, bs_snapshots = sort_key cs_account_id ss\<rparr>"
proof -
  have "distinct (map cs_account_id (sort_key cs_account_id ss)) = distinct (map cs_account_id ss)"
    by (simp add: distinct_map)
  then show ?thesis
    using adjacent_duplicate_iff [of "sort_key cs_account_id ss"]
    by (auto simp: CircuitSnapshotBookSnapshot_new_def Let_def not_less split: if_splits)
qed

lemma find_distinct_key:
  assumes "distinct (map f xs)" and "x \<in> set xs" and "f x = k"
  shows "find (\<lambda>y. f y = k) xs = Some x"
  using assms by (induction xs) (auto simp: image_iff)

text \<open>
  Account resolution is correct. A frozen set is accepted exactly when it is within capacity
  and names no account twice; binary search in it then returns for every account what a linear
  search of the snapshots as supplied returns.
\<close>

theorem book_account_is_linear_search:
  "(CircuitSnapshotBookSnapshot_new g ss = Inr s) =
     (length ss \<le> MAX_CIRCUIT_SNAPSHOTS \<and> distinct (map cs_account_id ss)
      \<and> s = \<lparr>bs_generation = g, bs_snapshots = sort_key cs_account_id ss\<rparr>)
   \<and> (distinct (map cs_account_id ss) \<longrightarrow>
        book_account \<lparr>bs_generation = g, bs_snapshots = sort_key cs_account_id ss\<rparr> a =
          find (\<lambda>x. cs_account_id x = a) ss)"
proof (intro conjI impI)
  show "(CircuitSnapshotBookSnapshot_new g ss = Inr s) =
     (length ss \<le> MAX_CIRCUIT_SNAPSHOTS \<and> distinct (map cs_account_id ss)
      \<and> s = \<lparr>bs_generation = g, bs_snapshots = sort_key cs_account_id ss\<rparr>)"
    by (rule CircuitSnapshotBookSnapshot_new_ok)
next
  assume d: "distinct (map cs_account_id ss)"
  let ?ss = "sort_key cs_account_id ss"
  let ?ks = "map cs_account_id ?ss"
  have "distinct ?ks"
    using d by (simp add: distinct_map)
  then have sorted: "sorted_wrt (<) ?ks" by (simp add: strict_sorted_iff)
  show "book_account \<lparr>bs_generation = g, bs_snapshots = ?ss\<rparr> a = find (\<lambda>x. cs_account_id x = a) ss"
  proof (cases "binary_search ?ks a")
    case None
    then have "a \<notin> cs_account_id ` set ss" using binary_search_None [OF sorted] by simp
    then have "find (\<lambda>x. cs_account_id x = a) ss = None" by (auto simp: find_None_iff)
    with None show ?thesis by (simp add: book_account_def)
  next
    case (Some i)
    then have i: "i < length ?ss" "cs_account_id (?ss ! i) = a"
      using binary_search_correct [OF sorted] by (auto simp del: length_sort)
    then have "?ss ! i \<in> set ss" by (metis nth_mem set_sort)
    with Some i(2) find_distinct_key [OF d] show ?thesis by (simp add: book_account_def)
  qed
qed

theorem book_account_is_linear_search_witness:
  "book_account \<lparr>bs_generation = 0, bs_snapshots =
      sort_key cs_account_id [CircuitSnapshot_initial ''b'', CircuitSnapshot_initial ''a'']\<rparr> ''a'' =
     Some (CircuitSnapshot_initial ''a'')"
  using book_account_is_linear_search
    [of 0 "[CircuitSnapshot_initial ''b'', CircuitSnapshot_initial ''a'']" undefined "''a''"]
  by (simp add: CircuitSnapshot_initial_def)

section \<open>The publication contract\<close>

definition circuit_book_generation :: "CircuitSnapshotBook \<Rightarrow> u64" where
  "circuit_book_generation b = bs_generation (sb_current b)"

definition circuit_book_shows :: "CircuitSnapshotBook \<Rightarrow> CircuitSnapshotBookSnapshot \<Rightarrow> bool" where
  "circuit_book_shows b s \<longleftrightarrow> CircuitSnapshotBook_current_snapshot b = Inr s"

lemma CircuitSnapshotBook_publish_ok:
  "CircuitSnapshotBook_publish b v s = (Inr r, b') \<longleftrightarrow>
     \<not> sb_poisoned b \<and> circuit_book_generation b = v \<and> unat (bs_generation s) = unat v + 1
     \<and> r = s \<and> b' = b\<lparr>sb_current := s\<rparr>"
proof (cases "checked_add v 1")
  case None
  then have "unat (bs_generation s) \<noteq> unat v + 1"
    using unat_lt_width [of "bs_generation s"] by (auto simp: checked_add_eq_None)
  with None show ?thesis
    by (auto simp: CircuitSnapshotBook_publish_def BookGeneration_next_def)
next
  case (Some g)
  then have "unat (bs_generation s) = unat v + 1 \<longleftrightarrow> bs_generation s = g"
    by (auto simp: checked_add_eq_Some word_unat_eq_iff)
  with Some show ?thesis
    by (auto simp: CircuitSnapshotBook_publish_def circuit_book_generation_def BookGeneration_next_def)
qed

interpretation circuit_snapshots:
  publication circuit_book_generation circuit_book_shows CircuitSnapshotBook_publish
proof
  fix b v s r b' e
  show "circuit_book_generation b = v" if "CircuitSnapshotBook_publish b v s = (Inr r, b')"
    using that by (simp add: CircuitSnapshotBook_publish_ok)
  show "unat (circuit_book_generation b') = unat v + 1" if "CircuitSnapshotBook_publish b v s = (Inr r, b')"
    using that by (auto simp: CircuitSnapshotBook_publish_ok circuit_book_generation_def)
  show "circuit_book_shows b' s" if "CircuitSnapshotBook_publish b v s = (Inr r, b')"
    using that by (auto simp: CircuitSnapshotBook_publish_ok circuit_book_shows_def
        CircuitSnapshotBook_current_snapshot_def)
  show "b' = b" if "CircuitSnapshotBook_publish b v s = (Inl e, b')"
    using that by (auto simp: CircuitSnapshotBook_publish_def split: if_splits sum.splits)
qed

text \<open>
  Snapshot publications cannot skip or repeat a generation. Any sequence of publications, from
  any callers and against any generations, advances the book's generation by exactly the number
  of those that succeeded.
\<close>

theorem circuit_generations_count_publications:
  assumes "publish_all CircuitSnapshotBook_publish b offers = (n, b')"
  shows "unat (circuit_book_generation b') = unat (circuit_book_generation b) + n"
  using assms by (rule circuit_snapshots.publish_all_counts)

theorem circuit_generations_count_publications_witness:
  "publish_all CircuitSnapshotBook_publish
     (CircuitSnapshotBook_from_snapshot \<lparr>bs_generation = 0, bs_snapshots = []\<rparr>)
     [(0, \<lparr>bs_generation = 1, bs_snapshots = []\<rparr>), (0, \<lparr>bs_generation = 1, bs_snapshots = []\<rparr>)] =
     (1, CircuitSnapshotBook_from_snapshot \<lparr>bs_generation = 1, bs_snapshots = []\<rparr>)
   \<and> unat (circuit_book_generation
       (CircuitSnapshotBook_from_snapshot \<lparr>bs_generation = 1, bs_snapshots = []\<rparr>)) = 0 + 1"
proof -
  have p: "publish_all CircuitSnapshotBook_publish
     (CircuitSnapshotBook_from_snapshot \<lparr>bs_generation = 0, bs_snapshots = []\<rparr>)
     [(0, \<lparr>bs_generation = 1, bs_snapshots = []\<rparr>), (0, \<lparr>bs_generation = 1, bs_snapshots = []\<rparr>)] =
     (1, CircuitSnapshotBook_from_snapshot \<lparr>bs_generation = 1, bs_snapshots = []\<rparr>)"
    by (simp add: CircuitSnapshotBook_publish_def CircuitSnapshotBook_from_snapshot_def
        BookGeneration_next_def checked_add_def)
  from circuit_generations_count_publications [OF p] p show ?thesis
    by (simp add: circuit_book_generation_def CircuitSnapshotBook_from_snapshot_def)
qed

end
