(* ===== verification/Admission_Controller.thy ===== *)
theory Admission_Controller
  imports Rate_Limit
begin

text \<open>
  The atomic admission controller, \<open>ariadnion-rate-limit/src/controller.rs\<close>. The state under
  the controller's mutex is \<open>ControllerState\<close>; \<open>ControllerInner\<close> adds the immutable policies
  and the mutex's poison flag, and every operation that takes the lock goes through
  \<open>with_lock\<close>. A lease handle is the record \<open>AdmissionLease\<close> (its \<open>Arc\<close> to the controller is
  the explicit state argument); operations that consume the handle end with its \<open>Drop\<close>.
  This theory holds the definitions; \<open>Admission_Invariant\<close> proves their invariant and
  \<open>Admission_Properties\<close> the properties.
\<close>

section \<open>State\<close>

record RateWindowState =
  w_ends_at :: MonotonicTime
  w_committed :: u32
  w_pending :: u32

record ActiveLease =
  l_rate_keys :: "LimitKey list"
  l_concurrency_keys :: "LimitKey list"
  l_units :: NonZeroU32
  l_expires_at :: MonotonicTime
  l_rate_committed :: bool

record ControllerState =
  last_now :: MonotonicTime
  next_identity :: u64
  windows :: "(LimitKey, RateWindowState) btree_map"
  concurrency :: "(LimitKey, u32) btree_map"
  leases :: "(AdmissionLeaseId, ActiveLease) btree_map"

record PreparedAdmission =
  pa_lease_id :: AdmissionLeaseId
  pa_expires_at :: MonotonicTime
  pa_reservation :: "RateReservation option"
  pa_permits :: "ConcurrencyPermit list"

record ReservedParts =
  rp_reservation :: "RateReservation option"
  rp_permits :: "ConcurrencyPermit list"

datatype AcceptedFinalization = Completed | ReconciliationRequired

type_synonym 'a controller_update = "(ControllerState, AdmissionError, 'a) update"

definition ControllerState_new :: "MonotonicTime \<Rightarrow> ControllerState" where
  "ControllerState_new initial_now =
     \<lparr>last_now = initial_now, next_identity = 0, windows = [], concurrency = [], leases = []\<rparr>"

definition RateWindowState_new ::
  "MonotonicTime \<Rightarrow> RateRule \<Rightarrow> (AdmissionError, RateWindowState) result" where
  "RateWindowState_new now rule =
     bind_result (time_checked_add now (rr_window rule))
       (\<lambda>ends_at. Inr \<lparr>w_ends_at = ends_at, w_committed = 0, w_pending = 0\<rparr>)"

definition rate_keys :: "LimitPolicy list \<Rightarrow> LimitKey list" where
  "rate_keys policies = map lp_key (filter (\<lambda>p. lp_rate p \<noteq> None) policies)"

definition concurrency_keys :: "LimitPolicy list \<Rightarrow> LimitKey list" where
  "concurrency_keys policies = map lp_key (filter (\<lambda>p. lp_concurrency p \<noteq> None) policies)"

section \<open>Releasing capacity\<close>

fun release_concurrency :: "LimitKey list \<Rightarrow> ControllerState \<Rightarrow> ControllerState" where
  "release_concurrency [] st = st"
| "release_concurrency (key # keys) st =
     release_concurrency keys
       (case map_of (concurrency st) key of
          None \<Rightarrow> st
        | Some active \<Rightarrow>
            st\<lparr>concurrency := bt_insert key (saturating_sub active 1) (concurrency st)\<rparr>)"

fun release_pending :: "LimitKey list \<Rightarrow> NonZeroU32 \<Rightarrow> ControllerState \<Rightarrow> ControllerState" where
  "release_pending [] units st = st"
| "release_pending (key # keys) units st =
     release_pending keys units
       (case map_of (windows st) key of
          None \<Rightarrow> st
        | Some w \<Rightarrow>
            st\<lparr>windows :=
                 bt_insert key (w\<lparr>w_pending := saturating_sub (w_pending w) units\<rparr>) (windows st)\<rparr>)"

definition remove_lease :: "AdmissionLeaseId \<Rightarrow> ControllerState \<Rightarrow> bool \<times> ControllerState" where
  "remove_lease lid st =
     (case map_of (leases st) lid of
        None \<Rightarrow> (False, st)
      | Some lease \<Rightarrow>
          let st1 = st\<lparr>leases := bt_remove lid (leases st)\<rparr>;
              st2 = release_concurrency (l_concurrency_keys lease) st1;
              st3 = (if \<not> l_rate_committed lease
                     then release_pending (l_rate_keys lease) (l_units lease) st2 else st2)
          in (True, st3))"

definition remove_leases :: "AdmissionLeaseId list \<Rightarrow> ControllerState \<Rightarrow> ControllerState" where
  "remove_leases ids st = fold (\<lambda>lid s. snd (remove_lease lid s)) ids st"

definition observe_and_expire :: "MonotonicTime \<Rightarrow> unit controller_update" where
  "observe_and_expire now st =
     (if now < last_now st then (Inl (error ClockRegressed), st)
      else
        let st1 = st\<lparr>last_now := now\<rparr>;
            expired = map fst (filter (\<lambda>(lid, lease). l_expires_at lease \<le> now) (leases st1))
        in (Inr (), remove_leases expired st1))"

section \<open>Rate windows and capacity checks\<close>

definition prepare_window :: "LimitPolicy \<Rightarrow> MonotonicTime \<Rightarrow> unit controller_update" where
  "prepare_window p now st =
     (case lp_rate p of
        None \<Rightarrow> (Inr (), st)
      | Some rule \<Rightarrow>
          (case RateWindowState_new now rule of
             Inl e \<Rightarrow> (Inl e, st)
           | Inr fresh \<Rightarrow>
               let w = (case map_of (windows st) (lp_key p) of Some w \<Rightarrow> w | None \<Rightarrow> fresh);
                   w' = (if w_ends_at w \<le> now then fresh else w)
               in (Inr (), st\<lparr>windows := bt_insert (lp_key p) w' (windows st)\<rparr>)))"

definition check_window_end :: "MonotonicTime \<Rightarrow> LimitPolicy \<Rightarrow> (AdmissionError, unit) result" where
  "check_window_end now p =
     (case lp_rate p of
        None \<Rightarrow> Inr ()
      | Some rule \<Rightarrow> bind_result (time_checked_add now (rr_window rule)) (\<lambda>_. Inr ()))"

definition prepare_windows :: "LimitPolicy list \<Rightarrow> MonotonicTime \<Rightarrow> unit controller_update" where
  "prepare_windows policies now =
     bind_update (lift_result (\<lambda>_. check_each (check_window_end now) policies))
       (\<lambda>_. for_each (\<lambda>p. prepare_window p now) policies)"

definition check_rate ::
  "ControllerState \<Rightarrow> LimitPolicy \<Rightarrow> NonZeroU32 \<Rightarrow> MonotonicTime \<Rightarrow> (AdmissionError, unit) result"
where
  "check_rate st p units now =
     (case lp_rate p of
        None \<Rightarrow> Inr ()
      | Some rule \<Rightarrow>
          (case map_of (windows st) (lp_key p) of
             None \<Rightarrow> Inl (error StateUnavailable)
           | Some w \<Rightarrow>
               let used = saturating_add (w_committed w) (w_pending w);
                   remaining = saturating_sub (rr_capacity rule) used
               in if remaining < units
                  then Inl (AdmissionError_with_scope RateLimited
                              (Some (duration_until now (w_ends_at w)))
                              (refusal_scope (dimension (lp_key p))))
                  else Inr ()))"

definition active_count :: "ControllerState \<Rightarrow> LimitKey \<Rightarrow> u32" where
  "active_count st key = (case map_of (concurrency st) key of None \<Rightarrow> 0 | Some n \<Rightarrow> n)"

definition earliest_expiry :: "ControllerState \<Rightarrow> LimitKey \<Rightarrow> MonotonicTime option" where
  "earliest_expiry st key =
     list_min (map l_expires_at
       (filter (\<lambda>lease. key \<in> set (l_concurrency_keys lease)) (bt_values (leases st))))"

definition check_concurrency ::
  "ControllerState \<Rightarrow> LimitPolicy \<Rightarrow> MonotonicTime \<Rightarrow> (AdmissionError, unit) result" where
  "check_concurrency st p now =
     (case lp_concurrency p of
        None \<Rightarrow> Inr ()
      | Some rule \<Rightarrow>
          if active_count st (lp_key p) < cr_limit rule then Inr ()
          else Inl (AdmissionError_with_scope ConcurrencyLimited
                      (map_option (duration_until now) (earliest_expiry st (lp_key p)))
                      (refusal_scope (dimension (lp_key p)))))"

definition check_capacity ::
  "LimitPolicy list \<Rightarrow> AdmissionRequest \<Rightarrow> MonotonicTime \<Rightarrow> ControllerState \<Rightarrow>
     (AdmissionError, unit) result" where
  "check_capacity policies request now st =
     check_each (\<lambda>p. bind_result (check_rate st p (rq_units request) now)
                       (\<lambda>_. check_concurrency st p now)) policies"

section \<open>Reserving\<close>

definition allocate_identities :: "(RateReservationId \<times> AdmissionLeaseId) controller_update" where
  "allocate_identities st =
     (case checked_add (next_identity st) 1 of
        None \<Rightarrow> (Inl exhausted, st)
      | Some reservation \<Rightarrow>
          (case checked_add reservation 1 of
             None \<Rightarrow> (Inl exhausted, st)
           | Some lease \<Rightarrow> (Inr (reservation, lease), st\<lparr>next_identity := lease\<rparr>)))"

definition policy_expiry ::
  "ControllerState \<Rightarrow> LimitPolicy \<Rightarrow> MonotonicTime \<Rightarrow> (AdmissionError, MonotonicTime) result" where
  "policy_expiry st p now =
     (let rate_expiry = map_option w_ends_at (map_of (windows st) (lp_key p)) in
      bind_result
        (case lp_concurrency p of
           None \<Rightarrow> Inr None
         | Some rule \<Rightarrow> map_sum id Some (time_checked_add now (cr_lease_duration rule)))
        (\<lambda>concurrency_expiry.
           ok_or invalid
             (list_min
               ((case rate_expiry of None \<Rightarrow> [] | Some t \<Rightarrow> [t]) @
                (case concurrency_expiry of None \<Rightarrow> [] | Some t \<Rightarrow> [t])))))"

fun earliest_policy_expiry ::
  "ControllerState \<Rightarrow> MonotonicTime \<Rightarrow> LimitPolicy list \<Rightarrow> MonotonicTime option \<Rightarrow>
     (AdmissionError, MonotonicTime option) result" where
  "earliest_policy_expiry st now [] earliest = Inr earliest"
| "earliest_policy_expiry st now (p # ps) earliest =
     bind_result (policy_expiry st p now)
       (\<lambda>deadline. earliest_policy_expiry st now ps
          (Some (case earliest of None \<Rightarrow> deadline | Some current \<Rightarrow> min current deadline)))"

definition lease_expiry ::
  "LimitPolicy list \<Rightarrow> MonotonicTime \<Rightarrow> ControllerState \<Rightarrow> (AdmissionError, MonotonicTime) result"
where
  "lease_expiry policies now st =
     bind_result (earliest_policy_expiry st now policies None) (ok_or invalid)"

definition validate_pending_addition ::
  "LimitKey list \<Rightarrow> NonZeroU32 \<Rightarrow> ControllerState \<Rightarrow> (AdmissionError, unit) result" where
  "validate_pending_addition keys units st =
     check_each
       (\<lambda>key. case map_of (windows st) key of
                None \<Rightarrow> Inl (error StateUnavailable)
              | Some w \<Rightarrow> bind_result (ok_or exhausted (checked_add (w_pending w) units)) (\<lambda>_. Inr ()))
       keys"

definition add_pending_key :: "NonZeroU32 \<Rightarrow> LimitKey \<Rightarrow> unit controller_update" where
  "add_pending_key units key st =
     (case map_of (windows st) key of
        None \<Rightarrow> (Inl (error StateUnavailable), st)
      | Some w \<Rightarrow>
          (case checked_add (w_pending w) units of
             None \<Rightarrow> (Inl exhausted, st)
           | Some pending \<Rightarrow>
               (Inr (), st\<lparr>windows := bt_insert key (w\<lparr>w_pending := pending\<rparr>) (windows st)\<rparr>)))"

definition apply_pending_addition :: "LimitKey list \<Rightarrow> NonZeroU32 \<Rightarrow> unit controller_update" where
  "apply_pending_addition keys units = for_each (add_pending_key units) keys"

definition add_pending :: "LimitKey list \<Rightarrow> NonZeroU32 \<Rightarrow> unit controller_update" where
  "add_pending keys units =
     bind_update (lift_result (validate_pending_addition keys units))
       (\<lambda>_. apply_pending_addition keys units)"

definition add_concurrency_key :: "LimitKey \<Rightarrow> unit controller_update" where
  "add_concurrency_key key st =
     (case checked_add (active_count st key) 1 of
        None \<Rightarrow> (Inl exhausted, st\<lparr>concurrency := bt_insert key (active_count st key) (concurrency st)\<rparr>)
      | Some active \<Rightarrow> (Inr (), st\<lparr>concurrency := bt_insert key active (concurrency st)\<rparr>))"

definition add_concurrency :: "LimitKey list \<Rightarrow> unit controller_update" where
  "add_concurrency keys =
     bind_update
       (lift_result (\<lambda>st.
          check_each
            (\<lambda>key. bind_result (ok_or exhausted (checked_add (active_count st key) 1)) (\<lambda>_. Inr ()))
            keys))
       (\<lambda>_. for_each add_concurrency_key keys)"

definition reserve ::
  "LimitPolicy list \<Rightarrow> AdmissionRequest \<Rightarrow> RateReservationId \<Rightarrow> AdmissionLeaseId \<Rightarrow>
     MonotonicTime \<Rightarrow> ReservedParts controller_update" where
  "reserve policies request reservation_id lease_id expires_at =
     bind_update (add_pending (rate_keys policies) (rq_units request)) (\<lambda>_.
     bind_update (add_concurrency (concurrency_keys policies)) (\<lambda>_ st.
       (Inr \<lparr>rp_reservation =
               (if rate_keys policies \<noteq> []
                then Some \<lparr>rs_id = reservation_id, rs_keys = rate_keys policies,
                           rs_units = rq_units request, rs_expires_at = expires_at\<rparr>
                else None),
             rp_permits =
               map (\<lambda>key. \<lparr>cp_lease_id = lease_id, cp_key = key, cp_expires_at = expires_at\<rparr>)
                 (concurrency_keys policies)\<rparr>,
        st\<lparr>leases :=
             bt_insert lease_id
               \<lparr>l_rate_keys = rate_keys policies, l_concurrency_keys = concurrency_keys policies,
                l_units = rq_units request, l_expires_at = expires_at, l_rate_committed = False\<rparr>
               (leases st)\<rparr>)))"

definition state_prepare_admission ::
  "LimitPolicy list \<Rightarrow> AdmissionRequest \<Rightarrow> MonotonicTime \<Rightarrow> PreparedAdmission controller_update"
where
  "state_prepare_admission policies request now =
     bind_update (observe_and_expire now) (\<lambda>_.
     bind_update (prepare_windows policies now) (\<lambda>_.
     bind_update (lift_result (check_capacity policies request now)) (\<lambda>_.
     bind_update allocate_identities (\<lambda>(reservation_id, lease_id).
     bind_update (lift_result (lease_expiry policies now)) (\<lambda>expires_at.
     bind_update (reserve policies request reservation_id lease_id expires_at) (\<lambda>parts st.
       (Inr \<lparr>pa_lease_id = lease_id, pa_expires_at = expires_at,
             pa_reservation = rp_reservation parts, pa_permits = rp_permits parts\<rparr>,
        st)))))))"

section \<open>Committing rate usage\<close>

definition pending_rate_commitment ::
  "AdmissionLeaseId \<Rightarrow> ControllerState \<Rightarrow>
     (AdmissionError, (LimitKey list \<times> NonZeroU32) option) result" where
  "pending_rate_commitment lid st =
     (case map_of (leases st) lid of
        None \<Rightarrow> Inl (error LeaseExpired)
      | Some lease \<Rightarrow>
          Inr (if l_rate_committed lease then None
               else Some (l_rate_keys lease, l_units lease)))"

definition validate_rate_commitment ::
  "LimitKey list \<Rightarrow> NonZeroU32 \<Rightarrow> ControllerState \<Rightarrow> (AdmissionError, unit) result" where
  "validate_rate_commitment keys units st =
     check_each
       (\<lambda>key. case map_of (windows st) key of
                None \<Rightarrow> Inl (error StateUnavailable)
              | Some w \<Rightarrow> bind_result (ok_or exhausted (checked_add (w_committed w) units)) (\<lambda>_. Inr ()))
       keys"

definition commit_rate_key :: "NonZeroU32 \<Rightarrow> LimitKey \<Rightarrow> unit controller_update" where
  "commit_rate_key units key st =
     (case map_of (windows st) key of
        None \<Rightarrow> (Inl (error StateUnavailable), st)
      | Some w \<Rightarrow>
          let w1 = w\<lparr>w_pending := saturating_sub (w_pending w) units\<rparr> in
          (case checked_add (w_committed w1) units of
             None \<Rightarrow> (Inl exhausted, st\<lparr>windows := bt_insert key w1 (windows st)\<rparr>)
           | Some committed \<Rightarrow>
               (Inr (), st\<lparr>windows := bt_insert key (w1\<lparr>w_committed := committed\<rparr>) (windows st)\<rparr>)))"

definition apply_rate_commitment :: "LimitKey list \<Rightarrow> NonZeroU32 \<Rightarrow> unit controller_update" where
  "apply_rate_commitment keys units = for_each (commit_rate_key units) keys"

definition mark_rate_committed :: "AdmissionLeaseId \<Rightarrow> unit controller_update" where
  "mark_rate_committed lid st =
     (case map_of (leases st) lid of
        None \<Rightarrow> (Inl (error LeaseExpired), st)
      | Some lease \<Rightarrow>
          (Inr (), st\<lparr>leases := bt_insert lid (lease\<lparr>l_rate_committed := True\<rparr>) (leases st)\<rparr>))"

definition state_commit_rate :: "AdmissionLeaseId \<Rightarrow> unit controller_update" where
  "state_commit_rate lid =
     bind_update (lift_result (pending_rate_commitment lid)) (\<lambda>commitment.
       case commitment of
         None \<Rightarrow> (\<lambda>st. (Inr (), st))
       | Some (keys, units) \<Rightarrow>
           bind_update (lift_result (validate_rate_commitment keys units)) (\<lambda>_.
           bind_update (apply_rate_commitment keys units) (\<lambda>_.
           mark_rate_committed lid)))"

definition retain_accepted :: "AdmissionLeaseId \<Rightarrow> AcceptedFinalization controller_update" where
  "retain_accepted lid =
     bind_update (state_commit_rate lid) (\<lambda>_ st. (Inr ReconciliationRequired, st))"

definition complete_accepted :: "AdmissionLeaseId \<Rightarrow> AcceptedFinalization controller_update" where
  "complete_accepted lid =
     bind_update (state_commit_rate lid) (\<lambda>_ st.
       case remove_lease lid st of
         (removed, st') \<Rightarrow>
           (if \<not> removed then (Inl (error LeaseExpired), st') else (Inr Completed, st')))"

definition finalize_accepted_at ::
  "AdmissionLeaseId \<Rightarrow> MonotonicTime \<Rightarrow> AcceptedFinalization controller_update" where
  "finalize_accepted_at lid now =
     bind_update (state_commit_rate lid) (\<lambda>_ st.
       case observe_and_expire now st of
         (Inr _, st') \<Rightarrow> complete_accepted lid st'
       | (Inl e, st') \<Rightarrow>
           if ae_code e = ClockRegressed then retain_accepted lid st' else (Inl e, st'))"

definition state_finalize_accepted ::
  "AdmissionLeaseId \<Rightarrow> MonotonicTime option \<Rightarrow> AcceptedFinalization controller_update" where
  "state_finalize_accepted lid now =
     (case now of Some t \<Rightarrow> finalize_accepted_at lid t | None \<Rightarrow> retain_accepted lid)"

definition state_retain_dispatched :: "AdmissionLeaseId \<Rightarrow> MonotonicTime \<Rightarrow> unit controller_update"
where
  "state_retain_dispatched lid now =
     bind_update (state_commit_rate lid) (\<lambda>_ st.
       case observe_and_expire now st of
         (Inl e, st') \<Rightarrow> if ae_code e = ClockRegressed then (Inr (), st') else (Inl e, st')
       | (Inr _, st') \<Rightarrow>
           (bind_result (pending_rate_commitment lid st') (\<lambda>_. Inr ()), st'))"

section \<open>Snapshots\<close>

definition rate_snapshot ::
  "ControllerState \<Rightarrow> LimitPolicy \<Rightarrow> MonotonicTime \<Rightarrow> u32 option \<times> MonotonicTime option" where
  "rate_snapshot st p now =
     (case lp_rate p of
        None \<Rightarrow> (None, None)
      | Some rule \<Rightarrow>
          (case map_of (windows st) (lp_key p) of
             None \<Rightarrow> (Some (rr_capacity rule), None)
           | Some w \<Rightarrow>
               let used = saturating_add (w_committed w) (w_pending w);
                   remaining = saturating_sub (rr_capacity rule) used
               in (Some remaining, if now < w_ends_at w then Some (w_ends_at w) else None)))"

definition state_snapshot :: "ControllerState \<Rightarrow> LimitPolicy \<Rightarrow> MonotonicTime \<Rightarrow> LimitSnapshot" where
  "state_snapshot st p now =
     (case rate_snapshot st p now of
        (rate_remaining, rate_resets_at) \<Rightarrow>
          \<lparr>ls_rate_remaining = rate_remaining, ls_rate_resets_at = rate_resets_at,
           ls_concurrency_remaining =
             map_option (\<lambda>rule. saturating_sub (cr_limit rule) (active_count st (lp_key p)))
               (lp_concurrency p)\<rparr>)"

section \<open>The locked controller\<close>

record ControllerInner =
  ci_policies :: AdmissionPolicySet
  ci_poisoned :: bool
  ci_state :: ControllerState

type_synonym 'a inner_update = "(ControllerInner, AdmissionError, 'a) update"

definition AdmissionController_new :: "AdmissionPolicySet \<Rightarrow> MonotonicTime \<Rightarrow> ControllerInner" where
  "AdmissionController_new policies initial_now =
     \<lparr>ci_policies = policies, ci_poisoned = False, ci_state = ControllerState_new initial_now\<rparr>"

text \<open>\<open>lock_state\<close> followed by a critical section.\<close>

definition with_lock :: "'a controller_update \<Rightarrow> 'a inner_update" where
  "with_lock f c =
     (if ci_poisoned c then (Inl (error StateUnavailable), c)
      else case f (ci_state c) of (r, st) \<Rightarrow> (r, c\<lparr>ci_state := st\<rparr>))"

definition resolve_policies ::
  "AdmissionPolicySet \<Rightarrow> AdmissionRequest \<Rightarrow> (AdmissionError, LimitPolicy list) result" where
  "resolve_policies policies request =
     collect_result (\<lambda>key. ok_or (error PolicyNotFound) (policy policies key)) (rq_keys request)"

definition inner_prepare_admission ::
  "AdmissionRequest \<Rightarrow> MonotonicTime \<Rightarrow> PreparedAdmission inner_update" where
  "inner_prepare_admission request now =
     bind_update (lift_result (\<lambda>c. resolve_policies (ci_policies c) request)) (\<lambda>policies.
       with_lock (state_prepare_admission policies request now))"

definition close_lease :: "AdmissionLeaseId \<Rightarrow> MonotonicTime \<Rightarrow> unit inner_update" where
  "close_lease lid now =
     with_lock (bind_update (observe_and_expire now) (\<lambda>_ st.
       case remove_lease lid st of
         (removed, st') \<Rightarrow> (if removed then Inr () else Inl (error LeaseExpired), st')))"

definition close_lease_without_time :: "AdmissionLeaseId \<Rightarrow> ControllerInner \<Rightarrow> ControllerInner" where
  "close_lease_without_time lid c =
     (if ci_poisoned c then c else c\<lparr>ci_state := snd (remove_lease lid (ci_state c))\<rparr>)"

definition inner_retain_dispatched :: "AdmissionLeaseId \<Rightarrow> MonotonicTime \<Rightarrow> unit inner_update" where
  "inner_retain_dispatched lid now = with_lock (state_retain_dispatched lid now)"

definition inner_finalize_accepted ::
  "AdmissionLeaseId \<Rightarrow> MonotonicTime option \<Rightarrow> AcceptedFinalization inner_update" where
  "inner_finalize_accepted lid now = with_lock (state_finalize_accepted lid now)"

section \<open>Public operations\<close>

record AdmissionLease =
  al_id :: AdmissionLeaseId
  al_expires_at :: MonotonicTime
  al_reservation :: "RateReservation option"
  al_permits :: "ConcurrencyPermit list"
  al_closed :: bool

definition try_admit :: "AdmissionRequest \<Rightarrow> MonotonicTime \<Rightarrow> AdmissionLease inner_update" where
  "try_admit request now =
     bind_update (inner_prepare_admission request now) (\<lambda>prepared c.
       (Inr \<lparr>al_id = pa_lease_id prepared, al_expires_at = pa_expires_at prepared,
             al_reservation = pa_reservation prepared, al_permits = pa_permits prepared,
             al_closed = False\<rparr>, c))"

definition snapshot :: "LimitKey \<Rightarrow> MonotonicTime \<Rightarrow> LimitSnapshot inner_update" where
  "snapshot key now =
     bind_update (lift_result (\<lambda>c. ok_or (error PolicyNotFound) (policy (ci_policies c) key))) (\<lambda>p.
       with_lock
         (bind_update (observe_and_expire now) (\<lambda>_.
          bind_update (prepare_window p now) (\<lambda>_ st. (Inr (state_snapshot st p now), st)))))"

definition ensure_open :: "AdmissionLease \<Rightarrow> (AdmissionError, unit) result" where
  "ensure_open lease = (if al_closed lease then Inl (error LeaseClosed) else Inr ())"

text \<open>\<open>Drop\<close>: an open lease is closed without a time observation.\<close>

definition drop_lease :: "AdmissionLease \<Rightarrow> ControllerInner \<Rightarrow> ControllerInner" where
  "drop_lease lease c =
     (if \<not> al_closed lease then close_lease_without_time (al_id lease) c else c)"

definition lease_commit_rate :: "AdmissionLease \<Rightarrow> MonotonicTime \<Rightarrow> unit inner_update" where
  "lease_commit_rate lease now =
     bind_update (lift_result (\<lambda>_. ensure_open lease)) (\<lambda>_.
       with_lock
         (bind_update (observe_and_expire now) (\<lambda>_. state_commit_rate (al_id lease))))"

definition lease_close ::
  "AdmissionLease \<Rightarrow> MonotonicTime \<Rightarrow> ControllerInner \<Rightarrow>
     (AdmissionError, unit) result \<times> AdmissionLease \<times> ControllerInner" where
  "lease_close lease now c =
     (case ensure_open lease of
        Inl e \<Rightarrow> (Inl e, lease, c)
      | Inr _ \<Rightarrow>
          (case close_lease (al_id lease) now c of
             (result, c') \<Rightarrow>
               (result,
                lease\<lparr>al_closed :=
                  (case result of Inr _ \<Rightarrow> True | Inl e \<Rightarrow> ae_code e = LeaseExpired)\<rparr>,
                c')))"

text \<open>\<open>release\<close> and \<open>cancel\<close> consume the lease, so its \<open>Drop\<close> runs on return.\<close>

definition lease_release :: "AdmissionLease \<Rightarrow> MonotonicTime \<Rightarrow> unit inner_update" where
  "lease_release lease now c =
     (case lease_close lease now c of (result, lease', c') \<Rightarrow> (result, drop_lease lease' c'))"

definition lease_cancel :: "AdmissionLease \<Rightarrow> MonotonicTime \<Rightarrow> unit inner_update" where
  "lease_cancel lease now c =
     (case lease_close lease now c of (result, lease', c') \<Rightarrow> (result, drop_lease lease' c'))"

text \<open>
  \<open>finalize_accepted\<close> and \<open>commit_rate_and_retain_concurrency\<close> set \<open>closed\<close> before the lease
  is dropped, whatever the result, so \<open>Drop\<close> does nothing.
\<close>

definition finalize_accepted ::
  "AdmissionLease \<Rightarrow> MonotonicTime option \<Rightarrow> AcceptedFinalization inner_update" where
  "finalize_accepted lease now c =
     (case ensure_open lease of
        Inl e \<Rightarrow> (Inl e, drop_lease lease c)
      | Inr _ \<Rightarrow>
          (case inner_finalize_accepted (al_id lease) now c of
             (result, c') \<Rightarrow> (result, drop_lease (lease\<lparr>al_closed := True\<rparr>) c')))"

definition commit_rate_and_retain_concurrency ::
  "AdmissionLease \<Rightarrow> MonotonicTime \<Rightarrow> unit inner_update" where
  "commit_rate_and_retain_concurrency lease now c =
     (case ensure_open lease of
        Inl e \<Rightarrow> (Inl e, drop_lease lease c)
      | Inr _ \<Rightarrow>
          (case inner_retain_dispatched (al_id lease) now c of
             (result, c') \<Rightarrow> (result, drop_lease (lease\<lparr>al_closed := True\<rparr>) c')))"

section \<open>The controller as a transition system\<close>

text \<open>
  Threads share the controller through its lock, so an execution is an interleaving of whole
  operations. The handle in a label is arbitrary: a step needs no assumption on where the
  caller got it.
\<close>

datatype controller_call =
    Admit AdmissionRequest MonotonicTime
  | Snapshot LimitKey MonotonicTime
  | CommitRate AdmissionLease MonotonicTime
  | Release AdmissionLease MonotonicTime
  | Cancel AdmissionLease MonotonicTime
  | FinalizeAccepted AdmissionLease "MonotonicTime option"
  | RetainConcurrency AdmissionLease MonotonicTime
  | DropLease AdmissionLease

fun controller_call_effect :: "controller_call \<Rightarrow> ControllerInner \<Rightarrow> ControllerInner" where
  "controller_call_effect (Admit request now) c = snd (try_admit request now c)"
| "controller_call_effect (Snapshot key now) c = snd (snapshot key now c)"
| "controller_call_effect (CommitRate lease now) c = snd (lease_commit_rate lease now c)"
| "controller_call_effect (Release lease now) c = snd (lease_release lease now c)"
| "controller_call_effect (Cancel lease now) c = snd (lease_cancel lease now c)"
| "controller_call_effect (FinalizeAccepted lease now) c = snd (finalize_accepted lease now c)"
| "controller_call_effect (RetainConcurrency lease now) c =
     snd (commit_rate_and_retain_concurrency lease now c)"
| "controller_call_effect (DropLease lease) c = drop_lease lease c"

fun controller_call_ok :: "controller_call \<Rightarrow> bool" where
  "controller_call_ok (Admit request now) = request_ok request"
| "controller_call_ok _ = True"

inductive controller_step :: "ControllerInner \<Rightarrow> controller_call \<Rightarrow> ControllerInner \<Rightarrow> bool" where
  call: "controller_call_ok l \<Longrightarrow> controller_step c l (controller_call_effect l c)"

inductive_simps controller_step_iff: "controller_step c l c'"

definition controller_init :: "ControllerInner \<Rightarrow> bool" where
  "controller_init c \<longleftrightarrow>
     policies_ok (ci_policies c) \<and> (\<exists>t. c = AdmissionController_new (ci_policies c) t)"

end
