(* ===== verification/Admission_Invariant.thy ===== *)
theory Admission_Invariant
  imports Admission_Controller
begin

text \<open>
  The accounting invariant of the admission controller. Every counter of the state is the sum
  of what the active leases claim: the active count of a key is the number of leases that hold
  a permit on it, the pending units of a window are the units of the uncommitted leases on it;
  committed and pending units together stay within the configured capacity; no lease outlives
  the window it draws from, and none is kept past its expiry. Each state operation is shown to
  keep it, together with a description of its effect.
\<close>

section \<open>The invariant\<close>

definition concurrency_claim :: "LimitKey \<Rightarrow> ActiveLease \<Rightarrow> nat" where
  "concurrency_claim k l = (if k \<in> set (l_concurrency_keys l) then 1 else 0)"

definition pending_claim :: "LimitKey \<Rightarrow> ActiveLease \<Rightarrow> nat" where
  "pending_claim k l = (if k \<in> set (l_rate_keys l) \<and> \<not> l_rate_committed l then unat (l_units l) else 0)"

definition lease_ok :: "ControllerState \<Rightarrow> ActiveLease \<Rightarrow> bool" where
  "lease_ok st l \<longleftrightarrow>
     distinct (l_rate_keys l) \<and> distinct (l_concurrency_keys l) \<and> l_units l \<noteq> 0
     \<and> (\<forall>k \<in> set (l_rate_keys l).
          \<exists>w. map_of (windows st) k = Some w \<and> l_expires_at l \<le> w_ends_at w)"

definition leases_ok :: "ControllerState \<Rightarrow> bool" where
  "leases_ok st \<longleftrightarrow>
     ordered_map (leases st)
     \<and> (\<forall>i l. map_of (leases st) i = Some l \<longrightarrow> lease_ok st l \<and> i \<le> next_identity st)"

definition concurrency_balanced :: "ControllerState \<Rightarrow> bool" where
  "concurrency_balanced st \<longleftrightarrow>
     (\<forall>k. unat (active_count st k) = claims (concurrency_claim k) (leases st))"

definition pending_balanced :: "ControllerState \<Rightarrow> bool" where
  "pending_balanced st \<longleftrightarrow>
     (\<forall>k w. map_of (windows st) k = Some w \<longrightarrow>
        unat (w_pending w) = claims (pending_claim k) (leases st))"

definition rate_bounded :: "AdmissionPolicySet \<Rightarrow> ControllerState \<Rightarrow> bool" where
  "rate_bounded P st \<longleftrightarrow>
     (\<forall>k w. map_of (windows st) k = Some w \<longrightarrow>
        (\<exists>p r. policy P k = Some p \<and> lp_rate p = Some r \<and>
           unat (w_committed w) + unat (w_pending w) \<le> unat (rr_capacity r)))"

definition concurrency_bounded :: "AdmissionPolicySet \<Rightarrow> ControllerState \<Rightarrow> bool" where
  "concurrency_bounded P st \<longleftrightarrow>
     (\<forall>k p c. policy P k = Some p \<and> lp_concurrency p = Some c \<longrightarrow>
        unat (active_count st k) \<le> unat (cr_limit c))"

definition ledger_ok :: "AdmissionPolicySet \<Rightarrow> ControllerState \<Rightarrow> bool" where
  "ledger_ok P st \<longleftrightarrow>
     leases_ok st \<and> concurrency_balanced st \<and> pending_balanced st
     \<and> rate_bounded P st \<and> concurrency_bounded P st"

definition unexpired_at :: "MonotonicTime \<Rightarrow> ControllerState \<Rightarrow> bool" where
  "unexpired_at now st \<longleftrightarrow> (\<forall>i l. map_of (leases st) i = Some l \<longrightarrow> now < l_expires_at l)"

definition state_inv :: "AdmissionPolicySet \<Rightarrow> ControllerState \<Rightarrow> bool" where
  "state_inv P st \<longleftrightarrow> ledger_ok P st \<and> unexpired_at (last_now st) st"

definition controller_inv :: "ControllerInner \<Rightarrow> bool" where
  "controller_inv c \<longleftrightarrow> policies_ok (ci_policies c) \<and> state_inv (ci_policies c) (ci_state c)"

lemmas ledger_defs = ledger_ok_def leases_ok_def concurrency_balanced_def pending_balanced_def
  rate_bounded_def concurrency_bounded_def

lemma lease_ok_frame:
  assumes "lease_ok st l"
    and "\<And>k w. map_of (windows st) k = Some w \<Longrightarrow>
      \<exists>w'. map_of (windows st') k = Some w' \<and> w_ends_at w' = w_ends_at w"
  shows "lease_ok st' l"
  using assms unfolding lease_ok_def by metis

lemma ledger_leaseD:
  assumes "ledger_ok P st" and "map_of (leases st) i = Some l"
  shows "distinct (l_rate_keys l)" "distinct (l_concurrency_keys l)" "l_units l \<noteq> 0"
    "ordered_map (leases st)" "i \<le> next_identity st"
    "\<And>k. k \<in> set (l_rate_keys l) \<Longrightarrow>
       \<exists>w. map_of (windows st) k = Some w \<and> l_expires_at l \<le> w_ends_at w"
  using assms by (auto simp: ledger_defs lease_ok_def)

lemma ledger_pendingD:
  "ledger_ok P st \<Longrightarrow> map_of (windows st) k = Some w \<Longrightarrow>
     unat (w_pending w) = claims (pending_claim k) (leases st)"
  by (auto simp: ledger_defs)

lemma ledger_activeD:
  "ledger_ok P st \<Longrightarrow> unat (active_count st k) = claims (concurrency_claim k) (leases st)"
  by (auto simp: ledger_defs)

lemma ledger_rateD:
  assumes "ledger_ok P st" and "map_of (windows st) k = Some w"
  obtains p r where "policy P k = Some p" "lp_rate p = Some r"
    "unat (w_committed w) + unat (w_pending w) \<le> unat (rr_capacity r)"
  using assms unfolding ledger_ok_def rate_bounded_def by blast

lemma ledger_ok_new: "ledger_ok P (ControllerState_new t)"
  by (simp add: ledger_defs ControllerState_new_def active_count_def)

section \<open>Key-wise updates of the counters\<close>

text \<open>
  The loops over keys touch each key once: the lookups after the loop are those before it,
  changed at the keys of the list.
\<close>

definition at_keys :: "'k list \<Rightarrow> ('v \<Rightarrow> 'v) \<Rightarrow> ('k \<Rightarrow> 'v option) \<Rightarrow> 'k \<Rightarrow> 'v option" where
  "at_keys ks f m k = (if k \<in> set ks then map_option f (m k) else m k)"

definition sub_pending :: "u32 \<Rightarrow> RateWindowState \<Rightarrow> RateWindowState" where
  "sub_pending n w = w\<lparr>w_pending := saturating_sub (w_pending w) n\<rparr>"

definition plus_pending :: "u32 \<Rightarrow> RateWindowState \<Rightarrow> RateWindowState" where
  "plus_pending n w = w\<lparr>w_pending := w_pending w + n\<rparr>"

definition charge :: "u32 \<Rightarrow> RateWindowState \<Rightarrow> RateWindowState" where
  "charge n w =
     w\<lparr>w_pending := saturating_sub (w_pending w) n, w_committed := w_committed w + n\<rparr>"

lemma at_keys_Nil [simp]: "at_keys [] f m = m"
  by (simp add: at_keys_def fun_eq_iff)

lemma at_keys_Cons:
  "x \<notin> set xs \<Longrightarrow> m x = Some v \<Longrightarrow> at_keys xs f (m(x \<mapsto> f v)) = at_keys (x # xs) f m"
  by (auto simp: at_keys_def fun_eq_iff)

lemma at_keys_Cons_None: "m x = None \<Longrightarrow> at_keys (x # xs) f m = at_keys xs f m"
  by (auto simp: at_keys_def fun_eq_iff)

lemma active_count_insert [simp]:
  "active_count (st\<lparr>concurrency := bt_insert x v (concurrency st)\<rparr>) k =
     (if k = x then v else active_count st k)"
  by (simp add: active_count_def)

lemma active_count_frame [simp]:
  "active_count (st\<lparr>windows := ws\<rparr>) = active_count st"
  "active_count (st\<lparr>leases := ls\<rparr>) = active_count st"
  "active_count (st\<lparr>next_identity := i\<rparr>) = active_count st"
  "active_count (st\<lparr>last_now := t\<rparr>) = active_count st"
  by (simp_all add: active_count_def fun_eq_iff)

lemma release_concurrency_effect:
  assumes "distinct ks"
  shows "\<exists>cs. release_concurrency ks st = st\<lparr>concurrency := cs\<rparr> \<and>
    (\<forall>k. unat (active_count (st\<lparr>concurrency := cs\<rparr>) k) =
         unat (active_count st k) - (if k \<in> set ks then 1 else 0))"
  using assms
proof (induction ks arbitrary: st)
  case Nil
  then show ?case by (auto intro: exI [of _ "concurrency st"])
next
  case (Cons x ks)
  show ?case
  proof (cases "map_of (concurrency st) x")
    case None
    with Cons show ?thesis by (force simp: active_count_def)
  next
    case (Some a)
    let ?st = "st\<lparr>concurrency := bt_insert x (saturating_sub a 1) (concurrency st)\<rparr>"
    from Cons obtain cs where cs: "release_concurrency ks ?st = ?st\<lparr>concurrency := cs\<rparr>"
      and k: "\<forall>k. unat (active_count (?st\<lparr>concurrency := cs\<rparr>) k) =
        unat (active_count ?st k) - (if k \<in> set ks then 1 else 0)"
      by (metis distinct.simps(2))
    have "unat (active_count ?st k) = unat (active_count st k) - (if k = x then 1 else 0)" for k
      using Some by (simp add: active_count_def)
    with k Cons.prems Some cs show ?thesis
      by (intro exI [of _ cs]) auto
  qed
qed

lemma release_pending_effect:
  assumes "distinct ks"
  shows "\<exists>ws. release_pending ks n st = st\<lparr>windows := ws\<rparr> \<and>
    map_of ws = at_keys ks (sub_pending n) (map_of (windows st))"
  using assms
proof (induction ks arbitrary: st)
  case Nil
  then show ?case by (auto intro: exI [of _ "windows st"])
next
  case (Cons x ks)
  show ?case
  proof (cases "map_of (windows st) x")
    case None
    with Cons show ?thesis by (simp add: at_keys_Cons_None)
  next
    case (Some w)
    let ?st = "st\<lparr>windows := bt_insert x (sub_pending n w) (windows st)\<rparr>"
    from Cons obtain ws where "release_pending ks n ?st = ?st\<lparr>windows := ws\<rparr>"
      "map_of ws = at_keys ks (sub_pending n) (map_of (windows ?st))"
      by (metis distinct.simps(2))
    with Some Cons.prems show ?thesis
      by (intro exI [of _ ws]) (simp add: at_keys_Cons flip: sub_pending_def)
  qed
qed

lemma apply_pending_addition_effect:
  assumes "distinct ks"
    and "\<forall>k \<in> set ks. \<exists>w. map_of (windows st) k = Some w \<and> unat (w_pending w) + unat n < 2 ^ 32"
  shows "\<exists>ws. apply_pending_addition ks n st = (Inr (), st\<lparr>windows := ws\<rparr>) \<and>
    map_of ws = at_keys ks (plus_pending n) (map_of (windows st))"
  using assms
proof (induction ks arbitrary: st)
  case Nil
  then show ?case
    by (auto simp: apply_pending_addition_def intro: exI [of _ "windows st"])
next
  case (Cons x ks)
  then obtain w where w: "map_of (windows st) x = Some w" "unat (w_pending w) + unat n < 2 ^ 32"
    by auto
  let ?st = "st\<lparr>windows := bt_insert x (plus_pending n w) (windows st)\<rparr>"
  have step: "add_pending_key n x st = (Inr (), ?st)"
    using w by (simp add: add_pending_key_def checked_add_def plus_pending_def)
  have "\<forall>k \<in> set ks. \<exists>w. map_of (windows ?st) k = Some w \<and> unat (w_pending w) + unat n < 2 ^ 32"
    using Cons.prems by auto
  with Cons obtain ws where "apply_pending_addition ks n ?st = (Inr (), ?st\<lparr>windows := ws\<rparr>)"
    "map_of ws = at_keys ks (plus_pending n) (map_of (windows ?st))"
    by (metis distinct.simps(2))
  with w step Cons.prems show ?case
    by (intro exI [of _ ws])
      (simp add: apply_pending_addition_def bind_update_ok at_keys_Cons)
qed

lemma apply_rate_commitment_effect:
  assumes "distinct ks"
    and "\<forall>k \<in> set ks. \<exists>w. map_of (windows st) k = Some w \<and> unat (w_committed w) + unat n < 2 ^ 32"
  shows "\<exists>ws. apply_rate_commitment ks n st = (Inr (), st\<lparr>windows := ws\<rparr>) \<and>
    map_of ws = at_keys ks (charge n) (map_of (windows st))"
  using assms
proof (induction ks arbitrary: st)
  case Nil
  then show ?case
    by (auto simp: apply_rate_commitment_def intro: exI [of _ "windows st"])
next
  case (Cons x ks)
  then obtain w where w: "map_of (windows st) x = Some w" "unat (w_committed w) + unat n < 2 ^ 32"
    by auto
  let ?st = "st\<lparr>windows := bt_insert x (charge n w) (windows st)\<rparr>"
  have step: "commit_rate_key n x st = (Inr (), ?st)"
    using w by (simp add: commit_rate_key_def checked_add_def charge_def)
  have "\<forall>k \<in> set ks. \<exists>w. map_of (windows ?st) k = Some w \<and> unat (w_committed w) + unat n < 2 ^ 32"
    using Cons.prems by auto
  with Cons obtain ws where "apply_rate_commitment ks n ?st = (Inr (), ?st\<lparr>windows := ws\<rparr>)"
    "map_of ws = at_keys ks (charge n) (map_of (windows ?st))"
    by (metis distinct.simps(2))
  with w step Cons.prems show ?case
    by (intro exI [of _ ws])
      (simp add: apply_rate_commitment_def bind_update_ok at_keys_Cons)
qed

lemma add_concurrency_loop_effect:
  assumes "distinct ks" and "\<forall>k \<in> set ks. unat (active_count st k) + 1 < 2 ^ 32"
  shows "\<exists>cs. for_each add_concurrency_key ks st = (Inr (), st\<lparr>concurrency := cs\<rparr>) \<and>
    (\<forall>k. unat (active_count (st\<lparr>concurrency := cs\<rparr>) k) =
         unat (active_count st k) + (if k \<in> set ks then 1 else 0))"
  using assms
proof (induction ks arbitrary: st)
  case Nil
  then show ?case by (auto intro: exI [of _ "concurrency st"])
next
  case (Cons x ks)
  let ?st = "st\<lparr>concurrency := bt_insert x (active_count st x + 1) (concurrency st)\<rparr>"
  have lt: "unat (active_count st x) + unat (1 :: u32) < 2 ^ LENGTH(32)"
    using Cons.prems by simp
  then have step: "add_concurrency_key x st = (Inr (), ?st)"
    by (simp add: add_concurrency_key_def checked_add_def)
  have act: "unat (active_count ?st k) = unat (active_count st k) + (if k = x then 1 else 0)" for k
    using unat_plus_exact [OF lt] by simp
  have "\<forall>k \<in> set ks. unat (active_count ?st k) + 1 < 2 ^ 32"
    using Cons.prems act by auto
  with Cons obtain cs where "for_each add_concurrency_key ks ?st = (Inr (), ?st\<lparr>concurrency := cs\<rparr>)"
    "\<forall>k. unat (active_count (?st\<lparr>concurrency := cs\<rparr>) k) =
       unat (active_count ?st k) + (if k \<in> set ks then 1 else 0)"
    by (metis distinct.simps(2))
  with step act Cons.prems show ?case
    by (intro exI [of _ cs]) (auto simp: bind_update_ok)
qed

section \<open>Removing leases\<close>

definition removed_windows ::
  "ActiveLease \<Rightarrow> (LimitKey \<Rightarrow> RateWindowState option) \<Rightarrow> LimitKey \<Rightarrow> RateWindowState option" where
  "removed_windows l ws =
     (if l_rate_committed l then ws else at_keys (l_rate_keys l) (sub_pending (l_units l)) ws)"

lemma remove_lease_absent: "map_of (leases st) i = None \<Longrightarrow> remove_lease i st = (False, st)"
  by (simp add: remove_lease_def)

lemma remove_lease_effect:
  assumes "map_of (leases st) i = Some l" and "distinct (l_rate_keys l)"
    and "distinct (l_concurrency_keys l)"
  obtains st' where "remove_lease i st = (True, st')" "leases st' = bt_remove i (leases st)"
    "last_now st' = last_now st" "next_identity st' = next_identity st"
    "\<And>k. unat (active_count st' k) = unat (active_count st k) - concurrency_claim k l"
    "map_of (windows st') = removed_windows l (map_of (windows st))"
proof -
  let ?s1 = "st\<lparr>leases := bt_remove i (leases st)\<rparr>"
  obtain cs where cs: "release_concurrency (l_concurrency_keys l) ?s1 = ?s1\<lparr>concurrency := cs\<rparr>"
    and act: "\<And>k. unat (active_count (?s1\<lparr>concurrency := cs\<rparr>) k) =
      unat (active_count ?s1 k) - (if k \<in> set (l_concurrency_keys l) then 1 else 0)"
    using release_concurrency_effect [OF assms(3), of ?s1] by blast
  let ?s2 = "?s1\<lparr>concurrency := cs\<rparr>"
  obtain ws where ws: "release_pending (l_rate_keys l) (l_units l) ?s2 = ?s2\<lparr>windows := ws\<rparr>"
    and win: "map_of ws = at_keys (l_rate_keys l) (sub_pending (l_units l)) (map_of (windows ?s2))"
    using release_pending_effect [OF assms(2), of "l_units l" ?s2] by blast
  show ?thesis
  proof (cases "l_rate_committed l")
    case True
    with assms cs act show ?thesis
      by (intro that [of ?s2]) (simp_all add: remove_lease_def removed_windows_def concurrency_claim_def)
  next
    case False
    with assms cs act ws win show ?thesis
      by (intro that [of "?s2\<lparr>windows := ws\<rparr>"])
        (simp_all add: remove_lease_def removed_windows_def concurrency_claim_def)
  qed
qed

lemma removed_windows_lookup:
  assumes "ledger_ok P st" and "map_of (leases st) i = Some l"
    and "removed_windows l (map_of (windows st)) k = Some w"
  obtains w0 where "map_of (windows st) k = Some w0" "w_ends_at w = w_ends_at w0"
    "w_committed w = w_committed w0" "unat (w_pending w) = unat (w_pending w0) - pending_claim k l"
  using assms(3)
  by (auto simp: removed_windows_def at_keys_def sub_pending_def pending_claim_def split: if_splits)

lemma removed_windows_kept:
  "map_of (windows st) k = Some w0 \<Longrightarrow>
     \<exists>w. removed_windows l (map_of (windows st)) k = Some w \<and> w_ends_at w = w_ends_at w0"
  by (auto simp: removed_windows_def at_keys_def sub_pending_def)

lemma remove_lease_ledger_ok:
  assumes ok: "ledger_ok P st"
  shows "ledger_ok P (snd (remove_lease i st))"
proof (cases "map_of (leases st) i")
  case None
  with ok show ?thesis by (simp add: remove_lease_absent)
next
  case (Some l)
  note lD = ledger_leaseD [OF ok Some]
  obtain st' where st': "remove_lease i st = (True, st')" "leases st' = bt_remove i (leases st)"
    "last_now st' = last_now st" "next_identity st' = next_identity st"
    "\<And>k. unat (active_count st' k) = unat (active_count st k) - concurrency_claim k l"
    "map_of (windows st') = removed_windows l (map_of (windows st))"
    using remove_lease_effect [OF Some lD(1,2)] by blast
  note split = claims_remove [OF lD(4) Some]
  have "leases_ok st'"
    using ok st' removed_windows_kept [of st]
    by (auto simp: ledger_defs lease_ok_def) metis
  moreover have "concurrency_balanced st'"
    using st' ledger_activeD [OF ok] split [of "concurrency_claim _"]
    by (simp add: concurrency_balanced_def)
  moreover have "pending_balanced st'"
    unfolding pending_balanced_def
  proof (intro allI impI)
    fix k w assume "map_of (windows st') k = Some w"
    then obtain w0 where "map_of (windows st) k = Some w0"
      "unat (w_pending w) = unat (w_pending w0) - pending_claim k l"
      using removed_windows_lookup [OF ok Some] st'(6) by metis
    then show "unat (w_pending w) = claims (pending_claim k) (leases st')"
      using ledger_pendingD [OF ok] split [of "pending_claim k"] st'(2) by simp
  qed
  moreover have "rate_bounded P st'"
    unfolding rate_bounded_def
  proof (intro allI impI)
    fix k w assume "map_of (windows st') k = Some w"
    then obtain w0 where w0: "map_of (windows st) k = Some w0" "w_committed w = w_committed w0"
      "unat (w_pending w) = unat (w_pending w0) - pending_claim k l"
      using removed_windows_lookup [OF ok Some] st'(6) by metis
    obtain p r where "policy P k = Some p" "lp_rate p = Some r"
      "unat (w_committed w0) + unat (w_pending w0) \<le> unat (rr_capacity r)"
      using ledger_rateD [OF ok w0(1)] by blast
    moreover from this w0 have "unat (w_committed w) + unat (w_pending w) \<le> unat (rr_capacity r)"
      by simp
    ultimately show "\<exists>p r. policy P k = Some p \<and> lp_rate p = Some r \<and>
        unat (w_committed w) + unat (w_pending w) \<le> unat (rr_capacity r)" by blast
  qed
  moreover have "concurrency_bounded P st'"
    using ok st'(5) by (auto simp: ledger_defs intro: le_trans [OF diff_le_self])
  ultimately show ?thesis
    using st'(1) by (simp add: ledger_ok_def)
qed

lemma remove_lease_frame:
  assumes "ledger_ok P st"
  shows "last_now (snd (remove_lease i st)) = last_now st"
    "leases (snd (remove_lease i st)) = bt_remove i (leases st)"
    "next_identity (snd (remove_lease i st)) = next_identity st"
proof -
  have "last_now (snd (remove_lease i st)) = last_now st \<and>
    leases (snd (remove_lease i st)) = bt_remove i (leases st) \<and>
    next_identity (snd (remove_lease i st)) = next_identity st"
  proof (cases "map_of (leases st) i")
    case None
    then have "bt_remove i (leases st) = leases st"
      by (auto simp: bt_remove_def map_of_eq_None_iff filter_id_conv)
    with None show ?thesis by (simp add: remove_lease_absent)
  next
    case (Some l)
    then show ?thesis
      using remove_lease_effect [OF Some ledger_leaseD(1,2) [OF assms Some]] by (metis snd_conv)
  qed
  then show "last_now (snd (remove_lease i st)) = last_now st"
    "leases (snd (remove_lease i st)) = bt_remove i (leases st)"
    "next_identity (snd (remove_lease i st)) = next_identity st" by simp_all
qed

lemma remove_leases_effect:
  "ledger_ok P st \<Longrightarrow>
     ledger_ok P (remove_leases is st) \<and> last_now (remove_leases is st) = last_now st
     \<and> next_identity (remove_leases is st) = next_identity st
     \<and> leases (remove_leases is st) = filter (\<lambda>e. fst e \<notin> set is) (leases st)"
proof (induction "is" arbitrary: st)
  case Nil
  then show ?case by (simp add: remove_leases_def)
next
  case (Cons i "is")
  let ?st = "snd (remove_lease i st)"
  have eq: "remove_leases (i # is) st = remove_leases is ?st"
    by (simp add: remove_leases_def)
  have "ledger_ok P ?st" by (rule remove_lease_ledger_ok [OF Cons.prems])
  from Cons.IH [OF this] show ?case
    unfolding eq using remove_lease_frame [OF Cons.prems, of i]
    by (auto simp: bt_remove_def intro!: filter_cong)
qed

section \<open>Observing time\<close>

text \<open>The window ends and committed units, which removals do not touch.\<close>

definition charged :: "ControllerState \<Rightarrow> LimitKey \<Rightarrow> (MonotonicTime \<times> u32) option" where
  "charged st k = map_option (\<lambda>w. (w_ends_at w, w_committed w)) (map_of (windows st) k)"

lemma remove_lease_charged:
  assumes "ledger_ok P st"
  shows "charged (snd (remove_lease i st)) = charged st"
proof (cases "map_of (leases st) i")
  case None
  then show ?thesis by (simp add: remove_lease_absent)
next
  case (Some l)
  obtain st' where "remove_lease i st = (True, st')"
    "map_of (windows st') = removed_windows l (map_of (windows st))"
    using remove_lease_effect [OF Some ledger_leaseD(1,2) [OF assms Some]] by metis
  then show ?thesis
    by (auto simp: charged_def fun_eq_iff removed_windows_def at_keys_def sub_pending_def
        option.map_comp comp_def)
qed

lemma remove_leases_charged: "ledger_ok P st \<Longrightarrow> charged (remove_leases is st) = charged st"
proof (induction "is" arbitrary: st)
  case Nil
  then show ?case by (simp add: remove_leases_def)
next
  case (Cons i "is")
  then have "charged (remove_leases is (snd (remove_lease i st))) = charged (snd (remove_lease i st))"
    by (blast intro: remove_lease_ledger_ok)
  with Cons.prems show ?case
    by (simp add: remove_leases_def remove_lease_charged)
qed

lemma ledger_ok_last_now [simp]: "ledger_ok P (st\<lparr>last_now := t\<rparr>) = ledger_ok P st"
  by (simp add: ledger_defs lease_ok_def)

lemma map_of_filter_ordered:
  "ordered_map m \<Longrightarrow> map_of (filter (\<lambda>(i, r). Q r) m) i =
     (case map_of m i of Some r \<Rightarrow> if Q r then Some r else None | None \<Rightarrow> None)"
  by (induction m)
    (auto simp: ordered_map_Cons map_of_eq_None_iff split: option.splits if_splits)

lemma observe_and_expire_effect:
  assumes ok: "ledger_ok P st" and now: "last_now st \<le> now"
  obtains st' where "observe_and_expire now st = (Inr (), st')" "ledger_ok P st'"
    "last_now st' = now" "next_identity st' = next_identity st" "unexpired_at now st'"
    "leases st' = filter (\<lambda>(i, l). now < l_expires_at l) (leases st)" "charged st' = charged st"
proof -
  let ?s1 = "st\<lparr>last_now := now\<rparr>"
  let ?is = "map fst (filter (\<lambda>(i, l). l_expires_at l \<le> now) (leases st))"
  let ?st' = "remove_leases ?is ?s1"
  have ord: "ordered_map (leases st)" using ok by (simp add: ledger_defs)
  have "ledger_ok P ?s1" using ok by simp
  from remove_leases_effect [OF this, of ?is]
  have eff: "ledger_ok P ?st'" "last_now ?st' = now" "next_identity ?st' = next_identity st"
    "leases ?st' = filter (\<lambda>e. fst e \<notin> set ?is) (leases st)"
    by auto
  have "fst e \<notin> set ?is \<longleftrightarrow> (case e of (i, l) \<Rightarrow> now < l_expires_at l)" if "e \<in> set (leases st)" for e
    using that ord by (auto simp: ordered_map_lookup not_le image_iff split: prod.splits)
  then have ls: "leases ?st' = filter (\<lambda>(i, l). now < l_expires_at l) (leases st)"
    using eff(4) by (simp cong: filter_cong)
  have "charged ?st' = charged st"
    using remove_leases_charged [of P ?s1 ?is] ok by (simp add: charged_def fun_eq_iff)
  moreover have "unexpired_at now ?st'"
    unfolding unexpired_at_def ls by (auto dest!: map_of_SomeD)
  moreover have "observe_and_expire now st = (Inr (), ?st')"
    using now by (simp add: observe_and_expire_def Let_def not_less [symmetric])
  ultimately show ?thesis using that eff ls by blast
qed

lemma observe_and_expire_regressed:
  "now < last_now st \<Longrightarrow> observe_and_expire now st = (Inl (error ClockRegressed), st)"
  by (simp add: observe_and_expire_def)

lemma observe_and_expire_inv: "state_inv P st \<Longrightarrow> state_inv P (snd (observe_and_expire now st))"
proof (cases "now < last_now st")
  case False
  moreover assume "state_inv P st"
  ultimately show ?thesis
    using observe_and_expire_effect [of P st now] by (metis not_less snd_conv state_inv_def)
qed (simp add: observe_and_expire_regressed)

section \<open>Rate windows\<close>

definition live_window :: "MonotonicTime \<Rightarrow> ControllerState \<Rightarrow> LimitKey \<Rightarrow> bool" where
  "live_window now st k \<longleftrightarrow> (\<exists>w. map_of (windows st) k = Some w \<and> now < w_ends_at w)"

lemma RateWindowState_new_ok:
  "RateWindowState_new now rule = Inr w \<Longrightarrow> 0 < rr_window rule \<Longrightarrow>
     now < w_ends_at w \<and> w_committed w = 0 \<and> w_pending w = 0"
  by (auto simp: RateWindowState_new_def results machine)

lemma no_claim_on_ended_window:
  assumes "ledger_ok P st" and "unexpired_at now st"
    and "map_of (windows st) k = None \<or>
      (\<exists>w. map_of (windows st) k = Some w \<and> w_ends_at w \<le> now)"
  shows "map_of (leases st) i = Some l \<Longrightarrow> k \<notin> set (l_rate_keys l)"
proof
  assume l: "map_of (leases st) i = Some l" and "k \<in> set (l_rate_keys l)"
  then obtain w where "map_of (windows st) k = Some w" "l_expires_at l \<le> w_ends_at w"
    using ledger_leaseD(6) [OF assms(1)] by blast
  moreover have "now < l_expires_at l" using l assms(2) by (auto simp: unexpired_at_def)
  ultimately show False using assms(3) by auto
qed

lemma fresh_window_ledger_ok:
  assumes ok: "ledger_ok P st"
    and no: "\<And>i l. map_of (leases st) i = Some l \<Longrightarrow> k \<notin> set (l_rate_keys l)"
    and pol: "policy P k = Some p" "lp_rate p = Some r"
    and w: "w_committed w = 0" "w_pending w = 0"
  shows "ledger_ok P (st\<lparr>windows := bt_insert k w (windows st)\<rparr>)"
proof -
  have "claims (pending_claim k) (leases st) = 0"
    using no ok ledger_leaseD(4) [OF ok]
    by (auto simp: claims_eq_0 pending_claim_def ledger_defs ordered_map_lookup)
  then show ?thesis
    using ok pol w no by (auto simp: ledger_defs lease_ok_def)
qed

lemma prepare_window_err: "prepare_window p now st = (Inl e, st') \<Longrightarrow> st' = st"
  by (auto simp: prepare_window_def Let_def split: option.splits sum.splits)

lemma prepare_window_ok:
  assumes "prepare_window p now st = (Inr (), st')" and ok: "ledger_ok P st"
    and un: "unexpired_at now st" and pol: "policy P (lp_key p) = Some p" "policy_ok p"
  shows "ledger_ok P st'" "leases st' = leases st" "last_now st' = last_now st"
    "active_count st' = active_count st" "next_identity st' = next_identity st"
    "lp_rate p \<noteq> None \<Longrightarrow> live_window now st' (lp_key p)"
    "live_window now st k \<Longrightarrow> map_of (windows st') k = map_of (windows st) k"
proof -
  let ?k = "lp_key p"
  have "ledger_ok P st' \<and> leases st' = leases st \<and> last_now st' = last_now st
    \<and> active_count st' = active_count st \<and> next_identity st' = next_identity st
    \<and> (lp_rate p \<noteq> None \<longrightarrow> live_window now st' ?k)
    \<and> (live_window now st k \<longrightarrow> map_of (windows st') k = map_of (windows st) k)"
  proof (cases "lp_rate p")
    case None
    with assms show ?thesis by (auto simp: prepare_window_def)
  next
    case (Some rule)
    with assms(1) obtain fresh where fresh: "RateWindowState_new now rule = Inr fresh"
      by (auto simp: prepare_window_def split: sum.splits)
    have new: "now < w_ends_at fresh" "w_committed fresh = 0" "w_pending fresh = 0"
      using RateWindowState_new_ok [OF fresh] policy_ok_rate [OF pol(2) Some] by auto
    show ?thesis
    proof (cases "live_window now st ?k")
      case True
      then obtain w where w: "map_of (windows st) ?k = Some w" "now < w_ends_at w"
        by (auto simp: live_window_def)
      then have "st' = st\<lparr>windows := bt_insert ?k w (windows st)\<rparr>"
        using assms(1) Some fresh by (simp add: prepare_window_def Let_def not_le [symmetric])
      moreover have "ledger_ok P (st\<lparr>windows := bt_insert ?k w (windows st)\<rparr>)"
        using ok w by (auto simp: ledger_defs lease_ok_def fun_upd_idem)
      ultimately show ?thesis using w by (auto simp: live_window_def)
    next
      case False
      then have st': "st' = st\<lparr>windows := bt_insert ?k fresh (windows st)\<rparr>"
        using assms(1) Some fresh
        by (auto simp: prepare_window_def Let_def live_window_def not_less split: option.splits)
      from False have "map_of (windows st) ?k = None \<or>
          (\<exists>w. map_of (windows st) ?k = Some w \<and> w_ends_at w \<le> now)"
        by (cases "map_of (windows st) ?k") (auto simp: live_window_def not_less)
      then have "ledger_ok P st'"
        unfolding st' using no_claim_on_ended_window [OF ok un] Some pol(1) new(2,3)
        by (intro fresh_window_ledger_ok [OF ok]) blast+
      then show ?thesis using st' new(1) False by (auto simp: live_window_def)
    qed
  qed
  then show "ledger_ok P st'" "leases st' = leases st" "last_now st' = last_now st"
    "active_count st' = active_count st" "next_identity st' = next_identity st"
    "lp_rate p \<noteq> None \<Longrightarrow> live_window now st' ?k"
    "live_window now st k \<Longrightarrow> map_of (windows st') k = map_of (windows st) k"
    by blast+
qed

definition resolved :: "AdmissionPolicySet \<Rightarrow> LimitPolicy list \<Rightarrow> bool" where
  "resolved P ps \<longleftrightarrow> (\<forall>p \<in> set ps. policy P (lp_key p) = Some p \<and> policy_ok p) \<and> distinct (map lp_key ps)"

lemma prepare_window_succeeds:
  "check_window_end now p = Inr () \<Longrightarrow> \<exists>st'. prepare_window p now st = (Inr (), st')"
  by (auto simp: check_window_end_def prepare_window_def RateWindowState_new_def results
      split: option.splits)

lemma prepare_windows_cases:
  obtains e where "prepare_windows ps now st = (Inl e, st)"
  | st' where "prepare_windows ps now st = (Inr (), st')"
    "for_each (\<lambda>p. prepare_window p now) ps st = (Inr (), st')"
proof (cases "check_each (check_window_end now) ps")
  case (Inl e)
  then show ?thesis using that(1) by (simp add: prepare_windows_def bind_update_def lift_result_def)
next
  case (Inr u)
  have "\<exists>st'. for_each (\<lambda>p. prepare_window p now) ps st = (Inr (), st')"
    if "\<forall>p \<in> set ps. check_window_end now p = Inr ()" for st
    using that
  proof (induction ps arbitrary: st)
    case (Cons p ps)
    then obtain s1 where "prepare_window p now st = (Inr (), s1)"
      using prepare_window_succeeds by (meson list.set_intros(1))
    with Cons show ?case by (simp add: bind_update_ok)
  qed simp
  moreover from Inr have "\<forall>p \<in> set ps. check_window_end now p = Inr ()" by (simp add: results)
  ultimately obtain st' where st': "for_each (\<lambda>p. prepare_window p now) ps st = (Inr (), st')" by blast
  with Inr have "prepare_windows ps now st = (Inr (), st')"
    by (simp add: prepare_windows_def bind_update_def lift_result_def)
  then show ?thesis using st' by (rule that(2))
qed

lemma prepare_windows_loop:
  assumes "for_each (\<lambda>p. prepare_window p now) ps st = (Inr (), st')" and "ledger_ok P st"
    and "unexpired_at now st" and "\<forall>p \<in> set ps. policy P (lp_key p) = Some p \<and> policy_ok p"
  shows "ledger_ok P st' \<and> leases st' = leases st \<and> last_now st' = last_now st
    \<and> active_count st' = active_count st \<and> next_identity st' = next_identity st
    \<and> (\<forall>p \<in> set ps. lp_rate p \<noteq> None \<longrightarrow> live_window now st' (lp_key p))
    \<and> (\<forall>k. live_window now st k \<longrightarrow> map_of (windows st') k = map_of (windows st) k)"
  using assms
proof (induction ps arbitrary: st)
  case Nil
  then show ?case by simp
next
  case (Cons p ps)
  then obtain s1 where s1: "prepare_window p now st = (Inr (), s1)"
    and rest: "for_each (\<lambda>p. prepare_window p now) ps s1 = (Inr (), st')"
    by (auto simp: results)
  note one = prepare_window_ok [OF s1 Cons.prems(2,3)]
  have pol: "policy P (lp_key p) = Some p" "policy_ok p" using Cons.prems(4) by auto
  have "unexpired_at now s1" using Cons.prems(3) one(2) [OF pol] by (simp add: unexpired_at_def)
  with Cons.IH [OF rest one(1) [OF pol]] Cons.prems(4)
  have ih: "ledger_ok P st' \<and> leases st' = leases s1 \<and> last_now st' = last_now s1
    \<and> active_count st' = active_count s1 \<and> next_identity st' = next_identity s1
    \<and> (\<forall>p \<in> set ps. lp_rate p \<noteq> None \<longrightarrow> live_window now st' (lp_key p))
    \<and> (\<forall>k. live_window now s1 k \<longrightarrow> map_of (windows st') k = map_of (windows s1) k)"
    by simp
  have "lp_rate p \<noteq> None \<Longrightarrow> live_window now st' (lp_key p)"
    using ih one(6) [OF pol] unfolding live_window_def by metis
  moreover have "live_window now st k \<Longrightarrow> map_of (windows st') k = map_of (windows st) k" for k
    using ih one(7) [OF pol, of k] unfolding live_window_def by metis
  ultimately show ?case using ih one(1-5) [OF pol] by auto
qed

section \<open>Committing\<close>

definition committed_state :: "AdmissionLeaseId \<Rightarrow> ActiveLease \<Rightarrow> ControllerState \<Rightarrow> ControllerState \<Rightarrow> bool"
where
  "committed_state i l st st' \<longleftrightarrow>
     leases st' = bt_insert i (l\<lparr>l_rate_committed := True\<rparr>) (leases st)
     \<and> map_of (windows st') = at_keys (l_rate_keys l) (charge (l_units l)) (map_of (windows st))
     \<and> active_count st' = active_count st \<and> last_now st' = last_now st
     \<and> next_identity st' = next_identity st"

lemma lease_units_covered:
  assumes "ledger_ok P st" and "map_of (leases st) i = Some l" and "\<not> l_rate_committed l"
    and "k \<in> set (l_rate_keys l)" and "map_of (windows st) k = Some w"
  shows "unat (l_units l) \<le> unat (w_pending w)"
proof -
  have "pending_claim k l = unat (l_units l)" using assms(3,4) by (simp add: pending_claim_def)
  then show ?thesis
    using claims_ge [OF map_of_SomeD [OF assms(2)], of "pending_claim k"]
      ledger_pendingD [OF assms(1,5)] by simp
qed

lemma commit_fits:
  assumes "ledger_ok P st" and "map_of (leases st) i = Some l" and "\<not> l_rate_committed l"
    and "k \<in> set (l_rate_keys l)"
  shows "\<exists>w. map_of (windows st) k = Some w \<and> unat (w_committed w) + unat (l_units l) < 2 ^ 32"
proof -
  obtain w where w: "map_of (windows st) k = Some w"
    using ledger_leaseD(6) [OF assms(1,2,4)] by blast
  obtain p r where "policy P k = Some p" "lp_rate p = Some r"
    "unat (w_committed w) + unat (w_pending w) \<le> unat (rr_capacity r)"
    using ledger_rateD [OF assms(1) w] by blast
  then have "unat (w_committed w) + unat (l_units l) < 2 ^ 32"
    using lease_units_covered [OF assms w] unat_lt_width [of "rr_capacity r"] by simp
  with w show ?thesis by blast
qed

lemma state_commit_rate_cases:
  assumes ok: "ledger_ok P st"
  shows "map_of (leases st) i = None \<Longrightarrow> state_commit_rate i st = (Inl (error LeaseExpired), st)"
    and "map_of (leases st) i = Some l \<Longrightarrow> l_rate_committed l \<Longrightarrow> state_commit_rate i st = (Inr (), st)"
    and "map_of (leases st) i = Some l \<Longrightarrow> \<not> l_rate_committed l \<Longrightarrow>
      \<exists>st'. state_commit_rate i st = (Inr (), st') \<and> committed_state i l st st'"
proof -
  show "map_of (leases st) i = None \<Longrightarrow> state_commit_rate i st = (Inl (error LeaseExpired), st)"
    by (simp add: state_commit_rate_def bind_update_def lift_result_def pending_rate_commitment_def)
  show "map_of (leases st) i = Some l \<Longrightarrow> l_rate_committed l \<Longrightarrow> state_commit_rate i st = (Inr (), st)"
    by (simp add: state_commit_rate_def bind_update_def lift_result_def pending_rate_commitment_def)
  assume l: "map_of (leases st) i = Some l" "\<not> l_rate_committed l"
  have fits: "\<forall>k \<in> set (l_rate_keys l).
      \<exists>w. map_of (windows st) k = Some w \<and> unat (w_committed w) + unat (l_units l) < 2 ^ 32"
    using commit_fits [OF ok l] by blast
  then have val: "validate_rate_commitment (l_rate_keys l) (l_units l) st = Inr ()"
    by (fastforce simp: validate_rate_commitment_def results checked_add_def)
  obtain ws where ws: "apply_rate_commitment (l_rate_keys l) (l_units l) st = (Inr (), st\<lparr>windows := ws\<rparr>)"
    "map_of ws = at_keys (l_rate_keys l) (charge (l_units l)) (map_of (windows st))"
    using apply_rate_commitment_effect [OF ledger_leaseD(1) [OF ok l(1)] fits] by blast
  let ?st' = "st\<lparr>windows := ws, leases := bt_insert i (l\<lparr>l_rate_committed := True\<rparr>) (leases st)\<rparr>"
  have "state_commit_rate i st = (Inr (), ?st')"
    using l val ws(1)
    by (simp add: state_commit_rate_def bind_update_def lift_result_def
        pending_rate_commitment_def mark_rate_committed_def)
  moreover have "committed_state i l st ?st'"
    using ws(2) by (simp add: committed_state_def)
  ultimately show "\<exists>st'. state_commit_rate i st = (Inr (), st') \<and> committed_state i l st st'" by blast
qed

lemma committed_state_ledger_ok:
  assumes ok: "ledger_ok P st" and l: "map_of (leases st) i = Some l" "\<not> l_rate_committed l"
    and st': "committed_state i l st st'"
  shows "ledger_ok P st'"
proof -
  let ?l = "l\<lparr>l_rate_committed := True\<rparr>"
  note lD = ledger_leaseD [OF ok l(1)]
  note st' = st' [unfolded committed_state_def]
  note upd = claims_update [OF lD(4) l(1), where r' = ?l]
  have kept: "\<exists>w'. map_of (windows st') k = Some w' \<and> w_ends_at w' = w_ends_at w"
    if "map_of (windows st) k = Some w" for k w
    using that st' by (auto simp: at_keys_def charge_def)
  have "leases_ok st'"
    unfolding leases_ok_def
  proof (intro conjI allI impI)
    show "ordered_map (leases st')" using lD(4) st' by auto
    fix j m assume "map_of (leases st') j = Some m"
    then have m: "j = i \<and> m = ?l \<or> map_of (leases st) j = Some m"
      using st' by (auto split: if_splits)
    moreover have "lease_ok st ?l \<and> i \<le> next_identity st"
      using ok l(1) by (auto simp: ledger_defs lease_ok_def)
    ultimately have "lease_ok st m \<and> j \<le> next_identity st"
      using ok by (auto simp: ledger_ok_def leases_ok_def)
    then show "lease_ok st' m" "j \<le> next_identity st'"
      using lease_ok_frame [OF _ kept] st' by auto
  qed
  moreover have "concurrency_balanced st'"
    using ok st' upd [of "concurrency_claim _"]
    by (simp add: ledger_defs concurrency_claim_def)
  moreover have w': "unat (w_pending w) = claims (pending_claim k) (leases st') \<and>
      (\<exists>p r. policy P k = Some p \<and> lp_rate p = Some r \<and>
        unat (w_committed w) + unat (w_pending w) \<le> unat (rr_capacity r))"
    if lookup: "map_of (windows st') k = Some w" for k w
  proof -
    obtain w0 where w0: "map_of (windows st) k = Some w0"
      "k \<in> set (l_rate_keys l) \<Longrightarrow> w = charge (l_units l) w0" "k \<notin> set (l_rate_keys l) \<Longrightarrow> w = w0"
      using lookup st' by (auto simp: at_keys_def split: if_splits)
    obtain p r where pr: "policy P k = Some p" "lp_rate p = Some r"
      "unat (w_committed w0) + unat (w_pending w0) \<le> unat (rr_capacity r)"
      using ledger_rateD [OF ok w0(1)] by blast
    show ?thesis
    proof (cases "k \<in> set (l_rate_keys l)")
      case True
      have "unat (l_units l) \<le> unat (w_pending w0)"
        by (rule lease_units_covered [OF ok l True w0(1)])
      moreover have "unat (w_committed w0 + l_units l) = unat (w_committed w0) + unat (l_units l)"
        using commit_fits [OF ok l True] w0(1) by (intro unat_plus_exact) auto
      moreover have "unat (w_pending w0) = claims (pending_claim k) (leases st') + unat (l_units l)"
        using ledger_pendingD [OF ok w0(1)] upd [of "pending_claim k"] True l(2) st'
        by (simp add: pending_claim_def)
      ultimately show ?thesis using pr w0(2) [OF True] by (auto simp: charge_def)
    next
      case False
      then show ?thesis
        using ledger_pendingD [OF ok w0(1)] upd [of "pending_claim k"] pr w0(3) st'
        by (auto simp: pending_claim_def)
    qed
  qed
  moreover have "concurrency_bounded P st'"
    using ok st' by (auto simp: ledger_ok_def concurrency_bounded_def)
  ultimately show ?thesis
    unfolding ledger_ok_def pending_balanced_def rate_bounded_def by blast
qed

lemma state_commit_rate_inv: "state_inv P st \<Longrightarrow> state_inv P (snd (state_commit_rate i st))"
proof -
  assume inv: "state_inv P st"
  then have ok: "ledger_ok P st" by (simp add: state_inv_def)
  show ?thesis
  proof (cases "map_of (leases st) i")
    case None
    with inv show ?thesis by (simp add: state_commit_rate_cases(1) [OF ok])
  next
    case (Some l)
    show ?thesis
    proof (cases "l_rate_committed l")
      case True
      with inv Some show ?thesis by (simp add: state_commit_rate_cases(2) [OF ok])
    next
      case False
      then obtain st' where "state_commit_rate i st = (Inr (), st')" and c: "committed_state i l st st'"
        using state_commit_rate_cases(3) [OF ok Some] by blast
      moreover have "ledger_ok P st'" by (rule committed_state_ledger_ok [OF ok Some False c])
      ultimately show ?thesis
        using inv Some c by (auto simp: state_inv_def unexpired_at_def committed_state_def)
    qed
  qed
qed

end
