(* ===== verification/Admission_Reserve.thy ===== *)
theory Admission_Reserve
  imports Admission_Invariant
begin

text \<open>
  Admission itself: after the capacity checks pass, the reservation cannot fail, its effect is
  exact, and it keeps the accounting invariant. The theory ends with the invariant of every
  public call and the interpretation of \<open>invariant_system\<close> for the controller.
\<close>

section \<open>Lease expiry\<close>

lemma policy_expiry_bounds:
  assumes "policy_expiry st p now = Inr d"
  shows "map_of (windows st) (lp_key p) = Some w \<Longrightarrow> d \<le> w_ends_at w"
    and "policy_ok p \<Longrightarrow> (\<And>w. map_of (windows st) (lp_key p) = Some w \<Longrightarrow> now < w_ends_at w) \<Longrightarrow> now < d"
proof -
  let ?rate = "case map_option w_ends_at (map_of (windows st) (lp_key p)) of None \<Rightarrow> [] | Some t \<Rightarrow> [t]"
  let ?conc = "\<lambda>c. case c of None \<Rightarrow> [] | Some t \<Rightarrow> [t]"
  obtain c where
    c: "(case lp_concurrency p of None \<Rightarrow> Inr None
         | Some rule \<Rightarrow> map_sum id Some (time_checked_add now (cr_lease_duration rule))) = Inr c"
    and "list_min (?rate @ ?conc c) = Some d"
    using assms by (auto simp: policy_expiry_def Let_def results)
  then have d: "d \<in> set (?rate @ ?conc c)" "\<forall>x \<in> set (?rate @ ?conc c). d \<le> x"
    by (simp_all add: list_min_Some)
  show "map_of (windows st) (lp_key p) = Some w \<Longrightarrow> d \<le> w_ends_at w"
    using d(2) by simp
  assume "policy_ok p" and live: "\<And>w. map_of (windows st) (lp_key p) = Some w \<Longrightarrow> now < w_ends_at w"
  have "now < t" if "c = Some t" for t
  proof (cases "lp_concurrency p")
    case None
    with c that show ?thesis by simp
  next
    case (Some rule)
    with c that have "time_checked_add now (cr_lease_duration rule) = Inr t"
      by (cases "time_checked_add now (cr_lease_duration rule)") auto
    moreover have "0 < cr_lease_duration rule"
      using policy_ok_concurrency [OF \<open>policy_ok p\<close> Some] by simp
    ultimately show ?thesis by (simp add: machine)
  qed
  then show "now < d"
    using d(1) live by (auto split: option.splits)
qed

lemma earliest_policy_expiry_bounds:
  "earliest_policy_expiry st now ps e = Inr (Some t) \<Longrightarrow>
     (\<forall>p \<in> set ps. \<exists>d. policy_expiry st p now = Inr d \<and> t \<le> d)
     \<and> (\<forall>x. e = Some x \<longrightarrow> t \<le> x)
     \<and> ((\<forall>x. e = Some x \<longrightarrow> now < x) \<longrightarrow>
        (\<forall>p \<in> set ps. \<forall>d. policy_expiry st p now = Inr d \<longrightarrow> now < d) \<longrightarrow> now < t)"
proof (induction ps arbitrary: e)
  case Nil
  then show ?case by simp
next
  case (Cons q ps)
  then obtain d where d: "policy_expiry st q now = Inr d"
    and rest: "earliest_policy_expiry st now ps
      (Some (case e of None \<Rightarrow> d | Some c \<Rightarrow> min c d)) = Inr (Some t)"
    by (auto simp: results)
  show ?case using Cons.IH [OF rest] d by (auto split: option.splits)
qed

lemma lease_expiry_bounds:
  assumes "lease_expiry ps now st = Inr t" and "ledger_ok P st" and "resolved P ps"
    and live: "\<forall>p \<in> set ps. lp_rate p \<noteq> None \<longrightarrow> live_window now st (lp_key p)"
  shows "now < t" and "p \<in> set ps \<Longrightarrow> map_of (windows st) (lp_key p) = Some w \<Longrightarrow> t \<le> w_ends_at w"
proof -
  have e: "earliest_policy_expiry st now ps None = Inr (Some t)"
    using assms(1) by (auto simp: lease_expiry_def results)
  have "now < w_ends_at w" if p: "p \<in> set ps" and w: "map_of (windows st) (lp_key p) = Some w" for p w
  proof -
    have "policy P (lp_key p) = Some p" using assms(3) p by (simp add: resolved_def)
    moreover obtain q r where "policy P (lp_key p) = Some q" "lp_rate q = Some r"
      using ledger_rateD [OF assms(2) w] by blast
    ultimately have "lp_rate p \<noteq> None" by simp
    with live p w show ?thesis by (auto simp: live_window_def)
  qed
  then show "now < t"
    using earliest_policy_expiry_bounds [OF e] policy_expiry_bounds(2) assms(3)
    by (auto simp: resolved_def)
  show "p \<in> set ps \<Longrightarrow> map_of (windows st) (lp_key p) = Some w \<Longrightarrow> t \<le> w_ends_at w"
    using earliest_policy_expiry_bounds [OF e] policy_expiry_bounds(1) by (meson order_trans)
qed

section \<open>The reservation\<close>

definition new_lease :: "LimitPolicy list \<Rightarrow> AdmissionRequest \<Rightarrow> MonotonicTime \<Rightarrow> ActiveLease" where
  "new_lease ps request t =
     \<lparr>l_rate_keys = rate_keys ps, l_concurrency_keys = concurrency_keys ps,
      l_units = rq_units request, l_expires_at = t, l_rate_committed = False\<rparr>"

lemma rate_keys_iff: "resolved P ps \<Longrightarrow> p \<in> set ps \<Longrightarrow> lp_key p \<in> set (rate_keys ps) \<longleftrightarrow> lp_rate p \<noteq> None"
  by (auto simp: rate_keys_def resolved_def distinct_map inj_on_def)

lemma distinct_keys [simp]:
  "resolved P ps \<Longrightarrow> distinct (rate_keys ps)" "resolved P ps \<Longrightarrow> distinct (concurrency_keys ps)"
  by (auto simp: rate_keys_def concurrency_keys_def resolved_def distinct_map inj_on_def)

lemma check_rate_ok:
  assumes "check_rate st p n now = Inr ()" and "lp_rate p = Some r" and "n \<noteq> 0"
  obtains w where "map_of (windows st) (lp_key p) = Some w"
    "unat (w_committed w) + unat (w_pending w) + unat n \<le> unat (rr_capacity r)"
proof -
  obtain w where w: "map_of (windows st) (lp_key p) = Some w"
    "\<not> saturating_sub (rr_capacity r) (saturating_add (w_committed w) (w_pending w)) < n"
    using assms(1,2) by (auto simp: check_rate_def Let_def split: option.splits if_splits)
  have "0 < unat n" using assms(3) by (simp add: unat_pos)
  then have "unat (w_committed w) + unat (w_pending w) + unat n \<le> unat (rr_capacity r)"
    using w(2) unat_lt_width [of "rr_capacity r"] by (simp add: machine)
  with w(1) show ?thesis by (rule that)
qed

lemma check_capacity_rate:
  assumes "check_capacity ps request now st = Inr ()" and "resolved P ps" and "rq_units request \<noteq> 0"
    and "k \<in> set (rate_keys ps)"
  obtains w p r where "map_of (windows st) k = Some w" "policy P k = Some p" "lp_rate p = Some r"
    "unat (w_committed w) + unat (w_pending w) + unat (rq_units request) \<le> unat (rr_capacity r)"
proof -
  obtain p r where p: "p \<in> set ps" "lp_key p = k" "lp_rate p = Some r"
    using assms(4) by (auto simp: rate_keys_def)
  have "check_rate st p (rq_units request) now = Inr ()"
    using assms(1) p(1) by (auto simp: check_capacity_def results)
  then show ?thesis
    using that p assms(2,3) check_rate_ok by (metis resolved_def)
qed

lemma check_capacity_concurrency:
  assumes "check_capacity ps request now st = Inr ()" and "resolved P ps"
    and "k \<in> set (concurrency_keys ps)"
  obtains p c where "policy P k = Some p" "lp_concurrency p = Some c"
    "unat (active_count st k) < unat (cr_limit c)"
proof -
  obtain p c where p: "p \<in> set ps" "lp_key p = k" "lp_concurrency p = Some c"
    using assms(3) by (auto simp: concurrency_keys_def)
  have "check_concurrency st p now = Inr ()"
    using assms(1) p(1) by (auto simp: check_capacity_def results)
  then have "unat (active_count st k) < unat (cr_limit c)"
    using p by (simp add: check_concurrency_def word_less_nat_alt split: if_splits)
  then show ?thesis using that p assms(2) by (metis resolved_def)
qed

definition reserved_state ::
  "LimitPolicy list \<Rightarrow> AdmissionRequest \<Rightarrow> AdmissionLeaseId \<Rightarrow> MonotonicTime \<Rightarrow>
     ControllerState \<Rightarrow> ControllerState \<Rightarrow> bool" where
  "reserved_state ps request lid t st st' \<longleftrightarrow>
     leases st' = bt_insert lid (new_lease ps request t) (leases st)
     \<and> map_of (windows st') = at_keys (rate_keys ps) (plus_pending (rq_units request)) (map_of (windows st))
     \<and> (\<forall>k. unat (active_count st' k) =
            unat (active_count st k) + (if k \<in> set (concurrency_keys ps) then 1 else 0))
     \<and> last_now st' = last_now st \<and> next_identity st' = next_identity st"

lemma reserve_effect:
  assumes cap: "check_capacity ps request now st = Inr ()" and res: "resolved P ps"
    and units: "rq_units request \<noteq> 0"
  shows "\<exists>parts st'. reserve ps request rid lid t st = (Inr parts, st') \<and>
    reserved_state ps request lid t st st'"
proof -
  let ?n = "rq_units request" and ?R = "rate_keys ps" and ?C = "concurrency_keys ps"
  have fits: "\<forall>k \<in> set ?R. \<exists>w. map_of (windows st) k = Some w \<and> unat (w_pending w) + unat ?n < 2 ^ 32"
  proof
    fix k assume k: "k \<in> set ?R"
    obtain w p r where "map_of (windows st) k = Some w" "policy P k = Some p" "lp_rate p = Some r"
      "unat (w_committed w) + unat (w_pending w) + unat ?n \<le> unat (rr_capacity r)"
      using check_capacity_rate [OF cap res units k] by blast
    then show "\<exists>w. map_of (windows st) k = Some w \<and> unat (w_pending w) + unat ?n < 2 ^ 32"
      using unat_lt_width [of "rr_capacity r"] by (intro exI [of _ w]) simp
  qed
  obtain ws where ws: "apply_pending_addition ?R ?n st = (Inr (), st\<lparr>windows := ws\<rparr>)"
    "map_of ws = at_keys ?R (plus_pending ?n) (map_of (windows st))"
    using apply_pending_addition_effect [OF distinct_keys(1) [OF res] fits] by blast
  have "validate_pending_addition ?R ?n st = Inr ()"
    using fits by (fastforce simp: validate_pending_addition_def results checked_add_def)
  with ws(1) have pend: "add_pending ?R ?n st = (Inr (), st\<lparr>windows := ws\<rparr>)"
    by (simp add: add_pending_def bind_update_def lift_result_def)
  let ?s1 = "st\<lparr>windows := ws\<rparr>"
  have room: "\<forall>k \<in> set ?C. unat (active_count ?s1 k) + 1 < 2 ^ 32"
  proof
    fix k assume k: "k \<in> set ?C"
    obtain p c where "policy P k = Some p" "lp_concurrency p = Some c"
      "unat (active_count st k) < unat (cr_limit c)"
      using check_capacity_concurrency [OF cap res k] by blast
    then show "unat (active_count ?s1 k) + 1 < 2 ^ 32"
      using unat_lt_width [of "cr_limit c"] by simp
  qed
  obtain cs where cs: "for_each add_concurrency_key ?C ?s1 = (Inr (), ?s1\<lparr>concurrency := cs\<rparr>)"
    "\<forall>k. unat (active_count (?s1\<lparr>concurrency := cs\<rparr>) k) =
       unat (active_count ?s1 k) + (if k \<in> set ?C then 1 else 0)"
    using add_concurrency_loop_effect [OF distinct_keys(2) [OF res] room] by blast
  have "check_each (\<lambda>key. bind_result (ok_or exhausted (checked_add (active_count ?s1 key) 1)) (\<lambda>_. Inr ())) ?C = Inr ()"
    using room by (fastforce simp: results checked_add_def)
  with cs(1) have conc: "add_concurrency ?C ?s1 = (Inr (), ?s1\<lparr>concurrency := cs\<rparr>)"
    by (simp add: add_concurrency_def bind_update_def lift_result_def)
  let ?s2 = "?s1\<lparr>concurrency := cs\<rparr>"
  have "\<exists>parts. reserve ps request rid lid t st =
      (Inr parts, ?s2\<lparr>leases := bt_insert lid (new_lease ps request t) (leases st)\<rparr>)"
    using pend conc by (simp add: reserve_def bind_update_def new_lease_def)
  moreover have "reserved_state ps request lid t st
      (?s2\<lparr>leases := bt_insert lid (new_lease ps request t) (leases st)\<rparr>)"
    using ws(2) cs(2) by (simp add: reserved_state_def)
  ultimately show ?thesis by blast
qed

lemma reserved_state_ledger_ok:
  assumes ok: "ledger_ok P st" and st': "reserved_state ps request lid t st st'"
    and cap: "check_capacity ps request now st = Inr ()" and res: "resolved P ps"
    and units: "rq_units request \<noteq> 0" and new: "map_of (leases st) lid = None"
    and le: "lid \<le> next_identity st"
    and ends: "\<And>k w. k \<in> set (rate_keys ps) \<Longrightarrow> map_of (windows st) k = Some w \<Longrightarrow> t \<le> w_ends_at w"
  shows "ledger_ok P st'"
proof -
  let ?l = "new_lease ps request t"
  note st' = st' [unfolded reserved_state_def]
  note ins = claims_insert_new [OF new, where r = ?l]
  have kept: "\<exists>w'. map_of (windows st') k = Some w' \<and> w_ends_at w' = w_ends_at w"
    if "map_of (windows st) k = Some w" for k w
    using that st' by (auto simp: at_keys_def plus_pending_def)
  have has: "\<exists>w. map_of (windows st) k = Some w \<and> t \<le> w_ends_at w" if k: "k \<in> set (rate_keys ps)" for k
    using ends [OF k] check_capacity_rate [OF cap res units k] by metis
  have "lease_ok st ?l"
    using res units has by (simp add: lease_ok_def new_lease_def)
  then have "leases_ok st'"
    unfolding leases_ok_def using ok st' le lease_ok_frame [OF _ kept]
    by (auto simp: ledger_ok_def leases_ok_def)
  moreover have "concurrency_balanced st'"
    using ledger_activeD [OF ok] st' ins [of "concurrency_claim _"]
    by (simp add: concurrency_balanced_def concurrency_claim_def new_lease_def)
  moreover have "unat (w_pending w) = claims (pending_claim k) (leases st') \<and>
      (\<exists>p r. policy P k = Some p \<and> lp_rate p = Some r \<and>
        unat (w_committed w) + unat (w_pending w) \<le> unat (rr_capacity r))"
    if lookup: "map_of (windows st') k = Some w" for k w
  proof (cases "k \<in> set (rate_keys ps)")
    case True
    obtain w0 p r where w0: "map_of (windows st) k = Some w0" "policy P k = Some p" "lp_rate p = Some r"
      "unat (w_committed w0) + unat (w_pending w0) + unat (rq_units request) \<le> unat (rr_capacity r)"
      using check_capacity_rate [OF cap res units True] by blast
    have w: "w = plus_pending (rq_units request) w0"
      using lookup st' True w0(1) by (simp add: at_keys_def)
    have "unat (w_pending w0 + rq_units request) = unat (w_pending w0) + unat (rq_units request)"
      using w0(4) unat_lt_width [of "rr_capacity r"] by (intro unat_plus_exact) simp
    then show ?thesis
      using w w0 ledger_pendingD [OF ok w0(1)] ins [of "pending_claim k"] st' True
      by (simp add: plus_pending_def pending_claim_def new_lease_def)
  next
    case False
    then have w: "map_of (windows st) k = Some w" using lookup st' by (simp add: at_keys_def)
    have "claims (pending_claim k) (leases st') = claims (pending_claim k) (leases st)"
      using ins [of "pending_claim k"] False st' by (simp add: pending_claim_def new_lease_def)
    then show ?thesis
      using ledger_pendingD [OF ok w] ledger_rateD [OF ok w] by metis
  qed
  moreover have "concurrency_bounded P st'"
    unfolding concurrency_bounded_def
  proof (intro allI impI)
    fix k p c assume pc: "policy P k = Some p \<and> lp_concurrency p = Some c"
    have "unat (active_count st k) \<le> unat (cr_limit c)"
      using ok pc by (auto simp: ledger_ok_def concurrency_bounded_def)
    moreover have "unat (active_count st k) < unat (cr_limit c)" if k: "k \<in> set (concurrency_keys ps)"
      using check_capacity_concurrency [OF cap res k] pc by force
    ultimately show "unat (active_count st' k) \<le> unat (cr_limit c)" using st' by auto
  qed
  ultimately show ?thesis
    unfolding ledger_ok_def pending_balanced_def rate_bounded_def by blast
qed

section \<open>Admission as a whole\<close>

text \<open>\<open>rolled now st st'\<close>: the only changes are expiry of leases and roll-over of ended windows.\<close>

definition rolled :: "MonotonicTime \<Rightarrow> ControllerState \<Rightarrow> ControllerState \<Rightarrow> bool" where
  "rolled now st st' \<longleftrightarrow>
     leases st' = filter (\<lambda>(i, l). now < l_expires_at l) (leases st)
     \<and> last_now st' = now
     \<and> (\<forall>k e n. charged st k = Some (e, n) \<and> now < e \<longrightarrow> charged st' k = Some (e, n))
     \<and> (\<forall>k. charged st' k = charged st k \<or> (\<exists>e. charged st' k = Some (e, 0)))"

text \<open>A window that is prepared is kept or starts without a charge.\<close>

lemma prepare_window_charged:
  assumes "prepare_window p now st = (Inr (), st')"
  shows "charged st' k = charged st k \<or> (\<exists>e. charged st' k = Some (e, 0))"
  using assms
  by (auto simp: prepare_window_def charged_def Let_def RateWindowState_new_def results
      split: option.splits sum.splits if_splits)

lemma prepare_windows_charged:
  "for_each (\<lambda>p. prepare_window p now) ps st = (Inr (), st') \<Longrightarrow>
     charged st' k = charged st k \<or> (\<exists>e. charged st' k = Some (e, 0))"
proof (induction ps arbitrary: st)
  case (Cons p ps)
  then obtain s1 where "prepare_window p now st = (Inr (), s1)"
    and rest: "for_each (\<lambda>p. prepare_window p now) ps s1 = (Inr (), st')"
    by (auto simp: results)
  from prepare_window_charged [OF this(1), of k] Cons.IH [OF rest] show ?case by auto
qed simp

lemma charged_live: "charged st k = Some (e, n) \<Longrightarrow> now < e \<Longrightarrow> live_window now st k"
  by (auto simp: charged_def live_window_def)

lemma state_inv_next_identity:
  "state_inv P st \<Longrightarrow> next_identity st \<le> i \<Longrightarrow> state_inv P (st\<lparr>next_identity := i\<rparr>)"
  by (auto simp: state_inv_def ledger_defs lease_ok_def unexpired_at_def intro: order_trans)

lemma allocate_identities_cases:
  obtains "allocate_identities st = (Inl exhausted, st)"
  | rid lid where "allocate_identities st = (Inr (rid, lid), st\<lparr>next_identity := lid\<rparr>)"
    "unat lid = unat (next_identity st) + 2"
proof -
  have "(\<exists>rid lid. allocate_identities st = (Inr (rid, lid), st\<lparr>next_identity := lid\<rparr>) \<and>
      unat lid = unat (next_identity st) + 2) \<or> allocate_identities st = (Inl exhausted, st)"
    by (auto simp: allocate_identities_def checked_add_eq_Some split: option.splits)
  then show ?thesis using that by blast
qed

lemma observed_prepared:
  assumes inv: "state_inv P st" and res: "resolved P ps" and now: "last_now st \<le> now"
  obtains e st' where
    "bind_update (observe_and_expire now) (\<lambda>_. prepare_windows ps now) st = (Inl e, st')"
    "state_inv P st'" "rolled now st st'" "next_identity st' = next_identity st"
  | st' where
    "bind_update (observe_and_expire now) (\<lambda>_. prepare_windows ps now) st = (Inr (), st')"
    "state_inv P st'" "rolled now st st'" "next_identity st' = next_identity st"
    "\<forall>p \<in> set ps. lp_rate p \<noteq> None \<longrightarrow> live_window now st' (lp_key p)"
proof -
  have ok: "ledger_ok P st" using inv by (simp add: state_inv_def)
  obtain s1 where s1: "observe_and_expire now st = (Inr (), s1)" "ledger_ok P s1"
    "last_now s1 = now" "next_identity s1 = next_identity st" "unexpired_at now s1"
    "leases s1 = filter (\<lambda>(i, l). now < l_expires_at l) (leases st)" "charged s1 = charged st"
    using observe_and_expire_effect [OF ok now] by blast
  have pol: "\<forall>p \<in> set ps. policy P (lp_key p) = Some p \<and> policy_ok p"
    using res by (simp add: resolved_def)
  show ?thesis
  proof (cases rule: prepare_windows_cases [of ps now s1])
    case (1 e)
    then show ?thesis
      using s1 by (intro that(1) [of e s1]) (simp_all add: bind_update_ok state_inv_def rolled_def)
  next
    case (2 st')
    note loop = prepare_windows_loop [OF 2(2) s1(2,5) pol]
    have "charged st' k = Some (e, n)" if c: "charged st k = Some (e, n)" "now < e" for k e n
    proof -
      have "live_window now s1 k" using c s1(7) charged_live by metis
      then have "charged st' k = charged s1 k" using loop by (simp add: charged_def)
      then show ?thesis using c s1(7) by simp
    qed
    then have "rolled now st st'"
      using loop s1(3,6,7) prepare_windows_charged [OF 2(2)] by (simp add: rolled_def)
    moreover have "state_inv P st'"
      using loop s1(3,5) by (simp add: state_inv_def unexpired_at_def)
    moreover have "bind_update (observe_and_expire now) (\<lambda>_. prepare_windows ps now) st = (Inr (), st')"
      using s1(1) 2(1) by (simp add: bind_update_ok)
    ultimately show ?thesis using loop s1(4) that(2) by simp
  qed
qed

lemma bind_update_assoc: "bind_update (bind_update m f) g s = bind_update m (\<lambda>x. bind_update (f x) g) s"
  by (auto simp: bind_update_def split: prod.splits sum.splits)

lemma check_capacity_identity [simp]:
  "check_capacity ps request now (st\<lparr>next_identity := i\<rparr>) = check_capacity ps request now st"
proof -
  have "earliest_expiry (st\<lparr>next_identity := i\<rparr>) = earliest_expiry st"
    by (simp add: earliest_expiry_def fun_eq_iff)
  then have "check_concurrency (st\<lparr>next_identity := i\<rparr>) p now = check_concurrency st p now"
    and "check_rate (st\<lparr>next_identity := i\<rparr>) p n now = check_rate st p n now" for p n
    by (simp_all add: check_concurrency_def check_rate_def split: option.splits)
  then show ?thesis by (simp add: check_capacity_def)
qed

lemma rolled_identity [simp]: "rolled now st (s0\<lparr>next_identity := i\<rparr>) = rolled now st s0"
  by (simp add: rolled_def charged_def)

text \<open>The steps of an admission after its capacity checks.\<close>

definition grant ::
  "LimitPolicy list \<Rightarrow> AdmissionRequest \<Rightarrow> MonotonicTime \<Rightarrow> PreparedAdmission controller_update" where
  "grant ps request now =
     bind_update allocate_identities (\<lambda>(rid, lid).
     bind_update (lift_result (lease_expiry ps now)) (\<lambda>t.
     bind_update (reserve ps request rid lid t) (\<lambda>parts st.
       (Inr \<lparr>pa_lease_id = lid, pa_expires_at = t,
             pa_reservation = rp_reservation parts, pa_permits = rp_permits parts\<rparr>, st))))"

lemma state_prepare_admission_alt:
  "state_prepare_admission ps request now st =
     bind_update (bind_update (observe_and_expire now) (\<lambda>_. prepare_windows ps now)) (\<lambda>_.
     bind_update (lift_result (check_capacity ps request now)) (\<lambda>_. grant ps request now)) st"
  by (simp add: state_prepare_admission_def bind_update_assoc grant_def)

lemma reserve_from:
  assumes inv: "state_inv P s0" and res: "resolved P ps" and units: "rq_units request \<noteq> 0"
    and cap: "check_capacity ps request (last_now s0) s0 = Inr ()"
    and live: "\<forall>p \<in> set ps. lp_rate p \<noteq> None \<longrightarrow> live_window (last_now s0) s0 (lp_key p)"
    and lt: "next_identity s0 < lid"
    and exp: "lease_expiry ps (last_now s0) (s0\<lparr>next_identity := lid\<rparr>) = Inr t"
  obtains parts st' where "reserve ps request rid lid t (s0\<lparr>next_identity := lid\<rparr>) = (Inr parts, st')"
    "reserved_state ps request lid t (s0\<lparr>next_identity := lid\<rparr>) st'" "state_inv P st'"
    "last_now s0 < t" "map_of (leases s0) lid = None"
proof -
  let ?s1 = "s0\<lparr>next_identity := lid\<rparr>"
  have inv1: "state_inv P ?s1" using inv lt by (intro state_inv_next_identity) auto
  then have ok1: "ledger_ok P ?s1" by (simp add: state_inv_def)
  have live1: "\<forall>p \<in> set ps. lp_rate p \<noteq> None \<longrightarrow> live_window (last_now s0) ?s1 (lp_key p)"
    using live by (simp add: live_window_def)
  have cap1: "check_capacity ps request (last_now s0) ?s1 = Inr ()" using cap by simp
  note bnd = lease_expiry_bounds [OF exp ok1 res live1]
  obtain parts st' where r: "reserve ps request rid lid t ?s1 = (Inr parts, st')"
    "reserved_state ps request lid t ?s1 st'"
    using reserve_effect [OF cap1 res units] by blast
  have "map_of (leases s0) lid = None"
    using ledger_leaseD(5) [of P s0 lid] inv lt
    by (cases "map_of (leases s0) lid") (auto simp: state_inv_def)
  then have new: "map_of (leases ?s1) lid = None" by simp
  have ends: "t \<le> w_ends_at w" if "k \<in> set (rate_keys ps)" "map_of (windows ?s1) k = Some w" for k w
    using that bnd(2) by (auto simp: rate_keys_def)
  have "ledger_ok P st'"
    by (rule reserved_state_ledger_ok [OF ok1 r(2) cap1 res units new _ ends]) simp
  then have "state_inv P st'"
    using inv1 r(2) bnd(1) by (auto simp: state_inv_def unexpired_at_def reserved_state_def new_lease_def)
  with r bnd(1) new show ?thesis using that by simp
qed

lemma lease_expiry_err:
  assumes "lease_expiry ps now st = Inl e"
  shows "e = exhausted \<or> e = invalid"
proof -
  have one: "e = exhausted \<or> e = invalid" if "policy_expiry st p now = Inl e" for p
    using that by (auto simp: policy_expiry_def Let_def bind_result_eq_Inl ok_or_def map_sum_def
        split: option.splits sum.splits dest: time_checked_add_err)
  have "e = exhausted \<or> e = invalid" if "earliest_policy_expiry st now ps t = Inl e" for t
    using that by (induction ps arbitrary: t) (auto simp: bind_result_eq_Inl dest: one)
  with assms show ?thesis by (auto simp: lease_expiry_def bind_result_eq_Inl ok_or_def split: option.splits)
qed

lemma grant_cases:
  assumes inv: "state_inv P s0" and res: "resolved P ps" and units: "rq_units request \<noteq> 0"
    and cap: "check_capacity ps request (last_now s0) s0 = Inr ()"
    and live: "\<forall>p \<in> set ps. lp_rate p \<noteq> None \<longrightarrow> live_window (last_now s0) s0 (lp_key p)"
  obtains (refused) e i where "grant ps request (last_now s0) s0 = (Inl e, s0\<lparr>next_identity := i\<rparr>)"
      "next_identity s0 \<le> i" "e = exhausted \<or> e = invalid"
  | (granted) pa st' where "grant ps request (last_now s0) s0 = (Inr pa, st')"
      "reserved_state ps request (pa_lease_id pa) (pa_expires_at pa)
         (s0\<lparr>next_identity := pa_lease_id pa\<rparr>) st'"
      "state_inv P st'" "last_now s0 < pa_expires_at pa"
      "map_of (leases s0) (pa_lease_id pa) = None"
      "unat (pa_lease_id pa) = unat (next_identity s0) + 2"
proof (cases rule: allocate_identities_cases [of s0])
  case 1
  then show ?thesis
    by (intro refused [of exhausted "next_identity s0"]) (simp_all add: grant_def bind_update_def)
next
  case alloc: (2 rid lid)
  have lt: "next_identity s0 < lid" using alloc(2) by (simp add: word_less_nat_alt)
  show ?thesis
  proof (cases "lease_expiry ps (last_now s0) (s0\<lparr>next_identity := lid\<rparr>)")
    case (Inl e)
    with alloc(1) lt lease_expiry_err [OF Inl] show ?thesis
      by (intro refused [of e lid]) (simp_all add: grant_def bind_update_def lift_result_def)
  next
    case (Inr t)
    obtain parts st' where r: "reserve ps request rid lid t (s0\<lparr>next_identity := lid\<rparr>) = (Inr parts, st')"
      "reserved_state ps request lid t (s0\<lparr>next_identity := lid\<rparr>) st'" "state_inv P st'"
      "last_now s0 < t" "map_of (leases s0) lid = None"
      using reserve_from [OF inv res units cap live lt Inr] by blast
    let ?pa = "\<lparr>pa_lease_id = lid, pa_expires_at = t,
      pa_reservation = rp_reservation parts, pa_permits = rp_permits parts\<rparr>"
    have "grant ps request (last_now s0) s0 = (Inr ?pa, st')"
      using alloc(1) Inr r(1) by (simp add: grant_def bind_update_def lift_result_def)
    with r alloc(2) show ?thesis by (intro granted [of ?pa st']) simp_all
  qed
qed

text \<open>
  The three outcomes of an admission: the clock regressed and nothing changed; it was refused
  after observing the time; it was admitted, and the reservation is exact.
\<close>

lemma prepare_admission_cases:
  assumes inv: "state_inv P st" and res: "resolved P ps" and units: "rq_units request \<noteq> 0"
  obtains (regressed) "now < last_now st"
      "state_prepare_admission ps request now st = (Inl (error ClockRegressed), st)"
  | (refused) e st' where "last_now st \<le> now" "state_prepare_admission ps request now st = (Inl e, st')"
      "state_inv P st'" "rolled now st st'" "next_identity st \<le> next_identity st'"
      "next_identity st' = next_identity st \<or> e = exhausted \<or> e = invalid"
  | (admitted) pa s1 st' where "last_now st \<le> now"
      "state_prepare_admission ps request now st = (Inr pa, st')"
      "rolled now st s1" "state_inv P s1" "map_of (leases s1) (pa_lease_id pa) = None"
      "reserved_state ps request (pa_lease_id pa) (pa_expires_at pa) s1 st'"
      "state_inv P st'" "now < pa_expires_at pa"
      "unat (pa_lease_id pa) = unat (next_identity st) + 2" "next_identity st' = pa_lease_id pa"
proof (cases "now < last_now st")
  case True
  then show ?thesis
    by (intro regressed) (simp_all add: state_prepare_admission_def observe_and_expire_regressed bind_update_err)
next
  case False
  then have now: "last_now st \<le> now" by simp
  show ?thesis
  proof (cases rule: observed_prepared [OF inv res now])
    case (1 e st')
    then show ?thesis
      by (intro refused [OF now, of e st']) (simp_all add: state_prepare_admission_alt bind_update_err)
  next
    case (2 s0)
    then have ln: "last_now s0 = now" by (simp add: rolled_def)
    show ?thesis
    proof (cases "check_capacity ps request now s0")
      case (Inl e)
      with 2 show ?thesis
        by (intro refused [OF now, of e s0])
          (simp_all add: state_prepare_admission_alt bind_update_def lift_result_def)
    next
      case (Inr u)
      with 2 have pre: "state_prepare_admission ps request now st = grant ps request now s0"
        by (simp add: state_prepare_admission_alt bind_update_def lift_result_def)
      show ?thesis
      proof (cases rule: grant_cases [OF 2(2) res units, unfolded ln, OF _ 2(5)])
        case 1
        then show ?case using Inr by simp
      next
        case (2 e i)
        with pre \<open>state_inv P s0\<close> \<open>rolled now st s0\<close> \<open>next_identity s0 = next_identity st\<close> show ?thesis
          by (intro refused [OF now, of e "s0\<lparr>next_identity := i\<rparr>"])
            (simp_all add: state_inv_next_identity)
      next
        case (3 pa st')
        have "next_identity s0 \<le> pa_lease_id pa" using 3(6) by (simp add: word_le_nat_alt)
        with 3 pre 2 show ?thesis
          by (intro admitted [OF now, of pa st' "s0\<lparr>next_identity := pa_lease_id pa\<rparr>"])
            (simp_all add: state_inv_next_identity reserved_state_def)
      qed
    qed
  qed
qed

section \<open>Every call keeps the invariant\<close>

lemma resolve_policies_resolved:
  assumes "policies_ok P" and "request_ok request" and "resolve_policies P request = Inr ps"
  shows "resolved P ps" and "map lp_key ps = rq_keys request"
proof -
  have r: "list_all2 (\<lambda>k p. policy P k = Some p) (rq_keys request) ps"
    using assms(3) by (simp add: resolve_policies_def collect_result_ok ok_or_eq)
  then show keys: "map lp_key ps = rq_keys request"
    by (induction rule: list_all2_induct) (auto simp: policies_ok_lookup(1) [OF assms(1)])
  have "distinct (rq_keys request)"
    using assms(2) by (simp add: request_ok_def distinct_map)
  moreover have "\<forall>p \<in> set ps. policy P (lp_key p) = Some p \<and> policy_ok p"
  proof
    fix p assume "p \<in> set ps"
    then obtain k where k: "policy P k = Some p"
      using r by (auto simp: list_all2_conv_all_nth in_set_conv_nth)
    then show "policy P (lp_key p) = Some p \<and> policy_ok p"
      using policies_ok_lookup [OF assms(1) k] by simp
  qed
  ultimately show "resolved P ps" using keys by (simp add: resolved_def)
qed

lemma with_lock_inv:
  assumes "controller_inv c"
    and "\<And>st. state_inv (ci_policies c) st \<Longrightarrow> state_inv (ci_policies c) (snd (f st))"
  shows "controller_inv (snd (with_lock f c))"
  using assms by (auto simp: with_lock_def controller_inv_def split: prod.splits) (metis snd_conv)

lemma with_lock_policies [simp]: "ci_policies (snd (with_lock f c)) = ci_policies c"
  by (auto simp: with_lock_def split: prod.splits)

lemma remove_lease_inv: "state_inv P st \<Longrightarrow> state_inv P (snd (remove_lease i st))"
  by (auto simp: state_inv_def unexpired_at_def remove_lease_ledger_ok remove_lease_frame [of P]
      split: if_splits)

lemma bind_update_inv:
  assumes "I s" and "\<And>s. I s \<Longrightarrow> I (snd (m s))" and "\<And>x s. I s \<Longrightarrow> I (snd (f x s))"
  shows "I (snd (bind_update m f s))"
  using assms(1,2) assms(3) [of "snd (m s)"]
  by (cases "m s") (auto simp: bind_update_def split: sum.splits dest: assms(2) [of s])

lemma lift_result_snd [simp]: "snd (lift_result f s) = s"
  by (simp add: lift_result_def)

lemma prepare_window_inv:
  assumes "state_inv P st" and "policies_ok P" and "policy P k = Some p"
    and now: "now = last_now st"
  shows "state_inv P (snd (prepare_window p now st))"
proof (cases "fst (prepare_window p now st)")
  case (Inl e)
  then show ?thesis using assms(1) by (metis prepare_window_err prod.collapse)
next
  case (Inr u)
  then have "prepare_window p now st = (Inr (), snd (prepare_window p now st))"
    by (metis old.unit.exhaust prod.collapse)
  moreover have "policy P (lp_key p) = Some p" "policy_ok p"
    using policies_ok_lookup [OF assms(2,3)] assms(3) by auto
  ultimately show ?thesis
    using prepare_window_ok(1-3) assms(1) now by (auto simp: state_inv_def unexpired_at_def)
qed

lemma remove_lease_invD: "remove_lease i st = (r, st') \<Longrightarrow> state_inv P st \<Longrightarrow> state_inv P st'"
  using remove_lease_inv [of P st i] by simp

lemma observe_and_expire_invD:
  "observe_and_expire now st = (r, st') \<Longrightarrow> state_inv P st \<Longrightarrow> state_inv P st'"
  using observe_and_expire_inv [of P st now] by simp

lemma complete_accepted_inv: "state_inv P st \<Longrightarrow> state_inv P (snd (complete_accepted i st))"
  unfolding complete_accepted_def
  by (rule bind_update_inv [where I = "state_inv P"])
    (auto simp: state_commit_rate_inv split: prod.splits dest: remove_lease_invD)

lemma retain_accepted_inv: "state_inv P st \<Longrightarrow> state_inv P (snd (retain_accepted i st))"
  unfolding retain_accepted_def
  by (rule bind_update_inv [where I = "state_inv P"]) (auto simp: state_commit_rate_inv)

lemma state_finalize_accepted_inv:
  "state_inv P st \<Longrightarrow> state_inv P (snd (state_finalize_accepted i now st))"
proof (cases now)
  case None
  moreover assume "state_inv P st"
  ultimately show ?thesis by (simp add: state_finalize_accepted_def retain_accepted_inv)
next
  case (Some t)
  moreover assume "state_inv P st"
  moreover have "state_inv P (snd (finalize_accepted_at i t st))" if "state_inv P st"
    unfolding finalize_accepted_at_def using that
    by (rule bind_update_inv [where I = "state_inv P"])
      (auto simp: state_commit_rate_inv complete_accepted_inv retain_accepted_inv
        split: prod.splits sum.splits dest: observe_and_expire_invD)
  ultimately show ?thesis by (simp add: state_finalize_accepted_def)
qed

lemma state_retain_dispatched_inv:
  "state_inv P st \<Longrightarrow> state_inv P (snd (state_retain_dispatched i now st))"
  unfolding state_retain_dispatched_def
  by (rule bind_update_inv [where I = "state_inv P"])
    (auto simp: state_commit_rate_inv split: prod.splits sum.splits dest: observe_and_expire_invD)

lemma close_lease_inv: "controller_inv c \<Longrightarrow> controller_inv (snd (close_lease i now c))"
  unfolding close_lease_def
  by (rule with_lock_inv, assumption, rule bind_update_inv [where I = "state_inv _"])
    (auto simp: observe_and_expire_inv split: prod.splits dest: remove_lease_invD)

lemma drop_lease_inv: "controller_inv c \<Longrightarrow> controller_inv (drop_lease lease c)"
  by (auto simp: drop_lease_def close_lease_without_time_def controller_inv_def remove_lease_inv)

lemma try_admit_inv:
  assumes inv: "controller_inv c" and req: "request_ok request"
  shows "controller_inv (snd (try_admit request now c))"
proof (cases "resolve_policies (ci_policies c) request")
  case (Inl e)
  with inv show ?thesis
    by (simp add: try_admit_def inner_prepare_admission_def bind_update_def lift_result_def)
next
  case (Inr ps)
  let ?P = "ci_policies c"
  have res: "resolved ?P ps" and units: "rq_units request \<noteq> 0"
    using resolve_policies_resolved(1) inv req Inr by (auto simp: controller_inv_def request_ok_def)
  have "state_inv ?P (snd (state_prepare_admission ps request now st))" if "state_inv ?P st" for st
    by (rule prepare_admission_cases [OF that res units, of now]) (auto simp: that)
  then have "controller_inv (snd (with_lock (state_prepare_admission ps request now) c))"
    by (rule with_lock_inv [OF inv])
  with Inr show ?thesis
    by (auto simp: try_admit_def inner_prepare_admission_def bind_update_def lift_result_def
        split: prod.splits sum.splits)
qed

lemma snapshot_inv:
  assumes inv: "controller_inv c"
  shows "controller_inv (snd (snapshot k now c))"
proof (cases "policy (ci_policies c) k")
  case None
  with inv show ?thesis by (simp add: snapshot_def bind_update_def lift_result_def)
next
  case (Some p)
  let ?P = "ci_policies c"
  have "state_inv ?P (snd (bind_update (observe_and_expire now) (\<lambda>_.
      bind_update (prepare_window p now) (\<lambda>_ st. (Inr (state_snapshot st p now), st))) st))"
    if st: "state_inv ?P st" for st
  proof (cases "now < last_now st")
    case True
    with st show ?thesis by (simp add: observe_and_expire_regressed bind_update_err)
  next
    case False
    then obtain s1 where s1: "observe_and_expire now st = (Inr (), s1)" "last_now s1 = now"
      using observe_and_expire_effect [of ?P st now] st by (metis not_less state_inv_def)
    then have "state_inv ?P (snd (prepare_window p now s1))"
      using prepare_window_inv [OF observe_and_expire_invD [OF s1(1) st] _ Some] inv
      by (simp add: controller_inv_def)
    with s1(1) show ?thesis
      by (auto simp: bind_update_def split: prod.splits sum.splits)
  qed
  from with_lock_inv [OF inv this] Some show ?thesis
    by (simp add: snapshot_def bind_update_ok lift_result_def)
qed

lemma lease_commit_rate_inv:
  "controller_inv c \<Longrightarrow> controller_inv (snd (lease_commit_rate lease now c))"
  unfolding lease_commit_rate_def
  by (rule bind_update_inv [where I = controller_inv])
    (auto intro!: with_lock_inv bind_update_inv [where I = "state_inv _"] observe_and_expire_inv
      state_commit_rate_inv)

lemma lease_close_inv: "controller_inv c \<Longrightarrow> controller_inv (snd (snd (lease_close lease now c)))"
  using close_lease_inv [of c "al_id lease" now]
  by (auto simp: lease_close_def split: sum.splits prod.splits)

lemma lease_release_inv:
  "controller_inv c \<Longrightarrow> controller_inv (snd (lease_release lease now c))"
  "controller_inv c \<Longrightarrow> controller_inv (snd (lease_cancel lease now c))"
  using lease_close_inv [of c lease now] drop_lease_inv
  by (auto simp: lease_release_def lease_cancel_def split: prod.splits)

lemma finalize_accepted_inv:
  "controller_inv c \<Longrightarrow> controller_inv (snd (finalize_accepted lease now c))"
  using with_lock_inv [of c "state_finalize_accepted (al_id lease) now"] drop_lease_inv
    state_finalize_accepted_inv
  by (auto simp: finalize_accepted_def inner_finalize_accepted_def split: sum.splits prod.splits)

lemma retain_concurrency_inv:
  "controller_inv c \<Longrightarrow> controller_inv (snd (commit_rate_and_retain_concurrency lease now c))"
  using with_lock_inv [of c "state_retain_dispatched (al_id lease) now"] drop_lease_inv
    state_retain_dispatched_inv
  by (auto simp: commit_rate_and_retain_concurrency_def inner_retain_dispatched_def
      split: sum.splits prod.splits)

lemma state_inv_new: "state_inv P (ControllerState_new t)"
  unfolding state_inv_def by (simp add: ledger_ok_new) (simp add: unexpired_at_def ControllerState_new_def)

lemma controller_init_inv: "controller_init c \<Longrightarrow> controller_inv c"
proof -
  assume "controller_init c"
  then obtain t where "policies_ok (ci_policies c)" and c: "c = AdmissionController_new (ci_policies c) t"
    by (auto simp: controller_init_def)
  moreover from c have "ci_state c = ControllerState_new t"
    by (metis AdmissionController_new_def ControllerInner.select_convs(3))
  ultimately show ?thesis by (simp add: controller_inv_def state_inv_new)
qed

lemma controller_call_inv:
  "controller_inv c \<Longrightarrow> controller_call_ok l \<Longrightarrow> controller_inv (controller_call_effect l c)"
  by (cases l) (auto intro: try_admit_inv snapshot_inv lease_commit_rate_inv lease_release_inv
      finalize_accepted_inv retain_concurrency_inv drop_lease_inv)

interpretation controller: invariant_system controller_init controller_step controller_inv
  by unfold_locales (auto simp: controller_init_inv controller_step_iff controller_call_inv)

end
