(* ===== verification/Admission_Properties.thy ===== *)
theory Admission_Properties
  imports Admission_Reserve
begin

text \<open>
  Properties of the admission limiter, over every reachable state of the controller (any
  interleaving of calls by any number of threads) or over one call from any such state.
\<close>

section \<open>Facts shared by the properties\<close>

lemma reachable_controller_inv: "reachable controller_init controller_step c \<Longrightarrow> controller_inv c"
  by (rule controller.reachable_inv)

lemma claims_count: "claims (concurrency_claim k) m =
    length (filter (\<lambda>(i, l). k \<in> set (l_concurrency_keys l)) m)"
  by (induction m) (auto simp: concurrency_claim_def)

lemma try_admit_split:
  assumes "controller_inv c" and "request_ok request" and "\<not> ci_poisoned c"
    and "resolve_policies (ci_policies c) request = Inr ps"
  shows "try_admit request now c =
    (case state_prepare_admission ps request now (ci_state c) of
       (Inl e, st') \<Rightarrow> (Inl e, c\<lparr>ci_state := st'\<rparr>)
     | (Inr pa, st') \<Rightarrow>
         (Inr \<lparr>al_id = pa_lease_id pa, al_expires_at = pa_expires_at pa,
               al_reservation = pa_reservation pa, al_permits = pa_permits pa,
               al_closed = False\<rparr>, c\<lparr>ci_state := st'\<rparr>))"
  using assms(3,4)
  by (auto simp: try_admit_def inner_prepare_admission_def bind_update_def lift_result_def
      with_lock_def split: prod.splits sum.splits)

lemma try_admit_prepared:
  assumes inv: "controller_inv c" and req: "request_ok request"
    and adm: "try_admit request now c = (Inr lease, c')"
  obtains ps pa where "\<not> ci_poisoned c" "resolve_policies (ci_policies c) request = Inr ps"
    "state_prepare_admission ps request now (ci_state c) = (Inr pa, ci_state c')"
    "c' = c\<lparr>ci_state := ci_state c'\<rparr>" "al_id lease = pa_lease_id pa"
    "al_expires_at lease = pa_expires_at pa" "\<not> al_closed lease"
proof -
  obtain ps where ps: "resolve_policies (ci_policies c) request = Inr ps" and "\<not> ci_poisoned c"
    using adm by (cases "resolve_policies (ci_policies c) request")
      (auto simp: try_admit_def inner_prepare_admission_def bind_update_def lift_result_def
        with_lock_def split: if_splits)
  then show ?thesis
    using adm that [of ps]
    by (auto simp: try_admit_split [OF inv req] split: prod.splits sum.splits)
qed

lemma new_lease_keys:
  assumes "resolved P ps"
  shows "set (l_rate_keys (new_lease ps rq t)) \<union> set (l_concurrency_keys (new_lease ps rq t)) =
    set (map lp_key ps)"
proof -
  have "lp_rate p \<noteq> None \<or> lp_concurrency p \<noteq> None" if "p \<in> set ps" for p
    using assms that by (auto simp: resolved_def policy_ok_def)
  then show ?thesis
    by (fastforce simp: new_lease_def rate_keys_def concurrency_keys_def)
qed

lemma try_admit_effect:
  assumes inv: "controller_inv c" and req: "request_ok request"
    and adm: "try_admit request now c = (Inr lease, c')"
  obtains s1 ps where "resolved (ci_policies c) ps" "map lp_key ps = rq_keys request"
    "rolled now (ci_state c) s1" "state_inv (ci_policies c) s1" "state_inv (ci_policies c) (ci_state c')"
    "map_of (leases s1) (al_id lease) = None" "now < al_expires_at lease" "\<not> al_closed lease"
    "reserved_state ps request (al_id lease) (al_expires_at lease) s1 (ci_state c')"
    "next_identity (ci_state c) < al_id lease" "ci_policies c' = ci_policies c" "\<not> ci_poisoned c'"
    "next_identity (ci_state c') = al_id lease"
proof -
  obtain ps pa where np: "\<not> ci_poisoned c" and ps: "resolve_policies (ci_policies c) request = Inr ps"
    and pa: "state_prepare_admission ps request now (ci_state c) = (Inr pa, ci_state c')"
    and c': "c' = c\<lparr>ci_state := ci_state c'\<rparr>"
    and lease: "al_id lease = pa_lease_id pa" "al_expires_at lease = pa_expires_at pa" "\<not> al_closed lease"
    by (rule try_admit_prepared [OF inv req adm])
  have res: "resolved (ci_policies c) ps" and keys: "map lp_key ps = rq_keys request"
    using resolve_policies_resolved [OF _ req ps] inv by (auto simp: controller_inv_def)
  have st: "state_inv (ci_policies c) (ci_state c)" and units: "rq_units request \<noteq> 0"
    using inv req by (auto simp: controller_inv_def request_ok_def)
  have frame: "ci_policies c' = ci_policies c" "\<not> ci_poisoned c'"
    using np c' by (metis ControllerInner.ext_inject ControllerInner.surjective ControllerInner.update_convs(3))+
  show ?thesis
  proof (cases rule: prepare_admission_cases [OF st res units, of now])
    case (3 pb s1 st')
    have "pb = pa" "st' = ci_state c'" using 3(2) pa by auto
    with 3 lease frame res keys show ?thesis
      by (intro that [of ps s1]) (simp_all add: word_less_nat_alt)
  qed (use pa in auto)
qed

text \<open>
  The state after an admission that was refused or rolled back: untouched, or as after observing
  the time. Then the leases are those that have not expired, the counters are exactly what these
  leases hold, the windows that are still open are charged as before, and no window has another charge.
\<close>

definition counters_exact :: "(AdmissionLeaseId \<times> ActiveLease) list \<Rightarrow> ControllerState \<Rightarrow> bool" where
  "counters_exact m st \<longleftrightarrow>
     (\<forall>k. unat (active_count st k) = length (filter (\<lambda>(i, l). k \<in> set (l_concurrency_keys l)) m))
     \<and> (\<forall>k w. map_of (windows st) k = Some w \<longrightarrow>
          unat (w_pending w) =
            sum_list (map (\<lambda>(i, l). unat (l_units l))
              (filter (\<lambda>(i, l). k \<in> set (l_rate_keys l) \<and> \<not> l_rate_committed l) m)))"

definition only_observed :: "MonotonicTime \<Rightarrow> ControllerInner \<Rightarrow> ControllerInner \<Rightarrow> bool" where
  "only_observed now c c' \<longleftrightarrow>
     ci_policies c' = ci_policies c \<and> ci_poisoned c' = ci_poisoned c
     \<and> (ci_state c' = ci_state c
        \<or> rolled now (ci_state c) (ci_state c')
          \<and> counters_exact (filter (\<lambda>(i, l). now < l_expires_at l) (leases (ci_state c))) (ci_state c'))"

lemma claims_units: "claims (pending_claim k) m =
    sum_list (map (\<lambda>(i, l). unat (l_units l))
      (filter (\<lambda>(i, l). k \<in> set (l_rate_keys l) \<and> \<not> l_rate_committed l) m))"
  by (induction m) (auto simp: pending_claim_def)

lemma state_inv_counters: "state_inv P st \<Longrightarrow> counters_exact (leases st) st"
  unfolding counters_exact_def state_inv_def
  by (auto simp: ledger_activeD ledger_pendingD claims_count claims_units)

lemma rolled_observed:
  assumes "rolled now (ci_state c) st" and "state_inv P st"
    and "ci_policies c' = ci_policies c" "ci_poisoned c' = ci_poisoned c" "ci_state c' = st"
  shows "only_observed now c c'"
  using assms state_inv_counters [OF assms(2)] by (simp add: only_observed_def rolled_def)

lemma try_admit_refused:
  assumes inv: "controller_inv c" and req: "request_ok request"
    and adm: "try_admit request now c = (Inl e, c')"
  shows "only_observed now c c'"
    and "next_identity (ci_state c') = next_identity (ci_state c) \<or> e = exhausted \<or> e = invalid"
proof -
  have "only_observed now c c'
    \<and> (next_identity (ci_state c') = next_identity (ci_state c) \<or> e = exhausted \<or> e = invalid)"
  proof (cases "\<not> ci_poisoned c \<and> (\<exists>ps. resolve_policies (ci_policies c) request = Inr ps)")
    case False
    then have "c' = c"
      using adm by (cases "resolve_policies (ci_policies c) request")
        (auto simp: try_admit_def inner_prepare_admission_def bind_update_def lift_result_def
          with_lock_def)
    then show ?thesis by (simp add: only_observed_def)
  next
    case True
    then obtain ps where np: "\<not> ci_poisoned c" and ps: "resolve_policies (ci_policies c) request = Inr ps"
      by blast
    have st: "state_inv (ci_policies c) (ci_state c)" and units: "rq_units request \<noteq> 0"
      and res: "resolved (ci_policies c) ps"
      using inv req resolve_policies_resolved(1) [OF _ req ps]
      by (auto simp: controller_inv_def request_ok_def)
    show ?thesis
    proof (cases rule: prepare_admission_cases [OF st res units, of now])
      case 1
      with adm try_admit_split [OF inv req np ps, of now] show ?thesis by (simp add: only_observed_def)
    next
      case (2 f st')
      with adm try_admit_split [OF inv req np ps, of now] have "f = e" "c' = c\<lparr>ci_state := st'\<rparr>" by auto
      with 2 show ?thesis by (auto intro: rolled_observed)
    next
      case (3 pa s1 st')
      with adm try_admit_split [OF inv req np ps, of now] show ?thesis by simp
    qed
  qed
  then show "only_observed now c c'"
    and "next_identity (ci_state c') = next_identity (ci_state c) \<or> e = exhausted \<or> e = invalid"
    by blast+
qed

section \<open>A concrete controller\<close>

text \<open>
  One tenant with a capacity of 5 units per second and 2 concurrent leases, one admission of
  2 units at time 10: the state on which the properties are instantiated.
\<close>

definition ex_key :: LimitKey where "ex_key = Tenant ''t''"

definition ex_policy :: LimitPolicy where
  "ex_policy =
     \<lparr>lp_key = ex_key, lp_rate = Some \<lparr>rr_capacity = 5, rr_window = 1000000000\<rparr>,
      lp_concurrency = Some \<lparr>cr_limit = 2, cr_lease_duration = 1000000000\<rparr>\<rparr>"

definition ex_controller :: ControllerInner where
  "ex_controller = AdmissionController_new [(ex_key, ex_policy)] 0"

definition ex_request :: AdmissionRequest where
  "ex_request = \<lparr>rq_keys = [ex_key], rq_units = 2\<rparr>"

definition ex_big_request :: AdmissionRequest where
  "ex_big_request = \<lparr>rq_keys = [ex_key], rq_units = 4\<rparr>"

definition ex_lease :: AdmissionLease where
  "ex_lease =
     \<lparr>al_id = 2, al_expires_at = 1000000010,
      al_reservation = Some \<lparr>rs_id = 1, rs_keys = [ex_key], rs_units = 2, rs_expires_at = 1000000010\<rparr>,
      al_permits = [\<lparr>cp_lease_id = 2, cp_key = ex_key, cp_expires_at = 1000000010\<rparr>],
      al_closed = False\<rparr>"

definition ex_active :: ActiveLease where
  "ex_active =
     \<lparr>l_rate_keys = [ex_key], l_concurrency_keys = [ex_key], l_units = 2,
      l_expires_at = 1000000010, l_rate_committed = False\<rparr>"

definition ex_admitted :: ControllerInner where
  "ex_admitted =
     \<lparr>ci_policies = [(ex_key, ex_policy)], ci_poisoned = False,
      ci_state =
        \<lparr>last_now = 10, next_identity = 2,
         windows = [(ex_key, \<lparr>w_ends_at = 1000000010, w_committed = 0, w_pending = 2\<rparr>)],
         concurrency = [(ex_key, 1)], leases = [(2, ex_active)]\<rparr>\<rparr>"

lemmas controller_exec =
  try_admit_def inner_prepare_admission_def resolve_policies_def with_lock_def
  state_prepare_admission_def observe_and_expire_def remove_leases_def remove_lease_def
  prepare_windows_def prepare_window_def check_window_end_def RateWindowState_new_def
  time_checked_add_def try_word_def checked_add_def saturating_add_def saturating_sub_def
  check_capacity_def check_rate_def check_concurrency_def active_count_def earliest_expiry_def
  allocate_identities_def lease_expiry_def policy_expiry_def reserve_def rate_keys_def
  concurrency_keys_def add_pending_def validate_pending_addition_def apply_pending_addition_def
  add_pending_key_def add_concurrency_def add_concurrency_key_def bind_update_def lift_result_def
  AdmissionController_new_def ControllerState_new_def policy_def duration_until_def bt_remove_def

lemmas ex_defs = ex_key_def ex_policy_def ex_controller_def ex_request_def ex_big_request_def
  ex_lease_def ex_active_def ex_admitted_def

lemma Tenant_less [simp]: "Tenant a < Tenant b \<longleftrightarrow> a < b"
  by (simp add: less_LimitKey_def)

lemma ex_request_ok: "request_ok ex_request" "request_ok ex_big_request"
  by (simp_all add: request_ok_def ex_defs limit_constants)

lemma ex_policies_ok: "policies_ok [(ex_key, ex_policy)]"
  by (simp add: policies_ok_def policy_ok_def ex_defs limit_constants ordered_map_def
      rate_rule_ok_def concurrency_rule_ok_def)

lemma ex_init: "controller_init ex_controller"
  by (auto simp: controller_init_def ex_controller_def AdmissionController_new_def
      ex_policies_ok)

lemma ex_admit: "try_admit ex_request 10 ex_controller = (Inr ex_lease, ex_admitted)"
  by (simp add: controller_exec ex_defs)

lemma ex_reachable: "reachable controller_init controller_step ex_admitted"
proof -
  have "controller_step ex_controller (Admit ex_request 10) ex_admitted"
    using controller_step.call [of "Admit ex_request 10" ex_controller] ex_request_ok ex_admit by simp
  then show ?thesis using reachable_init [of controller_init, OF ex_init] reachable_step by metis
qed

section \<open>Safety of the counters\<close>

text \<open>
  C1: In every reachable state the committed and pending units of a rate window together never
  exceed the capacity configured for its key, and the pending units are exactly the units of
  the live uncommitted leases on that key.
\<close>

theorem rate_capacity_never_exceeded:
  assumes "reachable controller_init controller_step c"
    and "map_of (windows (ci_state c)) k = Some w"
  shows "(\<exists>p r. policy (ci_policies c) k = Some p \<and> lp_rate p = Some r \<and>
        unat (w_committed w) + unat (w_pending w) \<le> unat (rr_capacity r))
    \<and> unat (w_pending w) =
      sum_list (map (\<lambda>(i, l). unat (l_units l))
        (filter (\<lambda>(i, l). k \<in> set (l_rate_keys l) \<and> \<not> l_rate_committed l) (leases (ci_state c))))"
proof -
  have ok: "ledger_ok (ci_policies c) (ci_state c)"
    using reachable_controller_inv [OF assms(1)] by (simp add: controller_inv_def state_inv_def)
  have "claims (pending_claim k) m = sum_list (map (\<lambda>(i, l). unat (l_units l))
      (filter (\<lambda>(i, l). k \<in> set (l_rate_keys l) \<and> \<not> l_rate_committed l) m))"
    for m :: "(AdmissionLeaseId \<times> ActiveLease) list"
    by (induction m) (auto simp: pending_claim_def)
  then show ?thesis
    using ledger_pendingD [OF ok assms(2)] ledger_rateD [OF ok assms(2)] by metis
qed

theorem rate_capacity_never_exceeded_witness:
  "reachable controller_init controller_step ex_admitted \<and>
   (\<exists>p r. policy (ci_policies ex_admitted) ex_key = Some p \<and> lp_rate p = Some r \<and>
      unat (0 :: u32) + unat (2 :: u32) \<le> unat (rr_capacity r))"
  using rate_capacity_never_exceeded [OF ex_reachable,
      of ex_key "\<lparr>w_ends_at = 1000000010, w_committed = 0, w_pending = 2\<rparr>"] ex_reachable
  by (simp add: ex_admitted_def)

text \<open>
  C29: In every reachable state the number of live leases holding a permit on a key with a
  concurrency rule is at most the configured limit, and it is what the active counter says.
\<close>

theorem concurrency_limit_never_exceeded:
  assumes "reachable controller_init controller_step c"
    and "policy (ci_policies c) k = Some p" and "lp_concurrency p = Some r"
  shows "length (filter (\<lambda>(i, l). k \<in> set (l_concurrency_keys l)) (leases (ci_state c)))
      = unat (active_count (ci_state c) k)
    \<and> unat (active_count (ci_state c) k) \<le> unat (cr_limit r)"
proof -
  have ok: "ledger_ok (ci_policies c) (ci_state c)"
    using reachable_controller_inv [OF assms(1)] by (simp add: controller_inv_def state_inv_def)
  then have "unat (active_count (ci_state c) k) \<le> unat (cr_limit r)"
    using assms(2,3) unfolding ledger_ok_def concurrency_bounded_def by blast
  then show ?thesis
    using ledger_activeD [OF ok, of k] by (simp add: claims_count)
qed

theorem concurrency_limit_never_exceeded_witness:
  "reachable controller_init controller_step ex_admitted \<and>
   unat (active_count (ci_state ex_admitted) ex_key) \<le> unat (2 :: u32)"
  using concurrency_limit_never_exceeded [OF ex_reachable, of ex_key ex_policy
      "\<lparr>cr_limit = 2, cr_lease_duration = 1000000000\<rparr>"] ex_reachable
  by (simp add: ex_admitted_def ex_policy_def policy_def)

section \<open>Admission\<close>

text \<open>
  C32: An admission that is refused consumes nothing. Either the state is untouched, or the only
  changes are those of observing the time: the leases are the old ones that have not expired; the
  active count of a key is the number of them that hold a permit on it, and the pending units of a
  window are the sum of their uncommitted units; a window that is still open keeps its end and its
  committed units, and no window has committed units it did not have. Identities are taken only
  when the arithmetic of an expiry fails.
\<close>

theorem refused_admission_consumes_nothing:
  assumes "reachable controller_init controller_step c" and "request_ok request"
    and "try_admit request now c = (Inl e, c')"
    and "live = filter (\<lambda>(i, l). now < l_expires_at l) (leases (ci_state c))"
  shows "ci_policies c' = ci_policies c \<and> ci_poisoned c' = ci_poisoned c
    \<and> (next_identity (ci_state c') = next_identity (ci_state c) \<or> e \<in> {exhausted, invalid})
    \<and> (ci_state c' = ci_state c \<or>
       (leases (ci_state c') = live \<and> last_now (ci_state c') = now
        \<and> (\<forall>k. unat (active_count (ci_state c') k) =
             length (filter (\<lambda>(i, l). k \<in> set (l_concurrency_keys l)) live))
        \<and> (\<forall>k w. map_of (windows (ci_state c')) k = Some w \<longrightarrow>
             unat (w_pending w) = sum_list (map (\<lambda>(i, l). unat (l_units l))
               (filter (\<lambda>(i, l). k \<in> set (l_rate_keys l) \<and> \<not> l_rate_committed l) live)))
        \<and> (\<forall>k t n. charged (ci_state c) k = Some (t, n) \<and> now < t \<longrightarrow>
             charged (ci_state c') k = Some (t, n))
        \<and> (\<forall>k. charged (ci_state c') k = charged (ci_state c) k
             \<or> (\<exists>t. charged (ci_state c') k = Some (t, 0)))))"
proof -
  note inv = reachable_controller_inv [OF assms(1)]
  have "only_observed now c c'" by (rule try_admit_refused(1) [OF inv assms(2,3)])
  moreover have "next_identity (ci_state c') = next_identity (ci_state c) \<or> e \<in> {exhausted, invalid}"
    using try_admit_refused(2) [OF inv assms(2,3)] by simp
  ultimately show ?thesis unfolding only_observed_def rolled_def counters_exact_def assms(4) by blast
qed

theorem refused_admission_consumes_nothing_witness:
  "\<exists>e c'. try_admit ex_big_request 20 ex_admitted = (Inl e, c') \<and> ae_code e = RateLimited
     \<and> ci_policies c' = ci_policies ex_admitted
     \<and> next_identity (ci_state c') = next_identity (ci_state ex_admitted)"
proof -
  obtain e c' where r: "try_admit ex_big_request 20 ex_admitted = (Inl e, c')"
    and e: "ae_code e = RateLimited"
    by (simp add: controller_exec ex_defs)
  then have "e \<notin> {exhausted, invalid}" by (auto simp: exhausted_def invalid_def error_def AdmissionError_new_def)
  with refused_admission_consumes_nothing [OF ex_reachable ex_request_ok(2) r refl]
  have "ci_policies c' = ci_policies ex_admitted"
    "next_identity (ci_state c') = next_identity (ci_state ex_admitted)" by blast+
  with r e show ?thesis by blast
qed

text \<open>
  A successful admission is exact. It creates one lease under an identity never used before,
  covering every requested key, uncommitted, with the requested units and an expiry in the
  future; all other unexpired leases stay, and the active count of each key is the number of
  unexpired leases on it, plus one where the new lease holds a permit.
\<close>

theorem admission_is_exact:
  assumes "reachable controller_init controller_step c" and "request_ok request"
    and "try_admit request now c = (Inr lease, c')"
  shows "\<exists>l. leases (ci_state c') =
        bt_insert (al_id lease) l (filter (\<lambda>(i, l). now < l_expires_at l) (leases (ci_state c)))
    \<and> next_identity (ci_state c) < al_id lease \<and> \<not> al_closed lease
    \<and> l_units l = rq_units request \<and> \<not> l_rate_committed l
    \<and> set (l_rate_keys l) \<union> set (l_concurrency_keys l) = set (rq_keys request)
    \<and> l_expires_at l = al_expires_at lease \<and> now < l_expires_at l
    \<and> (\<forall>k. unat (active_count (ci_state c') k) =
          length (filter (\<lambda>(i, l). now < l_expires_at l \<and> k \<in> set (l_concurrency_keys l))
            (leases (ci_state c))) + (if k \<in> set (l_concurrency_keys l) then 1 else 0))"
proof -
  have inv: "controller_inv c" by (rule reachable_controller_inv [OF assms(1)])
  obtain s1 ps where e: "resolved (ci_policies c) ps" "map lp_key ps = rq_keys request"
    "rolled now (ci_state c) s1" "state_inv (ci_policies c) s1"
    "reserved_state ps request (al_id lease) (al_expires_at lease) s1 (ci_state c')"
    "next_identity (ci_state c) < al_id lease" "now < al_expires_at lease" "\<not> al_closed lease"
    by (rule try_admit_effect [OF inv assms(2,3)])
  let ?l = "new_lease ps request (al_expires_at lease)"
  have "unat (active_count s1 k) = length (filter (\<lambda>(i, l). now < l_expires_at l \<and>
      k \<in> set (l_concurrency_keys l)) (leases (ci_state c)))" for k
  proof -
    have "unat (active_count s1 k) = claims (concurrency_claim k) (leases s1)"
      using e(4) by (auto simp: state_inv_def intro: ledger_activeD)
    also have "\<dots> = length (filter (\<lambda>(i, l). k \<in> set (l_concurrency_keys l)) (leases s1))"
      by (rule claims_count)
    finally show ?thesis using e(3) by (simp add: rolled_def case_prod_unfold conj_commute)
  qed
  then show ?thesis
    using e new_lease_keys [OF e(1), of request "al_expires_at lease"]
    by (intro exI [of _ ?l]) (simp add: reserved_state_def rolled_def new_lease_def)
qed

theorem admission_is_exact_witness:
  "\<exists>l. leases (ci_state ex_admitted) = bt_insert (al_id ex_lease) l [] \<and> l_units l = 2 \<and>
     set (l_rate_keys l) \<union> set (l_concurrency_keys l) = {ex_key}"
proof -
  have "reachable controller_init controller_step ex_controller"
    by (rule reachable_init [of controller_init, OF ex_init])
  from admission_is_exact [OF this ex_request_ok(1) ex_admit] show ?thesis
    by (auto simp: ex_controller_def AdmissionController_new_def ControllerState_new_def ex_request_def)
qed

section \<open>Committing, finalizing and releasing\<close>

lemma controller_inv_state:
  "controller_inv c \<Longrightarrow> ledger_ok (ci_policies c) (ci_state c)"
  "controller_inv c \<Longrightarrow> unexpired_at (last_now (ci_state c)) (ci_state c)"
  by (simp_all add: controller_inv_def state_inv_def)

lemma observed_lookup:
  assumes "ledger_ok P st" and "leases st' = filter (\<lambda>(i, l). now < l_expires_at l) (leases st)"
  shows "map_of (leases st') i =
    (case map_of (leases st) i of Some l \<Rightarrow> if now < l_expires_at l then Some l else None | None \<Rightarrow> None)"
  using assms map_of_filter_ordered [of "leases st" "\<lambda>l. now < l_expires_at l" i]
  by (simp add: ledger_ok_def leases_ok_def)

text \<open>
  Committing the rate usage of an open lease that the controller still knows cannot fail
  before the lease expires: no overflow, no missing window. The lease stays, now committed.
\<close>

theorem commit_rate_always_succeeds:
  assumes "reachable controller_init controller_step c" and "\<not> ci_poisoned c" and "\<not> al_closed lease"
    and "map_of (leases (ci_state c)) (al_id lease) = Some l"
    and "last_now (ci_state c) \<le> now" and "now < l_expires_at l"
  shows "\<exists>c'. lease_commit_rate lease now c = (Inr (), c') \<and>
    map_of (leases (ci_state c')) (al_id lease) = Some (l\<lparr>l_rate_committed := True\<rparr>)"
proof -
  let ?P = "ci_policies c" and ?i = "al_id lease"
  have ok: "ledger_ok ?P (ci_state c)"
    by (rule controller_inv_state(1) [OF reachable_controller_inv [OF assms(1)]])
  obtain s1 where s1: "observe_and_expire now (ci_state c) = (Inr (), s1)" "ledger_ok ?P s1"
    "leases s1 = filter (\<lambda>(i, l). now < l_expires_at l) (leases (ci_state c))"
    using observe_and_expire_effect [OF ok assms(5)] by blast
  have l: "map_of (leases s1) ?i = Some l"
    using observed_lookup [OF ok s1(3), of ?i] assms(4,6) by simp
  have "\<exists>s2. state_commit_rate ?i s1 = (Inr (), s2) \<and>
      map_of (leases s2) ?i = Some (l\<lparr>l_rate_committed := True\<rparr>)"
  proof (cases "l_rate_committed l")
    case True
    then show ?thesis using state_commit_rate_cases(2) [OF s1(2) l] l by (auto intro: exI [of _ s1])
  next
    case False
    then obtain s2 where "state_commit_rate ?i s1 = (Inr (), s2)" "committed_state ?i l s1 s2"
      using state_commit_rate_cases(3) [OF s1(2) l] by blast
    then show ?thesis by (intro exI [of _ s2]) (simp add: committed_state_def)
  qed
  then show ?thesis
    using assms(2,3) s1(1)
    by (auto simp: lease_commit_rate_def ensure_open_def bind_update_def lift_result_def with_lock_def)
qed

theorem commit_rate_always_succeeds_witness:
  "\<exists>c'. lease_commit_rate ex_lease 20 ex_admitted = (Inr (), c') \<and>
     map_of (leases (ci_state c')) 2 = Some (ex_active\<lparr>l_rate_committed := True\<rparr>)"
  using commit_rate_always_succeeds [OF ex_reachable, of ex_lease ex_active 20]
  by (simp add: ex_lease_def ex_admitted_def ex_active_def)

lemma commit_then_charged:
  assumes ok: "ledger_ok P st" and l: "map_of (leases st) i = Some l" "\<not> l_rate_committed l"
    and c: "committed_state i l st st'" and k: "k \<in> set (l_rate_keys l)"
    and w: "charged st k = Some (t, n)"
  shows "charged st' k = Some (t, n + l_units l) \<and> unat (n + l_units l) = unat n + unat (l_units l)"
proof -
  obtain w0 where w0: "map_of (windows st) k = Some w0" "t = w_ends_at w0" "n = w_committed w0"
    using w by (auto simp: charged_def)
  moreover have "unat (n + l_units l) = unat n + unat (l_units l)"
    using commit_fits [OF ok l k] w0 by (intro unat_plus_exact) auto
  ultimately show ?thesis
    using c k by (simp add: charged_def committed_state_def at_keys_def charge_def)
qed

text \<open>The state part of \<open>finalize_accepted\<close> on a live, uncommitted lease.\<close>

lemma finalize_charges:
  assumes inv: "state_inv P st" and l: "map_of (leases st) i = Some l" "\<not> l_rate_committed l"
    and fin: "state_finalize_accepted i now st = (r, st')"
    and k: "k \<in> set (l_rate_keys l)" and w: "charged st k = Some (t, n)"
  shows "charged st' k = Some (t, n + l_units l)"
proof -
  have ok: "ledger_ok P st" using inv by (simp add: state_inv_def)
  obtain s1 where s1: "state_commit_rate i st = (Inr (), s1)" and c: "committed_state i l st s1"
    using state_commit_rate_cases(3) [OF ok l] by blast
  have ok1: "ledger_ok P s1" by (rule committed_state_ledger_ok [OF ok l c])
  have ch: "charged s1 k = Some (t, n + l_units l)"
    using commit_then_charged [OF ok l c k w] by simp
  have again: "snd (state_commit_rate i s) = s" if "ledger_ok P s" "\<And>m. map_of (leases s) i = Some m \<Longrightarrow> l_rate_committed m"
    for s
    using state_commit_rate_cases(1,2) [OF that(1), of i] that(2)
    by (cases "map_of (leases s) i") auto
  have l1: "map_of (leases s1) i = Some (l\<lparr>l_rate_committed := True\<rparr>)"
    using c by (simp add: committed_state_def)
  show ?thesis
  proof (cases now)
    case None
    then show ?thesis
      using fin s1 ch by (auto simp: state_finalize_accepted_def retain_accepted_def bind_update_def)
  next
    case (Some t0)
    show ?thesis
    proof (cases "t0 < last_now s1")
      case True
      then have "st' = s1"
        using fin s1 Some again [OF ok1] l1
        by (auto simp: state_finalize_accepted_def finalize_accepted_at_def retain_accepted_def
            bind_update_def observe_and_expire_regressed split: prod.splits sum.splits)
      with ch show ?thesis by simp
    next
      case False
      then obtain s2 where s2: "observe_and_expire t0 s1 = (Inr (), s2)" "ledger_ok P s2"
        "leases s2 = filter (\<lambda>(i, l). t0 < l_expires_at l) (leases s1)" "charged s2 = charged s1"
        using observe_and_expire_effect [OF ok1, of t0] by (metis not_less)
      have "l_rate_committed m" if "map_of (leases s2) i = Some m" for m
        using that l1 observed_lookup [OF ok1 s2(3), of i] by (auto split: if_splits)
      then have "snd (state_commit_rate i s2) = s2" by (rule again [OF s2(2)])
      then have "st' = s2 \<or> st' = snd (remove_lease i s2)"
        using fin s1 s2(1) Some
        by (auto simp: state_finalize_accepted_def finalize_accepted_at_def complete_accepted_def
            bind_update_def split: prod.splits sum.splits if_splits)
      then show ?thesis using remove_lease_charged [OF s2(2), of i] s2(4) ch by auto
    qed
  qed
qed

lemma finalize_charges_window:
  assumes inv: "state_inv P st" and l: "map_of (leases st) i = Some l" "\<not> l_rate_committed l"
    and fin: "state_finalize_accepted i now st = (r, st')" and k: "k \<in> set (l_rate_keys l)"
  shows "\<exists>t n m. charged st k = Some (t, n) \<and> charged st' k = Some (t, m) \<and>
    unat m = unat n + unat (l_units l)"
proof -
  have ok: "ledger_ok P st" using inv by (simp add: state_inv_def)
  obtain w where w: "map_of (windows st) k = Some w" using ledger_leaseD(6) [OF ok l(1) k] by blast
  then have ch: "charged st k = Some (w_ends_at w, w_committed w)" by (simp add: charged_def)
  from finalize_charges [OF inv l fin k ch]
  have "charged st' k = Some (w_ends_at w, w_committed w + l_units l)" .
  moreover have "unat (w_committed w + l_units l) = unat (w_committed w) + unat (l_units l)"
    using commit_fits [OF ok l k] w by (intro unat_plus_exact) auto
  ultimately show ?thesis using ch by blast
qed

text \<open>
  Finalizing work that the provider accepted always charges it. Whatever time is supplied
  (none, one that regressed, one past the lease's expiry) and whatever result is returned, every
  rate window of the lease has its committed units raised by exactly the lease's units.
\<close>

theorem accepted_work_is_always_charged:
  assumes "reachable controller_init controller_step c" and "\<not> ci_poisoned c" and "\<not> al_closed lease"
    and "map_of (leases (ci_state c)) (al_id lease) = Some l" and "\<not> l_rate_committed l"
    and "k \<in> set (l_rate_keys l)" and "finalize_accepted lease now c = (r, c')"
  shows "\<exists>t n m. charged (ci_state c) k = Some (t, n) \<and> charged (ci_state c') k = Some (t, m) \<and>
    unat m = unat n + unat (l_units l)"
proof -
  have inv: "state_inv (ci_policies c) (ci_state c)"
    using reachable_controller_inv [OF assms(1)] by (simp add: controller_inv_def)
  have "state_finalize_accepted (al_id lease) now (ci_state c) = (r, ci_state c')"
    using assms(2,3,7)
    by (auto simp: finalize_accepted_def ensure_open_def inner_finalize_accepted_def with_lock_def
        drop_lease_def split: prod.splits)
  from finalize_charges_window [OF inv assms(4,5) this assms(6)] show ?thesis .
qed

theorem accepted_work_is_always_charged_witness:
  "\<exists>t n m. charged (ci_state ex_admitted) ex_key = Some (t, n) \<and>
     charged (ci_state (snd (finalize_accepted ex_lease (Some 5) ex_admitted))) ex_key = Some (t, m) \<and>
     unat m = unat n + 2"
  using accepted_work_is_always_charged [OF ex_reachable, of ex_lease ex_active ex_key "Some 5"
      "fst (finalize_accepted ex_lease (Some 5) ex_admitted)"
      "snd (finalize_accepted ex_lease (Some 5) ex_admitted)"]
  by (simp add: ex_admitted_def ex_lease_def ex_active_def)

end
