(* ===== verification/Account_Budget.thy ===== *)
theory Account_Budget
  imports Interfaces
begin

text \<open>
  The budget ledger, \<open>ariadnion-account-budget/src/lib.rs\<close> and \<open>reservation.rs\<close>: policies over a
  hierarchy of scopes, reservations that charge all applicable policies at once, and their
  commit, release and expiry; then the version-checked owner of the policy set. The mutex of a
  book is a poison flag and each operation one critical section.
\<close>

section \<open>Errors and identities\<close>

definition BUDGET_MAX_POLICIES :: nat where "BUDGET_MAX_POLICIES = 4096"
definition MAX_RESERVATIONS :: nat where "MAX_RESERVATIONS = 131072"
definition BUDGET_MAX_ID_BYTES :: nat where "BUDGET_MAX_ID_BYTES = 128"

datatype BudgetErrorCode =
    BudgetInvalidArgument
  | LimitExceeded
  | DuplicatePolicy
  | DuplicateScopeCurrency
  | NoApplicablePolicy
  | HardLimitExceeded
  | ArithmeticOverflow
  | ReplayConflict
  | ReservationNotFound
  | ReservationFinalized
  | BudgetPolicyNotFound
  | BudgetGenerationConflict
  | BudgetGenerationExhausted
  | BudgetStateUnavailable

fun BudgetErrorCode_as_state_str :: "BudgetErrorCode \<Rightarrow> string" where
  "BudgetErrorCode_as_state_str BudgetGenerationConflict = ''ACCOUNT_BUDGET_GENERATION_CONFLICT''"
| "BudgetErrorCode_as_state_str BudgetGenerationExhausted = ''ACCOUNT_BUDGET_GENERATION_EXHAUSTED''"
| "BudgetErrorCode_as_state_str _ = ''ACCOUNT_BUDGET_STATE_UNAVAILABLE''"

fun BudgetErrorCode_as_lifecycle_str :: "BudgetErrorCode \<Rightarrow> string" where
  "BudgetErrorCode_as_lifecycle_str ArithmeticOverflow = ''ACCOUNT_BUDGET_ARITHMETIC_OVERFLOW''"
| "BudgetErrorCode_as_lifecycle_str ReplayConflict = ''ACCOUNT_BUDGET_REPLAY_CONFLICT''"
| "BudgetErrorCode_as_lifecycle_str ReservationNotFound = ''ACCOUNT_BUDGET_RESERVATION_NOT_FOUND''"
| "BudgetErrorCode_as_lifecycle_str ReservationFinalized = ''ACCOUNT_BUDGET_RESERVATION_FINALIZED''"
| "BudgetErrorCode_as_lifecycle_str BudgetPolicyNotFound = ''ACCOUNT_BUDGET_POLICY_NOT_FOUND''"
| "BudgetErrorCode_as_lifecycle_str other = BudgetErrorCode_as_state_str other"

fun BudgetErrorCode_as_str :: "BudgetErrorCode \<Rightarrow> string" where
  "BudgetErrorCode_as_str BudgetInvalidArgument = ''ACCOUNT_BUDGET_INVALID_ARGUMENT''"
| "BudgetErrorCode_as_str LimitExceeded = ''ACCOUNT_BUDGET_LIMIT_EXCEEDED''"
| "BudgetErrorCode_as_str DuplicatePolicy = ''ACCOUNT_BUDGET_DUPLICATE_POLICY''"
| "BudgetErrorCode_as_str DuplicateScopeCurrency = ''ACCOUNT_BUDGET_DUPLICATE_SCOPE_CURRENCY''"
| "BudgetErrorCode_as_str NoApplicablePolicy = ''ACCOUNT_BUDGET_NO_APPLICABLE_POLICY''"
| "BudgetErrorCode_as_str HardLimitExceeded = ''ACCOUNT_BUDGET_HARD_LIMIT_EXCEEDED''"
| "BudgetErrorCode_as_str other = BudgetErrorCode_as_lifecycle_str other"

datatype BudgetRefusalScope = AccountRefusal | RequestRefusal

record BudgetError =
  be_code :: BudgetErrorCode
  be_refusal_scope :: "BudgetRefusalScope option"

definition budget_error :: "BudgetErrorCode \<Rightarrow> BudgetError" where
  "budget_error c = \<lparr>be_code = c, be_refusal_scope = None\<rparr>"

definition BudgetError_with_refusal_scope :: "BudgetErrorCode \<Rightarrow> BudgetRefusalScope \<Rightarrow> BudgetError" where
  "BudgetError_with_refusal_scope c scope = \<lparr>be_code = c, be_refusal_scope = Some scope\<rparr>"

text \<open>\<open>u8::is_ascii_alphanumeric\<close> and \<open>is_ascii_uppercase\<close>.\<close>

definition is_ascii_alphanumeric :: "char \<Rightarrow> bool" where
  "is_ascii_alphanumeric c \<longleftrightarrow>
     CHR ''0'' \<le> c \<and> c \<le> CHR ''9'' \<or> CHR ''A'' \<le> c \<and> c \<le> CHR ''Z'' \<or> CHR ''a'' \<le> c \<and> c \<le> CHR ''z''"

definition is_ascii_uppercase :: "char \<Rightarrow> bool" where
  "is_ascii_uppercase c \<longleftrightarrow> CHR ''A'' \<le> c \<and> c \<le> CHR ''Z''"

definition is_disallowed_id_byte :: "char \<Rightarrow> bool" where
  "is_disallowed_id_byte c \<longleftrightarrow>
     \<not> is_ascii_alphanumeric c \<and> c \<notin> {CHR ''.'', CHR ''-'', CHR ''_'', CHR '':''}"

definition valid_id :: "string \<Rightarrow> bool" where
  "valid_id value \<longleftrightarrow>
     value \<noteq> [] \<and> length value \<le> BUDGET_MAX_ID_BYTES \<and> is_ascii value
     \<and> \<not> list_ex is_disallowed_id_byte value"

text \<open>\<open>parse\<close> of every identity type the macro \<open>bounded_id!\<close> generates.\<close>

definition bounded_id_parse :: "string \<Rightarrow> (BudgetError, string) result" where
  "bounded_id_parse value =
     (if \<not> valid_id value then Inl (budget_error BudgetInvalidArgument) else Inr value)"

type_synonym BudgetPolicyId = string
type_synonym GroupId = string
type_synonym ReservationId = string
type_synonym CurrencyCode = string
type_synonym UnixTimeSeconds = u64
type_synonym BudgetGeneration = u64

definition CurrencyCode_parse :: "string \<Rightarrow> (BudgetError, CurrencyCode) result" where
  "CurrencyCode_parse value =
     (if length value \<noteq> 3 \<or> \<not> list_all is_ascii_uppercase value
      then Inl (budget_error BudgetInvalidArgument) else Inr value)"

definition BudgetGeneration_next :: "BudgetGeneration \<Rightarrow> (BudgetError, BudgetGeneration) result" where
  "BudgetGeneration_next g = ok_or (budget_error BudgetGenerationExhausted) (checked_add g 1)"

section \<open>Policies and reservations\<close>

record Money =
  currency :: CurrencyCode
  minor_units :: u64

datatype BudgetScope =
    TenantScope TenantId
  | GroupScope TenantId GroupId
  | AccountScope TenantId AccountId

record BudgetContext =
  bc_tenant_id :: TenantId
  bc_group_id :: "GroupId option"
  bc_account_id :: AccountId

fun scope_matches :: "BudgetScope \<Rightarrow> BudgetContext \<Rightarrow> bool" where
  "scope_matches (TenantScope t) c = (t = bc_tenant_id c)"
| "scope_matches (GroupScope t g) c = (t = bc_tenant_id c \<and> bc_group_id c = Some g)"
| "scope_matches (AccountScope t a) c = (t = bc_tenant_id c \<and> a = bc_account_id c)"

datatype Enforcement = Hard | Soft

record BudgetPolicy =
  bp_id :: BudgetPolicyId
  bp_scope :: BudgetScope
  bp_limit :: Money
  bp_enforcement :: Enforcement

definition BudgetPolicy_new ::
  "BudgetPolicyId \<Rightarrow> BudgetScope \<Rightarrow> Money \<Rightarrow> Enforcement \<Rightarrow> (BudgetError, BudgetPolicy) result" where
  "BudgetPolicy_new pid scope limit enforcement =
     (if minor_units limit = 0 then Inl (budget_error BudgetInvalidArgument)
      else Inr \<lparr>bp_id = pid, bp_scope = scope, bp_limit = limit, bp_enforcement = enforcement\<rparr>)"

record ReservationRequest =
  rq_id :: ReservationId
  rq_context :: BudgetContext
  rq_amount :: Money
  rq_expires_at :: UnixTimeSeconds

definition ReservationRequest_new ::
  "ReservationId \<Rightarrow> BudgetContext \<Rightarrow> Money \<Rightarrow> UnixTimeSeconds \<Rightarrow>
     (BudgetError, ReservationRequest) result" where
  "ReservationRequest_new rid context amount expires_at =
     (if minor_units amount = 0 then Inl (budget_error BudgetInvalidArgument)
      else Inr \<lparr>rq_id = rid, rq_context = context, rq_amount = amount, rq_expires_at = expires_at\<rparr>)"

datatype ReservationState = Reserved | Committed | Released | Expired

record ReservationReceipt =
  rc_id :: ReservationId
  rc_state :: ReservationState
  rc_amount :: Money
  rc_expires_at :: UnixTimeSeconds
  rc_applied_policies :: "BudgetPolicyId list"
  rc_soft_limit_breaches :: "BudgetPolicyId list"

record BudgetUsage =
  bu_policy_id :: BudgetPolicyId
  bu_limit :: Money
  bu_enforcement :: Enforcement
  bu_reserved_minor_units :: u64
  bu_committed_minor_units :: u64

type_synonym ExpiryReport = nat \<comment> \<open>the count of reservations expired\<close>

record PolicyState =
  ps_policy :: BudgetPolicy
  ps_reserved :: u64
  ps_committed :: u64

record ReservationRecord =
  rec_request :: ReservationRequest
  rec_state :: ReservationState
  rec_applied_policies :: "BudgetPolicyId list"
  rec_soft_limit_breaches :: "BudgetPolicyId list"

definition receipt :: "ReservationRecord \<Rightarrow> ReservationReceipt" where
  "receipt r =
     \<lparr>rc_id = rq_id (rec_request r), rc_state = rec_state r, rc_amount = rq_amount (rec_request r),
      rc_expires_at = rq_expires_at (rec_request r), rc_applied_policies = rec_applied_policies r,
      rc_soft_limit_breaches = rec_soft_limit_breaches r\<rparr>"

record BudgetState =
  policies :: "(BudgetPolicyId, PolicyState) btree_map"
  reservations :: "(ReservationId, ReservationRecord) btree_map"

type_synonym 'a budget_update = "(BudgetState, BudgetError, 'a) update"

definition policy_state :: "BudgetState \<Rightarrow> BudgetPolicyId \<Rightarrow> (BudgetError, PolicyState) result" where
  "policy_state st pid = ok_or (budget_error BudgetPolicyNotFound) (map_of (policies st) pid)"

text \<open>\<open>policy_state_mut\<close> followed by an assignment through the reference.\<close>

definition policy_state_mut ::
  "BudgetPolicyId \<Rightarrow> (PolicyState \<Rightarrow> PolicyState) \<Rightarrow> unit budget_update" where
  "policy_state_mut pid assign st =
     (case map_of (policies st) pid of
        None \<Rightarrow> (Inl (budget_error BudgetPolicyNotFound), st)
      | Some p \<Rightarrow> (Inr (), st\<lparr>policies := bt_insert pid (assign p) (policies st)\<rparr>))"

section \<open>Reserving\<close>

definition validate_new_reservation ::
  "BudgetState \<Rightarrow> ReservationRequest \<Rightarrow> UnixTimeSeconds \<Rightarrow> (BudgetError, unit) result" where
  "validate_new_reservation st request now =
     (if rq_expires_at request \<le> now then Inl (budget_error BudgetInvalidArgument)
      else if MAX_RESERVATIONS \<le> length (reservations st) then Inl (budget_error LimitExceeded)
      else Inr ())"

definition policy_applies :: "ReservationRequest \<Rightarrow> PolicyState \<Rightarrow> bool" where
  "policy_applies request p \<longleftrightarrow>
     scope_matches (bp_scope (ps_policy p)) (rq_context request)
     \<and> currency (bp_limit (ps_policy p)) = currency (rq_amount request)"

definition applicable_policy_ids ::
  "BudgetState \<Rightarrow> ReservationRequest \<Rightarrow> (BudgetError, BudgetPolicyId list) result" where
  "applicable_policy_ids st request =
     (let ids = map (\<lambda>p. bp_id (ps_policy p))
                  (filter (policy_applies request) (bt_values (policies st)))
      in if ids = [] then Inl (budget_error NoApplicablePolicy) else Inr ids)"

definition projected_usage :: "PolicyState \<Rightarrow> u64 \<Rightarrow> (BudgetError, u64) result" where
  "projected_usage p amount =
     bind_result (ok_or (budget_error ArithmeticOverflow) (checked_add (ps_committed p) (ps_reserved p)))
       (\<lambda>usage. ok_or (budget_error ArithmeticOverflow) (checked_add usage amount))"

fun is_account_scope :: "BudgetScope \<Rightarrow> bool" where
  "is_account_scope (AccountScope _ _) = True"
| "is_account_scope _ = False"

definition merge_hard_scope :: "BudgetRefusalScope option \<Rightarrow> BudgetScope \<Rightarrow> BudgetRefusalScope" where
  "merge_hard_scope current policy_scope =
     (if current = Some RequestRefusal \<or> \<not> is_account_scope policy_scope
      then RequestRefusal else AccountRefusal)"

definition record_capacity_breach ::
  "PolicyState \<Rightarrow> BudgetPolicyId \<Rightarrow> BudgetRefusalScope option \<times> BudgetPolicyId list \<Rightarrow>
     BudgetRefusalScope option \<times> BudgetPolicyId list" where
  "record_capacity_breach p pid acc =
     (case acc of (hard_scope, soft_breaches) \<Rightarrow>
        (case bp_enforcement (ps_policy p) of
           Hard \<Rightarrow> (Some (merge_hard_scope hard_scope (bp_scope (ps_policy p))), soft_breaches)
         | Soft \<Rightarrow> (hard_scope, soft_breaches @ [pid])))"

fun capacity_breaches ::
  "BudgetState \<Rightarrow> u64 \<Rightarrow> BudgetPolicyId list \<Rightarrow> BudgetRefusalScope option \<times> BudgetPolicyId list \<Rightarrow>
     (BudgetError, BudgetRefusalScope option \<times> BudgetPolicyId list) result" where
  "capacity_breaches st amount [] acc = Inr acc"
| "capacity_breaches st amount (pid # pids) acc =
     bind_result (policy_state st pid) (\<lambda>p.
     bind_result (projected_usage p amount) (\<lambda>projected.
       capacity_breaches st amount pids
         (if minor_units (bp_limit (ps_policy p)) < projected
          then record_capacity_breach p pid acc else acc)))"

definition validate_capacity ::
  "BudgetState \<Rightarrow> BudgetPolicyId list \<Rightarrow> Money \<Rightarrow> (BudgetError, BudgetPolicyId list) result" where
  "validate_capacity st policy_ids amount =
     bind_result (capacity_breaches st (minor_units amount) policy_ids (None, [])) (\<lambda>(hard_scope, soft).
       case hard_scope of
         Some scope \<Rightarrow> Inl (BudgetError_with_refusal_scope HardLimitExceeded scope)
       | None \<Rightarrow> Inr soft)"

definition reserve_capacity :: "BudgetPolicyId list \<Rightarrow> u64 \<Rightarrow> unit budget_update" where
  "reserve_capacity policy_ids amount =
     bind_update
       (lift_result (\<lambda>st. collect_result
          (\<lambda>pid. bind_result (policy_state st pid) (\<lambda>p.
             bind_result (ok_or (budget_error ArithmeticOverflow) (checked_add (ps_reserved p) amount))
               (\<lambda>r. Inr (pid, r)))) policy_ids))
       (for_each (\<lambda>(pid, r). policy_state_mut pid (\<lambda>p. p\<lparr>ps_reserved := r\<rparr>)))"

definition replay_reservation ::
  "ReservationRecord \<Rightarrow> ReservationRequest \<Rightarrow> (BudgetError, ReservationReceipt) result" where
  "replay_reservation r request =
     (if rec_request r \<noteq> request then Inl (budget_error ReplayConflict)
      else if rec_state r \<noteq> Reserved then Inl (budget_error ReservationFinalized)
      else Inr (receipt r))"

definition insert_reservation ::
  "ReservationRequest \<Rightarrow> UnixTimeSeconds \<Rightarrow> ReservationReceipt budget_update" where
  "insert_reservation request now =
     bind_update (lift_result (\<lambda>st. validate_new_reservation st request now)) (\<lambda>_.
     bind_update (lift_result (\<lambda>st. applicable_policy_ids st request)) (\<lambda>policy_ids.
     bind_update (lift_result (\<lambda>st. validate_capacity st policy_ids (rq_amount request))) (\<lambda>soft.
     bind_update (reserve_capacity policy_ids (minor_units (rq_amount request))) (\<lambda>_ st.
       let r = \<lparr>rec_request = request, rec_state = Reserved, rec_applied_policies = policy_ids,
                rec_soft_limit_breaches = soft\<rparr>
       in (Inr (receipt r), st\<lparr>reservations := bt_insert (rc_id (receipt r)) r (reservations st)\<rparr>)))))"

section \<open>Committing, releasing and expiring\<close>

definition usage_after ::
  "BudgetState \<Rightarrow> ReservationState \<Rightarrow> u64 \<Rightarrow> BudgetPolicyId \<Rightarrow>
     (BudgetError, BudgetPolicyId \<times> u64 \<times> u64) result" where
  "usage_after st target amount pid =
     bind_result (policy_state st pid) (\<lambda>p.
     bind_result (ok_or (budget_error ArithmeticOverflow) (checked_sub (ps_reserved p) amount)) (\<lambda>r.
     bind_result
       (if target = Committed
        then ok_or (budget_error ArithmeticOverflow) (checked_add (ps_committed p) amount)
        else Inr (ps_committed p))
       (\<lambda>c. Inr (pid, r, c))))"

definition apply_transition_usage ::
  "ReservationRecord \<Rightarrow> ReservationState \<Rightarrow> unit budget_update" where
  "apply_transition_usage r target =
     bind_update
       (lift_result (\<lambda>st. collect_result
          (usage_after st target (minor_units (rq_amount (rec_request r)))) (rec_applied_policies r)))
       (for_each (\<lambda>(pid, r, c). policy_state_mut pid (\<lambda>p. p\<lparr>ps_reserved := r, ps_committed := c\<rparr>)))"

text \<open>\<open>get_mut\<close> of a stored record and the assignment of its state.\<close>

definition store_state :: "ReservationId \<Rightarrow> ReservationState \<Rightarrow> ReservationRecord budget_update" where
  "store_state rid target st =
     (case map_of (reservations st) rid of
        None \<Rightarrow> (Inl (budget_error ReservationNotFound), st)
      | Some r \<Rightarrow>
          (Inr (r\<lparr>rec_state := target\<rparr>),
           st\<lparr>reservations := bt_insert rid (r\<lparr>rec_state := target\<rparr>) (reservations st)\<rparr>))"

definition transition_record ::
  "ReservationId \<Rightarrow> ReservationState \<Rightarrow> ReservationReceipt budget_update" where
  "transition_record rid target =
     bind_update
       (lift_result (\<lambda>st. ok_or (budget_error ReservationNotFound) (map_of (reservations st) rid))) (\<lambda>r.
       if rec_state r = target then (\<lambda>st. (Inr (receipt r), st))
       else if rec_state r \<noteq> Reserved then (\<lambda>st. (Inl (budget_error ReservationFinalized), st))
       else bind_update (apply_transition_usage r target) (\<lambda>_.
            bind_update (store_state rid target) (\<lambda>stored st. (Inr (receipt stored), st))))"

fun add_decrements ::
  "u64 \<Rightarrow> BudgetPolicyId list \<Rightarrow> (BudgetPolicyId, u64) btree_map \<Rightarrow>
     (BudgetError, (BudgetPolicyId, u64) btree_map) result" where
  "add_decrements amount [] d = Inr d"
| "add_decrements amount (pid # pids) d =
     bind_result
       (ok_or (budget_error ArithmeticOverflow)
          (checked_add (case map_of d pid of None \<Rightarrow> 0 | Some t \<Rightarrow> t) amount))
       (\<lambda>next. add_decrements amount pids (bt_insert pid next d))"

fun expiry_decrements ::
  "ReservationRecord list \<Rightarrow> (BudgetPolicyId, u64) btree_map \<Rightarrow>
     (BudgetError, (BudgetPolicyId, u64) btree_map) result" where
  "expiry_decrements [] d = Inr d"
| "expiry_decrements (r # rs) d =
     bind_result (add_decrements (minor_units (rq_amount (rec_request r))) (rec_applied_policies r) d)
       (expiry_decrements rs)"

definition validate_expiry_decrements ::
  "BudgetState \<Rightarrow> (BudgetPolicyId, u64) btree_map \<Rightarrow> (BudgetError, unit) result" where
  "validate_expiry_decrements st =
     check_each (\<lambda>(pid, amount). bind_result (policy_state st pid) (\<lambda>p.
       if ps_reserved p < amount then Inl (budget_error ArithmeticOverflow) else Inr ()))"

definition record_expired :: "UnixTimeSeconds \<Rightarrow> ReservationRecord \<Rightarrow> bool" where
  "record_expired now r \<longleftrightarrow> rec_state r = Reserved \<and> rq_expires_at (rec_request r) \<le> now"

definition expire_records :: "UnixTimeSeconds \<Rightarrow> nat budget_update" where
  "expire_records now st =
     (let expired = filter (record_expired now) (bt_values (reservations st)) in
      bind_update (lift_result (\<lambda>_. expiry_decrements expired [])) (\<lambda>decrements.
      bind_update (lift_result (\<lambda>st. validate_expiry_decrements st decrements)) (\<lambda>_.
      bind_update
        (for_each (\<lambda>(pid, amount).
           policy_state_mut pid (\<lambda>p. p\<lparr>ps_reserved := ps_reserved p - amount\<rparr>)) decrements) (\<lambda>_.
      bind_update
        (for_each (\<lambda>r. bind_update (store_state (rq_id (rec_request r)) Expired) (\<lambda>_ st. (Inr (), st)))
           expired) (\<lambda>_ st. (Inr (length expired), st))))) st)"

section \<open>The budget book\<close>

record BudgetBook =
  bk_poisoned :: bool
  bk_state :: BudgetState

definition with_book :: "'a budget_update \<Rightarrow> (BudgetBook, BudgetError, 'a) update" where
  "with_book f b =
     (if bk_poisoned b then (Inl (budget_error BudgetStateUnavailable), b)
      else case f (bk_state b) of (r, st) \<Rightarrow> (r, b\<lparr>bk_state := st\<rparr>))"

definition validate_policy_count :: "nat \<Rightarrow> (BudgetError, unit) result" where
  "validate_policy_count count =
     (if count = 0 then Inl (budget_error BudgetInvalidArgument)
      else if BUDGET_MAX_POLICIES < count then Inl (budget_error LimitExceeded) else Inr ())"

definition validate_unique_policy ::
  "BudgetPolicy \<Rightarrow> BudgetPolicyId set \<times> (BudgetScope \<times> CurrencyCode) set \<Rightarrow>
     (BudgetError, BudgetPolicyId set \<times> (BudgetScope \<times> CurrencyCode) set) result" where
  "validate_unique_policy p seen =
     (case seen of (identities, scopes) \<Rightarrow>
        if bp_id p \<in> identities then Inl (budget_error DuplicatePolicy)
        else let key = (bp_scope p, currency (bp_limit p)) in
             if key \<in> scopes then Inl (budget_error DuplicateScopeCurrency)
             else Inr (insert (bp_id p) identities, insert key scopes))"

fun index_budget_policies ::
  "BudgetPolicy list \<Rightarrow> BudgetPolicyId set \<times> (BudgetScope \<times> CurrencyCode) set \<Rightarrow>
     (BudgetPolicyId, PolicyState) btree_map \<Rightarrow>
     (BudgetError, (BudgetPolicyId, PolicyState) btree_map) result" where
  "index_budget_policies [] seen states = Inr states"
| "index_budget_policies (p # ps) seen states =
     bind_result (validate_unique_policy p seen) (\<lambda>seen'.
       index_budget_policies ps seen'
         (bt_insert (bp_id p) \<lparr>ps_policy = p, ps_reserved = 0, ps_committed = 0\<rparr> states))"

definition BudgetBook_new :: "BudgetPolicy list \<Rightarrow> (BudgetError, BudgetBook) result" where
  "BudgetBook_new ps =
     bind_result (validate_policy_count (length ps)) (\<lambda>_.
     bind_result (index_budget_policies ps ({}, {}) []) (\<lambda>states.
       Inr \<lparr>bk_poisoned = False, bk_state = \<lparr>policies = states, reservations = []\<rparr>\<rparr>))"

definition book_reserve ::
  "ReservationRequest \<Rightarrow> UnixTimeSeconds \<Rightarrow> (BudgetBook, BudgetError, ReservationReceipt) update" where
  "book_reserve request now =
     with_book (bind_update (expire_records now) (\<lambda>_ st.
       case map_of (reservations st) (rq_id request) of
         Some r \<Rightarrow> (replay_reservation r request, st)
       | None \<Rightarrow> insert_reservation request now st))"

definition reserve_fresh ::
  "ReservationRequest \<Rightarrow> UnixTimeSeconds \<Rightarrow> (BudgetBook, BudgetError, ReservationReceipt) update" where
  "reserve_fresh request now =
     with_book (\<lambda>st.
       if map_of (reservations st) (rq_id request) \<noteq> None then (Inl (budget_error ReplayConflict), st)
       else bind_update (expire_records now) (\<lambda>_. insert_reservation request now) st)"

definition transition ::
  "ReservationId \<Rightarrow> ReservationState \<Rightarrow> (BudgetBook, BudgetError, ReservationReceipt) update" where
  "transition rid target = with_book (transition_record rid target)"

definition book_commit :: "ReservationId \<Rightarrow> (BudgetBook, BudgetError, ReservationReceipt) update" where
  "book_commit rid = transition rid Committed"

definition book_release :: "ReservationId \<Rightarrow> (BudgetBook, BudgetError, ReservationReceipt) update" where
  "book_release rid = transition rid Released"

definition expire :: "UnixTimeSeconds \<Rightarrow> (BudgetBook, BudgetError, ExpiryReport) update" where
  "expire now = with_book (expire_records now)"

definition usage :: "BudgetPolicyId \<Rightarrow> BudgetBook \<Rightarrow> (BudgetError, BudgetUsage) result" where
  "usage pid b =
     (if bk_poisoned b then Inl (budget_error BudgetStateUnavailable)
      else bind_result (ok_or (budget_error BudgetPolicyNotFound) (map_of (policies (bk_state b)) pid))
        (\<lambda>p. Inr \<lparr>bu_policy_id = bp_id (ps_policy p), bu_limit = bp_limit (ps_policy p),
                   bu_enforcement = bp_enforcement (ps_policy p),
                   bu_reserved_minor_units = ps_reserved p,
                   bu_committed_minor_units = ps_committed p\<rparr>))"

section \<open>Publication of budget policies\<close>

text \<open>
  The published book is a shared handle to a ledger; the value here is the ledger at the time it
  is published. Publishing replaces the handle and touches no ledger.
\<close>

record BudgetPolicySnapshot =
  bps_generation :: BudgetGeneration
  bps_book :: BudgetBook

record BudgetPolicyBook =
  pb_poisoned :: bool
  pb_generation :: BudgetGeneration
  pb_book :: BudgetBook

definition BudgetPolicyBook_new :: "BudgetPolicy list \<Rightarrow> (BudgetError, BudgetPolicyBook) result" where
  "BudgetPolicyBook_new ps =
     bind_result (BudgetBook_new ps) (\<lambda>book.
       Inr \<lparr>pb_poisoned = False, pb_generation = 0, pb_book = book\<rparr>)"

definition BudgetPolicyBook_snapshot ::
  "BudgetPolicyBook \<Rightarrow> (BudgetError, BudgetPolicySnapshot) result" where
  "BudgetPolicyBook_snapshot b =
     (if pb_poisoned b then Inl (budget_error BudgetStateUnavailable)
      else Inr \<lparr>bps_generation = pb_generation b, bps_book = pb_book b\<rparr>)"

definition BudgetPolicyBook_publish ::
  "BudgetPolicyBook \<Rightarrow> BudgetGeneration \<Rightarrow> BudgetPolicy list \<Rightarrow>
     (BudgetError, BudgetPolicySnapshot) result \<times> BudgetPolicyBook" where
  "BudgetPolicyBook_publish b expected ps =
     (case BudgetBook_new ps of
        Inl e \<Rightarrow> (Inl e, b)
      | Inr replacement \<Rightarrow>
          if pb_poisoned b then (Inl (budget_error BudgetStateUnavailable), b)
          else if pb_generation b \<noteq> expected then (Inl (budget_error BudgetGenerationConflict), b)
          else case BudgetGeneration_next expected of
                 Inl e \<Rightarrow> (Inl e, b)
               | Inr next \<Rightarrow>
                   (Inr \<lparr>bps_generation = next, bps_book = replacement\<rparr>,
                    b\<lparr>pb_generation := next, pb_book := replacement\<rparr>))"

section \<open>The ledger as a transition system\<close>

datatype budget_call =
    Reserve ReservationRequest UnixTimeSeconds
  | ReserveFresh ReservationRequest UnixTimeSeconds
  | Commit ReservationId
  | ReleaseReservation ReservationId
  | Expire UnixTimeSeconds

fun budget_call_effect :: "budget_call \<Rightarrow> BudgetBook \<Rightarrow> BudgetBook" where
  "budget_call_effect (Reserve request now) b = snd (book_reserve request now b)"
| "budget_call_effect (ReserveFresh request now) b = snd (reserve_fresh request now b)"
| "budget_call_effect (Commit rid) b = snd (book_commit rid b)"
| "budget_call_effect (ReleaseReservation rid) b = snd (book_release rid b)"
| "budget_call_effect (Expire now) b = snd (expire now b)"

inductive budget_step :: "BudgetBook \<Rightarrow> budget_call \<Rightarrow> BudgetBook \<Rightarrow> bool" where
  budget_call: "budget_step b l (budget_call_effect l b)"

inductive_simps budget_step_iff: "budget_step b l b'"

definition budget_init :: "BudgetBook \<Rightarrow> bool" where
  "budget_init b \<longleftrightarrow> (\<exists>ps. BudgetBook_new ps = Inr b)"

end
