(* ===== verification/Budget_Invariant.thy ===== *)
theory Budget_Invariant
  imports Account_Budget
begin

text \<open>
  The accounting invariant of the budget ledger: the reserved and committed units of a policy
  are the sums over the records that charge it, their total fits the integer and, for a hard
  policy, its limit. Every operation keeps it; in particular the expiry pass and the
  transitions never meet the error branches that guard their arithmetic.
\<close>

section \<open>Invariant\<close>

abbreviation amount_of :: "ReservationRecord \<Rightarrow> u64" where
  "amount_of r \<equiv> minor_units (rq_amount (rec_request r))"

text \<open>What a record in a given state contributes to the counter of a policy.\<close>

definition state_claim :: "ReservationState \<Rightarrow> BudgetPolicyId \<Rightarrow> ReservationRecord \<Rightarrow> nat" where
  "state_claim s pid r =
     (if rec_state r = s \<and> pid \<in> set (rec_applied_policies r) then unat (amount_of r) else 0)"

definition counters_ok :: "BudgetState \<Rightarrow> BudgetPolicyId \<Rightarrow> PolicyState \<Rightarrow> bool" where
  "counters_ok st pid p \<longleftrightarrow>
     bp_id (ps_policy p) = pid
     \<and> unat (ps_reserved p) = claims (state_claim Reserved pid) (reservations st)
     \<and> unat (ps_committed p) = claims (state_claim Committed pid) (reservations st)
     \<and> unat (ps_reserved p) + unat (ps_committed p) < 2 ^ 64
     \<and> (bp_enforcement (ps_policy p) = Hard \<longrightarrow>
          unat (ps_reserved p) + unat (ps_committed p) \<le> unat (minor_units (bp_limit (ps_policy p))))"

definition record_ok :: "BudgetState \<Rightarrow> ReservationId \<Rightarrow> ReservationRecord \<Rightarrow> bool" where
  "record_ok st rid r \<longleftrightarrow>
     rq_id (rec_request r) = rid \<and> distinct (rec_applied_policies r)
     \<and> set (rec_applied_policies r) =
         {pid. \<exists>p. map_of (policies st) pid = Some p \<and> policy_applies (rec_request r) p}"

definition budget_ok :: "BudgetState \<Rightarrow> bool" where
  "budget_ok st \<longleftrightarrow>
     ordered_map (policies st) \<and> ordered_map (reservations st)
     \<and> length (reservations st) \<le> MAX_RESERVATIONS
     \<and> (\<forall>pid p. map_of (policies st) pid = Some p \<longrightarrow> counters_ok st pid p)
     \<and> (\<forall>rid r. map_of (reservations st) rid = Some r \<longrightarrow> record_ok st rid r)"

lemma budget_okD:
  assumes "budget_ok st"
  shows "ordered_map (policies st)" "ordered_map (reservations st)"
    "map_of (policies st) pid = Some p \<Longrightarrow> counters_ok st pid p"
    "map_of (reservations st) rid = Some r \<Longrightarrow> record_ok st rid r"
  using assms by (simp_all add: budget_ok_def)

lemma applied_known:
  assumes "budget_ok st" and "map_of (reservations st) rid = Some r" and "pid \<in> set (rec_applied_policies r)"
  shows "\<exists>p. map_of (policies st) pid = Some p"
  using budget_okD(4) [OF assms(1,2)] assms(3) by (auto simp: record_ok_def)

text \<open>A record's amount is part of the counter of every policy it charges.\<close>

lemma claim_covers:
  assumes "budget_ok st" and "map_of (reservations st) rid = Some r"
    and "pid \<in> set (rec_applied_policies r)" and "rec_state r = Reserved"
    and "map_of (policies st) pid = Some p"
  shows "unat (amount_of r) \<le> unat (ps_reserved p)"
proof -
  have "state_claim Reserved pid r \<le> claims (state_claim Reserved pid) (reservations st)"
    using assms(1,2) by (intro claims_ge) (auto dest: map_of_SomeD)
  then show ?thesis
    using budget_okD(3) [OF assms(1,5)] assms(3,4) by (simp add: counters_ok_def state_claim_def)
qed

section \<open>The update loops\<close>

text \<open>
  Every loop over policies assigns once to each policy of a list of distinct identities. Its
  effect on the table is pointwise.
\<close>

lemma policy_loop:
  assumes "distinct (map fst us)" and "ordered_map (policies st)"
    and "\<And>pid v. (pid, v) \<in> set us \<Longrightarrow> map_of (policies st) pid \<noteq> None"
  shows "\<exists>ps. for_each (\<lambda>(pid, v). policy_state_mut pid (g v)) us st = (Inr (), st\<lparr>policies := ps\<rparr>)
    \<and> ordered_map ps
    \<and> (\<forall>k. map_of ps k = (case map_of us k of
         None \<Rightarrow> map_of (policies st) k | Some v \<Rightarrow> map_option (g v) (map_of (policies st) k)))"
  using assms
proof (induction us arbitrary: st)
  case Nil
  then show ?case by (intro exI [of _ "policies st"]) simp
next
  case (Cons u us)
  obtain pid v where u: "u = (pid, v)" by (cases u)
  obtain p where p: "map_of (policies st) pid = Some p"
    using Cons.prems(3) [of pid v] u by auto
  let ?st = "st\<lparr>policies := bt_insert pid (g v p) (policies st)\<rparr>"
  obtain ps where ps: "for_each (\<lambda>(pid, v). policy_state_mut pid (g v)) us ?st = (Inr (), ?st\<lparr>policies := ps\<rparr>)"
    "ordered_map ps"
    "\<And>k. map_of ps k = (case map_of us k of
         None \<Rightarrow> map_of (policies ?st) k | Some v \<Rightarrow> map_option (g v) (map_of (policies ?st) k))"
    using Cons.IH [of ?st] Cons.prems u by fastforce
  have "pid \<notin> fst ` set us" using Cons.prems(1) u by simp
  then have "map_of us pid = None" by (simp add: map_of_eq_None_iff)
  then have "\<forall>k. map_of ps k = (case map_of (u # us) k of
       None \<Rightarrow> map_of (policies st) k | Some v \<Rightarrow> map_option (g v) (map_of (policies st) k))"
    using ps(3) p u by (auto split: option.splits)
  moreover have "policy_state_mut pid (g v) st = (Inr (), ?st)" by (simp add: policy_state_mut_def p)
  ultimately show ?case
    using ps(1,2) u by (intro exI [of _ ps]) (simp add: bind_update_ok)
qed

lemma collect_result_map:
  assumes "\<And>x. x \<in> set xs \<Longrightarrow> f x = Inr (g x)"
  shows "collect_result f xs = Inr (map g xs)"
  using assms by (induction xs) auto

lemma map_of_keyed: "map_of (map (\<lambda>x. (x, f x)) xs) k = (if k \<in> set xs then Some (f k) else None)"
  by (induction xs) auto

section \<open>Reserving capacity\<close>

text \<open>Charging \<open>amount\<close> to the reserved counter of each listed policy.\<close>

definition charged_policies :: "BudgetState \<Rightarrow> BudgetPolicyId list \<Rightarrow> u64 \<Rightarrow> BudgetPolicyId \<Rightarrow> PolicyState option" where
  "charged_policies st pids amount k =
     (if k \<in> set pids
      then map_option (\<lambda>p. p\<lparr>ps_reserved := ps_reserved p + amount\<rparr>) (map_of (policies st) k)
      else map_of (policies st) k)"

lemma reserve_capacity_effect:
  assumes ord: "ordered_map (policies st)" and d: "distinct pids"
    and known: "\<And>pid. pid \<in> set pids \<Longrightarrow> \<exists>p. map_of (policies st) pid = Some p
        \<and> unat (ps_reserved p) + unat amount < 2 ^ 64"
  shows "\<exists>ps. reserve_capacity pids amount st = (Inr (), st\<lparr>policies := ps\<rparr>) \<and> ordered_map ps
    \<and> map_of ps = charged_policies st pids amount"
proof -
  let ?r = "\<lambda>pid. ps_reserved (the (map_of (policies st) pid)) + amount"
  let ?us = "map (\<lambda>pid. (pid, ?r pid)) pids"
  have "collect_result (\<lambda>pid. bind_result (policy_state st pid) (\<lambda>p.
      bind_result (ok_or (budget_error ArithmeticOverflow) (checked_add (ps_reserved p) amount))
        (\<lambda>r. Inr (pid, r)))) pids = Inr ?us"
    using known by (intro collect_result_map) (fastforce simp: policy_state_def checked_add_def)
  moreover obtain ps where
    "for_each (\<lambda>(pid, r). policy_state_mut pid (\<lambda>p. p\<lparr>ps_reserved := r\<rparr>)) ?us st = (Inr (), st\<lparr>policies := ps\<rparr>)"
    "ordered_map ps"
    and look: "\<And>k. map_of ps k = (case map_of ?us k of None \<Rightarrow> map_of (policies st) k
        | Some r \<Rightarrow> map_option (\<lambda>p. p\<lparr>ps_reserved := r\<rparr>) (map_of (policies st) k))"
    using policy_loop [of ?us st "\<lambda>r p. p\<lparr>ps_reserved := r\<rparr>"] ord d known by (fastforce simp: comp_def)
  moreover have "map_of ps k = charged_policies st pids amount k" for k
    using look [of k] by (cases "map_of (policies st) k") (simp_all add: map_of_keyed charged_policies_def)
  ultimately show ?thesis
    by (intro exI [of _ ps]) (simp add: reserve_capacity_def bind_update_lift fun_eq_iff)
qed

lemma applicable_policy_ids_ok:
  assumes ok: "budget_ok st" and ids: "applicable_policy_ids st request = Inr pids"
  shows "distinct pids" "set pids = {pid. \<exists>p. map_of (policies st) pid = Some p \<and> policy_applies request p}"
proof -
  have key: "bp_id (ps_policy p) = k" if "(k, p) \<in> set (policies st)" for k p
    using that budget_okD(3) [OF ok, of k p] ordered_map_lookup [OF budget_okD(1) [OF ok]]
    by (simp add: counters_ok_def)
  have "map (\<lambda>e. bp_id (ps_policy (snd e))) (filter (\<lambda>e. policy_applies request (snd e)) (policies st)) =
      map fst (filter (\<lambda>e. policy_applies request (snd e)) (policies st))"
    by (rule map_cong) (auto simp: key)
  then have pids: "pids = map fst (filter (\<lambda>e. policy_applies request (snd e)) (policies st))"
    using ids by (auto simp: applicable_policy_ids_def bt_values_def filter_map comp_def Let_def split: if_splits)
  then show "distinct pids"
    using ordered_map_distinct [OF budget_okD(1) [OF ok]] by (simp add: distinct_map_filter)
  show "set pids = {pid. \<exists>p. map_of (policies st) pid = Some p \<and> policy_applies request p}"
    unfolding pids by (auto simp: ordered_map_lookup [OF budget_okD(1) [OF ok], symmetric] image_iff)
qed

text \<open>The capacity check: which policies a charge would take over their limit.\<close>

definition breaches :: "BudgetState \<Rightarrow> u64 \<Rightarrow> Enforcement \<Rightarrow> BudgetPolicyId \<Rightarrow> bool" where
  "breaches st amount enf pid \<longleftrightarrow>
     (\<exists>p. map_of (policies st) pid = Some p \<and> bp_enforcement (ps_policy p) = enf
        \<and> unat (minor_units (bp_limit (ps_policy p))) <
            unat (ps_committed p) + unat (ps_reserved p) + unat amount)"

definition account_scoped :: "BudgetState \<Rightarrow> BudgetPolicyId \<Rightarrow> bool" where
  "account_scoped st pid \<longleftrightarrow>
     (\<exists>p. map_of (policies st) pid = Some p \<and> is_account_scope (bp_scope (ps_policy p)))"

lemma projected_usage_ok:
  "projected_usage p a = Inr x \<longleftrightarrow> unat x = unat (ps_committed p) + unat (ps_reserved p) + unat a"
proof
  assume "projected_usage p a = Inr x"
  then show "unat x = unat (ps_committed p) + unat (ps_reserved p) + unat a"
    by (auto simp: projected_usage_def bind_result_eq_Inr ok_or_eq checked_add_eq_Some)
next
  assume x: "unat x = unat (ps_committed p) + unat (ps_reserved p) + unat a"
  then have "unat (ps_committed p + ps_reserved p) = unat (ps_committed p) + unat (ps_reserved p)"
    using unat_lt_width [of x] by (intro unat_plus_exact) simp
  with x show "projected_usage p a = Inr x"
    unfolding projected_usage_def bind_result_eq_Inr ok_or_eq checked_add_eq_Some by (metis)
qed

lemma capacity_breaches_ok:
  assumes "capacity_breaches st a pids (h0, s0) = Inr (h, s)"
  shows "(\<forall>pid \<in> set pids. \<exists>p. map_of (policies st) pid = Some p
        \<and> unat (ps_committed p) + unat (ps_reserved p) + unat a < 2 ^ 64)
    \<and> (h = None \<longleftrightarrow> h0 = None \<and> (\<forall>pid \<in> set pids. \<not> breaches st a Hard pid))
    \<and> (h = Some RequestRefusal \<longleftrightarrow> h0 = Some RequestRefusal
        \<or> (\<exists>pid \<in> set pids. breaches st a Hard pid \<and> \<not> account_scoped st pid))
    \<and> s = s0 @ filter (breaches st a Soft) pids"
  using assms
proof (induction pids arbitrary: h0 s0)
  case Nil
  then show ?case by simp
next
  case (Cons pid pids)
  obtain p x where p: "map_of (policies st) pid = Some p"
    and x: "unat x = unat (ps_committed p) + unat (ps_reserved p) + unat a"
    and rest: "capacity_breaches st a pids
       (if minor_units (bp_limit (ps_policy p)) < x then record_capacity_breach p pid (h0, s0) else (h0, s0)) = Inr (h, s)"
    using Cons.prems by (auto simp: bind_result_eq_Inr policy_state_def ok_or_eq projected_usage_ok)
  have lt: "unat (ps_committed p) + unat (ps_reserved p) + unat a < 2 ^ 64"
    using unat_lt_width [of x] x by simp
  have br: "breaches st a e pid \<longleftrightarrow> bp_enforcement (ps_policy p) = e \<and> minor_units (bp_limit (ps_policy p)) < x" for e
    using p x by (auto simp: breaches_def word_less_nat_alt)
  have sc: "account_scoped st pid = is_account_scope (bp_scope (ps_policy p))"
    using p by (simp add: account_scoped_def)
  show ?case
  proof (cases "minor_units (bp_limit (ps_policy p)) < x")
    case False
    with Cons.IH [of h0 s0] rest p lt br show ?thesis by auto
  next
    case over: True
    show ?thesis
    proof (cases "bp_enforcement (ps_policy p)")
      case Hard
      with Cons.IH [of "Some (merge_hard_scope h0 (bp_scope (ps_policy p)))" s0] rest p lt br sc over
      show ?thesis by (auto simp: record_capacity_breach_def merge_hard_scope_def split: if_splits)
    next
      case Soft
      with Cons.IH [of h0 "s0 @ [pid]"] rest p lt br over
      show ?thesis by (auto simp: record_capacity_breach_def)
    qed
  qed
qed

lemma validate_capacity_ok:
  assumes "validate_capacity st pids amount = Inr soft" and "pid \<in> set pids"
  shows "\<exists>p. map_of (policies st) pid = Some p
      \<and> unat (ps_committed p) + unat (ps_reserved p) + unat (minor_units amount) < 2 ^ 64
      \<and> (bp_enforcement (ps_policy p) = Hard \<longrightarrow> unat (ps_committed p) + unat (ps_reserved p)
            + unat (minor_units amount) \<le> unat (minor_units (bp_limit (ps_policy p))))"
proof -
  have "capacity_breaches st (minor_units amount) pids (None, []) = Inr (None, soft)"
    using assms(1) by (auto simp: validate_capacity_def bind_result_eq_Inr split: option.splits)
  from capacity_breaches_ok [OF this] assms(2) obtain p
    where "map_of (policies st) pid = Some p" "\<not> breaches st (minor_units amount) Hard pid"
      "unat (ps_committed p) + unat (ps_reserved p) + unat (minor_units amount) < 2 ^ 64" by blast
  then show ?thesis by (intro exI [of _ p]) (simp add: breaches_def not_less)
qed

section \<open>Inserting a reservation\<close>

lemma insert_reservation_cases:
  assumes ok: "budget_ok st" and ins: "insert_reservation request now st = (res, st')"
  obtains e where "res = Inl e" "st' = st"
  | pids soft ps r where "applicable_policy_ids st request = Inr pids"
      "validate_capacity st pids (rq_amount request) = Inr soft"
      "now < rq_expires_at request" "length (reservations st) < MAX_RESERVATIONS"
      "r = \<lparr>rec_request = request, rec_state = Reserved, rec_applied_policies = pids,
            rec_soft_limit_breaches = soft\<rparr>"
      "res = Inr (receipt r)" "ordered_map ps"
      "map_of ps = charged_policies st pids (minor_units (rq_amount request))"
      "st' = st\<lparr>policies := ps, reservations := bt_insert (rq_id request) r (reservations st)\<rparr>"
proof (cases "\<exists>pids soft. validate_new_reservation st request now = Inr () \<and>
    applicable_policy_ids st request = Inr pids \<and> validate_capacity st pids (rq_amount request) = Inr soft")
  case False
  then have "\<exists>e. insert_reservation request now st = (Inl e, st)"
    by (cases "validate_new_reservation st request now"; cases "applicable_policy_ids st request")
      (auto simp: insert_reservation_def bind_update_lift split: sum.splits)
  with ins that(1) show ?thesis by fastforce
next
  case True
  then obtain pids soft where v: "validate_new_reservation st request now = Inr ()"
    and a: "applicable_policy_ids st request = Inr pids"
    and c: "validate_capacity st pids (rq_amount request) = Inr soft" by blast
  note ids = applicable_policy_ids_ok [OF ok a]
  let ?a = "minor_units (rq_amount request)"
  have room: "\<exists>p. map_of (policies st) pid = Some p \<and> unat (ps_reserved p) + unat ?a < 2 ^ 64"
    if mem: "pid \<in> set pids" for pid
  proof -
    obtain p where "map_of (policies st) pid = Some p"
      "unat (ps_committed p) + unat (ps_reserved p) + unat ?a < 2 ^ 64"
      using validate_capacity_ok [OF c mem] by blast
    then show ?thesis by auto
  qed
  obtain ps where ps: "reserve_capacity pids ?a st = (Inr (), st\<lparr>policies := ps\<rparr>)" "ordered_map ps"
    and look: "map_of ps = charged_policies st pids ?a"
    using reserve_capacity_effect [OF budget_okD(1) [OF ok] ids(1) room] by blast
  have run: "insert_reservation request now st =
    (let r = \<lparr>rec_request = request, rec_state = Reserved, rec_applied_policies = pids,
              rec_soft_limit_breaches = soft\<rparr>
     in (Inr (receipt r), st\<lparr>policies := ps, reservations := bt_insert (rq_id request) r (reservations st)\<rparr>))"
    by (simp add: insert_reservation_def bind_update_def lift_result_def v a c ps(1) receipt_def Let_def)
  have "now < rq_expires_at request" "length (reservations st) < MAX_RESERVATIONS"
    using v by (auto simp: validate_new_reservation_def not_le split: if_splits)
  with run ins show ?thesis
    by (intro that(2) [OF a c _ _ refl _ ps(2) look]) (simp_all add: Let_def)
qed

lemma policy_applies_frame [simp]: "policy_applies rq (p\<lparr>ps_reserved := n\<rparr>) = policy_applies rq p"
  "policy_applies rq (p\<lparr>ps_committed := n\<rparr>) = policy_applies rq p"
  by (simp_all add: policy_applies_def)

lemma insert_reservation_ok:
  assumes ok: "budget_ok st" and new: "map_of (reservations st) (rq_id request) = None"
    and ins: "insert_reservation request now st = (res, st')"
  shows "budget_ok st'"
  using ok ins
proof (cases rule: insert_reservation_cases)
  case (2 pids soft ps r)
  note ids = applicable_policy_ids_ok [OF ok 2(1)]
  let ?a = "minor_units (rq_amount request)"
  have claim: "claims (state_claim s k) (reservations st') =
      claims (state_claim s k) (reservations st) + (if s = Reserved \<and> k \<in> set pids then unat ?a else 0)" for s k
    unfolding 2(9) by (simp add: claims_insert_new [OF new] state_claim_def 2(5))
  have counters: "counters_ok st' k p" if pk: "map_of (policies st') k = Some p" for k p
  proof -
    obtain q where q: "map_of (policies st) k = Some q"
      "p = (if k \<in> set pids then q\<lparr>ps_reserved := ps_reserved q + ?a\<rparr> else q)"
      using pk by (auto simp: 2(8,9) charged_policies_def split: if_splits)
    have cq: "counters_ok st k q" by (rule budget_okD(3) [OF ok q(1)])
    show ?thesis
    proof (cases "k \<in> set pids")
      case False
      then show ?thesis using cq q(2) claim by (auto simp: counters_ok_def)
    next
      case True
      then have room: "unat (ps_committed q) + unat (ps_reserved q) + unat ?a < 2 ^ 64"
        "bp_enforcement (ps_policy q) = Hard \<Longrightarrow> unat (ps_committed q) + unat (ps_reserved q) + unat ?a
          \<le> unat (minor_units (bp_limit (ps_policy q)))"
        using validate_capacity_ok [OF 2(2) True] q(1) by auto
      then have "unat (ps_reserved q + ?a) = unat (ps_reserved q) + unat ?a"
        by (intro unat_plus_exact) simp
      with True cq q(2) claim room show ?thesis by (auto simp: counters_ok_def)
    qed
  qed
  have app: "(\<exists>p. map_of (policies st') k = Some p \<and> policy_applies rq p) \<longleftrightarrow>
      (\<exists>p. map_of (policies st) k = Some p \<and> policy_applies rq p)" for k rq
    unfolding 2(9) by (auto simp: 2(8) charged_policies_def)
  have "record_ok st' rid x" if "map_of (reservations st') rid = Some x" for rid x
  proof (cases "rid = rq_id request")
    case True
    then have "x = r" using that by (simp add: 2(9))
    with True ids show ?thesis by (simp add: record_ok_def app 2(5))
  next
    case False
    then have "map_of (reservations st) rid = Some x" using that by (simp add: 2(9))
    from budget_okD(4) [OF ok this] show ?thesis by (simp add: record_ok_def app)
  qed
  then show ?thesis
    using counters 2(4,7) ok by (simp add: budget_ok_def 2(9) length_bt_insert)
qed (use ok in simp)

section \<open>Settling reservations\<close>

text \<open>
  Commit, release and expiry take some reserved records to a final state: \<open>restate\<close> is what
  happens to the records, \<open>settled\<close> what has to happen to the counters.
\<close>

definition restate ::
  "(ReservationRecord \<Rightarrow> bool) \<Rightarrow> ReservationState \<Rightarrow> (ReservationId, ReservationRecord) btree_map \<Rightarrow>
     (ReservationId, ReservationRecord) btree_map" where
  "restate P t m = map (\<lambda>(k, r). (k, if P r then r\<lparr>rec_state := t\<rparr> else r)) m"

definition moved_claim :: "(ReservationRecord \<Rightarrow> bool) \<Rightarrow> BudgetPolicyId \<Rightarrow> ReservationRecord \<Rightarrow> nat" where
  "moved_claim P pid r = (if P r \<and> pid \<in> set (rec_applied_policies r) then unat (amount_of r) else 0)"

definition settled ::
  "BudgetState \<Rightarrow> (ReservationRecord \<Rightarrow> bool) \<Rightarrow> ReservationState \<Rightarrow>
     (BudgetPolicyId, PolicyState) btree_map \<Rightarrow> bool" where
  "settled st P t ps \<longleftrightarrow>
     ordered_map ps
     \<and> (\<forall>pid. map_of (policies st) pid = None \<longrightarrow> map_of ps pid = None)
     \<and> (\<forall>pid p. map_of (policies st) pid = Some p \<longrightarrow>
          (\<exists>q. map_of ps pid = Some q \<and> ps_policy q = ps_policy p
             \<and> unat (ps_reserved q) + claims (moved_claim P pid) (reservations st) = unat (ps_reserved p)
             \<and> unat (ps_committed q) = unat (ps_committed p)
                  + (if t = Committed then claims (moved_claim P pid) (reservations st) else 0)))"

lemma settledD:
  assumes "settled st P t ps" and "map_of (policies st) pid = Some p"
  shows "\<exists>q. map_of ps pid = Some q \<and> ps_policy q = ps_policy p
     \<and> unat (ps_reserved q) + claims (moved_claim P pid) (reservations st) = unat (ps_reserved p)
     \<and> unat (ps_committed q) = unat (ps_committed p)
          + (if t = Committed then claims (moved_claim P pid) (reservations st) else 0)"
  using assms by (simp add: settled_def)

lemma claims_restate:
  assumes "\<forall>r \<in> snd ` set m. P r \<longrightarrow> rec_state r = Reserved" and "t \<noteq> Reserved"
  shows "claims (state_claim Reserved pid) (restate P t m) + claims (moved_claim P pid) m =
      claims (state_claim Reserved pid) m"
    "claims (state_claim Committed pid) (restate P t m) =
      claims (state_claim Committed pid) m + (if t = Committed then claims (moved_claim P pid) m else 0)"
proof -
  have "claims (\<lambda>r. state_claim Reserved pid (if P r then r\<lparr>rec_state := t\<rparr> else r) + moved_claim P pid r) m =
      claims (state_claim Reserved pid) m"
    using assms by (intro claims_cong) (force simp: state_claim_def moved_claim_def)
  then show "claims (state_claim Reserved pid) (restate P t m) + claims (moved_claim P pid) m =
      claims (state_claim Reserved pid) m"
    by (simp add: restate_def claims_map_values claims_add)
  have "claims (\<lambda>r. state_claim Committed pid (if P r then r\<lparr>rec_state := t\<rparr> else r)) m =
      claims (\<lambda>r. state_claim Committed pid r + (if t = Committed then moved_claim P pid r else 0)) m"
    using assms by (intro claims_cong) (force simp: state_claim_def moved_claim_def)
  then show "claims (state_claim Committed pid) (restate P t m) =
      claims (state_claim Committed pid) m + (if t = Committed then claims (moved_claim P pid) m else 0)"
    by (simp add: restate_def claims_map_values claims_add split: if_splits)
qed

lemma restate_ok:
  assumes ok: "budget_ok st" and t: "t \<noteq> Reserved"
    and P: "\<forall>r \<in> snd ` set (reservations st). P r \<longrightarrow> rec_state r = Reserved"
    and ps: "settled st P t ps"
  shows "budget_ok (st\<lparr>policies := ps, reservations := restate P t (reservations st)\<rparr>)"
proof -
  let ?st = "st\<lparr>policies := ps, reservations := restate P t (reservations st)\<rparr>"
  have "counters_ok ?st pid q" if q: "map_of ps pid = Some q" for pid q
  proof -
    obtain p where p: "map_of (policies st) pid = Some p" "ps_policy q = ps_policy p"
      "unat (ps_reserved q) + claims (moved_claim P pid) (reservations st) = unat (ps_reserved p)"
      "unat (ps_committed q) = unat (ps_committed p)
         + (if t = Committed then claims (moved_claim P pid) (reservations st) else 0)"
      using ps q unfolding settled_def
      by (cases "map_of (policies st) pid") (metis option.distinct(1) option.inject)+
    show ?thesis
      using budget_okD(3) [OF ok p(1)] p(2-) claims_restate [OF P t, of pid]
      by (auto simp: counters_ok_def split: if_splits)
  qed
  moreover have app: "(\<exists>p. map_of ps pid = Some p \<and> policy_applies rq p) \<longleftrightarrow>
      (\<exists>p. map_of (policies st) pid = Some p \<and> policy_applies rq p)" for pid rq
  proof (cases "map_of (policies st) pid")
    case None
    then show ?thesis using ps by (simp add: settled_def)
  next
    case (Some p)
    then obtain q where "map_of ps pid = Some q" "ps_policy q = ps_policy p"
      using ps unfolding settled_def by blast
    with Some show ?thesis by (simp add: policy_applies_def)
  qed
  have "record_ok ?st rid r" if "map_of (restate P t (reservations st)) rid = Some r" for rid r
    using that budget_okD(4) [OF ok, of rid]
    by (auto simp: restate_def map_of_map_values record_ok_def app split: if_splits)
  ultimately show ?thesis
    using ok ps by (simp add: budget_ok_def settled_def) (simp add: restate_def)
qed

text \<open>A single record settles.\<close>

lemma moved_claim_single:
  assumes ok: "budget_ok st" and r: "map_of (reservations st) rid = Some r"
  shows "claims (moved_claim (\<lambda>x. rq_id (rec_request x) = rid) pid) (reservations st) =
    (if pid \<in> set (rec_applied_policies r) then unat (amount_of r) else 0)"
proof -
  let ?P = "\<lambda>x. rq_id (rec_request x) = rid"
  have key: "rq_id (rec_request x) = k" if "(k, x) \<in> set (reservations st)" for k x
    using that budget_okD(4) [OF ok, of k x] ordered_map_lookup [OF budget_okD(2) [OF ok]]
    by (simp add: record_ok_def)
  have "claims (moved_claim ?P pid) (bt_remove rid (reservations st)) = 0"
    using key by (auto simp: claims_eq_0 moved_claim_def bt_remove_def)
  moreover have "rq_id (rec_request r) = rid" using key r by (auto dest: map_of_SomeD)
  ultimately show ?thesis
    using claims_remove [OF budget_okD(2) [OF ok] r, of "moved_claim ?P pid"]
    by (simp add: moved_claim_def)
qed

lemma transition_usage_effect:
  assumes ok: "budget_ok st" and r: "map_of (reservations st) rid = Some r"
    and res: "rec_state r = Reserved"
  shows "\<exists>ps. apply_transition_usage r t st = (Inr (), st\<lparr>policies := ps\<rparr>)
    \<and> settled st (\<lambda>x. rq_id (rec_request x) = rid) t ps"
proof -
  let ?a = "amount_of r" and ?pids = "rec_applied_policies r"
  let ?p = "\<lambda>pid. the (map_of (policies st) pid)"
  let ?c = "\<lambda>pid. if t = Committed then ps_committed (?p pid) + ?a else ps_committed (?p pid)"
  let ?us = "map (\<lambda>pid. (pid, ps_reserved (?p pid) - ?a, ?c pid)) ?pids"
  have d: "distinct ?pids" using budget_okD(4) [OF ok r] by (simp add: record_ok_def)
  have fits: "map_of (policies st) pid = Some (?p pid) \<and> ?a \<le> ps_reserved (?p pid)
      \<and> unat (ps_committed (?p pid)) + unat ?a < 2 ^ 64" if mem: "pid \<in> set ?pids" for pid
  proof -
    obtain p where p: "map_of (policies st) pid = Some p" using applied_known [OF ok r mem] by blast
    with budget_okD(3) [OF ok p] claim_covers [OF ok r mem res p] show ?thesis
      by (auto simp: counters_ok_def word_le_nat_alt)
  qed
  have "usage_after st t ?a pid = Inr (pid, ps_reserved (?p pid) - ?a, ?c pid)"
    if mem: "pid \<in> set ?pids" for pid
  proof -
    obtain p where "map_of (policies st) pid = Some p" using fits [OF mem] by blast
    with fits [OF mem] show ?thesis
      by (simp add: usage_after_def policy_state_def checked_sub_def checked_add_def)
  qed
  then have collect: "collect_result (usage_after st t ?a) ?pids = Inr ?us"
    by (rule collect_result_map)
  obtain ps where loop: "for_each (\<lambda>(pid, v). policy_state_mut pid
      ((\<lambda>(r, c) p. p\<lparr>ps_reserved := r, ps_committed := c\<rparr>) v)) ?us st = (Inr (), st\<lparr>policies := ps\<rparr>)"
    and ps: "ordered_map ps" "\<forall>k. map_of ps k = (case map_of ?us k of None \<Rightarrow> map_of (policies st) k
       | Some v \<Rightarrow> map_option ((\<lambda>(r, c) p. p\<lparr>ps_reserved := r, ps_committed := c\<rparr>) v) (map_of (policies st) k))"
    using policy_loop [of ?us st "\<lambda>(r, c) p. p\<lparr>ps_reserved := r, ps_committed := c\<rparr>"] d fits
      budget_okD(1) [OF ok] by (fastforce simp: comp_def)
  have "settled st (\<lambda>x. rq_id (rec_request x) = rid) t ps"
    unfolding settled_def moved_claim_single [OF ok r]
  proof (intro conjI allI impI)
    show "map_of ps pid = None" if "map_of (policies st) pid = None" for pid
      using that ps(2) by (simp split: option.splits)
    fix pid p
    assume p: "map_of (policies st) pid = Some p"
    show "\<exists>q. map_of ps pid = Some q \<and> ps_policy q = ps_policy p
       \<and> unat (ps_reserved q) + (if pid \<in> set ?pids then unat ?a else 0) = unat (ps_reserved p)
       \<and> unat (ps_committed q) = unat (ps_committed p)
          + (if t = Committed then if pid \<in> set ?pids then unat ?a else 0 else 0)"
      using ps(2) p fits [of pid]
      by (auto simp: map_of_keyed unat_sub unat_plus_exact word_le_nat_alt)
  qed (rule ps(1))
  moreover have "apply_transition_usage r t st = (Inr (), st\<lparr>policies := ps\<rparr>)"
    using collect loop by (simp add: apply_transition_usage_def bind_update_lift case_prod_unfold)
  ultimately show ?thesis by blast
qed

lemma bt_insert_restate:
  assumes ok: "budget_ok st" and r: "map_of (reservations st) rid = Some r"
  shows "bt_insert rid (r\<lparr>rec_state := t\<rparr>) (reservations st) =
    restate (\<lambda>x. rq_id (rec_request x) = rid) t (reservations st)"
proof (rule ordered_map_eqI)
  have key: "rq_id (rec_request x) = k" if "map_of (reservations st) k = Some x" for k x
    using budget_okD(4) [OF ok that] by (simp add: record_ok_def)
  show "map_of (bt_insert rid (r\<lparr>rec_state := t\<rparr>) (reservations st)) =
      map_of (restate (\<lambda>x. rq_id (rec_request x) = rid) t (reservations st))"
  proof
    fix k
    show "map_of (bt_insert rid (r\<lparr>rec_state := t\<rparr>) (reservations st)) k =
      map_of (restate (\<lambda>x. rq_id (rec_request x) = rid) t (reservations st)) k"
    proof (cases "k = rid")
      case True
      with r key [OF r] show ?thesis by (simp add: restate_def map_of_map_values)
    next
      case False
      then show ?thesis
        using key [of k] by (cases "map_of (reservations st) k") (simp_all add: restate_def map_of_map_values)
    qed
  qed
qed (use budget_okD(2) [OF ok] in \<open>simp_all add: restate_def\<close>)

lemma transition_record_cases:
  assumes ok: "budget_ok st" and t: "t \<noteq> Reserved" and tr: "transition_record rid t st = (res, st')"
  obtains "map_of (reservations st) rid = None" "res = Inl (budget_error ReservationNotFound)" "st' = st"
  | r where "map_of (reservations st) rid = Some r" "rec_state r = t" "res = Inr (receipt r)" "st' = st"
  | r where "map_of (reservations st) rid = Some r" "rec_state r \<noteq> t" "rec_state r \<noteq> Reserved"
      "res = Inl (budget_error ReservationFinalized)" "st' = st"
  | r ps where "map_of (reservations st) rid = Some r" "rec_state r = Reserved"
      "res = Inr (receipt (r\<lparr>rec_state := t\<rparr>))" "settled st (\<lambda>x. rq_id (rec_request x) = rid) t ps"
      "st' = st\<lparr>policies := ps, reservations := restate (\<lambda>x. rq_id (rec_request x) = rid) t (reservations st)\<rparr>"
proof (cases "map_of (reservations st) rid")
  case None
  then have "res = Inl (budget_error ReservationNotFound)" "st' = st"
    using tr by (simp_all add: transition_record_def bind_update_lift)
  with None show ?thesis by (rule that(1))
next
  case (Some r)
  show ?thesis
  proof (cases "rec_state r = Reserved")
    case True
    obtain ps where ps: "apply_transition_usage r t st = (Inr (), st\<lparr>policies := ps\<rparr>)"
      "settled st (\<lambda>x. rq_id (rec_request x) = rid) t ps"
      using transition_usage_effect [OF ok Some True] by blast
    have "(res, st') = (Inr (receipt (r\<lparr>rec_state := t\<rparr>)), st\<lparr>policies := ps,
        reservations := bt_insert rid (r\<lparr>rec_state := t\<rparr>) (reservations st)\<rparr>)"
      using tr Some True t ps(1)
      by (simp add: transition_record_def bind_update_def lift_result_def store_state_def)
    then show ?thesis
      using that(4) [OF Some True _ ps(2)] bt_insert_restate [OF ok Some, of t] by simp
  next
    case False
    then have "(res, st') = (if rec_state r = t then (Inr (receipt r), st)
        else (Inl (budget_error ReservationFinalized), st))"
      using tr Some by (cases "rec_state r = t") (simp_all add: transition_record_def bind_update_lift)
    with False show ?thesis
      using that(2) [OF Some] that(3) [OF Some] by (cases "rec_state r = t") simp_all
  qed
qed

lemma transition_record_ok:
  assumes ok: "budget_ok st" and t: "t \<noteq> Reserved" and tr: "transition_record rid t st = (res, st')"
  shows "budget_ok st'"
  using ok t tr
proof (cases rule: transition_record_cases)
  case (4 r ps)
  have "rec_state x = Reserved" if x: "(k, x) \<in> set (reservations st)" "rq_id (rec_request x) = rid" for k x
  proof -
    have m: "map_of (reservations st) k = Some x"
      using x(1) ordered_map_lookup [OF budget_okD(2) [OF ok]] by simp
    then have "k = rid" using budget_okD(4) [OF ok m] x(2) by (simp add: record_ok_def)
    with m 4(1,2) show ?thesis by simp
  qed
  then show ?thesis unfolding 4(5) by (intro restate_ok [OF ok t _ 4(4)]) auto
qed (use ok in simp_all)

section \<open>Expiry\<close>

definition decrement_of :: "(BudgetPolicyId, u64) btree_map \<Rightarrow> BudgetPolicyId \<Rightarrow> nat" where
  "decrement_of d pid = (case map_of d pid of None \<Rightarrow> 0 | Some a \<Rightarrow> unat a)"

lemma add_decrements_ok:
  assumes "distinct pids" and "ordered_map d"
    and "\<And>pid. pid \<in> set pids \<Longrightarrow> decrement_of d pid + unat a < 2 ^ 64"
  shows "\<exists>d'. add_decrements a pids d = Inr d' \<and> ordered_map d' \<and> fst ` set d' = fst ` set d \<union> set pids
    \<and> (\<forall>pid. decrement_of d' pid = decrement_of d pid + (if pid \<in> set pids then unat a else 0))"
  using assms
proof (induction pids arbitrary: d)
  case Nil
  then show ?case by simp
next
  case (Cons x xs)
  let ?t = "case map_of d x of None \<Rightarrow> 0 | Some t \<Rightarrow> t"
  have t: "unat ?t = decrement_of d x" by (simp add: decrement_of_def split: option.splits)
  then have add: "checked_add ?t a = Some (?t + a)" "unat (?t + a) = decrement_of d x + unat a"
    using Cons.prems(3) [of x] by (simp_all add: checked_add_def unat_plus_exact)
  let ?d = "bt_insert x (?t + a) d"
  have dec: "decrement_of ?d pid = (if pid = x then decrement_of d x + unat a else decrement_of d pid)" for pid
    using add(2) by (simp add: decrement_of_def)
  have "\<exists>d'. add_decrements a xs ?d = Inr d' \<and> ordered_map d' \<and> fst ` set d' = fst ` set ?d \<union> set xs
    \<and> (\<forall>pid. decrement_of d' pid = decrement_of ?d pid + (if pid \<in> set xs then unat a else 0))"
    using Cons.prems dec by (intro Cons.IH) auto
  then show ?case
    using add(1) dec Cons.prems(1) by (auto simp: keys_bt_insert)
qed

text \<open>The decrements of a list of records are their sums, policy by policy.\<close>

definition charged_by :: "BudgetPolicyId \<Rightarrow> ReservationRecord list \<Rightarrow> nat" where
  "charged_by pid rs =
     sum_list (map (\<lambda>r. if pid \<in> set (rec_applied_policies r) then unat (amount_of r) else 0) rs)"

lemma expiry_decrements_ok:
  assumes "\<forall>r \<in> set rs. distinct (rec_applied_policies r)" and "ordered_map d"
    and "\<forall>pid. decrement_of d pid + charged_by pid rs < 2 ^ 64"
  shows "\<exists>d'. expiry_decrements rs d = Inr d' \<and> ordered_map d'
    \<and> fst ` set d' \<subseteq> fst ` set d \<union> (\<Union>r \<in> set rs. set (rec_applied_policies r))
    \<and> (\<forall>pid. decrement_of d' pid = decrement_of d pid + charged_by pid rs)"
  using assms
proof (induction rs arbitrary: d)
  case Nil
  then show ?case by (simp add: charged_by_def)
next
  case (Cons r rs)
  have split: "charged_by pid (r # rs) =
      (if pid \<in> set (rec_applied_policies r) then unat (amount_of r) else 0) + charged_by pid rs" for pid
    by (simp add: charged_by_def)
  have "decrement_of d pid + unat (amount_of r) < 2 ^ 64" if "pid \<in> set (rec_applied_policies r)" for pid
    using Cons.prems(3) [rule_format, of pid] that by (simp add: split)
  then obtain d1 where d1: "add_decrements (amount_of r) (rec_applied_policies r) d = Inr d1" "ordered_map d1"
    "fst ` set d1 = fst ` set d \<union> set (rec_applied_policies r)"
    "\<forall>pid. decrement_of d1 pid = decrement_of d pid + (if pid \<in> set (rec_applied_policies r) then unat (amount_of r) else 0)"
    using add_decrements_ok [of "rec_applied_policies r" d "amount_of r"] Cons.prems(1,2) by auto
  have "\<forall>pid. decrement_of d1 pid + charged_by pid rs < 2 ^ 64"
    using Cons.prems(3) d1(4) by (simp add: split add.assoc)
  then obtain d2 where "expiry_decrements rs d1 = Inr d2" "ordered_map d2"
    "fst ` set d2 \<subseteq> fst ` set d1 \<union> (\<Union>r \<in> set rs. set (rec_applied_policies r))"
    "\<forall>pid. decrement_of d2 pid = decrement_of d1 pid + charged_by pid rs"
    using Cons.IH [of d1] Cons.prems(1) d1(2) by auto
  with d1 show ?case by (intro exI [of _ d2]) (auto simp: split)
qed

lemma charged_by_expired:
  "charged_by pid (filter P (bt_values m)) = claims (moved_claim P pid) m"
  by (induction m) (auto simp: charged_by_def bt_values_def moved_claim_def)

text \<open>The loop that marks the expired records.\<close>

lemma store_loop:
  assumes "\<forall>r \<in> set rs. \<exists>x. map_of m (rq_id (rec_request r)) = Some x" and "ordered_map m"
  shows "\<exists>m'. for_each (\<lambda>r. bind_update (store_state (rq_id (rec_request r)) t) (\<lambda>_ st. (Inr (), st))) rs
      (st\<lparr>reservations := m\<rparr>) = (Inr (), st\<lparr>reservations := m'\<rparr>) \<and> ordered_map m'
    \<and> (\<forall>k. map_of m' k = (if k \<in> (\<lambda>r. rq_id (rec_request r)) ` set rs
          then map_option (\<lambda>x. x\<lparr>rec_state := t\<rparr>) (map_of m k) else map_of m k))"
  using assms
proof (induction rs arbitrary: m)
  case Nil
  then show ?case by auto
next
  case (Cons r rs)
  let ?i = "rq_id (rec_request r)"
  obtain x where x: "map_of m ?i = Some x" using Cons.prems(1) by auto
  let ?m = "bt_insert ?i (x\<lparr>rec_state := t\<rparr>) m"
  have pre: "\<forall>r \<in> set rs. \<exists>x. map_of ?m (rq_id (rec_request r)) = Some x" using Cons.prems(1) by simp
  have ord: "ordered_map ?m" using Cons.prems(2) by simp
  obtain m' where m': "for_each (\<lambda>r. bind_update (store_state (rq_id (rec_request r)) t) (\<lambda>_ st. (Inr (), st))) rs
      (st\<lparr>reservations := ?m\<rparr>) = (Inr (), st\<lparr>reservations := m'\<rparr>)" "ordered_map m'"
    "\<forall>k. map_of m' k = (if k \<in> (\<lambda>r. rq_id (rec_request r)) ` set rs
        then map_option (\<lambda>x. x\<lparr>rec_state := t\<rparr>) (map_of ?m k) else map_of ?m k)"
    using Cons.IH [OF pre ord] by blast
  have "bind_update (store_state ?i t) (\<lambda>_ st. (Inr (), st)) (st\<lparr>reservations := m\<rparr>) =
      (Inr (), st\<lparr>reservations := ?m\<rparr>)"
    using x by (simp add: bind_update_def store_state_def)
  then have "for_each (\<lambda>r. bind_update (store_state (rq_id (rec_request r)) t) (\<lambda>_ st. (Inr (), st))) (r # rs)
      (st\<lparr>reservations := m\<rparr>) = (Inr (), st\<lparr>reservations := m'\<rparr>)"
    using m'(1) by (simp add: bind_update_ok)
  moreover have "\<forall>k. map_of m' k = (if k \<in> (\<lambda>r. rq_id (rec_request r)) ` set (r # rs)
      then map_option (\<lambda>x. x\<lparr>rec_state := t\<rparr>) (map_of m k) else map_of m k)"
    using m'(3) x by simp
  ultimately show ?case using m'(2) by blast
qed

lemma expired_records:
  assumes ok: "budget_ok st"
  shows "r \<in> set (filter (record_expired now) (bt_values (reservations st))) \<longleftrightarrow>
    map_of (reservations st) (rq_id (rec_request r)) = Some r \<and> record_expired now r"
proof -
  have "(k, r) \<in> set (reservations st) \<longleftrightarrow> map_of (reservations st) k = Some r" for k
    by (rule ordered_map_lookup [OF budget_okD(2) [OF ok]])
  moreover have "k = rq_id (rec_request r)" if "map_of (reservations st) k = Some r" for k
    using budget_okD(4) [OF ok that] by (simp add: record_ok_def)
  moreover have "r \<in> set (filter (record_expired now) (bt_values (reservations st))) \<longleftrightarrow>
      (\<exists>k. (k, r) \<in> set (reservations st)) \<and> record_expired now r"
    by (auto simp: bt_values_def intro: rev_image_eqI)
  ultimately show ?thesis by metis
qed

text \<open>
  The expiry pass succeeds in every consistent ledger: it settles exactly the reserved records
  whose deadline has come.
\<close>

lemma expire_decrements:
  assumes ok: "budget_ok st"
  obtains d where "expiry_decrements (filter (record_expired now) (bt_values (reservations st))) [] = Inr d"
    "ordered_map d" "\<forall>pid. decrement_of d pid = claims (moved_claim (record_expired now) pid) (reservations st)"
    "\<forall>(pid, a) \<in> set d. \<exists>p. map_of (policies st) pid = Some p \<and> a \<le> ps_reserved p"
    "\<forall>pid p. map_of (policies st) pid = Some p \<longrightarrow> decrement_of d pid \<le> unat (ps_reserved p)"
proof -
  let ?P = "record_expired now" and ?m = "reservations st"
  let ?expired = "filter ?P (bt_values ?m)"
  have known: "\<exists>p. map_of (policies st) pid = Some p"
    if "r \<in> set ?expired" "pid \<in> set (rec_applied_policies r)" for r pid
    using that applied_known [OF ok] by (auto simp only: expired_records [OF ok])
  have le: "claims (moved_claim ?P pid) ?m \<le> claims (state_claim Reserved pid) ?m" for pid
    by (intro claims_mono) (auto simp: moved_claim_def state_claim_def record_expired_def)
  have covered: "claims (moved_claim ?P pid) ?m \<le> unat (ps_reserved p)"
    if "map_of (policies st) pid = Some p" for pid p
    using le [of pid] budget_okD(3) [OF ok that] by (simp add: counters_ok_def)
  have none: "charged_by pid ?expired = 0" if "map_of (policies st) pid = None" for pid
  proof -
    have "\<forall>r \<in> set ?expired. pid \<notin> set (rec_applied_policies r)" using known that by fastforce
    then show ?thesis by (auto simp: charged_by_def sum_list_eq_0_iff)
  qed
  have small: "\<forall>pid. decrement_of [] pid + charged_by pid ?expired < 2 ^ 64"
  proof
    fix pid
    show "decrement_of [] pid + charged_by pid ?expired < 2 ^ 64"
    proof (cases "map_of (policies st) pid")
      case (Some p)
      then show ?thesis
        using covered [OF Some] unat_lt_width [of "ps_reserved p"]
        by (simp add: decrement_of_def charged_by_expired)
    qed (simp add: none decrement_of_def)
  qed
  have "\<forall>r \<in> set ?expired. distinct (rec_applied_policies r)"
    using budget_okD(4) [OF ok] by (auto simp only: expired_records [OF ok] record_ok_def)
  from expiry_decrements_ok [OF this ordered_map_Nil small]
  obtain d where d: "expiry_decrements ?expired [] = Inr d" "ordered_map d"
    "fst ` set d \<subseteq> (\<Union>r \<in> set ?expired. set (rec_applied_policies r))"
    "\<forall>pid. decrement_of d pid = charged_by pid ?expired"
    by (auto simp: decrement_of_def)
  have dec: "decrement_of d pid = claims (moved_claim ?P pid) ?m" for pid
    using d(4) by (simp add: charged_by_expired)
  have "\<exists>p. map_of (policies st) pid = Some p \<and> a \<le> ps_reserved p" if pa: "(pid, a) \<in> set d" for pid a
  proof -
    have "pid \<in> fst ` set d" using pa by force
    then obtain r where "r \<in> set ?expired" "pid \<in> set (rec_applied_policies r)" using d(3) by blast
    then obtain p where p: "map_of (policies st) pid = Some p" using known by blast
    moreover have "unat a = decrement_of d pid"
      using pa ordered_map_lookup [OF d(2)] by (simp add: decrement_of_def)
    ultimately show ?thesis using covered [OF p] dec by (auto simp: word_le_nat_alt)
  qed
  then show ?thesis using covered dec by (intro that [OF d(1,2)]) auto
qed

lemma expire_records_effect:
  assumes ok: "budget_ok st"
  shows "\<exists>ps. expire_records now st =
      (Inr (length (filter (record_expired now) (bt_values (reservations st)))),
       st\<lparr>policies := ps, reservations := restate (record_expired now) Expired (reservations st)\<rparr>)
    \<and> settled st (record_expired now) Expired ps"
proof -
  let ?P = "record_expired now" and ?m = "reservations st"
  let ?expired = "filter ?P (bt_values ?m)"
  obtain d where d: "expiry_decrements ?expired [] = Inr d" "ordered_map d"
    "\<forall>pid. decrement_of d pid = claims (moved_claim ?P pid) ?m"
    "\<forall>(pid, a) \<in> set d. \<exists>p. map_of (policies st) pid = Some p \<and> a \<le> ps_reserved p"
    "\<forall>pid p. map_of (policies st) pid = Some p \<longrightarrow> decrement_of d pid \<le> unat (ps_reserved p)"
    by (rule expire_decrements [OF ok, of now])
  have valid: "validate_expiry_decrements st d = Inr ()"
    unfolding validate_expiry_decrements_def check_each_ok
    using d(4) by (fastforce simp: policy_state_def not_less)
  obtain ps where loop: "for_each (\<lambda>(pid, amount).
      policy_state_mut pid (\<lambda>p. p\<lparr>ps_reserved := ps_reserved p - amount\<rparr>)) d st = (Inr (), st\<lparr>policies := ps\<rparr>)"
    and ps: "ordered_map ps" "\<And>k. map_of ps k = (case map_of d k of None \<Rightarrow> map_of (policies st) k
      | Some a \<Rightarrow> map_option (\<lambda>p. p\<lparr>ps_reserved := ps_reserved p - a\<rparr>) (map_of (policies st) k))"
    using policy_loop [of d st "\<lambda>a p. p\<lparr>ps_reserved := ps_reserved p - a\<rparr>"] d(4)
      ordered_map_distinct [OF d(2)] budget_okD(1) [OF ok] by fastforce
  have "settled st ?P Expired ps"
    unfolding settled_def d(3) [rule_format, symmetric]
    using ps d(5) by (auto simp: decrement_of_def unat_sub word_le_nat_alt split: option.splits)
  moreover obtain m' where m': "for_each (\<lambda>r. bind_update (store_state (rq_id (rec_request r)) Expired)
        (\<lambda>_ st. (Inr (), st))) ?expired (st\<lparr>policies := ps, reservations := ?m\<rparr>) =
        (Inr (), st\<lparr>policies := ps, reservations := m'\<rparr>)" "ordered_map m'"
      "\<And>k. map_of m' k = (if k \<in> (\<lambda>r. rq_id (rec_request r)) ` set ?expired
          then map_option (\<lambda>x. x\<lparr>rec_state := Expired\<rparr>) (map_of ?m k) else map_of ?m k)"
  proof -
    have "\<forall>r \<in> set ?expired. \<exists>x. map_of ?m (rq_id (rec_request r)) = Some x"
      using expired_records [OF ok] by blast
    from store_loop [OF this budget_okD(2) [OF ok], of Expired "st\<lparr>policies := ps\<rparr>"] that show ?thesis
      by blast
  qed
  moreover have "m' = restate ?P Expired ?m"
  proof (rule ordered_map_eqI [OF m'(2)])
    show "map_of m' = map_of (restate ?P Expired ?m)"
    proof
      fix k
      have "k \<in> (\<lambda>r. rq_id (rec_request r)) ` set ?expired \<longleftrightarrow> (\<exists>x. map_of ?m k = Some x \<and> ?P x)"
        using budget_okD(4) [OF ok, of k] unfolding image_iff Bex_def expired_records [OF ok]
        by (auto simp: record_ok_def)
      then show "map_of m' k = map_of (restate ?P Expired ?m) k"
        using m'(3) [of k] by (cases "map_of ?m k") (simp_all add: restate_def map_of_map_values)
    qed
  qed (use budget_okD(2) [OF ok] in \<open>simp add: restate_def\<close>)
  ultimately show ?thesis
    using d(1) valid loop
    by (intro exI [of _ ps]) (simp add: expire_records_def Let_def bind_update_def lift_result_def)
qed

lemma expire_records_ok:
  assumes ok: "budget_ok st" and "expire_records now st = (res, st')"
  shows "budget_ok st'"
proof -
  obtain ps where "settled st (record_expired now) Expired ps"
    "st' = st\<lparr>policies := ps, reservations := restate (record_expired now) Expired (reservations st)\<rparr>"
    using expire_records_effect [OF ok, of now] assms(2) by auto
  then show ?thesis
    using restate_ok [OF ok, of Expired "record_expired now"] by (simp add: record_expired_def)
qed

end
