(* ===== verification/Budget_Properties.thy ===== *)
theory Budget_Properties
  imports Budget_Invariant
begin

text \<open>
  Properties of the budget ledger over every reachable book, and of the publication of budget
  policies.
\<close>

section \<open>The ledger keeps its invariant\<close>

definition budget_inv :: "BudgetBook \<Rightarrow> bool" where
  "budget_inv b \<longleftrightarrow> budget_ok (bk_state b)"

lemma index_budget_policies_ok:
  assumes "index_budget_policies ps seen states = Inr states'" and "ordered_map states"
    and "\<forall>(k, p) \<in> set states. bp_id (ps_policy p) = k \<and> ps_reserved p = 0 \<and> ps_committed p = 0"
  shows "ordered_map states' \<and>
    (\<forall>(k, p) \<in> set states'. bp_id (ps_policy p) = k \<and> ps_reserved p = 0 \<and> ps_committed p = 0)"
  using assms
proof (induction ps arbitrary: seen states)
  case Nil
  then show ?case by simp
next
  case (Cons p ps)
  obtain seen' where rest: "index_budget_policies ps seen'
      (bt_insert (bp_id p) \<lparr>ps_policy = p, ps_reserved = 0, ps_committed = 0\<rparr> states) = Inr states'"
    using Cons.prems(1) by (auto simp: bind_result_eq_Inr)
  show ?case
    using Cons.IH [OF rest] Cons.prems(2,3)
      set_bt_insert_subset [of "bp_id p" "\<lparr>ps_policy = p, ps_reserved = 0, ps_committed = 0\<rparr>" states]
    by fastforce
qed

lemma BudgetBook_new_inv:
  assumes "BudgetBook_new ps = Inr b"
  shows "budget_inv b"
proof -
  obtain states where states: "index_budget_policies ps ({}, {}) [] = Inr states"
    and b: "b = \<lparr>bk_poisoned = False, bk_state = \<lparr>policies = states, reservations = []\<rparr>\<rparr>"
    using assms by (auto simp: BudgetBook_new_def bind_result_eq_Inr)
  have ord: "ordered_map states" and
    "\<forall>(k, p) \<in> set states. bp_id (ps_policy p) = k \<and> ps_reserved p = 0 \<and> ps_committed p = 0"
    using index_budget_policies_ok [OF states] by auto
  then have "bp_id (ps_policy p) = k \<and> ps_reserved p = 0 \<and> ps_committed p = 0"
    if "map_of states k = Some p" for k p
    using map_of_SomeD [OF that] by blast
  with ord show ?thesis
    unfolding b budget_inv_def budget_ok_def by (simp add: counters_ok_def)
qed

lemma with_book_inv:
  assumes "budget_inv b" and "with_book f b = (r, b')"
    and "\<And>r st'. f (bk_state b) = (r, st') \<Longrightarrow> budget_ok st'"
  shows "budget_inv b'"
  using assms by (auto simp: with_book_def budget_inv_def split: if_splits prod.splits)

lemma book_reserve_inv:
  assumes "budget_inv b" and "book_reserve request now b = (r, b')"
  shows "budget_inv b'"
  using assms(1) assms(2) [unfolded book_reserve_def]
proof (rule with_book_inv)
  have ok: "budget_ok (bk_state b)" using assms(1) by (simp add: budget_inv_def)
  obtain n st1 where e: "expire_records now (bk_state b) = (Inr n, st1)"
    using expire_records_effect [OF ok, of now] by blast
  have ok1: "budget_ok st1" by (rule expire_records_ok [OF ok e])
  show "budget_ok st'"
    if "bind_update (expire_records now) (\<lambda>_ st.
       case map_of (reservations st) (rq_id request) of
         Some r \<Rightarrow> (replay_reservation r request, st)
       | None \<Rightarrow> insert_reservation request now st) (bk_state b) = (r, st')" for r st'
    using that ok1 insert_reservation_ok [OF ok1]
    by (auto simp: bind_update_def e split: option.splits)
qed

lemma reserve_fresh_inv:
  assumes "budget_inv b" and "reserve_fresh request now b = (r, b')"
  shows "budget_inv b'"
  using assms(1) assms(2) [unfolded reserve_fresh_def]
proof (rule with_book_inv)
  have ok: "budget_ok (bk_state b)" using assms(1) by (simp add: budget_inv_def)
  obtain ps where e: "expire_records now (bk_state b) =
      (Inr (length (filter (record_expired now) (bt_values (reservations (bk_state b))))),
       (bk_state b)\<lparr>policies := ps, reservations := restate (record_expired now) Expired (reservations (bk_state b))\<rparr>)"
    using expire_records_effect [OF ok, of now] by blast
  let ?st1 = "snd (expire_records now (bk_state b))"
  have ok1: "budget_ok ?st1" by (rule expire_records_ok [OF ok prod.collapse [symmetric]])
  have new: "map_of (reservations ?st1) (rq_id request) = None"
    if "map_of (reservations (bk_state b)) (rq_id request) = None"
    using that by (simp add: e restate_def map_of_map_values)
  show "budget_ok st'"
    if "(if map_of (reservations (bk_state b)) (rq_id request) \<noteq> None
         then (Inl (budget_error ReplayConflict), bk_state b)
         else bind_update (expire_records now) (\<lambda>_. insert_reservation request now) (bk_state b)) = (r, st')"
    for r st'
    using that ok insert_reservation_ok [OF ok1 new]
    by (auto simp: bind_update_def e split: if_splits)
qed

lemma transition_inv:
  assumes "budget_inv b" and "t \<noteq> Reserved" and "transition rid t b = (r, b')"
  shows "budget_inv b'"
  using assms(1) assms(3) [unfolded transition_def]
  by (rule with_book_inv) (use assms in \<open>auto simp: budget_inv_def intro: transition_record_ok\<close>)

lemma expire_inv:
  assumes "budget_inv b" and "expire now b = (r, b')"
  shows "budget_inv b'"
  using assms(1) assms(2) [unfolded expire_def]
  by (rule with_book_inv) (use assms in \<open>auto simp: budget_inv_def intro: expire_records_ok\<close>)

interpretation budget: invariant_system budget_init budget_step budget_inv
proof
  fix b l b'
  show "budget_inv b" if "budget_init b"
    using that BudgetBook_new_inv by (auto simp: budget_init_def)
  show "budget_inv b'" if "budget_inv b" "budget_step b l b'"
    using that(2) book_reserve_inv [OF that(1)] reserve_fresh_inv [OF that(1)] expire_inv [OF that(1)]
      transition_inv [OF that(1), of Committed] transition_inv [OF that(1), of Released]
    by (cases l) (simp_all add: budget_step_iff book_commit_def book_release_def prod_eq_iff)
qed

lemma reachable_budget_ok: "reachable budget_init budget_step b \<Longrightarrow> budget_ok (bk_state b)"
  using budget.reachable_inv by (simp add: budget_inv_def)

section \<open>A concrete ledger\<close>

text \<open>
  One hard account policy of 10 units and one soft tenant policy of 5; a reservation of 8
  units until time 100 is accepted and breaches the soft policy.
\<close>

definition ex_budget_policies :: "BudgetPolicy list" where
  "ex_budget_policies =
     [\<lparr>bp_id = ''acc'', bp_scope = AccountScope ''t'' ''a'', bp_limit = \<lparr>currency = ''EUR'', minor_units = 10\<rparr>,
       bp_enforcement = Hard\<rparr>,
      \<lparr>bp_id = ''ten'', bp_scope = TenantScope ''t'', bp_limit = \<lparr>currency = ''EUR'', minor_units = 5\<rparr>,
       bp_enforcement = Soft\<rparr>]"

definition ex_reservation :: "ReservationId \<Rightarrow> ReservationRequest" where
  "ex_reservation i =
     \<lparr>rq_id = i, rq_context = \<lparr>bc_tenant_id = ''t'', bc_group_id = None, bc_account_id = ''a''\<rparr>,
      rq_amount = \<lparr>currency = ''EUR'', minor_units = 8\<rparr>, rq_expires_at = 100\<rparr>"

definition ex_book :: "u64 \<Rightarrow> u64 \<Rightarrow> (ReservationId, ReservationRecord) btree_map \<Rightarrow> BudgetBook" where
  "ex_book reserved committed rs =
     \<lparr>bk_poisoned = False, bk_state =
        \<lparr>policies =
           [(''acc'', \<lparr>ps_policy = ex_budget_policies ! 0, ps_reserved = reserved, ps_committed = committed\<rparr>),
            (''ten'', \<lparr>ps_policy = ex_budget_policies ! 1, ps_reserved = reserved, ps_committed = committed\<rparr>)],
         reservations = rs\<rparr>\<rparr>"

definition ex_record :: ReservationRecord where
  "ex_record =
     \<lparr>rec_request = ex_reservation ''r1'', rec_state = Reserved,
      rec_applied_policies = [''acc'', ''ten''], rec_soft_limit_breaches = [''ten'']\<rparr>"

definition ex_reserved :: BudgetBook where
  "ex_reserved = ex_book 8 0 [(''r1'', ex_record)]"

lemmas budget_exec =
  BudgetBook_new_def validate_policy_count_def validate_unique_policy_def BUDGET_MAX_POLICIES_def
  book_reserve_def reserve_fresh_def with_book_def expire_records_def validate_expiry_decrements_def
  insert_reservation_def validate_new_reservation_def MAX_RESERVATIONS_def applicable_policy_ids_def
  bt_values_def policy_applies_def validate_capacity_def policy_state_def projected_usage_def
  record_capacity_breach_def merge_hard_scope_def reserve_capacity_def policy_state_mut_def
  replay_reservation_def record_expired_def store_state_def transition_record_def transition_def
  apply_transition_usage_def usage_after_def book_commit_def book_release_def expire_def receipt_def
  checked_add_def checked_sub_def bind_update_def lift_result_def Let_def word_le_nat_alt word_less_nat_alt

lemmas ex_budget_defs =
  ex_budget_policies_def ex_reservation_def ex_book_def ex_record_def ex_reserved_def

lemma ex_budget_new: "BudgetBook_new ex_budget_policies = Inr (ex_book 0 0 [])"
  by (simp add: budget_exec ex_budget_defs)

lemma ex_budget_reserve:
  "book_reserve (ex_reservation ''r1'') 50 (ex_book 0 0 []) = (Inr (receipt ex_record), ex_reserved)"
  by (simp add: budget_exec ex_budget_defs)

lemma ex_budget_reachable: "reachable budget_init budget_step ex_reserved"
proof -
  have "budget_init (ex_book 0 0 [])" using ex_budget_new by (auto simp: budget_init_def)
  moreover have "budget_step (ex_book 0 0 []) (Reserve (ex_reservation ''r1'') 50) ex_reserved"
    by (simp add: budget_step_iff ex_budget_reserve)
  ultimately show ?thesis using reachable_init [of budget_init] reachable_step by metis
qed

section \<open>Limits and counters\<close>

text \<open>
  C2: The usage a book reports is exact and within hard limits. In every reachable book the
  reserved (committed) units of a policy are the sum of the amounts of the reserved (committed)
  reservations that charge it, without wrap-around, and for a hard policy reserved plus committed
  never exceeds the limit.
\<close>

theorem hard_limit_never_exceeded:
  assumes "reachable budget_init budget_step b" and "usage pid b = Inr u"
  shows "unat (bu_reserved_minor_units u) =
      sum_list (map (\<lambda>(i, r). unat (amount_of r)) (filter (\<lambda>(i, r). rec_state r = Reserved
        \<and> pid \<in> set (rec_applied_policies r)) (reservations (bk_state b))))
    \<and> unat (bu_committed_minor_units u) =
      sum_list (map (\<lambda>(i, r). unat (amount_of r)) (filter (\<lambda>(i, r). rec_state r = Committed
        \<and> pid \<in> set (rec_applied_policies r)) (reservations (bk_state b))))
    \<and> (bu_enforcement u = Hard \<longrightarrow>
        unat (bu_reserved_minor_units u) + unat (bu_committed_minor_units u) \<le> unat (minor_units (bu_limit u)))"
proof -
  obtain p where p: "map_of (policies (bk_state b)) pid = Some p"
    and u: "bu_reserved_minor_units u = ps_reserved p" "bu_committed_minor_units u = ps_committed p"
      "bu_enforcement u = bp_enforcement (ps_policy p)" "bu_limit u = bp_limit (ps_policy p)"
    using assms(2) by (auto simp: usage_def bind_result_eq_Inr ok_or_eq split: if_splits)
  have "claims (state_claim s pid) m = sum_list (map (\<lambda>(i, r). unat (amount_of r))
      (filter (\<lambda>(i, r). rec_state r = s \<and> pid \<in> set (rec_applied_policies r)) m))"
    for s and m :: "(ReservationId \<times> ReservationRecord) list"
    by (induction m) (auto simp: state_claim_def)
  then show ?thesis
    using budget_okD(3) [OF reachable_budget_ok [OF assms(1)] p] u by (auto simp: counters_ok_def)
qed

theorem hard_limit_never_exceeded_witness:
  "\<exists>u. usage ''acc'' ex_reserved = Inr u \<and> bu_enforcement u = Hard \<and> unat (bu_reserved_minor_units u) = 8
     \<and> unat (bu_reserved_minor_units u) + unat (bu_committed_minor_units u) \<le> unat (minor_units (bu_limit u))"
proof -
  obtain u where u: "usage ''acc'' ex_reserved = Inr u" "bu_enforcement u = Hard"
    by (simp add: usage_def ex_budget_defs)
  from hard_limit_never_exceeded [OF ex_budget_reachable u(1)] u show ?thesis
    by (simp add: ex_budget_defs)
qed

section \<open>Reserving\<close>

text \<open>
  A reservation of a new identity charges all policies that apply to it and no other, by its
  amount, atomically with recording it; the receipt names exactly those policies, and the soft
  ones it takes over their limit.
\<close>

theorem reservation_charges_applicable_policies:
  assumes "reachable budget_init budget_step b"
    and "map_of (reservations (bk_state b)) (rq_id request) = None"
    and "reserve_fresh request now b = (Inr rc, b')" and "st = bk_state (snd (expire now b))"
  shows "set (rc_applied_policies rc) =
      {pid. \<exists>p. map_of (policies st) pid = Some p \<and> policy_applies request p}
    \<and> rc_state rc = Reserved \<and> rc_amount rc = rq_amount request \<and> rc_id rc = rq_id request
    \<and> map_of (policies (bk_state b')) = charged_policies st (rc_applied_policies rc) (minor_units (rq_amount request))
    \<and> (\<exists>r. receipt r = rc \<and> reservations (bk_state b') = bt_insert (rq_id request) r (reservations st))
    \<and> (\<forall>pid. pid \<in> set (rc_soft_limit_breaches rc) \<longleftrightarrow> pid \<in> set (rc_applied_policies rc)
          \<and> breaches st (minor_units (rq_amount request)) Soft pid)"
proof -
  have ok: "budget_ok (bk_state b)" by (rule reachable_budget_ok [OF assms(1)])
  have np: "\<not> bk_poisoned b" using assms(3) by (auto simp: reserve_fresh_def with_book_def)
  then have st: "st = snd (expire_records now (bk_state b))"
    using assms(4) by (simp add: expire_def with_book_def split_beta)
  have ok1: "budget_ok st" unfolding st by (rule expire_records_ok [OF ok prod.collapse [symmetric]])
  obtain n where "expire_records now (bk_state b) = (Inr n, st)"
    using expire_records_effect [OF ok, of now] st by auto
  then have ins: "insert_reservation request now st = (Inr rc, bk_state b')"
    using assms(2,3) np by (auto simp: reserve_fresh_def with_book_def bind_update_def split: prod.splits)
  from ok1 ins show ?thesis
  proof (cases rule: insert_reservation_cases)
    case (2 pids soft ps r)
    have "capacity_breaches st (minor_units (rq_amount request)) pids (None, []) = Inr (None, soft)"
      using 2(2) by (auto simp: validate_capacity_def bind_result_eq_Inr split: option.splits)
    from capacity_breaches_ok [OF this]
    have "soft = filter (breaches st (minor_units (rq_amount request)) Soft) pids" by simp
    moreover have "\<exists>r. receipt r = rc \<and> reservations (bk_state b') = bt_insert (rq_id request) r (reservations st)"
      using 2 by (intro exI [of _ r]) simp
    ultimately show ?thesis
      using 2 applicable_policy_ids_ok [OF ok1 2(1)] by (simp add: receipt_def)
  qed simp
qed

theorem reservation_charges_applicable_policies_witness:
  "\<exists>rc b'. reserve_fresh (ex_reservation ''r1'') 50 (ex_book 0 0 []) = (Inr rc, b')
     \<and> set (rc_applied_policies rc) = {''acc'', ''ten''} \<and> rc_soft_limit_breaches rc = [''ten'']"
proof -
  have r: "reachable budget_init budget_step (ex_book 0 0 [])"
    using ex_budget_new by (intro reachable_init [of budget_init]) (auto simp: budget_init_def)
  obtain rc b' where run: "reserve_fresh (ex_reservation ''r1'') 50 (ex_book 0 0 []) = (Inr rc, b')"
    and rc: "rc_applied_policies rc = [''acc'', ''ten'']" "rc_soft_limit_breaches rc = [''ten'']"
    by (simp add: budget_exec ex_budget_defs)
  show ?thesis
    using reservation_charges_applicable_policies [OF r _ run refl] run rc
    by (intro exI [of _ rc] exI [of _ b']) (simp add: ex_book_def)
qed

text \<open>
  A refused reservation makes no change but the expiry of reservations whose deadline has
  come: whatever the error, the book is left as \<open>expire\<close> at that time leaves it. (The documentation
  says that hard-limit failures make no state change; the expiry pass that precedes the check
  stays.)
\<close>

theorem refused_reservation_only_expires:
  assumes "reachable budget_init budget_step b" and "book_reserve request now b = (Inl e, b')"
  shows "b' = snd (expire now b)"
proof (cases "bk_poisoned b")
  case True
  then show ?thesis using assms(2) by (simp add: book_reserve_def expire_def with_book_def)
next
  case False
  have ok: "budget_ok (bk_state b)" by (rule reachable_budget_ok [OF assms(1)])
  obtain n st1 where e1: "expire_records now (bk_state b) = (Inr n, st1)"
    using expire_records_effect [OF ok, of now] by blast
  have ok1: "budget_ok st1" by (rule expire_records_ok [OF ok e1])
  have "st2 = st1" if "insert_reservation request now st1 = (Inl e, st2)" for st2
    using ok1 that by (cases rule: insert_reservation_cases) simp_all
  then show ?thesis
    using assms(2) False e1
    by (auto simp: book_reserve_def expire_def with_book_def bind_update_def split: option.splits prod.splits)
qed

theorem refused_reservation_only_expires_witness:
  "\<exists>e. book_reserve (ex_reservation ''r2'') 60 ex_reserved = (Inl e, snd (expire 60 ex_reserved)) \<and>
     be_code e = HardLimitExceeded"
proof -
  obtain e b' where r: "book_reserve (ex_reservation ''r2'') 60 ex_reserved = (Inl e, b')"
    "be_code e = HardLimitExceeded"
    by (simp add: budget_exec ex_budget_defs BudgetError_with_refusal_scope_def)
  with refused_reservation_only_expires [OF ex_budget_reachable r(1)] show ?thesis by auto
qed

lemma expire_records_idle:
  assumes ok: "budget_ok st" and none: "\<forall>r \<in> snd ` set (reservations st). \<not> record_expired now r"
  shows "expire_records now st = (Inr 0, st)"
proof -
  obtain ps where run: "expire_records now st =
      (Inr (length (filter (record_expired now) (bt_values (reservations st)))),
       st\<lparr>policies := ps, reservations := restate (record_expired now) Expired (reservations st)\<rparr>)"
    and ps: "settled st (record_expired now) Expired ps"
    using expire_records_effect [OF ok, of now] by blast
  have zero: "claims (moved_claim (record_expired now) pid) (reservations st) = 0" for pid
    using none by (auto simp: claims_eq_0 moved_claim_def)
  have "map_of ps pid = map_of (policies st) pid" for pid
  proof (cases "map_of (policies st) pid")
    case None
    then show ?thesis using ps by (simp add: settled_def)
  next
    case (Some p)
    then obtain q where q: "map_of ps pid = Some q" "ps_policy q = ps_policy p"
      "unat (ps_reserved q) = unat (ps_reserved p)" "unat (ps_committed q) = unat (ps_committed p)"
      using settledD [OF ps Some] zero by auto
    then have "q = p" by (simp add: word_unat_eq_iff)
    with Some q(1) show ?thesis by simp
  qed
  then have "ps = policies st"
    using ps ok by (intro ordered_map_eqI) (auto simp: settled_def budget_ok_def)
  moreover have "restate (record_expired now) Expired (reservations st) = reservations st"
    using none unfolding restate_def by (intro map_idI) auto
  moreover have "filter (record_expired now) (bt_values (reservations st)) = []"
    using none by (simp add: bt_values_def filter_empty_conv)
  ultimately show ?thesis using run by simp
qed

lemma expire_leaves_none_expired:
  assumes ok: "budget_ok st" and e: "expire_records now st = (Inr n, st1)"
  shows "\<forall>r \<in> snd ` set (reservations st1). \<not> record_expired now r"
  using expire_records_effect [OF ok, of now] e by (auto simp: restate_def record_expired_def split: if_splits)

lemma budget_state_eqI: "bk_state b = bk_state b' \<Longrightarrow> bk_poisoned b = bk_poisoned b' \<Longrightarrow> b = b'"
  for b b' :: BudgetBook
  by (cases b; cases b') simp

text \<open>
  Replaying an accepted reservation is idempotent: the same request at the same time returns
  the same receipt and changes nothing, so it is never charged twice.
\<close>

theorem replayed_reservation_is_idempotent:
  assumes "reachable budget_init budget_step b" and "book_reserve request now b = (Inr rc, b')"
  shows "book_reserve request now b' = (Inr rc, b')"
proof -
  have ok: "budget_ok (bk_state b)" by (rule reachable_budget_ok [OF assms(1)])
  have np: "\<not> bk_poisoned b" "bk_poisoned b' = bk_poisoned b"
    using assms(2) by (auto simp: book_reserve_def with_book_def split: if_splits prod.splits)
  obtain n st1 where e1: "expire_records now (bk_state b) = (Inr n, st1)"
    using expire_records_effect [OF ok, of now] by blast
  note ok1 = expire_records_ok [OF ok e1] and none = expire_leaves_none_expired [OF ok e1]
  have "\<exists>r. map_of (reservations (bk_state b')) (rq_id request) = Some r \<and> replay_reservation r request = Inr rc
    \<and> (\<forall>r \<in> snd ` set (reservations (bk_state b')). \<not> record_expired now r)"
  proof (cases "map_of (reservations st1) (rq_id request)")
    case (Some r)
    then have "bk_state b' = st1" "replay_reservation r request = Inr rc"
      using assms(2) np e1 by (auto simp: book_reserve_def with_book_def bind_update_def)
    with Some none show ?thesis by blast
  next
    case None
    then have ins: "insert_reservation request now st1 = (Inr rc, bk_state b')"
      using assms(2) np e1 by (auto simp: book_reserve_def with_book_def bind_update_def split: prod.splits)
    from ok1 ins show ?thesis
    proof (cases rule: insert_reservation_cases)
      case (2 pids soft ps r)
      have "\<not> record_expired now r" using 2(3,5) by (simp add: record_expired_def not_le)
      moreover have "snd ` set (reservations (bk_state b')) \<subseteq> insert r (snd ` set (reservations st1))"
        using set_bt_insert_subset [of "rq_id request" r "reservations st1"] by (force simp: 2(9))
      ultimately have live: "\<forall>r \<in> snd ` set (reservations (bk_state b')). \<not> record_expired now r"
        using none by blast
      have "map_of (reservations (bk_state b')) (rq_id request) = Some r" by (simp add: 2(9))
      moreover have "replay_reservation r request = Inr rc"
        using 2(5,6) by (simp add: replay_reservation_def)
      ultimately show ?thesis using live by blast
    qed simp
  qed
  then obtain r where r: "map_of (reservations (bk_state b')) (rq_id request) = Some r"
    "replay_reservation r request = Inr rc"
    "\<forall>r \<in> snd ` set (reservations (bk_state b')). \<not> record_expired now r" by blast
  have "budget_ok (bk_state b')"
    using book_reserve_inv [OF _ assms(2)] ok by (simp add: budget_inv_def)
  from expire_records_idle [OF this r(3)] show ?thesis
    using np r(1,2) by (simp add: book_reserve_def with_book_def bind_update_def)
qed

theorem replayed_reservation_is_idempotent_witness:
  "book_reserve (ex_reservation ''r1'') 50 ex_reserved = (Inr (receipt ex_record), ex_reserved)"
proof -
  have "reachable budget_init budget_step (ex_book 0 0 [])"
    using ex_budget_new by (intro reachable_init [of budget_init]) (auto simp: budget_init_def)
  then show ?thesis by (rule replayed_reservation_is_idempotent [OF _ ex_budget_reserve])
qed

section \<open>Settling\<close>

text \<open>
  The expiry pass always succeeds: in every reachable, unpoisoned book it marks exactly the
  reserved reservations whose deadline is at or before now as expired, keeps every other record,
  and reports their number. None of its arithmetic guards can fire.
\<close>

theorem expiry_always_succeeds:
  assumes "reachable budget_init budget_step b" and "\<not> bk_poisoned b"
  shows "\<exists>b'. expire now b =
      (Inr (length (filter (\<lambda>(i, r). record_expired now r) (reservations (bk_state b)))), b')
    \<and> reservations (bk_state b') =
        map (\<lambda>(i, r). (i, if record_expired now r then r\<lparr>rec_state := Expired\<rparr> else r))
          (reservations (bk_state b))"
proof -
  obtain ps where "expire_records now (bk_state b) =
      (Inr (length (filter (record_expired now) (bt_values (reservations (bk_state b))))),
       (bk_state b)\<lparr>policies := ps,
         reservations := restate (record_expired now) Expired (reservations (bk_state b))\<rparr>)"
    using expire_records_effect [OF reachable_budget_ok [OF assms(1)], of now] by blast
  moreover have "length (filter (record_expired now) (bt_values m)) =
      length (filter (\<lambda>(i, r). record_expired now r) m)" for m :: "(ReservationId, ReservationRecord) btree_map"
    by (induction m) (auto simp: bt_values_def)
  ultimately show ?thesis
    using assms(2) by (simp add: expire_def with_book_def restate_def)
qed

theorem expiry_always_succeeds_witness:
  "\<exists>b'. expire 100 ex_reserved = (Inr 1, b') \<and>
     reservations (bk_state b') = [(''r1'', ex_record\<lparr>rec_state := Expired\<rparr>)]"
  using expiry_always_succeeds [OF ex_budget_reachable, of 100]
  by (simp add: ex_budget_defs record_expired_def)

text \<open>What a record may become: itself, or a final state if it was reserved.\<close>

definition record_le :: "ReservationRecord \<Rightarrow> ReservationRecord \<Rightarrow> bool" where
  "record_le r r' \<longleftrightarrow> r' = r \<or> rec_state r = Reserved \<and> (\<exists>t. r' = r\<lparr>rec_state := t\<rparr>)"

definition retains :: "BudgetState \<Rightarrow> BudgetState \<Rightarrow> bool" where
  "retains st st' \<longleftrightarrow>
     (\<forall>i r. map_of (reservations st) i = Some r \<longrightarrow>
        (\<exists>r'. map_of (reservations st') i = Some r' \<and> record_le r r'))"

lemma record_le_trans: "record_le a b \<Longrightarrow> record_le b c \<Longrightarrow> record_le a c"
  by (auto simp: record_le_def)

lemma retains_trans: "retains a b \<Longrightarrow> retains b c \<Longrightarrow> retains a c"
  unfolding retains_def using record_le_trans by meson

lemma retains_refl [simp]: "retains st st"
  by (auto simp: retains_def record_le_def)

lemma retains_final:
  assumes "retains st st'" and "map_of (reservations st) i = Some r" and "rec_state r \<noteq> Reserved"
  shows "map_of (reservations st') i = Some r"
  using assms unfolding retains_def record_le_def by blast

lemma retains_restate:
  assumes "\<forall>r \<in> snd ` set (reservations st). P r \<longrightarrow> rec_state r = Reserved"
    and "reservations st' = restate P t (reservations st)"
  shows "retains st st'"
  using assms by (auto simp: retains_def restate_def map_of_map_values record_le_def dest!: map_of_SomeD)

lemma expire_records_retains:
  assumes "budget_ok st" and "expire_records now st = (r, st')"
  shows "retains st st'"
  using expire_records_effect [OF assms(1), of now] assms(2)
  by (intro retains_restate [of st "record_expired now" st' Expired]) (auto simp: record_expired_def)

lemma insert_reservation_retains:
  assumes ok: "budget_ok st" and "map_of (reservations st) (rq_id request) = None"
    and "insert_reservation request now st = (r, st')"
  shows "retains st st'"
  using ok assms(3)
proof (cases rule: insert_reservation_cases)
  case (2 pids soft ps r)
  then show ?thesis using assms(2) by (auto simp: retains_def record_le_def)
qed simp

lemma transition_record_retains:
  assumes ok: "budget_ok st" and t: "t \<noteq> Reserved" and "transition_record rid t st = (res, st')"
  shows "retains st st'"
  using assms
proof (cases rule: transition_record_cases)
  case (4 r ps)
  have "record_le x (if rq_id (rec_request x) = rid then x\<lparr>rec_state := t\<rparr> else x)"
    if x: "map_of (reservations st) i = Some x" for i x
  proof (cases "i = rid")
    case True
    with x 4(1,2) show ?thesis by (auto simp: record_le_def)
  next
    case False
    then have "rq_id (rec_request x) \<noteq> rid" using budget_okD(4) [OF ok x] by (simp add: record_ok_def)
    then show ?thesis by (simp add: record_le_def)
  qed
  then show ?thesis by (auto simp: retains_def restate_def map_of_map_values 4(5))
qed simp_all

lemma with_book_retains:
  assumes "\<And>r st'. f (bk_state b) = (r, st') \<Longrightarrow> retains (bk_state b) st'"
  shows "retains (bk_state b) (bk_state (snd (with_book f b)))
    \<and> bk_poisoned (snd (with_book f b)) = bk_poisoned b"
  using assms by (cases "f (bk_state b)") (simp add: with_book_def)

lemma expired_absent:
  assumes "budget_ok st" and "expire_records now st = (r, st1)"
  shows "map_of (reservations st1) i = None \<longleftrightarrow> map_of (reservations st) i = None"
  using expire_records_effect [OF assms(1), of now] assms(2)
  by (auto simp: restate_def map_of_map_values)

lemma budget_step_retains:
  assumes ok: "budget_ok (bk_state b)" and step: "budget_step b l b'"
  shows "retains (bk_state b) (bk_state b') \<and> bk_poisoned b' = bk_poisoned b"
proof -
  let ?st = "bk_state b"
  have via: "retains ?st st'" if e: "expire_records now ?st = (x, st1)" and i: "retains st1 st'" for now x st1 st'
    using expire_records_retains [OF ok e] i by (rule retains_trans)
  have ins: "retains st1 st'" if "expire_records now ?st = (x, st1)"
    "map_of (reservations st1) (rq_id request) = None" "insert_reservation request now st1 = (y, st')"
    for now x st1 request y st'
    using that insert_reservation_retains [OF expire_records_ok [OF ok that(1)]] by blast
  show ?thesis
  proof (cases l)
    case (Reserve request now)
    have "retains ?st st'" if "bind_update (expire_records now) (\<lambda>_ st.
       case map_of (reservations st) (rq_id request) of
         Some r \<Rightarrow> (replay_reservation r request, st)
       | None \<Rightarrow> insert_reservation request now st) ?st = (r, st')" for r st'
      using that expire_records_retains [OF ok] ins via
      by (auto simp: bind_update_def split: prod.splits sum.splits option.splits)
    then have "retains ?st (bk_state (snd (book_reserve request now b)))
        \<and> bk_poisoned (snd (book_reserve request now b)) = bk_poisoned b"
      unfolding book_reserve_def by (rule with_book_retains)
    then show ?thesis using step Reserve by (simp add: budget_step_iff)
  next
    case (ReserveFresh request now)
    have "retains ?st st'" if "(if map_of (reservations ?st) (rq_id request) \<noteq> None
        then (Inl (budget_error ReplayConflict), ?st)
        else bind_update (expire_records now) (\<lambda>_. insert_reservation request now) ?st) = (r, st')" for r st'
      using that expire_records_retains [OF ok] ins via expired_absent [OF ok]
      by (auto simp: bind_update_def split: prod.splits sum.splits if_splits)
    then have "retains ?st (bk_state (snd (reserve_fresh request now b)))
        \<and> bk_poisoned (snd (reserve_fresh request now b)) = bk_poisoned b"
      unfolding reserve_fresh_def by (rule with_book_retains)
    then show ?thesis using step ReserveFresh by (simp add: budget_step_iff)
  next
    case (Commit rid)
    have "retains ?st (bk_state (snd (book_commit rid b)))
        \<and> bk_poisoned (snd (book_commit rid b)) = bk_poisoned b"
      unfolding book_commit_def transition_def
      by (rule with_book_retains) (rule transition_record_retains [OF ok], simp_all)
    then show ?thesis using step Commit by (simp add: budget_step_iff)
  next
    case (ReleaseReservation rid)
    have "retains ?st (bk_state (snd (book_release rid b)))
        \<and> bk_poisoned (snd (book_release rid b)) = bk_poisoned b"
      unfolding book_release_def transition_def
      by (rule with_book_retains) (rule transition_record_retains [OF ok], simp_all)
    then show ?thesis using step ReleaseReservation by (simp add: budget_step_iff)
  next
    case (Expire now)
    have "retains ?st (bk_state (snd (expire now b)))
        \<and> bk_poisoned (snd (expire now b)) = bk_poisoned b"
      unfolding expire_def
      by (rule with_book_retains) (rule expire_records_retains [OF ok])
    then show ?thesis using step Expire by (simp add: budget_step_iff)
  qed
qed

lemma budget_run_retains:
  assumes "run budget_step b calls b'" and "budget_inv b"
  shows "retains (bk_state b) (bk_state b') \<and> bk_poisoned b' = bk_poisoned b"
  using assms
proof (induction rule: run.induct)
  case (run_nil s)
  then show ?case by simp
next
  case (run_cons s l t ls u)
  then have "budget_inv t" using budget.step_inv by blast
  with run_cons budget_step_retains [of s l t] show ?case
    by (auto simp: budget_inv_def intro: retains_trans)
qed

lemma reserve_fresh_granted:
  assumes "budget_inv b" and "reserve_fresh request now b = (Inr rc, b')"
  obtains r where "map_of (reservations (bk_state b)) (rq_id request) = None"
    "map_of (reservations (bk_state b')) (rq_id request) = Some r" "receipt r = rc" "rec_state r = Reserved"
    "rec_request r = request" "\<not> bk_poisoned b" "\<not> bk_poisoned b'" "rc_id rc = rq_id request"
proof -
  have ok: "budget_ok (bk_state b)" using assms(1) by (simp add: budget_inv_def)
  have np: "\<not> bk_poisoned b" using assms(2) by (auto simp: reserve_fresh_def with_book_def)
  have new: "map_of (reservations (bk_state b)) (rq_id request) = None"
    using assms(2) np by (auto simp: reserve_fresh_def with_book_def split: if_splits prod.splits)
  obtain n st1 where e: "expire_records now (bk_state b) = (Inr n, st1)"
    using expire_records_effect [OF ok, of now] by blast
  have ok1: "budget_ok st1" by (rule expire_records_ok [OF ok e])
  have ins: "insert_reservation request now st1 = (Inr rc, bk_state b')" and np': "\<not> bk_poisoned b'"
    using assms(2) np new e by (auto simp: reserve_fresh_def with_book_def bind_update_def split: prod.splits)
  from ok1 ins show ?thesis
  proof (cases rule: insert_reservation_cases)
    case (2 pids soft ps r)
    then show ?thesis using new np np' by (intro that [of r]) (auto simp: receipt_def)
  qed simp
qed

text \<open>
  An identity is granted at most once, for ever. After a reservation was granted, whatever
  calls follow, the ledger retains the record of that very request, and every further
  \<open>reserve_fresh\<close> of the identity is refused as a replay conflict without any change.
\<close>

theorem identity_granted_at_most_once:
  assumes "reachable budget_init budget_step b" and "reserve_fresh request now b = (Inr rc, b1)"
    and "run budget_step b1 calls b2" and "rq_id other = rq_id request"
  shows "(\<exists>r. map_of (reservations (bk_state b2)) (rq_id request) = Some r \<and> rec_request r = request)
    \<and> reserve_fresh other now' b2 = (Inl (budget_error ReplayConflict), b2)"
proof -
  have inv: "budget_inv b" by (rule budget.reachable_inv [OF assms(1)])
  obtain r where r: "map_of (reservations (bk_state b1)) (rq_id request) = Some r" "rec_request r = request"
    "\<not> bk_poisoned b1"
    using reserve_fresh_granted [OF inv assms(2)] by blast
  have "budget_inv b1" using reserve_fresh_inv [OF inv assms(2)] .
  from budget_run_retains [OF assms(3) this] r
  obtain r' where "map_of (reservations (bk_state b2)) (rq_id request) = Some r'" "rec_request r' = request"
    "\<not> bk_poisoned b2"
    unfolding retains_def record_le_def by fastforce
  then show ?thesis using assms(4) by (simp add: reserve_fresh_def with_book_def)
qed

theorem identity_granted_at_most_once_witness:
  "reserve_fresh (ex_reservation ''r1'') 200 (snd (book_commit ''r1'' ex_reserved)) =
     (Inl (budget_error ReplayConflict), snd (book_commit ''r1'' ex_reserved))"
proof -
  have r: "reachable budget_init budget_step (ex_book 0 0 [])"
    using ex_budget_new by (intro reachable_init [of budget_init]) (auto simp: budget_init_def)
  have g: "reserve_fresh (ex_reservation ''r1'') 50 (ex_book 0 0 []) = (Inr (receipt ex_record), ex_reserved)"
    by (simp add: budget_exec ex_budget_defs)
  have "run budget_step ex_reserved [Commit ''r1''] (snd (book_commit ''r1'' ex_reserved))"
    by (auto simp: run_Cons_iff budget_step_iff)
  from identity_granted_at_most_once [OF r g this refl] show ?thesis by blast
qed

lemma transition_reserved:
  assumes ok: "budget_ok (bk_state b)" and np: "\<not> bk_poisoned b"
    and r: "map_of (reservations (bk_state b)) rid = Some r" "rec_state r = Reserved" and t: "t \<noteq> Reserved"
  obtains b' ps where "transition rid t b = (Inr (receipt (r\<lparr>rec_state := t\<rparr>)), b')"
    "settled (bk_state b) (\<lambda>x. rq_id (rec_request x) = rid) t ps" "policies (bk_state b') = ps"
    "map_of (reservations (bk_state b')) rid = Some (r\<lparr>rec_state := t\<rparr>)"
proof -
  obtain res st' where run: "transition_record rid t (bk_state b) = (res, st')" by fastforce
  have id: "rq_id (rec_request r) = rid" using budget_okD(4) [OF ok r(1)] by (simp add: record_ok_def)
  from ok t run show ?thesis
  proof (cases rule: transition_record_cases)
    case (4 x ps)
    with r have "x = r" by simp
    with 4 run np id r show ?thesis
      by (intro that [of "b\<lparr>bk_state := st'\<rparr>" ps])
        (simp_all add: transition_def with_book_def restate_def map_of_map_values)
  qed (use r t in simp_all)
qed

text \<open>
  Committing a reserved reservation always succeeds and is final: in every later book the
  record is committed, a second commit returns the same receipt, and a release is refused, both
  without any change.
\<close>

theorem commit_is_final:
  assumes "reachable budget_init budget_step b" and "\<not> bk_poisoned b"
    and "map_of (reservations (bk_state b)) rid = Some r" and "rec_state r = Reserved"
  shows "\<exists>b1. book_commit rid b = (Inr (receipt (r\<lparr>rec_state := Committed\<rparr>)), b1)
    \<and> (\<forall>calls b2. run budget_step b1 calls b2 \<longrightarrow>
         map_of (reservations (bk_state b2)) rid = Some (r\<lparr>rec_state := Committed\<rparr>)
         \<and> book_commit rid b2 = (Inr (receipt (r\<lparr>rec_state := Committed\<rparr>)), b2)
         \<and> book_release rid b2 = (Inl (budget_error ReservationFinalized), b2))"
proof -
  have ok: "budget_ok (bk_state b)" by (rule reachable_budget_ok [OF assms(1)])
  obtain b1 where b1: "book_commit rid b = (Inr (receipt (r\<lparr>rec_state := Committed\<rparr>)), b1)"
    "map_of (reservations (bk_state b1)) rid = Some (r\<lparr>rec_state := Committed\<rparr>)"
    using transition_reserved [OF ok assms(2-4), of Committed] unfolding book_commit_def by auto
  have inv1: "budget_inv b1"
    using transition_inv [of b Committed rid _ b1] b1(1) ok by (simp add: book_commit_def budget_inv_def)
  have "bk_poisoned b1 = bk_poisoned b"
    using b1(1) by (auto simp: book_commit_def transition_def with_book_def split: if_splits prod.splits)
  then have later: "map_of (reservations (bk_state b2)) rid = Some (r\<lparr>rec_state := Committed\<rparr>)"
    "\<not> bk_poisoned b2" if "run budget_step b1 calls b2" for calls b2
    using budget_run_retains [OF that inv1] retains_final [OF _ b1(2)] assms(2) by auto
  have settled: "book_commit rid b2 = (Inr (receipt (r\<lparr>rec_state := Committed\<rparr>)), b2)"
    "book_release rid b2 = (Inl (budget_error ReservationFinalized), b2)"
    if "map_of (reservations (bk_state b2)) rid = Some (r\<lparr>rec_state := Committed\<rparr>)" "\<not> bk_poisoned b2" for b2
    using that by (simp_all add: book_commit_def book_release_def transition_def with_book_def
        transition_record_def bind_update_lift)
  show ?thesis using b1(1) later settled by blast
qed

theorem commit_is_final_witness:
  "\<exists>b1. book_commit ''r1'' ex_reserved = (Inr (receipt (ex_record\<lparr>rec_state := Committed\<rparr>)), b1)
     \<and> book_release ''r1'' b1 = (Inl (budget_error ReservationFinalized), b1)"
proof -
  have "map_of (reservations (bk_state ex_reserved)) ''r1'' = Some ex_record" "rec_state ex_record = Reserved"
    "\<not> bk_poisoned ex_reserved"
    by (simp_all add: ex_budget_defs)
  from commit_is_final [OF ex_budget_reachable this(3,1,2)] show ?thesis using run_nil by metis
qed

text \<open>
  Settling moves money exactly. Committing a reserved reservation takes its amount from the
  reserved to the committed units of each policy it charges; releasing it takes the amount off the
  reserved units; no other policy changes.
\<close>

theorem settling_moves_exact_amounts:
  assumes "reachable budget_init budget_step b" and "\<not> bk_poisoned b"
    and "map_of (reservations (bk_state b)) rid = Some r" and "rec_state r = Reserved"
    and "t = Committed \<and> b' = snd (book_commit rid b) \<or> t = Released \<and> b' = snd (book_release rid b)"
    and "map_of (policies (bk_state b)) pid = Some p"
  shows "\<exists>q. map_of (policies (bk_state b')) pid = Some q \<and> ps_policy q = ps_policy p
    \<and> (if pid \<in> set (rec_applied_policies r)
       then unat (ps_reserved p) = unat (ps_reserved q) + unat (amount_of r)
         \<and> unat (ps_committed q) = unat (ps_committed p) + (if t = Committed then unat (amount_of r) else 0)
       else q = p)"
proof -
  have ok: "budget_ok (bk_state b)" by (rule reachable_budget_ok [OF assms(1)])
  have t: "t \<noteq> Reserved" "b' = snd (transition rid t b)"
    using assms(5) by (auto simp: book_commit_def book_release_def)
  obtain ps where ps: "settled (bk_state b) (\<lambda>x. rq_id (rec_request x) = rid) t ps"
    "policies (bk_state b') = ps"
    using transition_reserved [OF ok assms(2-4) t(1)] t(2) by (metis snd_conv)
  obtain q where q: "map_of ps pid = Some q" "ps_policy q = ps_policy p"
    "unat (ps_reserved q) + (if pid \<in> set (rec_applied_policies r) then unat (amount_of r) else 0) = unat (ps_reserved p)"
    "unat (ps_committed q) = unat (ps_committed p)
       + (if t = Committed then if pid \<in> set (rec_applied_policies r) then unat (amount_of r) else 0 else 0)"
    using settledD [OF ps(1) assms(6)] unfolding moved_claim_single [OF ok assms(3)] by blast
  then have "q = p" if "pid \<notin> set (rec_applied_policies r)"
    using that by (simp add: word_unat_eq_iff)
  with q ps(2) show ?thesis by auto
qed

theorem settling_moves_exact_amounts_witness:
  "\<exists>q. map_of (policies (bk_state (snd (book_commit ''r1'' ex_reserved)))) ''acc'' = Some q
     \<and> unat (ps_reserved q) = 0 \<and> unat (ps_committed q) = 8"
proof -
  have "map_of (reservations (bk_state ex_reserved)) ''r1'' = Some ex_record" "rec_state ex_record = Reserved"
    "\<not> bk_poisoned ex_reserved"
    by (simp_all add: ex_budget_defs)
  from settling_moves_exact_amounts [OF ex_budget_reachable this(3,1,2), of Committed "snd (book_commit ''r1'' ex_reserved)" "''acc''"]
  show ?thesis by (auto simp: ex_budget_defs)
qed

lemma capacity_breaches_err:
  "capacity_breaches st a pids acc = Inl e \<Longrightarrow> be_code e \<noteq> HardLimitExceeded"
proof (induction pids arbitrary: acc)
  case Nil
  then show ?case by simp
next
  case (Cons pid pids)
  from Cons.prems consider "policy_state st pid = Inl e"
    | p where "projected_usage p a = Inl e"
    | acc' where "capacity_breaches st a pids acc' = Inl e"
    by (simp add: bind_result_eq_Inl) blast
  then show ?case
    by cases (auto simp: policy_state_def projected_usage_def bind_result_eq_Inl ok_or_eq budget_error_def
        dest: Cons.IH)
qed

text \<open>
  A hard refusal names its scope truthfully. It is reported only when some hard policy would
  go over its limit, and it is attributed to the account alone exactly when every hard policy that
  would is scoped to an account.
\<close>

theorem hard_refusal_scope_is_truthful:
  assumes "validate_capacity st pids amount = Inl e" and "be_code e = HardLimitExceeded"
  shows "(\<exists>pid \<in> set pids. breaches st (minor_units amount) Hard pid)
    \<and> (be_refusal_scope e = Some AccountRefusal \<longleftrightarrow>
        (\<forall>pid \<in> set pids. breaches st (minor_units amount) Hard pid \<longrightarrow> account_scoped st pid))"
proof -
  from capacity_breaches_err
  obtain scope soft where c: "capacity_breaches st (minor_units amount) pids (None, []) = Inr (Some scope, soft)"
    and e: "e = BudgetError_with_refusal_scope HardLimitExceeded scope"
    using assms by (auto simp: validate_capacity_def bind_result_eq_Inl split: option.splits)
  from capacity_breaches_ok [OF c] e show ?thesis
    by (cases scope) (auto simp: BudgetError_with_refusal_scope_def)
qed

theorem hard_refusal_scope_is_truthful_witness:
  "\<exists>e. validate_capacity (bk_state ex_reserved) [''acc'', ''ten''] \<lparr>currency = ''EUR'', minor_units = 8\<rparr> = Inl e
     \<and> be_refusal_scope e = Some AccountRefusal"
proof -
  obtain e where e: "validate_capacity (bk_state ex_reserved) [''acc'', ''ten'']
      \<lparr>currency = ''EUR'', minor_units = 8\<rparr> = Inl e" "be_code e = HardLimitExceeded"
    by (simp add: budget_exec ex_budget_defs BudgetError_with_refusal_scope_def)
  have "\<forall>pid \<in> set [''acc'', ''ten'']. breaches (bk_state ex_reserved) 8 Hard pid \<longrightarrow>
      account_scoped (bk_state ex_reserved) pid"
    by (simp add: breaches_def account_scoped_def ex_budget_defs)
  with hard_refusal_scope_is_truthful [OF e] e(1) show ?thesis by auto
qed

section \<open>Publication of policies\<close>

definition budget_book_shows :: "BudgetPolicyBook \<Rightarrow> BudgetPolicy list \<Rightarrow> bool" where
  "budget_book_shows b ps \<longleftrightarrow>
     (\<exists>s. BudgetPolicyBook_snapshot b = Inr s \<and> BudgetBook_new ps = Inr (bps_book s))"

lemma BudgetPolicyBook_publish_ok:
  "BudgetPolicyBook_publish b v ps = (Inr r, b') \<longleftrightarrow>
     (\<exists>book. BudgetBook_new ps = Inr book \<and> \<not> pb_poisoned b \<and> pb_generation b = v
       \<and> unat v + 1 < 2 ^ 64 \<and> r = \<lparr>bps_generation = v + 1, bps_book = book\<rparr>
       \<and> b' = b\<lparr>pb_generation := v + 1, pb_book := book\<rparr>)"
  by (auto simp: BudgetPolicyBook_publish_def BudgetGeneration_next_def checked_add_def ok_or_def
      split: if_splits sum.splits)

interpretation budget_policies: publication pb_generation budget_book_shows BudgetPolicyBook_publish
proof
  fix b v c r b' e
  show "pb_generation b = v" if "BudgetPolicyBook_publish b v c = (Inr r, b')"
    using that by (auto simp: BudgetPolicyBook_publish_ok)
  show "unat (pb_generation b') = unat v + 1" if "BudgetPolicyBook_publish b v c = (Inr r, b')"
    using that by (auto simp: BudgetPolicyBook_publish_ok unat_plus_exact)
  show "budget_book_shows b' c" if "BudgetPolicyBook_publish b v c = (Inr r, b')"
    using that by (auto simp: BudgetPolicyBook_publish_ok budget_book_shows_def BudgetPolicyBook_snapshot_def)
  show "b' = b" if "BudgetPolicyBook_publish b v c = (Inl e, b')"
    using that by (auto simp: BudgetPolicyBook_publish_def split: if_splits sum.splits)
qed

text \<open>
  Budget policies are published by compare-and-swap: after a publication against a generation
  has succeeded, every other against that generation is refused without effect, however many
  publications lie in between.
\<close>

theorem stale_budget_publication_refused:
  assumes "BudgetPolicyBook_publish b v ps = (Inr r, b1)"
    and "publish_all BudgetPolicyBook_publish b1 offers = (n, b2)"
  shows "\<exists>e. BudgetPolicyBook_publish b2 v qs = (Inl e, b2)"
  using assms by (rule budget_policies.stale_offer_refused)

theorem stale_budget_publication_refused_witness:
  "\<exists>b b1 r. BudgetPolicyBook_new ex_budget_policies = Inr b
     \<and> BudgetPolicyBook_publish b 0 ex_budget_policies = (Inr r, b1)
     \<and> (\<exists>e. BudgetPolicyBook_publish b1 0 ex_budget_policies = (Inl e, b1))"
proof -
  obtain b where b: "BudgetPolicyBook_new ex_budget_policies = Inr b" "pb_generation b = 0" "\<not> pb_poisoned b"
    by (simp add: BudgetPolicyBook_new_def ex_budget_new)
  then obtain r b1 where p: "BudgetPolicyBook_publish b 0 ex_budget_policies = (Inr r, b1)"
    by (simp add: BudgetPolicyBook_publish_def ex_budget_new BudgetGeneration_next_def checked_add_def)
  have "publish_all BudgetPolicyBook_publish b1 [] = (0, b1)" by simp
  from stale_budget_publication_refused [OF p this] b(1) p show ?thesis by blast
qed

end
