(* ===== verification/Routing_Admission.thy ===== *)
theory Routing_Admission
  imports Admission_Properties Budget_Properties
begin

text \<open>
  The coupled admission of \<open>ariadnion-routing-admission\<close>: a request is admitted by the rate
  controller and by the budget ledger or by neither, and the lease it returns carries both
  capacities through commit, finalization, release and drop. The state is the pair of stores
  the coordinator shares with its leases; a lease operation passes the stores on and, where the
  source takes \<open>&mut self\<close>, the lease. An operation that consumes the lease ends with its \<open>Drop\<close>
  and then the drop of its fields.
\<close>

section \<open>Errors\<close>

datatype RoutingAdmissionErrorCode =
    RoutingInvalidArgument
  | RoutingRateLimited
  | RoutingConcurrencyLimited
  | BudgetRejected
  | TenantMismatch
  | RoutingStateUnavailable
  | RoutingClockRegressed
  | RoutingLeaseExpired
  | RoutingLeaseClosed
  | CommitIncomplete
  | RollbackFailed

fun RoutingAdmissionErrorCode_as_tail_str :: "RoutingAdmissionErrorCode \<Rightarrow> string" where
  "RoutingAdmissionErrorCode_as_tail_str RoutingClockRegressed = ''ROUTING_ADMISSION_CLOCK_REGRESSED''"
| "RoutingAdmissionErrorCode_as_tail_str RoutingLeaseExpired = ''ROUTING_ADMISSION_LEASE_EXPIRED''"
| "RoutingAdmissionErrorCode_as_tail_str RoutingLeaseClosed = ''ROUTING_ADMISSION_LEASE_CLOSED''"
| "RoutingAdmissionErrorCode_as_tail_str CommitIncomplete = ''ROUTING_ADMISSION_COMMIT_INCOMPLETE''"
| "RoutingAdmissionErrorCode_as_tail_str RollbackFailed = ''ROUTING_ADMISSION_ROLLBACK_FAILED''"
| "RoutingAdmissionErrorCode_as_tail_str _ = ''ROUTING_ADMISSION_INVALID_ARGUMENT''"

fun RoutingAdmissionErrorCode_as_str :: "RoutingAdmissionErrorCode \<Rightarrow> string" where
  "RoutingAdmissionErrorCode_as_str RoutingInvalidArgument = ''ROUTING_ADMISSION_INVALID_ARGUMENT''"
| "RoutingAdmissionErrorCode_as_str RoutingRateLimited = ''ROUTING_ADMISSION_RATE_LIMITED''"
| "RoutingAdmissionErrorCode_as_str RoutingConcurrencyLimited = ''ROUTING_ADMISSION_CONCURRENCY_LIMITED''"
| "RoutingAdmissionErrorCode_as_str BudgetRejected = ''ROUTING_ADMISSION_BUDGET_REJECTED''"
| "RoutingAdmissionErrorCode_as_str TenantMismatch = ''ROUTING_ADMISSION_TENANT_MISMATCH''"
| "RoutingAdmissionErrorCode_as_str RoutingStateUnavailable = ''ROUTING_ADMISSION_STATE_UNAVAILABLE''"
| "RoutingAdmissionErrorCode_as_str other = RoutingAdmissionErrorCode_as_tail_str other"

record RoutingAdmissionError =
  rae_code :: RoutingAdmissionErrorCode
  rae_retry_after :: "Duration option"
  rae_refusal_scope :: "AdmissionRefusalScope option"

definition RoutingAdmissionError_new ::
  "RoutingAdmissionErrorCode \<Rightarrow> Duration option \<Rightarrow> RoutingAdmissionError" where
  "RoutingAdmissionError_new c retry =
     \<lparr>rae_code = c, rae_retry_after = retry, rae_refusal_scope = None\<rparr>"

definition RoutingAdmissionError_with_scope ::
  "RoutingAdmissionErrorCode \<Rightarrow> Duration option \<Rightarrow> AdmissionRefusalScope \<Rightarrow> RoutingAdmissionError" where
  "RoutingAdmissionError_with_scope c retry scope =
     \<lparr>rae_code = c, rae_retry_after = retry, rae_refusal_scope = Some scope\<rparr>"

definition routing_error :: "RoutingAdmissionErrorCode \<Rightarrow> RoutingAdmissionError" where
  "routing_error c = RoutingAdmissionError_new c None"

fun rate_error_code :: "AdmissionErrorCode \<Rightarrow> RoutingAdmissionErrorCode" where
  "rate_error_code RateLimited = RoutingRateLimited"
| "rate_error_code ConcurrencyLimited = RoutingConcurrencyLimited"
| "rate_error_code ClockRegressed = RoutingClockRegressed"
| "rate_error_code LeaseExpired = RoutingLeaseExpired"
| "rate_error_code LeaseClosed = RoutingLeaseClosed"
| "rate_error_code StateUnavailable = RoutingStateUnavailable"
| "rate_error_code _ = RoutingInvalidArgument"

definition map_rate_error :: "AdmissionError \<Rightarrow> RoutingAdmissionError" where
  "map_rate_error e =
     \<lparr>rae_code = rate_error_code (ae_code e), rae_retry_after = ae_retry_after e,
      rae_refusal_scope =
        Some (case ae_scope e of Some s \<Rightarrow> s | None \<Rightarrow> AdmissionRefusalScope.RequestScope)\<rparr>"

definition map_budget_scope :: "BudgetRefusalScope option \<Rightarrow> AdmissionRefusalScope" where
  "map_budget_scope scope =
     (case scope of
        Some AccountRefusal \<Rightarrow> AdmissionRefusalScope.AccountScope
      | _ \<Rightarrow> AdmissionRefusalScope.RequestScope)"

definition map_budget_error :: "BudgetError \<Rightarrow> RoutingAdmissionError" where
  "map_budget_error e =
     (if be_code e = BudgetStateUnavailable
      then RoutingAdmissionError_with_scope RoutingStateUnavailable None AdmissionRefusalScope.RequestScope
      else RoutingAdmissionError_with_scope BudgetRejected None (map_budget_scope (be_refusal_scope e)))"

definition map_budget_lifecycle_error :: "BudgetError \<Rightarrow> RoutingAdmissionError" where
  "map_budget_lifecycle_error e =
     (case be_code e of
        BudgetStateUnavailable \<Rightarrow> routing_error RoutingStateUnavailable
      | ReservationFinalized \<Rightarrow> routing_error RoutingLeaseClosed
      | ReservationNotFound \<Rightarrow> routing_error RoutingLeaseClosed
      | _ \<Rightarrow> routing_error CommitIncomplete)"

section \<open>Requests and leases\<close>

record RoutingAdmissionRequest =
  rar_rate :: AdmissionRequest
  rar_budget :: ReservationRequest
  rar_monotonic_now :: MonotonicTime
  rar_budget_now :: UnixTimeSeconds

record RoutingAdmissionCoordinator =
  rac_rate :: ControllerInner
  rac_budget :: BudgetBook

datatype RoutingAdmissionLeaseState = LeasePending | LeaseCommitted | LeaseReconciliationRequired

record RoutingAdmissionLease =
  ral_rate :: "AdmissionLease option"
  ral_reservation_id :: ReservationId
  ral_budget_receipt :: ReservationReceipt
  ral_budget_finalized :: bool
  ral_budget_retained :: bool
  ral_closed :: bool
  ral_state :: RoutingAdmissionLeaseState

type_synonym 'a routing_update =
  "(RoutingAdmissionCoordinator, RoutingAdmissionError, 'a) update"

type_synonym 'a lease_update =
  "(RoutingAdmissionLease \<times> RoutingAdmissionCoordinator, RoutingAdmissionError, 'a) update"

text \<open>A call on one of the two stores, its error translated.\<close>

definition on_rate :: "'a inner_update \<Rightarrow> 'a routing_update" where
  "on_rate f s = (case f (rac_rate s) of (r, c) \<Rightarrow> (map_sum map_rate_error id r, s\<lparr>rac_rate := c\<rparr>))"

definition on_budget ::
  "(BudgetError \<Rightarrow> RoutingAdmissionError) \<Rightarrow> (BudgetBook, BudgetError, 'a) update \<Rightarrow> 'a routing_update" where
  "on_budget h f s = (case f (rac_budget s) of (r, b) \<Rightarrow> (map_sum h id r, s\<lparr>rac_budget := b\<rparr>))"

section \<open>Admission\<close>

fun key_tenant :: "LimitKey \<Rightarrow> string option" where
  "key_tenant (Tenant t) = Some t"
| "key_tenant (Account a) = Some (alk_tenant a)"
| "key_tenant _ = None"

definition validate_account_binding ::
  "LimitKey \<Rightarrow> RoutingAdmissionRequest \<Rightarrow> (RoutingAdmissionError, unit) result" where
  "validate_account_binding key request =
     (case key of
        Account a \<Rightarrow>
          if alk_account a \<noteq> bc_account_id (rq_context (rar_budget request))
          then Inl (routing_error RoutingInvalidArgument) else Inr ()
      | _ \<Rightarrow> Inr ())"

definition validate_tenant_binding ::
  "RoutingAdmissionRequest \<Rightarrow> (RoutingAdmissionError, unit) result" where
  "validate_tenant_binding request =
     (let budget_tenant = bc_tenant_id (rq_context (rar_budget request)) in
      check_each
        (\<lambda>key.
           if (case key_tenant key of Some tenant \<Rightarrow> tenant \<noteq> budget_tenant | None \<Rightarrow> False)
           then Inl (routing_error TenantMismatch)
           else validate_account_binding key request)
        (rq_keys (rar_rate request)))"

definition admit :: "RoutingAdmissionRequest \<Rightarrow> RoutingAdmissionLease routing_update" where
  "admit request =
     bind_update (lift_result (\<lambda>_. validate_tenant_binding request)) (\<lambda>_.
     bind_update (on_rate (try_admit (rar_rate request) (rar_monotonic_now request))) (\<lambda>rate_lease s.
       case reserve_fresh (rar_budget request) (rar_budget_now request) (rac_budget s) of
         (Inr rc, b) \<Rightarrow>
           (Inr \<lparr>ral_rate = Some rate_lease, ral_reservation_id = rc_id rc, ral_budget_receipt = rc,
                 ral_budget_finalized = False, ral_budget_retained = False, ral_closed = False,
                 ral_state = LeasePending\<rparr>,
            s\<lparr>rac_budget := b\<rparr>)
       | (Inl e, b) \<Rightarrow>
           (case lease_cancel rate_lease (rar_monotonic_now request) (rac_rate s) of
              (Inl _, c) \<Rightarrow> (Inl (routing_error RollbackFailed), s\<lparr>rac_budget := b, rac_rate := c\<rparr>)
            | (Inr _, c) \<Rightarrow> (Inl (map_budget_error e), s\<lparr>rac_budget := b, rac_rate := c\<rparr>))))"

section \<open>Settling a lease\<close>

definition lease_ensure_open :: "RoutingAdmissionLease \<Rightarrow> (RoutingAdmissionError, unit) result" where
  "lease_ensure_open l = (if ral_closed l then Inl (routing_error RoutingLeaseClosed) else Inr ())"

definition commit_budget :: "unit lease_update" where
  "commit_budget = (\<lambda>(l, s).
     case on_budget map_budget_lifecycle_error (book_commit (ral_reservation_id l)) s of
       (Inl e, s') \<Rightarrow> (Inl e, (l, s'))
     | (Inr rc, s') \<Rightarrow>
         (Inr (), (l\<lparr>ral_budget_receipt := rc, ral_budget_finalized := True\<rparr>, s')))"

definition mark_reconciliation_required :: "RoutingAdmissionLease \<Rightarrow> RoutingAdmissionLease" where
  "mark_reconciliation_required l = l\<lparr>ral_state := LeaseReconciliationRequired, ral_closed := True\<rparr>"

definition commit_incomplete :: "unit lease_update" where
  "commit_incomplete = (\<lambda>(l, s).
     (Inl (routing_error CommitIncomplete), (mark_reconciliation_required l, s)))"

definition commit_rate_and_release :: "MonotonicTime \<Rightarrow> unit lease_update" where
  "commit_rate_and_release now = (\<lambda>(l, s).
     case ral_rate l of
       None \<Rightarrow> commit_incomplete (l, s)
     | Some rate \<Rightarrow>
         (case finalize_accepted rate (Some now) (rac_rate s) of
            (r, c) \<Rightarrow>
              if r \<noteq> Inr Completed
              then commit_incomplete (l\<lparr>ral_rate := None\<rparr>, s\<lparr>rac_rate := c\<rparr>)
              else (Inr (), (l\<lparr>ral_rate := None\<rparr>, s\<lparr>rac_rate := c\<rparr>))))"

definition commit :: "MonotonicTime \<Rightarrow> unit lease_update" where
  "commit now =
     bind_update (lift_result (\<lambda>(l, s). lease_ensure_open l)) (\<lambda>_.
     bind_update commit_budget (\<lambda>_.
     bind_update (commit_rate_and_release now) (\<lambda>_ (l, s).
       (Inr (), (l\<lparr>ral_state := LeaseCommitted, ral_closed := True\<rparr>, s)))))"

definition finalize_accepted_rate :: "MonotonicTime option \<Rightarrow> AcceptedFinalization lease_update" where
  "finalize_accepted_rate now = (\<lambda>(l, s).
     case ral_rate l of
       None \<Rightarrow> (Inl (routing_error RoutingLeaseClosed), (l, s))
     | Some rate \<Rightarrow>
         (case on_rate (finalize_accepted rate now) s of
            (r, s') \<Rightarrow> (r, (l\<lparr>ral_rate := None\<rparr>, s'))))"

definition finish_accepted ::
  "(RoutingAdmissionError, unit) result \<Rightarrow> (RoutingAdmissionError, AcceptedFinalization) result \<Rightarrow>
     unit lease_update" where
  "finish_accepted budget rate = (\<lambda>(l, s).
     let l1 = l\<lparr>ral_budget_retained := (budget \<noteq> Inr ()), ral_closed := True\<rparr> in
     if budget = Inr () \<and> rate = Inr Completed
     then (Inr (), (l1\<lparr>ral_state := LeaseCommitted\<rparr>, s))
     else (Inl (routing_error CommitIncomplete),
           (l1\<lparr>ral_state := LeaseReconciliationRequired\<rparr>, s)))"

definition commit_rate_and_retain :: "MonotonicTime \<Rightarrow> unit lease_update" where
  "commit_rate_and_retain now = (\<lambda>(l, s).
     case ral_rate l of
       None \<Rightarrow> (Inl (routing_error RoutingLeaseClosed), (l, s))
     | Some rate \<Rightarrow>
         (case on_rate (commit_rate_and_retain_concurrency rate now) s of
            (r, s') \<Rightarrow> (r, (l\<lparr>ral_rate := None\<rparr>, s'))))"

text \<open>
  \<open>Drop\<close> gives an unsettled reservation back and ignores the result; dropping the fields then
  closes a rate lease that is still held.
\<close>

definition drop_routing_lease ::
  "RoutingAdmissionLease \<Rightarrow> RoutingAdmissionCoordinator \<Rightarrow> RoutingAdmissionCoordinator" where
  "drop_routing_lease l s =
     (let s1 = (if \<not> ral_budget_finalized l \<and> \<not> ral_budget_retained l
                then s\<lparr>rac_budget := snd (book_release (ral_reservation_id l) (rac_budget s))\<rparr> else s)
      in case ral_rate l of
           None \<Rightarrow> s1
         | Some rate \<Rightarrow> s1\<lparr>rac_rate := drop_lease rate (rac_rate s1)\<rparr>)"

text \<open>An operation that takes \<open>self\<close>: its body on the owned lease, and the drop of what is left.\<close>

definition consuming :: "'a lease_update \<Rightarrow> RoutingAdmissionLease \<Rightarrow> 'a routing_update" where
  "consuming f l s = (case f (l, s) of (r, (l', s')) \<Rightarrow> (r, drop_routing_lease l' s'))"

definition routing_finalize_accepted ::
  "RoutingAdmissionLease \<Rightarrow> MonotonicTime option \<Rightarrow> unit routing_update" where
  "routing_finalize_accepted lease now =
     consuming
       (bind_update (lift_result (\<lambda>(l, s). lease_ensure_open l)) (\<lambda>_ ls.
          case commit_budget ls of
            (budget, ls1) \<Rightarrow>
              (case finalize_accepted_rate (if isl budget then None else now) ls1 of
                 (rate, ls2) \<Rightarrow> finish_accepted budget rate ls2)))
       lease"

definition commit_dispatch_unknown ::
  "RoutingAdmissionLease \<Rightarrow> MonotonicTime \<Rightarrow> unit routing_update" where
  "commit_dispatch_unknown lease now =
     consuming
       (bind_update (lift_result (\<lambda>(l, s). lease_ensure_open l)) (\<lambda>_ ls.
          case commit_budget ls of
            (budget, ls1) \<Rightarrow>
              (case commit_rate_and_retain now ls1 of
                 (rate, (l, s)) \<Rightarrow>
                   let l1 = (if isl budget then l\<lparr>ral_budget_retained := True\<rparr> else l);
                       l2 = l1\<lparr>ral_closed := True\<rparr>
                   in if \<not> isl budget \<and> \<not> isl rate then (Inr (), (l2, s))
                      else (Inl (routing_error CommitIncomplete),
                            (l2\<lparr>ral_state := LeaseReconciliationRequired\<rparr>, s)))))
       lease"

definition release_both :: "MonotonicTime \<Rightarrow> unit lease_update" where
  "release_both now =
     bind_update (lift_result (\<lambda>(l, s). lease_ensure_open l)) (\<lambda>_ (l, s).
       case on_budget map_budget_lifecycle_error (book_release (ral_reservation_id l)) s of
         (Inl e, s1) \<Rightarrow> (Inl e, (l, s1))
       | (Inr rc, s1) \<Rightarrow>
           let l1 = l\<lparr>ral_budget_receipt := rc, ral_budget_finalized := True\<rparr> in
           (case ral_rate l1 of
              None \<Rightarrow> (Inl (routing_error RoutingLeaseClosed), (l1, s1))
            | Some rate \<Rightarrow>
                (case on_rate (lease_release rate now) s1 of
                   (Inl e, s2) \<Rightarrow> (Inl e, (l1\<lparr>ral_rate := None\<rparr>, s2))
                 | (Inr _, s2) \<Rightarrow> (Inr (), (l1\<lparr>ral_rate := None, ral_closed := True\<rparr>, s2)))))"

definition routing_release :: "RoutingAdmissionLease \<Rightarrow> MonotonicTime \<Rightarrow> unit routing_update" where
  "routing_release lease now = consuming (release_both now) lease"

definition routing_cancel :: "RoutingAdmissionLease \<Rightarrow> MonotonicTime \<Rightarrow> unit routing_update" where
  "routing_cancel lease now = routing_release lease now"

section \<open>The coupled stores as a transition system\<close>

text \<open>
  An execution interleaves whole calls on the stores and on the leases handed out so far.
  \<open>rw_leases\<close> holds the leases their owners have not consumed or dropped yet; a lease call names
  one by its position. Others may use the same stores: they may admit, take snapshots, reserve and
  run the expiry pass, but they hold none of these leases and settle none of their reservations.
\<close>

record routing_world =
  rw_stores :: RoutingAdmissionCoordinator
  rw_leases :: "RoutingAdmissionLease list"

datatype routing_call =
    RoutingAdmit RoutingAdmissionRequest
  | RoutingCommit nat MonotonicTime
  | RoutingFinalize nat "MonotonicTime option"
  | RoutingDispatchUnknown nat MonotonicTime
  | RoutingRelease nat MonotonicTime
  | RoutingCancel nat MonotonicTime
  | RoutingDrop nat
  | OtherRate controller_call
  | OtherBudget budget_call

text \<open>The lease at a position leaves the list; the stores change as the call says.\<close>

definition consume ::
  "nat \<Rightarrow> (RoutingAdmissionLease \<Rightarrow> RoutingAdmissionCoordinator \<Rightarrow> RoutingAdmissionCoordinator) \<Rightarrow>
     routing_world \<Rightarrow> routing_world" where
  "consume i f w =
     \<lparr>rw_stores = f (rw_leases w ! i) (rw_stores w), rw_leases = take i (rw_leases w) @ drop (Suc i) (rw_leases w)\<rparr>"

fun routing_call_effect :: "routing_call \<Rightarrow> routing_world \<Rightarrow> routing_world" where
  "routing_call_effect (RoutingAdmit request) w =
     (case admit request (rw_stores w) of
        (Inr lease, s) \<Rightarrow> \<lparr>rw_stores = s, rw_leases = lease # rw_leases w\<rparr>
      | (Inl _, s) \<Rightarrow> w\<lparr>rw_stores := s\<rparr>)"
| "routing_call_effect (RoutingCommit i now) w =
     (case commit now (rw_leases w ! i, rw_stores w) of
        (_, (lease, s)) \<Rightarrow> \<lparr>rw_stores = s, rw_leases = (rw_leases w)[i := lease]\<rparr>)"
| "routing_call_effect (RoutingFinalize i now) w =
     consume i (\<lambda>lease s. snd (routing_finalize_accepted lease now s)) w"
| "routing_call_effect (RoutingDispatchUnknown i now) w =
     consume i (\<lambda>lease s. snd (commit_dispatch_unknown lease now s)) w"
| "routing_call_effect (RoutingRelease i now) w =
     consume i (\<lambda>lease s. snd (routing_release lease now s)) w"
| "routing_call_effect (RoutingCancel i now) w =
     consume i (\<lambda>lease s. snd (routing_cancel lease now s)) w"
| "routing_call_effect (RoutingDrop i) w = consume i drop_routing_lease w"
| "routing_call_effect (OtherRate l) w =
     w\<lparr>rw_stores := (rw_stores w)\<lparr>rac_rate := controller_call_effect l (rac_rate (rw_stores w))\<rparr>\<rparr>"
| "routing_call_effect (OtherBudget l) w =
     w\<lparr>rw_stores := (rw_stores w)\<lparr>rac_budget := budget_call_effect l (rac_budget (rw_stores w))\<rparr>\<rparr>"

fun lease_position_of :: "routing_call \<Rightarrow> nat option" where
  "lease_position_of (RoutingCommit i _) = Some i"
| "lease_position_of (RoutingFinalize i _) = Some i"
| "lease_position_of (RoutingDispatchUnknown i _) = Some i"
| "lease_position_of (RoutingRelease i _) = Some i"
| "lease_position_of (RoutingCancel i _) = Some i"
| "lease_position_of (RoutingDrop i) = Some i"
| "lease_position_of _ = None"

fun routing_call_ok :: "routing_call \<Rightarrow> routing_world \<Rightarrow> bool" where
  "routing_call_ok (RoutingAdmit request) w = request_ok (rar_rate request)"
| "routing_call_ok (OtherRate (Admit request now)) w = request_ok request"
| "routing_call_ok (OtherRate (Snapshot key now)) w = True"
| "routing_call_ok (OtherRate _) w = False"
| "routing_call_ok (OtherBudget (Commit _)) w = False"
| "routing_call_ok (OtherBudget (ReleaseReservation _)) w = False"
| "routing_call_ok (OtherBudget _) w = True"
| "routing_call_ok l w = (case lease_position_of l of Some i \<Rightarrow> i < length (rw_leases w) | None \<Rightarrow> True)"

inductive routing_step :: "routing_world \<Rightarrow> routing_call \<Rightarrow> routing_world \<Rightarrow> bool" where
  routing_call: "routing_call_ok l w \<Longrightarrow> routing_step w l (routing_call_effect l w)"

inductive_simps routing_step_iff: "routing_step w l w'"

definition routing_init :: "routing_world \<Rightarrow> bool" where
  "routing_init w \<longleftrightarrow> controller_init (rac_rate (rw_stores w)) \<and> budget_init (rac_budget (rw_stores w))
     \<and> rw_leases w = []"

end
