(* ===== verification/Routing_Invariant.thy ===== *)
theory Routing_Invariant
  imports Routing_Admission
begin

text \<open>
  The composed system uses its two stores through their own operations only. \<open>serves I R s s'\<close>
  says more: the operations are on rate leases in \<open>I\<close> and reservations in \<open>R\<close>. Every call on a lease
  serves only that lease's own two identities, so each store stays in a state reachable by itself
  and no call reaches the capacity another lease holds.
\<close>

section \<open>The stores inside the composed system\<close>

text \<open>The rate leases and the reservations a call on a store names.\<close>

fun call_leases :: "controller_call \<Rightarrow> AdmissionLeaseId set" where
  "call_leases (Admit request now) = {}"
| "call_leases (Snapshot key now) = {}"
| "call_leases (CommitRate lease now) = {al_id lease}"
| "call_leases (Release lease now) = {al_id lease}"
| "call_leases (Cancel lease now) = {al_id lease}"
| "call_leases (FinalizeAccepted lease now') = {al_id lease}"
| "call_leases (RetainConcurrency lease now) = {al_id lease}"
| "call_leases (DropLease lease) = {al_id lease}"

fun call_reservations :: "budget_call \<Rightarrow> ReservationId set" where
  "call_reservations (Reserve request now) = {}"
| "call_reservations (ReserveFresh request now) = {}"
| "call_reservations (Commit rid) = {rid}"
| "call_reservations (ReleaseReservation rid) = {rid}"
| "call_reservations (Expire now) = {}"

definition serves ::
  "AdmissionLeaseId set \<Rightarrow> ReservationId set \<Rightarrow>
     RoutingAdmissionCoordinator \<Rightarrow> RoutingAdmissionCoordinator \<Rightarrow> bool" where
  "serves I R s s' \<longleftrightarrow>
     (\<exists>ls. run controller_step (rac_rate s) ls (rac_rate s') \<and> (\<forall>l \<in> set ls. call_leases l \<subseteq> I))
     \<and> (\<exists>ms. run budget_step (rac_budget s) ms (rac_budget s') \<and> (\<forall>m \<in> set ms. call_reservations m \<subseteq> R))"

lemma serves_refl [simp]: "serves I R s s"
  unfolding serves_def by (auto intro!: exI [of _ "[]"])

lemma serves_trans:
  assumes "serves I R s t" and "serves I R t u"
  shows "serves I R s u"
proof -
  obtain ls ms where 1: "run controller_step (rac_rate s) ls (rac_rate t)" "\<forall>l \<in> set ls. call_leases l \<subseteq> I"
    "run budget_step (rac_budget s) ms (rac_budget t)" "\<forall>m \<in> set ms. call_reservations m \<subseteq> R"
    using assms(1) by (auto simp: serves_def)
  obtain ls' ms' where 2: "run controller_step (rac_rate t) ls' (rac_rate u)" "\<forall>l \<in> set ls'. call_leases l \<subseteq> I"
    "run budget_step (rac_budget t) ms' (rac_budget u)" "\<forall>m \<in> set ms'. call_reservations m \<subseteq> R"
    using assms(2) by (auto simp: serves_def)
  have "run controller_step (rac_rate s) (ls @ ls') (rac_rate u)" by (rule run_append [OF 1(1) 2(1)])
  moreover have "run budget_step (rac_budget s) (ms @ ms') (rac_budget u)" by (rule run_append [OF 1(3) 2(3)])
  ultimately show ?thesis
    unfolding serves_def using 1(2,4) 2(2,4) by (metis Un_iff set_append)
qed

lemma serves_mono: "serves I R s s' \<Longrightarrow> I \<subseteq> J \<Longrightarrow> R \<subseteq> Q \<Longrightarrow> serves J Q s s'"
  unfolding serves_def by (meson order_trans)

lemma serves_rate:
  assumes "controller_call_ok l" and "c = controller_call_effect l (rac_rate s)"
  shows "serves (call_leases l) R s (s\<lparr>rac_rate := c\<rparr>)"
proof -
  have "run controller_step (rac_rate s) [l] c"
    using assms by (auto simp: run_Cons_iff controller_step_iff)
  then show ?thesis unfolding serves_def by (auto intro: exI [of _ "[l]"] exI [of _ "[]"])
qed

lemma serves_budget:
  assumes "b = budget_call_effect l (rac_budget s)"
  shows "serves I (call_reservations l) s (s\<lparr>rac_budget := b\<rparr>)"
proof -
  have "run budget_step (rac_budget s) [l] b"
    using assms by (auto simp: run_Cons_iff budget_step_iff)
  then show ?thesis unfolding serves_def by (auto intro: exI [of _ "[l]"] exI [of _ "[]"])
qed

lemma serves_both:
  "serves I R s (s\<lparr>rac_budget := b\<rparr>) \<Longrightarrow> serves I R s (s\<lparr>rac_rate := c\<rparr>) \<Longrightarrow>
     serves I R s (s\<lparr>rac_budget := b, rac_rate := c\<rparr>)"
  by (simp add: serves_def)

text \<open>One lemma per call the composed operations make.\<close>

lemma serves_try_admit:
  "try_admit request now (rac_rate s) = (r, c) \<Longrightarrow> request_ok request \<Longrightarrow> serves I R s (s\<lparr>rac_rate := c\<rparr>)"
  using serves_rate [of "Admit request now" c s R] by (auto intro: serves_mono)

lemma serves_lease_calls:
  "lease_cancel l now (rac_rate s) = (r, c) \<Longrightarrow> al_id l \<in> I \<Longrightarrow> serves I R s (s\<lparr>rac_rate := c\<rparr>)"
  "lease_release l now (rac_rate s) = (r, c) \<Longrightarrow> al_id l \<in> I \<Longrightarrow> serves I R s (s\<lparr>rac_rate := c\<rparr>)"
  "finalize_accepted l t (rac_rate s) = (r', c) \<Longrightarrow> al_id l \<in> I \<Longrightarrow> serves I R s (s\<lparr>rac_rate := c\<rparr>)"
  "commit_rate_and_retain_concurrency l now (rac_rate s) = (r, c) \<Longrightarrow> al_id l \<in> I \<Longrightarrow>
     serves I R s (s\<lparr>rac_rate := c\<rparr>)"
  "al_id l \<in> I \<Longrightarrow> serves I R s (s\<lparr>rac_rate := drop_lease l (rac_rate s)\<rparr>)"
  using serves_rate [of "Cancel l now" c s R] serves_rate [of "Release l now" c s R]
    serves_rate [of "FinalizeAccepted l t" c s R] serves_rate [of "RetainConcurrency l now" c s R]
    serves_rate [of "DropLease l" "drop_lease l (rac_rate s)" s R]
  by (auto intro: serves_mono)

lemma serves_book_calls:
  "reserve_fresh request now (rac_budget s) = (r, b) \<Longrightarrow> serves I R s (s\<lparr>rac_budget := b\<rparr>)"
  "book_commit rid (rac_budget s) = (r, b) \<Longrightarrow> rid \<in> R \<Longrightarrow> serves I R s (s\<lparr>rac_budget := b\<rparr>)"
  "book_release rid (rac_budget s) = (r, b) \<Longrightarrow> rid \<in> R \<Longrightarrow> serves I R s (s\<lparr>rac_budget := b\<rparr>)"
  using serves_budget [of b "ReserveFresh request now" s I] serves_budget [of b "Commit rid" s I]
    serves_budget [of b "ReleaseReservation rid" s I]
  by (auto intro: serves_mono)

lemma serves_admit:
  assumes ok: "request_ok (rar_rate request)" and run: "admit request s = (r, s')"
    and I: "\<And>lease c. try_admit (rar_rate request) (rar_monotonic_now request) (rac_rate s) = (Inr lease, c) \<Longrightarrow>
      al_id lease \<in> I"
  shows "serves I {} s s'"
proof (cases "validate_tenant_binding request")
  case (Inl e)
  then show ?thesis using run by (simp add: admit_def bind_update_def lift_result_def)
next
  case (Inr u)
  obtain res c where adm: "try_admit (rar_rate request) (rar_monotonic_now request) (rac_rate s) = (res, c)"
    by fastforce
  let ?s1 = "s\<lparr>rac_rate := c\<rparr>"
  have s1: "serves I {} s ?s1" using adm ok by (rule serves_try_admit)
  show ?thesis
  proof (cases res)
    case (Inl e)
    with Inr adm run s1 show ?thesis
      by (simp add: admit_def bind_update_def lift_result_def on_rate_def)
  next
    case (Inr lease)
    obtain res2 b where rf: "reserve_fresh (rar_budget request) (rar_budget_now request) (rac_budget s) = (res2, b)"
      by fastforce
    let ?s2 = "?s1\<lparr>rac_budget := b\<rparr>"
    have s2: "serves I {} s ?s2"
      using serves_trans [OF s1] serves_book_calls(1) [of _ _ ?s1] rf by simp
    obtain res3 c3 where ca: "lease_cancel lease (rar_monotonic_now request) c = (res3, c3)" by fastforce
    have "serves I {} s (?s2\<lparr>rac_rate := c3\<rparr>)"
      using serves_trans [OF s2] serves_lease_calls(1) [of _ _ ?s2 _ _ I] ca I adm Inr by simp
    with s2 \<open>validate_tenant_binding request = Inr u\<close> Inr adm rf ca run show ?thesis
      by (auto simp: admit_def bind_update_def lift_result_def on_rate_def split: sum.splits)
  qed
qed

section \<open>Calls on a lease\<close>

text \<open>
  \<open>settles\<close>: a lease and the stores move on together; only the lease's own identities are served,
  it keeps its reservation and does not gain a rate lease.
\<close>

definition own_leases :: "RoutingAdmissionLease \<Rightarrow> AdmissionLeaseId set" where
  "own_leases l = al_id ` set_option (ral_rate l)"

fun settles ::
  "RoutingAdmissionLease \<times> RoutingAdmissionCoordinator \<Rightarrow>
     RoutingAdmissionLease \<times> RoutingAdmissionCoordinator \<Rightarrow> bool" where
  "settles (l, s) (l', s') \<longleftrightarrow>
     serves (own_leases l) {ral_reservation_id l} s s'
     \<and> ral_reservation_id l' = ral_reservation_id l \<and> own_leases l' \<subseteq> own_leases l"

lemma settles_refl [simp]: "settles x x"
  by (cases x) simp

lemma settles_trans: "settles x y \<Longrightarrow> settles y z \<Longrightarrow> settles x z"
  by (cases x; cases y; cases z) (auto intro: serves_trans serves_mono)

lemma settles_commit_budget: "commit_budget x = (r, y) \<Longrightarrow> settles x y"
  by (cases x; cases y)
    (auto simp: commit_budget_def on_budget_def own_leases_def split: prod.splits sum.splits
      intro: serves_book_calls)

lemma settles_commit_rate_and_release: "commit_rate_and_release now x = (r, y) \<Longrightarrow> settles x y"
  by (cases x; cases y)
    (auto simp: commit_rate_and_release_def commit_incomplete_def mark_reconciliation_required_def own_leases_def
      split: prod.splits option.splits if_splits intro: serves_lease_calls)

lemma settles_finalize_accepted_rate: "finalize_accepted_rate t x = (r, y) \<Longrightarrow> settles x y"
  by (cases x; cases y)
    (auto simp: finalize_accepted_rate_def on_rate_def own_leases_def split: prod.splits option.splits
      intro: serves_lease_calls)

lemma settles_commit_rate_and_retain: "commit_rate_and_retain now x = (r, y) \<Longrightarrow> settles x y"
  by (cases x; cases y)
    (auto simp: commit_rate_and_retain_def on_rate_def own_leases_def split: prod.splits option.splits
      intro: serves_lease_calls)

lemma settles_flags:
  "settles (l, s) (l\<lparr>ral_state := t, ral_closed := b\<rparr>, s)"
  "settles (l, s) (l\<lparr>ral_budget_retained := b, ral_closed := c, ral_state := t\<rparr>, s)"
  "settles (l, s) (l\<lparr>ral_budget_retained := b, ral_closed := c\<rparr>, s)"
  "settles (l, s) (l\<lparr>ral_closed := c, ral_state := t\<rparr>, s)"
  "settles (l, s) (l\<lparr>ral_closed := c\<rparr>, s)"
  by (simp_all add: own_leases_def)

lemma settles_release_both: "release_both now x = (r, y) \<Longrightarrow> settles x y"
  by (cases x; cases y)
    (auto simp: release_both_def bind_update_def lift_result_def on_rate_def on_budget_def Let_def own_leases_def
      split: prod.splits sum.splits option.splits
      intro!: serves_both intro: serves_book_calls(3) serves_lease_calls(2))

lemma settles_commit: "commit now x = (r, y) \<Longrightarrow> settles x y"
  by (auto simp: commit_def bind_update_def lift_result_def split: prod.splits sum.splits
      dest!: settles_commit_budget settles_commit_rate_and_release
      intro: settles_trans settles_flags)

lemma serves_drop: "serves (own_leases l) {ral_reservation_id l} s (drop_routing_lease l s)"
proof -
  let ?I = "own_leases l" and ?R = "{ral_reservation_id l}"
  let ?s1 = "if \<not> ral_budget_finalized l \<and> \<not> ral_budget_retained l
      then s\<lparr>rac_budget := snd (book_release (ral_reservation_id l) (rac_budget s))\<rparr> else s"
  have "serves ?I ?R s ?s1" by (auto intro: serves_book_calls(3) [OF prod.collapse [symmetric]])
  moreover have "serves ?I ?R ?s1 (?s1\<lparr>rac_rate := drop_lease rate (rac_rate ?s1)\<rparr>)" if "ral_rate l = Some rate" for rate
    by (rule serves_lease_calls(5)) (simp add: own_leases_def that)
  ultimately show ?thesis
    unfolding drop_routing_lease_def Let_def by (auto split: option.splits intro: serves_trans)
qed

lemma serves_consuming:
  assumes "\<And>r y. f (l, s) = (r, y) \<Longrightarrow> settles (l, s) y"
  shows "serves (own_leases l) {ral_reservation_id l} s (snd (consuming f l s))"
proof -
  obtain r l' s' where f: "f (l, s) = (r, (l', s'))" by (metis prod.collapse)
  from assms [OF f] have "serves (own_leases l) {ral_reservation_id l} s s'"
    "serves (own_leases l) {ral_reservation_id l} s' (drop_routing_lease l' s')"
    using serves_drop [of l' s'] by (auto intro: serves_mono)
  then show ?thesis using f by (auto simp: consuming_def intro: serves_trans)
qed

lemma serves_finalize:
  "serves (own_leases l) {ral_reservation_id l} s (snd (routing_finalize_accepted l now s))"
  unfolding routing_finalize_accepted_def
  by (rule serves_consuming)
    (auto simp: bind_update_def lift_result_def finish_accepted_def Let_def simp del: settles.simps
      split: prod.splits sum.splits if_splits
      dest!: settles_commit_budget settles_finalize_accepted_rate intro: settles_trans settles_flags)

lemma serves_unknown:
  "serves (own_leases l) {ral_reservation_id l} s (snd (commit_dispatch_unknown l now s))"
  unfolding commit_dispatch_unknown_def
  by (rule serves_consuming)
    (auto simp: bind_update_def lift_result_def Let_def simp del: settles.simps
      split: prod.splits sum.splits if_splits
      dest!: settles_commit_budget settles_commit_rate_and_retain intro: settles_trans settles_flags)

lemma serves_release:
  "serves (own_leases l) {ral_reservation_id l} s (snd (routing_release l now s))"
  unfolding routing_release_def by (rule serves_consuming) (rule settles_release_both)

lemma routing_step_serves:
  assumes "routing_step w l w'"
  shows "serves UNIV UNIV (rw_stores w) (rw_stores w')"
proof -
  have ok: "routing_call_ok l w" and w': "w' = routing_call_effect l w"
    using assms by (auto simp: routing_step_iff)
  show ?thesis
  proof (cases l)
    case (RoutingAdmit request)
    obtain r s where r: "admit request (rw_stores w) = (r, s)" by fastforce
    have "serves UNIV {} (rw_stores w) s" using serves_admit [OF _ r] ok RoutingAdmit by auto
    then show ?thesis
      using r w' RoutingAdmit by (auto split: sum.splits intro: serves_mono)
  next
    case (RoutingCommit i now)
    with w' show ?thesis
      by (auto split: prod.splits dest!: settles_commit intro: serves_mono)
  next
    case (OtherRate c)
    have "controller_call_ok c" using ok OtherRate by (cases c) auto
    with w' OtherRate serves_rate [of c _ "rw_stores w" UNIV] show ?thesis
      by (auto intro: serves_mono)
  qed (auto simp: w' consume_def routing_cancel_def
      intro: serves_mono [OF serves_finalize] serves_mono [OF serves_unknown] serves_mono [OF serves_release]
        serves_mono [OF serves_drop] serves_mono [OF serves_budget])
qed

interpretation rate_store: component routing_init routing_step controller_init controller_step
  "\<lambda>w. rac_rate (rw_stores w)"
proof
  fix w l w'
  show "controller_init (rac_rate (rw_stores w))" if "routing_init w"
    using that by (simp add: routing_init_def)
  show "\<exists>ms. run controller_step (rac_rate (rw_stores w)) ms (rac_rate (rw_stores w'))"
    if "routing_step w l w'"
    using routing_step_serves [OF that] by (auto simp: serves_def)
qed

interpretation budget_store: component routing_init routing_step budget_init budget_step
  "\<lambda>w. rac_budget (rw_stores w)"
proof
  fix w l w'
  show "budget_init (rac_budget (rw_stores w))" if "routing_init w"
    using that by (simp add: routing_init_def)
  show "\<exists>ms. run budget_step (rac_budget (rw_stores w)) ms (rac_budget (rw_stores w'))"
    if "routing_step w l w'"
    using routing_step_serves [OF that] by (auto simp: serves_def)
qed

end
