(* ===== verification/Routing_Ownership.thy ===== *)
theory Routing_Ownership
  imports Routing_Invariant
begin

text \<open>
  Ownership in the composed system: a call on one lease leaves the reservation and the rate lease
  of every other lease alone, apart from their expiry. From it follows the invariant that an open
  lease is the only owner of a reservation that is reserved or expired, and of a rate lease that is
  uncommitted or gone.
\<close>

section \<open>What a controller call does to the leases of others\<close>

definition leases_kept :: "AdmissionLeaseId set \<Rightarrow> ControllerState \<Rightarrow> ControllerState \<Rightarrow> bool" where
  "leases_kept I st st' \<longleftrightarrow> next_identity st \<le> next_identity st' \<and> last_now st \<le> last_now st' \<and>
     (\<forall>j. j \<notin> I \<and> j \<le> next_identity st \<longrightarrow>
        map_of (leases st') j = map_of (leases st) j
        \<or> map_of (leases st') j = None
          \<and> (\<forall>a. map_of (leases st) j = Some a \<longrightarrow> l_expires_at a \<le> last_now st'))"

lemma leases_kept_refl [simp]: "leases_kept I st st"
  by (simp add: leases_kept_def)

lemma leases_kept_trans:
  assumes "leases_kept I a b" and "leases_kept I b c"
  shows "leases_kept I a c"
proof -
  have mono: "next_identity a \<le> next_identity b" "last_now b \<le> last_now c"
    using assms by (simp_all add: leases_kept_def)
  have "map_of (leases c) j = map_of (leases a) j
      \<or> map_of (leases c) j = None \<and> (\<forall>l. map_of (leases a) j = Some l \<longrightarrow> l_expires_at l \<le> last_now c)"
    if j: "j \<notin> I" "j \<le> next_identity a" for j
  proof (cases "map_of (leases b) j = map_of (leases a) j")
    case True
    with assms(2) j mono(1) show ?thesis unfolding leases_kept_def by (metis order_trans)
  next
    case False
    with assms(1) j have "map_of (leases b) j = None"
      and gone: "\<forall>l. map_of (leases a) j = Some l \<longrightarrow> l_expires_at l \<le> last_now b"
      unfolding leases_kept_def by blast+
    with assms(2) j mono(1) have "map_of (leases c) j = None"
      unfolding leases_kept_def by (metis order_trans)
    with gone mono(2) show ?thesis by (meson order_trans)
  qed
  with assms show ?thesis unfolding leases_kept_def by (meson order_trans)
qed

lemma leases_kept_mono: "leases_kept I a b \<Longrightarrow> I \<subseteq> J \<Longrightarrow> leases_kept J a b"
  unfolding leases_kept_def by blast

lemma filter_kept:
  assumes "ledger_ok P st" and "leases st' = filter (\<lambda>(i, l). now < l_expires_at l) (leases st)"
    and "next_identity st \<le> next_identity st'" and "last_now st \<le> now" and "last_now st' = now"
  shows "leases_kept {} st st'"
  using observed_lookup [OF assms(1,2)] assms(3-5) by (auto simp: leases_kept_def split: option.splits)

lemma observe_and_expire_kept:
  assumes "state_inv P st" and "observe_and_expire now st = (r, st')"
  shows "leases_kept {} st st'"
proof (cases "now < last_now st")
  case True
  then show ?thesis using assms(2) by (simp add: observe_and_expire_regressed)
next
  case False
  have ok: "ledger_ok P st" using assms(1) by (simp add: state_inv_def)
  then obtain s where "observe_and_expire now st = (Inr (), s)" "next_identity s = next_identity st" "last_now s = now"
    "leases s = filter (\<lambda>(i, l). now < l_expires_at l) (leases st)"
    using observe_and_expire_effect [OF ok, of now] False by (metis not_less)
  then show ?thesis using assms(2) False filter_kept [OF ok, of s now] by simp
qed

lemma remove_lease_kept: "state_inv P st \<Longrightarrow> remove_lease i st = (r, st') \<Longrightarrow> leases_kept {i} st st'"
  using remove_lease_frame [of P st i] by (auto simp: state_inv_def leases_kept_def)

lemma state_commit_rate_kept:
  assumes "state_inv P st" and "state_commit_rate i st = (r, st')"
  shows "leases_kept {i} st st'"
proof -
  have ok: "ledger_ok P st" using assms(1) by (simp add: state_inv_def)
  consider "st' = st" | l where "committed_state i l st st'"
    using state_commit_rate_cases [OF ok, of i] assms(2)
    by (cases "map_of (leases st) i") (fastforce+)
  then show ?thesis by cases (auto simp: committed_state_def leases_kept_def)
qed

text \<open>A sequence of updates that each keep the invariant and the leases of others.\<close>

definition keeps ::
  "AdmissionPolicySet \<Rightarrow> AdmissionLeaseId set \<Rightarrow> 'a controller_update \<Rightarrow> bool" where
  "keeps P I f \<longleftrightarrow>
     (\<forall>st r st'. state_inv P st \<and> f st = (r, st') \<longrightarrow> state_inv P st' \<and> leases_kept I st st')"

lemma keepsD: "keeps P I f \<Longrightarrow> state_inv P st \<Longrightarrow> f st = (r, st') \<Longrightarrow> state_inv P st' \<and> leases_kept I st st'"
  by (auto simp: keeps_def)

lemma keeps_bind:
  assumes "keeps P I m" and "\<And>x. keeps P I (f x)"
  shows "keeps P I (bind_update m f)"
  unfolding keeps_def
proof (intro allI impI, elim conjE)
  fix st r st'
  assume st: "state_inv P st" and run: "bind_update m f st = (r, st')"
  obtain q s where m: "m st = (q, s)" by fastforce
  note s = keepsD [OF assms(1) st m]
  show "state_inv P st' \<and> leases_kept I st st'"
  proof (cases q)
    case (Inl e)
    then show ?thesis using run m s by (simp add: bind_update_def)
  next
    case (Inr x)
    then have "f x s = (r, st')" using run m by (simp add: bind_update_def)
    then show ?thesis using keepsD [OF assms(2)] s leases_kept_trans by blast
  qed
qed

lemma keeps_pure [simp]: "keeps P I (\<lambda>st. (g st, st))" "keeps P I (lift_result h)"
  by (auto simp: keeps_def lift_result_def)

lemma keeps_observe: "keeps P I (observe_and_expire now)"
  unfolding keeps_def using observe_and_expire_invD observe_and_expire_kept leases_kept_mono by blast

lemma keeps_commit: "keeps P {i} (state_commit_rate i)"
  unfolding keeps_def using state_commit_rate_inv state_commit_rate_kept by (metis snd_conv)

lemma keeps_remove: "keeps P {i} (\<lambda>st. case remove_lease i st of (b, st') \<Rightarrow> (g b, st'))"
  unfolding keeps_def using remove_lease_invD remove_lease_kept by (fastforce split: prod.splits)

lemma keeps_complete: "keeps P {i} (complete_accepted i)"
proof -
  have "(\<lambda>st. case remove_lease i st of (removed, st') \<Rightarrow>
      if \<not> removed then (Inl (error LeaseExpired), st') else (Inr Completed, st')) =
    (\<lambda>st. case remove_lease i st of (b, st') \<Rightarrow> (if \<not> b then Inl (error LeaseExpired) else Inr Completed, st'))"
    by (auto split: prod.splits)
  then show ?thesis
    unfolding complete_accepted_def by (auto intro!: keeps_bind keeps_commit keeps_remove)
qed

lemma keeps_retain: "keeps P {i} (retain_accepted i)"
  unfolding retain_accepted_def by (intro keeps_bind keeps_commit keeps_pure)

lemma keeps_after_observe:
  assumes "\<And>e. keeps P I (f e)" and "keeps P I g"
  shows "keeps P I (\<lambda>st. case observe_and_expire now st of (Inl e, st') \<Rightarrow> f e st' | (Inr u, st') \<Rightarrow> g st')"
  unfolding keeps_def
proof (intro allI impI, elim conjE)
  fix st r st'
  assume st: "state_inv P st"
    and run: "(case observe_and_expire now st of (Inl e, st') \<Rightarrow> f e st' | (Inr u, st') \<Rightarrow> g st') = (r, st')"
  obtain q s where q: "observe_and_expire now st = (q, s)" by fastforce
  note s = keepsD [OF keeps_observe st q, of I]
  show "state_inv P st' \<and> leases_kept I st st'"
  proof (cases q)
    case (Inl e)
    then have "f e s = (r, st')" using run q by simp
    then show ?thesis using keepsD [OF assms(1)] s leases_kept_trans by blast
  next
    case (Inr u)
    then have "g s = (r, st')" using run q by simp
    then show ?thesis using keepsD [OF assms(2)] s leases_kept_trans by blast
  qed
qed

lemma keeps_finalize: "keeps P {i} (state_finalize_accepted i now)"
proof (cases now)
  case None
  then show ?thesis by (simp add: state_finalize_accepted_def keeps_retain)
next
  case (Some t)
  have "keeps P {i} (\<lambda>st. if ae_code e = ClockRegressed then retain_accepted i st else (Inl e, st))" for e
    using keeps_retain [of P i] by (cases "ae_code e = ClockRegressed") simp_all
  then show ?thesis
    unfolding Some state_finalize_accepted_def finalize_accepted_at_def option.case
    by (intro keeps_bind keeps_commit keeps_after_observe keeps_complete)
qed

lemma keeps_retain_dispatched: "keeps P {i} (state_retain_dispatched i now)"
proof -
  have "keeps P {i} (\<lambda>st. if ae_code e = ClockRegressed then (Inr (), st) else (Inl e, st))" for e
    by (cases "ae_code e = ClockRegressed") simp_all
  then show ?thesis
    unfolding state_retain_dispatched_def by (intro keeps_bind keeps_commit keeps_after_observe keeps_pure)
qed

lemma keeps_close: "keeps P {i} (bind_update (observe_and_expire now) (\<lambda>_ st.
    case remove_lease i st of (removed, st') \<Rightarrow> (if removed then Inr () else Inl (error LeaseExpired), st')))"
  by (intro keeps_bind keeps_observe keeps_remove)

lemma keeps_prepare:
  assumes res: "resolved P ps" and units: "rq_units request \<noteq> 0"
  shows "keeps P {} (state_prepare_admission ps request now)"
  unfolding keeps_def
proof (intro allI impI, elim conjE)
  fix st r st'
  assume st: "state_inv P st" and run: "state_prepare_admission ps request now st = (r, st')"
  have ok: "ledger_ok P st" using st by (simp add: state_inv_def)
  show "state_inv P st' \<and> leases_kept {} st st'"
  proof (cases rule: prepare_admission_cases [OF st res units, of now])
    case 1
    with run st show ?thesis by simp
  next
    case (2 e s)
    with run filter_kept [OF ok, of s now] show ?thesis by (simp add: rolled_def)
  next
    case (3 pa s1 s)
    have lt: "next_identity st < pa_lease_id pa" using 3(9) by (simp add: word_less_nat_alt)
    have "leases_kept {} st (s1\<lparr>next_identity := next_identity st\<rparr>)"
      using 3(1,3) filter_kept [OF ok, of "s1\<lparr>next_identity := next_identity st\<rparr>" now] by (simp add: rolled_def)
    with 3(6,10) lt have "leases_kept {} st s"
      by (auto simp: leases_kept_def reserved_state_def)
    with 3 run show ?thesis by simp
  qed
qed

lemma keeps_snapshot:
  assumes "policies_ok P" and "policy P k = Some p"
  shows "keeps P {} (bind_update (observe_and_expire now) (\<lambda>_.
    bind_update (prepare_window p now) (\<lambda>_ st. (Inr (state_snapshot st p now), st))))"
  unfolding keeps_def
proof (intro allI impI, elim conjE)
  fix st r st'
  assume st: "state_inv P st" and run: "bind_update (observe_and_expire now) (\<lambda>_.
    bind_update (prepare_window p now) (\<lambda>_ st. (Inr (state_snapshot st p now), st))) st = (r, st')"
  obtain q s where q: "observe_and_expire now st = (q, s)" by fastforce
  note s = keepsD [OF keeps_observe st q, of "{}"]
  show "state_inv P st' \<and> leases_kept {} st st'"
  proof (cases q)
    case (Inl e)
    then show ?thesis using run q s by (simp add: bind_update_def)
  next
    case (Inr u)
    then have now: "now = last_now s"
      using q remove_leases_effect [of P "st\<lparr>last_now := now\<rparr>"] st
      by (auto simp: observe_and_expire_def state_inv_def Let_def split: if_splits)
    have "st' = snd (prepare_window p now s)"
      using run q Inr by (auto simp: bind_update_def split: prod.splits sum.splits)
    moreover have "leases (snd (prepare_window p now s)) = leases s
        \<and> next_identity (snd (prepare_window p now s)) = next_identity s
        \<and> last_now (snd (prepare_window p now s)) = last_now s"
      by (auto simp: prepare_window_def Let_def split: option.splits sum.splits)
    moreover have "state_inv P (snd (prepare_window p now s))"
      using prepare_window_inv [OF _ assms(1,2) now] s by simp
    ultimately show ?thesis using s by (simp add: leases_kept_def)
  qed
qed

section \<open>Calls on the locked controller\<close>

lemma with_lock_kept:
  assumes "controller_inv c" and "keeps (ci_policies c) I f"
  shows "leases_kept I (ci_state c) (ci_state (snd (with_lock f c)))"
  using assms keepsD [OF assms(2), of "ci_state c"]
  by (auto simp: with_lock_def controller_inv_def split: prod.splits)

lemma drop_lease_kept:
  "controller_inv c \<Longrightarrow> leases_kept {al_id lease} (ci_state c) (ci_state (drop_lease lease c))"
  using remove_lease_kept [of "ci_policies c" "ci_state c" "al_id lease"]
  by (auto simp: drop_lease_def close_lease_without_time_def controller_inv_def prod_eq_iff)

lemma lease_close_kept:
  assumes "controller_inv c" and "lease_close lease now c = (r, lease', c')"
  shows "leases_kept {al_id lease} (ci_state c) (ci_state (drop_lease lease' c'))"
proof -
  have "leases_kept {al_id lease} (ci_state c) (ci_state c')" "al_id lease' = al_id lease"
    using assms with_lock_kept [OF assms(1) keeps_close, of "al_id lease" now]
    by (auto simp: lease_close_def close_lease_def split: sum.splits prod.splits)
  moreover have "controller_inv c'" using lease_close_inv [OF assms(1), of lease now] assms(2) by simp
  ultimately show ?thesis using drop_lease_kept [of c' lease'] leases_kept_trans by metis
qed

lemma controller_call_kept:
  assumes inv: "controller_inv c" and ok: "controller_call_ok l"
  shows "leases_kept (call_leases l) (ci_state c) (ci_state (controller_call_effect l c))"
proof (cases l)
  case (Admit request now)
  show ?thesis
  proof (cases "resolve_policies (ci_policies c) request")
    case (Inl e)
    then show ?thesis
      by (simp add: Admit try_admit_def inner_prepare_admission_def bind_update_def lift_result_def)
  next
    case (Inr ps)
    have "policies_ok (ci_policies c)" "request_ok request" "rq_units request \<noteq> 0"
      using inv ok Admit by (auto simp: controller_inv_def request_ok_def)
    with keeps_prepare [OF resolve_policies_resolved(1) [OF _ _ Inr]]
    have "leases_kept {} (ci_state c) (ci_state (snd (with_lock (state_prepare_admission ps request now) c)))"
      using with_lock_kept [OF inv] by blast
    with Inr show ?thesis
      by (auto simp: Admit try_admit_def inner_prepare_admission_def bind_update_def lift_result_def
          split: prod.splits sum.splits)
  qed
next
  case (Snapshot key now)
  show ?thesis
  proof (cases "policy (ci_policies c) key")
    case None
    then show ?thesis by (simp add: Snapshot snapshot_def bind_update_def lift_result_def)
  next
    case (Some p)
    with with_lock_kept [OF inv keeps_snapshot [OF _ Some]] inv show ?thesis
      by (simp add: Snapshot snapshot_def bind_update_ok lift_result_def controller_inv_def)
  qed
next
  case (CommitRate lease now)
  have "keeps (ci_policies c) {al_id lease}
      (bind_update (observe_and_expire now) (\<lambda>_. state_commit_rate (al_id lease)))"
    by (intro keeps_bind keeps_observe keeps_commit)
  from with_lock_kept [OF inv this] show ?thesis
    by (auto simp: CommitRate lease_commit_rate_def bind_update_def lift_result_def ensure_open_def)
next
  case (Release lease now)
  then show ?thesis
    using lease_close_kept [OF inv, of lease now] by (auto simp: lease_release_def split: prod.splits)
next
  case (Cancel lease now)
  then show ?thesis
    using lease_close_kept [OF inv, of lease now] by (auto simp: lease_cancel_def split: prod.splits)
next
  case (FinalizeAccepted lease now)
  with with_lock_kept [OF inv keeps_finalize, of "al_id lease" now] show ?thesis
    by (auto simp: finalize_accepted_def inner_finalize_accepted_def ensure_open_def drop_lease_def
        split: prod.splits)
next
  case (RetainConcurrency lease now)
  with with_lock_kept [OF inv keeps_retain_dispatched, of "al_id lease" now] show ?thesis
    by (auto simp: commit_rate_and_retain_concurrency_def inner_retain_dispatched_def ensure_open_def
        drop_lease_def split: prod.splits)
next
  case (DropLease lease)
  then show ?thesis using drop_lease_kept [OF inv] by simp
qed

lemma controller_run_kept:
  assumes "run controller_step c ls c'" and "controller_inv c" and "\<forall>l \<in> set ls. call_leases l \<subseteq> I"
  shows "controller_inv c' \<and> leases_kept I (ci_state c) (ci_state c')"
  using assms
proof (induction rule: run.induct)
  case (run_nil s)
  then show ?case by simp
next
  case (run_cons s l t ls u)
  have "controller_inv t" using controller.step_inv run_cons by blast
  moreover have "leases_kept I (ci_state s) (ci_state t)"
    using run_cons controller_call_kept [of s l] by (auto simp: controller_step_iff intro: leases_kept_mono)
  ultimately show ?case using run_cons leases_kept_trans by auto
qed

section \<open>What a ledger call does to the reservations of others\<close>

definition records_kept :: "ReservationId set \<Rightarrow> BudgetState \<Rightarrow> BudgetState \<Rightarrow> bool" where
  "records_kept R st st' \<longleftrightarrow>
     (\<forall>rid r. rid \<notin> R \<and> map_of (reservations st) rid = Some r \<longrightarrow>
        map_of (reservations st') rid = Some r
        \<or> rec_state r = Reserved \<and> map_of (reservations st') rid = Some (r\<lparr>rec_state := Expired\<rparr>))"

lemma records_kept_refl [simp]: "records_kept R st st"
  by (simp add: records_kept_def)

lemma records_kept_trans:
  assumes "records_kept R a b" and "records_kept R b c"
  shows "records_kept R a c"
  unfolding records_kept_def
proof (intro allI impI, elim conjE)
  fix rid r
  assume r: "rid \<notin> R" "map_of (reservations a) rid = Some r"
  with assms(1) consider "map_of (reservations b) rid = Some r"
    | "rec_state r = Reserved" "map_of (reservations b) rid = Some (r\<lparr>rec_state := Expired\<rparr>)"
    unfolding records_kept_def by blast
  then show "map_of (reservations c) rid = Some r
      \<or> rec_state r = Reserved \<and> map_of (reservations c) rid = Some (r\<lparr>rec_state := Expired\<rparr>)"
    using assms(2) r(1) unfolding records_kept_def by cases fastforce+
qed

lemma records_kept_mono: "records_kept R a b \<Longrightarrow> R \<subseteq> Q \<Longrightarrow> records_kept Q a b"
  unfolding records_kept_def by blast

lemma expire_records_kept:
  "budget_ok st \<Longrightarrow> expire_records now st = (r, st') \<Longrightarrow> records_kept {} st st'"
  using expire_records_effect [of st now]
  by (auto simp: records_kept_def restate_def map_of_map_values record_expired_def split: if_splits)

lemma insert_reservation_kept:
  assumes "budget_ok st" and "map_of (reservations st) (rq_id request) = None"
    and "insert_reservation request now st = (r, st')"
  shows "records_kept {} st st'"
  using assms(1,3)
  by (cases rule: insert_reservation_cases) (use assms(2) in \<open>auto simp: records_kept_def\<close>)

lemma transition_record_kept:
  assumes ok: "budget_ok st" and t: "t \<noteq> Reserved" and "transition_record rid t st = (r, st')"
  shows "records_kept {rid} st st'"
  using assms
proof (cases rule: transition_record_cases)
  case (4 x ps)
  have "rq_id (rec_request y) = k" if "map_of (reservations st) k = Some y" for k y
    using budget_okD(4) [OF ok that] by (simp add: record_ok_def)
  with 4 show ?thesis by (auto simp: records_kept_def restate_def map_of_map_values)
qed simp_all

lemma budget_call_kept:
  assumes inv: "budget_inv b"
  shows "records_kept (call_reservations l) (bk_state b) (bk_state (budget_call_effect l b))"
proof -
  let ?st = "bk_state b"
  have ok: "budget_ok ?st" using inv by (simp add: budget_inv_def)
  have lift: "records_kept R ?st (bk_state (snd (with_book f b)))"
    if "\<And>r st'. f ?st = (r, st') \<Longrightarrow> records_kept R ?st st'" for R and f :: "'a budget_update"
    using that by (auto simp: with_book_def split: prod.splits)
  have ins: "records_kept {} ?st st'" if "expire_records now ?st = (x, st1)"
    "map_of (reservations ?st) (rq_id request) = None" "insert_reservation request now st1 = (y, st')"
    for now x st1 request y st'
    using that insert_reservation_kept [OF expire_records_ok [OF ok that(1)]] expired_absent [OF ok that(1)]
      records_kept_trans [OF expire_records_kept [OF ok that(1)]] by blast
  show ?thesis
  proof (cases l)
    case (Reserve request now)
    have "records_kept {} ?st st'" if "bind_update (expire_records now) (\<lambda>_ st.
       case map_of (reservations st) (rq_id request) of
         Some r \<Rightarrow> (replay_reservation r request, st)
       | None \<Rightarrow> insert_reservation request now st) ?st = (r, st')" for r st'
      using that expire_records_kept [OF ok] ins expired_absent [OF ok]
      by (auto simp: bind_update_def split: prod.splits sum.splits option.splits)
    then show ?thesis unfolding Reserve budget_call_effect.simps call_reservations.simps book_reserve_def by (rule lift)
  next
    case (ReserveFresh request now)
    have "records_kept {} ?st st'" if "(if map_of (reservations ?st) (rq_id request) \<noteq> None
        then (Inl (budget_error ReplayConflict), ?st)
        else bind_update (expire_records now) (\<lambda>_. insert_reservation request now) ?st) = (r, st')" for r st'
      using that expire_records_kept [OF ok] ins
      by (auto simp: bind_update_def split: prod.splits sum.splits if_splits)
    then show ?thesis unfolding ReserveFresh budget_call_effect.simps call_reservations.simps reserve_fresh_def by (rule lift)
  next
    case (Commit rid)
    show ?thesis
      unfolding Commit budget_call_effect.simps call_reservations.simps book_commit_def transition_def
      by (rule lift) (rule transition_record_kept [OF ok], simp_all)
  next
    case (ReleaseReservation rid)
    show ?thesis
      unfolding ReleaseReservation budget_call_effect.simps call_reservations.simps book_release_def transition_def
      by (rule lift) (rule transition_record_kept [OF ok], simp_all)
  next
    case (Expire now)
    show ?thesis
      unfolding Expire budget_call_effect.simps call_reservations.simps expire_def
      by (rule lift) (rule expire_records_kept [OF ok])
  qed
qed

lemma budget_run_kept:
  assumes "run budget_step b ls b'" and "budget_inv b" and "\<forall>l \<in> set ls. call_reservations l \<subseteq> R"
  shows "budget_inv b' \<and> records_kept R (bk_state b) (bk_state b')"
  using assms
proof (induction rule: run.induct)
  case (run_nil s)
  then show ?case by simp
next
  case (run_cons s l t ls u)
  have "budget_inv t" using budget.step_inv run_cons by blast
  moreover have "records_kept R (bk_state s) (bk_state t)"
    using run_cons budget_call_kept [of s l] by (auto simp: budget_step_iff intro: records_kept_mono)
  ultimately show ?case using run_cons records_kept_trans by auto
qed

end
