(* ===== verification/Routing_Leases.thy ===== *)
theory Routing_Leases
  imports Routing_Ownership
begin

text \<open>
  The ownership invariant of the composed system and its preservation by every call: an open lease
  is the sole owner of a reservation that is reserved or expired and of a rate lease that is
  uncommitted or gone. On the way, the outcomes of a coupled admission: its rollback never fails.
\<close>

section \<open>The ownership invariant\<close>

definition lease_owned :: "RoutingAdmissionCoordinator \<Rightarrow> RoutingAdmissionLease \<Rightarrow> bool" where
  "lease_owned s l \<longleftrightarrow>
     (if ral_closed l then ral_rate l = None \<and> ral_budget_finalized l
      else \<not> ral_budget_finalized l \<and> \<not> ral_budget_retained l
        \<and> (\<exists>rl. ral_rate l = Some rl \<and> \<not> al_closed rl
             \<and> al_id rl \<le> next_identity (ci_state (rac_rate s))
             \<and> (\<forall>a. map_of (leases (ci_state (rac_rate s))) (al_id rl) = Some a \<longrightarrow> \<not> l_rate_committed a))
        \<and> (\<exists>r. map_of (reservations (bk_state (rac_budget s))) (ral_reservation_id l) = Some r
             \<and> (rec_state r = Reserved \<or> rec_state r = Expired)))"

definition open_leases :: "RoutingAdmissionLease list \<Rightarrow> RoutingAdmissionLease list" where
  "open_leases ls = filter (\<lambda>l. \<not> ral_closed l) ls"

definition rate_id :: "RoutingAdmissionLease \<Rightarrow> AdmissionLeaseId" where
  "rate_id l = (case ral_rate l of Some rl \<Rightarrow> al_id rl | None \<Rightarrow> 0)"

definition routing_inv :: "routing_world \<Rightarrow> bool" where
  "routing_inv w \<longleftrightarrow>
     controller_inv (rac_rate (rw_stores w)) \<and> budget_inv (rac_budget (rw_stores w))
     \<and> (\<forall>l \<in> set (rw_leases w). lease_owned (rw_stores w) l)
     \<and> distinct (map ral_reservation_id (open_leases (rw_leases w)))
     \<and> distinct (map rate_id (open_leases (rw_leases w)))"

lemma open_leases_simps [simp]:
  "open_leases [] = []" "open_leases (xs @ ys) = open_leases xs @ open_leases ys"
  "open_leases (l # ls) = (if ral_closed l then open_leases ls else l # open_leases ls)"
  "set (open_leases ls) = {l \<in> set ls. \<not> ral_closed l}"
  by (auto simp: open_leases_def)

lemma own_leases_open: "lease_owned s l \<Longrightarrow> \<not> ral_closed l \<Longrightarrow> own_leases l = {rate_id l}"
  by (auto simp: lease_owned_def own_leases_def rate_id_def)

lemma owned_served:
  assumes own: "lease_owned s l" and c: "controller_inv (rac_rate s)" and b: "budget_inv (rac_budget s)"
    and sv: "serves I R s s'" and free: "\<not> ral_closed l \<Longrightarrow> rate_id l \<notin> I \<and> ral_reservation_id l \<notin> R"
  shows "lease_owned s' l"
proof (cases "ral_closed l")
  case True
  then show ?thesis using own by (simp add: lease_owned_def)
next
  case False
  obtain rl r where rl: "ral_rate l = Some rl" "\<not> al_closed rl" "al_id rl \<le> next_identity (ci_state (rac_rate s))"
      "\<forall>a. map_of (leases (ci_state (rac_rate s))) (al_id rl) = Some a \<longrightarrow> \<not> l_rate_committed a"
    and r: "map_of (reservations (bk_state (rac_budget s))) (ral_reservation_id l) = Some r"
      "rec_state r = Reserved \<or> rec_state r = Expired"
    and flags: "\<not> ral_budget_finalized l" "\<not> ral_budget_retained l"
    using own False by (auto simp: lease_owned_def)
  have I: "al_id rl \<notin> I" and R: "ral_reservation_id l \<notin> R" using free False rl(1) by (auto simp: rate_id_def)
  obtain ls ms where runs: "run controller_step (rac_rate s) ls (rac_rate s')" "\<forall>l \<in> set ls. call_leases l \<subseteq> I"
    "run budget_step (rac_budget s) ms (rac_budget s')" "\<forall>m \<in> set ms. call_reservations m \<subseteq> R"
    using sv by (auto simp: serves_def)
  have k: "leases_kept I (ci_state (rac_rate s)) (ci_state (rac_rate s'))"
    using controller_run_kept [OF runs(1) c runs(2)] by simp
  then have "al_id rl \<le> next_identity (ci_state (rac_rate s'))"
    "\<forall>a. map_of (leases (ci_state (rac_rate s'))) (al_id rl) = Some a \<longrightarrow> \<not> l_rate_committed a"
    using rl(3,4) I unfolding leases_kept_def by (auto intro: order_trans)
  moreover have "\<exists>r'. map_of (reservations (bk_state (rac_budget s'))) (ral_reservation_id l) = Some r'
      \<and> (rec_state r' = Reserved \<or> rec_state r' = Expired)"
    using budget_run_kept [OF runs(3) b runs(4)] r R unfolding records_kept_def by fastforce
  ultimately show ?thesis using False rl(1,2) flags by (simp add: lease_owned_def)
qed

lemma serves_inv:
  assumes "serves I R s s'" and "controller_inv (rac_rate s)" and "budget_inv (rac_budget s)"
  shows "controller_inv (rac_rate s') \<and> budget_inv (rac_budget s')"
  using assms controller.run_inv budget.run_inv unfolding serves_def by blast

text \<open>Serving one lease leaves the others owned.\<close>

lemma others_owned:
  assumes inv: "routing_inv w" and ls: "rw_leases w = xs @ l # ys"
    and sv: "serves (own_leases l) {ral_reservation_id l} (rw_stores w) s'"
    and l: "ral_closed l \<Longrightarrow> s' = rw_stores w"
  shows "\<forall>x \<in> set (xs @ ys). lease_owned s' x"
proof (cases "ral_closed l")
  case True
  with inv ls l show ?thesis by (auto simp: routing_inv_def)
next
  case False
  have own: "own_leases l = {rate_id l}" using own_leases_open [of "rw_stores w" l] inv ls False by (simp add: routing_inv_def)
  show ?thesis
  proof
    fix x assume x: "x \<in> set (xs @ ys)"
    have "rate_id x \<noteq> rate_id l \<and> ral_reservation_id x \<noteq> ral_reservation_id l" if "\<not> ral_closed x"
      using inv ls False x that by (fastforce simp: routing_inv_def image_iff)
    with owned_served [OF _ _ _ sv] inv ls x own show "lease_owned s' x"
      by (auto simp: routing_inv_def)
  qed
qed

lemma others_distinct:
  assumes "routing_inv w" and "rw_leases w = xs @ l # ys"
  shows "distinct (map ral_reservation_id (open_leases (xs @ ys)))"
    "distinct (map rate_id (open_leases (xs @ ys)))"
  using assms by (auto simp: routing_inv_def split: if_splits)

text \<open>A closed lease is inert.\<close>

lemma closed_inert:
  assumes "lease_owned s l" and "ral_closed l"
  shows "drop_routing_lease l s = s" "snd (routing_finalize_accepted l t s) = s"
    "snd (commit_dispatch_unknown l now s) = s" "snd (routing_release l now s) = s"
    "commit now (l, s) = (Inl (routing_error RoutingLeaseClosed), (l, s))"
  using assms
  by (auto simp: lease_owned_def drop_routing_lease_def routing_finalize_accepted_def commit_dispatch_unknown_def
      routing_release_def release_both_def commit_def consuming_def bind_update_def lift_result_def
      lease_ensure_open_def)

lemma consume_inv:
  assumes inv: "routing_inv w" and i: "i < length (rw_leases w)"
    and sv: "\<And>l s. serves (own_leases l) {ral_reservation_id l} s (f l s)"
    and closed: "\<And>l s. lease_owned s l \<Longrightarrow> ral_closed l \<Longrightarrow> f l s = s"
  shows "routing_inv (consume i f w)"
proof -
  let ?l = "rw_leases w ! i" and ?xs = "take i (rw_leases w)" and ?ys = "drop (Suc i) (rw_leases w)"
  have ls: "rw_leases w = ?xs @ ?l # ?ys" using i by (rule id_take_nth_drop)
  have "lease_owned (rw_stores w) ?l" using inv i by (simp add: routing_inv_def)
  then have "\<forall>x \<in> set (?xs @ ?ys). lease_owned (f ?l (rw_stores w)) x"
    using others_owned [OF inv ls sv] closed by blast
  moreover have "distinct (map ral_reservation_id (open_leases (?xs @ ?ys)))"
    "distinct (map rate_id (open_leases (?xs @ ?ys)))"
    using others_distinct [OF inv ls] by simp_all
  ultimately show ?thesis
    using inv serves_inv [OF sv [of ?l "rw_stores w"]] unfolding routing_inv_def consume_def by simp
qed

lemma transition_record_error:
  assumes "budget_ok st" and "t \<noteq> Reserved" and "transition_record rid t st = (Inl e, st')"
  shows "st' = st"
  using assms by (cases rule: transition_record_cases) simp_all

lemma book_commit_error:
  "budget_inv b \<Longrightarrow> book_commit rid b = (Inl e, b') \<Longrightarrow> b' = b"
  using transition_record_error [of "bk_state b" Committed rid e]
  by (auto simp: book_commit_def transition_def with_book_def budget_inv_def split: if_splits prod.splits)

lemma commit_lease:
  assumes own: "lease_owned s l" and b: "budget_inv (rac_budget s)" and run: "commit now (l, s) = (r, (l', s'))"
  shows "l' = l \<and> s' = s \<or> ral_closed l' \<and> lease_owned s' l'"
proof (cases "ral_closed l")
  case True
  then show ?thesis using closed_inert(5) [OF own] run by simp
next
  case False
  obtain rl where rl: "ral_rate l = Some rl" using own False by (auto simp: lease_owned_def)
  obtain q b' where q: "book_commit (ral_reservation_id l) (rac_budget s) = (q, b')" by fastforce
  show ?thesis
  proof (cases q)
    case (Inl e)
    then have "b' = rac_budget s" using book_commit_error [OF b] q by simp
    then show ?thesis
      using run False q Inl
      by (auto simp: commit_def bind_update_def lift_result_def lease_ensure_open_def commit_budget_def on_budget_def)
  next
    case (Inr rc)
    then show ?thesis
      using run False q rl
      by (auto simp: commit_def bind_update_def lift_result_def lease_ensure_open_def commit_budget_def on_budget_def
          commit_rate_and_release_def commit_incomplete_def mark_reconciliation_required_def lease_owned_def
          split: prod.splits if_splits)
  qed
qed

lemma commit_inv:
  assumes inv: "routing_inv w" and i: "i < length (rw_leases w)"
  shows "routing_inv (routing_call_effect (RoutingCommit i now) w)"
proof -
  let ?l = "rw_leases w ! i" and ?xs = "take i (rw_leases w)" and ?ys = "drop (Suc i) (rw_leases w)"
  have ls: "rw_leases w = ?xs @ ?l # ?ys" using i by (rule id_take_nth_drop)
  have own: "lease_owned (rw_stores w) ?l" using inv i by (simp add: routing_inv_def)
  obtain r l' s' where run: "commit now (?l, rw_stores w) = (r, (l', s'))" by (metis prod.collapse)
  have upd: "(rw_leases w)[i := l'] = ?xs @ l' # ?ys" using i by (rule upd_conv_take_nth_drop)
  have b: "budget_inv (rac_budget (rw_stores w))" using inv by (simp add: routing_inv_def)
  show ?thesis
  proof (cases "l' = ?l \<and> s' = rw_stores w")
    case True
    then show ?thesis using run inv i by (simp add: routing_inv_def)
  next
    case False
    then have l': "ral_closed l'" "lease_owned s' l'" using commit_lease [OF own b run] by auto
    have sv: "serves (own_leases ?l) {ral_reservation_id ?l} (rw_stores w) s'"
      using settles_commit [OF run] by simp
    have "ral_closed ?l \<Longrightarrow> s' = rw_stores w" using closed_inert(5) [OF own] run by simp
    from others_owned [OF inv ls sv this] l' upd
    have "\<forall>x \<in> set ((rw_leases w)[i := l']). lease_owned s' x" by auto
    moreover have "distinct (map ral_reservation_id (open_leases (?xs @ l' # ?ys)))"
      "distinct (map rate_id (open_leases (?xs @ l' # ?ys)))"
      using others_distinct [OF inv ls] l'(1) by simp_all
    ultimately show ?thesis
      using run inv serves_inv [OF sv] upd unfolding routing_inv_def by simp
  qed
qed

section \<open>Admission and its rollback\<close>

lemma bt_remove_insert: "map_of m k = None \<Longrightarrow> bt_remove k (bt_insert k v m) = m"
proof (induction m)
  case Nil
  then show ?case by (simp add: bt_remove_def)
next
  case (Cons e m)
  have "filter (\<lambda>x. fst x \<noteq> k) m = m" if "map_of m k = None"
    using that by (auto simp: map_of_eq_None_iff filter_id_conv)
  with Cons show ?case by (cases e) (auto simp: bt_remove_def split: if_splits)
qed

lemma admission_rolls_back:
  assumes inv: "controller_inv c" and req: "request_ok request"
    and adm: "try_admit request now c = (Inr lease, c1)"
  obtains c2 where "lease_cancel lease now c1 = (Inr (), c2)" "only_observed now c c2"
proof -
  obtain s1 ps where e: "rolled now (ci_state c) s1" "state_inv (ci_policies c) s1"
    "state_inv (ci_policies c) (ci_state c1)" "map_of (leases s1) (al_id lease) = None"
    "now < al_expires_at lease" "\<not> al_closed lease"
    "reserved_state ps request (al_id lease) (al_expires_at lease) s1 (ci_state c1)"
    "ci_policies c1 = ci_policies c" "\<not> ci_poisoned c1"
    by (rule try_admit_effect [OF inv req adm])
  let ?i = "al_id lease" and ?P = "ci_policies c" and ?l = "new_lease ps request (al_expires_at lease)"
  have ok1: "ledger_ok ?P (ci_state c1)" using e(3) by (simp add: state_inv_def)
  have ls1: "leases (ci_state c1) = bt_insert ?i ?l (leases s1)" and now1: "last_now (ci_state c1) = now"
    using e(1,7) by (auto simp: reserved_state_def rolled_def)
  obtain s2 where s2: "observe_and_expire now (ci_state c1) = (Inr (), s2)" "ledger_ok ?P s2" "last_now s2 = now"
    "leases s2 = filter (\<lambda>(i, l). now < l_expires_at l) (leases (ci_state c1))" "charged s2 = charged (ci_state c1)"
    using observe_and_expire_effect [OF ok1, of now] now1 by auto
  have live: "now < l_expires_at l" if "(j, l) \<in> set (leases (ci_state c1))" for j l
    using that e(1,5) set_bt_insert_subset [of ?i ?l "leases s1"]
    by (auto simp: ls1 rolled_def new_lease_def)
  then have ls2: "leases s2 = bt_insert ?i ?l (leases s1)"
    using s2(4) ls1 by (auto simp: filter_id_conv)
  have "map_of (leases s2) ?i = Some ?l" by (simp add: ls2)
  then obtain s3 where s3: "remove_lease ?i s2 = (True, s3)"
    by (auto simp: remove_lease_def Let_def)
  have ls3: "leases s3 = leases s1" and now3: "last_now s3 = now"
    using remove_lease_frame [OF s2(2), of ?i] s3 ls2 s2(3) bt_remove_insert [OF e(4)] by auto
  have "charged s3 k = charged s1 k" for k
  proof -
    have "charged (ci_state c1) k = charged s1 k"
      using e(7) by (cases "map_of (windows s1) k")
        (simp_all add: charged_def reserved_state_def at_keys_def plus_pending_def)
    then show ?thesis using remove_lease_charged [OF s2(2), of ?i] s3 s2(5) by simp
  qed
  then have charges: "charged s3 = charged s1" by blast
  have "rolled now (ci_state c) s3" using e(1) ls3 now3 by (simp add: rolled_def charges)
  moreover have cancel: "lease_cancel lease now c1 = (Inr (), c1\<lparr>ci_state := s3\<rparr>)"
    using e(6,9) s2(1) s3
    by (simp add: lease_cancel_def lease_close_def ensure_open_def close_lease_def with_lock_def bind_update_def
        drop_lease_def)
  moreover have "controller_inv (c1\<lparr>ci_state := s3\<rparr>)"
  proof -
    have "controller_inv c1" using e(3,8) inv by (simp add: controller_inv_def)
    moreover have "controller_step c1 (Cancel lease now) (c1\<lparr>ci_state := s3\<rparr>)"
      using cancel by (simp add: controller_step_iff)
    ultimately show ?thesis by (rule controller.step_inv)
  qed
  then have "state_inv ?P s3" using e(8) by (simp add: controller_inv_def)
  moreover have "\<not> ci_poisoned c" using try_admit_prepared [OF inv req adm] by blast
  ultimately have "only_observed now c (c1\<lparr>ci_state := s3\<rparr>)"
    using e(8,9) by (intro rolled_observed) simp_all
  then show ?thesis using that cancel by blast
qed

text \<open>The outcomes of a coupled admission.\<close>

lemma admit_cases:
  assumes c: "controller_inv (rac_rate s)" and req: "request_ok (rar_rate request)"
    and run: "admit request s = (r, s')"
  obtains (mismatched) e where "validate_tenant_binding request = Inl e" "r = Inl e" "s' = s"
  | (rate_refused) e c' where "validate_tenant_binding request = Inr ()"
      "try_admit (rar_rate request) (rar_monotonic_now request) (rac_rate s) = (Inl e, c')"
      "r = Inl (map_rate_error e)" "s' = s\<lparr>rac_rate := c'\<rparr>"
  | (budget_refused) e lease c1 c2 b where "validate_tenant_binding request = Inr ()"
      "try_admit (rar_rate request) (rar_monotonic_now request) (rac_rate s) = (Inr lease, c1)"
      "reserve_fresh (rar_budget request) (rar_budget_now request) (rac_budget s) = (Inl e, b)"
      "only_observed (rar_monotonic_now request) (rac_rate s) c2"
      "r = Inl (map_budget_error e)" "s' = s\<lparr>rac_rate := c2, rac_budget := b\<rparr>"
  | (admitted) rc lease c1 b where "validate_tenant_binding request = Inr ()"
      "try_admit (rar_rate request) (rar_monotonic_now request) (rac_rate s) = (Inr lease, c1)"
      "reserve_fresh (rar_budget request) (rar_budget_now request) (rac_budget s) = (Inr rc, b)"
      "r = Inr \<lparr>ral_rate = Some lease, ral_reservation_id = rc_id rc, ral_budget_receipt = rc,
             ral_budget_finalized = False, ral_budget_retained = False, ral_closed = False,
             ral_state = LeasePending\<rparr>" "s' = s\<lparr>rac_rate := c1, rac_budget := b\<rparr>"
proof (cases "validate_tenant_binding request")
  case (Inl e)
  then show ?thesis using run mismatched by (simp add: admit_def bind_update_def lift_result_def)
next
  case (Inr u)
  let ?now = "rar_monotonic_now request"
  obtain q c1 where q: "try_admit (rar_rate request) ?now (rac_rate s) = (q, c1)" by fastforce
  show ?thesis
  proof (cases q)
    case (Inl e)
    with \<open>validate_tenant_binding request = Inr u\<close> q run rate_refused show ?thesis
      by (simp add: admit_def bind_update_def lift_result_def on_rate_def)
  next
    case (Inr lease)
    obtain p b where p: "reserve_fresh (rar_budget request) (rar_budget_now request) (rac_budget s) = (p, b)"
      by fastforce
    obtain c2 where c2: "lease_cancel lease ?now c1 = (Inr (), c2)" "only_observed ?now (rac_rate s) c2"
      using admission_rolls_back [OF c req] q Inr by blast
    from \<open>validate_tenant_binding request = Inr u\<close> q Inr p c2 run show ?thesis
      by (cases p) (auto simp: admit_def bind_update_def lift_result_def on_rate_def
          intro: budget_refused admitted)
  qed
qed

lemma admit_inv:
  assumes inv: "routing_inv w" and req: "request_ok (rar_rate request)"
  shows "routing_inv (routing_call_effect (RoutingAdmit request) w)"
proof -
  let ?s = "rw_stores w"
  have c: "controller_inv (rac_rate ?s)" and b: "budget_inv (rac_budget ?s)"
    and own: "\<forall>l \<in> set (rw_leases w). lease_owned ?s l" using inv by (auto simp: routing_inv_def)
  obtain r s' where run: "admit request ?s = (r, s')" by fastforce
  let ?I = "{i. next_identity (ci_state (rac_rate ?s)) < i}"
  have sv: "serves ?I {} ?s s'"
    using serves_admit [OF req run, of ?I] try_admit_effect [OF c req] by blast
  have "rate_id l \<notin> ?I" if "l \<in> set (rw_leases w)" "\<not> ral_closed l" for l
    using bspec [OF own that(1)] that(2) by (auto simp: lease_owned_def rate_id_def not_less)
  then have others: "\<forall>l \<in> set (rw_leases w). lease_owned s' l"
    using owned_served [OF _ c b sv] own by blast
  note stores = serves_inv [OF sv c b]
  show ?thesis
  proof (cases r)
    case (Inl e)
    then show ?thesis using run inv others stores by (simp add: routing_inv_def)
  next
    case (Inr l)
    obtain lease rc c1 b1 where adm: "try_admit (rar_rate request) (rar_monotonic_now request) (rac_rate ?s) = (Inr lease, c1)"
      and res: "reserve_fresh (rar_budget request) (rar_budget_now request) (rac_budget ?s) = (Inr rc, b1)"
      and l: "ral_rate l = Some lease" "ral_reservation_id l = rc_id rc" "\<not> ral_budget_finalized l"
        "\<not> ral_budget_retained l" "\<not> ral_closed l" and s': "s' = ?s\<lparr>rac_rate := c1, rac_budget := b1\<rparr>"
      by (cases rule: admit_cases [OF c req run]) (use Inr in auto)
    obtain s1 ps where e: "\<not> al_closed lease" "next_identity (ci_state c1) = al_id lease"
      "reserved_state ps (rar_rate request) (al_id lease) (al_expires_at lease) s1 (ci_state c1)"
      "next_identity (ci_state (rac_rate ?s)) < al_id lease"
      using try_admit_effect [OF c req adm] by metis
    obtain rec where rec: "map_of (reservations (bk_state (rac_budget ?s))) (rc_id rc) = None"
      "map_of (reservations (bk_state b1)) (rc_id rc) = Some rec" "rec_state rec = Reserved"
      using reserve_fresh_granted [OF b res] by metis
    have "lease_owned s' l"
      using l e rec(2,3) by (auto simp: lease_owned_def s' reserved_state_def new_lease_def)
    moreover have "ral_reservation_id x \<noteq> ral_reservation_id l \<and> rate_id x \<noteq> rate_id l"
      if "x \<in> set (rw_leases w)" "\<not> ral_closed x" for x
      using bspec [OF own that(1)] that(2) l e(4) rec(1) by (auto simp: lease_owned_def rate_id_def)
    ultimately show ?thesis
      using run Inr inv others stores l(5) by (fastforce simp: routing_inv_def)
  qed
qed

lemma other_inv:
  assumes inv: "routing_inv w" and sv: "serves {} {} (rw_stores w) s'"
  shows "routing_inv (w\<lparr>rw_stores := s'\<rparr>)"
  using inv serves_inv [OF sv] owned_served [OF _ _ _ sv] by (auto simp: routing_inv_def)

interpretation routing: invariant_system routing_init routing_step routing_inv
proof
  fix w l w'
  show "routing_inv w" if "routing_init w"
    using that controller.init_inv budget.init_inv by (auto simp: routing_init_def routing_inv_def)
  assume inv: "routing_inv w" and "routing_step w l w'"
  then have ok: "routing_call_ok l w" and w': "w' = routing_call_effect l w"
    by (auto simp: routing_step_iff)
  show "routing_inv w'"
  proof (cases l)
    case (OtherRate c)
    have "controller_call_ok c" "call_leases c = {}" using ok OtherRate by (cases c; simp)+
    with serves_rate [of c _ "rw_stores w" "{}"] show ?thesis
      using other_inv [OF inv] w' OtherRate by simp
  next
    case (OtherBudget c)
    have "call_reservations c = {}" using ok OtherBudget by (cases c; simp)
    with serves_budget [of _ c "rw_stores w" "{}"] show ?thesis
      using other_inv [OF inv] w' OtherBudget by simp
  qed (use ok in \<open>auto simp: w' admit_inv [OF inv] commit_inv [OF inv] routing_cancel_def serves_drop
      closed_inert serves_finalize serves_unknown serves_release simp del: routing_call_effect.simps(1,2)
      intro!: consume_inv [OF inv]\<close>)
qed

end
