(* ===== verification/Routing_Properties.thy ===== *)
theory Routing_Properties
  imports Routing_Leases
begin

text \<open>
  Properties of coupled admission: the limits of both stores hold in the composed system, an
  admission takes both capacities or none, an open lease is the sole owner of what it holds, and
  settling it moves both capacities together or leaves a conservative record.
\<close>

section \<open>Facts shared by the properties\<close>

lemma reachable_routing:
  assumes "reachable routing_init routing_step w"
  shows "routing_inv w" "controller_inv (rac_rate (rw_stores w))" "budget_inv (rac_budget (rw_stores w))"
  using routing.reachable_inv [OF assms] by (auto simp: routing_inv_def)

lemma open_leaseE:
  assumes "reachable routing_init routing_step w" and "l \<in> set (rw_leases w)" and "\<not> ral_closed l"
  obtains rl r where "ral_rate l = Some rl" "\<not> al_closed rl" "\<not> ral_budget_finalized l" "\<not> ral_budget_retained l"
    "map_of (reservations (bk_state (rac_budget (rw_stores w)))) (ral_reservation_id l) = Some r"
    "\<forall>a. map_of (leases (ci_state (rac_rate (rw_stores w)))) (al_id rl) = Some a \<longrightarrow> \<not> l_rate_committed a"
proof -
  have "lease_owned (rw_stores w) l" using reachable_routing(1) [OF assms(1)] assms(2) by (simp add: routing_inv_def)
  then show ?thesis using that assms(3) by (auto simp: lease_owned_def)
qed




lemma distinct_filter_nth:
  assumes "distinct (map f (filter P xs))" and "i < length xs" and "j < length xs" and "i \<noteq> j"
    and "P (xs ! i)" and "P (xs ! j)"
  shows "f (xs ! i) \<noteq> f (xs ! j)"
proof -
  have wlog: "f (xs ! i) \<noteq> f (xs ! j)" if ij: "i < j" "j < length xs" "P (xs ! i)" "P (xs ! j)" for i j
  proof -
    have eq: "filter P xs = filter P (take j xs) @ xs ! j # filter P (drop (Suc j) xs)"
      by (subst id_take_nth_drop [OF ij(2)]) (simp add: ij(4))
    have "distinct (map f (filter P (take j xs)) @ [f (xs ! j)])"
      using assms(1) unfolding eq by simp
    moreover have "f (xs ! i) \<in> f ` set (filter P (take j xs))"
      using ij by (intro imageI) (auto simp: in_set_conv_nth)
    ultimately show ?thesis by (auto simp del: set_filter)
  qed
  show ?thesis using wlog [of i j] wlog [of j i] assms by (cases "i < j") auto
qed

section \<open>A concrete coupled admission\<close>

text \<open>The controller and the ledger of the earlier examples, and one admission on both.\<close>

definition ex_routing_request :: RoutingAdmissionRequest where
  "ex_routing_request =
     \<lparr>rar_rate = ex_request, rar_budget = ex_reservation ''r1'', rar_monotonic_now = 10, rar_budget_now = 50\<rparr>"

definition ex_stores :: RoutingAdmissionCoordinator where
  "ex_stores = \<lparr>rac_rate = ex_controller, rac_budget = ex_book 0 0 []\<rparr>"

definition ex_coupled :: RoutingAdmissionCoordinator where
  "ex_coupled = \<lparr>rac_rate = ex_admitted, rac_budget = ex_reserved\<rparr>"

definition ex_routing_lease :: RoutingAdmissionLease where
  "ex_routing_lease =
     \<lparr>ral_rate = Some ex_lease, ral_reservation_id = ''r1'', ral_budget_receipt = receipt ex_record,
      ral_budget_finalized = False, ral_budget_retained = False, ral_closed = False, ral_state = LeasePending\<rparr>"

definition ex_world :: routing_world where
  "ex_world = \<lparr>rw_stores = ex_coupled, rw_leases = [ex_routing_lease]\<rparr>"

lemma ex_start: "reachable routing_init routing_step \<lparr>rw_stores = ex_stores, rw_leases = []\<rparr>"
  using ex_init ex_budget_new
  by (intro reachable_init [of routing_init]) (auto simp: routing_init_def ex_stores_def budget_init_def)

lemma ex_reserve_fresh:
  "reserve_fresh (ex_reservation ''r1'') 50 (ex_book 0 0 []) = (Inr (receipt ex_record), ex_reserved)"
  by (simp add: budget_exec ex_budget_defs)

lemma ex_admit_coupled: "admit ex_routing_request ex_stores = (Inr ex_routing_lease, ex_coupled)"
proof -
  have "validate_tenant_binding ex_routing_request = Inr ()"
    by (simp add: validate_tenant_binding_def validate_account_binding_def ex_routing_request_def
        ex_request_def ex_key_def ex_reservation_def)
  then show ?thesis
    using ex_admit ex_reserve_fresh
    by (simp add: admit_def bind_update_def lift_result_def on_rate_def ex_routing_request_def ex_stores_def
        ex_coupled_def ex_routing_lease_def receipt_def ex_record_def ex_reservation_def)
qed

lemma ex_world_reachable: "reachable routing_init routing_step ex_world"
proof -
  have "routing_step \<lparr>rw_stores = ex_stores, rw_leases = []\<rparr> (RoutingAdmit ex_routing_request) ex_world"
    using ex_admit_coupled ex_request_ok(1)
    by (simp add: routing_step_iff ex_world_def ex_routing_request_def)
  with ex_start show ?thesis by (rule reachable_step)
qed

lemmas ex_routing_defs = ex_world_def ex_coupled_def ex_routing_lease_def

lemma ex_world_facts:
  "ex_routing_lease \<in> set (rw_leases ex_world)" "\<not> ral_closed ex_routing_lease"
  "ral_rate ex_routing_lease = Some ex_lease" "ex_coupled = rw_stores ex_world"
  "\<not> bk_poisoned (rac_budget ex_coupled)" "\<not> ci_poisoned (rac_rate ex_coupled)"
  "map_of (reservations (bk_state (rac_budget ex_coupled))) (ral_reservation_id ex_routing_lease) = Some ex_record"
  "rec_state ex_record = Reserved"
  "map_of (leases (ci_state (rac_rate ex_coupled))) (al_id ex_lease) = Some ex_active"
  "last_now (ci_state (rac_rate ex_coupled)) \<le> 20" "20 < l_expires_at ex_active" "ex_key \<in> set (l_rate_keys ex_active)"
  "charged (ci_state (rac_rate ex_coupled)) ex_key = Some (1000000010, 0)" "unat (l_units ex_active) = 2"
  by (simp_all add: ex_routing_defs ex_admitted_def ex_lease_def ex_active_def ex_reserved_def ex_book_def ex_record_def
      charged_def)

section \<open>The stores inside the composed system\<close>

text \<open>
  Coupling weakens neither store. In every reachable state of the composed system, whatever
  leases are outstanding and whoever else uses the stores, the rate controller and the budget
  ledger are each in a state they reach by their own operations, so every property of either
  holds of it: no window above its capacity, no key above its concurrency limit, no hard budget
  above its limit.
\<close>

theorem coupled_stores_stay_reachable:
  assumes "reachable routing_init routing_step w"
  shows "reachable controller_init controller_step (rac_rate (rw_stores w))
    \<and> reachable budget_init budget_step (rac_budget (rw_stores w))"
  using assms rate_store.reachable_part budget_store.reachable_part by blast

theorem coupled_stores_stay_reachable_witness:
  "reachable controller_init controller_step (rac_rate ex_coupled) \<and> reachable budget_init budget_step (rac_budget ex_coupled)"
  using coupled_stores_stay_reachable [OF ex_world_reachable] by (simp add: ex_world_def)

section \<open>Coupled admission\<close>



section \<open>Ownership\<close>

text \<open>
  C12: An open lease owns its capacity alone. No two open leases share a reservation or a rate
  lease, and what an open lease holds is unsettled: its reservation is reserved or has expired, and
  its rate lease is uncommitted or gone by expiry.
\<close>

theorem open_leases_own_their_capacity:
  assumes "reachable routing_init routing_step w"
    and "i < length (rw_leases w)" and "\<not> ral_closed (rw_leases w ! i)"
  shows "(\<exists>r. map_of (reservations (bk_state (rac_budget (rw_stores w)))) (ral_reservation_id (rw_leases w ! i)) = Some r
        \<and> rec_state r \<in> {Reserved, Expired})
    \<and> (\<exists>rl. ral_rate (rw_leases w ! i) = Some rl
        \<and> (\<forall>a. map_of (leases (ci_state (rac_rate (rw_stores w)))) (al_id rl) = Some a \<longrightarrow> \<not> l_rate_committed a)
        \<and> (\<forall>j rl'. j < length (rw_leases w) \<and> j \<noteq> i \<and> \<not> ral_closed (rw_leases w ! j)
             \<and> ral_rate (rw_leases w ! j) = Some rl' \<longrightarrow>
             al_id rl' \<noteq> al_id rl
             \<and> ral_reservation_id (rw_leases w ! j) \<noteq> ral_reservation_id (rw_leases w ! i)))"
proof -
  let ?ls = "rw_leases w"
  have inv: "routing_inv w" by (rule reachable_routing(1) [OF assms(1)])
  then have "lease_owned (rw_stores w) (?ls ! i)" using assms(2) by (simp add: routing_inv_def)
  moreover have "al_id rl' \<noteq> rate_id (?ls ! i) \<and> ral_reservation_id (?ls ! j) \<noteq> ral_reservation_id (?ls ! i)"
    if "j < length ?ls" "j \<noteq> i" "\<not> ral_closed (?ls ! j)" "ral_rate (?ls ! j) = Some rl'" for j rl'
    using inv distinct_filter_nth [of rate_id "\<lambda>l. \<not> ral_closed l" ?ls j i]
      distinct_filter_nth [of ral_reservation_id "\<lambda>l. \<not> ral_closed l" ?ls j i] assms(2,3) that
    by (simp add: routing_inv_def open_leases_def rate_id_def)
  moreover have "rate_id (?ls ! i) = al_id rl" if "ral_rate (?ls ! i) = Some rl" for rl
    using that by (simp add: rate_id_def)
  ultimately show ?thesis
    using assms(3) unfolding lease_owned_def by fastforce
qed

theorem open_leases_own_their_capacity_witness:
  "\<exists>r. map_of (reservations (bk_state ex_reserved)) ''r1'' = Some r \<and> rec_state r \<in> {Reserved, Expired}"
  using open_leases_own_their_capacity [OF ex_world_reachable, of 0] by (simp add: ex_routing_defs)

section \<open>Settling\<close>

text \<open>What the settling calls do on an open lease, in terms of the calls on the stores.\<close>

lemma map_sum_Completed [simp]: "map_sum f id p = Inr x \<longleftrightarrow> p = Inr x"
  by (cases p) auto

lemma routing_finalize_eq:
  assumes "\<not> ral_closed l" and "ral_rate l = Some rl"
    and "book_commit (ral_reservation_id l) (rac_budget s) = (q, b')"
    and "finalize_accepted rl (if isl q then None else now) (rac_rate s) = (p, c')"
  shows "routing_finalize_accepted l now s =
    (if \<not> isl q \<and> p = Inr Completed then Inr () else Inl (routing_error CommitIncomplete),
     s\<lparr>rac_rate := c', rac_budget := b'\<rparr>)"
  using assms
  by (cases q)
    (auto simp: routing_finalize_accepted_def consuming_def bind_update_def lift_result_def lease_ensure_open_def
      commit_budget_def on_budget_def finalize_accepted_rate_def on_rate_def finish_accepted_def drop_routing_lease_def)

lemma commit_eq:
  assumes "\<not> ral_closed l" and "ral_rate l = Some rl"
    and "book_commit (ral_reservation_id l) (rac_budget s) = (Inr rc, b')"
    and "finalize_accepted rl (Some now) (rac_rate s) = (Inr Completed, c')"
  shows "commit now (l, s) =
    (Inr (), (l\<lparr>ral_budget_receipt := rc, ral_budget_finalized := True, ral_rate := None,
       ral_state := LeaseCommitted, ral_closed := True\<rparr>, s\<lparr>rac_rate := c', rac_budget := b'\<rparr>))"
  using assms
  by (simp add: commit_def bind_update_def lift_result_def lease_ensure_open_def commit_budget_def on_budget_def
      commit_rate_and_release_def)

lemma finalize_accepted_state:
  assumes "\<not> ci_poisoned c" and "\<not> al_closed rl" and "finalize_accepted rl now c = (p, c')"
  shows "state_finalize_accepted (al_id rl) now (ci_state c) = (p, ci_state c')"
  using assms by (auto simp: finalize_accepted_def ensure_open_def inner_finalize_accepted_def with_lock_def
      drop_lease_def split: prod.splits)

lemma finalize_without_time:
  assumes inv: "state_inv P st" and a: "map_of (leases st) i = Some a" "\<not> l_rate_committed a"
    and fin: "state_finalize_accepted i None st = (p, st')"
  shows "map_of (leases st') i = Some (a\<lparr>l_rate_committed := True\<rparr>) \<and> p = Inr ReconciliationRequired"
proof -
  obtain s1 where s1: "state_commit_rate i st = (Inr (), s1)" "committed_state i a st s1"
    using state_commit_rate_cases(3) [of P st i a] inv a by (auto simp: state_inv_def)
  then show ?thesis
    using fin by (auto simp: state_finalize_accepted_def retain_accepted_def bind_update_def committed_state_def)
qed

lemma finalize_in_time:
  assumes inv: "state_inv P st" and a: "map_of (leases st) i = Some a" "\<not> l_rate_committed a"
    and now: "last_now st \<le> now" "now < l_expires_at a"
  shows "\<exists>st'. state_finalize_accepted i (Some now) st = (Inr Completed, st') \<and> map_of (leases st') i = None"
proof -
  have ok: "ledger_ok P st" using inv by (simp add: state_inv_def)
  obtain s1 where s1: "state_commit_rate i st = (Inr (), s1)" "committed_state i a st s1"
    using state_commit_rate_cases(3) [OF ok a] by blast
  have ok1: "ledger_ok P s1" by (rule committed_state_ledger_ok [OF ok a s1(2)])
  have "last_now s1 \<le> now" using s1(2) now(1) by (simp add: committed_state_def)
  then obtain s2 where s2: "observe_and_expire now s1 = (Inr (), s2)" "ledger_ok P s2"
    "leases s2 = filter (\<lambda>(i, l). now < l_expires_at l) (leases s1)"
    using observe_and_expire_effect [OF ok1] by blast
  have a2: "map_of (leases s2) i = Some (a\<lparr>l_rate_committed := True\<rparr>)"
    using observed_lookup [OF ok1 s2(3), of i] s1(2) now(2) by (simp add: committed_state_def)
  obtain s3 where s3: "remove_lease i s2 = (True, s3)" using a2 by (auto simp: remove_lease_def Let_def)
  have "map_of (leases s3) i = None" using remove_lease_frame(2) [OF s2(2), of i] s3 by simp
  moreover have "state_finalize_accepted i (Some now) st = (Inr Completed, s3)"
    using s1(1) s2(1) state_commit_rate_cases(2) [OF s2(2) a2] s3
    by (simp add: state_finalize_accepted_def finalize_accepted_at_def complete_accepted_def bind_update_def)
  ultimately show ?thesis by blast
qed

lemma book_commit_outcome:
  assumes inv: "budget_inv b" and rec: "map_of (reservations (bk_state b)) rid = Some rec"
    and run: "book_commit rid b = (q, b')"
  shows "\<not> bk_poisoned b \<Longrightarrow> rec_state rec = Reserved \<Longrightarrow>
      \<not> isl q \<and> map_of (reservations (bk_state b')) rid = Some (rec\<lparr>rec_state := Committed\<rparr>)"
    and "bk_poisoned b \<or> rec_state rec = Expired \<Longrightarrow> isl q"
proof -
  have ok: "budget_ok (bk_state b)" using inv by (simp add: budget_inv_def)
  show "\<not> isl q \<and> map_of (reservations (bk_state b')) rid = Some (rec\<lparr>rec_state := Committed\<rparr>)"
    if "\<not> bk_poisoned b" "rec_state rec = Reserved"
    using transition_reserved [OF ok that(1) rec that(2), of Committed] run unfolding book_commit_def by fastforce
  show "isl q" if "bk_poisoned b \<or> rec_state rec = Expired"
  proof (cases "bk_poisoned b")
    case True
    then show ?thesis using run by (auto simp: book_commit_def transition_def with_book_def)
  next
    case False
    obtain x st' where x: "transition_record rid Committed (bk_state b) = (x, st')" by fastforce
    then have q: "q = x" using run False by (auto simp: book_commit_def transition_def with_book_def)
    from ok _ x show ?thesis
      by (cases rule: transition_record_cases) (use that False rec q in auto)
  qed
qed

text \<open>
  C11: Accepted work is never refunded. Finalizing an execution the provider accepted commits the
  reservation whenever it is still reserved, and charges every rate window of a live rate lease by
  exactly its units, each whatever becomes of the other and whatever time is supplied. If the
  budget can no longer be committed, the call reports that reconciliation is needed and the rate
  lease stays, holding its concurrency.
\<close>

theorem accepted_execution_is_never_refunded:
  assumes "reachable routing_init routing_step w" and "l \<in> set (rw_leases w)" and "\<not> ral_closed l"
    and "ral_rate l = Some rl" and "s = rw_stores w"
    and "map_of (reservations (bk_state (rac_budget s))) (ral_reservation_id l) = Some rec"
    and "routing_finalize_accepted l now s = (r, s')"
  shows "(\<not> bk_poisoned (rac_budget s) \<and> rec_state rec = Reserved \<longrightarrow>
        map_of (reservations (bk_state (rac_budget s'))) (ral_reservation_id l) = Some (rec\<lparr>rec_state := Committed\<rparr>))
    \<and> (\<forall>a. \<not> ci_poisoned (rac_rate s) \<and> map_of (leases (ci_state (rac_rate s))) (al_id rl) = Some a \<longrightarrow>
        (\<forall>k \<in> set (l_rate_keys a). \<exists>t n m. charged (ci_state (rac_rate s)) k = Some (t, n)
           \<and> charged (ci_state (rac_rate s')) k = Some (t, m) \<and> unat m = unat n + unat (l_units a))
        \<and> (bk_poisoned (rac_budget s) \<or> rec_state rec = Expired \<longrightarrow>
           r = Inl (routing_error CommitIncomplete)
           \<and> map_of (leases (ci_state (rac_rate s'))) (al_id rl) = Some (a\<lparr>l_rate_committed := True\<rparr>)))"
proof -
  note inv = reachable_routing [OF assms(1), folded assms(5)]
  have st: "state_inv (ci_policies (rac_rate s)) (ci_state (rac_rate s))" using inv(2) by (simp add: controller_inv_def)
  have own: "\<not> al_closed rl" "\<forall>a. map_of (leases (ci_state (rac_rate s))) (al_id rl) = Some a \<longrightarrow> \<not> l_rate_committed a"
    using open_leaseE [OF assms(1-3)] assms(4,5) by (metis option.inject)+
  obtain q b' where q: "book_commit (ral_reservation_id l) (rac_budget s) = (q, b')" by fastforce
  obtain p c' where p: "finalize_accepted rl (if isl q then None else now) (rac_rate s) = (p, c')" by fastforce
  note eq = routing_finalize_eq [OF assms(3,4) q p]
  have s': "rac_rate s' = c'" "rac_budget s' = b'" using eq assms(7) by auto
  have "(\<forall>k \<in> set (l_rate_keys a). \<exists>t n m. charged (ci_state (rac_rate s)) k = Some (t, n)
        \<and> charged (ci_state c') k = Some (t, m) \<and> unat m = unat n + unat (l_units a))
      \<and> (isl q \<longrightarrow> map_of (leases (ci_state c')) (al_id rl) = Some (a\<lparr>l_rate_committed := True\<rparr>))"
    if np: "\<not> ci_poisoned (rac_rate s)" and a: "map_of (leases (ci_state (rac_rate s))) (al_id rl) = Some a" for a
  proof -
    have na: "\<not> l_rate_committed a" using own(2) a by blast
    note fin = finalize_accepted_state [OF np own(1) p]
    have "\<exists>t n m. charged (ci_state (rac_rate s)) k = Some (t, n) \<and> charged (ci_state c') k = Some (t, m)
        \<and> unat m = unat n + unat (l_units a)" if k: "k \<in> set (l_rate_keys a)" for k
      by (rule finalize_charges_window [OF st a na fin k])
    then show ?thesis using finalize_without_time [OF st a na] fin by auto
  qed
  then show ?thesis
    using book_commit_outcome [OF inv(3) assms(6) q] eq assms(7) s' by auto
qed

theorem accepted_execution_is_never_refunded_witness:
  "\<exists>r s'. routing_finalize_accepted ex_routing_lease None ex_coupled = (r, s')
     \<and> map_of (reservations (bk_state (rac_budget s'))) ''r1'' = Some (ex_record\<lparr>rec_state := Committed\<rparr>)
     \<and> (\<exists>m. charged (ci_state (rac_rate s')) ex_key = Some (1000000010, m) \<and> unat m = 2)"
proof -
  obtain r s' where run: "routing_finalize_accepted ex_routing_lease None ex_coupled = (r, s')" by fastforce
  from accepted_execution_is_never_refunded [OF ex_world_reachable ex_world_facts(1-4,7) run]
  have "map_of (reservations (bk_state (rac_budget s'))) ''r1'' = Some (ex_record\<lparr>rec_state := Committed\<rparr>)"
    "\<exists>m. charged (ci_state (rac_rate s')) ex_key = Some (1000000010, m) \<and> unat m = 2"
    using ex_world_facts(5,6,8,9,12-14) by (auto simp: ex_routing_lease_def)
  with run show ?thesis by blast
qed

text \<open>
  C37: Within its time a lease commits both capacities together: while its reservation is reserved
  and its rate lease is live, the commit succeeds, the reservation is committed, every rate window
  is charged by exactly the units, the rate lease is gone with its concurrency, and the lease is
  closed as committed.
\<close>

theorem commit_in_time_succeeds:
  assumes "reachable routing_init routing_step w" and "l \<in> set (rw_leases w)" and "\<not> ral_closed l"
    and "ral_rate l = Some rl" and "s = rw_stores w"
    and "\<not> bk_poisoned (rac_budget s)" and "\<not> ci_poisoned (rac_rate s)"
    and "map_of (reservations (bk_state (rac_budget s))) (ral_reservation_id l) = Some rec" and "rec_state rec = Reserved"
    and "map_of (leases (ci_state (rac_rate s))) (al_id rl) = Some a"
    and "last_now (ci_state (rac_rate s)) \<le> now" and "now < l_expires_at a"
  shows "\<exists>l' s'. commit now (l, s) = (Inr (), (l', s')) \<and> ral_state l' = LeaseCommitted \<and> ral_closed l'
    \<and> map_of (reservations (bk_state (rac_budget s'))) (ral_reservation_id l) = Some (rec\<lparr>rec_state := Committed\<rparr>)
    \<and> map_of (leases (ci_state (rac_rate s'))) (al_id rl) = None
    \<and> (\<forall>k \<in> set (l_rate_keys a). \<exists>t n m. charged (ci_state (rac_rate s)) k = Some (t, n)
         \<and> charged (ci_state (rac_rate s')) k = Some (t, m) \<and> unat m = unat n + unat (l_units a))"
proof -
  note inv = reachable_routing [OF assms(1), folded assms(5)]
  have st: "state_inv (ci_policies (rac_rate s)) (ci_state (rac_rate s))" using inv(2) by (simp add: controller_inv_def)
  have own: "\<not> al_closed rl" "\<not> l_rate_committed a"
    using open_leaseE [OF assms(1-3)] assms(4,5,10) by (metis option.inject)+
  obtain q b' where q: "book_commit (ral_reservation_id l) (rac_budget s) = (q, b')" by fastforce
  have b': "\<not> isl q" "map_of (reservations (bk_state b')) (ral_reservation_id l) = Some (rec\<lparr>rec_state := Committed\<rparr>)"
    using book_commit_outcome(1) [OF inv(3) assms(8) q assms(6,9)] by auto
  obtain p c' where p: "finalize_accepted rl (Some now) (rac_rate s) = (p, c')" by fastforce
  note fin = finalize_accepted_state [OF assms(7) own(1) p]
  have "p = Inr Completed" "map_of (leases (ci_state c')) (al_id rl) = None"
    using finalize_in_time [OF st assms(10) own(2) assms(11,12)] fin by auto
  moreover have "\<forall>k \<in> set (l_rate_keys a). \<exists>t n m. charged (ci_state (rac_rate s)) k = Some (t, n)
      \<and> charged (ci_state c') k = Some (t, m) \<and> unat m = unat n + unat (l_units a)"
    using finalize_charges_window [OF st assms(10) own(2) fin] by blast
  moreover obtain rc where "q = Inr rc" using b'(1) by (cases q) auto
  ultimately show ?thesis
    using commit_eq [OF assms(3,4), of s rc b' now c'] q p b'(2) by simp
qed

theorem commit_in_time_succeeds_witness:
  "\<exists>l' s'. commit 20 (ex_routing_lease, ex_coupled) = (Inr (), (l', s')) \<and> ral_state l' = LeaseCommitted"
  using commit_in_time_succeeds [OF ex_world_reachable ex_world_facts(1-11)] by blast

text \<open>
  C10: Dropping an open lease gives both capacities back. A reservation that is still reserved is
  released, and the amount it held is returned to every policy it was charged to; the rate lease is
  removed and no other. No call can do so for a lease that was committed or finalized: dropping a
  closed lease changes nothing.
\<close>

theorem dropping_returns_both_capacities:
  assumes "reachable routing_init routing_step w" and "l \<in> set (rw_leases w)" and "s = rw_stores w"
  shows "if ral_closed l then drop_routing_lease l s = s
    else \<exists>rl rec. ral_rate l = Some rl
      \<and> map_of (reservations (bk_state (rac_budget s))) (ral_reservation_id l) = Some rec
      \<and> (\<not> ci_poisoned (rac_rate s) \<longrightarrow>
           leases (ci_state (rac_rate (drop_routing_lease l s))) = bt_remove (al_id rl) (leases (ci_state (rac_rate s))))
      \<and> (\<not> bk_poisoned (rac_budget s) \<and> rec_state rec = Reserved \<longrightarrow>
           map_of (reservations (bk_state (rac_budget (drop_routing_lease l s)))) (ral_reservation_id l)
             = Some (rec\<lparr>rec_state := Released\<rparr>)
           \<and> (\<forall>pid p. map_of (policies (bk_state (rac_budget s))) pid = Some p
                \<and> pid \<in> set (rec_applied_policies rec) \<longrightarrow>
                (\<exists>p'. map_of (policies (bk_state (rac_budget (drop_routing_lease l s)))) pid = Some p'
                   \<and> unat (ps_reserved p') + unat (amount_of rec) = unat (ps_reserved p)
                   \<and> ps_committed p' = ps_committed p)))"
proof (cases "ral_closed l")
  case True
  have "lease_owned s l" using reachable_routing(1) [OF assms(1)] assms(2,3) by (simp add: routing_inv_def)
  then show ?thesis using closed_inert(1) True by simp
next
  case False
  note inv = reachable_routing [OF assms(1), folded assms(3)]
  obtain rl rec where own: "ral_rate l = Some rl" "\<not> al_closed rl" "\<not> ral_budget_finalized l" "\<not> ral_budget_retained l"
    "map_of (reservations (bk_state (rac_budget s))) (ral_reservation_id l) = Some rec"
    using open_leaseE [OF assms(1,2) False] assms(3) by metis
  let ?b = "rac_budget s" and ?rid = "ral_reservation_id l"
  have s': "rac_budget (drop_routing_lease l s) = snd (book_release ?rid ?b)"
    "rac_rate (drop_routing_lease l s) = drop_lease rl (rac_rate s)"
    using own by (simp_all add: drop_routing_lease_def)
  have rate: "leases (ci_state (drop_lease rl (rac_rate s))) = bt_remove (al_id rl) (leases (ci_state (rac_rate s)))"
    if "\<not> ci_poisoned (rac_rate s)"
    using that own(2) remove_lease_frame(2) [OF controller_inv_state(1) [OF inv(2)], of "al_id rl"]
    by (simp add: drop_lease_def close_lease_without_time_def)
  have ok: "budget_ok (bk_state ?b)" using inv(3) by (simp add: budget_inv_def)
  have budget: "map_of (reservations (bk_state (snd (book_release ?rid ?b)))) ?rid = Some (rec\<lparr>rec_state := Released\<rparr>)
      \<and> (\<forall>pid p. map_of (policies (bk_state ?b)) pid = Some p \<and> pid \<in> set (rec_applied_policies rec) \<longrightarrow>
          (\<exists>p'. map_of (policies (bk_state (snd (book_release ?rid ?b)))) pid = Some p'
             \<and> unat (ps_reserved p') + unat (amount_of rec) = unat (ps_reserved p) \<and> ps_committed p' = ps_committed p))"
    if np: "\<not> bk_poisoned ?b" and res: "rec_state rec = Reserved"
  proof -
    obtain b' ps where b': "transition ?rid Released ?b = (Inr (receipt (rec\<lparr>rec_state := Released\<rparr>)), b')"
      "settled (bk_state ?b) (\<lambda>x. rq_id (rec_request x) = ?rid) Released ps" "policies (bk_state b') = ps"
      "map_of (reservations (bk_state b')) ?rid = Some (rec\<lparr>rec_state := Released\<rparr>)"
      using transition_reserved [OF ok np own(5) res, of Released] by blast
    have "\<exists>p'. map_of ps pid = Some p' \<and> unat (ps_reserved p') + unat (amount_of rec) = unat (ps_reserved p)
        \<and> ps_committed p' = ps_committed p"
      if "map_of (policies (bk_state ?b)) pid = Some p" "pid \<in> set (rec_applied_policies rec)" for pid p
      using settledD [OF b'(2) that(1)] that(2) unfolding moved_claim_single [OF ok own(5)]
      by (auto simp: word_unat_eq_iff)
    with b' show ?thesis by (simp add: book_release_def)
  qed
  show ?thesis using False own(1,5) rate budget s' by auto
qed

theorem dropping_returns_both_capacities_witness:
  "map_of (reservations (bk_state (rac_budget (drop_routing_lease ex_routing_lease ex_coupled)))) ''r1''
     = Some (ex_record\<lparr>rec_state := Released\<rparr>)
   \<and> leases (ci_state (rac_rate (drop_routing_lease ex_routing_lease ex_coupled))) = []"
  using dropping_returns_both_capacities [OF ex_world_reachable ex_world_facts(1,4)] ex_world_facts(2,3,5-8)
  by (auto simp: ex_routing_lease_def ex_coupled_def ex_admitted_def ex_lease_def bt_remove_def)

end
