(* ===== verification/Core_Ids.thy ===== *)
theory Core_Ids
  imports Prelude
begin

text \<open>
  \<open>crates/ariadnion-core/src/error.rs\<close> and \<open>ids.rs\<close>: error codes and their stable metadata, the
  bounded identifiers that cross module boundaries, and the module and ABI versions with their
  textual forms. A \<open>str\<close> is the list of its bytes. The lemmas characterise the accepted
  identifiers and show that printing a version and parsing the text gives the version back.
\<close>

section \<open>Errors\<close>

datatype ErrorCategory =
  InvalidRequestCategory | ConflictCategory | InterruptedCategory | AvailabilityCategory
| InternalCategory

datatype ErrorCode =
  InvalidArgumentCode | ConflictCode | CancelledCode | DeadlineExceededCode | UnavailableCode
| ResourceExhaustedCode | InternalCode

record ErrorMetadata =
  em_machine_code :: string
  em_category :: ErrorCategory
  em_public_message :: string

definition ERROR_METADATA :: "ErrorMetadata list" where
  "ERROR_METADATA =
     [\<lparr>em_machine_code = ''core.invalid_argument'', em_category = InvalidRequestCategory,
       em_public_message = ''The request contains an invalid value.''\<rparr>,
      \<lparr>em_machine_code = ''core.conflict'', em_category = ConflictCategory,
       em_public_message = ''The requested operation conflicts with current state.''\<rparr>,
      \<lparr>em_machine_code = ''core.cancelled'', em_category = InterruptedCategory,
       em_public_message = ''The operation was cancelled.''\<rparr>,
      \<lparr>em_machine_code = ''core.deadline_exceeded'', em_category = InterruptedCategory,
       em_public_message = ''The operation exceeded its deadline.''\<rparr>,
      \<lparr>em_machine_code = ''core.unavailable'', em_category = AvailabilityCategory,
       em_public_message = ''The requested capability is unavailable.''\<rparr>,
      \<lparr>em_machine_code = ''core.resource_exhausted'', em_category = AvailabilityCategory,
       em_public_message = ''A bounded resource budget was exhausted.''\<rparr>,
      \<lparr>em_machine_code = ''core.internal'', em_category = InternalCategory,
       em_public_message = ''The platform could not complete the operation.''\<rparr>]"

text \<open>The discriminants of the \<open>repr(u8)\<close> enumeration, used as the index of the table.\<close>

fun error_index :: "ErrorCode \<Rightarrow> nat" where
  "error_index InvalidArgumentCode = 0"
| "error_index ConflictCode = 1"
| "error_index CancelledCode = 2"
| "error_index DeadlineExceededCode = 3"
| "error_index UnavailableCode = 4"
| "error_index ResourceExhaustedCode = 5"
| "error_index InternalCode = 6"

definition error_metadata :: "ErrorCode \<Rightarrow> ErrorMetadata" where
  "error_metadata code = ERROR_METADATA ! error_index code"

definition machine_code :: "ErrorCode \<Rightarrow> string" where
  "machine_code code = em_machine_code (error_metadata code)"

definition error_category :: "ErrorCode \<Rightarrow> ErrorCategory" where
  "error_category code = em_category (error_metadata code)"

definition public_message :: "ErrorCode \<Rightarrow> string" where
  "public_message code = em_public_message (error_metadata code)"

record CoreError =
  ce_code :: ErrorCode
  ce_internal_context :: "string option"

definition error_from_code :: "ErrorCode \<Rightarrow> CoreError" where
  "error_from_code code = \<lparr>ce_code = code, ce_internal_context = None\<rparr>"

definition with_internal_context :: "CoreError \<Rightarrow> string \<Rightarrow> CoreError" where
  "with_internal_context e context = e\<lparr>ce_internal_context := Some context\<rparr>"

definition has_internal_context :: "CoreError \<Rightarrow> bool" where
  "has_internal_context e \<longleftrightarrow> ce_internal_context e \<noteq> None"

record ExternalError =
  ex_code :: ErrorCode

definition error_external :: "CoreError \<Rightarrow> ExternalError" where
  "error_external e = \<lparr>ex_code = ce_code e\<rparr>"

definition show_error :: "CoreError \<Rightarrow> string" where
  "show_error e = machine_code (ce_code e) @ '': '' @ public_message (ce_code e)"

lemma error_from_code_simps [simp]:
  "ce_code (error_from_code c) = c" "ce_code (with_internal_context e s) = ce_code e"
  by (simp_all add: error_from_code_def with_internal_context_def)

section \<open>Identifiers\<close>

definition MODULE_ID_LIMIT :: nat where "MODULE_ID_LIMIT = 160"
definition CAPABILITY_ID_LIMIT :: nat where "CAPABILITY_ID_LIMIT = 128"
definition CONTEXT_ID_LIMIT :: nat where "CONTEXT_ID_LIMIT = 128"

type_synonym BoundedId = string
type_synonym ModuleId = BoundedId
type_synonym CapabilityId = BoundedId

definition invalid_id :: "string \<Rightarrow> CoreError" where
  "invalid_id reason = with_internal_context (error_from_code InvalidArgumentCode) reason"

definition validate_id_shape :: "string \<Rightarrow> nat \<Rightarrow> (CoreError, unit) result" where
  "validate_id_shape value limit =
     (if value = [] then Inl (invalid_id ''identifier is empty'')
      else if limit < length value then Inl (invalid_id ''identifier exceeds its byte limit'')
      else Inr ())"

text \<open>\<open>u8::is_ascii_lowercase\<close>, \<open>is_ascii_digit\<close> and \<open>is_ascii_alphanumeric\<close>.\<close>

definition is_lower :: "char \<Rightarrow> bool" where
  "is_lower c \<longleftrightarrow> 97 \<le> (of_char c :: nat) \<and> (of_char c :: nat) \<le> 122"

definition is_upper :: "char \<Rightarrow> bool" where
  "is_upper c \<longleftrightarrow> 65 \<le> (of_char c :: nat) \<and> (of_char c :: nat) \<le> 90"

definition is_digit :: "char \<Rightarrow> bool" where
  "is_digit c \<longleftrightarrow> 48 \<le> (of_char c :: nat) \<and> (of_char c :: nat) \<le> 57"

definition is_alphanumeric :: "char \<Rightarrow> bool" where
  "is_alphanumeric c \<longleftrightarrow> is_lower c \<or> is_upper c \<or> is_digit c"

definition is_disallowed_id_byte :: "char \<Rightarrow> bool" where
  "is_disallowed_id_byte c \<longleftrightarrow>
     \<not> is_alphanumeric c \<and> c \<noteq> CHR ''.'' \<and> c \<noteq> CHR ''-'' \<and> c \<noteq> CHR ''_'' \<and> c \<noteq> CHR '':''"

definition validate_id_alphabet :: "string \<Rightarrow> (CoreError, unit) result" where
  "validate_id_alphabet value =
     (if \<not> is_ascii value then Inl (invalid_id ''identifier must be ASCII'')
      else if list_ex is_disallowed_id_byte value
      then Inl (invalid_id ''identifier contains a disallowed byte'')
      else Inr ())"

definition validate_common_id :: "string \<Rightarrow> nat \<Rightarrow> (CoreError, unit) result" where
  "validate_common_id value limit =
     bind_result (validate_id_shape value limit) (\<lambda>_. validate_id_alphabet value)"

text \<open>\<open>str::split\<close> on one ASCII character: always at least one segment.\<close>

fun split_on :: "char \<Rightarrow> string \<Rightarrow> string list" where
  "split_on d [] = [[]]"
| "split_on d (c # cs) =
     (if c = d then [] # split_on d cs
      else (case split_on d cs of [] \<Rightarrow> [[c]] | s # ss \<Rightarrow> (c # s) # ss))"

definition is_disallowed_segment_byte :: "char \<Rightarrow> bool" where
  "is_disallowed_segment_byte c \<longleftrightarrow>
     \<not> is_lower c \<and> \<not> is_digit c \<and> c \<noteq> CHR ''-'' \<and> c \<noteq> CHR ''_''"

definition validate_dotted_segment :: "string \<Rightarrow> (CoreError, unit) result" where
  "validate_dotted_segment segment =
     (if segment = [] then Inl (invalid_id ''dotted identifier contains an empty segment'')
      else if \<not> is_lower (hd segment)
      then Inl (invalid_id ''dotted identifier segment must start with a letter'')
      else if list_ex is_disallowed_segment_byte segment
      then Inl (invalid_id ''dotted identifier segment contains a disallowed byte'')
      else Inr ())"

definition validate_dotted_id :: "string \<Rightarrow> nat \<Rightarrow> (CoreError, unit) result" where
  "validate_dotted_id value limit =
     bind_result (validate_common_id value limit) (\<lambda>_.
     bind_result (check_each validate_dotted_segment (split_on (CHR ''.'') value)) (\<lambda>_.
     if length (split_on (CHR ''.'') value) < 2
     then Inl (invalid_id ''dotted identifier needs at least two segments'')
     else Inr ()))"

definition module_id_parse :: "string \<Rightarrow> (CoreError, ModuleId) result" where
  "module_id_parse value =
     bind_result (validate_dotted_id value MODULE_ID_LIMIT) (\<lambda>_. Inr value)"

definition capability_id_parse :: "string \<Rightarrow> (CoreError, CapabilityId) result" where
  "capability_id_parse value =
     bind_result (validate_dotted_id value CAPABILITY_ID_LIMIT) (\<lambda>_. Inr value)"

text \<open>\<open>TenantId\<close>, \<open>RequestId\<close>, \<open>AttemptId\<close>, \<open>TraceId\<close> and \<open>PrincipalId\<close> share one parser.\<close>

definition context_id_parse :: "string \<Rightarrow> (CoreError, BoundedId) result" where
  "context_id_parse value =
     bind_result (validate_common_id value CONTEXT_ID_LIMIT) (\<lambda>_. Inr value)"

section \<open>Versions\<close>

datatype ModuleVersion = ModuleVersion (major: u16) (minor: u16) (patch: u16)

text \<open>The derived order compares the fields in declaration order.\<close>

instantiation ModuleVersion :: linorder
begin

definition less_eq_ModuleVersion :: "ModuleVersion \<Rightarrow> ModuleVersion \<Rightarrow> bool" where
  "v \<le> w \<longleftrightarrow> (major v, minor v, patch v) \<le> (major w, minor w, patch w)"

definition less_ModuleVersion :: "ModuleVersion \<Rightarrow> ModuleVersion \<Rightarrow> bool" where
  "v < w \<longleftrightarrow> (major v, minor v, patch v) < (major w, minor w, patch w)"

instance
  by standard
    (auto simp: less_eq_ModuleVersion_def less_ModuleVersion_def ModuleVersion.expand)

end

datatype AbiVersion = AbiVersion (rust_contract: ModuleVersion) (component_world_major: u16)

definition CORE_ABI_VERSION :: AbiVersion where
  "CORE_ABI_VERSION = AbiVersion (ModuleVersion 1 0 0) 1"

subsection \<open>Decimal numbers\<close>

text \<open>\<open>Display\<close> of an unsigned integer, and \<open>parse\<close> into \<open>u16\<close>: one optional leading plus sign,
  then at least one decimal digit, with \<open>checked_mul\<close> and \<open>checked_add\<close> refusing an overflow.\<close>

definition digit_char :: "nat \<Rightarrow> char" where
  "digit_char d = char_of (48 + d)"

fun show_decimal :: "nat \<Rightarrow> string" where
  "show_decimal n =
     (if n < 10 then [digit_char n] else show_decimal (n div 10) @ [digit_char (n mod 10)])"

declare show_decimal.simps [simp del]

definition to_digit :: "char \<Rightarrow> nat option" where
  "to_digit c = (if is_digit c then Some (of_char c - 48) else None)"

fun parse_digits :: "nat \<Rightarrow> string \<Rightarrow> nat \<Rightarrow> nat option" where
  "parse_digits bound [] acc = Some acc"
| "parse_digits bound (c # cs) acc =
     (case to_digit c of
        None \<Rightarrow> None
      | Some d \<Rightarrow> if bound \<le> acc * 10 + d then None else parse_digits bound cs (acc * 10 + d))"

definition parse_u16 :: "string \<Rightarrow> u16 option" where
  "parse_u16 s =
     (if s = [] \<or> s = ''+'' \<or> s = ''-'' then None
      else map_option of_nat (parse_digits (2 ^ 16) (if hd s = CHR ''+'' then tl s else s) 0))"

definition show_u16 :: "u16 \<Rightarrow> string" where
  "show_u16 w = show_decimal (unat w)"

subsection \<open>Printing and parsing versions\<close>

definition show_module_version :: "ModuleVersion \<Rightarrow> string" where
  "show_module_version v =
     show_u16 (major v) @ ''.'' @ show_u16 (minor v) @ ''.'' @ show_u16 (patch v)"

definition parse_version_component :: "string option \<Rightarrow> (CoreError, u16) result" where
  "parse_version_component component =
     bind_result (ok_or (invalid_id ''module version component is missing'') component) (\<lambda>value.
     if value = [] then Inl (invalid_id ''module version component is empty'')
     else ok_or (invalid_id ''module version component is invalid'') (parse_u16 value))"

text \<open>\<open>Iterator::next\<close> on the remaining segments.\<close>

definition next_of :: "'a list \<Rightarrow> 'a option" where
  "next_of xs = (case xs of [] \<Rightarrow> None | x # _ \<Rightarrow> Some x)"

definition parse_module_version :: "string \<Rightarrow> (CoreError, ModuleVersion) result" where
  "parse_module_version value =
     (let components = split_on (CHR ''.'') value in
      bind_result (parse_version_component (next_of components)) (\<lambda>ma.
      bind_result (parse_version_component (next_of (drop 1 components))) (\<lambda>mi.
      bind_result (parse_version_component (next_of (drop 2 components))) (\<lambda>pa.
      if next_of (drop 3 components) \<noteq> None
      then Inl (invalid_id ''module version has too many components'')
      else Inr (ModuleVersion ma mi pa)))))"

definition show_abi_version :: "AbiVersion \<Rightarrow> string" where
  "show_abi_version v =
     ''rust-'' @ show_module_version (rust_contract v) @ ''/wit-'' @
     show_u16 (component_world_major v)"

definition strip_prefix :: "string \<Rightarrow> string \<Rightarrow> string option" where
  "strip_prefix p s = (if take (length p) s = p then Some (drop (length p) s) else None)"

fun split_once :: "string \<Rightarrow> string \<Rightarrow> (string \<times> string) option" where
  "split_once p [] = (if p = [] then Some ([], []) else None)"
| "split_once p (c # cs) =
     (case strip_prefix p (c # cs) of
        Some rest \<Rightarrow> Some ([], rest)
      | None \<Rightarrow> map_option (\<lambda>(a, b). (c # a, b)) (split_once p cs))"

definition parse_abi_version :: "string \<Rightarrow> (CoreError, AbiVersion) result" where
  "parse_abi_version value =
     bind_result (ok_or (invalid_id ''ABI version prefix is invalid'')
        (Option.bind (strip_prefix ''rust-'' value) (split_once ''/wit-''))) (\<lambda>(rust_part, wit_part).
     bind_result (parse_module_version rust_part) (\<lambda>rc.
     bind_result (ok_or (invalid_id ''ABI component-world version is invalid'') (parse_u16 wit_part))
       (\<lambda>cw. Inr (AbiVersion rc cw))))"

section \<open>Identifiers: what the parsers accept\<close>

lemma split_on_not_Nil [simp]: "split_on d s \<noteq> []"
  by (induction s) (auto split: list.splits)

lemma split_on_join: "d \<notin> set s \<Longrightarrow> split_on d (s @ d # t) = s # split_on d t"
  by (induction s) auto

lemma split_on_plain: "d \<notin> set s \<Longrightarrow> split_on d s = [s]"
  by (induction s) auto

lemma split_on_inner: "s \<in> set (split_on d t) \<Longrightarrow> d \<notin> set s"
  by (induction t arbitrary: s) (auto split: list.splits if_splits)

lemma set_split_on: "c \<in> set s \<Longrightarrow> c = d \<or> (\<exists>t \<in> set (split_on d s). c \<in> set t)"
  by (induction s) (auto split: list.splits)

lemma set_split_on_sub: "t \<in> set (split_on d s) \<Longrightarrow> set t \<subseteq> set s"
  by (induction s arbitrary: t) (fastforce split: list.splits if_splits)+

lemma length_split_on: "length (split_on d s) = Suc (count_list s d)"
  by (induction s) (auto split: list.splits)

definition segment_ok :: "string \<Rightarrow> bool" where
  "segment_ok s \<longleftrightarrow> s \<noteq> [] \<and> is_lower (hd s) \<and> list_all (\<lambda>c. is_lower c \<or> is_digit c \<or> c \<in> {CHR ''-'', CHR ''_''}) s"

lemma validate_dotted_segment_ok: "validate_dotted_segment s = Inr () \<longleftrightarrow> segment_ok s"
  by (auto simp: validate_dotted_segment_def segment_ok_def is_disallowed_segment_byte_def
      list_ex_iff list_all_iff)

lemma segment_byte_common:
  "is_lower c \<or> is_digit c \<or> c \<in> {CHR ''-'', CHR ''_''} \<Longrightarrow>
     (of_char c :: nat) < 128 \<and> \<not> is_disallowed_id_byte c"
  by (auto simp: is_lower_def is_digit_def is_disallowed_id_byte_def is_alphanumeric_def)

lemma validate_dotted_id_ok:
  "validate_dotted_id value limit = Inr () \<longleftrightarrow>
     length value \<le> limit \<and> CHR ''.'' \<in> set value \<and>
     (\<forall>s \<in> set (split_on (CHR ''.'') value). segment_ok s)"
  (is "?l \<longleftrightarrow> ?r")
proof
  assume ?l
  then show ?r
    by (auto simp: validate_dotted_id_def validate_common_id_def validate_id_shape_def results
        validate_dotted_segment_ok length_split_on not_less count_list_0_iff split: if_splits)
next
  assume r: ?r
  have byte: "(of_char c :: nat) < 128 \<and> \<not> is_disallowed_id_byte c" if c: "c \<in> set value" for c
  proof (cases "c = CHR ''.''")
    case True
    then show ?thesis by (simp add: is_disallowed_id_byte_def)
  next
    case False
    with c obtain t where "t \<in> set (split_on (CHR ''.'') value)" "c \<in> set t"
      using set_split_on by blast
    with r have "is_lower c \<or> is_digit c \<or> c \<in> {CHR ''-'', CHR ''_''}"
      by (auto simp: segment_ok_def list_all_iff)
    then show ?thesis by (rule segment_byte_common)
  qed
  then have "validate_id_alphabet value = Inr ()"
    by (auto simp: validate_id_alphabet_def is_ascii_def list_all_iff list_ex_iff)
  moreover have "validate_id_shape value limit = Inr ()"
    using r by (auto simp: validate_id_shape_def)
  moreover have "0 < count_list value (CHR ''.'')"
    using r by (metis count_list_0_iff gr0I)
  ultimately show ?l
    using r by (auto simp: validate_dotted_id_def validate_common_id_def results
        validate_dotted_segment_ok length_split_on)
qed

lemma validate_dotted_id_code:
  "validate_dotted_id value limit = Inl e \<Longrightarrow> ce_code e = InvalidArgumentCode"
  by (auto simp: validate_dotted_id_def validate_common_id_def validate_id_shape_def
      validate_id_alphabet_def validate_dotted_segment_def invalid_id_def results
      split: if_splits dest!: check_each_errD)

section \<open>Versions: printing is inverted by parsing\<close>

lemma of_char_digit [simp]: "d < 10 \<Longrightarrow> (of_char (digit_char d) :: nat) = 48 + d"
  by (simp add: digit_char_def)

lemma to_digit_digit_char [simp]: "d < 10 \<Longrightarrow> to_digit (digit_char d) = Some d"
  by (simp add: to_digit_def is_digit_def)

lemma is_digit_digit_char: "d < 10 \<Longrightarrow> is_digit (digit_char d)"
  by (simp add: is_digit_def)

lemma show_decimal_digits: "c \<in> set (show_decimal n) \<Longrightarrow> is_digit c"
proof (induction n rule: show_decimal.induct)
  case (1 n)
  then show ?case
    by (subst (asm) show_decimal.simps) (auto simp: is_digit_digit_char split: if_splits)
qed

lemma show_decimal_not_Nil [simp]: "show_decimal n \<noteq> []"
  by (subst show_decimal.simps) simp

lemma parse_digits_append:
  "parse_digits b (s @ t) acc = Option.bind (parse_digits b s acc) (parse_digits b t)"
  by (induction s arbitrary: acc) (auto split: option.splits)

lemma parse_show_decimal: "n < b \<Longrightarrow> parse_digits b (show_decimal n) 0 = Some n"
proof (induction n rule: show_decimal.induct)
  case (1 n)
  show ?case
  proof (cases "n < 10")
    case True
    with 1 show ?thesis by (subst show_decimal.simps) simp
  next
    case False
    with 1 have "parse_digits b (show_decimal (n div 10)) 0 = Some (n div 10)" by simp
    with False 1 show ?thesis
      by (subst show_decimal.simps) (simp add: parse_digits_append not_le)
  qed
qed

lemma digit_not_special:
  "is_digit c \<Longrightarrow> c \<noteq> CHR ''+'' \<and> c \<noteq> CHR ''-'' \<and> c \<noteq> CHR ''.'' \<and> c \<noteq> CHR ''/''"
  by (auto simp: is_digit_def)

lemma show_u16_digits: "c \<in> set (show_u16 w) \<Longrightarrow> is_digit c"
  by (auto simp: show_u16_def dest: show_decimal_digits)

lemma show_u16_not_Nil [simp]: "show_u16 w \<noteq> []"
  by (simp add: show_u16_def)

lemma show_u16_plain: "CHR ''.'' \<notin> set (show_u16 w)" "CHR ''/'' \<notin> set (show_u16 w)"
  using digit_not_special show_u16_digits by blast+

lemma parse_show_u16 [simp]: "parse_u16 (show_u16 w) = Some w"
proof -
  have "hd (show_u16 w) \<in> set (show_u16 w)" by simp
  then have "is_digit (hd (show_u16 w))" by (rule show_u16_digits)
  then have h: "hd (show_u16 w) \<noteq> CHR ''+''" "hd (show_u16 w) \<noteq> CHR ''-''"
    using digit_not_special by auto
  then have ne: "show_u16 w \<noteq> ''+''" "show_u16 w \<noteq> ''-''" by auto
  have "parse_digits (2 ^ 16) (show_u16 w) 0 = Some (unat w)"
    unfolding show_u16_def using unat_lt_width [of w] by (intro parse_show_decimal) simp
  with h ne show ?thesis by (simp add: parse_u16_def)
qed

lemma parse_component_show [simp]: "parse_version_component (Some (show_u16 w)) = Inr w"
  by (simp add: parse_version_component_def)

lemma split_show_module_version:
  "split_on (CHR ''.'') (show_module_version v) =
     [show_u16 (major v), show_u16 (minor v), show_u16 (patch v)]"
  by (simp add: show_module_version_def split_on_join split_on_plain show_u16_plain)

lemma parse_show_module_version: "parse_module_version (show_module_version v) = Inr v"
  by (simp add: parse_module_version_def split_show_module_version next_of_def)

lemma strip_prefix_append [simp]: "strip_prefix p (p @ s) = Some s"
  by (simp add: strip_prefix_def)

lemma strip_prefix_hd: "p \<noteq> [] \<Longrightarrow> hd p \<noteq> c \<Longrightarrow> strip_prefix p (c # cs) = None"
  by (cases p) (auto simp: strip_prefix_def)

lemma split_once_found:
  "p \<noteq> [] \<Longrightarrow> hd p \<notin> set s \<Longrightarrow> split_once p (s @ p @ t) = Some (s, t)"
proof (induction s)
  case Nil
  then obtain c cs where p: "p = c # cs" by (cases p) auto
  have "strip_prefix p (c # (cs @ t)) = Some t" using strip_prefix_append [of p t] by (simp add: p)
  then show ?case by (simp add: p)
next
  case (Cons c s)
  then show ?case by (simp add: strip_prefix_hd)
qed

lemma show_module_version_plain: "CHR ''/'' \<notin> set (show_module_version v)"
  by (simp add: show_module_version_def show_u16_plain)

lemma parse_show_abi_version: "parse_abi_version (show_abi_version v) = Inr v"
proof -
  have a: "strip_prefix ''rust-'' (show_abi_version v) =
      Some (show_module_version (rust_contract v) @ ''/wit-'' @ show_u16 (component_world_major v))"
    unfolding show_abi_version_def by (rule strip_prefix_append)
  have b: "split_once ''/wit-''
      (show_module_version (rust_contract v) @ ''/wit-'' @ show_u16 (component_world_major v)) =
      Some (show_module_version (rust_contract v), show_u16 (component_world_major v))"
    by (rule split_once_found) (simp_all add: show_module_version_plain)
  show ?thesis
    unfolding parse_abi_version_def a Option.bind.simps b ok_or_simps
    by (simp add: parse_show_module_version)
qed

text \<open>Parsing a component accepts exactly an optional plus sign and digits below \<open>2 ^ 16\<close>.\<close>

lemma parse_digits_bound: "parse_digits b s acc = Some n \<Longrightarrow> acc < b \<Longrightarrow> n < b"
  by (induction s arbitrary: acc) (auto split: option.splits if_splits)

lemma parse_digits_all: "parse_digits b s acc = Some n \<Longrightarrow> list_all is_digit s"
  by (induction s arbitrary: acc) (auto simp: to_digit_def split: option.splits if_splits)

end
