(* ===== verification/Core_Resource.thy ===== *)
theory Core_Resource
  imports Core_Ids
begin

text \<open>
  \<open>crates/ariadnion-core/src/resource.rs\<close>: the lifecycle, WASM and execution budgets a module
  declares. A \<open>Duration\<close> is its number of nanoseconds and a \<open>usize\<close> a natural number; byte and
  fuel limits keep their width. The lemmas characterise exactly which budgets are accepted.
\<close>

section \<open>Limits\<close>

definition secs :: "nat \<Rightarrow> nat" where "secs n = n * 1000000000"

definition MAX_LIFECYCLE_DURATION :: nat where "MAX_LIFECYCLE_DURATION = secs (24 * 60 * 60)"
definition MAX_RESTARTS :: u16 where "MAX_RESTARTS = push_bit 10 1"
definition MAX_QUEUE_CAPACITY :: nat where "MAX_QUEUE_CAPACITY = 2 ^ 20"
definition MAX_TASKS :: nat where "MAX_TASKS = 2 ^ 16"
definition MAX_MEMORY_BYTES :: u64 where "MAX_MEMORY_BYTES = push_bit 40 1"
definition MAX_WASM_FUEL :: u64 where "MAX_WASM_FUEL = push_bit 50 1"

section \<open>Budgets\<close>

record LifecycleBudgetInput =
  li_startup_timeout :: nat
  li_health_timeout :: nat
  li_shutdown_timeout :: nat
  li_restart_delay :: nat
  li_restart_limit :: u16

record LifecycleBudget =
  lb_startup_timeout :: nat
  lb_health_timeout :: nat
  lb_shutdown_timeout :: nat
  lb_restart_delay :: nat
  lb_restart_limit :: u16

record WasmBudgetInput =
  wi_fuel :: u64
  wi_max_memory_bytes :: u64
  wi_epoch_timeout :: nat

record WasmBudgetLimits =
  wl_fuel :: u64
  wl_max_memory_bytes :: u64
  wl_epoch_timeout :: nat

datatype WasmBudget = WasmDisabled | WasmLimited WasmBudgetLimits

record ExecutionBudgetInput =
  ei_max_tasks :: nat
  ei_queue_capacity :: nat
  ei_max_memory_bytes :: u64
  ei_wasm :: WasmBudget

record ExecutionBudget =
  eb_max_tasks :: nat
  eb_queue_capacity :: nat
  eb_max_memory_bytes :: u64
  eb_wasm :: WasmBudget

record ResourceBudget =
  rb_lifecycle :: LifecycleBudget
  rb_execution :: ExecutionBudget

section \<open>Validation\<close>

definition invalid_budget :: "string \<Rightarrow> CoreError" where
  "invalid_budget reason = with_internal_context (error_from_code InvalidArgumentCode) reason"

definition validate_lifecycle_duration :: "nat \<Rightarrow> (CoreError, unit) result" where
  "validate_lifecycle_duration value =
     (if value = 0 \<or> MAX_LIFECYCLE_DURATION < value
      then Inl (invalid_budget ''module lifecycle duration is outside its bound'')
      else Inr ())"

definition validate_restart_limit :: "u16 \<Rightarrow> (CoreError, unit) result" where
  "validate_restart_limit limit =
     (if MAX_RESTARTS < limit
      then Inl (invalid_budget ''module restart count is outside its bound'')
      else Inr ())"

definition validate_lifecycle_input :: "LifecycleBudgetInput \<Rightarrow> (CoreError, unit) result" where
  "validate_lifecycle_input input =
     bind_result (validate_lifecycle_duration (li_startup_timeout input)) (\<lambda>_.
     bind_result (validate_lifecycle_duration (li_health_timeout input)) (\<lambda>_.
     bind_result (validate_lifecycle_duration (li_shutdown_timeout input)) (\<lambda>_.
     bind_result (validate_lifecycle_duration (li_restart_delay input)) (\<lambda>_.
     validate_restart_limit (li_restart_limit input)))))"

definition lifecycle_budget_new :: "LifecycleBudgetInput \<Rightarrow> (CoreError, LifecycleBudget) result" where
  "lifecycle_budget_new input =
     bind_result (validate_lifecycle_input input) (\<lambda>_.
     Inr \<lparr>lb_startup_timeout = li_startup_timeout input,
          lb_health_timeout = li_health_timeout input,
          lb_shutdown_timeout = li_shutdown_timeout input,
          lb_restart_delay = li_restart_delay input,
          lb_restart_limit = li_restart_limit input\<rparr>)"

definition lifecycle_budget_validate :: "LifecycleBudget \<Rightarrow> (CoreError, unit) result" where
  "lifecycle_budget_validate b =
     validate_lifecycle_input
       \<lparr>li_startup_timeout = lb_startup_timeout b, li_health_timeout = lb_health_timeout b,
        li_shutdown_timeout = lb_shutdown_timeout b, li_restart_delay = lb_restart_delay b,
        li_restart_limit = lb_restart_limit b\<rparr>"

definition validate_queue_capacity :: "nat \<Rightarrow> (CoreError, unit) result" where
  "validate_queue_capacity capacity =
     (if capacity = 0 \<or> MAX_QUEUE_CAPACITY < capacity
      then Inl (invalid_budget ''module queue capacity is outside its bound'')
      else Inr ())"

definition validate_task_budget :: "nat \<Rightarrow> (CoreError, unit) result" where
  "validate_task_budget tasks =
     (if tasks = 0 \<or> MAX_TASKS < tasks
      then Inl (invalid_budget ''module task budget is outside its bound'')
      else Inr ())"

definition validate_memory_budget :: "u64 \<Rightarrow> (CoreError, unit) result" where
  "validate_memory_budget bytes =
     (if bytes = 0 \<or> MAX_MEMORY_BYTES < bytes
      then Inl (invalid_budget ''module memory budget is outside its bound'')
      else Inr ())"

definition validate_wasm_fuel :: "u64 \<Rightarrow> (CoreError, unit) result" where
  "validate_wasm_fuel fuel =
     (if fuel = 0 \<or> MAX_WASM_FUEL < fuel
      then Inl (invalid_budget ''WASM fuel budget is outside its bound'')
      else Inr ())"

definition validate_wasm_input :: "WasmBudgetInput \<Rightarrow> (CoreError, unit) result" where
  "validate_wasm_input input =
     bind_result (validate_wasm_fuel (wi_fuel input)) (\<lambda>_.
     bind_result (validate_memory_budget (wi_max_memory_bytes input)) (\<lambda>_.
     validate_lifecycle_duration (wi_epoch_timeout input)))"

definition wasm_budget_limited :: "WasmBudgetInput \<Rightarrow> (CoreError, WasmBudget) result" where
  "wasm_budget_limited input =
     bind_result (validate_wasm_input input) (\<lambda>_.
     Inr (WasmLimited \<lparr>wl_fuel = wi_fuel input, wl_max_memory_bytes = wi_max_memory_bytes input,
       wl_epoch_timeout = wi_epoch_timeout input\<rparr>))"

fun wasm_budget_validate :: "WasmBudget \<Rightarrow> (CoreError, unit) result" where
  "wasm_budget_validate WasmDisabled = Inr ()"
| "wasm_budget_validate (WasmLimited limits) =
     validate_wasm_input
       \<lparr>wi_fuel = wl_fuel limits, wi_max_memory_bytes = wl_max_memory_bytes limits,
        wi_epoch_timeout = wl_epoch_timeout limits\<rparr>"

fun wasm_max_memory_bytes :: "WasmBudget \<Rightarrow> u64 option" where
  "wasm_max_memory_bytes WasmDisabled = None"
| "wasm_max_memory_bytes (WasmLimited limits) = Some (wl_max_memory_bytes limits)"

definition validate_execution_input :: "ExecutionBudgetInput \<Rightarrow> (CoreError, unit) result" where
  "validate_execution_input input =
     bind_result (validate_task_budget (ei_max_tasks input)) (\<lambda>_.
     bind_result (validate_queue_capacity (ei_queue_capacity input)) (\<lambda>_.
     bind_result (validate_memory_budget (ei_max_memory_bytes input)) (\<lambda>_.
     wasm_budget_validate (ei_wasm input))))"

definition execution_budget_new :: "ExecutionBudgetInput \<Rightarrow> (CoreError, ExecutionBudget) result" where
  "execution_budget_new input =
     bind_result (validate_execution_input input) (\<lambda>_.
     Inr \<lparr>eb_max_tasks = ei_max_tasks input, eb_queue_capacity = ei_queue_capacity input,
          eb_max_memory_bytes = ei_max_memory_bytes input, eb_wasm = ei_wasm input\<rparr>)"

definition execution_budget_validate :: "ExecutionBudget \<Rightarrow> (CoreError, unit) result" where
  "execution_budget_validate b =
     validate_execution_input
       \<lparr>ei_max_tasks = eb_max_tasks b, ei_queue_capacity = eb_queue_capacity b,
        ei_max_memory_bytes = eb_max_memory_bytes b, ei_wasm = eb_wasm b\<rparr>"

definition validate_wasm_memory :: "ExecutionBudget \<Rightarrow> (CoreError, unit) result" where
  "validate_wasm_memory execution =
     (case wasm_max_memory_bytes (eb_wasm execution) of
        None \<Rightarrow> Inr ()
      | Some bytes \<Rightarrow>
          if eb_max_memory_bytes execution < bytes
          then Inl (invalid_budget ''WASM memory exceeds the module memory budget'')
          else Inr ())"

definition resource_budget_validate :: "ResourceBudget \<Rightarrow> (CoreError, unit) result" where
  "resource_budget_validate b =
     bind_result (lifecycle_budget_validate (rb_lifecycle b)) (\<lambda>_.
     bind_result (execution_budget_validate (rb_execution b)) (\<lambda>_.
     validate_wasm_memory (rb_execution b)))"

definition resource_budget_new ::
  "LifecycleBudget \<Rightarrow> ExecutionBudget \<Rightarrow> (CoreError, ResourceBudget) result" where
  "resource_budget_new lifecycle execution =
     (let budget = \<lparr>rb_lifecycle = lifecycle, rb_execution = execution\<rparr> in
      bind_result (resource_budget_validate budget) (\<lambda>_. Inr budget))"

definition conservative_budget :: ResourceBudget where
  "conservative_budget =
     \<lparr>rb_lifecycle =
        \<lparr>lb_startup_timeout = secs 5, lb_health_timeout = secs 2, lb_shutdown_timeout = secs 20,
         lb_restart_delay = secs 1, lb_restart_limit = 3\<rparr>,
      rb_execution =
        \<lparr>eb_max_tasks = 8, eb_queue_capacity = 128, eb_max_memory_bytes = 16 * 1024 * 1024,
         eb_wasm = WasmDisabled\<rparr>\<rparr>"

section \<open>What validation accepts\<close>

definition duration_ok :: "nat \<Rightarrow> bool" where
  "duration_ok t \<longleftrightarrow> 0 < t \<and> t \<le> 24 * 60 * 60 * 1000000000"

definition memory_ok :: "u64 \<Rightarrow> bool" where
  "memory_ok n \<longleftrightarrow> 0 < unat n \<and> unat n \<le> 2 ^ 40"

fun wasm_ok :: "WasmBudget \<Rightarrow> bool" where
  "wasm_ok WasmDisabled \<longleftrightarrow> True"
| "wasm_ok (WasmLimited l) \<longleftrightarrow>
     0 < unat (wl_fuel l) \<and> unat (wl_fuel l) \<le> 2 ^ 50 \<and> memory_ok (wl_max_memory_bytes l) \<and>
     duration_ok (wl_epoch_timeout l)"

definition budget_ok :: "ResourceBudget \<Rightarrow> bool" where
  "budget_ok b \<longleftrightarrow>
     (let l = rb_lifecycle b; e = rb_execution b in
      duration_ok (lb_startup_timeout l) \<and> duration_ok (lb_health_timeout l) \<and>
      duration_ok (lb_shutdown_timeout l) \<and> duration_ok (lb_restart_delay l) \<and>
      unat (lb_restart_limit l) \<le> 1024 \<and>
      0 < eb_max_tasks e \<and> eb_max_tasks e \<le> 2 ^ 16 \<and>
      0 < eb_queue_capacity e \<and> eb_queue_capacity e \<le> 2 ^ 20 \<and>
      memory_ok (eb_max_memory_bytes e) \<and> wasm_ok (eb_wasm e) \<and>
      (case eb_wasm e of
         WasmDisabled \<Rightarrow> True
       | WasmLimited w \<Rightarrow> wl_max_memory_bytes w \<le> eb_max_memory_bytes e))"

lemma limit_values [simp]:
  "unat MAX_RESTARTS = 1024" "unat MAX_MEMORY_BYTES = 2 ^ 40" "unat MAX_WASM_FUEL = 2 ^ 50"
  by (simp_all add: MAX_RESTARTS_def MAX_MEMORY_BYTES_def MAX_WASM_FUEL_def)

lemma validate_lifecycle_duration_ok [results]:
  "validate_lifecycle_duration t = Inr u \<longleftrightarrow> duration_ok t"
  by (auto simp: validate_lifecycle_duration_def duration_ok_def MAX_LIFECYCLE_DURATION_def secs_def)

lemma validate_restart_limit_ok [results]:
  "validate_restart_limit n = Inr u \<longleftrightarrow> unat n \<le> 1024"
  by (simp add: validate_restart_limit_def machine)

lemma validate_memory_budget_ok [results]: "validate_memory_budget n = Inr u \<longleftrightarrow> memory_ok n"
  by (auto simp: validate_memory_budget_def memory_ok_def word_less_nat_alt unat_gt_0)

lemma validate_wasm_fuel_ok [results]:
  "validate_wasm_fuel n = Inr u \<longleftrightarrow> 0 < unat n \<and> unat n \<le> 2 ^ 50"
  by (auto simp: validate_wasm_fuel_def word_less_nat_alt unat_gt_0)

lemma validate_queue_capacity_ok [results]:
  "validate_queue_capacity n = Inr u \<longleftrightarrow> 0 < n \<and> n \<le> 2 ^ 20"
  by (auto simp: validate_queue_capacity_def MAX_QUEUE_CAPACITY_def)

lemma validate_task_budget_ok [results]:
  "validate_task_budget n = Inr u \<longleftrightarrow> 0 < n \<and> n \<le> 2 ^ 16"
  by (auto simp: validate_task_budget_def MAX_TASKS_def)

lemma wasm_budget_validate_ok [results]: "wasm_budget_validate w = Inr u \<longleftrightarrow> wasm_ok w"
  by (cases w) (auto simp: validate_wasm_input_def results)

lemma resource_budget_validate_ok [results]: "resource_budget_validate b = Inr u \<longleftrightarrow> budget_ok b"
  by (cases "eb_wasm (rb_execution b)")
    (auto simp: resource_budget_validate_def lifecycle_budget_validate_def validate_lifecycle_input_def
      execution_budget_validate_def validate_execution_input_def validate_wasm_memory_def
      validate_wasm_input_def budget_ok_def Let_def not_less results)

lemma resource_budget_validate_code:
  "resource_budget_validate b = Inl e \<Longrightarrow> ce_code e = InvalidArgumentCode"
  by (cases "eb_wasm (rb_execution b)")
    (auto simp: resource_budget_validate_def lifecycle_budget_validate_def validate_lifecycle_input_def
      execution_budget_validate_def validate_execution_input_def validate_wasm_memory_def
      validate_lifecycle_duration_def validate_restart_limit_def validate_task_budget_def
      validate_queue_capacity_def validate_memory_budget_def validate_wasm_input_def
      validate_wasm_fuel_def invalid_budget_def bind_result_def split: if_splits sum.splits)

lemma conservative_budget_ok: "budget_ok conservative_budget"
  by (simp add: budget_ok_def conservative_budget_def Let_def duration_ok_def secs_def memory_ok_def)

end
