(* ===== verification/Core_Module.thy ===== *)
theory Core_Module
  imports Core_Resource
begin

text \<open>
  \<open>crates/ariadnion-core/src/capability.rs\<close>, \<open>module.rs\<close> and \<open>health.rs\<close>: capability
  requirements and providers with the graph that resolves them, module descriptors and
  configuration snapshots, and health reports. The lemmas state what registration of a provider
  batch accepts, that it is atomic, what resolution binds and when it fails, and which descriptors
  the constructor accepts.
\<close>

section \<open>Capabilities\<close>

definition MAX_GRAPH_CAPABILITIES :: nat where "MAX_GRAPH_CAPABILITIES = 256"

record CapabilityRequirement =
  cr_id :: CapabilityId
  cr_minimum :: ModuleVersion
  cr_maximum_major :: "u16 option"

definition accepts :: "CapabilityRequirement \<Rightarrow> ModuleVersion \<Rightarrow> bool" where
  "accepts requirement version \<longleftrightarrow>
     cr_minimum requirement \<le> version \<and>
     (case cr_maximum_major requirement of
        None \<Rightarrow> True
      | Some maximum \<Rightarrow> major version \<le> maximum)"

record CapabilityProvider =
  cp_id :: CapabilityId
  cp_version :: ModuleVersion
  cp_module_id :: ModuleId

record CapabilityBinding =
  cb_requirement :: CapabilityRequirement
  cb_provider :: CapabilityProvider

record CapabilityResolution =
  res_bindings :: "CapabilityBinding list"

definition provider_for :: "CapabilityResolution \<Rightarrow> CapabilityId \<Rightarrow> CapabilityProvider option" where
  "provider_for resolution i =
     map_option cb_provider (List.find (\<lambda>b. cr_id (cb_requirement b) = i) (res_bindings resolution))"

record CapabilityGraph =
  cg_providers :: "CapabilityProvider list"

definition empty_graph :: CapabilityGraph where
  "empty_graph = \<lparr>cg_providers = []\<rparr>"

definition validate_batch_capacity :: "nat \<Rightarrow> nat \<Rightarrow> (CoreError, unit) result" where
  "validate_batch_capacity current incoming =
     (if MAX_GRAPH_CAPABILITIES - current < incoming
      then Inl (with_internal_context (error_from_code ResourceExhaustedCode)
        ''capability provider limit reached'')
      else Inr ())"

definition has_existing_provider ::
  "CapabilityProvider list \<Rightarrow> CapabilityProvider list \<Rightarrow> bool" where
  "has_existing_provider existing incoming \<longleftrightarrow>
     list_ex (\<lambda>candidate. list_ex (\<lambda>registered. cp_id registered = cp_id candidate) existing) incoming"

definition has_batch_duplicate :: "CapabilityProvider list \<Rightarrow> bool" where
  "has_batch_duplicate providers \<longleftrightarrow>
     list_ex (\<lambda>(index, candidate). list_ex (\<lambda>other. cp_id other = cp_id candidate) (drop (index + 1) providers))
       (List.enumerate 0 providers)"

definition register_batch ::
  "CapabilityProvider list \<Rightarrow> CapabilityGraph \<Rightarrow> (CoreError, unit) result \<times> CapabilityGraph" where
  "register_batch providers graph =
     (case validate_batch_capacity (length (cg_providers graph)) (length providers) of
        Inl e \<Rightarrow> (Inl e, graph)
      | Inr _ \<Rightarrow>
          if has_existing_provider (cg_providers graph) providers \<or> has_batch_duplicate providers
          then (Inl (with_internal_context (error_from_code ConflictCode)
            ''duplicate capability provider''), graph)
          else (Inr (), graph\<lparr>cg_providers := cg_providers graph @ providers\<rparr>))"

definition resolve_one ::
  "CapabilityGraph \<Rightarrow> CapabilityRequirement \<Rightarrow> (CoreError, CapabilityBinding) result" where
  "resolve_one graph requirement =
     bind_result
       (ok_or (with_internal_context (error_from_code UnavailableCode)
          ''required capability is missing'')
        (List.find (\<lambda>candidate. cp_id candidate = cr_id requirement) (cg_providers graph))) (\<lambda>provider.
     if \<not> accepts requirement (cp_version provider)
     then Inl (with_internal_context (error_from_code ConflictCode)
       ''capability version is incompatible'')
     else Inr \<lparr>cb_requirement = requirement, cb_provider = provider\<rparr>)"

definition graph_resolve ::
  "CapabilityGraph \<Rightarrow> CapabilityRequirement list \<Rightarrow> (CoreError, CapabilityResolution) result" where
  "graph_resolve graph requirements =
     (if MAX_GRAPH_CAPABILITIES < length requirements
      then Inl (with_internal_context (error_from_code ResourceExhaustedCode)
        ''capability resolution limit reached'')
      else bind_result (collect_result (resolve_one graph) requirements)
        (\<lambda>bindings. Inr \<lparr>res_bindings = bindings\<rparr>))"

section \<open>Module descriptors\<close>

definition MAX_CAPABILITIES :: nat where "MAX_CAPABILITIES = 128"
definition MAX_SECRET_CAPABILITIES :: nat where "MAX_SECRET_CAPABILITIES = 64"
definition MAX_SENSITIVE_PATHS :: nat where "MAX_SENSITIVE_PATHS = 64"
definition MAX_NAMESPACE_BYTES :: nat where "MAX_NAMESPACE_BYTES = 128"
definition MAX_SHUTDOWN_PRIORITY :: u16 where "MAX_SHUTDOWN_PRIORITY = 4095"
definition CONFIGURATION_DIGEST_BYTES :: nat where "CONFIGURATION_DIGEST_BYTES = 64"

type_synonym ShutdownPriority = u16

definition shutdown_priority_new :: "u16 \<Rightarrow> (CoreError, ShutdownPriority) result" where
  "shutdown_priority_new value =
     (if MAX_SHUTDOWN_PRIORITY < value
      then Inl (with_internal_context (error_from_code InvalidArgumentCode)
        ''module shutdown priority is outside its bound'')
      else Inr value)"

record SecretCapabilityRequirement =
  sc_requirement :: CapabilityRequirement

text \<open>\<open>u8::is_ascii_control\<close> and \<open>is_ascii_hexdigit\<close>.\<close>

definition is_control :: "char \<Rightarrow> bool" where
  "is_control c \<longleftrightarrow> (of_char c :: nat) < 32 \<or> (of_char c :: nat) = 127"

definition is_hexdigit :: "char \<Rightarrow> bool" where
  "is_hexdigit c \<longleftrightarrow>
     is_digit c \<or> (97 \<le> (of_char c :: nat) \<and> (of_char c :: nat) \<le> 102) \<or>
     (65 \<le> (of_char c :: nat) \<and> (of_char c :: nat) \<le> 70)"

definition validate_namespace :: "string \<Rightarrow> (CoreError, unit) result" where
  "validate_namespace value =
     (let invalid_shape = (value = [] \<or> MAX_NAMESPACE_BYTES < length value);
          invalid_alphabet = (\<not> is_ascii value \<or> list_ex is_control value)
      in if invalid_shape \<or> invalid_alphabet
         then Inl (with_internal_context (error_from_code InvalidArgumentCode)
           ''module namespace is invalid'')
         else Inr ())"

record ConfigurationContract =
  cc_schema_id :: string
  cc_version :: ModuleVersion
  cc_supports_hot_reload :: bool

definition configuration_contract_new ::
  "string \<Rightarrow> ModuleVersion \<Rightarrow> bool \<Rightarrow> (CoreError, ConfigurationContract) result" where
  "configuration_contract_new schema_id version hot =
     bind_result (validate_namespace schema_id) (\<lambda>_.
     Inr \<lparr>cc_schema_id = schema_id, cc_version = version, cc_supports_hot_reload = hot\<rparr>)"

record ModuleDescriptor =
  md_id :: ModuleId
  md_version :: ModuleVersion
  md_build_commit :: string
  md_abi_version :: AbiVersion
  md_provided :: "CapabilityProvider list"
  md_required :: "CapabilityRequirement list"
  md_required_secret_capabilities :: "SecretCapabilityRequirement list"
  md_configuration :: ConfigurationContract
  md_resources :: ResourceBudget
  md_shutdown_priority :: ShutdownPriority
  md_sensitive_paths :: "string list"
  md_observability_namespace :: string
  md_audit_namespace :: string

text \<open>\<open>ModuleDescriptorInput\<close> has the fields of the descriptor.\<close>

type_synonym ModuleDescriptorInput = ModuleDescriptor

definition validate_provider_ownership ::
  "ModuleId \<Rightarrow> CapabilityProvider list \<Rightarrow> (CoreError, unit) result" where
  "validate_provider_ownership module_id providers =
     (if list_ex (\<lambda>provider. cp_module_id provider \<noteq> module_id) providers
      then Inl (with_internal_context (error_from_code ConflictCode)
        ''capability provider owner differs from module descriptor'')
      else Inr ())"

definition validate_capability_counts :: "nat \<Rightarrow> nat \<Rightarrow> nat \<Rightarrow> (CoreError, unit) result" where
  "validate_capability_counts provided required required_secrets =
     (let ordinary_limit_exceeded = (MAX_CAPABILITIES < provided \<or> MAX_CAPABILITIES < required)
      in if ordinary_limit_exceeded \<or> MAX_SECRET_CAPABILITIES < required_secrets
         then Inl (with_internal_context (error_from_code ResourceExhaustedCode)
           ''module capability declaration limit reached'')
         else Inr ())"

definition validate_sensitive_paths :: "string list \<Rightarrow> (CoreError, unit) result" where
  "validate_sensitive_paths paths =
     (if MAX_SENSITIVE_PATHS < length paths
      then Inl (with_internal_context (error_from_code ResourceExhaustedCode)
        ''module sensitive path limit reached'')
      else check_each validate_namespace paths)"

definition validate_descriptor_input :: "ModuleDescriptorInput \<Rightarrow> (CoreError, unit) result" where
  "validate_descriptor_input input =
     bind_result (validate_capability_counts (length (md_provided input))
       (length (md_required input)) (length (md_required_secret_capabilities input))) (\<lambda>_.
     bind_result (validate_provider_ownership (md_id input) (md_provided input)) (\<lambda>_.
     bind_result (validate_namespace (md_build_commit input)) (\<lambda>_.
     bind_result (validate_sensitive_paths (md_sensitive_paths input)) (\<lambda>_.
     bind_result (validate_namespace (md_observability_namespace input)) (\<lambda>_.
     bind_result (validate_namespace (md_audit_namespace input)) (\<lambda>_.
     resource_budget_validate (md_resources input)))))))"

definition module_descriptor_new ::
  "ModuleDescriptorInput \<Rightarrow> (CoreError, ModuleDescriptor) result" where
  "module_descriptor_new input = bind_result (validate_descriptor_input input) (\<lambda>_. Inr input)"

record ModuleConfigurationSnapshot =
  mc_schema_id :: string
  mc_version :: u64
  mc_digest :: string

definition validate_configuration_version :: "u64 \<Rightarrow> (CoreError, unit) result" where
  "validate_configuration_version version =
     (if version = 0
      then Inl (with_internal_context (error_from_code InvalidArgumentCode)
        ''configuration snapshot version must be positive'')
      else Inr ())"

definition validate_configuration_digest :: "string \<Rightarrow> (CoreError, unit) result" where
  "validate_configuration_digest digest =
     (if \<not> (length digest = CONFIGURATION_DIGEST_BYTES \<and> list_all is_hexdigit digest)
      then Inl (with_internal_context (error_from_code InvalidArgumentCode)
        ''configuration snapshot digest is invalid'')
      else Inr ())"

definition configuration_snapshot_new ::
  "string \<Rightarrow> u64 \<Rightarrow> string \<Rightarrow> (CoreError, ModuleConfigurationSnapshot) result" where
  "configuration_snapshot_new schema_id version digest =
     bind_result (validate_configuration_version version) (\<lambda>_.
     bind_result (validate_namespace schema_id) (\<lambda>_.
     bind_result (validate_configuration_digest digest) (\<lambda>_.
     Inr \<lparr>mc_schema_id = schema_id, mc_version = version, mc_digest = digest\<rparr>)))"

record ModuleShutdownReport =
  sr_tasks_completed :: nat
  sr_tasks_incomplete :: nat
  sr_flushed :: bool

section \<open>Health reports\<close>

definition MAX_MODULE_REPORTS :: nat where "MAX_MODULE_REPORTS = 256"

datatype HealthStatus = HealthLive | HealthReady | HealthDegraded | HealthUnavailable

fun health_severity :: "HealthStatus \<Rightarrow> u8" where
  "health_severity HealthLive = 1"
| "health_severity HealthReady = 0"
| "health_severity HealthDegraded = 2"
| "health_severity HealthUnavailable = 3"

datatype HealthReasonCode =
  StartingReason | CoreReady | DependencyDegraded | DependencyUnavailable | ConfigurationInvalid
| ResourceExhaustedReason | ShutdownRequested | InternalFailure

record ModuleHealthSnapshot =
  hs_module_id :: ModuleId
  hs_status :: HealthStatus
  hs_reason :: HealthReasonCode

text \<open>The observation time of a report is not modelled: nothing reads it back.\<close>

record HealthReport =
  hr_status :: HealthStatus
  hr_reason :: HealthReasonCode
  hr_modules :: "ModuleHealthSnapshot list"

definition health_report_new :: "HealthStatus \<Rightarrow> HealthReasonCode \<Rightarrow> HealthReport" where
  "health_report_new status reason = \<lparr>hr_status = status, hr_reason = reason, hr_modules = []\<rparr>"

definition core_ready_report :: HealthReport where
  "core_ready_report = health_report_new HealthReady CoreReady"

definition worse_status :: "HealthStatus \<Rightarrow> HealthStatus \<Rightarrow> HealthStatus" where
  "worse_status left right =
     (if health_severity right \<le> health_severity left then left else right)"

fun reason_for_status :: "HealthStatus \<Rightarrow> HealthReasonCode" where
  "reason_for_status HealthLive = StartingReason"
| "reason_for_status HealthReady = CoreReady"
| "reason_for_status HealthDegraded = DependencyDegraded"
| "reason_for_status HealthUnavailable = DependencyUnavailable"

definition add_module ::
  "ModuleHealthSnapshot \<Rightarrow> HealthReport \<Rightarrow> (CoreError, unit) result \<times> HealthReport" where
  "add_module m report =
     (if MAX_MODULE_REPORTS \<le> length (hr_modules report)
      then (Inl (with_internal_context (error_from_code ResourceExhaustedCode)
        ''module health report limit reached''), report)
      else let previous_status = hr_status report;
               status = worse_status previous_status (hs_status m);
               reason = (if status \<noteq> previous_status then reason_for_status status else hr_reason report)
           in (Inr (), report\<lparr>hr_status := status, hr_reason := reason,
                 hr_modules := hr_modules report @ [m]\<rparr>))"

section \<open>Registration and resolution\<close>

definition graph_ok :: "CapabilityGraph \<Rightarrow> bool" where
  "graph_ok g \<longleftrightarrow> length (cg_providers g) \<le> 256 \<and> distinct (map cp_id (cg_providers g))"

lemma graph_ok_empty [simp]: "graph_ok empty_graph"
  by (simp add: graph_ok_def empty_graph_def)

lemma has_batch_duplicate_iff: "has_batch_duplicate ps \<longleftrightarrow> \<not> distinct (map cp_id ps)"
proof -
  have "has_batch_duplicate ps \<longleftrightarrow> (\<exists>i j. i < j \<and> j < length ps \<and> cp_id (ps ! j) = cp_id (ps ! i))"
    (is "_ \<longleftrightarrow> ?dup")
  proof
    assume "has_batch_duplicate ps"
    then obtain i q where i: "i < length ps" and q: "q \<in> set (drop (i + 1) ps)" "cp_id q = cp_id (ps ! i)"
      by (auto simp: has_batch_duplicate_def list_ex_iff in_set_enumerate_eq)
    then obtain k where "k < length (drop (i + 1) ps)" "drop (i + 1) ps ! k = q"
      by (metis in_set_conv_nth)
    with q have "i < i + 1 + k \<and> i + 1 + k < length ps \<and> cp_id (ps ! (i + 1 + k)) = cp_id (ps ! i)"
      by simp
    then show ?dup by blast
  next
    assume ?dup
    then obtain i j where ij: "i < j" "j < length ps" "cp_id (ps ! j) = cp_id (ps ! i)" by blast
    then have "ps ! j \<in> set (drop (i + 1) ps)"
      by (auto simp: in_set_conv_nth intro!: exI [of _ "j - (i + 1)"])
    moreover have "(i, ps ! i) \<in> set (List.enumerate 0 ps)"
      using ij by (simp add: in_set_enumerate_eq)
    ultimately show "has_batch_duplicate ps"
      unfolding has_batch_duplicate_def list_ex_iff using ij(3) by fastforce
  qed
  also have "\<dots> \<longleftrightarrow> \<not> distinct (map cp_id ps)"
  proof
    assume ?dup
    then show "\<not> distinct (map cp_id ps)"
      by (auto simp: distinct_conv_nth) (metis nat_neq_iff order.strict_trans)
  next
    assume "\<not> distinct (map cp_id ps)"
    then obtain i j where "i < length ps" "j < length ps" "i \<noteq> j" "cp_id (ps ! i) = cp_id (ps ! j)"
      by (auto simp: distinct_conv_nth)
    then show ?dup by (metis nat_neq_iff)
  qed
  finally show ?thesis .
qed

lemma has_existing_provider_iff:
  "has_existing_provider old ps \<longleftrightarrow> (\<exists>p \<in> set old. \<exists>q \<in> set ps. cp_id p = cp_id q)"
  by (auto simp: has_existing_provider_def list_ex_iff)

lemma register_batch_ok:
  "graph_ok g \<Longrightarrow>
   register_batch ps g = (Inr u, g') \<longleftrightarrow>
     graph_ok g' \<and> cg_providers g' = cg_providers g @ ps"
  by (cases g; cases g')
    (auto simp: register_batch_def validate_batch_capacity_def MAX_GRAPH_CAPABILITIES_def graph_ok_def
      has_batch_duplicate_iff has_existing_provider_iff disjoint_iff split: if_splits; metis imageI)

lemma register_batch_refused: "register_batch ps g = (Inl e, g') \<Longrightarrow> g' = g"
  by (auto simp: register_batch_def split: sum.splits if_splits)

lemma register_batch_refused_code:
  "register_batch ps g = (Inl e, g') \<Longrightarrow>
     ce_code e = (if 256 - length (cg_providers g) < length ps then ResourceExhaustedCode else ConflictCode)"
  by (auto simp: register_batch_def validate_batch_capacity_def MAX_GRAPH_CAPABILITIES_def
      split: sum.splits if_splits)

lemma register_batch_grows:
  "register_batch ps g = (r, g') \<Longrightarrow> set (cg_providers g) \<subseteq> set (cg_providers g')"
  by (auto simp: register_batch_def split: sum.splits if_splits)

lemma register_batch_graph_ok: "graph_ok g \<Longrightarrow> register_batch ps g = (r, g') \<Longrightarrow> graph_ok g'"
  by (cases r) (auto dest: register_batch_refused simp: register_batch_ok)

lemma find_distinct:
  "distinct (map f xs) \<Longrightarrow> List.find (\<lambda>x. f x = k) xs = Some x \<longleftrightarrow> x \<in> set xs \<and> f x = k"
  by (induction xs) (auto simp: image_iff split: if_splits)

lemma find_absent: "List.find P xs = None \<longleftrightarrow> (\<forall>x \<in> set xs. \<not> P x)"
  by (auto simp: find_None_iff)

lemma resolve_one_ok:
  "graph_ok g \<Longrightarrow>
   resolve_one g r = Inr b \<longleftrightarrow>
     cb_requirement b = r \<and> cb_provider b \<in> set (cg_providers g) \<and> cp_id (cb_provider b) = cr_id r \<and>
     accepts r (cp_version (cb_provider b))"
  by (cases b) (auto simp: resolve_one_def results graph_ok_def find_distinct)

lemma graph_resolve_ok:
  assumes "graph_ok g"
  shows "graph_resolve g rs = Inr res \<longleftrightarrow>
    length rs \<le> 256 \<and> map cb_requirement (res_bindings res) = rs \<and>
    (\<forall>b \<in> set (res_bindings res). cb_provider b \<in> set (cg_providers g) \<and>
       cp_id (cb_provider b) = cr_id (cb_requirement b) \<and>
       accepts (cb_requirement b) (cp_version (cb_provider b)))" (is "_ \<longleftrightarrow> ?r")
proof -
  have "list_all2 (\<lambda>x y. resolve_one g x = Inr y) rs bs \<longleftrightarrow>
      map cb_requirement bs = rs \<and> (\<forall>b \<in> set bs. resolve_one g (cb_requirement b) = Inr b)" for bs
    by (induction rs arbitrary: bs) (auto simp: list_all2_Cons1 resolve_one_ok [OF assms])
  then show ?thesis
    by (cases res) (auto simp: graph_resolve_def MAX_GRAPH_CAPABILITIES_def results collect_result_ok
        resolve_one_ok [OF assms])
qed

section \<open>Descriptors\<close>

definition namespace_ok :: "string \<Rightarrow> bool" where
  "namespace_ok s \<longleftrightarrow>
     0 < length s \<and> length s \<le> 128 \<and> (\<forall>c \<in> set s. 32 \<le> (of_char c :: nat) \<and> (of_char c :: nat) \<le> 126)"

lemma validate_namespace_ok [results]: "validate_namespace s = Inr u \<longleftrightarrow> namespace_ok s"
  by (force simp: validate_namespace_def namespace_ok_def MAX_NAMESPACE_BYTES_def is_ascii_def
      list_all_iff list_ex_iff is_control_def Let_def)

definition descriptor_ok :: "ModuleDescriptor \<Rightarrow> bool" where
  "descriptor_ok d \<longleftrightarrow>
     length (md_provided d) \<le> 128 \<and> length (md_required d) \<le> 128 \<and>
     length (md_required_secret_capabilities d) \<le> 64 \<and>
     (\<forall>p \<in> set (md_provided d). cp_module_id p = md_id d) \<and>
     namespace_ok (md_build_commit d) \<and> length (md_sensitive_paths d) \<le> 64 \<and>
     (\<forall>p \<in> set (md_sensitive_paths d). namespace_ok p) \<and>
     namespace_ok (md_observability_namespace d) \<and> namespace_ok (md_audit_namespace d) \<and>
     budget_ok (md_resources d)"

lemma module_descriptor_new_ok:
  "module_descriptor_new input = Inr d \<longleftrightarrow> d = input \<and> descriptor_ok d"
  by (auto simp: module_descriptor_new_def validate_descriptor_input_def validate_capability_counts_def
      validate_provider_ownership_def validate_sensitive_paths_def MAX_CAPABILITIES_def
      MAX_SECRET_CAPABILITIES_def MAX_SENSITIVE_PATHS_def descriptor_ok_def list_ex_iff Let_def results)

section \<open>Aggregation of health\<close>

lemma worse_status_severity:
  "health_severity (worse_status a b) = max (health_severity a) (health_severity b)"
  by (cases a; cases b) (simp_all add: worse_status_def max_def word_le_nat_alt)

lemma add_module_ok:
  "add_module m r = (Inr u, r') \<Longrightarrow>
     hr_modules r' = hr_modules r @ [m] \<and> length (hr_modules r) < 256 \<and>
     hr_status r' = worse_status (hr_status r) (hs_status m)"
  by (auto simp: add_module_def Let_def MAX_MODULE_REPORTS_def split: if_splits)

end
