(* ===== verification/Core_Properties.thy ===== *)
theory Core_Properties
  imports Core_Module
begin

text \<open>
  Properties of the core contracts: versions survive printing and parsing, a capability graph
  resolves requirements to the one provider of each capability, and exactly the bounded descriptors
  are accepted.
\<close>

section \<open>Versions\<close>

text \<open>
  Every module version and every ABI version is read back unchanged from the text it prints.
\<close>

theorem versions_survive_printing:
  "parse_module_version (show_module_version v) = Inr v \<and> parse_abi_version (show_abi_version a) = Inr a"
  by (simp add: parse_show_module_version parse_show_abi_version)

section \<open>Capability graphs\<close>

text \<open>The graph after a sequence of batches, accepted or refused.\<close>

definition registered_graph :: "CapabilityProvider list list \<Rightarrow> CapabilityGraph" where
  "registered_graph batches = fold (\<lambda>batch graph. snd (register_batch batch graph)) batches empty_graph"

lemma graph_ok_step: "graph_ok g \<Longrightarrow> graph_ok (snd (register_batch ps g))"
  using register_batch_graph_ok by (metis prod.collapse)

lemma graph_ok_registered: "graph_ok (registered_graph batches)"
proof -
  have "graph_ok g \<Longrightarrow> graph_ok (fold (\<lambda>batch graph. snd (register_batch batch graph)) batches g)" for g
    by (induction batches arbitrary: g) (simp_all add: graph_ok_step)
  then show ?thesis by (simp add: registered_graph_def)
qed

lemma graph_ok_unique:
  "graph_ok g \<Longrightarrow> p \<in> set (cg_providers g) \<Longrightarrow> q \<in> set (cg_providers g) \<Longrightarrow> cp_id p = cp_id q \<Longrightarrow> p = q"
  by (auto simp: graph_ok_def distinct_map dest: inj_onD)

text \<open>
  In a graph built by any sequence of batches a capability has at most one provider and a
  further batch is added whole or not at all. Resolution succeeds exactly when there are at most 256
  requirements and each has a provider whose version it accepts, and then binds every requirement,
  in order, to that provider.
\<close>

theorem resolution_binds_the_accepted_provider:
  fixes batches requirements
  defines "g \<equiv> registered_graph batches"
  shows "length (cg_providers g) \<le> 256 \<and> distinct (map cp_id (cg_providers g)) \<and>
    cg_providers (snd (register_batch ps g)) \<in> {cg_providers g, cg_providers g @ ps} \<and>
    ((\<exists>res. graph_resolve g requirements = Inr res) \<longleftrightarrow>
      length requirements \<le> 256 \<and>
      (\<forall>r \<in> set requirements. \<exists>p \<in> set (cg_providers g). cp_id p = cr_id r \<and> accepts r (cp_version p))) \<and>
    (\<forall>res. graph_resolve g requirements = Inr res \<longrightarrow>
      map cb_requirement (res_bindings res) = requirements \<and>
      (\<forall>b \<in> set (res_bindings res). cb_provider b \<in> set (cg_providers g) \<and>
         cp_id (cb_provider b) = cr_id (cb_requirement b) \<and>
         accepts (cb_requirement b) (cp_version (cb_provider b))))"
proof (rule conjI [OF _ conjI [OF _ conjI [OF _ conjI [OF _ allI [OF impI]]]]])
  have ok: "graph_ok g" unfolding g_def by (rule graph_ok_registered)
  then show "length (cg_providers g) \<le> 256" and "distinct (map cp_id (cg_providers g))"
    by (simp_all add: graph_ok_def)
  show "cg_providers (snd (register_batch ps g)) \<in> {cg_providers g, cg_providers g @ ps}"
    by (auto simp: register_batch_def split: sum.splits)
  show bindings: "map cb_requirement (res_bindings res) = requirements \<and>
      (\<forall>b \<in> set (res_bindings res). cb_provider b \<in> set (cg_providers g) \<and>
         cp_id (cb_provider b) = cr_id (cb_requirement b) \<and>
         accepts (cb_requirement b) (cp_version (cb_provider b)))"
    if "graph_resolve g requirements = Inr res" for res
    using that graph_resolve_ok [OF ok] by blast
  show "(\<exists>res. graph_resolve g requirements = Inr res) \<longleftrightarrow>
      length requirements \<le> 256 \<and>
      (\<forall>r \<in> set requirements. \<exists>p \<in> set (cg_providers g). cp_id p = cr_id r \<and> accepts r (cp_version p))"
    (is "_ \<longleftrightarrow> ?providers")
  proof
    assume "\<exists>res. graph_resolve g requirements = Inr res"
    then obtain res where res: "graph_resolve g requirements = Inr res" ..
    have "\<exists>p \<in> set (cg_providers g). cp_id p = cr_id r \<and> accepts r (cp_version p)"
      if "r \<in> set requirements" for r
    proof -
      obtain b where "b \<in> set (res_bindings res)" "cb_requirement b = r"
        using bindings [OF res] \<open>r \<in> set requirements\<close> by auto
      then show ?thesis using bindings [OF res] by auto
    qed
    then show ?providers using res graph_resolve_ok [OF ok] by blast
  next
    assume prov: ?providers
    then obtain provider where provider: "provider r \<in> set (cg_providers g)"
        "cp_id (provider r) = cr_id r" "accepts r (cp_version (provider r))"
      if "r \<in> set requirements" for r
      by metis
    let ?res = "\<lparr>res_bindings = map (\<lambda>r. \<lparr>cb_requirement = r, cb_provider = provider r\<rparr>) requirements\<rparr>"
    have "graph_resolve g requirements = Inr ?res"
      using prov provider by (simp add: graph_resolve_ok [OF ok] comp_def)
    then show "\<exists>res. graph_resolve g requirements = Inr res" ..
  qed
qed

definition demo_provider :: CapabilityProvider where
  "demo_provider = \<lparr>cp_id = ''c.x'', cp_version = ModuleVersion 1 2 0, cp_module_id = ''m.a''\<rparr>"

definition demo_requirement :: CapabilityRequirement where
  "demo_requirement = \<lparr>cr_id = ''c.x'', cr_minimum = ModuleVersion 1 0 0, cr_maximum_major = Some 1\<rparr>"

theorem resolution_binds_the_accepted_provider_witness:
  "\<exists>res. graph_resolve (registered_graph [[demo_provider]]) [demo_requirement] = Inr res \<and>
     map cb_requirement (res_bindings res) = [demo_requirement]"
proof -
  have graph: "cg_providers (registered_graph [[demo_provider]]) = [demo_provider]"
    by (simp add: registered_graph_def register_batch_def validate_batch_capacity_def
        MAX_GRAPH_CAPABILITIES_def has_existing_provider_def has_batch_duplicate_def empty_graph_def)
  have "accepts demo_requirement (cp_version demo_provider)" "cp_id demo_provider = cr_id demo_requirement"
    by (simp_all add: accepts_def demo_requirement_def demo_provider_def less_eq_ModuleVersion_def
        word_le_nat_alt word_less_nat_alt)
  then have "\<exists>res. graph_resolve (registered_graph [[demo_provider]]) [demo_requirement] = Inr res"
    using resolution_binds_the_accepted_provider [of "[[demo_provider]]" "[]" "[demo_requirement]"]
    by (simp add: graph)
  then show ?thesis
    using resolution_binds_the_accepted_provider [of "[[demo_provider]]" "[]" "[demo_requirement]"] by blast
qed

section \<open>Descriptors\<close>

text \<open>
  A module descriptor is accepted, unchanged, exactly when it declares at most 128 provided, 128
  required and 64 secret capabilities, owns every capability it provides, names its build, its
  namespaces and at most 64 sensitive paths in 1 to 128 printable characters, and its budgets are in
  range: durations between one nanosecond and one day, at most 1024 restarts, between 1 and 2^16
  tasks and 2^20 queued items, between 1 and 2^40 bytes of memory, and WASM limits, when enabled, of
  at most 2^50 fuel and no more memory than the module.
\<close>

theorem accepted_descriptors_are_bounded:
  "module_descriptor_new input = Inr d \<longleftrightarrow>
     d = input \<and> length (md_provided d) \<le> 128 \<and> length (md_required d) \<le> 128 \<and>
     length (md_required_secret_capabilities d) \<le> 64 \<and>
     {p \<in> set (md_provided d). cp_module_id p \<noteq> md_id d} = {} \<and>
     namespace_ok (md_build_commit d) \<and> namespace_ok (md_observability_namespace d) \<and>
     namespace_ok (md_audit_namespace d) \<and> length (md_sensitive_paths d) \<le> 64 \<and>
     list_all namespace_ok (md_sensitive_paths d) \<and> budget_ok (md_resources d)"
  by (auto simp: module_descriptor_new_ok descriptor_ok_def list_all_iff)

end
