(* ===== verification/Dependency_Graph.thy ===== *)
theory Dependency_Graph
  imports Prelude "HOL-Library.Sublist"
begin

text \<open>
  The graph loops of \<open>crates/ariadnion-core/src/lifecycle.rs\<close> on plain dependency lists, where
  entry \<open>i\<close> lists the providers that module \<open>i\<close> is bound to: the breadth-first search that looks
  for a path back to its origin, the queue-driven startup order and the leaf-first shutdown order.
  The lemmas show that the search decides membership in a cycle, that the startup order lists
  every provider before its consumers and leaves out only modules that depend on a cycle, and that
  the shutdown order stops every consumer before its providers.

  All lists that the supervisor builds have one entry per module and hold indices of modules. An
  index out of range, where the slice access of the source would panic, is skipped here; the
  supervisor's theory shows that none occurs.
\<close>

section \<open>The dependency relation\<close>

definition depends :: "nat list list \<Rightarrow> (nat \<times> nat) set" where
  "depends deps = {(i, j). i < length deps \<and> j \<in> set (deps ! i)}"

definition in_range :: "nat list list \<Rightarrow> bool" where
  "in_range deps \<longleftrightarrow> (\<forall>ds \<in> set deps. \<forall>j \<in> set ds. j < length deps)"

lemma depends_iff: "(i, j) \<in> depends deps \<longleftrightarrow> i < length deps \<and> j \<in> set (deps ! i)"
  by (simp add: depends_def)

lemma in_range_nth: "in_range deps \<Longrightarrow> i < length deps \<Longrightarrow> j \<in> set (deps ! i) \<Longrightarrow> j < length deps"
  by (auto simp: in_range_def)

lemma depends_finite: "in_range deps \<Longrightarrow> finite (depends deps)"
proof -
  assume r: "in_range deps"
  have "depends deps \<subseteq> {..<length deps} \<times> {..<length deps}"
    using in_range_nth [OF r] by (auto simp: depends_def)
  then show ?thesis by (rule finite_subset) simp
qed

section \<open>Searching a path back to the origin\<close>

lemma filter_Not_update:
  "i < length bs \<Longrightarrow> \<not> bs ! i \<Longrightarrow> length (filter Not (bs[i := True])) < length (filter Not bs)"
proof (induction bs arbitrary: i)
  case Nil
  then show ?case by simp
next
  case (Cons b bs)
  then show ?case by (cases i) auto
qed

function path_loop :: "nat \<Rightarrow> nat list list \<Rightarrow> nat list \<Rightarrow> bool list \<Rightarrow> bool" where
  "path_loop origin deps [] visited = False"
| "path_loop origin deps (index # pending) visited =
     (if index = origin then True
      else if length visited \<le> index \<or> visited ! index then path_loop origin deps pending visited
      else path_loop origin deps (pending @ deps ! index) (visited[index := True]))"
  by pat_completeness auto

termination
  by (relation "measures [\<lambda>(origin, deps, pending, visited). length (filter Not visited),
      \<lambda>(origin, deps, pending, visited). length pending]")
    (auto simp: filter_Not_update)

definition dependency_path_returns_to :: "nat \<Rightarrow> nat list list \<Rightarrow> bool" where
  "dependency_path_returns_to origin deps =
     path_loop origin deps (deps ! origin) (replicate (length deps) False)"

definition seen :: "bool list \<Rightarrow> nat set" where
  "seen visited = {i. i < length visited \<and> visited ! i}"

lemma seen_update: "i < length visited \<Longrightarrow> seen (visited[i := True]) = insert i (seen visited)"
  by (auto simp: seen_def nth_list_update)

lemma closed_trancl:
  assumes "(a, b) \<in> r\<^sup>+" and "\<And>c. (a, c) \<in> r \<Longrightarrow> c \<in> S" and "\<And>c d. c \<in> S \<Longrightarrow> (c, d) \<in> r \<Longrightarrow> d \<in> S"
  shows "b \<in> S"
  using assms(1) by (induction rule: trancl_induct) (auto intro: assms(2,3))

lemma depends_trancl_range: "(i, j) \<in> (depends deps)\<^sup>+ \<Longrightarrow> in_range deps \<Longrightarrow> j < length deps"
  by (erule tranclE) (metis depends_iff in_range_nth)+

lemma path_loop_correct:
  "in_range deps \<Longrightarrow> origin < length deps \<Longrightarrow> length visited = length deps \<Longrightarrow> set (deps ! origin) \<subseteq> seen visited \<union> set pending \<Longrightarrow>
    (\<forall>v \<in> seen visited. set (deps ! v) \<subseteq> seen visited \<union> set pending) \<Longrightarrow>
    origin \<notin> seen visited \<Longrightarrow>
    (\<forall>v \<in> seen visited \<union> set pending. (origin, v) \<in> (depends deps)\<^sup>+) \<Longrightarrow>
    path_loop origin deps pending visited \<longleftrightarrow> (origin, origin) \<in> (depends deps)\<^sup>+"
proof (induction origin deps pending visited rule: path_loop.induct)
  case (1 origin deps visited)
  have "origin \<in> seen visited" if cyc: "(origin, origin) \<in> (depends deps)\<^sup>+"
    using cyc by (rule closed_trancl) (use 1 in \<open>auto simp: depends_iff\<close>)
  with 1 show ?case by auto
next
  case (2 origin deps index pending visited)
  have reach: "(origin, index) \<in> (depends deps)\<^sup>+" using 2 by simp
  then have index: "index < length deps" using 2 depends_trancl_range by blast
  show ?case
  proof (cases "index = origin")
    case True
    with reach show ?thesis by simp
  next
    case False
    show ?thesis
    proof (cases "visited ! index")
      case True
      then have "index \<in> seen visited" using index 2 by (simp add: seen_def)
      with True False 2 show ?thesis by auto
    next
      case unseen: False
      have next_reach: "(origin, w) \<in> (depends deps)\<^sup>+" if "w \<in> set (deps ! index)" for w
        using reach that index by (auto simp: depends_iff intro: trancl_into_trancl)
      have "path_loop origin deps (pending @ deps ! index) (visited[index := True]) \<longleftrightarrow>
          (origin, origin) \<in> (depends deps)\<^sup>+"
        using 2 False unseen index next_reach
        by (intro "2.IH"(2)) (auto simp: seen_update)
      with False unseen index 2 show ?thesis by simp
    qed
  qed
qed

lemma dependency_path_returns_to_iff:
  assumes "in_range deps" and "origin < length deps"
  shows "dependency_path_returns_to origin deps \<longleftrightarrow> (origin, origin) \<in> (depends deps)\<^sup>+"
  unfolding dependency_path_returns_to_def
  using assms by (intro path_loop_correct) (auto simp: seen_def depends_iff intro: r_into_trancl)

section \<open>Startup order\<close>

text \<open>
  One pass over the consumers after \<open>provider\<close> has been placed: a consumer bound to it has one
  unplaced provider less, and joins the queue when none is left.
\<close>

definition release_dependent ::
  "nat \<Rightarrow> nat list list \<Rightarrow> nat \<Rightarrow> nat list \<times> nat list \<Rightarrow> nat list \<times> nat list" where
  "release_dependent provider deps consumer state =
     (case state of (indegrees, queue) \<Rightarrow>
        if provider \<in> set (deps ! consumer) \<and> consumer < length indegrees \<and> 0 < indegrees ! consumer
        then (indegrees[consumer := indegrees ! consumer - 1],
              if indegrees ! consumer - 1 = 0 then queue @ [consumer] else queue)
        else (indegrees, queue))"

definition release_dependents ::
  "nat \<Rightarrow> nat list list \<Rightarrow> nat list \<times> nat list \<Rightarrow> nat list \<times> nat list" where
  "release_dependents provider deps state =
     fold (release_dependent provider deps) [0..<length deps] state"

lemma release_dependent_measure:
  "release_dependent p deps c (ind, q) = (ind', q') \<Longrightarrow>
     sum_list ind' + length q' \<le> sum_list ind + length q"
proof -
  have "sum_list (ind[c := ind ! c - 1]) + 1 = sum_list ind" if "c < length ind" "0 < ind ! c"
    using that elem_le_sum_list [of c ind] by (simp add: sum_list_update)
  then show "release_dependent p deps c (ind, q) = (ind', q') \<Longrightarrow> ?thesis"
    by (auto simp: release_dependent_def split: if_splits)
qed

lemma release_dependents_measure:
  "fold (release_dependent p deps) cs (ind, q) = (ind', q') \<Longrightarrow>
     sum_list ind' + length q' \<le> sum_list ind + length q"
proof (induction cs arbitrary: ind q)
  case Nil
  then show ?case by simp
next
  case (Cons c cs)
  obtain ind1 q1 where c: "release_dependent p deps c (ind, q) = (ind1, q1)" by fastforce
  with Cons show ?case using release_dependent_measure [OF c] by fastforce
qed

function order_loop :: "nat list list \<Rightarrow> nat list \<Rightarrow> nat list \<Rightarrow> nat list \<Rightarrow> nat list" where
  "order_loop deps indegrees [] order = order"
| "order_loop deps indegrees (provider # queue) order =
     (case release_dependents provider deps (indegrees, queue) of
        (indegrees', queue') \<Rightarrow> order_loop deps indegrees' queue' (order @ [provider]))"
  by pat_completeness auto

termination
  by (relation "measure (\<lambda>(deps, indegrees, queue, order). sum_list indegrees + length queue)")
    (auto simp: release_dependents_def less_Suc_eq_le dest!: release_dependents_measure [OF sym])

text \<open>The effect of a release pass, in closed form.\<close>

lemma release_dependents_prefix:
  assumes "length ind = length deps" and "k \<le> length deps"
  shows "fold (release_dependent p deps) [0..<k] (ind, q) =
    (map (\<lambda>c. if c < k \<and> p \<in> set (deps ! c) then ind ! c - 1 else ind ! c) [0..<length deps],
     q @ filter (\<lambda>c. p \<in> set (deps ! c) \<and> ind ! c = 1) [0..<k])"
  using assms(2)
proof (induction k)
  case 0
  then show ?case by (simp add: assms(1) map_nth flip: assms(1))
next
  case (Suc k)
  have upd: "(map f [0..<n])[k := v] = map (f(k := v)) [0..<n]" for f :: "nat \<Rightarrow> nat" and v n
    by (rule nth_equalityI) (auto simp: nth_list_update)
  show ?case
    using Suc by (auto simp: release_dependent_def upd fun_upd_def less_Suc_eq intro!: map_cong)
qed

lemma release_dependents_eq:
  "length ind = length deps \<Longrightarrow>
   release_dependents p deps (ind, q) =
     (map (\<lambda>c. if p \<in> set (deps ! c) then ind ! c - 1 else ind ! c) [0..<length deps],
      q @ filter (\<lambda>c. p \<in> set (deps ! c) \<and> ind ! c = 1) [0..<length deps])"
  unfolding release_dependents_def by (simp add: release_dependents_prefix)

text \<open>
  \<open>dependency_lists P deps\<close>: the lists that the supervisor builds for the participating modules
  \<open>P\<close>. Each is free of repetitions, names participants only, and is empty outside \<open>P\<close>.
\<close>

definition dependency_lists :: "nat set \<Rightarrow> nat list list \<Rightarrow> bool" where
  "dependency_lists P deps \<longleftrightarrow>
     P \<subseteq> {..<length deps} \<and>
     (\<forall>c < length deps. distinct (deps ! c) \<and> set (deps ! c) \<subseteq> P \<and> (c \<notin> P \<longrightarrow> deps ! c = []))"

lemma dependency_lists_in_range: "dependency_lists P deps \<Longrightarrow> in_range deps"
  unfolding dependency_lists_def in_range_def by (metis in_set_conv_nth lessThan_iff subsetD)

text \<open>Every element of \<open>order\<close> comes after all its providers.\<close>

definition providers_first :: "nat list list \<Rightarrow> nat list \<Rightarrow> bool" where
  "providers_first deps order \<longleftrightarrow>
     (\<forall>k < length order. set (deps ! (order ! k)) \<subseteq> set (take k order))"

lemma providers_first_snoc:
  "providers_first deps order \<Longrightarrow> set (deps ! p) \<subseteq> set order \<Longrightarrow> providers_first deps (order @ [p])"
  by (auto simp: providers_first_def nth_append less_Suc_eq)

definition order_inv ::
  "nat set \<Rightarrow> nat list list \<Rightarrow> nat list \<Rightarrow> nat list \<Rightarrow> nat list \<Rightarrow> bool" where
  "order_inv P deps ind queue order \<longleftrightarrow>
     length ind = length deps \<and> distinct (order @ queue) \<and> set (order @ queue) \<subseteq> P \<and>
     (\<forall>c < length deps. ind ! c = card (set (deps ! c) - set order)) \<and>
     (\<forall>c \<in> P. ind ! c = 0 \<longleftrightarrow> c \<in> set (order @ queue)) \<and> providers_first deps order"

lemma order_inv_step:
  assumes wf: "dependency_lists P deps" and inv: "order_inv P deps ind (p # queue) order"
    and step: "release_dependents p deps (ind, queue) = (ind', queue')"
  shows "order_inv P deps ind' queue' (order @ [p])"
proof -
  note inv' = inv [unfolded order_inv_def]
  have ind': "ind' = map (\<lambda>c. if p \<in> set (deps ! c) then ind ! c - 1 else ind ! c) [0..<length deps]"
    and queue': "queue' = queue @ filter (\<lambda>c. p \<in> set (deps ! c) \<and> ind ! c = 1) [0..<length deps]"
    using step inv' by (auto simp: release_dependents_eq)
  have p: "p \<in> P" "p \<notin> set order" "ind ! p = 0" "p < length deps"
    using inv' wf by (auto simp: dependency_lists_def)
  have pos: "0 < ind ! c" if "c < length deps" "p \<in> set (deps ! c)" for c
    using that inv' p by (auto simp: card_gt_0_iff)
  have count: "ind' ! c = card (set (deps ! c) - set (order @ [p]))" if c: "c < length deps" for c
  proof -
    have "set (deps ! c) - set (order @ [p]) = (set (deps ! c) - set order) - {p}" by auto
    then show ?thesis using c inv' p by (simp add: ind' card_Diff_singleton_if)
  qed
  have member: "c \<in> P" if "c < length deps" "p \<in> set (deps ! c)" for c
    using wf that unfolding dependency_lists_def by fastforce
  have dist: "distinct ((order @ [p]) @ queue')"
    using inv' p by (auto simp: queue' dest: member)
  have zero: "ind' ! c = 0 \<longleftrightarrow> c \<in> set ((order @ [p]) @ queue')" if c: "c \<in> P" for c
  proof -
    have n: "c < length deps" using c wf by (auto simp: dependency_lists_def)
    have "ind ! c = 0 \<longleftrightarrow> c \<in> set (order @ p # queue)" using c inv' by blast
    then show ?thesis using n pos [OF n] by (auto simp: ind' queue')
  qed
  have "set (deps ! p) - set order = {}" using inv' p by (metis List.finite_set card_0_eq finite_Diff)
  then have "providers_first deps (order @ [p])"
    using inv' by (intro providers_first_snoc) auto
  moreover have "set ((order @ [p]) @ queue') \<subseteq> P"
    using inv' member by (auto simp: queue')
  ultimately show ?thesis
    unfolding order_inv_def using count dist zero by (simp add: ind')
qed

lemma order_loop_inv:
  "dependency_lists P deps \<Longrightarrow> order_inv P deps ind queue order \<Longrightarrow>
     \<exists>ind'. order_inv P deps ind' [] (order_loop deps ind queue order)"
proof (induction deps ind queue order rule: order_loop.induct)
  case (1 deps ind order)
  then show ?case by auto
next
  case (2 deps ind p queue order)
  obtain ind' queue' where r: "release_dependents p deps (ind, queue) = (ind', queue')" by fastforce
  have "order_inv P deps ind' queue' (order @ [p])"
    using order_inv_step [OF 2(2) 2(3) r] .
  then show ?case using 2 r by simp
qed

lemma order_inv_init:
  assumes "dependency_lists P deps"
  shows "order_inv P deps (map length deps) (filter (\<lambda>c. c \<in> P \<and> map length deps ! c = 0) [0..<length deps]) []"
  using assms by (auto simp: order_inv_def dependency_lists_def providers_first_def distinct_card)

lemma acyclic_covers:
  assumes wf: "dependency_lists P deps" and acyc: "acyclic (depends deps)"
    and inv: "order_inv P deps ind [] order"
  shows "set order = P"
proof (rule ccontr)
  assume "set order \<noteq> P"
  then obtain c where c: "c \<in> P - set order" using inv by (auto simp: order_inv_def)
  have next_left: "\<exists>d \<in> P - set order. (c, d) \<in> depends deps" if c: "c \<in> P - set order" for c
  proof -
    have n: "c < length deps" using c wf by (auto simp: dependency_lists_def)
    have "ind ! c \<noteq> 0" using c inv by (auto simp: order_inv_def)
    then have "card (set (deps ! c) - set order) \<noteq> 0" using n inv by (metis order_inv_def)
    then obtain d where "d \<in> set (deps ! c) - set order" by (metis card.empty ex_in_conv)
    then show ?thesis using n wf by (auto simp: depends_iff dependency_lists_def)
  qed
  have "wf ((depends deps)\<inverse>)"
    using acyc depends_finite [OF dependency_lists_in_range [OF wf]] by (simp add: finite_acyclic_wf_converse)
  then obtain m where "m \<in> P - set order" "\<And>d. (d, m) \<in> (depends deps)\<inverse> \<Longrightarrow> d \<notin> P - set order"
    using c by (metis wfE_min)
  then show False using next_left by blast
qed

lemma order_loop_correct:
  assumes "dependency_lists P deps" and "acyclic (depends deps)"
    and "order = order_loop deps (map length deps)
      (filter (\<lambda>c. c \<in> P \<and> map length deps ! c = 0) [0..<length deps]) []"
  shows "distinct order \<and> set order = P \<and> providers_first deps order"
proof -
  obtain ind where "order_inv P deps ind [] order"
    unfolding assms(3) using order_loop_inv [OF assms(1) order_inv_init [OF assms(1)]] by (elim exE)
  note inv = this
  have "set order = P" by (rule acyclic_covers [OF assms(1,2) inv])
  moreover have "distinct (order @ []) \<and> providers_first deps order"
    using inv unfolding order_inv_def by (elim conjE) (intro conjI)
  ultimately show ?thesis by simp
qed

section \<open>Shutdown order\<close>

text \<open>
  \<open>leaf_first deps key live\<close> orders the modules with a live handle: again and again the best
  candidate by \<open>key\<close> among those no remaining consumer is bound to, or among all remaining ones
  when there is no such leaf. \<open>dependents ! i\<close> counts the remaining consumers bound to \<open>i\<close>.
\<close>

definition dependent_counts :: "nat list list \<Rightarrow> nat list" where
  "dependent_counts deps =
     fold (\<lambda>providers. fold (\<lambda>provider counts. counts[provider := counts ! provider + 1]) providers)
       deps (replicate (length deps) 0)"

definition shutdown_candidates ::
  "bool list \<Rightarrow> nat list \<Rightarrow> bool list \<Rightarrow> bool \<Rightarrow> nat list" where
  "shutdown_candidates live dependents selected require_leaf =
     filter (\<lambda>index. live ! index \<and> \<not> selected ! index \<and> (\<not> require_leaf \<or> dependents ! index = 0))
       [0..<length live]"

definition next_shutdown ::
  "(nat \<Rightarrow> 'k::linorder) \<Rightarrow> bool list \<Rightarrow> nat list \<Rightarrow> bool list \<Rightarrow> nat option" where
  "next_shutdown key live dependents selected =
     (let leaves = shutdown_candidates live dependents selected True;
          eligible = (if leaves = [] then shutdown_candidates live dependents selected False else leaves)
      in case sort_key key eligible of [] \<Rightarrow> None | index # _ \<Rightarrow> Some index)"

definition release_shutdown_dependencies :: "nat \<Rightarrow> nat list list \<Rightarrow> nat list \<Rightarrow> nat list" where
  "release_shutdown_dependencies consumer deps dependents =
     fold (\<lambda>provider counts. counts[provider := counts ! provider - 1]) (deps ! consumer) dependents"

function shutdown_loop ::
  "(nat \<Rightarrow> 'k::linorder) \<Rightarrow> bool list \<Rightarrow> nat list list \<Rightarrow> nat \<Rightarrow> nat list \<Rightarrow> bool list \<Rightarrow> nat list \<Rightarrow> nat list" where
  "shutdown_loop key live deps target dependents selected order =
     (if length order < target then
        (case next_shutdown key live dependents selected of
           None \<Rightarrow> order
         | Some index \<Rightarrow>
             shutdown_loop key live deps target (release_shutdown_dependencies index deps dependents)
               (selected[index := True]) (order @ [index]))
      else order)"
  by pat_completeness auto

termination
  by (relation "measure (\<lambda>(key, live, deps, target, dependents, selected, order). target - length order)")
    auto

declare shutdown_loop.simps [simp del]

definition leaf_first :: "(nat \<Rightarrow> 'k::linorder) \<Rightarrow> bool list \<Rightarrow> nat list list \<Rightarrow> nat list" where
  "leaf_first key live deps =
     shutdown_loop key live deps (length (filter (\<lambda>b. b) live)) (dependent_counts deps)
       (replicate (length live) False) []"

subsection \<open>Counting the remaining consumers\<close>

lemma fold_count_up:
  "distinct ps \<Longrightarrow> \<forall>p \<in> set ps. p < length counts \<Longrightarrow>
   fold (\<lambda>p cs. cs[p := cs ! p + 1]) ps counts =
     map (\<lambda>i. counts ! i + (if i \<in> set ps then 1 else 0)) [0..<length counts]" for counts :: "nat list"
proof (induction ps arbitrary: counts)
  case Nil
  then show ?case by (simp add: map_nth)
next
  case (Cons p ps)
  then show ?case by (auto simp: nth_list_update intro!: map_cong)
qed

lemma fold_count_down:
  "distinct ps \<Longrightarrow> \<forall>p \<in> set ps. p < length counts \<Longrightarrow>
   fold (\<lambda>p cs. cs[p := cs ! p - 1]) ps counts =
     map (\<lambda>i. counts ! i - (if i \<in> set ps then 1 else 0)) [0..<length counts]" for counts :: "nat list"
proof (induction ps arbitrary: counts)
  case Nil
  then show ?case by (simp add: map_nth)
next
  case (Cons p ps)
  then show ?case by (auto simp: nth_list_update intro!: map_cong)
qed

lemma fold_count_lists:
  "(\<And>ds. ds \<in> set dss \<Longrightarrow> distinct ds \<and> (\<forall>p \<in> set ds. p < length counts)) \<Longrightarrow>
   fold (\<lambda>providers. fold (\<lambda>p cs. cs[p := cs ! p + 1]) providers) dss counts =
     map (\<lambda>i. counts ! i + length (filter (\<lambda>ds. i \<in> set ds) dss)) [0..<length counts]"
proof (induction dss arbitrary: counts)
  case Nil
  then show ?case by (simp add: map_nth)
next
  case (Cons ds dss)
  have step: "fold (\<lambda>p cs. cs[p := cs ! p + 1]) ds counts =
      map (\<lambda>i. counts ! i + (if i \<in> set ds then 1 else 0)) [0..<length counts]"
    using Cons.prems [of ds] by (intro fold_count_up) auto
  show ?case
    unfolding fold.simps comp_def step using Cons.prems
    by (subst Cons.IH) (auto intro!: map_cong)
qed

lemma dependent_counts_nth:
  assumes "dependency_lists L deps" and "i < length deps"
  shows "dependent_counts deps ! i = card {c. c < length deps \<and> i \<in> set (deps ! c)}"
proof -
  have "dependent_counts deps =
      map (\<lambda>i. replicate (length deps) 0 ! i + length (filter (\<lambda>ds. i \<in> set ds) deps))
        [0..<length (replicate (length deps) (0 :: nat))]"
    unfolding dependent_counts_def
  proof (rule fold_count_lists)
    fix ds
    assume "ds \<in> set deps"
    then show "distinct ds \<and> (\<forall>p \<in> set ds. p < length (replicate (length deps) (0 :: nat)))"
      using assms(1) dependency_lists_in_range [OF assms(1)]
      unfolding dependency_lists_def in_range_def by (metis in_set_conv_nth length_replicate)
  qed
  then show ?thesis using assms(2) by (simp add: length_filter_conv_card)
qed

subsection \<open>The order in which live modules stop\<close>

text \<open>Every consumer of \<open>order ! k\<close> stops before it; and it is the best leaf by \<open>key\<close> at that point.\<close>

definition consumers_first :: "nat set \<Rightarrow> nat list list \<Rightarrow> nat list \<Rightarrow> bool" where
  "consumers_first L deps order \<longleftrightarrow>
     (\<forall>k < length order. \<forall>c \<in> L. order ! k \<in> set (deps ! c) \<longrightarrow> c \<in> set (take k order))"

definition remaining_leaf :: "nat set \<Rightarrow> nat list list \<Rightarrow> nat list \<Rightarrow> nat \<Rightarrow> bool" where
  "remaining_leaf L deps order i \<longleftrightarrow>
     i \<in> L - set order \<and> (\<forall>c \<in> L - set order. i \<notin> set (deps ! c))"

definition best_leaf_first ::
  "(nat \<Rightarrow> 'k::linorder) \<Rightarrow> nat set \<Rightarrow> nat list list \<Rightarrow> nat list \<Rightarrow> bool" where
  "best_leaf_first key L deps order \<longleftrightarrow>
     (\<forall>k < length order. \<forall>i. remaining_leaf L deps (take k order) i \<longrightarrow> key (order ! k) \<le> key i)"

definition live_set :: "bool list \<Rightarrow> nat set" where
  "live_set live = {i. i < length live \<and> live ! i}"

definition shutdown_inv ::
  "bool list \<Rightarrow> nat list list \<Rightarrow> nat list \<Rightarrow> bool list \<Rightarrow> nat list \<Rightarrow> bool" where
  "shutdown_inv live deps dependents selected order \<longleftrightarrow>
     length dependents = length deps \<and> length selected = length deps \<and>
     seen selected = set order \<and> distinct order \<and> set order \<subseteq> live_set live \<and>
     (\<forall>i < length deps. dependents ! i = card {c \<in> live_set live - set order. i \<in> set (deps ! c)})"

lemma card_live: "length (filter (\<lambda>b. b) live) = card (live_set live)"
  by (simp add: length_filter_conv_card live_set_def)

lemma finite_live [simp]: "finite (live_set live)"
  by (simp add: live_set_def)

lemma shutdown_candidates_set:
  assumes "shutdown_inv live deps dependents selected order" and "length live = length deps"
  shows "set (shutdown_candidates live dependents selected False) = live_set live - set order"
    and "set (shutdown_candidates live dependents selected True) =
      {i. remaining_leaf (live_set live) deps order i}"
proof -
  have sel: "selected ! i \<longleftrightarrow> i \<in> set order" if "i < length deps" for i
    using assms(1) that unfolding shutdown_inv_def seen_def by auto
  have zero: "dependents ! i = 0 \<longleftrightarrow> (\<forall>c \<in> live_set live - set order. i \<notin> set (deps ! c))"
    if "i < length deps" for i
    using assms(1) that unfolding shutdown_inv_def by auto
  show "set (shutdown_candidates live dependents selected False) = live_set live - set order"
    using assms(2) sel by (auto simp: shutdown_candidates_def live_set_def)
  show "set (shutdown_candidates live dependents selected True) =
      {i. remaining_leaf (live_set live) deps order i}"
    using assms(2) sel zero by (auto simp: shutdown_candidates_def live_set_def remaining_leaf_def)
qed

lemma sort_key_hd:
  "sort_key key xs = y # ys \<Longrightarrow> y \<in> set xs \<and> (\<forall>x \<in> set xs. key y \<le> key x)"
  by (metis list.set_intros(1) list.simps(9) set_ConsD set_sort sorted_simps(2) sorted_sort_key
      image_eqI list.set_map order_refl)

lemma next_shutdown_correct:
  assumes "shutdown_inv live deps dependents selected order" and "length live = length deps"
    and "next_shutdown key live dependents selected = Some i"
  shows "i \<in> live_set live - set order"
    and "remaining_leaf (live_set live) deps order j \<Longrightarrow>
      remaining_leaf (live_set live) deps order i \<and> key i \<le> key j"
proof -
  let ?leaves = "shutdown_candidates live dependents selected True"
  let ?all = "shutdown_candidates live dependents selected False"
  note sets = shutdown_candidates_set [OF assms(1,2)]
  obtain js where "sort_key key (if ?leaves = [] then ?all else ?leaves) = i # js"
    using assms(3) by (auto simp: next_shutdown_def Let_def split: list.splits)
  note head = sort_key_hd [OF this]
  show "i \<in> live_set live - set order"
    using head sets by (auto simp: remaining_leaf_def split: if_splits)
  show "remaining_leaf (live_set live) deps order i \<and> key i \<le> key j"
    if leaf: "remaining_leaf (live_set live) deps order j"
  proof -
    have "j \<in> set ?leaves" using leaf sets(2) by simp
    moreover then have "?leaves \<noteq> []" by auto
    ultimately show ?thesis using head sets(2) by auto
  qed
qed

lemma next_shutdown_None:
  assumes "shutdown_inv live deps dependents selected order" and "length live = length deps"
    and "next_shutdown key live dependents selected = None"
  shows "live_set live \<subseteq> set order"
proof -
  have "shutdown_candidates live dependents selected False = []"
    using assms(3) by (auto simp: next_shutdown_def Let_def split: list.splits if_splits)
      (metis length_0_conv length_sort)+
  then show ?thesis using shutdown_candidates_set(1) [OF assms(1,2)] by auto
qed

lemma shutdown_inv_step:
  assumes wf: "dependency_lists (live_set live) deps"
    and inv: "shutdown_inv live deps dependents selected order"
    and i: "i \<in> live_set live - set order"
  shows "shutdown_inv live deps (release_shutdown_dependencies i deps dependents)
    (selected[i := True]) (order @ [i])"
proof -
  let ?L = "live_set live"
  note inv' = inv [unfolded shutdown_inv_def]
  have n: "i < length deps" using i wf by (auto simp: dependency_lists_def)
  have range: "\<forall>p \<in> set (deps ! i). p < length dependents"
    using in_range_nth [OF dependency_lists_in_range [OF wf] n] inv' by auto
  have rel: "release_shutdown_dependencies i deps dependents =
      map (\<lambda>j. dependents ! j - (if j \<in> set (deps ! i) then 1 else 0)) [0..<length dependents]"
    unfolding release_shutdown_dependencies_def
    using wf n range by (intro fold_count_down) (auto simp: dependency_lists_def)
  have count: "release_shutdown_dependencies i deps dependents ! j =
      card {c \<in> ?L - set (order @ [i]). j \<in> set (deps ! c)}" if j: "j < length deps" for j
  proof -
    have "{c \<in> ?L - set (order @ [i]). j \<in> set (deps ! c)} =
        {c \<in> ?L - set order. j \<in> set (deps ! c)} - {i}" by auto
    then have "card {c \<in> ?L - set (order @ [i]). j \<in> set (deps ! c)} =
        card {c \<in> ?L - set order. j \<in> set (deps ! c)} - (if j \<in> set (deps ! i) then 1 else 0)"
      using i by (simp add: card_Diff_singleton_if)
    then show ?thesis using j inv' by (simp add: rel)
  qed
  have "seen (selected[i := True]) = set (order @ [i])"
    using inv' n by (simp add: seen_update)
  then show ?thesis
    unfolding shutdown_inv_def using inv' i count by (auto simp: rel)
qed

lemma consumers_first_snoc:
  "consumers_first L deps order \<Longrightarrow> remaining_leaf L deps order i \<Longrightarrow> consumers_first L deps (order @ [i])"
  by (auto simp: consumers_first_def remaining_leaf_def nth_append less_Suc_eq)

lemma best_leaf_first_snoc:
  "best_leaf_first key L deps order \<Longrightarrow> (\<And>j. remaining_leaf L deps order j \<Longrightarrow> key i \<le> key j) \<Longrightarrow>
     best_leaf_first key L deps (order @ [i])"
  by (auto simp: best_leaf_first_def nth_append less_Suc_eq)

lemma acyclic_has_leaf:
  assumes "dependency_lists L deps" and "acyclic (depends deps)" and "c \<in> L - set order"
  shows "\<exists>i. remaining_leaf L deps order i"
proof -
  have "wf (depends deps)"
    using assms(2) depends_finite [OF dependency_lists_in_range [OF assms(1)]] by (simp add: finite_acyclic_wf)
  then obtain m where m: "m \<in> L - set order" "\<And>d. (d, m) \<in> depends deps \<Longrightarrow> d \<notin> L - set order"
    using assms(3) by (metis wfE_min)
  have "m \<notin> set (deps ! d)" if d: "d \<in> L - set order" for d
  proof -
    have "d < length deps" using d assms(1) by (auto simp: dependency_lists_def)
    then show ?thesis using m(2) [of d] d by (auto simp: depends_iff)
  qed
  with m(1) show ?thesis by (auto simp: remaining_leaf_def)
qed

lemma shutdown_loop_correct:
  assumes wf: "dependency_lists (live_set live) deps" and len: "length live = length deps"
    and target: "target = card (live_set live)"
  shows "shutdown_inv live deps dependents selected order \<Longrightarrow>
    best_leaf_first key (live_set live) deps order \<Longrightarrow>
    (acyclic (depends deps) \<longrightarrow> consumers_first (live_set live) deps order) \<Longrightarrow>
    result = shutdown_loop key live deps target dependents selected order \<Longrightarrow>
    distinct result \<and> set result = live_set live \<and> best_leaf_first key (live_set live) deps result \<and>
    (acyclic (depends deps) \<longrightarrow> consumers_first (live_set live) deps result)"
proof (induction "target - length order" arbitrary: dependents selected order rule: less_induct)
  case less
  let ?L = "live_set live"
  note inv' = less.prems(1) [unfolded shutdown_inv_def]
  have result: "result = (if length order < target then
      (case next_shutdown key live dependents selected of
         None \<Rightarrow> order
       | Some i \<Rightarrow> shutdown_loop key live deps target (release_shutdown_dependencies i deps dependents)
           (selected[i := True]) (order @ [i])) else order)"
    using less.prems(4) by (subst (asm) shutdown_loop.simps)
  have size: "card (set order) = length order" using inv' by (simp add: distinct_card)
  show ?case
  proof (cases "length order < target \<and> next_shutdown key live dependents selected \<noteq> None")
    case True
    then obtain i where i: "next_shutdown key live dependents selected = Some i" by blast
    note pick = next_shutdown_correct [OF less.prems(1) len i]
    have "remaining_leaf ?L deps order i" if "acyclic (depends deps)"
      using acyclic_has_leaf [OF wf that] pick by blast
    moreover have "best_leaf_first key ?L deps (order @ [i])"
      using pick(2) by (intro best_leaf_first_snoc less.prems(2)) blast
    ultimately show ?thesis
      using True i result less.prems(3) shutdown_inv_step [OF wf less.prems(1) pick(1)]
      by (intro less.hyps [of "order @ [i]"]) (auto intro: consumers_first_snoc)
  next
    case False
    then have "result = order" using result by (auto split: option.splits)
    moreover have "set order = ?L"
    proof (cases "length order < target")
      case True
      then show ?thesis using False next_shutdown_None [OF less.prems(1) len] inv' by blast
    next
      case False
      then have "card ?L \<le> card (set order)" using target size by simp
      then show ?thesis using inv' by (intro card_seteq) auto
    qed
    ultimately show ?thesis using inv' less.prems by blast
  qed
qed

lemma leaf_first_correct:
  assumes wf: "dependency_lists (live_set live) deps" and len: "length live = length deps"
    and "result = leaf_first key live deps"
  shows "distinct result \<and> set result = live_set live \<and> best_leaf_first key (live_set live) deps result \<and>
    (acyclic (depends deps) \<longrightarrow> consumers_first (live_set live) deps result)"
proof (rule shutdown_loop_correct [OF wf len card_live])
  have len': "length (dependent_counts deps) = length deps"
  proof -
    have "length (fold (\<lambda>p cs. cs[p := cs ! p + 1]) ps counts) = length counts" for ps and counts :: "nat list"
      by (induction ps arbitrary: counts) auto
    then have "length (fold (\<lambda>ps. fold (\<lambda>p cs. cs[p := cs ! p + 1]) ps) dss counts) = length counts"
      for dss and counts :: "nat list"
      by (induction dss arbitrary: counts) auto
    then show ?thesis by (simp add: dependent_counts_def)
  qed
  have "{c. c < length deps \<and> i \<in> set (deps ! c)} = {c \<in> live_set live - set []. i \<in> set (deps ! c)}" for i
    using wf unfolding dependency_lists_def by fastforce
  then show "shutdown_inv live deps (dependent_counts deps) (replicate (length live) False) []"
    using dependent_counts_nth [OF wf] len len'
    unfolding shutdown_inv_def by (simp add: seen_def)
qed (use assms(3) in \<open>simp_all add: best_leaf_first_def consumers_first_def leaf_first_def\<close>)

end
