(* ===== verification/Lifecycle.thy ===== *)
theory Lifecycle
  imports Core_Module Dependency_Graph
begin

text \<open>
  \<open>crates/ariadnion-core/src/lifecycle.rs\<close>: the supervisor that registers, validates, starts,
  probes and stops the modules linked into the process.

  What modules do is not part of the supervisor. One record of type \<open>module_calls\<close> holds, for one
  operation of the supervisor, what each module call returns (\<open>None\<close> when it panics) and how the
  bounded worker that runs it ends: no operation calls the same entry of the same module twice,
  and every operation takes a record of its own, so modules may answer differently each time.
\<close>

section \<open>State\<close>

definition MAX_MODULES :: nat where "MAX_MODULES = 256"

datatype ModuleState =
  Discovered | Validated | Starting | Ready | Degraded | Unavailable | Stopping | Stopped

text \<open>
  The cancellation token of a module is a child of the supervisor's token: its own flag is
  \<open>mm_cancelled\<close>, and the module also observes the flag of the supervisor.
\<close>

record ('f, 'h) ManagedModule =
  mm_descriptor :: ModuleDescriptor
  mm_factory :: 'f
  mm_configuration :: ModuleConfigurationSnapshot
  mm_resolution :: "CapabilityResolution option"
  mm_handle :: "'h option"
  mm_cancelled :: bool
  mm_state :: ModuleState
  mm_generation :: u64
  mm_error_code :: "ErrorCode option"

record ModuleStatus =
  ms_module_id :: ModuleId
  ms_state :: ModuleState
  ms_generation :: u64
  ms_error_code :: "ErrorCode option"

record LifecycleReport =
  lr_statuses :: "ModuleStatus list"
  lr_startup_order :: "ModuleId list"

record ('f, 'h) LifecycleSupervisor =
  sup_modules :: "('f, 'h) ManagedModule list"
  sup_startup_order :: "nat list"
  sup_validation_order :: "nat list"
  sup_cancelled :: bool

definition supervisor_new :: "('f, 'h) LifecycleSupervisor" where
  "supervisor_new =
     \<lparr>sup_modules = [], sup_startup_order = [], sup_validation_order = [], sup_cancelled = False\<rparr>"

section \<open>Module calls on bounded workers\<close>

datatype WorkerFate = SpawnFailed | PublishedInTime | DeadlinePassed

datatype 'a BoundedOutcome = Completed 'a | BoundedDeadlineExceeded | BoundedUnavailable

fun run_bounded :: "WorkerFate \<Rightarrow> 'a \<Rightarrow> 'a BoundedOutcome" where
  "run_bounded SpawnFailed output = BoundedUnavailable"
| "run_bounded PublishedInTime output = Completed output"
| "run_bounded DeadlinePassed output = BoundedDeadlineExceeded"

text \<open>A panic of a module call is caught and becomes an internal error.\<close>

definition guarded_module_call :: "(CoreError, 'a) result option \<Rightarrow> (CoreError, 'a) result" where
  "guarded_module_call outcome =
     (case outcome of
        Some r \<Rightarrow> r
      | None \<Rightarrow> Inl (with_internal_context (error_from_code InternalCode) ''module operation panicked''))"

record ('f, 'h) module_calls =
  call_validate ::
    "'f \<Rightarrow> ModuleConfigurationSnapshot \<Rightarrow> CapabilityResolution \<Rightarrow> (CoreError, unit) result option"
  call_start :: "'f \<Rightarrow> CapabilityResolution \<Rightarrow> (CoreError, 'h) result option"
  call_health :: "'h \<Rightarrow> (CoreError, ModuleHealthSnapshot) result option"
  call_shutdown :: "'h \<Rightarrow> nat \<Rightarrow> (CoreError, ModuleShutdownReport) result option"
  validate_fate :: "ModuleId \<Rightarrow> WorkerFate"
  start_fate :: "ModuleId \<Rightarrow> WorkerFate"
  health_fate :: "ModuleId \<Rightarrow> WorkerFate"
  shutdown_fate :: "ModuleId \<Rightarrow> WorkerFate"
  system_now :: "ModuleId \<Rightarrow> nat"
  system_add :: "nat \<Rightarrow> nat \<Rightarrow> nat option"

section \<open>Single modules\<close>

fun participates_in_resolution :: "ModuleState \<Rightarrow> bool" where
  "participates_in_resolution s \<longleftrightarrow> s \<in> {Discovered, Validated, Starting, Ready, Degraded}"

fun is_live_state :: "ModuleState \<Rightarrow> bool" where
  "is_live_state s \<longleftrightarrow> s \<in> {Starting, Ready, Degraded}"

definition module_status :: "('f, 'h) ManagedModule \<Rightarrow> ModuleStatus" where
  "module_status m =
     \<lparr>ms_module_id = md_id (mm_descriptor m), ms_state = mm_state m, ms_generation = mm_generation m,
      ms_error_code = mm_error_code m\<rparr>"

definition mark_unavailable :: "ErrorCode \<Rightarrow> ('f, 'h) ManagedModule \<Rightarrow> ('f, 'h) ManagedModule" where
  "mark_unavailable code m =
     m\<lparr>mm_cancelled := True, mm_state := Unavailable, mm_error_code := Some code\<rparr>"

definition mark_stopped :: "('f, 'h) ManagedModule \<Rightarrow> ('f, 'h) ManagedModule" where
  "mark_stopped m = m\<lparr>mm_state := Stopped, mm_error_code := None\<rparr>"

definition validate_static_contracts :: "('f, 'h) ManagedModule \<Rightarrow> ('f, 'h) ManagedModule" where
  "validate_static_contracts m =
     (if md_abi_version (mm_descriptor m) \<noteq> CORE_ABI_VERSION then mark_unavailable ConflictCode m
      else if mc_schema_id (mm_configuration m) \<noteq> cc_schema_id (md_configuration (mm_descriptor m))
      then mark_unavailable ConflictCode m
      else m)"

definition descriptor_requirements :: "ModuleDescriptor \<Rightarrow> CapabilityRequirement list" where
  "descriptor_requirements d =
     md_required d @ map sc_requirement (md_required_secret_capabilities d)"

definition register_module_capabilities ::
  "('f, 'h) ManagedModule \<Rightarrow> CapabilityGraph \<Rightarrow> ('f, 'h) ManagedModule \<times> CapabilityGraph" where
  "register_module_capabilities m graph =
     (if \<not> participates_in_resolution (mm_state m) then (m, graph)
      else case register_batch (md_provided (mm_descriptor m)) graph of
             (Inl e, graph') \<Rightarrow> (mark_unavailable (ce_code e) m, graph')
           | (Inr _, graph') \<Rightarrow> (m, graph'))"

subsection \<open>Validation\<close>

definition apply_validation_outcome ::
  "(CoreError, unit) result BoundedOutcome \<Rightarrow> ('f, 'h) ManagedModule \<Rightarrow> ('f, 'h) ManagedModule" where
  "apply_validation_outcome outcome m =
     (case outcome of
        Completed (Inr _) \<Rightarrow> m\<lparr>mm_state := Validated, mm_error_code := None\<rparr>
      | Completed (Inl e) \<Rightarrow> mark_unavailable (ce_code e) m
      | BoundedDeadlineExceeded \<Rightarrow> mark_unavailable DeadlineExceededCode m
      | BoundedUnavailable \<Rightarrow> mark_unavailable UnavailableCode m)"

definition validate_module ::
  "('f, 'h) module_calls \<Rightarrow> ('f, 'h) ManagedModule \<Rightarrow> ('f, 'h) ManagedModule" where
  "validate_module calls m =
     (case mm_resolution m of
        None \<Rightarrow> mark_unavailable UnavailableCode m
      | Some resolution \<Rightarrow>
          apply_validation_outcome
            (run_bounded (validate_fate calls (md_id (mm_descriptor m)))
              (guarded_module_call (call_validate calls (mm_factory m) (mm_configuration m) resolution))) m)"

subsection \<open>Startup\<close>

definition prepare_start ::
  "('f, 'h) ManagedModule \<Rightarrow> (ErrorCode, CapabilityResolution \<times> u64) result" where
  "prepare_start m =
     bind_result (ok_or UnavailableCode (mm_resolution m)) (\<lambda>resolution.
     bind_result (ok_or ResourceExhaustedCode (checked_add (mm_generation m) 1)) (\<lambda>generation.
     Inr (resolution, generation)))"

definition apply_start_outcome ::
  "u64 \<Rightarrow> (CoreError, 'h) result BoundedOutcome \<Rightarrow> ('f, 'h) ManagedModule \<Rightarrow>
     bool \<times> ('f, 'h) ManagedModule" where
  "apply_start_outcome generation outcome m =
     (case outcome of
        Completed (Inr handle) \<Rightarrow>
          (True, m\<lparr>mm_handle := Some handle, mm_generation := generation, mm_state := Ready,
             mm_error_code := None\<rparr>)
      | Completed (Inl e) \<Rightarrow> (False, mark_unavailable (ce_code e) m)
      | BoundedDeadlineExceeded \<Rightarrow> (False, mark_unavailable DeadlineExceededCode m)
      | BoundedUnavailable \<Rightarrow> (False, mark_unavailable UnavailableCode m))"

definition start_validated_module ::
  "('f, 'h) module_calls \<Rightarrow> ('f, 'h) ManagedModule \<Rightarrow> bool \<times> ('f, 'h) ManagedModule" where
  "start_validated_module calls m =
     (case prepare_start m of
        Inl code \<Rightarrow> (False, mark_unavailable code m)
      | Inr (resolution, generation) \<Rightarrow>
          apply_start_outcome generation
            (run_bounded (start_fate calls (md_id (mm_descriptor m)))
              (guarded_module_call (call_start calls (mm_factory m) resolution)))
            (m\<lparr>mm_state := Starting\<rparr>))"

subsection \<open>Shutdown and health\<close>

text \<open>
  \<open>HandleCell\<close>: the handle on its way to the worker. A worker that runs takes it out; when the
  worker could not be spawned it is still there and returns to the module.
\<close>

type_synonym 'h HandleCell = "'h option"

definition effective_shutdown_deadline ::
  "('f, 'h) module_calls \<Rightarrow> ('f, 'h) ManagedModule \<Rightarrow> nat option \<Rightarrow> nat" where
  "effective_shutdown_deadline calls m caller_deadline =
     (let now = system_now calls (md_id (mm_descriptor m));
          budget = lb_shutdown_timeout (rb_lifecycle (md_resources (mm_descriptor m)))
      in case (system_add calls now budget, caller_deadline) of
           (Some b, Some caller) \<Rightarrow> min b caller
         | (Some b, None) \<Rightarrow> b
         | (None, Some caller) \<Rightarrow> caller
         | (None, None) \<Rightarrow> now)"

datatype ShutdownOutcome =
  ShutdownCompleted "(CoreError, ModuleShutdownReport) result"
| ShutdownDeadlineExceeded
| ShutdownUnavailable
| NoHandle

definition execute_shutdown ::
  "('f, 'h) module_calls \<Rightarrow> 'h HandleCell \<Rightarrow> nat \<Rightarrow>
     ('h \<times> (CoreError, ModuleShutdownReport) result) option" where
  "execute_shutdown calls cell deadline =
     (case cell of
        None \<Rightarrow> None
      | Some handle \<Rightarrow> Some (handle, guarded_module_call (call_shutdown calls handle deadline)))"

definition map_shutdown_outcome ::
  "'h HandleCell \<Rightarrow> ('h \<times> (CoreError, ModuleShutdownReport) result) option BoundedOutcome \<Rightarrow>
     ('f, 'h) ManagedModule \<Rightarrow> ShutdownOutcome \<times> ('f, 'h) ManagedModule" where
  "map_shutdown_outcome cell outcome m =
     (case outcome of
        Completed (Some (handle, r)) \<Rightarrow> (ShutdownCompleted r, m)
      | Completed None \<Rightarrow> (ShutdownUnavailable, m)
      | BoundedDeadlineExceeded \<Rightarrow> (ShutdownDeadlineExceeded, m)
      | BoundedUnavailable \<Rightarrow> (ShutdownUnavailable, m\<lparr>mm_handle := cell\<rparr>))"

definition run_shutdown_operation ::
  "('f, 'h) module_calls \<Rightarrow> nat option \<Rightarrow> ('f, 'h) ManagedModule \<Rightarrow>
     ShutdownOutcome \<times> ('f, 'h) ManagedModule" where
  "run_shutdown_operation calls caller_deadline m =
     (case mm_handle m of
        None \<Rightarrow> (NoHandle, m)
      | Some handle \<Rightarrow>
          let m' = m\<lparr>mm_handle := None, mm_cancelled := True\<rparr>;
              deadline = effective_shutdown_deadline calls m' caller_deadline
          in map_shutdown_outcome (Some handle)
               (run_bounded (shutdown_fate calls (md_id (mm_descriptor m)))
                 (execute_shutdown calls (Some handle) deadline)) m')"

definition retire_unavailable ::
  "('f, 'h) module_calls \<Rightarrow> ErrorCode \<Rightarrow> ('f, 'h) ManagedModule \<Rightarrow> ('f, 'h) ManagedModule" where
  "retire_unavailable calls code m =
     snd (run_shutdown_operation calls None (mark_unavailable code m))"

fun state_from_health :: "HealthStatus \<Rightarrow> ModuleState" where
  "state_from_health HealthLive = Starting"
| "state_from_health HealthReady = Ready"
| "state_from_health HealthDegraded = Degraded"
| "state_from_health HealthUnavailable = Unavailable"

definition fail_health ::
  "('f, 'h) module_calls \<Rightarrow> ErrorCode \<Rightarrow> ('f, 'h) ManagedModule \<Rightarrow>
     ModuleHealthSnapshot \<times> ('f, 'h) ManagedModule" where
  "fail_health calls code m =
     (\<lparr>hs_module_id = md_id (mm_descriptor m), hs_status = HealthUnavailable,
       hs_reason = InternalFailure\<rparr>, retire_unavailable calls code m)"

definition apply_health_snapshot ::
  "('f, 'h) module_calls \<Rightarrow> ModuleHealthSnapshot \<Rightarrow> ('f, 'h) ManagedModule \<Rightarrow>
     ModuleHealthSnapshot \<times> ('f, 'h) ManagedModule" where
  "apply_health_snapshot calls snapshot m =
     (snapshot,
      if hs_status snapshot = HealthUnavailable then retire_unavailable calls UnavailableCode m
      else m\<lparr>mm_state := state_from_health (hs_status snapshot), mm_error_code := None\<rparr>)"

definition apply_completed_health ::
  "('f, 'h) module_calls \<Rightarrow> 'h \<Rightarrow> (CoreError, ModuleHealthSnapshot) result \<Rightarrow>
     ('f, 'h) ManagedModule \<Rightarrow> ModuleHealthSnapshot \<times> ('f, 'h) ManagedModule" where
  "apply_completed_health calls handle r m =
     (let m' = m\<lparr>mm_handle := Some handle\<rparr>
      in case r of
           Inr snapshot \<Rightarrow> apply_health_snapshot calls snapshot m'
         | Inl e \<Rightarrow> fail_health calls (ce_code e) m')"

definition execute_health ::
  "('f, 'h) module_calls \<Rightarrow> 'h HandleCell \<Rightarrow> ('h \<times> (CoreError, ModuleHealthSnapshot) result) option" where
  "execute_health calls cell =
     (case cell of
        None \<Rightarrow> None
      | Some handle \<Rightarrow> Some (handle, guarded_module_call (call_health calls handle)))"

definition apply_health_outcome ::
  "('f, 'h) module_calls \<Rightarrow> 'h HandleCell \<Rightarrow>
     ('h \<times> (CoreError, ModuleHealthSnapshot) result) option BoundedOutcome \<Rightarrow>
     ('f, 'h) ManagedModule \<Rightarrow> ModuleHealthSnapshot \<times> ('f, 'h) ManagedModule" where
  "apply_health_outcome calls cell outcome m =
     (case outcome of
        Completed (Some (handle, r)) \<Rightarrow> apply_completed_health calls handle r m
      | Completed None \<Rightarrow> fail_health calls InternalCode m
      | BoundedDeadlineExceeded \<Rightarrow> fail_health calls DeadlineExceededCode m
      | BoundedUnavailable \<Rightarrow> fail_health calls UnavailableCode (m\<lparr>mm_handle := cell\<rparr>))"

definition refresh_module_health ::
  "('f, 'h) module_calls \<Rightarrow> ('f, 'h) ManagedModule \<Rightarrow>
     ModuleHealthSnapshot option \<times> ('f, 'h) ManagedModule" where
  "refresh_module_health calls m =
     (case mm_handle m of
        None \<Rightarrow> (None, m)
      | Some handle \<Rightarrow>
          apfst Some (apply_health_outcome calls (Some handle)
            (run_bounded (health_fate calls (md_id (mm_descriptor m)))
              (execute_health calls (Some handle))) (m\<lparr>mm_handle := None\<rparr>)))"

section \<open>Dependencies between modules\<close>

definition module_index :: "('f, 'h) ManagedModule list \<Rightarrow> ModuleId \<Rightarrow> nat option" where
  "module_index modules i =
     List.find (\<lambda>k. md_id (mm_descriptor (modules ! k)) = i) [0..<length modules]"

text \<open>\<open>sort_unstable\<close> followed by \<open>dedup\<close>, which drops repetitions of neighbours.\<close>

definition sort_dedup :: "nat list \<Rightarrow> nat list" where
  "sort_dedup xs = remdups_adj (sort xs)"

definition add_active_dependencies ::
  "('f, 'h) ManagedModule list \<Rightarrow> CapabilityResolution \<Rightarrow> nat list" where
  "add_active_dependencies modules resolution =
     sort_dedup (filter (\<lambda>p. participates_in_resolution (mm_state (modules ! p)))
       (List.map_filter (\<lambda>b. module_index modules (cp_module_id (cb_provider b))) (res_bindings resolution)))"

definition dependency_indices :: "('f, 'h) ManagedModule list \<Rightarrow> nat list list" where
  "dependency_indices modules =
     map (\<lambda>m. if \<not> participates_in_resolution (mm_state m) then []
              else case mm_resolution m of
                     None \<Rightarrow> []
                   | Some resolution \<Rightarrow> add_active_dependencies modules resolution) modules"

definition cycle_members :: "('f, 'h) ManagedModule list \<Rightarrow> nat list" where
  "cycle_members modules =
     (let dependencies = dependency_indices modules
      in filter (\<lambda>index. participates_in_resolution (mm_state (modules ! index)) \<and>
           dependency_path_returns_to index dependencies) [0..<length modules])"

definition initial_queue :: "('f, 'h) ManagedModule list \<Rightarrow> nat list \<Rightarrow> nat list" where
  "initial_queue modules indegrees =
     filter (\<lambda>index. participates_in_resolution (mm_state (modules ! index)) \<and> indegrees ! index = 0)
       [0..<length modules]"

definition dependency_order :: "('f, 'h) ManagedModule list \<Rightarrow> nat list" where
  "dependency_order modules =
     (let dependencies = dependency_indices modules;
          indegrees = map length dependencies
      in order_loop dependencies indegrees (initial_queue modules indegrees) [])"

definition dependencies_in_states ::
  "('f, 'h) ManagedModule list \<Rightarrow> nat \<Rightarrow> ModuleState list \<Rightarrow> bool" where
  "dependencies_in_states modules consumer accepted =
     (case mm_resolution (modules ! consumer) of
        None \<Rightarrow> False
      | Some resolution \<Rightarrow>
          list_all (\<lambda>b. case module_index modules (cp_module_id (cb_provider b)) of
                          None \<Rightarrow> False
                        | Some provider \<Rightarrow> mm_state (modules ! provider) \<in> set accepted)
            (res_bindings resolution))"

definition has_handle :: "('f, 'h) ManagedModule \<Rightarrow> bool" where
  "has_handle m \<longleftrightarrow> mm_handle m \<noteq> None"

definition add_shutdown_dependencies ::
  "('f, 'h) ManagedModule list \<Rightarrow> CapabilityResolution \<Rightarrow> nat list" where
  "add_shutdown_dependencies modules resolution =
     sort_dedup (filter (\<lambda>p. has_handle (modules ! p))
       (List.map_filter (\<lambda>b. module_index modules (cp_module_id (cb_provider b))) (res_bindings resolution)))"

definition shutdown_dependencies :: "('f, 'h) ManagedModule list \<Rightarrow> nat list list" where
  "shutdown_dependencies modules =
     map (\<lambda>m. case mm_resolution m of
                None \<Rightarrow> []
              | Some resolution \<Rightarrow>
                  if has_handle m then add_shutdown_dependencies modules resolution else []) modules"

text \<open>\<open>compare_shutdown_order\<close>: descending priority, then ascending identity.\<close>

definition shutdown_key :: "('f, 'h) ManagedModule list \<Rightarrow> nat \<Rightarrow> int \<times> ModuleId" where
  "shutdown_key modules index =
     (let d = mm_descriptor (modules ! index) in (- uint (md_shutdown_priority d), md_id d))"

definition shutdown_order :: "('f, 'h) ManagedModule list \<Rightarrow> nat list" where
  "shutdown_order modules =
     leaf_first (shutdown_key modules) (map has_handle modules) (shutdown_dependencies modules)"

section \<open>Operations of the supervisor\<close>

definition validate_registration ::
  "('f, 'h) LifecycleSupervisor \<Rightarrow> ModuleDescriptor \<Rightarrow> (CoreError, unit) result" where
  "validate_registration s d =
     (if MAX_MODULES \<le> length (sup_modules s)
      then Inl (with_internal_context (error_from_code ResourceExhaustedCode)
        ''module registration limit reached'')
      else if list_ex (\<lambda>m. md_id (mm_descriptor m) = md_id d) (sup_modules s)
      then Inl (with_internal_context (error_from_code ConflictCode)
        ''module identity is already registered'')
      else Inr ())"

definition register_module ::
  "('f \<Rightarrow> ModuleDescriptor) \<Rightarrow> 'f \<Rightarrow> ModuleConfigurationSnapshot \<Rightarrow> ('f, 'h) LifecycleSupervisor \<Rightarrow>
     (CoreError, unit) result \<times> ('f, 'h) LifecycleSupervisor" where
  "register_module descriptor_of factory configuration s =
     (case validate_registration s (descriptor_of factory) of
        Inl e \<Rightarrow> (Inl e, s)
      | Inr _ \<Rightarrow>
          let m = \<lparr>mm_descriptor = descriptor_of factory, mm_factory = factory,
                   mm_configuration = configuration, mm_resolution = None, mm_handle = None,
                   mm_cancelled = False, mm_state = Discovered, mm_generation = 0,
                   mm_error_code = None\<rparr>
          in (Inr (), s\<lparr>sup_modules := sup_modules s @ [validate_static_contracts m]\<rparr>))"

fun build_capability_graph ::
  "('f, 'h) ManagedModule list \<Rightarrow> CapabilityGraph \<Rightarrow> ('f, 'h) ManagedModule list \<times> CapabilityGraph" where
  "build_capability_graph [] graph = ([], graph)"
| "build_capability_graph (m # ms) graph =
     (case register_module_capabilities m graph of
        (m', graph') \<Rightarrow> apfst (Cons m') (build_capability_graph ms graph'))"

definition resolve_module ::
  "CapabilityGraph \<Rightarrow> ('f, 'h) ManagedModule \<Rightarrow> ('f, 'h) ManagedModule" where
  "resolve_module graph m =
     (if \<not> participates_in_resolution (mm_state m) then m
      else case graph_resolve graph (descriptor_requirements (mm_descriptor m)) of
             Inr resolution \<Rightarrow> m\<lparr>mm_resolution := Some resolution\<rparr>
           | Inl e \<Rightarrow> mark_unavailable (ce_code e) m)"

definition resolve_requirements ::
  "CapabilityGraph \<Rightarrow> ('f, 'h) ManagedModule list \<Rightarrow> ('f, 'h) ManagedModule list" where
  "resolve_requirements graph modules = map (resolve_module graph) modules"

definition mark_cycles :: "nat list \<Rightarrow> ('f, 'h) ManagedModule list \<Rightarrow> ('f, 'h) ManagedModule list" where
  "mark_cycles cycles modules =
     fold (\<lambda>index ms. ms[index := mark_unavailable ConflictCode (ms ! index)]) cycles modules"

definition validate_at ::
  "('f, 'h) module_calls \<Rightarrow> nat \<Rightarrow> ('f, 'h) ManagedModule list \<Rightarrow> ('f, 'h) ManagedModule list" where
  "validate_at calls index modules =
     (if mm_state (modules ! index) \<noteq> Discovered then modules
      else if \<not> dependencies_in_states modules index [Validated, Ready, Degraded]
      then modules[index := mark_unavailable UnavailableCode (modules ! index)]
      else modules[index := validate_module calls (modules ! index)])"

definition validate_in_order ::
  "('f, 'h) module_calls \<Rightarrow> nat list \<Rightarrow> ('f, 'h) ManagedModule list \<Rightarrow> ('f, 'h) ManagedModule list" where
  "validate_in_order calls order modules = fold (validate_at calls) order modules"

definition lifecycle_report :: "('f, 'h) LifecycleSupervisor \<Rightarrow> LifecycleReport" where
  "lifecycle_report s =
     \<lparr>lr_statuses = map module_status (sup_modules s),
      lr_startup_order = map (\<lambda>i. md_id (mm_descriptor (sup_modules s ! i))) (sup_startup_order s)\<rparr>"

definition validate_all ::
  "('f, 'h) module_calls \<Rightarrow> ('f, 'h) LifecycleSupervisor \<Rightarrow>
     LifecycleReport \<times> ('f, 'h) LifecycleSupervisor" where
  "validate_all calls s =
     (case build_capability_graph (sup_modules s) empty_graph of
        (registered, graph) \<Rightarrow>
          let resolved = resolve_requirements graph registered;
              cycles = cycle_members resolved;
              marked = mark_cycles cycles resolved;
              order = dependency_order marked;
              validated = validate_in_order calls order marked;
              s' = s\<lparr>sup_modules := validated, sup_validation_order := order\<rparr>
          in (lifecycle_report s', s'))"

definition start_one ::
  "('f, 'h) module_calls \<Rightarrow> nat \<Rightarrow> ('f, 'h) ManagedModule list \<Rightarrow> bool \<times> ('f, 'h) ManagedModule list" where
  "start_one calls index modules =
     (if is_live_state (mm_state (modules ! index)) then (False, modules)
      else if mm_state (modules ! index) \<noteq> Validated then (False, modules)
      else if \<not> dependencies_in_states modules index [Ready, Degraded]
      then (False, modules[index := mark_unavailable UnavailableCode (modules ! index)])
      else case start_validated_module calls (modules ! index) of
             (started, m) \<Rightarrow> (started, modules[index := m]))"

definition start_at ::
  "('f, 'h) module_calls \<Rightarrow> nat \<Rightarrow> ('f, 'h) LifecycleSupervisor \<Rightarrow> ('f, 'h) LifecycleSupervisor" where
  "start_at calls index s =
     (case start_one calls index (sup_modules s) of
        (started, modules) \<Rightarrow>
          s\<lparr>sup_modules := modules,
            sup_startup_order :=
              (if started \<and> index \<notin> set (sup_startup_order s) then sup_startup_order s @ [index]
               else sup_startup_order s)\<rparr>)"

definition start_all ::
  "('f, 'h) module_calls \<Rightarrow> ('f, 'h) LifecycleSupervisor \<Rightarrow>
     LifecycleReport \<times> ('f, 'h) LifecycleSupervisor" where
  "start_all calls s =
     (let s1 = snd (validate_all calls s);
          s2 = fold (start_at calls) (sup_validation_order s1) s1
      in (lifecycle_report s2, s2))"

text \<open>The loop over the modules stops at the first snapshot that the report has no room for.\<close>

fun health_each ::
  "('f, 'h) module_calls \<Rightarrow> ('f, 'h) ManagedModule list \<Rightarrow> HealthReport \<Rightarrow>
     HealthReport \<times> ('f, 'h) ManagedModule list" where
  "health_each calls [] report = (report, [])"
| "health_each calls (m # ms) report =
     (case refresh_module_health calls m of
        (None, m') \<Rightarrow> apsnd (Cons m') (health_each calls ms report)
      | (Some snapshot, m') \<Rightarrow>
          (case add_module snapshot report of
             (Inl _, _) \<Rightarrow> (health_report_new HealthUnavailable ResourceExhaustedReason, m' # ms)
           | (Inr _, report') \<Rightarrow> apsnd (Cons m') (health_each calls ms report')))"

definition supervisor_health ::
  "('f, 'h) module_calls \<Rightarrow> ('f, 'h) LifecycleSupervisor \<Rightarrow>
     HealthReport \<times> ('f, 'h) LifecycleSupervisor" where
  "supervisor_health calls s =
     (case health_each calls (sup_modules s) core_ready_report of
        (report, modules) \<Rightarrow> (report, s\<lparr>sup_modules := modules\<rparr>))"

definition shutdown_module ::
  "('f, 'h) module_calls \<Rightarrow> nat \<Rightarrow> ('f, 'h) ManagedModule \<Rightarrow> ('f, 'h) ManagedModule" where
  "shutdown_module calls caller_deadline m =
     (if \<not> has_handle m then m
      else case run_shutdown_operation calls (Some caller_deadline) (m\<lparr>mm_state := Stopping\<rparr>) of
             (ShutdownCompleted (Inr _), m') \<Rightarrow> mark_stopped m'
           | (ShutdownCompleted (Inl e), m') \<Rightarrow> mark_unavailable (ce_code e) m'
           | (ShutdownDeadlineExceeded, m') \<Rightarrow> mark_unavailable DeadlineExceededCode m'
           | (ShutdownUnavailable, m') \<Rightarrow> mark_unavailable UnavailableCode m'
           | (NoHandle, m') \<Rightarrow> m')"

definition shutdown_one ::
  "('f, 'h) module_calls \<Rightarrow> nat \<Rightarrow> nat \<Rightarrow> ('f, 'h) ManagedModule list \<Rightarrow> ('f, 'h) ManagedModule list" where
  "shutdown_one calls caller_deadline index modules =
     modules[index := shutdown_module calls caller_deadline (modules ! index)]"

definition shutdown_all ::
  "('f, 'h) module_calls \<Rightarrow> nat \<Rightarrow> ('f, 'h) LifecycleSupervisor \<Rightarrow>
     LifecycleReport \<times> ('f, 'h) LifecycleSupervisor" where
  "shutdown_all calls deadline s =
     (let order = shutdown_order (sup_modules s);
          s' = s\<lparr>sup_cancelled := True,
                 sup_modules := fold (shutdown_one calls deadline) order (sup_modules s)\<rparr>
      in (lifecycle_report s', s'))"

end
