(* ===== verification/Lifecycle_Passes.thy ===== *)
theory Lifecycle_Passes
  imports Lifecycle
begin

text \<open>
  The passes of the supervisor over its modules. The first part relates the dependency lists the
  supervisor builds to the graph lemmas: they have one entry per module, name participating
  modules only and become acyclic once the members of cycles are marked. The second part is the
  contract of a pass that visits modules in an order and replaces each by a value computed from
  the current list; validation, startup and shutdown interpret it, so that the result of a pass
  can be described by equations over its own final state.
\<close>

section \<open>Dependency lists of the supervisor\<close>

lemma map_filter_Nil: "List.map_filter f [] = []"
  by (simp add: List.map_filter_def)

lemma set_map_filter: "y \<in> set (List.map_filter f xs) \<longleftrightarrow> (\<exists>x \<in> set xs. f x = Some y)"
  by (force simp: List.map_filter_def)

lemma module_index_Some:
  "module_index ms i = Some k \<Longrightarrow> k < length ms \<and> md_id (mm_descriptor (ms ! k)) = i"
  by (auto simp: module_index_def find_Some_iff)

lemma distinct_remdups_adj_sorted: "sorted xs \<Longrightarrow> distinct (remdups_adj xs)"
  by (induction xs rule: remdups_adj.induct) (auto simp: order_antisym split: if_splits)

lemma sort_dedup_simps [simp]: "distinct (sort_dedup xs)" "set (sort_dedup xs) = set xs"
  by (simp_all add: sort_dedup_def distinct_remdups_adj_sorted)

lemma sort_dedup_Nil [simp]: "sort_dedup [] = []"
  by (simp add: sort_dedup_def)

text \<open>Module \<open>i\<close> is bound to module \<open>j\<close>.\<close>

definition bound_to :: "('f, 'h) ManagedModule list \<Rightarrow> nat \<Rightarrow> nat \<Rightarrow> bool" where
  "bound_to ms i j \<longleftrightarrow>
     (\<exists>res. mm_resolution (ms ! i) = Some res \<and>
        (\<exists>b \<in> set (res_bindings res). module_index ms (cp_module_id (cb_provider b)) = Some j))"

definition participants :: "('f, 'h) ManagedModule list \<Rightarrow> nat set" where
  "participants ms = {i. i < length ms \<and> participates_in_resolution (mm_state (ms ! i))}"

definition live_modules :: "('f, 'h) ManagedModule list \<Rightarrow> nat set" where
  "live_modules ms = {i. i < length ms \<and> has_handle (ms ! i)}"

lemma bound_to_range: "bound_to ms i j \<Longrightarrow> j < length ms"
  by (auto simp: bound_to_def dest: module_index_Some)

lemma length_dependency_indices [simp]: "length (dependency_indices ms) = length ms"
  by (simp add: dependency_indices_def)

lemma dependency_indices_nth:
  assumes "i < length ms"
  shows "set (dependency_indices ms ! i) =
    (if i \<in> participants ms then {j \<in> participants ms. bound_to ms i j} else {})"
  using assms
  by (cases "mm_resolution (ms ! i)")
    (auto simp: dependency_indices_def participants_def bound_to_def add_active_dependencies_def
      set_map_filter module_index_Some simp del: participates_in_resolution.simps)

lemma depends_dependency_indices:
  "(i, j) \<in> depends (dependency_indices ms) \<longleftrightarrow>
     i \<in> participants ms \<and> j \<in> participants ms \<and> bound_to ms i j"
proof (cases "i < length ms")
  case True
  then show ?thesis by (auto simp: depends_iff dependency_indices_nth)
next
  case False
  then show ?thesis by (simp add: depends_iff participants_def)
qed

lemma dependency_lists_participants: "dependency_lists (participants ms) (dependency_indices ms)"
proof -
  have "distinct (dependency_indices ms ! i)" if "i < length ms" for i
    using that by (auto simp: dependency_indices_def add_active_dependencies_def split: option.splits)
  then show ?thesis
    unfolding dependency_lists_def
    by (auto simp: dependency_indices_nth simp flip: set_empty) (auto simp: participants_def)
qed

lemma cycle_members_set:
  "set (cycle_members ms) = {i. (i, i) \<in> (depends (dependency_indices ms))\<^sup>+}"
proof -
  let ?d = "dependency_indices ms"
  have r: "in_range ?d" by (rule dependency_lists_in_range [OF dependency_lists_participants])
  have "i \<in> participants ms" if cyc: "(i, i) \<in> (depends ?d)\<^sup>+" for i
  proof -
    obtain j where "(i, j) \<in> depends ?d" using cyc by (meson tranclD)
    then show ?thesis by (simp add: depends_dependency_indices)
  qed
  moreover have "i \<in> set (cycle_members ms) \<longleftrightarrow> i \<in> participants ms \<and> (i, i) \<in> (depends ?d)\<^sup>+" for i
    by (auto simp: cycle_members_def Let_def participants_def dependency_path_returns_to_iff [OF r])
  ultimately show ?thesis by blast
qed

lemma cycle_members_sub: "set (cycle_members ms) \<subseteq> participants ms"
  by (auto simp: cycle_members_def Let_def participants_def)

lemma distinct_cycle_members: "distinct (cycle_members ms)"
  by (simp add: cycle_members_def Let_def)

section \<open>Passes that replace one module at a time\<close>

locale local_pass =
  fixes step :: "nat \<Rightarrow> 'm list \<Rightarrow> 'm list"
    and update :: "nat \<Rightarrow> 'm list \<Rightarrow> 'm"
  assumes step_update: "step i ms = ms[i := update i ms]"
begin

lemma pass_length [simp]: "length (fold step order ms) = length ms"
  by (induction order arbitrary: ms) (simp_all add: step_update)

lemma pass_outside: "i \<notin> set order \<Longrightarrow> fold step order ms ! i = ms ! i"
  by (induction order arbitrary: ms) (auto simp: step_update)

text \<open>
  The value at a visited index is computed from a list that holds the final values of the modules
  visited before and the initial values of all others.
\<close>

lemma pass_visited:
  assumes "distinct order" and "i \<in> set order" and "i < length ms"
  obtains mid before after where "order = before @ i # after" "length mid = length ms"
    "fold step order ms ! i = update i mid" "\<And>j. j \<in> set before \<Longrightarrow> mid ! j = fold step order ms ! j"
    "\<And>j. j \<notin> set before \<Longrightarrow> mid ! j = ms ! j"
proof -
  obtain before after where order: "order = before @ i # after"
    using assms(2) by (meson split_list)
  let ?mid = "fold step before ms"
  have late: "i \<notin> set after" "\<And>j. j \<in> set before \<Longrightarrow> j \<notin> set (i # after)"
    using assms(1) order by auto
  have final: "fold step order ms = fold step (i # after) ?mid" using order by simp
  have "fold step order ms ! i = step i ?mid ! i"
    unfolding final using late(1) by (simp add: pass_outside)
  then have "fold step order ms ! i = update i ?mid" using assms(3) by (simp add: step_update)
  moreover have "?mid ! j = fold step order ms ! j" if "j \<in> set before" for j
    unfolding final using pass_outside late(2) [OF that] by metis
  moreover have "?mid ! j = ms ! j" if "j \<notin> set before" for j
    using that by (rule pass_outside)
  moreover have "length ?mid = length ms" by simp
  ultimately show thesis by (intro that [OF order])
qed

end

definition marked_module :: "nat \<Rightarrow> ('f, 'h) ManagedModule list \<Rightarrow> ('f, 'h) ManagedModule" where
  "marked_module i ms = mark_unavailable ConflictCode (ms ! i)"

interpretation marking: local_pass
  "\<lambda>i (ms :: ('f, 'h) ManagedModule list). ms[i := mark_unavailable ConflictCode (ms ! i)]" marked_module
  by unfold_locales (simp add: marked_module_def)

lemma mark_cycles_nth:
  assumes "distinct cycles" and "i < length ms"
  shows "mark_cycles cycles ms ! i = (if i \<in> set cycles then mark_unavailable ConflictCode (ms ! i) else ms ! i)"
proof (cases "i \<in> set cycles")
  case True
  show ?thesis
  proof (rule marking.pass_visited [OF assms(1) True assms(2)])
    fix mid before after
    assume "cycles = before @ i # after" "\<And>j. j \<notin> set before \<Longrightarrow> mid ! j = ms ! j"
      "fold (\<lambda>i ms. ms[i := mark_unavailable ConflictCode (ms ! i)]) cycles ms ! i = marked_module i mid"
    then show ?thesis using assms(1) True by (simp add: mark_cycles_def marked_module_def)
  qed
next
  case False
  then show ?thesis by (simp add: mark_cycles_def marking.pass_outside)
qed

lemma length_mark_cycles [simp]: "length (mark_cycles cycles ms) = length ms"
  by (simp add: mark_cycles_def marking.pass_length)

section \<open>Identity and bindings survive every pass\<close>

text \<open>Two lists of modules with the same identities and resolutions have the same bindings.\<close>

definition same_bindings :: "('f, 'h) ManagedModule list \<Rightarrow> ('f, 'h) ManagedModule list \<Rightarrow> bool" where
  "same_bindings ms ms' \<longleftrightarrow>
     length ms = length ms' \<and>
     (\<forall>i < length ms. mm_descriptor (ms' ! i) = mm_descriptor (ms ! i) \<and>
        mm_resolution (ms' ! i) = mm_resolution (ms ! i))"

lemma same_bindings_refl [simp]: "same_bindings ms ms"
  by (simp add: same_bindings_def)

lemma same_bindings_trans: "same_bindings a b \<Longrightarrow> same_bindings b c \<Longrightarrow> same_bindings a c"
  by (simp add: same_bindings_def)

lemma same_bindings_update:
  "mm_descriptor m = mm_descriptor (ms ! i) \<Longrightarrow> mm_resolution m = mm_resolution (ms ! i) \<Longrightarrow>
     same_bindings ms (ms[i := m])"
  unfolding same_bindings_def by (metis length_list_update nth_list_update_eq nth_list_update_neq)

lemma same_bindings_index: "same_bindings ms ms' \<Longrightarrow> module_index ms' i = module_index ms i"
  unfolding module_index_def same_bindings_def by (intro find_cong) auto

lemma same_bindings_bound_to:
  "same_bindings ms ms' \<Longrightarrow> i < length ms \<Longrightarrow> bound_to ms' i j \<longleftrightarrow> bound_to ms i j"
  by (simp add: bound_to_def same_bindings_index) (simp add: same_bindings_def)

lemma dependencies_in_states_cong:
  assumes "same_bindings ms ms'" and "i < length ms"
    and "\<And>j. bound_to ms i j \<Longrightarrow> mm_state (ms' ! j) = mm_state (ms ! j)"
  shows "dependencies_in_states ms' i acc = dependencies_in_states ms i acc"
proof (cases "mm_resolution (ms ! i)")
  case None
  with assms(1,2) show ?thesis by (simp add: dependencies_in_states_def same_bindings_def)
next
  case (Some res)
  then have res': "mm_resolution (ms' ! i) = Some res"
    using assms(1,2) by (simp add: same_bindings_def)
  have "(case module_index ms' (cp_module_id (cb_provider b)) of None \<Rightarrow> False
        | Some p \<Rightarrow> mm_state (ms' ! p) \<in> set acc) =
      (case module_index ms (cp_module_id (cb_provider b)) of None \<Rightarrow> False
        | Some p \<Rightarrow> mm_state (ms ! p) \<in> set acc)" if "b \<in> set (res_bindings res)" for b
  proof (cases "module_index ms (cp_module_id (cb_provider b))")
    case None
    then show ?thesis by (simp add: same_bindings_index [OF assms(1)])
  next
    case index: (Some p)
    then have "bound_to ms i p" using Some that by (auto simp: bound_to_def)
    then show ?thesis using index assms(3) by (simp add: same_bindings_index [OF assms(1)])
  qed
  then show ?thesis
    by (auto simp: dependencies_in_states_def Some res' list_all_iff)
qed

lemma dependencies_in_states_bound:
  "dependencies_in_states ms i acc \<Longrightarrow> bound_to ms i j \<Longrightarrow> mm_state (ms ! j) \<in> set acc"
  by (auto simp: dependencies_in_states_def bound_to_def list_all_iff split: option.splits)

lemma mark_unavailable_simps [simp]:
  "mm_descriptor (mark_unavailable c m) = mm_descriptor m"
  "mm_resolution (mark_unavailable c m) = mm_resolution m"
  "mm_state (mark_unavailable c m) = Unavailable"
  "mm_handle (mark_unavailable c m) = mm_handle m"
  "mm_error_code (mark_unavailable c m) = Some c"
  "mm_cancelled (mark_unavailable c m) = True"
  "mm_generation (mark_unavailable c m) = mm_generation m"
  "mm_factory (mark_unavailable c m) = mm_factory m"
  "mm_configuration (mark_unavailable c m) = mm_configuration m"
  by (simp_all add: mark_unavailable_def)

lemma same_bindings_mark_cycles: "distinct cycles \<Longrightarrow> same_bindings ms (mark_cycles cycles ms)"
  by (simp add: same_bindings_def mark_cycles_nth)

section \<open>Marking the members of cycles leaves no cycle\<close>

lemma participants_mark_cycles:
  "distinct cycles \<Longrightarrow> participants (mark_cycles cycles ms) = participants ms - set cycles"
  by (auto simp: participants_def mark_cycles_nth split: if_splits)

lemma depends_mark_cycles:
  assumes "distinct cycles"
  shows "depends (dependency_indices (mark_cycles cycles ms)) =
    {(i, j) \<in> depends (dependency_indices ms). i \<notin> set cycles \<and> j \<notin> set cycles}"
proof -
  have "bound_to (mark_cycles cycles ms) i j = bound_to ms i j" if "i \<in> participants ms" for i j
    using that by (intro same_bindings_bound_to same_bindings_mark_cycles assms) (simp add: participants_def)
  then show ?thesis
    using assms by (auto simp: depends_dependency_indices participants_mark_cycles)
qed

lemma marked_acyclic:
  "acyclic (depends (dependency_indices (mark_cycles (cycle_members ms) ms)))"
proof -
  let ?new = "depends (dependency_indices (mark_cycles (cycle_members ms) ms))"
  note new = depends_mark_cycles [OF distinct_cycle_members, of ms ms]
  have "(i, i) \<notin> ?new\<^sup>+" for i
  proof
    assume cyc: "(i, i) \<in> ?new\<^sup>+"
    have "?new \<subseteq> depends (dependency_indices ms)" using new by auto
    then have "(i, i) \<in> (depends (dependency_indices ms))\<^sup>+" using cyc trancl_mono_subset by blast
    then have "i \<in> set (cycle_members ms)" by (simp add: cycle_members_set)
    moreover obtain j where "(i, j) \<in> ?new" using cyc by (meson tranclD)
    ultimately show False using new by auto
  qed
  then show ?thesis by (simp add: acyclic_def)
qed

lemma dependency_order_correct:
  assumes "acyclic (depends (dependency_indices ms))"
  shows "distinct (dependency_order ms) \<and> set (dependency_order ms) = participants ms \<and>
    providers_first (dependency_indices ms) (dependency_order ms)"
proof (rule order_loop_correct [OF dependency_lists_participants assms])
  show "dependency_order ms = order_loop (dependency_indices ms) (map length (dependency_indices ms))
      (filter (\<lambda>c. c \<in> participants ms \<and> map length (dependency_indices ms) ! c = 0)
        [0..<length (dependency_indices ms)]) []"
    unfolding dependency_order_def Let_def initial_queue_def length_dependency_indices
    by (rule arg_cong [where f = "\<lambda>q. order_loop _ _ q []"]) (auto simp: participants_def intro!: filter_cong)
qed

section \<open>Passes in dependency order\<close>

text \<open>In \<open>order\<close>, every module comes after the listed modules it is bound to.\<close>

definition bound_first :: "('f, 'h) ManagedModule list \<Rightarrow> nat list \<Rightarrow> bool" where
  "bound_first ms order \<longleftrightarrow>
     distinct order \<and> set order \<subseteq> {..<length ms} \<and>
     (\<forall>before i after. order = before @ i # after \<longrightarrow>
        (\<forall>j \<in> set order. bound_to ms i j \<longrightarrow> j \<in> set before))"

lemma bound_first_same: "same_bindings ms ms' \<Longrightarrow> bound_first ms order \<Longrightarrow> bound_first ms' order"
  unfolding bound_first_def by (auto simp: same_bindings_bound_to) (auto simp: same_bindings_def)

lemma bound_first_dependency_order:
  assumes "acyclic (depends (dependency_indices ms))"
  shows "bound_first ms (dependency_order ms)"
proof -
  let ?o = "dependency_order ms"
  have o: "distinct ?o" "set ?o = participants ms" "providers_first (dependency_indices ms) ?o"
    using dependency_order_correct [OF assms] by blast+
  have "j \<in> set before" if split: "?o = before @ i # after" and j: "j \<in> set ?o" "bound_to ms i j"
    for before i after j
  proof -
    have i: "i \<in> participants ms" using split o(2) by (metis in_set_conv_decomp)
    have "set (dependency_indices ms ! (?o ! length before)) \<subseteq> set (take (length before) ?o)"
      using o(3) split unfolding providers_first_def by (metis length_append length_Cons less_add_Suc1 add_Suc_right)
    then have "set (dependency_indices ms ! i) \<subseteq> set before" using split by simp
    moreover have "j \<in> set (dependency_indices ms ! i)"
      using i j o(2) by (auto simp: dependency_indices_nth participants_def)
    ultimately show ?thesis by blast
  qed
  then show ?thesis
    unfolding bound_first_def using o(1,2) by (auto simp: participants_def)
qed

locale module_pass = local_pass step update
  for step :: "nat \<Rightarrow> ('f, 'h) ManagedModule list \<Rightarrow> ('f, 'h) ManagedModule list"
    and update :: "nat \<Rightarrow> ('f, 'h) ManagedModule list \<Rightarrow> ('f, 'h) ManagedModule" +
  assumes keeps_descriptor: "mm_descriptor (update i ms) = mm_descriptor (ms ! i)"
    and keeps_resolution: "mm_resolution (update i ms) = mm_resolution (ms ! i)"
begin

lemma pass_same_bindings: "same_bindings ms (fold step order ms)"
proof (induction order arbitrary: ms)
  case Nil
  then show ?case by simp
next
  case (Cons i order)
  have "same_bindings ms (step i ms)"
    unfolding step_update by (rule same_bindings_update [OF keeps_descriptor keeps_resolution])
  then show ?case using Cons.IH [of "step i ms"] same_bindings_trans by auto
qed

text \<open>
  In dependency order, the value at a visited index is computed from a list in which the module
  itself is still as before the pass and all modules it is bound to are already as after it.
\<close>

lemma pass_in_order:
  assumes "bound_first ms order" and "i \<in> set order"
  obtains mid where "fold step order ms ! i = update i mid" "mid ! i = ms ! i" "same_bindings mid (fold step order ms)"
    "\<And>j. bound_to mid i j \<Longrightarrow> mid ! j = fold step order ms ! j"
proof -
  have d: "distinct order" and i: "i < length ms"
    using assms by (auto simp: bound_first_def)
  let ?final = "fold step order ms"
  show thesis
  proof (rule pass_visited [OF d assms(2) i])
    fix mid before after
    assume split: "order = before @ i # after" and len: "length mid = length ms"
      and val: "?final ! i = update i mid"
      and early: "\<And>j. j \<in> set before \<Longrightarrow> mid ! j = ?final ! j"
      and late: "\<And>j. j \<notin> set before \<Longrightarrow> mid ! j = ms ! j"
    have self: "mid ! i = ms ! i" using late d split by auto
    have "mm_descriptor (mid ! j) = mm_descriptor (?final ! j) \<and>
        mm_resolution (mid ! j) = mm_resolution (?final ! j)" if "j < length ms" for j
      using early [of j] late [of j] that pass_same_bindings [of ms order]
      unfolding same_bindings_def by metis
    then have same: "same_bindings mid ?final" using len by (simp add: same_bindings_def)
    have same': "same_bindings mid ms"
      using same pass_same_bindings [of ms order] by (simp add: same_bindings_def)
    have "mid ! j = ?final ! j" if bound: "bound_to mid i j" for j
    proof (cases "j \<in> set order")
      case True
      have "bound_to ms i j" using bound same_bindings_bound_to [OF same'] i len by simp
      then have "j \<in> set before" using assms(1) split True unfolding bound_first_def by blast
      then show ?thesis by (rule early)
    next
      case False
      then have "j \<notin> set before" using split by simp
      then show ?thesis using late pass_outside [OF False] by metis
    qed
    then show thesis using that val self same by blast
  qed
qed

end

section \<open>Validation\<close>

definition validated_module ::
  "('f, 'h) module_calls \<Rightarrow> nat \<Rightarrow> ('f, 'h) ManagedModule list \<Rightarrow> ('f, 'h) ManagedModule" where
  "validated_module calls i ms =
     (if mm_state (ms ! i) \<noteq> Discovered then ms ! i
      else if \<not> dependencies_in_states ms i [Validated, Ready, Degraded]
      then mark_unavailable UnavailableCode (ms ! i)
      else validate_module calls (ms ! i))"

lemma validate_module_keeps [simp]:
  "mm_descriptor (validate_module calls m) = mm_descriptor m"
  "mm_resolution (validate_module calls m) = mm_resolution m"
  "mm_handle (validate_module calls m) = mm_handle m"
  "mm_generation (validate_module calls m) = mm_generation m"
  by (simp_all add: validate_module_def apply_validation_outcome_def split: option.splits BoundedOutcome.splits sum.splits)

interpretation validation: module_pass "validate_at calls" "validated_module calls"
  for calls :: "('f, 'h) module_calls"
  by unfold_locales (auto simp: validate_at_def validated_module_def)

text \<open>The outcome of the validation pass, stated over its final list.\<close>

lemma validate_in_order_equation:
  assumes "bound_first ms order" and "i \<in> set order" and "final = validate_in_order calls order ms"
  shows "final ! i =
    (if mm_state (ms ! i) \<noteq> Discovered then ms ! i
     else if \<not> dependencies_in_states final i [Validated, Ready, Degraded]
     then mark_unavailable UnavailableCode (ms ! i)
     else validate_module calls (ms ! i))"
proof (rule validation.pass_in_order [OF assms(1,2), of calls])
  fix mid
  assume v: "fold (validate_at calls) order ms ! i = validated_module calls i mid" "mid ! i = ms ! i"
    and same: "same_bindings mid (fold (validate_at calls) order ms)"
    and provs: "\<And>j. bound_to mid i j \<Longrightarrow> mid ! j = fold (validate_at calls) order ms ! j"
  have "i < length mid" using assms(1,2) same by (auto simp: bound_first_def same_bindings_def)
  then have "dependencies_in_states final i acc = dependencies_in_states mid i acc" for acc
    unfolding assms(3) validate_in_order_def
    by (intro dependencies_in_states_cong same) (simp_all add: provs)
  then show ?thesis using v by (simp add: assms(3) validate_in_order_def validated_module_def)
qed

section \<open>Startup\<close>

definition started_module ::
  "('f, 'h) module_calls \<Rightarrow> nat \<Rightarrow> ('f, 'h) ManagedModule list \<Rightarrow> ('f, 'h) ManagedModule" where
  "started_module calls i ms =
     (if mm_state (ms ! i) \<noteq> Validated then ms ! i
      else if \<not> dependencies_in_states ms i [Ready, Degraded]
      then mark_unavailable UnavailableCode (ms ! i)
      else snd (start_validated_module calls (ms ! i)))"

lemma start_validated_keeps [simp]:
  "mm_descriptor (snd (start_validated_module calls m)) = mm_descriptor m"
  "mm_resolution (snd (start_validated_module calls m)) = mm_resolution m"
  by (simp_all add: start_validated_module_def apply_start_outcome_def
      split: sum.splits BoundedOutcome.splits prod.splits)

interpretation starting: module_pass "\<lambda>i ms. snd (start_one calls i ms)" "started_module calls"
  for calls :: "('f, 'h) module_calls"
  by unfold_locales (auto simp: start_one_def started_module_def split: prod.splits)

lemma start_pass_modules:
  "sup_modules (fold (start_at calls) order s) =
     fold (\<lambda>i ms. snd (start_one calls i ms)) order (sup_modules s)"
  by (induction order arbitrary: s) (simp_all add: start_at_def split: prod.splits)

lemma start_pass_equation:
  assumes "bound_first ms order" and "i \<in> set order"
    and "final = fold (\<lambda>i ms. snd (start_one calls i ms)) order ms"
  shows "final ! i =
    (if mm_state (ms ! i) \<noteq> Validated then ms ! i
     else if \<not> dependencies_in_states final i [Ready, Degraded]
     then mark_unavailable UnavailableCode (ms ! i)
     else snd (start_validated_module calls (ms ! i)))"
proof (rule starting.pass_in_order [OF assms(1,2), of calls])
  fix mid
  let ?final = "fold (\<lambda>i ms. snd (start_one calls i ms)) order ms"
  assume v: "?final ! i = started_module calls i mid" "mid ! i = ms ! i"
    and same: "same_bindings mid ?final"
    and provs: "\<And>j. bound_to mid i j \<Longrightarrow> mid ! j = ?final ! j"
  have "i < length mid" using assms(1,2) same by (auto simp: bound_first_def same_bindings_def)
  then have "dependencies_in_states final i acc = dependencies_in_states mid i acc" for acc
    unfolding assms(3) by (intro dependencies_in_states_cong same) (simp_all add: provs)
  then show ?thesis using v by (simp add: assms(3) started_module_def)
qed

end
