(* ===== verification/Lifecycle_Outcome.thy ===== *)
theory Lifecycle_Outcome
  imports Lifecycle_Passes
begin

text \<open>
  What the operations of the supervisor do to its modules: the phases of a validation, exactly when
  a module that was waiting to be validated becomes ready, the order in which live modules stop and
  what stopping does.
\<close>

section \<open>The phases of a validation\<close>

definition resolved_modules :: "('f, 'h) ManagedModule list \<Rightarrow> ('f, 'h) ManagedModule list" where
  "resolved_modules ms =
     (case build_capability_graph ms empty_graph of (registered, graph) \<Rightarrow> resolve_requirements graph registered)"

definition prepared_modules :: "('f, 'h) ManagedModule list \<Rightarrow> ('f, 'h) ManagedModule list" where
  "prepared_modules ms = mark_cycles (cycle_members (resolved_modules ms)) (resolved_modules ms)"

lemma validate_all_eq:
  "sup_modules (snd (validate_all calls s)) =
     validate_in_order calls (dependency_order (prepared_modules (sup_modules s)))
       (prepared_modules (sup_modules s))"
  "sup_validation_order (snd (validate_all calls s)) = dependency_order (prepared_modules (sup_modules s))"
  "sup_startup_order (snd (validate_all calls s)) = sup_startup_order s"
  "sup_cancelled (snd (validate_all calls s)) = sup_cancelled s"
  by (simp_all add: validate_all_def prepared_modules_def resolved_modules_def Let_def split: prod.splits)

lemma start_all_modules:
  "sup_modules (snd (start_all calls s)) =
     fold (\<lambda>i ms. snd (start_one calls i ms)) (dependency_order (prepared_modules (sup_modules s)))
       (sup_modules (snd (validate_all calls s)))"
  by (simp add: start_all_def Let_def start_pass_modules validate_all_eq)

lemma prepared_acyclic: "acyclic (depends (dependency_indices (prepared_modules ms)))"
  unfolding prepared_modules_def by (rule marked_acyclic)

lemmas prepared_order = dependency_order_correct [OF prepared_acyclic]
lemmas prepared_bound_first = bound_first_dependency_order [OF prepared_acyclic]

lemma build_graph_nth:
  "build_capability_graph ms graph = (ms', graph') \<Longrightarrow>
     length ms' = length ms \<and>
     (\<forall>i < length ms. ms' ! i = ms ! i \<or>
        participates_in_resolution (mm_state (ms ! i)) \<and> (\<exists>c. ms' ! i = mark_unavailable c (ms ! i)))"
proof (induction ms arbitrary: graph ms' graph')
  case Nil
  then show ?case by simp
next
  case (Cons m ms)
  obtain m1 g1 where m1: "register_module_capabilities m graph = (m1, g1)" by fastforce
  obtain ms1 where ms1: "build_capability_graph ms g1 = (ms1, graph')" "ms' = m1 # ms1"
    using Cons.prems m1 by (cases "build_capability_graph ms g1") auto
  have "m1 = m \<or> participates_in_resolution (mm_state m) \<and> (\<exists>c. m1 = mark_unavailable c m)"
    using m1 by (auto simp: register_module_capabilities_def split: if_splits prod.splits sum.splits
        simp del: participates_in_resolution.simps)
  then show ?case using Cons.IH [OF ms1(1)] ms1(2) by (auto simp: nth_Cons split: nat.splits)
qed

text \<open>
  Preparation keeps a module as it is apart from its resolution, or marks it unavailable when it
  took part in resolution.
\<close>

lemma resolve_module_cases:
  "(\<exists>res. resolve_module g m = m\<lparr>mm_resolution := res\<rparr> \<and>
      (participates_in_resolution (mm_state m) \<longrightarrow> res \<noteq> None) \<and>
      (\<not> participates_in_resolution (mm_state m) \<longrightarrow> res = mm_resolution m)) \<or>
   participates_in_resolution (mm_state m) \<and> (\<exists>c. resolve_module g m = mark_unavailable c m)"
  by (auto simp: resolve_module_def split: sum.splits simp del: participates_in_resolution.simps)

lemma length_prepared [simp]: "length (prepared_modules ms) = length ms"
  using build_graph_nth
  by (fastforce simp: prepared_modules_def resolved_modules_def resolve_requirements_def split: prod.splits)

definition prepared_from :: "('f, 'h) ManagedModule \<Rightarrow> ('f, 'h) ManagedModule \<Rightarrow> bool" where
  "prepared_from m m' \<longleftrightarrow>
     (\<exists>res. m' = m\<lparr>mm_resolution := res\<rparr> \<and>
        (participates_in_resolution (mm_state m) \<longrightarrow> res \<noteq> None) \<and>
        (\<not> participates_in_resolution (mm_state m) \<longrightarrow> res = mm_resolution m)) \<or>
     participates_in_resolution (mm_state m) \<and>
       (\<exists>c res. m' = mark_unavailable c (m\<lparr>mm_resolution := res\<rparr>) \<and> (res = mm_resolution m \<or> res \<noteq> None))"

lemma prepared_from_mark: "participates_in_resolution (mm_state m) \<Longrightarrow> prepared_from m (mark_unavailable c m)"
proof -
  have "mark_unavailable c m = mark_unavailable c (m\<lparr>mm_resolution := mm_resolution m\<rparr>)" by simp
  then show "participates_in_resolution (mm_state m) \<Longrightarrow> ?thesis"
    unfolding prepared_from_def by blast
qed

lemma prepared_from_resolve: "prepared_from m (resolve_module g m)"
  using resolve_module_cases [of g m]
proof (elim disjE conjE exE)
  fix c
  assume "participates_in_resolution (mm_state m)" "resolve_module g m = mark_unavailable c m"
  then show ?thesis by (simp only: prepared_from_mark)
qed (unfold prepared_from_def, blast)

lemma prepared_from_resolve_mark:
  assumes "participates_in_resolution (mm_state (resolve_module g m))"
  shows "prepared_from m (mark_unavailable c (resolve_module g m))"
  using resolve_module_cases [of g m]
proof (elim disjE conjE exE)
  fix res
  assume res: "resolve_module g m = m\<lparr>mm_resolution := res\<rparr>"
    "participates_in_resolution (mm_state m) \<longrightarrow> res \<noteq> None"
  have "participates_in_resolution (mm_state m)" using assms res(1) by simp
  with res show ?thesis unfolding prepared_from_def res(1) by blast
next
  fix d
  assume "resolve_module g m = mark_unavailable d m"
  then show ?thesis using assms by simp
qed

lemma prepared_cases:
  assumes "i < length ms"
  shows "prepared_from (ms ! i) (prepared_modules ms ! i)"
proof -
  obtain reg g where g: "build_capability_graph ms empty_graph = (reg, g)" by fastforce
  note b = build_graph_nth [OF g]
  let ?res = "resolve_requirements g reg"
  have prep: "prepared_modules ms ! i =
      (if i \<in> set (cycle_members ?res) then mark_unavailable ConflictCode (?res ! i) else ?res ! i)"
    using assms b by (simp add: prepared_modules_def resolved_modules_def g mark_cycles_nth
        distinct_cycle_members resolve_requirements_def)
  have cyc: "participates_in_resolution (mm_state (?res ! i))" if "i \<in> set (cycle_members ?res)"
    using that cycle_members_sub unfolding participants_def by blast
  have res: "?res ! i = resolve_module g (reg ! i)"
    using assms b by (simp add: resolve_requirements_def)
  consider (kept) "reg ! i = ms ! i" |
    (marked) c where "participates_in_resolution (mm_state (ms ! i))" "reg ! i = mark_unavailable c (ms ! i)"
    using b assms by blast
  then show ?thesis
  proof cases
    case kept
    show ?thesis
      using prep cyc prepared_from_resolve [of "ms ! i" g] prepared_from_resolve_mark [of g "ms ! i"]
      unfolding res kept by (cases "i \<in> set (cycle_members ?res)") simp_all
  next
    case marked
    then have "?res ! i = mark_unavailable c (ms ! i)" by (simp add: res resolve_module_def)
    then show ?thesis using prep cyc prepared_from_mark [OF marked(1)] by (auto split: if_splits)
  qed
qed

lemma prepared_discovered:
  assumes "i < length ms" and "mm_state (ms ! i) = Discovered"
  shows "mm_state (prepared_modules ms ! i) \<in> {Discovered, Unavailable}"
  using prepared_cases [OF assms(1)] assms(2) by (auto simp: prepared_from_def)

section \<open>When a registered module becomes ready\<close>

text \<open>The module's own calls succeed: both run to completion in time and report success.\<close>

definition calls_succeed :: "('f, 'h) module_calls \<Rightarrow> ('f, 'h) ManagedModule \<Rightarrow> bool" where
  "calls_succeed calls m \<longleftrightarrow>
     (case mm_resolution m of
        None \<Rightarrow> False
      | Some res \<Rightarrow>
          validate_fate calls (md_id (mm_descriptor m)) = PublishedInTime \<and>
          call_validate calls (mm_factory m) (mm_configuration m) res = Some (Inr ()) \<and>
          mm_generation m \<noteq> - 1 \<and>
          start_fate calls (md_id (mm_descriptor m)) = PublishedInTime \<and>
          (case call_start calls (mm_factory m) res of Some (Inr _) \<Rightarrow> True | _ \<Rightarrow> False))"

lemma checked_add_1: "checked_add w 1 = None \<longleftrightarrow> w = - 1" for w :: "'a::len word"
proof -
  have top: "unat (- 1 :: 'a word) = 2 ^ LENGTH('a) - 1"
    by (simp add: unsigned_minus_1_eq_mask mask_eq_exp_minus_1)
  show ?thesis
    unfolding checked_add_eq_None word_unat_eq_iff top unat_1
    using unat_lt_width [of w] by (intro iffI; linarith)
qed

lemma calls_succeed_iff:
  "calls_succeed calls m \<longleftrightarrow>
     (\<exists>res h. mm_resolution m = Some res \<and>
        validate_fate calls (md_id (mm_descriptor m)) = PublishedInTime \<and>
        call_validate calls (mm_factory m) (mm_configuration m) res = Some (Inr ()) \<and>
        mm_generation m \<noteq> - 1 \<and> start_fate calls (md_id (mm_descriptor m)) = PublishedInTime \<and>
        call_start calls (mm_factory m) res = Some (Inr h))"
  by (auto simp: calls_succeed_def split: option.splits sum.splits)

lemma guarded_ok: "guarded_module_call o1 = Inr x \<longleftrightarrow> o1 = Some (Inr x)"
  by (auto simp: guarded_module_call_def split: option.splits)

lemma run_bounded_Completed: "run_bounded f x = Completed y \<longleftrightarrow> f = PublishedInTime \<and> y = x"
  by (cases f) auto

lemma validate_module_state:
  "mm_state (validate_module calls m) = Validated \<longleftrightarrow>
     (\<exists>res. mm_resolution m = Some res \<and> validate_fate calls (md_id (mm_descriptor m)) = PublishedInTime \<and>
        call_validate calls (mm_factory m) (mm_configuration m) res = Some (Inr ()))"
  "mm_state (validate_module calls m) \<in> {Validated, Unavailable}"
  by (auto simp: validate_module_def apply_validation_outcome_def guarded_module_call_def
      run_bounded_Completed split: option.splits BoundedOutcome.splits sum.splits)

lemma start_validated_state:
  "mm_state (snd (start_validated_module calls m)) = Ready \<longleftrightarrow>
     (\<exists>res h. mm_resolution m = Some res \<and> mm_generation m \<noteq> - 1 \<and>
        start_fate calls (md_id (mm_descriptor m)) = PublishedInTime \<and>
        call_start calls (mm_factory m) res = Some (Inr h))"
  "mm_state (snd (start_validated_module calls m)) \<in> {Ready, Unavailable}"
proof -
  let ?run = "\<lambda>res. run_bounded (start_fate calls (md_id (mm_descriptor m)))
    (guarded_module_call (call_start calls (mm_factory m) res))"
  have start: "start_validated_module calls m =
      (case mm_resolution m of
         None \<Rightarrow> (False, mark_unavailable UnavailableCode m)
       | Some res \<Rightarrow>
           case checked_add (mm_generation m) 1 of
             None \<Rightarrow> (False, mark_unavailable ResourceExhaustedCode m)
           | Some g \<Rightarrow> apply_start_outcome g (?run res) (m\<lparr>mm_state := Starting\<rparr>))"
    by (simp add: start_validated_module_def prepare_start_def split: option.splits)
  have run: "?run res = Completed (Inr h) \<longleftrightarrow>
      start_fate calls (md_id (mm_descriptor m)) = PublishedInTime \<and>
      call_start calls (mm_factory m) res = Some (Inr h)" for res h
    by (auto simp: run_bounded_Completed guarded_ok eq_commute [of "Inr h"])
  have applied: "mm_state (snd (apply_start_outcome g r n)) \<in> {Ready, Unavailable}"
    "mm_state (snd (apply_start_outcome g r n)) = Ready \<longleftrightarrow> (\<exists>h. r = Completed (Inr h))"
    for g r and n :: "('a, 'b) ManagedModule"
    by (auto simp: apply_start_outcome_def split: BoundedOutcome.splits sum.splits)
  show "mm_state (snd (start_validated_module calls m)) \<in> {Ready, Unavailable}"
    using applied(1) by (simp add: start split: option.splits)
  show "mm_state (snd (start_validated_module calls m)) = Ready \<longleftrightarrow>
     (\<exists>res h. mm_resolution m = Some res \<and> mm_generation m \<noteq> - 1 \<and>
        start_fate calls (md_id (mm_descriptor m)) = PublishedInTime \<and>
        call_start calls (mm_factory m) res = Some (Inr h))"
    by (auto simp: start applied(2) run split: option.splits
        simp flip: checked_add_1)
qed

lemma dependencies_in_states_mono:
  assumes "same_bindings ms ms'" and "i < length ms" and "dependencies_in_states ms i acc"
    and "\<And>j. bound_to ms i j \<Longrightarrow> mm_state (ms ! j) \<in> set acc \<Longrightarrow> mm_state (ms' ! j) \<in> set acc'"
  shows "dependencies_in_states ms' i acc'"
proof -
  obtain res where res: "mm_resolution (ms ! i) = Some res"
    using assms(3) by (auto simp: dependencies_in_states_def split: option.splits)
  have "case module_index ms' (cp_module_id (cb_provider b)) of None \<Rightarrow> False
      | Some p \<Rightarrow> mm_state (ms' ! p) \<in> set acc'" if b: "b \<in> set (res_bindings res)" for b
  proof -
    obtain p where p: "module_index ms (cp_module_id (cb_provider b)) = Some p" "mm_state (ms ! p) \<in> set acc"
      using assms(3) res b by (auto simp: dependencies_in_states_def list_all_iff split: option.splits)
    then have "bound_to ms i p" using res b by (auto simp: bound_to_def)
    then show ?thesis using p assms(4) by (simp add: same_bindings_index [OF assms(1)])
  qed
  moreover have "mm_resolution (ms' ! i) = Some res"
    using assms(1,2) res by (simp add: same_bindings_def)
  ultimately show ?thesis by (simp add: dependencies_in_states_def list_all_iff)
qed

text \<open>
  The outcome of \<open>start_all\<close> for a module that was waiting to be validated, as an equation over
  the final modules.
\<close>

lemma start_all_discovered:
  assumes "i < length (sup_modules s)" and "mm_state (sup_modules s ! i) = Discovered"
    and "final = sup_modules (snd (start_all calls s))" and "m = prepared_modules (sup_modules s) ! i"
  shows "(mm_state (final ! i) = Ready \<longleftrightarrow>
      mm_state m = Discovered \<and> dependencies_in_states final i [Ready, Degraded] \<and> calls_succeed calls m) \<and>
    mm_state (final ! i) \<in> {Ready, Unavailable}"
proof -
  define P where "P = prepared_modules (sup_modules s)"
  define order where "order = dependency_order P"
  define V where "V = validate_in_order calls order P"
  have V: "sup_modules (snd (validate_all calls s)) = V"
    by (simp add: validate_all_eq V_def order_def P_def)
  have F: "final = fold (\<lambda>i ms. snd (start_one calls i ms)) order V"
    by (simp add: assms(3) start_all_modules V order_def P_def)
  have bfP: "bound_first P order" unfolding order_def P_def by (rule prepared_bound_first)
  have PV: "same_bindings P V" unfolding V_def validate_in_order_def by (rule validation.pass_same_bindings)
  have VF: "same_bindings V final" unfolding F by (rule starting.pass_same_bindings)
  have bfV: "bound_first V order" using bound_first_same [OF PV bfP] .
  have lenP: "length P = length (sup_modules s)" by (simp add: P_def)
  have m: "m = P ! i" by (simp add: assms(4) P_def)
  have i: "i < length P" "i < length V" "i < length final"
    using assms(1) lenP PV VF by (auto simp: same_bindings_def)
  have disc: "mm_state (P ! i) \<in> {Discovered, Unavailable}"
    using prepared_discovered [OF assms(1,2)] by (simp add: P_def)
  have order_set: "set order = participants P"
    unfolding order_def P_def by (rule prepared_order [THEN conjunct2, THEN conjunct1])
  have member: "i \<in> set order \<longleftrightarrow> mm_state (P ! i) = Discovered"
    unfolding order_set using disc i(1) by (auto simp: participants_def)
  note startEq = start_pass_equation [OF bfV _ F]
  show ?thesis
  proof (cases "mm_state (P ! i) = Discovered")
    case False
    then have out: "i \<notin> set order" using member by simp
    have "final ! i = P ! i"
      unfolding F starting.pass_outside [OF out] V_def validate_in_order_def
      by (rule validation.pass_outside [OF out])
    then show ?thesis using False disc m by auto
  next
    case True
    then have inn: "i \<in> set order" using member by simp
    have vi: "V ! i = (if \<not> dependencies_in_states V i [Validated, Ready, Degraded]
        then mark_unavailable UnavailableCode (P ! i) else validate_module calls (P ! i))"
      using validate_in_order_equation [OF bfP inn V_def] True by simp
    have step: "mm_state (V ! j) \<in> set [Validated, Ready, Degraded]"
      if "mm_state (final ! j) \<in> set [Ready, Degraded]" for j
    proof (cases "j \<in> set order")
      case True
      then show ?thesis using startEq [OF True] that by (auto split: if_splits)
    next
      case False
      then show ?thesis using that unfolding F starting.pass_outside [OF False] by auto
    qed
    have deps: "dependencies_in_states V i [Validated, Ready, Degraded]"
      if "dependencies_in_states final i [Ready, Degraded]"
      using that step VF i(3)
      by (intro dependencies_in_states_mono [of final V i "[Ready, Degraded]"])
        (auto simp: same_bindings_def)
    have keep: "mm_resolution (V ! i) = mm_resolution m" "mm_generation (V ! i) = mm_generation m"
      "mm_descriptor (V ! i) = mm_descriptor m" "mm_factory (V ! i) = mm_factory m"
      using vi m by (auto simp: validate_module_def apply_validation_outcome_def mark_unavailable_def
          split: option.splits BoundedOutcome.splits sum.splits)
    have validated: "mm_state (V ! i) \<in> {Validated, Unavailable}"
      using vi validate_module_state(2) [of calls "P ! i"] by auto
    note fi = startEq [OF inn]
    show ?thesis
    proof (cases "dependencies_in_states final i [Ready, Degraded]")
      case False
      then show ?thesis using fi validated by auto
    next
      case D: True
      then have "V ! i = validate_module calls m" using vi deps m by simp
      then have val: "mm_state (V ! i) = Validated \<longleftrightarrow>
          (\<exists>res. mm_resolution m = Some res \<and> validate_fate calls (md_id (mm_descriptor m)) = PublishedInTime \<and>
             call_validate calls (mm_factory m) (mm_configuration m) res = Some (Inr ()))"
        by (simp only: validate_module_state(1))
      show ?thesis
      proof (cases "mm_state (V ! i) = Validated")
        case False
        then have "final ! i = V ! i" using fi by simp
        moreover have "\<not> calls_succeed calls m" using False val by (auto simp: calls_succeed_iff)
        ultimately show ?thesis using False validated by auto
      next
        case ok: True
        then have final: "final ! i = snd (start_validated_module calls (V ! i))" using fi D by simp
        have "mm_state (final ! i) = Ready \<longleftrightarrow> calls_succeed calls m"
          unfolding final start_validated_state(1) keep calls_succeed_iff using ok val by auto
        moreover have "mm_state m = Discovered" using m True by simp
        ultimately show ?thesis using D start_validated_state(2) [of calls "V ! i"] final by simp
      qed
    qed
  qed
qed

section \<open>Stopping\<close>

lemma live_set_has_handle: "live_set (map has_handle ms) = live_modules ms"
  by (auto simp: live_set_def live_modules_def)

lemma length_shutdown_dependencies [simp]: "length (shutdown_dependencies ms) = length ms"
  by (simp add: shutdown_dependencies_def)

lemma shutdown_dependencies_nth:
  assumes "i < length ms"
  shows "set (shutdown_dependencies ms ! i) =
    (if i \<in> live_modules ms then {j \<in> live_modules ms. bound_to ms i j} else {})"
  using assms
  by (cases "mm_resolution (ms ! i)")
    (auto simp: shutdown_dependencies_def live_modules_def bound_to_def add_shutdown_dependencies_def
      set_map_filter module_index_Some)

lemma shutdown_dependency_lists: "dependency_lists (live_modules ms) (shutdown_dependencies ms)"
proof -
  have "distinct (shutdown_dependencies ms ! i)" if "i < length ms" for i
    using that by (auto simp: shutdown_dependencies_def add_shutdown_dependencies_def split: option.splits)
  then show ?thesis
    unfolding dependency_lists_def
    by (auto simp: shutdown_dependencies_nth simp flip: set_empty) (auto simp: live_modules_def)
qed

lemma depends_shutdown:
  "depends (shutdown_dependencies ms) =
     {(i, j). i \<in> live_modules ms \<and> j \<in> live_modules ms \<and> bound_to ms i j}"
  by (auto simp: depends_iff shutdown_dependencies_nth live_modules_def split: if_splits)

lemma shutdown_order_correct:
  "distinct (shutdown_order ms) \<and> set (shutdown_order ms) = live_modules ms \<and>
   best_leaf_first (shutdown_key ms) (live_modules ms) (shutdown_dependencies ms) (shutdown_order ms) \<and>
   (acyclic (depends (shutdown_dependencies ms)) \<longrightarrow>
      consumers_first (live_modules ms) (shutdown_dependencies ms) (shutdown_order ms))"
  using leaf_first_correct [of "map has_handle ms" "shutdown_dependencies ms" "shutdown_order ms" "shutdown_key ms"]
  by (simp add: live_set_has_handle shutdown_dependency_lists shutdown_order_def)

interpretation stopping: local_pass "shutdown_one calls deadline" "\<lambda>i ms. shutdown_module calls deadline (ms ! i)"
  for calls :: "('f, 'h) module_calls" and deadline
  by unfold_locales (simp add: shutdown_one_def)

text \<open>Every module is stopped on its own: the pass applies \<open>shutdown_module\<close> once to each.\<close>

lemma shutdown_pass_map:
  assumes "distinct order" and "set order = live_modules ms"
  shows "fold (shutdown_one calls deadline) order ms = map (shutdown_module calls deadline) ms"
proof (rule nth_equalityI)
  fix i
  assume "i < length (fold (shutdown_one calls deadline) order ms)"
  then have i: "i < length ms" by simp
  show "fold (shutdown_one calls deadline) order ms ! i = map (shutdown_module calls deadline) ms ! i"
  proof (cases "i \<in> set order")
    case True
    show ?thesis
    proof (rule stopping.pass_visited [OF assms(1) True i, of calls deadline])
      fix mid before after
      assume "order = before @ i # after" "\<And>j. j \<notin> set before \<Longrightarrow> mid ! j = ms ! j"
        "fold (shutdown_one calls deadline) order ms ! i = shutdown_module calls deadline (mid ! i)"
      then show ?thesis using assms(1) i by simp
    qed
  next
    case False
    then have "\<not> has_handle (ms ! i)" using assms(2) i by (simp add: live_modules_def)
    then show ?thesis using False i by (simp add: stopping.pass_outside shutdown_module_def)
  qed
qed simp

lemma shutdown_all_modules:
  "sup_modules (snd (shutdown_all calls deadline s)) = map (shutdown_module calls deadline) (sup_modules s)"
  using shutdown_order_correct [of "sup_modules s"]
  by (simp add: shutdown_all_def Let_def shutdown_pass_map)

end
