(* ===== verification/Lifecycle_Invariant.thy ===== *)
theory Lifecycle_Invariant
  imports Lifecycle_Outcome Interfaces
begin

text \<open>
  The supervisor as a transition system over its public operations, and its invariant: at most 256
  modules with distinct identities, each in a consistent state, and a startup order that lists
  exactly the modules whose factory has been started, each once. A factory is started at most once:
  the generation of a module is 0 before its start and 1 from then on.
\<close>

section \<open>The transition system\<close>

datatype ('f, 'h) supervisor_op =
  RegisterOp 'f ModuleConfigurationSnapshot
| ValidateOp "('f, 'h) module_calls"
| StartOp "('f, 'h) module_calls"
| HealthOp "('f, 'h) module_calls"
| ShutdownOp "('f, 'h) module_calls" nat

fun supervisor_next ::
  "('f \<Rightarrow> ModuleDescriptor) \<Rightarrow> ('f, 'h) supervisor_op \<Rightarrow> ('f, 'h) LifecycleSupervisor \<Rightarrow>
     ('f, 'h) LifecycleSupervisor" where
  "supervisor_next descriptor_of (RegisterOp f configuration) s =
     snd (register_module descriptor_of f configuration s)"
| "supervisor_next descriptor_of (ValidateOp calls) s = snd (validate_all calls s)"
| "supervisor_next descriptor_of (StartOp calls) s = snd (start_all calls s)"
| "supervisor_next descriptor_of (HealthOp calls) s = snd (supervisor_health calls s)"
| "supervisor_next descriptor_of (ShutdownOp calls deadline) s = snd (shutdown_all calls deadline s)"

definition supervisor_step ::
  "('f \<Rightarrow> ModuleDescriptor) \<Rightarrow> ('f, 'h) LifecycleSupervisor \<Rightarrow> ('f, 'h) supervisor_op \<Rightarrow>
     ('f, 'h) LifecycleSupervisor \<Rightarrow> bool" where
  "supervisor_step descriptor_of s operation t \<longleftrightarrow> t = supervisor_next descriptor_of operation s"

section \<open>Modules\<close>

fun state_inv :: "ModuleState \<Rightarrow> ('f, 'h) ManagedModule \<Rightarrow> bool" where
  "state_inv Discovered m \<longleftrightarrow>
     mm_handle m = None \<and> mm_generation m = 0 \<and> mm_error_code m = None \<and> \<not> mm_cancelled m"
| "state_inv Validated m \<longleftrightarrow>
     mm_handle m = None \<and> mm_generation m = 0 \<and> mm_error_code m = None \<and> \<not> mm_cancelled m \<and>
     mm_resolution m \<noteq> None"
| "state_inv Starting m \<longleftrightarrow> mm_handle m \<noteq> None \<and> mm_error_code m = None"
| "state_inv Ready m \<longleftrightarrow> mm_handle m \<noteq> None \<and> mm_error_code m = None"
| "state_inv Degraded m \<longleftrightarrow> mm_handle m \<noteq> None \<and> mm_error_code m = None"
| "state_inv Unavailable m \<longleftrightarrow> mm_error_code m \<noteq> None \<and> mm_cancelled m"
| "state_inv Stopping m \<longleftrightarrow> False"
| "state_inv Stopped m \<longleftrightarrow>
     mm_handle m = None \<and> mm_error_code m = None \<and> mm_cancelled m \<and> mm_generation m = 1"

definition module_inv :: "('f, 'h) ManagedModule \<Rightarrow> bool" where
  "module_inv m \<longleftrightarrow>
     state_inv (mm_state m) m \<and> mm_generation m \<in> {0, 1} \<and>
     (mm_handle m \<noteq> None \<longrightarrow> mm_generation m = 1 \<and> mm_resolution m \<noteq> None)"

text \<open>What every operation keeps of a module.\<close>

definition same_start :: "('f, 'h) ManagedModule \<Rightarrow> ('f, 'h) ManagedModule \<Rightarrow> bool" where
  "same_start m m' \<longleftrightarrow> mm_descriptor m' = mm_descriptor m \<and> mm_generation m' = mm_generation m"

definition keeps_module :: "('f, 'h) ManagedModule \<Rightarrow> ('f, 'h) ManagedModule \<Rightarrow> bool" where
  "keeps_module m m' \<longleftrightarrow> (module_inv m \<longrightarrow> module_inv m' \<and> same_start m m')"

lemma keeps_refl [simp]: "keeps_module m m"
  by (simp add: keeps_module_def same_start_def)

lemma keeps_trans: "keeps_module a b \<Longrightarrow> keeps_module b c \<Longrightarrow> keeps_module a c"
  by (auto simp: keeps_module_def same_start_def)

lemma keeps_mark [simp]: "keeps_module m (mark_unavailable c m)"
  by (simp add: keeps_module_def module_inv_def same_start_def)

lemma keeps_prepared: "prepared_from m m' \<Longrightarrow> keeps_module m m'"
proof -
  have "keeps_module m (m\<lparr>mm_resolution := res\<rparr>)"
    if "participates_in_resolution (mm_state m) \<longrightarrow> res \<noteq> None"
      "\<not> participates_in_resolution (mm_state m) \<longrightarrow> res = mm_resolution m" for res
    using that by (cases "mm_state m") (auto simp: keeps_module_def module_inv_def same_start_def)
  moreover have "keeps_module m (mark_unavailable c (m\<lparr>mm_resolution := res\<rparr>))"
    if "res = mm_resolution m \<or> res \<noteq> None" for c res
    using that by (auto simp: keeps_module_def module_inv_def same_start_def)
  ultimately show "prepared_from m m' \<Longrightarrow> keeps_module m m'"
    unfolding prepared_from_def by blast
qed

lemma keeps_validate: "mm_state m = Discovered \<Longrightarrow> keeps_module m (validate_module calls m)"
  by (auto simp: keeps_module_def module_inv_def same_start_def validate_module_def
      apply_validation_outcome_def mark_unavailable_def
      split: option.splits BoundedOutcome.splits sum.splits)

lemma run_shutdown_cases:
  "run_shutdown_operation calls d m = (r, m') \<Longrightarrow>
     mm_handle m = None \<and> m' = m \<and> r = NoHandle \<or>
     mm_handle m \<noteq> None \<and> r \<noteq> NoHandle \<and> (m' = m\<lparr>mm_handle := None, mm_cancelled := True\<rparr> \<or>
        r = ShutdownUnavailable \<and> m' = m\<lparr>mm_cancelled := True\<rparr>)"
  by (cases "shutdown_fate calls (md_id (mm_descriptor m))")
    (auto simp: run_shutdown_operation_def Let_def map_shutdown_outcome_def execute_shutdown_def
      split: option.splits)

lemma keeps_retire: "keeps_module m (retire_unavailable calls c m)"
proof -
  obtain r m' where r: "run_shutdown_operation calls None (mark_unavailable c m) = (r, m')" by fastforce
  show ?thesis
    using run_shutdown_cases [OF r] unfolding retire_unavailable_def r
    by (auto simp: keeps_module_def module_inv_def same_start_def)
qed

lemma keeps_health: "keeps_module m (snd (refresh_module_health calls m))"
proof (cases "mm_handle m")
  case None
  then show ?thesis by (simp add: refresh_module_health_def)
next
  case (Some h)
  then have same: "m\<lparr>mm_handle := Some h\<rparr> = m" by simp
  have lost: "keeps_module m (retire_unavailable calls c (m\<lparr>mm_handle := None\<rparr>))" for c
    by (simp add: retire_unavailable_def run_shutdown_operation_def)
      (simp add: keeps_module_def module_inv_def same_start_def)
  have revived: "keeps_module m (m\<lparr>mm_handle := Some h, mm_state := state_from_health st, mm_error_code := None\<rparr>)"
    if "st \<noteq> HealthUnavailable" for st
    using that Some by (cases st) (auto simp: keeps_module_def module_inv_def same_start_def)
  have kept: "keeps_module m (retire_unavailable calls c (m\<lparr>mm_handle := Some h\<rparr>))" for c
    unfolding same by (rule keeps_retire)
  show ?thesis
    using Some lost kept revived
    by (cases "health_fate calls (md_id (mm_descriptor m))")
      (auto simp: refresh_module_health_def apply_health_outcome_def execute_health_def
        apply_completed_health_def apply_health_snapshot_def fail_health_def Let_def split: sum.splits)
qed

lemma keeps_shutdown: "keeps_module m (shutdown_module calls d m)"
proof (cases "has_handle m")
  case False
  then show ?thesis by (simp add: shutdown_module_def)
next
  case True
  obtain r m' where r: "run_shutdown_operation calls (Some d) (m\<lparr>mm_state := Stopping\<rparr>) = (r, m')" by fastforce
  show ?thesis
    using run_shutdown_cases [OF r] True
    by (cases r)
      (auto simp: shutdown_module_def r has_handle_def keeps_module_def module_inv_def same_start_def
        mark_stopped_def split: sum.splits)
qed

section \<open>The supervisor\<close>

definition supervisor_inv :: "('f, 'h) LifecycleSupervisor \<Rightarrow> bool" where
  "supervisor_inv s \<longleftrightarrow>
     length (sup_modules s) \<le> 256 \<and> distinct (map (\<lambda>m. md_id (mm_descriptor m)) (sup_modules s)) \<and>
     (\<forall>m \<in> set (sup_modules s). module_inv m) \<and> distinct (sup_startup_order s) \<and>
     set (sup_startup_order s) = {i. i < length (sup_modules s) \<and> mm_generation (sup_modules s ! i) = 1} \<and>
     set (sup_validation_order s) \<subseteq> {..<length (sup_modules s)}"

lemma supervisor_inv_new: "supervisor_inv supervisor_new"
  by (simp add: supervisor_inv_def supervisor_new_def)

text \<open>A pass that keeps every module keeps the invariant.\<close>

lemma supervisor_inv_keeps:
  assumes "supervisor_inv s" and "list_all2 keeps_module (sup_modules s) ms"
    and "sup_modules t = ms" and "sup_startup_order t = sup_startup_order s"
    and "set (sup_validation_order t) \<subseteq> {..<length ms}"
  shows "supervisor_inv t"
proof -
  have len: "length ms = length (sup_modules s)" using assms(2) by (simp add: list_all2_lengthD)
  have kept: "module_inv (ms ! i) \<and> same_start (sup_modules s ! i) (ms ! i)" if "i < length ms" for i
    using assms(1) list_all2_nthD [OF assms(2), of i] that len
    by (simp add: supervisor_inv_def keeps_module_def)
  have "map (\<lambda>m. md_id (mm_descriptor m)) ms = map (\<lambda>m. md_id (mm_descriptor m)) (sup_modules s)"
    using kept len by (intro nth_equalityI) (auto simp: same_start_def)
  moreover have "\<forall>m \<in> set ms. module_inv m" using kept by (metis in_set_conv_nth)
  moreover have "{i. i < length ms \<and> mm_generation (ms ! i) = 1} =
      {i. i < length (sup_modules s) \<and> mm_generation (sup_modules s ! i) = 1}"
    using kept len by (auto simp: same_start_def)
  ultimately show ?thesis using assms len by (simp add: supervisor_inv_def)
qed

lemma list_all2_keeps_refl: "list_all2 keeps_module ms ms"
  by (simp add: list_all2_refl)

lemma list_all2_keeps_trans:
  "list_all2 keeps_module a b \<Longrightarrow> list_all2 keeps_module b c \<Longrightarrow> list_all2 keeps_module a c"
  by (rule list_all2_trans [OF keeps_trans])

lemma list_all2_keeps_update:
  "keeps_module (ms ! i) m \<Longrightarrow> list_all2 keeps_module ms (ms[i := m])"
  unfolding list_all2_conv_all_nth
  by (metis keeps_refl length_list_update nth_list_update_eq nth_list_update_neq)

lemma keeps_prepared_modules: "list_all2 keeps_module ms (prepared_modules ms)"
  by (auto simp: list_all2_conv_all_nth intro: keeps_prepared prepared_cases)

lemma keeps_validate_at: "list_all2 keeps_module ms (validate_at calls i ms)"
  by (simp add: validate_at_def list_all2_keeps_refl list_all2_keeps_update keeps_validate)

lemma keeps_validate_in_order: "list_all2 keeps_module ms (validate_in_order calls order ms)"
  unfolding validate_in_order_def
proof (induction order arbitrary: ms)
  case Nil
  then show ?case by (simp add: list_all2_keeps_refl)
next
  case (Cons i order)
  show ?case
    using list_all2_keeps_trans [OF keeps_validate_at [of ms calls i] Cons.IH] by simp
qed

lemma prepared_order_range: "set (dependency_order (prepared_modules ms)) \<subseteq> {..<length ms}"
  using prepared_order [THEN conjunct2, THEN conjunct1, of ms] by (auto simp: participants_def)

lemma supervisor_inv_validate:
  assumes "supervisor_inv s"
  shows "supervisor_inv (snd (validate_all calls s))"
proof (rule supervisor_inv_keeps [OF assms _ validate_all_eq(1) validate_all_eq(3)])
  show "list_all2 keeps_module (sup_modules s)
      (validate_in_order calls (dependency_order (prepared_modules (sup_modules s))) (prepared_modules (sup_modules s)))"
    using keeps_prepared_modules keeps_validate_in_order list_all2_keeps_trans by blast
  then have "length (validate_in_order calls (dependency_order (prepared_modules (sup_modules s)))
      (prepared_modules (sup_modules s))) = length (sup_modules s)"
    by (simp add: list_all2_lengthD)
  then show "set (sup_validation_order (snd (validate_all calls s))) \<subseteq> {..<length
      (validate_in_order calls (dependency_order (prepared_modules (sup_modules s))) (prepared_modules (sup_modules s)))}"
    using prepared_order_range by (simp only: validate_all_eq)
qed

text \<open>Starting moves a validated module from generation 0 to 1 and lists it as started.\<close>

lemma start_validated_inv:
  assumes "module_inv m" and "mm_state m = Validated"
    and "start_validated_module calls m = (started, m')"
  shows "module_inv m' \<and> mm_descriptor m' = mm_descriptor m \<and>
    mm_generation m' = (if started then 1 else 0)"
proof -
  obtain res where m: "mm_resolution m = Some res" "mm_generation m = 0" "mm_handle m = None"
    using assms(1,2) by (auto simp: module_inv_def)
  have "checked_add (0 :: u64) 1 = Some 1" by (simp add: checked_add_def)
  then show ?thesis
    using assms m by (auto simp: start_validated_module_def prepare_start_def apply_start_outcome_def
        module_inv_def split: BoundedOutcome.splits sum.splits)
qed

lemma supervisor_inv_start_at:
  assumes inv: "supervisor_inv s" and i: "i < length (sup_modules s)"
  shows "supervisor_inv (start_at calls i s)"
proof (cases "mm_state (sup_modules s ! i) = Validated \<and> dependencies_in_states (sup_modules s) i [Ready, Degraded]")
  case False
  then have "start_at calls i s = s \<or>
      start_at calls i s = s\<lparr>sup_modules := (sup_modules s)[i := mark_unavailable UnavailableCode (sup_modules s ! i)]\<rparr>"
    by (auto simp: start_at_def start_one_def)
  then show ?thesis
  proof
    assume "start_at calls i s = s"
    then show ?thesis using inv by simp
  next
    assume eq: "start_at calls i s = s\<lparr>sup_modules := (sup_modules s)[i := mark_unavailable UnavailableCode (sup_modules s ! i)]\<rparr>"
    show ?thesis
      unfolding eq using inv
      by (intro supervisor_inv_keeps [OF inv list_all2_keeps_update [OF keeps_mark]])
        (simp_all add: supervisor_inv_def)
  qed
next
  case True
  let ?ms = "sup_modules s"
  obtain started m where m: "start_validated_module calls (?ms ! i) = (started, m)" by fastforce
  have mi: "module_inv (?ms ! i)" using inv i by (simp add: supervisor_inv_def)
  then have gen: "mm_generation (?ms ! i) = 0" using True by (simp add: module_inv_def)
  note fresh = start_validated_inv [OF mi conjunct1 [OF True] m]
  have out: "i \<notin> set (sup_startup_order s)" using inv gen by (auto simp: supervisor_inv_def)
  have step: "start_at calls i s = s\<lparr>sup_modules := ?ms[i := m],
      sup_startup_order := (if started then sup_startup_order s @ [i] else sup_startup_order s)\<rparr>"
    using True m out by (simp add: start_at_def start_one_def)
  have ids: "map (\<lambda>m. md_id (mm_descriptor m)) (?ms[i := m]) = map (\<lambda>m. md_id (mm_descriptor m)) ?ms"
    using fresh by (simp add: map_update list_update_same_conv i)
  have gens: "{j. j < length ?ms \<and> mm_generation (?ms[i := m] ! j) = 1} =
      {j. j < length ?ms \<and> mm_generation (?ms ! j) = 1} \<union> (if started then {i} else {})"
    using fresh gen i by (auto simp: nth_list_update split: if_splits)
  have "\<forall>x \<in> set (?ms[i := m]). module_inv x"
    using inv fresh set_update_subset_insert [of ?ms i m] by (auto simp: supervisor_inv_def)
  then show ?thesis
    unfolding step supervisor_inv_def using inv out
    by (auto simp: ids gens supervisor_inv_def)
qed

lemma length_start_at [simp]: "length (sup_modules (start_at calls i s)) = length (sup_modules s)"
  by (auto simp: start_at_def start_one_def split: prod.splits)

lemma supervisor_inv_start_pass:
  "supervisor_inv s \<Longrightarrow> set order \<subseteq> {..<length (sup_modules s)} \<Longrightarrow>
     supervisor_inv (fold (start_at calls) order s)"
  by (induction order arbitrary: s) (simp_all add: supervisor_inv_start_at)

lemma supervisor_inv_start:
  assumes "supervisor_inv s"
  shows "supervisor_inv (snd (start_all calls s))"
proof -
  have "supervisor_inv (snd (validate_all calls s))" using assms by (rule supervisor_inv_validate)
  moreover from this have "set (sup_validation_order (snd (validate_all calls s))) \<subseteq>
      {..<length (sup_modules (snd (validate_all calls s)))}"
    by (simp add: supervisor_inv_def)
  ultimately show ?thesis by (simp add: start_all_def Let_def supervisor_inv_start_pass)
qed

lemma keeps_health_each:
  "health_each calls ms report = (report', ms') \<Longrightarrow> list_all2 keeps_module ms ms'"
proof (induction ms arbitrary: report report' ms')
  case Nil
  then show ?case by simp
next
  case (Cons m ms)
  obtain snap m1 where m1: "refresh_module_health calls m = (snap, m1)" by fastforce
  then have "keeps_module m m1" using keeps_health [of m calls] by simp
  then show ?case
    using Cons m1
    by (auto simp: apsnd_def map_prod_def list_all2_keeps_refl
        split: option.splits prod.splits sum.splits)
qed

lemma supervisor_inv_health:
  assumes "supervisor_inv s"
  shows "supervisor_inv (snd (supervisor_health calls s))"
proof -
  obtain r ms where h: "health_each calls (sup_modules s) core_ready_report = (r, ms)" by fastforce
  then have kept: "list_all2 keeps_module (sup_modules s) ms" by (rule keeps_health_each)
  have t: "snd (supervisor_health calls s) = s\<lparr>sup_modules := ms\<rparr>" by (simp add: supervisor_health_def h)
  show ?thesis
    unfolding t using assms list_all2_lengthD [OF kept]
    by (intro supervisor_inv_keeps [OF assms kept]) (simp_all add: supervisor_inv_def)
qed

lemma supervisor_inv_shutdown:
  assumes "supervisor_inv s"
  shows "supervisor_inv (snd (shutdown_all calls deadline s))"
proof (rule supervisor_inv_keeps [OF assms _ shutdown_all_modules])
  show "list_all2 keeps_module (sup_modules s) (map (shutdown_module calls deadline) (sup_modules s))"
    by (simp add: list_all2_conv_all_nth keeps_shutdown)
qed (use assms in \<open>simp_all add: shutdown_all_def Let_def supervisor_inv_def\<close>)

lemma supervisor_inv_register:
  assumes "supervisor_inv s"
  shows "supervisor_inv (snd (register_module descriptor_of f configuration s))"
proof (cases "validate_registration s (descriptor_of f)")
  case (Inl e)
  then show ?thesis using assms by (simp add: register_module_def)
next
  case (Inr u)
  then have room: "length (sup_modules s) < 256"
    and new: "md_id (descriptor_of f) \<notin> (\<lambda>m. md_id (mm_descriptor m)) ` set (sup_modules s)"
    by (auto simp: validate_registration_def MAX_MODULES_def list_ex_iff split: if_splits)
  obtain m where m: "sup_modules (snd (register_module descriptor_of f configuration s)) = sup_modules s @ [m]"
    "module_inv m" "mm_generation m = 0" "mm_descriptor m = descriptor_of f"
    using Inr by (simp add: register_module_def Let_def validate_static_contracts_def module_inv_def)
  have rest: "sup_startup_order (snd (register_module descriptor_of f configuration s)) = sup_startup_order s"
    "sup_validation_order (snd (register_module descriptor_of f configuration s)) = sup_validation_order s"
    using Inr by (simp_all add: register_module_def Let_def)
  have "{i. i < length (sup_modules s @ [m]) \<and> mm_generation ((sup_modules s @ [m]) ! i) = 1} =
      {i. i < length (sup_modules s) \<and> mm_generation (sup_modules s ! i) = 1}"
    using m(3) by (auto simp: nth_append less_Suc_eq)
  then show ?thesis
    using assms room new m unfolding supervisor_inv_def rest m(1) by auto
qed

interpretation supervisor: invariant_system
  "\<lambda>s. s = supervisor_new" "supervisor_step descriptor_of" supervisor_inv
  for descriptor_of :: "'f \<Rightarrow> ModuleDescriptor"
proof
  fix s :: "('f, 'h) LifecycleSupervisor"
  assume "s = supervisor_new"
  then show "supervisor_inv s" by (simp add: supervisor_inv_new)
next
  fix s :: "('f, 'h) LifecycleSupervisor" and operation t
  assume "supervisor_inv s" "supervisor_step descriptor_of s operation t"
  then show "supervisor_inv t"
    by (cases operation)
      (simp_all add: supervisor_step_def supervisor_inv_register supervisor_inv_validate
        supervisor_inv_start supervisor_inv_health supervisor_inv_shutdown)
qed

end
