(* ===== verification/Lifecycle_Demo.thy ===== *)
theory Lifecycle_Demo
  imports Lifecycle_Invariant
begin

text \<open>
  A concrete supervisor with two modules, evaluated step by step: the module registered first needs
  the capability that the second one provides. It shows that the hypotheses of the properties can
  hold, and it is the scenario of the finding on health probes: a live module that lost its
  provider is isolated, but keeps its handle, and the next successful probe makes it ready again.
\<close>

section \<open>Two modules\<close>

definition demo_descriptor :: "bool \<Rightarrow> ModuleDescriptor" where
  "demo_descriptor f =
     \<lparr>md_id = (if f then ''m.b'' else ''m.a''), md_version = ModuleVersion 1 0 0,
      md_build_commit = ''c'', md_abi_version = CORE_ABI_VERSION,
      md_provided = (if f then [] else [\<lparr>cp_id = ''c.x'', cp_version = ModuleVersion 1 2 0, cp_module_id = ''m.a''\<rparr>]),
      md_required = (if f then
        [\<lparr>cr_id = ''c.x'', cr_minimum = ModuleVersion 1 0 0, cr_maximum_major = Some 1\<rparr>] else []),
      md_required_secret_capabilities = [],
      md_configuration = \<lparr>cc_schema_id = ''s'', cc_version = ModuleVersion 1 0 0, cc_supports_hot_reload = False\<rparr>,
      md_resources = conservative_budget, md_shutdown_priority = 0, md_sensitive_paths = [],
      md_observability_namespace = ''o'', md_audit_namespace = ''a''\<rparr>"

definition demo_configuration :: ModuleConfigurationSnapshot where
  "demo_configuration = \<lparr>mc_schema_id = ''s'', mc_version = 1, mc_digest = ''d''\<rparr>"

definition demo_calls :: "(bool \<Rightarrow> HealthStatus) \<Rightarrow> (bool, bool) module_calls" where
  "demo_calls status =
     \<lparr>call_validate = (\<lambda>f c r. Some (Inr ())), call_start = (\<lambda>f r. Some (Inr f)),
      call_health = (\<lambda>h. Some (Inr \<lparr>hs_module_id = ''m'', hs_status = status h, hs_reason = CoreReady\<rparr>)),
      call_shutdown = (\<lambda>h d. Some (Inr \<lparr>sr_tasks_completed = 0, sr_tasks_incomplete = 0, sr_flushed = True\<rparr>)),
      validate_fate = (\<lambda>_. PublishedInTime), start_fate = (\<lambda>_. PublishedInTime),
      health_fate = (\<lambda>_. PublishedInTime), shutdown_fate = (\<lambda>_. PublishedInTime),
      system_now = (\<lambda>_. 0), system_add = (\<lambda>a b. Some (a + b))\<rparr>"

definition demo_registered :: "(bool, bool) LifecycleSupervisor" where
  "demo_registered =
     snd (register_module demo_descriptor False demo_configuration
       (snd (register_module demo_descriptor True demo_configuration supervisor_new)))"


definition demo_module :: "bool \<Rightarrow> (bool, bool) ManagedModule" where
  "demo_module f =
     \<lparr>mm_descriptor = demo_descriptor f, mm_factory = f, mm_configuration = demo_configuration,
      mm_resolution = None, mm_handle = None, mm_cancelled = False, mm_state = Discovered,
      mm_generation = 0, mm_error_code = None\<rparr>"

lemma demo_descriptor_simps [simp]:
  "md_id (demo_descriptor f) = (if f then ''m.b'' else ''m.a'')"
  "md_abi_version (demo_descriptor f) = CORE_ABI_VERSION"
  "md_provided (demo_descriptor f) =
     (if f then [] else [\<lparr>cp_id = ''c.x'', cp_version = ModuleVersion 1 2 0, cp_module_id = ''m.a''\<rparr>])"
  "md_required (demo_descriptor f) =
     (if f then [\<lparr>cr_id = ''c.x'', cr_minimum = ModuleVersion 1 0 0, cr_maximum_major = Some 1\<rparr>] else [])"
  "md_required_secret_capabilities (demo_descriptor f) = []"
  "cc_schema_id (md_configuration (demo_descriptor f)) = mc_schema_id demo_configuration"
  "md_shutdown_priority (demo_descriptor f) = 0"
  by (simp_all add: demo_descriptor_def demo_configuration_def)

lemma demo_registered: "sup_modules demo_registered = [demo_module True, demo_module False]"
  by (simp add: demo_registered_def register_module_def supervisor_new_def validate_registration_def
      MAX_MODULES_def validate_static_contracts_def demo_module_def Let_def)

definition demo_resolution :: "bool \<Rightarrow> CapabilityResolution" where
  "demo_resolution f =
     \<lparr>res_bindings = (if f then
        [\<lparr>cb_requirement = \<lparr>cr_id = ''c.x'', cr_minimum = ModuleVersion 1 0 0, cr_maximum_major = Some 1\<rparr>,
          cb_provider = \<lparr>cp_id = ''c.x'', cp_version = ModuleVersion 1 2 0, cp_module_id = ''m.a''\<rparr>\<rparr>] else [])\<rparr>"

definition demo_bound :: "bool \<Rightarrow> (bool, bool) ManagedModule" where
  "demo_bound f = (demo_module f)\<lparr>mm_resolution := Some (demo_resolution f)\<rparr>"

lemma demo_module_simps [simp]:
  "mm_descriptor (demo_module f) = demo_descriptor f" "mm_state (demo_module f) = Discovered"
  "mm_descriptor (demo_bound f) = demo_descriptor f" "mm_state (demo_bound f) = Discovered"
  "mm_resolution (demo_bound f) = Some (demo_resolution f)"
  by (simp_all add: demo_module_def demo_bound_def)

lemma demo_resolved:
  "resolve_requirements \<lparr>cg_providers = [\<lparr>cp_id = ''c.x'', cp_version = ModuleVersion 1 2 0, cp_module_id = ''m.a''\<rparr>]\<rparr>
      [demo_module True, demo_module False] = [demo_bound True, demo_bound False]"
  by (simp add: resolve_requirements_def resolve_module_def graph_resolve_def
      MAX_GRAPH_CAPABILITIES_def descriptor_requirements_def resolve_one_def accepts_def
      less_eq_ModuleVersion_def demo_bound_def demo_resolution_def word_le_nat_alt word_less_nat_alt)

lemma demo_graph:
  "build_capability_graph [demo_module True, demo_module False] empty_graph =
     ([demo_module True, demo_module False],
      \<lparr>cg_providers = [\<lparr>cp_id = ''c.x'', cp_version = ModuleVersion 1 2 0, cp_module_id = ''m.a''\<rparr>]\<rparr>)"
  by (simp add: register_module_capabilities_def register_batch_def
      validate_batch_capacity_def MAX_GRAPH_CAPABILITIES_def has_existing_provider_def
      has_batch_duplicate_def empty_graph_def)

lemma demo_deps: "dependency_indices [demo_bound True, demo_bound False] = [[1], []]"
  by (simp add: dependency_indices_def add_active_dependencies_def demo_resolution_def module_index_def
      List.map_filter_def sort_dedup_def upt_rec)

lemma demo_cycles: "cycle_members [demo_bound True, demo_bound False] = []"
  by (simp add: cycle_members_def demo_deps dependency_path_returns_to_def upt_rec numeral_2_eq_2)

lemma demo_order: "dependency_order [demo_bound True, demo_bound False] = [1, 0]"
  by (simp add: dependency_order_def demo_deps initial_queue_def release_dependents_def
      release_dependent_def upt_rec numeral_2_eq_2)

lemma demo_prepared: "prepared_modules [demo_module True, demo_module False] = [demo_bound True, demo_bound False]"
  unfolding prepared_modules_def resolved_modules_def demo_graph
  by (simp add: demo_resolved demo_cycles mark_cycles_def)

definition demo_validated :: "bool \<Rightarrow> (bool, bool) ManagedModule" where
  "demo_validated f = (demo_bound f)\<lparr>mm_state := Validated\<rparr>"

definition demo_ready :: "bool \<Rightarrow> (bool, bool) ManagedModule" where
  "demo_ready f = (demo_bound f)\<lparr>mm_state := Ready, mm_handle := Some f, mm_generation := 1\<rparr>"

lemma demo_more_simps [simp]:
  "mm_descriptor (demo_validated f) = demo_descriptor f" "mm_state (demo_validated f) = Validated"
  "mm_resolution (demo_validated f) = Some (demo_resolution f)"
  "mm_descriptor (demo_ready f) = demo_descriptor f" "mm_state (demo_ready f) = Ready"
  "mm_resolution (demo_ready f) = Some (demo_resolution f)"
  by (simp_all add: demo_validated_def demo_ready_def)

lemma demo_validate_module: "validate_module (demo_calls st) (demo_bound f) = demo_validated f"
  by (simp add: validate_module_def demo_calls_def guarded_module_call_def apply_validation_outcome_def
      demo_validated_def) (simp add: demo_bound_def demo_module_def)

lemma demo_start_module: "start_validated_module (demo_calls st) (demo_validated f) = (True, demo_ready f)"
proof -
  have "checked_add (0 :: u64) 1 = Some 1" by (simp add: checked_add_def)
  moreover have "mm_generation (demo_validated f) = 0" "mm_factory (demo_validated f) = f"
    by (simp_all add: demo_validated_def demo_bound_def demo_module_def)
  ultimately show ?thesis
    by (simp add: start_validated_module_def prepare_start_def demo_calls_def guarded_module_call_def
        apply_start_outcome_def) (simp add: demo_ready_def demo_validated_def demo_bound_def demo_module_def)
qed

lemma demo_validated_all:
  "validate_in_order (demo_calls st) [1, 0] [demo_bound True, demo_bound False] =
     [demo_validated True, demo_validated False]"
  by (simp add: validate_in_order_def validate_at_def dependencies_in_states_def demo_resolution_def
      demo_validate_module module_index_def upt_rec)

lemma demo_started:
  "sup_modules (snd (start_all (demo_calls st) demo_registered)) = [demo_ready True, demo_ready False]"
  unfolding start_all_modules validate_all_eq demo_registered demo_prepared demo_order demo_validated_all
  by (simp add: start_one_def dependencies_in_states_def demo_resolution_def demo_start_module
      module_index_def upt_rec)

section \<open>A lost provider\<close>

text \<open>The probe finds the provider unavailable: it is retired, its consumer stays ready.\<close>

definition demo_lost :: "(bool, bool) ManagedModule" where
  "demo_lost = (demo_ready False)\<lparr>mm_handle := None, mm_cancelled := True, mm_state := Unavailable,
     mm_error_code := Some UnavailableCode\<rparr>"

definition demo_orphan :: "(bool, bool) ManagedModule" where
  "demo_orphan = mark_unavailable UnavailableCode (demo_ready True)"

definition demo_probe :: "bool \<Rightarrow> HealthStatus" where
  "demo_probe h = (if h then HealthReady else HealthUnavailable)"

lemma demo_refresh_ready:
  "status True = HealthReady \<Longrightarrow> m = demo_ready True \<or> m = demo_orphan \<Longrightarrow>
     snd (refresh_module_health (demo_calls status) m) = m\<lparr>mm_state := Ready, mm_error_code := None\<rparr>"
  by (auto simp: refresh_module_health_def demo_ready_def demo_orphan_def mark_unavailable_def demo_calls_def
      execute_health_def guarded_module_call_def apply_health_outcome_def apply_completed_health_def
      apply_health_snapshot_def Let_def)

lemma demo_refresh_lost:
  "status False = HealthUnavailable \<Longrightarrow>
     snd (refresh_module_health (demo_calls status) (demo_ready False)) = demo_lost"
  by (simp add: refresh_module_health_def demo_ready_def demo_lost_def mark_unavailable_def demo_calls_def
      execute_health_def guarded_module_call_def apply_health_outcome_def apply_completed_health_def
      apply_health_snapshot_def retire_unavailable_def run_shutdown_operation_def execute_shutdown_def
      map_shutdown_outcome_def Let_def)

text \<open>With room in the report, a probe refreshes every module.\<close>

lemma health_each_modules:
  "length (hr_modules report) + length ms \<le> 256 \<Longrightarrow>
     snd (health_each calls ms report) = map (\<lambda>m. snd (refresh_module_health calls m)) ms"
proof (induction ms arbitrary: report)
  case Nil
  then show ?case by simp
next
  case (Cons m ms)
  obtain snap m' where m': "refresh_module_health calls m = (snap, m')" by fastforce
  show ?case
  proof (cases snap)
    case None
    with m' Cons show ?thesis by simp
  next
    case (Some snapshot)
    obtain report' where r: "add_module snapshot report = (Inr (), report')"
        "hr_modules report' = hr_modules report @ [snapshot]"
      using Cons.prems by (simp add: add_module_def MAX_MODULE_REPORTS_def Let_def)
    with m' Some Cons show ?thesis by simp
  qed
qed

lemma health_modules:
  "length (sup_modules s) \<le> 256 \<Longrightarrow>
     sup_modules (snd (supervisor_health calls s)) =
       map (\<lambda>m. snd (refresh_module_health calls m)) (sup_modules s)"
  using health_each_modules [of core_ready_report "sup_modules s" calls]
  by (auto simp: supervisor_health_def core_ready_report_def health_report_new_def split: prod.splits)

lemma demo_lost_provider:
  "sup_modules s = [demo_ready True, demo_ready False] \<Longrightarrow>
     sup_modules (snd (supervisor_health (demo_calls demo_probe) s)) = [demo_ready True, demo_lost]"
  by (simp add: health_modules demo_refresh_lost demo_refresh_ready demo_probe_def)
    (simp add: demo_ready_def demo_bound_def demo_module_def)

text \<open>The next validation isolates the consumer, whose capability is missing; its handle stays.\<close>

lemma demo_isolated:
  "sup_modules s = [demo_ready True, demo_lost] \<Longrightarrow>
     sup_modules (snd (validate_all calls s)) = [demo_orphan, demo_lost]"
proof -
  have state: "mm_state demo_lost = Unavailable" "mm_state demo_orphan = Unavailable"
    by (simp_all add: demo_lost_def demo_orphan_def)
  have "build_capability_graph [demo_ready True, demo_lost] empty_graph = ([demo_ready True, demo_lost], empty_graph)"
    by (simp add: register_module_capabilities_def register_batch_def validate_batch_capacity_def
        MAX_GRAPH_CAPABILITIES_def has_existing_provider_def has_batch_duplicate_def empty_graph_def state)
  moreover have "resolve_requirements empty_graph [demo_ready True, demo_lost] = [demo_orphan, demo_lost]"
    by (simp add: resolve_requirements_def resolve_module_def graph_resolve_def MAX_GRAPH_CAPABILITIES_def
        descriptor_requirements_def resolve_one_def empty_graph_def state demo_orphan_def)
  ultimately have resolved: "resolved_modules [demo_ready True, demo_lost] = [demo_orphan, demo_lost]"
    by (simp only: resolved_modules_def prod.case)
  have none: "participants [demo_orphan, demo_lost] = {}"
    using state by (auto simp: participants_def nth_Cons split: nat.splits)
  have "cycle_members [demo_orphan, demo_lost] = []"
    using cycle_members_sub [of "[demo_orphan, demo_lost]"] none by simp
  then have prepared: "prepared_modules [demo_ready True, demo_lost] = [demo_orphan, demo_lost]"
    by (simp add: prepared_modules_def resolved mark_cycles_def)
  have "dependency_order [demo_orphan, demo_lost] = []"
    using prepared_order [of "[demo_ready True, demo_lost]"] none unfolding prepared by simp
  then show "sup_modules s = [demo_ready True, demo_lost] \<Longrightarrow> ?thesis"
    by (simp add: validate_all_eq prepared validate_in_order_def)
qed

lemma demo_revived:
  "sup_modules s = [demo_orphan, demo_lost] \<Longrightarrow> status True = HealthReady \<Longrightarrow>
     sup_modules (snd (supervisor_health (demo_calls status) s)) =
       [demo_orphan\<lparr>mm_state := Ready, mm_error_code := None\<rparr>, demo_lost]"
  by (simp add: health_modules demo_refresh_ready) (simp add: refresh_module_health_def demo_lost_def)

text \<open>
  C38: Isolation of a live module is not final. A supervisor can reach a state in which a module is
  unavailable because its required capability is gone and its token is cancelled, and a successful
  health probe makes it ready again while its provider is still unavailable.
\<close>

theorem unavailable_module_is_revived:
  "\<exists>s :: (bool, bool) LifecycleSupervisor.
     reachable (\<lambda>s. s = supervisor_new) (supervisor_step demo_descriptor) s \<and>
     mm_state (sup_modules s ! 0) = Unavailable \<and> mm_error_code (sup_modules s ! 0) = Some UnavailableCode \<and>
     mm_cancelled (sup_modules s ! 0) \<and>
     (let t = snd (supervisor_health (demo_calls (\<lambda>_. HealthReady)) s)
      in mm_state (sup_modules t ! 0) = Ready \<and> mm_cancelled (sup_modules t ! 0) \<and>
         bound_to (sup_modules t) 0 1 \<and> mm_state (sup_modules t ! 1) = Unavailable)"
proof -
  let ?started = "snd (start_all (demo_calls demo_probe) demo_registered)"
  let ?lost = "snd (supervisor_health (demo_calls demo_probe) ?started)"
  let ?s = "snd (validate_all (demo_calls demo_probe) ?lost)"
  let ?step = "supervisor_step demo_descriptor"
  let ?ops = "[RegisterOp True demo_configuration, RegisterOp False demo_configuration,
    StartOp (demo_calls demo_probe), HealthOp (demo_calls demo_probe), ValidateOp (demo_calls demo_probe)]"
  have "run ?step supervisor_new ?ops ?s"
    unfolding demo_registered_def
    by (intro run.intros) (simp_all add: supervisor_step_def)
  then have "reachable (\<lambda>s. s = supervisor_new) ?step ?s" unfolding reachable_def by blast
  moreover have ms: "sup_modules ?s = [demo_orphan, demo_lost]"
    by (intro demo_isolated demo_lost_provider demo_started)
  moreover have "sup_modules (snd (supervisor_health (demo_calls (\<lambda>_. HealthReady)) ?s)) =
      [demo_orphan\<lparr>mm_state := Ready, mm_error_code := None\<rparr>, demo_lost]"
    by (rule demo_revived [OF ms]) simp
  ultimately show ?thesis
    by (intro exI [of _ ?s])
      (simp add: Let_def bound_to_def demo_orphan_def demo_lost_def demo_resolution_def module_index_def upt_rec)
qed

end
