(* ===== verification/Lifecycle_Properties.thy ===== *)
theory Lifecycle_Properties
  imports Lifecycle_Demo
begin

text \<open>
  What the supervisor guarantees: cyclic modules are found and isolated, modules are validated and
  started after their providers, a registered module becomes ready exactly when its own calls
  succeed and its providers are live, live modules stop before their providers, and every
  reachable supervisor is consistent.
\<close>

section \<open>Cycles\<close>

text \<open>The dependencies between participating modules, as a relation.\<close>

definition binding_graph :: "('f, 'h) ManagedModule list \<Rightarrow> (nat \<times> nat) set" where
  "binding_graph ms = {(i, j). i \<in> participants ms \<and> j \<in> participants ms \<and> bound_to ms i j}"

lemma binding_graph_eq: "binding_graph ms = depends (dependency_indices ms)"
  by (auto simp: binding_graph_def depends_dependency_indices)

text \<open>
  C8: After the capabilities have been resolved, the search that starts at each module reports
  exactly the participating modules that lie on a cycle of bindings, and a validation leaves every
  one of them unavailable with a conflict, whatever its own calls would have returned.
\<close>

theorem cyclic_modules_are_isolated:
  fixes s :: "('f, 'h) LifecycleSupervisor"
  defines "resolved \<equiv> resolved_modules (sup_modules s)"
  shows "set (cycle_members resolved) = {i. (i, i) \<in> (binding_graph resolved)\<^sup>+} \<and>
    (\<forall>i. (i, i) \<in> (binding_graph resolved)\<^sup>+ \<longrightarrow>
      mm_state (sup_modules (snd (validate_all calls s)) ! i) = Unavailable \<and>
      mm_error_code (sup_modules (snd (validate_all calls s)) ! i) = Some ConflictCode)"
proof (intro conjI allI impI)
  show members: "set (cycle_members resolved) = {i. (i, i) \<in> (binding_graph resolved)\<^sup>+}"
    by (simp add: binding_graph_eq cycle_members_set)
  fix i
  assume "(i, i) \<in> (binding_graph resolved)\<^sup>+"
  then have i: "i \<in> set (cycle_members resolved)" using members by simp
  then have len: "i < length resolved" using cycle_members_sub by (auto simp: participants_def)
  let ?P = "prepared_modules (sup_modules s)"
  have P: "?P ! i = mark_unavailable ConflictCode (resolved ! i)"
    using i len by (simp add: prepared_modules_def mark_cycles_nth distinct_cycle_members resolved_def)
  then have "i \<notin> set (dependency_order ?P)"
    using prepared_order [of "sup_modules s"] by (simp add: participants_def)
  then have "sup_modules (snd (validate_all calls s)) ! i = ?P ! i"
    by (simp add: validate_all_eq validate_in_order_def validation.pass_outside)
  then show "mm_state (sup_modules (snd (validate_all calls s)) ! i) = Unavailable"
    and "mm_error_code (sup_modules (snd (validate_all calls s)) ! i) = Some ConflictCode"
    using P by simp_all
qed

definition demo_cyclic_descriptor :: ModuleDescriptor where
  "demo_cyclic_descriptor = (demo_descriptor False)\<lparr>md_required := md_required (demo_descriptor True)\<rparr>"

definition demo_cyclic :: "(bool, bool) LifecycleSupervisor" where
  "demo_cyclic = supervisor_new\<lparr>sup_modules := [(demo_module False)\<lparr>mm_descriptor := demo_cyclic_descriptor\<rparr>]\<rparr>"

lemma demo_cyclic_resolved:
  "resolved_modules (sup_modules demo_cyclic) =
     [(demo_bound True)\<lparr>mm_descriptor := demo_cyclic_descriptor, mm_factory := False\<rparr>]"
  by (simp add: resolved_modules_def demo_cyclic_def register_module_capabilities_def register_batch_def
      validate_batch_capacity_def MAX_GRAPH_CAPABILITIES_def has_existing_provider_def
      has_batch_duplicate_def empty_graph_def demo_cyclic_descriptor_def
      resolve_requirements_def resolve_module_def graph_resolve_def descriptor_requirements_def
      resolve_one_def accepts_def less_eq_ModuleVersion_def word_le_nat_alt word_less_nat_alt)
    (simp add: demo_bound_def demo_module_def demo_resolution_def)

lemma demo_cyclic_graph: "(0, 0) \<in> (binding_graph (resolved_modules (sup_modules demo_cyclic)))\<^sup>+"
  by (rule r_into_trancl)
    (simp add: binding_graph_def demo_cyclic_resolved participants_def bound_to_def demo_resolution_def
      module_index_def demo_cyclic_descriptor_def)

theorem cyclic_modules_are_isolated_witness:
  "set (cycle_members (resolved_modules (sup_modules demo_cyclic))) =
     {i. (i, i) \<in> (binding_graph (resolved_modules (sup_modules demo_cyclic)))\<^sup>+} \<and>
   mm_state (sup_modules (snd (validate_all (demo_calls demo_probe) demo_cyclic)) ! 0) = Unavailable"
  using cyclic_modules_are_isolated [of demo_cyclic "demo_calls demo_probe"] demo_cyclic_graph by blast

section \<open>The order of validation and startup\<close>

text \<open>
  C24: The order in which a validation visits the modules, which is also the order in which they
  start, names every participating module exactly once and puts each of them after all
  participating modules it is bound to.
\<close>

theorem providers_are_visited_first:
  fixes s :: "('f, 'h) LifecycleSupervisor" and calls :: "('f, 'h) module_calls"
  defines "order \<equiv> sup_validation_order (snd (validate_all calls s))"
    and "prepared \<equiv> prepared_modules (sup_modules s)"
  shows "distinct order \<and> set order = participants prepared \<and>
    (\<forall>k j. k < length order \<and> (order ! k, j) \<in> binding_graph prepared \<longrightarrow> j \<in> set (take k order))"
proof (intro conjI allI impI)
  have eq: "order = dependency_order prepared" by (simp add: order_def prepared_def validate_all_eq)
  note correct = prepared_order [of "sup_modules s", folded prepared_def eq]
  show "distinct order" and "set order = participants prepared" using correct by blast+
  fix k j
  assume "k < length order \<and> (order ! k, j) \<in> binding_graph prepared"
  then have k: "k < length order" and dep: "(order ! k, j) \<in> binding_graph prepared" by auto
  have "j \<in> set (dependency_indices prepared ! (order ! k))"
    using dep by (simp add: binding_graph_eq depends_iff)
  then show "j \<in> set (take k order)"
    using correct k unfolding providers_first_def by blast
qed

lemma demo_binding: "(0, 1) \<in> binding_graph [demo_bound True, demo_bound False]"
  by (simp add: binding_graph_def participants_def bound_to_def demo_resolution_def module_index_def upt_rec)

theorem providers_are_visited_first_witness:
  "sup_validation_order (snd (validate_all (demo_calls demo_probe) demo_registered)) = [1, 0] \<and>
   (0, 1) \<in> binding_graph (prepared_modules (sup_modules demo_registered)) \<and> (1 :: nat) \<in> set (take 1 [1, 0 :: nat])"
proof -
  have order: "sup_validation_order (snd (validate_all (demo_calls demo_probe) demo_registered)) = [1, 0]"
    by (simp only: validate_all_eq demo_registered demo_prepared demo_order)
  have dep: "(0, 1) \<in> binding_graph (prepared_modules (sup_modules demo_registered))"
    by (simp only: demo_registered demo_prepared demo_binding)
  have "1 \<in> set (take 1 (sup_validation_order (snd (validate_all (demo_calls demo_probe) demo_registered))))"
    using providers_are_visited_first [of "demo_calls demo_probe" demo_registered] dep unfolding order by force
  with order dep show ?thesis by simp
qed

section \<open>When a module becomes ready\<close>

text \<open>
  C3: A module that was waiting to be validated ends a \<open>start_all\<close> ready or unavailable, and it is
  ready exactly when its capabilities were accepted and resolved without a cycle, every module it is
  bound to ends ready or degraded, and its own validation and start calls complete in time and
  succeed. The calls of other modules matter only through the final states of its providers.
\<close>

theorem registered_module_ready_iff:
  fixes s :: "('f, 'h) LifecycleSupervisor" and calls :: "('f, 'h) module_calls"
  defines "final \<equiv> sup_modules (snd (start_all calls s))"
    and "prepared \<equiv> prepared_modules (sup_modules s)"
  assumes "i < length (sup_modules s)" and "mm_state (sup_modules s ! i) = Discovered"
  shows "(mm_state (final ! i) = Ready \<longleftrightarrow>
      mm_state (prepared ! i) = Discovered \<and> dependencies_in_states final i [Ready, Degraded] \<and>
      calls_succeed calls (prepared ! i)) \<and>
    mm_state (final ! i) \<in> {Ready, Unavailable}"
  using start_all_discovered [OF assms(3,4), of final calls "prepared ! i"]
  unfolding final_def prepared_def by blast

theorem registered_module_ready_iff_witness:
  "mm_state (sup_modules (snd (start_all (demo_calls demo_probe) demo_registered)) ! 0) = Ready \<and>
   calls_succeed (demo_calls demo_probe) (prepared_modules (sup_modules demo_registered) ! 0) \<and>
   dependencies_in_states (sup_modules (snd (start_all (demo_calls demo_probe) demo_registered))) 0 [Ready, Degraded]"
proof -
  have hyp: "0 < length (sup_modules demo_registered)" "mm_state (sup_modules demo_registered ! 0) = Discovered"
    by (simp_all add: demo_registered)
  have "mm_state (sup_modules (snd (start_all (demo_calls demo_probe) demo_registered)) ! 0) = Ready"
    by (simp add: demo_started)
  then show ?thesis using registered_module_ready_iff [OF hyp, of "demo_calls demo_probe"] by blast
qed

section \<open>Shutdown\<close>

text \<open>
  C25: Stopping visits exactly the modules with a live handle, each once, and applies the module's
  shutdown to each of them, however the others end. Unless the bindings between live modules are
  cyclic, a module stops only after all live modules that are bound to it; and at every point the
  stopped module has, among the modules that nothing left depends on, the highest priority and then
  the smallest identity.
\<close>

theorem consumers_stop_first:
  fixes s :: "('f, 'h) LifecycleSupervisor"
  defines "ms \<equiv> sup_modules s"
  defines "order \<equiv> shutdown_order ms"
    and "live_bindings \<equiv> {(i, j). i \<in> live_modules ms \<and> j \<in> live_modules ms \<and> bound_to ms i j}"
  shows "distinct order \<and> set order = live_modules ms \<and>
    sup_modules (snd (shutdown_all calls deadline s)) = map (shutdown_module calls deadline) ms \<and>
    (acyclic live_bindings \<longrightarrow>
      (\<forall>k c. k < length order \<and> (c, order ! k) \<in> live_bindings \<longrightarrow> c \<in> set (take k order))) \<and>
    (\<forall>k j. k < length order \<and> j \<in> live_modules ms - set (take k order) \<and>
      (\<forall>c \<in> live_modules ms - set (take k order). (c, j) \<notin> live_bindings) \<longrightarrow>
      shutdown_key ms (order ! k) \<le> shutdown_key ms j)"
proof (intro conjI allI impI)
  note correct = shutdown_order_correct [of ms, folded order_def]
  have graph: "depends (shutdown_dependencies ms) = live_bindings"
    by (simp add: depends_shutdown live_bindings_def)
  have dep: "(c, j) \<in> live_bindings \<longleftrightarrow> c \<in> live_modules ms \<and> j \<in> set (shutdown_dependencies ms ! c)" for c j
    unfolding graph [symmetric] depends_iff
    by (auto simp: shutdown_dependencies_nth live_modules_def split: if_splits)
  show "distinct order" and "set order = live_modules ms" using correct by blast+
  show "sup_modules (snd (shutdown_all calls deadline s)) = map (shutdown_module calls deadline) ms"
    by (simp add: shutdown_all_modules ms_def)
  show "c \<in> set (take k order)"
    if "acyclic live_bindings" "k < length order \<and> (c, order ! k) \<in> live_bindings" for k c
  proof -
    have "consumers_first (live_modules ms) (shutdown_dependencies ms) order"
      using correct that(1) graph by simp
    then show ?thesis using that(2) dep unfolding consumers_first_def by blast
  qed
  show "shutdown_key ms (order ! k) \<le> shutdown_key ms j"
    if leaf: "k < length order \<and> j \<in> live_modules ms - set (take k order) \<and>
      (\<forall>c \<in> live_modules ms - set (take k order). (c, j) \<notin> live_bindings)" for k j
  proof -
    have "remaining_leaf (live_modules ms) (shutdown_dependencies ms) (take k order) j"
      using leaf dep by (simp add: remaining_leaf_def)
    then show ?thesis using correct leaf unfolding best_leaf_first_def by blast
  qed
qed

definition demo_running :: "(bool, bool) LifecycleSupervisor" where
  "demo_running = snd (start_all (demo_calls demo_probe) demo_registered)"

lemma demo_running: "sup_modules demo_running = [demo_ready True, demo_ready False]"
  by (simp add: demo_running_def demo_started)

lemma demo_live: "live_modules (sup_modules demo_running) = {0, 1}"
proof -
  have live: "has_handle (demo_ready f)" for f by (simp add: has_handle_def demo_ready_def)
  have "has_handle ([demo_ready True, demo_ready False] ! i)" if "i < 2" for i
    using that live by (cases i) auto
  then show ?thesis by (auto simp: live_modules_def demo_running live)
qed

lemma demo_live_bindings:
  "{(i, j). i \<in> live_modules (sup_modules demo_running) \<and> j \<in> live_modules (sup_modules demo_running) \<and>
     bound_to (sup_modules demo_running) i j} = {(0, 1)}"
proof -
  have index: "module_index [demo_ready True, demo_ready False] ''m.a'' = Some 1"
    by (simp add: module_index_def upt_rec)
  have "bound_to (sup_modules demo_running) 0 j \<longleftrightarrow> j = 1" "\<not> bound_to (sup_modules demo_running) 1 j" for j
    unfolding bound_to_def demo_running by (auto simp: demo_resolution_def index)
  then show ?thesis unfolding demo_live by auto
qed

theorem consumers_stop_first_witness:
  "\<exists>before after. shutdown_order (sup_modules demo_running) = before @ 1 # after \<and> 0 \<in> set before"
proof -
  let ?o = "shutdown_order (sup_modules demo_running)"
  have "1 \<in> set ?o" using consumers_stop_first [of demo_running] demo_live by simp
  then obtain k where k: "k < length ?o" "?o ! k = 1" by (metis in_set_conv_nth)
  have "acyclic {(0 :: nat, 1 :: nat)}" by (rule acyclicI_order [where f = "\<lambda>i. 1 - i :: nat"]) auto
  then have "0 \<in> set (take k ?o)"
    using consumers_stop_first [of demo_running] k unfolding demo_live_bindings by auto
  moreover have "?o = take k ?o @ 1 # drop (Suc k) ?o"
    using k by (metis id_take_nth_drop)
  ultimately show ?thesis by blast
qed

section \<open>Consistency\<close>

text \<open>
  C28: In every supervisor reachable by registrations, validations, starts, health probes and
  shutdowns, with any answers of the modules: there are at most 256 modules with distinct
  identities; the startup order lists without repetition exactly the modules that have been started,
  and none is started twice; a module has a handle only after its start; modules in a live state
  have a handle and resolved capabilities; unavailable modules carry an error code and are
  cancelled; and no module is left stopping.
\<close>

theorem reachable_supervisor_is_consistent:
  assumes "reachable (\<lambda>s. s = supervisor_new) (supervisor_step descriptor_of) s"
  shows "length (sup_modules s) \<le> 256 \<and> distinct (map (\<lambda>m. md_id (mm_descriptor m)) (sup_modules s)) \<and>
    distinct (sup_startup_order s) \<and>
    set (sup_startup_order s) = {i. i < length (sup_modules s) \<and> mm_generation (sup_modules s ! i) = 1} \<and>
    (\<forall>m \<in> set (sup_modules s).
      mm_generation m \<in> {0, 1} \<and> mm_state m \<noteq> Stopping \<and>
      (mm_handle m \<noteq> None \<longrightarrow> mm_generation m = 1 \<and> mm_resolution m \<noteq> None) \<and>
      (is_live_state (mm_state m) \<longrightarrow> mm_handle m \<noteq> None) \<and>
      (mm_state m = Unavailable \<longrightarrow> mm_error_code m \<noteq> None \<and> mm_cancelled m) \<and>
      (mm_state m \<in> {Discovered, Validated} \<longrightarrow> \<not> mm_cancelled m \<and> mm_generation m = 0))"
proof -
  have inv: "supervisor_inv s" using assms by (rule supervisor.reachable_inv)
  have "mm_generation m \<in> {0, 1} \<and> mm_state m \<noteq> Stopping \<and>
      (mm_handle m \<noteq> None \<longrightarrow> mm_generation m = 1 \<and> mm_resolution m \<noteq> None) \<and>
      (is_live_state (mm_state m) \<longrightarrow> mm_handle m \<noteq> None) \<and>
      (mm_state m = Unavailable \<longrightarrow> mm_error_code m \<noteq> None \<and> mm_cancelled m) \<and>
      (mm_state m \<in> {Discovered, Validated} \<longrightarrow> \<not> mm_cancelled m \<and> mm_generation m = 0)"
    if "module_inv m" for m :: "('a, 'b) ManagedModule"
    using that by (cases "mm_state m") (auto simp: module_inv_def)
  then show ?thesis using inv unfolding supervisor_inv_def by blast
qed

theorem reachable_supervisor_is_consistent_witness:
  "mm_generation (demo_ready True) \<in> {0, 1} \<and> length (sup_modules demo_running) \<le> 256"
proof -
  have "run (supervisor_step demo_descriptor) supervisor_new
      [RegisterOp True demo_configuration, RegisterOp False demo_configuration, StartOp (demo_calls demo_probe)]
      demo_running"
    unfolding demo_registered_def demo_running_def by (intro run.intros) (simp_all add: supervisor_step_def)
  then have reach: "reachable (\<lambda>s. s = supervisor_new) (supervisor_step demo_descriptor) demo_running"
    unfolding reachable_def by blast
  show ?thesis
    using reachable_supervisor_is_consistent [OF reach] by (simp add: demo_running)
qed

end
