(* ===== verification/Bounded_Worker.thy ===== *)
theory Bounded_Worker
  imports Lifecycle Interfaces
begin

text \<open>
  The hand-over between a bounded worker and the supervisor in
  \<open>crates/ariadnion-core/src/lifecycle.rs\<close> (\<open>run_bounded\<close>, \<open>publish_worker_output\<close>,
  \<open>await_worker_output\<close>), at the granularity of its critical sections: the worker publishes its
  output or finds the result slot abandoned and cleans up itself, the supervisor takes the output
  or abandons the slot once the deadline has passed. The system interleaves the two threads freely.
  The lemmas show that the output is handed over or cleaned up exactly once, and that the outcomes
  the supervisor can see are those of \<open>run_bounded\<close>.
\<close>

section \<open>The critical sections\<close>

record 'a WorkerState =
  ws_output :: "'a option"
  ws_abandoned :: bool

definition fresh_worker_state :: "'a WorkerState" where
  "fresh_worker_state = \<lparr>ws_output = None, ws_abandoned = False\<rparr>"

text \<open>What the worker has to clean up, if anything, and the shared state it leaves.\<close>

definition publish_worker_output :: "'a \<Rightarrow> 'a WorkerState \<Rightarrow> 'a option \<times> 'a WorkerState" where
  "publish_worker_output out w =
     (if ws_abandoned w then (Some out, w) else (None, w\<lparr>ws_output := Some out\<rparr>))"

text \<open>
  One iteration of \<open>await_worker_output\<close>, given the instant read by \<open>remaining_instant\<close>: an
  outcome to return, or \<open>None\<close> to wait on the condition variable and look again.
\<close>

definition remaining_instant :: "nat \<Rightarrow> nat \<Rightarrow> nat option" where
  "remaining_instant now deadline = (if now < deadline then Some (deadline - now) else None)"

definition await_iteration ::
  "nat \<Rightarrow> nat \<Rightarrow> 'a WorkerState \<Rightarrow> 'a BoundedOutcome option \<times> 'a WorkerState" where
  "await_iteration now deadline w =
     (case ws_output w of
        Some out \<Rightarrow> (Some (Completed out), w\<lparr>ws_output := None\<rparr>)
      | None \<Rightarrow>
          (case remaining_instant now deadline of
             None \<Rightarrow> (Some BoundedDeadlineExceeded, w\<lparr>ws_abandoned := True\<rparr>)
           | Some remaining \<Rightarrow> (None, w)))"

section \<open>Both threads\<close>

record 'a worker_system =
  shared :: "'a WorkerState"
  worker_done :: bool
  cleaned_up :: "'a list"
  returned :: "'a BoundedOutcome option"

definition worker_started :: "'a worker_system \<Rightarrow> bool" where
  "worker_started w \<longleftrightarrow>
     w = \<lparr>shared = fresh_worker_state, worker_done = False, cleaned_up = [], returned = None\<rparr>"

datatype worker_event = WorkerPublishes | SupervisorLooks nat

inductive worker_step ::
  "'a \<Rightarrow> nat \<Rightarrow> 'a worker_system \<Rightarrow> worker_event \<Rightarrow> 'a worker_system \<Rightarrow> bool"
  for out deadline where
  publishes: "\<not> worker_done w \<Longrightarrow> publish_worker_output out (shared w) = (late, state') \<Longrightarrow>
    worker_step out deadline w WorkerPublishes
      (w\<lparr>shared := state', worker_done := True,
        cleaned_up := cleaned_up w @ (case late of None \<Rightarrow> [] | Some x \<Rightarrow> [x])\<rparr>)"
| looks: "returned w = None \<Longrightarrow> await_iteration now deadline (shared w) = (outcome, state') \<Longrightarrow>
    worker_step out deadline w (SupervisorLooks now) (w\<lparr>shared := state', returned := outcome\<rparr>)"

section \<open>The output is consumed exactly once\<close>

definition worker_inv :: "'a \<Rightarrow> 'a worker_system \<Rightarrow> bool" where
  "worker_inv out w \<longleftrightarrow>
     (case (worker_done w, returned w) of
        (False, None) \<Rightarrow> shared w = fresh_worker_state \<and> cleaned_up w = []
      | (False, Some r) \<Rightarrow> r = BoundedDeadlineExceeded \<and> ws_abandoned (shared w) \<and>
          ws_output (shared w) = None \<and> cleaned_up w = []
      | (True, None) \<Rightarrow> ws_output (shared w) = Some out \<and> \<not> ws_abandoned (shared w) \<and> cleaned_up w = []
      | (True, Some r) \<Rightarrow>
          r = Completed out \<and> cleaned_up w = [] \<and> ws_output (shared w) = None \<or>
          r = BoundedDeadlineExceeded \<and> cleaned_up w = [out] \<and> ws_output (shared w) = None)"

lemma worker_inv_step:
  assumes "worker_inv out w" and "worker_step out deadline w e w'"
  shows "worker_inv out w'"
  using assms(2)
proof cases
  case (publishes late state')
  then show ?thesis
    using assms(1)
    by (cases "returned w")
      (auto simp: worker_inv_def publish_worker_output_def fresh_worker_state_def split: if_splits)
next
  case (looks now outcome state')
  then show ?thesis
    using assms(1)
    by (cases "worker_done w")
      (auto simp: worker_inv_def await_iteration_def fresh_worker_state_def split: option.splits)
qed

interpretation worker: invariant_system worker_started "worker_step out deadline" "worker_inv out"
  for out :: 'a and deadline
proof unfold_locales
  show "worker_inv out w" if "worker_started w" for w
    using that by (simp add: worker_started_def worker_inv_def)
qed (rule worker_inv_step)

text \<open>The supervisor never waits in vain: a look returns once there is an output or no time left.\<close>

lemma await_returns:
  "ws_output w \<noteq> None \<or> deadline \<le> now \<Longrightarrow> \<exists>r. fst (await_iteration now deadline w) = Some r"
  by (auto simp: await_iteration_def remaining_instant_def split: option.splits)

text \<open>
  However the worker and the supervisor interleave: as long as the supervisor has not returned
  nothing is cleaned up; a completed outcome carries the worker's output, which is then never
  cleaned up; and an exceeded deadline means that the worker, once it is done, has cleaned up its
  out exactly once. Every look of the supervisor at a published output, or after the deadline,
  returns. The two outcomes are those that \<open>run_bounded\<close> gives for a worker that was spawned.
\<close>

theorem worker_output_is_consumed_once:
  assumes "reachable worker_started (worker_step out deadline) w"
  shows "returned w \<in> {None, Some (run_bounded PublishedInTime out), Some (run_bounded DeadlinePassed out)} \<and>
    cleaned_up w =
      (if worker_done w \<and> returned w = Some (run_bounded DeadlinePassed out) then [out] else []) \<and>
    (\<forall>now. returned w = None \<and> (worker_done w \<or> deadline \<le> now) \<longrightarrow>
      (\<exists>w'. worker_step out deadline w (SupervisorLooks now) w' \<and> returned w' \<noteq> None))"
proof (intro conjI allI impI)
  have inv: "worker_inv out w" using assms by (rule worker.reachable_inv)
  show "returned w \<in> {None, Some (run_bounded PublishedInTime out), Some (run_bounded DeadlinePassed out)}"
    using inv by (auto simp: worker_inv_def split: bool.splits option.splits)
  show "cleaned_up w =
      (if worker_done w \<and> returned w = Some (run_bounded DeadlinePassed out) then [out] else [])"
    using inv by (auto simp: worker_inv_def split: bool.splits option.splits)
  fix now
  assume due: "returned w = None \<and> (worker_done w \<or> deadline \<le> now)"
  have ready: "ws_output (shared w) \<noteq> None \<or> deadline \<le> now"
    using inv due by (auto simp: worker_inv_def split: bool.splits)
  obtain r where r: "fst (await_iteration now deadline (shared w)) = Some r"
    using await_returns [OF ready] by (elim exE)
  let ?next = "w\<lparr>shared := snd (await_iteration now deadline (shared w)), returned := Some r\<rparr>"
  have "worker_step out deadline w (SupervisorLooks now) ?next"
    using due r by (intro worker_step.looks) (simp_all add: prod_eq_iff)
  moreover have "returned ?next \<noteq> None" by simp
  ultimately show "\<exists>w'. worker_step out deadline w (SupervisorLooks now) w' \<and> returned w' \<noteq> None"
    by (intro exI [of _ ?next] conjI)
qed

theorem worker_output_is_consumed_once_witness:
  "\<exists>w. reachable worker_started (worker_step (7 :: nat) 5) w \<and> worker_done w \<and>
     returned w = Some BoundedDeadlineExceeded \<and> cleaned_up w = [7]"
proof -
  let ?w0 = "\<lparr>shared = fresh_worker_state, worker_done = False, cleaned_up = [], returned = None\<rparr> :: nat worker_system"
  let ?w1 = "?w0\<lparr>shared := \<lparr>ws_output = None, ws_abandoned = True\<rparr>, returned := Some BoundedDeadlineExceeded\<rparr>"
  let ?w2 = "?w1\<lparr>worker_done := True, cleaned_up := [7]\<rparr>"
  have looked: "worker_step 7 5 ?w0 (SupervisorLooks 5) ?w1"
    using worker_step.looks [of ?w0 5 5 "Some BoundedDeadlineExceeded" "\<lparr>ws_output = None, ws_abandoned = True\<rparr>" 7]
    by (simp add: await_iteration_def remaining_instant_def fresh_worker_state_def)
  have published: "worker_step 7 5 ?w1 WorkerPublishes ?w2"
    using worker_step.publishes [of ?w1 7 "Some 7" "\<lparr>ws_output = None, ws_abandoned = True\<rparr>" 5]
    by (simp add: publish_worker_output_def)
  have start: "reachable worker_started (worker_step 7 5) ?w0"
    by (rule reachable_init) (simp add: worker_started_def)
  have reach: "reachable worker_started (worker_step 7 5) ?w2"
    by (rule reachable_step [OF reachable_step [OF start looked] published])
  have "cleaned_up ?w2 = [7]" using worker_output_is_consumed_once [OF reach] by simp
  with reach show ?thesis by (intro exI [of _ ?w2]) simp
qed

end
