(* ===== verification/Selection_Policy.thy ===== *)
theory Selection_Policy
  imports Prelude Complex_Main
begin

text \<open>
  The candidate selection of \<open>ariadnion-routing-policy\<close> (\<open>error.rs\<close>, \<open>model.rs\<close>, \<open>policy.rs\<close>):
  candidates with a priority, a weight and a load, the prepared candidate set, and the weighted
  least-load policy with its explanation. Load ratios are compared by cross multiplication in 128
  bits. The lemmas show that the comparison is the order of the rational load ratios, that the
  policy selects the least candidate by priority, ratio and identity, and that the explanation
  names every other candidate once with the reason that applies to it.
\<close>

section \<open>Model\<close>

definition MAX_CANDIDATES :: nat where "MAX_CANDIDATES = 2 ^ 17"
definition MAX_CANDIDATE_ID_BYTES :: nat where "MAX_CANDIDATE_ID_BYTES = 128"
definition MAX_LOAD :: u32 where "MAX_LOAD = push_bit 30 1"
definition MAX_WEIGHT :: u32 where "MAX_WEIGHT = push_bit 20 1"

datatype RoutingPolicyErrorCode =
  EmptyCandidates | TooManyCandidates | InvalidCandidateId | DuplicateCandidateId | WeightOutOfRange
| LoadOutOfRange | NoEligibleCandidates

fun RoutingPolicyErrorCode_as_str :: "RoutingPolicyErrorCode \<Rightarrow> string" where
  "RoutingPolicyErrorCode_as_str EmptyCandidates = ''ROUTING_POLICY_EMPTY_CANDIDATES''"
| "RoutingPolicyErrorCode_as_str TooManyCandidates = ''ROUTING_POLICY_TOO_MANY_CANDIDATES''"
| "RoutingPolicyErrorCode_as_str InvalidCandidateId = ''ROUTING_POLICY_INVALID_CANDIDATE_ID''"
| "RoutingPolicyErrorCode_as_str DuplicateCandidateId = ''ROUTING_POLICY_DUPLICATE_CANDIDATE_ID''"
| "RoutingPolicyErrorCode_as_str WeightOutOfRange = ''ROUTING_POLICY_WEIGHT_OUT_OF_RANGE''"
| "RoutingPolicyErrorCode_as_str LoadOutOfRange = ''ROUTING_POLICY_LOAD_OUT_OF_RANGE''"
| "RoutingPolicyErrorCode_as_str NoEligibleCandidates = ''ROUTING_POLICY_NO_ELIGIBLE_CANDIDATES''"

record RoutingPolicyError =
  rpe_code :: RoutingPolicyErrorCode
  rpe_detail :: string

definition policy_error :: "RoutingPolicyErrorCode \<Rightarrow> string \<Rightarrow> RoutingPolicyError" where
  "policy_error code detail = \<lparr>rpe_code = code, rpe_detail = detail\<rparr>"

type_synonym CandidateId = string
type_synonym Priority = u16
type_synonym Weight = u32
type_synonym Load = u32

definition CandidateId_new :: "string \<Rightarrow> (RoutingPolicyError, CandidateId) result" where
  "CandidateId_new value =
     (if value = [] \<or> MAX_CANDIDATE_ID_BYTES < length value
      then Inl (policy_error InvalidCandidateId
        ''candidate identifier must be non-empty and within the byte limit'')
      else Inr value)"

definition Weight_new :: "u32 \<Rightarrow> (RoutingPolicyError, Weight) result" where
  "Weight_new value =
     (if MAX_WEIGHT < value
      then Inl (policy_error WeightOutOfRange ''candidate weight exceeds the supported bound'')
      else Inr value)"

definition Load_new :: "u32 \<Rightarrow> (RoutingPolicyError, Load) result" where
  "Load_new value =
     (if MAX_LOAD < value
      then Inl (policy_error LoadOutOfRange ''candidate load exceeds the supported bound'')
      else Inr value)"

datatype Availability = CandidateAvailable | CandidateUnavailable

record Candidate =
  ca_id :: CandidateId
  ca_priority :: Priority
  ca_weight :: Weight
  ca_load :: Load
  ca_availability :: Availability

text \<open>A loop over a \<open>BTreeSet\<close> that stops at the first identity seen before.\<close>

fun insert_identifiers :: "CandidateId list \<Rightarrow> CandidateId list \<Rightarrow> (RoutingPolicyError, unit) result" where
  "insert_identifiers seen [] = Inr ()"
| "insert_identifiers seen (i # ids) =
     (if i \<in> set seen
      then Inl (policy_error DuplicateCandidateId
        ''candidate identifiers must be unique within one snapshot'')
      else insert_identifiers (i # seen) ids)"

definition validate_candidates :: "Candidate list \<Rightarrow> (RoutingPolicyError, unit) result" where
  "validate_candidates candidates =
     (if candidates = [] then Inl (policy_error EmptyCandidates ''at least one candidate is required'')
      else if MAX_CANDIDATES < length candidates
      then Inl (policy_error TooManyCandidates ''candidate set exceeds the bounded policy limit'')
      else insert_identifiers [] (map ca_id candidates))"

record PreparedCandidateSet =
  pcs_candidates :: "Candidate list"

definition PreparedCandidateSet_new ::
  "Candidate list \<Rightarrow> (RoutingPolicyError, PreparedCandidateSet) result" where
  "PreparedCandidateSet_new candidates =
     bind_result (validate_candidates candidates) (\<lambda>_. Inr \<lparr>pcs_candidates = candidates\<rparr>)"

datatype SelectionStrategy = PriorityWeightedLeastLoad

datatype ExclusionReason =
  ExcludedUnavailable
| ExcludedZeroWeight
| LowerPriority (winning_priority: Priority)
| HigherEffectiveLoad (winning_candidate: CandidateId)
| StableTieBreak (winning_candidate: CandidateId)

record CandidateExclusion =
  ex_candidate_id :: CandidateId
  ex_reason :: ExclusionReason

record SelectionDecision =
  sd_selected :: CandidateId
  sd_strategy :: SelectionStrategy
  sd_winning_priority :: Priority
  sd_exclusions :: "CandidateExclusion list"

section \<open>Policy\<close>

text \<open>\<open>std::cmp::Ordering\<close> with \<open>cmp\<close> and \<open>then_with\<close>.\<close>

datatype ordering = OrdLess | OrdEqual | OrdGreater

definition ord_cmp :: "'a::linorder \<Rightarrow> 'a \<Rightarrow> ordering" where
  "ord_cmp a b = (if a < b then OrdLess else if a = b then OrdEqual else OrdGreater)"

definition ord_then :: "ordering \<Rightarrow> ordering \<Rightarrow> ordering" where
  "ord_then first second = (if first = OrdEqual then second else first)"

definition is_eligible :: "Candidate \<Rightarrow> bool" where
  "is_eligible c \<longleftrightarrow> ca_availability c = CandidateAvailable \<and> 0 < ca_weight c"

definition compare_load_ratio :: "Candidate \<Rightarrow> Candidate \<Rightarrow> ordering" where
  "compare_load_ratio left right =
     (let left_ratio = (ucast (ca_load left) :: 128 word) * ucast (ca_weight right);
          right_ratio = (ucast (ca_load right) :: 128 word) * ucast (ca_weight left)
      in ord_cmp left_ratio right_ratio)"

definition compare_effective_load :: "Candidate \<Rightarrow> Candidate \<Rightarrow> ordering" where
  "compare_effective_load left right =
     ord_then (compare_load_ratio left right) (ord_cmp (ca_id left) (ca_id right))"

text \<open>\<open>Iterator::min_by\<close>: the first of the least elements.\<close>

fun min_by :: "('a \<Rightarrow> 'a \<Rightarrow> ordering) \<Rightarrow> 'a list \<Rightarrow> 'a option" where
  "min_by compare [] = None"
| "min_by compare (x # xs) =
     Some (fold (\<lambda>y best. if compare best y = OrdGreater then y else best) xs x)"

definition find_winning_priority :: "Candidate list \<Rightarrow> (RoutingPolicyError, Priority) result" where
  "find_winning_priority candidates =
     ok_or (policy_error NoEligibleCandidates ''all candidates are unavailable or have zero weight'')
       (list_min (map ca_priority (filter is_eligible candidates)))"

definition find_winner :: "Candidate list \<Rightarrow> Priority \<Rightarrow> (RoutingPolicyError, Candidate) result" where
  "find_winner candidates p =
     ok_or (policy_error NoEligibleCandidates ''winning priority tier has no eligible candidate'')
       (min_by compare_effective_load (filter (\<lambda>c. ca_priority c = p \<and> is_eligible c) candidates))"

record PreparedSelection =
  sel_candidates :: "Candidate list"
  sel_winner :: Candidate
  sel_winning_priority :: Priority

definition select_candidates :: "Candidate list \<Rightarrow> (RoutingPolicyError, PreparedSelection) result" where
  "select_candidates candidates =
     bind_result (find_winning_priority candidates) (\<lambda>p.
     bind_result (find_winner candidates p) (\<lambda>winner.
     Inr \<lparr>sel_candidates = candidates, sel_winner = winner, sel_winning_priority = p\<rparr>))"

definition exclusion_for :: "Candidate \<Rightarrow> Candidate \<Rightarrow> Priority \<Rightarrow> ExclusionReason option" where
  "exclusion_for candidate winner p =
     (if ca_id candidate = ca_id winner then None
      else if ca_availability candidate = CandidateUnavailable then Some ExcludedUnavailable
      else if ca_weight candidate = 0 then Some ExcludedZeroWeight
      else if p < ca_priority candidate then Some (LowerPriority p)
      else if compare_load_ratio candidate winner = OrdGreater
      then Some (HigherEffectiveLoad (ca_id winner))
      else Some (StableTieBreak (ca_id winner)))"

definition explain_exclusions :: "Candidate list \<Rightarrow> Candidate \<Rightarrow> Priority \<Rightarrow> CandidateExclusion list" where
  "explain_exclusions candidates winner p =
     List.map_filter (\<lambda>c. map_option (\<lambda>reason. \<lparr>ex_candidate_id = ca_id c, ex_reason = reason\<rparr>)
       (exclusion_for c winner p)) candidates"

definition selection_explain :: "PreparedSelection \<Rightarrow> SelectionDecision" where
  "selection_explain s =
     \<lparr>sd_selected = ca_id (sel_winner s), sd_strategy = PriorityWeightedLeastLoad,
      sd_winning_priority = sel_winning_priority s,
      sd_exclusions = explain_exclusions (sel_candidates s) (sel_winner s) (sel_winning_priority s)\<rparr>"

definition select_prepared ::
  "PreparedCandidateSet \<Rightarrow> (RoutingPolicyError, PreparedSelection) result" where
  "select_prepared candidates = select_candidates (pcs_candidates candidates)"

definition policy_select :: "Candidate list \<Rightarrow> (RoutingPolicyError, SelectionDecision) result" where
  "policy_select candidates =
     bind_result (validate_candidates candidates) (\<lambda>_.
     bind_result (select_candidates candidates) (\<lambda>s. Inr (selection_explain s)))"

section \<open>The comparison is the order of load ratios\<close>

definition load_ratio :: "Candidate \<Rightarrow> rat" where
  "load_ratio c = of_nat (unat (ca_load c)) / of_nat (unat (ca_weight c))"

lemma unat_cross:
  "unat ((ucast a :: 128 word) * ucast b) = unat (a :: u32) * unat (b :: u32)"
proof -
  have "unat a * unat b < 2 ^ 32 * 2 ^ 32"
    using unat_lt_width [of a] unat_lt_width [of b] by (intro mult_strict_mono) simp_all
  then have small: "unat a * unat b < 2 ^ LENGTH(128)" by simp
  have wide: "unat (ucast c :: 128 word) = unat c" for c :: u32
  proof -
    have "unat c < 2 ^ 128" using unat_lt_width [of c] by simp
    then show ?thesis by (simp add: unsigned_ucast_eq take_bit_nat_eq_self)
  qed
  show ?thesis using small by (simp add: unat_word_ariths wide)
qed

lemma ratio_cross:
  fixes a b c d :: nat
  assumes "0 < b" and "0 < d"
  shows "(of_nat a / of_nat b :: rat) < of_nat c / of_nat d \<longleftrightarrow> a * d < c * b"
    and "(of_nat a / of_nat b :: rat) = of_nat c / of_nat d \<longleftrightarrow> a * d = c * b"
proof -
  have "(of_nat a / of_nat b :: rat) < of_nat c / of_nat d \<longleftrightarrow> (of_nat (a * d) :: rat) < of_nat (c * b)"
    using assms by (simp add: divide_less_eq less_divide_eq mult.commute)
  then show "(of_nat a / of_nat b :: rat) < of_nat c / of_nat d \<longleftrightarrow> a * d < c * b" by (simp only: of_nat_less_iff)
  have "(of_nat a / of_nat b :: rat) = of_nat c / of_nat d \<longleftrightarrow> (of_nat (a * d) :: rat) = of_nat (c * b)"
    using assms by (simp add: frac_eq_eq)
  then show "(of_nat a / of_nat b :: rat) = of_nat c / of_nat d \<longleftrightarrow> a * d = c * b" by (simp only: of_nat_eq_iff)
qed

lemma compare_load_ratio_rat:
  assumes "is_eligible a" and "is_eligible b"
  shows "compare_load_ratio a b = ord_cmp (load_ratio a) (load_ratio b)"
proof -
  have pos: "0 < unat (ca_weight a)" "0 < unat (ca_weight b)"
    using assms by (simp_all add: is_eligible_def word_less_nat_alt)
  let ?x = "unat (ca_load a) * unat (ca_weight b)" and ?y = "unat (ca_load b) * unat (ca_weight a)"
  have less: "load_ratio a < load_ratio b \<longleftrightarrow> ?x < ?y"
    unfolding load_ratio_def by (rule ratio_cross(1) [OF pos])
  have eq: "load_ratio a = load_ratio b \<longleftrightarrow> ?x = ?y"
    unfolding load_ratio_def by (rule ratio_cross(2) [OF pos])
  show ?thesis
    unfolding compare_load_ratio_def Let_def ord_cmp_def less eq word_less_nat_alt word_unat_eq_iff unat_cross
    by simp
qed

definition selection_key :: "Candidate \<Rightarrow> Priority \<times> rat \<times> CandidateId" where
  "selection_key c = (ca_priority c, load_ratio c, ca_id c)"

lemma compare_effective_load_key:
  assumes "is_eligible a" and "is_eligible b"
  shows "compare_effective_load a b = OrdGreater \<longleftrightarrow> (load_ratio b, ca_id b) < (load_ratio a, ca_id a)"
  unfolding compare_effective_load_def ord_then_def compare_load_ratio_rat [OF assms]
  by (auto simp: ord_cmp_def)

lemma min_by_least:
  assumes "\<And>x y. x \<in> set xs \<Longrightarrow> y \<in> set xs \<Longrightarrow> compare x y = OrdGreater \<longleftrightarrow> (key y :: 'k::linorder) < key x"
    and "xs \<noteq> []"
  obtains m where "min_by compare xs = Some m" "m \<in> set xs" "\<forall>x \<in> set xs. key m \<le> key x"
proof -
  have fold: "(let m = fold (\<lambda>y best. if compare best y = OrdGreater then y else best) ys b
      in m \<in> insert b (set ys) \<and> (\<forall>x \<in> insert b (set ys). key m \<le> key x))"
    if "set (b # ys) \<subseteq> set xs" for b ys
    using that
  proof (induction ys arbitrary: b)
    case Nil
    then show ?case by simp
  next
    case (Cons y ys)
    let ?b = "if compare b y = OrdGreater then y else b"
    have "key ?b \<le> key b" "key ?b \<le> key y" "?b \<in> {b, y}"
      using assms(1) [of b y] Cons.prems by (auto simp: not_less)
    moreover have "set (?b # ys) \<subseteq> set xs" using Cons.prems by auto
    ultimately show ?case using Cons.IH [of ?b] by (fastforce simp: Let_def)
  qed
  obtain b ys where xs: "xs = b # ys" using assms(2) by (cases xs) auto
  then show thesis using fold [of b ys] that by (simp add: Let_def)
qed

section \<open>The least eligible candidate wins\<close>

lemma insert_identifiers_ok: "insert_identifiers seen ids = Inr u \<longleftrightarrow> distinct ids \<and> set ids \<inter> set seen = {}"
  by (induction ids arbitrary: seen) auto

lemma validate_candidates_ok [results]:
  "validate_candidates cs = Inr u \<longleftrightarrow> cs \<noteq> [] \<and> length cs \<le> 2 ^ 17 \<and> distinct (map ca_id cs)"
  by (auto simp: validate_candidates_def MAX_CANDIDATES_def insert_identifiers_ok)

lemma select_candidates_least:
  assumes "\<exists>c \<in> set cs. is_eligible c"
  obtains s where "select_candidates cs = Inr s" "sel_candidates s = cs" "sel_winner s \<in> set cs"
    "is_eligible (sel_winner s)" "sel_winning_priority s = ca_priority (sel_winner s)"
    "\<forall>c \<in> set cs. is_eligible c \<longrightarrow> selection_key (sel_winner s) \<le> selection_key c"
proof -
  have "map ca_priority (filter is_eligible cs) \<noteq> []" using assms by (auto simp: filter_empty_conv)
  then obtain p where p: "list_min (map ca_priority (filter is_eligible cs)) = Some p"
    by (metis list_min_None not_None_eq)
  then have least: "p \<in> ca_priority ` {c \<in> set cs. is_eligible c}"
    "\<And>c. c \<in> set cs \<Longrightarrow> is_eligible c \<Longrightarrow> p \<le> ca_priority c"
    by (auto simp: list_min_Some)
  let ?tier = "filter (\<lambda>c. ca_priority c = p \<and> is_eligible c) cs"
  have "?tier \<noteq> []" using least(1) by (auto simp: filter_empty_conv)
  then obtain w where w: "min_by compare_effective_load ?tier = Some w" "w \<in> set ?tier"
      "\<forall>c \<in> set ?tier. (load_ratio w, ca_id w) \<le> (load_ratio c, ca_id c)"
    using min_by_least [of ?tier compare_effective_load "\<lambda>c. (load_ratio c, ca_id c)"]
      compare_effective_load_key by auto
  let ?s = "\<lparr>sel_candidates = cs, sel_winner = w, sel_winning_priority = p\<rparr>"
  have "select_candidates cs = Inr ?s"
    using p w(1) by (simp add: select_candidates_def find_winning_priority_def find_winner_def)
  moreover have "selection_key w \<le> selection_key c" if c: "c \<in> set cs" "is_eligible c" for c
  proof (cases "ca_priority c = p")
    case True
    then show ?thesis using w(2,3) c by (simp add: selection_key_def)
  next
    case False
    then have "p < ca_priority c" using least(2) [OF c] by simp
    then show ?thesis using w(2) by (simp add: selection_key_def)
  qed
  ultimately show thesis using that [of ?s] w(2) by simp
qed

lemma select_candidates_none:
  "\<not> (\<exists>c \<in> set cs. is_eligible c) \<Longrightarrow>
     \<exists>detail. select_candidates cs = Inl (policy_error NoEligibleCandidates detail)"
  by (auto simp: select_candidates_def find_winning_priority_def filter_empty_conv)

section \<open>Explanations\<close>

text \<open>The reason that a candidate lost, stated by what it says.\<close>

fun reason_holds :: "Candidate \<Rightarrow> Candidate \<Rightarrow> ExclusionReason \<Rightarrow> bool" where
  "reason_holds c w ExcludedUnavailable \<longleftrightarrow> ca_availability c = CandidateUnavailable"
| "reason_holds c w ExcludedZeroWeight \<longleftrightarrow> ca_availability c = CandidateAvailable \<and> ca_weight c = 0"
| "reason_holds c w (LowerPriority p) \<longleftrightarrow> is_eligible c \<and> p = ca_priority w \<and> p < ca_priority c"
| "reason_holds c w (HigherEffectiveLoad i) \<longleftrightarrow>
     is_eligible c \<and> i = ca_id w \<and> ca_priority c = ca_priority w \<and> load_ratio w < load_ratio c"
| "reason_holds c w (StableTieBreak i) \<longleftrightarrow>
     is_eligible c \<and> i = ca_id w \<and> ca_priority c = ca_priority w \<and> load_ratio c = load_ratio w \<and>
     ca_id w < ca_id c"

lemma exclusion_for_truthful:
  assumes "is_eligible w" and "is_eligible c \<longrightarrow> selection_key w \<le> selection_key c"
    and "exclusion_for c w (ca_priority w) = Some reason"
  shows "reason_holds c w reason"
proof (cases "is_eligible c")
  case False
  then show ?thesis
    using assms(3) by (cases "ca_availability c")
      (auto simp: exclusion_for_def is_eligible_def word_neq_0_conv split: if_splits)
next
  case True
  have ne: "ca_id c \<noteq> ca_id w" using assms(3) by (auto simp: exclusion_for_def)
  have parts: "ca_availability c = CandidateAvailable" "ca_weight c \<noteq> 0"
    using True by (auto simp: is_eligible_def)
  have key: "selection_key w \<le> selection_key c" using assms(2) True by simp
  then have prio: "ca_priority w \<le> ca_priority c" by (auto simp: selection_key_def)
  have greater: "compare_load_ratio c w = OrdGreater \<longleftrightarrow> load_ratio w < load_ratio c"
    using compare_load_ratio_rat [OF True assms(1)] by (auto simp: ord_cmp_def)
  show ?thesis
  proof (cases "ca_priority w < ca_priority c")
    case lower: True
    then show ?thesis using assms(3) ne parts True by (auto simp: exclusion_for_def)
  next
    case False
    then have same: "ca_priority c = ca_priority w" using prio by simp
    then have "(load_ratio w, ca_id w) \<le> (load_ratio c, ca_id c)" using key by (simp add: selection_key_def)
    then show ?thesis
      using assms(3) ne parts True same greater
      by (auto simp: exclusion_for_def order_le_less split: if_splits)
  qed
qed

lemma explain_exclusions_ids:
  "map ex_candidate_id (explain_exclusions cs w p) = filter (\<lambda>i. i \<noteq> ca_id w) (map ca_id cs)"
proof (induction cs)
  case Nil
  then show ?case by (simp add: explain_exclusions_def List.map_filter_def)
next
  case (Cons c cs)
  have "exclusion_for c w p = None \<longleftrightarrow> ca_id c = ca_id w" by (simp add: exclusion_for_def)
  then show ?case using Cons by (cases "exclusion_for c w p") (auto simp: explain_exclusions_def List.map_filter_def)
qed

text \<open>
  C35: Over a valid candidate set, selection fails exactly when no candidate is available with a
  positive weight. Otherwise it selects the available candidate with the least priority number,
  among those the least ratio of load to weight, as a rational number, and among those the smallest
  identity; and the explanation lists all other candidates in their order, each with the reason
  that it really lost.
\<close>

theorem least_loaded_candidate_is_selected:
  assumes "validate_candidates cs = Inr ()"
  shows "((\<exists>d. policy_select cs = Inr d) \<longleftrightarrow> (\<exists>c \<in> set cs. is_eligible c)) \<and>
    (\<forall>d. policy_select cs = Inr d \<longrightarrow>
      (\<exists>w \<in> set cs. sd_selected d = ca_id w \<and> sd_winning_priority d = ca_priority w \<and> is_eligible w \<and>
        (\<forall>c \<in> set cs. is_eligible c \<longrightarrow> selection_key w \<le> selection_key c) \<and>
        map ex_candidate_id (sd_exclusions d) = filter (\<lambda>i. i \<noteq> ca_id w) (map ca_id cs) \<and>
        (\<forall>x \<in> set (sd_exclusions d). \<exists>c \<in> set cs. ca_id c = ex_candidate_id x \<and> reason_holds c w (ex_reason x))))"
proof (cases "\<exists>c \<in> set cs. is_eligible c")
  case False
  obtain detail where "select_candidates cs = Inl (policy_error NoEligibleCandidates detail)"
    using select_candidates_none [OF False] by blast
  then have "policy_select cs = Inl (policy_error NoEligibleCandidates detail)"
    using assms by (simp add: policy_select_def)
  then show ?thesis using False by simp
next
  case True
  show ?thesis
  proof (rule select_candidates_least [OF True])
    fix s
    assume s: "select_candidates cs = Inr s" "sel_candidates s = cs" "sel_winner s \<in> set cs"
      "is_eligible (sel_winner s)" "sel_winning_priority s = ca_priority (sel_winner s)"
      "\<forall>c \<in> set cs. is_eligible c \<longrightarrow> selection_key (sel_winner s) \<le> selection_key c"
    let ?w = "sel_winner s" and ?d = "selection_explain s"
    have d: "policy_select cs = Inr ?d" using assms s(1) by (simp add: policy_select_def)
    have "\<exists>c \<in> set cs. ca_id c = ex_candidate_id x \<and> reason_holds c ?w (ex_reason x)"
      if x: "x \<in> set (sd_exclusions ?d)" for x
    proof -
      obtain c where c: "c \<in> set cs" "exclusion_for c ?w (ca_priority ?w) = Some (ex_reason x)"
        "ex_candidate_id x = ca_id c"
        using x s(2,5) by (auto simp: selection_explain_def explain_exclusions_def List.map_filter_def)
      then show ?thesis using exclusion_for_truthful [OF s(4) _ c(2)] s(6) by metis
    qed
    moreover have "map ex_candidate_id (sd_exclusions ?d) = filter (\<lambda>i. i \<noteq> ca_id ?w) (map ca_id cs)"
      using s(2,5) by (simp add: selection_explain_def explain_exclusions_ids)
    moreover have "sd_selected ?d = ca_id ?w" "sd_winning_priority ?d = ca_priority ?w"
      using s(5) by (simp_all add: selection_explain_def)
    ultimately show ?thesis using d True s(3,4,6) by auto
  qed
qed

definition demo_weighted :: "string \<Rightarrow> u32 \<Rightarrow> u32 \<Rightarrow> Candidate" where
  "demo_weighted i weight load = \<lparr>ca_id = i, ca_priority = 1, ca_weight = weight, ca_load = load,
     ca_availability = CandidateAvailable\<rparr>"

theorem least_loaded_candidate_is_selected_witness:
  "\<exists>d. policy_select [demo_weighted ''a'' 2 4, demo_weighted ''b'' 3 4] = Inr d \<and> length (sd_exclusions d) = 1"
proof -
  let ?cs = "[demo_weighted ''a'' 2 4, demo_weighted ''b'' 3 4]"
  have valid: "validate_candidates ?cs = Inr ()" by (simp add: results demo_weighted_def)
  have "is_eligible (demo_weighted ''a'' 2 4)"
    by (simp add: is_eligible_def demo_weighted_def word_less_nat_alt)
  then obtain d where d: "policy_select ?cs = Inr d"
    using least_loaded_candidate_is_selected [OF valid] by auto
  then obtain w where w: "w \<in> set ?cs"
      "map ex_candidate_id (sd_exclusions d) = filter (\<lambda>i. i \<noteq> ca_id w) (map ca_id ?cs)"
    using least_loaded_candidate_is_selected [OF valid] by blast
  then have "length (map ex_candidate_id (sd_exclusions d)) = 1" by (auto simp: demo_weighted_def)
  with d show ?thesis by auto
qed

end
