(* ===== verification/Failover.thy ===== *)
theory Failover
  imports Interfaces
begin

text \<open>
  The failover planner of \<open>ariadnion-routing-failover\<close> and the request-bound retry plan of
  \<open>ariadnion-routing-coordinator/src/retry.rs\<close>: a bounded, duplicate-free list of candidates with
  an attempt limit, and the decision after one failed attempt. The lemmas describe an accepted
  plan, the position of a candidate in it, and the decision as a function of that position: it
  moves one place forward, repeats the last place, or stops.
\<close>

section \<open>Model\<close>

definition MAX_PLAN_CANDIDATES :: nat where "MAX_PLAN_CANDIDATES = 32"
definition MAX_ATTEMPTS :: u8 where "MAX_ATTEMPTS = 8"
definition MAX_CANDIDATE_KEY_BYTES :: nat where "MAX_CANDIDATE_KEY_BYTES = 128"

datatype FailoverErrorCode =
  FailoverInvalidArgument | PlanTooLarge | DuplicateCandidate | AttemptOutOfRange
| CandidateNotInPlan | StreamCommitted

fun FailoverErrorCode_as_str :: "FailoverErrorCode \<Rightarrow> string" where
  "FailoverErrorCode_as_str FailoverInvalidArgument = ''ROUTING_FAILOVER_INVALID_ARGUMENT''"
| "FailoverErrorCode_as_str PlanTooLarge = ''ROUTING_FAILOVER_PLAN_TOO_LARGE''"
| "FailoverErrorCode_as_str DuplicateCandidate = ''ROUTING_FAILOVER_DUPLICATE_CANDIDATE''"
| "FailoverErrorCode_as_str AttemptOutOfRange = ''ROUTING_FAILOVER_ATTEMPT_OUT_OF_RANGE''"
| "FailoverErrorCode_as_str CandidateNotInPlan = ''ROUTING_FAILOVER_CANDIDATE_NOT_IN_PLAN''"
| "FailoverErrorCode_as_str StreamCommitted = ''ROUTING_FAILOVER_STREAM_COMMITTED''"

record FailoverError =
  fe_code :: FailoverErrorCode

definition failover_error :: "FailoverErrorCode \<Rightarrow> FailoverError" where
  "failover_error code = \<lparr>fe_code = code\<rparr>"

type_synonym CandidateKey = string

definition CandidateKey_parse :: "string \<Rightarrow> (FailoverError, CandidateKey) result" where
  "CandidateKey_parse value =
     (if value = [] \<or> MAX_CANDIDATE_KEY_BYTES < length value \<or> \<not> is_ascii value
         \<or> \<not> list_all is_graphic_byte value
      then Inl (failover_error FailoverInvalidArgument)
      else Inr value)"

datatype OperationSafety = ReadOnly | Idempotent | NonIdempotent

fun permits_retry :: "OperationSafety \<Rightarrow> bool" where
  "permits_retry NonIdempotent = False"
| "permits_retry _ = True"

datatype StreamCommitment = Uncommitted | FirstByteSent

datatype FailureClass =
  Transport | TransientServer | FailureRateLimited | Authentication | InvalidRequest | PolicyRejection

fun is_retryable :: "FailureClass \<Rightarrow> bool" where
  "is_retryable Transport = True"
| "is_retryable TransientServer = True"
| "is_retryable FailureRateLimited = True"
| "is_retryable _ = False"

datatype AdmissionRefusal = RefusedCandidateUnavailable | RefusedRequestRejected

datatype AttemptOutcome =
  AdmissionRejected AdmissionRefusal
| ProviderFailure FailureClass

record FailoverPlan =
  fp_candidates :: "CandidateKey list"
  fp_max_attempts :: u8

definition validate_plan_bounds :: "nat \<Rightarrow> u8 \<Rightarrow> (FailoverError, unit) result" where
  "validate_plan_bounds candidate_count max_attempts =
     (if candidate_count = 0 \<or> MAX_PLAN_CANDIDATES < candidate_count
      then Inl (failover_error PlanTooLarge)
      else if \<not> (1 \<le> max_attempts \<and> max_attempts \<le> MAX_ATTEMPTS)
      then Inl (failover_error FailoverInvalidArgument)
      else Inr ())"

text \<open>The loop over the \<open>BTreeSet\<close> of candidates seen so far.\<close>

fun unique_candidates :: "CandidateKey list \<Rightarrow> CandidateKey list \<Rightarrow> (FailoverError, unit) result" where
  "unique_candidates seen [] = Inr ()"
| "unique_candidates seen (c # cs) =
     (if c \<in> set seen then Inl (failover_error DuplicateCandidate)
      else unique_candidates (c # seen) cs)"

definition ensure_unique_candidates :: "CandidateKey list \<Rightarrow> (FailoverError, unit) result" where
  "ensure_unique_candidates candidates = unique_candidates [] candidates"

definition FailoverPlan_new :: "CandidateKey list \<Rightarrow> u8 \<Rightarrow> (FailoverError, FailoverPlan) result" where
  "FailoverPlan_new candidates max_attempts =
     bind_result (validate_plan_bounds (length candidates) max_attempts) (\<lambda>_.
     bind_result (ensure_unique_candidates candidates) (\<lambda>_.
       Inr \<lparr>fp_candidates = candidates, fp_max_attempts = max_attempts\<rparr>))"

fun first_index :: "'a \<Rightarrow> 'a list \<Rightarrow> nat option" where
  "first_index x [] = None"
| "first_index x (y # ys) = (if y = x then Some 0 else map_option Suc (first_index x ys))"

definition index_of :: "FailoverPlan \<Rightarrow> CandidateKey \<Rightarrow> nat option" where
  "index_of plan candidate = first_index candidate (fp_candidates plan)"

record AttemptContext =
  at_candidate :: CandidateKey
  at_attempt :: u8
  at_operation :: OperationSafety
  at_stream :: StreamCommitment

definition AttemptContext_new ::
  "CandidateKey \<Rightarrow> u8 \<Rightarrow> OperationSafety \<Rightarrow> StreamCommitment \<Rightarrow> (FailoverError, AttemptContext) result" where
  "AttemptContext_new candidate attempt operation stream =
     (if attempt = 0 then Inl (failover_error FailoverInvalidArgument)
      else Inr \<lparr>at_candidate = candidate, at_attempt = attempt, at_operation = operation,
                at_stream = stream\<rparr>)"

datatype FailoverAction = RetrySame | SwitchCandidate CandidateKey | Stop

record FailoverDecision =
  fd_action :: FailoverAction
  fd_failure :: FailureClass

record AttemptDecision =
  ad_action :: FailoverAction
  ad_outcome :: AttemptOutcome

definition validate_attempt :: "AttemptContext \<Rightarrow> u8 \<Rightarrow> (FailoverError, unit) result" where
  "validate_attempt context max_attempts =
     (if max_attempts < at_attempt context then Inl (failover_error AttemptOutOfRange) else Inr ())"

definition should_stop :: "AttemptContext \<Rightarrow> FailureClass \<Rightarrow> u8 \<Rightarrow> bool" where
  "should_stop context failure max_attempts \<longleftrightarrow>
     at_stream context = FirstByteSent \<or> \<not> is_retryable failure
     \<or> \<not> permits_retry (at_operation context) \<or> max_attempts \<le> at_attempt context"

text \<open>\<open>slice::get\<close>.\<close>

definition get_at :: "'a list \<Rightarrow> nat \<Rightarrow> 'a option" where
  "get_at xs i = (if i < length xs then Some (xs ! i) else None)"

definition next_action :: "FailoverPlan \<Rightarrow> nat \<Rightarrow> FailoverAction" where
  "next_action plan index =
     (case get_at (fp_candidates plan) (index + 1) of None \<Rightarrow> RetrySame | Some c \<Rightarrow> SwitchCandidate c)"

definition admission_action ::
  "FailoverPlan \<Rightarrow> AttemptContext \<Rightarrow> AdmissionRefusal \<Rightarrow> nat \<Rightarrow> FailoverAction" where
  "admission_action plan context refusal index =
     (if refusal = RefusedRequestRejected \<or> at_stream context = FirstByteSent
         \<or> \<not> permits_retry (at_operation context) \<or> fp_max_attempts plan \<le> at_attempt context
      then Stop
      else case get_at (fp_candidates plan) (index + 1) of None \<Rightarrow> Stop | Some c \<Rightarrow> SwitchCandidate c)"

definition decide ::
  "FailoverPlan \<Rightarrow> AttemptContext \<Rightarrow> FailureClass \<Rightarrow> (FailoverError, FailoverDecision) result" where
  "decide plan context failure =
     bind_result (ok_or (failover_error CandidateNotInPlan) (index_of plan (at_candidate context))) (\<lambda>index.
     bind_result (validate_attempt context (fp_max_attempts plan)) (\<lambda>_.
       if should_stop context failure (fp_max_attempts plan)
       then Inr \<lparr>fd_action = Stop, fd_failure = failure\<rparr>
       else Inr \<lparr>fd_action = next_action plan index, fd_failure = failure\<rparr>))"

definition decide_outcome ::
  "FailoverPlan \<Rightarrow> AttemptContext \<Rightarrow> AttemptOutcome \<Rightarrow> (FailoverError, AttemptDecision) result" where
  "decide_outcome plan context outcome =
     bind_result
       (case outcome of
          ProviderFailure failure \<Rightarrow> bind_result (decide plan context failure) (\<lambda>d. Inr (fd_action d))
        | AdmissionRejected refusal \<Rightarrow>
            bind_result (ok_or (failover_error CandidateNotInPlan) (index_of plan (at_candidate context))) (\<lambda>index.
            bind_result (validate_attempt context (fp_max_attempts plan)) (\<lambda>_.
              Inr (admission_action plan context refusal index))))
       (\<lambda>action. Inr \<lparr>ad_action = action, ad_outcome = outcome\<rparr>)"

text \<open>\<open>RoutingRetryPlan\<close>: the plan of a request with the safety of its operation.\<close>

record RoutingRetryPlan =
  rrp_plan :: FailoverPlan
  rrp_operation :: OperationSafety

definition retry_decide ::
  "RoutingRetryPlan \<Rightarrow> CandidateKey \<Rightarrow> u8 \<Rightarrow> StreamCommitment \<Rightarrow> FailureClass \<Rightarrow>
     (FailoverError, FailoverDecision) result" where
  "retry_decide rp candidate attempt stream failure =
     bind_result (AttemptContext_new candidate attempt (rrp_operation rp) stream)
       (\<lambda>context. decide (rrp_plan rp) context failure)"

definition retry_decide_outcome ::
  "RoutingRetryPlan \<Rightarrow> CandidateKey \<Rightarrow> u8 \<Rightarrow> StreamCommitment \<Rightarrow> AttemptOutcome \<Rightarrow>
     (FailoverError, AttemptDecision) result" where
  "retry_decide_outcome rp candidate attempt stream outcome =
     bind_result (AttemptContext_new candidate attempt (rrp_operation rp) stream)
       (\<lambda>context. decide_outcome (rrp_plan rp) context outcome)"

section \<open>Accepted plans\<close>

definition plan_ok :: "FailoverPlan \<Rightarrow> bool" where
  "plan_ok plan \<longleftrightarrow>
     fp_candidates plan \<noteq> [] \<and> length (fp_candidates plan) \<le> 32 \<and> distinct (fp_candidates plan)
     \<and> 1 \<le> unat (fp_max_attempts plan) \<and> unat (fp_max_attempts plan) \<le> 8"

lemma unique_candidates_iff:
  "unique_candidates seen cs = Inr () \<longleftrightarrow> distinct cs \<and> set cs \<inter> set seen = {}"
  by (induction seen cs rule: unique_candidates.induct) auto

lemma FailoverPlan_new_iff:
  "FailoverPlan_new cs m = Inr plan \<longleftrightarrow>
     plan = \<lparr>fp_candidates = cs, fp_max_attempts = m\<rparr> \<and> plan_ok plan"
  by (auto simp: FailoverPlan_new_def bind_result_eq_Inr validate_plan_bounds_def
      ensure_unique_candidates_def unique_candidates_iff plan_ok_def MAX_PLAN_CANDIDATES_def
      MAX_ATTEMPTS_def word_le_nat_alt)

lemma first_index_Some:
  "first_index x xs = Some i \<Longrightarrow> i < length xs \<and> xs ! i = x"
  by (induction xs arbitrary: i) (auto split: if_splits)

lemma first_index_None: "first_index x xs = None \<longleftrightarrow> x \<notin> set xs"
  by (induction xs) auto

lemma index_of_nth:
  assumes "plan_ok plan" and "i < length (fp_candidates plan)"
  shows "index_of plan (fp_candidates plan ! i) = Some i"
proof (cases "first_index (fp_candidates plan ! i) (fp_candidates plan)")
  case None
  then show ?thesis using assms(2) by (simp add: first_index_None)
next
  case (Some j)
  then show ?thesis
    using assms first_index_Some [OF Some] by (auto simp: index_of_def plan_ok_def nth_eq_iff_index_eq)
qed

lemma index_of_Some:
  "index_of plan c = Some i \<Longrightarrow> i < length (fp_candidates plan) \<and> fp_candidates plan ! i = c"
  by (simp add: index_of_def first_index_Some)

text \<open>The decision in terms of the position of the candidate in the plan.\<close>

lemma retry_decide_at:
  assumes "plan_ok (rrp_plan rp)" and "i < length (fp_candidates (rrp_plan rp))"
    and "attempt \<noteq> 0" and "unat attempt \<le> unat (fp_max_attempts (rrp_plan rp))"
  shows "retry_decide rp (fp_candidates (rrp_plan rp) ! i) attempt stream failure =
    Inr \<lparr>fd_action =
          (if stream = FirstByteSent \<or> \<not> is_retryable failure \<or> \<not> permits_retry (rrp_operation rp)
              \<or> attempt = fp_max_attempts (rrp_plan rp)
           then Stop
           else if Suc i < length (fp_candidates (rrp_plan rp))
           then SwitchCandidate (fp_candidates (rrp_plan rp) ! Suc i) else RetrySame),
         fd_failure = failure\<rparr>"
  using assms
  by (auto simp: retry_decide_def AttemptContext_new_def decide_def index_of_nth ok_or_def
      bind_result_def validate_attempt_def should_stop_def next_action_def get_at_def
      word_less_nat_alt word_le_nat_alt word_unat_eq_iff)

lemma retry_decide_outcome_refusal_at:
  assumes "plan_ok (rrp_plan rp)" and "i < length (fp_candidates (rrp_plan rp))"
    and "attempt \<noteq> 0" and "unat attempt \<le> unat (fp_max_attempts (rrp_plan rp))"
  shows "retry_decide_outcome rp (fp_candidates (rrp_plan rp) ! i) attempt stream (AdmissionRejected refusal) =
    Inr \<lparr>ad_action =
          (if refusal = RefusedRequestRejected \<or> stream = FirstByteSent
              \<or> \<not> permits_retry (rrp_operation rp) \<or> attempt = fp_max_attempts (rrp_plan rp)
              \<or> length (fp_candidates (rrp_plan rp)) \<le> Suc i
           then Stop else SwitchCandidate (fp_candidates (rrp_plan rp) ! Suc i)),
         ad_outcome = AdmissionRejected refusal\<rparr>"
  using assms
  by (auto simp: retry_decide_outcome_def AttemptContext_new_def decide_outcome_def index_of_nth ok_or_def
      bind_result_def validate_attempt_def admission_action_def get_at_def
      word_less_nat_alt word_le_nat_alt word_unat_eq_iff)

end
