(* ===== verification/Aggregates.thy ===== *)
theory Aggregates
  imports Interfaces
begin

text \<open>
  The contract of the persisted aggregates (provider accounts, users, organizations, authorization
  policies, session families) as locales: every accepted command advances the version by one and keeps the identity, and
  what is stored of a reachable aggregate is restored to it.
\<close>

locale versioned_aggregate = invariant_system init step inv
  for init :: "'s \<Rightarrow> bool" and step :: "'s \<Rightarrow> 'l \<Rightarrow> 's \<Rightarrow> bool" and inv :: "'s \<Rightarrow> bool" +
  fixes version :: "'s \<Rightarrow> u64"
    and identity :: "'s \<Rightarrow> 'i"
  assumes init_version: "init s \<Longrightarrow> version s = 1"
    and step_version: "step s l t \<Longrightarrow> unat (version t) = unat (version s) + 1"
    and step_identity: "step s l t \<Longrightarrow> identity t = identity s"
begin

text \<open>The version counts the commands since the creation; the identity never changes.\<close>

lemma run_version: "run step s ls t \<Longrightarrow> unat (version t) = unat (version s) + length ls"
  by (induction rule: run.induct) (auto simp: step_version)

lemma run_identity: "run step s ls t \<Longrightarrow> identity t = identity s"
  by (induction rule: run.induct) (auto simp: step_identity)

lemma reachable_version: "reachable init step s \<Longrightarrow> version s \<noteq> 0"
proof -
  assume "reachable init step s"
  then obtain s0 ls where "init s0" "run step s0 ls s" by (auto simp: reachable_def)
  from run_version [OF this(2)] init_version [OF this(1)] show "version s \<noteq> 0" by auto
qed

end

locale stored_aggregate = versioned_aggregate init step inv version identity
  for init :: "'s \<Rightarrow> bool" and step :: "'s \<Rightarrow> 'l \<Rightarrow> 's \<Rightarrow> bool" and inv :: "'s \<Rightarrow> bool"
    and version :: "'s \<Rightarrow> u64" and identity :: "'s \<Rightarrow> 'i" +
  fixes store :: "'s \<Rightarrow> 'd"
    and restore :: "'d \<Rightarrow> ('e, 's) result"
  assumes restore_store: "inv s \<Longrightarrow> restore (store s) = Inr s"
begin

lemma reachable_restores: "reachable init step s \<Longrightarrow> restore (store s) = Inr s"
  by (rule restore_store [OF reachable_inv])

end

end
