(* ===== verification/Account_Domain.thy ===== *)
theory Account_Domain
  imports Core_Ids Aggregates
begin

text \<open>
  The account aggregate of \<open>ariadnion-account-domain\<close>: bounded identities and labels, secret
  references, versioned configurations, effective windows, and the lifecycle state machine with its
  version-checked transitions. The lemmas show which transitions the machine has, that an account's
  version counts the operations it took, and that every operation but the intended ones is refused
  without a change.
\<close>

section \<open>Errors and identities\<close>

definition MAX_ACCOUNT_ID_BYTES :: nat where "MAX_ACCOUNT_ID_BYTES = 128"
definition MAX_LABEL_BYTES :: nat where "MAX_LABEL_BYTES = 160"
definition MAX_SECRET_PATH_BYTES :: nat where "MAX_SECRET_PATH_BYTES = 512"
definition MAX_ROUTING_WEIGHT :: u32 where "MAX_ROUTING_WEIGHT = 2 ^ 20"

datatype AccountDomainErrorCode =
  AccountInvalidArgument | AccountVersionConflict | AccountVersionExhausted
| ConfigVersionConflict | AccountInvalidTransition | DeletedTerminal

fun AccountDomainErrorCode_as_str :: "AccountDomainErrorCode \<Rightarrow> string" where
  "AccountDomainErrorCode_as_str AccountInvalidArgument = ''ACCOUNT_INVALID_ARGUMENT''"
| "AccountDomainErrorCode_as_str AccountVersionConflict = ''ACCOUNT_VERSION_CONFLICT''"
| "AccountDomainErrorCode_as_str AccountVersionExhausted = ''ACCOUNT_VERSION_EXHAUSTED''"
| "AccountDomainErrorCode_as_str ConfigVersionConflict = ''ACCOUNT_CONFIG_VERSION_CONFLICT''"
| "AccountDomainErrorCode_as_str AccountInvalidTransition = ''ACCOUNT_INVALID_TRANSITION''"
| "AccountDomainErrorCode_as_str DeletedTerminal = ''ACCOUNT_DELETED_TERMINAL''"

record AccountDomainError =
  ade_code :: AccountDomainErrorCode

definition account_error :: "AccountDomainErrorCode \<Rightarrow> AccountDomainError" where
  "account_error code = \<lparr>ade_code = code\<rparr>"

definition is_account_id_byte :: "char \<Rightarrow> bool" where
  "is_account_id_byte c \<longleftrightarrow> is_alphanumeric c \<or> c \<in> {CHR ''.'', CHR ''-'', CHR ''_'', CHR '':''}"

definition valid_account_id :: "string \<Rightarrow> bool" where
  "valid_account_id value \<longleftrightarrow>
     value \<noteq> [] \<and> length value \<le> MAX_ACCOUNT_ID_BYTES \<and> is_ascii value \<and> list_all is_account_id_byte value"

definition valid_text :: "string \<Rightarrow> nat \<Rightarrow> bool" where
  "valid_text value limit \<longleftrightarrow>
     value \<noteq> [] \<and> length value \<le> limit \<and> is_ascii value
     \<and> list_all (\<lambda>c. 0x20 \<le> (of_char c :: nat) \<and> (of_char c :: nat) \<le> 0x7e) value"

text \<open>\<open>parse\<close> of the types the macros \<open>bounded_id!\<close> and \<open>bounded_text!\<close> generate.\<close>

definition account_id_parse :: "string \<Rightarrow> (AccountDomainError, string) result" where
  "account_id_parse value =
     (if \<not> valid_account_id value then Inl (account_error AccountInvalidArgument) else Inr value)"

definition label_parse :: "string \<Rightarrow> (AccountDomainError, string) result" where
  "label_parse value =
     (if \<not> valid_text value MAX_LABEL_BYTES then Inl (account_error AccountInvalidArgument) else Inr value)"

definition SecretPath_parse :: "string \<Rightarrow> (AccountDomainError, string) result" where
  "SecretPath_parse value =
     (if \<not> valid_text value MAX_SECRET_PATH_BYTES then Inl (account_error AccountInvalidArgument) else Inr value)"

section \<open>Versions, windows and routing values\<close>

type_synonym AccountVersion = u64
type_synonym AccountConfigVersion = u64

definition AccountVersion_initial :: AccountVersion where "AccountVersion_initial = 1"

definition AccountVersion_new :: "u64 \<Rightarrow> (AccountDomainError, AccountVersion) result" where
  "AccountVersion_new value =
     (if value = 0 then Inl (account_error AccountInvalidArgument) else Inr value)"

definition AccountVersion_next :: "AccountVersion \<Rightarrow> (AccountDomainError, AccountVersion) result" where
  "AccountVersion_next v = ok_or (account_error AccountVersionExhausted) (checked_add v 1)"

definition AccountConfigVersion_initial :: AccountConfigVersion where "AccountConfigVersion_initial = 1"

definition AccountConfigVersion_new :: "u64 \<Rightarrow> (AccountDomainError, AccountConfigVersion) result" where
  "AccountConfigVersion_new value =
     (if value = 0 then Inl (account_error AccountInvalidArgument) else Inr value)"

definition AccountConfigVersion_next ::
  "AccountConfigVersion \<Rightarrow> (AccountDomainError, AccountConfigVersion) result" where
  "AccountConfigVersion_next v = ok_or (account_error AccountVersionExhausted) (checked_add v 1)"

text \<open>An \<open>i64\<close> of seconds since the Unix epoch; the code only compares such values.\<close>

type_synonym AccountUtcTimestamp = int

record AccountEffectiveWindow =
  effective_start :: "AccountUtcTimestamp option"
  effective_end :: "AccountUtcTimestamp option"

definition OPEN_WINDOW :: AccountEffectiveWindow where
  "OPEN_WINDOW = \<lparr>effective_start = None, effective_end = None\<rparr>"

definition AccountEffectiveWindow_new ::
  "AccountUtcTimestamp option \<Rightarrow> AccountUtcTimestamp option \<Rightarrow> (AccountDomainError, AccountEffectiveWindow) result" where
  "AccountEffectiveWindow_new start finish =
     (case (start, finish) of
        (Some s, Some e) \<Rightarrow>
          if e \<le> s then Inl (account_error AccountInvalidArgument)
          else Inr \<lparr>effective_start = start, effective_end = finish\<rparr>
      | _ \<Rightarrow> Inr \<lparr>effective_start = start, effective_end = finish\<rparr>)"

definition is_effective_at :: "AccountEffectiveWindow \<Rightarrow> AccountUtcTimestamp \<Rightarrow> bool" where
  "is_effective_at window observed_at \<longleftrightarrow>
     (case effective_start window of None \<Rightarrow> True | Some start \<Rightarrow> start \<le> observed_at)
     \<and> (case effective_end window of None \<Rightarrow> True | Some finish \<Rightarrow> observed_at < finish)"

type_synonym RoutingPriority = u16
type_synonym RoutingWeight = u32

definition DEFAULT_ROUTING_PRIORITY :: RoutingPriority where "DEFAULT_ROUTING_PRIORITY = 0"
definition DEFAULT_ROUTING_WEIGHT :: RoutingWeight where "DEFAULT_ROUTING_WEIGHT = 1"

definition RoutingWeight_new :: "u32 \<Rightarrow> (AccountDomainError, RoutingWeight) result" where
  "RoutingWeight_new value =
     (if MAX_ROUTING_WEIGHT < value then Inl (account_error AccountInvalidArgument) else Inr value)"

section \<open>Configurations and accounts\<close>

type_synonym SecretVersion = u64

definition SecretVersion_new :: "u64 \<Rightarrow> (AccountDomainError, SecretVersion) result" where
  "SecretVersion_new value =
     (if value = 0 then Inl (account_error AccountInvalidArgument) else Inr value)"

record SecretRef =
  sr_provider :: string
  sr_path :: string
  sr_version :: SecretVersion
  sr_purpose :: string

record ProviderMetadata =
  pm_id :: ProviderId
  pm_label :: string

record AccountMetadata =
  amd_label :: string
  amd_external_id :: "string option"

record AccountConfig =
  acf_version :: AccountConfigVersion
  acf_secret_ref :: SecretRef
  acf_default_model :: "string option"
  acf_max_concurrency :: u32
  acf_routing_priority :: RoutingPriority
  acf_routing_weight :: RoutingWeight
  acf_effective_window :: AccountEffectiveWindow

definition AccountConfig_with_routing ::
  "AccountConfigVersion \<Rightarrow> SecretRef \<Rightarrow> string option \<Rightarrow> u32 \<Rightarrow> RoutingPriority \<Rightarrow> RoutingWeight \<Rightarrow>
     (AccountDomainError, AccountConfig) result" where
  "AccountConfig_with_routing version secret_ref default_model max_concurrency priority weight =
     (if max_concurrency = 0 then Inl (account_error AccountInvalidArgument)
      else Inr \<lparr>acf_version = version, acf_secret_ref = secret_ref, acf_default_model = default_model,
                acf_max_concurrency = max_concurrency, acf_routing_priority = priority,
                acf_routing_weight = weight, acf_effective_window = OPEN_WINDOW\<rparr>)"

definition AccountConfig_new ::
  "AccountConfigVersion \<Rightarrow> SecretRef \<Rightarrow> string option \<Rightarrow> u32 \<Rightarrow> (AccountDomainError, AccountConfig) result" where
  "AccountConfig_new version secret_ref default_model max_concurrency =
     AccountConfig_with_routing version secret_ref default_model max_concurrency
       DEFAULT_ROUTING_PRIORITY DEFAULT_ROUTING_WEIGHT"

definition with_effective_window :: "AccountEffectiveWindow \<Rightarrow> AccountConfig \<Rightarrow> AccountConfig" where
  "with_effective_window window config = config\<lparr>acf_effective_window := window\<rparr>"

datatype AccountStatus =
  AccountProvisioning | AccountActive | AccountSuspended | AccountRevoked | AccountDeleted

datatype AccountTransitionAction =
  ActivateAccount | SuspendAccount | ResumeAccount | RevokeAccount | DeleteAccount

record AccountTransitionCommand =
  atc_expected_version :: AccountVersion
  atc_action :: AccountTransitionAction

record AccountLifecycleEvent =
  ale_account_id :: AccountId
  ale_from :: AccountStatus
  ale_to :: AccountStatus
  ale_version :: AccountVersion

record AccountLifecycleChange =
  alc_version :: AccountVersion
  alc_status :: AccountStatus
  alc_event :: AccountLifecycleEvent

fun activate_status :: "AccountStatus \<Rightarrow> (AccountDomainError, AccountStatus) result" where
  "activate_status AccountProvisioning = Inr AccountActive"
| "activate_status AccountSuspended = Inr AccountActive"
| "activate_status AccountDeleted = Inl (account_error DeletedTerminal)"
| "activate_status _ = Inl (account_error AccountInvalidTransition)"

fun suspend_status :: "AccountStatus \<Rightarrow> (AccountDomainError, AccountStatus) result" where
  "suspend_status AccountActive = Inr AccountSuspended"
| "suspend_status AccountDeleted = Inl (account_error DeletedTerminal)"
| "suspend_status _ = Inl (account_error AccountInvalidTransition)"

fun resume_status :: "AccountStatus \<Rightarrow> (AccountDomainError, AccountStatus) result" where
  "resume_status AccountSuspended = Inr AccountActive"
| "resume_status AccountDeleted = Inl (account_error DeletedTerminal)"
| "resume_status _ = Inl (account_error AccountInvalidTransition)"

fun revoke_status :: "AccountStatus \<Rightarrow> (AccountDomainError, AccountStatus) result" where
  "revoke_status AccountRevoked = Inl (account_error AccountInvalidTransition)"
| "revoke_status AccountDeleted = Inl (account_error DeletedTerminal)"
| "revoke_status _ = Inr AccountRevoked"

fun delete_status :: "AccountStatus \<Rightarrow> (AccountDomainError, AccountStatus) result" where
  "delete_status AccountRevoked = Inr AccountDeleted"
| "delete_status AccountDeleted = Inl (account_error DeletedTerminal)"
| "delete_status _ = Inl (account_error AccountInvalidTransition)"

fun next_status :: "AccountStatus \<Rightarrow> AccountTransitionAction \<Rightarrow> (AccountDomainError, AccountStatus) result" where
  "next_status current ActivateAccount = activate_status current"
| "next_status current SuspendAccount = suspend_status current"
| "next_status current ResumeAccount = resume_status current"
| "next_status current RevokeAccount = revoke_status current"
| "next_status current DeleteAccount = delete_status current"

definition validate_lifecycle_snapshot :: "AccountVersion \<Rightarrow> AccountStatus \<Rightarrow> (AccountDomainError, unit) result" where
  "validate_lifecycle_snapshot version status =
     (if status = AccountDeleted \<and> version = AccountVersion_initial
      then Inl (account_error AccountInvalidArgument) else Inr ())"

definition apply_account_lifecycle ::
  "AccountId \<Rightarrow> AccountVersion \<Rightarrow> AccountStatus \<Rightarrow> AccountTransitionCommand \<Rightarrow>
     (AccountDomainError, AccountLifecycleChange) result" where
  "apply_account_lifecycle account_id current_version current_status command =
     bind_result (validate_lifecycle_snapshot current_version current_status) (\<lambda>_.
     if atc_expected_version command \<noteq> current_version then Inl (account_error AccountVersionConflict)
     else bind_result (next_status current_status (atc_action command)) (\<lambda>status.
          bind_result (AccountVersion_next current_version) (\<lambda>version.
            Inr \<lparr>alc_version = version, alc_status = status,
                 alc_event = \<lparr>ale_account_id = account_id, ale_from = current_status, ale_to = status,
                              ale_version = version\<rparr>\<rparr>)))"

record ProviderAccount =
  pa_id :: AccountId
  pa_tenant_id :: TenantId
  pa_provider :: ProviderMetadata
  pa_metadata :: AccountMetadata
  pa_config :: AccountConfig
  pa_version :: AccountVersion
  pa_status :: AccountStatus

definition Account_new ::
  "AccountId \<Rightarrow> TenantId \<Rightarrow> ProviderMetadata \<Rightarrow> AccountMetadata \<Rightarrow> AccountConfig \<Rightarrow> ProviderAccount" where
  "Account_new account_id tenant_id provider metadata config =
     \<lparr>pa_id = account_id, pa_tenant_id = tenant_id, pa_provider = provider, pa_metadata = metadata,
      pa_config = config, pa_version = AccountVersion_initial, pa_status = AccountProvisioning\<rparr>"

definition Account_from_snapshot ::
  "AccountId \<Rightarrow> TenantId \<Rightarrow> ProviderMetadata \<Rightarrow> AccountMetadata \<Rightarrow> AccountConfig \<Rightarrow> AccountVersion \<Rightarrow>
     AccountStatus \<Rightarrow> (AccountDomainError, ProviderAccount) result" where
  "Account_from_snapshot account_id tenant_id provider metadata config version status =
     bind_result (validate_lifecycle_snapshot version status) (\<lambda>_.
       Inr \<lparr>pa_id = account_id, pa_tenant_id = tenant_id, pa_provider = provider, pa_metadata = metadata,
            pa_config = config, pa_version = version, pa_status = status\<rparr>)"

definition replace_config ::
  "ProviderAccount \<Rightarrow> AccountVersion \<Rightarrow> AccountConfig \<Rightarrow> (AccountDomainError, ProviderAccount) result" where
  "replace_config account expected_account_version config =
     (if expected_account_version \<noteq> pa_version account then Inl (account_error AccountVersionConflict)
      else bind_result (AccountConfigVersion_next (acf_version (pa_config account))) (\<lambda>expected_config_version.
           if acf_version config \<noteq> expected_config_version then Inl (account_error ConfigVersionConflict)
           else bind_result (AccountVersion_next (pa_version account)) (\<lambda>version.
                  Inr (account\<lparr>pa_config := config, pa_version := version\<rparr>))))"

definition Account_apply ::
  "ProviderAccount \<Rightarrow> AccountTransitionCommand \<Rightarrow> (AccountDomainError, ProviderAccount \<times> AccountLifecycleEvent) result" where
  "Account_apply account command =
     bind_result (apply_account_lifecycle (pa_id account) (pa_version account) (pa_status account) command) (\<lambda>change.
       Inr (account\<lparr>pa_status := alc_status change, pa_version := alc_version change\<rparr>, alc_event change))"

section \<open>The lifecycle\<close>

lemma AccountVersion_next_ok: "AccountVersion_next v = Inr w \<longleftrightarrow> unat w = unat v + 1"
  by (simp add: AccountVersion_next_def ok_or_eq checked_add_eq_Some)

lemma AccountConfigVersion_next_ok: "AccountConfigVersion_next v = Inr w \<longleftrightarrow> unat w = unat v + 1"
  by (simp add: AccountConfigVersion_next_def ok_or_eq checked_add_eq_Some)

text \<open>The transitions the machine has, and the error of every other command.\<close>

lemma next_status_iff:
  "next_status s a = Inr t \<longleftrightarrow>
     (a = ActivateAccount \<and> s \<in> {AccountProvisioning, AccountSuspended} \<and> t = AccountActive)
     \<or> (a = SuspendAccount \<and> s = AccountActive \<and> t = AccountSuspended)
     \<or> (a = ResumeAccount \<and> s = AccountSuspended \<and> t = AccountActive)
     \<or> (a = RevokeAccount \<and> s \<in> {AccountProvisioning, AccountActive, AccountSuspended} \<and> t = AccountRevoked)
     \<or> (a = DeleteAccount \<and> s = AccountRevoked \<and> t = AccountDeleted)"
  by (cases a; cases s) auto

lemma next_status_error:
  "next_status s a = Inl e \<Longrightarrow>
     e = account_error (if s = AccountDeleted then DeletedTerminal else AccountInvalidTransition)"
  by (cases a; cases s) auto

datatype account_op = Transition AccountTransitionCommand | ReplaceConfig AccountVersion AccountConfig

fun account_op_result :: "account_op \<Rightarrow> ProviderAccount \<Rightarrow> (AccountDomainError, ProviderAccount) result" where
  "account_op_result (Transition command) a = bind_result (Account_apply a command) (\<lambda>(b, event). Inr b)"
| "account_op_result (ReplaceConfig v config) a = replace_config a v config"

inductive account_step :: "ProviderAccount \<Rightarrow> account_op \<Rightarrow> ProviderAccount \<Rightarrow> bool" where
  account_step: "account_op_result operation a = Inr b \<Longrightarrow> account_step a operation b"

inductive_simps account_step_iff: "account_step a operation b"

text \<open>How far an account is in its life: no step goes back, and the last two stages are final.\<close>

fun life_stage :: "AccountStatus \<Rightarrow> nat" where
  "life_stage AccountProvisioning = 0"
| "life_stage AccountActive = 1"
| "life_stage AccountSuspended = 1"
| "life_stage AccountRevoked = 2"
| "life_stage AccountDeleted = 3"

lemma Account_apply_ok:
  "Account_apply a command = Inr (b, event) \<longleftrightarrow>
     \<not> (pa_status a = AccountDeleted \<and> pa_version a = AccountVersion_initial)
     \<and> atc_expected_version command = pa_version a
     \<and> (\<exists>s v. next_status (pa_status a) (atc_action command) = Inr s \<and> unat v = unat (pa_version a) + 1
          \<and> b = a\<lparr>pa_status := s, pa_version := v\<rparr>
          \<and> event = \<lparr>ale_account_id = pa_id a, ale_from = pa_status a, ale_to = s, ale_version = v\<rparr>)"
  unfolding Account_apply_def apply_account_lifecycle_def validate_lifecycle_snapshot_def bind_result_eq_Inr
    if_split_eq1 AccountVersion_next_ok
  by (fastforce simp: bind_result_eq_Inr AccountVersion_next_ok)

lemma replace_config_ok:
  "replace_config a v config = Inr b \<longleftrightarrow>
     v = pa_version a \<and> unat (acf_version config) = unat (acf_version (pa_config a)) + 1
     \<and> (\<exists>w. unat w = unat (pa_version a) + 1 \<and> b = a\<lparr>pa_config := config, pa_version := w\<rparr>)"
  by (auto simp: replace_config_def bind_result_eq_Inr AccountVersion_next_ok AccountConfigVersion_next_ok)

lemma account_step_facts:
  assumes "account_step a operation b"
  shows "unat (pa_version b) = unat (pa_version a) + 1"
    and "life_stage (pa_status a) \<le> life_stage (pa_status b)"
    and "pa_id b = pa_id a" and "pa_tenant_id b = pa_tenant_id a" and "pa_provider b = pa_provider a"
  using assms
  by (cases operation; auto simp: account_step_iff bind_result_eq_Inr Account_apply_ok replace_config_ok next_status_iff)+

definition account_starts :: "ProviderAccount \<Rightarrow> bool" where
  "account_starts a \<longleftrightarrow> pa_version a = AccountVersion_initial \<and> pa_status a = AccountProvisioning"

text \<open>A version never runs behind the life of its account: a deleted one was revoked and deleted.\<close>

definition account_ok :: "ProviderAccount \<Rightarrow> bool" where
  "account_ok a \<longleftrightarrow>
     1 \<le> unat (pa_version a) \<and> (pa_status a = AccountRevoked \<longrightarrow> 2 \<le> unat (pa_version a))
     \<and> (pa_status a = AccountDeleted \<longrightarrow> 3 \<le> unat (pa_version a))"

interpretation account_life: versioned_aggregate account_starts account_step account_ok pa_version
  "\<lambda>a. (pa_id a, pa_tenant_id a, pa_provider a)"
proof
  show "account_ok a" if "account_starts a" for a
    using that by (simp add: account_starts_def account_ok_def AccountVersion_initial_def)
  show "account_ok b" if "account_ok a" "account_step a operation b" for a operation b
    using that account_step_facts(1) [OF that(2)]
    by (cases operation)
      (auto simp: account_ok_def account_step_iff bind_result_eq_Inr Account_apply_ok replace_config_ok next_status_iff)
  show "pa_version a = 1" if "account_starts a" for a
    using that by (simp add: account_starts_def AccountVersion_initial_def)
qed (simp_all add: account_step_facts)

lemma account_ok_snapshot:
  "account_ok a \<Longrightarrow> validate_lifecycle_snapshot (pa_version a) (pa_status a) = Inr ()"
  by (auto simp: account_ok_def validate_lifecycle_snapshot_def AccountVersion_initial_def)

text \<open>
  C34: the life of an account. Along every sequence of lifecycle commands and configuration
  replacements applied to a new account, each applied operation advances the version by exactly one;
  the identity, tenant and provider stay; the stored snapshot is one \<open>from_snapshot\<close> accepts; and once
  the account is revoked or deleted no later sequence makes it active, suspended or provisioning again.
\<close>

theorem revocation_is_final:
  assumes "run account_step (Account_new i tenant provider metadata config) before a"
    and "run account_step a later b"
  shows "unat (pa_version b) = 1 + length before + length later
     \<and> pa_id b = i \<and> pa_tenant_id b = tenant \<and> pa_provider b = provider
     \<and> validate_lifecycle_snapshot (pa_version b) (pa_status b) = Inr ()
     \<and> (pa_status a = AccountRevoked \<longrightarrow> pa_status b \<in> {AccountRevoked, AccountDeleted})
     \<and> (pa_status a = AccountDeleted \<longrightarrow> pa_status b = AccountDeleted)"
proof -
  let ?new = "Account_new i tenant provider metadata config"
  have "account_starts ?new" by (simp add: account_starts_def Account_new_def)
  then have "account_ok a" "account_ok b"
    using account_life.run_inv [OF assms(1)] account_life.run_inv [OF run_append [OF assms]]
      account_life.init_inv by simp_all
  then have "validate_lifecycle_snapshot (pa_version b) (pa_status b) = Inr ()"
    by (intro account_ok_snapshot)
  moreover have "unat (pa_version ?new) = 1" "pa_id ?new = i" "pa_tenant_id ?new = tenant" "pa_provider ?new = provider"
    by (simp_all add: Account_new_def AccountVersion_initial_def)
  moreover have "life_stage (pa_status a) \<le> life_stage (pa_status b)"
    using account_life.run_monotone [OF account_step_facts(2) assms(2) \<open>account_ok a\<close>] .
  then have "pa_status a = AccountRevoked \<longrightarrow> pa_status b \<in> {AccountRevoked, AccountDeleted}"
    "pa_status a = AccountDeleted \<longrightarrow> pa_status b = AccountDeleted"
    by (cases "pa_status b"; auto)+
  ultimately show ?thesis
    using account_life.run_version [OF assms(1)] account_life.run_version [OF assms(2)]
      account_life.run_identity [OF assms(1)] account_life.run_identity [OF assms(2)] by simp
qed

definition demo_account_config :: AccountConfig where
  "demo_account_config =
     \<lparr>acf_version = 1, acf_secret_ref = \<lparr>sr_provider = ''vault'', sr_path = ''key'', sr_version = 1, sr_purpose = ''use''\<rparr>,
      acf_default_model = Some ''m'', acf_max_concurrency = 1, acf_routing_priority = 0, acf_routing_weight = 1,
      acf_effective_window = OPEN_WINDOW\<rparr>"

definition demo_provider_account :: "AccountVersion \<Rightarrow> AccountStatus \<Rightarrow> ProviderAccount" where
  "demo_provider_account version status =
     \<lparr>pa_id = ''a'', pa_tenant_id = ''t'', pa_provider = \<lparr>pm_id = ''p'', pm_label = ''P''\<rparr>,
      pa_metadata = \<lparr>amd_label = ''A'', amd_external_id = None\<rparr>, pa_config = demo_account_config,
      pa_version = version, pa_status = status\<rparr>"

lemma demo_account_steps:
  "account_step (demo_provider_account 1 AccountProvisioning) (Transition \<lparr>atc_expected_version = 1, atc_action = RevokeAccount\<rparr>)
     (demo_provider_account 2 AccountRevoked)"
  "account_step (demo_provider_account 2 AccountRevoked) (Transition \<lparr>atc_expected_version = 2, atc_action = DeleteAccount\<rparr>)
     (demo_provider_account 3 AccountDeleted)"
  by (simp_all add: account_step_iff Account_apply_def apply_account_lifecycle_def validate_lifecycle_snapshot_def
      AccountVersion_initial_def AccountVersion_next_def checked_add_def demo_provider_account_def)

theorem revocation_is_final_witness:
  "validate_lifecycle_snapshot (pa_version (demo_provider_account 3 AccountDeleted)) (pa_status (demo_provider_account 3 AccountDeleted)) = Inr ()"
proof -
  have new: "Account_new ''a'' ''t'' \<lparr>pm_id = ''p'', pm_label = ''P''\<rparr> \<lparr>amd_label = ''A'', amd_external_id = None\<rparr>
      demo_account_config = demo_provider_account 1 AccountProvisioning"
    by (simp add: Account_new_def demo_provider_account_def AccountVersion_initial_def)
  have runs: "run account_step (demo_provider_account 1 AccountProvisioning)
        [Transition \<lparr>atc_expected_version = 1, atc_action = RevokeAccount\<rparr>] (demo_provider_account 2 AccountRevoked)"
      "run account_step (demo_provider_account 2 AccountRevoked)
        [Transition \<lparr>atc_expected_version = 2, atc_action = DeleteAccount\<rparr>] (demo_provider_account 3 AccountDeleted)"
    using demo_account_steps by (simp_all add: run_Cons_iff)
  show ?thesis using revocation_is_final [OF runs(1) [folded new] runs(2)] by simp
qed

end
