(* ===== verification/Slices.thy ===== *)
theory Slices
  imports Prelude
begin

text \<open>
  The operations on slices and iterators of the Rust standard library that several components use,
  with their lemmas: the test of neighbours that finds duplicates in a sorted vector, \<open>find_map\<close>,
  \<open>position\<close>, the insertion into a set that stops at a repeated element, and searches by a key that
  no two elements share.
\<close>

section \<open>Duplicates\<close>

text \<open>\<open>windows(2)\<close> of a vector with an equal pair.\<close>

fun adjacent_equal :: "'a list \<Rightarrow> bool" where
  "adjacent_equal (x # y # ys) = (x = y \<or> adjacent_equal (y # ys))"
| "adjacent_equal _ = False"

lemma adjacent_equal_sorted:
  "sorted ks \<Longrightarrow> \<not> adjacent_equal ks \<longleftrightarrow> sorted_wrt (<) (ks :: 'a::linorder list)"
  by (induction ks rule: adjacent_equal.induct) (auto simp: less_le intro: order_trans)

text \<open>A loop that inserts into a \<open>BTreeSet\<close> and returns an error at the first repeated element.\<close>

fun insert_unique :: "'e \<Rightarrow> 'a list \<Rightarrow> 'a list \<Rightarrow> ('e, unit) result" where
  "insert_unique e seen [] = Inr ()"
| "insert_unique e seen (x # xs) = (if x \<in> set seen then Inl e else insert_unique e (x # seen) xs)"

lemma insert_unique_ok [results]:
  "insert_unique e seen xs = Inr u \<longleftrightarrow> distinct xs \<and> set xs \<inter> set seen = {}"
  by (induction xs arbitrary: seen) auto

section \<open>Searches\<close>

text \<open>\<open>find_map\<close> over a slice.\<close>

fun find_map :: "('a \<Rightarrow> 'b option) \<Rightarrow> 'a list \<Rightarrow> 'b option" where
  "find_map f [] = None"
| "find_map f (x # xs) = (case f x of Some y \<Rightarrow> Some y | None \<Rightarrow> find_map f xs)"

lemma find_map_None: "find_map f xs = None \<longleftrightarrow> (\<forall>x \<in> set xs. f x = None)"
  by (induction xs) (auto split: option.splits)

text \<open>\<open>Iterator::position\<close>.\<close>

fun list_position :: "('a \<Rightarrow> bool) \<Rightarrow> 'a list \<Rightarrow> nat option" where
  "list_position P [] = None"
| "list_position P (x # xs) = (if P x then Some 0 else map_option Suc (list_position P xs))"

lemma list_position_Some: "list_position P xs = Some i \<Longrightarrow> i < length xs \<and> P (xs ! i)"
  by (induction xs arbitrary: i) (auto split: if_splits)

lemma list_position_None: "list_position P xs = None \<longleftrightarrow> (\<forall>x \<in> set xs. \<not> P x)"
  by (induction xs) auto

lemma filter_pairwise_at_most_one:
  assumes "sorted_wrt R xs" and "\<And>x y. x \<in> set xs \<Longrightarrow> P x \<Longrightarrow> P y \<Longrightarrow> \<not> R x y"
  shows "length (filter P xs) \<le> 1"
  using assms
proof (induction xs)
  case (Cons x xs)
  show ?case
  proof (cases "P x")
    case True
    then have "filter P xs = []" using Cons.prems by (auto simp: filter_empty_conv)
    with True show ?thesis by simp
  next
    case False
    with Cons show ?thesis by simp
  qed
qed simp

lemma find_filter: "find P xs = (case filter P xs of [] \<Rightarrow> None | x # _ \<Rightarrow> Some x)"
  by (induction xs) auto

lemma filter_singleton_iff:
  "length (filter P xs) \<le> 1 \<Longrightarrow> find P xs = Some x \<longleftrightarrow> x \<in> set xs \<and> P x"
proof -
  assume "length (filter P xs) \<le> 1"
  moreover have "x \<in> set xs \<and> P x \<longleftrightarrow> x \<in> set (filter P xs)" by simp
  ultimately show ?thesis unfolding find_filter by (cases "filter P xs") auto
qed

lemma find_by_distinct_key:
  "distinct (map f xs) \<Longrightarrow> find (\<lambda>x. f x = k) xs = Some x \<longleftrightarrow> x \<in> set xs \<and> f x = k"
  by (induction xs) auto

end
