(* ===== verification/Account_Import.thy ===== *)
theory Account_Import
  imports Account_Domain Slices
begin

text \<open>
  The account imports of \<open>ariadnion-account-import\<close>: digests and entries, batches and their
  classification against the accounts that exist, the coordinator that sequences accepted intents by
  generation (\<open>lib.rs\<close>), and the vocabulary of the durable port: mutation identities, credential
  references, account rows and the projection that lists them (\<open>port.rs\<close>). The port's methods are
  implemented by storage crates; what they answer is an argument where the runtime calls them.
\<close>

section \<open>Errors\<close>

definition MAX_IMPORT_ENTRIES :: nat where "MAX_IMPORT_ENTRIES = 2 ^ 17"
definition DIGEST_HEX_BYTES :: nat where "DIGEST_HEX_BYTES = 64"
definition IMPORT_SCHEMA_VERSION :: u16 where "IMPORT_SCHEMA_VERSION = 1"
definition MAX_IMPORT_MUTATION_ID_BYTES :: nat where "MAX_IMPORT_MUTATION_ID_BYTES = 2 ^ 7"
definition MAX_ACCOUNT_PROJECTION_ACCOUNTS :: nat where "MAX_ACCOUNT_PROJECTION_ACCOUNTS = MAX_IMPORT_ENTRIES"

datatype ImportErrorCode =
  EntryInvalidArgument | EntryUnsupportedSchemaVersion | TooManyEntries | DuplicateEntry
| EntryConflict | ImportGenerationConflict | ImportGenerationExhausted | ImportStateUnavailable

fun import_validation_error_code :: "ImportErrorCode \<Rightarrow> string" where
  "import_validation_error_code EntryInvalidArgument = ''ACCOUNT_IMPORT_INVALID_ARGUMENT''"
| "import_validation_error_code EntryUnsupportedSchemaVersion = ''ACCOUNT_IMPORT_UNSUPPORTED_SCHEMA_VERSION''"
| "import_validation_error_code TooManyEntries = ''ACCOUNT_IMPORT_TOO_MANY_ENTRIES''"
| "import_validation_error_code DuplicateEntry = ''ACCOUNT_IMPORT_DUPLICATE_ENTRY''"
| "import_validation_error_code _ = ''ACCOUNT_IMPORT_INVALID_ARGUMENT''"

fun import_publication_error_code :: "ImportErrorCode \<Rightarrow> string" where
  "import_publication_error_code EntryConflict = ''ACCOUNT_IMPORT_CONFLICT''"
| "import_publication_error_code ImportGenerationConflict = ''ACCOUNT_IMPORT_GENERATION_CONFLICT''"
| "import_publication_error_code ImportGenerationExhausted = ''ACCOUNT_IMPORT_GENERATION_EXHAUSTED''"
| "import_publication_error_code ImportStateUnavailable = ''ACCOUNT_IMPORT_STATE_UNAVAILABLE''"
| "import_publication_error_code _ = ''ACCOUNT_IMPORT_INVALID_ARGUMENT''"

definition ImportErrorCode_as_str :: "ImportErrorCode \<Rightarrow> string" where
  "ImportErrorCode_as_str c =
     (if c \<in> {EntryInvalidArgument, EntryUnsupportedSchemaVersion, TooManyEntries, DuplicateEntry}
      then import_validation_error_code c else import_publication_error_code c)"

record ImportError =
  ime_code :: ImportErrorCode

definition import_error :: "ImportErrorCode \<Rightarrow> ImportError" where
  "import_error code = \<lparr>ime_code = code\<rparr>"

section \<open>Digests\<close>

type_synonym OpaqueDigest = "u8 list"

definition hex_nibble :: "char \<Rightarrow> (ImportError, u8) result" where
  "hex_nibble c =
     (if is_digit c then Inr (of_char c - 48)
      else if CHR ''a'' \<le> c \<and> c \<le> CHR ''f'' then Inr (of_char c - 97 + 10)
      else if CHR ''A'' \<le> c \<and> c \<le> CHR ''F'' then Inr (of_char c - 65 + 10)
      else Inl (import_error EntryInvalidArgument))"

text \<open>The loop over \<open>chunks_exact(2)\<close>.\<close>

fun parse_hex_chunks :: "string \<Rightarrow> (ImportError, OpaqueDigest) result" where
  "parse_hex_chunks (h # l # rest) =
     bind_result (hex_nibble h) (\<lambda>high.
     bind_result (hex_nibble l) (\<lambda>low.
     bind_result (parse_hex_chunks rest) (\<lambda>bytes. Inr (or (push_bit 4 high) low # bytes))))"
| "parse_hex_chunks _ = Inr []"

definition OpaqueDigest_parse_hex :: "string \<Rightarrow> (ImportError, OpaqueDigest) result" where
  "OpaqueDigest_parse_hex value =
     (if length value \<noteq> DIGEST_HEX_BYTES \<or> \<not> is_ascii value then Inl (import_error EntryInvalidArgument)
      else parse_hex_chunks value)"

text \<open>\<open>write!("{byte:02x}")\<close> of every byte.\<close>

definition hex_digit :: "nat \<Rightarrow> char" where
  "hex_digit n = (if n < 10 then char_of (48 + n) else char_of (87 + n))"

definition show_hex_byte :: "u8 \<Rightarrow> string" where
  "show_hex_byte b = [hex_digit (unat b div 16), hex_digit (unat b mod 16)]"

definition show_digest :: "OpaqueDigest \<Rightarrow> string" where
  "show_digest d = concat (map show_hex_byte d)"

section \<open>Entries, batches and the coordinator\<close>

type_synonym ImportGeneration = u64

definition ImportGeneration_next :: "ImportGeneration \<Rightarrow> (ImportError, ImportGeneration) result" where
  "ImportGeneration_next g = ok_or (import_error ImportGenerationExhausted) (checked_add g 1)"

datatype ConflictStrategy = RejectConflict | SkipExisting | ReplaceExisting

record ImportEntry =
  ien_account_id :: AccountId
  ien_provider_id :: ProviderId
  ien_provider_label :: "string option"
  ien_account_label :: "string option"
  ien_external_account_id :: "string option"
  ien_config_version :: AccountConfigVersion
  ien_secret_ref :: SecretRef
  ien_default_model :: "string option"
  ien_max_concurrency :: u32
  ien_routing_priority :: RoutingPriority
  ien_routing_weight :: RoutingWeight
  ien_effective_window :: AccountEffectiveWindow
  ien_credential_digest :: OpaqueDigest

definition ImportEntry_new :: "AccountId \<Rightarrow> ProviderId \<Rightarrow> SecretRef \<Rightarrow> OpaqueDigest \<Rightarrow> ImportEntry" where
  "ImportEntry_new account_id provider_id secret_ref digest =
     \<lparr>ien_account_id = account_id, ien_provider_id = provider_id, ien_provider_label = None,
      ien_account_label = None, ien_external_account_id = None,
      ien_config_version = AccountConfigVersion_initial, ien_secret_ref = secret_ref,
      ien_default_model = None, ien_max_concurrency = 1, ien_routing_priority = DEFAULT_ROUTING_PRIORITY,
      ien_routing_weight = DEFAULT_ROUTING_WEIGHT, ien_effective_window = OPEN_WINDOW,
      ien_credential_digest = digest\<rparr>"

definition ImportEntry_configured ::
  "AccountId \<Rightarrow> ProviderMetadata \<Rightarrow> AccountMetadata \<Rightarrow> AccountConfig \<Rightarrow> OpaqueDigest \<Rightarrow> ImportEntry" where
  "ImportEntry_configured account_id provider metadata config digest =
     \<lparr>ien_account_id = account_id, ien_provider_id = pm_id provider,
      ien_provider_label = Some (pm_label provider), ien_account_label = Some (amd_label metadata),
      ien_external_account_id = amd_external_id metadata, ien_config_version = acf_version config,
      ien_secret_ref = acf_secret_ref config, ien_default_model = acf_default_model config,
      ien_max_concurrency = acf_max_concurrency config, ien_routing_priority = acf_routing_priority config,
      ien_routing_weight = acf_routing_weight config, ien_effective_window = acf_effective_window config,
      ien_credential_digest = digest\<rparr>"

definition entry_provider_label :: "ImportEntry \<Rightarrow> string" where
  "entry_provider_label e = (case ien_provider_label e of None \<Rightarrow> ien_provider_id e | Some label \<Rightarrow> label)"

definition entry_account_label :: "ImportEntry \<Rightarrow> string" where
  "entry_account_label e = (case ien_account_label e of None \<Rightarrow> ien_account_id e | Some label \<Rightarrow> label)"

definition has_explicit_configuration :: "ImportEntry \<Rightarrow> bool" where
  "has_explicit_configuration e \<longleftrightarrow> ien_provider_label e \<noteq> None"

record ImportBatch =
  ib_schema_version :: u16
  ib_entries :: "ImportEntry list"

definition ImportBatch_new :: "u16 \<Rightarrow> ImportEntry list \<Rightarrow> (ImportError, ImportBatch) result" where
  "ImportBatch_new schema_version entries =
     (if MAX_IMPORT_ENTRIES < length entries then Inl (import_error TooManyEntries)
      else Inr \<lparr>ib_schema_version = schema_version, ib_entries = entries\<rparr>)"

record DryRunReport =
  drr_total_count :: nat
  drr_selected_count :: nat
  drr_skipped_count :: nat
  drr_conflict_count :: nat
  drr_strategy :: ConflictStrategy

record PublishIntent =
  pui_expected_generation :: ImportGeneration
  pui_strategy :: ConflictStrategy
  pui_entries :: "ImportEntry list"

record ImportPublishReceipt =
  ipr_generation :: ImportGeneration
  ipr_published_count :: nat

definition existing_accounts :: "AccountId list \<Rightarrow> (ImportError, AccountId list) result" where
  "existing_accounts existing =
     (if MAX_IMPORT_ENTRIES < length existing then Inl (import_error TooManyEntries)
      else bind_result (insert_unique (import_error DuplicateEntry) [] existing) (\<lambda>_. Inr existing))"

definition validate_batch :: "ImportBatch \<Rightarrow> (ImportError, unit) result" where
  "validate_batch batch =
     (if ib_schema_version batch \<noteq> IMPORT_SCHEMA_VERSION
      then Inl (import_error EntryUnsupportedSchemaVersion)
      else insert_unique (import_error DuplicateEntry) [] (map ien_account_id (ib_entries batch)))"

fun classify_loop ::
  "AccountId list \<Rightarrow> ConflictStrategy \<Rightarrow> ImportEntry list \<Rightarrow> nat \<Rightarrow> nat \<Rightarrow> nat \<Rightarrow>
     (ImportError, nat \<times> nat \<times> nat) result" where
  "classify_loop existing strategy [] selected skipped conflicts = Inr (selected, skipped, conflicts)"
| "classify_loop existing strategy (entry # entries) selected skipped conflicts =
     (if ien_account_id entry \<in> set existing
      then (case strategy of
              RejectConflict \<Rightarrow> Inl (import_error EntryConflict)
            | SkipExisting \<Rightarrow> classify_loop existing strategy entries selected (skipped + 1) (conflicts + 1)
            | ReplaceExisting \<Rightarrow> classify_loop existing strategy entries (selected + 1) skipped (conflicts + 1))
      else classify_loop existing strategy entries (selected + 1) skipped conflicts)"

definition classify_entries ::
  "ImportBatch \<Rightarrow> AccountId list \<Rightarrow> ConflictStrategy \<Rightarrow> (ImportError, nat \<times> nat \<times> nat) result" where
  "classify_entries batch existing strategy =
     bind_result (validate_batch batch) (\<lambda>_. classify_loop existing strategy (ib_entries batch) 0 0 0)"

definition select_entries ::
  "ImportBatch \<Rightarrow> AccountId list \<Rightarrow> ConflictStrategy \<Rightarrow> (ImportError, ImportEntry list) result" where
  "select_entries batch existing strategy =
     bind_result (classify_entries batch existing strategy) (\<lambda>_.
       Inr (filter (\<lambda>entry. \<not> (ien_account_id entry \<in> set existing \<and> strategy = SkipExisting)) (ib_entries batch)))"

record ImportCoordinator =
  imc_generation :: ImportGeneration
  imc_poisoned :: bool

definition ImportCoordinator_from_generation :: "ImportGeneration \<Rightarrow> ImportCoordinator" where
  "ImportCoordinator_from_generation generation = \<lparr>imc_generation = generation, imc_poisoned = False\<rparr>"

definition ImportCoordinator_new :: ImportCoordinator where
  "ImportCoordinator_new = ImportCoordinator_from_generation 0"

definition import_generation :: "ImportCoordinator \<Rightarrow> (ImportError, ImportGeneration) result" where
  "import_generation c =
     (if imc_poisoned c then Inl (import_error ImportStateUnavailable) else Inr (imc_generation c))"

definition import_dry_run ::
  "ImportBatch \<Rightarrow> AccountId list \<Rightarrow> ConflictStrategy \<Rightarrow> (ImportError, DryRunReport) result" where
  "import_dry_run batch existing strategy =
     bind_result (existing_accounts existing) (\<lambda>existing_set.
     bind_result (classify_entries batch existing_set strategy) (\<lambda>(selected, skipped, conflicts).
       Inr \<lparr>drr_total_count = length (ib_entries batch), drr_selected_count = selected,
            drr_skipped_count = skipped, drr_conflict_count = conflicts, drr_strategy = strategy\<rparr>))"

definition import_prepare ::
  "ImportCoordinator \<Rightarrow> ImportBatch \<Rightarrow> AccountId list \<Rightarrow> ConflictStrategy \<Rightarrow> (ImportError, PublishIntent) result" where
  "import_prepare c batch existing strategy =
     bind_result (existing_accounts existing) (\<lambda>existing_set.
     bind_result (select_entries batch existing_set strategy) (\<lambda>entries.
     bind_result (import_generation c) (\<lambda>generation.
       Inr \<lparr>pui_expected_generation = generation, pui_strategy = strategy, pui_entries = entries\<rparr>)))"

definition accept_intent :: "PublishIntent \<Rightarrow> (ImportCoordinator, ImportError, ImportPublishReceipt) update" where
  "accept_intent intent c =
     (if imc_poisoned c then (Inl (import_error ImportStateUnavailable), c)
      else if imc_generation c \<noteq> pui_expected_generation intent
      then (Inl (import_error ImportGenerationConflict), c)
      else (case ImportGeneration_next (imc_generation c) of
              Inl e \<Rightarrow> (Inl e, c)
            | Inr generation \<Rightarrow>
                (Inr \<lparr>ipr_generation = generation, ipr_published_count = length (pui_entries intent)\<rparr>,
                 c\<lparr>imc_generation := generation\<rparr>)))"

section \<open>The durable port\<close>

datatype ImportPortErrorCode =
  ImportInvalidArgument | ImportUnauthenticated | ImportPermissionDenied | ImportProjectionConflict
| ImportConflict | ImportCancelled | ImportDeadlineExceeded | ImportResourceExhausted
| ImportUnavailable | ImportCommitIndeterminate | ImportCorruptState

fun port_request_error_code :: "ImportPortErrorCode \<Rightarrow> string option" where
  "port_request_error_code ImportInvalidArgument = Some ''ACCOUNT_IMPORT_PORT_INVALID_ARGUMENT''"
| "port_request_error_code ImportUnauthenticated = Some ''ACCOUNT_IMPORT_PORT_UNAUTHENTICATED''"
| "port_request_error_code ImportPermissionDenied = Some ''ACCOUNT_IMPORT_PORT_PERMISSION_DENIED''"
| "port_request_error_code ImportConflict = Some ''ACCOUNT_IMPORT_PORT_CONFLICT''"
| "port_request_error_code ImportProjectionConflict = Some ''ACCOUNT_IMPORT_PORT_PROJECTION_CONFLICT''"
| "port_request_error_code _ = None"

fun port_execution_error_code :: "ImportPortErrorCode \<Rightarrow> string option" where
  "port_execution_error_code ImportCancelled = Some ''ACCOUNT_IMPORT_PORT_CANCELLED''"
| "port_execution_error_code ImportDeadlineExceeded = Some ''ACCOUNT_IMPORT_PORT_DEADLINE_EXCEEDED''"
| "port_execution_error_code ImportResourceExhausted = Some ''ACCOUNT_IMPORT_PORT_RESOURCE_EXHAUSTED''"
| "port_execution_error_code _ = None"

fun port_adapter_error_code :: "ImportPortErrorCode \<Rightarrow> string" where
  "port_adapter_error_code ImportUnavailable = ''ACCOUNT_IMPORT_PORT_UNAVAILABLE''"
| "port_adapter_error_code ImportCommitIndeterminate = ''ACCOUNT_IMPORT_PORT_COMMIT_INDETERMINATE''"
| "port_adapter_error_code ImportCorruptState = ''ACCOUNT_IMPORT_PORT_CORRUPT_STATE''"
| "port_adapter_error_code _ = ''ACCOUNT_IMPORT_PORT_CORRUPT_STATE''"

definition ImportPortErrorCode_as_str :: "ImportPortErrorCode \<Rightarrow> string" where
  "ImportPortErrorCode_as_str c =
     (case port_request_error_code c of
        Some code \<Rightarrow> code
      | None \<Rightarrow> (case port_execution_error_code c of
                    Some code \<Rightarrow> code | None \<Rightarrow> port_adapter_error_code c))"

definition requires_reconciliation :: "ImportPortErrorCode \<Rightarrow> bool" where
  "requires_reconciliation code \<longleftrightarrow> code = ImportCommitIndeterminate"

definition valid_mutation_id :: "string \<Rightarrow> bool" where
  "valid_mutation_id value =
     (case value of
        [] \<Rightarrow> False
      | first # _ \<Rightarrow>
          is_alphanumeric first \<and> length value \<le> MAX_IMPORT_MUTATION_ID_BYTES \<and> list_all is_account_id_byte value)"

definition ImportMutationId_parse :: "string \<Rightarrow> (ImportPortErrorCode, string) result" where
  "ImportMutationId_parse value =
     (if \<not> valid_mutation_id value then Inl ImportInvalidArgument else Inr value)"

record AccountCredentialReferenceRequest =
  crq_account_id :: AccountId
  crq_provider_id :: string
  crq_config_version :: u64
  crq_purpose :: string
  crq_expected_generation :: u64

definition AccountCredentialReferenceRequest_new ::
  "AccountId \<Rightarrow> string \<Rightarrow> u64 \<Rightarrow> string \<Rightarrow> u64 \<Rightarrow>
     (ImportPortErrorCode, AccountCredentialReferenceRequest) result" where
  "AccountCredentialReferenceRequest_new account_id provider_id config_version purpose generation =
     (if config_version = 0 \<or> generation = 0 then Inl ImportInvalidArgument
      else Inr \<lparr>crq_account_id = account_id, crq_provider_id = provider_id,
                crq_config_version = config_version, crq_purpose = purpose,
                crq_expected_generation = generation\<rparr>)"

record AccountCredentialReference =
  acr_tenant_id :: TenantId
  acr_account_id :: AccountId
  acr_provider_id :: string
  acr_config_version :: u64
  acr_purpose :: string
  acr_import_generation :: u64
  acr_secret_ref :: SecretRef

definition AccountCredentialReference_new ::
  "TenantId \<Rightarrow> AccountId \<Rightarrow> ProviderId \<Rightarrow> u64 \<Rightarrow> string \<Rightarrow> ImportGeneration \<Rightarrow> SecretRef \<Rightarrow>
     (ImportPortErrorCode, AccountCredentialReference) result" where
  "AccountCredentialReference_new tenant_id account_id provider_id config_version purpose generation secret_ref =
     (if config_version = 0 \<or> generation = 0 \<or> sr_purpose secret_ref \<noteq> purpose then Inl ImportInvalidArgument
      else Inr \<lparr>acr_tenant_id = tenant_id, acr_account_id = account_id, acr_provider_id = provider_id,
                acr_config_version = config_version, acr_purpose = purpose,
                acr_import_generation = generation, acr_secret_ref = secret_ref\<rparr>)"

definition revalidation_request :: "AccountCredentialReference \<Rightarrow> AccountCredentialReferenceRequest" where
  "revalidation_request r =
     \<lparr>crq_account_id = acr_account_id r, crq_provider_id = acr_provider_id r,
      crq_config_version = acr_config_version r, crq_purpose = acr_purpose r,
      crq_expected_generation = acr_import_generation r\<rparr>"

record DurableAccountIdentity =
  dai_tenant_id :: TenantId
  dai_account_id :: AccountId
  dai_provider_id :: ProviderId
  dai_default_model :: "string option"

record DurableRoutingState =
  drs_priority :: RoutingPriority
  drs_weight :: RoutingWeight

record DurableAccountState =
  das_max_concurrency :: u32
  das_config_version :: u64
  das_account_version :: u64
  das_status :: AccountStatus
  das_import_generation :: ImportGeneration
  das_routing :: DurableRoutingState
  das_effective_window :: AccountEffectiveWindow

definition DurableAccountState_with_routing ::
  "u32 \<Rightarrow> u64 \<Rightarrow> u64 \<Rightarrow> AccountStatus \<Rightarrow> ImportGeneration \<Rightarrow> DurableRoutingState \<Rightarrow>
     (ImportPortErrorCode, DurableAccountState) result" where
  "DurableAccountState_with_routing max_concurrency config_version account_version status generation routing =
     (if max_concurrency = 0 \<or> config_version = 0 \<or> account_version = 0 \<or> generation = 0
         \<or> (status = AccountDeleted \<and> account_version = 1)
      then Inl ImportInvalidArgument
      else Inr \<lparr>das_max_concurrency = max_concurrency, das_config_version = config_version,
                das_account_version = account_version, das_status = status,
                das_import_generation = generation, das_routing = routing,
                das_effective_window = OPEN_WINDOW\<rparr>)"

definition DurableAccountState_new ::
  "u32 \<Rightarrow> u64 \<Rightarrow> u64 \<Rightarrow> AccountStatus \<Rightarrow> ImportGeneration \<Rightarrow> (ImportPortErrorCode, DurableAccountState) result" where
  "DurableAccountState_new max_concurrency config_version account_version status generation =
     DurableAccountState_with_routing max_concurrency config_version account_version status generation
       \<lparr>drs_priority = DEFAULT_ROUTING_PRIORITY, drs_weight = DEFAULT_ROUTING_WEIGHT\<rparr>"

record DurableAccountProjection =
  dap_tenant_id :: TenantId
  dap_account_id :: AccountId
  dap_provider_id :: ProviderId
  dap_default_model :: "string option"
  dap_max_concurrency :: u32
  dap_config_version :: u64
  dap_account_version :: u64
  dap_status :: AccountStatus
  dap_import_generation :: ImportGeneration
  dap_routing :: DurableRoutingState
  dap_effective_window :: AccountEffectiveWindow

definition DurableAccountProjection_new ::
  "DurableAccountIdentity \<Rightarrow> DurableAccountState \<Rightarrow> DurableAccountProjection" where
  "DurableAccountProjection_new identity state =
     \<lparr>dap_tenant_id = dai_tenant_id identity, dap_account_id = dai_account_id identity,
      dap_provider_id = dai_provider_id identity, dap_default_model = dai_default_model identity,
      dap_max_concurrency = das_max_concurrency state, dap_config_version = das_config_version state,
      dap_account_version = das_account_version state, dap_status = das_status state,
      dap_import_generation = das_import_generation state, dap_routing = das_routing state,
      dap_effective_window = das_effective_window state\<rparr>"

record AccountProjectionSnapshot =
  aps_generation :: ImportGeneration
  aps_accounts :: "DurableAccountProjection list"

text \<open>\<open>windows(2)\<close> of the rows.\<close>

fun rows_out_of_order :: "DurableAccountProjection list \<Rightarrow> bool" where
  "rows_out_of_order (x # y # rows) \<longleftrightarrow>
     dap_tenant_id x \<noteq> dap_tenant_id y \<or> dap_account_id y \<le> dap_account_id x \<or> rows_out_of_order (y # rows)"
| "rows_out_of_order _ \<longleftrightarrow> False"

definition AccountProjectionSnapshot_new ::
  "ImportGeneration \<Rightarrow> DurableAccountProjection list \<Rightarrow> (ImportPortErrorCode, AccountProjectionSnapshot) result" where
  "AccountProjectionSnapshot_new generation accounts =
     (if MAX_ACCOUNT_PROJECTION_ACCOUNTS < length accounts \<or> (generation = 0 \<and> accounts \<noteq> [])
         \<or> list_ex (\<lambda>row. generation < dap_import_generation row) accounts \<or> rows_out_of_order accounts
      then Inl ImportInvalidArgument
      else Inr \<lparr>aps_generation = generation, aps_accounts = accounts\<rparr>)"

text \<open>A \<open>SystemTime\<close> is only stored here.\<close>

type_synonym SystemTime = nat

record DurablePublishReceipt =
  dpr_mutation_id :: string
  dpr_generation :: ImportGeneration
  dpr_published_count :: nat
  dpr_committed_at :: SystemTime

definition DurablePublishReceipt_new ::
  "string \<Rightarrow> ImportGeneration \<Rightarrow> nat \<Rightarrow> SystemTime \<Rightarrow> (ImportPortErrorCode, DurablePublishReceipt) result" where
  "DurablePublishReceipt_new mutation_id generation published_count committed_at =
     (if generation = 0 \<or> MAX_IMPORT_ENTRIES < published_count then Inl ImportInvalidArgument
      else Inr \<lparr>dpr_mutation_id = mutation_id, dpr_generation = generation,
                dpr_published_count = published_count, dpr_committed_at = committed_at\<rparr>)"

section \<open>Sequencing of intents\<close>

definition sequence_intent ::
  "ImportCoordinator \<Rightarrow> u64 \<Rightarrow> PublishIntent \<Rightarrow> (ImportError + ImportPublishReceipt) \<times> ImportCoordinator" where
  "sequence_intent c v intent = accept_intent (intent\<lparr>pui_expected_generation := v\<rparr>) c"

lemma sequence_intent_ok:
  "sequence_intent c v intent = (Inr r, c') \<Longrightarrow>
     imc_generation c = v \<and> unat (imc_generation c') = unat v + 1
     \<and> r = \<lparr>ipr_generation = imc_generation c', ipr_published_count = length (pui_entries intent)\<rparr>"
  by (auto simp: sequence_intent_def accept_intent_def ImportGeneration_next_def ok_or_def checked_add_eq_Some
      split: if_splits sum.splits option.splits)

interpretation import_intents: publication imc_generation "\<lambda>c intent. \<not> imc_poisoned c" sequence_intent
proof
  fix c v intent r c' e
  show "imc_generation c = v" "unat (imc_generation c') = unat v + 1" if "sequence_intent c v intent = (Inr r, c')"
    using sequence_intent_ok [OF that] by simp_all
  show "\<not> imc_poisoned c'" if "sequence_intent c v intent = (Inr r, c')"
    using that by (auto simp: sequence_intent_def accept_intent_def split: if_splits sum.splits)
  show "c' = c" if "sequence_intent c v intent = (Inl e, c')"
    using that by (auto simp: sequence_intent_def accept_intent_def split: if_splits sum.splits)
qed

section \<open>Classification\<close>

lemma classify_loop_counts:
  "classify_loop existing strategy entries a b c = Inr (selected, skipped, conflicts) \<Longrightarrow>
     selected = a + length (filter (\<lambda>e. \<not> (ien_account_id e \<in> set existing \<and> strategy = SkipExisting)) entries)
     \<and> selected + skipped = a + b + length entries
     \<and> conflicts = c + length (filter (\<lambda>e. ien_account_id e \<in> set existing) entries)
     \<and> (strategy = RejectConflict \<longrightarrow> list_all (\<lambda>e. ien_account_id e \<notin> set existing) entries)"
proof (induction entries arbitrary: a b c)
  case (Cons entry entries)
  then show ?case by (cases strategy) (fastforce split: if_splits)+
qed simp

text \<open>The dry run counts what preparing the same batch would publish.\<close>

lemma prepare_matches_dry_run:
  assumes "import_prepare c batch existing strategy = Inr intent"
  shows "\<exists>report. import_dry_run batch existing strategy = Inr report
     \<and> drr_selected_count report = length (pui_entries intent)
     \<and> drr_selected_count report + drr_skipped_count report = drr_total_count report
     \<and> distinct (map ien_account_id (pui_entries intent))"
proof -
  obtain counts where c: "existing_accounts existing = Inr existing" "classify_entries batch existing strategy = Inr counts"
    and e: "pui_entries intent = filter (\<lambda>entry. \<not> (ien_account_id entry \<in> set existing \<and> strategy = SkipExisting)) (ib_entries batch)"
    using assms by (auto simp: import_prepare_def select_entries_def bind_result_eq_Inr existing_accounts_def split: if_splits)
  obtain selected skipped conflicts where k: "counts = (selected, skipped, conflicts)" by (cases counts) auto
  have d: "distinct (map ien_account_id (ib_entries batch))"
    and l: "classify_loop existing strategy (ib_entries batch) 0 0 0 = Inr (selected, skipped, conflicts)"
    using c(2) unfolding k by (auto simp: classify_entries_def bind_result_eq_Inr validate_batch_def insert_unique_ok split: if_splits)
  show ?thesis
    using classify_loop_counts [OF l] c e k d
    by (auto simp: import_dry_run_def distinct_map_filter)
qed

section \<open>Digests\<close>

lemma hex_nibble_digit:
  assumes "n < 16"
  shows "hex_nibble (hex_digit n) = Inr (of_nat n)"
proof -
  have w: "(of_char c :: u8) = of_nat (of_char c)" for c by (cases c) simp
  show ?thesis
    unfolding hex_nibble_def is_digit_def w using assms
    by (simp add: hex_digit_def less_eq_char_def)
qed

lemma hex_digit_ascii: "n < 16 \<Longrightarrow> (of_char (hex_digit n) :: nat) < 128"
  by (simp add: hex_digit_def)

lemma byte_of_nibbles: "or (push_bit 4 (of_nat (unat b div 16))) (of_nat (unat b mod 16)) = (b :: u8)"
proof -
  have "of_nat (unat b div 16) = b div 16" "of_nat (unat b mod 16) = b mod 16"
    by (simp_all add: word_arith_nat_div word_arith_nat_mod)
  moreover have "b div 16 = drop_bit 4 b" "b mod 16 = take_bit 4 b"
    by (simp_all add: drop_bit_eq_div take_bit_eq_mod)
  moreover have "or (push_bit 4 (drop_bit 4 b)) (take_bit 4 b) = b"
    by (rule bit_eqI) (auto simp: bit_or_iff bit_push_bit_iff bit_drop_bit_eq bit_take_bit_iff)
  ultimately show ?thesis by simp
qed

lemma parse_hex_chunks_show: "parse_hex_chunks (show_digest d) = Inr d"
proof (induction d)
  case (Cons b d)
  have "unat b < 256" using unat_lt_width [of b] by simp
  then show ?case
    using Cons hex_nibble_digit byte_of_nibbles
    by (simp add: show_digest_def show_hex_byte_def)
qed (simp add: show_digest_def)

text \<open>
  The printed form of every 32-byte digest parses back to the digest.
\<close>

theorem digest_roundtrip:
  "length d = 32 \<Longrightarrow> OpaqueDigest_parse_hex (show_digest d) = Inr d"
proof -
  assume d: "length d = 32"
  have "length (show_digest d) = 2 * length d"
    by (induction d) (simp_all add: show_digest_def show_hex_byte_def)
  moreover have "is_ascii (show_digest d)"
    by (auto simp: less_mult_imp_div_less unat_lt_width [where 'a = 8, simplified] show_digest_def show_hex_byte_def is_ascii_def list_all_iff intro!: hex_digit_ascii)
  ultimately show ?thesis
    using d parse_hex_chunks_show by (simp add: OpaqueDigest_parse_hex_def DIGEST_HEX_BYTES_def)
qed

theorem digest_roundtrip_witness:
  "OpaqueDigest_parse_hex (show_digest (replicate 31 0xa5 @ [7])) = Inr (replicate 31 0xa5 @ [7])"
  by (rule digest_roundtrip) simp

end
