(* ===== verification/Routing_Domain.thy ===== *)
theory Routing_Domain
  imports Core_Ids Slices
begin

text \<open>
  The contracts of \<open>ariadnion-routing-domain\<close>: model selectors and candidate keys, candidate
  references, tenant-bound snapshots of candidates, the request context, and decisions that are valid
  only against the snapshot that produced them. The lemmas show what a constructed snapshot and a
  constructed evaluation guarantee.
\<close>

section \<open>Errors\<close>

definition MAX_ROUTE_CANDIDATES :: nat where "MAX_ROUTE_CANDIDATES = 2 ^ 17"
definition MAX_ROUTE_KEY_BYTES :: nat where "MAX_ROUTE_KEY_BYTES = 128"
definition MAX_ROUTE_MODEL_BYTES :: nat where "MAX_ROUTE_MODEL_BYTES = 160"
definition MAX_REQUIRED_CAPABILITIES :: nat where "MAX_REQUIRED_CAPABILITIES = 64"

datatype RoutingDomainErrorCode =
  DomainInvalidArgument | EmptySnapshot | DomainTooManyEntries | DomainDuplicateCandidateId
| SnapshotVersionExhausted | CandidateNotFound | SnapshotVersionMismatch | DomainModelMismatch
| DuplicateCapability | DomainTenantMismatch

fun routing_input_error_code :: "RoutingDomainErrorCode \<Rightarrow> string" where
  "routing_input_error_code DomainInvalidArgument = ''ROUTING_INVALID_ARGUMENT''"
| "routing_input_error_code EmptySnapshot = ''ROUTING_EMPTY_SNAPSHOT''"
| "routing_input_error_code DomainTooManyEntries = ''ROUTING_TOO_MANY_ENTRIES''"
| "routing_input_error_code DomainDuplicateCandidateId = ''ROUTING_DUPLICATE_CANDIDATE_ID''"
| "routing_input_error_code SnapshotVersionExhausted = ''ROUTING_SNAPSHOT_VERSION_EXHAUSTED''"
| "routing_input_error_code _ = ''ROUTING_INVALID_ARGUMENT''"

fun routing_evaluation_error_code :: "RoutingDomainErrorCode \<Rightarrow> string" where
  "routing_evaluation_error_code CandidateNotFound = ''ROUTING_CANDIDATE_NOT_FOUND''"
| "routing_evaluation_error_code SnapshotVersionMismatch = ''ROUTING_SNAPSHOT_VERSION_MISMATCH''"
| "routing_evaluation_error_code DomainModelMismatch = ''ROUTING_MODEL_MISMATCH''"
| "routing_evaluation_error_code DuplicateCapability = ''ROUTING_DUPLICATE_CAPABILITY''"
| "routing_evaluation_error_code DomainTenantMismatch = ''ROUTING_TENANT_MISMATCH''"
| "routing_evaluation_error_code _ = ''ROUTING_INVALID_ARGUMENT''"

definition RoutingDomainErrorCode_as_str :: "RoutingDomainErrorCode \<Rightarrow> string" where
  "RoutingDomainErrorCode_as_str c =
     (if c \<in> {DomainInvalidArgument, EmptySnapshot, DomainTooManyEntries, DomainDuplicateCandidateId, SnapshotVersionExhausted}
      then routing_input_error_code c else routing_evaluation_error_code c)"

record RoutingDomainError =
  rde_code :: RoutingDomainErrorCode

definition domain_error :: "RoutingDomainErrorCode \<Rightarrow> RoutingDomainError" where
  "domain_error code = \<lparr>rde_code = code\<rparr>"

section \<open>Candidates and snapshots\<close>

type_synonym RouteModel = string
type_synonym RouteCandidateKey = string

text \<open>The check that \<open>RouteModel::parse\<close> and \<open>CandidateKey::parse\<close> spell out with their bounds.\<close>

definition visible_ascii :: "nat \<Rightarrow> string \<Rightarrow> bool" where
  "visible_ascii limit value \<longleftrightarrow>
     \<not> (value = [] \<or> limit < length value \<or> \<not> is_ascii value \<or> list_ex (\<lambda>c. \<not> is_graphic_byte c) value)"

definition RouteModel_parse :: "string \<Rightarrow> (RoutingDomainError, RouteModel) result" where
  "RouteModel_parse value =
     (if \<not> visible_ascii MAX_ROUTE_MODEL_BYTES value then Inl (domain_error DomainInvalidArgument) else Inr value)"

definition RouteCandidateKey_parse :: "string \<Rightarrow> (RoutingDomainError, RouteCandidateKey) result" where
  "RouteCandidateKey_parse value =
     (if \<not> visible_ascii MAX_ROUTE_KEY_BYTES value then Inl (domain_error DomainInvalidArgument) else Inr value)"

record CandidateRef =
  crf_tenant_id :: TenantId
  crf_key :: RouteCandidateKey
  crf_account_id :: AccountId
  crf_provider_id :: ProviderId
  crf_model :: RouteModel

definition CandidateRef_new ::
  "TenantId \<Rightarrow> string \<Rightarrow> AccountId \<Rightarrow> ProviderId \<Rightarrow> RouteModel \<Rightarrow> (RoutingDomainError, CandidateRef) result" where
  "CandidateRef_new tenant_id key account_id provider_id model =
     bind_result (RouteCandidateKey_parse key) (\<lambda>k.
       Inr \<lparr>crf_tenant_id = tenant_id, crf_key = k, crf_account_id = account_id,
            crf_provider_id = provider_id, crf_model = model\<rparr>)"

type_synonym RouteSnapshotVersion = u64

definition RouteSnapshotVersion_initial :: RouteSnapshotVersion where "RouteSnapshotVersion_initial = 1"

definition RouteSnapshotVersion_new :: "u64 \<Rightarrow> (RoutingDomainError, RouteSnapshotVersion) result" where
  "RouteSnapshotVersion_new value =
     (if value = 0 then Inl (domain_error DomainInvalidArgument) else Inr value)"

definition RouteSnapshotVersion_next :: "RouteSnapshotVersion \<Rightarrow> (RoutingDomainError, RouteSnapshotVersion) result" where
  "RouteSnapshotVersion_next v = ok_or (domain_error SnapshotVersionExhausted) (checked_add v 1)"

record RouteSnapshot =
  rsn_tenant_id :: TenantId
  rsn_version :: RouteSnapshotVersion
  rsn_candidates :: "CandidateRef list"

definition validate_snapshot_size :: "nat \<Rightarrow> (RoutingDomainError, unit) result" where
  "validate_snapshot_size n =
     (if n = 0 then Inl (domain_error EmptySnapshot)
      else if MAX_ROUTE_CANDIDATES < n then Inl (domain_error DomainTooManyEntries)
      else Inr ())"

fun check_candidates :: "TenantId \<Rightarrow> RouteCandidateKey list \<Rightarrow> CandidateRef list \<Rightarrow> (RoutingDomainError, unit) result" where
  "check_candidates tenant keys [] = Inr ()"
| "check_candidates tenant keys (c # cs) =
     (if crf_tenant_id c \<noteq> tenant then Inl (domain_error DomainTenantMismatch)
      else if crf_key c \<in> set keys then Inl (domain_error DomainDuplicateCandidateId)
      else check_candidates tenant (crf_key c # keys) cs)"

definition RouteSnapshot_new ::
  "TenantId \<Rightarrow> RouteSnapshotVersion \<Rightarrow> CandidateRef list \<Rightarrow> (RoutingDomainError, RouteSnapshot) result" where
  "RouteSnapshot_new tenant_id version candidates =
     bind_result (validate_snapshot_size (length candidates)) (\<lambda>_.
     bind_result (check_candidates tenant_id [] candidates) (\<lambda>_.
       Inr \<lparr>rsn_tenant_id = tenant_id, rsn_version = version, rsn_candidates = candidates\<rparr>))"

definition RouteSnapshot_candidate :: "RouteSnapshot \<Rightarrow> RouteCandidateKey \<Rightarrow> CandidateRef option" where
  "RouteSnapshot_candidate s key = find (\<lambda>c. crf_key c = key) (rsn_candidates s)"

section \<open>Contexts and decisions\<close>

record RoutingContext =
  rcx_tenant_id :: TenantId
  rcx_request_id :: string
  rcx_model :: RouteModel
  rcx_required_capabilities :: "CapabilityId list"

definition RoutingContext_new :: "TenantId \<Rightarrow> string \<Rightarrow> RouteModel \<Rightarrow> RoutingContext" where
  "RoutingContext_new tenant_id request_id model =
     \<lparr>rcx_tenant_id = tenant_id, rcx_request_id = request_id, rcx_model = model, rcx_required_capabilities = []\<rparr>"

definition with_capabilities :: "CapabilityId list \<Rightarrow> RoutingContext \<Rightarrow> (RoutingDomainError, RoutingContext) result" where
  "with_capabilities capabilities ctx =
     (if MAX_REQUIRED_CAPABILITIES < length capabilities then Inl (domain_error DomainTooManyEntries)
      else bind_result (insert_unique (domain_error DuplicateCapability) [] capabilities) (\<lambda>_.
             Inr (ctx\<lparr>rcx_required_capabilities := capabilities\<rparr>)))"

record RouteDecision =
  rdc_snapshot_version :: RouteSnapshotVersion
  rdc_selected :: RouteCandidateKey

definition RouteDecision_new :: "RouteSnapshotVersion \<Rightarrow> RouteCandidateKey \<Rightarrow> (RoutingDomainError, RouteDecision) result" where
  "RouteDecision_new version chosen =
     (if chosen = [] then Inl (domain_error DomainInvalidArgument)
      else Inr \<lparr>rdc_snapshot_version = version, rdc_selected = chosen\<rparr>)"

definition validate_against :: "RouteDecision \<Rightarrow> RouteSnapshot \<Rightarrow> (RoutingDomainError, unit) result" where
  "validate_against d s =
     (if rdc_snapshot_version d \<noteq> rsn_version s then Inl (domain_error SnapshotVersionMismatch)
      else if RouteSnapshot_candidate s (rdc_selected d) = None then Inl (domain_error CandidateNotFound)
      else Inr ())"

datatype DomainExclusionReason = ExcludedModelMismatch | PolicyExcluded

record DomainCandidateExclusion =
  dce_key :: RouteCandidateKey
  dce_reason :: DomainExclusionReason

record RoutingEvaluation =
  rev_context :: RoutingContext
  rev_snapshot_version :: RouteSnapshotVersion
  rev_decision :: RouteDecision
  rev_exclusions :: "DomainCandidateExclusion list"

definition RoutingEvaluation_new ::
  "RoutingContext \<Rightarrow> RouteSnapshot \<Rightarrow> RouteDecision \<Rightarrow> DomainCandidateExclusion list \<Rightarrow>
     (RoutingDomainError, RoutingEvaluation) result" where
  "RoutingEvaluation_new ctx s decision exclusions =
     (if rcx_tenant_id ctx \<noteq> rsn_tenant_id s then Inl (domain_error DomainTenantMismatch)
      else bind_result (validate_against decision s) (\<lambda>_.
           bind_result (ok_or (domain_error CandidateNotFound) (RouteSnapshot_candidate s (rdc_selected decision))) (\<lambda>chosen.
             if crf_model chosen \<noteq> rcx_model ctx then Inl (domain_error DomainModelMismatch)
             else Inr \<lparr>rev_context = ctx, rev_snapshot_version = rsn_version s, rev_decision = decision,
                       rev_exclusions = exclusions\<rparr>)))"

section \<open>What the constructors guarantee\<close>

lemma check_candidates_ok [results]:
  "check_candidates tenant keys cs = Inr u \<longleftrightarrow>
     (\<forall>c \<in> set cs. crf_tenant_id c = tenant) \<and> distinct (map crf_key cs) \<and> crf_key ` set cs \<inter> set keys = {}"
  by (induction cs arbitrary: keys) auto

lemma RouteSnapshot_new_ok:
  "RouteSnapshot_new tenant v cs = Inr s \<longleftrightarrow>
     cs \<noteq> [] \<and> length cs \<le> MAX_ROUTE_CANDIDATES \<and> (\<forall>c \<in> set cs. crf_tenant_id c = tenant) \<and> distinct (map crf_key cs)
     \<and> s = \<lparr>rsn_tenant_id = tenant, rsn_version = v, rsn_candidates = cs\<rparr>"
  by (auto simp: RouteSnapshot_new_def validate_snapshot_size_def results)

text \<open>
  An evaluation built from a constructed snapshot selects a candidate of that snapshot, of the
  requesting tenant and of the requested model, and no other candidate of the snapshot has its key.
\<close>

theorem evaluation_selects_own_candidate:
  assumes "RouteSnapshot_new tenant v cs = Inr s"
    and "RoutingEvaluation_new ctx s decision exclusions = Inr evaluation"
  shows "\<exists>c \<in> set cs. crf_key c = rdc_selected (rev_decision evaluation) \<and> crf_tenant_id c = rcx_tenant_id ctx
     \<and> crf_model c = rcx_model ctx \<and> rdc_snapshot_version (rev_decision evaluation) = v
     \<and> filter (\<lambda>d. crf_key d = crf_key c) cs = [c]"
proof -
  obtain c where c: "RouteSnapshot_candidate s (rdc_selected decision) = Some c" "crf_model c = rcx_model ctx"
    and e: "rev_decision evaluation = decision" "rcx_tenant_id ctx = rsn_tenant_id s" "rdc_snapshot_version decision = rsn_version s"
    using assms(2) by (auto simp: RoutingEvaluation_new_def validate_against_def results split: if_splits)
  have s: "s = \<lparr>rsn_tenant_id = tenant, rsn_version = v, rsn_candidates = cs\<rparr>" "distinct (map crf_key cs)"
    "\<forall>c \<in> set cs. crf_tenant_id c = tenant"
    using assms(1) by (auto simp: RouteSnapshot_new_ok)
  have m: "c \<in> set cs" "crf_key c = rdc_selected decision"
    using c(1) s by (auto simp: RouteSnapshot_candidate_def find_by_distinct_key)
  have "filter (\<lambda>d. crf_key d = crf_key c) cs = [c]"
    using s(2) m(1) by (induction cs) (auto simp: filter_empty_conv image_iff)
  with m c(2) e s show ?thesis by auto
qed

theorem evaluation_selects_own_candidate_witness:
  "\<exists>c. crf_key c = ''k'' \<and> filter (\<lambda>d. crf_key d = crf_key c)
      [\<lparr>crf_tenant_id = ''t'', crf_key = ''k'', crf_account_id = ''a'', crf_provider_id = ''p'', crf_model = ''m''\<rparr>] = [c]"
proof -
  let ?c = "\<lparr>crf_tenant_id = ''t'', crf_key = ''k'', crf_account_id = ''a'', crf_provider_id = ''p'', crf_model = ''m''\<rparr>"
  let ?s = "\<lparr>rsn_tenant_id = ''t'', rsn_version = 1, rsn_candidates = [?c]\<rparr>"
  let ?d = "\<lparr>rdc_snapshot_version = 1, rdc_selected = ''k''\<rparr>"
  have "RouteSnapshot_new ''t'' 1 [?c] = Inr ?s" by (simp add: RouteSnapshot_new_ok MAX_ROUTE_CANDIDATES_def)
  moreover have "RoutingEvaluation_new (RoutingContext_new ''t'' ''r'' ''m'') ?s ?d [] =
      Inr \<lparr>rev_context = RoutingContext_new ''t'' ''r'' ''m'', rev_snapshot_version = 1, rev_decision = ?d, rev_exclusions = []\<rparr>"
    by (simp add: RoutingEvaluation_new_def validate_against_def RouteSnapshot_candidate_def RoutingContext_new_def)
  ultimately show ?thesis using evaluation_selects_own_candidate by fastforce
qed

end
