(* ===== verification/Account_Pool.thy ===== *)
theory Account_Pool
  imports Account_Import Routing_Domain "HOL-Library.Multiset"
begin

text \<open>
  The account pool of \<open>ariadnion-account-pool\<close>: candidate metadata, imports and their validation, the
  immutable candidate snapshot built from an import or from the durable account projection, its
  projection into a tenant's routing snapshot, and the pool that publishes snapshots by generation. The
  lemmas show that publication is version-checked, that a snapshot lists each account once in order,
  and which candidates a tenant's routing snapshot has.
\<close>

section \<open>Errors and bounded values\<close>

definition MAX_IMPORT_RECORDS :: nat where "MAX_IMPORT_RECORDS = 2 ^ 17"
definition MAX_SNAPSHOT_CANDIDATES :: nat where "MAX_SNAPSHOT_CANDIDATES = 2 ^ 17"
definition POOL_MAX_LOAD :: u32 where "POOL_MAX_LOAD = 2 ^ 30"
definition POOL_MAX_CANDIDATE_ID_BYTES :: nat where "POOL_MAX_CANDIDATE_ID_BYTES = 128"
definition POOL_SCHEMA_VERSION :: u16 where "POOL_SCHEMA_VERSION = 1"

datatype AccountPoolErrorCode =
  PoolInvalidArgument | PoolUnsupportedSchemaVersion | TooManyRecords | PoolDuplicateAccount
| PoolDuplicateCandidate | PoolTooManyCandidates | PoolGenerationConflict | PoolVersionExhausted
| InvalidCandidate | PoolStateUnavailable | PoolTenantMismatch | RoutingProjectionFailed

fun pool_import_error_code :: "AccountPoolErrorCode \<Rightarrow> string" where
  "pool_import_error_code PoolInvalidArgument = ''ACCOUNT_POOL_INVALID_ARGUMENT''"
| "pool_import_error_code PoolUnsupportedSchemaVersion = ''ACCOUNT_POOL_UNSUPPORTED_SCHEMA_VERSION''"
| "pool_import_error_code TooManyRecords = ''ACCOUNT_POOL_TOO_MANY_RECORDS''"
| "pool_import_error_code PoolDuplicateAccount = ''ACCOUNT_POOL_DUPLICATE_ACCOUNT''"
| "pool_import_error_code _ = ''ACCOUNT_POOL_UNKNOWN''"

fun pool_snapshot_error_code :: "AccountPoolErrorCode \<Rightarrow> string" where
  "pool_snapshot_error_code PoolDuplicateCandidate = ''ACCOUNT_POOL_DUPLICATE_CANDIDATE''"
| "pool_snapshot_error_code PoolTooManyCandidates = ''ACCOUNT_POOL_TOO_MANY_CANDIDATES''"
| "pool_snapshot_error_code PoolGenerationConflict = ''ACCOUNT_POOL_GENERATION_CONFLICT''"
| "pool_snapshot_error_code PoolVersionExhausted = ''ACCOUNT_POOL_VERSION_EXHAUSTED''"
| "pool_snapshot_error_code _ = ''ACCOUNT_POOL_UNKNOWN''"

fun pool_projection_error_code :: "AccountPoolErrorCode \<Rightarrow> string" where
  "pool_projection_error_code InvalidCandidate = ''ACCOUNT_POOL_INVALID_CANDIDATE''"
| "pool_projection_error_code PoolStateUnavailable = ''ACCOUNT_POOL_STATE_UNAVAILABLE''"
| "pool_projection_error_code PoolTenantMismatch = ''ACCOUNT_POOL_TENANT_MISMATCH''"
| "pool_projection_error_code RoutingProjectionFailed = ''ACCOUNT_POOL_ROUTING_PROJECTION_FAILED''"
| "pool_projection_error_code _ = ''ACCOUNT_POOL_UNKNOWN''"

definition AccountPoolErrorCode_as_str :: "AccountPoolErrorCode \<Rightarrow> string" where
  "AccountPoolErrorCode_as_str c =
     (if c \<in> {PoolInvalidArgument, PoolUnsupportedSchemaVersion, TooManyRecords, PoolDuplicateAccount}
      then pool_import_error_code c
      else if c \<in> {PoolDuplicateCandidate, PoolTooManyCandidates, PoolGenerationConflict, PoolVersionExhausted}
      then pool_snapshot_error_code c
      else pool_projection_error_code c)"

type_synonym PoolGeneration = u64
type_synonym PoolCandidateId = string

definition PoolGeneration_next :: "PoolGeneration \<Rightarrow> (AccountPoolErrorCode, PoolGeneration) result" where
  "PoolGeneration_next g = ok_or PoolVersionExhausted (checked_add g 1)"

definition valid_candidate_id :: "string \<Rightarrow> bool" where
  "valid_candidate_id value \<longleftrightarrow>
     value \<noteq> [] \<and> length value \<le> POOL_MAX_CANDIDATE_ID_BYTES \<and> is_ascii value \<and> list_all is_account_id_byte value"

definition PoolCandidateId_parse :: "string \<Rightarrow> (AccountPoolErrorCode, PoolCandidateId) result" where
  "PoolCandidateId_parse value = (if \<not> valid_candidate_id value then Inl PoolInvalidArgument else Inr value)"

definition PoolWeight_new :: "u32 \<Rightarrow> (AccountPoolErrorCode, u32) result" where
  "PoolWeight_new value =
     (case RoutingWeight_new value of Inl _ \<Rightarrow> Inl PoolInvalidArgument | Inr weight \<Rightarrow> Inr weight)"

definition PoolLoad_new :: "u32 \<Rightarrow> (AccountPoolErrorCode, u32) result" where
  "PoolLoad_new value = (if POOL_MAX_LOAD < value then Inl PoolInvalidArgument else Inr value)"

section \<open>Imports and candidates\<close>

datatype PoolAvailability = PoolAvailable | PoolNotAvailable

record AccountImportRecord =
  air_account :: ProviderAccount
  air_priority :: u16
  air_weight :: u32
  air_load :: u32
  air_availability :: PoolAvailability

record AccountImport =
  aim_schema_version :: u16
  aim_records :: "AccountImportRecord list"

definition AccountImport_new :: "u16 \<Rightarrow> AccountImportRecord list \<Rightarrow> (AccountPoolErrorCode, AccountImport) result" where
  "AccountImport_new schema_version records =
     (if MAX_IMPORT_RECORDS < length records then Inl TooManyRecords
      else Inr \<lparr>aim_schema_version = schema_version, aim_records = records\<rparr>)"

record CandidateRoutingMetadata =
  crm_priority :: u16
  crm_weight :: u32
  crm_load :: u32
  crm_availability :: PoolAvailability

definition CandidateRoutingMetadata_new ::
  "u16 \<Rightarrow> u32 \<Rightarrow> u32 \<Rightarrow> PoolAvailability \<Rightarrow> CandidateRoutingMetadata" where
  "CandidateRoutingMetadata_new priority weight load availability =
     \<lparr>crm_priority = priority, crm_weight = weight, crm_load = load,
      crm_availability = (if weight = 0 then PoolNotAvailable else availability)\<rparr>"

record CandidateMetadata =
  cm_id :: PoolCandidateId
  cm_tenant_id :: "TenantId option"
  cm_account_id :: AccountId
  cm_provider_id :: ProviderId
  cm_model :: "string option"
  cm_max_concurrency :: "u32 option"
  cm_effective_window :: AccountEffectiveWindow
  cm_priority :: u16
  cm_weight :: u32
  cm_load :: u32
  cm_availability :: PoolAvailability

definition CandidateMetadata_new ::
  "PoolCandidateId \<Rightarrow> AccountId \<Rightarrow> ProviderId \<Rightarrow> string option \<Rightarrow> CandidateRoutingMetadata \<Rightarrow> CandidateMetadata" where
  "CandidateMetadata_new candidate_id account_id provider_id model routing =
     \<lparr>cm_id = candidate_id, cm_tenant_id = None, cm_account_id = account_id, cm_provider_id = provider_id,
      cm_model = model, cm_max_concurrency = None, cm_effective_window = OPEN_WINDOW,
      cm_priority = crm_priority routing, cm_weight = crm_weight routing, cm_load = crm_load routing,
      cm_availability = crm_availability routing\<rparr>"

definition CandidateMetadata_from_record :: "AccountImportRecord \<Rightarrow> CandidateMetadata" where
  "CandidateMetadata_from_record rec =
     (let account = air_account rec;
          config = pa_config account in
      (CandidateMetadata_new (pa_id account) (pa_id account) (pm_id (pa_provider account)) (acf_default_model config)
        (CandidateRoutingMetadata_new (air_priority rec) (air_weight rec) (air_load rec) (air_availability rec)))
      \<lparr>cm_tenant_id := Some (pa_tenant_id account), cm_max_concurrency := Some (acf_max_concurrency config),
       cm_effective_window := acf_effective_window config\<rparr>)"

definition CandidateMetadata_from_durable_account ::
  "DurableAccountProjection \<Rightarrow> (AccountPoolErrorCode, CandidateMetadata) result" where
  "CandidateMetadata_from_durable_account account =
     (let availability =
            (if dap_status account = AccountActive \<and> dap_default_model account \<noteq> None then PoolAvailable
             else PoolNotAvailable) in
      bind_result (PoolLoad_new 0) (\<lambda>load.
      let routing = CandidateRoutingMetadata_new (drs_priority (dap_routing account))
                      (drs_weight (dap_routing account)) load availability in
      if dap_max_concurrency account = 0 then Inl InvalidCandidate
      else Inr \<lparr>cm_id = dap_account_id account, cm_tenant_id = Some (dap_tenant_id account),
                cm_account_id = dap_account_id account, cm_provider_id = dap_provider_id account,
                cm_model = dap_default_model account, cm_max_concurrency = Some (dap_max_concurrency account),
                cm_effective_window = dap_effective_window account, cm_priority = crm_priority routing,
                cm_weight = crm_weight routing, cm_load = crm_load routing,
                cm_availability = crm_availability routing\<rparr>))"

section \<open>Snapshots\<close>

record CandidateSnapshot =
  csn_id :: u64
  csn_version :: u64
  csn_candidates :: "CandidateMetadata list"

definition CandidateSnapshot_empty :: CandidateSnapshot where
  "CandidateSnapshot_empty = \<lparr>csn_id = 0, csn_version = 0, csn_candidates = []\<rparr>"

definition CandidateSnapshot_new ::
  "u64 \<Rightarrow> u64 \<Rightarrow> CandidateMetadata list \<Rightarrow> (AccountPoolErrorCode, CandidateSnapshot) result" where
  "CandidateSnapshot_new snapshot_id version candidates =
     (if MAX_SNAPSHOT_CANDIDATES < length candidates then Inl PoolTooManyCandidates
      else let sorted_candidates = sort_key cm_id candidates in
           if adjacent_equal (map cm_id sorted_candidates) then Inl PoolDuplicateCandidate
           else Inr \<lparr>csn_id = snapshot_id, csn_version = version, csn_candidates = sorted_candidates\<rparr>)"

definition durable_candidate ::
  "ImportGeneration \<Rightarrow> DurableAccountProjection \<Rightarrow> (AccountPoolErrorCode, CandidateMetadata) result" where
  "durable_candidate generation account =
     (if generation < dap_import_generation account then Inl PoolGenerationConflict
      else CandidateMetadata_from_durable_account account)"

definition CandidateSnapshot_from_durable_projection ::
  "AccountProjectionSnapshot \<Rightarrow> (AccountPoolErrorCode, CandidateSnapshot) result" where
  "CandidateSnapshot_from_durable_projection projection =
     bind_result (collect_result (durable_candidate (aps_generation projection)) (aps_accounts projection)) (\<lambda>candidates.
       CandidateSnapshot_new (aps_generation projection) (aps_generation projection) candidates)"

definition ensure_candidate_tenant :: "CandidateMetadata \<Rightarrow> TenantId \<Rightarrow> (AccountPoolErrorCode, unit) result" where
  "ensure_candidate_tenant candidate tenant_id =
     bind_result (ok_or InvalidCandidate (cm_tenant_id candidate)) (\<lambda>source_tenant.
       if source_tenant \<noteq> tenant_id then Inl PoolTenantMismatch else Inr ())"

definition build_route_candidate :: "CandidateMetadata \<Rightarrow> TenantId \<Rightarrow> (AccountPoolErrorCode, CandidateRef) result" where
  "build_route_candidate candidate tenant_id =
     bind_result (ok_or InvalidCandidate (cm_model candidate)) (\<lambda>name.
     bind_result (map_err (\<lambda>_. InvalidCandidate) (RouteModel_parse name)) (\<lambda>model.
       map_err (\<lambda>_. InvalidCandidate)
         (CandidateRef_new tenant_id (cm_id candidate) (cm_account_id candidate) (cm_provider_id candidate) model)))"

definition project_candidate ::
  "TenantId \<Rightarrow> CandidateMetadata \<Rightarrow> (AccountPoolErrorCode, CandidateRef option) result" where
  "project_candidate tenant_id candidate =
     bind_result (ensure_candidate_tenant candidate tenant_id) (\<lambda>_.
     if cm_availability candidate \<noteq> PoolAvailable \<or> cm_weight candidate = 0 then Inr None
     else bind_result (build_route_candidate candidate tenant_id) (\<lambda>c. Inr (Some c)))"

fun projected_routing_error :: "RoutingDomainErrorCode \<Rightarrow> AccountPoolErrorCode" where
  "projected_routing_error DomainDuplicateCandidateId = PoolDuplicateCandidate"
| "projected_routing_error SnapshotVersionExhausted = PoolVersionExhausted"
| "projected_routing_error DomainTenantMismatch = PoolTenantMismatch"
| "projected_routing_error _ = RoutingProjectionFailed"

definition to_route_snapshot :: "CandidateSnapshot \<Rightarrow> TenantId \<Rightarrow> (AccountPoolErrorCode, RouteSnapshot) result" where
  "to_route_snapshot s tenant_id =
     bind_result (map_err (\<lambda>_. RoutingProjectionFailed) (RouteSnapshotVersion_new (csn_version s))) (\<lambda>version.
     bind_result (collect_result (project_candidate tenant_id) (csn_candidates s)) (\<lambda>projected.
       map_err (\<lambda>e. projected_routing_error (rde_code e))
         (RouteSnapshot_new tenant_id version (map the (filter (\<lambda>c. c \<noteq> None) projected)))))"

section \<open>The pool\<close>

record PoolState =
  pst_generation :: PoolGeneration
  pst_snapshot :: CandidateSnapshot

record AccountPool =
  apl_state :: PoolState
  apl_poisoned :: bool

record ImportReport =
  imr_schema_version :: u16
  imr_record_count :: nat
  imr_candidate_count :: nat
  imr_current_generation :: PoolGeneration
  imr_publish_generation :: PoolGeneration

record PoolPublishReceipt =
  plr_previous_generation :: PoolGeneration
  plr_generation :: PoolGeneration
  plr_candidates :: CandidateSnapshot

definition AccountPool_new :: AccountPool where
  "AccountPool_new =
     \<lparr>apl_state = \<lparr>pst_generation = 0, pst_snapshot = CandidateSnapshot_empty\<rparr>, apl_poisoned = False\<rparr>"

definition pool_validate_schema :: "u16 \<Rightarrow> (AccountPoolErrorCode, unit) result" where
  "pool_validate_schema version =
     (if version = POOL_SCHEMA_VERSION then Inr () else Inl PoolUnsupportedSchemaVersion)"

definition pool_validate_record :: "AccountImportRecord \<Rightarrow> (AccountPoolErrorCode, unit) result" where
  "pool_validate_record rec =
     (let available = (air_availability rec = PoolAvailable);
          active = (pa_status (air_account rec) = AccountActive) in
      if available \<and> \<not> active then Inl InvalidCandidate else Inr ())"

fun build_candidates_loop ::
  "AccountId list \<Rightarrow> AccountImportRecord list \<Rightarrow> (AccountPoolErrorCode, CandidateMetadata list) result" where
  "build_candidates_loop account_ids [] = Inr []"
| "build_candidates_loop account_ids (rec # records) =
     (if pa_id (air_account rec) \<in> set account_ids then Inl PoolDuplicateAccount
      else bind_result (pool_validate_record rec) (\<lambda>_.
           bind_result (build_candidates_loop (pa_id (air_account rec) # account_ids) records) (\<lambda>candidates.
             Inr (CandidateMetadata_from_record rec # candidates))))"

definition build_candidates :: "AccountImport \<Rightarrow> (AccountPoolErrorCode, CandidateMetadata list) result" where
  "build_candidates import =
     bind_result (pool_validate_schema (aim_schema_version import)) (\<lambda>_.
     bind_result (build_candidates_loop [] (aim_records import)) (\<lambda>candidates.
       Inr (sort_key cm_id candidates)))"

definition pool_generation_of :: "AccountPool \<Rightarrow> (AccountPoolErrorCode, PoolGeneration) result" where
  "pool_generation_of pool =
     (if apl_poisoned pool then Inl PoolStateUnavailable else Inr (pst_generation (apl_state pool)))"

definition pool_candidate_snapshot :: "AccountPool \<Rightarrow> (AccountPoolErrorCode, CandidateSnapshot) result" where
  "pool_candidate_snapshot pool =
     (if apl_poisoned pool then Inl PoolStateUnavailable else Inr (pst_snapshot (apl_state pool)))"

definition pool_dry_run :: "AccountPool \<Rightarrow> AccountImport \<Rightarrow> (AccountPoolErrorCode, ImportReport) result" where
  "pool_dry_run pool import =
     bind_result (build_candidates import) (\<lambda>candidates.
     bind_result (pool_generation_of pool) (\<lambda>current_generation.
     bind_result (PoolGeneration_next current_generation) (\<lambda>publish_generation.
       Inr \<lparr>imr_schema_version = aim_schema_version import, imr_record_count = length (aim_records import),
            imr_candidate_count = length candidates, imr_current_generation = current_generation,
            imr_publish_generation = publish_generation\<rparr>)))"

definition ensure_generation :: "PoolGeneration \<Rightarrow> PoolGeneration \<Rightarrow> (AccountPoolErrorCode, unit) result" where
  "ensure_generation actual expected = (if actual = expected then Inr () else Inl PoolGenerationConflict)"

definition pool_publish ::
  "AccountPool \<Rightarrow> PoolGeneration \<Rightarrow> AccountImport \<Rightarrow> (AccountPoolErrorCode + PoolPublishReceipt) \<times> AccountPool" where
  "pool_publish pool expected_generation import =
     (case build_candidates import of
        Inl e \<Rightarrow> (Inl e, pool)
      | Inr candidates \<Rightarrow>
          if apl_poisoned pool then (Inl PoolStateUnavailable, pool)
          else
     (let current = pst_generation (apl_state pool) in
      case bind_result (ensure_generation current expected_generation) (\<lambda>_.
           bind_result (PoolGeneration_next current) (\<lambda>generation.
           bind_result (CandidateSnapshot_new generation generation candidates) (\<lambda>s. Inr (generation, s)))) of
        Inl e \<Rightarrow> (Inl e, pool)
      | Inr (generation, s) \<Rightarrow>
          (Inr \<lparr>plr_previous_generation = current, plr_generation = generation, plr_candidates = s\<rparr>,
           pool\<lparr>apl_state := \<lparr>pst_generation = generation, pst_snapshot = s\<rparr>\<rparr>)))"

section \<open>Publication\<close>

lemma CandidateSnapshot_new_ok:
  "CandidateSnapshot_new i v cs = Inr s \<longleftrightarrow>
     length cs \<le> MAX_SNAPSHOT_CANDIDATES \<and> distinct (map cm_id cs)
     \<and> s = \<lparr>csn_id = i, csn_version = v, csn_candidates = sort_key cm_id cs\<rparr>"
proof -
  have "\<not> adjacent_equal (map cm_id (sort_key cm_id cs)) \<longleftrightarrow> distinct (map cm_id cs)"
    by (simp add: adjacent_equal_sorted strict_sorted_iff distinct_map)
  then show ?thesis by (auto simp: CandidateSnapshot_new_def Let_def)
qed

lemma from_record_simps [simp]:
  "cm_id (CandidateMetadata_from_record rec) = pa_id (air_account rec)"
  "cm_account_id (CandidateMetadata_from_record rec) = pa_id (air_account rec)"
  "cm_tenant_id (CandidateMetadata_from_record rec) = Some (pa_tenant_id (air_account rec))"
  "cm_weight (CandidateMetadata_from_record rec) = air_weight rec"
  "cm_model (CandidateMetadata_from_record rec) = acf_default_model (pa_config (air_account rec))"
  "cm_availability (CandidateMetadata_from_record rec) =
     (if air_weight rec = 0 then PoolNotAvailable else air_availability rec)"
  by (simp_all add: CandidateMetadata_from_record_def CandidateMetadata_new_def CandidateRoutingMetadata_new_def Let_def)

lemma build_candidates_loop_ok:
  "build_candidates_loop seen records = Inr cs \<longleftrightarrow>
     distinct (map (pa_id \<circ> air_account) records) \<and> (pa_id \<circ> air_account) ` set records \<inter> set seen = {}
     \<and> list_all (\<lambda>rec. pool_validate_record rec = Inr ()) records
     \<and> cs = map CandidateMetadata_from_record records"
  by (induction records arbitrary: seen cs) (auto simp: bind_result_eq_Inr)

lemma build_candidates_ok:
  "build_candidates import = Inr cs \<longleftrightarrow>
     aim_schema_version import = POOL_SCHEMA_VERSION \<and> distinct (map (pa_id \<circ> air_account) (aim_records import))
     \<and> list_all (\<lambda>rec. pool_validate_record rec = Inr ()) (aim_records import)
     \<and> cs = sort_key cm_id (map CandidateMetadata_from_record (aim_records import))"
  by (auto simp: build_candidates_def pool_validate_schema_def bind_result_eq_Inr build_candidates_loop_ok)

definition pool_generation_now :: "AccountPool \<Rightarrow> u64" where
  "pool_generation_now pool = pst_generation (apl_state pool)"

definition pool_shows :: "AccountPool \<Rightarrow> AccountImport \<Rightarrow> bool" where
  "pool_shows pool import \<longleftrightarrow>
     (\<exists>s. pool_candidate_snapshot pool = Inr s
        \<and> csn_candidates s = sort_key cm_id (map CandidateMetadata_from_record (aim_records import)))"

lemma pool_publish_ok:
  assumes "pool_publish pool v import = (Inr receipt, pool')"
  shows "\<not> apl_poisoned pool \<and> pool_generation_now pool = v \<and> unat (pool_generation_now pool') = unat v + 1
     \<and> distinct (map (pa_id \<circ> air_account) (aim_records import))
     \<and> list_all (\<lambda>rec. pool_validate_record rec = Inr ()) (aim_records import)
     \<and> plr_candidates receipt = \<lparr>csn_id = pool_generation_now pool', csn_version = pool_generation_now pool',
          csn_candidates = sort_key cm_id (map CandidateMetadata_from_record (aim_records import))\<rparr>
     \<and> pool' = pool\<lparr>apl_state := \<lparr>pst_generation = pool_generation_now pool', pst_snapshot = plr_candidates receipt\<rparr>\<rparr>"
proof -
  obtain cs where b: "build_candidates import = Inr cs" and p: "\<not> apl_poisoned pool"
    using assms by (auto simp: pool_publish_def split: sum.splits if_splits)
  obtain g s where g: "pool_generation_now pool = v" "unat g = unat v + 1" "CandidateSnapshot_new g g cs = Inr s"
    and r: "receipt = \<lparr>plr_previous_generation = v, plr_generation = g, plr_candidates = s\<rparr>"
      "pool' = pool\<lparr>apl_state := \<lparr>pst_generation = g, pst_snapshot = s\<rparr>\<rparr>"
    using assms b p
    by (auto simp: pool_publish_def Let_def bind_result_eq_Inr ensure_generation_def PoolGeneration_next_def ok_or_eq
        checked_add_eq_Some pool_generation_now_def split: sum.splits if_splits)
  have "sort_key cm_id cs = cs" using b by (auto simp: build_candidates_ok intro: sort_key_id_if_sorted)
  with b p g r show ?thesis
    by (auto simp: build_candidates_ok CandidateSnapshot_new_ok pool_generation_now_def)
qed

interpretation account_pools: publication pool_generation_now pool_shows pool_publish
proof
  fix b v c r b' e
  show "pool_generation_now b = v" "unat (pool_generation_now b') = unat v + 1" if "pool_publish b v c = (Inr r, b')"
    using pool_publish_ok [OF that] by simp_all
  show "pool_shows b' c" if "pool_publish b v c = (Inr r, b')"
    using pool_publish_ok [OF that] unfolding pool_shows_def pool_candidate_snapshot_def
    by (metis AccountPool.select_convs AccountPool.surjective AccountPool.update_convs(1) CandidateSnapshot.select_convs(3) PoolState.select_convs(2))
  show "b' = b" if "pool_publish b v c = (Inl e, b')"
    using that by (auto simp: pool_publish_def Let_def split: sum.splits if_splits)
qed

section \<open>Projection into a tenant's routing snapshot\<close>

definition routable :: "CandidateMetadata \<Rightarrow> bool" where
  "routable c \<longleftrightarrow> cm_availability c = PoolAvailable \<and> cm_weight c \<noteq> 0"

lemma project_candidate_ok:
  "project_candidate tenant c = Inr x \<Longrightarrow>
     cm_tenant_id c = Some tenant \<and> (x \<noteq> None \<longleftrightarrow> routable c)
     \<and> (\<forall>r. x = Some r \<longrightarrow> crf_key r = cm_id c \<and> crf_account_id r = cm_account_id c \<and> crf_tenant_id r = tenant
          \<and> cm_model c = Some (crf_model r))"
  by (auto simp: project_candidate_def ensure_candidate_tenant_def build_route_candidate_def routable_def results
      RouteModel_parse_def CandidateRef_new_def RouteCandidateKey_parse_def split: if_splits)

lemma collect_projected:
  "collect_result (project_candidate tenant) cs = Inr projected \<Longrightarrow>
     (\<forall>c \<in> set cs. cm_tenant_id c = Some tenant)
     \<and> map crf_account_id (map the (filter (\<lambda>c. c \<noteq> None) projected)) = map cm_account_id (filter routable cs)"
proof (induction cs arbitrary: projected)
  case (Cons c cs)
  then obtain x ps where "project_candidate tenant c = Inr x" "collect_result (project_candidate tenant) cs = Inr ps"
    "projected = x # ps"
    by (auto simp: bind_result_eq_Inr)
  with Cons.IH [of ps] project_candidate_ok [of tenant c x] show ?case by auto
qed simp

lemma to_route_snapshot_ok:
  assumes "to_route_snapshot s tenant = Inr r"
  shows "(\<forall>c \<in> set (csn_candidates s). cm_tenant_id c = Some tenant) \<and> rsn_tenant_id r = tenant
     \<and> rsn_version r = csn_version s \<and> map crf_account_id (rsn_candidates r) = map cm_account_id (filter routable (csn_candidates s))"
proof -
  obtain projected where p: "collect_result (project_candidate tenant) (csn_candidates s) = Inr projected"
    and n: "RouteSnapshot_new tenant (csn_version s) (map the (filter (\<lambda>c. c \<noteq> None) projected)) = Inr r"
    using assms by (auto simp: to_route_snapshot_def results RouteSnapshotVersion_new_def split: if_splits)
  then show ?thesis using collect_projected [OF p] by (auto simp: RouteSnapshot_new_ok)
qed

text \<open>
  the accounts a tenant's routing snapshot offers after a publication are exactly the records the
  import marked available with a weight above zero, in the order of their identities and each once;
  every one of them is an active account of that tenant with a configured model.
\<close>

theorem published_accounts_are_routable:
  assumes "pool_publish pool v import = (Inr receipt, pool')"
    and "to_route_snapshot (plr_candidates receipt) tenant = Inr routes"
  shows "map crf_account_id (rsn_candidates routes) =
       sort (map (pa_id \<circ> air_account)
         (filter (\<lambda>rec. air_availability rec = PoolAvailable \<and> air_weight rec \<noteq> 0) (aim_records import)))
     \<and> distinct (map crf_account_id (rsn_candidates routes))
     \<and> list_all (\<lambda>rec. pa_tenant_id (air_account rec) = tenant
          \<and> (air_availability rec = PoolAvailable \<longrightarrow> pa_status (air_account rec) = AccountActive)) (aim_records import)"
proof -
  let ?cs = "map CandidateMetadata_from_record (aim_records import)"
  have p: "csn_candidates (plr_candidates receipt) = sort_key cm_id ?cs"
    "distinct (map (pa_id \<circ> air_account) (aim_records import))"
    "list_all (\<lambda>rec. pool_validate_record rec = Inr ()) (aim_records import)"
    using pool_publish_ok [OF assms(1)] by simp_all
  have ids: "cm_account_id c = cm_id c" if "c \<in> set ?cs" for c using that by auto
  have "map crf_account_id (rsn_candidates routes) = map cm_account_id (filter routable (sort_key cm_id ?cs))"
    using to_route_snapshot_ok [OF assms(2)] p(1) by simp
  also have "\<dots> = map cm_id (sort_key cm_id (filter routable ?cs))"
    using ids by (auto simp: filter_sort)
  also have "\<dots> = sort (map cm_id (filter routable ?cs))"
    by (intro properties_for_sort [symmetric]) simp_all
  also have "map cm_id (filter routable ?cs) = map (pa_id \<circ> air_account)
      (filter (\<lambda>rec. air_availability rec = PoolAvailable \<and> air_weight rec \<noteq> 0) (aim_records import))"
    by (auto simp: filter_map routable_def o_def intro!: arg_cong [where f = "map _"] filter_cong)
  finally have keys: "map crf_account_id (rsn_candidates routes) = sort (map (pa_id \<circ> air_account)
      (filter (\<lambda>rec. air_availability rec = PoolAvailable \<and> air_weight rec \<noteq> 0) (aim_records import)))" .
  moreover have "distinct (map crf_account_id (rsn_candidates routes))"
    unfolding keys using p(2) by (simp add: distinct_map_filter)
  moreover have "\<forall>rec \<in> set (aim_records import). pa_tenant_id (air_account rec) = tenant"
    using to_route_snapshot_ok [OF assms(2)] p(1) by auto
  ultimately show ?thesis
    using p(3) by (auto simp: list_all_iff pool_validate_record_def Let_def split: if_splits)
qed

definition demo_record :: "string \<Rightarrow> u32 \<Rightarrow> AccountImportRecord" where
  "demo_record name weight =
     \<lparr>air_account = (demo_provider_account 2 AccountActive)\<lparr>pa_id := name\<rparr>, air_priority = 0, air_weight = weight,
      air_load = 0, air_availability = PoolAvailable\<rparr>"

definition demo_pool_import :: AccountImport where
  "demo_pool_import = \<lparr>aim_schema_version = 1, aim_records = [demo_record ''b'' 1, demo_record ''c'' 0, demo_record ''a'' 3]\<rparr>"

theorem published_accounts_are_routable_witness:
  "\<exists>receipt pool' routes. pool_publish AccountPool_new 0 demo_pool_import = (Inr receipt, pool')
     \<and> to_route_snapshot (plr_candidates receipt) ''t'' = Inr routes
     \<and> map crf_account_id (rsn_candidates routes) = [''a'', ''b'']"
proof -
  let ?publish = "pool_publish AccountPool_new 0 demo_pool_import"
  have "\<exists>receipt pool' routes. ?publish = (Inr receipt, pool') \<and> to_route_snapshot (plr_candidates receipt) ''t'' = Inr routes"
    by (simp add: pool_publish_def build_candidates_def pool_validate_schema_def POOL_SCHEMA_VERSION_def demo_pool_import_def
        demo_record_def pool_validate_record_def demo_provider_account_def CandidateMetadata_from_record_def CandidateMetadata_new_def
        CandidateRoutingMetadata_new_def AccountPool_new_def ensure_generation_def PoolGeneration_next_def checked_add_def
        CandidateSnapshot_new_def MAX_SNAPSHOT_CANDIDATES_def less_char_def less_eq_char_def Let_def to_route_snapshot_def
        RouteSnapshotVersion_new_def project_candidate_def ensure_candidate_tenant_def build_route_candidate_def RouteModel_parse_def
        demo_account_config_def visible_ascii_def is_ascii_def is_graphic_byte_def MAX_ROUTE_MODEL_BYTES_def CandidateRef_new_def
        RouteCandidateKey_parse_def MAX_ROUTE_KEY_BYTES_def RouteSnapshot_new_def validate_snapshot_size_def MAX_ROUTE_CANDIDATES_def)
  then obtain receipt pool' routes where r: "?publish = (Inr receipt, pool')"
    "to_route_snapshot (plr_candidates receipt) ''t'' = Inr routes" by auto
  have "map crf_account_id (rsn_candidates routes) = sort [''b'', ''a'']"
    using published_accounts_are_routable [OF r] by (simp add: demo_pool_import_def demo_record_def)
  then show ?thesis using r by (simp add: less_char_def less_eq_char_def)
qed

end
