(* ===== verification/Account_Proxy.thy ===== *)
theory Account_Proxy
  imports Account_Domain Slices
begin

text \<open>
  The proxy profiles of \<open>ariadnion-account-proxy\<close>: endpoints, region constraints, connectivity
  bounds, immutable snapshots of profiles, and the owner that publishes the exact successor of a
  generation, in memory or through a durable store. The store is an argument: the answer it gives to
  a publication. The lemmas show that both ways of publishing are version-checked, that a store that
  refuses or answers with another generation leaves the snapshot as it was, and which destination
  regions a constraint can name.
\<close>

section \<open>Errors\<close>

definition MAX_PROFILE_ID_BYTES :: nat where "MAX_PROFILE_ID_BYTES = 128"
definition MAX_HOST_BYTES :: nat where "MAX_HOST_BYTES = 253"
definition MAX_REGION_BYTES :: nat where "MAX_REGION_BYTES = 32"
definition MAX_REGIONS :: nat where "MAX_REGIONS = 64"
definition MAX_CONNECTIONS :: u32 where "MAX_CONNECTIONS = 4096"
definition MAX_CONNECT_TIMEOUT_MS :: u32 where "MAX_CONNECT_TIMEOUT_MS = 120000"
definition MAX_REQUEST_TIMEOUT_MS :: u32 where "MAX_REQUEST_TIMEOUT_MS = 900000"
definition MAX_REDIRECTS :: u8 where "MAX_REDIRECTS = 16"
definition MAX_PROFILES :: nat where "MAX_PROFILES = 2 ^ 12"

datatype AccountProxyErrorCode =
  ProxyInvalidArgument | InvalidHost | InvalidPort | InvalidRegion | InvalidSecretReference
| ConnectivityOutOfBounds | InvalidEgressConstraint | UnsupportedScheme | DuplicateProfile
| ProxyLimitExceeded | ProxyVersionConflict | ProxyVersionExhausted | ProxyStateUnavailable
| ProfileNotFound

fun proxy_validation_code :: "AccountProxyErrorCode \<Rightarrow> string option" where
  "proxy_validation_code ProxyInvalidArgument = Some ''ACCOUNT_PROXY_INVALID_ARGUMENT''"
| "proxy_validation_code InvalidHost = Some ''ACCOUNT_PROXY_INVALID_HOST''"
| "proxy_validation_code InvalidPort = Some ''ACCOUNT_PROXY_INVALID_PORT''"
| "proxy_validation_code InvalidRegion = Some ''ACCOUNT_PROXY_INVALID_REGION''"
| "proxy_validation_code InvalidSecretReference = Some ''ACCOUNT_PROXY_INVALID_SECRET_REFERENCE''"
| "proxy_validation_code ConnectivityOutOfBounds = Some ''ACCOUNT_PROXY_CONNECTIVITY_OUT_OF_BOUNDS''"
| "proxy_validation_code _ = None"

fun proxy_publication_code :: "AccountProxyErrorCode \<Rightarrow> string option" where
  "proxy_publication_code DuplicateProfile = Some ''ACCOUNT_PROXY_DUPLICATE_PROFILE''"
| "proxy_publication_code ProxyLimitExceeded = Some ''ACCOUNT_PROXY_LIMIT_EXCEEDED''"
| "proxy_publication_code ProxyVersionConflict = Some ''ACCOUNT_PROXY_VERSION_CONFLICT''"
| "proxy_publication_code ProxyVersionExhausted = Some ''ACCOUNT_PROXY_VERSION_EXHAUSTED''"
| "proxy_publication_code ProxyStateUnavailable = Some ''ACCOUNT_PROXY_STATE_UNAVAILABLE''"
| "proxy_publication_code _ = None"

fun proxy_egress_code :: "AccountProxyErrorCode \<Rightarrow> string" where
  "proxy_egress_code InvalidEgressConstraint = ''ACCOUNT_PROXY_INVALID_EGRESS_CONSTRAINT''"
| "proxy_egress_code UnsupportedScheme = ''ACCOUNT_PROXY_UNSUPPORTED_SCHEME''"
| "proxy_egress_code ProfileNotFound = ''ACCOUNT_PROXY_PROFILE_NOT_FOUND''"
| "proxy_egress_code _ = ''ACCOUNT_PROXY_INVALID_ARGUMENT''"

definition AccountProxyErrorCode_as_str :: "AccountProxyErrorCode \<Rightarrow> string" where
  "AccountProxyErrorCode_as_str c =
     (case proxy_validation_code c of
        Some code \<Rightarrow> code
      | None \<Rightarrow> (case proxy_publication_code c of Some code \<Rightarrow> code | None \<Rightarrow> proxy_egress_code c))"

record AccountProxyError =
  ape_code :: AccountProxyErrorCode

definition proxy_error :: "AccountProxyErrorCode \<Rightarrow> AccountProxyError" where
  "proxy_error code = \<lparr>ape_code = code\<rparr>"

datatype ProxyPersistenceErrorCode = PersistenceUnavailable | PersistenceConflict | PersistenceCorrupt

fun ProxyPersistenceErrorCode_as_str :: "ProxyPersistenceErrorCode \<Rightarrow> string" where
  "ProxyPersistenceErrorCode_as_str PersistenceUnavailable = ''ACCOUNT_PROXY_PERSISTENCE_UNAVAILABLE''"
| "ProxyPersistenceErrorCode_as_str PersistenceConflict = ''ACCOUNT_PROXY_PERSISTENCE_CONFLICT''"
| "ProxyPersistenceErrorCode_as_str PersistenceCorrupt = ''ACCOUNT_PROXY_PERSISTENCE_CORRUPT''"

record ProxyPersistenceError =
  ppe_code :: ProxyPersistenceErrorCode

definition persistence_error :: "ProxyPersistenceErrorCode \<Rightarrow> ProxyPersistenceError" where
  "persistence_error code = \<lparr>ppe_code = code\<rparr>"

section \<open>Profiles\<close>

type_synonym ProxyProfileId = string

definition valid_ascii :: "string \<Rightarrow> nat \<Rightarrow> bool" where
  "valid_ascii value max_bytes \<longleftrightarrow>
     value \<noteq> [] \<and> length value \<le> max_bytes \<and> is_ascii value
     \<and> list_all (\<lambda>c. 0x20 \<le> (of_char c :: nat) \<and> (of_char c :: nat) \<le> 0x7e) value"

definition ProxyProfileId_parse :: "string \<Rightarrow> (AccountProxyError, ProxyProfileId) result" where
  "ProxyProfileId_parse value =
     (if \<not> valid_ascii value MAX_PROFILE_ID_BYTES then Inl (proxy_error ProxyInvalidArgument) else Inr value)"

datatype ProxyScheme = ProxyHttp | ProxyHttps | ProxySocks5

definition to_ascii_lowercase :: "char \<Rightarrow> char" where
  "to_ascii_lowercase c = (if is_upper c then char_of (of_char c + 32 :: nat) else c)"

definition eq_ignore_ascii_case :: "string \<Rightarrow> string \<Rightarrow> bool" where
  "eq_ignore_ascii_case a b \<longleftrightarrow> map to_ascii_lowercase a = map to_ascii_lowercase b"

definition ProxyScheme_parse :: "string \<Rightarrow> (AccountProxyError, ProxyScheme) result" where
  "ProxyScheme_parse value =
     (if eq_ignore_ascii_case value ''http'' then Inr ProxyHttp
      else if eq_ignore_ascii_case value ''https'' then Inr ProxyHttps
      else if eq_ignore_ascii_case value ''socks5'' then Inr ProxySocks5
      else Inl (proxy_error UnsupportedScheme))"

datatype EgressEndpoint = EgressDirect | EgressProxy ProxyScheme string u16

definition valid_host :: "string \<Rightarrow> bool" where
  "valid_host value \<longleftrightarrow>
     valid_ascii value MAX_HOST_BYTES
     \<and> list_all (\<lambda>c. is_alphanumeric c \<or> c \<in> set ''.-:_[]'') value"

definition EgressEndpoint_proxy :: "ProxyScheme \<Rightarrow> string \<Rightarrow> u16 \<Rightarrow> (AccountProxyError, EgressEndpoint) result" where
  "EgressEndpoint_proxy scheme host port =
     (if \<not> valid_host host then Inl (proxy_error InvalidHost)
      else if port = 0 then Inl (proxy_error InvalidPort)
      else Inr (EgressProxy scheme host port))"

fun is_direct :: "EgressEndpoint \<Rightarrow> bool" where
  "is_direct EgressDirect = True"
| "is_direct (EgressProxy _ _ _) = False"

fun endpoint_scheme :: "EgressEndpoint \<Rightarrow> ProxyScheme option" where
  "endpoint_scheme EgressDirect = None"
| "endpoint_scheme (EgressProxy scheme _ _) = Some scheme"

fun endpoint_host :: "EgressEndpoint \<Rightarrow> string option" where
  "endpoint_host EgressDirect = None"
| "endpoint_host (EgressProxy _ host _) = Some host"

fun endpoint_port :: "EgressEndpoint \<Rightarrow> u16 option" where
  "endpoint_port EgressDirect = None"
| "endpoint_port (EgressProxy _ _ port) = Some port"

datatype RegionConstraint = AnyRegion | RegionAllowlist "string list" | RegionDenylist "string list"

definition valid_region :: "string \<Rightarrow> bool" where
  "valid_region value \<longleftrightarrow>
     value \<noteq> [] \<and> length value \<le> MAX_REGION_BYTES \<and> is_ascii value
     \<and> list_all (\<lambda>c. is_lower c \<or> is_digit c \<or> c = CHR ''-'') value"

definition validate_regions :: "string list \<Rightarrow> (AccountProxyError, unit) result" where
  "validate_regions values =
     (if values = [] \<or> MAX_REGIONS < length values then Inl (proxy_error InvalidRegion)
      else if list_ex (\<lambda>region. \<not> valid_region region) values then Inl (proxy_error InvalidRegion)
      else Inr ())"

definition build_region_constraint :: "string list \<Rightarrow> bool \<Rightarrow> (AccountProxyError, RegionConstraint) result" where
  "build_region_constraint regions denylist =
     bind_result (validate_regions regions) (\<lambda>_.
     let values = sort regions in
     if adjacent_equal values then Inl (proxy_error InvalidRegion)
     else Inr (if denylist then RegionDenylist values else RegionAllowlist values))"

definition RegionConstraint_allowlist :: "string list \<Rightarrow> (AccountProxyError, RegionConstraint) result" where
  "RegionConstraint_allowlist regions = build_region_constraint regions False"

definition RegionConstraint_denylist :: "string list \<Rightarrow> (AccountProxyError, RegionConstraint) result" where
  "RegionConstraint_denylist regions = build_region_constraint regions True"

fun permits :: "RegionConstraint \<Rightarrow> string \<Rightarrow> bool" where
  "permits AnyRegion region = True"
| "permits (RegionAllowlist regions) region = list_ex (\<lambda>entry. entry = region) regions"
| "permits (RegionDenylist regions) region = (\<not> list_ex (\<lambda>entry. entry = region) regions)"

record ConnectivityPolicy =
  connect_timeout_ms :: u32
  request_timeout_ms :: u32
  max_connections :: u32
  max_redirects :: u8

definition bounded_connectivity :: "u32 \<Rightarrow> u32 \<Rightarrow> (AccountProxyError, u32) result" where
  "bounded_connectivity value maximum =
     (if value = 0 then Inl (proxy_error ConnectivityOutOfBounds)
      else if maximum < value then Inl (proxy_error ConnectivityOutOfBounds)
      else Inr value)"

definition ConnectivityPolicy_new ::
  "u32 \<Rightarrow> u32 \<Rightarrow> u32 \<Rightarrow> u8 \<Rightarrow> (AccountProxyError, ConnectivityPolicy) result" where
  "ConnectivityPolicy_new connect_timeout request_timeout connections redirects =
     bind_result (bounded_connectivity connect_timeout MAX_CONNECT_TIMEOUT_MS) (\<lambda>ct.
     bind_result (bounded_connectivity request_timeout MAX_REQUEST_TIMEOUT_MS) (\<lambda>rt.
     bind_result (bounded_connectivity connections MAX_CONNECTIONS) (\<lambda>mc.
       if MAX_REDIRECTS < redirects then Inl (proxy_error ConnectivityOutOfBounds)
       else Inr \<lparr>connect_timeout_ms = ct, request_timeout_ms = rt, max_connections = mc,
                 max_redirects = redirects\<rparr>)))"

record AccountProxyProfile =
  app_id :: string
  app_endpoint :: EgressEndpoint
  app_authentication :: "SecretRef option"
  app_regions :: RegionConstraint
  app_connectivity :: ConnectivityPolicy

definition AccountProxyProfile_new ::
  "ProxyProfileId \<Rightarrow> EgressEndpoint \<Rightarrow> SecretRef option \<Rightarrow> RegionConstraint \<Rightarrow> ConnectivityPolicy \<Rightarrow>
     (AccountProxyError, AccountProxyProfile) result" where
  "AccountProxyProfile_new profile_id endpoint authentication regions connectivity =
     (if is_direct endpoint \<and> authentication \<noteq> None then Inl (proxy_error InvalidSecretReference)
      else Inr \<lparr>app_id = profile_id, app_endpoint = endpoint, app_authentication = authentication,
                app_regions = regions, app_connectivity = connectivity\<rparr>)"

definition permits_region :: "AccountProxyProfile \<Rightarrow> string \<Rightarrow> bool" where
  "permits_region profile region = permits (app_regions profile) region"

section \<open>Snapshots and their owner\<close>

type_synonym ProxyGeneration = u64

definition ProxyGeneration_initial :: ProxyGeneration where "ProxyGeneration_initial = 1"

definition ProxyGeneration_new :: "u64 \<Rightarrow> (AccountProxyError, ProxyGeneration) result" where
  "ProxyGeneration_new value =
     (if value = 0 then Inl (proxy_error ProxyInvalidArgument) else Inr value)"

definition ProxyGeneration_next :: "ProxyGeneration \<Rightarrow> (AccountProxyError, ProxyGeneration) result" where
  "ProxyGeneration_next g = ok_or (proxy_error ProxyVersionExhausted) (checked_add g 1)"

record ProxyExecutionDescriptor =
  ped_generation :: ProxyGeneration
  ped_profile :: AccountProxyProfile

record ProxyExecutionSnapshot =
  pes_generation :: ProxyGeneration
  pes_profiles :: "AccountProxyProfile list"

definition ProxyExecutionSnapshot_new ::
  "ProxyGeneration \<Rightarrow> AccountProxyProfile list \<Rightarrow> (AccountProxyError, ProxyExecutionSnapshot) result" where
  "ProxyExecutionSnapshot_new generation profiles =
     (if MAX_PROFILES < length profiles then Inl (proxy_error ProxyLimitExceeded)
      else let profiles = sort_key app_id profiles in
      if adjacent_equal (map app_id profiles) then Inl (proxy_error DuplicateProfile)
      else Inr \<lparr>pes_generation = generation, pes_profiles = profiles\<rparr>)"

definition ProxyExecutionSnapshot_resolve ::
  "ProxyExecutionSnapshot \<Rightarrow> ProxyProfileId \<Rightarrow> (AccountProxyError, ProxyExecutionDescriptor) result" where
  "ProxyExecutionSnapshot_resolve s profile_id =
     bind_result (ok_or (proxy_error ProfileNotFound)
       (map_option (\<lambda>i. pes_profiles s ! i) (binary_search (map app_id (pes_profiles s)) profile_id))) (\<lambda>profile.
       Inr \<lparr>ped_generation = pes_generation s, ped_profile = profile\<rparr>)"

record ProxyPublishRequest =
  ppr_expected_generation :: ProxyGeneration
  ppr_snapshot :: ProxyExecutionSnapshot

record ProxyPublishReceipt =
  ppt_generation :: ProxyGeneration

text \<open>The two calls of a durable store: its answer to a load, and to each publication request.\<close>

record proxy_snapshot_store =
  pss_load :: "(ProxyPersistenceError, ProxyExecutionSnapshot) result"
  pss_publish :: "ProxyPublishRequest \<Rightarrow> (ProxyPersistenceError, ProxyPublishReceipt) result"

record AtomicProxyExecutionBook =
  aeb_current :: ProxyExecutionSnapshot
  aeb_poisoned :: bool

definition AtomicProxyExecutionBook_new :: "ProxyExecutionSnapshot \<Rightarrow> AtomicProxyExecutionBook" where
  "AtomicProxyExecutionBook_new initial = \<lparr>aeb_current = initial, aeb_poisoned = False\<rparr>"

definition load_from_store :: "proxy_snapshot_store \<Rightarrow> (ProxyPersistenceError, AtomicProxyExecutionBook) result" where
  "load_from_store store = bind_result (pss_load store) (\<lambda>s. Inr (AtomicProxyExecutionBook_new s))"

definition proxy_current_snapshot :: "AtomicProxyExecutionBook \<Rightarrow> (AccountProxyError, ProxyExecutionSnapshot) result" where
  "proxy_current_snapshot b =
     (if aeb_poisoned b then Inl (proxy_error ProxyStateUnavailable) else Inr (aeb_current b))"

definition proxy_publish ::
  "AtomicProxyExecutionBook \<Rightarrow> ProxyGeneration \<Rightarrow> ProxyExecutionSnapshot \<Rightarrow>
     (AccountProxyError + ProxyExecutionSnapshot) \<times> AtomicProxyExecutionBook" where
  "proxy_publish b expected successor =
     (if aeb_poisoned b then (Inl (proxy_error ProxyStateUnavailable), b)
      else if pes_generation (aeb_current b) \<noteq> expected then (Inl (proxy_error ProxyVersionConflict), b)
      else (case ProxyGeneration_next (pes_generation (aeb_current b)) of
              Inl e \<Rightarrow> (Inl e, b)
            | Inr required \<Rightarrow>
                if pes_generation successor \<noteq> required then (Inl (proxy_error ProxyVersionConflict), b)
                else (Inr successor, b\<lparr>aeb_current := successor\<rparr>)))"

definition validate_durable_successor ::
  "ProxyGeneration \<Rightarrow> ProxyGeneration \<Rightarrow> ProxyGeneration \<Rightarrow> (ProxyPersistenceError, unit) result" where
  "validate_durable_successor current expected successor =
     (if current \<noteq> expected then Inl (persistence_error PersistenceConflict)
      else (case ProxyGeneration_next current of
              Inl _ \<Rightarrow> Inl (persistence_error PersistenceConflict)
            | Inr required \<Rightarrow>
                if successor \<noteq> required then Inl (persistence_error PersistenceConflict) else Inr ()))"

definition publish_durable ::
  "proxy_snapshot_store \<Rightarrow> AtomicProxyExecutionBook \<Rightarrow> ProxyGeneration \<Rightarrow> ProxyExecutionSnapshot \<Rightarrow>
     (ProxyPersistenceError + ProxyExecutionSnapshot) \<times> AtomicProxyExecutionBook" where
  "publish_durable store b expected successor =
     (if aeb_poisoned b then (Inl (persistence_error PersistenceUnavailable), b)
      else case validate_durable_successor (pes_generation (aeb_current b)) expected (pes_generation successor) of
        Inl e \<Rightarrow> (Inl e, b)
      | Inr _ \<Rightarrow>
     (case pss_publish store \<lparr>ppr_expected_generation = expected, ppr_snapshot = successor\<rparr> of
        Inl e \<Rightarrow> (Inl e, b)
      | Inr receipt \<Rightarrow>
          if ppt_generation receipt \<noteq> pes_generation successor
          then (Inl (persistence_error PersistenceCorrupt), b)
          else (Inr successor, b\<lparr>aeb_current := successor\<rparr>)))"

section \<open>Publication\<close>

definition proxy_book_generation :: "AtomicProxyExecutionBook \<Rightarrow> u64" where
  "proxy_book_generation b = pes_generation (aeb_current b)"

definition proxy_book_shows :: "AtomicProxyExecutionBook \<Rightarrow> ProxyExecutionSnapshot \<Rightarrow> bool" where
  "proxy_book_shows b s \<longleftrightarrow> proxy_current_snapshot b = Inr s"

lemma ProxyGeneration_next_ok: "ProxyGeneration_next g = Inr h \<longleftrightarrow> unat h = unat g + 1"
  by (simp add: ProxyGeneration_next_def ok_or_eq checked_add_eq_Some)

lemma proxy_publish_ok:
  "proxy_publish b v s = (Inr r, b') \<Longrightarrow>
     \<not> aeb_poisoned b \<and> proxy_book_generation b = v \<and> unat (pes_generation s) = unat v + 1 \<and> b' = b\<lparr>aeb_current := s\<rparr>"
  by (auto simp: proxy_publish_def proxy_book_generation_def ProxyGeneration_next_ok split: if_splits sum.splits)

lemma validate_durable_successor_ok:
  "validate_durable_successor g v h = Inr u \<longleftrightarrow> g = v \<and> unat h = unat v + 1"
  using ProxyGeneration_next_ok [of g h]
  by (cases "ProxyGeneration_next g") (auto simp: validate_durable_successor_def)

lemma publish_durable_ok:
  "publish_durable store b v s = (Inr r, b') \<longleftrightarrow>
     \<not> aeb_poisoned b \<and> proxy_book_generation b = v \<and> unat (pes_generation s) = unat v + 1
     \<and> pss_publish store \<lparr>ppr_expected_generation = v, ppr_snapshot = s\<rparr> = Inr \<lparr>ppt_generation = pes_generation s\<rparr>
     \<and> r = s \<and> b' = b\<lparr>aeb_current := s\<rparr>"
proof (cases "validate_durable_successor (pes_generation (aeb_current b)) v (pes_generation s)")
  case (Inl e)
  with validate_durable_successor_ok [of "pes_generation (aeb_current b)" v "pes_generation s"] show ?thesis
    by (auto simp: publish_durable_def proxy_book_generation_def)
next
  case (Inr u)
  then have "pes_generation (aeb_current b) = v \<and> unat (pes_generation s) = unat v + 1"
    by (simp only: validate_durable_successor_ok)
  with Inr show ?thesis
    by (auto simp: publish_durable_def proxy_book_generation_def split: sum.splits)
qed

interpretation proxy_snapshots: publication proxy_book_generation proxy_book_shows proxy_publish
proof
  fix b v s r b' e
  show "proxy_book_generation b = v" if "proxy_publish b v s = (Inr r, b')"
    using proxy_publish_ok [OF that] by simp
  show "unat (proxy_book_generation b') = unat v + 1" if "proxy_publish b v s = (Inr r, b')"
    using proxy_publish_ok [OF that] by (auto simp: proxy_book_generation_def)
  show "proxy_book_shows b' s" if "proxy_publish b v s = (Inr r, b')"
    using proxy_publish_ok [OF that] by (auto simp: proxy_book_shows_def proxy_current_snapshot_def)
  show "b' = b" if "proxy_publish b v s = (Inl e, b')"
    using that by (auto simp: proxy_publish_def split: if_splits sum.splits)
qed

interpretation durable_proxy_snapshots:
  publication proxy_book_generation proxy_book_shows "publish_durable store" for store
proof
  fix b v s r b' e
  show "proxy_book_generation b = v" if "publish_durable store b v s = (Inr r, b')"
    using that unfolding publish_durable_ok by simp
  show "unat (proxy_book_generation b') = unat v + 1" if "publish_durable store b v s = (Inr r, b')"
    using that unfolding publish_durable_ok by (auto simp: proxy_book_generation_def)
  show "proxy_book_shows b' s" if "publish_durable store b v s = (Inr r, b')"
    using that unfolding publish_durable_ok by (auto simp: proxy_book_shows_def proxy_current_snapshot_def)
  show "b' = b" if "publish_durable store b v s = (Inl e, b')"
    using that by (auto simp: publish_durable_def split: if_splits sum.splits)
qed

section \<open>Regions\<close>

lemma build_region_constraint_ok:
  "build_region_constraint regions denylist = Inr c \<Longrightarrow>
     list_all valid_region regions \<and> distinct regions \<and>
     c = (if denylist then RegionDenylist (sort regions) else RegionAllowlist (sort regions))"
  by (auto simp: build_region_constraint_def validate_regions_def bind_result_eq_Inr Let_def list_all_iff list_ex_iff
        adjacent_equal_sorted strict_sorted_iff split: if_splits)

text \<open>
  A constraint can name only what \<open>valid_region\<close> accepts, so a region outside that alphabet or longer
  than 32 bytes passes every denylist and no allowlist.
\<close>

lemma unlistable_region_evades_denylists:
  assumes "\<not> valid_region region"
  shows "RegionConstraint_denylist regions = Inr c \<Longrightarrow> permits c region"
    and "RegionConstraint_allowlist regions = Inr c \<Longrightarrow> \<not> permits c region"
  using assms
  by (auto simp: RegionConstraint_denylist_def RegionConstraint_allowlist_def list_all_iff list_ex_iff
        dest!: build_region_constraint_ok)

end
