(* ===== verification/Account_Quota.thy ===== *)
theory Account_Quota
  imports Core_Ids Slices Interfaces
begin

text \<open>
  The quota snapshots of \<open>ariadnion-account-quota\<close>: one observation of a provider's or an
  account's quota, its conservative remaining capacity, and the book that publishes a sorted set of
  observations against a generation and drops the expired ones. The lemmas show the bounds of the
  remaining capacity, that the book is a version-checked publisher, and the invariant that every
  reachable book keeps: sorted, free of duplicates, bounded, and made of valid observations.
\<close>

section \<open>Model\<close>

definition MAX_QUOTA_SNAPSHOTS :: nat where "MAX_QUOTA_SNAPSHOTS = 4096"
definition MAX_WINDOW_BYTES :: nat where "MAX_WINDOW_BYTES = 128"
definition MAX_TTL_SECONDS :: u64 where "MAX_TTL_SECONDS = 2678400"

datatype QuotaErrorCode =
  QuotaInvalidArgument | QuotaLimitExceeded | QuotaGenerationConflict | DuplicateQuotaSnapshot
| UsageExceedsLimit | QuotaGenerationExhausted | QuotaArithmeticOverflow | QuotaStateUnavailable

fun QuotaErrorCode_as_str :: "QuotaErrorCode \<Rightarrow> string" where
  "QuotaErrorCode_as_str QuotaInvalidArgument = ''ACCOUNT_QUOTA_INVALID_ARGUMENT''"
| "QuotaErrorCode_as_str QuotaLimitExceeded = ''ACCOUNT_QUOTA_LIMIT_EXCEEDED''"
| "QuotaErrorCode_as_str QuotaGenerationConflict = ''ACCOUNT_QUOTA_GENERATION_CONFLICT''"
| "QuotaErrorCode_as_str DuplicateQuotaSnapshot = ''ACCOUNT_QUOTA_DUPLICATE_SNAPSHOT''"
| "QuotaErrorCode_as_str UsageExceedsLimit = ''ACCOUNT_QUOTA_USAGE_EXCEEDS_LIMIT''"
| "QuotaErrorCode_as_str QuotaGenerationExhausted = ''ACCOUNT_QUOTA_GENERATION_EXHAUSTED''"
| "QuotaErrorCode_as_str QuotaArithmeticOverflow = ''ACCOUNT_QUOTA_ARITHMETIC_OVERFLOW''"
| "QuotaErrorCode_as_str QuotaStateUnavailable = ''ACCOUNT_QUOTA_STATE_UNAVAILABLE''"

record QuotaError =
  que_code :: QuotaErrorCode

definition quota_error :: "QuotaErrorCode \<Rightarrow> QuotaError" where
  "quota_error code = \<lparr>que_code = code\<rparr>"

type_synonym QuotaTime = u64
type_synonym QuotaGeneration = u64
type_synonym QuotaWindow = string

definition QuotaGeneration_initial :: QuotaGeneration where "QuotaGeneration_initial = 0"

definition QuotaGeneration_next :: "QuotaGeneration \<Rightarrow> (QuotaError, QuotaGeneration) result" where
  "QuotaGeneration_next g = ok_or (quota_error QuotaGenerationExhausted) (checked_add g 1)"

datatype QuotaSubject = QuotaProvider string | QuotaAccount AccountId

text \<open>The derived order: every provider before every account.\<close>

fun subject_key :: "QuotaSubject \<Rightarrow> nat \<times> string" where
  "subject_key (QuotaProvider i) = (0, i)"
| "subject_key (QuotaAccount i) = (1, i)"

lemma subject_key_inject [simp]: "subject_key a = subject_key b \<longleftrightarrow> a = b"
  by (cases a; cases b) auto

instantiation QuotaSubject :: linorder
begin

definition less_eq_QuotaSubject :: "QuotaSubject \<Rightarrow> QuotaSubject \<Rightarrow> bool" where
  "a \<le> b \<longleftrightarrow> subject_key a \<le> subject_key b"

definition less_QuotaSubject :: "QuotaSubject \<Rightarrow> QuotaSubject \<Rightarrow> bool" where
  "a < b \<longleftrightarrow> subject_key a < subject_key b"

instance
proof
  fix a b c :: QuotaSubject
  show "a < b \<longleftrightarrow> a \<le> b \<and> \<not> b \<le> a" "a \<le> a" "a \<le> b \<or> b \<le> a"
    unfolding less_eq_QuotaSubject_def less_QuotaSubject_def by (rule less_le_not_le order_refl linear)+
  show "a \<le> c" if "a \<le> b" "b \<le> c"
    using that unfolding less_eq_QuotaSubject_def by (rule order_trans)
  show "a = b" if "a \<le> b" "b \<le> a"
    using that unfolding less_eq_QuotaSubject_def by (metis subject_key_inject order_antisym)
qed

end

text \<open>\<open>is_ascii_control\<close>: the bytes below \<open>0x20\<close> and \<open>0x7f\<close>.\<close>

definition is_ascii_control :: "char \<Rightarrow> bool" where
  "is_ascii_control c \<longleftrightarrow> (of_char c :: nat) < 0x20 \<or> (of_char c :: nat) = 0x7f"

definition QuotaWindow_parse :: "string \<Rightarrow> (QuotaError, QuotaWindow) result" where
  "QuotaWindow_parse value =
     (if value = [] \<or> \<not> is_ascii value \<or> list_ex is_ascii_control value
      then Inl (quota_error QuotaInvalidArgument)
      else if MAX_WINDOW_BYTES < length value then Inl (quota_error QuotaLimitExceeded)
      else Inr value)"

record QuotaSnapshot =
  qs_subject :: QuotaSubject
  qs_window :: QuotaWindow
  qs_limit :: u64
  qs_used :: u64
  qs_reported_remaining :: "u64 option"
  qs_refreshed_at :: QuotaTime
  qs_expires_at :: QuotaTime

definition QuotaSnapshot_new ::
  "QuotaSubject \<Rightarrow> QuotaWindow \<Rightarrow> u64 \<Rightarrow> u64 \<Rightarrow> u64 option \<Rightarrow> QuotaTime \<Rightarrow> QuotaTime \<Rightarrow>
     (QuotaError, QuotaSnapshot) result" where
  "QuotaSnapshot_new subject window limit used reported_remaining refreshed_at expires_at =
     (if limit = 0 \<or> expires_at \<le> refreshed_at then Inl (quota_error QuotaInvalidArgument)
      else if (case checked_sub expires_at refreshed_at of None \<Rightarrow> True | Some ttl \<Rightarrow> MAX_TTL_SECONDS < ttl)
      then Inl (quota_error QuotaLimitExceeded)
      else if limit < used then Inl (quota_error UsageExceedsLimit)
      else if (case reported_remaining of Some remaining \<Rightarrow> limit < remaining | None \<Rightarrow> False)
      then Inl (quota_error QuotaInvalidArgument)
      else Inr \<lparr>qs_subject = subject, qs_window = window, qs_limit = limit, qs_used = used,
                qs_reported_remaining = reported_remaining, qs_refreshed_at = refreshed_at,
                qs_expires_at = expires_at\<rparr>)"

definition is_expired_at :: "QuotaSnapshot \<Rightarrow> QuotaTime \<Rightarrow> bool" where
  "is_expired_at q now \<longleftrightarrow> qs_expires_at q \<le> now"

definition conservative_remaining_at :: "QuotaSnapshot \<Rightarrow> QuotaTime \<Rightarrow> u64" where
  "conservative_remaining_at q now =
     (if is_expired_at q now then 0
      else let arithmetic_remaining = qs_limit q - qs_used q in
        case qs_reported_remaining q of
          None \<Rightarrow> arithmetic_remaining
        | Some reported \<Rightarrow> min reported arithmetic_remaining)"

record QuotaSnapshotSet =
  qss_generation :: QuotaGeneration
  qss_snapshots :: "QuotaSnapshot list"

record QuotaRefreshReceipt =
  qrr_previous_generation :: QuotaGeneration
  qrr_generation :: QuotaGeneration
  qrr_snapshot_count :: nat

record ExpiryReceipt =
  xr_generation :: QuotaGeneration
  xr_removed :: nat

record QuotaBook =
  qb_generation :: QuotaGeneration
  qb_snapshots :: "QuotaSnapshot list"
  qb_poisoned :: bool

definition QuotaBook_new :: QuotaBook where
  "QuotaBook_new = \<lparr>qb_generation = QuotaGeneration_initial, qb_snapshots = [], qb_poisoned = False\<rparr>"

definition snapshot_key :: "QuotaSnapshot \<Rightarrow> QuotaSubject \<times> QuotaWindow" where
  "snapshot_key q = (qs_subject q, qs_window q)"

definition validate_snapshots :: "QuotaSnapshot list \<Rightarrow> (QuotaError, QuotaSnapshot list) result" where
  "validate_snapshots snapshots =
     (if MAX_QUOTA_SNAPSHOTS < length snapshots then Inl (quota_error QuotaLimitExceeded)
      else let ordered = sort_key snapshot_key snapshots in
        if adjacent_equal (map snapshot_key ordered) then Inl (quota_error DuplicateQuotaSnapshot)
        else Inr ordered)"

definition QuotaBook_refresh ::
  "QuotaSnapshot list \<Rightarrow> QuotaGeneration \<Rightarrow> (QuotaBook, QuotaError, QuotaRefreshReceipt) update" where
  "QuotaBook_refresh snapshots expected_generation b =
     (case validate_snapshots snapshots of
        Inl e \<Rightarrow> (Inl e, b)
      | Inr ordered \<Rightarrow>
          if qb_poisoned b then (Inl (quota_error QuotaStateUnavailable), b)
          else if qb_generation b \<noteq> expected_generation then (Inl (quota_error QuotaGenerationConflict), b)
          else (case QuotaGeneration_next (qb_generation b) of
                  Inl e \<Rightarrow> (Inl e, b)
                | Inr generation \<Rightarrow>
                    (Inr \<lparr>qrr_previous_generation = qb_generation b, qrr_generation = generation,
                          qrr_snapshot_count = length ordered\<rparr>,
                     b\<lparr>qb_generation := generation, qb_snapshots := ordered\<rparr>)))"

definition QuotaBook_expire :: "QuotaTime \<Rightarrow> (QuotaBook, QuotaError, ExpiryReceipt) update" where
  "QuotaBook_expire now b =
     (if qb_poisoned b then (Inl (quota_error QuotaStateUnavailable), b)
      else let retained = filter (\<lambda>q. \<not> is_expired_at q now) (qb_snapshots b);
               removed = length (qb_snapshots b) - length retained in
        if removed = 0 then (Inr \<lparr>xr_generation = qb_generation b, xr_removed = removed\<rparr>, b)
        else (case QuotaGeneration_next (qb_generation b) of
                Inl e \<Rightarrow> (Inl e, b)
              | Inr generation \<Rightarrow>
                  (Inr \<lparr>xr_generation = generation, xr_removed = removed\<rparr>,
                   b\<lparr>qb_generation := generation, qb_snapshots := retained\<rparr>)))"

definition QuotaBook_snapshot_set :: "QuotaBook \<Rightarrow> (QuotaError, QuotaSnapshotSet) result" where
  "QuotaBook_snapshot_set b =
     (if qb_poisoned b then Inl (quota_error QuotaStateUnavailable)
      else Inr \<lparr>qss_generation = qb_generation b, qss_snapshots = qb_snapshots b\<rparr>)"

section \<open>Observations\<close>

definition quota_ok :: "QuotaSnapshot \<Rightarrow> bool" where
  "quota_ok q \<longleftrightarrow>
     0 < qs_limit q \<and> qs_used q \<le> qs_limit q \<and> qs_refreshed_at q < qs_expires_at q
     \<and> unat (qs_expires_at q) \<le> unat (qs_refreshed_at q) + unat MAX_TTL_SECONDS
     \<and> (\<forall>r. qs_reported_remaining q = Some r \<longrightarrow> r \<le> qs_limit q)"

lemma QuotaSnapshot_new_ok:
  "QuotaSnapshot_new subject window limit used reported refreshed expires = Inr q \<Longrightarrow> quota_ok q"
  by (auto simp: QuotaSnapshot_new_def quota_ok_def checked_sub_eq_Some checked_sub_eq_None word_gt_0
        word_le_nat_alt not_less not_le split: if_splits option.splits)
     (simp_all add: word_less_nat_alt)

text \<open>
  The subtraction in the estimate cannot wrap around for a valid observation, and the estimate is
  the least of what the limit leaves and what the provider reported.
\<close>

lemma conservative_remaining_bounds:
  assumes "quota_ok q"
  shows "unat (conservative_remaining_at q now) + unat (qs_used q) \<le> unat (qs_limit q) \<or> is_expired_at q now"
    and "\<And>r. qs_reported_remaining q = Some r \<Longrightarrow> conservative_remaining_at q now \<le> r"
    and "is_expired_at q now \<Longrightarrow> conservative_remaining_at q now = 0"
  using assms
  by (auto simp: conservative_remaining_at_def quota_ok_def Let_def unat_sub word_le_nat_alt
        min_def split: option.splits if_splits)

section \<open>The book\<close>

lemma validate_snapshots_ok:
  "validate_snapshots ss = Inr ordered \<longleftrightarrow>
     length ss \<le> MAX_QUOTA_SNAPSHOTS \<and> ordered = sort_key snapshot_key ss
     \<and> sorted_wrt (<) (map snapshot_key ordered)"
  by (auto simp: validate_snapshots_def Let_def simp flip: adjacent_equal_sorted)

definition quota_publish ::
  "QuotaBook \<Rightarrow> u64 \<Rightarrow> QuotaSnapshot list \<Rightarrow> (QuotaError + QuotaRefreshReceipt) \<times> QuotaBook" where
  "quota_publish b v ss = QuotaBook_refresh ss v b"

definition quota_book_shows :: "QuotaBook \<Rightarrow> QuotaSnapshot list \<Rightarrow> bool" where
  "quota_book_shows b ss \<longleftrightarrow>
     QuotaBook_snapshot_set b = Inr \<lparr>qss_generation = qb_generation b, qss_snapshots = sort_key snapshot_key ss\<rparr>"

lemma QuotaBook_refresh_ok:
  "QuotaBook_refresh ss v b = (Inr r, b') \<longleftrightarrow>
     \<not> qb_poisoned b \<and> qb_generation b = v \<and> unat v + 1 < 2 ^ 64
     \<and> length ss \<le> MAX_QUOTA_SNAPSHOTS \<and> sorted_wrt (<) (map snapshot_key (sort_key snapshot_key ss))
     \<and> r = \<lparr>qrr_previous_generation = v, qrr_generation = v + 1, qrr_snapshot_count = length ss\<rparr>
     \<and> b' = b\<lparr>qb_generation := v + 1, qb_snapshots := sort_key snapshot_key ss\<rparr>"
proof (cases "validate_snapshots ss")
  case (Inl e)
  with validate_snapshots_ok [of ss "sort_key snapshot_key ss"] show ?thesis
    by (auto simp: QuotaBook_refresh_def)
next
  case (Inr ordered)
  with validate_snapshots_ok [of ss ordered] show ?thesis
    by (auto simp: QuotaBook_refresh_def QuotaGeneration_next_def checked_add_def split: if_splits)
qed

lemma QuotaBook_refresh_refused: "QuotaBook_refresh ss v b = (Inl e, b') \<Longrightarrow> b' = b"
  by (auto simp: QuotaBook_refresh_def split: sum.splits if_splits)

interpretation quota_snapshots: publication qb_generation quota_book_shows quota_publish
  by unfold_locales
     (auto simp: quota_publish_def QuotaBook_refresh_ok quota_book_shows_def QuotaBook_snapshot_set_def
        unat_plus_exact dest: QuotaBook_refresh_refused)

datatype quota_label = QuotaRefresh "QuotaSnapshot list" QuotaGeneration | QuotaExpire QuotaTime

text \<open>Callers can only offer observations that \<open>QuotaSnapshot::new\<close> has accepted.\<close>

inductive quota_step :: "QuotaBook \<Rightarrow> quota_label \<Rightarrow> QuotaBook \<Rightarrow> bool" where
  quota_refresh_step:
    "list_all quota_ok ss \<Longrightarrow> QuotaBook_refresh ss g b = (r, b') \<Longrightarrow> quota_step b (QuotaRefresh ss g) b'"
| quota_expire_step: "QuotaBook_expire now b = (r, b') \<Longrightarrow> quota_step b (QuotaExpire now) b'"

definition quota_inv :: "QuotaBook \<Rightarrow> bool" where
  "quota_inv b \<longleftrightarrow>
     length (qb_snapshots b) \<le> MAX_QUOTA_SNAPSHOTS
     \<and> sorted_wrt (<) (map snapshot_key (qb_snapshots b)) \<and> list_all quota_ok (qb_snapshots b)"

lemma sorted_wrt_map_filter: "sorted_wrt R (map f xs) \<Longrightarrow> sorted_wrt R (map f (filter P xs))"
  by (induction xs) auto

lemma QuotaBook_expire_cases:
  assumes "QuotaBook_expire now b = (r, b')"
  obtains "b' = b" | g where "b' = b\<lparr>qb_generation := g, qb_snapshots := filter (\<lambda>q. \<not> is_expired_at q now) (qb_snapshots b)\<rparr>"
  using assms by (auto simp: QuotaBook_expire_def Let_def split: if_splits sum.splits)

interpretation quota_books: invariant_system "\<lambda>b. b = QuotaBook_new" quota_step quota_inv
proof
  show "quota_inv s" if "s = QuotaBook_new" for s
    using that by (simp add: quota_inv_def QuotaBook_new_def)
  show "quota_inv t" if "quota_inv s" "quota_step s l t" for s l t
    using that(2,1)
  proof (induction rule: quota_step.induct)
    case (quota_refresh_step ss g b r b')
    show ?case
    proof (cases r)
      case (Inl e)
      with quota_refresh_step show ?thesis by (auto dest: QuotaBook_refresh_refused)
    next
      case (Inr receipt)
      with quota_refresh_step show ?thesis
        by (auto simp: quota_inv_def QuotaBook_refresh_ok list_all_iff)
    qed
  next
    case (quota_expire_step now b r b')
    then show ?case
      by (elim QuotaBook_expire_cases)
         (auto simp: quota_inv_def list_all_iff intro: sorted_wrt_map_filter le_trans [OF length_filter_le])
  qed
qed

text \<open>Dropping expired observations does not change what any observation still in force promises.\<close>

lemma expire_keeps_live_capacity:
  assumes "QuotaBook_expire now b = (Inr r, b')" and "now \<le> later"
  shows "filter (\<lambda>q. 0 < conservative_remaining_at q later) (qb_snapshots b') =
         filter (\<lambda>q. 0 < conservative_remaining_at q later) (qb_snapshots b)"
  using assms(1)
proof (cases rule: QuotaBook_expire_cases)
  case (2 g)
  have "0 < conservative_remaining_at q later \<Longrightarrow> \<not> is_expired_at q now" for q
    using assms(2) by (auto simp: conservative_remaining_at_def is_expired_at_def split: if_splits)
  with 2 show ?thesis by (auto simp: conj_commute intro: filter_cong)
qed simp

end
