(* ===== verification/Account_Affinity.thy ===== *)
theory Account_Affinity
  imports Account_Quota
begin

text \<open>
  The affinity registry of \<open>ariadnion-account-affinity\<close>: opaque keys derived from a subject with a
  hash, bindings of keys to candidates with an expiry, the deterministic ranking of candidates for a
  key, and the registry that assigns, expires and rotates. The hash \<open>Sha256\<close> is an argument: the
  digest of a byte string. The lemmas show the invariant of every reachable registry, that a refused
  call changes nothing, that a binding is sticky until it expires, and that the ranking keeps its
  choice when other candidates leave.
\<close>

section \<open>Errors and versions\<close>

definition MAX_SUBJECT_BYTES :: nat where "MAX_SUBJECT_BYTES = 256"
definition MAX_AFFINITY_CANDIDATE_BYTES :: nat where "MAX_AFFINITY_CANDIDATE_BYTES = 128"
definition MAX_BINDINGS :: nat where "MAX_BINDINGS = 2 ^ 17"
definition MAX_AFFINITY_CANDIDATES :: nat where "MAX_AFFINITY_CANDIDATES = 2 ^ 17"
definition MAX_AFFINITY_TTL_SECONDS :: u64 where "MAX_AFFINITY_TTL_SECONDS = 30 * 86400"

datatype AccountAffinityErrorCode =
  AffinityInvalidArgument | EmptyCandidateSet | AffinityTooManyCandidates | AffinityCapacityExceeded | InvalidTtl
| AffinityGenerationConflict | EpochConflict | AffinityTenantMismatch | AffinityVersionExhausted
| AffinityStateUnavailable

fun affinity_input_error_code :: "AccountAffinityErrorCode \<Rightarrow> string" where
  "affinity_input_error_code AffinityInvalidArgument = ''ACCOUNT_AFFINITY_INVALID_ARGUMENT''"
| "affinity_input_error_code EmptyCandidateSet = ''ACCOUNT_AFFINITY_EMPTY_CANDIDATE_SET''"
| "affinity_input_error_code AffinityTooManyCandidates = ''ACCOUNT_AFFINITY_TOO_MANY_CANDIDATES''"
| "affinity_input_error_code AffinityCapacityExceeded = ''ACCOUNT_AFFINITY_CAPACITY_EXCEEDED''"
| "affinity_input_error_code InvalidTtl = ''ACCOUNT_AFFINITY_INVALID_TTL''"
| "affinity_input_error_code _ = ''ACCOUNT_AFFINITY_INVALID_ARGUMENT''"

fun affinity_state_error_code :: "AccountAffinityErrorCode \<Rightarrow> string" where
  "affinity_state_error_code AffinityGenerationConflict = ''ACCOUNT_AFFINITY_GENERATION_CONFLICT''"
| "affinity_state_error_code EpochConflict = ''ACCOUNT_AFFINITY_EPOCH_CONFLICT''"
| "affinity_state_error_code AffinityTenantMismatch = ''ACCOUNT_AFFINITY_TENANT_MISMATCH''"
| "affinity_state_error_code AffinityVersionExhausted = ''ACCOUNT_AFFINITY_VERSION_EXHAUSTED''"
| "affinity_state_error_code AffinityStateUnavailable = ''ACCOUNT_AFFINITY_STATE_UNAVAILABLE''"
| "affinity_state_error_code _ = ''ACCOUNT_AFFINITY_INVALID_ARGUMENT''"

definition AccountAffinityErrorCode_as_str :: "AccountAffinityErrorCode \<Rightarrow> string" where
  "AccountAffinityErrorCode_as_str c =
     (if c \<in> {AffinityInvalidArgument, EmptyCandidateSet, AffinityTooManyCandidates, AffinityCapacityExceeded, InvalidTtl}
      then affinity_input_error_code c else affinity_state_error_code c)"

record AccountAffinityError =
  aae_code :: AccountAffinityErrorCode

definition affinity_error :: "AccountAffinityErrorCode \<Rightarrow> AccountAffinityError" where
  "affinity_error code = \<lparr>aae_code = code\<rparr>"

type_synonym AffinityTime = u64
type_synonym AffinityGeneration = u64
type_synonym AffinityEpoch = u64
type_synonym AffinityTenant = string

definition affinity_time_add :: "AffinityTime \<Rightarrow> u64 \<Rightarrow> (AccountAffinityError, AffinityTime) result" where
  "affinity_time_add t seconds = ok_or (affinity_error AffinityVersionExhausted) (checked_add t seconds)"

definition AffinityGeneration_next :: "AffinityGeneration \<Rightarrow> (AccountAffinityError, AffinityGeneration) result" where
  "AffinityGeneration_next g = ok_or (affinity_error AffinityVersionExhausted) (checked_add g 1)"

definition AffinityEpoch_next :: "AffinityEpoch \<Rightarrow> (AccountAffinityError, AffinityEpoch) result" where
  "AffinityEpoch_next e = ok_or (affinity_error AffinityVersionExhausted) (checked_add e 1)"

section \<open>Keys\<close>

datatype AffinityScope = UserAffinity | SessionAffinity | SessionFamilyAffinity

fun scope_byte :: "AffinityScope \<Rightarrow> u8" where
  "scope_byte UserAffinity = 0"
| "scope_byte SessionAffinity = 1"
| "scope_byte SessionFamilyAffinity = 2"

text \<open>\<open>as_bytes\<close> of a string and \<open>to_be_bytes\<close> of an integer of \<open>n\<close> bytes.\<close>

definition bytes_of :: "string \<Rightarrow> u8 list" where
  "bytes_of s = map of_char s"

definition to_be_bytes :: "nat \<Rightarrow> 'a::len word \<Rightarrow> u8 list" where
  "to_be_bytes n w = map (\<lambda>i. ucast (drop_bit (8 * i) w)) (rev [0..<n])"

type_synonym OpaqueAffinityId = "u8 list"
type_synonym digest = "u8 list \<Rightarrow> u8 list"

definition OpaqueAffinityId_derive ::
  "digest \<Rightarrow> AffinityTenant \<Rightarrow> AffinityScope \<Rightarrow> string \<Rightarrow> AffinityEpoch \<Rightarrow> (AccountAffinityError, OpaqueAffinityId) result" where
  "OpaqueAffinityId_derive sha256 tenant_id scope subject epoch =
     (if subject = [] \<or> MAX_SUBJECT_BYTES < length subject \<or> \<not> is_ascii subject
         \<or> list_ex is_ascii_control subject
      then Inl (affinity_error AffinityInvalidArgument)
      else Inr (sha256
        (bytes_of ''ariadnion-affinity-v1'' @ [0]
         @ to_be_bytes 2 (of_nat (length tenant_id) :: u16) @ bytes_of tenant_id
         @ [scope_byte scope] @ to_be_bytes 8 epoch
         @ to_be_bytes 2 (of_nat (length subject) :: u16) @ bytes_of subject)))"

record AffinityKey =
  afk_tenant_id :: AffinityTenant
  afk_scope :: AffinityScope
  afk_id :: OpaqueAffinityId
  afk_epoch :: AffinityEpoch

definition AffinityKey_derive ::
  "digest \<Rightarrow> AffinityTenant \<Rightarrow> AffinityScope \<Rightarrow> string \<Rightarrow> AffinityEpoch \<Rightarrow> (AccountAffinityError, AffinityKey) result" where
  "AffinityKey_derive sha256 tenant_id scope subject epoch =
     bind_result (OpaqueAffinityId_derive sha256 tenant_id scope subject epoch) (\<lambda>i.
       Inr \<lparr>afk_tenant_id = tenant_id, afk_scope = scope, afk_id = i, afk_epoch = epoch\<rparr>)"

definition AffinityKey_user :: "digest \<Rightarrow> AffinityTenant \<Rightarrow> string \<Rightarrow> AffinityEpoch \<Rightarrow> (AccountAffinityError, AffinityKey) result" where
  "AffinityKey_user sha256 tenant_id subject epoch = AffinityKey_derive sha256 tenant_id UserAffinity subject epoch"

definition AffinityKey_session :: "digest \<Rightarrow> AffinityTenant \<Rightarrow> string \<Rightarrow> AffinityEpoch \<Rightarrow> (AccountAffinityError, AffinityKey) result" where
  "AffinityKey_session sha256 tenant_id subject epoch =
     AffinityKey_derive sha256 tenant_id SessionAffinity subject epoch"

definition AffinityKey_session_family ::
  "digest \<Rightarrow> AffinityTenant \<Rightarrow> string \<Rightarrow> AffinityEpoch \<Rightarrow> (AccountAffinityError, AffinityKey) result" where
  "AffinityKey_session_family sha256 tenant_id subject epoch =
     AffinityKey_derive sha256 tenant_id SessionFamilyAffinity subject epoch"

type_synonym AffinityCandidateId = string

definition AffinityCandidateId_parse :: "string \<Rightarrow> (AccountAffinityError, AffinityCandidateId) result" where
  "AffinityCandidateId_parse value =
     (if value = [] \<or> MAX_AFFINITY_CANDIDATE_BYTES < length value \<or> \<not> is_ascii value
         \<or> list_ex is_ascii_control value
      then Inl (affinity_error AffinityInvalidArgument)
      else Inr value)"

section \<open>The registry\<close>

record AffinityBinding =
  afb_key :: AffinityKey
  afb_candidate :: AffinityCandidateId
  afb_expires_at :: AffinityTime

definition is_live :: "AffinityBinding \<Rightarrow> AffinityKey \<Rightarrow> AffinityTime \<Rightarrow> bool" where
  "is_live b key now \<longleftrightarrow> afb_key b = key \<and> now < afb_expires_at b"

record AffinitySnapshot =
  afs_tenant_id :: AffinityTenant
  afs_generation :: AffinityGeneration
  afs_epoch :: AffinityEpoch
  afs_bindings :: "AffinityBinding list"

text \<open>
  A \<open>HashMap\<close> is a list of entries with distinct keys, in an order nothing below depends on:
  \<open>get\<close> is \<open>map_of\<close>, and the one enumeration, in \<open>snapshot\<close>, is sorted.
\<close>

type_synonym ('k, 'v) hash_map = "('k \<times> 'v) list"

definition hm_insert :: "'k \<Rightarrow> 'v \<Rightarrow> ('k, 'v) hash_map \<Rightarrow> ('k, 'v) hash_map" where
  "hm_insert k v m = (k, v) # filter (\<lambda>e. fst e \<noteq> k) m"

record AffinityRegistry =
  afr_tenant_id :: AffinityTenant
  afr_generation :: AffinityGeneration
  afr_epoch :: AffinityEpoch
  afr_bindings :: "(AffinityKey, AffinityBinding) hash_map"
  afr_poisoned :: bool

definition AffinityRegistry_with_versions ::
  "AffinityTenant \<Rightarrow> AffinityEpoch \<Rightarrow> AffinityGeneration \<Rightarrow> AffinityRegistry" where
  "AffinityRegistry_with_versions tenant_id epoch generation =
     \<lparr>afr_tenant_id = tenant_id, afr_generation = generation, afr_epoch = epoch, afr_bindings = [],
      afr_poisoned = False\<rparr>"

definition AffinityRegistry_with_epoch :: "AffinityTenant \<Rightarrow> AffinityEpoch \<Rightarrow> AffinityRegistry" where
  "AffinityRegistry_with_epoch tenant_id epoch =
     \<lparr>afr_tenant_id = tenant_id, afr_generation = 0, afr_epoch = epoch, afr_bindings = [], afr_poisoned = False\<rparr>"

definition AffinityRegistry_new :: "AffinityTenant \<Rightarrow> AffinityRegistry" where
  "AffinityRegistry_new tenant_id =
     \<lparr>afr_tenant_id = tenant_id, afr_generation = 0, afr_epoch = 0, afr_bindings = [], afr_poisoned = False\<rparr>"

definition binding_order :: "AffinityBinding \<Rightarrow> u8 \<times> u8 list \<times> u64" where
  "binding_order b = (scope_byte (afk_scope (afb_key b)), afk_id (afb_key b), afk_epoch (afb_key b))"

definition AffinityRegistry_snapshot :: "AffinityRegistry \<Rightarrow> (AccountAffinityError, AffinitySnapshot) result" where
  "AffinityRegistry_snapshot r =
     (if afr_poisoned r then Inl (affinity_error AffinityStateUnavailable)
      else Inr \<lparr>afs_tenant_id = afr_tenant_id r, afs_generation = afr_generation r, afs_epoch = afr_epoch r,
                afs_bindings = sort_key binding_order (map snd (afr_bindings r))\<rparr>)"

definition affinity_validate_candidates :: "AffinityCandidateId list \<Rightarrow> (AccountAffinityError, unit) result" where
  "affinity_validate_candidates candidates =
     (if candidates = [] then Inl (affinity_error EmptyCandidateSet)
      else if MAX_AFFINITY_CANDIDATES < length candidates then Inl (affinity_error AffinityTooManyCandidates)
      else Inr ())"

definition validate_ttl :: "u64 \<Rightarrow> (AccountAffinityError, unit) result" where
  "validate_ttl ttl_seconds =
     (if ttl_seconds = 0 \<or> MAX_AFFINITY_TTL_SECONDS < ttl_seconds then Inl (affinity_error InvalidTtl) else Inr ())"

definition validate_assignment_inputs :: "AffinityCandidateId list \<Rightarrow> u64 \<Rightarrow> (AccountAffinityError, unit) result" where
  "validate_assignment_inputs candidates ttl_seconds =
     bind_result (affinity_validate_candidates candidates) (\<lambda>_. validate_ttl ttl_seconds)"

definition validate_key :: "AffinityRegistry \<Rightarrow> AffinityKey \<Rightarrow> (AccountAffinityError, unit) result" where
  "validate_key r key =
     (if afk_tenant_id key \<noteq> afr_tenant_id r then Inl (affinity_error AffinityTenantMismatch)
      else if afk_epoch key \<noteq> afr_epoch r then Inl (affinity_error EpochConflict)
      else Inr ())"

definition prepare_assignment :: "AffinityRegistry \<Rightarrow> AffinityKey \<Rightarrow> (AccountAffinityError, AffinityGeneration) result" where
  "prepare_assignment r key = bind_result (validate_key r key) (\<lambda>_. AffinityGeneration_next (afr_generation r))"

definition live_candidate_index ::
  "AffinityRegistry \<Rightarrow> AffinityKey \<Rightarrow> AffinityCandidateId list \<Rightarrow> AffinityTime \<Rightarrow> nat option" where
  "live_candidate_index r key candidates now =
     (case map_of (afr_bindings r) key of
        None \<Rightarrow> None
      | Some binding \<Rightarrow>
          if \<not> is_live binding key now then None
          else list_position (\<lambda>candidate. candidate = afb_candidate binding) candidates)"

definition candidate_score :: "digest \<Rightarrow> AffinityKey \<Rightarrow> AffinityCandidateId \<Rightarrow> u8 list" where
  "candidate_score sha256 key candidate =
     sha256 (bytes_of ''ariadnion-affinity-select-v1'' @ [0] @ [scope_byte (afk_scope key)]
       @ to_be_bytes 8 (afk_epoch key) @ afk_id key
       @ to_be_bytes 2 (of_nat (length candidate) :: u16) @ bytes_of candidate)"

text \<open>One turn of the loop: a strictly smaller score replaces the best one.\<close>

definition better_candidate ::
  "digest \<Rightarrow> AffinityKey \<Rightarrow> AffinityCandidateId \<Rightarrow> (u8 list \<times> AffinityCandidateId) option \<Rightarrow>
     (u8 list \<times> AffinityCandidateId) option" where
  "better_candidate sha256 key candidate best =
     (let score = candidate_score sha256 key candidate in
      case best of
        None \<Rightarrow> Some (score, candidate)
      | Some (current, _) \<Rightarrow> if score < current then Some (score, candidate) else best)"

definition deterministic_candidate ::
  "digest \<Rightarrow> AffinityKey \<Rightarrow> AffinityCandidateId list \<Rightarrow> (AccountAffinityError, AffinityCandidateId) result" where
  "deterministic_candidate sha256 key candidates =
     ok_or (affinity_error EmptyCandidateSet)
       (map_option snd (fold (better_candidate sha256 key) candidates None))"

definition assignment_candidate ::
  "digest \<Rightarrow> AffinityRegistry \<Rightarrow> AffinityKey \<Rightarrow> AffinityCandidateId list \<Rightarrow> AffinityTime \<Rightarrow>
     (AccountAffinityError, AffinityCandidateId) result" where
  "assignment_candidate sha256 r key candidates now =
     (case map_of (afr_bindings r) key of
        Some binding \<Rightarrow>
          if is_live binding key now \<and> list_ex (\<lambda>candidate. candidate = afb_candidate binding) candidates
          then Inr (afb_candidate binding)
          else deterministic_candidate sha256 key candidates
      | None \<Rightarrow> deterministic_candidate sha256 key candidates)"

definition ensure_capacity :: "AffinityRegistry \<Rightarrow> AffinityKey \<Rightarrow> (AccountAffinityError, unit) result" where
  "ensure_capacity r key =
     (if map_of (afr_bindings r) key = None \<and> MAX_BINDINGS \<le> length (afr_bindings r)
      then Inl (affinity_error AffinityCapacityExceeded) else Inr ())"

definition affinity_prune_expired ::
  "(AffinityKey, AffinityBinding) hash_map \<Rightarrow> AffinityTime \<Rightarrow> (AffinityKey, AffinityBinding) hash_map" where
  "affinity_prune_expired bindings now = filter (\<lambda>(_, binding). now < afb_expires_at binding) bindings"

definition AffinityRegistry_select ::
  "digest \<Rightarrow> AffinityRegistry \<Rightarrow> AffinityKey \<Rightarrow> AffinityCandidateId list \<Rightarrow> AffinityTime \<Rightarrow>
     (AccountAffinityError, AffinityCandidateId) result" where
  "AffinityRegistry_select sha256 r key candidates now =
     bind_result (affinity_validate_candidates candidates) (\<lambda>_.
       if afr_poisoned r then Inl (affinity_error AffinityStateUnavailable)
       else bind_result (validate_key r key) (\<lambda>_.
         case live_candidate_index r key candidates now of
           Some index \<Rightarrow> Inr (candidates ! index)
         | None \<Rightarrow> deterministic_candidate sha256 key candidates))"

definition AffinityRegistry_assign ::
  "digest \<Rightarrow> AffinityKey \<Rightarrow> AffinityCandidateId list \<Rightarrow> AffinityTime \<Rightarrow> u64 \<Rightarrow>
     (AffinityRegistry, AccountAffinityError, AffinityBinding) update" where
  "AffinityRegistry_assign sha256 key candidates now ttl_seconds r =
     (case validate_assignment_inputs candidates ttl_seconds of
        Inl e \<Rightarrow> (Inl e, r)
      | Inr _ \<Rightarrow>
     (case affinity_time_add now ttl_seconds of
        Inl e \<Rightarrow> (Inl e, r)
      | Inr expires_at \<Rightarrow>
     if afr_poisoned r then (Inl (affinity_error AffinityStateUnavailable), r)
     else case prepare_assignment r key of
        Inl e \<Rightarrow> (Inl e, r)
      | Inr next_generation \<Rightarrow>
          let r = r\<lparr>afr_bindings := affinity_prune_expired (afr_bindings r) now\<rparr> in
          (case assignment_candidate sha256 r key candidates now of
             Inl e \<Rightarrow> (Inl e, r)
           | Inr candidate \<Rightarrow>
          (case ensure_capacity r key of
             Inl e \<Rightarrow> (Inl e, r)
           | Inr _ \<Rightarrow>
               let binding = \<lparr>afb_key = key, afb_candidate = candidate, afb_expires_at = expires_at\<rparr> in
               (Inr binding,
                r\<lparr>afr_bindings := hm_insert key binding (afr_bindings r), afr_generation := next_generation\<rparr>)))))"

definition AffinityRegistry_expire :: "AffinityTime \<Rightarrow> (AffinityRegistry, AccountAffinityError, nat) update" where
  "AffinityRegistry_expire now r =
     (if afr_poisoned r then (Inl (affinity_error AffinityStateUnavailable), r)
      else let has_expired = list_ex (\<lambda>(_, binding). afb_expires_at binding \<le> now) (afr_bindings r) in
      case (if has_expired then map_sum id Some (AffinityGeneration_next (afr_generation r)) else Inr None) of
        Inl e \<Rightarrow> (Inl e, r)
      | Inr next_generation \<Rightarrow>
          let bindings = affinity_prune_expired (afr_bindings r) now;
              removed = length (afr_bindings r) - length bindings;
              r = r\<lparr>afr_bindings := bindings\<rparr>
          in (Inr removed,
              case next_generation of
                Some generation \<Rightarrow> if 0 < removed then r\<lparr>afr_generation := generation\<rparr> else r
              | None \<Rightarrow> r))"

definition AffinityRegistry_rotate_epoch ::
  "AffinityGeneration \<Rightarrow> (AffinityRegistry, AccountAffinityError, AffinityEpoch \<times> AffinityGeneration) update" where
  "AffinityRegistry_rotate_epoch expected_generation r =
     (if afr_poisoned r then (Inl (affinity_error AffinityStateUnavailable), r)
      else if afr_generation r \<noteq> expected_generation then (Inl (affinity_error AffinityGenerationConflict), r)
      else (case AffinityEpoch_next (afr_epoch r) of
              Inl e \<Rightarrow> (Inl e, r)
            | Inr next_epoch \<Rightarrow>
           (case AffinityGeneration_next (afr_generation r) of
              Inl e \<Rightarrow> (Inl e, r)
            | Inr next_generation \<Rightarrow>
                (Inr (next_epoch, next_generation),
                 r\<lparr>afr_epoch := next_epoch, afr_bindings := [], afr_generation := next_generation\<rparr>))))"

section \<open>Ranking\<close>

text \<open>The winner of the loop is a candidate with the least score.\<close>

definition best_of :: "digest \<Rightarrow> AffinityKey \<Rightarrow> AffinityCandidateId set \<Rightarrow> u8 list \<times> AffinityCandidateId \<Rightarrow> bool" where
  "best_of sha256 key cs best \<longleftrightarrow>
     snd best \<in> cs \<and> fst best = candidate_score sha256 key (snd best)
     \<and> (\<forall>c \<in> cs. fst best \<le> candidate_score sha256 key c)"

lemma fold_better_candidate:
  "best_of sha256 key seen best \<Longrightarrow>
     \<exists>b. fold (better_candidate sha256 key) cs (Some best) = Some b \<and> best_of sha256 key (seen \<union> set cs) b"
proof (induction cs arbitrary: seen best)
  case Nil
  then show ?case by simp
next
  case (Cons c cs)
  let ?next = "if candidate_score sha256 key c < fst best then (candidate_score sha256 key c, c) else best"
  have "better_candidate sha256 key c (Some best) = Some ?next"
    by (cases best) (simp add: better_candidate_def)
  moreover have "best_of sha256 key (insert c seen) ?next"
    using Cons.prems by (auto simp: best_of_def intro: order_trans less_imp_le)
  ultimately show ?case using Cons.IH [of "insert c seen" ?next] by simp
qed

lemma deterministic_candidate_least:
  assumes "deterministic_candidate sha256 key cs = Inr c"
  shows "c \<in> set cs" and "\<And>d. d \<in> set cs \<Longrightarrow> candidate_score sha256 key c \<le> candidate_score sha256 key d"
proof -
  obtain x xs where cs: "cs = x # xs"
    using assms by (cases cs) (auto simp: deterministic_candidate_def)
  have "best_of sha256 key {x} (candidate_score sha256 key x, x)" by (simp add: best_of_def)
  from fold_better_candidate [OF this, of xs] obtain b where
    b: "fold (better_candidate sha256 key) cs None = Some b" "best_of sha256 key (set cs) b"
    by (auto simp: cs better_candidate_def)
  with assms have "c = snd b" by (simp add: deterministic_candidate_def)
  with b(2) show "c \<in> set cs" "\<And>d. d \<in> set cs \<Longrightarrow> candidate_score sha256 key c \<le> candidate_score sha256 key d"
    by (auto simp: best_of_def)
qed

lemma deterministic_candidate_ok: "cs \<noteq> [] \<Longrightarrow> \<exists>c. deterministic_candidate sha256 key cs = Inr c"
proof -
  assume "cs \<noteq> []"
  then obtain x xs where cs: "cs = x # xs" by (cases cs) auto
  have "best_of sha256 key {x} (candidate_score sha256 key x, x)" by (simp add: best_of_def)
  from fold_better_candidate [OF this, of xs] show ?thesis
    by (auto simp: cs deterministic_candidate_def better_candidate_def)
qed

text \<open>When the scores tell candidates apart, the choice stays while it is on offer, whatever else leaves.\<close>

lemma deterministic_candidate_stable:
  assumes "deterministic_candidate sha256 key cs = Inr c" and "set ds \<subseteq> set cs" and "c \<in> set ds"
    and "inj_on (candidate_score sha256 key) (set cs)"
  shows "deterministic_candidate sha256 key ds = Inr c"
proof -
  obtain d where d: "deterministic_candidate sha256 key ds = Inr d"
    using deterministic_candidate_ok [of ds] assms(3) by (metis empty_iff empty_set)
  have "candidate_score sha256 key d = candidate_score sha256 key c"
    using deterministic_candidate_least [OF assms(1)] deterministic_candidate_least [OF d] assms(2,3)
    by (meson order_antisym subsetD)
  then have "d = c"
    using assms(2,3,4) deterministic_candidate_least(1) [OF assms(1)] deterministic_candidate_least(1) [OF d]
    by (meson inj_onD subsetD)
  with d show ?thesis by simp
qed

section \<open>The invariant\<close>

datatype affinity_label =
  AssignBinding AffinityKey "AffinityCandidateId list" AffinityTime u64 | ExpireBindings AffinityTime | RotateEpoch AffinityGeneration

inductive affinity_step :: "digest \<Rightarrow> AffinityRegistry \<Rightarrow> affinity_label \<Rightarrow> AffinityRegistry \<Rightarrow> bool" for sha256 where
  assign_binding_step: "AffinityRegistry_assign sha256 key cs now ttl r = (res, r') \<Longrightarrow> affinity_step sha256 r (AssignBinding key cs now ttl) r'"
| expire_bindings_step: "AffinityRegistry_expire now r = (res, r') \<Longrightarrow> affinity_step sha256 r (ExpireBindings now) r'"
| rotate_epoch_step: "AffinityRegistry_rotate_epoch g r = (res, r') \<Longrightarrow> affinity_step sha256 r (RotateEpoch g) r'"

inductive_cases affinity_step_cases: "affinity_step sha256 r l r'"

definition affinity_init :: "AffinityRegistry \<Rightarrow> bool" where
  "affinity_init r \<longleftrightarrow> (\<exists>t e g. r = AffinityRegistry_with_versions t e g)"

definition binding_ok :: "AffinityRegistry \<Rightarrow> AffinityKey \<times> AffinityBinding \<Rightarrow> bool" where
  "binding_ok r e \<longleftrightarrow>
     afb_key (snd e) = fst e \<and> afk_tenant_id (fst e) = afr_tenant_id r \<and> afk_epoch (fst e) = afr_epoch r"

definition affinity_inv :: "AffinityRegistry \<Rightarrow> bool" where
  "affinity_inv r \<longleftrightarrow>
     distinct (map fst (afr_bindings r)) \<and> list_all (binding_ok r) (afr_bindings r)
     \<and> length (afr_bindings r) \<le> MAX_BINDINGS"

lemma assign_cases [consumes 1, case_names refused full stored]:
  assumes "AffinityRegistry_assign sha256 key cs now ttl r = (res, r')"
  obtains (refused) e where "res = Inl e" "r' = r"
  | (full) "res = Inl (affinity_error AffinityCapacityExceeded)"
      "r' = r\<lparr>afr_bindings := affinity_prune_expired (afr_bindings r) now\<rparr>"
      "map_of (affinity_prune_expired (afr_bindings r) now) key = None"
      "MAX_BINDINGS \<le> length (affinity_prune_expired (afr_bindings r) now)"
  | (stored) expires g candidate b where "cs \<noteq> []" "checked_add now ttl = Some expires" "validate_key r key = Inr ()"
      "unat g = unat (afr_generation r) + 1"
      "assignment_candidate sha256 (r\<lparr>afr_bindings := affinity_prune_expired (afr_bindings r) now\<rparr>) key cs now = Inr candidate"
      "ensure_capacity (r\<lparr>afr_bindings := affinity_prune_expired (afr_bindings r) now\<rparr>) key = Inr ()"
      "b = \<lparr>afb_key = key, afb_candidate = candidate, afb_expires_at = expires\<rparr>" "res = Inr b"
      "r' = r\<lparr>afr_bindings := hm_insert key b (affinity_prune_expired (afr_bindings r) now), afr_generation := g\<rparr>"
proof -
  let ?r = "r\<lparr>afr_bindings := affinity_prune_expired (afr_bindings r) now\<rparr>"
  have no_error: "\<exists>c. assignment_candidate sha256 ?r key cs now = Inr c" if "cs \<noteq> []"
    using deterministic_candidate_ok [OF that] by (auto simp: assignment_candidate_def split: option.splits)
  have cs: "validate_assignment_inputs cs ttl = Inr u \<Longrightarrow> cs \<noteq> []" for u
    by (auto simp: validate_assignment_inputs_def affinity_validate_candidates_def bind_result_eq_Inr split: if_splits)
  show thesis
    using assms no_error cs
    by (auto simp: AffinityRegistry_assign_def Let_def affinity_time_add_def ok_or_eq prepare_assignment_def
          bind_result_eq_Inr AffinityGeneration_next_def checked_add_eq_Some ensure_capacity_def
          split: sum.splits if_splits intro: refused full stored)
qed

lemma prune_sublist:
  "set (affinity_prune_expired m now) \<subseteq> set m" "length (affinity_prune_expired m now) \<le> length m"
  "distinct (map fst m) \<Longrightarrow> distinct (map fst (affinity_prune_expired m now))"
  by (auto simp: affinity_prune_expired_def distinct_map_filter)

lemma binding_ok_frame [simp]:
  "binding_ok (r\<lparr>afr_bindings := m\<rparr>) = binding_ok r" "binding_ok (r\<lparr>afr_generation := g\<rparr>) = binding_ok r"
  by (simp_all add: binding_ok_def fun_eq_iff)

lemma affinity_inv_prune:
  "affinity_inv r \<Longrightarrow> affinity_inv (r\<lparr>afr_bindings := affinity_prune_expired (afr_bindings r) now\<rparr>)"
  using prune_sublist [of "afr_bindings r" now] by (auto simp: affinity_inv_def list_all_iff)

lemma hm_insert_set: "set (hm_insert k v m) = insert (k, v) {e \<in> set m. fst e \<noteq> k}"
  by (auto simp: hm_insert_def)

lemma map_of_hm_insert [simp]: "map_of (hm_insert k v m) = (map_of m)(k \<mapsto> v)"
proof
  fix x
  have "map_of (filter (\<lambda>e. fst e \<noteq> k) m) x = (if x = k then None else map_of m x)"
    by (induction m) auto
  then show "map_of (hm_insert k v m) x = ((map_of m)(k \<mapsto> v)) x" by (simp add: hm_insert_def)
qed

lemma distinct_hm_insert: "distinct (map fst m) \<Longrightarrow> distinct (map fst (hm_insert k v m))"
  by (auto simp: hm_insert_def distinct_map_filter)

lemma length_hm_insert:
  assumes "distinct (map fst m)"
  shows "length (hm_insert k v m) = (if map_of m k = None then Suc (length m) else length m)"
proof (cases "map_of m k")
  case None
  then have "filter (\<lambda>e. fst e \<noteq> k) m = m" by (auto simp: map_of_eq_None_iff intro!: filter_True)
  with None show ?thesis by (simp add: hm_insert_def)
next
  case (Some w)
  have "distinct (map fst m) \<Longrightarrow> map_of m k = Some w \<Longrightarrow> Suc (length (filter (\<lambda>e. fst e \<noteq> k) m)) = length m"
  proof (induction m)
    case (Cons e m)
    show ?case
    proof (cases "fst e = k")
      case True
      then have "filter (\<lambda>e. fst e \<noteq> k) m = m" using Cons.prems(1) unfolding filter_id_conv by (auto intro: rev_image_eqI)
      with True show ?thesis by simp
    qed (use Cons in \<open>auto split: if_splits\<close>)
  qed simp
  with Some assms show ?thesis by (simp add: hm_insert_def)
qed

lemma assign_inv:
  assumes "AffinityRegistry_assign sha256 key cs now ttl r = (res, r')" and "affinity_inv r"
  shows "affinity_inv r'"
  using assms(1)
proof (cases rule: assign_cases)
  case (refused e)
  with assms(2) show ?thesis by simp
next
  case full
  with assms(2) show ?thesis by (simp add: affinity_inv_prune)
next
  case (stored expires g candidate b)
  let ?m = "affinity_prune_expired (afr_bindings r) now"
  have inv: "affinity_inv (r\<lparr>afr_bindings := ?m\<rparr>)" using assms(2) by (rule affinity_inv_prune)
  have "binding_ok r (key, b)"
    using stored(3,7) by (auto simp: binding_ok_def validate_key_def split: if_splits)
  then have "list_all (binding_ok r) (hm_insert key b ?m)"
    using inv by (auto simp: affinity_inv_def list_all_iff hm_insert_set)
  moreover have "length (hm_insert key b ?m) \<le> MAX_BINDINGS"
    using inv stored(6) by (auto simp: affinity_inv_def length_hm_insert ensure_capacity_def split: if_splits)
  ultimately show ?thesis
    using inv stored(9) by (simp add: affinity_inv_def distinct_hm_insert)
qed

lemma expire_cases [consumes 1, case_names refused pruned]:
  assumes "AffinityRegistry_expire now r = (res, r')"
  obtains (refused) e where "res = Inl e" "r' = r"
  | (pruned) n g where "res = Inr n"
      "r' = r\<lparr>afr_bindings := affinity_prune_expired (afr_bindings r) now, afr_generation := g\<rparr>"
      "g = afr_generation r \<longleftrightarrow> affinity_prune_expired (afr_bindings r) now = afr_bindings r"
proof (cases "list_ex (\<lambda>(_, b). afb_expires_at b \<le> now) (afr_bindings r)")
  case True
  then have lt: "length (affinity_prune_expired (afr_bindings r) now) < length (afr_bindings r)"
    unfolding affinity_prune_expired_def list_ex_iff by (auto simp: not_less intro: length_filter_less)
  show thesis
    using assms True lt
    by (auto simp: AffinityRegistry_expire_def Let_def AffinityGeneration_next_def ok_or_def checked_add_def
          split: if_splits option.splits intro: refused)
       (rule pruned, auto)
next
  case False
  then have eq: "affinity_prune_expired (afr_bindings r) now = afr_bindings r"
    unfolding affinity_prune_expired_def list_ex_iff by (auto simp: not_le intro!: filter_True)
  show thesis
  proof (cases "afr_poisoned r")
    case True
    with assms show thesis by (auto simp: AffinityRegistry_expire_def intro: refused)
  next
    case unpoisoned: False
    with assms False have "res = Inr 0" "r' = r" by (auto simp: AffinityRegistry_expire_def Let_def eq)
    then show thesis by (intro pruned [of 0 "afr_generation r"]) (simp_all add: eq)
  qed
qed

lemma rotate_cases [consumes 1, case_names refused rotated]:
  assumes "AffinityRegistry_rotate_epoch expected r = (res, r')"
  obtains (refused) e where "res = Inl e" "r' = r"
  | (rotated) e g where "res = Inr (e, g)" "unat e = unat (afr_epoch r) + 1" "unat g = unat (afr_generation r) + 1"
      "r' = r\<lparr>afr_epoch := e, afr_bindings := [], afr_generation := g\<rparr>"
proof (cases "afr_poisoned r \<or> afr_generation r \<noteq> expected")
  case True
  with assms show thesis by (auto simp: AffinityRegistry_rotate_epoch_def split: if_splits intro: refused)
next
  case False
  show thesis
  proof (cases "AffinityEpoch_next (afr_epoch r)")
    case (Inl e)
    with assms False show thesis by (intro refused [of e]) (auto simp: AffinityRegistry_rotate_epoch_def)
  next
    case epoch: (Inr e)
    show thesis
    proof (cases "AffinityGeneration_next (afr_generation r)")
      case (Inl err)
      with assms False epoch show thesis by (intro refused [of err]) (auto simp: AffinityRegistry_rotate_epoch_def)
    next
      case (Inr g)
      have "unat e = unat (afr_epoch r) + 1" "unat g = unat (afr_generation r) + 1"
        using epoch Inr by (simp_all add: AffinityEpoch_next_def AffinityGeneration_next_def ok_or_eq checked_add_eq_Some)
      with Inr assms False epoch show thesis
        by (intro rotated [of e g]) (auto simp: AffinityRegistry_rotate_epoch_def)
    qed
  qed
qed

interpretation affinity: invariant_system affinity_init "affinity_step sha256" affinity_inv for sha256
proof
  show "affinity_inv r" if "affinity_init r" for r
    using that by (auto simp: affinity_init_def affinity_inv_def AffinityRegistry_with_versions_def)
  show "affinity_inv t" if "affinity_inv r" "affinity_step sha256 r l t" for r l t
    using that(2,1)
  proof (induction rule: affinity_step.induct)
    case (assign_binding_step key cs now ttl r res r')
    then show ?case using assign_inv by blast
  next
    case (expire_bindings_step now r res r')
    then show ?case using affinity_inv_prune [of r now]
      by (cases rule: expire_cases) (auto simp: affinity_inv_def)
  next
    case (rotate_epoch_step g r res r')
    then show ?case by (cases rule: rotate_cases) (auto simp: affinity_inv_def)
  qed
qed

text \<open>
  A refused assignment leaves the registry as it was: the one refusal after expired bindings are
  dropped is that of a full registry, and a registry that drops a binding is not full.
\<close>

lemma refused_assignment_changes_nothing:
  assumes "affinity_inv r" and "AffinityRegistry_assign sha256 key cs now ttl r = (Inl e, r')"
  shows "r' = r"
  using assms(2)
proof (cases rule: assign_cases)
  case full
  let ?m = "affinity_prune_expired (afr_bindings r) now"
  have "length ?m = length (afr_bindings r)"
    using full(4) assms(1) prune_sublist(2) [of "afr_bindings r" now] by (simp add: affinity_inv_def)
  then have "?m = afr_bindings r"
    unfolding affinity_prune_expired_def filter_id_conv by (metis length_filter_less less_irrefl)
  with full(2) show ?thesis by simp
qed simp_all

section \<open>Stickiness\<close>

text \<open>
  A binding that will be live until \<open>expires\<close> survives every call made before then by a caller for
  another key, and every call for its own key that still offers its candidate.
\<close>

definition bound_until :: "AffinityRegistry \<Rightarrow> AffinityKey \<Rightarrow> AffinityCandidateId \<Rightarrow> AffinityTime \<Rightarrow> bool" where
  "bound_until r key candidate expires \<longleftrightarrow>
     (\<exists>b. map_of (afr_bindings r) key = Some b \<and> afb_candidate b = candidate \<and> expires \<le> afb_expires_at b)"

fun keeps_binding :: "AffinityKey \<Rightarrow> AffinityCandidateId \<Rightarrow> AffinityTime \<Rightarrow> affinity_label \<Rightarrow> bool" where
  "keeps_binding key candidate expires (AssignBinding k cs now ttl) \<longleftrightarrow>
     now < expires \<and> (k = key \<longrightarrow> candidate \<in> set cs \<and> unat expires \<le> unat now + unat ttl)"
| "keeps_binding key candidate expires (ExpireBindings now) \<longleftrightarrow> now < expires"
| "keeps_binding key candidate expires (RotateEpoch g) \<longleftrightarrow> False"

lemma map_of_prune:
  "map_of m key = Some b \<Longrightarrow> distinct (map fst m) \<Longrightarrow> now < afb_expires_at b \<Longrightarrow>
     map_of (affinity_prune_expired m now) key = Some b"
  by (intro map_of_is_SomeI prune_sublist(3))
     (auto simp: affinity_prune_expired_def dest: map_of_SomeD)

lemma bound_until_prune:
  "bound_until r key candidate expires \<Longrightarrow> affinity_inv r \<Longrightarrow> now < expires \<Longrightarrow>
     bound_until (r\<lparr>afr_bindings := affinity_prune_expired (afr_bindings r) now\<rparr>) key candidate expires"
  unfolding bound_until_def affinity_inv_def by (fastforce intro: map_of_prune)

lemma bound_until_step:
  assumes "affinity_step sha256 r l r'" and "affinity_inv r" and "bound_until r key candidate expires"
    and "keeps_binding key candidate expires l"
  shows "bound_until r' key candidate expires"
  using assms
proof (cases rule: affinity_step.cases)
  case (assign_binding_step k cs now ttl res)
  let ?r = "r\<lparr>afr_bindings := affinity_prune_expired (afr_bindings r) now\<rparr>"
  have now: "now < expires" using assms(4) assign_binding_step(1) by simp
  have pruned: "bound_until ?r key candidate expires" using assms(2,3) now by (intro bound_until_prune)
  from assign_binding_step(2) show ?thesis
  proof (cases rule: assign_cases)
    case (stored until g chosen b)
    show ?thesis
    proof (cases "k = key")
      case True
      obtain old where old: "map_of (afr_bindings ?r) key = Some old" "afb_candidate old = candidate"
        "expires \<le> afb_expires_at old" using pruned by (auto simp: bound_until_def)
      have "(key, old) \<in> set (afr_bindings ?r)" using old(1) by (rule map_of_SomeD)
      then have "afb_key old = key"
        using affinity_inv_prune [OF assms(2), of now] by (auto simp: affinity_inv_def list_all_iff binding_ok_def)
      then have "is_live old key now" using old(3) now by (auto simp: is_live_def)
      then have "chosen = candidate"
        using stored(5) old assms(4) assign_binding_step(1) True by (auto simp: assignment_candidate_def list_ex_iff)
      moreover have "expires \<le> until"
        using stored(2) assms(4) assign_binding_step(1) True by (simp add: checked_add_eq_Some word_le_nat_alt)
      ultimately show ?thesis using stored(7,9) True by (simp add: bound_until_def)
    next
      case False
      with pruned stored(9) show ?thesis by (auto simp: bound_until_def)
    qed
  qed (use assms(3) pruned in simp_all)
next
  case (expire_bindings_step now res)
  then have "now < expires" using assms(4) by simp
  with bound_until_prune [OF assms(3,2)] have "bound_until (r\<lparr>afr_bindings := affinity_prune_expired (afr_bindings r) now\<rparr>) key candidate expires"
    by blast
  with expire_bindings_step(2) assms(3) show ?thesis by (cases rule: expire_cases) (auto simp: bound_until_def)
qed simp

lemma bound_until_run:
  assumes "run (affinity_step sha256) r ls r'" and "affinity_inv r" and "bound_until r key candidate expires"
    and "list_all (keeps_binding key candidate expires) ls"
  shows "bound_until r' key candidate expires \<and> affinity_inv r'"
  using assms by (induction rule: run.induct) (auto intro: bound_until_step affinity.step_inv)

lemma affinity_step_poisoned: "affinity_step sha256 r l r' \<Longrightarrow> afr_poisoned r' = afr_poisoned r"
  by (induction rule: affinity_step.induct)
     (auto elim!: assign_cases expire_cases rotate_cases)

lemma affinity_run_poisoned: "run (affinity_step sha256) r ls r' \<Longrightarrow> afr_poisoned r' = afr_poisoned r"
  by (induction rule: run.induct) (auto dest: affinity_step_poisoned)

lemma select_bound:
  assumes "affinity_inv r" and "bound_until r key candidate expires" and "now < expires" and "candidate \<in> set ds"
    and "length ds \<le> MAX_AFFINITY_CANDIDATES" and "\<not> afr_poisoned r"
  shows "AffinityRegistry_select sha256 r key ds now = Inr candidate"
proof -
  obtain b where b: "map_of (afr_bindings r) key = Some b" "afb_candidate b = candidate" "expires \<le> afb_expires_at b"
    using assms(2) by (auto simp: bound_until_def)
  then have "(key, b) \<in> set (afr_bindings r)" by (intro map_of_SomeD)
  then have ok: "binding_ok r (key, b)" using assms(1) by (auto simp: affinity_inv_def list_all_iff)
  then have "is_live b key now" using assms(3) b(3) by (auto simp: is_live_def binding_ok_def)
  moreover obtain i where i: "list_position (\<lambda>c. c = candidate) ds = Some i"
    using assms(4) list_position_None [of "\<lambda>c. c = candidate" ds] by auto
  ultimately have "live_candidate_index r key ds now = Some i" using b by (simp add: live_candidate_index_def)
  moreover have "ds ! i = candidate" using list_position_Some [OF i] by simp
  moreover have "ds \<noteq> []" using assms(4) by auto
  ultimately show ?thesis
    using assms(5,6) ok
    by (auto simp: AffinityRegistry_select_def affinity_validate_candidates_def validate_key_def binding_ok_def)
qed

lemma assign_binds:
  assumes "AffinityRegistry_assign sha256 key cs now ttl r = (Inr b, r')"
  shows "bound_until r' key (afb_candidate b) (afb_expires_at b)" and "afb_candidate b \<in> set cs" and "\<not> afr_poisoned r'"
proof -
  have "afb_candidate b \<in> set cs \<and> bound_until r' key (afb_candidate b) (afb_expires_at b)"
    using assms
  proof (cases rule: assign_cases)
    case (stored expires g candidate b')
    then have "candidate \<in> set cs"
      by (auto simp: assignment_candidate_def list_ex_iff split: option.splits if_splits
            dest: deterministic_candidate_least(1))
    with stored show ?thesis by (simp add: bound_until_def)
  qed simp_all
  then show "bound_until r' key (afb_candidate b) (afb_expires_at b)" "afb_candidate b \<in> set cs" by blast+
  have "\<not> afr_poisoned r" using assms by (auto simp: AffinityRegistry_assign_def split: sum.splits if_splits)
  with affinity_step_poisoned [OF assign_binding_step [OF assms]] show "\<not> afr_poisoned r'" by simp
qed

text \<open>
  C26: Affinity is sticky. After an assignment in any reachable registry, and any further calls made
  before its expiry, by other keys or by the same key still offering the candidate for at least as
  long, without a rotation, a selection for the key before that expiry returns the assigned candidate
  whenever it is among those on offer.
\<close>

theorem affinity_is_sticky:
  assumes "reachable affinity_init (affinity_step sha256) r"
    and "AffinityRegistry_assign sha256 key cs now ttl r = (Inr b, r1)"
    and "run (affinity_step sha256) r1 ls r2"
    and "list_all (keeps_binding key (afb_candidate b) (afb_expires_at b)) ls"
    and "later < afb_expires_at b" and "afb_candidate b \<in> set ds" and "length ds \<le> MAX_AFFINITY_CANDIDATES"
  shows "AffinityRegistry_select sha256 r2 key ds later = Inr (afb_candidate b)"
proof -
  have "affinity_inv r1" using affinity.reachable_inv [OF assms(1)] assign_inv [OF assms(2)] by blast
  with bound_until_run [OF assms(3) _ assign_binds(1) [OF assms(2)] assms(4)]
  have "bound_until r2 key (afb_candidate b) (afb_expires_at b)" "affinity_inv r2" by blast+
  moreover have "\<not> afr_poisoned r2"
    using assign_binds(3) [OF assms(2)] affinity_run_poisoned [OF assms(3)] by simp
  ultimately show ?thesis using assms(5,6,7) by (intro select_bound)
qed

definition demo_affinity_key :: "u8 \<Rightarrow> AffinityKey" where
  "demo_affinity_key n = \<lparr>afk_tenant_id = ''t'', afk_scope = UserAffinity, afk_id = [n], afk_epoch = 0\<rparr>"

definition demo_registry0 :: AffinityRegistry where
  "demo_registry0 = AffinityRegistry_with_versions ''t'' 0 0"

lemmas affinity_eval = AffinityRegistry_assign_def validate_assignment_inputs_def affinity_validate_candidates_def
  validate_ttl_def MAX_AFFINITY_CANDIDATES_def MAX_AFFINITY_TTL_SECONDS_def affinity_time_add_def checked_add_def
  prepare_assignment_def validate_key_def AffinityGeneration_next_def affinity_prune_expired_def
  assignment_candidate_def ensure_capacity_def MAX_BINDINGS_def deterministic_candidate_def better_candidate_def
  AffinityRegistry_with_versions_def hm_insert_def Let_def

theorem affinity_is_sticky_witness:
  "\<exists>b r1 r2. AffinityRegistry_assign (\<lambda>bs. bs) (demo_affinity_key 1) [''a''] 10 100 demo_registry0 = (Inr b, r1)
     \<and> AffinityRegistry_expire 50 r1 = (Inr 0, r2)
     \<and> AffinityRegistry_select (\<lambda>bs. bs) r2 (demo_affinity_key 1) [''b'', ''a''] 60 = Inr ''a''"
proof -
  let ?key = "demo_affinity_key 1" and ?b = "\<lparr>afb_key = demo_affinity_key 1, afb_candidate = ''a'', afb_expires_at = 110\<rparr>"
  let ?r1 = "demo_registry0\<lparr>afr_bindings := [(?key, ?b)], afr_generation := 1\<rparr>"
  have assign: "AffinityRegistry_assign (\<lambda>bs. bs) ?key [''a''] 10 100 demo_registry0 = (Inr ?b, ?r1)"
    by (simp add: affinity_eval demo_registry0_def demo_affinity_key_def)
  have expire: "AffinityRegistry_expire 50 ?r1 = (Inr 0, ?r1)"
    by (simp add: AffinityRegistry_expire_def affinity_prune_expired_def demo_registry0_def AffinityRegistry_with_versions_def Let_def)
  have reach: "reachable affinity_init (affinity_step (\<lambda>bs. bs)) demo_registry0"
    by (rule reachable_init) (auto simp: affinity_init_def demo_registry0_def)
  have run: "run (affinity_step (\<lambda>bs. bs)) ?r1 [ExpireBindings 50] ?r1"
    using affinity_step.expire_bindings_step [OF expire] by (auto simp: run_Cons_iff)
  have "AffinityRegistry_select (\<lambda>bs. bs) ?r1 ?key [''b'', ''a''] 60 = Inr (afb_candidate ?b)"
    by (rule affinity_is_sticky [OF reach assign run]) (simp_all add: MAX_AFFINITY_CANDIDATES_def)
  with assign expire show ?thesis by auto
qed

end
