(* ===== verification/Model_Pricing.thy ===== *)
theory Model_Pricing
  imports Core_Ids Slices
begin

text \<open>
  The pricing catalog of \<open>ariadnion-model-pricing\<close>: schedules of unit prices by usage dimension, in
  force over half-open windows of time, and the quote for a model, a dimension, a time and a
  quantity. The lemmas show that the pairwise conflict check of a catalog leaves at most one
  schedule in force at every time but the last one, so that a quote does not depend on the order of
  the schedules, and that a quote never wraps around.
\<close>

section \<open>Errors, versions and windows\<close>

definition MAX_MODEL_ID_BYTES :: nat where "MAX_MODEL_ID_BYTES = 128"
definition MAX_SCHEDULES :: nat where "MAX_SCHEDULES = 4096"
definition MAX_DIMENSIONS :: nat where "MAX_DIMENSIONS = 8"
definition MAX_MINOR_UNITS :: u64 where "MAX_MINOR_UNITS = 9000000000000000000"

datatype ModelPricingErrorCode =
  PricingInvalidArgument | PricingLimitExceeded | DuplicatePriceDimension | OverlappingWindow
| DuplicateSchedule | PricingNotFound | PricingOverflow | PricingVersionExhausted

fun pricing_as_str_core :: "ModelPricingErrorCode \<Rightarrow> string" where
  "pricing_as_str_core PricingInvalidArgument = ''MODEL_PRICING_INVALID_ARGUMENT''"
| "pricing_as_str_core PricingLimitExceeded = ''MODEL_PRICING_LIMIT_EXCEEDED''"
| "pricing_as_str_core DuplicatePriceDimension = ''MODEL_PRICING_DUPLICATE_DIMENSION''"
| "pricing_as_str_core OverlappingWindow = ''MODEL_PRICING_OVERLAPPING_WINDOW''"
| "pricing_as_str_core _ = ''MODEL_PRICING_INVALID_ARGUMENT''"

fun pricing_as_str_extended :: "ModelPricingErrorCode \<Rightarrow> string" where
  "pricing_as_str_extended DuplicateSchedule = ''MODEL_PRICING_DUPLICATE_SCHEDULE''"
| "pricing_as_str_extended PricingNotFound = ''MODEL_PRICING_NOT_FOUND''"
| "pricing_as_str_extended PricingOverflow = ''MODEL_PRICING_OVERFLOW''"
| "pricing_as_str_extended PricingVersionExhausted = ''MODEL_PRICING_VERSION_EXHAUSTED''"
| "pricing_as_str_extended _ = ''MODEL_PRICING_INVALID_ARGUMENT''"

definition ModelPricingErrorCode_as_str :: "ModelPricingErrorCode \<Rightarrow> string" where
  "ModelPricingErrorCode_as_str code =
     (if code \<in> {PricingInvalidArgument, PricingLimitExceeded, DuplicatePriceDimension, OverlappingWindow}
      then pricing_as_str_core code else pricing_as_str_extended code)"

record ModelPricingError =
  mpe_code :: ModelPricingErrorCode

definition pricing_error :: "ModelPricingErrorCode \<Rightarrow> ModelPricingError" where
  "pricing_error code = \<lparr>mpe_code = code\<rparr>"

type_synonym PricingCurrency = string

definition PricingCurrency_parse :: "string \<Rightarrow> (ModelPricingError, PricingCurrency) result" where
  "PricingCurrency_parse value =
     (if length value \<noteq> 3 \<or> \<not> list_all is_upper value then Inl (pricing_error PricingInvalidArgument)
      else Inr value)"

type_synonym PricingVersion = u64

definition PricingVersion_initial :: PricingVersion where "PricingVersion_initial = 1"

definition PricingVersion_new :: "u64 \<Rightarrow> (ModelPricingError, PricingVersion) result" where
  "PricingVersion_new value =
     (if value = 0 then Inl (pricing_error PricingInvalidArgument) else Inr value)"

definition PricingVersion_next :: "PricingVersion \<Rightarrow> (ModelPricingError, PricingVersion) result" where
  "PricingVersion_next v = ok_or (pricing_error PricingVersionExhausted) (checked_add v 1)"

record EffectiveWindow =
  ew_start :: u64
  ew_end :: "u64 option"

definition EffectiveWindow_new :: "u64 \<Rightarrow> u64 option \<Rightarrow> (ModelPricingError, EffectiveWindow) result" where
  "EffectiveWindow_new start finish =
     (if (case finish of Some value \<Rightarrow> value \<le> start | None \<Rightarrow> False)
      then Inl (pricing_error PricingInvalidArgument)
      else Inr \<lparr>ew_start = start, ew_end = finish\<rparr>)"

definition window_contains :: "EffectiveWindow \<Rightarrow> u64 \<Rightarrow> bool" where
  "window_contains w timestamp \<longleftrightarrow>
     ew_start w \<le> timestamp \<and> (case ew_end w of Some finish \<Rightarrow> timestamp < finish | None \<Rightarrow> True)"

text \<open>\<open>end.unwrap_or(u64::MAX)\<close>.\<close>

definition window_end :: "EffectiveWindow \<Rightarrow> u64" where
  "window_end w = (case ew_end w of Some finish \<Rightarrow> finish | None \<Rightarrow> - 1)"

definition window_overlaps :: "EffectiveWindow \<Rightarrow> EffectiveWindow \<Rightarrow> bool" where
  "window_overlaps self other \<longleftrightarrow> ew_start self < window_end other \<and> ew_start other < window_end self"

section \<open>Prices, schedules and catalogs\<close>

datatype PriceDimension = InputTokens | OutputTokens | CachedInputTokens | MediaInput | PricedToolCalls

text \<open>The derived order is the order of declaration.\<close>

fun dimension_rank :: "PriceDimension \<Rightarrow> nat" where
  "dimension_rank InputTokens = 0"
| "dimension_rank OutputTokens = 1"
| "dimension_rank CachedInputTokens = 2"
| "dimension_rank MediaInput = 3"
| "dimension_rank PricedToolCalls = 4"

lemma dimension_rank_inject [simp]: "dimension_rank a = dimension_rank b \<longleftrightarrow> a = b"
  by (cases a; cases b) auto

instantiation PriceDimension :: linorder
begin

definition less_eq_PriceDimension :: "PriceDimension \<Rightarrow> PriceDimension \<Rightarrow> bool" where
  "a \<le> b \<longleftrightarrow> dimension_rank a \<le> dimension_rank b"

definition less_PriceDimension :: "PriceDimension \<Rightarrow> PriceDimension \<Rightarrow> bool" where
  "a < b \<longleftrightarrow> dimension_rank a < dimension_rank b"

instance
  by standard
    (auto simp: less_eq_PriceDimension_def less_PriceDimension_def simp flip: dimension_rank_inject)

end

type_synonym PriceMinorUnits = u64

definition PriceMinorUnits_new :: "u64 \<Rightarrow> (ModelPricingError, PriceMinorUnits) result" where
  "PriceMinorUnits_new value =
     (if MAX_MINOR_UNITS < value then Inl (pricing_error PricingOverflow) else Inr value)"

definition price_checked_mul :: "PriceMinorUnits \<Rightarrow> u64 \<Rightarrow> (ModelPricingError, PriceMinorUnits) result" where
  "price_checked_mul price quantity =
     (case try_word (unat price * unat quantity) of
        Some value \<Rightarrow> if value \<le> MAX_MINOR_UNITS then Inr value else Inl (pricing_error PricingOverflow)
      | None \<Rightarrow> Inl (pricing_error PricingOverflow))"

record PriceEntry =
  pe_dimension :: PriceDimension
  pe_price :: PriceMinorUnits

record ModelPricingSchedule =
  mps_model_id :: string
  mps_currency :: PricingCurrency
  mps_version :: PricingVersion
  mps_window :: EffectiveWindow
  mps_entries :: "PriceEntry list"

definition valid_pricing_model_id :: "string \<Rightarrow> bool" where
  "valid_pricing_model_id value \<longleftrightarrow>
     value \<noteq> [] \<and> length value \<le> MAX_MODEL_ID_BYTES \<and> is_ascii value \<and> list_all is_graphic_byte value"

text \<open>Two adjacent entries with the same key: \<open>windows(2).any(..)\<close>.\<close>

text \<open>Entries with distinct keys have one ascending order, which the unstable sort has to find.\<close>

definition ModelPricingSchedule_new ::
  "string \<Rightarrow> PricingCurrency \<Rightarrow> PricingVersion \<Rightarrow> EffectiveWindow \<Rightarrow> (PriceDimension \<times> PriceMinorUnits) list \<Rightarrow>
     (ModelPricingError, ModelPricingSchedule) result" where
  "ModelPricingSchedule_new model_id currency_code version window entries =
     (if \<not> valid_pricing_model_id model_id then Inl (pricing_error PricingInvalidArgument)
      else let es = map (\<lambda>(d, p). \<lparr>pe_dimension = d, pe_price = p\<rparr>) entries in
      if es = [] \<or> MAX_DIMENSIONS < length es then Inl (pricing_error PricingLimitExceeded)
      else let es = sort_key pe_dimension es in
      if adjacent_equal (map pe_dimension es) then Inl (pricing_error DuplicatePriceDimension)
      else Inr \<lparr>mps_model_id = model_id, mps_currency = currency_code, mps_version = version,
                mps_window = window, mps_entries = es\<rparr>)"

definition price_for :: "ModelPricingSchedule \<Rightarrow> PriceDimension \<Rightarrow> PriceMinorUnits option" where
  "price_for s dim =
     map_option (\<lambda>i. pe_price (mps_entries s ! i))
       (binary_search (map pe_dimension (mps_entries s)) dim)"

record PriceQuote =
  pq_currency :: string
  pq_version :: u64
  pq_dimension :: PriceDimension
  pq_price :: u64
  pq_quantity :: u64
  pq_total :: u64

definition shares_dimension :: "ModelPricingSchedule \<Rightarrow> ModelPricingSchedule \<Rightarrow> bool" where
  "shares_dimension left right \<longleftrightarrow>
     list_ex (\<lambda>entry. price_for right (pe_dimension entry) \<noteq> None) (mps_entries left)"

definition schedule_pair_error ::
  "ModelPricingSchedule \<Rightarrow> ModelPricingSchedule \<Rightarrow> ModelPricingErrorCode option" where
  "schedule_pair_error left right =
     (if mps_model_id left \<noteq> mps_model_id right then None
      else if mps_version left = mps_version right \<and> mps_window left = mps_window right
      then Some DuplicateSchedule
      else if window_overlaps (mps_window left) (mps_window right) \<and> shares_dimension left right
      then Some OverlappingWindow
      else None)"

fun validate_schedule_conflicts :: "ModelPricingSchedule list \<Rightarrow> (ModelPricingError, unit) result" where
  "validate_schedule_conflicts [] = Inr ()"
| "validate_schedule_conflicts (s # ss) =
     (case find_map (schedule_pair_error s) ss of
        Some code \<Rightarrow> Inl (pricing_error code)
      | None \<Rightarrow> validate_schedule_conflicts ss)"

record PricingCatalog =
  pca_schedules :: "ModelPricingSchedule list"

definition schedule_key :: "ModelPricingSchedule \<Rightarrow> string \<times> string \<times> u64 \<times> u64" where
  "schedule_key s = (mps_model_id s, mps_currency s, ew_start (mps_window s), mps_version s)"

text \<open>
  The source sorts with an unstable sort; the stable sort is one of its outcomes. Schedules with
  equal keys may come in either order, which no quote depends on (\<open>quote_at_iff\<close> below).
\<close>

definition PricingCatalog_new ::
  "ModelPricingSchedule list \<Rightarrow> (ModelPricingError, PricingCatalog) result" where
  "PricingCatalog_new schedules =
     (if schedules = [] \<or> MAX_SCHEDULES < length schedules then Inl (pricing_error PricingLimitExceeded)
      else let ss = sort_key schedule_key schedules in
      bind_result (validate_schedule_conflicts ss) (\<lambda>_. Inr \<lparr>pca_schedules = ss\<rparr>))"

definition schedule_applies :: "string \<Rightarrow> PriceDimension \<Rightarrow> u64 \<Rightarrow> ModelPricingSchedule \<Rightarrow> bool" where
  "schedule_applies model_id dim timestamp s \<longleftrightarrow>
     mps_model_id s = model_id \<and> window_contains (mps_window s) timestamp \<and> price_for s dim \<noteq> None"

definition quote_at ::
  "PricingCatalog \<Rightarrow> string \<Rightarrow> PriceDimension \<Rightarrow> u64 \<Rightarrow> u64 \<Rightarrow> (ModelPricingError, PriceQuote) result" where
  "quote_at catalog model_id dim timestamp quantity =
     bind_result (ok_or (pricing_error PricingNotFound)
       (find (schedule_applies model_id dim timestamp) (pca_schedules catalog))) (\<lambda>s.
     bind_result (ok_or (pricing_error PricingNotFound) (price_for s dim)) (\<lambda>price.
     bind_result (price_checked_mul price quantity) (\<lambda>total.
       Inr \<lparr>pq_currency = mps_currency s, pq_version = mps_version s, pq_dimension = dim,
            pq_price = price, pq_quantity = quantity, pq_total = total\<rparr>)))"

section \<open>Schedules\<close>

definition schedule_ok :: "ModelPricingSchedule \<Rightarrow> bool" where
  "schedule_ok s \<longleftrightarrow>
     sorted_wrt (<) (map pe_dimension (mps_entries s)) \<and> mps_entries s \<noteq> []
     \<and> (\<forall>finish. ew_end (mps_window s) = Some finish \<longrightarrow> ew_start (mps_window s) < finish)"

lemma EffectiveWindow_new_ok:
  "EffectiveWindow_new start finish = Inr w \<longleftrightarrow>
     (\<forall>e. finish = Some e \<longrightarrow> start < e) \<and> w = \<lparr>ew_start = start, ew_end = finish\<rparr>"
  by (auto simp: EffectiveWindow_new_def split: option.splits)

lemma ModelPricingSchedule_new_ok:
  assumes "EffectiveWindow_new start finish = Inr window"
    and "ModelPricingSchedule_new model_id cur version window entries = Inr s"
  shows "schedule_ok s"
  using assms
  by (auto simp: ModelPricingSchedule_new_def EffectiveWindow_new_ok schedule_ok_def Let_def
        adjacent_equal_sorted split: if_splits dest!: arg_cong [of "sort_key _ _" _ length])

lemma price_for_Some:
  assumes "schedule_ok s"
  shows "price_for s d = Some p \<longleftrightarrow> (\<exists>e \<in> set (mps_entries s). pe_dimension e = d \<and> pe_price e = p)"
proof -
  let ?es = "mps_entries s"
  have "binary_search (map pe_dimension ?es) d = Some i \<longleftrightarrow> i < length ?es \<and> pe_dimension (?es ! i) = d" for i
    using assms binary_search_correct [of "map pe_dimension ?es" d i] by (auto simp: schedule_ok_def)
  then have "price_for s d = Some p \<longleftrightarrow> (\<exists>i < length ?es. pe_dimension (?es ! i) = d \<and> pe_price (?es ! i) = p)"
    by (auto simp: price_for_def)
  then show ?thesis unfolding set_conv_nth by blast
qed

lemma shares_dimension_iff:
  assumes "schedule_ok left"
  shows "shares_dimension left right \<longleftrightarrow> (\<exists>d. price_for left d \<noteq> None \<and> price_for right d \<noteq> None)"
  using price_for_Some [OF assms] unfolding shares_dimension_def list_ex_iff
  by (metis not_None_eq)

text \<open>
  The overlap test is exact for every time but \<open>u64::MAX\<close>, which an unbounded window contains and
  the test does not see.
\<close>

lemma window_contains_below:
  "t \<noteq> - 1 \<Longrightarrow> window_contains w t \<longleftrightarrow> ew_start w \<le> t \<and> t < window_end w"
  by (auto simp: window_contains_def window_end_def word_order.not_eq_extremum split: option.splits)

lemma window_overlaps_iff:
  assumes "ew_start a < window_end a" and "ew_start b < window_end b"
  shows "window_overlaps a b \<longleftrightarrow> (\<exists>t. t \<noteq> - 1 \<and> window_contains a t \<and> window_contains b t)"
proof
  assume "window_overlaps a b"
  then have "ew_start a < window_end b" "ew_start b < window_end a" by (simp_all add: window_overlaps_def)
  then have "max (ew_start a) (ew_start b) < window_end a" "max (ew_start a) (ew_start b) < window_end b"
    using assms by auto
  moreover from this have "max (ew_start a) (ew_start b) \<noteq> - 1"
    using word_order.extremum_strict by fastforce
  ultimately show "\<exists>t. t \<noteq> - 1 \<and> window_contains a t \<and> window_contains b t"
    by (intro exI [of _ "max (ew_start a) (ew_start b)"]) (simp add: window_contains_below)
next
  assume "\<exists>t. t \<noteq> - 1 \<and> window_contains a t \<and> window_contains b t"
  then show "window_overlaps a b"
    by (auto simp: window_contains_below window_overlaps_def)
qed

section \<open>Catalogs\<close>

lemma validate_schedule_conflicts_ok:
  "validate_schedule_conflicts ss = Inr u \<longleftrightarrow> sorted_wrt (\<lambda>a b. schedule_pair_error a b = None) ss"
  by (induction ss) (auto simp flip: find_map_None split: option.splits)

text \<open>Two schedules that both apply before the last instant conflict.\<close>

lemma applying_schedules_conflict:
  assumes "schedule_ok a" and "schedule_applies m d t a" and "schedule_applies m d t b" and "t \<noteq> - 1"
  shows "schedule_pair_error a b \<noteq> None"
proof -
  have "shares_dimension a b"
    using assms by (auto simp: shares_dimension_iff schedule_applies_def)
  moreover have "window_overlaps (mps_window a) (mps_window b)"
    using assms by (auto simp: schedule_applies_def window_contains_below window_overlaps_def)
  ultimately show ?thesis using assms by (auto simp: schedule_pair_error_def schedule_applies_def)
qed

lemma PricingCatalog_new_ok:
  assumes "PricingCatalog_new ss = Inr c"
  shows "pca_schedules c = sort_key schedule_key ss" and "set (pca_schedules c) = set ss"
    and "sorted_wrt (\<lambda>a b. schedule_pair_error a b = None) (pca_schedules c)"
  using assms by (auto simp: PricingCatalog_new_def Let_def results validate_schedule_conflicts_ok split: if_splits)

lemma catalog_at_most_one:
  assumes "PricingCatalog_new ss = Inr c" and "\<forall>s \<in> set ss. schedule_ok s" and "t \<noteq> - 1"
  shows "length (filter (schedule_applies m d t) (pca_schedules c)) \<le> 1"
proof (rule filter_pairwise_at_most_one [OF PricingCatalog_new_ok(3) [OF assms(1)]])
  fix x y
  assume "x \<in> set (pca_schedules c)" "schedule_applies m d t x" "schedule_applies m d t y"
  then show "\<not> schedule_pair_error x y = None"
    using applying_schedules_conflict assms PricingCatalog_new_ok(2) [OF assms(1)] by blast
qed

lemma price_checked_mul_ok:
  "price_checked_mul p q = Inr v \<longleftrightarrow> unat v = unat p * unat q \<and> v \<le> MAX_MINOR_UNITS"
  using unat_lt_width [of v] by (auto simp: price_checked_mul_def machine split: option.splits)

lemma quote_at_iff:
  assumes "PricingCatalog_new ss = Inr c" and "\<forall>s \<in> set ss. schedule_ok s" and "t \<noteq> - 1"
  shows "quote_at c m d t n = Inr quote \<longleftrightarrow>
    (\<exists>s \<in> set ss. schedule_applies m d t s \<and>
      (\<exists>p v. price_for s d = Some p \<and> unat v = unat p * unat n \<and> v \<le> MAX_MINOR_UNITS \<and>
        quote = \<lparr>pq_currency = mps_currency s, pq_version = mps_version s, pq_dimension = d,
                 pq_price = p, pq_quantity = n, pq_total = v\<rparr>))"
  using filter_singleton_iff [OF catalog_at_most_one [OF assms]] PricingCatalog_new_ok(2) [OF assms(1)]
  by (auto simp: quote_at_def results price_checked_mul_ok)

lemma quote_at_not_found:
  assumes "PricingCatalog_new ss = Inr c"
  shows "quote_at c m d t n = Inl (pricing_error PricingNotFound) \<longleftrightarrow> (\<forall>s \<in> set ss. \<not> schedule_applies m d t s)"
proof -
  have "find (schedule_applies m d t) (pca_schedules c) = None \<longleftrightarrow> (\<forall>s \<in> set ss. \<not> schedule_applies m d t s)"
    using PricingCatalog_new_ok(2) [OF assms] by (auto simp: find_None_iff)
  moreover have "price_for s d \<noteq> None" if "find (schedule_applies m d t) (pca_schedules c) = Some s" for s
    using that by (auto simp: find_Some_iff schedule_applies_def)
  ultimately show ?thesis
    by (auto simp: quote_at_def results price_checked_mul_def pricing_error_def split: option.splits if_splits)
qed

text \<open>
  C30: For an accepted catalog and any time before the last representable one, at most one schedule
  applies to a model and a dimension; a quote is given exactly when one applies and the product of
  its price and the quantity is within the supported bound, it carries that schedule's currency and
  version and the exact product; and it is refused as not found exactly when no schedule applies.
\<close>

theorem quotes_are_unambiguous:
  assumes "PricingCatalog_new ss = Inr c" and "\<forall>s \<in> set ss. schedule_ok s" and "t \<noteq> - 1"
  shows "(\<forall>s \<in> set ss. \<forall>s' \<in> set ss. schedule_applies m d t s \<longrightarrow> schedule_applies m d t s' \<longrightarrow> s = s') \<and>
    (quote_at c m d t n = Inl (pricing_error PricingNotFound) \<longleftrightarrow> (\<forall>s \<in> set ss. \<not> schedule_applies m d t s)) \<and>
    (quote_at c m d t n = Inr quote \<longleftrightarrow>
      (\<exists>s \<in> set ss. schedule_applies m d t s \<and>
        (\<exists>p v. price_for s d = Some p \<and> unat v = unat p * unat n \<and> v \<le> MAX_MINOR_UNITS \<and>
          quote = \<lparr>pq_currency = mps_currency s, pq_version = mps_version s, pq_dimension = d,
                   pq_price = p, pq_quantity = n, pq_total = v\<rparr>)))"
proof -
  have "s = s'" if "s \<in> set ss" "s' \<in> set ss" "schedule_applies m d t s" "schedule_applies m d t s'" for s s'
    using filter_singleton_iff [OF catalog_at_most_one [OF assms]] PricingCatalog_new_ok(2) [OF assms(1)] that
    by (metis option.inject)
  then show ?thesis using quote_at_iff [OF assms] quote_at_not_found [OF assms(1)] by blast
qed

definition demo_prices :: "u64 \<Rightarrow> u64 \<Rightarrow> u64 option \<Rightarrow> u64 \<Rightarrow> ModelPricingSchedule" where
  "demo_prices version start finish price =
     \<lparr>mps_model_id = ''m'', mps_currency = ''EUR'', mps_version = version,
      mps_window = \<lparr>ew_start = start, ew_end = finish\<rparr>,
      mps_entries = [\<lparr>pe_dimension = InputTokens, pe_price = price\<rparr>]\<rparr>"

lemma price_for_demo: "price_for (demo_prices version start finish price) InputTokens = Some price"
  by (simp add: price_for_def demo_prices_def binary_search_def binary_search_base.simps)

lemma demo_prices_ok: "(\<And>e. finish = Some e \<Longrightarrow> start < e) \<Longrightarrow> schedule_ok (demo_prices version start finish price)"
  by (auto simp: schedule_ok_def demo_prices_def)

lemma demo_catalog:
  "PricingCatalog_new [demo_prices 1 0 (Some 10) 2, demo_prices 2 10 None 3] =
     Inr \<lparr>pca_schedules = [demo_prices 1 0 (Some 10) 2, demo_prices 2 10 None 3]\<rparr>"
  by (simp add: PricingCatalog_new_def MAX_SCHEDULES_def results schedule_key_def demo_prices_def
        schedule_pair_error_def window_overlaps_def window_end_def)

theorem quotes_are_unambiguous_witness:
  "\<exists>c. PricingCatalog_new [demo_prices 1 0 (Some 10) 2, demo_prices 2 10 None 3] = Inr c \<and>
     quote_at c ''m'' InputTokens 12 5 =
       Inr \<lparr>pq_currency = ''EUR'', pq_version = 2, pq_dimension = InputTokens, pq_price = 3, pq_quantity = 5,
            pq_total = 15\<rparr>"
proof -
  let ?ss = "[demo_prices 1 0 (Some 10) 2, demo_prices 2 10 None 3]"
  have ok: "\<forall>s \<in> set ?ss. schedule_ok s" by (auto intro: demo_prices_ok)
  have "schedule_applies ''m'' InputTokens 12 (demo_prices 2 10 None 3)"
    by (simp add: schedule_applies_def price_for_demo)
       (simp add: demo_prices_def window_contains_def)
  then show ?thesis
    using quotes_are_unambiguous [OF demo_catalog ok, of 12 "''m''" InputTokens 5] demo_catalog
    by (simp add: price_for_demo MAX_MINOR_UNITS_def) (simp add: demo_prices_def)
qed

text \<open>
  At the last representable time the conflict check misses two unbounded windows: both schedules
  apply, and the order of the catalog decides which price is quoted.
\<close>

lemma last_instant_is_ambiguous:
  "\<exists>c. PricingCatalog_new [demo_prices 1 0 None 2, demo_prices 2 (- 1) None 3] = Inr c \<and>
     list_all (schedule_applies ''m'' InputTokens (- 1)) (pca_schedules c) \<and> length (pca_schedules c) = 2"
proof -
  have "PricingCatalog_new [demo_prices 1 0 None 2, demo_prices 2 (- 1) None 3] =
     Inr \<lparr>pca_schedules = [demo_prices 1 0 None 2, demo_prices 2 (- 1) None 3]\<rparr>"
    by (simp add: PricingCatalog_new_def MAX_SCHEDULES_def results schedule_key_def demo_prices_def
          schedule_pair_error_def window_overlaps_def window_end_def)
  moreover have "schedule_applies ''m'' InputTokens (- 1) (demo_prices v start None p)" for v start p
    by (simp add: schedule_applies_def price_for_demo)
       (simp add: demo_prices_def window_contains_def)
  ultimately show ?thesis by simp
qed

end
