(* ===== verification/Routing_Cost.thy ===== *)
theory Routing_Cost
  imports Interfaces
begin

text \<open>
  The cost evaluation of \<open>ariadnion-routing-cost\<close>: bounded cost units, estimates, the soft and hard
  limits of a request, and the split of candidates into a preferred tier, a fallback tier and
  exclusions. The lemmas show that an evaluation is exactly the partition of its inputs by the two
  limits, in input order.
\<close>

section \<open>Model\<close>

definition MAX_COST_CANDIDATES :: nat where "MAX_COST_CANDIDATES = 2 ^ 17"
definition MAX_COST_CANDIDATE_ID_BYTES :: nat where "MAX_COST_CANDIDATE_ID_BYTES = 128"
definition MAX_COST_UNITS :: u64 where "MAX_COST_UNITS = push_bit 40 1"

datatype RoutingCostErrorCode =
  CostInvalidArgument | CostEmptyCandidates | CostTooManyCandidates | CostDuplicateCandidate
| ConstraintConflict | CostOverflow

fun RoutingCostErrorCode_as_str :: "RoutingCostErrorCode \<Rightarrow> string" where
  "RoutingCostErrorCode_as_str CostInvalidArgument = ''ROUTING_COST_INVALID_ARGUMENT''"
| "RoutingCostErrorCode_as_str CostEmptyCandidates = ''ROUTING_COST_EMPTY_CANDIDATES''"
| "RoutingCostErrorCode_as_str CostTooManyCandidates = ''ROUTING_COST_TOO_MANY_CANDIDATES''"
| "RoutingCostErrorCode_as_str CostDuplicateCandidate = ''ROUTING_COST_DUPLICATE_CANDIDATE''"
| "RoutingCostErrorCode_as_str ConstraintConflict = ''ROUTING_COST_CONSTRAINT_CONFLICT''"
| "RoutingCostErrorCode_as_str CostOverflow = ''ROUTING_COST_OVERFLOW''"

record RoutingCostError =
  rce_code :: RoutingCostErrorCode

definition RoutingCostError_new :: "RoutingCostErrorCode \<Rightarrow> RoutingCostError" where
  "RoutingCostError_new code = \<lparr>rce_code = code\<rparr>"

type_synonym CostCandidateId = string
type_synonym CostUnits = u64
type_synonym CostEstimate = CostUnits

definition CostCandidateId_parse :: "string \<Rightarrow> (RoutingCostError, CostCandidateId) result" where
  "CostCandidateId_parse value =
     (if value = [] \<or> MAX_COST_CANDIDATE_ID_BYTES < length value \<or> \<not> is_ascii value
         \<or> \<not> list_all is_graphic_byte value
      then Inl (RoutingCostError_new CostInvalidArgument)
      else Inr value)"

definition CostUnits_new :: "u64 \<Rightarrow> (RoutingCostError, CostUnits) result" where
  "CostUnits_new value =
     (if MAX_COST_UNITS < value then Inl (RoutingCostError_new CostOverflow) else Inr value)"

definition CostUnits_checked_add :: "CostUnits \<Rightarrow> CostUnits \<Rightarrow> (RoutingCostError, CostUnits) result" where
  "CostUnits_checked_add self other =
     (case checked_add self other of
        Some value \<Rightarrow> if value \<le> MAX_COST_UNITS then Inr value
                      else Inl (RoutingCostError_new CostOverflow)
      | None \<Rightarrow> Inl (RoutingCostError_new CostOverflow))"

definition CostEstimate_from_components ::
  "CostUnits \<Rightarrow> CostUnits \<Rightarrow> CostUnits \<Rightarrow> (RoutingCostError, CostEstimate) result" where
  "CostEstimate_from_components input_units output_units overhead =
     bind_result (CostUnits_checked_add input_units output_units) (\<lambda>total.
     bind_result (CostUnits_checked_add total overhead) (\<lambda>total. Inr total))"

record CostConstraints =
  cc_soft_limit :: "CostUnits option"
  cc_hard_limit :: "CostUnits option"

definition CostConstraints_new ::
  "CostUnits option \<Rightarrow> CostUnits option \<Rightarrow> (RoutingCostError, CostConstraints) result" where
  "CostConstraints_new soft_limit hard_limit =
     (case (soft_limit, hard_limit) of
        (Some soft, Some hard) \<Rightarrow>
          if hard < soft then Inl (RoutingCostError_new ConstraintConflict)
          else Inr \<lparr>cc_soft_limit = soft_limit, cc_hard_limit = hard_limit\<rparr>
      | _ \<Rightarrow> Inr \<lparr>cc_soft_limit = soft_limit, cc_hard_limit = hard_limit\<rparr>)"

record CostedCandidate =
  cdc_candidate :: CostCandidateId
  cdc_estimate :: CostEstimate

record CandidateCostInput =
  cci_candidate :: CostCandidateId
  cci_estimate :: "CostEstimate option"

definition CandidateCostInput_estimated :: "CostCandidateId \<Rightarrow> CostEstimate \<Rightarrow> CandidateCostInput" where
  "CandidateCostInput_estimated candidate estimate =
     \<lparr>cci_candidate = candidate, cci_estimate = Some estimate\<rparr>"

definition CandidateCostInput_unavailable :: "CostCandidateId \<Rightarrow> CandidateCostInput" where
  "CandidateCostInput_unavailable candidate = \<lparr>cci_candidate = candidate, cci_estimate = None\<rparr>"

datatype CostExclusionReason = MissingEstimate | CostHardLimitExceeded (exceeded_limit: CostUnits)

record CostExclusion =
  cex_candidate :: CostCandidateId
  cex_reason :: CostExclusionReason

record CostEvaluation =
  cev_preferred :: "CostedCandidate list"
  cev_fallback :: "CostedCandidate list"
  cev_exclusions :: "CostExclusion list"

definition first_acceptable :: "CostEvaluation \<Rightarrow> CostedCandidate option" where
  "first_acceptable ev =
     (case cev_preferred ev of
        c # _ \<Rightarrow> Some c
      | [] \<Rightarrow> (case cev_fallback ev of c # _ \<Rightarrow> Some c | [] \<Rightarrow> None))"

text \<open>The tail of \<open>classify_input\<close>, for an estimate within the hard limit.\<close>

definition classify_tier ::
  "CostCandidateId \<Rightarrow> CostEstimate \<Rightarrow> CostConstraints \<Rightarrow> CostEvaluation \<Rightarrow> CostEvaluation" where
  "classify_tier candidate estimate constraints ev =
     (let costed = \<lparr>cdc_candidate = candidate, cdc_estimate = estimate\<rparr> in
      if (case cc_soft_limit constraints of Some limit \<Rightarrow> limit < estimate | None \<Rightarrow> False)
      then ev\<lparr>cev_fallback := cev_fallback ev @ [costed]\<rparr>
      else ev\<lparr>cev_preferred := cev_preferred ev @ [costed]\<rparr>)"

definition classify_input ::
  "CandidateCostInput \<Rightarrow> CostConstraints \<Rightarrow> CostEvaluation \<Rightarrow> CostEvaluation" where
  "classify_input candidate constraints ev =
     (case cci_estimate candidate of
        None \<Rightarrow>
          ev\<lparr>cev_exclusions := cev_exclusions ev
               @ [\<lparr>cex_candidate = cci_candidate candidate, cex_reason = MissingEstimate\<rparr>]\<rparr>
      | Some estimate \<Rightarrow>
     (case cc_hard_limit constraints of
        Some limit \<Rightarrow>
          if limit < estimate
          then ev\<lparr>cev_exclusions := cev_exclusions ev
                    @ [\<lparr>cex_candidate = cci_candidate candidate, cex_reason = CostHardLimitExceeded limit\<rparr>]\<rparr>
          else classify_tier (cci_candidate candidate) estimate constraints ev
      | None \<Rightarrow> classify_tier (cci_candidate candidate) estimate constraints ev))"

text \<open>The loop of \<open>evaluate\<close> over the \<open>BTreeSet\<close> of candidates seen so far.\<close>

fun evaluate_inputs ::
  "CostCandidateId list \<Rightarrow> CostConstraints \<Rightarrow> CandidateCostInput list \<Rightarrow> CostEvaluation \<Rightarrow>
     (RoutingCostError, CostEvaluation) result" where
  "evaluate_inputs seen constraints [] ev = Inr ev"
| "evaluate_inputs seen constraints (i # is) ev =
     (if cci_candidate i \<in> set seen then Inl (RoutingCostError_new CostDuplicateCandidate)
      else evaluate_inputs (cci_candidate i # seen) constraints is (classify_input i constraints ev))"

definition cost_evaluate ::
  "CandidateCostInput list \<Rightarrow> CostConstraints \<Rightarrow> (RoutingCostError, CostEvaluation) result" where
  "cost_evaluate inputs constraints =
     (if inputs = [] then Inl (RoutingCostError_new CostEmptyCandidates)
      else if MAX_COST_CANDIDATES < length inputs
      then Inl (RoutingCostError_new CostTooManyCandidates)
      else evaluate_inputs [] constraints inputs
             \<lparr>cev_preferred = [], cev_fallback = [], cev_exclusions = []\<rparr>)"

section \<open>Evaluation as a partition\<close>

text \<open>Where an input belongs: the reason that excludes it, or the tier it is kept in.\<close>

datatype cost_tier = Preferred | Fallback | CostExcluded CostExclusionReason

fun exceeds :: "'a::linorder \<Rightarrow> 'a option \<Rightarrow> bool" where
  "exceeds x None = False"
| "exceeds x (Some limit) = (limit < x)"

definition cost_tier :: "CostConstraints \<Rightarrow> CandidateCostInput \<Rightarrow> cost_tier" where
  "cost_tier constraints i =
     (case cci_estimate i of
        None \<Rightarrow> CostExcluded MissingEstimate
      | Some e \<Rightarrow>
          if exceeds e (cc_hard_limit constraints)
          then CostExcluded (CostHardLimitExceeded (the (cc_hard_limit constraints)))
          else if exceeds e (cc_soft_limit constraints) then Fallback else Preferred)"

definition costed :: "CandidateCostInput \<Rightarrow> CostedCandidate" where
  "costed i = \<lparr>cdc_candidate = cci_candidate i, cdc_estimate = the (cci_estimate i)\<rparr>"

fun cost_exclusion :: "CostConstraints \<Rightarrow> CandidateCostInput \<Rightarrow> CostExclusion option" where
  "cost_exclusion constraints i =
     (case cost_tier constraints i of
        CostExcluded r \<Rightarrow> Some \<lparr>cex_candidate = cci_candidate i, cex_reason = r\<rparr>
      | _ \<Rightarrow> None)"

definition cost_partition :: "CostConstraints \<Rightarrow> CandidateCostInput list \<Rightarrow> CostEvaluation" where
  "cost_partition constraints inputs =
     \<lparr>cev_preferred = map costed (filter (\<lambda>i. cost_tier constraints i = Preferred) inputs),
      cev_fallback = map costed (filter (\<lambda>i. cost_tier constraints i = Fallback) inputs),
      cev_exclusions = List.map_filter (cost_exclusion constraints) inputs\<rparr>"

definition append_evaluation :: "CostEvaluation \<Rightarrow> CostEvaluation \<Rightarrow> CostEvaluation" where
  "append_evaluation a b =
     \<lparr>cev_preferred = cev_preferred a @ cev_preferred b, cev_fallback = cev_fallback a @ cev_fallback b,
      cev_exclusions = cev_exclusions a @ cev_exclusions b\<rparr>"

lemma classify_input_tier:
  "classify_input i constraints ev = append_evaluation ev (cost_partition constraints [i])"
  by (cases ev; cases "cci_estimate i"; cases "cc_hard_limit constraints"; cases "cc_soft_limit constraints")
     (auto simp: classify_input_def classify_tier_def append_evaluation_def cost_partition_def cost_tier_def
        costed_def List.map_filter_def Let_def)

lemma append_evaluation_assoc:
  "append_evaluation (append_evaluation a b) c = append_evaluation a (append_evaluation b c)"
  by (simp add: append_evaluation_def)

lemma cost_partition_Cons:
  "cost_partition constraints (i # is) =
     append_evaluation (cost_partition constraints [i]) (cost_partition constraints is)"
  by (simp add: append_evaluation_def cost_partition_def List.map_filter_def)

lemma evaluate_inputs_eq:
  "evaluate_inputs seen constraints is ev =
     (if distinct (map cci_candidate is) \<and> set (map cci_candidate is) \<inter> set seen = {}
      then Inr (append_evaluation ev (cost_partition constraints is))
      else Inl (RoutingCostError_new CostDuplicateCandidate))"
proof (induction "is" arbitrary: seen ev)
  case Nil
  then show ?case by (simp add: append_evaluation_def cost_partition_def List.map_filter_def)
next
  case (Cons i "is")
  show ?case
    using Cons.IH [of "cci_candidate i # seen" "classify_input i constraints ev"]
    by (auto simp: classify_input_tier append_evaluation_assoc cost_partition_Cons [of constraints i "is"])
qed

lemma cost_evaluate_eq:
  "cost_evaluate inputs constraints =
     (if inputs = [] then Inl (RoutingCostError_new CostEmptyCandidates)
      else if MAX_COST_CANDIDATES < length inputs then Inl (RoutingCostError_new CostTooManyCandidates)
      else if distinct (map cci_candidate inputs) then Inr (cost_partition constraints inputs)
      else Inl (RoutingCostError_new CostDuplicateCandidate))"
  by (simp add: cost_evaluate_def evaluate_inputs_eq append_evaluation_def)

lemma CostUnits_checked_add_eq:
  "CostUnits_checked_add a b = Inr c \<longleftrightarrow> unat c = unat a + unat b \<and> c \<le> MAX_COST_UNITS"
  using unat_lt_width [of c] by (auto simp: CostUnits_checked_add_def machine split: option.splits)

end
