(* ===== verification/Route_Coordinator.thy ===== *)
theory Route_Coordinator
  imports Failover Routing_Admission Account_Pool Account_Proxy Account_Affinity Model_Pricing Routing_Cost
begin

text \<open>
  The routing coordinator of \<open>ariadnion-routing-coordinator\<close> around its candidate filter: the error
  and request vocabulary of \<open>lib.rs\<close>, the candidate metadata it reads from \<open>ariadnion-account-pool\<close>,
  the retry plan (\<open>engine.rs\<close>), the admission of the selected candidate (\<open>engine/admission.rs\<close>), the
  coordination call that joins them, and the assembly of a coordinator from a published pool
  (\<open>admission_assembly.rs\<close>). The filter and selection, \<open>prepare_selection\<close>, is an argument of
  \<open>coordinate\<close>.
\<close>

section \<open>Errors\<close>

definition MAX_COORDINATED_CANDIDATES :: nat where "MAX_COORDINATED_CANDIDATES = 2 ^ 17"
definition MAX_DESTINATION_REGION_BYTES :: nat where "MAX_DESTINATION_REGION_BYTES = 2 ^ 7"
definition MAX_RETAINED_EXCLUSIONS :: nat where "MAX_RETAINED_EXCLUSIONS = 2 ^ 12"

datatype CoordinatorErrorCode =
  CoordInvalidArgument | CoordTenantMismatch | CoordModelNotFound | CoordCapabilityMismatch
| CoordMissingSignal | CoordNoEligibleCandidate | CoordPricingUnavailable
| CoordRateLimited | CoordConcurrencyLimited | CoordBudgetRejected
| CoordAdmissionUnavailable | CoordPolicyUnavailable | CoordStateUnavailable

fun coord_request_code :: "CoordinatorErrorCode \<Rightarrow> string" where
  "coord_request_code CoordInvalidArgument = ''ROUTING_COORDINATOR_INVALID_ARGUMENT''"
| "coord_request_code CoordTenantMismatch = ''ROUTING_COORDINATOR_TENANT_MISMATCH''"
| "coord_request_code CoordModelNotFound = ''ROUTING_COORDINATOR_MODEL_NOT_FOUND''"
| "coord_request_code CoordCapabilityMismatch = ''ROUTING_COORDINATOR_CAPABILITY_MISMATCH''"
| "coord_request_code _ = ''ROUTING_COORDINATOR_INVALID_ARGUMENT''"

fun coord_signal_code :: "CoordinatorErrorCode \<Rightarrow> string" where
  "coord_signal_code CoordMissingSignal = ''ROUTING_COORDINATOR_MISSING_SIGNAL''"
| "coord_signal_code CoordNoEligibleCandidate = ''ROUTING_COORDINATOR_NO_ELIGIBLE_CANDIDATE''"
| "coord_signal_code CoordPricingUnavailable = ''ROUTING_COORDINATOR_PRICING_UNAVAILABLE''"
| "coord_signal_code _ = ''ROUTING_COORDINATOR_INVALID_ARGUMENT''"

fun coord_runtime_code :: "CoordinatorErrorCode \<Rightarrow> string" where
  "coord_runtime_code CoordRateLimited = ''ROUTING_COORDINATOR_RATE_LIMITED''"
| "coord_runtime_code CoordConcurrencyLimited = ''ROUTING_COORDINATOR_CONCURRENCY_LIMITED''"
| "coord_runtime_code CoordBudgetRejected = ''ROUTING_COORDINATOR_BUDGET_REJECTED''"
| "coord_runtime_code CoordAdmissionUnavailable = ''ROUTING_COORDINATOR_ADMISSION_UNAVAILABLE''"
| "coord_runtime_code CoordPolicyUnavailable = ''ROUTING_COORDINATOR_POLICY_UNAVAILABLE''"
| "coord_runtime_code CoordStateUnavailable = ''ROUTING_COORDINATOR_STATE_UNAVAILABLE''"
| "coord_runtime_code _ = ''ROUTING_COORDINATOR_INVALID_ARGUMENT''"

definition CoordinatorErrorCode_as_str :: "CoordinatorErrorCode \<Rightarrow> string" where
  "CoordinatorErrorCode_as_str c =
     (if c \<in> {CoordInvalidArgument, CoordTenantMismatch, CoordModelNotFound, CoordCapabilityMismatch}
      then coord_request_code c
      else if c \<in> {CoordMissingSignal, CoordNoEligibleCandidate, CoordPricingUnavailable}
      then coord_signal_code c
      else coord_runtime_code c)"

datatype SignalKind =
  SignalHealth | SignalCircuit | SignalQuota | SignalSchedule | SignalProxy | SignalAffinity
| SignalPricing | SignalRoutingPolicy

datatype CandidateExclusionReason =
  PoolUnavailable | ModelMappingMissing | MissingSignal SignalKind | Unhealthy | CircuitOpen
| CircuitHalfOpen | QuotaExhausted | ScheduleClosed | ProxyUnavailable | ProxyRegionDenied
| MissingPrice | HardCostLimit | AboveSoftCostLimit | RouteLowerPriority | RouteHigherEffectiveLoad
| RouteStableTieBreak | AffinityPreferred | WasmPolicyPreferred

record RouteExclusion =
  re_candidate :: CandidateKey
  re_reason :: CandidateExclusionReason

text \<open>\<open>sort_by\<close> is stable; \<open>dedup_by\<close> keeps the first of a run of equal candidates.\<close>

fun dedup_adjacent :: "RouteExclusion list \<Rightarrow> RouteExclusion list" where
  "dedup_adjacent (x # y # ys) =
     (if re_candidate x = re_candidate y then dedup_adjacent (x # ys) else x # dedup_adjacent (y # ys))"
| "dedup_adjacent xs = xs"

definition bound_exclusions :: "RouteExclusion list \<Rightarrow> RouteExclusion list \<times> bool" where
  "bound_exclusions exclusions =
     (let deduped = dedup_adjacent (sort_key re_candidate exclusions) in
      (take MAX_RETAINED_EXCLUSIONS deduped, MAX_RETAINED_EXCLUSIONS < length deduped))"

record InitialAdmissionRetryContext =
  iar_candidate :: CandidateKey
  iar_retry_plan :: RoutingRetryPlan

record CoordinatorError =
  coe_code :: CoordinatorErrorCode
  coe_exclusions :: "RouteExclusion list"
  coe_exclusions_truncated :: bool
  coe_retry_after :: "Duration option"
  coe_admission_scope :: "AdmissionRefusalScope option"
  coe_initial_admission_retry_context :: "InitialAdmissionRetryContext option"

definition CoordinatorError_new :: "CoordinatorErrorCode \<Rightarrow> CoordinatorError" where
  "CoordinatorError_new code =
     \<lparr>coe_code = code, coe_exclusions = [], coe_exclusions_truncated = False, coe_retry_after = None,
      coe_admission_scope = None, coe_initial_admission_retry_context = None\<rparr>"

definition CoordinatorError_with_exclusions ::
  "CoordinatorErrorCode \<Rightarrow> RouteExclusion list \<Rightarrow> CoordinatorError" where
  "CoordinatorError_with_exclusions code exclusions =
     (let (bounded, truncated) = bound_exclusions exclusions in
      \<lparr>coe_code = code, coe_exclusions = bounded, coe_exclusions_truncated = truncated,
       coe_retry_after = None, coe_admission_scope = None, coe_initial_admission_retry_context = None\<rparr>)"

definition CoordinatorError_with_retry_after ::
  "CoordinatorErrorCode \<Rightarrow> Duration option \<Rightarrow> CoordinatorError" where
  "CoordinatorError_with_retry_after code retry_after =
     \<lparr>coe_code = code, coe_exclusions = [], coe_exclusions_truncated = False,
      coe_retry_after = retry_after, coe_admission_scope = None,
      coe_initial_admission_retry_context = None\<rparr>"

definition attach_initial_admission_retry_context ::
  "CandidateKey \<Rightarrow> RoutingRetryPlan \<Rightarrow> CoordinatorError \<Rightarrow> CoordinatorError" where
  "attach_initial_admission_retry_context candidate retry_plan e =
     (if coe_admission_scope e = Some AdmissionRefusalScope.AccountScope
      then e\<lparr>coe_initial_admission_retry_context :=
               Some \<lparr>iar_candidate = candidate, iar_retry_plan = retry_plan\<rparr>\<rparr>
      else e)"

section \<open>Requests, candidates and routes\<close>

definition valid_destination_region :: "string \<Rightarrow> bool" where
  "valid_destination_region value =
     (case value of
        [] \<Rightarrow> False
      | first # _ \<Rightarrow>
          is_lower first \<and> length value \<le> MAX_DESTINATION_REGION_BYTES
          \<and> list_all (\<lambda>c. is_lower c \<or> is_digit c \<or> c \<in> {CHR ''.'', CHR ''-'', CHR ''_''}) value)"

definition DestinationRegion_parse :: "string \<Rightarrow> (CoordinatorError, string) result" where
  "DestinationRegion_parse value =
     (if \<not> valid_destination_region value then Inl (CoordinatorError_new CoordInvalidArgument)
      else Inr value)"

record AdmissionTimes =
  tm_monotonic_now :: MonotonicTime
  tm_budget_now :: UnixTimeSeconds
  tm_budget_expires_at :: UnixTimeSeconds
  tm_circuit_now :: u64

definition AdmissionTimes_new_with_circuit_time ::
  "MonotonicTime \<Rightarrow> UnixTimeSeconds \<Rightarrow> UnixTimeSeconds \<Rightarrow> u64 \<Rightarrow> (CoordinatorError, AdmissionTimes) result" where
  "AdmissionTimes_new_with_circuit_time monotonic_now budget_now budget_expires_at circuit_now =
     (let same_second = (circuit_now div 1000 = budget_now) in
      if budget_expires_at \<le> budget_now \<or> \<not> same_second
      then Inl (CoordinatorError_new CoordInvalidArgument)
      else Inr \<lparr>tm_monotonic_now = monotonic_now, tm_budget_now = budget_now,
                tm_budget_expires_at = budget_expires_at, tm_circuit_now = circuit_now\<rparr>)"

definition AdmissionTimes_new ::
  "MonotonicTime \<Rightarrow> UnixTimeSeconds \<Rightarrow> UnixTimeSeconds \<Rightarrow> (CoordinatorError, AdmissionTimes) result" where
  "AdmissionTimes_new monotonic_now budget_now budget_expires_at =
     bind_result (ok_or (CoordinatorError_new CoordInvalidArgument) (try_word (unat budget_now * 1000)))
       (\<lambda>circuit_now. AdmissionTimes_new_with_circuit_time monotonic_now budget_now budget_expires_at circuit_now)"

record AdmissionTemplate =
  tp_reservation_id :: ReservationId
  tp_units :: NonZeroU32
  tp_times :: AdmissionTimes
  tp_group_id :: "GroupId option"

record PricingRequest =
  prq_dimension :: PriceDimension
  prq_quantity :: u64
  prq_constraints :: CostConstraints

record RetryPolicy =
  rtp_operation :: OperationSafety
  rtp_max_attempts :: u8

definition RetryPolicy_new :: "OperationSafety \<Rightarrow> u8 \<Rightarrow> (CoordinatorError, RetryPolicy) result" where
  "RetryPolicy_new operation max_attempts =
     (if \<not> (1 \<le> max_attempts \<and> max_attempts \<le> MAX_ATTEMPTS)
      then Inl (CoordinatorError_new CoordInvalidArgument)
      else Inr \<lparr>rtp_operation = operation, rtp_max_attempts = max_attempts\<rparr>)"

record CoordinationRequest =
  cq_context :: RoutingContext
  cq_destination_region :: "string option"
  cq_pricing_timestamp :: u64
  cq_pricing :: PricingRequest
  cq_admission :: AdmissionTemplate
  cq_retry :: RetryPolicy
  cq_affinity :: "(AffinityKey \<times> u64) option"

definition with_affinity ::
  "AffinityKey \<Rightarrow> u64 \<Rightarrow> CoordinationRequest \<Rightarrow> (CoordinatorError, CoordinationRequest) result" where
  "with_affinity key now request =
     (if afk_tenant_id key \<noteq> rcx_tenant_id (cq_context request)
      then Inl (CoordinatorError_new CoordTenantMismatch)
      else Inr (request\<lparr>cq_affinity := Some (key, now)\<rparr>))"

definition has_same_required_capabilities :: "CoordinationRequest \<Rightarrow> CoordinationRequest \<Rightarrow> bool" where
  "has_same_required_capabilities self other =
     (let required = rcx_required_capabilities (cq_context self);
          other_required = rcx_required_capabilities (cq_context other)
      in length required = length other_required \<and> list_all (\<lambda>c. c \<in> set other_required) required)"

definition has_same_request_context :: "CoordinationRequest \<Rightarrow> CoordinationRequest \<Rightarrow> bool" where
  "has_same_request_context self other \<longleftrightarrow>
     rcx_tenant_id (cq_context self) = rcx_tenant_id (cq_context other)
     \<and> rcx_request_id (cq_context self) = rcx_request_id (cq_context other)
     \<and> rcx_model (cq_context self) = rcx_model (cq_context other)
     \<and> has_same_required_capabilities self other"

definition has_same_routing_scope :: "CoordinationRequest \<Rightarrow> CoordinationRequest \<Rightarrow> bool" where
  "has_same_routing_scope self other \<longleftrightarrow>
     has_same_request_context self other
     \<and> cq_destination_region self = cq_destination_region other
     \<and> cq_pricing self = cq_pricing other
     \<and> tp_units (cq_admission self) = tp_units (cq_admission other)
     \<and> tp_group_id (cq_admission self) = tp_group_id (cq_admission other)
     \<and> cq_retry self = cq_retry other
     \<and> map_option fst (cq_affinity self) = map_option fst (cq_affinity other)"

record CandidateState =
  cst_source :: CandidateMetadata
  cst_key :: CandidateKey
  cst_provider_model :: "string option"
  cst_proxy_profile :: "AccountProxyProfile option"
  cst_quote :: "PriceQuote option"
  cst_exclusion :: "CandidateExclusionReason option"

definition state_eligible :: "CandidateState \<Rightarrow> bool" where
  "state_eligible state \<longleftrightarrow> cst_exclusion state = None"

datatype SelectionBasis = WeightedLeastLoad | AffinityBasis | WasmPolicyBasis

record DecisionExplanation =
  de_basis :: SelectionBasis
  de_degradations :: "SignalKind list"
  de_exclusions :: "RouteExclusion list"
  de_exclusions_truncated :: bool

record RouteSelection =
  rsl_states :: "CandidateState list"
  rsl_degradations :: "SignalKind list"
  rsl_selected_index :: nat
  rsl_basis :: SelectionBasis
  rsl_exclusions :: "RouteExclusion list"
  rsl_exclusions_truncated :: bool

record CoordinatedRoute =
  rt_selected_candidate :: CandidateKey
  rt_selected_account :: AccountId
  rt_provider_model :: string
  rt_selected_proxy_profile :: "AccountProxyProfile option"
  rt_explanation :: DecisionExplanation
  rt_retry_plan :: RoutingRetryPlan
  rt_tenant_id :: TenantId
  rt_request_id :: string
  rt_admission_lease :: RoutingAdmissionLease

record UsageConfirmationId =
  uc_tenant :: TenantId
  uc_account :: AccountId
  uc_request :: string
  uc_attempt :: string

definition usage_confirmation_id :: "CoordinatedRoute \<Rightarrow> string \<Rightarrow> UsageConfirmationId" where
  "usage_confirmation_id route attempt_id =
     \<lparr>uc_tenant = rt_tenant_id route, uc_account = rt_selected_account route,
      uc_request = rt_request_id route, uc_attempt = attempt_id\<rparr>"

section \<open>Admission of the selected candidate\<close>

definition coord_err :: "CoordinatorErrorCode \<Rightarrow> 'e \<Rightarrow> CoordinatorError" where
  "coord_err code e = CoordinatorError_new code"

definition rate_request ::
  "CoordinationRequest \<Rightarrow> CandidateState \<Rightarrow> (CoordinatorError, AdmissionRequest) result" where
  "rate_request request selected =
     bind_result (map_err (coord_err CoordInvalidArgument)
       (limit_id_parse (rcx_tenant_id (cq_context request)))) (\<lambda>tenant_limit.
     bind_result (map_err (coord_err CoordInvalidArgument)
       (limit_id_parse (cm_account_id (cst_source selected)))) (\<lambda>account_limit.
     bind_result (map_err (coord_err CoordInvalidArgument)
       (limit_id_parse (rcx_model (cq_context request)))) (\<lambda>model_limit.
       map_err (coord_err CoordInvalidArgument)
         (AdmissionRequest_new
            [Tenant tenant_limit, Model model_limit,
             Account \<lparr>alk_tenant = tenant_limit, alk_account = account_limit\<rparr>]
            (tp_units (cq_admission request))))))"

definition budget_request ::
  "CoordinationRequest \<Rightarrow> CandidateState \<Rightarrow> PriceQuote \<Rightarrow> (CoordinatorError, ReservationRequest) result" where
  "budget_request request selected quote =
     bind_result (map_err (coord_err CoordStateUnavailable) (CurrencyCode_parse (pq_currency quote))) (\<lambda>cur.
       map_err (coord_err CoordInvalidArgument)
         (ReservationRequest_new (tp_reservation_id (cq_admission request))
            \<lparr>bc_tenant_id = rcx_tenant_id (cq_context request),
             bc_group_id = tp_group_id (cq_admission request),
             bc_account_id = cm_account_id (cst_source selected)\<rparr>
            \<lparr>currency = cur, minor_units = pq_total quote\<rparr>
            (tm_budget_expires_at (tp_times (cq_admission request)))))"

fun admission_error_code :: "RoutingAdmissionErrorCode \<Rightarrow> CoordinatorErrorCode" where
  "admission_error_code RoutingRateLimited = CoordRateLimited"
| "admission_error_code RoutingConcurrencyLimited = CoordConcurrencyLimited"
| "admission_error_code BudgetRejected = CoordBudgetRejected"
| "admission_error_code TenantMismatch = CoordTenantMismatch"
| "admission_error_code RoutingInvalidArgument = CoordInvalidArgument"
| "admission_error_code _ = CoordAdmissionUnavailable"

definition map_admission_error ::
  "RoutingAdmissionError \<Rightarrow> RouteExclusion list \<Rightarrow> CoordinatorError" where
  "map_admission_error value exclusions =
     (let e = CoordinatorError_with_retry_after (admission_error_code (rae_code value)) (rae_retry_after value);
          (bounded, truncated) = bound_exclusions exclusions
      in e\<lparr>coe_admission_scope :=
              Some (case rae_refusal_scope value of Some s \<Rightarrow> s
                    | None \<Rightarrow> AdmissionRefusalScope.RequestScope),
           coe_exclusions := bounded, coe_exclusions_truncated := truncated\<rparr>)"

text \<open>The request handed to the coupled admission, or the error that stops before it.\<close>

definition admission_request ::
  "CoordinationRequest \<Rightarrow> CandidateState \<Rightarrow> (CoordinatorError, RoutingAdmissionRequest) result" where
  "admission_request request selected =
     bind_result (ok_or (CoordinatorError_new CoordPricingUnavailable) (cst_quote selected)) (\<lambda>quote.
     bind_result (rate_request request selected) (\<lambda>rate.
     bind_result (budget_request request selected quote) (\<lambda>budget.
       let times = tp_times (cq_admission request) in
       Inr \<lparr>rar_rate = rate, rar_budget = budget, rar_monotonic_now = tm_monotonic_now times,
            rar_budget_now = tm_budget_now times\<rparr>)))"

definition engine_admit ::
  "CoordinationRequest \<Rightarrow> CandidateState \<Rightarrow> RouteExclusion list \<Rightarrow>
     (RoutingAdmissionCoordinator, CoordinatorError, RoutingAdmissionLease) update" where
  "engine_admit request selected exclusions s =
     (case admission_request request selected of
        Inl e \<Rightarrow> (Inl e, s)
      | Inr r \<Rightarrow>
          (case admit r s of
             (Inl e, s') \<Rightarrow> (Inl (map_admission_error e exclusions), s')
           | (Inr lease, s') \<Rightarrow> (Inr lease, s')))"

section \<open>Retry plan and coordination\<close>

text \<open>The loop that appends eligible candidates while the plan has room.\<close>

definition push_candidate :: "CandidateKey \<Rightarrow> nat \<Rightarrow> CandidateState \<Rightarrow> CandidateKey list \<Rightarrow> CandidateKey list" where
  "push_candidate primary limit state candidates =
     (if cst_key state \<noteq> primary \<and> length candidates < limit then candidates @ [cst_key state]
      else candidates)"

definition build_retry_plan ::
  "CoordinationRequest \<Rightarrow> CandidateState list \<Rightarrow> nat \<Rightarrow> (CoordinatorError, RoutingRetryPlan) result" where
  "build_retry_plan request states selected =
     bind_result (ok_or (CoordinatorError_new CoordStateUnavailable) (get_at states selected)) (\<lambda>primary.
     let limit = unat (rtp_max_attempts (cq_retry request));
         candidates = fold (push_candidate (cst_key primary) limit) (filter state_eligible states)
                        [cst_key primary]
     in bind_result (map_err (coord_err CoordStateUnavailable)
          (FailoverPlan_new candidates (rtp_max_attempts (cq_retry request)))) (\<lambda>plan.
        Inr \<lparr>rrp_plan = plan, rrp_operation = rtp_operation (cq_retry request)\<rparr>))"

text \<open>
  \<open>engine::coordinate\<close>. A lease that is admitted and then not handed out, because the selected
  state has no provider model, is dropped. The errors of the filter are made from a code and a list
  of exclusions, by \<open>new\<close> or \<open>with_exclusions\<close>.
\<close>

type_synonym selector =
  "CoordinationRequest \<Rightarrow> CandidateSnapshot \<Rightarrow> (CoordinatorErrorCode \<times> RouteExclusion list, RouteSelection) result"

definition engine_coordinate ::
  "selector \<Rightarrow> CoordinationRequest \<Rightarrow> CandidateSnapshot \<Rightarrow>
     (RoutingAdmissionCoordinator, CoordinatorError, CoordinatedRoute) update" where
  "engine_coordinate prepare_selection request pool s =
     (case prepare_selection request pool of
        Inl (code, exclusions) \<Rightarrow> (Inl (CoordinatorError_with_exclusions code exclusions), s)
      | Inr selection \<Rightarrow>
     (case get_at (rsl_states selection) (rsl_selected_index selection) of
        None \<Rightarrow> (Inl (CoordinatorError_new CoordStateUnavailable), s)
      | Some selected \<Rightarrow>
     (case build_retry_plan request (rsl_states selection) (rsl_selected_index selection) of
        Inl e \<Rightarrow> (Inl e, s)
      | Inr retry_plan \<Rightarrow>
     (case engine_admit request selected (rsl_exclusions selection) s of
        (Inl e, s') \<Rightarrow>
          (Inl (attach_initial_admission_retry_context (cst_key selected) retry_plan e), s')
      | (Inr lease, s') \<Rightarrow>
     (case cst_provider_model selected of
        None \<Rightarrow> (Inl (CoordinatorError_new CoordStateUnavailable), drop_routing_lease lease s')
      | Some provider_model \<Rightarrow>
          (Inr \<lparr>rt_selected_candidate = cst_key selected,
                rt_selected_account = cm_account_id (cst_source selected),
                rt_provider_model = provider_model,
                rt_selected_proxy_profile = cst_proxy_profile selected,
                rt_explanation = \<lparr>de_basis = rsl_basis selection, de_degradations = rsl_degradations selection,
                                  de_exclusions = rsl_exclusions selection,
                                  de_exclusions_truncated = rsl_exclusions_truncated selection\<rparr>,
                rt_retry_plan = retry_plan,
                rt_tenant_id = rcx_tenant_id (cq_context request),
                rt_request_id = rcx_request_id (cq_context request),
                rt_admission_lease = lease\<rparr>, s'))))))"

record RoutingCoordinator =
  rco_candidate_snapshot_binding :: "CandidateSnapshot option"
  rco_budget_generation :: "BudgetGeneration option"

text \<open>
  A snapshot has its candidates sorted by distinct identities, where the binary search by
  identity finds the one candidate with that identity.
\<close>

definition binding_contains :: "CandidateSnapshot \<Rightarrow> CandidateMetadata \<Rightarrow> bool" where
  "binding_contains authoritative candidate =
     (case find (\<lambda>a. cm_id a = cm_id candidate) (csn_candidates authoritative) of
        Some a \<Rightarrow> a = candidate
      | None \<Rightarrow> False)"

definition binding_matches :: "CandidateSnapshot \<Rightarrow> CandidateSnapshot \<Rightarrow> bool" where
  "binding_matches authoritative snap \<longleftrightarrow>
     csn_id authoritative = csn_id snap \<and> csn_version authoritative = csn_version snap
     \<and> list_all (binding_contains authoritative) (csn_candidates snap)"

definition validate_candidate_snapshot ::
  "RoutingCoordinator \<Rightarrow> CandidateSnapshot \<Rightarrow> (CoordinatorError, unit) result" where
  "validate_candidate_snapshot coordinator snap =
     (case rco_candidate_snapshot_binding coordinator of
        Some binding \<Rightarrow>
          if \<not> binding_matches binding snap then Inl (CoordinatorError_new CoordStateUnavailable)
          else Inr ()
      | None \<Rightarrow> Inr ())"

definition coordinate ::
  "RoutingCoordinator \<Rightarrow> selector \<Rightarrow> CoordinationRequest \<Rightarrow> CandidateSnapshot \<Rightarrow>
     (RoutingAdmissionCoordinator, CoordinatorError, CoordinatedRoute) update" where
  "coordinate coordinator prepare_selection request pool s =
     (case validate_candidate_snapshot coordinator pool of
        Inl e \<Rightarrow> (Inl e, s)
      | Inr _ \<Rightarrow> engine_coordinate prepare_selection request pool s)"

section \<open>Assembly of a coordinator\<close>

datatype BudgetAssembly =
  LegacyBudget BudgetBook
| PublishedBudget (pb_book: BudgetBook) (pb_generation: BudgetGeneration) (pb_expected: BudgetGeneration)

record RoutingAdmissionAssembly =
  asm_configured_policies :: "LimitPolicy list"
  asm_candidate_snapshot :: CandidateSnapshot
  asm_account_lease_duration :: Duration
  asm_initial_now :: MonotonicTime
  asm_budget :: BudgetAssembly

fun into_shared :: "BudgetAssembly \<Rightarrow> (CoordinatorError, BudgetBook \<times> BudgetGeneration option) result" where
  "into_shared (LegacyBudget book) = Inr (book, None)"
| "into_shared (PublishedBudget book generation expected_generation) =
     (if generation \<noteq> expected_generation then Inl (CoordinatorError_new CoordStateUnavailable)
      else Inr (book, Some generation))"

text \<open>The sum of two lengths of vectors in memory does not overflow a \<open>usize\<close>.\<close>

definition validate_policy_bounds :: "LimitPolicy list \<Rightarrow> nat \<Rightarrow> (CoordinatorError, unit) result" where
  "validate_policy_bounds configured candidate_count =
     (let combined_count = length configured + candidate_count in
      if MAX_POLICIES < combined_count
         \<or> (\<exists>p\<in>set configured. dimension (lp_key p) \<notin> {TenantDim, ModelDim})
      then Inl (CoordinatorError_new CoordInvalidArgument) else Inr ())"

definition account_concurrency_policy ::
  "CandidateMetadata \<Rightarrow> Duration \<Rightarrow> (CoordinatorError, LimitKey \<times> LimitPolicy) result" where
  "account_concurrency_policy candidate lease_duration =
     bind_result (ok_or (CoordinatorError_new CoordTenantMismatch) (cm_tenant_id candidate)) (\<lambda>tenant.
     bind_result (ok_or (CoordinatorError_new CoordStateUnavailable) (cm_max_concurrency candidate)) (\<lambda>limit.
     bind_result (map_err (coord_err CoordInvalidArgument) (limit_id_parse tenant)) (\<lambda>tenant_limit.
     bind_result (map_err (coord_err CoordInvalidArgument) (limit_id_parse (cm_account_id candidate))) (\<lambda>account.
     let key = Account \<lparr>alk_tenant = tenant_limit, alk_account = account\<rparr> in
     bind_result (map_err (coord_err CoordInvalidArgument) (ConcurrencyRule_new limit lease_duration)) (\<lambda>rule.
     bind_result (map_err (coord_err CoordInvalidArgument) (LimitPolicy_new key None (Some rule))) (\<lambda>policy.
       Inr (key, policy)))))))"

fun collect_account_policies ::
  "CandidateMetadata list \<Rightarrow> Duration \<Rightarrow> (LimitKey, LimitPolicy) btree_map \<Rightarrow>
     (CoordinatorError, (LimitKey, LimitPolicy) btree_map) result" where
  "collect_account_policies [] lease_duration indexed = Inr indexed"
| "collect_account_policies (candidate # candidates) lease_duration indexed =
     bind_result (account_concurrency_policy candidate lease_duration) (\<lambda>(key, policy).
       if map_of indexed key \<noteq> None then Inl (CoordinatorError_new CoordStateUnavailable)
       else collect_account_policies candidates lease_duration (bt_insert key policy indexed))"

definition build_account_concurrency_policies ::
  "CandidateMetadata list \<Rightarrow> Duration \<Rightarrow> (CoordinatorError, LimitPolicy list) result" where
  "build_account_concurrency_policies candidates lease_duration =
     (if MAX_COORDINATED_CANDIDATES < length candidates
      then Inl (CoordinatorError_new CoordInvalidArgument)
      else bind_result (collect_account_policies candidates lease_duration []) (\<lambda>policies.
             Inr (map snd policies)))"

text \<open>The failure of \<open>try_reserve_exact\<close> is an allocation failure and not modelled.\<close>

definition build_routing_admission_coordinator ::
  "RoutingAdmissionAssembly \<Rightarrow>
     (CoordinatorError, RoutingCoordinator \<times> RoutingAdmissionCoordinator) result" where
  "build_routing_admission_coordinator assembly =
     (let snap = asm_candidate_snapshot assembly;
          configured = asm_configured_policies assembly in
      bind_result (validate_policy_bounds configured (length (csn_candidates snap))) (\<lambda>_.
      bind_result (into_shared (asm_budget assembly)) (\<lambda>(budget, budget_generation).
      bind_result (build_account_concurrency_policies (csn_candidates snap)
                     (asm_account_lease_duration assembly)) (\<lambda>account_policies.
      bind_result (map_err (coord_err CoordInvalidArgument)
                     (AdmissionPolicySet_new (configured @ account_policies))) (\<lambda>policies.
        Inr (\<lparr>rco_candidate_snapshot_binding = Some snap, rco_budget_generation = budget_generation\<rparr>,
             \<lparr>rac_rate = AdmissionController_new policies (asm_initial_now assembly),
              rac_budget = budget\<rparr>))))))"

end
