(* ===== verification/Circuit_Probe.thy ===== *)
theory Circuit_Probe
  imports Circuit_Properties Core_Ids
begin

text \<open>
  The probe authority of \<open>ariadnion-routing-runtime/src/circuit_probe.rs\<close>: a registry of account
  circuits under a tenant-, configuration- and generation-bound key, the leases it issues for one
  execution, and the guard that completes a lease once. The two clocks and the state of the request
  context are read from outside: a reading, or its failure, is an argument of the call that takes it,
  and so is the answer of \<open>RequestContext::check_active\<close>, as \<open>None\<close> or the error code it reports.
  An issuer, an allocation compared by address, is a number.
\<close>

section \<open>Model\<close>

definition MAX_CIRCUIT_PROBE_ACCOUNTS :: nat where "MAX_CIRCUIT_PROBE_ACCOUNTS = 2 ^ 17"

record CircuitProbeKey =
  cpk_tenant_id :: string
  cpk_account_id :: AccountId
  cpk_config_version :: u64
  cpk_import_generation :: u64

datatype CircuitProbeErrorCode = ProbeUnavailable | ProbeRejected | ProbeCancelled | ProbeDeadlineExceeded

type_synonym CircuitProbeError = CircuitProbeErrorCode

fun CircuitProbeError_fmt :: "CircuitProbeError \<Rightarrow> string" where
  "CircuitProbeError_fmt ProbeUnavailable = ''CIRCUIT_PROBE_UNAVAILABLE''"
| "CircuitProbeError_fmt ProbeRejected = ''CIRCUIT_PROBE_REJECTED''"
| "CircuitProbeError_fmt ProbeCancelled = ''CIRCUIT_PROBE_CANCELLED''"
| "CircuitProbeError_fmt ProbeDeadlineExceeded = ''CIRCUIT_PROBE_DEADLINE_EXCEEDED''"

datatype CircuitProbeValidation = ProbeValid | ProbeInvalidated

datatype CircuitProbeRegistryErrorCode = RegistryDuplicateKey | RegistryAccountMismatch | RegistryCapacityExceeded

fun CircuitProbeRegistryError_fmt :: "CircuitProbeRegistryErrorCode \<Rightarrow> string" where
  "CircuitProbeRegistryError_fmt RegistryDuplicateKey = ''CIRCUIT_PROBE_REGISTRY_DUPLICATE_KEY''"
| "CircuitProbeRegistryError_fmt RegistryAccountMismatch = ''CIRCUIT_PROBE_REGISTRY_ACCOUNT_MISMATCH''"
| "CircuitProbeRegistryError_fmt RegistryCapacityExceeded = ''CIRCUIT_PROBE_REGISTRY_CAPACITY_EXCEEDED''"

record CircuitProbeRegistration =
  cpr_key :: CircuitProbeKey
  cpr_circuit :: AccountCircuit
  cpr_issuer :: nat

text \<open>The last argument is the address of the issuer the call allocates.\<close>

definition CircuitProbeRegistration_new ::
  "CircuitProbeKey \<Rightarrow> AccountCircuit \<Rightarrow> nat \<Rightarrow> (CircuitProbeRegistryErrorCode, CircuitProbeRegistration) result" where
  "CircuitProbeRegistration_new key circuit issuer =
     (if ac_account_id circuit \<noteq> cpk_account_id key then Inl RegistryAccountMismatch
      else Inr \<lparr>cpr_key = key, cpr_circuit = circuit, cpr_issuer = issuer\<rparr>)"

record CircuitProbeClockReading =
  cl_observed_at :: UtcMillis
  cl_monotonic :: MonotonicMillis

definition duration_millis :: "nat \<Rightarrow> u64 option" where
  "duration_millis millis = try_word millis"

text \<open>
  \<open>ProcessCircuitProbeClock::observe\<close> on the two durations it reads, in milliseconds; the first is
  missing when the system time is before the Unix epoch.
\<close>

definition process_clock_observe :: "nat option \<Rightarrow> nat \<Rightarrow> CircuitProbeClockReading option" where
  "process_clock_observe since_epoch elapsed =
     (case Option.bind since_epoch duration_millis of
        None \<Rightarrow> None
      | Some observed_at \<Rightarrow>
     (case duration_millis elapsed of
        None \<Rightarrow> None
      | Some millis \<Rightarrow>
     (case MonotonicMillis_new millis of
        Inl _ \<Rightarrow> None
      | Inr monotonic \<Rightarrow> Some \<lparr>cl_observed_at = observed_at, cl_monotonic = monotonic\<rparr>)))"

record CircuitProbeRegistry =
  cpg_registrations :: "CircuitProbeRegistration list"

text \<open>The order \<open>derive(Ord)\<close> gives the key, field by field.\<close>

definition probe_key_rank :: "CircuitProbeKey \<Rightarrow> string \<times> string \<times> u64 \<times> u64" where
  "probe_key_rank k =
     (cpk_tenant_id k, cpk_account_id k, cpk_config_version k, cpk_import_generation k)"

definition validate_registry_capacity :: "nat \<Rightarrow> (CircuitProbeRegistryErrorCode, unit) result" where
  "validate_registry_capacity count =
     (if MAX_CIRCUIT_PROBE_ACCOUNTS < count then Inl RegistryCapacityExceeded else Inr ())"

fun adjacent_keys_equal :: "CircuitProbeRegistration list \<Rightarrow> bool" where
  "adjacent_keys_equal (x # y # ys) = (cpr_key x = cpr_key y \<or> adjacent_keys_equal (y # ys))"
| "adjacent_keys_equal _ = False"

definition validate_unique_keys ::
  "CircuitProbeRegistration list \<Rightarrow> (CircuitProbeRegistryErrorCode, unit) result" where
  "validate_unique_keys registrations =
     (if adjacent_keys_equal registrations then Inl RegistryDuplicateKey else Inr ())"

definition CircuitProbeRegistry_new ::
  "CircuitProbeRegistration list \<Rightarrow> (CircuitProbeRegistryErrorCode, CircuitProbeRegistry) result" where
  "CircuitProbeRegistry_new registrations =
     bind_result (validate_registry_capacity (length registrations)) (\<lambda>_.
     let ordered = sort_key (\<lambda>r. probe_key_rank (cpr_key r)) registrations in
     bind_result (validate_unique_keys ordered) (\<lambda>_. Inr \<lparr>cpg_registrations = ordered\<rparr>))"

text \<open>
  The binary search over registrations sorted by distinct keys finds the registration of the key.
\<close>

definition registration :: "CircuitProbeRegistry \<Rightarrow> CircuitProbeKey \<Rightarrow> (CircuitProbeError, CircuitProbeRegistration) result" where
  "registration registry key =
     ok_or ProbeRejected (find (\<lambda>r. cpr_key r = key) (cpg_registrations registry))"

text \<open>A call on the circuit of one registration, through its shared reference.\<close>

definition put_circuit :: "CircuitProbeKey \<Rightarrow> AccountCircuit \<Rightarrow> CircuitProbeRegistry \<Rightarrow> CircuitProbeRegistry" where
  "put_circuit key circuit registry =
     registry\<lparr>cpg_registrations :=
       map (\<lambda>r. if cpr_key r = key then r\<lparr>cpr_circuit := circuit\<rparr> else r) (cpg_registrations registry)\<rparr>"

datatype CircuitProbeLeaseKind = ClosedLease CircuitGeneration | HalfOpenLease ProbeLease

record CircuitProbeLease =
  cpl_key :: CircuitProbeKey
  cpl_kind :: CircuitProbeLeaseKind
  cpl_issuer :: "nat option"

definition CircuitProbeLease_closed :: "CircuitProbeKey \<Rightarrow> CircuitGeneration \<Rightarrow> CircuitProbeLease" where
  "CircuitProbeLease_closed key generation =
     \<lparr>cpl_key = key, cpl_kind = ClosedLease generation, cpl_issuer = None\<rparr>"

definition CircuitProbeLease_new :: "CircuitProbeKey \<Rightarrow> ProbeLease \<Rightarrow> (CircuitProbeError, CircuitProbeLease) result" where
  "CircuitProbeLease_new key inner =
     (if pl_account_id inner \<noteq> cpk_account_id key then Inl ProbeRejected
      else Inr \<lparr>cpl_key = key, cpl_kind = HalfOpenLease inner, cpl_issuer = None\<rparr>)"

definition into_probe :: "CircuitProbeLease \<Rightarrow> ProbeLease option" where
  "into_probe lease = (case cpl_kind lease of ClosedLease _ \<Rightarrow> None | HalfOpenLease l \<Rightarrow> Some l)"

definition with_issuer :: "nat \<Rightarrow> CircuitProbeLease \<Rightarrow> CircuitProbeLease" where
  "with_issuer issuer lease = lease\<lparr>cpl_issuer := Some issuer\<rparr>"

definition is_issued_by :: "CircuitProbeLease \<Rightarrow> nat \<Rightarrow> bool" where
  "is_issued_by lease issuer \<longleftrightarrow> cpl_issuer lease = Some issuer"

datatype CircuitProbeAcquisition = AcquiredClosed CircuitProbeLease | AcquiredHalfOpen CircuitProbeLease

fun acquired_lease :: "CircuitProbeAcquisition \<Rightarrow> CircuitProbeLease" where
  "acquired_lease (AcquiredClosed lease) = lease"
| "acquired_lease (AcquiredHalfOpen lease) = lease"

definition ensure_context_active :: "ErrorCode option \<Rightarrow> (CircuitProbeError, unit) result" where
  "ensure_context_active check =
     (case check of
        None \<Rightarrow> Inr ()
      | Some CancelledCode \<Rightarrow> Inl ProbeCancelled
      | Some DeadlineExceededCode \<Rightarrow> Inl ProbeDeadlineExceeded
      | Some _ \<Rightarrow> Inl ProbeUnavailable)"

definition map_acquisition_error :: "AccountCircuitError \<Rightarrow> CircuitProbeError" where
  "map_acquisition_error e =
     (if e \<in> {AccountMismatch, GenerationConflict, TimestampOutOfOrder, InvalidTransition,
              RecoveryWindowClosed, ProbeLimitReached, ProbeLeaseExpired, AdministrativeResetRequired}
      then ProbeRejected else ProbeUnavailable)"

definition is_stale_probe_error :: "AccountCircuitErrorCode \<Rightarrow> bool" where
  "is_stale_probe_error e \<longleftrightarrow>
     e \<in> {AccountMismatch, GenerationConflict, InvalidTransition, RecoveryWindowClosed,
          ProbeLimitReached, LeaseConflict, ProbeLeaseExpired, AdministrativeResetRequired}"

text \<open>What the acquisition reads outside the registry, in the order of the reads.\<close>

record probe_answers =
  pan_entered :: "ErrorCode option"
  pan_recovering :: "ErrorCode option"
  pan_clock :: "CircuitProbeClockReading option"
  pan_observed :: "ErrorCode option"

definition acquire_recovery_probe ::
  "probe_answers \<Rightarrow> CircuitProbeKey \<Rightarrow> CircuitProbeRegistration \<Rightarrow> CircuitGeneration \<Rightarrow>
     (CircuitProbeRegistry, CircuitProbeError, CircuitProbeAcquisition) update" where
  "acquire_recovery_probe answers key reg generation registry =
     (case ensure_context_active (pan_recovering answers) of
        Inl e \<Rightarrow> (Inl e, registry)
      | Inr _ \<Rightarrow>
     (case pan_clock answers of
        None \<Rightarrow> (Inl ProbeUnavailable, registry)
      | Some reading \<Rightarrow>
     (case ensure_context_active (pan_observed answers) of
        Inl e \<Rightarrow> (Inl e, registry)
      | Inr _ \<Rightarrow>
     (case acquire_probe generation (cl_observed_at reading) (cl_monotonic reading) (cpr_circuit reg) of
        (Inl e, circuit) \<Rightarrow> (Inl (map_acquisition_error e), put_circuit key circuit registry)
      | (Inr lease, circuit) \<Rightarrow>
          (bind_result (CircuitProbeLease_new key lease) (\<lambda>l.
             Inr (AcquiredHalfOpen (with_issuer (cpr_issuer reg) l))),
           put_circuit key circuit registry)))))"

definition registry_acquire_probe ::
  "probe_answers \<Rightarrow> CircuitProbeKey \<Rightarrow>
     (CircuitProbeRegistry, CircuitProbeError, CircuitProbeAcquisition) update" where
  "registry_acquire_probe answers key registry =
     (case ensure_context_active (pan_entered answers) of
        Inl e \<Rightarrow> (Inl e, registry)
      | Inr _ \<Rightarrow>
     (case registration registry key of
        Inl e \<Rightarrow> (Inl e, registry)
      | Inr reg \<Rightarrow>
     (case snapshot_value (cpr_circuit reg) of
        Inl e \<Rightarrow> (Inl ProbeUnavailable, registry)
      | Inr s \<Rightarrow>
     (case cs_state s of
        Closed \<Rightarrow>
          (Inr (AcquiredClosed (with_issuer (cpr_issuer reg)
                  (CircuitProbeLease_closed key (cs_generation s)))), registry)
      | Terminal \<Rightarrow> (Inl ProbeRejected, registry)
      | _ \<Rightarrow> acquire_recovery_probe answers key reg (cs_generation s) registry))))"

definition complete_circuit_execution ::
  "CircuitProbeKey \<Rightarrow> CircuitProbeLease \<Rightarrow> CircuitOutcome \<Rightarrow> CircuitProbeClockReading \<Rightarrow>
     (AccountCircuit, CircuitProbeError, unit) update" where
  "complete_circuit_execution key lease outcome reading circuit =
     (case (case cpl_kind lease of
              ClosedLease generation \<Rightarrow>
                observe \<lparr>co_account_id = cpk_account_id key, co_generation = generation,
                         co_observed_at = cl_observed_at reading, co_monotonic = cl_monotonic reading,
                         co_outcome = outcome\<rparr> circuit
            | HalfOpenLease inner \<Rightarrow>
                complete_probe inner outcome (cl_observed_at reading) (cl_monotonic reading) circuit) of
        (Inl e, c) \<Rightarrow> (Inl ProbeUnavailable, c)
      | (Inr _, c) \<Rightarrow> (Inr (), c))"

definition registry_complete_probe ::
  "CircuitProbeClockReading option \<Rightarrow> CircuitProbeKey \<Rightarrow> CircuitProbeLease \<Rightarrow> CircuitOutcome \<Rightarrow>
     (CircuitProbeRegistry, CircuitProbeError, unit) update" where
  "registry_complete_probe clock key lease outcome registry =
     (if cpl_key lease \<noteq> key then (Inl ProbeRejected, registry)
      else case registration registry key of
        Inl e \<Rightarrow> (Inl e, registry)
      | Inr reg \<Rightarrow>
          (if \<not> is_issued_by lease (cpr_issuer reg) then (Inl ProbeRejected, registry)
           else case clock of
             None \<Rightarrow> (Inl ProbeUnavailable, registry)
           | Some reading \<Rightarrow>
               (case complete_circuit_execution key lease outcome reading (cpr_circuit reg) of
                  (r, circuit) \<Rightarrow> (r, put_circuit key circuit registry))))"

definition validate_closed_probe ::
  "CircuitProbeRegistration \<Rightarrow> CircuitGeneration \<Rightarrow> (CircuitProbeError, CircuitProbeValidation) result" where
  "validate_closed_probe reg generation =
     (case snapshot_value (cpr_circuit reg) of
        Inl e \<Rightarrow> Inl ProbeUnavailable
      | Inr s \<Rightarrow>
          if cs_state s = Closed \<and> cs_generation s = generation then Inr ProbeValid
          else Inr ProbeInvalidated)"

definition validate_half_open_probe ::
  "CircuitProbeClockReading option \<Rightarrow> CircuitProbeKey \<Rightarrow> CircuitProbeRegistration \<Rightarrow> ProbeLease \<Rightarrow>
     (CircuitProbeRegistry, CircuitProbeError, CircuitProbeValidation) update" where
  "validate_half_open_probe clock key reg inner registry =
     (case clock of
        None \<Rightarrow> (Inl ProbeUnavailable, registry)
      | Some reading \<Rightarrow>
          (case validate_probe inner (cl_observed_at reading) (cl_monotonic reading) (cpr_circuit reg) of
             (Inr _, circuit) \<Rightarrow> (Inr ProbeValid, put_circuit key circuit registry)
           | (Inl e, circuit) \<Rightarrow>
               (if is_stale_probe_error e then Inr ProbeInvalidated else Inl ProbeUnavailable,
                put_circuit key circuit registry)))"

definition registry_validate_probe ::
  "CircuitProbeClockReading option \<Rightarrow> CircuitProbeKey \<Rightarrow> CircuitProbeLease \<Rightarrow>
     (CircuitProbeRegistry, CircuitProbeError, CircuitProbeValidation) update" where
  "registry_validate_probe clock key lease registry =
     (if cpl_key lease \<noteq> key then (Inl ProbeRejected, registry)
      else case registration registry key of
        Inl e \<Rightarrow> (Inl e, registry)
      | Inr reg \<Rightarrow>
          (if \<not> is_issued_by lease (cpr_issuer reg) then (Inl ProbeRejected, registry)
           else case cpl_kind lease of
             ClosedLease generation \<Rightarrow> (validate_closed_probe reg generation, registry)
           | HalfOpenLease inner \<Rightarrow> validate_half_open_probe clock key reg inner registry))"

section \<open>The guard of one execution\<close>

record CircuitProbeGuard =
  cgd_lease :: "CircuitProbeLease option"
  cgd_drop_outcome :: CircuitOutcome

definition CircuitProbeGuard_new :: "CircuitProbeLease \<Rightarrow> CircuitProbeGuard" where
  "CircuitProbeGuard_new lease = \<lparr>cgd_lease = Some lease, cgd_drop_outcome = Neutral\<rparr>"

definition arm_retryable_drop :: "CircuitProbeGuard \<Rightarrow> CircuitProbeGuard" where
  "arm_retryable_drop guard = guard\<lparr>cgd_drop_outcome := RetryableFailure\<rparr>"

definition guard_validate ::
  "CircuitProbeClockReading option \<Rightarrow> CircuitProbeGuard \<Rightarrow>
     (CircuitProbeRegistry, CircuitProbeError, CircuitProbeValidation) update" where
  "guard_validate clock guard registry =
     (case cgd_lease guard of
        None \<Rightarrow> (Inr ProbeInvalidated, registry)
      | Some lease \<Rightarrow> registry_validate_probe clock (cpl_key lease) lease registry)"

definition guard_disarm :: "CircuitProbeGuard \<Rightarrow> CircuitProbeGuard" where
  "guard_disarm guard = guard\<lparr>cgd_lease := None\<rparr>"

text \<open>\<open>complete\<close> takes the lease out first, so the drop that follows has nothing left to do.\<close>

definition guard_complete ::
  "CircuitProbeClockReading option \<Rightarrow> CircuitProbeGuard \<Rightarrow> CircuitOutcome \<Rightarrow>
     (CircuitProbeRegistry, CircuitProbeError, unit) update" where
  "guard_complete clock guard outcome registry =
     (case cgd_lease guard of
        None \<Rightarrow> (Inr (), registry)
      | Some lease \<Rightarrow> registry_complete_probe clock (cpl_key lease) lease outcome registry)"

definition guard_drop ::
  "CircuitProbeClockReading option \<Rightarrow> CircuitProbeGuard \<Rightarrow> CircuitProbeRegistry \<Rightarrow> CircuitProbeRegistry" where
  "guard_drop clock guard registry =
     (case cgd_lease guard of
        None \<Rightarrow> registry
      | Some lease \<Rightarrow>
          snd (registry_complete_probe clock (cpl_key lease) lease (cgd_drop_outcome guard) registry))"

end
