(* ===== verification/Routing_Runtime.thy ===== *)
theory Routing_Runtime
  imports Route_Coordinator Circuit_Probe
begin

text \<open>
  One physical attempt of \<open>ariadnion-routing-runtime\<close> (\<open>lib.rs\<close>, \<open>runtime_support.rs\<close>,
  \<open>execution.rs\<close>, \<open>error_code.rs\<close>): from a coordinated route through the circuit probe, the credential
  lease and the dispatch to the settlement of the admission lease and of the probe. The state is the
  pair of admission stores, the probe registry and the list of dispatches handed to the provider
  executor. What the runtime asks of its ports during one attempt (clocks, request context, credential
  and vault ports, the executor) is a record of answers, one field per call; the answers are arbitrary.
  The lemmas are in the theories that follow.
\<close>

section \<open>Errors and identities\<close>

datatype RoutingRuntimeErrorCode =
  RuntimeInvalidArgument | RuntimeDuplicateAttempt | RuntimeUnauthenticated | RuntimeTenantMismatch
| RuntimeCancelled | RuntimeDeadlineExceeded | ProjectionUnavailable | RuntimePoolUnavailable
| ModelUnavailable | MonotonicClockUnavailable | CoordinationFailed | UnsupportedProxyProfile
| CredentialUnavailable | CredentialMismatch | VaultUnavailable | InvalidLease
| InvalidExecutionOutcome | CircuitProbeUnavailable | CircuitProbeFinalizeFailed
| AdmissionFinalizeFailed | AttemptsExhaustedCode | InvariantViolation

fun runtime_request_code :: "RoutingRuntimeErrorCode \<Rightarrow> string option" where
  "runtime_request_code RuntimeInvalidArgument = Some ''ROUTING_RUNTIME_INVALID_ARGUMENT''"
| "runtime_request_code RuntimeDuplicateAttempt = Some ''ROUTING_RUNTIME_DUPLICATE_ATTEMPT''"
| "runtime_request_code RuntimeUnauthenticated = Some ''ROUTING_RUNTIME_UNAUTHENTICATED''"
| "runtime_request_code RuntimeTenantMismatch = Some ''ROUTING_RUNTIME_TENANT_MISMATCH''"
| "runtime_request_code RuntimeCancelled = Some ''ROUTING_RUNTIME_CANCELLED''"
| "runtime_request_code RuntimeDeadlineExceeded = Some ''ROUTING_RUNTIME_DEADLINE_EXCEEDED''"
| "runtime_request_code _ = None"

fun runtime_state_code :: "RoutingRuntimeErrorCode \<Rightarrow> string option" where
  "runtime_state_code ProjectionUnavailable = Some ''ROUTING_RUNTIME_PROJECTION_UNAVAILABLE''"
| "runtime_state_code RuntimePoolUnavailable = Some ''ROUTING_RUNTIME_POOL_UNAVAILABLE''"
| "runtime_state_code ModelUnavailable = Some ''ROUTING_RUNTIME_MODEL_UNAVAILABLE''"
| "runtime_state_code MonotonicClockUnavailable = Some ''ROUTING_RUNTIME_MONOTONIC_CLOCK_UNAVAILABLE''"
| "runtime_state_code CoordinationFailed = Some ''ROUTING_RUNTIME_COORDINATION_FAILED''"
| "runtime_state_code UnsupportedProxyProfile = Some ''ROUTING_RUNTIME_UNSUPPORTED_PROXY_PROFILE''"
| "runtime_state_code _ = None"

fun runtime_adapter_code :: "RoutingRuntimeErrorCode \<Rightarrow> string option" where
  "runtime_adapter_code CredentialUnavailable = Some ''ROUTING_RUNTIME_CREDENTIAL_UNAVAILABLE''"
| "runtime_adapter_code CredentialMismatch = Some ''ROUTING_RUNTIME_CREDENTIAL_MISMATCH''"
| "runtime_adapter_code VaultUnavailable = Some ''ROUTING_RUNTIME_VAULT_UNAVAILABLE''"
| "runtime_adapter_code CircuitProbeUnavailable = Some ''ROUTING_RUNTIME_CIRCUIT_PROBE_UNAVAILABLE''"
| "runtime_adapter_code _ = None"

fun runtime_execution_code :: "RoutingRuntimeErrorCode \<Rightarrow> string" where
  "runtime_execution_code InvalidLease = ''ROUTING_RUNTIME_INVALID_LEASE''"
| "runtime_execution_code InvalidExecutionOutcome = ''ROUTING_RUNTIME_INVALID_EXECUTION_OUTCOME''"
| "runtime_execution_code AdmissionFinalizeFailed = ''ROUTING_RUNTIME_ADMISSION_FINALIZE_FAILED''"
| "runtime_execution_code CircuitProbeFinalizeFailed = ''ROUTING_RUNTIME_CIRCUIT_PROBE_FINALIZE_FAILED''"
| "runtime_execution_code AttemptsExhaustedCode = ''ROUTING_RUNTIME_ATTEMPTS_EXHAUSTED''"
| "runtime_execution_code _ = ''ROUTING_RUNTIME_INVARIANT_VIOLATION''"

definition RoutingRuntimeErrorCode_as_str :: "RoutingRuntimeErrorCode \<Rightarrow> string" where
  "RoutingRuntimeErrorCode_as_str c =
     (case runtime_request_code c of Some s \<Rightarrow> s
      | None \<Rightarrow> (case runtime_state_code c of Some s \<Rightarrow> s
      | None \<Rightarrow> (case runtime_adapter_code c of Some s \<Rightarrow> s
      | None \<Rightarrow> runtime_execution_code c)))"

record PhysicalAttemptIdentity =
  pai_usage_confirmation :: UsageConfirmationId
  pai_candidate :: CandidateKey
  pai_provider_id :: string
  pai_provider_model :: string
  pai_proxy_profile :: "AccountProxyProfile option"

record RoutingRuntimeError =
  rre_code :: RoutingRuntimeErrorCode
  rre_accepted_attempts :: "PhysicalAttemptIdentity list"

definition runtime_error :: "RoutingRuntimeErrorCode \<Rightarrow> RoutingRuntimeError" where
  "runtime_error code = \<lparr>rre_code = code, rre_accepted_attempts = []\<rparr>"

definition with_accepted :: "PhysicalAttemptIdentity \<Rightarrow> RoutingRuntimeError \<Rightarrow> RoutingRuntimeError" where
  "with_accepted identity e = e\<lparr>rre_accepted_attempts := rre_accepted_attempts e @ [identity]\<rparr>"

definition prepend_accepted ::
  "PhysicalAttemptIdentity list \<Rightarrow> RoutingRuntimeError \<Rightarrow> RoutingRuntimeError" where
  "prepend_accepted prior e =
     (if prior = [] then e else e\<lparr>rre_accepted_attempts := prior @ rre_accepted_attempts e\<rparr>)"

definition with_optional_accepted ::
  "RoutingRuntimeError \<Rightarrow> PhysicalAttemptIdentity option \<Rightarrow> RoutingRuntimeError" where
  "with_optional_accepted e accepted =
     (case accepted of Some identity \<Rightarrow> with_accepted identity e | None \<Rightarrow> e)"

section \<open>Execution outcomes\<close>

datatype PhysicalExecutionAcceptance = ExecutionNotAccepted | ExecutionAccepted

datatype ProviderExecutionInterruption = InterruptedCancelled | InterruptedDeadlineExceeded

fun interruption_error_code :: "ProviderExecutionInterruption \<Rightarrow> RoutingRuntimeErrorCode" where
  "interruption_error_code InterruptedCancelled = RuntimeCancelled"
| "interruption_error_code InterruptedDeadlineExceeded = RuntimeDeadlineExceeded"

datatype ProviderExecutionOutcome =
  OutcomeAccepted StreamCommitment
| OutcomeFailed PhysicalExecutionAcceptance StreamCommitment FailureClass
| OutcomeInterrupted PhysicalExecutionAcceptance StreamCommitment ProviderExecutionInterruption

definition validate_disposition ::
  "PhysicalExecutionAcceptance \<Rightarrow> StreamCommitment \<Rightarrow> (RoutingRuntimeError, unit) result" where
  "validate_disposition acceptance commitment =
     (if acceptance = ExecutionNotAccepted \<and> commitment = FirstByteSent
      then Inl (runtime_error InvalidExecutionOutcome) else Inr ())"

definition ProviderExecutionOutcome_failed ::
  "PhysicalExecutionAcceptance \<Rightarrow> StreamCommitment \<Rightarrow> FailureClass \<Rightarrow>
     (RoutingRuntimeError, ProviderExecutionOutcome) result" where
  "ProviderExecutionOutcome_failed acceptance commitment failure =
     bind_result (validate_disposition acceptance commitment) (\<lambda>_.
       Inr (OutcomeFailed acceptance commitment failure))"

definition ProviderExecutionOutcome_interrupted ::
  "PhysicalExecutionAcceptance \<Rightarrow> StreamCommitment \<Rightarrow> ProviderExecutionInterruption \<Rightarrow>
     (RoutingRuntimeError, ProviderExecutionOutcome) result" where
  "ProviderExecutionOutcome_interrupted acceptance commitment interruption =
     bind_result (validate_disposition acceptance commitment) (\<lambda>_.
       Inr (OutcomeInterrupted acceptance commitment interruption))"

definition contradictory_acceptance :: "PhysicalExecutionAcceptance \<Rightarrow> StreamCommitment \<Rightarrow> bool" where
  "contradictory_acceptance acceptance commitment \<longleftrightarrow>
     acceptance = ExecutionNotAccepted \<and> commitment = FirstByteSent"

fun circuit_failure_outcome :: "FailureClass \<Rightarrow> CircuitOutcome" where
  "circuit_failure_outcome Authentication = TerminalFailure"
| "circuit_failure_outcome Transport = RetryableFailure"
| "circuit_failure_outcome TransientServer = RetryableFailure"
| "circuit_failure_outcome FailureRateLimited = RetryableFailure"
| "circuit_failure_outcome InvalidRequest = Neutral"
| "circuit_failure_outcome PolicyRejection = Neutral"

fun circuit_interruption_outcome :: "PhysicalExecutionAcceptance \<Rightarrow> CircuitOutcome" where
  "circuit_interruption_outcome ExecutionNotAccepted = Neutral"
| "circuit_interruption_outcome ExecutionAccepted = RetryableFailure"

definition validate_execution_proxy :: "AccountProxyProfile option \<Rightarrow> (RoutingRuntimeError, unit) result" where
  "validate_execution_proxy profile =
     (case profile of
        None \<Rightarrow> Inr ()
      | Some p \<Rightarrow>
          if app_authentication p = None
             \<and> (case app_endpoint p of EgressDirect \<Rightarrow> True | EgressProxy scheme _ _ \<Rightarrow> scheme = ProxyHttp)
          then Inr () else Inl (runtime_error UnsupportedProxyProfile))"

section \<open>Loaded state and target\<close>

text \<open>The fields of the loaded state that the runtime reads.\<close>

record LoadedState =
  ls_tenant :: TenantId
  ls_projection :: AccountProjectionSnapshot
  ls_pool :: CandidateSnapshot

record OwnedTarget =
  ot_account_id :: AccountId
  ot_provider_id :: string
  ot_config_version :: u64
  ot_import_generation :: u64

definition ensure_active :: "ErrorCode option \<Rightarrow> (RoutingRuntimeError, unit) result" where
  "ensure_active check =
     (case check of
        None \<Rightarrow> Inr ()
      | Some CancelledCode \<Rightarrow> Inl (runtime_error RuntimeCancelled)
      | Some DeadlineExceededCode \<Rightarrow> Inl (runtime_error RuntimeDeadlineExceeded)
      | Some _ \<Rightarrow> Inl (runtime_error InvariantViolation))"

definition authenticated_tenant ::
  "ErrorCode option \<Rightarrow> TenantId option \<Rightarrow> (RoutingRuntimeError, TenantId) result" where
  "authenticated_tenant check subject =
     bind_result (ensure_active check) (\<lambda>_. ok_or (runtime_error RuntimeUnauthenticated) subject)"

definition validate_projection ::
  "AccountProjectionSnapshot \<Rightarrow> TenantId \<Rightarrow> u64 \<Rightarrow> (RoutingRuntimeError, unit) result" where
  "validate_projection projection tenant generation =
     (if aps_generation projection \<noteq> generation then Inl (runtime_error ProjectionUnavailable)
      else if list_ex (\<lambda>account. dap_tenant_id account \<noteq> tenant) (aps_accounts projection)
      then Inl (runtime_error RuntimeTenantMismatch)
      else Inr ())"

definition pool_generation :: "CandidateSnapshot \<Rightarrow> (RoutingRuntimeError, u64) result" where
  "pool_generation pool =
     (if csn_id pool \<noteq> csn_version pool then Inl (runtime_error RuntimePoolUnavailable)
      else Inr (csn_version pool))"

definition find_candidate :: "CandidateSnapshot \<Rightarrow> CandidateKey \<Rightarrow> (RoutingRuntimeError, CandidateMetadata) result" where
  "find_candidate pool key =
     ok_or (runtime_error InvariantViolation) (find (\<lambda>c. cm_id c = key) (csn_candidates pool))"

definition validate_candidate_binding ::
  "CandidateMetadata \<Rightarrow> CoordinatedRoute \<Rightarrow> TenantId \<Rightarrow> (RoutingRuntimeError, unit) result" where
  "validate_candidate_binding candidate route tenant =
     (if cm_account_id candidate \<noteq> rt_selected_account route \<or> cm_tenant_id candidate \<noteq> Some tenant
      then Inl (runtime_error RuntimeTenantMismatch) else Inr ())"

definition validate_projection_binding ::
  "CandidateMetadata \<Rightarrow> AccountProjectionSnapshot \<Rightarrow> TenantId \<Rightarrow> (RoutingRuntimeError, u64 \<times> u64) result" where
  "validate_projection_binding candidate projection tenant =
     bind_result (ok_or (runtime_error InvariantViolation)
       (find (\<lambda>row. dap_account_id row = cm_account_id candidate) (aps_accounts projection))) (\<lambda>row.
     if dap_provider_id row \<noteq> cm_provider_id candidate \<or> dap_tenant_id row \<noteq> tenant
     then Inl (runtime_error InvariantViolation)
     else if dap_config_version row = 0 then Inl (runtime_error InvariantViolation)
     else Inr (dap_config_version row, dap_import_generation row))"

definition validate_provider_model ::
  "CandidateMetadata \<Rightarrow> CoordinatedRoute \<Rightarrow> (RoutingRuntimeError, unit) result" where
  "validate_provider_model candidate route =
     bind_result (ok_or (runtime_error InvariantViolation) (cm_model candidate)) (\<lambda>model.
     if model \<noteq> rt_provider_model route then Inl (runtime_error InvariantViolation) else Inr ())"

definition validate_route_target ::
  "CoordinatedRoute \<Rightarrow> LoadedState \<Rightarrow> (RoutingRuntimeError, OwnedTarget) result" where
  "validate_route_target route loaded =
     bind_result (find_candidate (ls_pool loaded) (rt_selected_candidate route)) (\<lambda>candidate.
     bind_result (validate_candidate_binding candidate route (ls_tenant loaded)) (\<lambda>_.
     bind_result (validate_projection_binding candidate (ls_projection loaded) (ls_tenant loaded))
       (\<lambda>(config_version, import_generation).
     bind_result (validate_provider_model candidate route) (\<lambda>_.
       Inr \<lparr>ot_account_id = cm_account_id candidate, ot_provider_id = cm_provider_id candidate,
            ot_config_version = config_version, ot_import_generation = import_generation\<rparr>))))"

definition circuit_probe_key :: "OwnedTarget \<Rightarrow> LoadedState \<Rightarrow> CircuitProbeKey" where
  "circuit_probe_key target loaded =
     \<lparr>cpk_tenant_id = ls_tenant loaded, cpk_account_id = ot_account_id target,
      cpk_config_version = ot_config_version target,
      cpk_import_generation = ot_import_generation target\<rparr>"

section \<open>Credentials\<close>

datatype VaultErrorCode =
  VaultInvalidArgument | VaultUnauthenticated | VaultPermissionDenied | VaultNotFound | VaultConflict
| VaultLimitExceeded | VaultExpired | VaultCancelled | VaultDeadlineExceeded | VaultResourceExhausted
| VaultUnavailableCode | VaultIntegrityFailure | VaultCommitIndeterminate | VaultInternal

definition map_projection_error :: "ImportPortErrorCode \<Rightarrow> RoutingRuntimeError" where
  "map_projection_error e =
     (case e of
        ImportUnauthenticated \<Rightarrow> runtime_error RuntimeUnauthenticated
      | ImportCancelled \<Rightarrow> runtime_error RuntimeCancelled
      | ImportDeadlineExceeded \<Rightarrow> runtime_error RuntimeDeadlineExceeded
      | _ \<Rightarrow> runtime_error ProjectionUnavailable)"

definition map_credential_error :: "ImportPortErrorCode \<Rightarrow> RoutingRuntimeError" where
  "map_credential_error e =
     (case e of
        ImportUnauthenticated \<Rightarrow> runtime_error RuntimeUnauthenticated
      | ImportCancelled \<Rightarrow> runtime_error RuntimeCancelled
      | ImportDeadlineExceeded \<Rightarrow> runtime_error RuntimeDeadlineExceeded
      | _ \<Rightarrow> runtime_error CredentialUnavailable)"

definition map_vault_error :: "VaultErrorCode \<Rightarrow> RoutingRuntimeError" where
  "map_vault_error e =
     (case e of
        VaultCancelled \<Rightarrow> runtime_error RuntimeCancelled
      | VaultDeadlineExceeded \<Rightarrow> runtime_error RuntimeDeadlineExceeded
      | _ \<Rightarrow> runtime_error VaultUnavailable)"

fun map_circuit_probe_acquire_error :: "CircuitProbeError \<Rightarrow> RoutingRuntimeError" where
  "map_circuit_probe_acquire_error ProbeCancelled = runtime_error RuntimeCancelled"
| "map_circuit_probe_acquire_error ProbeDeadlineExceeded = runtime_error RuntimeDeadlineExceeded"
| "map_circuit_probe_acquire_error ProbeUnavailable = runtime_error CircuitProbeUnavailable"
| "map_circuit_probe_acquire_error ProbeRejected = runtime_error CircuitProbeUnavailable"

record SecretLease =
  sle_reference :: SecretRef
  sle_module :: string
  sle_issued_at :: nat
  sle_expires_at :: nat

definition secret_is_valid_at :: "SecretLease \<Rightarrow> nat \<Rightarrow> bool" where
  "secret_is_valid_at lease now \<longleftrightarrow> sle_issued_at lease \<le> now \<and> now < sle_expires_at lease"

definition validate_credential_identity ::
  "AccountCredentialReferenceRequest \<Rightarrow> AccountCredentialReference \<Rightarrow> TenantId \<Rightarrow> (RoutingRuntimeError, unit) result" where
  "validate_credential_identity request reference tenant =
     (if acr_tenant_id reference \<noteq> tenant \<or> acr_account_id reference \<noteq> crq_account_id request
         \<or> acr_provider_id reference \<noteq> crq_provider_id request
         \<or> acr_config_version reference \<noteq> crq_config_version request
      then Inl (runtime_error CredentialMismatch) else Inr ())"

definition validate_credential_scope ::
  "AccountCredentialReferenceRequest \<Rightarrow> AccountCredentialReference \<Rightarrow> (RoutingRuntimeError, unit) result" where
  "validate_credential_scope request reference =
     (if acr_purpose reference \<noteq> crq_purpose request
         \<or> acr_import_generation reference \<noteq> crq_expected_generation request
         \<or> sr_purpose (acr_secret_ref reference) \<noteq> crq_purpose request
      then Inl (runtime_error CredentialMismatch) else Inr ())"

definition validate_credential ::
  "AccountCredentialReferenceRequest \<Rightarrow> AccountCredentialReference \<Rightarrow> TenantId \<Rightarrow> (RoutingRuntimeError, unit) result" where
  "validate_credential request reference tenant =
     bind_result (validate_credential_identity request reference tenant) (\<lambda>_.
       validate_credential_scope request reference)"

definition validate_revalidated_credential ::
  "AccountCredentialReference \<Rightarrow> AccountCredentialReference \<Rightarrow> (RoutingRuntimeError, unit) result" where
  "validate_revalidated_credential expected current =
     (if current \<noteq> expected then Inl (runtime_error CredentialMismatch) else Inr ())"

definition validate_lease ::
  "SecretLease \<Rightarrow> AccountCredentialReference \<Rightarrow> string \<Rightarrow> string \<Rightarrow> nat \<Rightarrow> (RoutingRuntimeError, unit) result" where
  "validate_lease lease reference module purpose now =
     (if sle_reference lease \<noteq> acr_secret_ref reference \<or> sle_module lease \<noteq> module
         \<or> sr_purpose (sle_reference lease) \<noteq> purpose \<or> \<not> secret_is_valid_at lease now
      then Inl (runtime_error InvalidLease) else Inr ())"

definition validate_usage_binding ::
  "UsageConfirmationId \<Rightarrow> TenantId \<Rightarrow> string \<Rightarrow> (RoutingRuntimeError, unit) result" where
  "validate_usage_binding identity tenant request_id =
     (if uc_tenant identity \<noteq> tenant \<or> uc_request identity \<noteq> request_id
      then Inl (runtime_error InvariantViolation) else Inr ())"

end
