(* ===== verification/Runtime_Attempt.thy ===== *)
theory Runtime_Attempt
  imports Routing_Runtime
begin

text \<open>
  The execution of one attempt in \<open>ariadnion-routing-runtime/src/lib.rs\<close>: acquiring the circuit
  probe, authorising and leasing the credential, dispatching, and settling the admission lease and the
  probe after the dispatch, before it, or when the execution is abandoned while it is pending. Where
  the source drops a route it did not settle, the drop of its lease is written out.
\<close>

section \<open>State, ports and answers\<close>

record runtime_world =
  wld_stores :: RoutingAdmissionCoordinator
  wld_probes :: CircuitProbeRegistry
  wld_dispatched :: "PhysicalAttemptIdentity list"

type_synonym 'a runtime_update = "(runtime_world, RoutingRuntimeError, 'a) update"

record RoutingRuntime =
  rrt_coordinator :: RoutingCoordinator
  rrt_circuit_probes :: bool \<comment> \<open>whether a probe authority is installed\<close>
  rrt_module :: string
  rrt_purpose :: string

text \<open>
  The answers one attempt gets, in the order the runtime asks. A clock that fails answers \<open>None\<close>. Of
  \<open>an_complete_clock\<close> and \<open>an_final_clock\<close> every path of the attempt reads at most one each.
\<close>

record attempt_answers =
  an_acquire_active :: "ErrorCode option"
  an_probe :: probe_answers
  an_accept_active :: "ErrorCode option"
  an_resolve_active :: "ErrorCode option"
  an_resolved :: "(ImportPortErrorCode, AccountCredentialReference) result"
  an_secret :: "(VaultErrorCode, SecretLease) result"
  an_secret_active :: "ErrorCode option"
  an_secret_now :: nat
  an_revalidate_active :: "ErrorCode option"
  an_current :: "(ImportPortErrorCode, AccountCredentialReference) result"
  an_revalidated_active :: "ErrorCode option"
  an_dispatch_clock :: "MonotonicTime option"
  an_validate_clock :: "CircuitProbeClockReading option"
  an_outcome :: ProviderExecutionOutcome
  an_final_clock :: "MonotonicTime option"
  an_complete_clock :: "CircuitProbeClockReading option"

section \<open>Settling\<close>

definition on_stores ::
  "(RoutingAdmissionCoordinator, RoutingAdmissionError, 'a) update \<Rightarrow>
     (RoutingAdmissionError \<Rightarrow> RoutingRuntimeError) \<Rightarrow> 'a runtime_update" where
  "on_stores f h w = (case f (wld_stores w) of (r, s) \<Rightarrow> (map_err h r, w\<lparr>wld_stores := s\<rparr>))"

definition on_probes ::
  "(CircuitProbeRegistry, CircuitProbeError, 'a) update \<Rightarrow>
     (CircuitProbeError \<Rightarrow> RoutingRuntimeError) \<Rightarrow> 'a runtime_update" where
  "on_probes f h w = (case f (wld_probes w) of (r, p) \<Rightarrow> (map_err h r, w\<lparr>wld_probes := p\<rparr>))"

definition drop_route :: "CoordinatedRoute \<Rightarrow> runtime_world \<Rightarrow> runtime_world" where
  "drop_route route w =
     w\<lparr>wld_stores := drop_routing_lease (rt_admission_lease route) (wld_stores w)\<rparr>"

definition release_route :: "CoordinatedRoute \<Rightarrow> MonotonicTime \<Rightarrow> unit runtime_update" where
  "release_route route now =
     on_stores (routing_release (rt_admission_lease route) now)
       (\<lambda>_. runtime_error AdmissionFinalizeFailed)"

definition finalize_accepted_route ::
  "CoordinatedRoute \<Rightarrow> MonotonicTime option \<Rightarrow> PhysicalAttemptIdentity \<Rightarrow> unit runtime_update" where
  "finalize_accepted_route route now identity =
     on_stores (routing_finalize_accepted (rt_admission_lease route) now)
       (\<lambda>_. with_accepted identity (runtime_error AdmissionFinalizeFailed))"

definition combine_finalizations ::
  "(RoutingRuntimeError, 'a) result \<Rightarrow> (RoutingRuntimeError, unit) result \<Rightarrow>
     PhysicalAttemptIdentity option \<Rightarrow> (RoutingRuntimeError, 'a) result" where
  "combine_finalizations admission probe accepted =
     bind_result admission (\<lambda>value.
       case probe of
         Inr _ \<Rightarrow> Inr value
       | Inl e \<Rightarrow> Inl (case accepted of Some identity \<Rightarrow> with_accepted identity e | None \<Rightarrow> e))"

definition complete_circuit_probe ::
  "attempt_answers \<Rightarrow> CircuitProbeGuard option \<Rightarrow> CircuitOutcome \<Rightarrow> unit runtime_update" where
  "complete_circuit_probe answers probe outcome w =
     (case probe of
        None \<Rightarrow> (Inr (), w)
      | Some guard \<Rightarrow>
          on_probes (guard_complete (an_complete_clock answers) guard outcome)
            (\<lambda>_. runtime_error CircuitProbeFinalizeFailed) w)"

text \<open>When the clock fails, the closure that owns the route is dropped unused.\<close>

definition release_pre_dispatch ::
  "attempt_answers \<Rightarrow> CoordinatedRoute \<Rightarrow> CircuitProbeGuard option \<Rightarrow> RoutingRuntimeError \<Rightarrow> 'a runtime_update" where
  "release_pre_dispatch answers route probe original w =
     (case (case an_final_clock answers of
              None \<Rightarrow> (Inl (runtime_error MonotonicClockUnavailable), drop_route route w)
            | Some now \<Rightarrow> release_route route now w) of
        (admission, w1) \<Rightarrow>
     (case complete_circuit_probe answers probe Neutral w1 of
        (completed, w2) \<Rightarrow>
          (bind_result (combine_finalizations admission completed None) (\<lambda>_. Inl original), w2)))"

definition finish_probe_rejection ::
  "attempt_answers \<Rightarrow> CircuitProbeGuard \<Rightarrow> RoutingRuntimeError \<Rightarrow> 'a runtime_update" where
  "finish_probe_rejection answers guard original w =
     (case complete_circuit_probe answers (Some guard) Neutral w of
        (r, w') \<Rightarrow> (bind_result r (\<lambda>_. Inl original), w'))"

definition finalize_accepted_admission ::
  "attempt_answers \<Rightarrow> CoordinatedRoute \<Rightarrow> PhysicalAttemptIdentity \<Rightarrow> unit runtime_update" where
  "finalize_accepted_admission answers route identity w =
     (case finalize_accepted_route route (an_final_clock answers) identity w of
        (r, w') \<Rightarrow>
          (case an_final_clock answers of
             None \<Rightarrow> Inl (with_accepted identity (runtime_error MonotonicClockUnavailable))
           | Some _ \<Rightarrow> r, w'))"

definition finalize_disposition ::
  "attempt_answers \<Rightarrow> CoordinatedRoute \<Rightarrow> PhysicalAttemptIdentity \<Rightarrow> MonotonicTime \<Rightarrow>
     PhysicalExecutionAcceptance \<Rightarrow> runtime_world \<Rightarrow>
     (RoutingRuntimeError, PhysicalAttemptIdentity option) result \<times> PhysicalAttemptIdentity option \<times> runtime_world" where
  "finalize_disposition answers route identity dispatch_time acceptance w =
     (case acceptance of
        ExecutionNotAccepted \<Rightarrow>
          (let now = (case an_final_clock answers of Some t \<Rightarrow> t | None \<Rightarrow> dispatch_time) in
           case release_route route now w of
             (r, w') \<Rightarrow> (bind_result r (\<lambda>_. Inr None), None, w'))
      | ExecutionAccepted \<Rightarrow>
          (case finalize_accepted_admission answers route identity w of
             (r, w') \<Rightarrow> (bind_result r (\<lambda>_. Inr (Some identity)), Some identity, w')))"

section \<open>Progress of one attempt\<close>

record FailedAttempt =
  fa_failure :: FailureClass
  fa_commitment :: StreamCommitment
  fa_accepted :: "PhysicalAttemptIdentity option"

datatype AttemptProgress =
  AttemptSucceeded PhysicalAttemptIdentity StreamCommitment
| AttemptFailed FailedAttempt

definition finalize_success ::
  "attempt_answers \<Rightarrow> CoordinatedRoute \<Rightarrow> PhysicalAttemptIdentity \<Rightarrow> CircuitProbeGuard option \<Rightarrow>
     StreamCommitment \<Rightarrow> AttemptProgress runtime_update" where
  "finalize_success answers route identity probe commitment w =
     (case finalize_accepted_admission answers route identity w of (admission, w1) \<Rightarrow>
     (case complete_circuit_probe answers probe Success w1 of (completed, w2) \<Rightarrow>
        (bind_result (combine_finalizations admission completed (Some identity)) (\<lambda>_.
           Inr (AttemptSucceeded identity commitment)), w2)))"

definition finalize_contradiction ::
  "attempt_answers \<Rightarrow> CoordinatedRoute \<Rightarrow> PhysicalAttemptIdentity \<Rightarrow> CircuitProbeGuard option \<Rightarrow>
     AttemptProgress runtime_update" where
  "finalize_contradiction answers route identity probe w =
     (case finalize_accepted_admission answers route identity w of (admission, w1) \<Rightarrow>
     (case complete_circuit_probe answers probe RetryableFailure w1 of (completed, w2) \<Rightarrow>
        (bind_result (combine_finalizations admission completed (Some identity)) (\<lambda>_.
           Inl (with_accepted identity (runtime_error InvalidExecutionOutcome))), w2)))"

definition finalize_failure ::
  "attempt_answers \<Rightarrow> CoordinatedRoute \<Rightarrow> PhysicalAttemptIdentity \<Rightarrow> CircuitProbeGuard option \<Rightarrow> MonotonicTime \<Rightarrow>
     PhysicalExecutionAcceptance \<Rightarrow> StreamCommitment \<Rightarrow> FailureClass \<Rightarrow> AttemptProgress runtime_update" where
  "finalize_failure answers route identity probe dispatch_time acceptance commitment failure w =
     (if contradictory_acceptance acceptance commitment
      then finalize_contradiction answers route identity probe w
      else
     (case finalize_disposition answers route identity dispatch_time acceptance w of
        (admission, accepted_evidence, w1) \<Rightarrow>
     (case complete_circuit_probe answers probe (circuit_failure_outcome failure) w1 of (completed, w2) \<Rightarrow>
        (bind_result (combine_finalizations admission completed accepted_evidence) (\<lambda>accepted.
           Inr (AttemptFailed \<lparr>fa_failure = failure, fa_commitment = commitment, fa_accepted = accepted\<rparr>)), w2))))"

definition finalize_interruption ::
  "attempt_answers \<Rightarrow> CoordinatedRoute \<Rightarrow> PhysicalAttemptIdentity \<Rightarrow> CircuitProbeGuard option \<Rightarrow> MonotonicTime \<Rightarrow>
     PhysicalExecutionAcceptance \<Rightarrow> StreamCommitment \<Rightarrow> ProviderExecutionInterruption \<Rightarrow>
     AttemptProgress runtime_update" where
  "finalize_interruption answers route identity probe dispatch_time acceptance commitment interruption w =
     (if contradictory_acceptance acceptance commitment
      then finalize_contradiction answers route identity probe w
      else
     (case finalize_disposition answers route identity dispatch_time acceptance w of
        (admission, accepted_evidence, w1) \<Rightarrow>
     (case complete_circuit_probe answers probe (circuit_interruption_outcome acceptance) w1 of (completed, w2) \<Rightarrow>
        (bind_result (combine_finalizations admission completed accepted_evidence) (\<lambda>accepted.
           Inl (with_optional_accepted (runtime_error (interruption_error_code interruption)) accepted)), w2))))"

definition finalize_execution ::
  "attempt_answers \<Rightarrow> CoordinatedRoute \<Rightarrow> PhysicalAttemptIdentity \<Rightarrow> CircuitProbeGuard option \<Rightarrow> MonotonicTime \<Rightarrow>
     ProviderExecutionOutcome \<Rightarrow> AttemptProgress runtime_update" where
  "finalize_execution answers route identity probe dispatch_time outcome =
     (case outcome of
        OutcomeAccepted commitment \<Rightarrow> finalize_success answers route identity probe commitment
      | OutcomeFailed acceptance commitment failure \<Rightarrow>
          finalize_failure answers route identity probe dispatch_time acceptance commitment failure
      | OutcomeInterrupted acceptance commitment interruption \<Rightarrow>
          finalize_interruption answers route identity probe dispatch_time acceptance commitment interruption)"

section \<open>Preparing and executing a route\<close>

definition accept_probe_acquisition ::
  "attempt_answers \<Rightarrow> CircuitProbeKey \<Rightarrow> CircuitProbeAcquisition \<Rightarrow> CircuitProbeGuard option runtime_update" where
  "accept_probe_acquisition answers key acquisition w =
     (let lease = acquired_lease acquisition;
          rejection = (if cpl_key lease \<noteq> key then Some (runtime_error InvariantViolation)
                       else case ensure_active (an_accept_active answers) of Inl e \<Rightarrow> Some e | Inr _ \<Rightarrow> None);
          guard = CircuitProbeGuard_new lease
      in case rejection of
           Some e \<Rightarrow> finish_probe_rejection answers guard e w
         | None \<Rightarrow> (Inr (Some guard), w))"

definition acquire_circuit_probe ::
  "RoutingRuntime \<Rightarrow> attempt_answers \<Rightarrow> CircuitProbeKey \<Rightarrow> CircuitProbeGuard option runtime_update" where
  "acquire_circuit_probe runtime answers key =
     bind_update (lift_result (\<lambda>_. ensure_active (an_acquire_active answers))) (\<lambda>_.
     bind_update (lift_result (\<lambda>_.
       if rrt_circuit_probes runtime then Inr () else Inl (runtime_error CircuitProbeUnavailable))) (\<lambda>_.
     bind_update (on_probes (registry_acquire_probe (an_probe answers) key) map_circuit_probe_acquire_error)
       (accept_probe_acquisition answers key)))"

definition prepare_target :: "CoordinatedRoute \<Rightarrow> LoadedState \<Rightarrow> (RoutingRuntimeError, OwnedTarget) result" where
  "prepare_target route loaded =
     bind_result (validate_execution_proxy (rt_selected_proxy_profile route)) (\<lambda>_.
       validate_route_target route loaded)"

definition prepare_target_and_probe ::
  "RoutingRuntime \<Rightarrow> attempt_answers \<Rightarrow> CoordinatedRoute \<Rightarrow> LoadedState \<Rightarrow>
     (OwnedTarget \<times> CircuitProbeGuard option) runtime_update" where
  "prepare_target_and_probe runtime answers route loaded =
     bind_update (lift_result (\<lambda>_. prepare_target route loaded)) (\<lambda>target.
     bind_update (acquire_circuit_probe runtime answers (circuit_probe_key target loaded)) (\<lambda>probe w.
       (Inr (target, probe), w)))"

definition resolve_credential ::
  "RoutingRuntime \<Rightarrow> attempt_answers \<Rightarrow> OwnedTarget \<Rightarrow> LoadedState \<Rightarrow>
     (RoutingRuntimeError, AccountCredentialReference) result" where
  "resolve_credential runtime answers target loaded =
     bind_result (ensure_active (an_resolve_active answers)) (\<lambda>_.
     bind_result (map_err map_credential_error
       (AccountCredentialReferenceRequest_new (ot_account_id target) (ot_provider_id target)
          (ot_config_version target) (rrt_purpose runtime) (aps_generation (ls_projection loaded)))) (\<lambda>request.
     bind_result (map_err map_credential_error (an_resolved answers)) (\<lambda>reference.
     bind_result (validate_credential request reference (ls_tenant loaded)) (\<lambda>_. Inr reference))))"

definition issue_lease ::
  "RoutingRuntime \<Rightarrow> attempt_answers \<Rightarrow> AccountCredentialReference \<Rightarrow> (RoutingRuntimeError, SecretLease) result" where
  "issue_lease runtime answers reference =
     bind_result (map_err map_vault_error (an_secret answers)) (\<lambda>lease.
     bind_result (ensure_active (an_secret_active answers)) (\<lambda>_.
     bind_result (validate_lease lease reference (rrt_module runtime) (rrt_purpose runtime) (an_secret_now answers)) (\<lambda>_.
       Inr lease)))"

definition revalidate_credential ::
  "attempt_answers \<Rightarrow> AccountCredentialReference \<Rightarrow> (RoutingRuntimeError, unit) result" where
  "revalidate_credential answers reference =
     bind_result (ensure_active (an_revalidate_active answers)) (\<lambda>_.
     bind_result (map_err map_credential_error (an_current answers)) (\<lambda>current.
     bind_result (ensure_active (an_revalidated_active answers)) (\<lambda>_.
     bind_result (validate_credential (revalidation_request reference) current (acr_tenant_id reference)) (\<lambda>_.
       validate_revalidated_credential reference current))))"

record ProviderExecutionRequest =
  per_candidate :: CandidateKey
  per_account_id :: AccountId
  per_provider_id :: string
  per_provider_model :: string
  per_proxy_profile :: "AccountProxyProfile option"
  per_usage_confirmation :: UsageConfirmationId
  per_credential :: SecretLease

definition build_execution ::
  "CoordinatedRoute \<Rightarrow> string \<Rightarrow> LoadedState \<Rightarrow> OwnedTarget \<Rightarrow> SecretLease \<Rightarrow> string \<Rightarrow>
     (RoutingRuntimeError, ProviderExecutionRequest \<times> PhysicalAttemptIdentity) result" where
  "build_execution route attempt loaded target lease request_id =
     (let usage_confirmation = usage_confirmation_id route attempt;
          proxy_profile = rt_selected_proxy_profile route
      in bind_result (validate_usage_binding usage_confirmation (ls_tenant loaded) request_id) (\<lambda>_.
         Inr (\<lparr>per_candidate = rt_selected_candidate route, per_account_id = ot_account_id target,
               per_provider_id = ot_provider_id target, per_provider_model = rt_provider_model route,
               per_proxy_profile = proxy_profile, per_usage_confirmation = usage_confirmation,
               per_credential = lease\<rparr>,
              \<lparr>pai_usage_confirmation = usage_confirmation, pai_candidate = rt_selected_candidate route,
               pai_provider_id = ot_provider_id target, pai_provider_model = rt_provider_model route,
               pai_proxy_profile = proxy_profile\<rparr>)))"

text \<open>\<open>request_id\<close> is the request identity of the caller's context.\<close>

definition prepare_execution ::
  "RoutingRuntime \<Rightarrow> attempt_answers \<Rightarrow> string \<Rightarrow> CoordinatedRoute \<Rightarrow> string \<Rightarrow> LoadedState \<Rightarrow> OwnedTarget \<Rightarrow>
     (RoutingRuntimeError, ProviderExecutionRequest \<times> PhysicalAttemptIdentity) result" where
  "prepare_execution runtime answers request_id route attempt loaded target =
     bind_result (resolve_credential runtime answers target loaded) (\<lambda>reference.
     bind_result (issue_lease runtime answers reference) (\<lambda>lease.
     bind_result (revalidate_credential answers reference) (\<lambda>_.
       build_execution route attempt loaded target lease request_id)))"

record PreparedRoute =
  pr_execution :: ProviderExecutionRequest
  pr_identity :: PhysicalAttemptIdentity
  pr_probe :: "CircuitProbeGuard option"

definition prepare_route ::
  "RoutingRuntime \<Rightarrow> attempt_answers \<Rightarrow> string \<Rightarrow> CoordinatedRoute \<Rightarrow> string \<Rightarrow> LoadedState \<Rightarrow>
     PreparedRoute runtime_update" where
  "prepare_route runtime answers request_id route attempt loaded w =
     (case prepare_target_and_probe runtime answers route loaded w of
        (Inl e, w1) \<Rightarrow> release_pre_dispatch answers route None e w1
      | (Inr (target, probe), w1) \<Rightarrow>
     (case prepare_execution runtime answers request_id route attempt loaded target of
        Inl e \<Rightarrow> release_pre_dispatch answers route probe e w1
      | Inr (execution, identity) \<Rightarrow>
          (Inr \<lparr>pr_execution = execution, pr_identity = identity, pr_probe = probe\<rparr>, w1)))"

definition validate_prepared_probe ::
  "attempt_answers \<Rightarrow> CircuitProbeGuard option \<Rightarrow> runtime_world \<Rightarrow>
     (RoutingRuntimeError, unit) result \<times> CircuitProbeGuard option \<times> runtime_world" where
  "validate_prepared_probe answers probe w =
     (case probe of
        None \<Rightarrow> (Inr (), None, w)
      | Some guard \<Rightarrow>
          (case guard_validate (an_validate_clock answers) guard (wld_probes w) of
             (Inr ProbeValid, p) \<Rightarrow> (Inr (), Some guard, w\<lparr>wld_probes := p\<rparr>)
           | (Inr ProbeInvalidated, p) \<Rightarrow>
               (Inl (runtime_error CircuitProbeUnavailable), Some (guard_disarm guard), w\<lparr>wld_probes := p\<rparr>)
           | (Inl _, p) \<Rightarrow>
               (Inl (runtime_error CircuitProbeUnavailable), Some guard, w\<lparr>wld_probes := p\<rparr>)))"

text \<open>The call of the executor is recorded before its answer is settled.\<close>

definition dispatch :: "PhysicalAttemptIdentity \<Rightarrow> runtime_world \<Rightarrow> runtime_world" where
  "dispatch identity w = w\<lparr>wld_dispatched := wld_dispatched w @ [identity]\<rparr>"

definition execute_route ::
  "RoutingRuntime \<Rightarrow> attempt_answers \<Rightarrow> string \<Rightarrow> CoordinatedRoute \<Rightarrow> string \<Rightarrow> LoadedState \<Rightarrow>
     AttemptProgress runtime_update" where
  "execute_route runtime answers request_id route attempt loaded w =
     (case prepare_route runtime answers request_id route attempt loaded w of
        (Inl e, w1) \<Rightarrow> (Inl e, w1)
      | (Inr prepared, w1) \<Rightarrow>
     (case an_dispatch_clock answers of
        None \<Rightarrow> release_pre_dispatch answers route (pr_probe prepared)
                  (runtime_error MonotonicClockUnavailable) w1
      | Some dispatch_time \<Rightarrow>
     (case validate_prepared_probe answers (pr_probe prepared) w1 of
        (Inl e, probe, w2) \<Rightarrow> release_pre_dispatch answers route probe e w2
      | (Inr _, probe, w2) \<Rightarrow>
          finalize_execution answers route (pr_identity prepared)
            (map_option arm_retryable_drop probe) dispatch_time (an_outcome answers)
            (dispatch (pr_identity prepared) w2))))"

text \<open>
  The execution future dropped while the executor's answer is pending: \<open>Drop\<close> of
  \<open>PendingExecutionGuard\<close>, then of its fields.
\<close>

definition abandon_execution ::
  "attempt_answers \<Rightarrow> CoordinatedRoute \<Rightarrow> CircuitProbeGuard option \<Rightarrow> MonotonicTime \<Rightarrow> runtime_world \<Rightarrow> runtime_world" where
  "abandon_execution answers route probe dispatch_time w =
     (let now = (case an_final_clock answers of Some t \<Rightarrow> t | None \<Rightarrow> dispatch_time);
          w1 = w\<lparr>wld_stores := snd (commit_dispatch_unknown (rt_admission_lease route) now (wld_stores w))\<rparr>
      in case probe of
           None \<Rightarrow> w1
         | Some guard \<Rightarrow> w1\<lparr>wld_probes := guard_drop (an_complete_clock answers) guard (wld_probes w1)\<rparr>)"

end
