(* ===== verification/Runtime_Loop.thy ===== *)
theory Runtime_Loop
  imports Runtime_Attempt
begin

text \<open>
  The attempt loop of \<open>ariadnion-routing-runtime/src/lib.rs\<close>: the schedule of attempts and its
  coordination requests, the start of an execution, the decision after a failed attempt, the retries
  after a refused admission, and the loop over them. \<open>runtime_env\<close> collects what an execution is given
  and does not change: the runtime, the candidate filter of the coordinator, the loaded snapshots, the
  identity of the request, and the answers of the ports for each attempt of the schedule.
\<close>

section \<open>Schedules and requests\<close>

definition MAX_RUNTIME_ATTEMPTS :: nat where "MAX_RUNTIME_ATTEMPTS = unat MAX_ATTEMPTS"

type_synonym AttemptId = string

fun unique_attempts :: "AttemptId list \<Rightarrow> AttemptId list \<Rightarrow> (RoutingRuntimeError, unit) result" where
  "unique_attempts seen [] = Inr ()"
| "unique_attempts seen (a # as) =
     (if a \<in> set seen then Inl (runtime_error RuntimeDuplicateAttempt) else unique_attempts (a # seen) as)"

definition AttemptSchedule_new :: "AttemptId list \<Rightarrow> (RoutingRuntimeError, AttemptId list) result" where
  "AttemptSchedule_new attempts =
     (if attempts = [] \<or> MAX_RUNTIME_ATTEMPTS < length attempts
      then Inl (runtime_error RuntimeInvalidArgument)
      else bind_result (unique_attempts [] attempts) (\<lambda>_. Inr attempts))"

fun adjacent_scopes_differ :: "CoordinationRequest list \<Rightarrow> bool" where
  "adjacent_scopes_differ (x # y # ys) =
     (\<not> has_same_routing_scope x y \<or> adjacent_scopes_differ (y # ys))"
| "adjacent_scopes_differ _ = False"

record RuntimeRequest =
  rrq_schedule :: "AttemptId list"
  rrq_coordination :: "CoordinationRequest list"

definition RuntimeRequest_new ::
  "AttemptId list \<Rightarrow> CoordinationRequest list \<Rightarrow> (RoutingRuntimeError, RuntimeRequest) result" where
  "RuntimeRequest_new schedule coordination =
     (if length coordination \<noteq> length schedule then Inl (runtime_error RuntimeInvalidArgument)
      else if adjacent_scopes_differ coordination then Inl (runtime_error RuntimeInvalidArgument)
      else Inr \<lparr>rrq_schedule = schedule, rrq_coordination = coordination\<rparr>)"

section \<open>Outcomes and loop state\<close>

record RuntimeSuccess =
  rsu_final_attempt :: PhysicalAttemptIdentity
  rsu_accepted_attempts :: "PhysicalAttemptIdentity list"
  rsu_commitment :: StreamCommitment

datatype RuntimeFailureReason = FailoverStopped | AttemptsExhausted

record RuntimeFailure =
  rfa_reason :: RuntimeFailureReason
  rfa_failure :: FailureClass
  rfa_commitment :: StreamCommitment
  rfa_accepted_attempts :: "PhysicalAttemptIdentity list"

datatype RuntimeOutcome = RuntimeSucceeded RuntimeSuccess | RuntimeFailed RuntimeFailure

definition failed_runtime_outcome ::
  "RuntimeFailureReason \<Rightarrow> FailureClass \<Rightarrow> StreamCommitment \<Rightarrow> PhysicalAttemptIdentity list \<Rightarrow> RuntimeOutcome" where
  "failed_runtime_outcome reason failure commitment accepted =
     RuntimeFailed \<lparr>rfa_reason = reason, rfa_failure = failure, rfa_commitment = commitment,
                    rfa_accepted_attempts = accepted\<rparr>"

definition success_outcome ::
  "PhysicalAttemptIdentity \<Rightarrow> StreamCommitment \<Rightarrow> PhysicalAttemptIdentity list \<Rightarrow> RuntimeOutcome" where
  "success_outcome identity commitment accepted =
     RuntimeSucceeded \<lparr>rsu_final_attempt = identity, rsu_accepted_attempts = accepted @ [identity],
                       rsu_commitment = commitment\<rparr>"

definition retain_accepted_identity ::
  "PhysicalAttemptIdentity list \<Rightarrow> PhysicalAttemptIdentity option \<Rightarrow> PhysicalAttemptIdentity list" where
  "retain_accepted_identity accepted identity =
     (case identity of Some i \<Rightarrow> accepted @ [i] | None \<Rightarrow> accepted)"

record ExecutionRemainder =
  er_retry_plan :: RoutingRetryPlan
  er_current :: CandidateKey
  er_ordinal :: u8
  er_accepted :: "PhysicalAttemptIdentity list"
  er_remaining_attempts :: "AttemptId list"
  er_remaining_coordination :: "CoordinationRequest list"

text \<open>\<open>ExecutionState\<close>: the fields of the remainder, with the route and the attempt at hand.\<close>

record ExecutionState =
  es_route :: CoordinatedRoute
  es_attempt :: AttemptId
  es_remainder :: ExecutionRemainder

datatype LoopControl = LoopContinue ExecutionState | LoopFinished RuntimeOutcome

record RetryDirective =
  rd_candidate :: CandidateKey
  rd_failure :: FailureClass
  rd_commitment :: StreamCommitment

datatype TargetCoordinationFailure =
  CoordinationRefused AdmissionRefusal "InitialAdmissionRetryContext option"
| CoordinationError RoutingRuntimeError

definition take_retry_slot ::
  "ExecutionRemainder \<Rightarrow>
     (RoutingRuntimeError, (AttemptId \<times> CoordinationRequest \<times> ExecutionRemainder) option) result" where
  "take_retry_slot remainder =
     (case er_remaining_attempts remainder of
        [] \<Rightarrow> Inr None
      | attempt # attempts \<Rightarrow>
     (case er_remaining_coordination remainder of
        [] \<Rightarrow> Inl (runtime_error InvariantViolation)
      | request # requests \<Rightarrow>
          bind_result (ok_or (runtime_error InvariantViolation) (checked_add (er_ordinal remainder) 1)) (\<lambda>ordinal.
            Inr (Some (attempt, request,
              remainder\<lparr>er_remaining_attempts := attempts, er_remaining_coordination := requests,
                        er_ordinal := ordinal\<rparr>)))))"

record runtime_env =
  env_runtime :: RoutingRuntime
  env_selector :: selector
  env_loaded :: LoadedState
  env_request_id :: string
  env_answers :: "AttemptId \<Rightarrow> attempt_answers"

section \<open>Coordination of an attempt\<close>

fun refusal_from_scope :: "AdmissionRefusalScope option \<Rightarrow> AdmissionRefusal" where
  "refusal_from_scope (Some AdmissionRefusalScope.AccountScope) = RefusedCandidateUnavailable"
| "refusal_from_scope _ = RefusedRequestRejected"

definition map_target_coordination_error :: "CoordinatorError \<Rightarrow> TargetCoordinationFailure" where
  "map_target_coordination_error e =
     (let refusal =
        (case coe_code e of
           CoordConcurrencyLimited \<Rightarrow> Some (refusal_from_scope (coe_admission_scope e))
         | CoordRateLimited \<Rightarrow> Some (refusal_from_scope (coe_admission_scope e))
         | CoordBudgetRejected \<Rightarrow> Some (refusal_from_scope (coe_admission_scope e))
         | CoordAdmissionUnavailable \<Rightarrow> Some RefusedRequestRejected
         | CoordPolicyUnavailable \<Rightarrow> Some RefusedRequestRejected
         | _ \<Rightarrow> None)
      in case refusal of
           Some r \<Rightarrow> CoordinationRefused r (coe_initial_admission_retry_context e)
         | None \<Rightarrow> CoordinationError (runtime_error CoordinationFailed))"

type_synonym 'a target_update = "(runtime_world, TargetCoordinationFailure, 'a) update"

definition coordinate_pool ::
  "runtime_env \<Rightarrow> CoordinationRequest \<Rightarrow> CandidateSnapshot \<Rightarrow> CoordinatedRoute target_update" where
  "coordinate_pool env request pool w =
     (case coordinate (rrt_coordinator (env_runtime env)) (env_selector env) request pool (wld_stores w) of
        (r, s) \<Rightarrow> (map_err map_target_coordination_error r, w\<lparr>wld_stores := s\<rparr>))"

definition coordinate_target ::
  "runtime_env \<Rightarrow> CoordinationRequest \<Rightarrow> CandidateKey \<Rightarrow> CoordinatedRoute target_update" where
  "coordinate_target env request target w =
     (let pool = ls_pool (env_loaded env) in
      case find_candidate pool target of
        Inl e \<Rightarrow> (Inl (CoordinationError e), w)
      | Inr candidate \<Rightarrow>
     (case CandidateSnapshot_new (csn_id pool) (csn_version pool) [candidate] of
        Inl _ \<Rightarrow> (Inl (CoordinationError (runtime_error InvariantViolation)), w)
      | Inr single \<Rightarrow>
     (case coordinate_pool env request single w of
        (Inl e, w') \<Rightarrow> (Inl e, w')
      | (Inr route, w') \<Rightarrow>
          if rt_selected_candidate route \<noteq> target
          then (Inl (CoordinationError (runtime_error InvariantViolation)), drop_route route w')
          else (Inr route, w'))))"

section \<open>Decisions after a failed attempt\<close>

fun next_candidate :: "FailoverAction \<Rightarrow> CandidateKey \<Rightarrow> CandidateKey option" where
  "next_candidate RetrySame current = Some current"
| "next_candidate (SwitchCandidate candidate) current = Some candidate"
| "next_candidate Stop current = None"

definition next_candidate_after_admission ::
  "RoutingRetryPlan \<Rightarrow> CandidateKey \<Rightarrow> u8 \<Rightarrow> StreamCommitment \<Rightarrow> AdmissionRefusal \<Rightarrow>
     (RoutingRuntimeError, CandidateKey option) result" where
  "next_candidate_after_admission retry_plan candidate ordinal commitment refusal =
     bind_result (map_err (\<lambda>_. runtime_error InvariantViolation)
       (retry_decide_outcome retry_plan candidate ordinal commitment (AdmissionRejected refusal))) (\<lambda>decision.
       Inr (case ad_action decision of SwitchCandidate c \<Rightarrow> Some c | _ \<Rightarrow> None))"

lemma take_retry_slot_Some:
  "take_retry_slot r = Inr (Some (attempt, request, rest)) \<longleftrightarrow>
     (\<exists>attempts requests ordinal. er_remaining_attempts r = attempt # attempts
       \<and> er_remaining_coordination r = request # requests \<and> unat ordinal = Suc (unat (er_ordinal r))
       \<and> rest = r\<lparr>er_remaining_attempts := attempts, er_remaining_coordination := requests,
                  er_ordinal := ordinal\<rparr>)"
  by (auto simp: take_retry_slot_def bind_result_eq_Inr ok_or_eq checked_add_eq_Some split: list.splits)

function prepare_retry :: "runtime_env \<Rightarrow> RetryDirective \<Rightarrow> ExecutionRemainder \<Rightarrow> LoopControl runtime_update"
  and retry_after_admission ::
    "runtime_env \<Rightarrow> RetryDirective \<Rightarrow> ExecutionRemainder \<Rightarrow> AdmissionRefusal \<Rightarrow> LoopControl runtime_update"
where
  "prepare_retry env directive remainder w =
     (case take_retry_slot remainder of
        Inl e \<Rightarrow> (Inl e, w)
      | Inr None \<Rightarrow>
          (Inr (LoopFinished (failed_runtime_outcome AttemptsExhausted (rd_failure directive)
                  (rd_commitment directive) (er_accepted remainder))), w)
      | Inr (Some (attempt, request, rest)) \<Rightarrow>
     (case coordinate_target env request (rd_candidate directive) w of
        (Inr route, w') \<Rightarrow>
          (Inr (LoopContinue \<lparr>es_route = route, es_attempt = attempt,
                              es_remainder = rest\<lparr>er_current := rd_candidate directive\<rparr>\<rparr>), w')
      | (Inl (CoordinationRefused refusal _), w') \<Rightarrow> retry_after_admission env directive rest refusal w'
      | (Inl (CoordinationError e), w') \<Rightarrow> (Inl e, w')))"
| "retry_after_admission env directive remainder refusal w =
     (case next_candidate_after_admission (er_retry_plan remainder) (rd_candidate directive)
             (er_ordinal remainder) (rd_commitment directive) refusal of
        Inl e \<Rightarrow> (Inl e, w)
      | Inr (Some candidate) \<Rightarrow> prepare_retry env (directive\<lparr>rd_candidate := candidate\<rparr>) remainder w
      | Inr None \<Rightarrow> (Inl (runtime_error CoordinationFailed), w))"
  by pat_completeness auto

text \<open>Every slot taken shortens the schedule, and a refused admission takes a slot before it retries.\<close>

termination
  by (relation "measure (\<lambda>x. case x of
        Inl (env, directive, remainder, w) \<Rightarrow> 2 * length (er_remaining_attempts remainder)
      | Inr (env, directive, remainder, refusal, w) \<Rightarrow> 2 * length (er_remaining_attempts remainder) + 1)")
    (auto simp: take_retry_slot_Some)

declare prepare_retry.simps [simp del] retry_after_admission.simps [simp del]

definition advance_failed_inner ::
  "runtime_env \<Rightarrow> FailedAttempt \<Rightarrow> ExecutionRemainder \<Rightarrow> LoopControl runtime_update" where
  "advance_failed_inner env failed remainder w =
     (case retry_decide (er_retry_plan remainder) (er_current remainder) (er_ordinal remainder)
             (fa_commitment failed) (fa_failure failed) of
        Inl _ \<Rightarrow> (Inl (runtime_error InvariantViolation), w)
      | Inr decision \<Rightarrow>
     (case next_candidate (fd_action decision) (er_current remainder) of
        Some candidate \<Rightarrow>
          prepare_retry env
            \<lparr>rd_candidate = candidate, rd_failure = fa_failure failed, rd_commitment = fa_commitment failed\<rparr>
            remainder w
      | None \<Rightarrow>
          (Inr (LoopFinished (failed_runtime_outcome FailoverStopped (fa_failure failed)
                  (fa_commitment failed) (er_accepted remainder))), w)))"

definition advance_failed ::
  "runtime_env \<Rightarrow> FailedAttempt \<Rightarrow> ExecutionRemainder \<Rightarrow> LoopControl runtime_update" where
  "advance_failed env failed remainder w =
     (let accepted = retain_accepted_identity (er_accepted remainder) (fa_accepted failed) in
      case advance_failed_inner env failed (remainder\<lparr>er_accepted := accepted\<rparr>) w of
        (r, w') \<Rightarrow> (map_err (prepend_accepted accepted) r, w'))"

section \<open>The loop\<close>

definition run_state :: "runtime_env \<Rightarrow> ExecutionState \<Rightarrow> LoopControl runtime_update" where
  "run_state env state w =
     (let remainder = es_remainder state in
      case execute_route (env_runtime env) (env_answers env (es_attempt state)) (env_request_id env)
             (es_route state) (es_attempt state) (env_loaded env) w of
        (Inl e, w') \<Rightarrow> (Inl (prepend_accepted (er_accepted remainder) e), w')
      | (Inr (AttemptSucceeded identity commitment), w') \<Rightarrow>
          (Inr (LoopFinished (success_outcome identity commitment (er_accepted remainder))), w')
      | (Inr (AttemptFailed failed), w') \<Rightarrow> advance_failed env failed remainder w')"

definition start_state ::
  "runtime_env \<Rightarrow> AttemptId list \<Rightarrow> CoordinationRequest list \<Rightarrow> LoopControl runtime_update" where
  "start_state env attempts coordination w =
     (case attempts of
        [] \<Rightarrow> (Inl (runtime_error RuntimeInvalidArgument), w)
      | attempt # remaining_attempts \<Rightarrow>
     (case coordination of
        [] \<Rightarrow> (Inl (runtime_error RuntimeInvalidArgument), w)
      | request # remaining_coordination \<Rightarrow>
     (case coordinate_pool env request (ls_pool (env_loaded env)) w of
        (Inr route, w') \<Rightarrow>
          (Inr (LoopContinue
             \<lparr>es_route = route, es_attempt = attempt,
              es_remainder = \<lparr>er_retry_plan = rt_retry_plan route, er_current = rt_selected_candidate route,
                              er_ordinal = 1, er_accepted = [], er_remaining_attempts = remaining_attempts,
                              er_remaining_coordination = remaining_coordination\<rparr>\<rparr>), w')
      | (Inl (CoordinationRefused refusal (Some context)), w') \<Rightarrow>
          retry_after_admission env
            \<lparr>rd_candidate = iar_candidate context, rd_failure = FailureRateLimited, rd_commitment = Uncommitted\<rparr>
            \<lparr>er_retry_plan = iar_retry_plan context, er_current = iar_candidate context, er_ordinal = 1,
             er_accepted = [], er_remaining_attempts = remaining_attempts,
             er_remaining_coordination = remaining_coordination\<rparr>
            refusal w'
      | (Inl (CoordinationRefused refusal None), w') \<Rightarrow> (Inl (runtime_error CoordinationFailed), w')
      | (Inl (CoordinationError e), w') \<Rightarrow> (Inl e, w'))))"

text \<open>
  A retry walks along the schedule: it stops for want of a slot, gets a route, fails, or is refused an
  admission and goes on with the next candidate and the rest of the schedule.
\<close>

lemma prepare_retry_walk [consumes 1, case_names no_slot exhausted routed failed stopped again]:
  assumes "prepare_retry env directive remainder w = (r, w')"
    and no_slot: "\<And>directive remainder w e. take_retry_slot remainder = Inl e \<Longrightarrow>
      P directive remainder w (Inl e) w"
    and exhausted: "\<And>directive remainder w. take_retry_slot remainder = Inr None \<Longrightarrow>
      P directive remainder w (Inr (LoopFinished (failed_runtime_outcome AttemptsExhausted
        (rd_failure directive) (rd_commitment directive) (er_accepted remainder)))) w"
    and routed: "\<And>directive remainder w attempt request rest route w'.
      take_retry_slot remainder = Inr (Some (attempt, request, rest)) \<Longrightarrow>
      coordinate_target env request (rd_candidate directive) w = (Inr route, w') \<Longrightarrow>
      P directive remainder w (Inr (LoopContinue \<lparr>es_route = route, es_attempt = attempt,
        es_remainder = rest\<lparr>er_current := rd_candidate directive\<rparr>\<rparr>)) w'"
    and failed: "\<And>directive remainder w attempt request rest e w'.
      take_retry_slot remainder = Inr (Some (attempt, request, rest)) \<Longrightarrow>
      coordinate_target env request (rd_candidate directive) w = (Inl (CoordinationError e), w') \<Longrightarrow>
      P directive remainder w (Inl e) w'"
    and stopped: "\<And>directive remainder w attempt request rest refusal context e w'.
      take_retry_slot remainder = Inr (Some (attempt, request, rest)) \<Longrightarrow>
      coordinate_target env request (rd_candidate directive) w = (Inl (CoordinationRefused refusal context), w') \<Longrightarrow>
      rre_accepted_attempts e = [] \<Longrightarrow> P directive remainder w (Inl e) w'"
    and again: "\<And>directive remainder w attempt request rest refusal context w1 candidate r w'.
      take_retry_slot remainder = Inr (Some (attempt, request, rest)) \<Longrightarrow>
      coordinate_target env request (rd_candidate directive) w = (Inl (CoordinationRefused refusal context), w1) \<Longrightarrow>
      next_candidate_after_admission (er_retry_plan rest) (rd_candidate directive) (er_ordinal rest)
        (rd_commitment directive) refusal = Inr (Some candidate) \<Longrightarrow>
      P (directive\<lparr>rd_candidate := candidate\<rparr>) rest w1 r w' \<Longrightarrow> P directive remainder w r w'"
  shows "P directive remainder w r w'"
  using assms(1)
proof (induction "length (er_remaining_attempts remainder)" arbitrary: directive remainder w rule: less_induct)
  case less
  note run = less.prems [unfolded prepare_retry.simps [of env directive]]
  show ?case
  proof (cases "take_retry_slot remainder")
    case (Inl e)
    with run no_slot [OF Inl, of directive w] show ?thesis by auto
  next
    case (Inr slot)
    show ?thesis
    proof (cases slot)
      case None
      with Inr run exhausted [of remainder directive w] show ?thesis by auto
    next
      case (Some s)
      obtain attempt request rest where s: "s = (attempt, request, rest)" by (cases s)
      have slot: "take_retry_slot remainder = Inr (Some (attempt, request, rest))"
        using Inr Some s by simp
      then have shorter: "length (er_remaining_attempts rest) < length (er_remaining_attempts remainder)"
        by (auto simp: take_retry_slot_Some)
      obtain q w1 where q: "coordinate_target env request (rd_candidate directive) w = (q, w1)" by fastforce
      show ?thesis
      proof (cases q)
        case route: (Inr route)
        with run slot q routed [OF slot q [unfolded route]] show ?thesis by auto
      next
        case refused: (Inl f)
        show ?thesis
        proof (cases f)
          case (CoordinationError e)
          with run slot q refused failed [OF slot q [unfolded refused CoordinationError]] show ?thesis by auto
        next
          case f: (CoordinationRefused refusal ctx)
          note q' = q [unfolded refused f]
          have go: "retry_after_admission env directive rest refusal w1 = (r, w')"
            using run slot q' by simp
          obtain n where n: "next_candidate_after_admission (er_retry_plan rest) (rd_candidate directive)
              (er_ordinal rest) (rd_commitment directive) refusal = n" by blast
          show ?thesis
          proof (cases n)
            case (Inl e)
            then have "rre_accepted_attempts e = []"
              using n by (auto simp: next_candidate_after_admission_def bind_result_eq_Inl map_err_def
                  runtime_error_def map_sum_def split: sum.splits)
            with go n Inl stopped [OF slot q'] show ?thesis
              by (auto simp: retry_after_admission.simps)
          next
            case (Inr c)
            show ?thesis
            proof (cases c)
              case None
              with go n Inr stopped [OF slot q'] show ?thesis
                by (auto simp: retry_after_admission.simps runtime_error_def)
            next
              case (Some candidate)
              then have "prepare_retry env (directive\<lparr>rd_candidate := candidate\<rparr>) rest w1 = (r, w')"
                using go n Inr by (simp add: retry_after_admission.simps)
              from less.hyps [OF shorter this] again [OF slot q'] n Inr Some show ?thesis by blast
            qed
          qed
        qed
      qed
    qed
  qed
qed

text \<open>A continuation always has fewer attempts left, so the loop ends.\<close>

lemma prepare_retry_shortens:
  assumes "prepare_retry env directive remainder w = (Inr (LoopContinue st), w')"
  shows "length (er_remaining_attempts (es_remainder st)) < length (er_remaining_attempts remainder)"
proof -
  have "r = Inr (LoopContinue st) \<Longrightarrow>
      length (er_remaining_attempts (es_remainder st)) < length (er_remaining_attempts remainder)"
    if "prepare_retry env directive remainder w = (r, w')" for r
    using that by (induction rule: prepare_retry_walk) (auto simp: take_retry_slot_Some)
  with assms show ?thesis by simp
qed

lemma run_state_shortens:
  assumes "run_state env st w = (Inr (LoopContinue st'), w')"
  shows "length (er_remaining_attempts (es_remainder st')) < length (er_remaining_attempts (es_remainder st))"
proof -
  obtain failed w1 where "advance_failed env failed (es_remainder st) w1 = (Inr (LoopContinue st'), w')"
    using assms by (auto simp: run_state_def Let_def split: prod.splits sum.splits AttemptProgress.splits)
  then have "advance_failed_inner env failed ((es_remainder st)\<lparr>er_accepted :=
      retain_accepted_identity (er_accepted (es_remainder st)) (fa_accepted failed)\<rparr>) w1 =
      (Inr (LoopContinue st'), w')"
    by (auto simp: advance_failed_def Let_def split: prod.splits)
  then show ?thesis
    by (auto simp: advance_failed_inner_def split: sum.splits option.splits dest: prepare_retry_shortens)
qed

function execute_loop :: "runtime_env \<Rightarrow> ExecutionState \<Rightarrow> RuntimeOutcome runtime_update" where
  "execute_loop env state w =
     (case run_state env state w of
        (Inl e, w') \<Rightarrow> (Inl e, w')
      | (Inr (LoopFinished outcome), w') \<Rightarrow> (Inr outcome, w')
      | (Inr (LoopContinue next_state), w') \<Rightarrow> execute_loop env next_state w')"
  by pat_completeness auto

termination
  by (relation "measure (\<lambda>(env, state, w). length (er_remaining_attempts (es_remainder state)))")
    (auto dest!: sym [of _ "run_state _ _ _"] run_state_shortens)

declare execute_loop.simps [simp del]

definition execute_loaded ::
  "runtime_env \<Rightarrow> AttemptId list \<Rightarrow> CoordinationRequest list \<Rightarrow> RuntimeOutcome runtime_update" where
  "execute_loaded env attempts coordination w =
     (case start_state env attempts coordination w of
        (Inl e, w') \<Rightarrow> (Inl e, w')
      | (Inr (LoopFinished outcome), w') \<Rightarrow> (Inr outcome, w')
      | (Inr (LoopContinue state), w') \<Rightarrow> execute_loop env state w')"

section \<open>Loading the state\<close>

text \<open>The answers of the ports while the state is loaded, in the order of the calls.\<close>

record load_answers =
  lan_entered :: "ErrorCode option"
  lan_principal :: "TenantId option"
  lan_loading :: "ErrorCode option"
  lan_pool :: "CandidateSnapshot option"
  lan_projection :: "(ImportPortErrorCode, AccountProjectionSnapshot) result"
  lan_models_available :: bool
  lan_loaded :: "ErrorCode option"

definition load_state :: "load_answers \<Rightarrow> TenantId \<Rightarrow> (RoutingRuntimeError, LoadedState) result" where
  "load_state answers tenant =
     bind_result (ensure_active (lan_loading answers)) (\<lambda>_.
     bind_result (ok_or (runtime_error RuntimePoolUnavailable) (lan_pool answers)) (\<lambda>pool.
     bind_result (pool_generation pool) (\<lambda>generation.
     bind_result (map_err map_projection_error (lan_projection answers)) (\<lambda>projection.
     bind_result (validate_projection projection tenant generation) (\<lambda>_.
     bind_result (if lan_models_available answers then Inr () else Inl (runtime_error ModelUnavailable)) (\<lambda>_.
     bind_result (ensure_active (lan_loaded answers)) (\<lambda>_.
       Inr \<lparr>ls_tenant = tenant, ls_projection = projection, ls_pool = pool\<rparr>)))))))"

definition execute ::
  "RoutingRuntime \<Rightarrow> selector \<Rightarrow> string \<Rightarrow> load_answers \<Rightarrow> (AttemptId \<Rightarrow> attempt_answers) \<Rightarrow> RuntimeRequest \<Rightarrow>
     RuntimeOutcome runtime_update" where
  "execute runtime prepare_selection request_id loading answers request w =
     (case bind_result (authenticated_tenant (lan_entered loading) (lan_principal loading)) (load_state loading) of
        Inl e \<Rightarrow> (Inl e, w)
      | Inr loaded \<Rightarrow>
          execute_loaded
            \<lparr>env_runtime = runtime, env_selector = prepare_selection, env_loaded = loaded,
             env_request_id = request_id, env_answers = answers\<rparr>
            (rrq_schedule request) (rrq_coordination request) w)"

end
