(* ===== verification/Runtime_Evidence.thy ===== *)
theory Runtime_Evidence
  imports Runtime_Loop "HOL-Library.Sublist"
begin

text \<open>
  What an execution reports of the attempts it dispatched. Every attempt ends before its dispatch,
  with an error that carries no identity, or after it, with a result that names the identity exactly
  when the executor's answer means the provider accepted the work. Along the loop the identities
  accumulate in the order of the dispatches.
\<close>

section \<open>One attempt\<close>

text \<open>
  An answer that accepts the work: a success, an explicit acceptance, or a first byte, which proves
  acceptance even where the answer denies it.
\<close>

fun outcome_accepted :: "ProviderExecutionOutcome \<Rightarrow> bool" where
  "outcome_accepted (OutcomeAccepted c) = True"
| "outcome_accepted (OutcomeFailed a c f) = (a = ExecutionAccepted \<or> c = FirstByteSent)"
| "outcome_accepted (OutcomeInterrupted a c i) = (a = ExecutionAccepted \<or> c = FirstByteSent)"

abbreviation bare :: "RoutingRuntimeError \<Rightarrow> bool" where
  "bare e \<equiv> rre_accepted_attempts e = []"

lemma accepted_simps [simp]:
  "bare (runtime_error c)" "rre_accepted_attempts (with_accepted i e) = rre_accepted_attempts e @ [i]"
  "rre_accepted_attempts (prepend_accepted xs e) = xs @ rre_accepted_attempts e"
  "rre_accepted_attempts (with_optional_accepted e (Some i)) = rre_accepted_attempts e @ [i]"
  "with_optional_accepted e None = e"
  by (simp_all add: runtime_error_def with_accepted_def prepend_accepted_def with_optional_accepted_def)

lemma on_stores_log: "on_stores f h w = (r, w') \<Longrightarrow> wld_dispatched w' = wld_dispatched w"
  by (auto simp: on_stores_def split: prod.splits)

lemma on_probes_log: "on_probes f h w = (r, w') \<Longrightarrow> wld_dispatched w' = wld_dispatched w"
  by (auto simp: on_probes_def split: prod.splits)

lemma drop_route_log [simp]: "wld_dispatched (drop_route route w) = wld_dispatched w"
  by (simp add: drop_route_def)

lemma complete_circuit_probe_log:
  assumes "complete_circuit_probe answers probe outcome w = (r, w')"
  shows "wld_dispatched w' = wld_dispatched w \<and> (\<forall>e. r = Inl e \<longrightarrow> bare e)"
  using assms by (auto simp: complete_circuit_probe_def on_probes_def split: option.splits prod.splits)

lemma release_route_log:
  "release_route route now w = (r, w') \<Longrightarrow> wld_dispatched w' = wld_dispatched w \<and> (\<forall>e. r = Inl e \<longrightarrow> bare e)"
  by (auto simp: release_route_def on_stores_def split: prod.splits)

lemma combine_finalizations_Inl:
  "combine_finalizations admission probe accepted = Inl e \<Longrightarrow>
     admission = Inl e \<or> (\<exists>p. probe = Inl p \<and> e = with_optional_accepted p accepted)"
  by (auto simp: combine_finalizations_def bind_result_def with_optional_accepted_def split: sum.splits option.splits)

lemma combine_finalizations_Inr:
  "combine_finalizations admission probe accepted = Inr x \<longleftrightarrow> admission = Inr x \<and> probe = Inr ()"
  by (auto simp: combine_finalizations_def bind_result_def split: sum.splits)

lemma release_pre_dispatch_log:
  assumes "release_pre_dispatch answers route probe original w = (r, w')" and "bare original"
  shows "wld_dispatched w' = wld_dispatched w \<and> (\<exists>e. r = Inl e \<and> bare e)"
proof -
  obtain admission w1 completed where
    a: "(case an_final_clock answers of
          None \<Rightarrow> (Inl (runtime_error MonotonicClockUnavailable), drop_route route w)
        | Some now \<Rightarrow> release_route route now w) = (admission, w1)"
    and c: "complete_circuit_probe answers probe Neutral w1 = (completed, w')"
    and r: "r = bind_result (combine_finalizations admission completed None) (\<lambda>_. Inl original)"
    using assms(1) by (auto simp: release_pre_dispatch_def split: prod.splits)
  have "wld_dispatched w1 = wld_dispatched w \<and> (\<forall>e. admission = Inl e \<longrightarrow> bare e)"
    using a by (auto split: option.splits dest: release_route_log)
  moreover note complete_circuit_probe_log [OF c]
  ultimately show ?thesis
    using r assms(2) combine_finalizations_Inl [of admission completed None]
    by (cases "combine_finalizations admission completed None") auto
qed

lemma finalize_accepted_admission_log:
  assumes "finalize_accepted_admission answers route identity w = (r, w')"
  shows "wld_dispatched w' = wld_dispatched w \<and> (\<forall>e. r = Inl e \<longrightarrow> rre_accepted_attempts e = [identity])"
  using assms
  by (auto simp: finalize_accepted_admission_def finalize_accepted_route_def on_stores_def
      split: prod.splits option.splits)

lemma finalize_disposition_log:
  assumes "finalize_disposition answers route identity t acceptance w = (r, evidence, w')"
  shows "wld_dispatched w' = wld_dispatched w"
    and "evidence = (if acceptance = ExecutionAccepted then Some identity else None)"
    and "r = Inr x \<Longrightarrow> x = evidence"
    and "r = Inl e \<Longrightarrow> rre_accepted_attempts e = (if acceptance = ExecutionAccepted then [identity] else [])"
  using assms
  by (cases acceptance; auto simp: finalize_disposition_def Let_def bind_result_eq_Inl bind_result_eq_Inr
      split: prod.splits dest!: release_route_log finalize_accepted_admission_log)+

text \<open>The answer of the executor and the settled progress of a dispatched attempt.\<close>

definition progress_of ::
  "PhysicalAttemptIdentity \<Rightarrow> ProviderExecutionOutcome \<Rightarrow> (RoutingRuntimeError, AttemptProgress) result \<Rightarrow> bool" where
  "progress_of identity outcome r =
     (case r of
        Inl e \<Rightarrow> rre_accepted_attempts e = (if outcome_accepted outcome then [identity] else [])
      | Inr (AttemptSucceeded i c) \<Rightarrow> i = identity \<and> outcome = OutcomeAccepted c
      | Inr (AttemptFailed f) \<Rightarrow>
          \<exists>a. outcome = OutcomeFailed a (fa_commitment f) (fa_failure f)
            \<and> fa_accepted f = (if outcome_accepted outcome then Some identity else None))"

lemma settled_accepted:
  assumes "finalize_accepted_admission answers route identity w = (admission, w1)"
    and "complete_circuit_probe answers probe c w1 = (completed, w')"
  shows "wld_dispatched w' = wld_dispatched w"
    and "combine_finalizations admission completed (Some identity) = Inl e \<Longrightarrow> rre_accepted_attempts e = [identity]"
  using finalize_accepted_admission_log [OF assms(1)] complete_circuit_probe_log [OF assms(2)]
    combine_finalizations_Inl [of admission completed "Some identity"] by auto

lemma settled_disposition:
  assumes "finalize_disposition answers route identity t acceptance w = (admission, evidence, w1)"
    and "complete_circuit_probe answers probe c w1 = (completed, w')"
  shows "wld_dispatched w' = wld_dispatched w"
    and "combine_finalizations admission completed evidence = Inl e \<Longrightarrow>
      rre_accepted_attempts e = (if acceptance = ExecutionAccepted then [identity] else [])"
    and "combine_finalizations admission completed evidence = Inr x \<Longrightarrow>
      x = (if acceptance = ExecutionAccepted then Some identity else None)"
  using finalize_disposition_log [OF assms(1)] complete_circuit_probe_log [OF assms(2)]
    combine_finalizations_Inl [of admission completed evidence]
  by (auto simp: combine_finalizations_Inr split: if_splits)

lemma finalize_contradiction_log:
  assumes "finalize_contradiction answers route identity probe w = (r, w')"
  shows "wld_dispatched w' = wld_dispatched w \<and> (\<exists>e. r = Inl e \<and> rre_accepted_attempts e = [identity])"
proof -
  obtain admission w1 completed where
    s: "finalize_accepted_admission answers route identity w = (admission, w1)"
      "complete_circuit_probe answers probe RetryableFailure w1 = (completed, w')"
    and r: "r = bind_result (combine_finalizations admission completed (Some identity)) (\<lambda>_.
           Inl (with_accepted identity (runtime_error InvalidExecutionOutcome)))"
    using assms by (auto simp: finalize_contradiction_def split: prod.splits)
  show ?thesis
    using settled_accepted [OF s] r by (cases "combine_finalizations admission completed (Some identity)") auto
qed

lemma finalize_success_log:
  assumes "finalize_success answers route identity probe commitment w = (r, w')"
  shows "wld_dispatched w' = wld_dispatched w \<and> progress_of identity (OutcomeAccepted commitment) r"
proof -
  obtain admission w1 completed where
    s: "finalize_accepted_admission answers route identity w = (admission, w1)"
      "complete_circuit_probe answers probe Success w1 = (completed, w')"
    and r: "r = bind_result (combine_finalizations admission completed (Some identity)) (\<lambda>_.
           Inr (AttemptSucceeded identity commitment))"
    using assms by (auto simp: finalize_success_def split: prod.splits)
  show ?thesis
    using settled_accepted [OF s] r
    by (cases "combine_finalizations admission completed (Some identity)") (auto simp: progress_of_def)
qed

lemma finalize_failure_log:
  assumes "finalize_failure answers route identity probe t acceptance commitment failure w = (r, w')"
  shows "wld_dispatched w' = wld_dispatched w \<and> progress_of identity (OutcomeFailed acceptance commitment failure) r"
proof (cases "contradictory_acceptance acceptance commitment")
  case True
  with assms finalize_contradiction_log [of answers route identity probe w r w'] show ?thesis
    by (auto simp: finalize_failure_def progress_of_def contradictory_acceptance_def)
next
  case False
  obtain admission evidence w1 completed where
    s: "finalize_disposition answers route identity t acceptance w = (admission, evidence, w1)"
      "complete_circuit_probe answers probe (circuit_failure_outcome failure) w1 = (completed, w')"
    and r: "r = bind_result (combine_finalizations admission completed evidence) (\<lambda>accepted.
           Inr (AttemptFailed \<lparr>fa_failure = failure, fa_commitment = commitment, fa_accepted = accepted\<rparr>))"
    using assms False by (auto simp: finalize_failure_def split: prod.splits)
  have "outcome_accepted (OutcomeFailed acceptance commitment failure) \<longleftrightarrow> acceptance = ExecutionAccepted"
    using False by (cases acceptance) (auto simp: contradictory_acceptance_def)
  then show ?thesis
    using settled_disposition [OF s] r
    by (cases "combine_finalizations admission completed evidence") (auto simp: progress_of_def)
qed

lemma finalize_interruption_log:
  assumes "finalize_interruption answers route identity probe t acceptance commitment i w = (r, w')"
  shows "wld_dispatched w' = wld_dispatched w \<and> progress_of identity (OutcomeInterrupted acceptance commitment i) r"
proof (cases "contradictory_acceptance acceptance commitment")
  case True
  with assms finalize_contradiction_log [of answers route identity probe w r w'] show ?thesis
    by (auto simp: finalize_interruption_def progress_of_def contradictory_acceptance_def)
next
  case False
  obtain admission evidence w1 completed where
    s: "finalize_disposition answers route identity t acceptance w = (admission, evidence, w1)"
      "complete_circuit_probe answers probe (circuit_interruption_outcome acceptance) w1 = (completed, w')"
    and r: "r = bind_result (combine_finalizations admission completed evidence) (\<lambda>accepted.
           Inl (with_optional_accepted (runtime_error (interruption_error_code i)) accepted))"
    using assms False by (auto simp: finalize_interruption_def split: prod.splits)
  have "outcome_accepted (OutcomeInterrupted acceptance commitment i) \<longleftrightarrow> acceptance = ExecutionAccepted"
    using False by (cases acceptance) (auto simp: contradictory_acceptance_def)
  then show ?thesis
    using settled_disposition [OF s] r
    by (cases "combine_finalizations admission completed evidence") (auto simp: progress_of_def)
qed

lemma finalize_execution_log:
  assumes "finalize_execution answers route identity probe t outcome w = (r, w')"
  shows "wld_dispatched w' = wld_dispatched w \<and> progress_of identity outcome r"
  using assms finalize_success_log finalize_failure_log finalize_interruption_log
  by (cases outcome) (auto simp: finalize_execution_def)


subsection \<open>Before the dispatch\<close>

text \<open>Nothing before the dispatch puts an identity into an error.\<close>

definition bare_result :: "(RoutingRuntimeError, 'a) result \<Rightarrow> bool" where
  "bare_result r \<longleftrightarrow> (\<forall>e. r = Inl e \<longrightarrow> bare e)"

lemma bare_result_simps [simp]:
  "bare_result (Inr x)" "bare_result (Inl e) \<longleftrightarrow> bare e"
  "bare_result (ok_or e m) \<longleftrightarrow> (m = None \<longrightarrow> bare e)"
  by (auto simp: bare_result_def ok_or_def split: option.splits)

lemma bare_result_bind [intro]:
  "bare_result r \<Longrightarrow> (\<And>x. r = Inr x \<Longrightarrow> bare_result (f x)) \<Longrightarrow> bare_result (bind_result r f)"
  by (auto simp: bare_result_def bind_result_eq_Inl)

lemma bare_result_map_err [intro]: "(\<And>e. bare (h e)) \<Longrightarrow> bare_result (map_err h r)"
  by (auto simp: bare_result_def)

lemma bare_maps [simp]:
  "bare (map_projection_error e)" "bare (map_credential_error e)" "bare (map_vault_error v)"
  "bare (map_circuit_probe_acquire_error p)"
  by (simp_all add: map_projection_error_def map_credential_error_def map_vault_error_def
      split: ImportPortErrorCode.splits VaultErrorCode.splits)
    (cases p; simp)

lemma bare_checks [simp]:
  "bare_result (ensure_active c)" "bare_result (validate_execution_proxy p)"
  "bare_result (validate_candidate_binding candidate route tenant)"
  "bare_result (validate_provider_model candidate route)" "bare_result (find_candidate pool key)"
  "bare_result (validate_credential_identity request reference tenant)"
  "bare_result (validate_credential_scope request reference)"
  "bare_result (validate_revalidated_credential reference current)"
  "bare_result (validate_lease lease reference m purpose now)"
  "bare_result (validate_usage_binding u tenant request_id)"
  by (auto simp: ensure_active_def validate_execution_proxy_def validate_candidate_binding_def
      validate_provider_model_def find_candidate_def validate_credential_identity_def
      validate_credential_scope_def validate_revalidated_credential_def validate_lease_def
      validate_usage_binding_def split: option.splits ErrorCode.splits EgressEndpoint.splits)

lemma bare_validate_projection_binding [simp]:
  "bare_result (validate_projection_binding candidate projection tenant)"
  unfolding validate_projection_binding_def by (intro bare_result_bind) (auto split: if_splits)

lemma bare_prepare_target [simp]: "bare_result (prepare_target route loaded)"
  unfolding prepare_target_def validate_route_target_def
  by (intro bare_result_bind) (auto split: prod.splits intro!: bare_result_bind)

lemma bare_prepare_execution [simp]:
  "bare_result (prepare_execution runtime answers request_id route attempt loaded target)"
  unfolding prepare_execution_def resolve_credential_def issue_lease_def revalidate_credential_def
    validate_credential_def build_execution_def Let_def
  by (intro bare_result_bind bare_result_map_err bare_maps bare_checks bare_result_simps)

lemma prepare_execution_identity:
  assumes "prepare_execution runtime answers request_id route attempt loaded target = Inr (execution, identity)"
  shows "uc_attempt (pai_usage_confirmation identity) = attempt \<and> pai_candidate identity = rt_selected_candidate route"
  using assms
  by (auto simp: prepare_execution_def build_execution_def Let_def usage_confirmation_id_def bind_result_eq_Inr)

lemma accept_probe_acquisition_log:
  assumes "accept_probe_acquisition answers key acquisition w = (r, w')"
  shows "wld_dispatched w' = wld_dispatched w \<and> bare_result r"
proof -
  have active: "bare e" if "ensure_active c = Inl e" for c e
    using that bare_checks(1) [of c] by (simp add: bare_result_def)
  show ?thesis
    using assms
    by (auto simp: accept_probe_acquisition_def finish_probe_rejection_def Let_def bare_result_def
        bind_result_eq_Inl split: option.splits prod.splits sum.splits if_splits
        dest!: complete_circuit_probe_log dest: active)
qed

lemma acquire_circuit_probe_log:
  assumes "acquire_circuit_probe runtime answers key w = (r, w')"
  shows "wld_dispatched w' = wld_dispatched w \<and> bare_result r"
proof -
  have active: "bare e" if "ensure_active c = Inl e" for c e
    using that bare_checks(1) [of c] by (simp add: bare_result_def)
  show ?thesis
    using assms
    by (auto simp: acquire_circuit_probe_def bind_update_def lift_result_def on_probes_def
        split: prod.splits sum.splits if_splits dest: active dest!: accept_probe_acquisition_log)
qed

lemma prepare_target_and_probe_log:
  assumes "prepare_target_and_probe runtime answers route loaded w = (r, w')"
  shows "wld_dispatched w' = wld_dispatched w \<and> bare_result r"
proof -
  have target: "bare e" if "prepare_target route loaded = Inl e" for e
    using that bare_prepare_target [of route loaded] by (simp add: bare_result_def)
  show ?thesis
    using assms
    by (auto simp: prepare_target_and_probe_def bind_update_def lift_result_def
        split: prod.splits sum.splits dest: target dest!: acquire_circuit_probe_log)
qed

lemma prepare_route_log:
  assumes "prepare_route runtime answers request_id route attempt loaded w = (r, w')"
  shows "wld_dispatched w' = wld_dispatched w \<and> bare_result r"
    and "r = Inr prepared \<Longrightarrow> uc_attempt (pai_usage_confirmation (pr_identity prepared)) = attempt
      \<and> pai_candidate (pr_identity prepared) = rt_selected_candidate route"
proof -
  obtain q w1 where q: "prepare_target_and_probe runtime answers route loaded w = (q, w1)" by fastforce
  note log = prepare_target_and_probe_log [OF q]
  have execution: "bare e" if "prepare_execution runtime answers request_id route attempt loaded target = Inl e" for e target
    using that bare_prepare_execution [of runtime answers request_id route attempt loaded target]
    by (simp add: bare_result_def)
  show "wld_dispatched w' = wld_dispatched w \<and> bare_result r"
    using assms q log
    by (auto simp: prepare_route_def split: sum.splits prod.splits dest!: release_pre_dispatch_log execution)
  show "uc_attempt (pai_usage_confirmation (pr_identity prepared)) = attempt
      \<and> pai_candidate (pr_identity prepared) = rt_selected_candidate route" if "r = Inr prepared"
    using assms q log that
    by (auto simp: prepare_route_def split: sum.splits prod.splits
        dest!: release_pre_dispatch_log execution prepare_execution_identity)
qed

lemma validate_prepared_probe_log:
  assumes "validate_prepared_probe answers probe w = (r, probe', w')"
  shows "wld_dispatched w' = wld_dispatched w \<and> bare_result r"
  using assms
  by (auto simp: validate_prepared_probe_def split: option.splits prod.splits sum.splits CircuitProbeValidation.splits)

text \<open>An attempt ends bare and undispatched, or dispatched and settled.\<close>

lemma execute_route_log [consumes 1, case_names undispatched dispatched]:
  assumes "execute_route runtime answers request_id route attempt loaded w = (r, w')"
  obtains e where "r = Inl e" "bare e" "wld_dispatched w' = wld_dispatched w"
  | identity where "wld_dispatched w' = wld_dispatched w @ [identity]"
      "uc_attempt (pai_usage_confirmation identity) = attempt"
      "pai_candidate identity = rt_selected_candidate route"
      "progress_of identity (an_outcome answers) r"
      "\<exists>prepared w1. prepare_route runtime answers request_id route attempt loaded w = (Inr prepared, w1)
         \<and> identity = pr_identity prepared"
proof -
  obtain p w1 where p: "prepare_route runtime answers request_id route attempt loaded w = (p, w1)" by fastforce
  note log = prepare_route_log [OF p]
  show thesis
  proof (cases p)
    case (Inl e)
    then show thesis using assms p log(1) that(1) by (auto simp: execute_route_def)
  next
    case (Inr prepared)
    show thesis
    proof (cases "an_dispatch_clock answers")
      case None
      then have "release_pre_dispatch answers route (pr_probe prepared)
          (runtime_error MonotonicClockUnavailable) w1 = (r, w')"
        using assms p Inr by (simp add: execute_route_def)
      from release_pre_dispatch_log [OF this] log(1) that(1) show thesis by auto
    next
      case (Some t)
      obtain v probe w2 where v: "validate_prepared_probe answers (pr_probe prepared) w1 = (v, probe, w2)"
        by (cases "validate_prepared_probe answers (pr_probe prepared) w1") auto
      note vlog = validate_prepared_probe_log [OF v]
      show thesis
      proof (cases v)
        case (Inl e)
        then have "release_pre_dispatch answers route probe e w2 = (r, w')"
          using assms p Inr Some v by (simp add: execute_route_def)
        from release_pre_dispatch_log [OF this] log(1) vlog Inl that(1) show thesis by auto
      next
        case (Inr u)
        then have "finalize_execution answers route (pr_identity prepared)
            (map_option arm_retryable_drop probe) t (an_outcome answers) (dispatch (pr_identity prepared) w2) = (r, w')"
          using assms p \<open>p = Inr prepared\<close> Some v by (simp add: execute_route_def)
        from finalize_execution_log [OF this] log vlog \<open>p = Inr prepared\<close> p that(2) show thesis
          by (auto simp: dispatch_def)
      qed
    qed
  qed
qed

section \<open>The loop\<close>

definition evidence :: "(RoutingRuntimeError, RuntimeOutcome) result \<Rightarrow> PhysicalAttemptIdentity list" where
  "evidence r =
     (case r of
        Inl e \<Rightarrow> rre_accepted_attempts e
      | Inr (RuntimeSucceeded s) \<Rightarrow> rsu_accepted_attempts s
      | Inr (RuntimeFailed f) \<Rightarrow> rfa_accepted_attempts f)"

definition attempt_of :: "PhysicalAttemptIdentity \<Rightarrow> AttemptId" where
  "attempt_of identity = uc_attempt (pai_usage_confirmation identity)"

definition accepted_by :: "runtime_env \<Rightarrow> PhysicalAttemptIdentity \<Rightarrow> bool" where
  "accepted_by env identity \<longleftrightarrow> outcome_accepted (an_outcome (env_answers env (attempt_of identity)))"

lemma coordinate_target_log:
  assumes "coordinate_target env request target w = (r, w')"
  shows "wld_dispatched w' = wld_dispatched w \<and> wld_probes w' = wld_probes w
    \<and> (\<forall>e. r = Inl (CoordinationError e) \<longrightarrow> bare e)"
proof -
  have bare: "bare e" if "find_candidate pool key = Inl e" for pool key e
    using that bare_checks(5) [of pool key] by (simp add: bare_result_def)
  have mapped: "CoordinationError e = map_target_coordination_error ce \<Longrightarrow> bare e" for ce e
    by (auto simp: map_target_coordination_error_def Let_def split: option.splits)
  show ?thesis
    using assms
    by (auto simp: coordinate_target_def coordinate_pool_def Let_def drop_route_def
        split: sum.splits prod.splits if_splits dest: bare mapped)
qed

text \<open>What a retry hands on, with the slots it used up.\<close>

definition walked :: "ExecutionRemainder \<Rightarrow> (RoutingRuntimeError, LoopControl) result \<Rightarrow> bool" where
  "walked remainder r =
     (case r of
        Inl e \<Rightarrow> bare e
      | Inr (LoopFinished outcome) \<Rightarrow> evidence (Inr outcome) = er_accepted remainder
      | Inr (LoopContinue st) \<Rightarrow>
          er_accepted (es_remainder st) = er_accepted remainder
          \<and> er_retry_plan (es_remainder st) = er_retry_plan remainder
          \<and> (\<exists>skipped. er_remaining_attempts remainder =
                skipped @ es_attempt st # er_remaining_attempts (es_remainder st)))"

lemma walked_later:
  assumes "walked rest r" and "er_accepted rest = er_accepted remainder"
    and "er_retry_plan rest = er_retry_plan remainder"
    and "er_remaining_attempts remainder = attempt # er_remaining_attempts rest"
  shows "walked remainder r"
proof (cases r)
  case (Inr c)
  show ?thesis
  proof (cases c)
    case (LoopContinue st)
    then obtain skipped where "er_remaining_attempts remainder =
        (attempt # skipped) @ es_attempt st # er_remaining_attempts (es_remainder st)"
      using assms Inr by (auto simp: walked_def)
    then show ?thesis using assms Inr LoopContinue unfolding walked_def by auto
  qed (use assms Inr in \<open>simp add: walked_def\<close>)
qed (use assms in \<open>simp add: walked_def\<close>)

lemma prepare_retry_log:
  assumes "prepare_retry env directive remainder w = (r, w')"
  shows "wld_dispatched w' = wld_dispatched w \<and> wld_probes w' = wld_probes w \<and> walked remainder r"
  using assms
proof (induction rule: prepare_retry_walk)
  case (no_slot directive remainder w e)
  then show ?case by (auto simp: walked_def take_retry_slot_def bind_result_eq_Inl ok_or_eq split: list.splits)
next
  case (exhausted directive remainder w)
  then show ?case by (simp add: walked_def evidence_def failed_runtime_outcome_def)
next
  case (routed directive remainder w attempt request rest route w')
  then show ?case using coordinate_target_log by (auto simp: walked_def take_retry_slot_Some)
next
  case (failed directive remainder w attempt request rest e w')
  then show ?case using coordinate_target_log by (auto simp: walked_def)
next
  case (stopped directive remainder w attempt request rest refusal ctx e w')
  then show ?case using coordinate_target_log by (auto simp: walked_def)
next
  case (again directive remainder w attempt request rest refusal ctx w1 candidate r w')
  then show ?case
    using coordinate_target_log [OF again(2)] walked_later [of rest r remainder attempt]
    by (auto simp: take_retry_slot_Some)
qed


lemma advance_failed_log:
  assumes "advance_failed env failed remainder w = (r, w')"
    and retained: "retained = retain_accepted_identity (er_accepted remainder) (fa_accepted failed)"
  shows "wld_dispatched w' = wld_dispatched w \<and> wld_probes w' = wld_probes w
    \<and> (\<forall>e. r = Inl e \<longrightarrow> rre_accepted_attempts e = retained)
    \<and> (\<forall>outcome. r = Inr (LoopFinished outcome) \<longrightarrow> evidence (Inr outcome) = retained)
    \<and> (\<forall>st. r = Inr (LoopContinue st) \<longrightarrow> er_accepted (es_remainder st) = retained
        \<and> er_retry_plan (es_remainder st) = er_retry_plan remainder
        \<and> (\<exists>skipped. er_remaining_attempts remainder =
              skipped @ es_attempt st # er_remaining_attempts (es_remainder st)))"
proof -
  obtain q where q: "advance_failed_inner env failed (remainder\<lparr>er_accepted := retained\<rparr>) w = (q, w')"
    and r: "r = map_err (prepend_accepted retained) q"
    using assms by (auto simp: advance_failed_def Let_def split: prod.splits)
  have "wld_dispatched w' = wld_dispatched w \<and> wld_probes w' = wld_probes w
      \<and> walked (remainder\<lparr>er_accepted := retained\<rparr>) q"
    using q by (auto simp: advance_failed_inner_def walked_def evidence_def failed_runtime_outcome_def
        split: sum.splits option.splits dest!: prepare_retry_log)
  then show ?thesis
    using r by (cases q) (auto simp: walked_def split: LoopControl.splits)
qed

lemma run_state_log [consumes 1, case_names undispatched finished continued]:
  assumes "run_state env st w = (r, w')"
  obtains e where "r = Inl e" "rre_accepted_attempts e = er_accepted (es_remainder st)"
      "wld_dispatched w' = wld_dispatched w"
  | identity q where "wld_dispatched w' = wld_dispatched w @ [identity]" "attempt_of identity = es_attempt st"
      "r = map_sum id LoopFinished q"
      "evidence q = er_accepted (es_remainder st) @ filter (accepted_by env) [identity]"
  | identity st' skipped where "wld_dispatched w' = wld_dispatched w @ [identity]" "attempt_of identity = es_attempt st"
      "r = Inr (LoopContinue st')"
      "er_accepted (es_remainder st') = er_accepted (es_remainder st) @ filter (accepted_by env) [identity]"
      "er_remaining_attempts (es_remainder st) = skipped @ es_attempt st' # er_remaining_attempts (es_remainder st')"
proof -
  obtain p w1 where p: "execute_route (env_runtime env) (env_answers env (es_attempt st)) (env_request_id env)
      (es_route st) (es_attempt st) (env_loaded env) w = (p, w1)" by fastforce
  from p show thesis
  proof (cases rule: execute_route_log)
    case (undispatched e)
    with assms p that(1) show thesis by (auto simp: run_state_def Let_def)
  next
    case (dispatched identity)
    then have id: "attempt_of identity = es_attempt st" by (simp add: attempt_of_def)
    then have acc: "accepted_by env identity \<longleftrightarrow> outcome_accepted (an_outcome (env_answers env (es_attempt st)))"
      by (simp add: accepted_by_def)
    show thesis
    proof (cases p)
      case (Inl e)
      with assms p dispatched id acc that(2) [of identity "Inl (prepend_accepted (er_accepted (es_remainder st)) e)"]
      show thesis by (auto simp: run_state_def Let_def progress_of_def evidence_def)
    next
      case (Inr progress)
      show thesis
      proof (cases progress)
        case (AttemptSucceeded i c)
        with Inr dispatched have ok: "i = identity" "accepted_by env identity" using acc by (auto simp: progress_of_def)
        with assms p Inr AttemptSucceeded dispatched id
          that(2) [of identity "Inr (success_outcome identity c (er_accepted (es_remainder st)))"]
        show thesis by (auto simp: run_state_def Let_def success_outcome_def evidence_def)
      next
        case (AttemptFailed failed)
        with assms p Inr have adv: "advance_failed env failed (es_remainder st) w1 = (r, w')"
          by (simp add: run_state_def Let_def)
        have acc': "fa_accepted failed = (if accepted_by env identity then Some identity else None)"
          using dispatched Inr AttemptFailed acc by (auto simp: progress_of_def)
        then have retained: "er_accepted (es_remainder st) @ filter (accepted_by env) [identity] =
            retain_accepted_identity (er_accepted (es_remainder st)) (fa_accepted failed)"
          by (simp add: retain_accepted_identity_def)
        note log = advance_failed_log [OF adv retained]
        show thesis
        proof (cases r)
          case (Inl e)
          with log dispatched id that(2) [of identity "Inl e"] show thesis by (simp add: evidence_def)
        next
          case (Inr c)
          with log dispatched id that(2) [of identity "Inr (case c of LoopFinished q \<Rightarrow> q)"] that(3) [of identity]
          show thesis by (cases c) (auto simp: evidence_def)
        qed
      qed
    qed
  qed
qed

lemma execute_loop_log:
  assumes "execute_loop env st w = (r, w')"
  shows "\<exists>ds. wld_dispatched w' = wld_dispatched w @ ds
    \<and> evidence r = er_accepted (es_remainder st) @ filter (accepted_by env) ds
    \<and> subseq (map attempt_of ds) (es_attempt st # er_remaining_attempts (es_remainder st))"
  using assms
proof (induction env st w rule: execute_loop.induct)
  case (1 env st w)
  obtain c w1 where c: "run_state env st w = (c, w1)" by fastforce
  from c show ?case
  proof (cases rule: run_state_log)
    case (undispatched e)
    with c "1.prems" show ?thesis by (auto simp: execute_loop.simps [of env st] evidence_def)
  next
    case (finished identity q)
    then have "r = q" "w' = w1" using c "1.prems" by (cases q; simp add: execute_loop.simps [of env st])+
    with finished show ?thesis by (intro exI [of _ "[identity]"]) simp
  next
    case (continued identity st' skipped)
    then have go: "execute_loop env st' w1 = (r, w')"
      using c "1.prems" by (simp add: execute_loop.simps [of env st])
    obtain ds where ds: "wld_dispatched w' = wld_dispatched w1 @ ds"
        "evidence r = er_accepted (es_remainder st') @ filter (accepted_by env) ds"
        "subseq (map attempt_of ds) (es_attempt st' # er_remaining_attempts (es_remainder st'))"
      using "1.IH" [OF c [symmetric] continued(3) refl go] by auto
    have "subseq (map attempt_of ds) (er_remaining_attempts (es_remainder st))"
      using ds(3) continued(5) by (simp add: list_emb_append2)
    with ds continued show ?thesis by (intro exI [of _ "identity # ds"]) simp
  qed
qed


section \<open>The start\<close>

lemma coordinate_pool_log:
  assumes "coordinate_pool env request pool w = (r, w')"
  shows "wld_dispatched w' = wld_dispatched w \<and> wld_probes w' = wld_probes w
    \<and> (\<forall>e. r = Inl (CoordinationError e) \<longrightarrow> bare e)"
proof -
  have "CoordinationError e = map_target_coordination_error ce \<Longrightarrow> bare e" for ce e
    by (auto simp: map_target_coordination_error_def Let_def split: option.splits)
  then show ?thesis using assms by (auto simp: coordinate_pool_def split: prod.splits)
qed

lemma retry_after_admission_cases [consumes 1, case_names stopped retried]:
  assumes "retry_after_admission env directive remainder refusal w = (r, w')"
  obtains e where "r = Inl e" "bare e" "w' = w"
  | candidate where "next_candidate_after_admission (er_retry_plan remainder) (rd_candidate directive)
        (er_ordinal remainder) (rd_commitment directive) refusal = Inr (Some candidate)"
      "prepare_retry env (directive\<lparr>rd_candidate := candidate\<rparr>) remainder w = (r, w')"
  using assms
  by (auto simp: retry_after_admission.simps next_candidate_after_admission_def bind_result_eq_Inl
      split: sum.splits option.splits)

text \<open>The three ways an execution starts.\<close>

lemma start_state_cases [consumes 1, case_names ended routed refused]:
  assumes "start_state env attempts coordination w = (r, w')"
  obtains e where "r = Inl e" "bare e" "coordination = [] \<or> attempts = [] \<Longrightarrow> w' = w"
      "coordination \<noteq> [] \<and> attempts \<noteq> [] \<Longrightarrow> \<exists>f. coordinate_pool env (hd coordination) (ls_pool (env_loaded env)) w = (Inl f, w')"
  | attempt as request qs route where "attempts = attempt # as" "coordination = request # qs"
      "coordinate_pool env request (ls_pool (env_loaded env)) w = (Inr route, w')"
      "r = Inr (LoopContinue \<lparr>es_route = route, es_attempt = attempt,
         es_remainder = \<lparr>er_retry_plan = rt_retry_plan route, er_current = rt_selected_candidate route,
           er_ordinal = 1, er_accepted = [], er_remaining_attempts = as, er_remaining_coordination = qs\<rparr>\<rparr>)"
  | attempt as request qs refusal ctx w1 directive remainder where "attempts = attempt # as" "coordination = request # qs"
      "coordinate_pool env request (ls_pool (env_loaded env)) w = (Inl (CoordinationRefused refusal (Some ctx)), w1)"
      "directive = \<lparr>rd_candidate = iar_candidate ctx, rd_failure = FailureRateLimited, rd_commitment = Uncommitted\<rparr>"
      "remainder = \<lparr>er_retry_plan = iar_retry_plan ctx, er_current = iar_candidate ctx, er_ordinal = 1,
         er_accepted = [], er_remaining_attempts = as, er_remaining_coordination = qs\<rparr>"
      "retry_after_admission env directive remainder refusal w1 = (r, w')"
proof (cases "attempts = [] \<or> coordination = []")
  case True
  with assms that(1) show thesis by (auto simp: start_state_def split: list.splits)
next
  case False
  then obtain attempt as request qs where l: "attempts = attempt # as" "coordination = request # qs"
    by (cases attempts; cases coordination) auto
  obtain q w1 where q: "coordinate_pool env request (ls_pool (env_loaded env)) w = (q, w1)" by fastforce
  show thesis
  proof (cases q)
    case (Inr route)
    with assms l q that(2) show thesis by (auto simp: start_state_def)
  next
    case f: (Inl f)
    show thesis
    proof (cases f)
      case (CoordinationError e)
      with assms l q f coordinate_pool_log [OF q] that(1) show thesis by (auto simp: start_state_def)
    next
      case refused: (CoordinationRefused refusal c)
      show thesis
      proof (cases c)
        case None
        with assms l q f refused that(1) show thesis by (auto simp: start_state_def)
      next
        case (Some ctx)
        with assms l q f refused that(3) show thesis by (auto simp: start_state_def)
      qed
    qed
  qed
qed

lemma start_state_log:
  assumes "start_state env attempts coordination w = (r, w')"
  shows "wld_dispatched w' = wld_dispatched w \<and> wld_probes w' = wld_probes w
    \<and> (\<forall>e. r = Inl e \<longrightarrow> bare e)
    \<and> (\<forall>outcome. r = Inr (LoopFinished outcome) \<longrightarrow> evidence (Inr outcome) = [])
    \<and> (\<forall>st. r = Inr (LoopContinue st) \<longrightarrow> er_accepted (es_remainder st) = []
        \<and> (\<exists>skipped. attempts = skipped @ es_attempt st # er_remaining_attempts (es_remainder st)))"
  using assms
proof (cases rule: start_state_cases)
  case (ended e)
  then show ?thesis
    by (cases "coordination = [] \<or> attempts = []") (auto dest: coordinate_pool_log)
next
  case (routed attempt as request qs route)
  then show ?thesis using coordinate_pool_log [OF routed(3)] by simp
next
  case (refused attempt as request qs refusal ctx w1 directive remainder)
  from refused(6) show ?thesis
  proof (cases rule: retry_after_admission_cases)
    case (stopped e)
    then show ?thesis using coordinate_pool_log [OF refused(3)] by simp
  next
    case (retried candidate)
    show ?thesis
      using prepare_retry_log [OF retried(2)] coordinate_pool_log [OF refused(3)] refused
      by (cases r) (auto simp: walked_def split: LoopControl.splits)
  qed
qed

lemma execute_loaded_log:
  assumes "execute_loaded env attempts coordination w = (r, w')"
  shows "\<exists>ds. wld_dispatched w' = wld_dispatched w @ ds
    \<and> evidence r = filter (accepted_by env) ds \<and> subseq (map attempt_of ds) attempts"
proof -
  obtain c w1 where c: "start_state env attempts coordination w = (c, w1)" by fastforce
  note log = start_state_log [OF c]
  show ?thesis
  proof (cases "\<exists>st. c = Inr (LoopContinue st)")
    case True
    then obtain st where st: "c = Inr (LoopContinue st)" by blast
    with c assms have "execute_loop env st w1 = (r, w')" by (simp add: execute_loaded_def)
    from execute_loop_log [OF this] log st show ?thesis by (auto simp: list_emb_append2)
  next
    case False
    then show ?thesis using assms c log
      by (cases c) (auto simp: execute_loaded_def evidence_def split: LoopControl.splits)
  qed
qed

end
