(* ===== verification/Runtime_Safety.thy ===== *)
theory Runtime_Safety
  imports Runtime_Evidence Routing_Leases
begin

text \<open>
  When an execution tries again. Every route comes with a retry plan; the attempts of an execution stay on
  the candidates of the plan of its first route, go forward along it, stay within its limit, and follow
  only failures that may be repeated.
\<close>

section \<open>The plan of a route\<close>

lemma fold_push_hd:
  "hd (fold (push_candidate primary limit) states (primary # cs)) = primary"
proof (induction states arbitrary: cs)
  case (Cons x states)
  obtain cs' where "push_candidate primary limit x (primary # cs) = primary # cs'"
    by (cases "cst_key x \<noteq> primary \<and> length (primary # cs) < limit") (auto simp: push_candidate_def)
  with Cons.IH show ?case by simp
qed simp

definition plan_of :: "CoordinationRequest \<Rightarrow> CandidateKey \<Rightarrow> RoutingRetryPlan \<Rightarrow> bool" where
  "plan_of request primary rp \<longleftrightarrow>
     plan_ok (rrp_plan rp) \<and> index_of (rrp_plan rp) primary = Some 0
     \<and> fp_max_attempts (rrp_plan rp) = rtp_max_attempts (cq_retry request)
     \<and> rrp_operation rp = rtp_operation (cq_retry request)"

lemma build_retry_plan_plan_of:
  assumes "build_retry_plan request states i = Inr rp" and "get_at states i = Some primary"
  shows "plan_of request (cst_key primary) rp"
proof -
  let ?cs = "fold (push_candidate (cst_key primary) (unat (rtp_max_attempts (cq_retry request))))
    (filter state_eligible states) [cst_key primary]"
  have rp: "rrp_plan rp = \<lparr>fp_candidates = ?cs, fp_max_attempts = rtp_max_attempts (cq_retry request)\<rparr>"
    "plan_ok (rrp_plan rp)" "rrp_operation rp = rtp_operation (cq_retry request)"
    using assms by (auto simp: build_retry_plan_def bind_result_eq_Inr ok_or_def Let_def FailoverPlan_new_iff)
  moreover have "hd ?cs = cst_key primary" by (rule fold_push_hd)
  ultimately show ?thesis
    by (cases ?cs) (auto simp: plan_of_def index_of_def plan_ok_def)
qed

lemma engine_admit_plain:
  "engine_admit request selected exclusions s = (Inl e, s') \<Longrightarrow> coe_initial_admission_retry_context e = None"
  by (auto simp: engine_admit_def admission_request_def rate_request_def budget_request_def coord_err_def
      map_admission_error_def CoordinatorError_new_def CoordinatorError_with_retry_after_def Let_def
      bind_result_eq_Inl ok_or_eq split: sum.splits prod.splits)

lemma plain_errors [simp]:
  "coe_initial_admission_retry_context (CoordinatorError_new c) = None"
  "coe_initial_admission_retry_context (CoordinatorError_with_exclusions c xs) = None"
  by (simp_all add: CoordinatorError_new_def CoordinatorError_with_exclusions_def split: prod.splits)

lemma build_retry_plan_plain:
  "build_retry_plan request states i = Inl e \<Longrightarrow> coe_initial_admission_retry_context e = None"
  by (auto simp: build_retry_plan_def bind_result_eq_Inl ok_or_eq Let_def coord_err_def)

text \<open>
  The ways a coordination ends: before its admission, refused by it, admitted and dropped, or routed.
\<close>

lemma engine_coordinate_cases [consumes 1, case_names unselected refused dropped routed]:
  assumes "engine_coordinate select request pool s = (r, s')"
  obtains e where "r = Inl e" "s' = s" "coe_initial_admission_retry_context e = None"
  | selected exclusions rp e where "plan_of request (cst_key selected) rp"
      "engine_admit request selected exclusions s = (Inl e, s')"
      "r = Inl (attach_initial_admission_retry_context (cst_key selected) rp e)"
  | selected exclusions lease s1 e where "engine_admit request selected exclusions s = (Inr lease, s1)"
      "s' = drop_routing_lease lease s1" "r = Inl e" "coe_initial_admission_retry_context e = None"
  | selected exclusions route where "engine_admit request selected exclusions s = (Inr (rt_admission_lease route), s')"
      "r = Inr route" "plan_of request (rt_selected_candidate route) (rt_retry_plan route)"
proof (cases "select request pool")
  case (Inl e)
  with assms that(1) show thesis by (auto simp: engine_coordinate_def split: prod.splits)
next
  case sel: (Inr selection)
  let ?i = "rsl_selected_index selection" and ?states = "rsl_states selection"
  show thesis
  proof (cases "get_at ?states ?i")
    case None
    with sel assms that(1) show thesis by (auto simp: engine_coordinate_def)
  next
    case got: (Some selected)
    show thesis
    proof (cases "build_retry_plan request ?states ?i")
      case (Inl e)
      with sel got assms that(1) show thesis by (auto simp: engine_coordinate_def dest: build_retry_plan_plain)
    next
      case rp: (Inr rp)
      note plan = build_retry_plan_plan_of [OF rp got]
      obtain a s1 where a: "engine_admit request selected (rsl_exclusions selection) s = (a, s1)" by fastforce
      show thesis
      proof (cases a)
        case (Inl e)
        with sel got rp a assms plan that(2) show thesis by (auto simp: engine_coordinate_def)
      next
        case (Inr lease)
        note adm = a [unfolded Inr]
        show thesis
        proof (cases "cst_provider_model selected")
          case None
          with sel got rp adm assms that(3) [OF adm] show thesis by (auto simp: engine_coordinate_def)
        next
          case (Some provider_model)
          with sel got rp adm assms obtain route where "r = Inr route" "s' = s1"
              "rt_admission_lease route = lease" "rt_selected_candidate route = cst_key selected"
              "rt_retry_plan route = rp"
            by (auto simp: engine_coordinate_def)
          with adm plan that(4) [of selected "rsl_exclusions selection" route] show thesis by simp
        qed
      qed
    qed
  qed
qed

lemma coordinate_cases [consumes 1, case_names refused coordinated]:
  assumes "coordinate coordinator select request pool s = (r, s')"
  obtains e where "r = Inl e" "s' = s" "coe_initial_admission_retry_context e = None"
  | "engine_coordinate select request pool s = (r, s')"
  using assms
  by (auto simp: coordinate_def validate_candidate_snapshot_def split: sum.splits option.splits if_splits)

lemma coordinate_plan:
  assumes "coordinate coordinator select request pool s = (r, s')"
  shows "r = Inr route \<Longrightarrow> plan_of request (rt_selected_candidate route) (rt_retry_plan route)"
    and "r = Inl e \<Longrightarrow> coe_initial_admission_retry_context e = Some ctx \<Longrightarrow>
      plan_of request (iar_candidate ctx) (iar_retry_plan ctx)"
proof -
  have "(r = Inr route \<longrightarrow> plan_of request (rt_selected_candidate route) (rt_retry_plan route))
    \<and> (r = Inl e \<and> coe_initial_admission_retry_context e = Some ctx \<longrightarrow>
        plan_of request (iar_candidate ctx) (iar_retry_plan ctx))"
    using assms
  proof (cases rule: coordinate_cases)
    case coordinated
    then show ?thesis
      by (cases rule: engine_coordinate_cases)
        (auto simp: attach_initial_admission_retry_context_def split: if_splits dest: engine_admit_plain)
  qed auto
  then show "r = Inr route \<Longrightarrow> plan_of request (rt_selected_candidate route) (rt_retry_plan route)"
    "r = Inl e \<Longrightarrow> coe_initial_admission_retry_context e = Some ctx \<Longrightarrow>
      plan_of request (iar_candidate ctx) (iar_retry_plan ctx)" by auto
qed

lemma coordinate_pool_plan:
  assumes "coordinate_pool env request pool w = (r, w')"
  shows "r = Inr route \<Longrightarrow> plan_of request (rt_selected_candidate route) (rt_retry_plan route)"
    and "r = Inl (CoordinationRefused refusal (Some ctx)) \<Longrightarrow> plan_of request (iar_candidate ctx) (iar_retry_plan ctx)"
proof -
  have *: "CoordinationRefused refusal (Some ctx) = map_target_coordination_error e \<Longrightarrow>
      coe_initial_admission_retry_context e = Some ctx" for e
    by (auto simp: map_target_coordination_error_def Let_def split: option.splits)
  show "r = Inr route \<Longrightarrow> plan_of request (rt_selected_candidate route) (rt_retry_plan route)"
    using assms by (auto simp: coordinate_pool_def split: prod.splits dest: coordinate_plan(1))
  show "r = Inl (CoordinationRefused refusal (Some ctx)) \<Longrightarrow> plan_of request (iar_candidate ctx) (iar_retry_plan ctx)"
    using assms by (auto simp: coordinate_pool_def split: prod.splits dest!: * dest: coordinate_plan(2))
qed

lemma coordinate_target_selected:
  "coordinate_target env request target w = (Inr route, w') \<Longrightarrow> rt_selected_candidate route = target"
  by (auto simp: coordinate_target_def Let_def split: sum.splits prod.splits if_splits)

section \<open>Walking the plan\<close>

definition place :: "RoutingRetryPlan \<Rightarrow> CandidateKey \<Rightarrow> nat" where
  "place rp c = the (index_of (rrp_plan rp) c)"

definition on_plan :: "RoutingRetryPlan \<Rightarrow> CandidateKey \<Rightarrow> bool" where
  "on_plan rp c \<longleftrightarrow> plan_ok (rrp_plan rp) \<and> index_of (rrp_plan rp) c \<noteq> None"

lemma on_plan_nth:
  assumes "on_plan rp c"
  shows "place rp c < length (fp_candidates (rrp_plan rp))" "fp_candidates (rrp_plan rp) ! place rp c = c"
  using assms index_of_Some by (auto simp: on_plan_def place_def)

lemma on_plan_next:
  assumes "on_plan rp c" and "Suc (place rp c) < length (fp_candidates (rrp_plan rp))"
  shows "on_plan rp (fp_candidates (rrp_plan rp) ! Suc (place rp c))"
    "place rp (fp_candidates (rrp_plan rp) ! Suc (place rp c)) = Suc (place rp c)"
  using assms by (simp_all add: on_plan_def place_def index_of_nth)

abbreviation limit_of :: "RoutingRetryPlan \<Rightarrow> nat" where
  "limit_of rp \<equiv> unat (fp_max_attempts (rrp_plan rp))"

lemma unat_pos_neq_0: "1 \<le> unat (x :: u8) \<Longrightarrow> x \<noteq> 0"
  by auto

text \<open>The next candidate after a failed attempt, and after a refused admission.\<close>

lemma next_after_failure:
  assumes "on_plan rp c" and "1 \<le> unat n" and "unat n \<le> limit_of rp"
    and "retry_decide rp c n commitment failure = Inr d" and "next_candidate (fd_action d) c = Some c'"
  shows "commitment = Uncommitted \<and> is_retryable failure \<and> permits_retry (rrp_operation rp)
    \<and> unat n < limit_of rp \<and> on_plan rp c' \<and> place rp c \<le> place rp c'"
proof -
  note at = on_plan_nth [OF assms(1)]
  have d: "fd_action d = (if commitment = FirstByteSent \<or> \<not> is_retryable failure
        \<or> \<not> permits_retry (rrp_operation rp) \<or> n = fp_max_attempts (rrp_plan rp) then Stop
      else if Suc (place rp c) < length (fp_candidates (rrp_plan rp))
      then SwitchCandidate (fp_candidates (rrp_plan rp) ! Suc (place rp c)) else RetrySame)"
    using retry_decide_at [of rp "place rp c" n commitment failure] assms at unat_pos_neq_0 [of n]
    by (auto simp: on_plan_def)
  have "unat n < limit_of rp" if "n \<noteq> fp_max_attempts (rrp_plan rp)"
    using that assms(3) by (simp add: word_unat_eq_iff)
  with d assms(1,5) on_plan_next [OF assms(1)] show ?thesis
    by (cases commitment) (auto split: if_splits)
qed

lemma next_after_refusal:
  assumes "on_plan rp c" and "1 \<le> unat n" and "unat n \<le> limit_of rp"
    and "next_candidate_after_admission rp c n commitment refusal = Inr (Some c')"
  shows "commitment = Uncommitted \<and> permits_retry (rrp_operation rp)
    \<and> unat n < limit_of rp \<and> on_plan rp c' \<and> place rp c \<le> place rp c'"
proof -
  note at = on_plan_nth [OF assms(1)]
  obtain d where r: "retry_decide_outcome rp c n commitment (AdmissionRejected refusal) = Inr d"
    and c': "ad_action d = SwitchCandidate c'"
  proof -
    obtain d where d: "retry_decide_outcome rp c n commitment (AdmissionRejected refusal) = Inr d"
        "(case ad_action d of SwitchCandidate x \<Rightarrow> Some x | _ \<Rightarrow> None) = Some c'"
      using assms(4) by (auto simp: next_candidate_after_admission_def bind_result_eq_Inr)
    with that show thesis by (cases "ad_action d") auto
  qed
  have "ad_action d = (if refusal = RefusedRequestRejected \<or> commitment = FirstByteSent
        \<or> \<not> permits_retry (rrp_operation rp) \<or> n = fp_max_attempts (rrp_plan rp)
        \<or> length (fp_candidates (rrp_plan rp)) \<le> Suc (place rp c)
      then Stop else SwitchCandidate (fp_candidates (rrp_plan rp) ! Suc (place rp c)))"
    using retry_decide_outcome_refusal_at [of rp "place rp c" n commitment refusal] assms at r unat_pos_neq_0 [of n]
    by (auto simp: on_plan_def)
  moreover have "unat n < limit_of rp" if "n \<noteq> fp_max_attempts (rrp_plan rp)"
    using that assms(3) by (simp add: word_unat_eq_iff)
  ultimately show ?thesis
    using c' assms(1) on_plan_next [OF assms(1)] by (cases commitment) (auto split: if_splits)
qed

text \<open>A state of the loop whose attempt is within the plan.\<close>

definition state_on_plan :: "RoutingRetryPlan \<Rightarrow> ExecutionState \<Rightarrow> bool" where
  "state_on_plan rp st \<longleftrightarrow>
     er_retry_plan (es_remainder st) = rp \<and> on_plan rp (er_current (es_remainder st))
     \<and> er_current (es_remainder st) = rt_selected_candidate (es_route st)
     \<and> 1 \<le> unat (er_ordinal (es_remainder st)) \<and> unat (er_ordinal (es_remainder st)) \<le> limit_of rp"

lemma prepare_retry_on_plan:
  assumes "prepare_retry env directive remainder w = (r, w')" and "er_retry_plan remainder = rp"
    and "on_plan rp (rd_candidate directive)" and "unat (er_ordinal remainder) < limit_of rp"
    and "r = Inr (LoopContinue st)"
  shows "state_on_plan rp st \<and> place rp (rd_candidate directive) \<le> place rp (er_current (es_remainder st))
    \<and> unat (er_ordinal remainder) < unat (er_ordinal (es_remainder st))"
  using assms
proof (induction rule: prepare_retry_walk)
  case (routed directive remainder w attempt request rest route w')
  then show ?case
    using coordinate_target_selected [OF routed(2)] by (auto simp: take_retry_slot_Some state_on_plan_def)
next
  case (again directive remainder w attempt request rest refusal ctx w1 candidate r w')
  have rest: "er_retry_plan rest = rp" "unat (er_ordinal rest) = Suc (unat (er_ordinal remainder))"
    using again(1,5) by (auto simp: take_retry_slot_Some)
  have "unat (er_ordinal rest) < limit_of rp \<and> on_plan rp candidate
      \<and> place rp (rd_candidate directive) \<le> place rp candidate"
    using next_after_refusal [of rp "rd_candidate directive" "er_ordinal rest"] again(3,6,7) rest by auto
  with again.IH rest again.prems show ?case by force
qed auto


section \<open>Retries\<close>

text \<open>A dispatched attempt that may be followed by another.\<close>

definition retry_safe :: "runtime_env \<Rightarrow> OperationSafety \<Rightarrow> PhysicalAttemptIdentity \<Rightarrow> bool" where
  "retry_safe env operation identity \<longleftrightarrow>
     permits_retry operation
     \<and> (\<exists>acceptance failure. an_outcome (env_answers env (attempt_of identity)) =
            OutcomeFailed acceptance Uncommitted failure \<and> is_retryable failure)"

lemma run_state_dispatch:
  assumes "run_state env st w = (r, w')"
  shows "\<exists>ds. wld_dispatched w' = wld_dispatched w @ ds \<and> length ds \<le> 1
    \<and> (\<forall>d \<in> set ds. attempt_of d = es_attempt st \<and> pai_candidate d = rt_selected_candidate (es_route st))"
proof -
  obtain p w1 where p: "execute_route (env_runtime env) (env_answers env (es_attempt st)) (env_request_id env)
      (es_route st) (es_attempt st) (env_loaded env) w = (p, w1)" by fastforce
  have same: "wld_dispatched w' = wld_dispatched w1"
    using assms p
    by (auto simp: run_state_def Let_def split: sum.splits AttemptProgress.splits dest!: advance_failed_log [OF _ refl])
  from p show ?thesis
  proof (cases rule: execute_route_log)
    case (undispatched e)
    with same show ?thesis by auto
  next
    case (dispatched identity)
    with same show ?thesis by (intro exI [of _ "[identity]"]) (simp add: attempt_of_def)
  qed
qed

lemma run_state_continues:
  assumes run: "run_state env st w = (Inr (LoopContinue st'), w')" and ok: "state_on_plan rp st"
  shows "state_on_plan rp st' \<and> place rp (er_current (es_remainder st)) \<le> place rp (er_current (es_remainder st'))
    \<and> unat (er_ordinal (es_remainder st)) < unat (er_ordinal (es_remainder st'))
    \<and> (\<exists>d. wld_dispatched w' = wld_dispatched w @ [d] \<and> retry_safe env (rrp_operation rp) d
        \<and> pai_candidate d = er_current (es_remainder st))"
proof -
  let ?rem = "es_remainder st"
  have plan: "er_retry_plan ?rem = rp" using ok by (simp add: state_on_plan_def)
  obtain failed w1 where p: "execute_route (env_runtime env) (env_answers env (es_attempt st)) (env_request_id env)
      (es_route st) (es_attempt st) (env_loaded env) w = (Inr (AttemptFailed failed), w1)"
    and adv: "advance_failed env failed ?rem w1 = (Inr (LoopContinue st'), w')"
    using run by (auto simp: run_state_def Let_def split: prod.splits sum.splits AttemptProgress.splits)
  then obtain rem where rem: "rem = ?rem\<lparr>er_accepted := retain_accepted_identity (er_accepted ?rem) (fa_accepted failed)\<rparr>"
      "advance_failed_inner env failed rem w1 = (Inr (LoopContinue st'), w')"
    by (auto simp: advance_failed_def Let_def split: prod.splits)
  then obtain decision candidate where d: "retry_decide rp (er_current ?rem) (er_ordinal ?rem)
        (fa_commitment failed) (fa_failure failed) = Inr decision"
      "next_candidate (fd_action decision) (er_current ?rem) = Some candidate"
    and retry: "prepare_retry env \<lparr>rd_candidate = candidate, rd_failure = fa_failure failed,
        rd_commitment = fa_commitment failed\<rparr> rem w1 = (Inr (LoopContinue st'), w')"
    using ok by (auto simp: advance_failed_inner_def state_on_plan_def split: sum.splits option.splits)
  have safe: "fa_commitment failed = Uncommitted \<and> is_retryable (fa_failure failed) \<and> permits_retry (rrp_operation rp)
      \<and> unat (er_ordinal ?rem) < limit_of rp \<and> on_plan rp candidate \<and> place rp (er_current ?rem) \<le> place rp candidate"
    by (rule next_after_failure [OF _ _ _ d]; use ok in \<open>auto simp: state_on_plan_def\<close>)
  have "state_on_plan rp st' \<and> place rp candidate \<le> place rp (er_current (es_remainder st'))
      \<and> unat (er_ordinal ?rem) < unat (er_ordinal (es_remainder st'))"
    using prepare_retry_on_plan [OF retry, of rp st'] safe rem(1) plan by simp
  moreover have "wld_dispatched w' = wld_dispatched w1" using advance_failed_log [OF adv refl] by simp
  moreover from p have "\<exists>d. wld_dispatched w1 = wld_dispatched w @ [d] \<and> retry_safe env (rrp_operation rp) d
      \<and> pai_candidate d = er_current ?rem"
  proof (cases rule: execute_route_log)
    case (dispatched identity)
    then show ?thesis
      using safe ok by (auto simp: progress_of_def retry_safe_def attempt_of_def state_on_plan_def intro!: exI [of _ identity])
  qed simp
  ultimately show ?thesis using safe by auto
qed

text \<open>The dispatches of a run: within the limit, forward on the plan, each but the last repeatable.\<close>

definition follows_plan :: "runtime_env \<Rightarrow> RoutingRetryPlan \<Rightarrow> PhysicalAttemptIdentity list \<Rightarrow> bool" where
  "follows_plan env rp ds \<longleftrightarrow>
     (\<forall>d \<in> set (butlast ds). retry_safe env (rrp_operation rp) d)
     \<and> (\<forall>d \<in> set ds. on_plan rp (pai_candidate d))
     \<and> sorted (map (\<lambda>d. place rp (pai_candidate d)) ds)"

lemma execute_loop_follows:
  assumes "execute_loop env st w = (r, w')" and "state_on_plan rp st"
  shows "\<exists>ds. wld_dispatched w' = wld_dispatched w @ ds \<and> follows_plan env rp ds
    \<and> length ds + unat (er_ordinal (es_remainder st)) \<le> Suc (limit_of rp)
    \<and> (\<forall>d \<in> set ds. place rp (er_current (es_remainder st)) \<le> place rp (pai_candidate d))"
  using assms
proof (induction env st w rule: execute_loop.induct)
  case (1 env st w)
  obtain c w1 where c: "run_state env st w = (c, w1)" by fastforce
  show ?case
  proof (cases "\<exists>st'. c = Inr (LoopContinue st')")
    case False
    then have "w' = w1"
      using c "1.prems"(1) by (auto simp: execute_loop.simps [of env st] split: sum.splits LoopControl.splits)
    then obtain ds where "wld_dispatched w' = wld_dispatched w @ ds" "length ds \<le> 1"
        "\<forall>d \<in> set ds. pai_candidate d = er_current (es_remainder st)"
      using run_state_dispatch [OF c] "1.prems"(2) by (auto simp: state_on_plan_def)
    then show ?thesis
      using "1.prems"(2)
      by (intro exI [of _ ds]; cases ds) (auto simp: follows_plan_def state_on_plan_def)
  next
    case True
    then obtain st' where st': "c = Inr (LoopContinue st')" by blast
    note go = run_state_continues [OF c [unfolded st'] "1.prems"(2)]
    then obtain d where d: "wld_dispatched w1 = wld_dispatched w @ [d]" "retry_safe env (rrp_operation rp) d"
        "pai_candidate d = er_current (es_remainder st)" by blast
    have "execute_loop env st' w1 = (r, w')"
      using c st' "1.prems"(1) by (simp add: execute_loop.simps [of env st])
    with "1.IH" [OF c [symmetric] st' refl] go obtain ds where ds:
        "wld_dispatched w' = wld_dispatched w1 @ ds" "follows_plan env rp ds"
        "length ds + unat (er_ordinal (es_remainder st')) \<le> Suc (limit_of rp)"
        "\<forall>d \<in> set ds. place rp (er_current (es_remainder st')) \<le> place rp (pai_candidate d)" by blast
    have "follows_plan env rp (d # ds)"
      using ds(2,4) go d "1.prems"(2) by (fastforce simp: follows_plan_def state_on_plan_def)
    with ds d go show ?thesis by (intro exI [of _ "d # ds"]) fastforce
  qed
qed

lemma start_state_on_plan:
  assumes "start_state env attempts (request # qs) w = (Inr (LoopContinue st), w')"
  shows "\<exists>rp primary. plan_of request primary rp \<and> state_on_plan rp st"
  using assms
proof (cases rule: start_state_cases)
  case (routed attempt as request' qs' route)
  then show ?thesis
    using coordinate_pool_plan(1) [OF routed(3)]
    by (intro exI [of _ "rt_retry_plan route"] exI [of _ "rt_selected_candidate route"])
      (auto simp: state_on_plan_def plan_of_def on_plan_def plan_ok_def)
next
  case (refused attempt as request' qs' refusal ctx w1 directive remainder)
  have plan: "plan_of request (iar_candidate ctx) (iar_retry_plan ctx)"
    using coordinate_pool_plan(2) [OF refused(3) refl] refused(2) by simp
  then have on: "on_plan (iar_retry_plan ctx) (iar_candidate ctx)" "1 \<le> limit_of (iar_retry_plan ctx)"
    by (auto simp: plan_of_def on_plan_def plan_ok_def)
  from refused(6) show ?thesis
  proof (cases rule: retry_after_admission_cases)
    case (retried candidate)
    have "1 < limit_of (iar_retry_plan ctx) \<and> on_plan (iar_retry_plan ctx) candidate"
      using next_after_refusal [of "iar_retry_plan ctx" "iar_candidate ctx" 1] retried(1) on refused(4,5) by auto
    then have "state_on_plan (iar_retry_plan ctx) st"
      using prepare_retry_on_plan [OF retried(2), of "iar_retry_plan ctx" st] refused(5) by simp
    with plan show ?thesis by blast
  qed simp
qed simp

lemma execute_loaded_follows:
  assumes "execute_loaded env attempts (request # qs) w = (r, w')"
  shows "\<exists>ds rp primary. wld_dispatched w' = wld_dispatched w @ ds
    \<and> (ds \<noteq> [] \<longrightarrow> plan_of request primary rp \<and> follows_plan env rp ds \<and> length ds \<le> limit_of rp)"
proof -
  obtain c w1 where c: "start_state env attempts (request # qs) w = (c, w1)" by fastforce
  have w1: "wld_dispatched w1 = wld_dispatched w" using start_state_log [OF c] by simp
  show ?thesis
  proof (cases "\<exists>st. c = Inr (LoopContinue st)")
    case False
    then have "w' = w1" using assms c by (auto simp: execute_loaded_def split: sum.splits LoopControl.splits)
    with w1 show ?thesis by auto
  next
    case True
    then obtain st where st: "c = Inr (LoopContinue st)" by blast
    obtain rp primary where rp: "plan_of request primary rp" "state_on_plan rp st"
      using start_state_on_plan [OF c [unfolded st]] by blast
    have "execute_loop env st w1 = (r, w')" using c st assms by (simp add: execute_loaded_def)
    from execute_loop_follows [OF this rp(2)] obtain ds where
        "wld_dispatched w' = wld_dispatched w1 @ ds" "follows_plan env rp ds"
        "length ds + unat (er_ordinal (es_remainder st)) \<le> Suc (limit_of rp)" by blast
    with rp w1 show ?thesis
      by (intro exI [of _ ds] exI [of _ rp] exI [of _ primary]) (auto simp: state_on_plan_def)
  qed
qed

end
