(* ===== verification/Probe_Registry.thy ===== *)
theory Probe_Registry
  imports Circuit_Probe
begin

text \<open>
  Lemmas on the probe authority: the registrations of a registry have distinct keys, every call acts on
  the circuit of its key alone and by at most one circuit call, and a lease is honoured only by the
  registration that issued it.
\<close>

section \<open>Registrations\<close>

lemma inj_probe_key_rank: "inj probe_key_rank"
  by (rule injI) (simp add: probe_key_rank_def)

lemma adjacent_keys_equal_sorted:
  "sorted (map (\<lambda>r. probe_key_rank (cpr_key r)) rs) \<Longrightarrow>
     adjacent_keys_equal rs \<longleftrightarrow> \<not> distinct (map cpr_key rs)"
proof (induction rs rule: adjacent_keys_equal.induct)
  case (1 x y ys)
  have "cpr_key x \<noteq> cpr_key y \<Longrightarrow> cpr_key x \<notin> cpr_key ` set ys"
  proof
    assume ne: "cpr_key x \<noteq> cpr_key y" and "cpr_key x \<in> cpr_key ` set ys"
    then obtain z where z: "z \<in> set ys" "cpr_key x = cpr_key z" by auto
    then have "probe_key_rank (cpr_key x) = probe_key_rank (cpr_key y)"
      using 1(2) by (auto intro: order.antisym)
    with ne show False by (simp add: inj_eq [OF inj_probe_key_rank])
  qed
  with 1 show ?case by auto
qed auto

definition registry_ok :: "CircuitProbeRegistry \<Rightarrow> bool" where
  "registry_ok registry \<longleftrightarrow>
     length (cpg_registrations registry) \<le> MAX_CIRCUIT_PROBE_ACCOUNTS
     \<and> distinct (map cpr_key (cpg_registrations registry))"

lemma CircuitProbeRegistry_new_iff:
  "CircuitProbeRegistry_new rs = Inr registry \<longleftrightarrow>
     registry_ok registry \<and> cpg_registrations registry = sort_key (\<lambda>r. probe_key_rank (cpr_key r)) rs"
  by (cases registry) (auto simp: CircuitProbeRegistry_new_def registry_ok_def Let_def results
      validate_registry_capacity_def validate_unique_keys_def adjacent_keys_equal_sorted)

lemma find_key_distinct:
  "distinct (map cpr_key rs) \<Longrightarrow>
     find (\<lambda>r. cpr_key r = key) rs = Some reg \<longleftrightarrow> reg \<in> set rs \<and> cpr_key reg = key"
  by (induction rs) force+

lemma registration_iff:
  "registry_ok registry \<Longrightarrow>
     registration registry key = Inr reg \<longleftrightarrow> reg \<in> set (cpg_registrations registry) \<and> cpr_key reg = key"
  by (simp add: registration_def registry_ok_def ok_or_eq find_key_distinct)

section \<open>Isolation\<close>

text \<open>What a call under a key does to the registry: nothing, or one circuit call on that key's circuit.\<close>

definition probe_step :: "CircuitProbeKey \<Rightarrow> CircuitProbeRegistry \<Rightarrow> CircuitProbeRegistry \<Rightarrow> bool" where
  "probe_step key registry registry' \<longleftrightarrow>
     registry' = registry
     \<or> (\<exists>reg l. registration registry key = Inr reg
          \<and> registry' = put_circuit key (circuit_call_effect l (cpr_circuit reg)) registry)"

lemma probe_step_refl [simp, intro]: "probe_step key registry registry"
  by (simp add: probe_step_def)

lemma probe_stepI:
  "registration registry key = Inr reg \<Longrightarrow> circuit_call_effect l (cpr_circuit reg) = circuit \<Longrightarrow>
     probe_step key registry (put_circuit key circuit registry)"
  by (auto simp: probe_step_def)

lemma acquire_recovery_probe_step:
  assumes "acquire_recovery_probe answers key reg generation registry = (r, registry')"
    and "registration registry key = Inr reg"
  shows "probe_step key registry registry'"
proof (cases "pan_clock answers")
  case None
  with assms show ?thesis by (auto simp: acquire_recovery_probe_def split: sum.splits)
next
  case (Some reading)
  have "probe_step key registry (put_circuit key (snd (acquire_probe generation (cl_observed_at reading)
      (cl_monotonic reading) (cpr_circuit reg))) registry)"
    by (rule probe_stepI [OF assms(2), of "AcquireProbe generation (cl_observed_at reading) (cl_monotonic reading)"]) simp
  with assms(1) Some show ?thesis
    by (auto simp: acquire_recovery_probe_def split: sum.splits prod.splits)
qed

lemma registry_acquire_probe_step:
  "registry_acquire_probe answers key registry = (r, registry') \<Longrightarrow> probe_step key registry registry'"
  by (auto simp: registry_acquire_probe_def split: sum.splits CircuitState.splits
      dest: acquire_recovery_probe_step)

lemma complete_circuit_execution_call:
  obtains l where "snd (complete_circuit_execution key lease outcome reading circuit) = circuit_call_effect l circuit"
proof (cases "cpl_kind lease")
  case (ClosedLease g)
  show thesis
    by (rule that [of "Observe \<lparr>co_account_id = cpk_account_id key, co_generation = g,
          co_observed_at = cl_observed_at reading, co_monotonic = cl_monotonic reading, co_outcome = outcome\<rparr>"])
      (auto simp: complete_circuit_execution_def ClosedLease split: prod.splits sum.splits)
next
  case (HalfOpenLease inner)
  show thesis
    by (rule that [of "CompleteProbe inner outcome (cl_observed_at reading) (cl_monotonic reading)"])
      (auto simp: complete_circuit_execution_def HalfOpenLease split: prod.splits sum.splits)
qed

text \<open>A completion or a validation is answered by the registration that issued the lease, or refused.\<close>

definition issued :: "CircuitProbeRegistry \<Rightarrow> CircuitProbeKey \<Rightarrow> CircuitProbeLease \<Rightarrow> bool" where
  "issued registry key lease \<longleftrightarrow>
     cpl_key lease = key \<and> (\<exists>reg. registration registry key = Inr reg \<and> cpl_issuer lease = Some (cpr_issuer reg))"

lemma registration_rejects: "registration registry key = Inl e \<Longrightarrow> e = ProbeRejected"
  by (auto simp: registration_def ok_or_eq)

lemma unissued_is_rejected:
  assumes "\<not> issued registry key lease"
  shows "registry_complete_probe clock key lease outcome registry = (Inl ProbeRejected, registry)"
    and "registry_validate_probe clock key lease registry = (Inl ProbeRejected, registry)"
  using assms
  by (auto simp: registry_complete_probe_def registry_validate_probe_def issued_def is_issued_by_def
      split: sum.splits dest: registration_rejects)

lemma registry_complete_probe_step:
  assumes "registry_complete_probe clock key lease outcome registry = (r, registry')"
  shows "probe_step key registry registry'"
proof (cases "issued registry key lease")
  case True
  then obtain reg where reg: "cpl_key lease = key" "registration registry key = Inr reg"
      "is_issued_by lease (cpr_issuer reg)"
    by (auto simp: issued_def is_issued_by_def)
  show ?thesis
  proof (cases clock)
    case (Some reading)
    obtain l where "snd (complete_circuit_execution key lease outcome reading (cpr_circuit reg)) =
        circuit_call_effect l (cpr_circuit reg)" by (rule complete_circuit_execution_call)
    with assms reg Some show ?thesis
      by (auto simp: registry_complete_probe_def split: prod.splits intro: probe_stepI)
  qed (use assms reg in \<open>auto simp: registry_complete_probe_def\<close>)
qed (use assms unissued_is_rejected in auto)

lemma registry_validate_probe_step:
  assumes "registry_validate_probe clock key lease registry = (r, registry')"
  shows "probe_step key registry registry'"
proof (cases "issued registry key lease")
  case True
  then obtain reg where reg: "cpl_key lease = key" "registration registry key = Inr reg"
      "is_issued_by lease (cpr_issuer reg)"
    by (auto simp: issued_def is_issued_by_def)
  show ?thesis
  proof (cases "cpl_kind lease")
    case (HalfOpenLease inner)
    show ?thesis
    proof (cases clock)
      case (Some reading)
      have "probe_step key registry (put_circuit key (snd (validate_probe inner (cl_observed_at reading)
          (cl_monotonic reading) (cpr_circuit reg))) registry)"
        by (rule probe_stepI [OF reg(2), of "ValidateProbe inner (cl_observed_at reading) (cl_monotonic reading)"]) simp
      with assms reg HalfOpenLease Some show ?thesis
        by (auto simp: registry_validate_probe_def validate_half_open_probe_def split: sum.splits prod.splits)
    qed (use assms reg HalfOpenLease in \<open>auto simp: registry_validate_probe_def validate_half_open_probe_def\<close>)
  qed (use assms reg in \<open>auto simp: registry_validate_probe_def\<close>)
qed (use assms unissued_is_rejected in auto)

lemma guard_complete_step:
  "guard_complete clock guard outcome registry = (r, registry') \<Longrightarrow> \<exists>key. probe_step key registry registry'"
  by (auto simp: guard_complete_def split: option.splits dest: registry_complete_probe_step)

lemma guard_validate_step:
  "guard_validate clock guard registry = (r, registry') \<Longrightarrow> \<exists>key. probe_step key registry registry'"
  by (auto simp: guard_validate_def split: option.splits dest: registry_validate_probe_step)

lemma guard_drop_step: "\<exists>key. probe_step key registry (guard_drop clock guard registry)"
  by (cases "cgd_lease guard")
    (auto simp: guard_drop_def intro!: exI registry_complete_probe_step [OF prod.collapse [symmetric]])

section \<open>Runs of probe calls\<close>

text \<open>
  A sequence of probe calls, seen from the registrations: the same keys and issuers, and each circuit
  taken by circuit calls from where it was.
\<close>

definition circuit_runs :: "CircuitProbeRegistration \<Rightarrow> CircuitProbeRegistration \<Rightarrow> bool" where
  "circuit_runs reg reg' \<longleftrightarrow>
     cpr_key reg' = cpr_key reg \<and> cpr_issuer reg' = cpr_issuer reg
     \<and> (\<exists>ls. run circuit_step (cpr_circuit reg) ls (cpr_circuit reg'))"

definition probe_run :: "CircuitProbeRegistry \<Rightarrow> CircuitProbeRegistry \<Rightarrow> bool" where
  "probe_run registry registry' \<longleftrightarrow>
     (registry_ok registry \<longrightarrow> list_all2 circuit_runs (cpg_registrations registry) (cpg_registrations registry'))"

lemma circuit_runs_refl [simp]: "circuit_runs reg reg"
  by (auto simp: circuit_runs_def intro: exI [of _ "[]"])

lemma circuit_runs_trans: "circuit_runs x y \<Longrightarrow> circuit_runs y z \<Longrightarrow> circuit_runs x z"
  unfolding circuit_runs_def by (metis run_append)

lemma circuit_runs_keys: "list_all2 circuit_runs rs rs' \<Longrightarrow> map cpr_key rs' = map cpr_key rs"
  by (induction rule: list_all2_induct) (auto simp: circuit_runs_def)

lemma registry_ok_runs:
  "registry_ok registry \<Longrightarrow> list_all2 circuit_runs (cpg_registrations registry) (cpg_registrations registry') \<Longrightarrow>
     registry_ok registry'"
  by (auto simp: registry_ok_def circuit_runs_keys list_all2_lengthD [symmetric])

lemma probe_run_refl [simp]: "probe_run registry registry"
  by (simp add: probe_run_def list_all2_refl)

lemma probe_run_trans [trans]:
  assumes "probe_run x y" and "probe_run y z"
  shows "probe_run x z"
  unfolding probe_run_def
proof
  assume "registry_ok x"
  then have xy: "list_all2 circuit_runs (cpg_registrations x) (cpg_registrations y)" and "registry_ok y"
    using assms(1) by (auto simp: probe_run_def intro: registry_ok_runs)
  then have "list_all2 circuit_runs (cpg_registrations y) (cpg_registrations z)"
    using assms(2) by (simp add: probe_run_def)
  from list_all2_trans [OF circuit_runs_trans xy this]
  show "list_all2 circuit_runs (cpg_registrations x) (cpg_registrations z)" .
qed

lemma probe_run_step:
  assumes "probe_step key registry registry'"
  shows "probe_run registry registry'"
proof (cases "registry' = registry")
  case False
  then obtain reg l where reg: "registration registry key = Inr reg"
      "registry' = put_circuit key (circuit_call_effect l (cpr_circuit reg)) registry"
    using assms by (auto simp: probe_step_def)
  have "circuit_runs x (if cpr_key x = key then x\<lparr>cpr_circuit := circuit_call_effect l (cpr_circuit reg)\<rparr> else x)"
    if "registry_ok registry" "x \<in> set (cpg_registrations registry)" for x
  proof (cases "cpr_key x = key")
    case True
    moreover have "reg \<in> set (cpg_registrations registry)" "cpr_key reg = key"
      using reg(1) that(1) by (simp_all add: registration_iff)
    moreover have "inj_on cpr_key (set (cpg_registrations registry))"
      using that(1) by (simp add: registry_ok_def distinct_map)
    ultimately have "x = reg" using that(2) by (auto dest: inj_onD)
    have "run circuit_step (cpr_circuit reg) [l] (circuit_call_effect l (cpr_circuit reg))"
      by (simp add: run_Cons_iff circuit_step_iff)
    with True \<open>x = reg\<close> show ?thesis by (auto simp: circuit_runs_def)
  qed simp
  then show ?thesis
    by (simp add: probe_run_def reg(2) put_circuit_def list_all2_map2 list.rel_refl_strong)
qed simp

end
