(* ===== verification/Routing_Settlement.thy ===== *)
theory Routing_Settlement
  imports Routing_Properties
begin

text \<open>
  What is left of a lease that its owner has consumed: a rate lease that is gone or charged and a
  reservation that is no longer reserved. From it follows what an owner that uses the coupled
  admission alone leaves behind, starting from stores \<open>s0\<close>: whatever is unsettled in the stores was
  there in \<open>s0\<close> or belongs to a lease the owner still holds, and nothing of \<open>s0\<close> changes but by expiry.
\<close>

section \<open>Settled capacity\<close>

text \<open>A rate lease that is gone or charged, and a reservation that is no longer reserved.\<close>

definition retired :: "AdmissionLeaseId \<Rightarrow> ControllerState \<Rightarrow> bool" where
  "retired i st \<longleftrightarrow> (\<forall>a. map_of (leases st) i = Some a \<longrightarrow> l_rate_committed a)"

definition closed_record :: "ReservationId \<Rightarrow> BudgetState \<Rightarrow> bool" where
  "closed_record rid st \<longleftrightarrow> (\<forall>r. map_of (reservations st) rid = Some r \<longrightarrow> rec_state r \<noteq> Reserved)"

text \<open>Updates under the invariant that take no identity and retire a lease, or keep it retired.\<close>

definition retires :: "AdmissionLeaseId \<Rightarrow> 'a controller_update \<Rightarrow> bool" where
  "retires i f \<longleftrightarrow>
     (\<forall>P st r st'. state_inv P st \<and> f st = (r, st') \<longrightarrow>
        state_inv P st' \<and> next_identity st' = next_identity st \<and> retired i st')"

definition keeps_retired :: "AdmissionLeaseId \<Rightarrow> 'a controller_update \<Rightarrow> bool" where
  "keeps_retired i f \<longleftrightarrow>
     (\<forall>P st r st'. state_inv P st \<and> f st = (r, st') \<longrightarrow>
        state_inv P st' \<and> next_identity st' = next_identity st \<and> (retired i st \<longrightarrow> retired i st'))"

lemma retiresD:
  "retires i f \<Longrightarrow> state_inv P st \<Longrightarrow> f st = (r, st') \<Longrightarrow>
     state_inv P st' \<and> next_identity st' = next_identity st \<and> retired i st'"
  unfolding retires_def by blast

lemma keeps_retiredD:
  "keeps_retired i f \<Longrightarrow> state_inv P st \<Longrightarrow> f st = (r, st') \<Longrightarrow>
     state_inv P st' \<and> next_identity st' = next_identity st \<and> (retired i st \<longrightarrow> retired i st')"
  unfolding keeps_retired_def by blast

lemma retires_keeps: "retires i f \<Longrightarrow> keeps_retired i f"
  unfolding retires_def keeps_retired_def by blast

lemma keeps_retired_pure [simp]: "keeps_retired i (\<lambda>st. (g st, st))"
  by (simp add: keeps_retired_def)

lemma observe_retired: "keeps_retired i (observe_and_expire now)"
  unfolding keeps_retired_def
proof (intro allI impI, elim conjE)
  fix P st and r :: "(AdmissionError, unit) result" and st'
  assume inv: "state_inv P st" and run: "observe_and_expire now st = (r, st')"
  show "state_inv P st' \<and> next_identity st' = next_identity st \<and> (retired i st \<longrightarrow> retired i st')"
  proof (cases "now < last_now st")
    case True
    with inv run show ?thesis by (simp add: observe_and_expire_regressed)
  next
    case False
    have ok: "ledger_ok P st" using inv by (simp add: state_inv_def)
    with False obtain s where s: "observe_and_expire now st = (Inr (), s)" "next_identity s = next_identity st"
      "leases s = filter (\<lambda>(i, l). now < l_expires_at l) (leases st)"
      using observe_and_expire_effect [OF ok, of now] by (metis not_less)
    with run observe_and_expire_invD [OF run inv] observed_lookup [OF ok s(3), of i] show ?thesis
      by (auto simp: retired_def split: option.splits if_splits)
  qed
qed

lemma commit_retires: "retires i (state_commit_rate i)"
  unfolding retires_def
proof (intro allI impI, elim conjE)
  fix P st and r :: "(AdmissionError, unit) result" and st'
  assume inv: "state_inv P st" and run: "state_commit_rate i st = (r, st')"
  have ok: "ledger_ok P st" using inv by (simp add: state_inv_def)
  have "state_inv P st'" using state_commit_rate_inv [OF inv, of i] run by simp
  moreover have "next_identity st' = next_identity st \<and> retired i st'"
  proof (cases "map_of (leases st) i")
    case None
    with state_commit_rate_cases(1) [OF ok None] run show ?thesis by (simp add: retired_def)
  next
    case (Some a)
    show ?thesis
    proof (cases "l_rate_committed a")
      case True
      with state_commit_rate_cases(2) [OF ok Some] run Some show ?thesis by (simp add: retired_def)
    next
      case False
      with state_commit_rate_cases(3) [OF ok Some] run show ?thesis
        by (auto simp: retired_def committed_state_def)
    qed
  qed
  ultimately show "state_inv P st' \<and> next_identity st' = next_identity st \<and> retired i st'" by simp
qed

lemma remove_retires: "retires i (\<lambda>st. case remove_lease i st of (b, st') \<Rightarrow> (g b, st'))"
  unfolding retires_def
proof (intro allI impI, elim conjE)
  fix P st r st'
  assume inv: "state_inv P st" and run: "(case remove_lease i st of (b, st') \<Rightarrow> (g b, st')) = (r, st')"
  then obtain b where b: "remove_lease i st = (b, st')" by (auto split: prod.splits)
  have "ledger_ok P st" using inv by (simp add: state_inv_def)
  from remove_lease_frame [OF this, of i] remove_lease_invD [OF b inv] b
  show "state_inv P st' \<and> next_identity st' = next_identity st \<and> retired i st'"
    by (simp add: retired_def)
qed

text \<open>Sequences: a retiring update in any position.\<close>

lemma retires_first:
  assumes "retires i m" and "\<And>x. keeps_retired i (f x)"
  shows "retires i (bind_update m f)"
  unfolding retires_def
proof (intro allI impI, elim conjE)
  fix P st r st'
  assume inv: "state_inv P st" and run: "bind_update m f st = (r, st')"
  obtain q s where m: "m st = (q, s)" by fastforce
  note one = retiresD [OF assms(1) inv m]
  from run m have "(\<exists>e. q = Inl e) \<and> st' = s \<or> (\<exists>x. q = Inr x \<and> f x s = (r, st'))"
    by (cases q) (auto simp: bind_update_def)
  with one keeps_retiredD [OF assms(2), of P s]
  show "state_inv P st' \<and> next_identity st' = next_identity st \<and> retired i st'" by fastforce
qed

lemma keeps_retired_bind:
  assumes "keeps_retired i m" and "\<And>x. keeps_retired i (f x)"
  shows "keeps_retired i (bind_update m f)"
  unfolding keeps_retired_def
proof (intro allI impI, elim conjE)
  fix P st r st'
  assume inv: "state_inv P st" and run: "bind_update m f st = (r, st')"
  obtain q s where m: "m st = (q, s)" by fastforce
  note one = keeps_retiredD [OF assms(1) inv m]
  from run m have "(\<exists>e. q = Inl e) \<and> st' = s \<or> (\<exists>x. q = Inr x \<and> f x s = (r, st'))"
    by (cases q) (auto simp: bind_update_def)
  with one keeps_retiredD [OF assms(2), of P s]
  show "state_inv P st' \<and> next_identity st' = next_identity st \<and> (retired i st \<longrightarrow> retired i st')" by fastforce
qed

lemma keeps_retired_after_observe:
  assumes "\<And>e. keeps_retired i (f e)" and "keeps_retired i g"
  shows "keeps_retired i (\<lambda>st. case observe_and_expire now st of (Inl e, st') \<Rightarrow> f e st' | (Inr u, st') \<Rightarrow> g st')"
  unfolding keeps_retired_def
proof (intro allI impI, elim conjE)
  fix P st r st'
  assume inv: "state_inv P st"
    and run: "(case observe_and_expire now st of (Inl e, st') \<Rightarrow> f e st' | (Inr u, st') \<Rightarrow> g st') = (r, st')"
  obtain q s where q: "observe_and_expire now st = (q, s)" by fastforce
  note one = keeps_retiredD [OF observe_retired inv q, of i]
  from run q have "(\<exists>e. f e s = (r, st')) \<or> g s = (r, st')" by (cases q) auto
  with one keeps_retiredD [OF assms(1), of P s] keeps_retiredD [OF assms(2), of P s]
  show "state_inv P st' \<and> next_identity st' = next_identity st \<and> (retired i st \<longrightarrow> retired i st')" by fastforce
qed

lemma complete_retires: "retires i (complete_accepted i)"
proof -
  have eq: "(\<lambda>st. case remove_lease i st of (removed, st') \<Rightarrow>
      if \<not> removed then (Inl (error LeaseExpired), st') else (Inr Completed, st')) =
    (\<lambda>st. case remove_lease i st of (b, st') \<Rightarrow> (if \<not> b then Inl (error LeaseExpired) else Inr Completed, st'))"
    by (auto split: prod.splits)
  show ?thesis
    unfolding complete_accepted_def eq
    by (intro retires_first commit_retires retires_keeps [OF remove_retires])
qed

lemma retain_retires: "retires i (retain_accepted i)"
  unfolding retain_accepted_def by (intro retires_first commit_retires keeps_retired_pure)

lemma finalize_retires: "retires i (state_finalize_accepted i now)"
proof (cases now)
  case None
  then show ?thesis by (simp add: state_finalize_accepted_def retain_retires)
next
  case (Some t)
  have "keeps_retired i (\<lambda>st. if ae_code e = ClockRegressed then retain_accepted i st else (Inl e, st))" for e
    using retires_keeps [OF retain_retires] by (cases "ae_code e = ClockRegressed") simp_all
  then show ?thesis
    unfolding Some state_finalize_accepted_def finalize_accepted_at_def option.case
    by (intro retires_first commit_retires keeps_retired_after_observe retires_keeps [OF complete_retires])
qed

lemma retain_dispatched_retires: "retires i (state_retain_dispatched i now)"
proof -
  have "keeps_retired i (\<lambda>st. if ae_code e = ClockRegressed then (Inr (), st) else (Inl e, st))" for e
    by (cases "ae_code e = ClockRegressed") simp_all
  then show ?thesis
    unfolding state_retain_dispatched_def
    by (intro retires_first commit_retires keeps_retired_after_observe keeps_retired_pure)
qed

section \<open>Calls of an owner\<close>

text \<open>A call on the controller that retires a lease and takes no identity.\<close>

definition rate_settled :: "AdmissionLeaseId \<Rightarrow> ControllerInner \<Rightarrow> ControllerInner \<Rightarrow> bool" where
  "rate_settled i c c' \<longleftrightarrow>
     ci_poisoned c' = ci_poisoned c \<and> next_identity (ci_state c') = next_identity (ci_state c)
     \<and> retired i (ci_state c')"

lemma with_lock_settled:
  assumes "controller_inv c" and "\<not> ci_poisoned c" and "retires i f" and "with_lock f c = (r, c')"
  shows "rate_settled i c c'"
  using assms(2,4) retiresD [OF assms(3), of "ci_policies c" "ci_state c"] assms(1)
  by (auto simp: with_lock_def rate_settled_def controller_inv_def split: prod.splits)

lemma drop_settled:
  assumes "controller_inv c" and "\<not> ci_poisoned c" and "\<not> al_closed rl"
  shows "rate_settled (al_id rl) c (drop_lease rl c)"
  using assms remove_lease_frame [OF controller_inv_state(1) [OF assms(1)], of "al_id rl"]
  by (simp add: drop_lease_def close_lease_without_time_def rate_settled_def retired_def)

lemma finalize_settled:
  assumes "controller_inv c" and "\<not> ci_poisoned c" and "\<not> al_closed rl"
    and "finalize_accepted rl now c = (r, c')"
  shows "rate_settled (al_id rl) c c'"
  using assms with_lock_settled [OF assms(1,2) finalize_retires, of "al_id rl" now]
  by (auto simp: finalize_accepted_def inner_finalize_accepted_def ensure_open_def drop_lease_def
      split: prod.splits)

lemma retain_settled:
  assumes "controller_inv c" and "\<not> ci_poisoned c" and "\<not> al_closed rl"
    and "commit_rate_and_retain_concurrency rl now c = (r, c')"
  shows "rate_settled (al_id rl) c c'"
  using assms with_lock_settled [OF assms(1,2) retain_dispatched_retires, of "al_id rl" now]
  by (auto simp: commit_rate_and_retain_concurrency_def inner_retain_dispatched_def ensure_open_def
      drop_lease_def split: prod.splits)

lemma release_settled:
  assumes inv: "controller_inv c" and np: "\<not> ci_poisoned c" and op: "\<not> al_closed rl"
    and run: "lease_release rl now c = (r, c')"
  shows "rate_settled (al_id rl) c c'"
proof (cases "now < last_now (ci_state c)")
  case True
  then have "lease_close rl now c = (Inl (error ClockRegressed), rl\<lparr>al_closed := False\<rparr>, c)"
    using np op by (simp add: lease_close_def ensure_open_def close_lease_def with_lock_def bind_update_def
        observe_and_expire_regressed)
  with run have "c' = drop_lease (rl\<lparr>al_closed := False\<rparr>) c" by (simp add: lease_release_def)
  with drop_settled [OF inv np, of "rl\<lparr>al_closed := False\<rparr>"] show ?thesis by simp
next
  case False
  let ?f = "\<lambda>st. case remove_lease (al_id rl) st of
      (removed, st') \<Rightarrow> (if removed then Inr () else Inl (error LeaseExpired), st')"
  obtain s1 where s1: "observe_and_expire now (ci_state c) = (Inr (), s1)"
    using observe_and_expire_effect [OF controller_inv_state(1) [OF inv], of now] False by (metis not_less)
  obtain b s2 where s2: "remove_lease (al_id rl) s1 = (b, s2)" by fastforce
  have close: "lease_close rl now c = (if b then Inr () else Inl (error LeaseExpired), rl\<lparr>al_closed := True\<rparr>, c\<lparr>ci_state := s2\<rparr>)"
    using np op s1 s2 by (auto simp: lease_close_def ensure_open_def close_lease_def with_lock_def bind_update_def)
  have c': "c' = c\<lparr>ci_state := s2\<rparr>" using run close by (simp add: lease_release_def drop_lease_def)
  have st: "state_inv (ci_policies c) (ci_state c)" using inv by (simp add: controller_inv_def)
  note o = keeps_retiredD [OF observe_retired st s1, of "al_id rl"]
  have "?f s1 = (if b then Inr () else Inl (error LeaseExpired), s2)" using s2 by simp
  from retiresD [OF remove_retires conjunct1 [OF o] this] o c' show ?thesis by (simp add: rate_settled_def)
qed

definition record_settled :: "ReservationId \<Rightarrow> BudgetBook \<Rightarrow> BudgetBook \<Rightarrow> bool" where
  "record_settled rid b b' \<longleftrightarrow>
     bk_poisoned b' = bk_poisoned b \<and> dom (map_of (reservations (bk_state b'))) = dom (map_of (reservations (bk_state b)))
     \<and> closed_record rid (bk_state b')"

lemma transition_settled:
  assumes inv: "budget_inv b" and np: "\<not> bk_poisoned b" and t: "t \<noteq> Reserved"
    and run: "transition rid t b = (r, b')"
  shows "record_settled rid b b' \<and> budget_inv b'"
proof -
  have ok: "budget_ok (bk_state b)" using inv by (simp add: budget_inv_def)
  obtain st' where tr: "transition_record rid t (bk_state b) = (r, st')" and b': "b' = b\<lparr>bk_state := st'\<rparr>"
    using run np by (auto simp: transition_def with_book_def split: prod.splits)
  have id: "rq_id (rec_request x) = rid" if "map_of (reservations (bk_state b)) rid = Some x" for x
    using budget_okD(4) [OF ok that] by (simp add: record_ok_def)
  from ok t tr have "dom (map_of (reservations st')) = dom (map_of (reservations (bk_state b))) \<and> closed_record rid st'"
  proof (cases rule: transition_record_cases)
    case (4 x ps)
    with id [of x] t show ?thesis
      by (auto simp: closed_record_def restate_def map_of_map_values dom_def)
  qed (use t in \<open>auto simp: closed_record_def\<close>)
  moreover have "budget_inv b'" using transition_record_ok [OF ok t tr] inv b' by (simp add: budget_inv_def)
  ultimately show ?thesis using b' by (simp add: record_settled_def)
qed

definition lease_settled ::
  "RoutingAdmissionLease \<Rightarrow> RoutingAdmissionCoordinator \<Rightarrow> RoutingAdmissionCoordinator \<Rightarrow> bool" where
  "lease_settled l s s' \<longleftrightarrow>
     rate_settled (rate_id l) (rac_rate s) (rac_rate s')
     \<and> record_settled (ral_reservation_id l) (rac_budget s) (rac_budget s')"

definition unpoisoned :: "RoutingAdmissionCoordinator \<Rightarrow> bool" where
  "unpoisoned s \<longleftrightarrow> \<not> ci_poisoned (rac_rate s) \<and> \<not> bk_poisoned (rac_budget s)"

text \<open>Every way to consume an open lease settles both halves of it.\<close>

lemma consumed_settled:
  assumes own: "lease_owned s l" and op: "\<not> ral_closed l" and np: "unpoisoned s"
    and c: "controller_inv (rac_rate s)" and b: "budget_inv (rac_budget s)"
  shows "lease_settled l s (drop_routing_lease l s)"
    and "lease_settled l s (snd (routing_finalize_accepted l t s))"
    and "lease_settled l s (snd (commit_dispatch_unknown l now s))"
    and "lease_settled l s (snd (routing_release l now s))"
proof -
  obtain rl where rl: "ral_rate l = Some rl" "\<not> al_closed rl" "\<not> ral_budget_finalized l" "\<not> ral_budget_retained l"
    using own op by (auto simp: lease_owned_def)
  let ?rid = "ral_reservation_id l" and ?c = "rac_rate s" and ?b = "rac_budget s"
  have np: "\<not> ci_poisoned ?c" "\<not> bk_poisoned ?b" using np by (simp_all add: unpoisoned_def)
  have id: "rate_id l = al_id rl" using rl(1) by (simp add: rate_id_def)
  have com: "record_settled ?rid ?b b' \<and> budget_inv b'" if "book_commit ?rid ?b = (q, b')" for q b'
    using transition_settled [OF b np(2)] that unfolding book_commit_def by blast
  have rel: "record_settled ?rid ?b b' \<and> budget_inv b'" if "book_release ?rid ?b = (q, b')" for q b'
    using transition_settled [OF b np(2)] that unfolding book_release_def by blast
  show "lease_settled l s (drop_routing_lease l s)"
    using rel [of "fst (book_release ?rid ?b)"] drop_settled [OF c np(1) rl(2)] rl id
    by (simp add: drop_routing_lease_def lease_settled_def)
  show "lease_settled l s (snd (routing_finalize_accepted l t s))"
  proof -
    obtain q b' where q: "book_commit ?rid ?b = (q, b')" by fastforce
    obtain p c' where p: "finalize_accepted rl (if isl q then None else t) ?c = (p, c')" by fastforce
    show ?thesis
      using routing_finalize_eq [OF op rl(1) q p] com [OF q] finalize_settled [OF c np(1) rl(2) p] id
      by (simp add: lease_settled_def)
  qed
  show "lease_settled l s (snd (commit_dispatch_unknown l now s))"
  proof -
    obtain q b' where q: "book_commit ?rid ?b = (q, b')" by fastforce
    obtain p c' where p: "commit_rate_and_retain_concurrency rl now ?c = (p, c')" by fastforce
    have "snd (commit_dispatch_unknown l now s) = s\<lparr>rac_rate := c', rac_budget := b'\<rparr>"
      using op rl q p
      by (cases q) (auto simp: commit_dispatch_unknown_def consuming_def bind_update_def lift_result_def
          lease_ensure_open_def commit_budget_def on_budget_def commit_rate_and_retain_def on_rate_def
          drop_routing_lease_def Let_def)
    with com [OF q] retain_settled [OF c np(1) rl(2) p] id show ?thesis by (simp add: lease_settled_def)
  qed
  show "lease_settled l s (snd (routing_release l now s))"
  proof -
    obtain q b' where q: "book_release ?rid ?b = (q, b')" by fastforce
    show ?thesis
    proof (cases q)
      case (Inr rc)
      obtain p c' where p: "lease_release rl now ?c = (p, c')" by fastforce
      have "snd (routing_release l now s) = s\<lparr>rac_rate := c', rac_budget := b'\<rparr>"
        using op rl q p Inr
        by (cases p) (auto simp: routing_release_def release_both_def consuming_def bind_update_def lift_result_def
            lease_ensure_open_def on_budget_def on_rate_def drop_routing_lease_def Let_def)
      with rel [OF q] release_settled [OF c np(1) rl(2) p] id show ?thesis by (simp add: lease_settled_def)
    next
      case (Inl e)
      obtain q2 b2 where q2: "book_release ?rid b' = (q2, b2)" by fastforce
      have "snd (routing_release l now s) = s\<lparr>rac_rate := drop_lease rl ?c, rac_budget := b2\<rparr>"
        using op rl q q2 Inl
        by (auto simp: routing_release_def release_both_def consuming_def bind_update_def lift_result_def
            lease_ensure_open_def on_budget_def on_rate_def drop_routing_lease_def Let_def)
      moreover have "record_settled ?rid b' b2"
        using transition_settled [OF conjunct2 [OF rel [OF q]]] rel [OF q] np(2) q2
        unfolding book_release_def record_settled_def by blast
      ultimately show ?thesis
        using rel [OF q] drop_settled [OF c np(1) rl(2)] id
        by (auto simp: lease_settled_def record_settled_def)
    qed
  qed
qed

section \<open>An owner\<close>

text \<open>
  The calls an owner makes that takes leases and consumes them. \<open>settled_but\<close> is what the stores hold of
  them, from the stores \<open>s0\<close> it started with: every unsettled rate lease and reservation was there before,
  unchanged, or belongs to an open lease in its hands.
\<close>

fun own_call :: "routing_call \<Rightarrow> bool" where
  "own_call (RoutingCommit _ _) = False"
| "own_call (OtherRate _) = False"
| "own_call (OtherBudget _) = False"
| "own_call _ = True"

definition rate_covered ::
  "RoutingAdmissionLease list \<Rightarrow> ControllerState \<Rightarrow> ControllerState \<Rightarrow> bool" where
  "rate_covered K st0 st \<longleftrightarrow>
     (\<forall>i a. map_of (leases st) i = Some a \<and> \<not> l_rate_committed a \<longrightarrow>
        map_of (leases st0) i = Some a \<or> i \<in> rate_id ` set (open_leases K))"

definition budget_covered ::
  "RoutingAdmissionLease list \<Rightarrow> BudgetState \<Rightarrow> BudgetState \<Rightarrow> bool" where
  "budget_covered K st0 st \<longleftrightarrow>
     (\<forall>rid r. map_of (reservations st) rid = Some r \<and> rec_state r = Reserved \<longrightarrow>
        map_of (reservations st0) rid = Some r \<or> rid \<in> ral_reservation_id ` set (open_leases K))"

definition tracked :: "RoutingAdmissionCoordinator \<Rightarrow> routing_world \<Rightarrow> bool" where
  "tracked s0 w \<longleftrightarrow>
     routing_inv w \<and> unpoisoned (rw_stores w)
     \<and> leases_kept {} (ci_state (rac_rate s0)) (ci_state (rac_rate (rw_stores w)))
     \<and> records_kept {} (bk_state (rac_budget s0)) (bk_state (rac_budget (rw_stores w)))
     \<and> (\<forall>l \<in> set (open_leases (rw_leases w)). next_identity (ci_state (rac_rate s0)) < rate_id l
          \<and> map_of (reservations (bk_state (rac_budget s0))) (ral_reservation_id l) = None)
     \<and> rate_covered (rw_leases w) (ci_state (rac_rate s0)) (ci_state (rac_rate (rw_stores w)))
     \<and> budget_covered (rw_leases w) (bk_state (rac_budget s0)) (bk_state (rac_budget (rw_stores w)))"

lemma tracked_start:
  assumes "routing_inv \<lparr>rw_stores = s, rw_leases = []\<rparr>" and "unpoisoned s"
  shows "tracked s \<lparr>rw_stores = s, rw_leases = []\<rparr>"
  using assms by (simp add: tracked_def rate_covered_def budget_covered_def)

lemma served_kept:
  assumes "serves I R s s'" and "controller_inv (rac_rate s)" and "budget_inv (rac_budget s)"
  shows "leases_kept I (ci_state (rac_rate s)) (ci_state (rac_rate s'))"
    and "records_kept R (bk_state (rac_budget s)) (bk_state (rac_budget s'))"
  using assms controller_run_kept budget_run_kept unfolding serves_def by blast+

lemma leases_kept_fresh:
  assumes "leases_kept {} st0 st" and "leases_kept {i} st st'" and "next_identity st0 < i"
  shows "leases_kept {} st0 st'"
proof -
  have "leases_kept {i} st0 st'" using assms(1,2) leases_kept_mono leases_kept_trans by blast
  moreover have "j \<noteq> i" if "j \<le> next_identity st0" for j using that assms(3) by auto
  ultimately show ?thesis unfolding leases_kept_def by blast
qed

lemma records_kept_absent:
  "records_kept {} st0 st \<Longrightarrow> map_of (reservations st) rid = None \<Longrightarrow> map_of (reservations st0) rid = None"
  unfolding records_kept_def by (metis empty_iff not_Some_eq)

lemma records_kept_fresh:
  assumes "records_kept {} st0 st" and "records_kept {rid} st st'" and "map_of (reservations st0) rid = None"
  shows "records_kept {} st0 st'"
proof -
  have "records_kept {rid} st0 st'" using assms(1,2) records_kept_mono records_kept_trans by blast
  moreover have "k \<noteq> rid" if "map_of (reservations st0) k = Some r" for k r using that assms(3) by auto
  ultimately show ?thesis unfolding records_kept_def by blast
qed

text \<open>Settling one lease leaves the others covered.\<close>

lemma rate_covered_settled:
  assumes inv: "controller_inv c'" and cov: "rate_covered K st0 (ci_state c)"
    and kept: "leases_kept {i} (ci_state c) (ci_state c')" and fin: "rate_settled i c c'"
    and sub: "\<And>j. j \<in> rate_id ` set (open_leases K) \<Longrightarrow> j \<noteq> i \<Longrightarrow> j \<in> rate_id ` set (open_leases K')"
  shows "rate_covered K' st0 (ci_state c')"
  unfolding rate_covered_def
proof (intro allI impI, elim conjE)
  fix j a
  assume a: "map_of (leases (ci_state c')) j = Some a" "\<not> l_rate_committed a"
  then have ji: "j \<noteq> i" using fin by (auto simp: rate_settled_def retired_def)
  have "j \<le> next_identity (ci_state c)"
    using ledger_leaseD(5) [OF controller_inv_state(1) [OF inv] a(1)] fin by (simp add: rate_settled_def)
  with kept ji a(1) have "map_of (leases (ci_state c)) j = Some a" by (auto simp: leases_kept_def)
  with cov a(2) ji sub show "map_of (leases st0) j = Some a \<or> j \<in> rate_id ` set (open_leases K')"
    unfolding rate_covered_def by blast
qed

lemma budget_covered_settled:
  assumes cov: "budget_covered K st0 (bk_state b)"
    and kept: "records_kept {rid} (bk_state b) (bk_state b')" and fin: "record_settled rid b b'"
    and sub: "\<And>k. k \<in> ral_reservation_id ` set (open_leases K) \<Longrightarrow> k \<noteq> rid \<Longrightarrow>
      k \<in> ral_reservation_id ` set (open_leases K')"
  shows "budget_covered K' st0 (bk_state b')"
  unfolding budget_covered_def
proof (intro allI impI, elim conjE)
  fix k r
  assume r: "map_of (reservations (bk_state b')) k = Some r" "rec_state r = Reserved"
  then have k: "k \<noteq> rid" using fin by (auto simp: record_settled_def closed_record_def)
  obtain x where x: "map_of (reservations (bk_state b)) k = Some x"
    using fin r(1) unfolding record_settled_def by blast
  have "map_of (reservations (bk_state b')) k = Some x
      \<or> map_of (reservations (bk_state b')) k = Some (x\<lparr>rec_state := Expired\<rparr>)"
    using kept k x unfolding records_kept_def by blast
  with r have "x = r" by auto
  with cov x r(2) k sub show "map_of (reservations st0) k = Some r
      \<or> k \<in> ral_reservation_id ` set (open_leases K')"
    unfolding budget_covered_def by blast
qed

lemma tracked_consume:
  assumes tr: "tracked s0 w" and i: "i < length (rw_leases w)"
    and sv: "\<And>l s. serves (own_leases l) {ral_reservation_id l} s (f l s)"
    and closed: "\<And>l s. lease_owned s l \<Longrightarrow> ral_closed l \<Longrightarrow> f l s = s"
    and fin: "\<And>l s. lease_owned s l \<Longrightarrow> \<not> ral_closed l \<Longrightarrow> unpoisoned s \<Longrightarrow> controller_inv (rac_rate s) \<Longrightarrow>
      budget_inv (rac_budget s) \<Longrightarrow> lease_settled l s (f l s)"
  shows "tracked s0 (consume i f w)"
proof -
  let ?l = "rw_leases w ! i" and ?K' = "take i (rw_leases w) @ drop (Suc i) (rw_leases w)"
  let ?s = "rw_stores w" and ?s' = "f (rw_leases w ! i) (rw_stores w)"
  have inv: "routing_inv w" and np: "unpoisoned ?s" using tr by (simp_all add: tracked_def)
  have stores: "controller_inv (rac_rate ?s)" "budget_inv (rac_budget ?s)" "lease_owned ?s ?l"
    using inv i by (simp_all add: routing_inv_def)
  have ls: "rw_leases w = take i (rw_leases w) @ ?l # drop (Suc i) (rw_leases w)"
    using i by (rule id_take_nth_drop)
  have opens: "set (open_leases (rw_leases w)) =
      (if ral_closed ?l then set (open_leases ?K') else insert ?l (set (open_leases ?K')))"
    by (subst ls) auto
  have inv': "routing_inv (consume i f w)" by (rule consume_inv [OF inv i sv closed])
  show ?thesis
  proof (cases "ral_closed ?l")
    case True
    with tr inv' opens closed [OF stores(3)] show ?thesis
      by (simp add: tracked_def consume_def rate_covered_def budget_covered_def del: open_leases_simps)
  next
    case False
    note res = fin [OF stores(3) False np stores(1,2)]
    have own: "own_leases ?l = {rate_id ?l}" by (rule own_leases_open [OF stores(3) False])
    note kept = served_kept [OF sv [of ?l ?s] stores(1,2), unfolded own]
    have fresh: "next_identity (ci_state (rac_rate s0)) < rate_id ?l"
      "map_of (reservations (bk_state (rac_budget s0))) (ral_reservation_id ?l) = None"
      using tr opens False by (auto simp: tracked_def simp del: open_leases_simps)
    have inv1: "controller_inv (rac_rate ?s')" using serves_inv [OF sv stores(1,2)] by blast
    have cov: "rate_covered (rw_leases w) (ci_state (rac_rate s0)) (ci_state (rac_rate ?s))"
      "budget_covered (rw_leases w) (bk_state (rac_budget s0)) (bk_state (rac_budget ?s))"
      using tr by (simp_all add: tracked_def)
    have both: "rate_settled (rate_id ?l) (rac_rate ?s) (rac_rate ?s')"
      "record_settled (ral_reservation_id ?l) (rac_budget ?s) (rac_budget ?s')"
      using res by (simp_all add: lease_settled_def)
    have rest: "x \<in> g ` set (open_leases ?K')"
      if "x \<in> g ` set (open_leases (rw_leases w))" "x \<noteq> g ?l" for x and g :: "RoutingAdmissionLease \<Rightarrow> 'b"
      using that opens False by (auto simp del: open_leases_simps)
    have "rate_covered ?K' (ci_state (rac_rate s0)) (ci_state (rac_rate ?s'))"
      by (rule rate_covered_settled [OF inv1 cov(1) kept(1) both(1) rest])
    moreover have "budget_covered ?K' (bk_state (rac_budget s0)) (bk_state (rac_budget ?s'))"
      by (rule budget_covered_settled [OF cov(2) kept(2) both(2) rest])
    moreover have "unpoisoned ?s'"
      using res np by (simp add: unpoisoned_def lease_settled_def rate_settled_def record_settled_def)
    moreover have "leases_kept {} (ci_state (rac_rate s0)) (ci_state (rac_rate ?s'))"
      "records_kept {} (bk_state (rac_budget s0)) (bk_state (rac_budget ?s'))"
      using tr leases_kept_fresh [OF _ kept(1) fresh(1)] records_kept_fresh [OF _ kept(2) fresh(2)]
      by (simp_all add: tracked_def)
    ultimately show ?thesis
      using inv' tr opens False by (simp add: tracked_def consume_def del: open_leases_simps)
  qed
qed

text \<open>An admission adds at most what the new lease holds.\<close>

lemma expired_reserved:
  assumes "budget_ok st" and "expire_records now st = (x, st')"
    and "map_of (reservations st') rid = Some r" and "rec_state r = Reserved"
  shows "map_of (reservations st) rid = Some r"
  using expire_records_effect [OF assms(1), of now] assms(2-4)
  by (auto simp: restate_def map_of_map_values split: if_splits)

lemma reserve_fresh_adds:
  assumes inv: "budget_inv b" and run: "reserve_fresh request now b = (q, b')"
    and r: "map_of (reservations (bk_state b')) rid = Some r" "rec_state r = Reserved"
  shows "map_of (reservations (bk_state b)) rid = Some r \<or> (\<exists>rc. q = Inr rc \<and> rid = rc_id rc)"
proof (cases "bk_poisoned b \<or> map_of (reservations (bk_state b)) (rq_id request) \<noteq> None")
  case True
  then show ?thesis using run r by (auto simp: reserve_fresh_def with_book_def split: if_splits)
next
  case False
  have ok: "budget_ok (bk_state b)" using inv by (simp add: budget_inv_def)
  obtain n st1 where x: "expire_records now (bk_state b) = (Inr n, st1)"
    using expire_records_effect [OF ok, of now] by blast
  have "insert_reservation request now st1 = (q, bk_state b')"
    using run False x by (auto simp: reserve_fresh_def with_book_def bind_update_def split: prod.splits)
  with expire_records_ok [OF ok x] show ?thesis
  proof (cases rule: insert_reservation_cases)
    case (1 e)
    with expired_reserved [OF ok x] r show ?thesis by simp
  next
    case (2 pids soft ps rec)
    show ?thesis
    proof (cases "rid = rq_id request")
      case True
      with 2 show ?thesis by (simp add: receipt_def)
    next
      case False
      with 2(9) r expired_reserved [OF ok x] show ?thesis by simp
    qed
  qed
qed

lemma reserve_fresh_poison: "reserve_fresh request now b = (q, b') \<Longrightarrow> bk_poisoned b' = bk_poisoned b"
  by (auto simp: reserve_fresh_def with_book_def split: if_splits prod.splits)

lemma rolled_lease:
  assumes "ledger_ok P st" and "rolled now st st'" and "map_of (leases st') i = Some a"
  shows "map_of (leases st) i = Some a"
  using observed_lookup [OF assms(1), of st' now i] assms(2,3) by (auto simp: rolled_def split: option.splits if_splits)

lemma observed_adds:
  assumes "controller_inv c" and "only_observed now c c'"
  shows "ci_poisoned c' = ci_poisoned c"
    and "map_of (leases (ci_state c')) i = Some a \<Longrightarrow> map_of (leases (ci_state c)) i = Some a"
  using assms rolled_lease [OF controller_inv_state(1) [OF assms(1)]] by (auto simp: only_observed_def)

lemma try_admit_adds:
  assumes inv: "controller_inv c" and req: "request_ok request" and run: "try_admit request now c = (q, c')"
  shows "ci_poisoned c' = ci_poisoned c"
    and "map_of (leases (ci_state c')) i = Some a \<Longrightarrow>
      map_of (leases (ci_state c)) i = Some a \<or> (\<exists>lease. q = Inr lease \<and> i = al_id lease)"
proof -
  have "ci_poisoned c' = ci_poisoned c
    \<and> (map_of (leases (ci_state c')) i = Some a \<longrightarrow>
      map_of (leases (ci_state c)) i = Some a \<or> (\<exists>lease. q = Inr lease \<and> i = al_id lease))"
  proof (cases q)
    case (Inl e)
    have "only_observed now c c'" using try_admit_refused(1) [OF inv req] run Inl by simp
    from observed_adds [OF inv this] show ?thesis by blast
  next
    case (Inr lease)
    have adm: "try_admit request now c = (Inr lease, c')" using run Inr by simp
    obtain s1 ps where e: "rolled now (ci_state c) s1" "\<not> ci_poisoned c'"
      "reserved_state ps request (al_id lease) (al_expires_at lease) s1 (ci_state c')"
      using try_admit_effect [OF inv req adm] by metis
    have "\<not> ci_poisoned c" using try_admit_prepared [OF inv req adm] by blast
    with e Inr rolled_lease [OF controller_inv_state(1) [OF inv] e(1), of i] show ?thesis
      by (auto simp: reserved_state_def split: if_splits)
  qed
  then show "ci_poisoned c' = ci_poisoned c"
    and "map_of (leases (ci_state c')) i = Some a \<Longrightarrow>
      map_of (leases (ci_state c)) i = Some a \<or> (\<exists>lease. q = Inr lease \<and> i = al_id lease)"
    by blast+
qed

lemma admit_adds:
  assumes c: "controller_inv (rac_rate s)" and b: "budget_inv (rac_budget s)"
    and req: "request_ok (rar_rate request)" and run: "admit request s = (r, s')" and np: "unpoisoned s"
  shows "unpoisoned s'"
    and "map_of (leases (ci_state (rac_rate s'))) i = Some a \<Longrightarrow>
      map_of (leases (ci_state (rac_rate s))) i = Some a \<or> (\<exists>l. r = Inr l \<and> \<not> ral_closed l \<and> i = rate_id l)"
    and "map_of (reservations (bk_state (rac_budget s'))) rid = Some rec \<Longrightarrow> rec_state rec = Reserved \<Longrightarrow>
      map_of (reservations (bk_state (rac_budget s))) rid = Some rec
      \<or> (\<exists>l. r = Inr l \<and> \<not> ral_closed l \<and> rid = ral_reservation_id l)"
proof -
  from c req run have "unpoisoned s'
    \<and> (map_of (leases (ci_state (rac_rate s'))) i = Some a \<longrightarrow>
      map_of (leases (ci_state (rac_rate s))) i = Some a \<or> (\<exists>l. r = Inr l \<and> \<not> ral_closed l \<and> i = rate_id l))
    \<and> (map_of (reservations (bk_state (rac_budget s'))) rid = Some rec \<and> rec_state rec = Reserved \<longrightarrow>
      map_of (reservations (bk_state (rac_budget s))) rid = Some rec
      \<or> (\<exists>l. r = Inr l \<and> \<not> ral_closed l \<and> rid = ral_reservation_id l))"
  proof (cases rule: admit_cases)
    case (mismatched e)
    with np show ?thesis by simp
  next
    case (rate_refused e c')
    with try_admit_adds [OF c req rate_refused(2)] np show ?thesis by (auto simp: unpoisoned_def)
  next
    case (budget_refused e lease c1 c2 b')
    with observed_adds [OF c budget_refused(4)] reserve_fresh_adds [OF b budget_refused(3)]
      reserve_fresh_poison [OF budget_refused(3)] np show ?thesis by (auto simp: unpoisoned_def)
  next
    case (admitted rc lease c1 b')
    with try_admit_adds [OF c req admitted(2)] reserve_fresh_adds [OF b admitted(3)]
      reserve_fresh_poison [OF admitted(3)] np show ?thesis by (auto simp: unpoisoned_def rate_id_def)
  qed
  then show "unpoisoned s'"
    and "map_of (leases (ci_state (rac_rate s'))) i = Some a \<Longrightarrow>
      map_of (leases (ci_state (rac_rate s))) i = Some a \<or> (\<exists>l. r = Inr l \<and> \<not> ral_closed l \<and> i = rate_id l)"
    and "map_of (reservations (bk_state (rac_budget s'))) rid = Some rec \<Longrightarrow> rec_state rec = Reserved \<Longrightarrow>
      map_of (reservations (bk_state (rac_budget s))) rid = Some rec
      \<or> (\<exists>l. r = Inr l \<and> \<not> ral_closed l \<and> rid = ral_reservation_id l)"
    by blast+
qed

lemma admit_fresh:
  assumes c: "controller_inv (rac_rate s)" and b: "budget_inv (rac_budget s)"
    and req: "request_ok (rar_rate request)" and run: "admit request s = (Inr l, s')"
  shows "\<not> ral_closed l" and "next_identity (ci_state (rac_rate s)) < rate_id l"
    and "map_of (reservations (bk_state (rac_budget s))) (ral_reservation_id l) = None"
proof -
  from c req run have "\<not> ral_closed l \<and> next_identity (ci_state (rac_rate s)) < rate_id l
    \<and> map_of (reservations (bk_state (rac_budget s))) (ral_reservation_id l) = None"
  proof (cases rule: admit_cases)
    case (admitted rc lease c1 b1)
    have "next_identity (ci_state (rac_rate s)) < al_id lease"
      using try_admit_effect [OF c req admitted(2)] by metis
    moreover have "map_of (reservations (bk_state (rac_budget s))) (rc_id rc) = None"
      using reserve_fresh_granted [OF b admitted(3)] by metis
    ultimately show ?thesis using admitted(4) by (simp add: rate_id_def)
  qed auto
  then show "\<not> ral_closed l" and "next_identity (ci_state (rac_rate s)) < rate_id l"
    and "map_of (reservations (bk_state (rac_budget s))) (ral_reservation_id l) = None" by blast+
qed

lemma admit_kept:
  assumes c: "controller_inv (rac_rate s)" and b: "budget_inv (rac_budget s)"
    and req: "request_ok (rar_rate request)" and run: "admit request s = (r, s')"
  shows "leases_kept {} (ci_state (rac_rate s)) (ci_state (rac_rate s'))"
    and "records_kept {} (bk_state (rac_budget s)) (bk_state (rac_budget s'))"
proof -
  let ?I = "{i. next_identity (ci_state (rac_rate s)) < i}"
  have sv: "serves ?I {} s s'" using serves_admit [OF req run, of ?I] try_admit_effect [OF c req] by blast
  show "records_kept {} (bk_state (rac_budget s)) (bk_state (rac_budget s'))" by (rule served_kept(2) [OF sv c b])
  show "leases_kept {} (ci_state (rac_rate s)) (ci_state (rac_rate s'))"
    using served_kept(1) [OF sv c b] by (auto simp: leases_kept_def not_less)
qed

lemma tracked_admit:
  assumes tr: "tracked s0 w" and req: "request_ok (rar_rate request)"
  shows "tracked s0 (routing_call_effect (RoutingAdmit request) w)"
proof -
  let ?s = "rw_stores w" and ?K = "rw_leases w" and ?w = "routing_call_effect (RoutingAdmit request) w"
  obtain r s' where run: "admit request ?s = (r, s')" by fastforce
  have inv: "routing_inv w" and np: "unpoisoned ?s" using tr by (simp_all add: tracked_def)
  have cb: "controller_inv (rac_rate ?s)" "budget_inv (rac_budget ?s)" using inv by (simp_all add: routing_inv_def)
  note adds = admit_adds [OF cb req run np] and kept = admit_kept [OF cb req run]
  have kept': "leases_kept {} (ci_state (rac_rate s0)) (ci_state (rac_rate s'))"
    "records_kept {} (bk_state (rac_budget s0)) (bk_state (rac_budget s'))"
    using tr leases_kept_trans [OF _ kept(1)] records_kept_trans [OF _ kept(2)] by (auto simp: tracked_def)
  have w: "rw_stores ?w = s'" "rw_leases ?w = (case r of Inr l \<Rightarrow> l # ?K | Inl _ \<Rightarrow> ?K)"
    using run by (auto split: sum.splits)
  have "rate_covered (rw_leases ?w) (ci_state (rac_rate s0)) (ci_state (rac_rate s'))"
    using tr adds(2) unfolding rate_covered_def tracked_def w(2) by (fastforce split: sum.splits)
  moreover have "budget_covered (rw_leases ?w) (bk_state (rac_budget s0)) (bk_state (rac_budget s'))"
    using tr adds(3) unfolding budget_covered_def tracked_def w(2) by (fastforce split: sum.splits)
  moreover have "next_identity (ci_state (rac_rate s0)) < rate_id l
      \<and> map_of (reservations (bk_state (rac_budget s0))) (ral_reservation_id l) = None"
    if "l \<in> set (open_leases (rw_leases ?w))" for l
  proof (cases "l \<in> set (open_leases ?K)")
    case True
    then show ?thesis using tr unfolding tracked_def by blast
  next
    case False
    then have "r = Inr l" using that unfolding w(2) by (auto split: sum.splits if_splits)
    with admit_fresh [OF cb req, of l s'] run
    have "next_identity (ci_state (rac_rate ?s)) < rate_id l"
      "map_of (reservations (bk_state (rac_budget ?s))) (ral_reservation_id l) = None" by auto
    moreover have "next_identity (ci_state (rac_rate s0)) \<le> next_identity (ci_state (rac_rate ?s))"
      using tr by (simp add: tracked_def leases_kept_def)
    moreover have "records_kept {} (bk_state (rac_budget s0)) (bk_state (rac_budget ?s))"
      using tr by (simp add: tracked_def)
    ultimately show ?thesis using records_kept_absent by fastforce
  qed
  ultimately show ?thesis
    using admit_inv [OF inv req] adds(1) kept' unfolding tracked_def w(1) by blast
qed

text \<open>The calls of an owner keep it tracked.\<close>

lemma tracked_step:
  assumes tr: "tracked s0 w" and step: "routing_step w l w'" and own: "own_call l"
  shows "tracked s0 w'"
proof -
  have ok: "routing_call_ok l w" and w': "w' = routing_call_effect l w" using step by (auto simp: routing_step_iff)
  show ?thesis
    unfolding w'
    by (cases l) (use ok own in \<open>auto simp: tracked_admit [OF tr] routing_cancel_def serves_drop closed_inert
        serves_finalize serves_unknown serves_release consumed_settled simp del: routing_call_effect.simps(1,2)
        intro!: tracked_consume [OF tr]\<close>)
qed

lemma tracked_run:
  assumes "run routing_step w ls w'" and "\<forall>l \<in> set ls. own_call l" and "tracked s0 w"
  shows "tracked s0 w'"
  using assms by (induction rule: run.induct) (auto intro: tracked_step)

end
