(* ===== verification/Runtime_Leases.thy ===== *)
theory Runtime_Leases
  imports Runtime_Safety Probe_Registry Routing_Settlement
begin

text \<open>
  What an execution leaves in the stores. Seen from the coupled admission, an execution is a sequence
  of the calls of an owner that takes leases and consumes every one of them, with no call of anyone
  else among them; seen from a registered circuit, it is a sequence of circuit calls.
\<close>

section \<open>Admission leases\<close>

definition lease_run ::
  "RoutingAdmissionCoordinator \<Rightarrow> RoutingAdmissionLease list \<Rightarrow>
     RoutingAdmissionCoordinator \<Rightarrow> RoutingAdmissionLease list \<Rightarrow> bool" where
  "lease_run s L s' L' \<longleftrightarrow>
     (\<exists>ls. run routing_step \<lparr>rw_stores = s, rw_leases = L\<rparr> ls \<lparr>rw_stores = s', rw_leases = L'\<rparr>
        \<and> (\<forall>l \<in> set ls. own_call l))"

lemma lease_run_refl [simp]: "lease_run s L s L"
  unfolding lease_run_def by (intro exI [of _ "[]"]) simp

lemma lease_run_trans [trans]: "lease_run s L s1 L1 \<Longrightarrow> lease_run s1 L1 s2 L2 \<Longrightarrow> lease_run s L s2 L2"
  unfolding lease_run_def by (metis run_append set_append UnE)

lemma lease_run_step:
  assumes "routing_call_ok l \<lparr>rw_stores = s, rw_leases = L\<rparr>" and "own_call l"
    and "routing_call_effect l \<lparr>rw_stores = s, rw_leases = L\<rparr> = \<lparr>rw_stores = s', rw_leases = L'\<rparr>"
  shows "lease_run s L s' L'"
proof -
  have "routing_step \<lparr>rw_stores = s, rw_leases = L\<rparr> l \<lparr>rw_stores = s', rw_leases = L'\<rparr>"
    using routing_call [OF assms(1)] assms(3) by simp
  then have "run routing_step \<lparr>rw_stores = s, rw_leases = L\<rparr> [l] \<lparr>rw_stores = s', rw_leases = L'\<rparr>"
    by (metis run_nil run_cons)
  then show ?thesis unfolding lease_run_def using assms(2) by (intro exI [of _ "[l]"]) simp
qed

lemma lease_run_admit:
  assumes "admit request s = (r, s')" and "request_ok (rar_rate request)"
  shows "lease_run s L s' (case r of Inr lease \<Rightarrow> lease # L | Inl _ \<Rightarrow> L)"
  using assms by (intro lease_run_step [of "RoutingAdmit request"]) (auto split: sum.splits)

lemma lease_run_consume:
  "lease_run s (lease # L) (snd (routing_finalize_accepted lease now s)) L"
  "lease_run s (lease # L) (snd (commit_dispatch_unknown lease t s)) L"
  "lease_run s (lease # L) (snd (routing_release lease t s)) L"
  "lease_run s (lease # L) (drop_routing_lease lease s) L"
  by (rule lease_run_step [of "RoutingFinalize 0 now"]; simp add: consume_def)
    (rule lease_run_step [of "RoutingDispatchUnknown 0 t"] lease_run_step [of "RoutingRelease 0 t"]
       lease_run_step [of "RoutingDrop 0"]; simp add: consume_def)+

section \<open>Worlds\<close>

text \<open>
  A call of the runtime, with the admission leases the caller holds before and after it: a sequence of
  admission steps on the stores and of circuit calls on each registration.
\<close>

definition world_run ::
  "runtime_world \<Rightarrow> RoutingAdmissionLease list \<Rightarrow> runtime_world \<Rightarrow> RoutingAdmissionLease list \<Rightarrow> bool" where
  "world_run w L w' L' \<longleftrightarrow>
     lease_run (wld_stores w) L (wld_stores w') L' \<and> probe_run (wld_probes w) (wld_probes w')"

lemma world_run_refl [simp]: "world_run w L w L"
  by (simp add: world_run_def)

lemma world_run_trans [trans]: "world_run w L w1 L1 \<Longrightarrow> world_run w1 L1 w2 L2 \<Longrightarrow> world_run w L w2 L2"
  unfolding world_run_def by (blast intro: lease_run_trans probe_run_trans)

lemma world_run_dispatch [simp]: "world_run (dispatch identity w) L w' L' \<longleftrightarrow> world_run w L w' L'"
  by (simp add: world_run_def dispatch_def)

lemma world_run_probes:
  "probe_run (wld_probes w) p \<Longrightarrow> world_run w L (w\<lparr>wld_probes := p\<rparr>) L"
  by (simp add: world_run_def)

lemma world_run_stores:
  "lease_run (wld_stores w) L s L' \<Longrightarrow> world_run w L (w\<lparr>wld_stores := s\<rparr>) L'"
  by (simp add: world_run_def)

lemma on_probes_run:
  assumes "on_probes f h w = (r, w')" and "\<And>q p. f (wld_probes w) = (q, p) \<Longrightarrow> \<exists>key. probe_step key (wld_probes w) p"
  shows "world_run w L w' L"
  using assms by (auto simp: on_probes_def split: prod.splits intro!: world_run_probes intro: probe_run_step)

section \<open>Settling\<close>

lemma complete_circuit_probe_run:
  "complete_circuit_probe answers probe outcome w = (r, w') \<Longrightarrow> world_run w L w' L"
  by (auto simp: complete_circuit_probe_def split: option.splits dest: guard_complete_step elim!: on_probes_run)

lemma release_route_run:
  "release_route route now w = (r, w') \<Longrightarrow> world_run w (rt_admission_lease route # L) w' L"
  using lease_run_consume(3) [of "wld_stores w" "rt_admission_lease route" L now]
  by (auto simp: release_route_def on_stores_def split: prod.splits intro!: world_run_stores)

lemma drop_route_run: "world_run w (rt_admission_lease route # L) (drop_route route w) L"
  by (simp add: drop_route_def world_run_stores lease_run_consume)

lemma finalize_accepted_admission_run:
  "finalize_accepted_admission answers route identity w = (r, w') \<Longrightarrow>
     world_run w (rt_admission_lease route # L) w' L"
  using lease_run_consume(1) [of "wld_stores w" "rt_admission_lease route" L "an_final_clock answers"]
  by (auto simp: finalize_accepted_admission_def finalize_accepted_route_def on_stores_def
      split: prod.splits intro!: world_run_stores)

lemma finalize_disposition_run:
  "finalize_disposition answers route identity t acceptance w = (r, e, w') \<Longrightarrow>
     world_run w (rt_admission_lease route # L) w' L"
  by (cases acceptance)
    (auto simp: finalize_disposition_def Let_def split: prod.splits
      dest: release_route_run finalize_accepted_admission_run)

lemma release_pre_dispatch_run:
  "release_pre_dispatch answers route probe original w = (r, w') \<Longrightarrow>
     world_run w (rt_admission_lease route # L) w' L"
  using drop_route_run [of w route L]
  by (auto simp: release_pre_dispatch_def split: prod.splits option.splits
      intro: world_run_trans [OF _ complete_circuit_probe_run] dest: release_route_run)

lemma finalize_contradiction_run:
  "finalize_contradiction answers route identity probe w = (r, w') \<Longrightarrow>
     world_run w (rt_admission_lease route # L) w' L"
  by (auto simp: finalize_contradiction_def split: prod.splits
      intro: world_run_trans [OF finalize_accepted_admission_run complete_circuit_probe_run])

lemma finalize_execution_run:
  "finalize_execution answers route identity probe t outcome w = (r, w') \<Longrightarrow>
     world_run w (rt_admission_lease route # L) w' L"
  by (cases outcome)
    (auto simp: finalize_execution_def finalize_success_def finalize_failure_def finalize_interruption_def
      split: prod.splits if_splits
      intro: world_run_trans [OF finalize_accepted_admission_run complete_circuit_probe_run]
        world_run_trans [OF finalize_disposition_run complete_circuit_probe_run]
      dest: finalize_contradiction_run)

section \<open>One attempt\<close>

lemma accept_probe_acquisition_run:
  "accept_probe_acquisition answers key acquisition w = (r, w') \<Longrightarrow> world_run w L w' L"
  by (auto simp: accept_probe_acquisition_def finish_probe_rejection_def Let_def
      split: option.splits if_splits sum.splits prod.splits dest: complete_circuit_probe_run)

lemma acquire_circuit_probe_run:
  assumes "acquire_circuit_probe runtime answers key w = (r, w')"
  shows "world_run w L w' L"
proof -
  obtain q w1 where q: "on_probes (registry_acquire_probe (an_probe answers) key) map_circuit_probe_acquire_error w = (q, w1)"
    by fastforce
  then have "world_run w L w1 L" by (rule on_probes_run) (auto dest: registry_acquire_probe_step)
  moreover from assms q have "w' = w \<or> w' = w1
      \<or> (\<exists>acquisition. accept_probe_acquisition answers key acquisition w1 = (r, w'))"
    by (auto simp: acquire_circuit_probe_def bind_update_def lift_result_def split: sum.splits if_splits)
  ultimately show ?thesis by (auto intro: world_run_trans [OF _ accept_probe_acquisition_run])
qed

lemma prepare_target_and_probe_run:
  "prepare_target_and_probe runtime answers route loaded w = (r, w') \<Longrightarrow> world_run w L w' L"
  by (auto simp: prepare_target_and_probe_def bind_update_def lift_result_def
      split: sum.splits prod.splits dest: acquire_circuit_probe_run)

lemma prepare_route_run:
  assumes "prepare_route runtime answers request_id route attempt loaded w = (r, w')"
  shows "world_run w (rt_admission_lease route # L) w' (case r of Inl _ \<Rightarrow> L | Inr _ \<Rightarrow> rt_admission_lease route # L)"
proof -
  obtain q w1 where q: "prepare_target_and_probe runtime answers route loaded w = (q, w1)" by fastforce
  note run = prepare_target_and_probe_run [OF q, of "rt_admission_lease route # L"]
  have release: "world_run w (rt_admission_lease route # L) w' L"
    if "release_pre_dispatch answers route probe e w1 = (r, w')" for probe e
    by (rule world_run_trans [OF run release_pre_dispatch_run [OF that]])
  have failed: "\<exists>e'. r = Inl e'" if "release_pre_dispatch answers route probe e w1 = (r, w')" for probe e
    using that by (auto simp: release_pre_dispatch_def bind_result_def split: prod.splits sum.splits)
  have "(\<exists>probe e. release_pre_dispatch answers route probe e w1 = (r, w')) \<or> (\<exists>p. r = Inr p) \<and> w' = w1"
    using assms q by (auto simp: prepare_route_def split: sum.splits prod.splits)
  then show ?thesis
  proof
    assume "\<exists>probe e. release_pre_dispatch answers route probe e w1 = (r, w')"
    then show ?thesis using failed release by fastforce
  qed (use run in auto)
qed

lemma validate_prepared_probe_run:
  "validate_prepared_probe answers probe w = (r, probe', w') \<Longrightarrow> world_run w L w' L"
  by (auto simp: validate_prepared_probe_def split: option.splits prod.splits sum.splits CircuitProbeValidation.splits
      intro!: world_run_probes dest: guard_validate_step intro: probe_run_step)

text \<open>Whatever way an attempt ends, it has settled the lease of its route and no other.\<close>

lemma execute_route_run:
  assumes "execute_route runtime answers request_id route attempt loaded w = (r, w')"
  shows "world_run w (rt_admission_lease route # L) w' L"
proof -
  obtain q w1 where q: "prepare_route runtime answers request_id route attempt loaded w = (q, w1)" by fastforce
  note run = prepare_route_run [OF q, of L]
  show ?thesis
  proof (cases q)
    case (Inl e)
    with assms q run show ?thesis by (simp add: execute_route_def)
  next
    case (Inr prepared)
    obtain v probe w2 where v: "validate_prepared_probe answers (pr_probe prepared) w1 = (v, probe, w2)"
      by (metis prod.collapse)
    note valid = validate_prepared_probe_run [OF v, of "rt_admission_lease route # L"]
    from assms q Inr v have
      "(\<exists>probe e. release_pre_dispatch answers route probe e w1 = (r, w'))
       \<or> (\<exists>probe e. release_pre_dispatch answers route probe e w2 = (r, w'))
       \<or> (\<exists>i probe t out. finalize_execution answers route i probe t out (dispatch i w2) = (r, w'))"
      by (auto simp: execute_route_def split: option.splits sum.splits)
    moreover have first: "world_run w (rt_admission_lease route # L) w1 (rt_admission_lease route # L)"
      using run Inr by simp
    ultimately show ?thesis
      using world_run_trans [OF first] world_run_trans [OF world_run_trans [OF first valid]]
      by (auto dest!: release_pre_dispatch_run [where L = L] finalize_execution_run [where L = L])
  qed
qed

lemma abandon_execution_run:
  "world_run w (rt_admission_lease route # L) (abandon_execution answers route probe t w) L"
proof -
  obtain key where "\<forall>guard. probe = Some guard \<longrightarrow>
      probe_step (key guard) (wld_probes w) (guard_drop (an_complete_clock answers) guard (wld_probes w))"
    using guard_drop_step by metis
  then show ?thesis
    by (auto simp: abandon_execution_def Let_def world_run_def lease_run_consume split: option.splits
        intro: probe_run_step)
qed

section \<open>Coordination\<close>

text \<open>\<open>NonZeroU32\<close> units, for every coordination request of a list.\<close>

definition units_ok :: "CoordinationRequest list \<Rightarrow> bool" where
  "units_ok requests \<longleftrightarrow> (\<forall>request \<in> set requests. tp_units (cq_admission request) \<noteq> 0)"

lemma units_ok_simps [simp]:
  "units_ok []" "units_ok (q # qs) \<longleftrightarrow> tp_units (cq_admission q) \<noteq> 0 \<and> units_ok qs"
  by (simp_all add: units_ok_def)

abbreviation taken :: "('e, CoordinatedRoute) result \<Rightarrow> RoutingAdmissionLease list \<Rightarrow> RoutingAdmissionLease list" where
  "taken r L \<equiv> (case r of Inr route \<Rightarrow> rt_admission_lease route # L | Inl _ \<Rightarrow> L)"

lemma engine_admit_run:
  assumes "engine_admit request selected exclusions s = (r, s')" and "tp_units (cq_admission request) \<noteq> 0"
  shows "lease_run s L s' (case r of Inr lease \<Rightarrow> lease # L | Inl _ \<Rightarrow> L)"
proof -
  have "request_ok (rar_rate q)" if "admission_request request selected = Inr q" for q
    using that assms(2)
    by (auto simp: admission_request_def rate_request_def Let_def results AdmissionRequest_new_ok)
  note admits = lease_run_admit [OF _ this, of _ s _ _ L]
  show ?thesis
    using assms(1) by (auto simp: engine_admit_def split: sum.splits prod.splits dest: admits)
qed

lemma engine_coordinate_run:
  assumes "engine_coordinate select request pool s = (r, s')" and "tp_units (cq_admission request) \<noteq> 0"
  shows "lease_run s L s' (taken r L)"
  using assms(1)
proof (cases rule: engine_coordinate_cases)
  case (dropped selected exclusions lease s1 e)
  have "lease_run s L s1 (lease # L)" using engine_admit_run [OF dropped(1) assms(2)] by simp
  from lease_run_trans [OF this lease_run_consume(4)] dropped show ?thesis by simp
qed (auto dest: engine_admit_run [OF _ assms(2), where L = L])

lemma coordinate_pool_run:
  assumes "coordinate_pool env request pool w = (r, w')" and "tp_units (cq_admission request) \<noteq> 0"
  shows "world_run w L w' (taken r L)"
proof -
  obtain q s where q: "coordinate (rrt_coordinator (env_runtime env)) (env_selector env) request pool (wld_stores w) = (q, s)"
    by fastforce
  from q have "lease_run (wld_stores w) L s (taken q L)"
    by (cases rule: coordinate_cases) (auto dest: engine_coordinate_run [OF _ assms(2)])
  with q assms(1) show ?thesis
    by (auto simp: coordinate_pool_def intro!: world_run_stores split: sum.splits)
qed

lemma coordinate_target_run:
  assumes "coordinate_target env request target w = (r, w')" and "tp_units (cq_admission request) \<noteq> 0"
  shows "world_run w L w' (taken r L)"
proof -
  have "(\<exists>e. r = Inl e) \<and> w' = w
    \<or> (\<exists>single. coordinate_pool env request single w = (r, w'))
    \<or> (\<exists>single route w1 e. coordinate_pool env request single w = (Inr route, w1) \<and> r = Inl e
         \<and> w' = drop_route route w1)"
    using assms(1) by (fastforce simp: coordinate_target_def Let_def split: sum.splits prod.splits if_splits)
  then show ?thesis
  proof (elim disjE exE conjE)
    fix single route w1 e
    assume "coordinate_pool env request single w = (Inr route, w1)" "r = Inl e" "w' = drop_route route w1"
    with coordinate_pool_run [of env request single w "Inr route" w1 L] assms(2) show ?thesis
      by (auto intro: world_run_trans [OF _ drop_route_run])
  qed (use coordinate_pool_run assms(2) in auto)
qed

section \<open>The loop\<close>

text \<open>The lease of the route a state carries is held on behalf of its next attempt.\<close>

fun held :: "('e, LoopControl) result \<Rightarrow> RoutingAdmissionLease list \<Rightarrow> RoutingAdmissionLease list" where
  "held (Inr (LoopContinue st)) L = rt_admission_lease (es_route st) # L"
| "held _ L = L"

fun units_left :: "('e, LoopControl) result \<Rightarrow> bool" where
  "units_left (Inr (LoopContinue st)) = units_ok (er_remaining_coordination (es_remainder st))"
| "units_left _ = True"

lemma prepare_retry_run:
  assumes "prepare_retry env directive remainder w = (r, w')" and "units_ok (er_remaining_coordination remainder)"
  shows "world_run w L w' (held r L) \<and> units_left r"
  using assms
proof (induction rule: prepare_retry_walk)
  case (routed directive remainder w attempt request rest route w')
  then have ok: "tp_units (cq_admission request) \<noteq> 0" "units_ok (er_remaining_coordination rest)"
    by (auto simp: take_retry_slot_Some)
  show ?case using coordinate_target_run [OF routed(2) ok(1)] ok(2) by simp
next
  case (failed directive remainder w attempt request rest e w')
  then have "tp_units (cq_admission request) \<noteq> 0" by (auto simp: take_retry_slot_Some)
  from coordinate_target_run [OF failed(2) this] show ?case by simp
next
  case (stopped directive remainder w attempt request rest refusal ctx e w')
  then have "tp_units (cq_admission request) \<noteq> 0" by (auto simp: take_retry_slot_Some)
  from coordinate_target_run [OF stopped(2) this] show ?case by simp
next
  case (again directive remainder w attempt request rest refusal ctx w1 candidate r w')
  then have ok: "tp_units (cq_admission request) \<noteq> 0" "units_ok (er_remaining_coordination rest)"
    by (auto simp: take_retry_slot_Some)
  have "world_run w L w1 L" using coordinate_target_run [OF again(2) ok(1), of L] by simp
  with again.IH [OF ok(2)] show ?case by (auto intro: world_run_trans)
qed auto

lemma held_map_err [simp]: "held (map_err h r) L = held r L" "units_left (map_err h r) = units_left r"
  by (cases r; cases "projr r"; simp)+

lemma advance_failed_run:
  assumes "advance_failed env failed remainder w = (r, w')" and "units_ok (er_remaining_coordination remainder)"
  shows "world_run w L w' (held r L) \<and> units_left r"
proof -
  let ?rem = "remainder\<lparr>er_accepted := retain_accepted_identity (er_accepted remainder) (fa_accepted failed)\<rparr>"
  obtain q where q: "advance_failed_inner env failed ?rem w = (q, w')"
      "r = map_err (prepend_accepted (er_accepted ?rem)) q"
    using assms(1) by (auto simp: advance_failed_def Let_def split: prod.splits)
  then have "w' = w \<and> (\<forall>st. q \<noteq> Inr (LoopContinue st)) \<or> (\<exists>d. prepare_retry env d ?rem w = (q, w'))"
    by (auto simp: advance_failed_inner_def split: sum.splits option.splits)
  then have "world_run w L w' (held q L) \<and> units_left q"
  proof
    assume "w' = w \<and> (\<forall>st. q \<noteq> Inr (LoopContinue st))"
    then show ?thesis by (cases q; cases "projr q") auto
  qed (use assms(2) prepare_retry_run in fastforce)
  with q(2) show ?thesis by simp
qed

lemma run_state_run:
  assumes "run_state env st w = (r, w')" and "units_ok (er_remaining_coordination (es_remainder st))"
  shows "world_run w (rt_admission_lease (es_route st) # L) w' (held r L) \<and> units_left r"
proof -
  obtain q w1 where q: "execute_route (env_runtime env) (env_answers env (es_attempt st)) (env_request_id env)
      (es_route st) (es_attempt st) (env_loaded env) w = (q, w1)" by fastforce
  note run = execute_route_run [OF q, of L]
  have "w' = w1 \<and> (\<forall>st. r \<noteq> Inr (LoopContinue st))
      \<or> (\<exists>failed. advance_failed env failed (es_remainder st) w1 = (r, w'))"
    using assms(1) q by (auto simp: run_state_def Let_def split: sum.splits AttemptProgress.splits)
  then show ?thesis
  proof
    assume "w' = w1 \<and> (\<forall>st. r \<noteq> Inr (LoopContinue st))"
    with run show ?thesis by (cases r; cases "projr r") auto
  next
    assume "\<exists>failed. advance_failed env failed (es_remainder st) w1 = (r, w')"
    then show ?thesis using advance_failed_run [OF _ assms(2), of env _ w1 r w' L] run
      by (auto intro: world_run_trans)
  qed
qed

lemma execute_loop_run:
  assumes "execute_loop env st w = (r, w')" and "units_ok (er_remaining_coordination (es_remainder st))"
  shows "world_run w (rt_admission_lease (es_route st) # L) w' L"
  using assms
proof (induction env st w rule: execute_loop.induct)
  case (1 env st w)
  obtain c w1 where c: "run_state env st w = (c, w1)" by fastforce
  note run = run_state_run [OF c "1.prems"(2), of L]
  show ?case
  proof (cases "\<exists>st'. c = Inr (LoopContinue st')")
    case True
    then obtain st' where st': "c = Inr (LoopContinue st')" by blast
    have "execute_loop env st' w1 = (r, w')"
      using c st' "1.prems"(1) by (simp add: execute_loop.simps [of env st])
    with "1.IH" [OF c [symmetric] st' refl] run st' show ?thesis by (auto intro: world_run_trans)
  next
    case False
    then have "w' = w1 \<and> held c L = L"
      using c "1.prems"(1)
      by (auto simp: execute_loop.simps [of env st] split: sum.splits LoopControl.splits)
    with run show ?thesis by simp
  qed
qed

lemma start_state_run:
  assumes "start_state env attempts qs w = (r, w')" and "units_ok qs"
  shows "world_run w L w' (held r L) \<and> units_left r"
  using assms(1)
proof (cases rule: start_state_cases)
  case (ended e)
  show ?thesis
  proof (cases "qs = [] \<or> attempts = []")
    case False
    then obtain f where f: "coordinate_pool env (hd qs) (ls_pool (env_loaded env)) w = (Inl f, w')"
      using ended(4) by auto
    have "tp_units (cq_admission (hd qs)) \<noteq> 0" using False assms(2) by (cases qs) auto
    from coordinate_pool_run [OF f this, of L] ended(1) show ?thesis by simp
  qed (use ended in auto)
next
  case (routed attempt as request qs' route)
  then show ?thesis using coordinate_pool_run [OF routed(3), of L] assms(2) by simp
next
  case (refused attempt as request qs' refusal ctx w1 directive remainder)
  have first: "world_run w L w1 L" using coordinate_pool_run [OF refused(3), of L] refused(2) assms(2) by simp
  from refused(6) show ?thesis
  proof (cases rule: retry_after_admission_cases)
    case (stopped e)
    with first show ?thesis by simp
  next
    case (retried candidate)
    from prepare_retry_run [OF retried(2), of L] refused(2,5) assms(2) first
    show ?thesis by (auto intro: world_run_trans)
  qed
qed

lemma execute_loaded_run:
  assumes "execute_loaded env attempts qs w = (r, w')" and "units_ok qs"
  shows "world_run w L w' L"
proof -
  obtain c w1 where c: "start_state env attempts qs w = (c, w1)" by fastforce
  note run = start_state_run [OF c assms(2), of L]
  show ?thesis
  proof (cases "\<exists>st. c = Inr (LoopContinue st)")
    case True
    then obtain st where st: "c = Inr (LoopContinue st)" by blast
    have "execute_loop env st w1 = (r, w')" using c st assms(1) by (simp add: execute_loaded_def)
    from execute_loop_run [OF this] run st show ?thesis by (auto intro: world_run_trans)
  next
    case False
    then have "w' = w1 \<and> held c L = L"
      using c assms(1) by (auto simp: execute_loaded_def split: sum.splits LoopControl.splits)
    with run show ?thesis by simp
  qed
qed

end
