(* ===== verification/Runtime_Demo.thy ===== *)
theory Runtime_Demo
  imports Runtime_Leases Admission_Properties Budget_Properties
begin

text \<open>
  A concrete execution, on which the properties of the runtime are instantiated: a tenant with two
  accounts, a coordinator assembled for them, and a request whose first attempt fails in transport
  before the provider has accepted it and whose second attempt succeeds on the other account.
\<close>

definition demo_candidate :: "string \<Rightarrow> CandidateMetadata" where
  "demo_candidate name =
     \<lparr>cm_id = name, cm_tenant_id = Some ''t'', cm_account_id = name, cm_provider_id = ''p'',
      cm_model = Some ''pm'', cm_max_concurrency = Some 2,
      cm_effective_window = \<lparr>effective_start = None, effective_end = None\<rparr>, cm_priority = 1, cm_weight = 1,
      cm_load = 0, cm_availability = PoolAvailable\<rparr>"

definition demo_pool :: CandidateSnapshot where
  "demo_pool = \<lparr>csn_id = 1, csn_version = 1, csn_candidates = [demo_candidate ''a'', demo_candidate ''b'']\<rparr>"

definition demo_policies :: "LimitPolicy list" where
  "demo_policies =
     [\<lparr>lp_key = Tenant ''t'', lp_rate = Some \<lparr>rr_capacity = 5, rr_window = 1000000000\<rparr>, lp_concurrency = None\<rparr>,
      \<lparr>lp_key = Model ''m'', lp_rate = Some \<lparr>rr_capacity = 5, rr_window = 1000000000\<rparr>, lp_concurrency = None\<rparr>]"

definition demo_book :: BudgetBook where
  "demo_book =
     \<lparr>bk_poisoned = False, bk_state =
        \<lparr>policies = [(''ten'',
           \<lparr>ps_policy = \<lparr>bp_id = ''ten'', bp_scope = TenantScope ''t'',
                          bp_limit = \<lparr>currency = ''EUR'', minor_units = 50\<rparr>, bp_enforcement = Hard\<rparr>,
            ps_reserved = 0, ps_committed = 0\<rparr>)],
         reservations = []\<rparr>\<rparr>"

definition demo_assembly :: RoutingAdmissionAssembly where
  "demo_assembly =
     \<lparr>asm_configured_policies = demo_policies, asm_candidate_snapshot = demo_pool,
      asm_account_lease_duration = 1000000000, asm_initial_now = 0, asm_budget = LegacyBudget demo_book\<rparr>"

definition demo_request :: "string \<Rightarrow> MonotonicTime \<Rightarrow> CoordinationRequest" where
  "demo_request reservation now =
     \<lparr>cq_context = \<lparr>rcx_tenant_id = ''t'', rcx_request_id = ''q'', rcx_model = ''m'', rcx_required_capabilities = []\<rparr>,
      cq_destination_region = None, cq_pricing_timestamp = 50,
      cq_pricing = \<lparr>prq_dimension = InputTokens, prq_quantity = 1,
                    prq_constraints = \<lparr>cc_soft_limit = None, cc_hard_limit = None\<rparr>\<rparr>,
      cq_admission = \<lparr>tp_reservation_id = reservation, tp_units = 1,
                      tp_times = \<lparr>tm_monotonic_now = now, tm_budget_now = 50, tm_budget_expires_at = 100,
                                  tm_circuit_now = 50000\<rparr>,
                      tp_group_id = None\<rparr>,
      cq_retry = \<lparr>rtp_operation = Idempotent, rtp_max_attempts = 2\<rparr>, cq_affinity = None\<rparr>"

definition demo_state :: "CandidateMetadata \<Rightarrow> CandidateState" where
  "demo_state c =
     \<lparr>cst_source = c, cst_key = cm_id c, cst_provider_model = cm_model c, cst_proxy_profile = None,
      cst_quote = Some \<lparr>pq_currency = ''EUR'', pq_version = 1, pq_dimension = InputTokens, pq_price = 3,
                        pq_quantity = 1, pq_total = 3\<rparr>,
      cst_exclusion = None\<rparr>"

definition demo_selector :: selector where
  "demo_selector request pool =
     Inr \<lparr>rsl_states = map demo_state (csn_candidates pool), rsl_degradations = [], rsl_selected_index = 0,
          rsl_basis = WeightedLeastLoad, rsl_exclusions = [], rsl_exclusions_truncated = False\<rparr>"

definition demo_circuit_key :: "string \<Rightarrow> CircuitProbeKey" where
  "demo_circuit_key name =
     \<lparr>cpk_tenant_id = ''t'', cpk_account_id = name, cpk_config_version = 7, cpk_import_generation = 1\<rparr>"

definition demo_registry :: CircuitProbeRegistry where
  "demo_registry =
     \<lparr>cpg_registrations =
        [\<lparr>cpr_key = demo_circuit_key ''a'', cpr_circuit = AccountCircuit_new ''a'' ex_circuit_policy, cpr_issuer = 1\<rparr>,
         \<lparr>cpr_key = demo_circuit_key ''b'', cpr_circuit = AccountCircuit_new ''b'' ex_circuit_policy, cpr_issuer = 2\<rparr>]\<rparr>"

definition demo_secret :: SecretRef where
  "demo_secret = \<lparr>sr_provider = ''vault'', sr_path = ''key'', sr_version = 1, sr_purpose = ''use''\<rparr>"

definition demo_reference :: "string \<Rightarrow> AccountCredentialReference" where
  "demo_reference name =
     \<lparr>acr_tenant_id = ''t'', acr_account_id = name, acr_provider_id = ''p'', acr_config_version = 7,
      acr_purpose = ''use'', acr_import_generation = 1, acr_secret_ref = demo_secret\<rparr>"

definition demo_answers :: "string \<Rightarrow> MonotonicTime \<Rightarrow> ProviderExecutionOutcome \<Rightarrow> attempt_answers" where
  "demo_answers name final outcome =
     \<lparr>an_acquire_active = None,
      an_probe = \<lparr>pan_entered = None, pan_recovering = None, pan_clock = None, pan_observed = None\<rparr>,
      an_accept_active = None, an_resolve_active = None, an_resolved = Inr (demo_reference name),
      an_secret = Inr \<lparr>sle_reference = demo_secret, sle_module = ''rt'', sle_issued_at = 0, sle_expires_at = 100\<rparr>,
      an_secret_active = None, an_secret_now = 50, an_revalidate_active = None,
      an_current = Inr (demo_reference name), an_revalidated_active = None, an_dispatch_clock = Some 20,
      an_validate_clock = None, an_outcome = outcome, an_final_clock = Some final,
      an_complete_clock = Some \<lparr>cl_observed_at = 40, cl_monotonic = 40\<rparr>\<rparr>"

definition demo_loading :: load_answers where
  "demo_loading =
     \<lparr>lan_entered = None, lan_principal = Some ''t'', lan_loading = None, lan_pool = Some demo_pool,
      lan_projection = Inr \<lparr>aps_generation = 1, aps_accounts = map (\<lambda>name.
        \<lparr>dap_tenant_id = ''t'', dap_account_id = name, dap_provider_id = ''p'',
         dap_default_model = Some ''pm'', dap_max_concurrency = 2, dap_config_version = 7, dap_account_version = 1,
         dap_status = AccountActive, dap_import_generation = 1, dap_routing = \<lparr>drs_priority = 1, drs_weight = 1\<rparr>,
         dap_effective_window = OPEN_WINDOW\<rparr>) [''a'', ''b'']\<rparr>,
      lan_models_available = True, lan_loaded = None\<rparr>"

definition demo_ports :: "AttemptId \<Rightarrow> attempt_answers" where
  "demo_ports attempt =
     (if attempt = ''x1'' then demo_answers ''a'' 30 (OutcomeFailed ExecutionNotAccepted Uncommitted Transport)
      else demo_answers ''b'' 40 (OutcomeAccepted FirstByteSent))"

definition demo_runtime :: RoutingRuntime where
  "demo_runtime =
     \<lparr>rrt_coordinator = \<lparr>rco_candidate_snapshot_binding = Some demo_pool, rco_budget_generation = None\<rparr>,
      rrt_circuit_probes = True, rrt_module = ''rt'', rrt_purpose = ''use''\<rparr>"

definition demo_account :: "string \<Rightarrow> LimitKey" where
  "demo_account name = Account \<lparr>alk_tenant = ''t'', alk_account = name\<rparr>"

definition demo_limits :: AdmissionPolicySet where
  "demo_limits =
     [(Tenant ''t'', demo_policies ! 0),
      (demo_account ''a'', \<lparr>lp_key = demo_account ''a'', lp_rate = None,
         lp_concurrency = Some \<lparr>cr_limit = 2, cr_lease_duration = 1000000000\<rparr>\<rparr>),
      (demo_account ''b'', \<lparr>lp_key = demo_account ''b'', lp_rate = None,
         lp_concurrency = Some \<lparr>cr_limit = 2, cr_lease_duration = 1000000000\<rparr>\<rparr>),
      (Model ''m'', demo_policies ! 1)]"

definition demo_stores :: RoutingAdmissionCoordinator where
  "demo_stores = \<lparr>rac_rate = AdmissionController_new demo_limits 0, rac_budget = demo_book\<rparr>"

definition demo_world :: runtime_world where
  "demo_world = \<lparr>wld_stores = demo_stores, wld_probes = demo_registry, wld_dispatched = []\<rparr>"

definition demo_runtime_request :: RuntimeRequest where
  "demo_runtime_request = \<lparr>rrq_schedule = [''x1'', ''x2''], rrq_coordination = [demo_request ''r1'' 10, demo_request ''r2'' 35]\<rparr>"

definition demo_run :: "(RoutingRuntimeError, RuntimeOutcome) result \<times> runtime_world" where
  "demo_run = execute demo_runtime demo_selector ''q'' demo_loading demo_ports demo_runtime_request demo_world"

section \<open>Its evaluation\<close>

lemma demo_ids: "limit_id_parse ''t'' = Inr ''t''" "limit_id_parse ''a'' = Inr ''a''"
  "limit_id_parse ''b'' = Inr ''b''" "limit_id_parse ''m'' = Inr ''m''"
  by (simp_all add: limit_id_parse_def validate_identity_def is_ascii_def is_graphic_byte_def MAX_LIMIT_ID_BYTES_def)

lemma demo_key_order:
  "Tenant x < Account y" "Tenant x < Model z" "Account y < Model z" "\<not> Account y < Tenant x" "\<not> Model z < Tenant x" "\<not> Model z < Account y"
  "demo_account ''a'' < demo_account ''b''" "\<not> demo_account ''b'' < demo_account ''a''" 
  "demo_account u \<noteq> Tenant x" "Tenant x \<noteq> demo_account u" "demo_account u \<noteq> Model x" "Model x \<noteq> demo_account u" 
  "Tenant x < demo_account u" "demo_account u < Model z" "\<not> demo_account u < Tenant x" "\<not> Model z < demo_account u"
  "demo_account u = demo_account v \<longleftrightarrow> u = v"
  by (simp_all add: less_LimitKey_def demo_account_def)

lemma demo_built:
  "build_routing_admission_coordinator demo_assembly = Inr (rrt_coordinator demo_runtime, demo_stores)"
  by (simp add: build_routing_admission_coordinator_def demo_assembly_def validate_policy_bounds_def demo_policies_def
    demo_pool_def build_account_concurrency_policies_def account_concurrency_policy_def demo_candidate_def
    MAX_COORDINATED_CANDIDATES_def demo_ids map_err_def Let_def ConcurrencyRule_new_def LimitPolicy_new_def
    AdmissionPolicySet_new_def demo_stores_def demo_limits_def demo_runtime_def limit_constants
    demo_key_order(2,5,7-) demo_account_def [symmetric])
definition demo_lease_of :: "u64 \<Rightarrow> string \<Rightarrow> string \<Rightarrow> RoutingAdmissionLease" where
  "demo_lease_of n name reservation =
     \<lparr>ral_rate = Some \<lparr>al_id = n, al_expires_at = 1000000010,
        al_reservation = Some \<lparr>rs_id = n - 1, rs_keys = [Tenant ''t'', Model ''m''], rs_units = 1,
          rs_expires_at = 1000000010\<rparr>,
        al_permits = [\<lparr>cp_lease_id = n, cp_key = demo_account name, cp_expires_at = 1000000010\<rparr>],
        al_closed = False\<rparr>,
      ral_reservation_id = reservation,
      ral_budget_receipt = \<lparr>rc_id = reservation, rc_state = Reserved, rc_amount = \<lparr>currency = ''EUR'', minor_units = 3\<rparr>,
        rc_expires_at = 100, rc_applied_policies = [''ten''], rc_soft_limit_breaches = []\<rparr>,
      ral_budget_finalized = False, ral_budget_retained = False, ral_closed = False, ral_state = LeasePending\<rparr>"

definition demo_controller :: "MonotonicTime \<Rightarrow> u64 \<Rightarrow> u32 \<Rightarrow> (LimitKey \<times> u32) list \<Rightarrow> (u64 \<times> ActiveLease) list \<Rightarrow> ControllerInner" where
  "demo_controller now n pending counts live =
     \<lparr>ci_policies = demo_limits, ci_poisoned = False,
      ci_state = \<lparr>last_now = now, next_identity = n,
        windows = map (\<lambda>k. (k, \<lparr>w_ends_at = 1000000010, w_committed = 0, w_pending = pending\<rparr>)) [Tenant ''t'', Model ''m''],
        concurrency = counts, leases = live\<rparr>\<rparr>"

definition demo_active :: "string \<Rightarrow> ActiveLease" where
  "demo_active name = \<lparr>l_rate_keys = [Tenant ''t'', Model ''m''], l_concurrency_keys = [demo_account name],
     l_units = 1, l_expires_at = 1000000010, l_rate_committed = False\<rparr>"

definition demo_rate :: "string \<Rightarrow> AdmissionRequest" where
  "demo_rate name = \<lparr>rq_keys = [Tenant ''t'', Model ''m'', demo_account name], rq_units = 1\<rparr>"

lemma demo_try_admit:
  "try_admit (demo_rate ''a'') 10 (AdmissionController_new demo_limits 0) =
     (Inr (the (ral_rate (demo_lease_of 2 ''a'' ''r1''))), demo_controller 10 2 1 [(demo_account ''a'', 1)] [(2, demo_active ''a'')])"
  by (simp add: controller_exec demo_limits_def demo_policies_def demo_rate_def demo_key_order demo_controller_def
    demo_lease_of_def demo_active_def Let_def)

definition demo_reservation :: "string \<Rightarrow> string \<Rightarrow> ReservationRequest" where
  "demo_reservation name reservation =
     \<lparr>rq_id = reservation, rq_context = \<lparr>bc_tenant_id = ''t'', bc_group_id = None, bc_account_id = name\<rparr>,
      rq_amount = \<lparr>currency = ''EUR'', minor_units = 3\<rparr>, rq_expires_at = 100\<rparr>"

definition demo_book_with :: "u64 \<Rightarrow> (string \<times> string \<times> ReservationState) list \<Rightarrow> BudgetBook" where
  "demo_book_with reserved rs =
     demo_book\<lparr>bk_state := \<lparr>policies = map (\<lambda>(k, p). (k, p\<lparr>ps_reserved := reserved\<rparr>)) (policies (bk_state demo_book)),
       reservations = map (\<lambda>(reservation, name, st). (reservation,
         \<lparr>rec_request = demo_reservation name reservation, rec_state = st, rec_applied_policies = [''ten''],
          rec_soft_limit_breaches = []\<rparr>)) rs\<rparr>\<rparr>"

lemma demo_reserve:
  "reserve_fresh (demo_reservation ''a'' ''r1'') 50 demo_book =
     (Inr (ral_budget_receipt (demo_lease_of 2 ''a'' ''r1'')), demo_book_with 3 [(''r1'', ''a'', Reserved)])"
  by (simp add: budget_exec demo_book_def demo_reservation_def demo_lease_of_def demo_book_with_def)

lemma demo_try_admit2:
  "try_admit (demo_rate ''b'') 35 (demo_controller 30 2 0 [(demo_account ''a'', 0)] []) =
     (Inr (the (ral_rate (demo_lease_of 4 ''b'' ''r2''))),
      demo_controller 35 4 1 [(demo_account ''a'', 0), (demo_account ''b'', 1)] [(4, demo_active ''b'')])"
  by (simp add: controller_exec demo_limits_def demo_policies_def demo_rate_def demo_key_order demo_controller_def
    demo_lease_of_def demo_active_def Let_def)

lemma demo_reserve2:
  "reserve_fresh (demo_reservation ''b'' ''r2'') 50 (demo_book_with 0 [(''r1'', ''a'', Released)]) =
     (Inr (ral_budget_receipt (demo_lease_of 4 ''b'' ''r2'')),
      demo_book_with 3 [(''r1'', ''a'', Released), (''r2'', ''b'', Reserved)])"
  by (simp add: budget_exec demo_book_def demo_reservation_def demo_lease_of_def demo_book_with_def)

lemma demo_admission_request:
  assumes "name \<in> {''a'', ''b''}"
  shows "admission_request (demo_request reservation now) (demo_state (demo_candidate name)) =
     Inr \<lparr>rar_rate = demo_rate name, rar_budget = demo_reservation name reservation, rar_monotonic_now = now,
          rar_budget_now = 50\<rparr>"
  using assms
  by (auto simp: admission_request_def rate_request_def budget_request_def demo_request_def demo_state_def
      demo_candidate_def demo_ids map_err_def AdmissionRequest_new_def validate_request_keys_def
       demo_rate_def demo_reservation_def demo_account_def CurrencyCode_parse_def ReservationRequest_new_def Let_def limit_constants is_ascii_uppercase_def)

lemma demo_tenant_binding:
  "validate_tenant_binding \<lparr>rar_rate = demo_rate name, rar_budget = demo_reservation name reservation, rar_monotonic_now = now,
          rar_budget_now = 50\<rparr> = Inr ()"
  by (simp add: validate_tenant_binding_def validate_account_binding_def demo_rate_def demo_reservation_def demo_account_def)

definition demo_stores1 :: RoutingAdmissionCoordinator where
  "demo_stores1 = \<lparr>rac_rate = demo_controller 10 2 1 [(demo_account ''a'', 1)] [(2, demo_active ''a'')],
     rac_budget = demo_book_with 3 [(''r1'', ''a'', Reserved)]\<rparr>"

definition demo_stores2 :: RoutingAdmissionCoordinator where
  "demo_stores2 = \<lparr>rac_rate = demo_controller 30 2 0 [(demo_account ''a'', 0)] [],
     rac_budget = demo_book_with 0 [(''r1'', ''a'', Released)]\<rparr>"

definition demo_stores3 :: RoutingAdmissionCoordinator where
  "demo_stores3 = \<lparr>rac_rate = demo_controller 35 4 1 [(demo_account ''a'', 0), (demo_account ''b'', 1)] [(4, demo_active ''b'')],
     rac_budget = demo_book_with 3 [(''r1'', ''a'', Released), (''r2'', ''b'', Reserved)]\<rparr>"

lemma demo_engine_admit:
  "engine_admit (demo_request ''r1'' 10) (demo_state (demo_candidate ''a'')) exclusions demo_stores =
     (Inr (demo_lease_of 2 ''a'' ''r1''), demo_stores1)"
  "engine_admit (demo_request ''r2'' 35) (demo_state (demo_candidate ''b'')) exclusions demo_stores2 =
     (Inr (demo_lease_of 4 ''b'' ''r2''), demo_stores3)"
  using demo_try_admit demo_reserve demo_try_admit2 demo_reserve2
  by (simp_all add: engine_admit_def demo_admission_request admit_def bind_update_def lift_result_def demo_tenant_binding
      on_rate_def demo_stores_def demo_stores1_def demo_stores2_def demo_stores3_def demo_lease_of_def)

lemma demo_release:
  "routing_release (demo_lease_of 2 ''a'' ''r1'') 30 demo_stores1 = (Inr (), demo_stores2)"
  by (simp add: routing_release_def consuming_def release_both_def lease_ensure_open_def demo_lease_of_def on_budget_def on_rate_def
     demo_stores1_def demo_stores2_def budget_exec demo_book_with_def demo_book_def demo_reservation_def
     controller_exec demo_controller_def demo_active_def drop_routing_lease_def demo_key_order lease_release_def lease_close_def close_lease_def ensure_open_def drop_lease_def
    )

definition demo_env :: runtime_env where
  "demo_env =
     \<lparr>env_runtime = demo_runtime, env_selector = demo_selector,
      env_loaded = \<lparr>ls_tenant = ''t'', ls_projection = projr (lan_projection demo_loading), ls_pool = demo_pool\<rparr>,
      env_request_id = ''q'', env_answers = demo_ports\<rparr>"

definition demo_plan :: "CandidateKey list \<Rightarrow> RoutingRetryPlan" where
  "demo_plan cs = \<lparr>rrp_plan = \<lparr>fp_candidates = cs, fp_max_attempts = 2\<rparr>, rrp_operation = Idempotent\<rparr>"

definition demo_route :: "string \<Rightarrow> CandidateKey list \<Rightarrow> RoutingAdmissionLease \<Rightarrow> CoordinatedRoute" where
  "demo_route name cs lease =
     \<lparr>rt_selected_candidate = name, rt_selected_account = name, rt_provider_model = ''pm'',
      rt_selected_proxy_profile = None,
      rt_explanation = \<lparr>de_basis = WeightedLeastLoad, de_degradations = [], de_exclusions = [], de_exclusions_truncated = False\<rparr>,
      rt_retry_plan = demo_plan cs, rt_tenant_id = ''t'', rt_request_id = ''q'', rt_admission_lease = lease\<rparr>"

lemma demo_states:
  "cst_key (demo_state (demo_candidate name)) = name" "cst_provider_model (demo_state (demo_candidate name)) = Some ''pm''"
  "cst_proxy_profile (demo_state (demo_candidate name)) = None" "state_eligible (demo_state (demo_candidate name))"
  "cst_source (demo_state (demo_candidate name)) = demo_candidate name"
  "cm_account_id (demo_candidate name) = name" "cm_id (demo_candidate name) = name"
  by (simp_all add: demo_state_def demo_candidate_def state_eligible_def)

lemma demo_requests:
  "cq_retry (demo_request reservation now) = \<lparr>rtp_operation = Idempotent, rtp_max_attempts = 2\<rparr>"
  "cq_context (demo_request reservation now) =
     \<lparr>rcx_tenant_id = ''t'', rcx_request_id = ''q'', rcx_model = ''m'', rcx_required_capabilities = []\<rparr>"
  by (simp_all add: demo_request_def)

lemmas demo_coordination =
  coordinate_pool_def coordinate_def validate_candidate_snapshot_def binding_matches_def binding_contains_def
  engine_coordinate_def demo_selector_def get_at_def build_retry_plan_def push_candidate_def FailoverPlan_new_def
  validate_plan_bounds_def ensure_unique_candidates_def MAX_PLAN_CANDIDATES_def MAX_ATTEMPTS_def
  demo_env_def demo_runtime_def demo_states demo_requests demo_engine_admit demo_route_def demo_plan_def word_le_nat_alt
  map_err_def demo_pool_def

lemma demo_first_route:
  "coordinate_pool demo_env (demo_request ''r1'' 10) demo_pool demo_world =
     (Inr (demo_route ''a'' [''a'', ''b''] (demo_lease_of 2 ''a'' ''r1'')), demo_world\<lparr>wld_stores := demo_stores1\<rparr>)"
  by (simp add: demo_coordination demo_world_def)

lemma demo_second_route:
  "coordinate_target demo_env (demo_request ''r2'' 35) ''b'' (w\<lparr>wld_stores := demo_stores2\<rparr>) =
     (Inr (demo_route ''b'' [''b''] (demo_lease_of 4 ''b'' ''r2'')), w\<lparr>wld_stores := demo_stores3\<rparr>)"
  by (simp add: coordinate_target_def find_candidate_def demo_coordination CandidateSnapshot_new_def MAX_SNAPSHOT_CANDIDATES_def)

definition demo_identity :: "string \<Rightarrow> string \<Rightarrow> PhysicalAttemptIdentity" where
  "demo_identity name attempt =
     \<lparr>pai_usage_confirmation = \<lparr>uc_tenant = ''t'', uc_account = name, uc_request = ''q'', uc_attempt = attempt\<rparr>,
      pai_candidate = name, pai_provider_id = ''p'', pai_provider_model = ''pm'', pai_proxy_profile = None\<rparr>"

lemmas demo_attempt =
  prepare_route_def prepare_target_and_probe_def bind_update_def lift_result_def prepare_target_def
  validate_execution_proxy_def validate_route_target_def find_candidate_def validate_candidate_binding_def
  validate_projection_binding_def validate_provider_model_def acquire_circuit_probe_def ensure_active_def
  demo_answers_def demo_route_def demo_env_def demo_loading_def demo_pool_def demo_candidate_def demo_runtime_def
  prepare_execution_def resolve_credential_def AccountCredentialReferenceRequest_new_def map_err_def
  validate_credential_def validate_credential_identity_def validate_credential_scope_def demo_reference_def demo_secret_def
  issue_lease_def validate_lease_def secret_is_valid_at_def revalidate_credential_def revalidation_request_def
  validate_revalidated_credential_def build_execution_def usage_confirmation_id_def validate_usage_binding_def
  circuit_probe_key_def on_probes_def accept_probe_acquisition_def demo_identity_def Let_def

lemmas demo_probing =
  registry_acquire_probe_def ensure_context_active_def snapshot_value_def CircuitProbeLease_closed_def with_issuer_def
  registration_def demo_registry_def demo_circuit_key_def CircuitProbeGuard_new_def
  validate_prepared_probe_def guard_validate_def registry_validate_probe_def is_issued_by_def validate_closed_probe_def
  arm_retryable_drop_def complete_circuit_probe_def guard_complete_def registry_complete_probe_def
  complete_circuit_execution_def put_circuit_def circuit_exec ex_circuit_policy_def

lemma demo_attempt_x1:
  "\<exists>c. execute_route demo_runtime (demo_answers ''a'' 30 (OutcomeFailed ExecutionNotAccepted Uncommitted Transport)) ''q''
       (demo_route ''a'' cs (demo_lease_of 2 ''a'' ''r1'')) ''x1'' (env_loaded demo_env)
       \<lparr>wld_stores = demo_stores1, wld_probes = demo_registry, wld_dispatched = []\<rparr> =
     (Inr (AttemptFailed \<lparr>fa_failure = Transport, fa_commitment = Uncommitted, fa_accepted = None\<rparr>),
      \<lparr>wld_stores = demo_stores2, wld_probes = \<lparr>cpg_registrations = [c, cpg_registrations demo_registry ! Suc 0]\<rparr>,
       wld_dispatched = [demo_identity ''a'' ''x1'']\<rparr>) \<and> cpr_key c = demo_circuit_key ''a''"
  by (simp add: execute_route_def demo_attempt demo_probing finalize_execution_def finalize_failure_def
      contradictory_acceptance_def finalize_disposition_def release_route_def on_stores_def demo_release
      combine_finalizations_def dispatch_def)

lemma demo_finalize:
  "\<exists>s. routing_finalize_accepted (demo_lease_of 4 ''b'' ''r2'') (Some 40) demo_stores3 = (Inr (), s)"
  by (simp add: routing_finalize_accepted_def consuming_def commit_budget_def lease_ensure_open_def demo_lease_of_def on_budget_def on_rate_def
     demo_stores3_def budget_exec demo_book_with_def demo_book_def demo_reservation_def finalize_accepted_rate_def finish_accepted_def
     controller_exec demo_controller_def demo_active_def drop_routing_lease_def demo_key_order finalize_accepted_def inner_finalize_accepted_def
     state_finalize_accepted_def finalize_accepted_at_def state_commit_rate_def pending_rate_commitment_def validate_rate_commitment_def
     apply_rate_commitment_def commit_rate_key_def mark_rate_committed_def ensure_open_def drop_lease_def complete_accepted_def)

lemma demo_attempt_x2:
  assumes "cpr_key c = demo_circuit_key ''a''"
  shows "\<exists>w'. execute_route demo_runtime (demo_answers ''b'' 40 (OutcomeAccepted FirstByteSent)) ''q''
       (demo_route ''b'' cs (demo_lease_of 4 ''b'' ''r2'')) ''x2'' (env_loaded demo_env)
       \<lparr>wld_stores = demo_stores3, wld_probes = \<lparr>cpg_registrations = [c, cpg_registrations demo_registry ! Suc 0]\<rparr>,
        wld_dispatched = ds\<rparr> =
     (Inr (AttemptSucceeded (demo_identity ''b'' ''x2'') FirstByteSent), w')
     \<and> wld_dispatched w' = ds @ [demo_identity ''b'' ''x2'']"
proof -
  obtain s where "routing_finalize_accepted (demo_lease_of 4 ''b'' ''r2'') (Some 40) demo_stores3 = (Inr (), s)"
    using demo_finalize by blast
  then show ?thesis
    using assms
    by (simp add: execute_route_def demo_attempt demo_probing finalize_execution_def finalize_success_def
      finalize_accepted_admission_def finalize_accepted_route_def on_stores_def
      combine_finalizations_def dispatch_def)
qed

lemma demo_loaded:
  "demo_run = execute_loaded demo_env [''x1'', ''x2''] [demo_request ''r1'' 10, demo_request ''r2'' 35] demo_world"
  by (simp add: demo_run_def execute_def authenticated_tenant_def ensure_active_def load_state_def demo_loading_def
      pool_generation_def demo_pool_def validate_projection_def map_err_def demo_runtime_request_def demo_env_def)

lemma demo_start:
  "start_state demo_env [''x1'', ''x2''] [demo_request ''r1'' 10, demo_request ''r2'' 35] demo_world =
     (Inr (LoopContinue
        \<lparr>es_route = demo_route ''a'' [''a'', ''b''] (demo_lease_of 2 ''a'' ''r1''), es_attempt = ''x1'',
         es_remainder = \<lparr>er_retry_plan = demo_plan [''a'', ''b''], er_current = ''a'', er_ordinal = 1, er_accepted = [],
           er_remaining_attempts = [''x2''], er_remaining_coordination = [demo_request ''r2'' 35]\<rparr>\<rparr>),
      \<lparr>wld_stores = demo_stores1, wld_probes = demo_registry, wld_dispatched = []\<rparr>)"
proof -
  have "ls_pool (env_loaded demo_env) = demo_pool" by (simp add: demo_env_def)
  then show ?thesis using demo_first_route by (simp add: start_state_def demo_world_def demo_route_def)
qed

lemma demo_switch:
  "retry_decide (demo_plan [''a'', ''b'']) ''a'' 1 Uncommitted Transport =
     Inr \<lparr>fd_action = SwitchCandidate ''b'', fd_failure = Transport\<rparr>"
  by (simp add: retry_decide_def AttemptContext_new_def decide_def index_of_def demo_plan_def validate_attempt_def
      should_stop_def next_action_def get_at_def word_less_nat_alt word_le_nat_alt)

lemma demo_dispatches: "wld_dispatched (snd demo_run) = [demo_identity ''a'' ''x1'', demo_identity ''b'' ''x2'']"
proof -
  have env: "env_runtime demo_env = demo_runtime" "env_request_id demo_env = ''q''" "env_answers demo_env = demo_ports"
    by (simp_all add: demo_env_def)
  have ports: "demo_ports ''x1'' = demo_answers ''a'' 30 (OutcomeFailed ExecutionNotAccepted Uncommitted Transport)"
      "demo_ports ''x2'' = demo_answers ''b'' 40 (OutcomeAccepted FirstByteSent)"
    by (simp_all add: demo_ports_def)
  obtain c where c: "execute_route demo_runtime (demo_ports ''x1'') ''q''
       (demo_route ''a'' [''a'', ''b''] (demo_lease_of 2 ''a'' ''r1'')) ''x1'' (env_loaded demo_env)
       \<lparr>wld_stores = demo_stores1, wld_probes = demo_registry, wld_dispatched = []\<rparr> =
     (Inr (AttemptFailed \<lparr>fa_failure = Transport, fa_commitment = Uncommitted, fa_accepted = None\<rparr>),
      \<lparr>wld_stores = demo_stores2, wld_probes = \<lparr>cpg_registrations = [c, cpg_registrations demo_registry ! Suc 0]\<rparr>,
       wld_dispatched = [demo_identity ''a'' ''x1'']\<rparr>)" "cpr_key c = demo_circuit_key ''a''"
    using demo_attempt_x1 [of "[''a'', ''b'']"] ports by auto
  let ?p = "\<lparr>cpg_registrations = [c, cpg_registrations demo_registry ! Suc 0]\<rparr>"
  obtain w' where x2: "execute_route demo_runtime (demo_ports ''x2'') ''q''
       (demo_route ''b'' [''b''] (demo_lease_of 4 ''b'' ''r2'')) ''x2'' (env_loaded demo_env)
       \<lparr>wld_stores = demo_stores3, wld_probes = ?p, wld_dispatched = [demo_identity ''a'' ''x1'']\<rparr> =
     (Inr (AttemptSucceeded (demo_identity ''b'' ''x2'') FirstByteSent), w')"
     "wld_dispatched w' = [demo_identity ''a'' ''x1'', demo_identity ''b'' ''x2'']"
    using demo_attempt_x2 [OF c(2)] ports by fastforce
  have route: "coordinate_target demo_env (demo_request ''r2'' 35) ''b''
      \<lparr>wld_stores = demo_stores2, wld_probes = ?p, wld_dispatched = ds\<rparr> =
     (Inr (demo_route ''b'' [''b''] (demo_lease_of 4 ''b'' ''r2'')), \<lparr>wld_stores = demo_stores3, wld_probes = ?p, wld_dispatched = ds\<rparr>)" for ds
    using demo_second_route [of "\<lparr>wld_stores = demo_stores2, wld_probes = ?p, wld_dispatched = ds\<rparr>"] by simp
  have "demo_run = (Inr (success_outcome (demo_identity ''b'' ''x2'') FirstByteSent []), w')"
    by (simp add: demo_loaded execute_loaded_def demo_start execute_loop.simps [of demo_env] run_state_def env c(1)
        advance_failed_def retain_accepted_identity_def advance_failed_inner_def demo_switch prepare_retry.simps
        take_retry_slot_def checked_add_def route x2(1) Let_def map_err_def)
  then have "snd demo_run = w'" by (metis snd_conv)
  then show ?thesis by (simp only: x2(2))
qed

end
