(* ===== verification/Assembly_Properties.thy ===== *)
theory Assembly_Properties
  imports Runtime_Demo
begin

text \<open>
  The assembly of a routing coordinator and the failover plan it hands out. An assembled coordinator
  starts the coupled admission in an initial state in which every candidate account has the concurrency
  policy that is persisted with it.
\<close>

section \<open>Policies of the candidates\<close>

definition account_key :: "CandidateMetadata \<Rightarrow> LimitKey" where
  "account_key candidate = Account \<lparr>alk_tenant = the (cm_tenant_id candidate), alk_account = cm_account_id candidate\<rparr>"

lemma limit_id_parse_same: "limit_id_parse value = Inr i \<Longrightarrow> i = value"
  by (auto simp: limit_id_parse_def results)

lemma account_concurrency_policy_ok:
  assumes "account_concurrency_policy candidate d = Inr (key, p)"
  shows "\<exists>tenant limit. cm_tenant_id candidate = Some tenant \<and> cm_max_concurrency candidate = Some limit
    \<and> key = account_key candidate
    \<and> p = \<lparr>lp_key = account_key candidate, lp_rate = None,
           lp_concurrency = Some \<lparr>cr_limit = limit, cr_lease_duration = d\<rparr>\<rparr>
    \<and> (limit \<noteq> 0 \<longrightarrow> policy_ok p)"
proof -
  obtain tenant limit i j rule where c: "cm_tenant_id candidate = Some tenant" "cm_max_concurrency candidate = Some limit"
      "limit_id_parse tenant = Inr i" "limit_id_parse (cm_account_id candidate) = Inr j"
      "ConcurrencyRule_new limit d = Inr rule"
      "key = Account \<lparr>alk_tenant = i, alk_account = j\<rparr>" "LimitPolicy_new key None (Some rule) = Inr p"
    using assms by (auto simp: account_concurrency_policy_def results Let_def)
  have ij: "i = tenant" "j = cm_account_id candidate" using c(3,4) limit_id_parse_same by auto
  have "rule = \<lparr>cr_limit = limit, cr_lease_duration = d\<rparr>"
    using c(5) by (auto simp: ConcurrencyRule_new_def split: if_splits)
  moreover have "limit \<noteq> 0 \<longrightarrow> policy_ok p"
    using LimitPolicy_new_ok [OF c(7)] ConcurrencyRule_new_ok [OF _ c(5)] by auto
  ultimately show ?thesis
    using c ij by (auto simp: account_key_def LimitPolicy_new_def)
qed

lemma collect_account_policies_ok:
  assumes "collect_account_policies candidates d indexed = Inr m"
  shows "(\<forall>c \<in> set candidates. \<exists>key p. account_concurrency_policy c d = Inr (key, p) \<and> map_of m key = Some p)
    \<and> (\<forall>key p. map_of indexed key = Some p \<longrightarrow> map_of m key = Some p)
    \<and> (\<forall>(key, p) \<in> set m. (key, p) \<in> set indexed \<or> (\<exists>c \<in> set candidates. account_concurrency_policy c d = Inr (key, p)))"
  using assms
proof (induction candidates arbitrary: indexed)
  case (Cons c cs)
  then obtain key p where kp: "account_concurrency_policy c d = Inr (key, p)" "map_of indexed key = None"
      "collect_account_policies cs d (bt_insert key p indexed) = Inr m"
    by (auto simp: results split: if_splits)
  note IH = Cons.IH [OF kp(3)]
  have "map_of m key = Some p" using IH by simp
  moreover have "map_of m k = Some q" if "map_of indexed k = Some q" for k q
    using IH that kp(2) by (cases "k = key") auto
  moreover have "\<forall>(k, q) \<in> set m. (k, q) \<in> set indexed \<or> (\<exists>c' \<in> set (c # cs). account_concurrency_policy c' d = Inr (k, q))"
    using IH kp(1) set_bt_insert_subset [of key p indexed] by fastforce
  ultimately show ?case using IH kp(1) by auto
qed auto

lemma index_policies_lookup:
  assumes "index_policies ps m = Inr P"
  shows "(\<forall>p \<in> set ps. map_of P (lp_key p) = Some p) \<and> (\<forall>k p. map_of m k = Some p \<longrightarrow> map_of P k = Some p)"
  using assms
proof (induction ps m rule: index_policies.induct)
  case (2 p ps m)
  then have new: "map_of m (lp_key p) = None" and rest: "index_policies ps (bt_insert (lp_key p) p m) = Inr P"
    by (auto split: if_splits)
  note IH = "2.IH" [OF _ rest]
  then have IH': "(\<forall>q \<in> set ps. map_of P (lp_key q) = Some q)
      \<and> (\<forall>k q. (if k = lp_key p then Some p else map_of m k) = Some q \<longrightarrow> map_of P k = Some q)"
    using new by simp
  show ?case
  proof (intro conjI allI impI)
    show "\<forall>q \<in> set (p # ps). map_of P (lp_key q) = Some q" using IH' by auto
    show "map_of P k = Some q" if "map_of m k = Some q" for k q
      using IH' that new by (cases "k = lp_key p") auto
  qed
qed auto

section \<open>The assembled coordinator\<close>

text \<open>
  An assembled coordinator enforces the persisted limits. The rate controller starts in an initial
  state, the budget ledger is the one that was handed in, the coordinator is bound to the candidate
  snapshot, and every candidate of the snapshot belongs to a tenant and has the concurrency policy made
  from the limit persisted with it and the configured lease duration.
\<close>

theorem assembly_enforces_persisted_limits:
  assumes "build_routing_admission_coordinator assembly = Inr (coordinator, stores)"
    and "\<forall>p \<in> set (asm_configured_policies assembly). policy_ok p"
    and "\<forall>c \<in> set (csn_candidates (asm_candidate_snapshot assembly)). cm_max_concurrency c \<noteq> Some 0"
  shows "controller_init (rac_rate stores)
    \<and> into_shared (asm_budget assembly) = Inr (rac_budget stores, rco_budget_generation coordinator)
    \<and> rco_candidate_snapshot_binding coordinator = Some (asm_candidate_snapshot assembly)
    \<and> (\<forall>c \<in> set (csn_candidates (asm_candidate_snapshot assembly)). \<exists>limit.
         cm_tenant_id c \<noteq> None \<and> cm_max_concurrency c = Some limit
         \<and> policy (ci_policies (rac_rate stores)) (account_key c) =
             Some \<lparr>lp_key = account_key c, lp_rate = None,
                   lp_concurrency = Some \<lparr>cr_limit = limit, cr_lease_duration = asm_account_lease_duration assembly\<rparr>\<rparr>)"
proof -
  let ?cs = "csn_candidates (asm_candidate_snapshot assembly)" and ?d = "asm_account_lease_duration assembly"
  let ?conf = "asm_configured_policies assembly"
  obtain generation m P where m: "collect_account_policies ?cs ?d [] = Inr m"
    and P: "AdmissionPolicySet_new (?conf @ map snd m) = Inr P"
    and out: "into_shared (asm_budget assembly) = Inr (rac_budget stores, generation)"
      "coordinator = \<lparr>rco_candidate_snapshot_binding = Some (asm_candidate_snapshot assembly), rco_budget_generation = generation\<rparr>"
      "rac_rate stores = AdmissionController_new P (asm_initial_now assembly)"
    using assms(1)
    by (auto simp: build_routing_admission_coordinator_def build_account_concurrency_policies_def results Let_def
        split: if_splits)
  note cm = collect_account_policies_ok [OF m]
  have keyed: "key = account_key c \<and> policy_ok p" if "c \<in> set ?cs" "account_concurrency_policy c ?d = Inr (key, p)" for c key p
    using account_concurrency_policy_ok [OF that(2)] assms(3) that(1) by auto
  have ok: "\<forall>p \<in> set (?conf @ map snd m). policy_ok p" using assms(2) cm keyed by fastforce
  have idx: "index_policies (?conf @ map snd m) [] = Inr P" "length (?conf @ map snd m) \<le> MAX_POLICIES"
    using P by (auto simp: AdmissionPolicySet_new_def split: if_splits)
  have "policies_ok P"
    using index_policies_ok [OF idx(1) _ ok] idx(2) by (auto simp: policies_ok_def ordered_map_def list_all_iff)
  then have "controller_init (rac_rate stores)"
    using out(3) by (auto simp: controller_init_def AdmissionController_new_def)
  moreover have "\<exists>limit. cm_tenant_id c \<noteq> None \<and> cm_max_concurrency c = Some limit
      \<and> policy P (account_key c) = Some \<lparr>lp_key = account_key c, lp_rate = None,
            lp_concurrency = Some \<lparr>cr_limit = limit, cr_lease_duration = ?d\<rparr>\<rparr>" if c: "c \<in> set ?cs" for c
  proof -
    obtain key p where kp: "account_concurrency_policy c ?d = Inr (key, p)" "map_of m key = Some p" using cm c by blast
    then have "p \<in> set (?conf @ map snd m)" using map_of_SomeD [OF kp(2)] by force
    then have "map_of P (lp_key p) = Some p" using index_policies_lookup [OF idx(1)] by blast
    with account_concurrency_policy_ok [OF kp(1)] show ?thesis by (auto simp: policy_def)
  qed
  ultimately show ?thesis using out by (simp add: AdmissionController_new_def)
qed

theorem assembly_enforces_persisted_limits_witness:
  "controller_init (rac_rate demo_stores)
   \<and> policy (ci_policies (rac_rate demo_stores)) (account_key (demo_candidate ''b'')) =
       Some \<lparr>lp_key = account_key (demo_candidate ''b''), lp_rate = None,
             lp_concurrency = Some \<lparr>cr_limit = 2, cr_lease_duration = 1000000000\<rparr>\<rparr>"
proof -
  have "\<forall>p \<in> set (asm_configured_policies demo_assembly). policy_ok p"
    by (simp add: demo_assembly_def demo_policies_def policy_ok_def rate_rule_ok_def limit_constants)
  moreover have "\<forall>c \<in> set (csn_candidates (asm_candidate_snapshot demo_assembly)). cm_max_concurrency c \<noteq> Some 0"
    by (simp add: demo_assembly_def demo_pool_def demo_candidate_def)
  ultimately have "controller_init (rac_rate demo_stores)"
    "\<forall>c \<in> set (csn_candidates (asm_candidate_snapshot demo_assembly)). \<exists>limit.
         cm_tenant_id c \<noteq> None \<and> cm_max_concurrency c = Some limit
         \<and> policy (ci_policies (rac_rate demo_stores)) (account_key c) =
             Some \<lparr>lp_key = account_key c, lp_rate = None,
                   lp_concurrency = Some \<lparr>cr_limit = limit, cr_lease_duration = asm_account_lease_duration demo_assembly\<rparr>\<rparr>"
    using assembly_enforces_persisted_limits [OF demo_built] by blast+
  then show ?thesis by (simp add: demo_assembly_def demo_pool_def demo_candidate_def)
qed

section \<open>Failover plans\<close>

text \<open>
  A failover plan is accepted exactly when it is well formed: it keeps the offered candidates and
  limit, names between one and 32 distinct candidates, and allows between one and eight attempts.
\<close>

theorem accepted_plans_are_well_formed:
  "FailoverPlan_new candidates limit = Inr plan \<longleftrightarrow>
     plan = \<lparr>fp_candidates = candidates, fp_max_attempts = limit\<rparr>
     \<and> candidates \<noteq> [] \<and> length candidates \<le> 32 \<and> distinct candidates
     \<and> 1 \<le> unat limit \<and> unat limit \<le> 8"
  by (auto simp: FailoverPlan_new_iff plan_ok_def)

section \<open>Probe leases\<close>

text \<open>
  A probe lease is honoured only by its issuer. A completion or a validation of a lease under another
  key than its own, under a key that is not registered, or by a registration that did not issue it, is
  rejected and leaves every circuit as it was.
\<close>

theorem foreign_probe_leases_are_rejected:
  assumes "cpl_key lease \<noteq> key \<or> (\<nexists>reg. registration registry key = Inr reg \<and> cpl_issuer lease = Some (cpr_issuer reg))"
  shows "registry_complete_probe clock key lease outcome registry = (Inl ProbeRejected, registry)
    \<and> registry_validate_probe clock key lease registry = (Inl ProbeRejected, registry)"
  using assms unissued_is_rejected by (auto simp: issued_def)

theorem foreign_probe_leases_are_rejected_witness:
  "registry_complete_probe None (demo_circuit_key ''a'')
     \<lparr>cpl_key = demo_circuit_key ''a'', cpl_kind = ClosedLease 0, cpl_issuer = Some 2\<rparr> Success demo_registry =
     (Inl ProbeRejected, demo_registry)"
  using foreign_probe_leases_are_rejected [of "\<lparr>cpl_key = demo_circuit_key ''a'', cpl_kind = ClosedLease 0, cpl_issuer = Some 2\<rparr>"
    "demo_circuit_key ''a''" demo_registry None Success]
  by (simp add: registration_def demo_registry_def demo_circuit_key_def)

end
