(* ===== verification/Runtime_Binding.thy ===== *)
theory Runtime_Binding
  imports Runtime_Safety
begin

text \<open>
  What a dispatch is bound to: the tenant and the request of the caller, a candidate of the loaded pool
  that belongs to that tenant, and a credential that was resolved, leased and found unchanged for that
  account just before.
\<close>

definition bound_candidate :: "LoadedState \<Rightarrow> PhysicalAttemptIdentity \<Rightarrow> CandidateMetadata \<Rightarrow> bool" where
  "bound_candidate loaded d candidate \<longleftrightarrow>
     candidate \<in> set (csn_candidates (ls_pool loaded)) \<and> cm_id candidate = pai_candidate d
     \<and> cm_tenant_id candidate = Some (ls_tenant loaded) \<and> cm_account_id candidate = uc_account (pai_usage_confirmation d)
     \<and> cm_provider_id candidate = pai_provider_id d \<and> cm_model candidate = Some (pai_provider_model d)"

definition bound_credential :: "LoadedState \<Rightarrow> attempt_answers \<Rightarrow> PhysicalAttemptIdentity \<Rightarrow> bool" where
  "bound_credential loaded answers d \<longleftrightarrow>
     (\<exists>reference lease. an_resolved answers = Inr reference \<and> an_current answers = Inr reference
       \<and> acr_tenant_id reference = ls_tenant loaded \<and> acr_account_id reference = uc_account (pai_usage_confirmation d)
       \<and> acr_provider_id reference = pai_provider_id d
       \<and> an_secret answers = Inr lease \<and> sle_reference lease = acr_secret_ref reference
       \<and> secret_is_valid_at lease (an_secret_now answers))"

definition bound_dispatch :: "runtime_env \<Rightarrow> PhysicalAttemptIdentity \<Rightarrow> bool" where
  "bound_dispatch env d \<longleftrightarrow>
     uc_tenant (pai_usage_confirmation d) = ls_tenant (env_loaded env)
     \<and> uc_request (pai_usage_confirmation d) = env_request_id env
     \<and> (\<exists>candidate. bound_candidate (env_loaded env) d candidate)
     \<and> bound_credential (env_loaded env) (env_answers env (attempt_of d)) d"

lemma find_in: "find P xs = Some x \<Longrightarrow> x \<in> set xs \<and> P x"
  by (auto simp: find_Some_iff)

lemma validate_route_target_bound:
  assumes "validate_route_target route loaded = Inr target"
  obtains candidate where "candidate \<in> set (csn_candidates (ls_pool loaded))"
    "cm_id candidate = rt_selected_candidate route" "cm_tenant_id candidate = Some (ls_tenant loaded)"
    "cm_account_id candidate = rt_selected_account route" "cm_model candidate = Some (rt_provider_model route)"
    "ot_account_id target = cm_account_id candidate" "ot_provider_id target = cm_provider_id candidate"
  using assms that
  by (auto simp: validate_route_target_def find_candidate_def validate_candidate_binding_def
      validate_projection_binding_def validate_provider_model_def results split: if_splits dest!: find_in)

lemma prepare_execution_bound:
  assumes "prepare_execution runtime answers request_id route attempt loaded target = Inr (execution, identity)"
    and "ot_account_id target = rt_selected_account route"
  shows "uc_tenant (pai_usage_confirmation identity) = ls_tenant loaded
    \<and> uc_request (pai_usage_confirmation identity) = request_id \<and> attempt_of identity = attempt
    \<and> pai_candidate identity = rt_selected_candidate route \<and> pai_provider_id identity = ot_provider_id target
    \<and> pai_provider_model identity = rt_provider_model route
    \<and> uc_account (pai_usage_confirmation identity) = ot_account_id target \<and> bound_credential loaded answers identity"
proof -
  obtain reference lease where r: "resolve_credential runtime answers target loaded = Inr reference"
    and l: "issue_lease runtime answers reference = Inr lease" and v: "revalidate_credential answers reference = Inr ()"
    and b: "build_execution route attempt loaded target lease request_id = Inr (execution, identity)"
    using assms(1) by (auto simp: prepare_execution_def results)
  have "an_resolved answers = Inr reference \<and> acr_tenant_id reference = ls_tenant loaded
      \<and> acr_account_id reference = ot_account_id target \<and> acr_provider_id reference = ot_provider_id target"
    using r by (auto simp: resolve_credential_def results AccountCredentialReferenceRequest_new_def validate_credential_def
        validate_credential_identity_def split: if_splits)
  moreover have "an_secret answers = Inr lease \<and> sle_reference lease = acr_secret_ref reference
      \<and> secret_is_valid_at lease (an_secret_now answers)"
    using l by (auto simp: issue_lease_def validate_lease_def results split: if_splits)
  moreover have "an_current answers = Inr reference"
    using v by (auto simp: revalidate_credential_def validate_revalidated_credential_def results split: if_splits)
  ultimately show ?thesis
    using b assms(2)
    by (auto simp: build_execution_def usage_confirmation_id_def validate_usage_binding_def results attempt_of_def Let_def
        bound_credential_def split: if_splits)
qed

lemma prepare_route_bound:
  assumes "prepare_route runtime answers request_id route attempt loaded w = (Inr prepared, w')"
  shows "uc_tenant (pai_usage_confirmation (pr_identity prepared)) = ls_tenant loaded
    \<and> uc_request (pai_usage_confirmation (pr_identity prepared)) = request_id
    \<and> attempt_of (pr_identity prepared) = attempt
    \<and> (\<exists>candidate. bound_candidate loaded (pr_identity prepared) candidate)
    \<and> bound_credential loaded answers (pr_identity prepared)"
proof -
  have no: "release_pre_dispatch answers route probe e w1 \<noteq> (Inr prepared, w')" for probe e w1
    by (auto simp: release_pre_dispatch_def results split: prod.splits)
  obtain target probe w1 execution where
    t: "prepare_target_and_probe runtime answers route loaded w = (Inr (target, probe), w1)"
    and e: "prepare_execution runtime answers request_id route attempt loaded target = Inr (execution, pr_identity prepared)"
    using assms no by (auto simp: prepare_route_def split: prod.splits sum.splits)
  have "validate_route_target route loaded = Inr target"
    using t by (auto simp: prepare_target_and_probe_def prepare_target_def bind_update_def lift_result_def results
        split: sum.splits prod.splits)
  then obtain candidate where c: "candidate \<in> set (csn_candidates (ls_pool loaded))"
    "cm_id candidate = rt_selected_candidate route" "cm_tenant_id candidate = Some (ls_tenant loaded)"
    "cm_account_id candidate = rt_selected_account route" "cm_model candidate = Some (rt_provider_model route)"
    "ot_account_id target = cm_account_id candidate" "ot_provider_id target = cm_provider_id candidate"
    by (rule validate_route_target_bound)
  note b = prepare_execution_bound [OF e c(6) [unfolded c(4)]]
  have "bound_candidate loaded (pr_identity prepared) candidate"
    using b c by (simp add: bound_candidate_def)
  with b show ?thesis by blast
qed

lemma execute_route_bound:
  assumes "execute_route (env_runtime env) (env_answers env attempt) (env_request_id env) route attempt (env_loaded env) w = (r, w')"
    and "d \<in> set (wld_dispatched w')" and "d \<notin> set (wld_dispatched w)"
  shows "bound_dispatch env d"
proof -
  from assms(1) show ?thesis
  proof (cases rule: execute_route_log)
    case (dispatched identity)
    then have d: "d = identity" using assms(2,3) by auto
    obtain prepared w1 where p: "prepare_route (env_runtime env) (env_answers env attempt) (env_request_id env) route
        attempt (env_loaded env) w = (Inr prepared, w1)" "identity = pr_identity prepared"
      using dispatched(5) by blast
    from prepare_route_bound [OF p(1)] p(2) d show ?thesis by (simp add: bound_dispatch_def)
  qed (use assms in auto)
qed

lemma run_state_bound:
  assumes "run_state env st w = (r, w')" and "d \<in> set (wld_dispatched w')" and "d \<notin> set (wld_dispatched w)"
  shows "bound_dispatch env d"
proof -
  obtain p w1 where p: "execute_route (env_runtime env) (env_answers env (es_attempt st)) (env_request_id env)
      (es_route st) (es_attempt st) (env_loaded env) w = (p, w1)" by fastforce
  have "wld_dispatched w' = wld_dispatched w1"
    using assms(1) p
    by (auto simp: run_state_def Let_def split: sum.splits AttemptProgress.splits dest!: advance_failed_log [OF _ refl])
  with execute_route_bound [OF p] assms(2,3) show ?thesis by simp
qed

lemma execute_loop_bound:
  assumes "execute_loop env st w = (r, w')" and "d \<in> set (wld_dispatched w')" and "d \<notin> set (wld_dispatched w)"
  shows "bound_dispatch env d"
  using assms
proof (induction env st w rule: execute_loop.induct)
  case (1 env st w)
  obtain c w1 where c: "run_state env st w = (c, w1)" by fastforce
  show ?case
  proof (cases "d \<in> set (wld_dispatched w1)")
    case True
    then show ?thesis using run_state_bound [OF c] "1.prems"(3) by simp
  next
    case False
    then obtain st' where st': "c = Inr (LoopContinue st')"
      using c "1.prems"(1,2) by (auto simp: execute_loop.simps [of env st] split: sum.splits LoopControl.splits)
    have "execute_loop env st' w1 = (r, w')"
      using c st' "1.prems"(1) by (simp add: execute_loop.simps [of env st])
    from "1.IH" [OF c [symmetric] st' refl this "1.prems"(2) False] show ?thesis .
  qed
qed

lemma execute_loaded_bound:
  assumes "execute_loaded env attempts qs w = (r, w')"
    and "d \<in> set (wld_dispatched w')" and "d \<notin> set (wld_dispatched w)"
  shows "bound_dispatch env d"
proof -
  obtain c w1 where c: "start_state env attempts qs w = (c, w1)" by fastforce
  have w1: "wld_dispatched w1 = wld_dispatched w" using start_state_log [OF c] by simp
  then obtain st where "execute_loop env st w1 = (r, w')"
    using assms c by (auto simp: execute_loaded_def split: sum.splits LoopControl.splits)
  from execute_loop_bound [OF this] assms(2,3) w1 show ?thesis by simp
qed

end
