(* ===== verification/Runtime_Clock.thy ===== *)
theory Runtime_Clock
  imports Runtime_Leases
begin

text \<open>
  The clocks of a retry. A settlement reads the monotonic clock and the rate controller keeps the latest
  time it was shown; the admission of a retry carries the time its coordination request was built with.
  The controller refuses a time in its past, so a retry is admitted only when its request carries a time
  not before the settlement of the attempt it follows.
\<close>

section \<open>Settlements show the controller their time\<close>

lemma release_last_now [simp]:
  "last_now (release_concurrency keys st) = last_now st" "last_now (release_pending keys units st) = last_now st"
  by (induction keys arbitrary: st) (simp_all split: option.splits)

lemma remove_lease_last_now [simp]: "last_now (snd (remove_lease i st)) = last_now st"
  by (simp add: remove_lease_def Let_def split: option.splits)

lemma remove_lease_clock: "remove_lease i st = (removed, st') \<Longrightarrow> last_now st' = last_now st"
  using remove_lease_last_now [of i st] by simp

lemma map_sum_Inr [simp]: "map_sum f g r = Inr y \<longleftrightarrow> (\<exists>x. r = Inr x \<and> y = g x)"
  by (cases r) auto

lemma remove_leases_last_now [simp]: "last_now (remove_leases is st) = last_now st"
  unfolding remove_leases_def by (induction "is" arbitrary: st) simp_all

lemma observe_and_expire_last_now:
  "observe_and_expire now st = (Inr u, st') \<Longrightarrow> last_now st' = now"
  by (auto simp: observe_and_expire_def Let_def split: if_splits)

lemma state_commit_rate_last_now:
  assumes "state_commit_rate i st = (r, st')"
  shows "last_now st' = last_now st"
proof -
  have "last_now t = last_now s" if "apply_rate_commitment keys units s = (q, t)" for keys units s q t
    using that unfolding apply_rate_commitment_def
    by (rule for_each_invariant [where P = "\<lambda>t. last_now t = last_now s"])
      (auto simp: commit_rate_key_def Let_def split: option.splits)
  with assms show ?thesis
    by (auto simp: state_commit_rate_def bind_update_def lift_result_def mark_rate_committed_def
        split: sum.splits option.splits prod.splits)
qed

abbreviation clock_of :: "RoutingAdmissionCoordinator \<Rightarrow> MonotonicTime" where
  "clock_of s \<equiv> last_now (ci_state (rac_rate s))"

lemma drop_lease_clock [simp]: "last_now (ci_state (drop_lease lease c)) = last_now (ci_state c)"
  by (simp add: drop_lease_def close_lease_without_time_def)

lemma drop_routing_lease_clock [simp]: "clock_of (drop_routing_lease l s) = clock_of s"
  by (simp add: drop_routing_lease_def Let_def split: option.splits)

lemma lease_release_clock:
  "lease_release lease now c = (Inr u, c') \<Longrightarrow> last_now (ci_state c') = now"
  by (auto simp: lease_release_def lease_close_def close_lease_def with_lock_def bind_update_def
      split: sum.splits prod.splits if_splits dest!: observe_and_expire_last_now remove_lease_clock)

lemma routing_release_clock:
  assumes "routing_release lease now s = (Inr u, s')"
  shows "clock_of s' = now"
  using assms
  by (auto simp: routing_release_def consuming_def release_both_def bind_update_def lift_result_def on_rate_def Let_def
      split: sum.splits prod.splits option.splits if_splits dest: lease_release_clock)

lemma complete_accepted_clock:
  "complete_accepted i st = (r, st') \<Longrightarrow> last_now st' = last_now st"
  by (auto simp: complete_accepted_def bind_update_def split: sum.splits prod.splits if_splits
      dest!: state_commit_rate_last_now remove_lease_clock)

lemma finalize_accepted_at_clock:
  "finalize_accepted_at i now st = (Inr Completed, st') \<Longrightarrow> last_now st' = now"
  by (auto simp: finalize_accepted_at_def retain_accepted_def bind_update_def split: sum.splits prod.splits if_splits
      dest!: complete_accepted_clock observe_and_expire_last_now)

lemma finalize_accepted_clock:
  "finalize_accepted lease (Some now) c = (Inr Completed, c') \<Longrightarrow> last_now (ci_state c') = now"
  by (auto simp: finalize_accepted_def inner_finalize_accepted_def with_lock_def state_finalize_accepted_def
      split: sum.splits prod.splits if_splits dest: finalize_accepted_at_clock)

lemma routing_finalize_accepted_clock:
  assumes "routing_finalize_accepted lease (Some now) s = (Inr u, s')"
  shows "clock_of s' = now"
  using assms
  by (auto simp: routing_finalize_accepted_def consuming_def finish_accepted_def bind_update_def lift_result_def
      finalize_accepted_rate_def on_rate_def Let_def
      split: sum.splits prod.splits option.splits if_splits dest!: finalize_accepted_clock)

section \<open>A failed attempt that may be followed\<close>

lemma complete_circuit_probe_stores:
  "complete_circuit_probe answers probe outcome w = (r, w') \<Longrightarrow> wld_stores w' = wld_stores w"
  by (auto simp: complete_circuit_probe_def on_probes_def split: option.splits prod.splits)

lemma finalize_disposition_clock:
  assumes "finalize_disposition answers route identity t acceptance w = (Inr accepted, ev, w')"
    and "an_final_clock answers = Some now"
  shows "clock_of (wld_stores w') = now"
  using assms
  by (cases acceptance)
    (auto simp: finalize_disposition_def release_route_def finalize_accepted_admission_def finalize_accepted_route_def
      on_stores_def results Let_def split: prod.splits dest: routing_release_clock routing_finalize_accepted_clock)

lemma finalize_failure_clock:
  assumes "finalize_failure answers route identity probe t acceptance commitment failure w = (Inr p, w')"
    and "an_final_clock answers = Some now"
  shows "clock_of (wld_stores w') = now"
proof -
  have "\<not> contradictory_acceptance acceptance commitment"
    using assms(1) by (auto simp: finalize_failure_def finalize_contradiction_def results split: prod.splits)
  then obtain admission ev w1 completed where
    d: "finalize_disposition answers route identity t acceptance w = (admission, ev, w1)"
    and c: "complete_circuit_probe answers probe (circuit_failure_outcome failure) w1 = (completed, w')"
    and r: "bind_result (combine_finalizations admission completed ev) (\<lambda>accepted.
      Inr (AttemptFailed \<lparr>fa_failure = failure, fa_commitment = commitment, fa_accepted = accepted\<rparr>)) = Inr p"
    using assms(1) by (auto simp: finalize_failure_def split: prod.splits)
  then obtain accepted where "admission = Inr accepted" by (auto simp: results combine_finalizations_Inr)
  with d finalize_disposition_clock assms(2) complete_circuit_probe_stores [OF c] show ?thesis by auto
qed

lemma success_never_fails:
  "fst (finalize_success answers route identity probe commitment w) \<noteq> Inr (AttemptFailed failed)"
  by (simp add: finalize_success_def case_prod_unfold results)

lemma interruption_never_fails:
  "fst (finalize_interruption answers route identity probe t acceptance commitment interruption w) \<noteq> Inr p"
  by (simp add: finalize_interruption_def finalize_contradiction_def case_prod_unfold results)

lemma execute_route_failed_clock:
  assumes "execute_route runtime answers request_id route attempt loaded w = (Inr (AttemptFailed failed), w')"
    and "an_final_clock answers = Some now"
  shows "clock_of (wld_stores w') = now"
proof -
  have no: "release_pre_dispatch answers route probe e w1 \<noteq> (Inr (AttemptFailed failed), w')" for probe e w1
    by (auto simp: release_pre_dispatch_def results split: prod.splits)
  have "\<exists>identity guard t w2. finalize_execution answers route identity guard t (an_outcome answers) w2 =
      (Inr (AttemptFailed failed), w')"
    using assms(1) no by (auto simp: execute_route_def split: prod.splits sum.splits option.splits)
  then obtain identity guard t w2 where f: "finalize_execution answers route identity guard t (an_outcome answers) w2 =
      (Inr (AttemptFailed failed), w')" by blast
  show ?thesis
  proof (cases "an_outcome answers")
    case (OutcomeAccepted commitment)
    with f success_never_fails show ?thesis by (metis finalize_execution_def fst_conv ProviderExecutionOutcome.simps(10))
  next
    case (OutcomeFailed acceptance commitment failure)
    with f finalize_failure_clock assms(2) show ?thesis by (simp add: finalize_execution_def)
  next
    case (OutcomeInterrupted acceptance commitment interruption)
    with f interruption_never_fails show ?thesis by (metis finalize_execution_def fst_conv ProviderExecutionOutcome.simps(12))
  qed
qed

section \<open>Requests from the past\<close>

abbreviation time_of :: "CoordinationRequest \<Rightarrow> MonotonicTime" where
  "time_of request \<equiv> tm_monotonic_now (tp_times (cq_admission request))"

lemma try_admit_past:
  assumes "now < last_now (ci_state c)" and "try_admit request now c = (r, c')"
  shows "(\<exists>e. r = Inl e) \<and> c' = c"
  using assms
  by (auto simp: try_admit_def inner_prepare_admission_def bind_update_def lift_result_def with_lock_def
      state_prepare_admission_def observe_and_expire_def split: sum.splits if_splits)

lemma engine_admit_past:
  assumes "time_of request < clock_of s" and "engine_admit request selected exclusions s = (r, s')"
  shows "(\<exists>e. r = Inl e) \<and> s' = s"
proof (cases "admission_request request selected")
  case (Inr q)
  then have "rar_monotonic_now q = time_of request"
    by (auto simp: admission_request_def results Let_def)
  moreover obtain a c where a: "try_admit (rar_rate q) (rar_monotonic_now q) (rac_rate s) = (a, c)" by fastforce
  ultimately have "(\<exists>e. a = Inl e) \<and> c = rac_rate s" using try_admit_past assms(1) by metis
  with a have "(\<exists>e. fst (admit q s) = Inl e) \<and> snd (admit q s) = s"
    by (auto simp: admit_def bind_update_def lift_result_def on_rate_def split: sum.splits)
  with assms(2) Inr show ?thesis by (auto simp: engine_admit_def split: prod.splits sum.splits)
qed (use assms(2) in \<open>auto simp: engine_admit_def\<close>)

lemma coordinate_past:
  assumes "time_of request < clock_of s" and "coordinate coordinator select request pool s = (r, s')"
  shows "(\<exists>e. r = Inl e) \<and> s' = s"
  using assms(2)
proof (cases rule: coordinate_cases)
  case coordinated
  then show ?thesis
    by (cases rule: engine_coordinate_cases) (auto dest: engine_admit_past [OF assms(1)])
qed simp

lemma coordinate_target_past:
  assumes "time_of request < clock_of (wld_stores w)" and "coordinate_target env request target w = (r, w')"
  shows "(\<exists>e. r = Inl e) \<and> w' = w"
proof -
  have "(\<exists>e. q = Inl e) \<and> w1 = w" if "coordinate_pool env request pool w = (q, w1)" for pool q w1
    using that coordinate_past [OF assms(1)] by (fastforce simp: coordinate_pool_def split: prod.splits)
  with assms(2) show ?thesis
    by (fastforce simp: coordinate_target_def Let_def split: sum.splits prod.splits if_splits)
qed

lemma prepare_retry_past:
  assumes "prepare_retry env directive remainder w = (r, w')"
    and "\<forall>request \<in> set (er_remaining_coordination remainder). time_of request < clock_of (wld_stores w)"
  shows "\<nexists>st. r = Inr (LoopContinue st)"
  using assms
proof (induction rule: prepare_retry_walk)
  case (routed directive remainder w attempt request rest route w')
  then have "time_of request < clock_of (wld_stores w)" by (auto simp: take_retry_slot_Some)
  from coordinate_target_past [OF this routed(2)] show ?case by simp
next
  case (again directive remainder w attempt request rest refusal ctx w1 candidate r w')
  then have "time_of request < clock_of (wld_stores w)" by (auto simp: take_retry_slot_Some)
  from coordinate_target_past [OF this again(2)] have "w1 = w" by simp
  with again show ?case by (auto simp: take_retry_slot_Some)
qed auto

text \<open>
  A continuation of the loop: some remaining request was built with a time not before the settlement of
  the attempt.
\<close>

lemma run_state_continues_later:
  assumes "run_state env st w = (Inr (LoopContinue st'), w')"
    and "an_final_clock (env_answers env (es_attempt st)) = Some now"
  shows "\<exists>request \<in> set (er_remaining_coordination (es_remainder st)). now \<le> time_of request"
proof (rule ccontr)
  assume "\<not> ?thesis"
  then have past: "\<forall>request \<in> set (er_remaining_coordination (es_remainder st)). time_of request < now" by auto
  obtain failed w1 where p: "execute_route (env_runtime env) (env_answers env (es_attempt st)) (env_request_id env)
      (es_route st) (es_attempt st) (env_loaded env) w = (Inr (AttemptFailed failed), w1)"
    and adv: "advance_failed env failed (es_remainder st) w1 = (Inr (LoopContinue st'), w')"
    using assms(1) by (auto simp: run_state_def Let_def split: prod.splits sum.splits AttemptProgress.splits)
  have now: "clock_of (wld_stores w1) = now" by (rule execute_route_failed_clock [OF p assms(2)])
  obtain remainder directive where "prepare_retry env directive remainder w1 = (Inr (LoopContinue st'), w')"
    "er_remaining_coordination remainder = er_remaining_coordination (es_remainder st)"
    using adv by (auto simp: advance_failed_def advance_failed_inner_def Let_def split: prod.splits sum.splits option.splits)
  from prepare_retry_past [OF this(1)] this(2) past now show False by simp
qed

end
