(* ===== verification/Runtime_Properties.thy ===== *)
theory Runtime_Properties
  imports Runtime_Demo Runtime_Binding Runtime_Clock
begin

text \<open>
  The properties of a whole execution, over every answer of its ports and every state of the stores and
  of the probe registry, with the concrete execution of \<open>Runtime_Demo\<close> as their witness.
\<close>

lemma execute_cases [consumes 1, case_names unloaded loaded]:
  assumes "execute runtime select request_id loading answers request w = (r, w')"
  obtains e where "r = Inl e" "bare e" "w' = w"
  | loaded where "bind_result (authenticated_tenant (lan_entered loading) (lan_principal loading)) (load_state loading) = Inr loaded"
      "execute_loaded \<lparr>env_runtime = runtime, env_selector = select, env_loaded = loaded, env_request_id = request_id,
         env_answers = answers\<rparr> (rrq_schedule request) (rrq_coordination request) w = (r, w')"
proof (cases "bind_result (authenticated_tenant (lan_entered loading) (lan_principal loading)) (load_state loading)")
  case (Inl e)
  then have "bare e"
  proof -
    have "bare_result (bind_result (authenticated_tenant (lan_entered loading) (lan_principal loading)) (load_state loading))"
      unfolding authenticated_tenant_def load_state_def pool_generation_def validate_projection_def
      by (intro bare_result_bind bare_result_map_err bare_maps bare_checks bare_result_simps) auto
    with Inl show ?thesis by (simp add: bare_result_def)
  qed
  with Inl assms that(1) show thesis by (auto simp: execute_def)
next
  case (Inr loaded)
  with assms that(2) show thesis by (auto simp: execute_def)
qed

lemma subseq_distinct: "subseq xs ys \<Longrightarrow> distinct ys \<Longrightarrow> distinct xs"
  by (auto simp: subseq_conv_nths distinct_nthsI)

lemma unique_attempts_ok: "unique_attempts seen as = Inr () \<longleftrightarrow> distinct as \<and> set as \<inter> set seen = {}"
  by (induction as arbitrary: seen) auto

lemma AttemptSchedule_new_iff:
  "AttemptSchedule_new ids = Inr attempts \<longleftrightarrow> attempts = ids \<and> ids \<noteq> [] \<and> distinct ids \<and> length ids \<le> 8"
  by (auto simp: AttemptSchedule_new_def MAX_RUNTIME_ATTEMPTS_def MAX_ATTEMPTS_def unique_attempts_ok results)

lemma demo_schedule: "AttemptSchedule_new [''x1'', ''x2''] = Inr (rrq_schedule demo_runtime_request)"
  by (simp add: AttemptSchedule_new_iff demo_runtime_request_def)

lemma demo_executes:
  "execute demo_runtime demo_selector ''q'' demo_loading demo_ports demo_runtime_request demo_world = (fst demo_run, snd demo_run)"
  by (simp add: demo_run_def)

lemma demo_dispatched: "wld_dispatched demo_world = []"
  by (simp add: demo_world_def)

section \<open>Reconciliation\<close>

text \<open>
  C13: Reconciliation evidence is exact. Whatever the outcome, success, failure or error, the accepted
  attempts an execution reports are exactly those of its dispatches whose answer accepted the work (a
  success, an explicit acceptance, or a first byte against a denied acceptance), in the order of the
  dispatches; no attempt identity is dispatched twice and at most eight are.
\<close>

theorem reconciliation_evidence_is_exact:
  assumes "AttemptSchedule_new ids = Inr (rrq_schedule request)"
    and "execute runtime select request_id loading answers request w = (r, w')"
  shows "\<exists>ds. wld_dispatched w' = wld_dispatched w @ ds
    \<and> evidence r = filter (\<lambda>d. outcome_accepted (an_outcome (answers (attempt_of d)))) ds
    \<and> distinct (map attempt_of ds) \<and> length ds \<le> 8"
  using assms(2)
proof (cases rule: execute_cases)
  case (unloaded e)
  then show ?thesis by (auto simp: evidence_def)
next
  case (loaded state)
  from execute_loaded_log [OF loaded(2)] obtain ds where ds: "wld_dispatched w' = wld_dispatched w @ ds"
    "evidence r = filter (\<lambda>d. outcome_accepted (an_outcome (answers (attempt_of d)))) ds"
    "subseq (map attempt_of ds) (rrq_schedule request)" by (auto simp: accepted_by_def [abs_def])
  moreover have "distinct (rrq_schedule request)" "length (rrq_schedule request) \<le> 8"
    using assms(1) by (auto simp: AttemptSchedule_new_iff)
  ultimately show ?thesis
    using subseq_distinct [OF ds(3)] list_emb_length [OF ds(3)] by auto
qed

theorem reconciliation_evidence_is_exact_witness:
  "evidence (fst demo_run) = [demo_identity ''b'' ''x2'']"
proof -
  obtain ds where "wld_dispatched (snd demo_run) = wld_dispatched demo_world @ ds"
    "evidence (fst demo_run) = filter (\<lambda>d. outcome_accepted (an_outcome (demo_ports (attempt_of d)))) ds"
    using reconciliation_evidence_is_exact [OF demo_schedule demo_executes] by blast
  moreover from this(1) have "ds = [demo_identity ''a'' ''x1'', demo_identity ''b'' ''x2'']"
    by (simp add: demo_dispatches demo_dispatched)
  ultimately show ?thesis
    by (simp add: demo_ports_def demo_identity_def attempt_of_def demo_answers_def)
qed

section \<open>Retries\<close>

lemma follows_plan_positions:
  assumes "plan_of request primary rp" and "follows_plan env rp ds"
  shows "\<exists>cs ps. distinct cs \<and> length cs \<le> 32 \<and> map pai_candidate ds = map ((!) cs) ps
    \<and> sorted ps \<and> set ps \<subseteq> {..< length cs}"
proof (intro exI conjI)
  let ?cs = "fp_candidates (rrp_plan rp)" and ?ps = "map (\<lambda>d. place rp (pai_candidate d)) ds"
  show "distinct ?cs" "length ?cs \<le> 32" using assms(1) by (auto simp: plan_of_def plan_ok_def)
  show "map pai_candidate ds = map ((!) ?cs) ?ps" "set ?ps \<subseteq> {..< length ?cs}"
    using assms(2) on_plan_nth by (auto simp: follows_plan_def)
  show "sorted ?ps" using assms(2) by (simp add: follows_plan_def)
qed

text \<open>
  C16: Retries are safe and bounded. An execution dispatches at most as often as the retry policy of its
  first request allows; every dispatch that is followed by another is of an operation that may be
  repeated and failed retryably before its first byte; and the dispatches walk forward through one
  duplicate-free list of at most 32 candidates.
\<close>

theorem retries_are_safe_and_bounded:
  assumes "rrq_coordination request = first # rest"
    and "execute runtime select request_id loading answers request w = (r, w')"
  shows "\<exists>ds. wld_dispatched w' = wld_dispatched w @ ds
    \<and> length ds \<le> unat (rtp_max_attempts (cq_retry first))
    \<and> (\<forall>d \<in> set (butlast ds). permits_retry (rtp_operation (cq_retry first))
        \<and> (\<exists>acceptance failure. an_outcome (answers (attempt_of d)) = OutcomeFailed acceptance Uncommitted failure
             \<and> is_retryable failure))
    \<and> (\<exists>cs ps. distinct cs \<and> length cs \<le> 32 \<and> map pai_candidate ds = map ((!) cs) ps
        \<and> sorted ps \<and> set ps \<subseteq> {..< length cs})"
  using assms(2)
proof (cases rule: execute_cases)
  case (loaded state)
  let ?env = "\<lparr>env_runtime = runtime, env_selector = select, env_loaded = state, env_request_id = request_id,
    env_answers = answers\<rparr>"
  obtain ds rp primary where ds: "wld_dispatched w' = wld_dispatched w @ ds"
    "ds \<noteq> [] \<longrightarrow> plan_of first primary rp \<and> follows_plan ?env rp ds \<and> length ds \<le> limit_of rp"
    using execute_loaded_follows [OF loaded(2) [unfolded assms(1)]] by auto
  show ?thesis
  proof (cases "ds = []")
    case False
    then have plan: "plan_of first primary rp" "follows_plan ?env rp ds" "length ds \<le> limit_of rp" using ds(2) by auto
    with ds(1) follows_plan_positions [OF plan(1,2)] show ?thesis
      by (intro exI [of _ ds]) (auto simp: plan_of_def follows_plan_def retry_safe_def)
  qed (use ds(1) in \<open>auto intro!: exI [of _ "[]"]\<close>)
qed (auto intro!: exI [of _ "[]"])

theorem retries_are_safe_and_bounded_witness:
  "length (wld_dispatched (snd demo_run)) = 2 \<and> permits_retry Idempotent
   \<and> (\<exists>acceptance failure. an_outcome (demo_ports ''x1'') = OutcomeFailed acceptance Uncommitted failure
        \<and> is_retryable failure)"
proof -
  have "rrq_coordination demo_runtime_request = demo_request ''r1'' 10 # [demo_request ''r2'' 35]"
    by (simp add: demo_runtime_request_def)
  from retries_are_safe_and_bounded [OF this demo_executes] obtain ds where
    "wld_dispatched (snd demo_run) = wld_dispatched demo_world @ ds"
    "\<forall>d \<in> set (butlast ds). permits_retry (rtp_operation (cq_retry (demo_request ''r1'' 10)))
        \<and> (\<exists>acceptance failure. an_outcome (demo_ports (attempt_of d)) = OutcomeFailed acceptance Uncommitted failure
             \<and> is_retryable failure)" by blast
  moreover from this(1) have "ds = [demo_identity ''a'' ''x1'', demo_identity ''b'' ''x2'']"
    by (simp add: demo_dispatches demo_dispatched)
  ultimately show ?thesis
    by (simp add: demo_dispatches demo_request_def demo_identity_def attempt_of_def)
qed

section \<open>Leases\<close>

lemma execute_run:
  assumes "execute runtime select request_id loading answers request w = (r, w')"
    and "units_ok (rrq_coordination request)"
  shows "world_run w L w' L"
  using assms(1) by (cases rule: execute_cases) (auto intro: execute_loaded_run [OF _ assms(2)])

lemma execute_tracked:
  assumes "execute runtime select request_id loading answers request w = (r, w')"
    and "units_ok (rrq_coordination request)"
    and "reachable routing_init routing_step \<lparr>rw_stores = wld_stores w, rw_leases = L\<rparr>"
    and "unpoisoned (wld_stores w)"
  shows "tracked (wld_stores w) \<lparr>rw_stores = wld_stores w', rw_leases = []\<rparr>"
proof -
  obtain ls where "run routing_step \<lparr>rw_stores = wld_stores w, rw_leases = []\<rparr> ls
      \<lparr>rw_stores = wld_stores w', rw_leases = []\<rparr>" "\<forall>l \<in> set ls. own_call l"
    using execute_run [OF assms(1,2), of "[]"] by (auto simp: world_run_def lease_run_def)
  moreover have "routing_inv \<lparr>rw_stores = wld_stores w, rw_leases = []\<rparr>"
    using reachable_routing(2,3) [OF assms(3)] by (simp add: routing_inv_def)
  ultimately show ?thesis using tracked_run tracked_start [OF _ assms(4)] by blast
qed

lemma demo_stores_reachable: "reachable routing_init routing_step \<lparr>rw_stores = wld_stores demo_world, rw_leases = []\<rparr>"
proof -
  have "policies_ok demo_limits"
    by (simp add: policies_ok_def demo_limits_def demo_policies_def ordered_map_def demo_key_order policy_ok_def
        rate_rule_ok_def concurrency_rule_ok_def limit_constants)
  then have "controller_init (AdmissionController_new demo_limits 0)"
    by (auto simp: controller_init_def AdmissionController_new_def)
  moreover have "BudgetBook_new [\<lparr>bp_id = ''ten'', bp_scope = TenantScope ''t'',
      bp_limit = \<lparr>currency = ''EUR'', minor_units = 50\<rparr>, bp_enforcement = Hard\<rparr>] = Inr demo_book"
    by (simp add: budget_exec demo_book_def)
  ultimately show ?thesis
    by (intro reachable_init) (auto simp: routing_init_def demo_world_def demo_stores_def budget_init_def)
qed

lemma demo_stores_fresh:
  "unpoisoned (wld_stores demo_world)" "leases (ci_state (rac_rate (wld_stores demo_world))) = []"
  "reservations (bk_state (rac_budget (wld_stores demo_world))) = []"
  by (simp_all add: unpoisoned_def demo_world_def demo_stores_def demo_book_def AdmissionController_new_def ControllerState_new_def)

text \<open>
  C18: An execution settles every lease it takes. Start it on any state of the two stores that their
  users can reach, whatever leases others hold there. Whatever its ports answer and however it ends, a
  rate lease that is uncommitted afterwards and a reservation that is reserved afterwards were in the
  stores before, unchanged: the capacity it took is charged or given back before it returns. And it
  touches the capacity of no one else: a rate lease that was there is unchanged or has passed its expiry,
  and a reservation that was there is unchanged or has expired.
\<close>

theorem execution_settles_every_lease:
  assumes "units_ok (rrq_coordination request)"
    and "reachable routing_init routing_step \<lparr>rw_stores = wld_stores w, rw_leases = L\<rparr>"
    and "unpoisoned (wld_stores w)"
    and "execute runtime select request_id loading answers request w = (r, w')"
    and "before = ci_state (rac_rate (wld_stores w))" and "after = ci_state (rac_rate (wld_stores w'))"
    and "book = bk_state (rac_budget (wld_stores w))" and "book' = bk_state (rac_budget (wld_stores w'))"
  shows "(\<forall>i a. map_of (leases after) i = Some a \<and> \<not> l_rate_committed a \<longrightarrow> map_of (leases before) i = Some a)
    \<and> (\<forall>rid rec. map_of (reservations book') rid = Some rec \<and> rec_state rec = Reserved \<longrightarrow>
         map_of (reservations book) rid = Some rec)
    \<and> (\<forall>i a. map_of (leases before) i = Some a \<longrightarrow>
         map_of (leases after) i = Some a \<or> map_of (leases after) i = None \<and> l_expires_at a \<le> last_now after)
    \<and> (\<forall>rid rec. map_of (reservations book) rid = Some rec \<longrightarrow>
         map_of (reservations book') rid = Some rec
         \<or> rec_state rec = Reserved \<and> map_of (reservations book') rid = Some (rec\<lparr>rec_state := Expired\<rparr>))"
proof -
  note run = execute_tracked [OF assms(4,1-3)]
  have inv: "ledger_ok (ci_policies (rac_rate (wld_stores w))) before"
    using controller_inv_state(1) [OF reachable_routing(2) [OF assms(2)]] assms(5) by simp
  have "rate_covered [] before after" "budget_covered [] book book'" "leases_kept {} before after"
    "records_kept {} book book'"
    using run assms(5-8) by (simp_all add: tracked_def)
  moreover have "i \<le> next_identity before" if "map_of (leases before) i = Some a" for i a
    by (rule ledger_leaseD(5) [OF inv that])
  ultimately show ?thesis
    unfolding rate_covered_def budget_covered_def leases_kept_def records_kept_def by fastforce
qed

theorem execution_settles_every_lease_witness:
  "(\<nexists>i a. map_of (leases (ci_state (rac_rate (wld_stores (snd demo_run))))) i = Some a \<and> \<not> l_rate_committed a)
   \<and> (\<nexists>rid rec. map_of (reservations (bk_state (rac_budget (wld_stores (snd demo_run))))) rid = Some rec
        \<and> rec_state rec = Reserved)"
proof -
  have "units_ok (rrq_coordination demo_runtime_request)"
    by (simp add: demo_runtime_request_def demo_request_def)
  from execution_settles_every_lease [OF this demo_stores_reachable demo_stores_fresh(1) demo_executes refl refl refl refl]
  show ?thesis using demo_stores_fresh(2,3) by auto
qed

section \<open>Circuits\<close>

text \<open>
  An execution touches circuits through their calls alone. It keeps the keys and the issuers of the
  probe registry, and if every registered circuit was in a state its own calls can reach, then so is
  every circuit afterwards.
\<close>

theorem execution_keeps_circuits_reachable:
  assumes "units_ok (rrq_coordination request)" and "registry_ok (wld_probes w)"
    and "\<forall>reg \<in> set (cpg_registrations (wld_probes w)). reachable circuit_init circuit_step (cpr_circuit reg)"
    and "execute runtime select request_id loading answers request w = (r, w')"
  shows "map (\<lambda>reg. (cpr_key reg, cpr_issuer reg)) (cpg_registrations (wld_probes w')) =
      map (\<lambda>reg. (cpr_key reg, cpr_issuer reg)) (cpg_registrations (wld_probes w))
    \<and> (\<forall>reg \<in> set (cpg_registrations (wld_probes w')). reachable circuit_init circuit_step (cpr_circuit reg))"
proof -
  have "list_all2 circuit_runs (cpg_registrations (wld_probes w)) (cpg_registrations (wld_probes w'))"
    using execute_run [OF assms(4,1), of "[]"] assms(2) by (simp add: world_run_def probe_run_def)
  then show ?thesis
    using assms(3)
    by (induction rule: list_all2_induct) (auto simp: circuit_runs_def intro: reachable_run)
qed

theorem execution_keeps_circuits_reachable_witness:
  "list_all (\<lambda>reg. reachable circuit_init circuit_step (cpr_circuit reg))
     (cpg_registrations (wld_probes (snd demo_run)))
   \<and> length (cpg_registrations (wld_probes (snd demo_run))) = length (cpg_registrations (wld_probes demo_world))"
proof -
  have "units_ok (rrq_coordination demo_runtime_request)"
    by (simp add: demo_runtime_request_def demo_request_def)
  moreover have "registry_ok (wld_probes demo_world)"
    by (simp add: registry_ok_def demo_world_def demo_registry_def demo_circuit_key_def MAX_CIRCUIT_PROBE_ACCOUNTS_def)
  moreover have "circuit_init (AccountCircuit_new name ex_circuit_policy)" for name
    by (simp add: circuit_init_def AccountCircuit_new_def ex_circuit_policy_ok)
  then have "\<forall>reg \<in> set (cpg_registrations (wld_probes demo_world)). reachable circuit_init circuit_step (cpr_circuit reg)"
    by (simp add: demo_world_def demo_registry_def reachable_init)
  ultimately have "map (\<lambda>reg. (cpr_key reg, cpr_issuer reg)) (cpg_registrations (wld_probes (snd demo_run))) =
      map (\<lambda>reg. (cpr_key reg, cpr_issuer reg)) (cpg_registrations (wld_probes demo_world))
    \<and> (\<forall>reg \<in> set (cpg_registrations (wld_probes (snd demo_run))). reachable circuit_init circuit_step (cpr_circuit reg))"
    by (rule execution_keeps_circuits_reachable [OF _ _ _ demo_executes])
  then show ?thesis unfolding list_all_iff using map_eq_imp_length_eq by blast
qed

section \<open>Tenants\<close>

text \<open>
  C19: Dispatches stay within the tenant. Whatever an execution dispatches carries the authenticated
  tenant and the identity of the request, goes to a candidate of the loaded pool that belongs to that
  tenant and to its account, provider and model, and uses a secret leased for a credential of that
  account which was valid and was read back unchanged.
\<close>

theorem dispatches_stay_within_the_tenant:
  assumes "execute runtime select request_id loading answers request w = (r, w')"
    and "d \<in> set (wld_dispatched w')" and "d \<notin> set (wld_dispatched w)"
  shows "\<exists>loaded candidate. lan_principal loading = Some (ls_tenant loaded) \<and> lan_pool loading = Some (ls_pool loaded)
    \<and> uc_tenant (pai_usage_confirmation d) = ls_tenant loaded \<and> uc_request (pai_usage_confirmation d) = request_id
    \<and> bound_candidate loaded d candidate \<and> bound_credential loaded (answers (attempt_of d)) d"
  using assms(1)
proof (cases rule: execute_cases)
  case (loaded state)
  have "lan_principal loading = Some (ls_tenant state)" "lan_pool loading = Some (ls_pool state)"
    using loaded(1) by (auto simp: authenticated_tenant_def load_state_def results)
  with execute_loaded_bound [OF loaded(2) assms(2,3)] show ?thesis by (auto simp: bound_dispatch_def)
qed (use assms in auto)

theorem dispatches_stay_within_the_tenant_witness:
  "\<exists>loaded candidate. ls_tenant loaded = ''t'' \<and> bound_candidate loaded (demo_identity ''b'' ''x2'') candidate"
proof -
  have "demo_identity ''b'' ''x2'' \<in> set (wld_dispatched (snd demo_run))"
    "demo_identity ''b'' ''x2'' \<notin> set (wld_dispatched demo_world)"
    by (simp_all add: demo_dispatches demo_dispatched)
  from dispatches_stay_within_the_tenant [OF demo_executes this] show ?thesis by (auto simp: demo_loading_def)
qed

section \<open>Clocks\<close>

lemma execute_loop_past:
  assumes "execute_loop env st w = (r, w')" and "an_final_clock (env_answers env (es_attempt st)) = Some now"
    and "\<forall>request \<in> set (er_remaining_coordination (es_remainder st)). time_of request < now"
  shows "length (wld_dispatched w') \<le> Suc (length (wld_dispatched w))"
proof -
  obtain c w1 where c: "run_state env st w = (c, w1)" by fastforce
  then have "\<nexists>st'. c = Inr (LoopContinue st')"
    using run_state_continues_later assms(2,3) by (metis leD)
  then have "w' = w1"
    using c assms(1) by (auto simp: execute_loop.simps [of env st] split: sum.splits LoopControl.splits)
  with run_state_dispatch [OF c] show ?thesis by auto
qed

lemma prepare_retry_remaining:
  assumes "prepare_retry env directive remainder w = (Inr (LoopContinue st), w')"
  shows "set (er_remaining_coordination (es_remainder st)) \<subseteq> set (er_remaining_coordination remainder)"
proof -
  have "r = Inr (LoopContinue st) \<longrightarrow>
      set (er_remaining_coordination (es_remainder st)) \<subseteq> set (er_remaining_coordination remainder)"
    if "prepare_retry env directive remainder w = (r, w')" for r
    using that by (induction rule: prepare_retry_walk) (auto simp: take_retry_slot_Some)
  with assms show ?thesis by blast
qed

lemma start_state_remaining:
  assumes "start_state env attempts qs w = (Inr (LoopContinue st), w')"
  shows "set (er_remaining_coordination (es_remainder st)) \<subseteq> set qs"
  using assms
proof (cases rule: start_state_cases)
  case (refused attempt as request qs' refusal ctx w1 directive remainder)
  from refused(6) show ?thesis
  proof (cases rule: retry_after_admission_cases)
    case (retried candidate)
    from prepare_retry_remaining [OF retried(2)] refused(2,5) show ?thesis by auto
  qed simp
qed auto

text \<open>
  C36: Failover needs admission times from the future. The coordination requests of an execution carry
  monotonic times read when they were built, and the rate controller refuses a time before the latest it
  was shown. If the clock answers every settlement with a later time than all of them, then an execution
  dispatches at most once: whatever its retry policy, every retry after a dispatch is refused.
\<close>

theorem failover_needs_future_times:
  assumes "\<forall>attempt \<in> set (rrq_schedule request). \<exists>now. an_final_clock (answers attempt) = Some now
      \<and> (\<forall>q \<in> set (rrq_coordination request). tm_monotonic_now (tp_times (cq_admission q)) < now)"
    and "execute runtime select request_id loading answers request w = (r, w')"
  shows "length (wld_dispatched w') \<le> Suc (length (wld_dispatched w))"
  using assms(2)
proof (cases rule: execute_cases)
  case (loaded state)
  let ?env = "\<lparr>env_runtime = runtime, env_selector = select, env_loaded = state, env_request_id = request_id,
    env_answers = answers\<rparr>"
  obtain c w1 where c: "start_state ?env (rrq_schedule request) (rrq_coordination request) w = (c, w1)" by fastforce
  note log = start_state_log [OF c]
  show ?thesis
  proof (cases "\<exists>st. c = Inr (LoopContinue st)")
    case True
    then obtain st where st: "c = Inr (LoopContinue st)" by blast
    then obtain now where now: "an_final_clock (answers (es_attempt st)) = Some now"
      "\<forall>q \<in> set (rrq_coordination request). time_of q < now" using log assms(1) by fastforce
    have "execute_loop ?env st w1 = (r, w')" using loaded(2) c st by (simp add: execute_loaded_def)
    from execute_loop_past [OF this] start_state_remaining [OF c [unfolded st]] now log show ?thesis by auto
  next
    case False
    then have "w' = w1" using loaded(2) c by (auto simp: execute_loaded_def split: sum.splits LoopControl.splits)
    with log show ?thesis by simp
  qed
qed auto

definition stale_request :: RuntimeRequest where
  "stale_request =
     \<lparr>rrq_schedule = [''x1'', ''x2''], rrq_coordination = [demo_request ''r1'' 10, demo_request ''r2'' 11]\<rparr>"

theorem failover_needs_future_times_witness:
  "length (wld_dispatched (snd (execute demo_runtime demo_selector ''q'' demo_loading demo_ports stale_request demo_world))) \<le> 1"
proof -
  have "\<forall>attempt \<in> set (rrq_schedule stale_request). \<exists>now. an_final_clock (demo_ports attempt) = Some now
      \<and> (\<forall>q \<in> set (rrq_coordination stale_request). tm_monotonic_now (tp_times (cq_admission q)) < now)"
    by (simp add: stale_request_def demo_ports_def demo_answers_def demo_request_def)
  from failover_needs_future_times [OF this prod.collapse [symmetric],
    of demo_runtime demo_selector "''q''" demo_loading demo_world] show ?thesis by (simp add: demo_dispatched)
qed

end
