(* ===== verification/Routing_Wasm.thy ===== *)
theory Routing_Wasm
  imports Core_Ids Core_Resource Slices
begin

text \<open>
  The contract of \<open>ariadnion-routing-wasm\<close> between the coordinator and a routing policy that runs in
  a WebAssembly component: bounded policies and descriptors, the candidate features a policy sees, the
  result it gives and the check of its output (\<open>lib.rs\<close>), and how the runtime turns a guest's decision
  or a failure into a result (\<open>runtime.rs\<close>). Running the component is the business of Wasmtime; an
  evaluator is an argument where the coordinator calls it.
\<close>

section \<open>Policies and descriptors\<close>

definition WASM_MAX_CANDIDATES :: nat where "WASM_MAX_CANDIDATES = 2 ^ 12"
definition MAX_FEATURES_PER_CANDIDATE :: nat where "MAX_FEATURES_PER_CANDIDATE = 2 ^ 6"
definition MAX_IDENTIFIER_BYTES :: nat where "MAX_IDENTIFIER_BYTES = 2 ^ 8"

datatype RoutingWasmErrorCode =
  WasmUnavailable | WasmTimeout | WasmTrap | WasmInvalidOutput | WasmResourceExhausted | WasmInvalidArgument

fun RoutingWasmErrorCode_as_str :: "RoutingWasmErrorCode \<Rightarrow> string" where
  "RoutingWasmErrorCode_as_str WasmUnavailable = ''ROUTING_WASM_UNAVAILABLE''"
| "RoutingWasmErrorCode_as_str WasmTimeout = ''ROUTING_WASM_TIMEOUT''"
| "RoutingWasmErrorCode_as_str WasmTrap = ''ROUTING_WASM_TRAP''"
| "RoutingWasmErrorCode_as_str WasmInvalidOutput = ''ROUTING_WASM_INVALID_OUTPUT''"
| "RoutingWasmErrorCode_as_str WasmResourceExhausted = ''ROUTING_WASM_RESOURCE_EXHAUSTED''"
| "RoutingWasmErrorCode_as_str WasmInvalidArgument = ''ROUTING_WASM_INVALID_ARGUMENT''"

record HostCapabilities =
  hc_filesystem :: bool
  hc_network :: bool
  hc_clock :: bool
  hc_randomness :: bool
  hc_secrets :: bool

definition HostCapabilities_isolated :: HostCapabilities where
  "HostCapabilities_isolated =
     \<lparr>hc_filesystem = False, hc_network = False, hc_clock = False, hc_randomness = False, hc_secrets = False\<rparr>"

record RoutingWasmPolicy =
  rwp_budget :: WasmBudget
  rwp_host :: HostCapabilities

definition RoutingWasmPolicy_new ::
  "u64 \<Rightarrow> u64 \<Rightarrow> nat \<Rightarrow> HostCapabilities \<Rightarrow> (RoutingWasmErrorCode, RoutingWasmPolicy) result" where
  "RoutingWasmPolicy_new fuel max_memory_bytes epoch_timeout host =
     (if host \<noteq> HostCapabilities_isolated then Inl WasmInvalidArgument
      else bind_result (map_err (\<lambda>_. WasmInvalidArgument)
             (wasm_budget_limited \<lparr>wi_fuel = fuel, wi_max_memory_bytes = max_memory_bytes, wi_epoch_timeout = epoch_timeout\<rparr>))
             (\<lambda>budget. Inr \<lparr>rwp_budget = budget, rwp_host = host\<rparr>))"

definition identifier_shape_invalid :: "string \<Rightarrow> bool" where
  "identifier_shape_invalid value \<longleftrightarrow> value = [] \<or> MAX_IDENTIFIER_BYTES < length value \<or> \<not> is_ascii value"

definition is_forbidden_identifier_byte :: "char \<Rightarrow> bool" where
  "is_forbidden_identifier_byte c \<longleftrightarrow>
     (of_char c :: nat) < 32 \<or> (of_char c :: nat) = 127 \<or> c = CHR ''/'' \<or> c = CHR 0x5c"

definition validate_identifier :: "string \<Rightarrow> (RoutingWasmErrorCode, unit) result" where
  "validate_identifier value =
     (if identifier_shape_invalid value then Inl WasmInvalidArgument
      else if list_ex is_forbidden_identifier_byte value then Inl WasmInvalidArgument
      else Inr ())"

record RoutingWasmModuleDescriptor =
  rwd_name :: string
  rwd_version :: string
  rwd_abi_version :: u16
  rwd_policy :: RoutingWasmPolicy

definition RoutingWasmModuleDescriptor_new ::
  "string \<Rightarrow> string \<Rightarrow> u16 \<Rightarrow> RoutingWasmPolicy \<Rightarrow> (RoutingWasmErrorCode, RoutingWasmModuleDescriptor) result" where
  "RoutingWasmModuleDescriptor_new name version abi_version policy =
     bind_result (validate_identifier name) (\<lambda>_.
     bind_result (validate_identifier version) (\<lambda>_.
       if abi_version = 0 then Inl WasmInvalidArgument
       else Inr \<lparr>rwd_name = name, rwd_version = version, rwd_abi_version = abi_version, rwd_policy = policy\<rparr>))"

section \<open>Inputs and outputs\<close>

text \<open>The values are \<open>i64\<close>.\<close>

record CandidateFeatures =
  cf_candidate_id :: string
  cf_values :: "int list"

definition CandidateFeatures_new :: "string \<Rightarrow> int list \<Rightarrow> (RoutingWasmErrorCode, CandidateFeatures) result" where
  "CandidateFeatures_new candidate_id values =
     bind_result (validate_identifier candidate_id) (\<lambda>_.
       if MAX_FEATURES_PER_CANDIDATE < length values then Inl WasmResourceExhausted
       else Inr \<lparr>cf_candidate_id = candidate_id, cf_values = values\<rparr>)"

record RoutingWasmInput =
  rwi_candidates :: "CandidateFeatures list"

fun out_of_order :: "'a::linorder list \<Rightarrow> bool" where
  "out_of_order (x # y # ys) \<longleftrightarrow> y \<le> x \<or> out_of_order (y # ys)"
| "out_of_order _ \<longleftrightarrow> False"

definition RoutingWasmInput_new :: "CandidateFeatures list \<Rightarrow> (RoutingWasmErrorCode, RoutingWasmInput) result" where
  "RoutingWasmInput_new candidates =
     (if candidates = [] \<or> WASM_MAX_CANDIDATES < length candidates then Inl WasmInvalidArgument
      else if out_of_order (map cf_candidate_id candidates) then Inl WasmInvalidArgument
      else Inr \<lparr>rwi_candidates = candidates\<rparr>)"

datatype RoutingWasmOutput = WasmSelect string | WasmDecline

datatype RoutingWasmDegradation =
  DegradedUnavailable | DegradedResourceExhausted | DegradedTimeout | DegradedTrap | DegradedInvalidOutput

datatype RoutingWasmResult = WasmApplied RoutingWasmOutput | WasmDegraded RoutingWasmDegradation

text \<open>An evaluator: its answer to every input.\<close>

type_synonym routing_evaluator = "RoutingWasmInput \<Rightarrow> (RoutingWasmErrorCode, RoutingWasmResult) result"

definition validate_output :: "RoutingWasmInput \<Rightarrow> RoutingWasmOutput \<Rightarrow> (RoutingWasmErrorCode, RoutingWasmOutput) result" where
  "validate_output input answer =
     (case answer of
        WasmSelect candidate \<Rightarrow>
          if \<not> list_ex (\<lambda>entry. cf_candidate_id entry = candidate) (rwi_candidates input) then Inl WasmInvalidOutput
          else Inr answer
      | WasmDecline \<Rightarrow> Inr answer)"

section \<open>Projection of a guest's decision\<close>

datatype guest_decision = GuestDecline | GuestSelect u32

definition project_selection :: "u32 \<Rightarrow> string list \<Rightarrow> RoutingWasmResult" where
  "project_selection index candidates =
     (if unat index < length candidates then WasmApplied (WasmSelect (candidates ! unat index))
      else WasmDegraded DegradedInvalidOutput)"

fun project_decision :: "guest_decision \<Rightarrow> string list \<Rightarrow> RoutingWasmResult" where
  "project_decision GuestDecline candidates = WasmApplied WasmDecline"
| "project_decision (GuestSelect index) candidates = project_selection index candidates"

fun project_failure :: "RoutingWasmErrorCode \<Rightarrow> (RoutingWasmErrorCode, RoutingWasmResult) result" where
  "project_failure WasmResourceExhausted = Inr (WasmDegraded DegradedResourceExhausted)"
| "project_failure WasmTimeout = Inr (WasmDegraded DegradedTimeout)"
| "project_failure WasmTrap = Inr (WasmDegraded DegradedTrap)"
| "project_failure WasmInvalidOutput = Inr (WasmDegraded DegradedInvalidOutput)"
| "project_failure code = Inl code"

text \<open>Whatever a guest decides, the result names a candidate of the input or degrades.\<close>

lemma project_decision_in_input:
  "project_decision d (map cf_candidate_id (rwi_candidates i)) = WasmApplied answer \<Longrightarrow>
     validate_output i answer = Inr answer"
  by (cases d) (auto simp: project_selection_def validate_output_def list_ex_iff split: if_splits RoutingWasmOutput.splits)

lemma out_of_order_sorted: "\<not> out_of_order xs \<longleftrightarrow> sorted_wrt (<) xs"
  by (induction xs rule: out_of_order.induct) (auto simp: not_le intro: less_trans)

end
