(* ===== verification/Model_Domain.thy ===== *)
theory Model_Domain
  imports Core_Ids Slices
begin

text \<open>
  The model vocabulary of \<open>ariadnion-model-domain\<close>: identities, versions, the capability bitset,
  limits, provider mappings, descriptors, and the catalog validator. The lemmas show that the
  capability bitset is a set, and that in an accepted catalog a name belongs to at most one model
  and a provider-side name to at most one descriptor, so that every lookup has one answer.
\<close>

unbundle bit_operations_syntax

section \<open>Errors, identities and versions\<close>

definition MAX_MODEL_NAME_BYTES :: nat where "MAX_MODEL_NAME_BYTES = 128"
definition MAX_MODELS :: nat where "MAX_MODELS = 4096"
definition MAX_ALIASES_PER_MODEL :: nat where "MAX_ALIASES_PER_MODEL = 32"
definition MAX_MAPPINGS_PER_MODEL :: nat where "MAX_MAPPINGS_PER_MODEL = 32"
definition MAX_CONTEXT_TOKENS :: u32 where "MAX_CONTEXT_TOKENS = push_bit 21 1"
definition MAX_OUTPUT_TOKENS :: u32 where "MAX_OUTPUT_TOKENS = push_bit 20 1"
definition MAX_BODY_BYTES :: u32 where "MAX_BODY_BYTES = 256 * 1024 * 1024"

datatype ModelDomainErrorCode =
  ModelInvalidArgument | ModelLimitExceeded | DuplicateModel | DuplicateAlias | DuplicateMapping
| ModelNotFound | ModelVersionExhausted

fun ModelDomainErrorCode_as_str :: "ModelDomainErrorCode \<Rightarrow> string" where
  "ModelDomainErrorCode_as_str ModelInvalidArgument = ''MODEL_INVALID_ARGUMENT''"
| "ModelDomainErrorCode_as_str ModelLimitExceeded = ''MODEL_LIMIT_EXCEEDED''"
| "ModelDomainErrorCode_as_str DuplicateModel = ''MODEL_DUPLICATE_MODEL''"
| "ModelDomainErrorCode_as_str DuplicateAlias = ''MODEL_DUPLICATE_ALIAS''"
| "ModelDomainErrorCode_as_str DuplicateMapping = ''MODEL_DUPLICATE_MAPPING''"
| "ModelDomainErrorCode_as_str ModelNotFound = ''MODEL_NOT_FOUND''"
| "ModelDomainErrorCode_as_str ModelVersionExhausted = ''MODEL_VERSION_EXHAUSTED''"

record ModelDomainError =
  mde_code :: ModelDomainErrorCode

definition model_error :: "ModelDomainErrorCode \<Rightarrow> ModelDomainError" where
  "model_error code = \<lparr>mde_code = code\<rparr>"

text \<open>\<open>ModelId\<close>, \<open>ModelAlias\<close>, \<open>ProviderId\<close> and \<open>ProviderModelId\<close> are the four instances of one macro.\<close>

type_synonym ModelName = string

definition valid_identity :: "string \<Rightarrow> bool" where
  "valid_identity value \<longleftrightarrow>
     value \<noteq> [] \<and> length value \<le> MAX_MODEL_NAME_BYTES \<and> is_ascii value
     \<and> list_all (\<lambda>c. is_alphanumeric c
         \<or> c \<in> {CHR ''.'', CHR ''-'', CHR ''_'', CHR '':'', CHR ''/''}) value"

definition model_name_parse :: "string \<Rightarrow> (ModelDomainError, ModelName) result" where
  "model_name_parse value =
     (if \<not> valid_identity value then Inl (model_error ModelInvalidArgument) else Inr value)"

type_synonym ModelVersion = u64

definition ModelVersion_initial :: ModelVersion where "ModelVersion_initial = 1"

definition ModelVersion_new :: "u64 \<Rightarrow> (ModelDomainError, ModelVersion) result" where
  "ModelVersion_new value = (if value = 0 then Inl (model_error ModelInvalidArgument) else Inr value)"

definition ModelVersion_next :: "ModelVersion \<Rightarrow> (ModelDomainError, ModelVersion) result" where
  "ModelVersion_next v = ok_or (model_error ModelVersionExhausted) (checked_add v 1)"

section \<open>Capabilities and limits\<close>

datatype ModelCapability =
  TextGeneration | TextStreaming | ToolCalls | StructuredOutput | VisionInput | AudioInput | AudioOutput
| AudioStreaming | Embeddings | ImageGeneration | Files | Realtime | Batch | Rerank | Moderation

text \<open>The discriminant: the position in the declaration.\<close>

fun capability_index :: "ModelCapability \<Rightarrow> nat" where
  "capability_index TextGeneration = 0"
| "capability_index TextStreaming = 1"
| "capability_index ToolCalls = 2"
| "capability_index StructuredOutput = 3"
| "capability_index VisionInput = 4"
| "capability_index AudioInput = 5"
| "capability_index AudioOutput = 6"
| "capability_index AudioStreaming = 7"
| "capability_index Embeddings = 8"
| "capability_index ImageGeneration = 9"
| "capability_index Files = 10"
| "capability_index Realtime = 11"
| "capability_index Batch = 12"
| "capability_index Rerank = 13"
| "capability_index Moderation = 14"

definition capability_bit :: "ModelCapability \<Rightarrow> u32" where
  "capability_bit c = push_bit (capability_index c) 1"

type_synonym ModelCapabilities = u32

definition ModelCapabilities_new :: "ModelCapability \<Rightarrow> ModelCapabilities" where
  "ModelCapabilities_new c = capability_bit c"

definition capabilities_with :: "ModelCapabilities \<Rightarrow> ModelCapability \<Rightarrow> ModelCapabilities" where
  "capabilities_with caps c = caps OR capability_bit c"

definition capabilities_contains :: "ModelCapabilities \<Rightarrow> ModelCapability \<Rightarrow> bool" where
  "capabilities_contains caps c \<longleftrightarrow> caps AND capability_bit c \<noteq> 0"

definition all_capabilities :: "ModelCapability list" where
  "all_capabilities =
     [TextGeneration, TextStreaming, ToolCalls, StructuredOutput, VisionInput, AudioInput, AudioOutput,
      AudioStreaming, Embeddings, ImageGeneration, Files, Realtime, Batch, Rerank, Moderation]"

definition capabilities_iter :: "ModelCapabilities \<Rightarrow> ModelCapability list" where
  "capabilities_iter caps = filter (capabilities_contains caps) all_capabilities"

lemma capability_index_inject [simp]: "capability_index a = capability_index b \<longleftrightarrow> a = b"
  by (cases a; cases b) simp_all

lemma capability_index_bound: "capability_index c < 32"
  by (cases c) simp_all

lemma capabilities_contains_bit: "capabilities_contains caps c \<longleftrightarrow> bit caps (capability_index c)"
  by (simp add: capabilities_contains_def capability_bit_def push_bit_of_1 and_exp_eq_0_iff_not_bit)

lemma capabilities_with_contains [simp]:
  "capabilities_contains (capabilities_with caps c) d \<longleftrightarrow> c = d \<or> capabilities_contains caps d"
  using capability_index_bound [of d]
  by (auto simp: capabilities_contains_bit capabilities_with_def capability_bit_def bit_simps)

lemma capabilities_new_contains [simp]: "capabilities_contains (ModelCapabilities_new c) d \<longleftrightarrow> c = d"
  using capability_index_bound [of d]
  by (auto simp: capabilities_contains_bit ModelCapabilities_new_def capability_bit_def bit_simps)

lemma capabilities_iter_set: "set (capabilities_iter caps) = {c. capabilities_contains caps c}"
proof -
  have "c \<in> set all_capabilities" for c by (cases c) (simp_all add: all_capabilities_def)
  then show ?thesis by (auto simp: capabilities_iter_def)
qed

record ModelLimits =
  ml_context_tokens :: "u32 option"
  ml_output_tokens :: "u32 option"
  ml_input_bytes :: "u32 option"
  ml_output_bytes :: "u32 option"

definition checked_limit :: "u32 option \<Rightarrow> u32 \<Rightarrow> (ModelDomainError, u32 option) result" where
  "checked_limit value maximum =
     (case value of
        None \<Rightarrow> Inr None
      | Some raw \<Rightarrow>
          if raw = 0 then Inl (model_error ModelInvalidArgument)
          else if maximum < raw then Inl (model_error ModelLimitExceeded)
          else Inr (Some raw))"

definition ModelLimits_new ::
  "u32 option \<Rightarrow> u32 option \<Rightarrow> u32 option \<Rightarrow> u32 option \<Rightarrow> (ModelDomainError, ModelLimits) result" where
  "ModelLimits_new context_tokens output_tokens input_bytes output_bytes =
     bind_result (checked_limit context_tokens MAX_CONTEXT_TOKENS) (\<lambda>ct.
     bind_result (checked_limit output_tokens MAX_OUTPUT_TOKENS) (\<lambda>ot.
     bind_result (checked_limit input_bytes MAX_BODY_BYTES) (\<lambda>ib.
     bind_result (checked_limit output_bytes MAX_BODY_BYTES) (\<lambda>ob.
       Inr \<lparr>ml_context_tokens = ct, ml_output_tokens = ot, ml_input_bytes = ib, ml_output_bytes = ob\<rparr>))))"

section \<open>Mappings, descriptors and catalogs\<close>

record ProviderModelMapping =
  pmm_provider :: ModelName
  pmm_model :: ModelName
  pmm_aliases :: "ModelName list"

definition ProviderModelMapping_new :: "ModelName \<Rightarrow> ModelName \<Rightarrow> ProviderModelMapping" where
  "ProviderModelMapping_new provider model = \<lparr>pmm_provider = provider, pmm_model = model, pmm_aliases = []\<rparr>"

definition ProviderModelMapping_with_aliases ::
  "ModelName \<Rightarrow> ModelName \<Rightarrow> ModelName list \<Rightarrow> (ModelDomainError, ProviderModelMapping) result" where
  "ProviderModelMapping_with_aliases provider model aliases =
     (if MAX_ALIASES_PER_MODEL < length aliases then Inl (model_error ModelLimitExceeded)
      else let aliases = sort aliases in
      if adjacent_equal aliases then Inl (model_error DuplicateAlias)
      else if model \<in> set aliases then Inl (model_error DuplicateAlias)
      else Inr \<lparr>pmm_provider = provider, pmm_model = model, pmm_aliases = aliases\<rparr>)"

definition mapping_matches :: "ProviderModelMapping \<Rightarrow> ModelName \<Rightarrow> bool" where
  "mapping_matches m model \<longleftrightarrow> pmm_model m = model \<or> model \<in> set (pmm_aliases m)"

definition mapping_names :: "ProviderModelMapping \<Rightarrow> ModelName list" where
  "mapping_names m = pmm_model m # pmm_aliases m"

definition mapping_conflicts :: "ProviderModelMapping \<Rightarrow> ProviderModelMapping \<Rightarrow> bool" where
  "mapping_conflicts left right \<longleftrightarrow>
     pmm_provider left = pmm_provider right
     \<and> list_ex (\<lambda>name. list_ex (\<lambda>other. name = other) (mapping_names right)) (mapping_names left)"

fun validate_mapping_conflicts :: "ProviderModelMapping list \<Rightarrow> (ModelDomainError, unit) result" where
  "validate_mapping_conflicts [] = Inr ()"
| "validate_mapping_conflicts (m # ms) =
     (if list_ex (mapping_conflicts m) ms then Inl (model_error DuplicateMapping)
      else validate_mapping_conflicts ms)"

record ModelDescriptor =
  mdl_id :: ModelName
  mdl_version :: ModelVersion
  mdl_capabilities :: ModelCapabilities
  mdl_limits :: ModelLimits
  mdl_aliases :: "ModelName list"
  mdl_mappings :: "ProviderModelMapping list"

definition mapping_key :: "ProviderModelMapping \<Rightarrow> ModelName \<times> ModelName" where
  "mapping_key m = (pmm_provider m, pmm_model m)"

definition ModelDescriptor_new ::
  "ModelName \<Rightarrow> ModelVersion \<Rightarrow> ModelCapabilities \<Rightarrow> ModelLimits \<Rightarrow> ModelName list \<Rightarrow>
     ProviderModelMapping list \<Rightarrow> (ModelDomainError, ModelDescriptor) result" where
  "ModelDescriptor_new model_id version capabilities limits aliases mappings =
     (if MAX_ALIASES_PER_MODEL < length aliases then Inl (model_error ModelLimitExceeded)
      else let aliases = sort aliases in
      if adjacent_equal aliases then Inl (model_error DuplicateAlias)
      else if model_id \<in> set aliases then Inl (model_error DuplicateAlias)
      else if MAX_MAPPINGS_PER_MODEL < length mappings then Inl (model_error ModelLimitExceeded)
      else let mappings = sort_key mapping_key mappings in
      if adjacent_equal (map mapping_key mappings) then Inl (model_error DuplicateMapping)
      else bind_result (validate_mapping_conflicts mappings) (\<lambda>_.
        Inr \<lparr>mdl_id = model_id, mdl_version = version, mdl_capabilities = capabilities, mdl_limits = limits,
             mdl_aliases = aliases, mdl_mappings = mappings\<rparr>))"

definition model_aliases_conflict :: "ModelDescriptor \<Rightarrow> ModelDescriptor \<Rightarrow> bool" where
  "model_aliases_conflict left right \<longleftrightarrow>
     list_ex (\<lambda>alias. alias = mdl_id right \<or> list_ex (\<lambda>other. other = alias) (mdl_aliases right)) (mdl_aliases left)
     \<or> list_ex (\<lambda>alias. alias = mdl_id left) (mdl_aliases right)"

definition model_mappings_conflict :: "ModelDescriptor \<Rightarrow> ModelDescriptor \<Rightarrow> bool" where
  "model_mappings_conflict left right \<longleftrightarrow>
     list_ex (\<lambda>m. list_ex (mapping_conflicts m) (mdl_mappings right)) (mdl_mappings left)"

text \<open>The inner loop of \<open>validate_catalog_conflicts\<close>, for one model and those after it.\<close>

fun validate_model_conflicts :: "ModelDescriptor \<Rightarrow> ModelDescriptor list \<Rightarrow> (ModelDomainError, unit) result" where
  "validate_model_conflicts model [] = Inr ()"
| "validate_model_conflicts model (other # others) =
     (if model_aliases_conflict model other then Inl (model_error DuplicateAlias)
      else if model_mappings_conflict model other then Inl (model_error DuplicateMapping)
      else validate_model_conflicts model others)"

fun validate_catalog_conflicts :: "ModelDescriptor list \<Rightarrow> (ModelDomainError, unit) result" where
  "validate_catalog_conflicts [] = Inr ()"
| "validate_catalog_conflicts (model # models) =
     bind_result (validate_model_conflicts model models) (\<lambda>_. validate_catalog_conflicts models)"

record ModelCatalog =
  mc_models :: "ModelDescriptor list"

definition ModelCatalog_new :: "ModelDescriptor list \<Rightarrow> (ModelDomainError, ModelCatalog) result" where
  "ModelCatalog_new models =
     (if MAX_MODELS < length models then Inl (model_error ModelLimitExceeded)
      else let models = sort_key mdl_id models in
      if adjacent_equal (map mdl_id models) then Inl (model_error DuplicateModel)
      else bind_result (validate_catalog_conflicts models) (\<lambda>_. Inr \<lparr>mc_models = models\<rparr>))"

definition ModelCatalog_get :: "ModelCatalog \<Rightarrow> ModelName \<Rightarrow> ModelDescriptor option" where
  "ModelCatalog_get c model_id =
     map_option (\<lambda>i. mc_models c ! i) (binary_search (map mdl_id (mc_models c)) model_id)"

definition ModelCatalog_resolve :: "ModelCatalog \<Rightarrow> string \<Rightarrow> (ModelDomainError, ModelDescriptor) result" where
  "ModelCatalog_resolve c value =
     (case model_name_parse value of
        Inl _ \<Rightarrow> Inl (model_error ModelNotFound)
      | Inr model_id \<Rightarrow>
          (case ModelCatalog_get c model_id of
             Some model \<Rightarrow> Inr model
           | None \<Rightarrow> ok_or (model_error ModelNotFound)
               (find (\<lambda>model. list_ex (\<lambda>alias. alias = value) (mdl_aliases model)) (mc_models c))))"

definition ModelCatalog_resolve_provider ::
  "ModelCatalog \<Rightarrow> ModelName \<Rightarrow> ModelName \<Rightarrow> (ModelDomainError, ModelDescriptor) result" where
  "ModelCatalog_resolve_provider c provider model =
     ok_or (model_error ModelNotFound)
       (find (\<lambda>d. list_ex (\<lambda>m. pmm_provider m = provider \<and> mapping_matches m model) (mdl_mappings d))
         (mc_models c))"

section \<open>Lookups are unambiguous\<close>

text \<open>The names a model answers to, and the provider-side names it owns.\<close>

definition names_model :: "string \<Rightarrow> ModelDescriptor \<Rightarrow> bool" where
  "names_model selector d \<longleftrightarrow> mdl_id d = selector \<or> selector \<in> set (mdl_aliases d)"

definition maps_model :: "string \<Rightarrow> string \<Rightarrow> ModelDescriptor \<Rightarrow> bool" where
  "maps_model provider name d \<longleftrightarrow> (\<exists>m \<in> set (mdl_mappings d). pmm_provider m = provider \<and> mapping_matches m name)"

lemma validate_model_conflicts_ok:
  "validate_model_conflicts d ds = Inr u \<longleftrightarrow>
     (\<forall>d' \<in> set ds. \<not> model_aliases_conflict d d' \<and> \<not> model_mappings_conflict d d')"
  by (induction ds) auto

lemma validate_catalog_conflicts_ok:
  "validate_catalog_conflicts ds = Inr u \<longleftrightarrow>
     sorted_wrt (\<lambda>d d'. \<not> model_aliases_conflict d d' \<and> \<not> model_mappings_conflict d d') ds"
  by (induction ds) (auto simp: bind_result_eq_Inr validate_model_conflicts_ok)

lemma ModelCatalog_new_ok:
  "ModelCatalog_new ds = Inr c \<longleftrightarrow>
     length ds \<le> MAX_MODELS \<and> c = \<lparr>mc_models = sort_key mdl_id ds\<rparr>
     \<and> sorted_wrt (<) (map mdl_id (mc_models c))
     \<and> sorted_wrt (\<lambda>d d'. \<not> model_aliases_conflict d d' \<and> \<not> model_mappings_conflict d d') (mc_models c)"
  by (auto simp: ModelCatalog_new_def Let_def bind_result_eq_Inr validate_catalog_conflicts_ok
        simp flip: adjacent_equal_sorted split: if_splits)

lemma names_conflict:
  "mdl_id d < mdl_id d' \<Longrightarrow> names_model s d \<Longrightarrow> names_model s d' \<Longrightarrow> model_aliases_conflict d d'"
  by (auto simp: names_model_def model_aliases_conflict_def list_ex_iff)

lemma maps_conflict:
  assumes "maps_model p n d" and "maps_model p n d'"
  shows "model_mappings_conflict d d'"
proof -
  obtain m m' where "m \<in> set (mdl_mappings d)" "pmm_provider m = p" "n \<in> set (mapping_names m)"
    "m' \<in> set (mdl_mappings d')" "pmm_provider m' = p" "n \<in> set (mapping_names m')"
    using assms unfolding maps_model_def mapping_matches_def mapping_names_def
    by (metis list.set_intros(1,2))
  then have "mapping_conflicts m m'" by (auto simp: mapping_conflicts_def list_ex_iff)
  then show ?thesis
    using \<open>m \<in> set (mdl_mappings d)\<close> \<open>m' \<in> set (mdl_mappings d')\<close>
    by (auto simp: model_mappings_conflict_def list_ex_iff)
qed

lemma catalog_names_once:
  assumes "ModelCatalog_new ds = Inr c"
  shows "length (filter (names_model s) (mc_models c)) \<le> 1"
proof (rule filter_pairwise_at_most_one)
  have "sorted_wrt (\<lambda>d d'. mdl_id d < mdl_id d') (mc_models c)"
    and "sorted_wrt (\<lambda>d d'. \<not> model_aliases_conflict d d' \<and> \<not> model_mappings_conflict d d') (mc_models c)"
    using assms unfolding ModelCatalog_new_ok sorted_wrt_map by blast+
  then show "sorted_wrt (\<lambda>d d'. mdl_id d < mdl_id d' \<and> \<not> model_aliases_conflict d d') (mc_models c)"
    unfolding sorted_wrt_iff_nth_less by blast
qed (auto dest: names_conflict)

lemma catalog_maps_once:
  assumes "ModelCatalog_new ds = Inr c"
  shows "length (filter (maps_model p n) (mc_models c)) \<le> 1"
proof (rule filter_pairwise_at_most_one)
  show "sorted_wrt (\<lambda>d d'. \<not> model_aliases_conflict d d' \<and> \<not> model_mappings_conflict d d') (mc_models c)"
    using assms unfolding ModelCatalog_new_ok by blast
qed (auto dest: maps_conflict)

text \<open>Both lookups find the one model with the name, whether it is its identity or an alias.\<close>

lemma ModelCatalog_get_iff:
  assumes "ModelCatalog_new ds = Inr c"
  shows "ModelCatalog_get c i = Some d \<longleftrightarrow> d \<in> set ds \<and> mdl_id d = i"
proof -
  let ?ms = "mc_models c"
  have sorted: "sorted_wrt (<) (map mdl_id ?ms)" and set: "set ?ms = set ds"
    using assms by (auto simp: ModelCatalog_new_ok)
  have at: "binary_search (map mdl_id ?ms) i = Some k \<longleftrightarrow> k < length ?ms \<and> mdl_id (?ms ! k) = i" for k
    using binary_search_correct [OF sorted, of i k] by auto
  have "distinct (map mdl_id ?ms)" using sorted by (simp add: strict_sorted_iff)
  then show ?thesis
    using at unfolding set [symmetric] by (auto simp: ModelCatalog_get_def in_set_conv_nth)
qed

lemma ModelCatalog_resolve_iff:
  assumes "ModelCatalog_new ds = Inr c"
  shows "ModelCatalog_resolve c s = Inr d \<longleftrightarrow> valid_identity s \<and> d \<in> set ds \<and> names_model s d"
proof (cases "ModelCatalog_get c s")
  case (Some d')
  then have "d' \<in> set ds" "names_model s d'"
    using ModelCatalog_get_iff [OF assms] by (auto simp: names_model_def)
  moreover have "set (mc_models c) = set ds" using assms by (auto simp: ModelCatalog_new_ok)
  ultimately have "d \<in> set ds \<and> names_model s d \<longleftrightarrow> d = d'"
    using filter_singleton_iff [OF catalog_names_once [OF assms]] by (metis option.inject)
  with Some show ?thesis by (auto simp: ModelCatalog_resolve_def model_name_parse_def)
next
  case None
  have set: "set (mc_models c) = set ds" using assms by (auto simp: ModelCatalog_new_ok)
  have "names_model s d \<longleftrightarrow> list_ex (\<lambda>alias. alias = s) (mdl_aliases d)" if "d \<in> set ds" for d
    using None ModelCatalog_get_iff [OF assms, of s d] that by (auto simp: names_model_def list_ex_iff)
  then have "find (\<lambda>model. list_ex (\<lambda>alias. alias = s) (mdl_aliases model)) (mc_models c) = find (names_model s) (mc_models c)"
    using set by (intro find_cong) auto
  with None filter_singleton_iff [OF catalog_names_once [OF assms]] set show ?thesis
    by (auto simp: ModelCatalog_resolve_def model_name_parse_def ok_or_eq)
qed

lemma ModelCatalog_resolve_provider_iff:
  assumes "ModelCatalog_new ds = Inr c"
  shows "ModelCatalog_resolve_provider c p n = Inr d \<longleftrightarrow> d \<in> set ds \<and> maps_model p n d"
proof -
  have "(\<lambda>d. list_ex (\<lambda>m. pmm_provider m = p \<and> mapping_matches m n) (mdl_mappings d)) = maps_model p n"
    by (intro ext) (simp add: maps_model_def list_ex_iff)
  moreover have "set (mc_models c) = set ds" using assms by (auto simp: ModelCatalog_new_ok)
  ultimately show ?thesis
    using filter_singleton_iff [OF catalog_maps_once [OF assms]]
    by (simp add: ModelCatalog_resolve_provider_def ok_or_eq)
qed

end
