(* ===== verification/Model_Catalog.thy ===== *)
theory Model_Catalog
  imports Model_Domain Interfaces
begin

text \<open>
  The published model catalog of \<open>ariadnion-model-catalog\<close>: entries with a visibility rule,
  snapshots validated by the catalog of \<open>Model_Domain\<close>, resolution of a name to a model and to a
  provider target, the projection a tenant sees, and the publisher. The lemmas show that resolution
  has one answer, that a tenant's projection resolves exactly the visible part of the internal
  resolution, and that publication is version-checked.
\<close>

section \<open>Model\<close>

definition MAX_CATALOG_ENTRIES :: nat where "MAX_CATALOG_ENTRIES = 4096"
definition MAX_VISIBLE_TENANTS_PER_MODEL :: nat where "MAX_VISIBLE_TENANTS_PER_MODEL = 4096"

datatype ModelCatalogErrorCode =
  CatalogInvalidArgument | CatalogLimitExceeded | CatalogConflict | AmbiguousProvider
| CatalogModelNotFound | ProviderTargetNotFound | CatalogVersionExhausted | CatalogStateUnavailable

fun catalog_request_error_code :: "ModelCatalogErrorCode \<Rightarrow> string" where
  "catalog_request_error_code CatalogInvalidArgument = ''MODEL_CATALOG_INVALID_ARGUMENT''"
| "catalog_request_error_code CatalogLimitExceeded = ''MODEL_CATALOG_LIMIT_EXCEEDED''"
| "catalog_request_error_code CatalogConflict = ''MODEL_CATALOG_CONFLICT''"
| "catalog_request_error_code _ = ''MODEL_CATALOG_INVALID_ARGUMENT''"

fun catalog_lookup_error_code :: "ModelCatalogErrorCode \<Rightarrow> string" where
  "catalog_lookup_error_code AmbiguousProvider = ''MODEL_CATALOG_AMBIGUOUS_PROVIDER''"
| "catalog_lookup_error_code CatalogModelNotFound = ''MODEL_CATALOG_MODEL_NOT_FOUND''"
| "catalog_lookup_error_code ProviderTargetNotFound = ''MODEL_CATALOG_PROVIDER_TARGET_NOT_FOUND''"
| "catalog_lookup_error_code _ = ''MODEL_CATALOG_MODEL_NOT_FOUND''"

fun catalog_state_error_code :: "ModelCatalogErrorCode \<Rightarrow> string" where
  "catalog_state_error_code CatalogVersionExhausted = ''MODEL_CATALOG_VERSION_EXHAUSTED''"
| "catalog_state_error_code CatalogStateUnavailable = ''MODEL_CATALOG_STATE_UNAVAILABLE''"
| "catalog_state_error_code _ = ''MODEL_CATALOG_STATE_UNAVAILABLE''"

definition ModelCatalogErrorCode_as_str :: "ModelCatalogErrorCode \<Rightarrow> string" where
  "ModelCatalogErrorCode_as_str code =
     (if code \<in> {CatalogInvalidArgument, CatalogLimitExceeded, CatalogConflict}
      then catalog_request_error_code code
      else if code \<in> {AmbiguousProvider, CatalogModelNotFound, ProviderTargetNotFound}
      then catalog_lookup_error_code code
      else catalog_state_error_code code)"

record ModelCatalogError =
  mce_code :: ModelCatalogErrorCode

definition catalog_error :: "ModelCatalogErrorCode \<Rightarrow> ModelCatalogError" where
  "catalog_error code = \<lparr>mce_code = code\<rparr>"

type_synonym CatalogVersion = u64
type_synonym CatalogTenant = string

definition CatalogVersion_initial :: CatalogVersion where "CatalogVersion_initial = 1"

definition CatalogVersion_new :: "u64 \<Rightarrow> (ModelCatalogError, CatalogVersion) result" where
  "CatalogVersion_new value =
     (if value = 0 then Inl (catalog_error CatalogInvalidArgument) else Inr value)"

definition CatalogVersion_next :: "CatalogVersion \<Rightarrow> (ModelCatalogError, CatalogVersion) result" where
  "CatalogVersion_next v = ok_or (catalog_error CatalogVersionExhausted) (checked_add v 1)"

datatype ModelVisibility = PublicModel | RestrictedModel "CatalogTenant list" | InternalModel

definition ModelVisibility_restricted :: "CatalogTenant list \<Rightarrow> (ModelCatalogError, ModelVisibility) result" where
  "ModelVisibility_restricted tenants =
     (if tenants = [] then Inl (catalog_error CatalogInvalidArgument)
      else if MAX_VISIBLE_TENANTS_PER_MODEL < length tenants then Inl (catalog_error CatalogLimitExceeded)
      else let tenants = sort tenants in
      if adjacent_equal tenants then Inl (catalog_error CatalogConflict)
      else Inr (RestrictedModel tenants))"

fun is_visible_to :: "ModelVisibility \<Rightarrow> CatalogTenant \<Rightarrow> bool" where
  "is_visible_to PublicModel tenant_id = True"
| "is_visible_to (RestrictedModel tenants) tenant_id = (binary_search tenants tenant_id \<noteq> None)"
| "is_visible_to InternalModel tenant_id = False"

fun visibility_tenants :: "ModelVisibility \<Rightarrow> CatalogTenant list" where
  "visibility_tenants (RestrictedModel tenants) = tenants"
| "visibility_tenants _ = []"

text \<open>The loop over the \<open>BTreeSet\<close> of providers seen so far.\<close>

fun unique_providers :: "ModelName list \<Rightarrow> ProviderModelMapping list \<Rightarrow> (ModelCatalogError, unit) result" where
  "unique_providers seen [] = Inr ()"
| "unique_providers seen (m # ms) =
     (if pmm_provider m \<in> set seen then Inl (catalog_error AmbiguousProvider)
      else unique_providers (pmm_provider m # seen) ms)"

definition ensure_unique_providers :: "ModelDescriptor \<Rightarrow> (ModelCatalogError, unit) result" where
  "ensure_unique_providers d = unique_providers [] (mdl_mappings d)"

record CatalogEntry =
  cae_descriptor :: ModelDescriptor
  cae_visibility :: ModelVisibility

definition CatalogEntry_new :: "ModelDescriptor \<Rightarrow> ModelVisibility \<Rightarrow> (ModelCatalogError, CatalogEntry) result" where
  "CatalogEntry_new descriptor visibility =
     bind_result (ensure_unique_providers descriptor) (\<lambda>_.
       Inr \<lparr>cae_descriptor = descriptor, cae_visibility = visibility\<rparr>)"

record ProviderModelTarget =
  pmt_internal_model :: ModelName
  pmt_provider :: ModelName
  pmt_provider_model :: ModelName

record TenantVisibleModel =
  tvm_id :: ModelName
  tvm_version :: ModelVersion
  tvm_capabilities :: ModelCapabilities
  tvm_limits :: ModelLimits
  tvm_aliases :: "ModelName list"

definition TenantVisibleModel_from_descriptor :: "ModelDescriptor \<Rightarrow> TenantVisibleModel" where
  "TenantVisibleModel_from_descriptor d =
     \<lparr>tvm_id = mdl_id d, tvm_version = mdl_version d, tvm_capabilities = mdl_capabilities d,
      tvm_limits = mdl_limits d, tvm_aliases = mdl_aliases d\<rparr>"

definition visible_model_matches :: "string \<Rightarrow> TenantVisibleModel \<Rightarrow> bool" where
  "visible_model_matches selector m \<longleftrightarrow>
     tvm_id m = selector \<or> list_ex (\<lambda>alias. alias = selector) (tvm_aliases m)"

record TenantCatalogProjection =
  tcp_tenant_id :: CatalogTenant
  tcp_version :: CatalogVersion
  tcp_models :: "TenantVisibleModel list"

definition projection_resolve ::
  "TenantCatalogProjection \<Rightarrow> string \<Rightarrow> (ModelCatalogError, TenantVisibleModel) result" where
  "projection_resolve p selector =
     ok_or (catalog_error CatalogModelNotFound) (find (visible_model_matches selector) (tcp_models p))"

record ModelCatalogSnapshot =
  mcs_version :: CatalogVersion
  mcs_entries :: "CatalogEntry list"

fun map_domain_code :: "ModelDomainErrorCode \<Rightarrow> ModelCatalogErrorCode" where
  "map_domain_code ModelInvalidArgument = CatalogInvalidArgument"
| "map_domain_code ModelLimitExceeded = CatalogLimitExceeded"
| "map_domain_code DuplicateModel = CatalogConflict"
| "map_domain_code DuplicateAlias = CatalogConflict"
| "map_domain_code DuplicateMapping = CatalogConflict"
| "map_domain_code ModelNotFound = CatalogModelNotFound"
| "map_domain_code ModelVersionExhausted = CatalogVersionExhausted"

definition map_domain_error :: "ModelDomainError \<Rightarrow> ModelCatalogError" where
  "map_domain_error value = catalog_error (map_domain_code (mde_code value))"

definition validate_domain_catalog :: "CatalogEntry list \<Rightarrow> (ModelCatalogError, unit) result" where
  "validate_domain_catalog entries =
     (case ModelCatalog_new (map cae_descriptor entries) of
        Inl e \<Rightarrow> Inl (map_domain_error e)
      | Inr _ \<Rightarrow> Inr ())"

text \<open>The identities are distinct once the domain catalog accepts them, so the sort has one outcome.\<close>

definition ModelCatalogSnapshot_new ::
  "CatalogVersion \<Rightarrow> CatalogEntry list \<Rightarrow> (ModelCatalogError, ModelCatalogSnapshot) result" where
  "ModelCatalogSnapshot_new version entries =
     (if MAX_CATALOG_ENTRIES < length entries then Inl (catalog_error CatalogLimitExceeded)
      else bind_result (validate_domain_catalog entries) (\<lambda>_.
        Inr \<lparr>mcs_version = version, mcs_entries = sort_key (\<lambda>e. mdl_id (cae_descriptor e)) entries\<rparr>))"

definition descriptor_matches :: "ModelDescriptor \<Rightarrow> string \<Rightarrow> bool" where
  "descriptor_matches d selector \<longleftrightarrow> mdl_id d = selector \<or> list_ex (\<lambda>alias. alias = selector) (mdl_aliases d)"

definition resolve_internal :: "ModelCatalogSnapshot \<Rightarrow> string \<Rightarrow> (ModelCatalogError, CatalogEntry) result" where
  "resolve_internal s selector =
     ok_or (catalog_error CatalogModelNotFound)
       (find (\<lambda>e. descriptor_matches (cae_descriptor e) selector) (mcs_entries s))"

definition provider_target ::
  "ModelCatalogSnapshot \<Rightarrow> ModelName \<Rightarrow> ModelName \<Rightarrow> (ModelCatalogError, ProviderModelTarget) result" where
  "provider_target s internal_model provider =
     bind_result (ok_or (catalog_error CatalogModelNotFound)
       (map_option (\<lambda>i. mcs_entries s ! i)
         (binary_search (map (\<lambda>e. mdl_id (cae_descriptor e)) (mcs_entries s)) internal_model))) (\<lambda>entry.
     bind_result (ok_or (catalog_error ProviderTargetNotFound)
       (find (\<lambda>m. pmm_provider m = provider) (mdl_mappings (cae_descriptor entry)))) (\<lambda>mapping.
       Inr \<lparr>pmt_internal_model = internal_model, pmt_provider = provider,
            pmt_provider_model = pmm_model mapping\<rparr>))"

definition resolve_provider_target ::
  "ModelCatalogSnapshot \<Rightarrow> string \<Rightarrow> ModelName \<Rightarrow> (ModelCatalogError, ProviderModelTarget) result" where
  "resolve_provider_target s selector provider =
     bind_result (resolve_internal s selector) (\<lambda>entry.
       provider_target s (mdl_id (cae_descriptor entry)) provider)"

definition project_for :: "ModelCatalogSnapshot \<Rightarrow> CatalogTenant \<Rightarrow> TenantCatalogProjection" where
  "project_for s tenant_id =
     \<lparr>tcp_tenant_id = tenant_id, tcp_version = mcs_version s,
      tcp_models = map (\<lambda>e. TenantVisibleModel_from_descriptor (cae_descriptor e))
        (filter (\<lambda>e. is_visible_to (cae_visibility e) tenant_id) (mcs_entries s))\<rparr>"

record AtomicModelCatalog =
  amc_current :: ModelCatalogSnapshot
  amc_poisoned :: bool

definition AtomicModelCatalog_new :: "ModelCatalogSnapshot \<Rightarrow> AtomicModelCatalog" where
  "AtomicModelCatalog_new initial = \<lparr>amc_current = initial, amc_poisoned = False\<rparr>"

definition AtomicModelCatalog_publish ::
  "AtomicModelCatalog \<Rightarrow> CatalogVersion \<Rightarrow> ModelCatalogSnapshot \<Rightarrow>
     (ModelCatalogError + ModelCatalogSnapshot) \<times> AtomicModelCatalog" where
  "AtomicModelCatalog_publish c expected successor =
     (if amc_poisoned c then (Inl (catalog_error CatalogStateUnavailable), c)
      else if mcs_version (amc_current c) \<noteq> expected then (Inl (catalog_error CatalogConflict), c)
      else (case CatalogVersion_next (mcs_version (amc_current c)) of
              Inl e \<Rightarrow> (Inl e, c)
            | Inr required \<Rightarrow>
                if mcs_version successor \<noteq> required then (Inl (catalog_error CatalogConflict), c)
                else (Inr successor, c\<lparr>amc_current := successor\<rparr>)))"

definition AtomicModelCatalog_current_snapshot ::
  "AtomicModelCatalog \<Rightarrow> (ModelCatalogError, ModelCatalogSnapshot) result" where
  "AtomicModelCatalog_current_snapshot c =
     (if amc_poisoned c then Inl (catalog_error CatalogStateUnavailable) else Inr (amc_current c))"

definition tenant_catalog ::
  "AtomicModelCatalog \<Rightarrow> CatalogTenant \<Rightarrow> (ModelCatalogError, TenantCatalogProjection) result" where
  "tenant_catalog c tenant_id =
     bind_result (AtomicModelCatalog_current_snapshot c) (\<lambda>s. Inr (project_for s tenant_id))"

section \<open>Resolution\<close>

lemma descriptor_matches_names: "descriptor_matches d s \<longleftrightarrow> names_model s d"
  by (auto simp: descriptor_matches_def names_model_def list_ex_iff)

lemma visible_model_matches_names:
  "visible_model_matches s (TenantVisibleModel_from_descriptor d) \<longleftrightarrow> names_model s d"
  by (auto simp: visible_model_matches_def TenantVisibleModel_from_descriptor_def names_model_def list_ex_iff)

lemma map_insort_key: "map f (insort_key (\<lambda>x. g (f x)) x xs) = insort_key g (f x) (map f xs)"
  by (induction xs) auto

lemma map_sort_key: "map f (sort_key (\<lambda>x. g (f x)) xs) = sort_key g (map f xs)"
  by (induction xs) (auto simp: map_insort_key)

lemma ModelCatalogSnapshot_new_ok:
  assumes "ModelCatalogSnapshot_new v es = Inr s"
  obtains c where "ModelCatalog_new (map cae_descriptor es) = Inr c"
    and "mcs_version s = v" and "mcs_entries s = sort_key (\<lambda>e. mdl_id (cae_descriptor e)) es"
    and "map cae_descriptor (mcs_entries s) = mc_models c"
proof -
  obtain c where c: "ModelCatalog_new (map cae_descriptor es) = Inr c"
    and s: "mcs_version s = v" "mcs_entries s = sort_key (\<lambda>e. mdl_id (cae_descriptor e)) es"
    using assms by (auto simp: ModelCatalogSnapshot_new_def validate_domain_catalog_def bind_result_eq_Inr
        split: if_splits sum.splits)
  then show thesis by (intro that) (auto simp: ModelCatalog_new_ok map_sort_key)
qed

text \<open>The entries that answer to a name.\<close>

abbreviation entry_named :: "string \<Rightarrow> CatalogEntry \<Rightarrow> bool" where
  "entry_named selector \<equiv> \<lambda>e. names_model selector (cae_descriptor e)"

lemma entries_named_once:
  assumes "ModelCatalogSnapshot_new v es = Inr s"
  shows "length (filter (entry_named selector) (mcs_entries s)) \<le> 1"
proof -
  obtain c where c: "ModelCatalog_new (map cae_descriptor es) = Inr c"
    "map cae_descriptor (mcs_entries s) = mc_models c"
    using assms by (rule ModelCatalogSnapshot_new_ok)
  have "length (filter (names_model selector) (map cae_descriptor (mcs_entries s))) \<le> 1"
    unfolding c(2) by (rule catalog_names_once [OF c(1)])
  then show ?thesis by (simp add: filter_map comp_def)
qed

lemma mcs_entries_set:
  assumes "ModelCatalogSnapshot_new v es = Inr s"
  shows "set (mcs_entries s) = set es"
  using assms by (rule ModelCatalogSnapshot_new_ok) simp

lemma resolve_internal_iff:
  assumes "ModelCatalogSnapshot_new v es = Inr s"
  shows "resolve_internal s selector = Inr e \<longleftrightarrow> e \<in> set es \<and> entry_named selector e"
  using filter_singleton_iff [OF entries_named_once [OF assms], of selector e] mcs_entries_set [OF assms]
  by (simp add: resolve_internal_def ok_or_eq descriptor_matches_names)

lemma filter_conj_at_most_one: "length (filter P xs) \<le> 1 \<Longrightarrow> length (filter P (filter Q xs)) \<le> 1"
proof -
  have "filter P (filter Q xs) = filter Q (filter P xs)" by (simp add: conj_commute)
  then show "length (filter P xs) \<le> 1 \<Longrightarrow> length (filter P (filter Q xs)) \<le> 1"
    using length_filter_le [of Q "filter P xs"] by simp
qed

lemma find_map_eq: "find P (map f xs) = map_option f (find (\<lambda>x. P (f x)) xs)"
  by (induction xs) auto

text \<open>A tenant's projection resolves a name to a model exactly when the name resolves internally to an
  entry the tenant may see, and then to the public part of that entry.\<close>

lemma projection_resolve_iff:
  assumes "ModelCatalogSnapshot_new v es = Inr s"
  shows "projection_resolve (project_for s t) selector = Inr m \<longleftrightarrow>
    (\<exists>e. resolve_internal s selector = Inr e \<and> is_visible_to (cae_visibility e) t
      \<and> m = TenantVisibleModel_from_descriptor (cae_descriptor e))"
proof -
  let ?visible = "filter (\<lambda>e. is_visible_to (cae_visibility e) t) (mcs_entries s)"
  let ?view = "\<lambda>e. TenantVisibleModel_from_descriptor (cae_descriptor e)"
  have once: "length (filter (entry_named selector) ?visible) \<le> 1"
    using entries_named_once [OF assms] by (rule filter_conj_at_most_one)
  have "find (visible_model_matches selector) (map ?view ?visible) = map_option ?view (find (entry_named selector) ?visible)"
    by (simp add: find_map_eq visible_model_matches_names)
  then have "projection_resolve (project_for s t) selector = Inr m \<longleftrightarrow>
      (\<exists>e. find (entry_named selector) ?visible = Some e \<and> m = ?view e)"
    by (auto simp: projection_resolve_def project_for_def ok_or_eq)
  also have "\<dots> \<longleftrightarrow> (\<exists>e. e \<in> set es \<and> entry_named selector e \<and> is_visible_to (cae_visibility e) t \<and> m = ?view e)"
    unfolding filter_singleton_iff [OF once] using mcs_entries_set [OF assms] by auto
  finally show ?thesis unfolding resolve_internal_iff [OF assms] by blast
qed

lemma unique_providers_ok:
  "unique_providers seen ms = Inr u \<longleftrightarrow>
     distinct (map pmm_provider ms) \<and> set (map pmm_provider ms) \<inter> set seen = {}"
  by (induction ms arbitrary: seen) auto

definition entry_ok :: "CatalogEntry \<Rightarrow> bool" where
  "entry_ok e \<longleftrightarrow> distinct (map pmm_provider (mdl_mappings (cae_descriptor e)))"

lemma CatalogEntry_new_ok: "CatalogEntry_new d vis = Inr e \<Longrightarrow> entry_ok e"
  by (auto simp: CatalogEntry_new_def ensure_unique_providers_def bind_result_eq_Inr unique_providers_ok entry_ok_def)

lemma provider_target_iff:
  assumes "ModelCatalogSnapshot_new v es = Inr s" and "\<forall>e \<in> set es. entry_ok e"
  shows "provider_target s i p = Inr t \<longleftrightarrow>
    (\<exists>e \<in> set es. mdl_id (cae_descriptor e) = i \<and>
      (\<exists>m \<in> set (mdl_mappings (cae_descriptor e)). pmm_provider m = p
        \<and> t = \<lparr>pmt_internal_model = i, pmt_provider = p, pmt_provider_model = pmm_model m\<rparr>))"
proof -
  let ?es = "mcs_entries s" and ?key = "\<lambda>e. mdl_id (cae_descriptor e)"
  obtain c where c: "ModelCatalog_new (map cae_descriptor es) = Inr c" "map cae_descriptor ?es = mc_models c"
    using assms(1) by (rule ModelCatalogSnapshot_new_ok)
  have "map ?key ?es = map mdl_id (mc_models c)" unfolding c(2) [symmetric] by simp
  then have sorted: "sorted_wrt (<) (map ?key ?es)"
    using c(1) unfolding ModelCatalog_new_ok by metis
  have at: "binary_search (map ?key ?es) i = Some k \<longleftrightarrow> k < length ?es \<and> ?key (?es ! k) = i" for k
    using binary_search_correct [OF sorted, of i k] by auto
  have "distinct (map ?key ?es)" using sorted by (simp add: strict_sorted_iff)
  then have "map_option (\<lambda>k. ?es ! k) (binary_search (map ?key ?es) i) = Some e \<longleftrightarrow> e \<in> set ?es \<and> ?key e = i" for e
    using at by (auto simp: in_set_conv_nth)
  then have found: "map_option (\<lambda>k. ?es ! k) (binary_search (map ?key ?es) i) = Some e \<longleftrightarrow> e \<in> set es \<and> ?key e = i" for e
    using mcs_entries_set [OF assms(1)] by simp
  have "find (\<lambda>m. pmm_provider m = p) (mdl_mappings (cae_descriptor e)) = Some m \<longleftrightarrow>
      m \<in> set (mdl_mappings (cae_descriptor e)) \<and> pmm_provider m = p" if "e \<in> set es" for e m
    using assms(2) that by (simp add: entry_ok_def find_by_distinct_key)
  then show ?thesis
    unfolding provider_target_def bind_result_eq_Inr ok_or_eq found by auto
qed

lemma resolve_provider_target_iff:
  assumes "ModelCatalogSnapshot_new v es = Inr s" and "\<forall>e \<in> set es. entry_ok e"
  shows "resolve_provider_target s selector p = Inr t \<longleftrightarrow>
    (\<exists>e \<in> set es. entry_named selector e \<and>
      (\<exists>m \<in> set (mdl_mappings (cae_descriptor e)). pmm_provider m = p
        \<and> t = \<lparr>pmt_internal_model = mdl_id (cae_descriptor e), pmt_provider = p, pmt_provider_model = pmm_model m\<rparr>))"
proof -
  have "cae_descriptor e = cae_descriptor e'"
    if "e \<in> set es" "e' \<in> set es" "mdl_id (cae_descriptor e) = mdl_id (cae_descriptor e')" for e e'
  proof -
    have "names_model (mdl_id (cae_descriptor e)) (cae_descriptor e)" "names_model (mdl_id (cae_descriptor e)) (cae_descriptor e')"
      using that(3) by (simp_all add: names_model_def)
    then show ?thesis
      using resolve_internal_iff [OF assms(1), of "mdl_id (cae_descriptor e)"] that(1,2) by (metis sum.inject(2))
  qed
  then show ?thesis
    unfolding resolve_provider_target_def bind_result_eq_Inr resolve_internal_iff [OF assms(1)] provider_target_iff [OF assms]
    by metis
qed

section \<open>Publication\<close>

definition catalog_version :: "AtomicModelCatalog \<Rightarrow> u64" where
  "catalog_version c = mcs_version (amc_current c)"

definition catalog_shows :: "AtomicModelCatalog \<Rightarrow> ModelCatalogSnapshot \<Rightarrow> bool" where
  "catalog_shows c s \<longleftrightarrow> AtomicModelCatalog_current_snapshot c = Inr s"

interpretation model_catalogs: publication catalog_version catalog_shows AtomicModelCatalog_publish
proof
  fix c v s r c' e
  show "catalog_version c = v" if "AtomicModelCatalog_publish c v s = (Inr r, c')"
    using that by (auto simp: AtomicModelCatalog_publish_def catalog_version_def split: if_splits sum.splits)
  show "unat (catalog_version c') = unat v + 1" if "AtomicModelCatalog_publish c v s = (Inr r, c')"
    using that
    by (auto simp: AtomicModelCatalog_publish_def catalog_version_def CatalogVersion_next_def ok_or_eq
          checked_add_eq_Some split: if_splits sum.splits)
  show "catalog_shows c' s" if "AtomicModelCatalog_publish c v s = (Inr r, c')"
    using that by (auto simp: AtomicModelCatalog_publish_def catalog_shows_def
        AtomicModelCatalog_current_snapshot_def split: if_splits sum.splits)
  show "c' = c" if "AtomicModelCatalog_publish c v s = (Inl e, c')"
    using that by (auto simp: AtomicModelCatalog_publish_def split: if_splits sum.splits)
qed

text \<open>
  C27: Tenants see their models only. In an accepted catalog, the view of a tenant resolves a name
  exactly when the name resolves internally to an entry whose visibility rule admits the tenant,
  and then to that entry without its provider mappings; a name never resolves to two models.
\<close>

theorem tenants_resolve_only_visible_models:
  assumes "ModelCatalogSnapshot_new v es = Inr s"
  shows "(\<forall>e \<in> set es. \<forall>e' \<in> set es. entry_named selector e \<longrightarrow> entry_named selector e' \<longrightarrow> e = e')
   \<and> (resolve_internal s selector = Inr entry \<longleftrightarrow> entry \<in> set es \<and> entry_named selector entry)
   \<and> (projection_resolve (project_for s t) selector = Inr m \<longleftrightarrow>
        (\<exists>e \<in> set es. entry_named selector e \<and> is_visible_to (cae_visibility e) t
          \<and> m = TenantVisibleModel_from_descriptor (cae_descriptor e)))"
proof -
  have "e = e'" if "e \<in> set es" "e' \<in> set es" "entry_named selector e" "entry_named selector e'" for e e'
    using resolve_internal_iff [OF assms, of selector] that by (metis sum.inject(2))
  then show ?thesis
    using resolve_internal_iff [OF assms] projection_resolve_iff [OF assms] by blast
qed

definition demo_entry :: "string \<Rightarrow> ModelVisibility \<Rightarrow> CatalogEntry" where
  "demo_entry name vis =
     \<lparr>cae_descriptor = \<lparr>mdl_id = name, mdl_version = 1, mdl_capabilities = 0,
        mdl_limits = \<lparr>ml_context_tokens = None, ml_output_tokens = None, ml_input_bytes = None, ml_output_bytes = None\<rparr>,
        mdl_aliases = [], mdl_mappings = []\<rparr>, cae_visibility = vis\<rparr>"

lemma demo_catalog_accepted:
  "\<exists>s. ModelCatalogSnapshot_new 1 [demo_entry ''a'' (RestrictedModel [''t'']), demo_entry ''b'' InternalModel] = Inr s"
  by (simp add: ModelCatalogSnapshot_new_def validate_domain_catalog_def ModelCatalog_new_def demo_entry_def
        MAX_CATALOG_ENTRIES_def MAX_MODELS_def model_aliases_conflict_def model_mappings_conflict_def)

theorem tenants_resolve_only_visible_models_witness:
  "\<exists>s. ModelCatalogSnapshot_new 1 [demo_entry ''a'' (RestrictedModel [''t'']), demo_entry ''b'' InternalModel] = Inr s
     \<and> (\<exists>m. projection_resolve (project_for s ''t'') ''a'' = Inr m)
     \<and> (\<nexists>m. projection_resolve (project_for s ''u'') ''a'' = Inr m)"
proof -
  obtain s where s: "ModelCatalogSnapshot_new 1 [demo_entry ''a'' (RestrictedModel [''t'']), demo_entry ''b'' InternalModel] = Inr s"
    using demo_catalog_accepted by blast
  have "is_visible_to (RestrictedModel [''t'']) ''t''" "\<not> is_visible_to (RestrictedModel [''t'']) ''u''"
    by (simp_all add: binary_search_def binary_search_base.simps)
  with s tenants_resolve_only_visible_models [OF s, of "''a''"] show ?thesis
    by (auto simp: demo_entry_def names_model_def)
qed

end
