(* ===== verification/Account_Health.thy ===== *)
theory Account_Health
  imports Core_Ids Slices Interfaces
begin

text \<open>
  The health reducer of \<open>ariadnion-account-health\<close>: ordered observations of one account, the
  thresholds that turn consecutive failures and successes into a health state, and the book that
  publishes a sorted set of health snapshots against a generation. The lemmas give the invariant of
  every reachable reducer, the order of what it accepts, and exactly how it leaves the unhealthy
  state; the book is a version-checked publisher.
\<close>

section \<open>Model\<close>

definition MAX_HEALTH_THRESHOLD :: u32 where "MAX_HEALTH_THRESHOLD = push_bit 20 1"
definition MAX_HEALTH_SNAPSHOTS :: nat where "MAX_HEALTH_SNAPSHOTS = 2 ^ 12"

datatype AccountHealthErrorCode =
  HealthInvalidArgument | InvalidThresholdOrder | ObservationOutOfOrder | HealthTimestampOutOfOrder
| HealthAccountMismatch | HealthVersionExhausted | HealthStateUnavailable | HealthLimitExceeded
| HealthGenerationConflict | DuplicateHealthSnapshot | HealthGenerationExhausted

fun AccountHealthErrorCode_as_str :: "AccountHealthErrorCode \<Rightarrow> string" where
  "AccountHealthErrorCode_as_str HealthInvalidArgument = ''ACCOUNT_HEALTH_INVALID_ARGUMENT''"
| "AccountHealthErrorCode_as_str InvalidThresholdOrder = ''ACCOUNT_HEALTH_INVALID_THRESHOLD_ORDER''"
| "AccountHealthErrorCode_as_str ObservationOutOfOrder = ''ACCOUNT_HEALTH_OBSERVATION_OUT_OF_ORDER''"
| "AccountHealthErrorCode_as_str HealthTimestampOutOfOrder = ''ACCOUNT_HEALTH_TIMESTAMP_OUT_OF_ORDER''"
| "AccountHealthErrorCode_as_str HealthAccountMismatch = ''ACCOUNT_HEALTH_ACCOUNT_MISMATCH''"
| "AccountHealthErrorCode_as_str HealthVersionExhausted = ''ACCOUNT_HEALTH_VERSION_EXHAUSTED''"
| "AccountHealthErrorCode_as_str HealthStateUnavailable = ''ACCOUNT_HEALTH_STATE_UNAVAILABLE''"
| "AccountHealthErrorCode_as_str HealthLimitExceeded = ''ACCOUNT_HEALTH_LIMIT_EXCEEDED''"
| "AccountHealthErrorCode_as_str HealthGenerationConflict = ''ACCOUNT_HEALTH_GENERATION_CONFLICT''"
| "AccountHealthErrorCode_as_str DuplicateHealthSnapshot = ''ACCOUNT_HEALTH_DUPLICATE_SNAPSHOT''"
| "AccountHealthErrorCode_as_str HealthGenerationExhausted = ''ACCOUNT_HEALTH_GENERATION_EXHAUSTED''"

record AccountHealthError =
  ahe_code :: AccountHealthErrorCode

definition health_error :: "AccountHealthErrorCode \<Rightarrow> AccountHealthError" where
  "health_error code = \<lparr>ahe_code = code\<rparr>"

type_synonym ObservationSequence = u64
type_synonym HealthTime = u64
type_synonym HealthGeneration = u64

definition ObservationSequence_new :: "u64 \<Rightarrow> (AccountHealthError, ObservationSequence) result" where
  "ObservationSequence_new value =
     (if value = 0 then Inl (health_error HealthInvalidArgument) else Inr value)"

datatype HealthSource = ActiveProbe | PassiveRequest
datatype HealthSignal = SignalSuccess | SignalRetryableFailure | SignalTerminalFailure
datatype HealthState = UnknownHealth | Healthy | DegradedHealth | UnhealthyState

record HealthPolicy =
  hp_degraded_after_failures :: u32
  hp_unhealthy_after_failures :: u32
  hp_recovery_successes :: u32

definition HealthPolicy_new :: "u32 \<Rightarrow> u32 \<Rightarrow> u32 \<Rightarrow> (AccountHealthError, HealthPolicy) result" where
  "HealthPolicy_new degraded_after_failures unhealthy_after_failures recovery_successes =
     (let bounded = list_all (\<lambda>value. 1 \<le> value \<and> value \<le> MAX_HEALTH_THRESHOLD)
                      [degraded_after_failures, unhealthy_after_failures, recovery_successes] in
      if \<not> bounded then Inl (health_error HealthInvalidArgument)
      else if unhealthy_after_failures < degraded_after_failures
      then Inl (health_error InvalidThresholdOrder)
      else Inr \<lparr>hp_degraded_after_failures = degraded_after_failures,
                hp_unhealthy_after_failures = unhealthy_after_failures,
                hp_recovery_successes = recovery_successes\<rparr>)"

record HealthObservation =
  ho_account_id :: AccountId
  ho_sequence :: ObservationSequence
  ho_observed_at :: HealthTime
  ho_source :: HealthSource
  ho_signal :: HealthSignal

record HealthSnapshot =
  hs_account_id :: AccountId
  hs_revision :: u64
  hs_state :: HealthState
  hs_consecutive_failures :: u32
  hs_consecutive_successes :: u32
  hs_last_sequence :: "ObservationSequence option"
  hs_last_observed_at :: "HealthTime option"
  hs_last_source :: "HealthSource option"

definition HealthSnapshot_initial :: "AccountId \<Rightarrow> HealthSnapshot" where
  "HealthSnapshot_initial account_id =
     \<lparr>hs_account_id = account_id, hs_revision = 0, hs_state = UnknownHealth, hs_consecutive_failures = 0,
      hs_consecutive_successes = 0, hs_last_sequence = None, hs_last_observed_at = None,
      hs_last_source = None\<rparr>"

definition validate_health_observation ::
  "AccountId \<Rightarrow> HealthSnapshot \<Rightarrow> HealthObservation \<Rightarrow> (AccountHealthError, unit) result" where
  "validate_health_observation account_id current obs =
     (if ho_account_id obs \<noteq> account_id then Inl (health_error HealthAccountMismatch)
      else if (case hs_last_sequence current of Some sequence \<Rightarrow> ho_sequence obs \<le> sequence | None \<Rightarrow> False)
      then Inl (health_error ObservationOutOfOrder)
      else if (case hs_last_observed_at current of Some timestamp \<Rightarrow> ho_observed_at obs < timestamp | None \<Rightarrow> False)
      then Inl (health_error HealthTimestampOutOfOrder)
      else Inr ())"

definition apply_success ::
  "HealthSnapshot \<Rightarrow> HealthState \<Rightarrow> HealthPolicy \<Rightarrow> (AccountHealthError, HealthSnapshot) result" where
  "apply_success snap previous_state pol =
     bind_result (ok_or (health_error HealthVersionExhausted)
       (checked_add (hs_consecutive_successes snap) 1)) (\<lambda>successes.
     let snap = snap\<lparr>hs_consecutive_failures := 0, hs_consecutive_successes := successes\<rparr> in
     Inr (if previous_state \<noteq> UnhealthyState \<or> hp_recovery_successes pol \<le> successes
          then snap\<lparr>hs_state := Healthy\<rparr> else snap))"

definition failure_state :: "HealthState \<Rightarrow> u32 \<Rightarrow> HealthPolicy \<Rightarrow> HealthState" where
  "failure_state previous_state failures pol =
     (if hp_unhealthy_after_failures pol \<le> failures then UnhealthyState
      else if hp_degraded_after_failures pol \<le> failures then DegradedHealth
      else if previous_state = UnknownHealth then UnknownHealth
      else Healthy)"

definition apply_retryable_failure ::
  "HealthSnapshot \<Rightarrow> HealthState \<Rightarrow> HealthPolicy \<Rightarrow> (AccountHealthError, HealthSnapshot) result" where
  "apply_retryable_failure snap previous_state pol =
     bind_result (ok_or (health_error HealthVersionExhausted)
       (checked_add (hs_consecutive_failures snap) 1)) (\<lambda>failures.
     Inr (snap\<lparr>hs_consecutive_successes := 0, hs_consecutive_failures := failures,
               hs_state := failure_state previous_state failures pol\<rparr>))"

definition apply_terminal_failure :: "HealthSnapshot \<Rightarrow> HealthPolicy \<Rightarrow> HealthSnapshot" where
  "apply_terminal_failure snap pol =
     snap\<lparr>hs_consecutive_successes := 0, hs_consecutive_failures := hp_unhealthy_after_failures pol,
          hs_state := UnhealthyState\<rparr>"

definition reduce_snapshot ::
  "HealthSnapshot \<Rightarrow> HealthObservation \<Rightarrow> HealthPolicy \<Rightarrow> (AccountHealthError, HealthSnapshot) result" where
  "reduce_snapshot current obs pol =
     bind_result (ok_or (health_error HealthVersionExhausted) (checked_add (hs_revision current) 1)) (\<lambda>revision.
     let succ = current\<lparr>hs_revision := revision, hs_last_sequence := Some (ho_sequence obs),
                  hs_last_observed_at := Some (ho_observed_at obs), hs_last_source := Some (ho_source obs)\<rparr> in
     case ho_signal obs of
       SignalSuccess \<Rightarrow> apply_success succ (hs_state current) pol
     | SignalRetryableFailure \<Rightarrow> apply_retryable_failure succ (hs_state current) pol
     | SignalTerminalFailure \<Rightarrow> Inr (apply_terminal_failure succ pol))"

record AccountHealth =
  ah_account_id :: AccountId
  ah_snapshot :: HealthSnapshot
  ah_poisoned :: bool

definition AccountHealth_new :: "AccountId \<Rightarrow> AccountHealth" where
  "AccountHealth_new account_id =
     \<lparr>ah_account_id = account_id, ah_snapshot = HealthSnapshot_initial account_id, ah_poisoned = False\<rparr>"

definition AccountHealth_observe ::
  "HealthObservation \<Rightarrow> HealthPolicy \<Rightarrow> (AccountHealth, AccountHealthError, HealthSnapshot) update" where
  "AccountHealth_observe obs pol h =
     (if ah_poisoned h then (Inl (health_error HealthStateUnavailable), h)
      else case validate_health_observation (ah_account_id h) (ah_snapshot h) obs of
        Inl e \<Rightarrow> (Inl e, h)
      | Inr _ \<Rightarrow>
     (case reduce_snapshot (ah_snapshot h) obs pol of
        Inl e \<Rightarrow> (Inl e, h)
      | Inr succ \<Rightarrow> (Inr succ, h\<lparr>ah_snapshot := succ\<rparr>)))"

definition AccountHealth_snapshot :: "AccountHealth \<Rightarrow> (AccountHealthError, HealthSnapshot) result" where
  "AccountHealth_snapshot h =
     (if ah_poisoned h then Inl (health_error HealthStateUnavailable) else Inr (ah_snapshot h))"

definition HealthGeneration_initial :: HealthGeneration where "HealthGeneration_initial = 0"

definition HealthGeneration_next :: "HealthGeneration \<Rightarrow> (AccountHealthError, HealthGeneration) result" where
  "HealthGeneration_next g = ok_or (health_error HealthGenerationExhausted) (checked_add g 1)"

record HealthSnapshotSet =
  hss_generation :: HealthGeneration
  hss_snapshots :: "HealthSnapshot list"

record HealthRefreshReceipt =
  hrr_previous_generation :: HealthGeneration
  hrr_generation :: HealthGeneration
  hrr_snapshot_count :: nat

record HealthSnapshotBook =
  hb_generation :: HealthGeneration
  hb_snapshots :: "HealthSnapshot list"
  hb_poisoned :: bool

definition HealthSnapshotBook_new :: HealthSnapshotBook where
  "HealthSnapshotBook_new =
     \<lparr>hb_generation = HealthGeneration_initial, hb_snapshots = [], hb_poisoned = False\<rparr>"

definition validate_snapshot_batch :: "HealthSnapshot list \<Rightarrow> (AccountHealthError, HealthSnapshot list) result" where
  "validate_snapshot_batch snapshots =
     (if MAX_HEALTH_SNAPSHOTS < length snapshots then Inl (health_error HealthLimitExceeded)
      else let ordered = sort_key hs_account_id snapshots in
        if adjacent_equal (map hs_account_id ordered) then Inl (health_error DuplicateHealthSnapshot)
        else Inr ordered)"

definition HealthSnapshotBook_refresh ::
  "HealthSnapshot list \<Rightarrow> HealthGeneration \<Rightarrow>
     (HealthSnapshotBook, AccountHealthError, HealthRefreshReceipt) update" where
  "HealthSnapshotBook_refresh snapshots expected_generation b =
     (case validate_snapshot_batch snapshots of
        Inl e \<Rightarrow> (Inl e, b)
      | Inr ordered \<Rightarrow>
          if hb_poisoned b then (Inl (health_error HealthStateUnavailable), b)
          else if hb_generation b \<noteq> expected_generation
          then (Inl (health_error HealthGenerationConflict), b)
          else (case HealthGeneration_next (hb_generation b) of
                  Inl e \<Rightarrow> (Inl e, b)
                | Inr generation \<Rightarrow>
                    (Inr \<lparr>hrr_previous_generation = hb_generation b, hrr_generation = generation,
                          hrr_snapshot_count = length ordered\<rparr>,
                     b\<lparr>hb_generation := generation, hb_snapshots := ordered\<rparr>)))"

definition HealthSnapshotBook_snapshot_set ::
  "HealthSnapshotBook \<Rightarrow> (AccountHealthError, HealthSnapshotSet) result" where
  "HealthSnapshotBook_snapshot_set b =
     (if hb_poisoned b then Inl (health_error HealthStateUnavailable)
      else Inr \<lparr>hss_generation = hb_generation b, hss_snapshots = hb_snapshots b\<rparr>)"

section \<open>The book\<close>

lemma validate_snapshot_batch_ok:
  "validate_snapshot_batch ss = Inr ordered \<longleftrightarrow>
     length ss \<le> MAX_HEALTH_SNAPSHOTS \<and> ordered = sort_key hs_account_id ss
     \<and> sorted_wrt (<) (map hs_account_id ordered)"
  by (auto simp: validate_snapshot_batch_def Let_def simp flip: adjacent_equal_sorted)

definition health_publish ::
  "HealthSnapshotBook \<Rightarrow> u64 \<Rightarrow> HealthSnapshot list \<Rightarrow> (AccountHealthError + HealthRefreshReceipt) \<times> HealthSnapshotBook" where
  "health_publish b v ss = HealthSnapshotBook_refresh ss v b"

definition health_book_shows :: "HealthSnapshotBook \<Rightarrow> HealthSnapshot list \<Rightarrow> bool" where
  "health_book_shows b ss \<longleftrightarrow>
     (\<exists>s. HealthSnapshotBook_snapshot_set b = Inr s \<and> set (hss_snapshots s) = set ss
       \<and> sorted_wrt (<) (map hs_account_id (hss_snapshots s)))"

lemma HealthSnapshotBook_refresh_ok:
  "HealthSnapshotBook_refresh ss v b = (Inr r, b') \<Longrightarrow>
     \<not> hb_poisoned b \<and> hb_generation b = v \<and>
     (\<exists>v' ordered. unat v' = unat v + 1 \<and> validate_snapshot_batch ss = Inr ordered
       \<and> b' = b\<lparr>hb_generation := v', hb_snapshots := ordered\<rparr>)"
  by (auto simp: HealthSnapshotBook_refresh_def HealthGeneration_next_def checked_add_eq_Some results
        split: if_splits sum.splits)

interpretation health_snapshots: publication hb_generation health_book_shows health_publish
proof
  fix b v c r b' e
  show "hb_generation b = v" if "health_publish b v c = (Inr r, b')"
    using HealthSnapshotBook_refresh_ok that by (auto simp: health_publish_def)
  show "unat (hb_generation b') = unat v + 1" if "health_publish b v c = (Inr r, b')"
    using HealthSnapshotBook_refresh_ok [of c v b r b'] that by (auto simp: health_publish_def)
  show "health_book_shows b' c" if "health_publish b v c = (Inr r, b')"
    using HealthSnapshotBook_refresh_ok [of c v b r b'] that
    by (auto simp: health_publish_def health_book_shows_def HealthSnapshotBook_snapshot_set_def
          validate_snapshot_batch_ok)
  show "b' = b" if "health_publish b v c = (Inl e, b')"
    using that by (auto simp: health_publish_def HealthSnapshotBook_refresh_def split: if_splits sum.splits)
qed

section \<open>The reducer\<close>

definition health_policy_ok :: "HealthPolicy \<Rightarrow> bool" where
  "health_policy_ok pol \<longleftrightarrow>
     1 \<le> hp_degraded_after_failures pol \<and> hp_degraded_after_failures pol \<le> hp_unhealthy_after_failures pol
     \<and> 1 \<le> hp_recovery_successes pol"

lemma HealthPolicy_new_ok: "HealthPolicy_new d u s = Inr pol \<Longrightarrow> health_policy_ok pol"
  by (auto simp: HealthPolicy_new_def health_policy_ok_def Let_def split: if_splits)

lemma word_ge_1: "1 \<le> (x :: u32) \<longleftrightarrow> x \<noteq> 0"
  by (simp add: word_le_nat_alt unat_gt_0 Suc_le_eq)

text \<open>
  \<open>observe\<close> takes the policy on each call; a history here is one of a single account configuration,
  whose policy does not change.
\<close>

definition health_step :: "HealthPolicy \<Rightarrow> AccountHealth \<Rightarrow> HealthObservation \<Rightarrow> AccountHealth \<Rightarrow> bool" where
  "health_step pol h obs h' \<longleftrightarrow> health_policy_ok pol \<and> (\<exists>r. AccountHealth_observe obs pol h = (r, h'))"

definition health_init :: "AccountHealth \<Rightarrow> bool" where
  "health_init h \<longleftrightarrow> (\<exists>a. h = AccountHealth_new a)"

text \<open>What an accepted observation does to the counters and the state.\<close>

lemma observe_refused: "AccountHealth_observe obs pol h = (Inl e, h') \<Longrightarrow> h' = h"
  by (auto simp: AccountHealth_observe_def split: if_splits sum.splits)

lemma observe_accepted:
  assumes "AccountHealth_observe obs pol h = (Inr s, h')"
  obtains "\<not> ah_poisoned h" and "h' = h\<lparr>ah_snapshot := s\<rparr>" and "ho_account_id obs = ah_account_id h"
    and "\<And>n. hs_last_sequence (ah_snapshot h) = Some n \<Longrightarrow> n < ho_sequence obs"
    and "\<And>t. hs_last_observed_at (ah_snapshot h) = Some t \<Longrightarrow> t \<le> ho_observed_at obs"
    and "reduce_snapshot (ah_snapshot h) obs pol = Inr s"
proof (rule that)
  show "\<not> ah_poisoned h" "h' = h\<lparr>ah_snapshot := s\<rparr>" "reduce_snapshot (ah_snapshot h) obs pol = Inr s"
    using assms by (auto simp: AccountHealth_observe_def split: if_splits sum.splits)
  have "validate_health_observation (ah_account_id h) (ah_snapshot h) obs = Inr ()"
    using assms by (auto simp: AccountHealth_observe_def split: if_splits sum.splits)
  then show "ho_account_id obs = ah_account_id h"
    "\<And>n. hs_last_sequence (ah_snapshot h) = Some n \<Longrightarrow> n < ho_sequence obs"
    "\<And>t. hs_last_observed_at (ah_snapshot h) = Some t \<Longrightarrow> t \<le> ho_observed_at obs"
    by (auto simp: validate_health_observation_def not_le not_less split: if_splits)
qed

lemma reduce_snapshot_cases [consumes 1, case_names recovered recovering failed terminal]:
  assumes "reduce_snapshot s obs pol = Inr t"
  obtains (recovered) n where "ho_signal obs = SignalSuccess"
      "unat n = unat (hs_consecutive_successes s) + 1" "hs_consecutive_successes t = n" "hs_consecutive_failures t = 0"
      "hs_state s \<noteq> UnhealthyState \<or> hp_recovery_successes pol \<le> n" "hs_state t = Healthy"
  | (recovering) n where "ho_signal obs = SignalSuccess"
      "unat n = unat (hs_consecutive_successes s) + 1" "hs_consecutive_successes t = n" "hs_consecutive_failures t = 0"
      "hs_state s = UnhealthyState" "n < hp_recovery_successes pol" "hs_state t = UnhealthyState"
  | (failed) n where "ho_signal obs = SignalRetryableFailure"
      "unat n = unat (hs_consecutive_failures s) + 1" "hs_consecutive_failures t = n" "hs_consecutive_successes t = 0"
      "hs_state t = failure_state (hs_state s) n pol"
  | (terminal) "ho_signal obs = SignalTerminalFailure" "hs_consecutive_failures t = hp_unhealthy_after_failures pol"
      "hs_consecutive_successes t = 0" "hs_state t = UnhealthyState"
proof (cases "ho_signal obs")
  case SignalSuccess
  with assms obtain u n where n: "unat n = unat (hs_consecutive_successes s) + 1"
    and t: "apply_success u (hs_state s) pol = Inr t" "hs_consecutive_successes u = hs_consecutive_successes s"
      "hs_state u = hs_state s" "checked_add (hs_consecutive_successes s) 1 = Some n"
    by (auto simp: reduce_snapshot_def results Let_def apply_success_def checked_add_eq_Some)
  show thesis
  proof (cases "hs_state s \<noteq> UnhealthyState \<or> hp_recovery_successes pol \<le> n")
    case True
    with t have "t = u\<lparr>hs_consecutive_failures := 0, hs_consecutive_successes := n, hs_state := Healthy\<rparr>"
      by (auto simp: apply_success_def Let_def)
    with True n SignalSuccess show thesis by (intro recovered [of n]) auto
  next
    case False
    with t have "t = u\<lparr>hs_consecutive_failures := 0, hs_consecutive_successes := n\<rparr>"
      by (auto simp: apply_success_def Let_def)
    with False n t(3) SignalSuccess show thesis by (intro recovering [of n]) auto
  qed
next
  case SignalRetryableFailure
  with assms show thesis
    by (intro failed [of "hs_consecutive_failures t"])
       (auto simp: reduce_snapshot_def results Let_def apply_retryable_failure_def checked_add_eq_Some)
next
  case SignalTerminalFailure
  with assms show thesis
    by (intro terminal) (auto simp: reduce_snapshot_def results Let_def apply_terminal_failure_def)
qed

lemma reduce_snapshot_frame:
  assumes "reduce_snapshot s obs pol = Inr t"
  shows "hs_account_id t = hs_account_id s" "unat (hs_revision t) = unat (hs_revision s) + 1"
    "hs_last_sequence t = Some (ho_sequence obs)" "hs_last_observed_at t = Some (ho_observed_at obs)"
    "hs_last_source t = Some (ho_source obs)"
  using assms
  by (cases "ho_signal obs";
      auto simp: reduce_snapshot_def results Let_def apply_success_def apply_retryable_failure_def
        apply_terminal_failure_def checked_add_eq_Some split: if_splits)+

definition health_counters_ok :: "HealthPolicy \<Rightarrow> HealthSnapshot \<Rightarrow> bool" where
  "health_counters_ok pol s \<longleftrightarrow>
     (let f = hs_consecutive_failures s; n = hs_consecutive_successes s in
      (f = 0 \<or> n = 0) \<and>
      (case hs_state s of
         UnknownHealth \<Rightarrow> f < hp_degraded_after_failures pol \<and> n = 0
       | Healthy \<Rightarrow> f < hp_degraded_after_failures pol
       | DegradedHealth \<Rightarrow> hp_degraded_after_failures pol \<le> f \<and> f < hp_unhealthy_after_failures pol
       | UnhealthyState \<Rightarrow> hp_unhealthy_after_failures pol \<le> f \<or> 0 < n \<and> n < hp_recovery_successes pol))"

definition health_inv :: "HealthPolicy \<Rightarrow> AccountHealth \<Rightarrow> bool" where
  "health_inv pol h \<longleftrightarrow>
     hs_account_id (ah_snapshot h) = ah_account_id h \<and> (health_policy_ok pol \<longrightarrow> health_counters_ok pol (ah_snapshot h))"

lemma health_counters_ok_reduce:
  assumes "reduce_snapshot s obs pol = Inr t" and "health_policy_ok pol" and "health_counters_ok pol s"
  shows "health_counters_ok pol t"
  using assms(1)
proof (cases rule: reduce_snapshot_cases)
  case (recovered n)
  then show ?thesis using assms(2) by (auto simp: health_counters_ok_def Let_def health_policy_ok_def word_less_nat_alt word_le_nat_alt)
next
  case (recovering n)
  then show ?thesis by (auto simp: health_counters_ok_def Let_def word_less_nat_alt)
next
  case (failed n)
  then have "n \<noteq> 0" by auto
  with failed assms(2) show ?thesis
    by (auto simp: health_counters_ok_def Let_def failure_state_def not_le)
next
  case terminal
  then show ?thesis by (auto simp: health_counters_ok_def Let_def)
qed

interpretation health: invariant_system health_init "health_step pol" "health_inv pol" for pol
proof
  show "health_inv pol s" if "health_init s" for s
    using that
    by (auto simp: health_init_def health_inv_def AccountHealth_new_def HealthSnapshot_initial_def health_counters_ok_def
          health_policy_ok_def word_less_nat_alt word_le_nat_alt)
  show "health_inv pol t" if "health_inv pol s" "health_step pol s obs t" for s obs t
  proof -
    from that(2) obtain r where r: "AccountHealth_observe obs pol s = (r, t)" by (auto simp: health_step_def)
    show ?thesis
    proof (cases r)
      case (Inl e)
      with r that(1) show ?thesis by (auto dest: observe_refused)
    next
      case (Inr snap)
      with r have "AccountHealth_observe obs pol s = (Inr snap, t)" by simp
      then show ?thesis
        by (rule observe_accepted)
           (use that(1) in \<open>auto simp: health_inv_def reduce_snapshot_frame(1) intro: health_counters_ok_reduce\<close>)
    qed
  qed
qed

text \<open>
  C33: How an account leaves the unhealthy state. In every reachable reducer that is unhealthy, an
  accepted observation ends the unhealthy state exactly when it is the success that completes the
  configured number of consecutive successes, or when it is a retryable failure that follows at
  least one success and the failure threshold is above one.
\<close>

theorem unhealthy_exits:
  assumes "reachable health_init (health_step pol) h" and "health_policy_ok pol"
    and "hs_state (ah_snapshot h) = UnhealthyState" and "AccountHealth_observe obs pol h = (Inr s, h')"
  shows "hs_state s \<noteq> UnhealthyState \<longleftrightarrow>
    ho_signal obs = SignalSuccess \<and> unat (hp_recovery_successes pol) \<le> unat (hs_consecutive_successes (ah_snapshot h)) + 1
    \<or> ho_signal obs = SignalRetryableFailure \<and> 0 < hs_consecutive_successes (ah_snapshot h)
      \<and> 1 < hp_unhealthy_after_failures pol"
proof -
  have inv: "health_counters_ok pol (ah_snapshot h)"
    using health.reachable_inv [OF assms(1)] assms(2) by (simp add: health_inv_def)
  have "reduce_snapshot (ah_snapshot h) obs pol = Inr s" using assms(4) by (rule observe_accepted)
  then show ?thesis
  proof (cases rule: reduce_snapshot_cases)
    case (failed n)
    with inv assms(2,3) show ?thesis
      by (auto simp: health_counters_ok_def Let_def failure_state_def health_policy_ok_def word_less_nat_alt word_le_nat_alt
            split: if_splits)
  qed (use assms(3) in \<open>auto simp: word_less_nat_alt word_le_nat_alt\<close>)
qed

text \<open>
  The second way out is not a recovery: one success clears the failure count, so the next failure
  counts as the first one and makes the account healthy at once, with a failure as its latest
  observation and fewer successes than the policy asks for.
\<close>

definition observed :: "u64 \<Rightarrow> HealthSignal \<Rightarrow> HealthObservation" where
  "observed n signal =
     \<lparr>ho_account_id = ''acct'', ho_sequence = n, ho_observed_at = n, ho_source = PassiveRequest, ho_signal = signal\<rparr>"

definition strict_policy :: HealthPolicy where
  "strict_policy = \<lparr>hp_degraded_after_failures = 2, hp_unhealthy_after_failures = 3, hp_recovery_successes = 5\<rparr>"

definition observe_health :: "HealthPolicy \<Rightarrow> AccountHealth \<Rightarrow> HealthObservation list \<Rightarrow> AccountHealth" where
  "observe_health pol h obs = fold (\<lambda>ob h. snd (AccountHealth_observe ob pol h)) obs h"

lemmas observing = AccountHealth_observe_def validate_health_observation_def reduce_snapshot_def apply_success_def
  apply_retryable_failure_def apply_terminal_failure_def failure_state_def checked_add_def observed_def
  strict_policy_def AccountHealth_new_def HealthSnapshot_initial_def Let_def word_le_nat_alt word_less_nat_alt

lemma observe_health_reachable:
  "health_policy_ok pol \<Longrightarrow> reachable health_init (health_step pol) (observe_health pol (AccountHealth_new a) obs)"
proof (induction obs rule: rev_induct)
  case Nil
  show ?case unfolding observe_health_def by (rule reachable_init) (auto simp: health_init_def)
next
  case (snoc ob obs)
  have "health_step pol (observe_health pol (AccountHealth_new a) obs) ob (observe_health pol (AccountHealth_new a) (obs @ [ob]))"
    using snoc.prems by (auto simp: health_step_def observe_health_def intro: prod.collapse [symmetric])
  then show ?case using reachable_step [OF snoc.IH [OF snoc.prems]] by blast
qed

lemma strict_policy_ok: "HealthPolicy_new 2 3 5 = Inr strict_policy" "health_policy_ok strict_policy"
  by (simp_all add: HealthPolicy_new_def MAX_HEALTH_THRESHOLD_def strict_policy_def health_policy_ok_def)

definition recovering_account :: AccountHealth where
  "recovering_account = observe_health strict_policy (AccountHealth_new ''acct'')
     [observed 1 SignalTerminalFailure, observed 2 SignalSuccess]"

lemma recovering_account_eq:
  "recovering_account =
     \<lparr>ah_account_id = ''acct'',
      ah_snapshot = \<lparr>hs_account_id = ''acct'', hs_revision = 2, hs_state = UnhealthyState, hs_consecutive_failures = 0,
        hs_consecutive_successes = 1, hs_last_sequence = Some 2, hs_last_observed_at = Some 2,
        hs_last_source = Some PassiveRequest\<rparr>, ah_poisoned = False\<rparr>"
  by (simp add: recovering_account_def observe_health_def observing)

theorem unhealthy_exits_witness:
  "\<exists>s h'. AccountHealth_observe (observed 3 SignalRetryableFailure) strict_policy recovering_account = (Inr s, h')
     \<and> hs_state s \<noteq> UnhealthyState"
proof -
  have reach: "reachable health_init (health_step strict_policy) recovering_account"
    unfolding recovering_account_def by (rule observe_health_reachable [OF strict_policy_ok(2)])
  obtain s h' where step: "AccountHealth_observe (observed 3 SignalRetryableFailure) strict_policy recovering_account = (Inr s, h')"
    by (simp add: recovering_account_eq observing)
  have "hs_state (ah_snapshot recovering_account) = UnhealthyState" by (simp add: recovering_account_eq)
  from unhealthy_exits [OF reach strict_policy_ok(2) this step] step show ?thesis
    by (simp add: recovering_account_eq observed_def strict_policy_def)
qed

lemma failure_ends_unhealthy:
  assumes "hs_state (ah_snapshot h) = UnhealthyState" and "hs_consecutive_failures (ah_snapshot h) = 0"
    and "1 < hp_degraded_after_failures pol" and "health_policy_ok pol" and "ho_signal obs = SignalRetryableFailure"
    and "AccountHealth_observe obs pol h = (Inr s, h')"
  shows "hs_state s = Healthy \<and> hs_consecutive_failures s = 1"
proof -
  have "reduce_snapshot (ah_snapshot h) obs pol = Inr s" using assms(6) by (rule observe_accepted)
  then show ?thesis
    using assms(1-5)
    by (cases rule: reduce_snapshot_cases)
       (auto simp: failure_state_def health_policy_ok_def word_less_nat_alt word_le_nat_alt word_unat_eq_iff)
qed

theorem recovery_is_bypassed_by_a_failure:
  "hs_state (ah_snapshot recovering_account) = UnhealthyState \<and>
   (\<exists>s h'. AccountHealth_observe (observed 3 SignalRetryableFailure) strict_policy recovering_account = (Inr s, h')
     \<and> hs_state s = Healthy \<and> hs_consecutive_successes s = 0 \<and> hp_recovery_successes strict_policy = 5)"
  by (simp add: recovering_account_eq observing)

end
