(* ===== verification/Account_Schedule.thy ===== *)
theory Account_Schedule
  imports Core_Ids Slices Interfaces
begin

text \<open>
  The availability schedules of \<open>ariadnion-account-schedule\<close>: weekly local-time windows with a fixed
  offset, maintenance intervals that override them, and the book that publishes a sorted set of
  schedules against a version. The lemmas show that the machine arithmetic of \<open>is_available_at\<close> is
  the calendar it means, that weekly availability repeats every week, and that the book is a
  version-checked publisher whose lookup finds the schedule of an account.
\<close>

section \<open>Model\<close>

definition SECONDS_PER_DAY :: u64 where "SECONDS_PER_DAY = 86400"
definition MINUTES_PER_DAY :: u16 where "MINUTES_PER_DAY = 1440"
definition MAX_OFFSET_MINUTES :: int where "MAX_OFFSET_MINUTES = 1440"
definition MAX_WEEKLY_WINDOWS :: nat where "MAX_WEEKLY_WINDOWS = 128"
definition MAX_MAINTENANCE_WINDOWS :: nat where "MAX_MAINTENANCE_WINDOWS = 128"
definition MAX_ACCOUNT_SCHEDULES :: nat where "MAX_ACCOUNT_SCHEDULES = 2 ^ 17"

datatype ScheduleErrorCode =
  ScheduleInvalidArgument | ScheduleLimitExceeded | DuplicateScheduledAccount | DuplicateWindow
| ScheduleVersionConflict | ScheduleVersionExhausted | ScheduleStateUnavailable

fun ScheduleErrorCode_as_str :: "ScheduleErrorCode \<Rightarrow> string" where
  "ScheduleErrorCode_as_str ScheduleInvalidArgument = ''ACCOUNT_SCHEDULE_INVALID_ARGUMENT''"
| "ScheduleErrorCode_as_str ScheduleLimitExceeded = ''ACCOUNT_SCHEDULE_LIMIT_EXCEEDED''"
| "ScheduleErrorCode_as_str DuplicateScheduledAccount = ''ACCOUNT_SCHEDULE_DUPLICATE_ACCOUNT''"
| "ScheduleErrorCode_as_str DuplicateWindow = ''ACCOUNT_SCHEDULE_DUPLICATE_WINDOW''"
| "ScheduleErrorCode_as_str ScheduleVersionConflict = ''ACCOUNT_SCHEDULE_VERSION_CONFLICT''"
| "ScheduleErrorCode_as_str ScheduleVersionExhausted = ''ACCOUNT_SCHEDULE_VERSION_EXHAUSTED''"
| "ScheduleErrorCode_as_str ScheduleStateUnavailable = ''ACCOUNT_SCHEDULE_STATE_UNAVAILABLE''"

record ScheduleError =
  sce_code :: ScheduleErrorCode

definition schedule_error :: "ScheduleErrorCode \<Rightarrow> ScheduleError" where
  "schedule_error code = \<lparr>sce_code = code\<rparr>"

type_synonym ScheduleVersion = u64
type_synonym ScheduleTime = u64

text \<open>An \<open>i32\<close>, as an integer within its bound.\<close>

type_synonym LocalOffsetMinutes = int

definition ScheduleVersion_initial :: ScheduleVersion where "ScheduleVersion_initial = 0"

definition ScheduleVersion_next :: "ScheduleVersion \<Rightarrow> (ScheduleError, ScheduleVersion) result" where
  "ScheduleVersion_next v = ok_or (schedule_error ScheduleVersionExhausted) (checked_add v 1)"

definition LocalOffsetMinutes_new :: "int \<Rightarrow> (ScheduleError, LocalOffsetMinutes) result" where
  "LocalOffsetMinutes_new value =
     (if \<not> (- MAX_OFFSET_MINUTES \<le> value \<and> value \<le> MAX_OFFSET_MINUTES)
      then Inl (schedule_error ScheduleInvalidArgument) else Inr value)"

datatype Weekday = Monday | Tuesday | Wednesday | Thursday | Friday | Saturday | Sunday

definition from_unix_day :: "u64 \<Rightarrow> Weekday" where
  "from_unix_day day =
     (let n = (ucast ((day + 3) mod 7) :: u8) in
      if n = 0 then Monday else if n = 1 then Tuesday else if n = 2 then Wednesday
      else if n = 3 then Thursday else if n = 4 then Friday else if n = 5 then Saturday
      else Sunday)"

type_synonym MinuteOfDay = u16

definition MinuteOfDay_new :: "u16 \<Rightarrow> (ScheduleError, MinuteOfDay) result" where
  "MinuteOfDay_new value =
     (if MINUTES_PER_DAY < value then Inl (schedule_error ScheduleInvalidArgument) else Inr value)"

record ScheduleWindow =
  sw_weekday :: Weekday
  sw_start :: MinuteOfDay
  sw_end :: MinuteOfDay

definition ScheduleWindow_new ::
  "Weekday \<Rightarrow> MinuteOfDay \<Rightarrow> MinuteOfDay \<Rightarrow> (ScheduleError, ScheduleWindow) result" where
  "ScheduleWindow_new weekday start finish =
     (if finish \<le> start then Inl (schedule_error ScheduleInvalidArgument)
      else Inr \<lparr>sw_weekday = weekday, sw_start = start, sw_end = finish\<rparr>)"

definition schedule_window_contains :: "ScheduleWindow \<Rightarrow> Weekday \<Rightarrow> u16 \<Rightarrow> bool" where
  "schedule_window_contains w weekday minute \<longleftrightarrow>
     sw_weekday w = weekday \<and> sw_start w \<le> minute \<and> minute < sw_end w"

record MaintenanceWindow =
  mw_start :: ScheduleTime
  mw_end :: ScheduleTime

definition MaintenanceWindow_new ::
  "ScheduleTime \<Rightarrow> ScheduleTime \<Rightarrow> (ScheduleError, MaintenanceWindow) result" where
  "MaintenanceWindow_new start finish =
     (if finish \<le> start then Inl (schedule_error ScheduleInvalidArgument)
      else Inr \<lparr>mw_start = start, mw_end = finish\<rparr>)"

definition maintenance_contains :: "MaintenanceWindow \<Rightarrow> ScheduleTime \<Rightarrow> bool" where
  "maintenance_contains w timestamp \<longleftrightarrow> mw_start w \<le> timestamp \<and> timestamp < mw_end w"

record AccountSchedule =
  as_account_id :: AccountId
  as_offset :: LocalOffsetMinutes
  as_weekly_windows :: "ScheduleWindow list"
  as_maintenance_windows :: "MaintenanceWindow list"

text \<open>The derived orders compare the fields in declaration order, weekdays from Monday on.\<close>

fun weekday_rank :: "Weekday \<Rightarrow> nat" where
  "weekday_rank Monday = 0"
| "weekday_rank Tuesday = 1"
| "weekday_rank Wednesday = 2"
| "weekday_rank Thursday = 3"
| "weekday_rank Friday = 4"
| "weekday_rank Saturday = 5"
| "weekday_rank Sunday = 6"

definition window_key :: "ScheduleWindow \<Rightarrow> nat \<times> u16 \<times> u16" where
  "window_key w = (weekday_rank (sw_weekday w), sw_start w, sw_end w)"

definition maintenance_key :: "MaintenanceWindow \<Rightarrow> u64 \<times> u64" where
  "maintenance_key w = (mw_start w, mw_end w)"

definition AccountSchedule_new ::
  "AccountId \<Rightarrow> LocalOffsetMinutes \<Rightarrow> ScheduleWindow list \<Rightarrow> MaintenanceWindow list \<Rightarrow>
     (ScheduleError, AccountSchedule) result" where
  "AccountSchedule_new account_id offset weekly_windows maintenance_windows =
     (if MAX_WEEKLY_WINDOWS < length weekly_windows
         \<or> MAX_MAINTENANCE_WINDOWS < length maintenance_windows
      then Inl (schedule_error ScheduleLimitExceeded)
      else let weekly = sort_key window_key weekly_windows in
      if adjacent_equal weekly then Inl (schedule_error DuplicateWindow)
      else let maintenance = sort_key maintenance_key maintenance_windows in
      if adjacent_equal maintenance then Inl (schedule_error DuplicateWindow)
      else Inr \<lparr>as_account_id = account_id, as_offset = offset, as_weekly_windows = weekly,
                as_maintenance_windows = maintenance\<rparr>)"

definition shift_utc :: "ScheduleTime \<Rightarrow> LocalOffsetMinutes \<Rightarrow> (ScheduleError, u64) result" where
  "shift_utc timestamp offset =
     bind_result (ok_or (schedule_error ScheduleVersionExhausted) (try_word (nat \<bar>offset\<bar> * 60))) (\<lambda>magnitude.
       if 0 \<le> offset
       then ok_or (schedule_error ScheduleVersionExhausted) (checked_add timestamp magnitude)
       else ok_or (schedule_error ScheduleInvalidArgument) (checked_sub timestamp magnitude))"

definition is_available_at :: "AccountSchedule \<Rightarrow> ScheduleTime \<Rightarrow> (ScheduleError, bool) result" where
  "is_available_at s timestamp =
     (if list_ex (\<lambda>w. maintenance_contains w timestamp) (as_maintenance_windows s) then Inr False
      else bind_result (shift_utc timestamp (as_offset s)) (\<lambda>local_seconds.
        let day = local_seconds div SECONDS_PER_DAY;
            minute = (ucast ((local_seconds mod SECONDS_PER_DAY) div 60) :: u16);
            weekday = from_unix_day day
        in Inr (list_ex (\<lambda>w. schedule_window_contains w weekday minute) (as_weekly_windows s))))"

record ScheduleSnapshot =
  ssn_version :: ScheduleVersion
  ssn_schedules :: "AccountSchedule list"

definition ScheduleSnapshot_new ::
  "ScheduleVersion \<Rightarrow> AccountSchedule list \<Rightarrow> (ScheduleError, ScheduleSnapshot) result" where
  "ScheduleSnapshot_new version schedules =
     (if MAX_ACCOUNT_SCHEDULES < length schedules then Inl (schedule_error ScheduleLimitExceeded)
      else let ordered = sort_key as_account_id schedules in
        if adjacent_equal (map as_account_id ordered) then Inl (schedule_error DuplicateScheduledAccount)
        else Inr \<lparr>ssn_version = version, ssn_schedules = ordered\<rparr>)"

definition schedule_for :: "ScheduleSnapshot \<Rightarrow> AccountId \<Rightarrow> AccountSchedule option" where
  "schedule_for s account_id =
     map_option (\<lambda>i. ssn_schedules s ! i) (binary_search (map as_account_id (ssn_schedules s)) account_id)"

record ScheduleReceipt =
  scr_version :: ScheduleVersion
  scr_snapshot :: ScheduleSnapshot

record ScheduleBook =
  scb_snapshot :: ScheduleSnapshot
  scb_poisoned :: bool

definition ScheduleBook_new :: ScheduleBook where
  "ScheduleBook_new =
     \<lparr>scb_snapshot = \<lparr>ssn_version = ScheduleVersion_initial, ssn_schedules = []\<rparr>, scb_poisoned = False\<rparr>"

definition ScheduleBook_publish ::
  "ScheduleBook \<Rightarrow> ScheduleVersion \<Rightarrow> AccountSchedule list \<Rightarrow> (ScheduleError + ScheduleReceipt) \<times> ScheduleBook" where
  "ScheduleBook_publish b expected_version schedules =
     (if scb_poisoned b then (Inl (schedule_error ScheduleStateUnavailable), b)
      else if ssn_version (scb_snapshot b) \<noteq> expected_version
      then (Inl (schedule_error ScheduleVersionConflict), b)
      else (case ScheduleVersion_next expected_version of
              Inl e \<Rightarrow> (Inl e, b)
            | Inr version \<Rightarrow>
           (case ScheduleSnapshot_new version schedules of
              Inl e \<Rightarrow> (Inl e, b)
            | Inr published \<Rightarrow>
                (Inr \<lparr>scr_version = version, scr_snapshot = published\<rparr>, b\<lparr>scb_snapshot := published\<rparr>))))"

definition ScheduleBook_current_snapshot :: "ScheduleBook \<Rightarrow> (ScheduleError, ScheduleSnapshot) result" where
  "ScheduleBook_current_snapshot b =
     (if scb_poisoned b then Inl (schedule_error ScheduleStateUnavailable) else Inr (scb_snapshot b))"

section \<open>Publication and lookup\<close>

definition schedule_book_version :: "ScheduleBook \<Rightarrow> u64" where
  "schedule_book_version b = ssn_version (scb_snapshot b)"

definition schedule_book_shows :: "ScheduleBook \<Rightarrow> AccountSchedule list \<Rightarrow> bool" where
  "schedule_book_shows b schedules \<longleftrightarrow>
     (\<exists>s. ScheduleBook_current_snapshot b = Inr s \<and> set (ssn_schedules s) = set schedules
       \<and> sorted_wrt (<) (map as_account_id (ssn_schedules s)))"

lemma ScheduleSnapshot_new_ok:
  "ScheduleSnapshot_new v ss = Inr s \<longleftrightarrow>
     length ss \<le> MAX_ACCOUNT_SCHEDULES \<and> s = \<lparr>ssn_version = v, ssn_schedules = sort_key as_account_id ss\<rparr>
     \<and> sorted_wrt (<) (map as_account_id (ssn_schedules s))"
  by (auto simp: ScheduleSnapshot_new_def Let_def simp flip: adjacent_equal_sorted)

lemma ScheduleBook_publish_ok:
  "ScheduleBook_publish b v ss = (Inr r, b') \<Longrightarrow>
     \<not> scb_poisoned b \<and> schedule_book_version b = v \<and>
     (\<exists>v' s. unat v' = unat v + 1 \<and> ScheduleSnapshot_new v' ss = Inr s \<and> b' = b\<lparr>scb_snapshot := s\<rparr>)"
  by (auto simp: ScheduleBook_publish_def ScheduleVersion_next_def schedule_book_version_def
        checked_add_eq_Some results split: if_splits sum.splits)

interpretation account_schedules: publication schedule_book_version schedule_book_shows ScheduleBook_publish
proof
  fix b v c r b' e
  show "schedule_book_version b = v" if "ScheduleBook_publish b v c = (Inr r, b')"
    using ScheduleBook_publish_ok [OF that] by simp
  show "unat (schedule_book_version b') = unat v + 1" if "ScheduleBook_publish b v c = (Inr r, b')"
    using ScheduleBook_publish_ok [OF that] by (auto simp: schedule_book_version_def ScheduleSnapshot_new_ok)
  show "schedule_book_shows b' c" if "ScheduleBook_publish b v c = (Inr r, b')"
    using ScheduleBook_publish_ok [OF that]
    by (auto simp: schedule_book_shows_def ScheduleBook_current_snapshot_def ScheduleSnapshot_new_ok)
  show "b' = b" if "ScheduleBook_publish b v c = (Inl e, b')"
    using that by (auto simp: ScheduleBook_publish_def split: if_splits sum.splits)
qed

lemma schedule_for_iff:
  assumes "sorted_wrt (<) (map as_account_id (ssn_schedules s))"
  shows "schedule_for s a = Some x \<longleftrightarrow> x \<in> set (ssn_schedules s) \<and> as_account_id x = a"
proof -
  let ?ss = "ssn_schedules s"
  have at: "binary_search (map as_account_id ?ss) a = Some i \<longleftrightarrow> i < length ?ss \<and> as_account_id (?ss ! i) = a" for i
    using binary_search_correct [OF assms, of a i] by auto
  have "distinct (map as_account_id ?ss)" using assms by (simp add: strict_sorted_iff)
  then show ?thesis
    using at by (auto simp: schedule_for_def in_set_conv_nth)
qed

section \<open>The calendar\<close>

text \<open>The local time of an instant, and the weekday and minute it falls on, over the integers.\<close>

definition local_time :: "AccountSchedule \<Rightarrow> ScheduleTime \<Rightarrow> int" where
  "local_time s t = int (unat t) + 60 * as_offset s"

definition local_weekday :: "int \<Rightarrow> int" where
  "local_weekday seconds = (seconds div 86400 + 3) mod 7"

definition local_minute :: "int \<Rightarrow> int" where
  "local_minute seconds = seconds mod 86400 div 60"

definition open_at :: "ScheduleWindow \<Rightarrow> int \<Rightarrow> bool" where
  "open_at w seconds \<longleftrightarrow>
     int (weekday_rank (sw_weekday w)) = local_weekday seconds
     \<and> uint (sw_start w) \<le> local_minute seconds \<and> local_minute seconds < uint (sw_end w)"

lemma weekday_rank_inject [simp]: "weekday_rank a = weekday_rank b \<longleftrightarrow> a = b"
  by (cases a; cases b) auto

lemma shift_utc_ok:
  assumes "\<bar>offset\<bar> \<le> MAX_OFFSET_MINUTES"
  shows "shift_utc t offset = Inr x \<longleftrightarrow> int (unat x) = int (unat t) + 60 * offset"
proof -
  have bound: "nat \<bar>offset\<bar> * 60 < 2 ^ 64" using assms by (simp add: MAX_OFFSET_MINUTES_def)
  then obtain m :: u64 where m: "try_word (nat \<bar>offset\<bar> * 60) = Some m" "unat m = nat \<bar>offset\<bar> * 60"
    using try_word_eq_None [of "nat \<bar>offset\<bar> * 60", where 'a = 64] by (auto simp: try_word_eq_Some simp flip: not_le)
  then show ?thesis
    by (auto simp: shift_utc_def results checked_add_eq_Some checked_sub_eq_Some simp del: of_nat_unat)
qed

lemma shift_utc_err:
  assumes "\<bar>offset\<bar> \<le> MAX_OFFSET_MINUTES"
  shows "(\<exists>e. shift_utc t offset = Inl e) \<longleftrightarrow> int (unat t) + 60 * offset < 0 \<or> 2 ^ 64 \<le> int (unat t) + 60 * offset"
proof -
  let ?n = "int (unat t) + 60 * offset"
  have "(\<exists>x. shift_utc t offset = Inr x) \<longleftrightarrow> 0 \<le> ?n \<and> ?n < 2 ^ 64"
  proof
    assume "\<exists>x. shift_utc t offset = Inr x"
    then obtain x where "shift_utc t offset = Inr x" ..
    then have "int (unat x) = ?n" by (simp only: shift_utc_ok [OF assms])
    then show "0 \<le> ?n \<and> ?n < 2 ^ 64" using unat_lt_width [of x] by (auto simp del: of_nat_unat)
  next
    assume n: "0 \<le> ?n \<and> ?n < 2 ^ 64"
    then have "nat ?n < 2 ^ 64" by (simp add: nat_less_iff del: of_nat_unat)
    then have "unat (of_nat (nat ?n) :: u64) = nat ?n" by (simp add: unat_of_nat del: of_nat_unat)
    then have "int (unat (of_nat (nat ?n) :: u64)) = ?n" using n by (simp del: of_nat_unat)
    then show "\<exists>x. shift_utc t offset = Inr x" using shift_utc_ok [OF assms] by blast
  qed
  then show ?thesis by (cases "shift_utc t offset") auto
qed

lemma weekday_from_unix_day:
  assumes "unat day + 3 < 2 ^ 64"
  shows "weekday_rank (from_unix_day day) = (unat day + 3) mod 7"
proof -
  let ?n = "ucast ((day + 3) mod 7) :: u8"
  have "unat (day + 3) = unat day + 3" using assms by (subst unat_plus_exact) auto
  then have "unat ((day + 3) mod 7) = (unat day + 3) mod 7" by (simp add: unat_mod)
  then have n: "unat ?n = (unat day + 3) mod 7" 
    by (simp add: unsigned_ucast_eq take_bit_nat_eq_self)
  consider "?n = 0" | "?n = 1" | "?n = 2" | "?n = 3" | "?n = 4" | "?n = 5" | "?n = 6"
  proof -
    have "unat ?n < 7" using n by simp
    then have "unat ?n \<in> {0, 1, 2, 3, 4, 5, 6}" by auto
    then show thesis using that by (auto simp: word_unat_eq_iff)
  qed
  then show ?thesis
    by cases (simp_all add: from_unix_day_def n [symmetric])
qed

lemma unat_minute:
  "unat (ucast ((x mod SECONDS_PER_DAY) div 60) :: u16) = unat x mod 86400 div 60"
proof -
  have "unat ((x mod SECONDS_PER_DAY) div 60) = unat x mod 86400 div 60"
    by (simp add: SECONDS_PER_DAY_def unat_div unat_mod)
  moreover have "unat x mod 86400 div 60 < 1440" by (simp add: less_mult_imp_div_less)
  ultimately show ?thesis by (simp add: unsigned_ucast_eq take_bit_nat_eq_self)
qed

lemma window_open_at:
  assumes "int (unat x) = seconds"
  shows "schedule_window_contains w (from_unix_day (x div SECONDS_PER_DAY))
           (ucast ((x mod SECONDS_PER_DAY) div 60)) \<longleftrightarrow> open_at w seconds"
proof -
  have day: "unat (x div SECONDS_PER_DAY) = unat x div 86400"
    by (simp add: SECONDS_PER_DAY_def unat_div)
  have "unat x div 86400 + 3 < 2 ^ 64"
    using unat_lt_width [of x] by (simp add: div_less_iff_less_mult) 
  then have rank: "weekday_rank (from_unix_day (x div SECONDS_PER_DAY)) = (unat x div 86400 + 3) mod 7"
    using weekday_from_unix_day [of "x div SECONDS_PER_DAY"] day by simp
  have "int ((unat x div 86400 + 3) mod 7) = local_weekday seconds"
    using assms by (simp add: local_weekday_def zmod_int zdiv_int del: of_nat_unat)
  then have "sw_weekday w = from_unix_day (x div SECONDS_PER_DAY) \<longleftrightarrow>
      int (weekday_rank (sw_weekday w)) = local_weekday seconds"
    unfolding weekday_rank_inject [symmetric] rank by linarith
  moreover have "int (unat (ucast ((x mod SECONDS_PER_DAY) div 60) :: u16)) = local_minute seconds"
    unfolding unat_minute local_minute_def using assms by (auto simp: zmod_int zdiv_int simp del: of_nat_unat)
  ultimately show ?thesis
    unfolding schedule_window_contains_def open_at_def
    by (simp only: word_le_nat_alt word_less_nat_alt of_nat_le_iff [where 'a = int, symmetric]
          of_nat_less_iff [where 'a = int, symmetric] uint_nat)
qed

lemma is_available_at_iff:
  assumes "\<bar>as_offset s\<bar> \<le> MAX_OFFSET_MINUTES"
  shows "is_available_at s t = Inr True \<longleftrightarrow>
     \<not> list_ex (\<lambda>w. maintenance_contains w t) (as_maintenance_windows s)
     \<and> 0 \<le> local_time s t \<and> local_time s t < 2 ^ 64
     \<and> list_ex (\<lambda>w. open_at w (local_time s t)) (as_weekly_windows s)"
proof (cases "shift_utc t (as_offset s)")
  case (Inl e)
  then have "\<not> (0 \<le> local_time s t \<and> local_time s t < 2 ^ 64)"
    using shift_utc_err [OF assms, of t] by (auto simp: local_time_def)
  with Inl show ?thesis by (auto simp: is_available_at_def)
next
  case (Inr x)
  then have x: "int (unat x) = local_time s t" using shift_utc_ok [OF assms] by (simp add: local_time_def)
  then have "0 \<le> local_time s t \<and> local_time s t < 2 ^ 64"
    using unat_lt_width [of x] by (auto simp del: of_nat_unat)
  with Inr show ?thesis
    by (auto simp: is_available_at_def Let_def window_open_at [OF x])
qed

lemma open_at_next_week: "open_at w (seconds + 604800) \<longleftrightarrow> open_at w seconds"
proof -
  have "(seconds + 604800) div 86400 = seconds div 86400 + 7" by simp
  moreover have "(seconds + 604800) mod 86400 = seconds mod 86400"
    using mod_mult_self1 [of seconds 7 86400] by simp
  moreover have "(seconds div 86400 + 7 + 3) mod 7 = (seconds div 86400 + 3) mod 7"
    using mod_add_self2 [of "seconds div 86400 + 3" 7] by (simp add: ac_simps)
  ultimately show ?thesis by (simp add: open_at_def local_weekday_def local_minute_def)
qed

definition in_maintenance :: "AccountSchedule \<Rightarrow> ScheduleTime \<Rightarrow> bool" where
  "in_maintenance s t \<longleftrightarrow> list_ex (\<lambda>w. maintenance_contains w t) (as_maintenance_windows s)"

lemma is_available_at_err:
  assumes "\<bar>as_offset s\<bar> \<le> MAX_OFFSET_MINUTES"
  shows "(\<exists>e. is_available_at s t = Inl e) \<longleftrightarrow>
     \<not> in_maintenance s t \<and> (local_time s t < 0 \<or> 2 ^ 64 \<le> local_time s t)"
  using shift_utc_err [OF assms, of t]
  by (cases "shift_utc t (as_offset s)")
     (auto simp: is_available_at_def in_maintenance_def local_time_def Let_def)

lemma is_available_at_False:
  "is_available_at s t = Inr False \<longleftrightarrow> is_available_at s t \<noteq> Inr True \<and> (\<forall>e. is_available_at s t \<noteq> Inl e)"
  by (cases "is_available_at s t") auto

text \<open>
  C31: Availability is the calendar it means. For a schedule with an accepted offset, an account is
  available at an instant exactly when no maintenance interval contains it and one of the weekly
  windows is open on the weekday and at the minute of the local time; the test fails exactly when
  the local time leaves the representable range outside maintenance; and outside maintenance the
  answer repeats after a week.
\<close>

theorem availability_follows_the_calendar:
  assumes "LocalOffsetMinutes_new offset = Inr (as_offset s)"
  shows "(is_available_at s t = Inr True \<longleftrightarrow>
       \<not> in_maintenance s t \<and> 0 \<le> local_time s t \<and> local_time s t < 2 ^ 64
       \<and> (\<exists>w \<in> set (as_weekly_windows s). open_at w (local_time s t)))
   \<and> ((\<exists>e. is_available_at s t = Inl e) \<longleftrightarrow>
       \<not> in_maintenance s t \<and> (local_time s t < 0 \<or> 2 ^ 64 \<le> local_time s t))
   \<and> (unat t' = unat t + 604800 \<and> \<not> in_maintenance s t \<and> \<not> in_maintenance s t'
       \<and> 0 \<le> local_time s t \<and> local_time s t' < 2 ^ 64
       \<longrightarrow> (\<exists>open. is_available_at s t = Inr open \<and> is_available_at s t' = Inr open))"
proof -
  have offset: "\<bar>as_offset s\<bar> \<le> MAX_OFFSET_MINUTES"
    using assms by (auto simp: LocalOffsetMinutes_new_def split: if_splits)
  note True_iff = is_available_at_iff [OF offset, folded in_maintenance_def, unfolded list_ex_iff]
  note err_iff = is_available_at_err [OF offset]
  have "\<exists>open. is_available_at s t = Inr open \<and> is_available_at s t' = Inr open"
    if "unat t' = unat t + 604800" "\<not> in_maintenance s t" "\<not> in_maintenance s t'"
      "0 \<le> local_time s t" "local_time s t' < 2 ^ 64"
  proof -
    have week: "local_time s t' = local_time s t + 604800"
      using that(1) unfolding local_time_def by (simp del: of_nat_unat)
    have "is_available_at s t = Inr True \<longleftrightarrow> is_available_at s t' = Inr True"
      using that week by (auto simp: True_iff open_at_next_week)
    moreover have "\<nexists>e. is_available_at s t = Inl e" "\<nexists>e. is_available_at s t' = Inl e"
      using that week unfolding err_iff by auto
    ultimately show ?thesis by (metis is_available_at_False)
  qed
  with True_iff err_iff show ?thesis by blast
qed

definition demo_availability :: AccountSchedule where
  "demo_availability =
     \<lparr>as_account_id = ''acct'', as_offset = 60,
      as_weekly_windows = [\<lparr>sw_weekday = Thursday, sw_start = 60, sw_end = 120\<rparr>],
      as_maintenance_windows = [\<lparr>mw_start = 1800, mw_end = 3600\<rparr>]\<rparr>"

theorem availability_follows_the_calendar_witness:
  "is_available_at demo_availability 0 = Inr True \<and> is_available_at demo_availability 604800 = Inr True"
proof -
  have offset: "LocalOffsetMinutes_new 60 = Inr (as_offset demo_availability)"
    by (simp add: LocalOffsetMinutes_new_def MAX_OFFSET_MINUTES_def demo_availability_def)
  have "is_available_at demo_availability 0 = Inr True"
    using availability_follows_the_calendar [OF offset, of 0]
    by (simp add: demo_availability_def in_maintenance_def maintenance_contains_def local_time_def open_at_def
          local_weekday_def local_minute_def)
  moreover have "\<exists>x. is_available_at demo_availability 0 = Inr x \<and> is_available_at demo_availability 604800 = Inr x"
    using availability_follows_the_calendar [OF offset, of 0 604800]
    by (simp add: demo_availability_def in_maintenance_def maintenance_contains_def local_time_def)
  ultimately show ?thesis by auto
qed

end
