(* ===== verification/Route_Selection.thy ===== *)
theory Route_Selection
  imports Route_Coordinator Routing_Wasm Model_Catalog Account_Health Account_Schedule Circuit_Book Selection_Policy
begin

text \<open>
  The candidate filter and the selection of \<open>ariadnion-routing-coordinator\<close> (\<open>engine.rs\<close>, with the
  snapshot types of \<open>lib.rs\<close> and \<open>proxy.rs\<close>): from a request and the immutable snapshots of every
  domain, \<open>prepare_selection\<close> checks the model, walks every candidate of the pool through the
  eligibility checks in their order, quotes and constrains the cost, selects by affinity, by an
  installed policy or by weighted load, and explains every candidate it did not select.
\<close>

section \<open>Snapshots\<close>

datatype MissingSignalPolicy = FailClosed | AllowWithDegradation

record 'a OptionalSnapshot =
  os_value :: "'a option"
  os_missing_policy :: MissingSignalPolicy

definition OptionalSnapshot_available :: "'a \<Rightarrow> MissingSignalPolicy \<Rightarrow> 'a OptionalSnapshot" where
  "OptionalSnapshot_available value missing_policy = \<lparr>os_value = Some value, os_missing_policy = missing_policy\<rparr>"

definition OptionalSnapshot_missing :: "MissingSignalPolicy \<Rightarrow> 'a OptionalSnapshot" where
  "OptionalSnapshot_missing missing_policy = \<lparr>os_value = None, os_missing_policy = missing_policy\<rparr>"

datatype ProxyAvailability = ProxyAvailable | ProxyNotAvailable

record ProxyRoutingProfile =
  prp_account_id :: AccountId
  prp_profile :: AccountProxyProfile
  prp_availability :: ProxyAvailability

record EligibilitySnapshots =
  els_health :: "HealthSnapshot list OptionalSnapshot"
  els_circuit :: "CircuitSnapshot list OptionalSnapshot"
  els_quota :: "QuotaSnapshotSet OptionalSnapshot"
  els_schedule :: "ScheduleSnapshot OptionalSnapshot"
  els_proxy :: "ProxyRoutingProfile list OptionalSnapshot"

record CoordinationSnapshots =
  csp_pool :: CandidateSnapshot
  csp_models :: ModelCatalogSnapshot
  csp_pricing :: "PricingCatalog OptionalSnapshot"
  csp_eligibility :: EligibilitySnapshots
  csp_affinity :: "AffinitySnapshot OptionalSnapshot"

text \<open>The errors of the filter, before they become a \<open>CoordinatorError\<close>: a code and exclusions.\<close>

type_synonym filter_error = "CoordinatorErrorCode \<times> RouteExclusion list"

abbreviation fail :: "CoordinatorErrorCode \<Rightarrow> filter_error" where
  "fail code \<equiv> (code, [])"

text \<open>The \<open>BTreeSet\<close> of degraded signals, in the derived order of their declaration.\<close>

fun signal_rank :: "SignalKind \<Rightarrow> nat" where
  "signal_rank SignalHealth = 0"
| "signal_rank SignalCircuit = 1"
| "signal_rank SignalQuota = 2"
| "signal_rank SignalSchedule = 3"
| "signal_rank SignalProxy = 4"
| "signal_rank SignalAffinity = 5"
| "signal_rank SignalPricing = 6"
| "signal_rank SignalRoutingPolicy = 7"

definition insert_signal :: "SignalKind \<Rightarrow> SignalKind list \<Rightarrow> SignalKind list" where
  "insert_signal s ds = (if s \<in> set ds then ds else insort_key signal_rank s ds)"

section \<open>Model and candidates\<close>

definition map_text_capability :: "string \<Rightarrow> ModelCapability option" where
  "map_text_capability value =
     map_of
       [(''model.text-generation'', TextGeneration), (''model.text-streaming'', TextStreaming),
        (''model.tool-calls'', ToolCalls), (''model.structured-output'', StructuredOutput)] value"

definition map_media_capability :: "string \<Rightarrow> ModelCapability option" where
  "map_media_capability value =
     map_of
       [(''model.vision-input'', VisionInput), (''model.audio-input'', AudioInput),
        (''model.audio-output'', AudioOutput), (''model.audio-streaming'', AudioStreaming),
        (''model.embeddings'', Embeddings), (''model.image-generation'', ImageGeneration)] value"

definition map_capability_extended :: "string \<Rightarrow> (filter_error, ModelCapability) result" where
  "map_capability_extended value =
     ok_or (fail CoordCapabilityMismatch)
       (map_of
         [(''model.files'', Files), (''model.realtime'', Realtime), (''model.batch'', Batch),
          (''model.rerank'', Rerank), (''model.moderation'', Moderation)] value)"

definition map_capability :: "CapabilityId \<Rightarrow> (filter_error, ModelCapability) result" where
  "map_capability value =
     (case map_text_capability value of
        Some mapped \<Rightarrow> Inr mapped
      | None \<Rightarrow> (case map_media_capability value of
                    Some mapped \<Rightarrow> Inr mapped
                  | None \<Rightarrow> map_capability_extended value))"

definition require_capability :: "CatalogEntry \<Rightarrow> CapabilityId \<Rightarrow> (filter_error, unit) result" where
  "require_capability model capability =
     bind_result (map_capability capability) (\<lambda>mapped.
       if \<not> capabilities_contains (mdl_capabilities (cae_descriptor model)) mapped
       then Inl (fail CoordCapabilityMismatch) else Inr ())"

definition validate_model :: "CoordinationRequest \<Rightarrow> ModelCatalogSnapshot \<Rightarrow> (filter_error, CatalogEntry) result" where
  "validate_model request models =
     bind_result (map_err (\<lambda>_. fail CoordModelNotFound) (resolve_internal models (rcx_model (cq_context request)))) (\<lambda>model.
     if \<not> is_visible_to (cae_visibility model) (rcx_tenant_id (cq_context request))
     then Inl (fail CoordModelNotFound)
     else bind_result (check_each (require_capability model) (rcx_required_capabilities (cq_context request))) (\<lambda>_.
            Inr model))"

definition ensure_tenant :: "CoordinationRequest \<Rightarrow> CandidateMetadata \<Rightarrow> (filter_error, unit) result" where
  "ensure_tenant request candidate =
     (if cm_tenant_id candidate \<noteq> Some (rcx_tenant_id (cq_context request))
      then Inl (fail CoordTenantMismatch) else Inr ())"

definition resolve_provider_model ::
  "CoordinationRequest \<Rightarrow> CandidateMetadata \<Rightarrow> ModelCatalogSnapshot \<Rightarrow> string option" where
  "resolve_provider_model request candidate models =
     (case model_name_parse (cm_provider_id candidate) of
        Inl _ \<Rightarrow> None
      | Inr provider \<Rightarrow>
     (case resolve_provider_target models (rcx_model (cq_context request)) provider of
        Inl _ \<Rightarrow> None
      | Inr target \<Rightarrow>
     (case cm_model candidate of
        None \<Rightarrow> None
      | Some configured \<Rightarrow>
          if pmt_provider_model target = configured then Some (pmt_provider_model target) else None)))"

definition initial_exclusion :: "CandidateMetadata \<Rightarrow> string option \<Rightarrow> CandidateExclusionReason option" where
  "initial_exclusion candidate provider_model =
     (if cm_availability candidate \<noteq> PoolAvailable then Some PoolUnavailable
      else if provider_model = None then Some ModelMappingMissing else None)"

definition prepare_candidate ::
  "CoordinationRequest \<Rightarrow> ModelCatalogSnapshot \<Rightarrow> CandidateMetadata \<Rightarrow> (filter_error, CandidateState) result" where
  "prepare_candidate request models candidate =
     bind_result (ensure_tenant request candidate) (\<lambda>_.
     bind_result (map_err (\<lambda>_. fail CoordInvalidArgument) (CandidateKey_parse (cm_id candidate))) (\<lambda>key.
     let provider_model = resolve_provider_model request candidate models in
     Inr \<lparr>cst_source = candidate, cst_key = key, cst_provider_model = provider_model,
          cst_proxy_profile = None, cst_quote = None,
          cst_exclusion = initial_exclusion candidate provider_model\<rparr>))"

definition prepare_candidates ::
  "CoordinationRequest \<Rightarrow> CandidateMetadata list \<Rightarrow> ModelCatalogSnapshot \<Rightarrow> (filter_error, CandidateState list) result" where
  "prepare_candidates request candidates models =
     (if candidates = [] \<or> MAX_COORDINATED_CANDIDATES < length candidates then Inl (fail CoordInvalidArgument)
      else collect_result (prepare_candidate request models) candidates)"

section \<open>Eligibility\<close>

definition exclude :: "CandidateExclusionReason \<Rightarrow> CandidateState \<Rightarrow> CandidateState" where
  "exclude reason state = (if cst_exclusion state = None then state\<lparr>cst_exclusion := Some reason\<rparr> else state)"

text \<open>
  A loop over the states that are still eligible: each visit may change its state and the degraded
  signals, or end the filter with an error.
\<close>

type_synonym visit = "CandidateState \<Rightarrow> SignalKind list \<Rightarrow> (filter_error, CandidateState \<times> SignalKind list) result"

fun for_eligible ::
  "visit \<Rightarrow> CandidateState list \<Rightarrow> SignalKind list \<Rightarrow> (filter_error, CandidateState list \<times> SignalKind list) result" where
  "for_eligible f [] ds = Inr ([], ds)"
| "for_eligible f (s # ss) ds =
     bind_result (if state_eligible s then f s ds else Inr (s, ds)) (\<lambda>(s', ds').
     bind_result (for_eligible f ss ds') (\<lambda>(ss', ds''). Inr (s' # ss', ds'')))"

definition apply_missing_candidate ::
  "MissingSignalPolicy \<Rightarrow> SignalKind \<Rightarrow> CandidateState \<Rightarrow> SignalKind list \<Rightarrow> CandidateState \<times> SignalKind list" where
  "apply_missing_candidate missing signal state ds =
     (if missing = AllowWithDegradation then (state, insert_signal signal ds)
      else (exclude (MissingSignal signal) state, ds))"

definition apply_missing_snapshot ::
  "MissingSignalPolicy \<Rightarrow> SignalKind \<Rightarrow> CandidateState list \<Rightarrow> SignalKind list \<Rightarrow>
     (filter_error, CandidateState list \<times> SignalKind list) result" where
  "apply_missing_snapshot missing signal states ds =
     (if missing = AllowWithDegradation then Inr (states, insert_signal signal ds)
      else for_eligible (\<lambda>state ds. Inr (exclude (MissingSignal signal) state, ds)) states ds)"

fun unique_account_index ::
  "('a \<Rightarrow> AccountId) \<Rightarrow> 'a list \<Rightarrow> (AccountId, 'a) btree_map \<Rightarrow> (filter_error, (AccountId, 'a) btree_map) result" where
  "unique_account_index account [] index = Inr index"
| "unique_account_index account (value # values) index =
     (if map_of index (account value) \<noteq> None then Inl (fail CoordStateUnavailable)
      else unique_account_index account values (bt_insert (account value) value index))"

definition visit_window :: "int \<Rightarrow> visit" where
  "visit_window observed_at state ds =
     Inr (if \<not> is_effective_at (cm_effective_window (cst_source state)) observed_at
          then exclude ScheduleClosed state else state, ds)"

definition apply_effective_windows ::
  "u64 \<Rightarrow> CandidateState list \<Rightarrow> SignalKind list \<Rightarrow> (filter_error, CandidateState list \<times> SignalKind list) result" where
  "apply_effective_windows now states ds =
     (if 2 ^ 63 \<le> unat now then Inl (fail CoordInvalidArgument)
      else for_eligible (visit_window (int (unat now))) states ds)"

fun apply_health_state ::
  "CandidateState \<Rightarrow> HealthState \<Rightarrow> MissingSignalPolicy \<Rightarrow> SignalKind list \<Rightarrow> CandidateState \<times> SignalKind list" where
  "apply_health_state state Healthy missing ds = (state, ds)"
| "apply_health_state state DegradedHealth missing ds = (state, insert_signal SignalHealth ds)"
| "apply_health_state state UnknownHealth missing ds = apply_missing_candidate missing SignalHealth state ds"
| "apply_health_state state UnhealthyState missing ds = (exclude Unhealthy state, ds)"

definition visit_health :: "(AccountId, HealthSnapshot) btree_map \<Rightarrow> MissingSignalPolicy \<Rightarrow> visit" where
  "visit_health index missing state ds =
     Inr (case map_of index (cm_account_id (cst_source state)) of
            Some value \<Rightarrow> apply_health_state state (hs_state value) missing ds
          | None \<Rightarrow> apply_missing_candidate missing SignalHealth state ds)"

definition apply_health ::
  "HealthSnapshot list OptionalSnapshot \<Rightarrow> CandidateState list \<Rightarrow> SignalKind list \<Rightarrow>
     (filter_error, CandidateState list \<times> SignalKind list) result" where
  "apply_health snap states ds =
     (case os_value snap of
        None \<Rightarrow> apply_missing_snapshot (os_missing_policy snap) SignalHealth states ds
      | Some values \<Rightarrow>
          bind_result (unique_account_index hs_account_id values []) (\<lambda>index.
            for_eligible (visit_health index (os_missing_policy snap)) states ds))"

definition circuit_recovery_ready :: "CircuitSnapshot \<Rightarrow> UtcMillis \<Rightarrow> bool" where
  "circuit_recovery_ready circuit observed_at =
     (case recovery_eligible_at circuit of None \<Rightarrow> False | Some eligible_at \<Rightarrow> eligible_at \<le> observed_at)"

definition apply_circuit_state :: "CandidateState \<Rightarrow> CircuitSnapshot \<Rightarrow> UtcMillis \<Rightarrow> CandidateState" where
  "apply_circuit_state state circuit observed_at =
     (case cs_state circuit of
        Closed \<Rightarrow> state
      | HalfOpen \<Rightarrow> state
      | Open \<Rightarrow> if circuit_recovery_ready circuit observed_at then state else exclude CircuitOpen state
      | Terminal \<Rightarrow> exclude CircuitOpen state)"

definition visit_circuit :: "(AccountId, CircuitSnapshot) btree_map \<Rightarrow> MissingSignalPolicy \<Rightarrow> UtcMillis \<Rightarrow> visit" where
  "visit_circuit index missing observed_at state ds =
     Inr (case map_of index (cm_account_id (cst_source state)) of
            Some value \<Rightarrow> (apply_circuit_state state value observed_at, ds)
          | None \<Rightarrow> apply_missing_candidate missing SignalCircuit state ds)"

definition apply_circuit ::
  "CircuitSnapshot list OptionalSnapshot \<Rightarrow> UtcMillis \<Rightarrow> CandidateState list \<Rightarrow> SignalKind list \<Rightarrow>
     (filter_error, CandidateState list \<times> SignalKind list) result" where
  "apply_circuit snap observed_at states ds =
     (case os_value snap of
        None \<Rightarrow> apply_missing_snapshot (os_missing_policy snap) SignalCircuit states ds
      | Some values \<Rightarrow>
          bind_result (unique_account_index cs_account_id values []) (\<lambda>index.
            for_eligible (visit_circuit index (os_missing_policy snap) observed_at) states ds))"

fun quota_matches :: "QuotaSubject \<Rightarrow> AccountId \<Rightarrow> ProviderId \<Rightarrow> bool" where
  "quota_matches (QuotaAccount value) account provider = (value = account)"
| "quota_matches (QuotaProvider value) account provider = (value = provider)"

text \<open>\<open>any\<close> over the quota snapshots, with the flag its closure sets: exhausted, observed.\<close>

fun quota_scan :: "AccountId \<Rightarrow> ProviderId \<Rightarrow> QuotaTime \<Rightarrow> u64 \<Rightarrow> QuotaSnapshot list \<Rightarrow> bool \<Rightarrow> bool \<times> bool" where
  "quota_scan account provider now required [] seen = (False, seen)"
| "quota_scan account provider now required (quota # quotas) seen =
     (let matches = quota_matches (qs_subject quota) account provider;
          seen' = (seen \<or> matches) in
      if matches \<and> conservative_remaining_at quota now < required then (True, seen')
      else quota_scan account provider now required quotas seen')"

definition visit_quota :: "QuotaSnapshot list \<Rightarrow> MissingSignalPolicy \<Rightarrow> QuotaTime \<Rightarrow> u64 \<Rightarrow> visit" where
  "visit_quota quotas missing now required state ds =
     Inr (case quota_scan (cm_account_id (cst_source state)) (cm_provider_id (cst_source state)) now required quotas False of
            (spent, seen) \<Rightarrow>
              if spent then (exclude QuotaExhausted state, ds)
              else if \<not> seen then apply_missing_candidate missing SignalQuota state ds
              else (state, ds))"

definition apply_quota ::
  "QuotaSnapshotSet OptionalSnapshot \<Rightarrow> u64 \<Rightarrow> u64 \<Rightarrow> CandidateState list \<Rightarrow> SignalKind list \<Rightarrow>
     (filter_error, CandidateState list \<times> SignalKind list) result" where
  "apply_quota snap now required states ds =
     (case os_value snap of
        None \<Rightarrow> apply_missing_snapshot (os_missing_policy snap) SignalQuota states ds
      | Some values \<Rightarrow> for_eligible (visit_quota (qss_snapshots values) (os_missing_policy snap) now required) states ds)"

definition visit_schedule :: "ScheduleSnapshot \<Rightarrow> MissingSignalPolicy \<Rightarrow> u64 \<Rightarrow> visit" where
  "visit_schedule values missing now state ds =
     (case schedule_for values (cm_account_id (cst_source state)) of
        None \<Rightarrow> Inr (apply_missing_candidate missing SignalSchedule state ds)
      | Some schedule \<Rightarrow>
          bind_result (map_err (\<lambda>_. fail CoordStateUnavailable) (is_available_at schedule now)) (\<lambda>available.
            Inr (if \<not> available then exclude ScheduleClosed state else state, ds)))"

definition apply_schedule ::
  "ScheduleSnapshot OptionalSnapshot \<Rightarrow> u64 \<Rightarrow> CandidateState list \<Rightarrow> SignalKind list \<Rightarrow>
     (filter_error, CandidateState list \<times> SignalKind list) result" where
  "apply_schedule snap now states ds =
     (case os_value snap of
        None \<Rightarrow> apply_missing_snapshot (os_missing_policy snap) SignalSchedule states ds
      | Some values \<Rightarrow> for_eligible (visit_schedule values (os_missing_policy snap) now) states ds)"

definition visit_proxy :: "(AccountId, ProxyRoutingProfile) btree_map \<Rightarrow> MissingSignalPolicy \<Rightarrow> string option \<Rightarrow> visit" where
  "visit_proxy index missing destination state ds =
     Inr (case map_of index (cm_account_id (cst_source state)) of
            None \<Rightarrow> apply_missing_candidate missing SignalProxy state ds
          | Some profile \<Rightarrow>
              if prp_availability profile = ProxyNotAvailable then (exclude ProxyUnavailable state, ds)
              else if (case destination of None \<Rightarrow> False
                       | Some region \<Rightarrow> \<not> permits (app_regions (prp_profile profile)) region)
              then (exclude ProxyRegionDenied state, ds)
              else (state\<lparr>cst_proxy_profile := Some (prp_profile profile)\<rparr>, ds))"

definition apply_proxy ::
  "ProxyRoutingProfile list OptionalSnapshot \<Rightarrow> string option \<Rightarrow> CandidateState list \<Rightarrow> SignalKind list \<Rightarrow>
     (filter_error, CandidateState list \<times> SignalKind list) result" where
  "apply_proxy snap destination states ds =
     (case os_value snap of
        None \<Rightarrow> apply_missing_snapshot (os_missing_policy snap) SignalProxy states ds
      | Some values \<Rightarrow>
          bind_result (unique_account_index prp_account_id values []) (\<lambda>index.
            for_eligible (visit_proxy index (os_missing_policy snap) destination) states ds))"

definition apply_eligibility ::
  "CoordinationRequest \<Rightarrow> CoordinationSnapshots \<Rightarrow> CandidateState list \<Rightarrow> SignalKind list \<Rightarrow>
     (filter_error, CandidateState list \<times> SignalKind list) result" where
  "apply_eligibility request snapshots states ds =
     (let eligibility = csp_eligibility snapshots;
          times = tp_times (cq_admission request);
          now = tm_budget_now times in
      bind_result (apply_effective_windows now states ds) (\<lambda>(states, ds).
      bind_result (apply_health (els_health eligibility) states ds) (\<lambda>(states, ds).
      bind_result (apply_circuit (els_circuit eligibility) (tm_circuit_now times) states ds) (\<lambda>(states, ds).
      bind_result (apply_quota (els_quota eligibility) now (prq_quantity (cq_pricing request)) states ds) (\<lambda>(states, ds).
      bind_result (apply_schedule (els_schedule eligibility) now states ds) (\<lambda>(states, ds).
        apply_proxy (els_proxy eligibility) (cq_destination_region request) states ds))))))"

definition prepare_state ::
  "CoordinationRequest \<Rightarrow> CoordinationSnapshots \<Rightarrow> (filter_error, CandidateState list \<times> SignalKind list) result" where
  "prepare_state request snapshots =
     bind_result (prepare_candidates request (csn_candidates (csp_pool snapshots)) (csp_models snapshots)) (\<lambda>states.
       apply_eligibility request snapshots states [])"

section \<open>Pricing\<close>

definition visit_quote :: "CoordinationRequest \<Rightarrow> PricingCatalog \<Rightarrow> visit" where
  "visit_quote request pricing state ds =
     Inr (case cst_provider_model state of
            None \<Rightarrow> exclude ModelMappingMissing state
          | Some model \<Rightarrow>
              (case quote_at pricing model (prq_dimension (cq_pricing request)) (cq_pricing_timestamp request)
                      (prq_quantity (cq_pricing request)) of
                 Inr quote \<Rightarrow> state\<lparr>cst_quote := Some quote\<rparr>
               | Inl _ \<Rightarrow> exclude MissingPrice (state\<lparr>cst_quote := None\<rparr>)), ds)"

definition quote_candidates ::
  "CoordinationRequest \<Rightarrow> PricingCatalog \<Rightarrow> CandidateState list \<Rightarrow> SignalKind list \<Rightarrow>
     (filter_error, CandidateState list \<times> SignalKind list) result" where
  "quote_candidates request pricing states ds = for_eligible (visit_quote request pricing) states ds"

definition cost_input :: "CandidateState \<Rightarrow> (filter_error, CandidateCostInput) result" where
  "cost_input state =
     bind_result (map_err (\<lambda>_. fail CoordStateUnavailable) (CostCandidateId_parse (cst_key state))) (\<lambda>candidate.
     bind_result (ok_or (fail CoordStateUnavailable) (cst_quote state)) (\<lambda>quote.
     bind_result (map_err (\<lambda>_. fail CoordStateUnavailable) (CostUnits_new (pq_total quote))) (\<lambda>units.
       Inr (CandidateCostInput_estimated candidate units))))"

definition cost_inputs :: "CandidateState list \<Rightarrow> (filter_error, CandidateCostInput list) result" where
  "cost_inputs states = collect_result cost_input (filter state_eligible states)"

definition evaluate_cost ::
  "CandidateCostInput list \<Rightarrow> CoordinationRequest \<Rightarrow> (filter_error, CostEvaluation) result" where
  "evaluate_cost inputs request =
     map_err (\<lambda>_. fail CoordStateUnavailable) (cost_evaluate inputs (prq_constraints (cq_pricing request)))"

text \<open>Only the first state with the key changes.\<close>

fun exclude_by_id :: "string \<Rightarrow> CandidateExclusionReason \<Rightarrow> CandidateState list \<Rightarrow> CandidateState list" where
  "exclude_by_id candidate reason [] = []"
| "exclude_by_id candidate reason (s # ss) =
     (if cst_key s = candidate then exclude reason s # ss else s # exclude_by_id candidate reason ss)"

fun cost_reason :: "CostExclusionReason \<Rightarrow> CandidateExclusionReason" where
  "cost_reason MissingEstimate = MissingPrice"
| "cost_reason (CostHardLimitExceeded _) = HardCostLimit"

definition apply_cost_exclusions :: "CostEvaluation \<Rightarrow> CandidateState list \<Rightarrow> CandidateState list" where
  "apply_cost_exclusions evaluation states =
     (let states = fold (\<lambda>x. exclude_by_id (cex_candidate x) (cost_reason (cex_reason x))) (cev_exclusions evaluation) states in
      if cev_preferred evaluation \<noteq> []
      then fold (\<lambda>c. exclude_by_id (cdc_candidate c) AboveSoftCostLimit) (cev_fallback evaluation) states
      else states)"

definition apply_pricing ::
  "CoordinationRequest \<Rightarrow> PricingCatalog OptionalSnapshot \<Rightarrow> CandidateState list \<Rightarrow> SignalKind list \<Rightarrow>
     (filter_error, CandidateState list \<times> SignalKind list) result" where
  "apply_pricing request snap states ds =
     (case os_value snap of
        None \<Rightarrow> Inl (fail CoordPricingUnavailable)
      | Some pricing \<Rightarrow>
          bind_result (quote_candidates request pricing states ds) (\<lambda>(states, ds).
          bind_result (cost_inputs states) (\<lambda>inputs.
          if inputs = [] then Inr (states, ds)
          else bind_result (evaluate_cost inputs request) (\<lambda>evaluation.
                 Inr (apply_cost_exclusions evaluation states, ds)))))"

section \<open>Selection\<close>

text \<open>The selected index with its basis and the exclusions of the other eligible candidates.\<close>

type_synonym choice = "nat \<times> SelectionBasis \<times> RouteExclusion list"

text \<open>\<open>enumerate\<close>, keep the eligible states other than the selected one, give each the reason.\<close>

definition preferred_exclusions :: "CandidateExclusionReason \<Rightarrow> CandidateState list \<Rightarrow> nat \<Rightarrow> RouteExclusion list" where
  "preferred_exclusions reason states chosen =
     map (\<lambda>(i, state). \<lparr>re_candidate = cst_key state, re_reason = reason\<rparr>)
       (filter (\<lambda>(i, state). i \<noteq> chosen \<and> state_eligible state) (enumerate 0 states))"

definition affinity_exclusions :: "CandidateState list \<Rightarrow> nat \<Rightarrow> RouteExclusion list" where
  "affinity_exclusions states chosen = preferred_exclusions AffinityPreferred states chosen"

definition affinity_candidate :: "AffinitySnapshot \<Rightarrow> AffinityKey \<Rightarrow> AffinityTime \<Rightarrow> string option" where
  "affinity_candidate value key now =
     map_option afb_candidate (find (\<lambda>binding. afb_key binding = key \<and> now < afb_expires_at binding) (afs_bindings value))"

definition select_affinity ::
  "AffinityKey \<Rightarrow> AffinityTime \<Rightarrow> AffinitySnapshot OptionalSnapshot \<Rightarrow> CandidateState list \<Rightarrow> SignalKind list \<Rightarrow>
     (filter_error, nat option \<times> SignalKind list) result" where
  "select_affinity key now snap states ds =
     (case os_value snap of
        None \<Rightarrow>
          if os_missing_policy snap = FailClosed then Inl (fail CoordMissingSignal)
          else Inr (None, insert_signal SignalAffinity ds)
      | Some value \<Rightarrow>
          if afs_tenant_id value \<noteq> afk_tenant_id key then Inl (fail CoordTenantMismatch)
          else Inr (case affinity_candidate value key now of
                      None \<Rightarrow> None
                    | Some candidate \<Rightarrow> list_position (\<lambda>s. state_eligible s \<and> cst_key s = candidate) states, ds))"

definition select_affinity_candidate ::
  "CoordinationRequest \<Rightarrow> AffinitySnapshot OptionalSnapshot \<Rightarrow> CandidateState list \<Rightarrow> SignalKind list \<Rightarrow>
     (filter_error, choice option \<times> SignalKind list) result" where
  "select_affinity_candidate request affinity states ds =
     (case cq_affinity request of
        None \<Rightarrow> Inr (None, ds)
      | Some (key, now) \<Rightarrow>
          bind_result (select_affinity key now affinity states ds) (\<lambda>(found, ds).
            case found of
              None \<Rightarrow> Inr (None, ds)
            | Some chosen \<Rightarrow> Inr (Some (chosen, AffinityBasis, affinity_exclusions states chosen), ds)))"

definition wasm_candidate :: "CandidateState \<Rightarrow> (filter_error, CandidateFeatures) result" where
  "wasm_candidate state =
     map_err (\<lambda>_. fail CoordPolicyUnavailable)
       (CandidateFeatures_new (cst_key state)
          [uint (cm_priority (cst_source state)), uint (cm_weight (cst_source state)), uint (cm_load (cst_source state))])"

definition wasm_input :: "CandidateState list \<Rightarrow> (filter_error, RoutingWasmInput option) result" where
  "wasm_input states =
     bind_result (collect_result wasm_candidate (filter state_eligible states)) (\<lambda>candidates.
     if candidates = [] then Inr None
     else bind_result (map_err (\<lambda>_. fail CoordPolicyUnavailable)
            (RoutingWasmInput_new (sort_key cf_candidate_id candidates))) (\<lambda>input. Inr (Some input)))"

definition wasm_exclusions :: "CandidateState list \<Rightarrow> nat \<Rightarrow> RouteExclusion list" where
  "wasm_exclusions states chosen = preferred_exclusions WasmPolicyPreferred states chosen"

fun apply_wasm_output :: "RoutingWasmOutput \<Rightarrow> CandidateState list \<Rightarrow> (filter_error, choice option) result" where
  "apply_wasm_output WasmDecline states = Inr None"
| "apply_wasm_output (WasmSelect candidate) states =
     bind_result (ok_or (fail CoordPolicyUnavailable)
       (list_position (\<lambda>s. state_eligible s \<and> cst_key s = candidate) states)) (\<lambda>chosen.
       Inr (Some (chosen, WasmPolicyBasis, wasm_exclusions states chosen)))"

definition evaluate_wasm_input ::
  "routing_evaluator \<Rightarrow> RoutingWasmInput \<Rightarrow> CandidateState list \<Rightarrow> SignalKind list \<Rightarrow>
     (filter_error, choice option \<times> SignalKind list) result" where
  "evaluate_wasm_input evaluator input states ds =
     bind_result (map_err (\<lambda>_. fail CoordPolicyUnavailable) (evaluator input)) (\<lambda>answer.
       case answer of
         WasmDegraded _ \<Rightarrow> Inr (None, insert_signal SignalRoutingPolicy ds)
       | WasmApplied decision \<Rightarrow>
           bind_result (map_err (\<lambda>_. fail CoordPolicyUnavailable) (validate_output input decision)) (\<lambda>decision.
           bind_result (apply_wasm_output decision states) (\<lambda>choice. Inr (choice, ds))))"

definition select_wasm_policy ::
  "routing_evaluator option \<Rightarrow> CandidateState list \<Rightarrow> SignalKind list \<Rightarrow>
     (filter_error, choice option \<times> SignalKind list) result" where
  "select_wasm_policy installed states ds =
     (case installed of
        None \<Rightarrow> Inr (None, ds)
      | Some evaluator \<Rightarrow>
          bind_result (wasm_input states) (\<lambda>input.
            case input of
              None \<Rightarrow> Inr (None, ds)
            | Some i \<Rightarrow> evaluate_wasm_input evaluator i states ds))"

definition policy_candidate :: "CandidateState \<Rightarrow> (filter_error, Candidate) result" where
  "policy_candidate state =
     bind_result (map_err (\<lambda>_. fail CoordStateUnavailable) (CandidateId_new (cst_key state))) (\<lambda>candidate.
     bind_result (map_err (\<lambda>_. fail CoordStateUnavailable) (Weight_new (cm_weight (cst_source state)))) (\<lambda>weight.
     bind_result (map_err (\<lambda>_. fail CoordStateUnavailable) (Load_new (cm_load (cst_source state)))) (\<lambda>load.
       Inr \<lparr>ca_id = candidate, ca_priority = cm_priority (cst_source state), ca_weight = weight, ca_load = load,
            ca_availability = CandidateAvailable\<rparr>)))"

definition policy_candidates :: "CandidateState list \<Rightarrow> (filter_error, Candidate list) result" where
  "policy_candidates states = collect_result policy_candidate (filter state_eligible states)"

fun policy_reason :: "ExclusionReason \<Rightarrow> CandidateExclusionReason" where
  "policy_reason ExcludedUnavailable = PoolUnavailable"
| "policy_reason ExcludedZeroWeight = RouteHigherEffectiveLoad"
| "policy_reason (LowerPriority _) = RouteLowerPriority"
| "policy_reason (HigherEffectiveLoad _) = RouteHigherEffectiveLoad"
| "policy_reason (StableTieBreak _) = RouteStableTieBreak"

definition map_policy_exclusion :: "CandidateExclusion \<Rightarrow> (filter_error, RouteExclusion) result" where
  "map_policy_exclusion exclusion =
     bind_result (map_err (\<lambda>_. fail CoordStateUnavailable) (CandidateKey_parse (ex_candidate_id exclusion))) (\<lambda>key.
       Inr \<lparr>re_candidate = key, re_reason = policy_reason (ex_reason exclusion)\<rparr>)"

definition choose_weighted :: "Candidate list \<Rightarrow> (filter_error, CandidateKey \<times> RouteExclusion list) result" where
  "choose_weighted candidates =
     bind_result (map_err (\<lambda>_. fail CoordStateUnavailable) (PreparedCandidateSet_new candidates)) (\<lambda>prepared.
     bind_result (map_err (\<lambda>_. fail CoordNoEligibleCandidate) (select_prepared prepared)) (\<lambda>selection.
     bind_result (map_err (\<lambda>_. fail CoordStateUnavailable) (CandidateKey_parse (ca_id (sel_winner selection)))) (\<lambda>key.
     bind_result (collect_result map_policy_exclusion (sd_exclusions (selection_explain selection))) (\<lambda>exclusions.
       Inr (key, exclusions)))))"

definition state_exclusions :: "CandidateState list \<Rightarrow> RouteExclusion list" where
  "state_exclusions states =
     List.map_filter (\<lambda>s. map_option (\<lambda>reason. \<lparr>re_candidate = cst_key s, re_reason = reason\<rparr>) (cst_exclusion s)) states"

definition collect_exclusions :: "CandidateState list \<Rightarrow> RouteExclusion list \<Rightarrow> RouteExclusion list \<times> bool" where
  "collect_exclusions states others = bound_exclusions (state_exclusions states @ others)"

definition select_weighted :: "CandidateState list \<Rightarrow> (filter_error, choice) result" where
  "select_weighted states =
     bind_result (policy_candidates states) (\<lambda>candidates.
     if candidates = [] then Inl (CoordNoEligibleCandidate, fst (collect_exclusions states []))
     else bind_result (choose_weighted candidates) (\<lambda>(key, exclusions).
          bind_result (ok_or (fail CoordStateUnavailable) (list_position (\<lambda>s. cst_key s = key) states)) (\<lambda>chosen.
            Inr (chosen, WeightedLeastLoad, exclusions))))"

text \<open>Without the feature \<open>wasm-policy\<close> no evaluator is installed.\<close>

definition select_without_affinity ::
  "routing_evaluator option \<Rightarrow> CandidateState list \<Rightarrow> SignalKind list \<Rightarrow> (filter_error, choice \<times> SignalKind list) result" where
  "select_without_affinity installed states ds =
     bind_result (select_wasm_policy installed states ds) (\<lambda>(choice, ds).
       case choice of
         Some c \<Rightarrow> Inr (c, ds)
       | None \<Rightarrow> bind_result (select_weighted states) (\<lambda>c. Inr (c, ds)))"

definition select_candidate ::
  "routing_evaluator option \<Rightarrow> CoordinationRequest \<Rightarrow> AffinitySnapshot OptionalSnapshot \<Rightarrow> CandidateState list \<Rightarrow>
     SignalKind list \<Rightarrow> (filter_error, choice \<times> SignalKind list) result" where
  "select_candidate installed request affinity states ds =
     bind_result (select_affinity_candidate request affinity states ds) (\<lambda>(choice, ds).
       case choice of
         Some c \<Rightarrow> Inr (c, ds)
       | None \<Rightarrow> select_without_affinity installed states ds)"

definition prepare_selection ::
  "routing_evaluator option \<Rightarrow> CoordinationRequest \<Rightarrow> CoordinationSnapshots \<Rightarrow> (filter_error, RouteSelection) result" where
  "prepare_selection installed request snapshots =
     bind_result (validate_model request (csp_models snapshots)) (\<lambda>_.
     bind_result (prepare_state request snapshots) (\<lambda>(states, ds).
     bind_result (apply_pricing request (csp_pricing snapshots) states ds) (\<lambda>(states, ds).
     bind_result (select_candidate installed request (csp_affinity snapshots) states ds) (\<lambda>((chosen, basis, others), ds).
       case collect_exclusions states others of
         (exclusions, truncated) \<Rightarrow>
           Inr \<lparr>rsl_states = states, rsl_degradations = ds, rsl_selected_index = chosen, rsl_basis = basis,
                rsl_exclusions = exclusions, rsl_exclusions_truncated = truncated\<rparr>))))"

text \<open>The filter as the coordination call uses it, over the pool it is given.\<close>

definition snapshot_selector :: "routing_evaluator option \<Rightarrow> CoordinationSnapshots \<Rightarrow> selector" where
  "snapshot_selector installed snapshots request pool =
     prepare_selection installed request (snapshots\<lparr>csp_pool := pool\<rparr>)"

end
