(* ===== verification/Selection_Filter.thy ===== *)
theory Selection_Filter
  imports Route_Selection
begin

text \<open>
  The filter as a sequence of stages. Each stage of \<open>apply_eligibility\<close> keeps the candidates and
  their order and gives every state that is still eligible one verdict, a function of the candidate
  alone; states that are excluded stay as they are. Stages compose to stages whose verdict is the
  first one that excludes. The reference \<open>eligibility_verdict\<close> is the list of checks in their order.
\<close>

section \<open>Verdicts and stages\<close>

definition or_else :: "'a option \<Rightarrow> 'a option \<Rightarrow> 'a option" where
  "or_else x y = (case x of None \<Rightarrow> y | Some _ \<Rightarrow> x)"

lemma or_else_simps [simp]: "or_else None y = y" "or_else (Some a) y = Some a" "or_else x None = x"
  by (simp_all add: or_else_def split: option.splits)

lemma or_else_None [simp]: "or_else x y = None \<longleftrightarrow> x = None \<and> y = None"
  by (simp add: or_else_def split: option.splits)

lemma or_else_assoc: "or_else (or_else x y) z = or_else x (or_else y z)"
  by (simp add: or_else_def split: option.splits)

definition same_candidate :: "CandidateState \<Rightarrow> CandidateState \<Rightarrow> bool" where
  "same_candidate s t \<longleftrightarrow>
     cst_source t = cst_source s \<and> cst_key t = cst_key s \<and> cst_provider_model t = cst_provider_model s"

definition judged :: "(CandidateState \<Rightarrow> CandidateExclusionReason option) \<Rightarrow> CandidateState \<Rightarrow> CandidateState \<Rightarrow> bool" where
  "judged verdict s t \<longleftrightarrow>
     same_candidate s t \<and> cst_exclusion t = or_else (cst_exclusion s) (verdict s) \<and> (\<not> state_eligible s \<longrightarrow> t = s)"

definition static_verdict :: "(CandidateState \<Rightarrow> CandidateExclusionReason option) \<Rightarrow> bool" where
  "static_verdict verdict \<longleftrightarrow> (\<forall>s t. same_candidate s t \<longrightarrow> verdict t = verdict s)"

locale filter_stage =
  fixes stage :: "CandidateState list \<Rightarrow> SignalKind list \<Rightarrow> (filter_error, CandidateState list \<times> SignalKind list) result"
    and verdict :: "CandidateState \<Rightarrow> CandidateExclusionReason option"
  assumes stage_judges: "stage ss ds = Inr (ss', ds') \<Longrightarrow> list_all2 (judged verdict) ss ss'"
    and verdict_static: "static_verdict verdict"
begin

lemma stage_keeps_candidates:
  "stage ss ds = Inr (ss', ds') \<Longrightarrow>
     map cst_source ss' = map cst_source ss \<and> map cst_key ss' = map cst_key ss"
  by (auto dest!: stage_judges simp: list_all2_conv_all_nth judged_def same_candidate_def intro!: nth_equalityI)

lemma stage_eligible:
  "stage ss ds = Inr (ss', ds') \<Longrightarrow> i < length ss \<Longrightarrow>
     state_eligible (ss' ! i) \<longleftrightarrow> state_eligible (ss ! i) \<and> verdict (ss ! i) = None"
  by (auto dest!: stage_judges simp: list_all2_conv_all_nth judged_def state_eligible_def)

end

text \<open>Two stages in sequence are a stage.\<close>

definition then_stage ::
  "(CandidateState list \<Rightarrow> SignalKind list \<Rightarrow> (filter_error, CandidateState list \<times> SignalKind list) result) \<Rightarrow>
   (CandidateState list \<Rightarrow> SignalKind list \<Rightarrow> (filter_error, CandidateState list \<times> SignalKind list) result) \<Rightarrow>
   CandidateState list \<Rightarrow> SignalKind list \<Rightarrow> (filter_error, CandidateState list \<times> SignalKind list) result" where
  "then_stage a b ss ds = bind_result (a ss ds) (\<lambda>(ss, ds). b ss ds)"

lemma judged_trans:
  assumes "judged v s t" and "judged w t u" and "static_verdict w"
  shows "judged (\<lambda>s. or_else (v s) (w s)) s u"
proof -
  have "w t = w s" using assms unfolding judged_def static_verdict_def by blast
  moreover have "t = s" "u = t" if "\<not> state_eligible s"
    using that assms by (auto simp: judged_def)
  ultimately show ?thesis
    using assms by (auto simp: judged_def same_candidate_def or_else_assoc)
qed

lemma then_stage_filter:
  assumes "filter_stage a v" and "filter_stage b w"
  shows "filter_stage (then_stage a b) (\<lambda>s. or_else (v s) (w s))"
proof
  have w: "static_verdict w" using assms(2) by (rule filter_stage.verdict_static)
  show "list_all2 (judged (\<lambda>s. or_else (v s) (w s))) ss ss'" if "then_stage a b ss ds = Inr (ss', ds')" for ss ds ss' ds'
  proof -
    from that obtain ts es where "a ss ds = Inr (ts, es)" "b ts es = Inr (ss', ds')"
      by (auto simp: then_stage_def bind_result_eq_Inr)
    then have "list_all2 (judged v) ss ts" "list_all2 (judged w) ts ss'"
      using filter_stage.stage_judges [OF assms(1)] filter_stage.stage_judges [OF assms(2)] by blast+
    then show ?thesis by (rule list_all2_trans [rotated]) (rule judged_trans [OF _ _ w])
  qed
  show "static_verdict (\<lambda>s. or_else (v s) (w s))"
    using w filter_stage.verdict_static [OF assms(1)] by (simp add: static_verdict_def)
qed

section \<open>Loops over the eligible states\<close>

lemma for_eligible_visits:
  "for_eligible f ss ds = Inr (ss', ds') \<Longrightarrow>
     list_all2 (\<lambda>s t. if state_eligible s then \<exists>d e. f s d = Inr (t, e) else t = s) ss ss'"
proof (induction ss arbitrary: ds ss')
  case (Cons s ss)
  from Cons.prems obtain t d ts where
    "(if state_eligible s then f s ds else Inr (s, ds)) = Inr (t, d)" "for_eligible f ss d = Inr (ts, ds')" "ss' = t # ts"
    by (auto simp: bind_result_eq_Inr)
  with Cons.IH [of d ts] show ?case by (auto split: if_splits)
qed simp

text \<open>A visit that decides an eligible state by a verdict.\<close>

definition decides :: "visit \<Rightarrow> (CandidateState \<Rightarrow> CandidateExclusionReason option) \<Rightarrow> bool" where
  "decides f verdict \<longleftrightarrow>
     (\<forall>s d t e. state_eligible s \<longrightarrow> f s d = Inr (t, e) \<longrightarrow> same_candidate s t \<and> cst_exclusion t = verdict s)"

lemma for_eligible_judges:
  assumes "decides f verdict" and "for_eligible f ss ds = Inr (ss', ds')"
  shows "list_all2 (judged verdict) ss ss'"
  using for_eligible_visits [OF assms(2)]
proof (rule list_all2_mono)
  show "judged verdict s t" if "if state_eligible s then \<exists>d e. f s d = Inr (t, e) else t = s" for s t
    using that assms(1)
    by (cases "cst_exclusion s") (auto simp: judged_def decides_def state_eligible_def same_candidate_def split: if_splits)
qed

lemma exclude_eligible [simp]:
  "state_eligible s \<Longrightarrow> exclude r s = s\<lparr>cst_exclusion := Some r\<rparr>"
  by (simp add: exclude_def state_eligible_def)

lemma same_candidate_simps [simp]:
  "same_candidate s s" "same_candidate s (s\<lparr>cst_exclusion := x\<rparr>)" "same_candidate s (s\<lparr>cst_quote := q\<rparr>)"
  "same_candidate s (s\<lparr>cst_proxy_profile := p\<rparr>)"
  by (simp_all add: same_candidate_def)

lemma eligible_exclusion: "state_eligible s \<Longrightarrow> cst_exclusion s = None"
  by (simp add: state_eligible_def)

section \<open>The verdict of every check\<close>

abbreviation account_of :: "CandidateState \<Rightarrow> AccountId" where
  "account_of s \<equiv> cm_account_id (cst_source s)"

definition missing_verdict :: "MissingSignalPolicy \<Rightarrow> SignalKind \<Rightarrow> CandidateExclusionReason option" where
  "missing_verdict missing signal = (if missing = AllowWithDegradation then None else Some (MissingSignal signal))"

definition window_verdict :: "u64 \<Rightarrow> CandidateState \<Rightarrow> CandidateExclusionReason option" where
  "window_verdict now s =
     (if is_effective_at (cm_effective_window (cst_source s)) (int (unat now)) then None else Some ScheduleClosed)"

text \<open>The value a signal has for an account, and what a missing one means.\<close>

definition signal_verdict ::
  "'a OptionalSnapshot \<Rightarrow> SignalKind \<Rightarrow> ('a \<Rightarrow> 'b option) \<Rightarrow> ('b \<Rightarrow> CandidateExclusionReason option) \<Rightarrow>
     CandidateExclusionReason option" where
  "signal_verdict snap signal lookup judge =
     (case os_value snap of
        None \<Rightarrow> missing_verdict (os_missing_policy snap) signal
      | Some values \<Rightarrow>
          (case lookup values of
             None \<Rightarrow> missing_verdict (os_missing_policy snap) signal
           | Some value \<Rightarrow> judge value))"

definition health_verdict :: "HealthSnapshot list OptionalSnapshot \<Rightarrow> CandidateState \<Rightarrow> CandidateExclusionReason option" where
  "health_verdict snap s =
     signal_verdict snap SignalHealth (find (\<lambda>v. hs_account_id v = account_of s)) (\<lambda>v.
       case hs_state v of
         UnhealthyState \<Rightarrow> Some Unhealthy
       | UnknownHealth \<Rightarrow> missing_verdict (os_missing_policy snap) SignalHealth
       | _ \<Rightarrow> None)"

definition circuit_verdict ::
  "CircuitSnapshot list OptionalSnapshot \<Rightarrow> UtcMillis \<Rightarrow> CandidateState \<Rightarrow> CandidateExclusionReason option" where
  "circuit_verdict snap observed_at s =
     signal_verdict snap SignalCircuit (find (\<lambda>v. cs_account_id v = account_of s)) (\<lambda>v.
       if cs_state v = Terminal \<or> (cs_state v = Open \<and> \<not> circuit_recovery_ready v observed_at)
       then Some CircuitOpen else None)"

definition quota_verdict ::
  "QuotaSnapshotSet OptionalSnapshot \<Rightarrow> u64 \<Rightarrow> u64 \<Rightarrow> CandidateState \<Rightarrow> CandidateExclusionReason option" where
  "quota_verdict snap now required s =
     signal_verdict snap SignalQuota
       (\<lambda>values. case filter (\<lambda>q. quota_matches (qs_subject q) (account_of s) (cm_provider_id (cst_source s))) (qss_snapshots values) of
                   [] \<Rightarrow> None | qs \<Rightarrow> Some qs)
       (\<lambda>qs. if list_ex (\<lambda>q. conservative_remaining_at q now < required) qs then Some QuotaExhausted else None)"

definition schedule_verdict ::
  "ScheduleSnapshot OptionalSnapshot \<Rightarrow> u64 \<Rightarrow> CandidateState \<Rightarrow> CandidateExclusionReason option" where
  "schedule_verdict snap now s =
     signal_verdict snap SignalSchedule (\<lambda>values. schedule_for values (account_of s)) (\<lambda>schedule.
       if is_available_at schedule now = Inr True then None else Some ScheduleClosed)"

definition proxy_verdict ::
  "ProxyRoutingProfile list OptionalSnapshot \<Rightarrow> string option \<Rightarrow> CandidateState \<Rightarrow> CandidateExclusionReason option" where
  "proxy_verdict snap destination s =
     signal_verdict snap SignalProxy (find (\<lambda>v. prp_account_id v = account_of s)) (\<lambda>v.
       if prp_availability v = ProxyNotAvailable then Some ProxyUnavailable
       else if (\<exists>region. destination = Some region \<and> \<not> permits (app_regions (prp_profile v)) region)
       then Some ProxyRegionDenied else None)"

text \<open>The checks of \<open>apply_eligibility\<close> in their order: the first that excludes is the reason.\<close>

definition eligibility_verdict ::
  "CoordinationRequest \<Rightarrow> CoordinationSnapshots \<Rightarrow> CandidateState \<Rightarrow> CandidateExclusionReason option" where
  "eligibility_verdict request snapshots s =
     (let e = csp_eligibility snapshots;
          times = tp_times (cq_admission request);
          now = tm_budget_now times in
      or_else (window_verdict now s)
      (or_else (health_verdict (els_health e) s)
      (or_else (circuit_verdict (els_circuit e) (tm_circuit_now times) s)
      (or_else (quota_verdict (els_quota e) now (prq_quantity (cq_pricing request)) s)
      (or_else (schedule_verdict (els_schedule e) now s)
               (proxy_verdict (els_proxy e) (cq_destination_region request) s))))))"

section \<open>Every check is a stage\<close>

lemma unique_account_index_lookup:
  "unique_account_index account vs index = Inr m \<Longrightarrow>
     map_of m a = or_else (map_of index a) (find (\<lambda>v. account v = a) vs)"
  by (induction vs arbitrary: index) (auto simp: or_else_def split: if_splits option.splits)

lemma quota_scan_seen:
  "\<not> fst (quota_scan account provider now required qs seen) \<Longrightarrow>
     snd (quota_scan account provider now required qs seen) \<longleftrightarrow>
       seen \<or> list_ex (\<lambda>q. quota_matches (qs_subject q) account provider) qs"
  by (induction qs arbitrary: seen) (auto simp: Let_def split: if_splits)

lemma quota_scan_exhausted:
  "fst (quota_scan account provider now required qs seen) \<longleftrightarrow>
     list_ex (\<lambda>q. quota_matches (qs_subject q) account provider \<and> conservative_remaining_at q now < required) qs"
  by (induction qs arbitrary: seen) (auto simp: Let_def)

lemma apply_missing_candidate_verdict:
  "state_eligible s \<Longrightarrow> apply_missing_candidate missing signal s d = (t, e) \<Longrightarrow>
     same_candidate s t \<and> cst_exclusion t = missing_verdict missing signal"
  by (auto simp: apply_missing_candidate_def missing_verdict_def eligible_exclusion split: if_splits)

lemma missing_snapshot_judges:
  assumes "apply_missing_snapshot missing signal ss ds = Inr (ss', ds')"
  shows "list_all2 (judged (\<lambda>_. missing_verdict missing signal)) ss ss'"
proof (cases "missing = AllowWithDegradation")
  case True
  with assms show ?thesis
    by (auto simp: apply_missing_snapshot_def missing_verdict_def judged_def intro: list.rel_refl)
next
  case False
  with assms have "for_eligible (\<lambda>s d. Inr (exclude (MissingSignal signal) s, d)) ss ds = Inr (ss', ds')"
    by (simp add: apply_missing_snapshot_def)
  with False show ?thesis
    by (intro for_eligible_judges) (auto simp: decides_def missing_verdict_def)
qed

lemma static_verdicts:
  "static_verdict (window_verdict now)" "static_verdict (health_verdict h)" "static_verdict (circuit_verdict c t)"
  "static_verdict (quota_verdict q now n)" "static_verdict (schedule_verdict sc now)" "static_verdict (proxy_verdict p d)"
  by (auto simp: static_verdict_def same_candidate_def window_verdict_def health_verdict_def circuit_verdict_def
      quota_verdict_def schedule_verdict_def proxy_verdict_def)

interpretation windows: filter_stage "apply_effective_windows now" "window_verdict now" for now
proof
  have "decides (visit_window (int (unat now))) (window_verdict now)"
    by (auto simp: decides_def visit_window_def window_verdict_def eligible_exclusion)
  then show "list_all2 (judged (window_verdict now)) ss ss'" if "apply_effective_windows now ss ds = Inr (ss', ds')" for ss ds ss' ds'
    using that by (auto simp: apply_effective_windows_def split: if_splits intro: for_eligible_judges)
qed (rule static_verdicts)

lemma visit_health_decides:
  assumes "unique_account_index hs_account_id values [] = Inr index" and "os_value snap = Some values"
  shows "decides (visit_health index (os_missing_policy snap)) (health_verdict snap)"
  unfolding decides_def
proof (intro allI impI)
  fix s d t e
  assume s: "state_eligible s" and t: "visit_health index (os_missing_policy snap) s d = Inr (t, e)"
  have l: "map_of index (account_of s) = find (\<lambda>v. hs_account_id v = account_of s) values"
    using unique_account_index_lookup [OF assms(1)] by simp
  show "same_candidate s t \<and> cst_exclusion t = health_verdict snap s"
  proof (cases "find (\<lambda>v. hs_account_id v = account_of s) values")
    case None
    with s t l assms(2) show ?thesis
      by (auto simp: visit_health_def health_verdict_def signal_verdict_def dest: apply_missing_candidate_verdict)
  next
    case (Some v)
    with s t l assms(2) show ?thesis
      by (cases "hs_state v")
        (auto simp: visit_health_def health_verdict_def signal_verdict_def eligible_exclusion dest: apply_missing_candidate_verdict)
  qed
qed

interpretation healths: filter_stage "apply_health snap" "health_verdict snap" for snap
proof
  show "list_all2 (judged (health_verdict snap)) ss ss'" if "apply_health snap ss ds = Inr (ss', ds')" for ss ds ss' ds'
  proof (cases "os_value snap")
    case None
    then have "health_verdict snap = (\<lambda>_. missing_verdict (os_missing_policy snap) SignalHealth)"
      by (intro ext) (simp add: health_verdict_def signal_verdict_def)
    with None that show ?thesis by (auto simp: apply_health_def intro: missing_snapshot_judges)
  next
    case (Some vs)
    with that show ?thesis
      by (auto simp: apply_health_def bind_result_eq_Inr intro: for_eligible_judges visit_health_decides)
  qed
qed (rule static_verdicts)

lemma visit_circuit_decides:
  assumes "unique_account_index cs_account_id values [] = Inr index" and "os_value snap = Some values"
  shows "decides (visit_circuit index (os_missing_policy snap) observed_at) (circuit_verdict snap observed_at)"
  unfolding decides_def
proof (intro allI impI)
  fix s d t e
  assume s: "state_eligible s" and t: "visit_circuit index (os_missing_policy snap) observed_at s d = Inr (t, e)"
  have l: "map_of index (account_of s) = find (\<lambda>v. cs_account_id v = account_of s) values"
    using unique_account_index_lookup [OF assms(1)] by simp
  show "same_candidate s t \<and> cst_exclusion t = circuit_verdict snap observed_at s"
  proof (cases "find (\<lambda>v. cs_account_id v = account_of s) values")
    case None
    with s t l assms(2) show ?thesis
      by (auto simp: visit_circuit_def circuit_verdict_def signal_verdict_def dest: apply_missing_candidate_verdict)
  next
    case (Some v)
    with s t l assms(2) show ?thesis
      by (cases "cs_state v")
        (auto simp: visit_circuit_def circuit_verdict_def signal_verdict_def apply_circuit_state_def eligible_exclusion)
  qed
qed

interpretation circuits: filter_stage "apply_circuit snap observed_at" "circuit_verdict snap observed_at" for snap observed_at
proof
  show "list_all2 (judged (circuit_verdict snap observed_at)) ss ss'"
    if "apply_circuit snap observed_at ss ds = Inr (ss', ds')" for ss ds ss' ds'
  proof (cases "os_value snap")
    case None
    then have "circuit_verdict snap observed_at = (\<lambda>_. missing_verdict (os_missing_policy snap) SignalCircuit)"
      by (intro ext) (simp add: circuit_verdict_def signal_verdict_def)
    with None that show ?thesis by (auto simp: apply_circuit_def intro: missing_snapshot_judges)
  next
    case (Some vs)
    with that show ?thesis
      by (auto simp: apply_circuit_def bind_result_eq_Inr intro: for_eligible_judges visit_circuit_decides)
  qed
qed (rule static_verdicts)

lemma visit_quota_decides:
  assumes "os_value snap = Some values"
  shows "decides (visit_quota (qss_snapshots values) (os_missing_policy snap) now required) (quota_verdict snap now required)"
  unfolding decides_def
proof (intro allI impI)
  fix s d t e
  let ?m = "\<lambda>q. quota_matches (qs_subject q) (account_of s) (cm_provider_id (cst_source s))"
  let ?qs = "qss_snapshots values"
  assume s: "state_eligible s" and t: "visit_quota ?qs (os_missing_policy snap) now required s d = Inr (t, e)"
  obtain spent seen where scan: "quota_scan (account_of s) (cm_provider_id (cst_source s)) now required ?qs False = (spent, seen)"
    by fastforce
  have spent: "spent \<longleftrightarrow> list_ex (\<lambda>q. conservative_remaining_at q now < required) (filter ?m ?qs)"
    using quota_scan_exhausted [of "account_of s" "cm_provider_id (cst_source s)" now required ?qs False] scan
    by (auto simp: list_ex_iff)
  show "same_candidate s t \<and> cst_exclusion t = quota_verdict snap now required s"
  proof (cases spent)
    case True
    with spent have "filter ?m ?qs \<noteq> []" by (auto simp: list_ex_iff filter_empty_conv)
    with True spent s t scan assms show ?thesis
      by (auto simp: visit_quota_def quota_verdict_def signal_verdict_def split: list.splits)
  next
    case False
    then have "seen \<longleftrightarrow> filter ?m ?qs \<noteq> []"
      using quota_scan_seen [of "account_of s" "cm_provider_id (cst_source s)" now required ?qs False] scan
      by (auto simp: list_ex_iff filter_empty_conv)
    with False spent s t scan assms show ?thesis
      by (auto simp: visit_quota_def quota_verdict_def signal_verdict_def eligible_exclusion
          dest: apply_missing_candidate_verdict split: list.splits if_splits)
  qed
qed

interpretation quotas: filter_stage "apply_quota snap now required" "quota_verdict snap now required" for snap now required
proof
  show "list_all2 (judged (quota_verdict snap now required)) ss ss'"
    if "apply_quota snap now required ss ds = Inr (ss', ds')" for ss ds ss' ds'
  proof (cases "os_value snap")
    case None
    then have "quota_verdict snap now required = (\<lambda>_. missing_verdict (os_missing_policy snap) SignalQuota)"
      by (intro ext) (simp add: quota_verdict_def signal_verdict_def)
    with None that show ?thesis by (auto simp: apply_quota_def intro: missing_snapshot_judges)
  next
    case (Some vs)
    with that show ?thesis by (auto simp: apply_quota_def intro: for_eligible_judges visit_quota_decides)
  qed
qed (rule static_verdicts)

lemma visit_schedule_decides:
  assumes "os_value snap = Some values"
  shows "decides (visit_schedule values (os_missing_policy snap) now) (schedule_verdict snap now)"
  unfolding decides_def
proof (intro allI impI)
  fix s d t e
  assume s: "state_eligible s" and t: "visit_schedule values (os_missing_policy snap) now s d = Inr (t, e)"
  show "same_candidate s t \<and> cst_exclusion t = schedule_verdict snap now s"
  proof (cases "schedule_for values (account_of s)")
    case None
    with s t assms show ?thesis
      by (auto simp: visit_schedule_def schedule_verdict_def signal_verdict_def dest: apply_missing_candidate_verdict)
  next
    case (Some schedule)
    with s t assms show ?thesis
      by (auto simp: visit_schedule_def schedule_verdict_def signal_verdict_def bind_result_eq_Inr eligible_exclusion)
  qed
qed

interpretation schedules: filter_stage "apply_schedule snap now" "schedule_verdict snap now" for snap now
proof
  show "list_all2 (judged (schedule_verdict snap now)) ss ss'" if "apply_schedule snap now ss ds = Inr (ss', ds')" for ss ds ss' ds'
  proof (cases "os_value snap")
    case None
    then have "schedule_verdict snap now = (\<lambda>_. missing_verdict (os_missing_policy snap) SignalSchedule)"
      by (intro ext) (simp add: schedule_verdict_def signal_verdict_def)
    with None that show ?thesis by (auto simp: apply_schedule_def intro: missing_snapshot_judges)
  next
    case (Some vs)
    with that show ?thesis by (auto simp: apply_schedule_def intro: for_eligible_judges visit_schedule_decides)
  qed
qed (rule static_verdicts)

lemma visit_proxy_decides:
  assumes "unique_account_index prp_account_id values [] = Inr index" and "os_value snap = Some values"
  shows "decides (visit_proxy index (os_missing_policy snap) destination) (proxy_verdict snap destination)"
  unfolding decides_def
proof (intro allI impI)
  fix s d t e
  assume s: "state_eligible s" and t: "visit_proxy index (os_missing_policy snap) destination s d = Inr (t, e)"
  have l: "map_of index (account_of s) = find (\<lambda>v. prp_account_id v = account_of s) values"
    using unique_account_index_lookup [OF assms(1)] by simp
  show "same_candidate s t \<and> cst_exclusion t = proxy_verdict snap destination s"
  proof (cases "find (\<lambda>v. prp_account_id v = account_of s) values")
    case None
    with s t l assms(2) show ?thesis
      by (auto simp: visit_proxy_def proxy_verdict_def signal_verdict_def dest: apply_missing_candidate_verdict)
  next
    case (Some v)
    with s t l assms(2) show ?thesis
      by (cases destination)
        (auto simp: visit_proxy_def proxy_verdict_def signal_verdict_def eligible_exclusion split: if_splits)
  qed
qed

interpretation proxies: filter_stage "apply_proxy snap destination" "proxy_verdict snap destination" for snap destination
proof
  show "list_all2 (judged (proxy_verdict snap destination)) ss ss'"
    if "apply_proxy snap destination ss ds = Inr (ss', ds')" for ss ds ss' ds'
  proof (cases "os_value snap")
    case None
    then have "proxy_verdict snap destination = (\<lambda>_. missing_verdict (os_missing_policy snap) SignalProxy)"
      by (intro ext) (simp add: proxy_verdict_def signal_verdict_def)
    with None that show ?thesis by (auto simp: apply_proxy_def intro: missing_snapshot_judges)
  next
    case (Some vs)
    with that show ?thesis
      by (auto simp: apply_proxy_def bind_result_eq_Inr intro: for_eligible_judges visit_proxy_decides)
  qed
qed (rule static_verdicts)

interpretation eligibility: filter_stage "apply_eligibility request snapshots" "eligibility_verdict request snapshots"
  for request snapshots
proof -
  let ?e = "csp_eligibility snapshots" and ?times = "tp_times (cq_admission request)"
  let ?now = "tm_budget_now ?times"
  have "apply_eligibility request snapshots =
      then_stage (apply_effective_windows ?now) (then_stage (apply_health (els_health ?e))
      (then_stage (apply_circuit (els_circuit ?e) (tm_circuit_now ?times))
      (then_stage (apply_quota (els_quota ?e) ?now (prq_quantity (cq_pricing request)))
      (then_stage (apply_schedule (els_schedule ?e) ?now)
         (apply_proxy (els_proxy ?e) (cq_destination_region request))))))"
    by (intro ext) (simp add: apply_eligibility_def then_stage_def Let_def)
  moreover have "eligibility_verdict request snapshots = (\<lambda>s. or_else (window_verdict ?now s)
      (or_else (health_verdict (els_health ?e) s) (or_else (circuit_verdict (els_circuit ?e) (tm_circuit_now ?times) s)
      (or_else (quota_verdict (els_quota ?e) ?now (prq_quantity (cq_pricing request)) s)
      (or_else (schedule_verdict (els_schedule ?e) ?now s) (proxy_verdict (els_proxy ?e) (cq_destination_region request) s))))))"
    by (intro ext) (simp add: eligibility_verdict_def Let_def)
  ultimately show "filter_stage (apply_eligibility request snapshots) (eligibility_verdict request snapshots)"
    by (simp only:) (intro then_stage_filter windows.filter_stage_axioms healths.filter_stage_axioms circuits.filter_stage_axioms
        quotas.filter_stage_axioms schedules.filter_stage_axioms proxies.filter_stage_axioms)
qed

end
