(* ===== verification/Selection_Safety.thy ===== *)
theory Selection_Safety
  imports Selection_Filter
begin

text \<open>
  What \<open>prepare_selection\<close> guarantees: the states it filters are the candidates of the pool with the
  first failing check as their exclusion, the cost constraints hold for whatever stays eligible, the
  selected candidate is eligible, and every other candidate is explained.
\<close>

section \<open>Candidates\<close>

text \<open>The state \<open>prepare_candidates\<close> makes of a candidate.\<close>

definition initial_state :: "CoordinationRequest \<Rightarrow> ModelCatalogSnapshot \<Rightarrow> CandidateMetadata \<Rightarrow> CandidateState" where
  "initial_state request models c =
     \<lparr>cst_source = c, cst_key = cm_id c, cst_provider_model = resolve_provider_model request c models,
      cst_proxy_profile = None, cst_quote = None,
      cst_exclusion = initial_exclusion c (resolve_provider_model request c models)\<rparr>"

lemma prepare_candidates_ok:
  assumes "prepare_candidates request cs models = Inr ss"
  shows "ss = map (initial_state request models) cs
     \<and> (\<forall>c \<in> set cs. cm_tenant_id c = Some (rcx_tenant_id (cq_context request)))"
proof -
  have one: "prepare_candidate request models c = Inr s \<Longrightarrow>
      s = initial_state request models c \<and> cm_tenant_id c = Some (rcx_tenant_id (cq_context request))" for c s
    by (auto simp: prepare_candidate_def ensure_tenant_def CandidateKey_parse_def initial_state_def results Let_def split: if_splits)
  have "collect_result (prepare_candidate request models) cs = Inr ss \<Longrightarrow> ?thesis"
    by (induction cs arbitrary: ss) (auto simp: bind_result_eq_Inr dest!: one)
  with assms show ?thesis by (auto simp: prepare_candidates_def split: if_splits)
qed

text \<open>The first failing check of a candidate, over the whole filter before pricing.\<close>

definition filter_verdict ::
  "CoordinationRequest \<Rightarrow> CoordinationSnapshots \<Rightarrow> CandidateMetadata \<Rightarrow> CandidateExclusionReason option" where
  "filter_verdict request snapshots c =
     (let s = initial_state request (csp_models snapshots) c in
      or_else (cst_exclusion s) (eligibility_verdict request snapshots s))"

lemma prepare_state_ok:
  assumes "prepare_state request snapshots = Inr (ss, ds)"
  shows "list_all2 (\<lambda>c s. same_candidate (initial_state request (csp_models snapshots) c) s
       \<and> cst_exclusion s = filter_verdict request snapshots c) (csn_candidates (csp_pool snapshots)) ss
     \<and> (\<forall>c \<in> set (csn_candidates (csp_pool snapshots)). cm_tenant_id c = Some (rcx_tenant_id (cq_context request)))"
proof -
  let ?cs = "csn_candidates (csp_pool snapshots)"
  obtain ss0 where p: "prepare_candidates request ?cs (csp_models snapshots) = Inr ss0"
    and e: "apply_eligibility request snapshots ss0 [] = Inr (ss, ds)"
    using assms by (auto simp: prepare_state_def bind_result_eq_Inr)
  have "list_all2 (judged (eligibility_verdict request snapshots)) ss0 ss"
    using e by (rule eligibility.stage_judges)
  then show ?thesis
    using prepare_candidates_ok [OF p]
    by (auto simp: list_all2_map1 judged_def filter_verdict_def Let_def elim!: list_all2_mono)
qed

section \<open>Pricing\<close>

definition quote_of :: "CoordinationRequest \<Rightarrow> PricingCatalog \<Rightarrow> CandidateState \<Rightarrow> (ModelPricingError, PriceQuote) result" where
  "quote_of request pricing s =
     quote_at pricing (the (cst_provider_model s)) (prq_dimension (cq_pricing request)) (cq_pricing_timestamp request)
       (prq_quantity (cq_pricing request))"

definition quote_verdict :: "CoordinationRequest \<Rightarrow> PricingCatalog \<Rightarrow> CandidateState \<Rightarrow> CandidateExclusionReason option" where
  "quote_verdict request pricing s =
     (if cst_provider_model s = None then Some ModelMappingMissing
      else case quote_of request pricing s of Inl _ \<Rightarrow> Some MissingPrice | Inr _ \<Rightarrow> None)"

interpretation quotes: filter_stage "quote_candidates request pricing" "quote_verdict request pricing" for request pricing
proof
  have "decides (visit_quote request pricing) (quote_verdict request pricing)"
    unfolding decides_def
    by (auto simp: visit_quote_def quote_verdict_def quote_of_def state_eligible_def exclude_def same_candidate_def
        split: option.splits sum.splits)
  then show "list_all2 (judged (quote_verdict request pricing)) ss ss'"
    if "quote_candidates request pricing ss ds = Inr (ss', ds')" for ss ds ss' ds'
    using that by (auto simp: quote_candidates_def intro: for_eligible_judges)
  show "static_verdict (quote_verdict request pricing)"
    by (auto simp: static_verdict_def same_candidate_def quote_verdict_def quote_of_def)
qed

lemma quote_candidates_quotes:
  assumes "quote_candidates request pricing ss ds = Inr (ss', ds')"
  shows "list_all2 (\<lambda>s t. cst_proxy_profile t = cst_proxy_profile s
     \<and> (state_eligible t \<longrightarrow> (\<exists>q. quote_of request pricing s = Inr q \<and> cst_quote t = Some q))) ss ss'"
  using for_eligible_visits [OF assms [unfolded quote_candidates_def]]
proof (rule list_all2_mono)
  show "cst_proxy_profile t = cst_proxy_profile s
      \<and> (state_eligible t \<longrightarrow> (\<exists>q. quote_of request pricing s = Inr q \<and> cst_quote t = Some q))"
    if "if state_eligible s then \<exists>d e. visit_quote request pricing s d = Inr (t, e) else t = s" for s t
    using that
    by (auto simp: visit_quote_def quote_of_def exclude_def state_eligible_def split: if_splits option.splits sum.splits)
qed

text \<open>The exclusions by key touch the one state with that key, and the first reason stays.\<close>

lemma exclude_by_id_map:
  "distinct (map cst_key ss) \<Longrightarrow>
     exclude_by_id c r ss = map (\<lambda>s. if cst_key s = c then exclude r s else s) ss"
proof (induction ss)
  case (Cons s ss)
  have "map (\<lambda>t. if cst_key t = cst_key s then exclude r t else t) ss = ss"
    using Cons.prems by (intro map_idI) (auto simp: image_iff)
  with Cons show ?case by auto
qed simp

lemma exclude_simps [simp]:
  "cst_key (exclude r s) = cst_key s" "cst_source (exclude r s) = cst_source s"
  "cst_provider_model (exclude r s) = cst_provider_model s" "cst_quote (exclude r s) = cst_quote s"
  "cst_proxy_profile (exclude r s) = cst_proxy_profile s"
  "cst_exclusion (exclude r s) = or_else (cst_exclusion s) (Some r)"
  "exclude r (exclude q s) = exclude q s"
  by (simp_all add: exclude_def or_else_def split: option.splits)

lemma keys_excluded [simp]: "map cst_key (map (\<lambda>s. if P s then exclude (r s) s else s) ss) = map cst_key ss"
  by simp

lemma fold_exclude_by_id:
  assumes "distinct (map cst_key ss)"
  shows "fold (\<lambda>x. exclude_by_id (f x) (g x)) xs ss =
     map (\<lambda>s. case find (\<lambda>x. f x = cst_key s) xs of None \<Rightarrow> s | Some x \<Rightarrow> exclude (g x) s) ss"
  using assms
proof (induction xs arbitrary: ss)
  case (Cons x xs)
  let ?ss = "map (\<lambda>s. if cst_key s = f x then exclude (g x) s else s) ss"
  have "map cst_key ?ss = map cst_key ss" by simp
  with Cons.prems have "distinct (map cst_key ?ss)" by metis
  then show ?case
    using Cons.IH [of ?ss] Cons.prems
    by (auto simp: exclude_by_id_map split: option.splits)
qed simp

text \<open>
  The cost verdict of an eligible, quoted state among all quoted states: above the hard limit, or
  above the soft limit while another candidate is within it.
\<close>

definition total_of :: "CandidateState \<Rightarrow> u64" where
  "total_of s = pq_total (the (cst_quote s))"

definition cost_verdict :: "CostConstraints \<Rightarrow> CandidateState list \<Rightarrow> CandidateState \<Rightarrow> CandidateExclusionReason option" where
  "cost_verdict constraints states s =
     (if exceeds (total_of s) (cc_hard_limit constraints) then Some HardCostLimit
      else if exceeds (total_of s) (cc_soft_limit constraints)
           \<and> list_ex (\<lambda>t. \<not> exceeds (total_of t) (cc_hard_limit constraints)
                         \<and> \<not> exceeds (total_of t) (cc_soft_limit constraints)) (filter state_eligible states)
      then Some AboveSoftCostLimit else None)"

definition input_of :: "CandidateState \<Rightarrow> CandidateCostInput" where
  "input_of s = \<lparr>cci_candidate = cst_key s, cci_estimate = Some (total_of s)\<rparr>"

lemma cost_inputs_ok:
  assumes "cost_inputs ss = Inr inputs"
  shows "inputs = map input_of (filter state_eligible ss) \<and> (\<forall>s \<in> set (filter state_eligible ss). cst_quote s \<noteq> None)"
proof -
  have one: "cost_input s = Inr i \<Longrightarrow> i = input_of s \<and> cst_quote s \<noteq> None" for s i
    by (auto simp: cost_input_def input_of_def total_of_def CostCandidateId_parse_def CostUnits_new_def
        CandidateCostInput_estimated_def results split: if_splits)
  have "collect_result cost_input ts = Inr is \<Longrightarrow> is = map input_of ts \<and> (\<forall>s \<in> set ts. cst_quote s \<noteq> None)" for ts "is"
    by (induction ts arbitrary: "is") (auto simp: bind_result_eq_Inr dest!: one)
  with assms show ?thesis unfolding cost_inputs_def by blast
qed

lemma input_tier:
  "cost_tier k (input_of s) =
     (if exceeds (total_of s) (cc_hard_limit k) then CostExcluded (CostHardLimitExceeded (the (cc_hard_limit k)))
      else if exceeds (total_of s) (cc_soft_limit k) then Fallback else Preferred)"
  by (simp add: cost_tier_def input_of_def)

lemma exclusions_Cons:
  "cev_exclusions (cost_partition k (map input_of (t # ts))) =
     (if exceeds (total_of t) (cc_hard_limit k)
      then [\<lparr>cex_candidate = cst_key t, cex_reason = CostHardLimitExceeded (the (cc_hard_limit k))\<rparr>] else [])
     @ cev_exclusions (cost_partition k (map input_of ts))"
  by (cases "exceeds (total_of t) (cc_hard_limit k)"; cases "exceeds (total_of t) (cc_soft_limit k)")
    (simp_all add: cost_partition_def List.map_filter_def input_tier, simp_all add: input_of_def)

lemma exclusions_keys: "cex_candidate ` set (cev_exclusions (cost_partition k (map input_of ts))) \<subseteq> cst_key ` set ts"
proof (induction ts)
  case (Cons t ts)
  then show ?case unfolding exclusions_Cons by auto
qed (simp add: cost_partition_def List.map_filter_def)

lemma find_hard_exclusion:
  assumes "distinct (map cst_key ts)" and "s \<in> set ts"
  shows "map_option (\<lambda>x. cost_reason (cex_reason x))
      (find (\<lambda>x. cex_candidate x = cst_key s) (cev_exclusions (cost_partition k (map input_of ts)))) =
    (if exceeds (total_of s) (cc_hard_limit k) then Some HardCostLimit else None)"
  using assms
proof (induction ts)
  case (Cons t ts)
  show ?case
  proof (cases "s = t")
    case True
    have "find (\<lambda>x. cex_candidate x = cst_key t) (cev_exclusions (cost_partition k (map input_of ts))) = None"
    proof -
      have "cst_key t \<notin> cex_candidate ` set (cev_exclusions (cost_partition k (map input_of ts)))"
        using Cons.prems(1) exclusions_keys [of k ts] by auto
      then show ?thesis by (auto simp: find_None_iff image_iff)
    qed
    with True show ?thesis unfolding exclusions_Cons by simp
  next
    case False
    with Cons.prems have "s \<in> set ts" "cst_key t \<noteq> cst_key s" by (auto simp: image_iff)
    with Cons show ?thesis unfolding exclusions_Cons by (auto split: if_splits)
  qed
qed simp

lemma find_fallback:
  assumes "distinct (map cst_key ts)" and "s \<in> set ts"
  shows "find (\<lambda>c. cdc_candidate c = cst_key s) (cev_fallback (cost_partition k (map input_of ts))) \<noteq> None \<longleftrightarrow>
    \<not> exceeds (total_of s) (cc_hard_limit k) \<and> exceeds (total_of s) (cc_soft_limit k)"
proof -
  have inj: "t = s" if "t \<in> set ts" "cst_key t = cst_key s" for t
    using assms that by (auto simp: distinct_map inj_on_def)
  have "find (\<lambda>c. cdc_candidate c = cst_key s) (cev_fallback (cost_partition k (map input_of ts))) \<noteq> None \<longleftrightarrow>
      (\<exists>t \<in> set ts. cst_key t = cst_key s \<and> cost_tier k (input_of t) = Fallback)"
    by (auto simp: find_None_iff cost_partition_def costed_def input_of_def)
  also have "\<dots> \<longleftrightarrow> cost_tier k (input_of s) = Fallback" using inj assms(2) by blast
  finally show ?thesis by (auto simp: input_tier)
qed

lemma cost_verdict_of_state:
  fixes k :: CostConstraints
  assumes "distinct (map cst_key ss)" and "s \<in> set ss"
  defines "ev \<equiv> cost_partition k (map input_of (filter state_eligible ss))"
  defines "hard \<equiv> \<lambda>s. case find (\<lambda>x. cex_candidate x = cst_key s) (cev_exclusions ev) of
      None \<Rightarrow> s | Some x \<Rightarrow> exclude (cost_reason (cex_reason x)) s"
  defines "soft \<equiv> \<lambda>s. case find (\<lambda>c. cdc_candidate c = cst_key s) (cev_fallback ev) of
      None \<Rightarrow> s | Some _ \<Rightarrow> exclude AboveSoftCostLimit s"
  shows "(if cev_preferred ev \<noteq> [] then soft (hard s) else hard s) =
     (if state_eligible s then s\<lparr>cst_exclusion := cost_verdict k ss s\<rparr> else s)"
proof (cases "state_eligible s")
  case False
  then have "exclude r s = s" for r by (simp add: exclude_def state_eligible_def)
  then have "hard s = s" "soft s = s" by (simp_all add: hard_def soft_def split: option.splits)
  with False show ?thesis by simp
next
  case True
  let ?ts = "filter state_eligible ss"
  have d: "distinct (map cst_key ?ts)" using assms(1) by (rule distinct_map_filter)
  have m: "s \<in> set ?ts" using True assms(2) by simp
  have p: "cev_preferred ev \<noteq> [] \<longleftrightarrow> list_ex (\<lambda>t. \<not> exceeds (total_of t) (cc_hard_limit k)
      \<and> \<not> exceeds (total_of t) (cc_soft_limit k)) ?ts"
    by (auto simp: ev_def cost_partition_def filter_empty_conv list_ex_iff input_tier)
  have h: "hard s = (if exceeds (total_of s) (cc_hard_limit k) then s\<lparr>cst_exclusion := Some HardCostLimit\<rparr> else s)"
    using find_hard_exclusion [OF d m, of k] True by (auto simp: hard_def ev_def split: option.splits if_splits)
  have f: "find (\<lambda>c. cdc_candidate c = cst_key s) (cev_fallback ev) \<noteq> None \<longleftrightarrow>
      \<not> exceeds (total_of s) (cc_hard_limit k) \<and> exceeds (total_of s) (cc_soft_limit k)"
    unfolding ev_def by (rule find_fallback [OF d m])
  have n: "s\<lparr>cst_exclusion := None\<rparr> = s" using True by (simp add: state_eligible_def)
  show ?thesis
  proof (cases "exceeds (total_of s) (cc_hard_limit k)")
    case hard_limit: True
    have "soft (hard s) = hard s" using f h hard_limit by (simp add: soft_def)
    then show ?thesis using h hard_limit True by (simp add: cost_verdict_def)
  next
    case False
    have "soft s = (if exceeds (total_of s) (cc_soft_limit k) then s\<lparr>cst_exclusion := Some AboveSoftCostLimit\<rparr> else s)"
      using f False True by (cases "find (\<lambda>c. cdc_candidate c = cst_key s) (cev_fallback ev)") (auto simp: soft_def)
    then show ?thesis using h p False True n by (auto simp: cost_verdict_def)
  qed
qed

lemma apply_cost_exclusions_eq:
  assumes "distinct (map cst_key ss)"
  shows "apply_cost_exclusions (cost_partition k (map input_of (filter state_eligible ss))) ss =
     map (\<lambda>s. if state_eligible s then s\<lparr>cst_exclusion := cost_verdict k ss s\<rparr> else s) ss"
proof -
  let ?ev = "cost_partition k (map input_of (filter state_eligible ss))"
  define hard where "hard s = (case find (\<lambda>x. cex_candidate x = cst_key s) (cev_exclusions ?ev) of
      None \<Rightarrow> s | Some x \<Rightarrow> exclude (cost_reason (cex_reason x)) s)" for s
  define soft where "soft s = (case find (\<lambda>c. cdc_candidate c = cst_key s) (cev_fallback ?ev) of
      None \<Rightarrow> s | Some _ \<Rightarrow> exclude AboveSoftCostLimit s)" for s
  have "cst_key (hard s) = cst_key s" for s by (simp add: hard_def split: option.splits)
  then have d: "distinct (map cst_key (map hard ss))" using assms by (simp add: o_def)
  have "apply_cost_exclusions ?ev ss = (if cev_preferred ?ev \<noteq> [] then map soft (map hard ss) else map hard ss)"
    unfolding apply_cost_exclusions_def Let_def fold_exclude_by_id [OF assms]
    unfolding hard_def [symmetric, abs_def] unfolding fold_exclude_by_id [OF d]
    unfolding soft_def [symmetric, abs_def] by simp
  also have "\<dots> = map (\<lambda>s. if cev_preferred ?ev \<noteq> [] then soft (hard s) else hard s) ss" by simp
  also have "\<dots> = map (\<lambda>s. if state_eligible s then s\<lparr>cst_exclusion := cost_verdict k ss s\<rparr> else s) ss"
    unfolding hard_def soft_def using cost_verdict_of_state [OF assms] by (intro map_cong [OF refl]) blast
  finally show ?thesis .
qed

lemma apply_pricing_ok:
  assumes "apply_pricing request snap ss ds = Inr (ss', ds')" and "distinct (map cst_key ss)"
  shows "\<exists>pricing qs. os_value snap = Some pricing \<and> quote_candidates request pricing ss ds = Inr (qs, ds')
     \<and> ss' = map (\<lambda>s. if state_eligible s then s\<lparr>cst_exclusion := cost_verdict (prq_constraints (cq_pricing request)) qs s\<rparr> else s) qs"
proof -
  let ?k = "prq_constraints (cq_pricing request)"
  obtain pricing qs e inputs where q: "os_value snap = Some pricing" "quote_candidates request pricing ss ds = Inr (qs, e)"
    "cost_inputs qs = Inr inputs"
    and r: "(if inputs = [] then Inr (qs, e) else bind_result (evaluate_cost inputs request) (\<lambda>evaluation.
        Inr (apply_cost_exclusions evaluation qs, e))) = Inr (ss', ds')"
    using assms(1) by (auto simp: apply_pricing_def bind_result_eq_Inr split: option.splits)
  have d: "distinct (map cst_key qs)"
    using quotes.stage_keeps_candidates [OF q(2)] assms(2) by simp
  have i: "inputs = map input_of (filter state_eligible qs)" using cost_inputs_ok [OF q(3)] by simp
  show ?thesis
  proof (cases "inputs = []")
    case True
    then have "filter state_eligible qs = []" using i by simp
    then have "map (\<lambda>s. if state_eligible s then s\<lparr>cst_exclusion := cost_verdict ?k qs s\<rparr> else s) qs = qs"
      by (intro map_idI) (auto simp: filter_empty_conv)
    with True q r show ?thesis by auto
  next
    case False
    with r obtain ev where "evaluate_cost inputs request = Inr ev" "ss' = apply_cost_exclusions ev qs" "ds' = e"
      by (auto simp: bind_result_eq_Inr)
    moreover have "ev = cost_partition ?k inputs"
      using calculation(1) by (auto simp: evaluate_cost_def cost_evaluate_eq split: if_splits)
    ultimately show ?thesis using apply_cost_exclusions_eq [OF d] q i by auto
  qed
qed

end
