(* ===== verification/Selection_Properties.thy ===== *)
theory Selection_Properties
  imports Selection_Safety
begin

text \<open>
  The guarantees of the whole filter and of the coordination call over it: a routed candidate passed
  every check, the reported reason is the first failing check, and every candidate that was not
  selected is explained.
\<close>

section \<open>The choice\<close>

definition sound_choice :: "CandidateState list \<Rightarrow> nat \<Rightarrow> RouteExclusion list \<Rightarrow> bool" where
  "sound_choice states chosen others \<longleftrightarrow>
     chosen < length states \<and> state_eligible (states ! chosen)
     \<and> set (map re_candidate others) = {k \<in> cst_key ` set (filter state_eligible states). k \<noteq> cst_key (states ! chosen)}
     \<and> distinct (map re_candidate others)"

lemma preferred_exclusions_keys:
  "map re_candidate (preferred_exclusions r ss i) =
     map (\<lambda>j. cst_key (ss ! j)) (filter (\<lambda>j. j \<noteq> i \<and> state_eligible (ss ! j)) [0..<length ss])"
proof -
  have "enumerate 0 ss = map (\<lambda>j. (j, ss ! j)) [0..<length ss]"
    by (rule nth_equalityI) (simp_all add: nth_enumerate_eq)
  then show ?thesis by (simp add: preferred_exclusions_def filter_map o_def)
qed

lemma distinct_keys_index:
  "distinct (map cst_key ss) \<Longrightarrow> i < length ss \<Longrightarrow> j < length ss \<Longrightarrow> cst_key (ss ! i) = cst_key (ss ! j) \<longleftrightarrow> i = j"
  using nth_eq_iff_index_eq [of "map cst_key ss" i j] by simp

lemma preferred_choice_sound:
  assumes "distinct (map cst_key ss)" and "list_position (\<lambda>s. state_eligible s \<and> cst_key s = key) ss = Some i"
  shows "sound_choice ss i (preferred_exclusions r ss i)"
proof -
  have i: "i < length ss" "state_eligible (ss ! i)" using list_position_Some [OF assms(2)] by auto
  let ?js = "filter (\<lambda>j. j \<noteq> i \<and> state_eligible (ss ! j)) [0..<length ss]"
  have "inj_on (\<lambda>j. cst_key (ss ! j)) (set ?js)"
    using distinct_keys_index [OF assms(1)] by (auto simp: inj_on_def)
  then have "distinct (map re_candidate (preferred_exclusions r ss i))"
    unfolding preferred_exclusions_keys distinct_map by simp
  moreover have "set (map re_candidate (preferred_exclusions r ss i)) =
      {k \<in> cst_key ` set (filter state_eligible ss). k \<noteq> cst_key (ss ! i)}"
    unfolding preferred_exclusions_keys
    using distinct_keys_index [OF assms(1)] i by (fastforce simp: in_set_conv_nth image_iff)
  ultimately show ?thesis using i by (simp add: sound_choice_def)
qed

lemma policy_candidates_ok:
  "policy_candidates ss = Inr cs \<Longrightarrow>
     map ca_id cs = map cst_key (filter state_eligible ss)"
proof -
  have "policy_candidate s = Inr c \<Longrightarrow> ca_id c = cst_key s" for s c
    by (auto simp: policy_candidate_def CandidateId_new_def results split: if_splits)
  then have "collect_result policy_candidate ts = Inr cs \<Longrightarrow> map ca_id cs = map cst_key ts" for ts cs
    by (induction ts arbitrary: cs) (auto simp: bind_result_eq_Inr)
  then show "policy_candidates ss = Inr cs \<Longrightarrow> map ca_id cs = map cst_key (filter state_eligible ss)"
    unfolding policy_candidates_def by blast
qed

lemma collect_policy_exclusions:
  "collect_result map_policy_exclusion xs = Inr ys \<Longrightarrow> map re_candidate ys = map ex_candidate_id xs"
  by (induction xs arbitrary: ys)
    (auto simp: bind_result_eq_Inr map_policy_exclusion_def CandidateKey_parse_def split: if_splits)

lemma choose_weighted_ok:
  assumes "choose_weighted cs = Inr (key, exclusions)"
  shows "key \<in> set (map ca_id cs) \<and> map re_candidate exclusions = filter (\<lambda>i. i \<noteq> key) (map ca_id cs)"
proof -
  obtain selection where v: "validate_candidates cs = Inr ()" and s: "select_candidates cs = Inr selection"
    and k: "key = ca_id (sel_winner selection)"
    and x: "collect_result map_policy_exclusion (sd_exclusions (selection_explain selection)) = Inr exclusions"
    using assms
    by (auto simp: choose_weighted_def PreparedCandidateSet_new_def select_prepared_def bind_result_eq_Inr CandidateKey_parse_def
        split: if_splits)
  have "\<exists>c \<in> set cs. is_eligible c" using s select_candidates_none [of cs] by fastforce
  then have "sel_candidates selection = cs \<and> sel_winner selection \<in> set cs"
    by (rule select_candidates_least) (use s in simp)
  then show ?thesis
    using collect_policy_exclusions [OF x] k by (simp add: selection_explain_def explain_exclusions_ids)
qed

lemma select_weighted_sound:
  assumes "distinct (map cst_key ss)" and "select_weighted ss = Inr (i, basis, others)"
  shows "sound_choice ss i others"
proof -
  obtain cs key where c: "policy_candidates ss = Inr cs" "choose_weighted cs = Inr (key, others)"
    and p: "list_position (\<lambda>s. cst_key s = key) ss = Some i"
    using assms(2) by (auto simp: select_weighted_def bind_result_eq_Inr ok_or_eq split: if_splits)
  have i: "i < length ss" "cst_key (ss ! i) = key" using list_position_Some [OF p] by auto
  have ids: "map ca_id cs = map cst_key (filter state_eligible ss)" using c(1) by (rule policy_candidates_ok)
  then obtain s where "s \<in> set ss" "state_eligible s" "cst_key s = key"
    using choose_weighted_ok [OF c(2)] by auto
  then have "state_eligible (ss ! i)"
    using assms(1) i by (metis distinct_keys_index in_set_conv_nth)
  moreover have "distinct (map cst_key (filter state_eligible ss))" using assms(1) by (rule distinct_map_filter)
  ultimately show ?thesis
    using choose_weighted_ok [OF c(2)] i ids by (auto simp: sound_choice_def)
qed

lemma select_candidate_sound:
  assumes "distinct (map cst_key ss)" and "select_candidate installed request affinity ss ds = Inr ((i, basis, others), ds')"
  shows "sound_choice ss i others"
proof -
  have a: "sound_choice ss i others"
    if "select_affinity_candidate request affinity ss ds = Inr (Some (i, basis, others), es)" for es
    using that preferred_choice_sound [OF assms(1)]
    by (auto simp: select_affinity_candidate_def select_affinity_def affinity_exclusions_def bind_result_eq_Inr
        split: option.splits if_splits prod.splits)
  have out: "sound_choice ss i others" if "apply_wasm_output answer ss = Inr (Some (i, basis, others))" for answer
    using that preferred_choice_sound [OF assms(1)]
    by (cases answer) (auto simp: wasm_exclusions_def bind_result_eq_Inr ok_or_eq)
  have w: "sound_choice ss i others" if "select_wasm_policy installed ss es = Inr (Some (i, basis, others), es')" for es es'
  proof -
    from that obtain evaluator input answer where "evaluate_wasm_input evaluator input ss es = Inr (Some (i, basis, others), es')"
      and "evaluator input = Inr answer"
      by (auto simp: select_wasm_policy_def evaluate_wasm_input_def bind_result_eq_Inr split: option.splits)
    then show ?thesis using out by (cases answer) (auto simp: evaluate_wasm_input_def bind_result_eq_Inr)
  qed
  obtain choice es where c: "select_affinity_candidate request affinity ss ds = Inr (choice, es)"
    and r: "(case choice of Some c \<Rightarrow> Inr (c, es) | None \<Rightarrow> select_without_affinity installed ss es) = Inr ((i, basis, others), ds')"
    using assms(2) by (auto simp: select_candidate_def bind_result_eq_Inr)
  show ?thesis
  proof (cases choice)
    case (Some x)
    then show ?thesis using c r a by simp
  next
    case None
    then obtain choice' es' where c': "select_wasm_policy installed ss es = Inr (choice', es')"
      and r': "(case choice' of Some c \<Rightarrow> Inr (c, es') | None \<Rightarrow> bind_result (select_weighted ss) (\<lambda>c. Inr (c, es')))
          = Inr ((i, basis, others), ds')"
      using r by (auto simp: select_without_affinity_def bind_result_eq_Inr)
    then show ?thesis
      using w select_weighted_sound [OF assms(1)] by (cases choice') (auto simp: bind_result_eq_Inr)
  qed
qed

section \<open>The explanation\<close>

lemma dedup_adjacent_distinct: "distinct (map re_candidate xs) \<Longrightarrow> dedup_adjacent xs = xs"
  by (induction xs rule: dedup_adjacent.induct) auto

lemma bound_exclusions_distinct:
  assumes "distinct (map re_candidate xs)"
  shows "bound_exclusions xs = (take MAX_RETAINED_EXCLUSIONS (sort_key re_candidate xs), MAX_RETAINED_EXCLUSIONS < length xs)"
proof -
  have "distinct (map re_candidate (sort_key re_candidate xs))"
    using assms by (simp add: distinct_map)
  then show ?thesis by (simp add: bound_exclusions_def dedup_adjacent_distinct Let_def)
qed

lemma state_exclusions_keys:
  "map re_candidate (state_exclusions ss) = map cst_key (filter (\<lambda>s. \<not> state_eligible s) ss)"
  by (induction ss) (auto simp: state_exclusions_def List.map_filter_def state_eligible_def)

lemma state_exclusions_set:
  "set (state_exclusions ss) = {\<lparr>re_candidate = cst_key s, re_reason = r\<rparr> |s r. s \<in> set ss \<and> cst_exclusion s = Some r}"
  by (induction ss) (auto simp: state_exclusions_def List.map_filter_def)

lemma choice_exclusions_distinct:
  assumes "distinct (map cst_key ss)" and "sound_choice ss i others"
  shows "distinct (map re_candidate (state_exclusions ss @ others))"
proof -
  have ne: "cst_key s \<noteq> cst_key t" if "s \<in> set ss" "t \<in> set ss" "state_eligible s" "\<not> state_eligible t" for s t
    using that assms(1) by (auto simp: distinct_map inj_on_def)
  have "set (map re_candidate others) \<subseteq> cst_key ` set (filter state_eligible ss)"
    using assms(2) unfolding sound_choice_def by blast
  moreover have "cst_key ` set (filter state_eligible ss) \<inter> set (map re_candidate (state_exclusions ss)) = {}"
    unfolding state_exclusions_keys using ne by auto
  ultimately have "set (map re_candidate (state_exclusions ss)) \<inter> set (map re_candidate others) = {}" by blast
  then show ?thesis
    using assms distinct_map_filter [OF assms(1)] by (simp add: state_exclusions_keys sound_choice_def)
qed

section \<open>The proxy profile of an eligible state\<close>

definition proxy_bound :: "ProxyRoutingProfile list OptionalSnapshot \<Rightarrow> CandidateState \<Rightarrow> bool" where
  "proxy_bound snap s \<longleftrightarrow>
     (state_eligible s \<longrightarrow>
        (case os_value snap of
           None \<Rightarrow> True
         | Some profiles \<Rightarrow>
             (case find (\<lambda>p. prp_account_id p = account_of s) profiles of
                None \<Rightarrow> True
              | Some p \<Rightarrow> cst_proxy_profile s = Some (prp_profile p))))"

lemma visit_proxy_bound:
  assumes "unique_account_index prp_account_id profiles [] = Inr index" and "os_value snap = Some profiles"
    and "state_eligible s" and "visit_proxy index missing destination s d = Inr (t, e)"
  shows "proxy_bound snap t"
proof -
  have "map_of index (account_of s) = find (\<lambda>v. prp_account_id v = account_of s) profiles"
    using unique_account_index_lookup [OF assms(1)] by simp
  with assms show ?thesis
    by (cases "find (\<lambda>v. prp_account_id v = account_of s) profiles"; cases destination)
      (auto simp: visit_proxy_def proxy_bound_def state_eligible_def apply_missing_candidate_def split: if_splits)
qed

lemma apply_proxy_bound:
  assumes "apply_proxy snap destination ss ds = Inr (ss', ds')"
  shows "list_all (proxy_bound snap) ss'"
proof (cases "os_value snap")
  case None
  then show ?thesis by (simp add: list_all_iff proxy_bound_def)
next
  case (Some profiles)
  obtain index where u: "unique_account_index prp_account_id profiles [] = Inr index"
    and f: "for_eligible (visit_proxy index (os_missing_policy snap) destination) ss ds = Inr (ss', ds')"
    using assms Some by (auto simp: apply_proxy_def bind_result_eq_Inr)
  have "list_all2 (\<lambda>s t. proxy_bound snap t) ss ss'"
    using for_eligible_visits [OF f]
  proof (rule list_all2_mono)
    show "proxy_bound snap t"
      if "if state_eligible s then \<exists>d e. visit_proxy index (os_missing_policy snap) destination s d = Inr (t, e) else t = s" for s t
      using that visit_proxy_bound [OF u Some] by (cases "state_eligible s") (auto simp: proxy_bound_def)
  qed
  then show ?thesis by (auto simp: list_all2_conv_all_nth list_all_length)
qed

lemma prepare_state_bound:
  "prepare_state request snapshots = Inr (ss, ds) \<Longrightarrow> list_all (proxy_bound (els_proxy (csp_eligibility snapshots))) ss"
  by (auto simp: prepare_state_def apply_eligibility_def bind_result_eq_Inr Let_def dest: apply_proxy_bound)

section \<open>The whole filter\<close>

text \<open>The states of a successful selection, and how each came about.\<close>

lemma prepare_selection_ok:
  assumes "prepare_selection installed request snapshots = Inr selection"
    and "distinct (map cm_id (csn_candidates (csp_pool snapshots)))"
  obtains pricing ss qs others where
    "os_value (csp_pricing snapshots) = Some pricing"
    "list_all2 (\<lambda>c s. same_candidate (initial_state request (csp_models snapshots) c) s
       \<and> cst_exclusion s = filter_verdict request snapshots c) (csn_candidates (csp_pool snapshots)) ss"
    "\<forall>c \<in> set (csn_candidates (csp_pool snapshots)). cm_tenant_id c = Some (rcx_tenant_id (cq_context request))"
    "list_all (proxy_bound (els_proxy (csp_eligibility snapshots))) ss"
    "list_all2 (judged (quote_verdict request pricing)) ss qs"
    "list_all2 (\<lambda>s t. cst_proxy_profile t = cst_proxy_profile s
       \<and> (state_eligible t \<longrightarrow> (\<exists>q. quote_of request pricing s = Inr q \<and> cst_quote t = Some q))) ss qs"
    "rsl_states selection =
       map (\<lambda>s. if state_eligible s then s\<lparr>cst_exclusion := cost_verdict (prq_constraints (cq_pricing request)) qs s\<rparr> else s) qs"
    "distinct (map cst_key (rsl_states selection))"
    "sound_choice (rsl_states selection) (rsl_selected_index selection) others"
    "(rsl_exclusions selection, rsl_exclusions_truncated selection) = collect_exclusions (rsl_states selection) others"
proof -
  let ?cs = "csn_candidates (csp_pool snapshots)"
  obtain ss ds ss' ds' i basis others ds'' where p: "prepare_state request snapshots = Inr (ss, ds)"
    and a: "apply_pricing request (csp_pricing snapshots) ss ds = Inr (ss', ds')"
    and c: "select_candidate installed request (csp_affinity snapshots) ss' ds' = Inr ((i, basis, others), ds'')"
    and sel: "rsl_states selection = ss'" "rsl_selected_index selection = i"
      "(rsl_exclusions selection, rsl_exclusions_truncated selection) = collect_exclusions ss' others"
    using assms(1) by (fastforce simp: prepare_selection_def bind_result_eq_Inr prod.case_eq_if)
  have st: "list_all2 (\<lambda>c s. same_candidate (initial_state request (csp_models snapshots) c) s
       \<and> cst_exclusion s = filter_verdict request snapshots c) ?cs ss"
    using prepare_state_ok [OF p] by simp
  have "map cst_key ss = map cm_id ?cs"
    using st by (auto simp: list_all2_conv_all_nth same_candidate_def initial_state_def intro!: nth_equalityI)
  with assms(2) have d: "distinct (map cst_key ss)" by simp
  obtain pricing qs where q: "os_value (csp_pricing snapshots) = Some pricing"
    "quote_candidates request pricing ss ds = Inr (qs, ds')"
    and e: "ss' = map (\<lambda>s. if state_eligible s then s\<lparr>cst_exclusion := cost_verdict (prq_constraints (cq_pricing request)) qs s\<rparr> else s) qs"
    using apply_pricing_ok [OF a d] by auto
  have "map cst_key ss' = map cst_key qs" unfolding e by auto
  then have d': "distinct (map cst_key ss')" using quotes.stage_keeps_candidates [OF q(2)] d by simp
  show ?thesis
    using that [OF q(1) st _ prepare_state_bound [OF p] quotes.stage_judges [OF q(2)] quote_candidates_quotes [OF q(2)] _ _ _ sel(3) [folded sel(1)]]
      prepare_state_ok [OF p] sel e d' select_candidate_sound [OF d' c] by simp
qed

text \<open>What an eligible state of a selection went through.\<close>

lemma eligible_state_passes:
  assumes "prepare_selection installed request snapshots = Inr selection"
    and "distinct (map cm_id (csn_candidates (csp_pool snapshots)))"
    and "n < length (rsl_states selection)" and "state_eligible (rsl_states selection ! n)"
  defines "s \<equiv> rsl_states selection ! n"
  shows "cst_source s \<in> set (csn_candidates (csp_pool snapshots)) \<and> cst_key s = cm_id (cst_source s)
     \<and> cm_tenant_id (cst_source s) = Some (rcx_tenant_id (cq_context request))
     \<and> cst_provider_model s = resolve_provider_model request (cst_source s) (csp_models snapshots)
     \<and> filter_verdict request snapshots (cst_source s) = None
     \<and> (\<exists>pricing q. os_value (csp_pricing snapshots) = Some pricing \<and> quote_of request pricing s = Inr q \<and> cst_quote s = Some q
          \<and> \<not> exceeds (pq_total q) (cc_hard_limit (prq_constraints (cq_pricing request))))
     \<and> proxy_bound (els_proxy (csp_eligibility snapshots)) s"
proof (rule prepare_selection_ok [OF assms(1,2)])
  fix pricing ss qs others
  let ?cs = "csn_candidates (csp_pool snapshots)" and ?k = "prq_constraints (cq_pricing request)"
  assume p: "os_value (csp_pricing snapshots) = Some pricing"
    and st: "list_all2 (\<lambda>c s. same_candidate (initial_state request (csp_models snapshots) c) s
       \<and> cst_exclusion s = filter_verdict request snapshots c) ?cs ss"
    and tenants: "\<forall>c \<in> set ?cs. cm_tenant_id c = Some (rcx_tenant_id (cq_context request))"
    and px: "list_all (proxy_bound (els_proxy (csp_eligibility snapshots))) ss"
    and jq: "list_all2 (judged (quote_verdict request pricing)) ss qs"
    and qq: "list_all2 (\<lambda>s t. cst_proxy_profile t = cst_proxy_profile s
       \<and> (state_eligible t \<longrightarrow> (\<exists>q. quote_of request pricing s = Inr q \<and> cst_quote t = Some q))) ss qs"
    and fin: "rsl_states selection = map (\<lambda>s. if state_eligible s then s\<lparr>cst_exclusion := cost_verdict ?k qs s\<rparr> else s) qs"
  have n: "n < length ?cs" "n < length ss" "n < length qs"
    using assms(3) fin jq st by (simp_all add: list_all2_lengthD)
  let ?a = "ss ! n" and ?b = "qs ! n"
  have a: "same_candidate (initial_state request (csp_models snapshots) (?cs ! n)) ?a"
      "cst_exclusion ?a = filter_verdict request snapshots (?cs ! n)"
    using st n by (auto simp: list_all2_conv_all_nth)
  have b: "judged (quote_verdict request pricing) ?a ?b" using jq n by (auto simp: list_all2_conv_all_nth)
  have e: "s = (if state_eligible ?b then ?b\<lparr>cst_exclusion := cost_verdict ?k qs ?b\<rparr> else ?b)"
    using fin n by (simp add: s_def)
  have eb: "state_eligible ?b" "cost_verdict ?k qs ?b = None"
    using e assms(4) by (auto simp: s_def [symmetric] state_eligible_def split: if_splits)
  then have s: "s = ?b" using e by (simp add: state_eligible_def)
  have ea: "state_eligible ?a" using b eb(1) by (auto simp: judged_def state_eligible_def)
  obtain q where q: "quote_of request pricing ?a = Inr q" "cst_quote ?b = Some q" "cst_proxy_profile ?b = cst_proxy_profile ?a"
    using qq n eb(1) by (auto simp: list_all2_conv_all_nth)
  have same: "same_candidate ?a ?b" using b by (simp add: judged_def)
  have src: "cst_source s = ?cs ! n" "cst_key s = cm_id (?cs ! n)"
    "cst_provider_model s = resolve_provider_model request (?cs ! n) (csp_models snapshots)"
    using a(1) same s by (simp_all add: same_candidate_def initial_state_def)
  moreover have "?cs ! n \<in> set ?cs" using n by simp
  moreover have "filter_verdict request snapshots (?cs ! n) = None" using a(2) ea by (simp add: state_eligible_def)
  moreover have "quote_of request pricing s = Inr q" using q(1) same s by (simp add: quote_of_def same_candidate_def)
  moreover have "\<not> exceeds (pq_total q) (cc_hard_limit ?k)"
    using eb(2) q(2) by (auto simp: cost_verdict_def total_of_def split: if_splits)
  moreover have "proxy_bound (els_proxy (csp_eligibility snapshots)) s"
    using px n ea q(3) same s by (auto simp: list_all_length proxy_bound_def same_candidate_def split: option.splits)
  ultimately show ?thesis using p q(2) s tenants by auto
qed

section \<open>The coordinated route\<close>

lemma engine_coordinate_ok:
  assumes "engine_coordinate selector request pool s = (Inr route, s')"
  obtains selection where "selector request pool = Inr selection" "rsl_selected_index selection < length (rsl_states selection)"
    "rt_selected_candidate route = cst_key (rsl_states selection ! rsl_selected_index selection)"
    "rt_selected_account route = cm_account_id (cst_source (rsl_states selection ! rsl_selected_index selection))"
    "cst_provider_model (rsl_states selection ! rsl_selected_index selection) = Some (rt_provider_model route)"
    "rt_selected_proxy_profile route = cst_proxy_profile (rsl_states selection ! rsl_selected_index selection)"
    "de_exclusions (rt_explanation route) = rsl_exclusions selection"
    "de_exclusions_truncated (rt_explanation route) = rsl_exclusions_truncated selection"
proof -
  from assms obtain selection where sel: "selector request pool = Inr selection"
    by (auto simp: engine_coordinate_def split: sum.splits)
  from assms sel obtain selected where at: "get_at (rsl_states selection) (rsl_selected_index selection) = Some selected"
    by (auto simp: engine_coordinate_def split: option.splits)
  from assms sel at obtain plan where plan: "build_retry_plan request (rsl_states selection) (rsl_selected_index selection) = Inr plan"
    by (auto simp: engine_coordinate_def split: sum.splits)
  from assms sel at plan obtain lease t where "engine_admit request selected (rsl_exclusions selection) s = (Inr lease, t)"
    by (auto simp: engine_coordinate_def split: sum.splits prod.splits)
  with assms sel at plan have "cst_provider_model selected = Some (rt_provider_model route)
      \<and> rt_selected_candidate route = cst_key selected \<and> rt_selected_account route = cm_account_id (cst_source selected)
      \<and> rt_selected_proxy_profile route = cst_proxy_profile selected
      \<and> de_exclusions (rt_explanation route) = rsl_exclusions selection
      \<and> de_exclusions_truncated (rt_explanation route) = rsl_exclusions_truncated selection"
    by (cases "cst_provider_model selected") (auto simp: engine_coordinate_def)
  moreover have "rsl_selected_index selection < length (rsl_states selection)
      \<and> selected = rsl_states selection ! rsl_selected_index selection"
    using at by (auto simp: get_at_def split: if_splits)
  ultimately show thesis using that [OF sel] by simp
qed

text \<open>The keys of a successful filter are the candidates of the pool, and all but the selected one are explained.\<close>

lemma others_explained:
  assumes "distinct (map cst_key ss)" and "sound_choice ss i others"
  shows "re_candidate ` set (state_exclusions ss @ others) = cst_key ` set ss - {cst_key (ss ! i)}"
proof -
  have i: "i < length ss" "state_eligible (ss ! i)" using assms(2) by (simp_all add: sound_choice_def)
  have o: "re_candidate ` set others = {k \<in> cst_key ` set (filter state_eligible ss). k \<noteq> cst_key (ss ! i)}"
    using assms(2) by (simp add: sound_choice_def)
  have x: "re_candidate ` set (state_exclusions ss) = cst_key ` {s \<in> set ss. \<not> state_eligible s}"
    using arg_cong [OF state_exclusions_keys [of ss], of set] by simp
  have "cst_key s \<noteq> cst_key (ss ! i)" if "s \<in> set ss" "\<not> state_eligible s" for s
  proof
    assume "cst_key s = cst_key (ss ! i)"
    with that(1) i(1) assms(1) have "s = ss ! i" by (metis distinct_keys_index in_set_conv_nth)
    with that(2) i(2) show False by simp
  qed
  then have n: "cst_key (ss ! i) \<notin> cst_key ` {s \<in> set ss. \<not> state_eligible s}" by force
  have "cst_key ` set ss = cst_key ` set (filter state_eligible ss) \<union> cst_key ` {s \<in> set ss. \<not> state_eligible s}"
    unfolding image_Un [symmetric] by (rule arg_cong) auto
  then show ?thesis unfolding set_append image_Un o x using n by blast
qed

lemma prepare_selection_keys:
  assumes "prepare_selection installed request snapshots = Inr selection"
    and "distinct (map cm_id (csn_candidates (csp_pool snapshots)))"
  shows "map cst_key (rsl_states selection) = map cm_id (csn_candidates (csp_pool snapshots))"
proof (rule prepare_selection_ok [OF assms])
  fix pricing ss qs
  let ?cs = "csn_candidates (csp_pool snapshots)" and ?k = "prq_constraints (cq_pricing request)"
  assume "list_all2 (\<lambda>c s. same_candidate (initial_state request (csp_models snapshots) c) s
       \<and> cst_exclusion s = filter_verdict request snapshots c) ?cs ss"
    and "list_all2 (judged (quote_verdict request pricing)) ss qs"
    and fin: "rsl_states selection = map (\<lambda>s. if state_eligible s then s\<lparr>cst_exclusion := cost_verdict ?k qs s\<rparr> else s) qs"
  then have "map cst_key qs = map cm_id ?cs"
    by (auto simp: list_all2_conv_all_nth same_candidate_def initial_state_def judged_def intro!: nth_equalityI)
  then show ?thesis unfolding fin by (simp add: o_def if_distrib [of cst_key] cong: if_cong)
qed

lemma prepare_selection_explains:
  assumes "prepare_selection installed request snapshots = Inr selection"
    and "distinct (map cm_id (csn_candidates (csp_pool snapshots)))"
  obtains xs where
    "rsl_exclusions selection = take MAX_RETAINED_EXCLUSIONS (sort_key re_candidate xs)"
    "rsl_exclusions_truncated selection \<longleftrightarrow> MAX_RETAINED_EXCLUSIONS < length xs"
    "distinct (map re_candidate xs)"
    "re_candidate ` set xs = cm_id ` set (csn_candidates (csp_pool snapshots))
       - {cst_key (rsl_states selection ! rsl_selected_index selection)}"
proof (rule prepare_selection_ok [OF assms])
  fix others
  let ?ss = "rsl_states selection" and ?i = "rsl_selected_index selection"
  let ?xs = "state_exclusions ?ss @ others"
  assume d: "distinct (map cst_key ?ss)" and c: "sound_choice ?ss ?i others"
    and e: "(rsl_exclusions selection, rsl_exclusions_truncated selection) = collect_exclusions ?ss others"
  have x: "distinct (map re_candidate ?xs)" using choice_exclusions_distinct [OF d c] .
  have "cst_key ` set ?ss = cm_id ` set (csn_candidates (csp_pool snapshots))"
    using arg_cong [OF prepare_selection_keys [OF assms], of set] by simp
  then show ?thesis
    using that [of ?xs] e x others_explained [OF d c] by (simp add: collect_exclusions_def bound_exclusions_distinct [OF x] del: map_append)
qed

lemma selected_state_eligible:
  assumes "prepare_selection installed request snapshots = Inr selection"
    and "distinct (map cm_id (csn_candidates (csp_pool snapshots)))"
  shows "state_eligible (rsl_states selection ! rsl_selected_index selection)"
  by (rule prepare_selection_ok [OF assms]) (simp only: sound_choice_def)

text \<open>
  A refusal without any eligible candidate carries exclusions that are already cut to the retained
  number, so that its own flag never reports the cut.
\<close>

lemma dedup_adjacent_sorted:
  "sorted (map re_candidate xs) \<Longrightarrow>
     sorted (map re_candidate (dedup_adjacent xs)) \<and> distinct (map re_candidate (dedup_adjacent xs))
     \<and> set (map re_candidate (dedup_adjacent xs)) = set (map re_candidate xs)"
  by (induction xs rule: dedup_adjacent.induct) (auto simp: less_le)

lemma bound_exclusions_idem: "bound_exclusions (fst (bound_exclusions xs)) = (fst (bound_exclusions xs), False)"
proof -
  let ?ys = "take MAX_RETAINED_EXCLUSIONS (dedup_adjacent (sort_key re_candidate xs))"
  have "sorted (map re_candidate (dedup_adjacent (sort_key re_candidate xs)))"
    "distinct (map re_candidate (dedup_adjacent (sort_key re_candidate xs)))"
    using dedup_adjacent_sorted [of "sort_key re_candidate xs"] by simp_all
  then have "sorted (map re_candidate ?ys)" "distinct (map re_candidate ?ys)"
    by (simp_all add: take_map [symmetric] sorted_wrt_take del: distinct_map)
  then show ?thesis
    using bound_exclusions_distinct [of ?ys] by (simp add: bound_exclusions_def [of xs] Let_def sort_key_id_if_sorted)
qed

lemma refusal_flag_never_set:
  assumes "policy_candidates ss = Inr []"
  shows "\<exists>xs. select_weighted ss = Inl (CoordNoEligibleCandidate, xs)
     \<and> \<not> coe_exclusions_truncated (CoordinatorError_with_exclusions CoordNoEligibleCandidate xs)"
  using assms bound_exclusions_idem [of "state_exclusions ss"]
  by (simp add: select_weighted_def collect_exclusions_def CoordinatorError_with_exclusions_def)

end
