(* ===== verification/Coordination_Properties.thy ===== *)
theory Coordination_Properties
  imports Selection_Properties Runtime_Demo
begin

text \<open>
  The guarantees of a coordination over the snapshots of every domain: the routed candidate passed
  every check, the reason of an excluded candidate is its first failing check, and every candidate
  that was not selected is explained. The last section evaluates a coordination of two candidates.
\<close>

section \<open>The guarantees\<close>

text \<open>
  C4: whatever the snapshots of the domains say and whichever evaluator is installed, a successful
  coordination over a pool built by \<open>CandidateSnapshot::new\<close> routes to a candidate of that pool that
  belongs to the tenant of the request, is available, offers the requested model as the provider
  model of the route, passes the window, health, circuit, quota, schedule and proxy checks, is
  quoted by the pricing catalog at no more than the hard limit, and goes out through the proxy
  profile bound to its account.
\<close>

theorem routed_candidate_passes_every_check:
  assumes "CandidateSnapshot_new i v cs = Inr pool"
    and "engine_coordinate (snapshot_selector installed snapshots) request pool s = (Inr route, s')"
  shows "\<exists>c \<in> set cs. \<exists>pricing q.
     rt_selected_candidate route = cm_id c \<and> rt_selected_account route = cm_account_id c
     \<and> cm_tenant_id c = Some (rcx_tenant_id (cq_context request)) \<and> cm_availability c = PoolAvailable
     \<and> resolve_provider_model request c (csp_models snapshots) = Some (rt_provider_model route)
     \<and> eligibility_verdict request snapshots (initial_state request (csp_models snapshots) c) = None
     \<and> os_value (csp_pricing snapshots) = Some pricing
     \<and> quote_at pricing (rt_provider_model route) (prq_dimension (cq_pricing request)) (cq_pricing_timestamp request)
         (prq_quantity (cq_pricing request)) = Inr q
     \<and> \<not> exceeds (pq_total q) (cc_hard_limit (prq_constraints (cq_pricing request)))
     \<and> (\<forall>profiles p. os_value (els_proxy (csp_eligibility snapshots)) = Some profiles
          \<longrightarrow> find (\<lambda>p. prp_account_id p = cm_account_id c) profiles = Some p
          \<longrightarrow> rt_selected_proxy_profile route = Some (prp_profile p))"
proof -
  let ?sn = "snapshots\<lparr>csp_pool := pool\<rparr>"
  have pool: "csn_candidates (csp_pool ?sn) = sort_key cm_id cs" and d: "distinct (map cm_id (csn_candidates (csp_pool ?sn)))"
    using assms(1) by (auto simp: CandidateSnapshot_new_ok distinct_map)
  show ?thesis
  proof (rule engine_coordinate_ok [OF assms(2)])
    fix selection :: RouteSelection
    let ?t = "rsl_states selection ! rsl_selected_index selection"
    assume sel: "snapshot_selector installed snapshots request pool = Inr selection"
      and n: "rsl_selected_index selection < length (rsl_states selection)"
      and r: "rt_selected_candidate route = cst_key ?t" "rt_selected_account route = cm_account_id (cst_source ?t)"
        "cst_provider_model ?t = Some (rt_provider_model route)" "rt_selected_proxy_profile route = cst_proxy_profile ?t"
    note sel' = sel [unfolded snapshot_selector_def]
    have e: "state_eligible ?t" by (rule selected_state_eligible [OF sel' d])
    note passes = eligible_state_passes [OF sel' d n e]
    have c: "cst_source ?t \<in> set cs" using passes pool by simp
    have v: "filter_verdict request ?sn (cst_source ?t) = None" using passes by simp
    have "eligibility_verdict request ?sn x = eligibility_verdict request snapshots x" for x
      by (simp add: eligibility_verdict_def)
    then have v': "cm_availability (cst_source ?t) = PoolAvailable"
      "eligibility_verdict request snapshots (initial_state request (csp_models snapshots) (cst_source ?t)) = None"
      using v by (auto simp: filter_verdict_def initial_state_def initial_exclusion_def Let_def split: if_splits)
    obtain pricing q where q: "os_value (csp_pricing snapshots) = Some pricing" "quote_of request pricing ?t = Inr q"
      "\<not> exceeds (pq_total q) (cc_hard_limit (prq_constraints (cq_pricing request)))"
      using passes by auto
    have px: "proxy_bound (els_proxy (csp_eligibility snapshots)) ?t" "cst_key ?t = cm_id (cst_source ?t)"
      "cm_tenant_id (cst_source ?t) = Some (rcx_tenant_id (cq_context request))"
      "cst_provider_model ?t = resolve_provider_model request (cst_source ?t) (csp_models snapshots)"
      using passes by simp_all
    show ?thesis
      using r v' q e px
      by (intro bexI [OF _ c] exI [of _ pricing] exI [of _ q]) (auto simp: quote_of_def proxy_bound_def)
  qed
qed

text \<open>
  C5: the filter is its reference, one candidate at a time: the states it hands to the pricing are
  the candidates of the pool in their order, and the exclusion of each is the first of the checks
  (availability, model mapping, window, health, circuit, quota, schedule, proxy) that fails for it.
\<close>

theorem filter_reports_first_failing_check:
  assumes "prepare_state request snapshots = Inr (ss, ds)"
  shows "map (\<lambda>s. (cst_source s, cst_exclusion s)) ss =
     map (\<lambda>c. (c, filter_verdict request snapshots c)) (csn_candidates (csp_pool snapshots))"
  using prepare_state_ok [OF assms]
  by (auto simp: list_all2_conv_all_nth same_candidate_def initial_state_def intro!: nth_equalityI)

text \<open>
  C17: the explanation of a coordinated route names every candidate that was not selected, once, in
  the order of the identities. Of more than the retained number it names the first ones and says so.
\<close>

theorem every_other_candidate_is_explained:
  assumes "CandidateSnapshot_new i v cs = Inr pool"
    and "engine_coordinate (snapshot_selector installed snapshots) request pool s = (Inr route, s')"
  shows "map re_candidate (de_exclusions (rt_explanation route)) =
       take MAX_RETAINED_EXCLUSIONS (filter (\<lambda>k. k \<noteq> rt_selected_candidate route) (sort (map cm_id cs)))
     \<and> (de_exclusions_truncated (rt_explanation route) \<longleftrightarrow> MAX_RETAINED_EXCLUSIONS < length cs - 1)"
proof -
  let ?sn = "snapshots\<lparr>csp_pool := pool\<rparr>"
  have dc: "distinct (map cm_id cs)" and pool: "csn_candidates (csp_pool ?sn) = sort_key cm_id cs"
    using assms(1) by (auto simp: CandidateSnapshot_new_ok)
  then have d: "distinct (map cm_id (csn_candidates (csp_pool ?sn)))" by (simp add: distinct_map)
  show ?thesis
  proof (rule engine_coordinate_ok [OF assms(2)])
    fix selection :: RouteSelection
    let ?t = "rsl_states selection ! rsl_selected_index selection"
    assume sel: "snapshot_selector installed snapshots request pool = Inr selection"
      and n: "rsl_selected_index selection < length (rsl_states selection)"
      and r: "rt_selected_candidate route = cst_key ?t"
      and x: "de_exclusions (rt_explanation route) = rsl_exclusions selection"
        "de_exclusions_truncated (rt_explanation route) = rsl_exclusions_truncated selection"
    note sel' = sel [unfolded snapshot_selector_def]
    obtain xs where xs: "rsl_exclusions selection = take MAX_RETAINED_EXCLUSIONS (sort_key re_candidate xs)"
      "rsl_exclusions_truncated selection \<longleftrightarrow> MAX_RETAINED_EXCLUSIONS < length xs" "distinct (map re_candidate xs)"
      "re_candidate ` set xs = cm_id ` set cs - {cst_key ?t}"
      using prepare_selection_explains [OF sel' d] pool by auto
    let ?ks = "filter (\<lambda>k. k \<noteq> cst_key ?t) (sort (map cm_id cs))"
    have ks: "sorted ?ks" "distinct ?ks" "set ?ks = cm_id ` set cs - {cst_key ?t}"
      using dc by (auto simp: sorted_wrt_filter)
    have "map re_candidate (sort_key re_candidate xs) = ?ks"
    proof (rule sorted_distinct_set_unique)
      show "distinct (map re_candidate (sort_key re_candidate xs))" using xs(3) by (simp add: distinct_map)
      show "set (map re_candidate (sort_key re_candidate xs)) = set ?ks" using xs(4) ks(3) by simp
    qed (use ks in simp_all)
    moreover have "length xs = length cs - 1"
    proof -
      have "cst_key ?t \<in> set (map cst_key (rsl_states selection))" using n by simp
      then have t: "cst_key ?t \<in> cm_id ` set cs"
        unfolding prepare_selection_keys [OF sel' d] pool by simp
      have "length xs = card (re_candidate ` set xs)"
        using distinct_card [OF xs(3)] by simp
      also have "\<dots> = card (cm_id ` set cs) - 1" unfolding xs(4) using t by simp
      also have "card (cm_id ` set cs) = length cs" using distinct_card [OF dc] by simp
      finally show ?thesis .
    qed
    ultimately show ?thesis using xs(1,2) x r by (simp add: take_map [symmetric])
  qed
qed

section \<open>A concrete selection\<close>

definition demo_models :: ModelCatalogSnapshot where
  "demo_models =
     \<lparr>mcs_version = 1, mcs_entries =
        [\<lparr>cae_descriptor = \<lparr>mdl_id = ''m'', mdl_version = 1, mdl_capabilities = 0,
            mdl_limits = \<lparr>ml_context_tokens = None, ml_output_tokens = None, ml_input_bytes = None, ml_output_bytes = None\<rparr>,
            mdl_aliases = [], mdl_mappings = [\<lparr>pmm_provider = ''p'', pmm_model = ''pm'', pmm_aliases = []\<rparr>]\<rparr>,
          cae_visibility = RestrictedModel [''t'']\<rparr>]\<rparr>"

definition demo_pricing :: PricingCatalog where
  "demo_pricing =
     \<lparr>pca_schedules =
        [\<lparr>mps_model_id = ''pm'', mps_currency = ''EUR'', mps_version = 1, mps_window = \<lparr>ew_start = 0, ew_end = None\<rparr>,
          mps_entries = [\<lparr>pe_dimension = InputTokens, pe_price = 3\<rparr>]\<rparr>]\<rparr>"

definition demo_health :: "string \<Rightarrow> HealthState \<Rightarrow> HealthSnapshot" where
  "demo_health name state = (HealthSnapshot_initial name)\<lparr>hs_state := state\<rparr>"

definition demo_snapshots :: CoordinationSnapshots where
  "demo_snapshots =
     \<lparr>csp_pool = demo_pool, csp_models = demo_models, csp_pricing = OptionalSnapshot_available demo_pricing FailClosed,
      csp_eligibility =
        \<lparr>els_health = OptionalSnapshot_available [demo_health ''a'' Healthy, demo_health ''b'' UnhealthyState] FailClosed,
         els_circuit = OptionalSnapshot_missing AllowWithDegradation, els_quota = OptionalSnapshot_missing AllowWithDegradation,
         els_schedule = OptionalSnapshot_missing AllowWithDegradation, els_proxy = OptionalSnapshot_missing AllowWithDegradation\<rparr>,
      csp_affinity = OptionalSnapshot_missing AllowWithDegradation\<rparr>"

definition demo_excluded :: CandidateState where
  "demo_excluded = (demo_state (demo_candidate ''b''))\<lparr>cst_quote := None, cst_exclusion := Some Unhealthy\<rparr>"

lemma demo_model_name: "model_name_parse ''p'' = Inr ''p''"
  by (simp add: model_name_parse_def valid_identity_def is_ascii_def MAX_MODEL_NAME_BYTES_def is_alphanumeric_def is_lower_def)

lemma demo_model_resolved:
  "resolve_provider_model (demo_request r now) (demo_candidate name) demo_models = Some ''pm''"
  by (simp add: resolve_provider_model_def demo_candidate_def demo_model_name demo_request_def demo_models_def
      resolve_provider_target_def resolve_internal_def provider_target_def descriptor_matches_def binary_search_def
      binary_search_base.simps)

lemma demo_model_valid: "\<exists>e. validate_model (demo_request r now) demo_models = Inr e"
  by (simp add: validate_model_def demo_request_def demo_models_def resolve_internal_def descriptor_matches_def
      binary_search_def binary_search_base.simps)

lemma demo_candidates_prepared:
  "prepare_candidates (demo_request r now) (csn_candidates demo_pool) demo_models =
     Inr [(demo_state (demo_candidate ''a''))\<lparr>cst_quote := None\<rparr>, (demo_state (demo_candidate ''b''))\<lparr>cst_quote := None\<rparr>]"
  by (simp add: prepare_candidates_def demo_pool_def MAX_COORDINATED_CANDIDATES_def prepare_candidate_def ensure_tenant_def
      demo_model_resolved CandidateKey_parse_def is_ascii_def is_graphic_byte_def MAX_CANDIDATE_KEY_BYTES_def initial_exclusion_def Let_def)
    (simp add: demo_candidate_def demo_request_def demo_state_def is_graphic_byte_def)

lemma demo_filtered:
  "prepare_state (demo_request r now) demo_snapshots =
     Inr ([(demo_state (demo_candidate ''a''))\<lparr>cst_quote := None\<rparr>, demo_excluded],
          [SignalCircuit, SignalQuota, SignalSchedule, SignalProxy])"
proof -
  let ?a = "(demo_state (demo_candidate ''a''))\<lparr>cst_quote := None\<rparr>" and ?b = "(demo_state (demo_candidate ''b''))\<lparr>cst_quote := None\<rparr>"
  have w: "apply_effective_windows 50 [?a, ?b] [] = Inr ([?a, ?b], [])"
    by (simp add: apply_effective_windows_def visit_window_def demo_states is_effective_at_def state_eligible_def)
      (simp add: demo_candidate_def demo_state_def)
  have h: "apply_health (els_health (csp_eligibility demo_snapshots)) [?a, ?b] [] = Inr ([?a, demo_excluded], [])"
    by (simp add: apply_health_def demo_snapshots_def OptionalSnapshot_available_def visit_health_def demo_states
        demo_health_def HealthSnapshot_initial_def state_eligible_def exclude_def demo_excluded_def)
      (simp add: demo_candidate_def demo_state_def)
  show ?thesis
    using demo_candidates_prepared w h
    by (simp add: prepare_state_def demo_snapshots_def apply_eligibility_def Let_def)
      (simp add: demo_request_def apply_circuit_def apply_quota_def apply_schedule_def apply_proxy_def OptionalSnapshot_missing_def
        apply_missing_snapshot_def insert_signal_def)
qed

lemma demo_quote: "quote_at demo_pricing ''pm'' InputTokens 50 1 =
    Inr \<lparr>pq_currency = ''EUR'', pq_version = 1, pq_dimension = InputTokens, pq_price = 3, pq_quantity = 1, pq_total = 3\<rparr>"
  by (simp add: quote_at_def demo_pricing_def schedule_applies_def window_contains_def price_for_def binary_search_def
      binary_search_base.simps price_checked_mul_def try_word_def MAX_MINOR_UNITS_def)

lemma demo_priced:
  "apply_pricing (demo_request r now) (csp_pricing demo_snapshots)
     [(demo_state (demo_candidate ''a''))\<lparr>cst_quote := None\<rparr>, demo_excluded] ds =
     Inr ([demo_state (demo_candidate ''a''), demo_excluded], ds)"
proof -
  let ?s = "[demo_state (demo_candidate ''a''), demo_excluded]"
  have "quote_candidates (demo_request r now) demo_pricing
      [(demo_state (demo_candidate ''a''))\<lparr>cst_quote := None\<rparr>, demo_excluded] ds = Inr (?s, ds)"
    by (simp add: quote_candidates_def state_eligible_def demo_excluded_def demo_states visit_quote_def demo_quote demo_request_def)
      (simp add: demo_state_def demo_candidate_def)
  moreover have "cost_inputs ?s = Inr [\<lparr>cci_candidate = ''a'', cci_estimate = Some 3\<rparr>]"
    by (simp add: cost_inputs_def cost_input_def state_eligible_def demo_excluded_def demo_state_def demo_candidate_def
        CostCandidateId_parse_def is_ascii_def is_graphic_byte_def MAX_COST_CANDIDATE_ID_BYTES_def CostUnits_new_def
        MAX_COST_UNITS_def CandidateCostInput_estimated_def)
  moreover have "evaluate_cost [\<lparr>cci_candidate = ''a'', cci_estimate = Some 3\<rparr>] (demo_request r now) =
      Inr (cost_partition \<lparr>cc_soft_limit = None, cc_hard_limit = None\<rparr> [\<lparr>cci_candidate = ''a'', cci_estimate = Some 3\<rparr>])"
    by (simp add: evaluate_cost_def cost_evaluate_eq demo_request_def MAX_COST_CANDIDATES_def)
  ultimately show ?thesis
    by (simp add: apply_pricing_def demo_snapshots_def OptionalSnapshot_available_def apply_cost_exclusions_def cost_partition_def
        cost_tier_def List.map_filter_def)
qed

lemma demo_chosen:
  "select_candidate None (demo_request r now) snap [demo_state (demo_candidate ''a''), demo_excluded] ds =
     Inr ((0, WeightedLeastLoad, []), ds)"
proof -
  let ?c = "\<lparr>ca_id = ''a'', ca_priority = 1, ca_weight = 1, ca_load = 0, ca_availability = CandidateAvailable\<rparr>"
  have "policy_candidates [demo_state (demo_candidate ''a''), demo_excluded] = Inr [?c]"
    by (simp add: policy_candidates_def policy_candidate_def state_eligible_def demo_excluded_def demo_state_def demo_candidate_def
        CandidateId_new_def MAX_CANDIDATE_ID_BYTES_def Weight_new_def MAX_WEIGHT_def Load_new_def MAX_LOAD_def)
  moreover have "choose_weighted [?c] = Inr (''a'', [])"
    by (simp add: choose_weighted_def PreparedCandidateSet_new_def validate_candidates_def MAX_CANDIDATES_def select_prepared_def
        select_candidates_def find_winning_priority_def find_winner_def is_eligible_def
        CandidateKey_parse_def is_ascii_def is_graphic_byte_def MAX_CANDIDATE_KEY_BYTES_def selection_explain_def
        explain_exclusions_def exclusion_for_def List.map_filter_def)
  ultimately show ?thesis
    by (simp add: select_candidate_def select_affinity_candidate_def demo_request_def select_without_affinity_def
        select_wasm_policy_def select_weighted_def demo_states)
qed

definition demo_selection :: RouteSelection where
  "demo_selection =
     \<lparr>rsl_states = [demo_state (demo_candidate ''a''), demo_excluded],
      rsl_degradations = [SignalCircuit, SignalQuota, SignalSchedule, SignalProxy], rsl_selected_index = 0,
      rsl_basis = WeightedLeastLoad, rsl_exclusions = [\<lparr>re_candidate = ''b'', re_reason = Unhealthy\<rparr>],
      rsl_exclusions_truncated = False\<rparr>"

lemma demo_selected: "snapshot_selector None demo_snapshots (demo_request r now) demo_pool = Inr demo_selection"
proof -
  obtain e where "validate_model (demo_request r now) (csp_models demo_snapshots) = Inr e"
    using demo_model_valid by (auto simp: demo_snapshots_def)
  moreover have "collect_exclusions [demo_state (demo_candidate ''a''), demo_excluded] [] =
      ([\<lparr>re_candidate = ''b'', re_reason = Unhealthy\<rparr>], False)"
    by (simp add: collect_exclusions_def state_exclusions_def List.map_filter_def bound_exclusions_def demo_excluded_def
        demo_state_def demo_candidate_def MAX_RETAINED_EXCLUSIONS_def)
  moreover have "demo_snapshots\<lparr>csp_pool := demo_pool\<rparr> = demo_snapshots" by (simp add: demo_snapshots_def)
  ultimately show ?thesis
    by (simp add: snapshot_selector_def prepare_selection_def demo_filtered demo_priced demo_chosen demo_selection_def)
qed

lemma demo_pool_new: "CandidateSnapshot_new 1 1 [demo_candidate ''b'', demo_candidate ''a''] = Inr demo_pool"
  by (simp add: CandidateSnapshot_new_def MAX_SNAPSHOT_CANDIDATES_def demo_states demo_pool_def)

lemma demo_coordinated:
  "\<exists>route s'. engine_coordinate (snapshot_selector None demo_snapshots) (demo_request ''r1'' 10) demo_pool demo_stores =
     (Inr route, s') \<and> rt_selected_candidate route = ''a''"
  by (simp add: engine_coordinate_def demo_selected demo_selection_def get_at_def build_retry_plan_def push_candidate_def
      FailoverPlan_new_def validate_plan_bounds_def ensure_unique_candidates_def MAX_PLAN_CANDIDATES_def MAX_ATTEMPTS_def
      demo_states demo_requests demo_engine_admit word_le_nat_alt demo_excluded_def state_eligible_def)

section \<open>Instances\<close>

theorem routed_candidate_passes_every_check_witness:
  "\<exists>route s' c. engine_coordinate (snapshot_selector None demo_snapshots) (demo_request ''r1'' 10) demo_pool demo_stores =
       (Inr route, s')
     \<and> c \<in> set [demo_candidate ''b'', demo_candidate ''a''] \<and> rt_selected_candidate route = ''a'' \<and> cm_id c = ''a''
     \<and> eligibility_verdict (demo_request ''r1'' 10) demo_snapshots (initial_state (demo_request ''r1'' 10) demo_models c) = None"
proof -
  obtain route s' where r: "engine_coordinate (snapshot_selector None demo_snapshots) (demo_request ''r1'' 10) demo_pool demo_stores =
     (Inr route, s')" "rt_selected_candidate route = ''a''"
    using demo_coordinated by blast
  have "csp_models demo_snapshots = demo_models" by (simp add: demo_snapshots_def)
  then show ?thesis
    using routed_candidate_passes_every_check [OF demo_pool_new r(1)] r by metis
qed

theorem filter_reports_first_failing_check_witness:
  "\<exists>ss ds. prepare_state (demo_request ''r1'' 10) demo_snapshots = Inr (ss, ds)
     \<and> filter_verdict (demo_request ''r1'' 10) demo_snapshots (demo_candidate ''a'') = None
     \<and> filter_verdict (demo_request ''r1'' 10) demo_snapshots (demo_candidate ''b'') = Some Unhealthy"
proof -
  have "csn_candidates (csp_pool demo_snapshots) = [demo_candidate ''a'', demo_candidate ''b'']"
    by (simp add: demo_snapshots_def demo_pool_def)
  then show ?thesis
    using filter_reports_first_failing_check [OF demo_filtered [of "''r1''" 10]] demo_filtered [of "''r1''" 10]
    by (simp add: demo_excluded_def demo_state_def)
qed

theorem every_other_candidate_is_explained_witness:
  "\<exists>route s'. engine_coordinate (snapshot_selector None demo_snapshots) (demo_request ''r1'' 10) demo_pool demo_stores =
       (Inr route, s')
     \<and> map re_candidate (de_exclusions (rt_explanation route)) = [''b''] \<and> \<not> de_exclusions_truncated (rt_explanation route)"
proof -
  obtain route s' where r: "engine_coordinate (snapshot_selector None demo_snapshots) (demo_request ''r1'' 10) demo_pool demo_stores =
     (Inr route, s')" "rt_selected_candidate route = ''a''"
    using demo_coordinated by blast
  show ?thesis
    using every_other_candidate_is_explained [OF demo_pool_new r(1)] r
    by (simp add: demo_states MAX_RETAINED_EXCLUSIONS_def)
qed

end
