(* ===== verification/User_Domain.thy ===== *)
theory User_Domain
  imports Core_Ids Aggregates
begin

text \<open>
  The user aggregate of \<open>ariadnion-user-domain\<close>: bounded identities, versions, the cooling-off
  period of a deletion, the version-checked lifecycle transitions with their events, and the
  restoration of a user from a persisted snapshot. The lemmas show which transitions the machine has
  and that restoration accepts exactly the users the transitions reach.
\<close>

section \<open>Errors, identities and versions\<close>

definition MAX_USER_ID_BYTES :: nat where "MAX_USER_ID_BYTES = 128"

datatype UserDomainErrorCode =
  UserInvalidArgument | UserVersionConflict | UserVersionExhausted | UserInvalidTransition
| RecoveryUnauthorized | DeletionNotReady | UserDeletedTerminal

fun UserDomainErrorCode_as_str :: "UserDomainErrorCode \<Rightarrow> string" where
  "UserDomainErrorCode_as_str UserInvalidArgument = ''USER_INVALID_ARGUMENT''"
| "UserDomainErrorCode_as_str UserVersionConflict = ''USER_VERSION_CONFLICT''"
| "UserDomainErrorCode_as_str UserVersionExhausted = ''USER_VERSION_EXHAUSTED''"
| "UserDomainErrorCode_as_str UserInvalidTransition = ''USER_INVALID_TRANSITION''"
| "UserDomainErrorCode_as_str RecoveryUnauthorized = ''USER_RECOVERY_UNAUTHORIZED''"
| "UserDomainErrorCode_as_str DeletionNotReady = ''USER_DELETION_NOT_READY''"
| "UserDomainErrorCode_as_str UserDeletedTerminal = ''USER_DELETED_TERMINAL''"

record UserDomainError =
  ude_code :: UserDomainErrorCode

definition user_error :: "UserDomainErrorCode \<Rightarrow> UserDomainError" where
  "user_error code = \<lparr>ude_code = code\<rparr>"

type_synonym UserId = string

definition is_user_id_byte :: "char \<Rightarrow> bool" where
  "is_user_id_byte c \<longleftrightarrow> is_alphanumeric c \<or> c \<in> {CHR ''.'', CHR ''-'', CHR ''_'', CHR '':''}"

definition valid_user_id :: "string \<Rightarrow> bool" where
  "valid_user_id value \<longleftrightarrow>
     value \<noteq> [] \<and> length value \<le> MAX_USER_ID_BYTES \<and> is_ascii value \<and> list_all is_user_id_byte value"

definition UserId_parse :: "string \<Rightarrow> (UserDomainError, UserId) result" where
  "UserId_parse value =
     (if \<not> valid_user_id value then Inl (user_error UserInvalidArgument) else Inr value)"

type_synonym UserVersion = u64

definition UserVersion_initial :: UserVersion where "UserVersion_initial = 1"

definition UserVersion_new :: "u64 \<Rightarrow> (UserDomainError, UserVersion) result" where
  "UserVersion_new value = (if value = 0 then Inl (user_error UserInvalidArgument) else Inr value)"

definition UserVersion_next :: "UserVersion \<Rightarrow> (UserDomainError, UserVersion) result" where
  "UserVersion_next v = ok_or (user_error UserVersionExhausted) (checked_add v 1)"

text \<open>
  An \<open>i64\<close> of seconds since the Unix epoch. The code compares such values, and subtracts them with
  \<open>i64::checked_sub\<close>.
\<close>

type_synonym UserUtcTimestamp = int

definition i64_checked_sub :: "int \<Rightarrow> int \<Rightarrow> int option" where
  "i64_checked_sub a b =
     (if - (2 ^ 63) \<le> a - b \<and> a - b < 2 ^ 63 then Some (a - b) else None)"

text \<open>The principals of the core's request contexts, who act on the aggregates.\<close>

type_synonym PrincipalId = string
type_synonym DeletionNotBefore = UserUtcTimestamp

definition DeletionNotBefore_new ::
  "UserUtcTimestamp \<Rightarrow> UserUtcTimestamp \<Rightarrow> (UserDomainError, DeletionNotBefore) result" where
  "DeletionNotBefore_new requested_at boundary =
     (if boundary \<le> requested_at then Inl (user_error UserInvalidArgument) else Inr boundary)"

section \<open>Users and their snapshots\<close>

datatype UserLifecycleState =
  LifecycleInvited | LifecycleActive | LifecycleSuspended | LifecycleDeletionPending | LifecycleDeleted

datatype DeletionRecoveryState = RecoverActive | RecoverSuspended

datatype UserSnapshotState =
  SnapshotInvited
| SnapshotActive
| SnapshotSuspended
| SnapshotDeletionPending (sdp_requested_at: UserUtcTimestamp) (sdp_not_before: DeletionNotBefore)
    (sdp_recovery_state: DeletionRecoveryState)
| SnapshotDeleted

record PendingDeletion =
  pd_requested_at :: UserUtcTimestamp
  pd_not_before :: DeletionNotBefore
  pd_recovery_state :: DeletionRecoveryState

datatype UserState =
  UserInvited | UserActive | UserSuspended | UserDeletionPending PendingDeletion | UserDeleted

fun UserState_lifecycle :: "UserState \<Rightarrow> UserLifecycleState" where
  "UserState_lifecycle UserInvited = LifecycleInvited"
| "UserState_lifecycle UserActive = LifecycleActive"
| "UserState_lifecycle UserSuspended = LifecycleSuspended"
| "UserState_lifecycle (UserDeletionPending _) = LifecycleDeletionPending"
| "UserState_lifecycle UserDeleted = LifecycleDeleted"

record UserAggregate =
  usr_id :: UserId
  usr_tenant_id :: TenantId
  usr_version :: UserVersion
  usr_state :: UserState

definition User_invited :: "UserId \<Rightarrow> TenantId \<Rightarrow> UserAggregate" where
  "User_invited i tenant =
     \<lparr>usr_id = i, usr_tenant_id = tenant, usr_version = UserVersion_initial, usr_state = UserInvited\<rparr>"

definition lifecycle_state :: "UserAggregate \<Rightarrow> UserLifecycleState" where
  "lifecycle_state u = UserState_lifecycle (usr_state u)"

definition snapshot_state :: "UserAggregate \<Rightarrow> UserSnapshotState" where
  "snapshot_state u =
     (case usr_state u of
        UserInvited \<Rightarrow> SnapshotInvited
      | UserActive \<Rightarrow> SnapshotActive
      | UserSuspended \<Rightarrow> SnapshotSuspended
      | UserDeletionPending pending \<Rightarrow>
          SnapshotDeletionPending (pd_requested_at pending) (pd_not_before pending) (pd_recovery_state pending)
      | UserDeleted \<Rightarrow> SnapshotDeleted)"

definition deletion_not_before :: "UserAggregate \<Rightarrow> DeletionNotBefore option" where
  "deletion_not_before u =
     (case usr_state u of UserDeletionPending pending \<Rightarrow> Some (pd_not_before pending) | _ \<Rightarrow> None)"

section \<open>Restoring a snapshot\<close>

definition validated_state :: "bool \<Rightarrow> UserState \<Rightarrow> (UserDomainError, UserState) result" where
  "validated_state valid state = (if \<not> valid then Inl (user_error UserInvalidArgument) else Inr state)"

definition valid_active_version :: "UserVersion \<Rightarrow> bool" where
  "valid_active_version v \<longleftrightarrow> 2 \<le> v \<and> v mod 2 = 0"

definition valid_suspended_version :: "UserVersion \<Rightarrow> bool" where
  "valid_suspended_version v \<longleftrightarrow> 3 \<le> v \<and> \<not> v mod 2 = 0"

definition valid_active_pending_version :: "UserVersion \<Rightarrow> bool" where
  "valid_active_pending_version v \<longleftrightarrow> 3 \<le> v \<and> \<not> v mod 2 = 0"

definition valid_suspended_pending_version :: "UserVersion \<Rightarrow> bool" where
  "valid_suspended_pending_version v \<longleftrightarrow> 4 \<le> v \<and> v mod 2 = 0"

definition pending_state_from_snapshot ::
  "UserVersion \<Rightarrow> UserUtcTimestamp \<Rightarrow> DeletionNotBefore \<Rightarrow> DeletionRecoveryState \<Rightarrow>
     (UserDomainError, UserState) result" where
  "pending_state_from_snapshot v requested_at not_before recovery_state =
     (if not_before \<le> requested_at then Inl (user_error UserInvalidArgument)
      else validated_state
             (case recovery_state of
                RecoverActive \<Rightarrow> valid_active_pending_version v
              | RecoverSuspended \<Rightarrow> valid_suspended_pending_version v)
             (UserDeletionPending
                \<lparr>pd_requested_at = requested_at, pd_not_before = not_before,
                 pd_recovery_state = recovery_state\<rparr>))"

fun user_state_from_snapshot ::
  "UserVersion \<Rightarrow> UserSnapshotState \<Rightarrow> (UserDomainError, UserState) result" where
  "user_state_from_snapshot v SnapshotInvited = validated_state (v = UserVersion_initial) UserInvited"
| "user_state_from_snapshot v SnapshotActive = validated_state (valid_active_version v) UserActive"
| "user_state_from_snapshot v SnapshotSuspended = validated_state (valid_suspended_version v) UserSuspended"
| "user_state_from_snapshot v (SnapshotDeletionPending requested_at not_before recovery_state) =
     pending_state_from_snapshot v requested_at not_before recovery_state"
| "user_state_from_snapshot v SnapshotDeleted = validated_state (4 \<le> v) UserDeleted"

definition User_from_snapshot ::
  "UserId \<Rightarrow> TenantId \<Rightarrow> UserVersion \<Rightarrow> UserSnapshotState \<Rightarrow> (UserDomainError, UserAggregate) result" where
  "User_from_snapshot i tenant v state =
     bind_result (user_state_from_snapshot v state) (\<lambda>st.
     Inr \<lparr>usr_id = i, usr_tenant_id = tenant, usr_version = v, usr_state = st\<rparr>)"

section \<open>Recovery evidence, commands and events\<close>

record DeletionRecoveryAuthorization =
  dra_user_id :: UserId
  dra_tenant_id :: TenantId
  dra_pending_version :: UserVersion
  dra_valid_from :: UserUtcTimestamp
  dra_valid_until :: UserUtcTimestamp

definition DeletionRecoveryAuthorization_new ::
  "UserId \<Rightarrow> TenantId \<Rightarrow> UserVersion \<Rightarrow> UserUtcTimestamp \<Rightarrow> UserUtcTimestamp \<Rightarrow>
     (UserDomainError, DeletionRecoveryAuthorization) result" where
  "DeletionRecoveryAuthorization_new i tenant pending_version valid_from valid_until =
     (if valid_until < valid_from then Inl (user_error UserInvalidArgument)
      else Inr \<lparr>dra_user_id = i, dra_tenant_id = tenant, dra_pending_version = pending_version,
                dra_valid_from = valid_from, dra_valid_until = valid_until\<rparr>)"

definition recovery_permits :: "DeletionRecoveryAuthorization \<Rightarrow> UserAggregate \<Rightarrow> UserUtcTimestamp \<Rightarrow> bool" where
  "recovery_permits auth u observed_at \<longleftrightarrow>
     dra_user_id auth = usr_id u \<and> dra_tenant_id auth = usr_tenant_id u
     \<and> dra_pending_version auth = usr_version u
     \<and> dra_valid_from auth \<le> observed_at \<and> observed_at \<le> dra_valid_until auth"

datatype UserTransitionAction =
  ActivateUser UserUtcTimestamp
| SuspendUser UserUtcTimestamp
| ResumeUser UserUtcTimestamp
| RequestDeletion UserUtcTimestamp DeletionNotBefore
| RecoverDeletion DeletionRecoveryAuthorization UserUtcTimestamp
| CompleteDeletion UserUtcTimestamp

record UserTransitionCommand =
  utc_expected_version :: UserVersion
  utc_action :: UserTransitionAction

datatype UserLifecycleEventKind =
  EventActivated
| EventSuspended
| EventResumed
| EventDeletionRequested UserUtcTimestamp DeletionNotBefore DeletionRecoveryState
| EventDeletionRecovered UserUtcTimestamp DeletionRecoveryState
| EventDeleted UserUtcTimestamp

record UserLifecycleEvent =
  ule_user_id :: UserId
  ule_tenant_id :: TenantId
  ule_version :: UserVersion
  ule_occurred_at :: UserUtcTimestamp
  ule_kind :: UserLifecycleEventKind

record UserTransition =
  ut_user :: UserAggregate
  ut_event :: UserLifecycleEvent

section \<open>Transitions\<close>

definition evolve_user ::
  "UserAggregate \<Rightarrow> UserState \<Rightarrow> UserUtcTimestamp \<Rightarrow> UserLifecycleEventKind \<Rightarrow>
     (UserDomainError, UserTransition) result" where
  "evolve_user current state occurred_at kind =
     bind_result (UserVersion_next (usr_version current)) (\<lambda>v.
     Inr \<lparr>ut_user = \<lparr>usr_id = usr_id current, usr_tenant_id = usr_tenant_id current,
                      usr_version = v, usr_state = state\<rparr>,
          ut_event = \<lparr>ule_user_id = usr_id current, ule_tenant_id = usr_tenant_id current,
                       ule_version = v, ule_occurred_at = occurred_at, ule_kind = kind\<rparr>\<rparr>)"

definition activate_user :: "UserAggregate \<Rightarrow> UserUtcTimestamp \<Rightarrow> (UserDomainError, UserTransition) result" where
  "activate_user current occurred_at =
     (if usr_state current \<noteq> UserInvited then Inl (user_error UserInvalidTransition)
      else evolve_user current UserActive occurred_at EventActivated)"

definition suspend_user :: "UserAggregate \<Rightarrow> UserUtcTimestamp \<Rightarrow> (UserDomainError, UserTransition) result" where
  "suspend_user current occurred_at =
     (if usr_state current \<noteq> UserActive then Inl (user_error UserInvalidTransition)
      else evolve_user current UserSuspended occurred_at EventSuspended)"

definition resume_user :: "UserAggregate \<Rightarrow> UserUtcTimestamp \<Rightarrow> (UserDomainError, UserTransition) result" where
  "resume_user current occurred_at =
     (if usr_state current \<noteq> UserSuspended then Inl (user_error UserInvalidTransition)
      else evolve_user current UserActive occurred_at EventResumed)"

definition deletion_recovery_state :: "UserAggregate \<Rightarrow> (UserDomainError, DeletionRecoveryState) result" where
  "deletion_recovery_state current =
     (case usr_state current of
        UserActive \<Rightarrow> Inr RecoverActive
      | UserSuspended \<Rightarrow> Inr RecoverSuspended
      | _ \<Rightarrow> Inl (user_error UserInvalidTransition))"

definition request_deletion ::
  "UserAggregate \<Rightarrow> UserUtcTimestamp \<Rightarrow> DeletionNotBefore \<Rightarrow> (UserDomainError, UserTransition) result" where
  "request_deletion current requested_at not_before =
     (if not_before \<le> requested_at then Inl (user_error UserInvalidArgument)
      else bind_result (deletion_recovery_state current) (\<lambda>recovery_state.
           evolve_user current
             (UserDeletionPending
                \<lparr>pd_requested_at = requested_at, pd_not_before = not_before,
                 pd_recovery_state = recovery_state\<rparr>)
             requested_at (EventDeletionRequested requested_at not_before recovery_state)))"

fun restored_user_state :: "DeletionRecoveryState \<Rightarrow> UserState" where
  "restored_user_state RecoverActive = UserActive"
| "restored_user_state RecoverSuspended = UserSuspended"

definition recover_deletion ::
  "UserAggregate \<Rightarrow> DeletionRecoveryAuthorization \<Rightarrow> UserUtcTimestamp \<Rightarrow> (UserDomainError, UserTransition) result" where
  "recover_deletion current auth observed_at =
     (case usr_state current of
        UserDeletionPending pending \<Rightarrow>
          if \<not> recovery_permits auth current observed_at then Inl (user_error RecoveryUnauthorized)
          else evolve_user current (restored_user_state (pd_recovery_state pending)) observed_at
                 (EventDeletionRecovered observed_at (pd_recovery_state pending))
      | _ \<Rightarrow> Inl (user_error UserInvalidTransition))"

definition complete_deletion :: "UserAggregate \<Rightarrow> UserUtcTimestamp \<Rightarrow> (UserDomainError, UserTransition) result" where
  "complete_deletion current observed_at =
     (case usr_state current of
        UserDeletionPending pending \<Rightarrow>
          if observed_at < pd_not_before pending then Inl (user_error DeletionNotReady)
          else evolve_user current UserDeleted observed_at (EventDeleted observed_at)
      | _ \<Rightarrow> Inl (user_error UserInvalidTransition))"

fun dispatch_user_action ::
  "UserAggregate \<Rightarrow> UserTransitionAction \<Rightarrow> (UserDomainError, UserTransition) result" where
  "dispatch_user_action current (ActivateUser occurred_at) = activate_user current occurred_at"
| "dispatch_user_action current (SuspendUser occurred_at) = suspend_user current occurred_at"
| "dispatch_user_action current (ResumeUser occurred_at) = resume_user current occurred_at"
| "dispatch_user_action current (RequestDeletion requested_at not_before) =
     request_deletion current requested_at not_before"
| "dispatch_user_action current (RecoverDeletion auth observed_at) =
     recover_deletion current auth observed_at"
| "dispatch_user_action current (CompleteDeletion observed_at) = complete_deletion current observed_at"

definition validate_dispatchable_user :: "UserAggregate \<Rightarrow> (UserDomainError, unit) result" where
  "validate_dispatchable_user current =
     (if usr_state current = UserDeleted then Inl (user_error UserDeletedTerminal) else Inr ())"

definition dispatch_user :: "UserAggregate \<Rightarrow> UserTransitionAction \<Rightarrow> (UserDomainError, UserTransition) result" where
  "dispatch_user current action =
     bind_result (validate_dispatchable_user current) (\<lambda>_. dispatch_user_action current action)"

definition verify_user_version :: "UserAggregate \<Rightarrow> UserVersion \<Rightarrow> (UserDomainError, unit) result" where
  "verify_user_version current expected =
     (if usr_version current \<noteq> expected then Inl (user_error UserVersionConflict) else Inr ())"

definition transition_user ::
  "UserAggregate \<Rightarrow> UserTransitionCommand \<Rightarrow> (UserDomainError, UserTransition) result" where
  "transition_user current command =
     bind_result (verify_user_version current (utc_expected_version command)) (\<lambda>_.
     dispatch_user current (utc_action command))"

section \<open>Reachable users\<close>

definition user_init :: "UserAggregate \<Rightarrow> bool" where
  "user_init u \<longleftrightarrow> (\<exists>i tenant. u = User_invited i tenant)"

definition user_step :: "UserAggregate \<Rightarrow> UserTransitionCommand \<Rightarrow> UserAggregate \<Rightarrow> bool" where
  "user_step u command u' \<longleftrightarrow> (\<exists>t. transition_user u command = Inr t \<and> u' = ut_user t)"

definition user_reachable :: "UserAggregate \<Rightarrow> bool" where
  "user_reachable u \<longleftrightarrow> reachable user_init user_step u"

lemma user_starts: "user_reachable (User_invited i tenant)"
  unfolding user_reachable_def by (rule reachable_init) (auto simp: user_init_def)

lemma user_moves: "user_reachable u \<Longrightarrow> transition_user u command = Inr t \<Longrightarrow> user_reachable (ut_user t)"
  unfolding user_reachable_def by (erule reachable_step) (auto simp: user_step_def)

text \<open>
  The edges of the machine: the states an action leads to, with the conditions on the times it
  carries.
\<close>

inductive user_edge :: "UserAggregate \<Rightarrow> UserTransitionAction \<Rightarrow> UserState \<Rightarrow> bool" for u where
  "usr_state u = UserInvited \<Longrightarrow> user_edge u (ActivateUser at) UserActive"
| "usr_state u = UserActive \<Longrightarrow> user_edge u (SuspendUser at) UserSuspended"
| "usr_state u = UserSuspended \<Longrightarrow> user_edge u (ResumeUser at) UserActive"
| "usr_state u = restored_user_state r \<Longrightarrow> at < not_before \<Longrightarrow>
     user_edge u (RequestDeletion at not_before)
       (UserDeletionPending \<lparr>pd_requested_at = at, pd_not_before = not_before, pd_recovery_state = r\<rparr>)"
| "usr_state u = UserDeletionPending p \<Longrightarrow> recovery_permits auth u at \<Longrightarrow>
     user_edge u (RecoverDeletion auth at) (restored_user_state (pd_recovery_state p))"
| "usr_state u = UserDeletionPending p \<Longrightarrow> pd_not_before p \<le> at \<Longrightarrow>
     user_edge u (CompleteDeletion at) UserDeleted"

lemma evolve_user_ok:
  "evolve_user u st at k = Inr t \<Longrightarrow>
     usr_state (ut_user t) = st \<and> usr_id (ut_user t) = usr_id u
     \<and> usr_tenant_id (ut_user t) = usr_tenant_id u
     \<and> unat (usr_version (ut_user t)) = unat (usr_version u) + 1"
  by (auto simp: evolve_user_def UserVersion_next_def results machine)

lemma evolve_user_succeeds:
  assumes "Suc (unat (usr_version u)) < 2 ^ 64"
  obtains t where "evolve_user u st at k = Inr t"
    and "ut_user t = u\<lparr>usr_version := usr_version u + 1, usr_state := st\<rparr>"
proof -
  have "checked_add (usr_version u) 1 = Some (usr_version u + 1)"
    using assms by (simp add: checked_add_def)
  then obtain event where
    "evolve_user u st at k =
       Inr \<lparr>ut_user = u\<lparr>usr_version := usr_version u + 1, usr_state := st\<rparr>, ut_event = event\<rparr>"
    by (cases u) (simp add: evolve_user_def UserVersion_next_def)
  then show ?thesis by (rule that) simp
qed

lemma transition_user_ok:
  assumes "transition_user u command = Inr t"
  shows "utc_expected_version command = usr_version u
    \<and> user_edge u (utc_action command) (usr_state (ut_user t))
    \<and> usr_id (ut_user t) = usr_id u \<and> usr_tenant_id (ut_user t) = usr_tenant_id u
    \<and> unat (usr_version (ut_user t)) = unat (usr_version u) + 1"
proof -
  have v: "utc_expected_version command = usr_version u"
    and d: "dispatch_user_action u (utc_action command) = Inr t"
    using assms
    by (auto simp: transition_user_def dispatch_user_def verify_user_version_def results split: if_splits)
  show ?thesis
  proof (cases "utc_action command")
    case (ActivateUser at)
    with d have "usr_state u = UserInvited" "evolve_user u UserActive at EventActivated = Inr t"
      by (auto simp: activate_user_def split: if_splits)
    with v ActivateUser show ?thesis by (auto dest!: evolve_user_ok intro: user_edge.intros)
  next
    case (SuspendUser at)
    with d have "usr_state u = UserActive" "evolve_user u UserSuspended at EventSuspended = Inr t"
      by (auto simp: suspend_user_def split: if_splits)
    with v SuspendUser show ?thesis by (auto dest!: evolve_user_ok intro: user_edge.intros)
  next
    case (ResumeUser at)
    with d have "usr_state u = UserSuspended" "evolve_user u UserActive at EventResumed = Inr t"
      by (auto simp: resume_user_def split: if_splits)
    with v ResumeUser show ?thesis by (auto dest!: evolve_user_ok intro: user_edge.intros)
  next
    case (RequestDeletion at nb)
    with d obtain r where "at < nb" "deletion_recovery_state u = Inr r"
      and e: "evolve_user u (UserDeletionPending
                \<lparr>pd_requested_at = at, pd_not_before = nb, pd_recovery_state = r\<rparr>)
                at (EventDeletionRequested at nb r) = Inr t"
      by (auto simp: request_deletion_def results split: if_splits)
    then have "usr_state u = restored_user_state r"
      by (auto simp: deletion_recovery_state_def split: UserState.splits)
    with v e \<open>at < nb\<close> RequestDeletion show ?thesis
      by (auto dest!: evolve_user_ok intro: user_edge.intros)
  next
    case (RecoverDeletion auth at)
    with d obtain p where "usr_state u = UserDeletionPending p" "recovery_permits auth u at"
      and "evolve_user u (restored_user_state (pd_recovery_state p)) at
             (EventDeletionRecovered at (pd_recovery_state p)) = Inr t"
      by (auto simp: recover_deletion_def split: UserState.splits if_splits)
    with v RecoverDeletion show ?thesis by (auto dest!: evolve_user_ok intro: user_edge.intros)
  next
    case (CompleteDeletion at)
    with d obtain p where "usr_state u = UserDeletionPending p" "pd_not_before p \<le> at"
      and "evolve_user u UserDeleted at (EventDeleted at) = Inr t"
      by (auto simp: complete_deletion_def split: UserState.splits if_splits)
    with v CompleteDeletion show ?thesis by (auto dest!: evolve_user_ok intro: user_edge.intros)
  qed
qed

lemma restored_user_state_inj [simp]:
  "restored_user_state r = restored_user_state r' \<longleftrightarrow> r = r'"
  "restored_user_state r = UserActive \<longleftrightarrow> r = RecoverActive"
  "restored_user_state r = UserSuspended \<longleftrightarrow> r = RecoverSuspended"
  "restored_user_state r \<noteq> UserInvited" "restored_user_state r \<noteq> UserDeleted"
  "restored_user_state r \<noteq> UserDeletionPending p"
  by (cases r; cases r'; simp; fail) (cases r; simp)+

lemma user_edge_is_taken:
  assumes "user_edge u action st" and "Suc (unat (usr_version u)) < 2 ^ 64"
  obtains t where "transition_user u \<lparr>utc_expected_version = usr_version u, utc_action = action\<rparr> = Inr t"
    and "ut_user t = u\<lparr>usr_version := usr_version u + 1, usr_state := st\<rparr>"
proof -
  note evolves = evolve_user_succeeds [OF assms(2)]
  have edge: "\<exists>at k. dispatch_user_action u action = evolve_user u st at k"
    using assms(1)
    by (cases; force simp: activate_user_def suspend_user_def resume_user_def request_deletion_def
          deletion_recovery_state_def recover_deletion_def complete_deletion_def
          split: UserState.splits DeletionRecoveryState.splits)
  have live: "usr_state u \<noteq> UserDeleted"
    using assms(1) by (cases; simp)
  from edge obtain at k where e: "dispatch_user_action u action = evolve_user u st at k" by blast
  show ?thesis
  proof (rule evolves)
    fix t
    assume "evolve_user u st at k = Inr t"
      and "ut_user t = u\<lparr>usr_version := usr_version u + 1, usr_state := st\<rparr>"
    with e live show thesis
      by (intro that) (simp_all add: transition_user_def dispatch_user_def
            verify_user_version_def validate_dispatchable_user_def)
  qed
qed

section \<open>Restoration accepts the reachable users\<close>

text \<open>The versions a state is restored with, over the natural numbers.\<close>

definition version_fits :: "nat \<Rightarrow> UserState \<Rightarrow> bool" where
  "version_fits n st \<longleftrightarrow>
     (case st of
        UserInvited \<Rightarrow> n = 1
      | UserActive \<Rightarrow> 2 \<le> n \<and> even n
      | UserSuspended \<Rightarrow> 3 \<le> n \<and> odd n
      | UserDeletionPending p \<Rightarrow>
          pd_requested_at p < pd_not_before p
          \<and> (case pd_recovery_state p of RecoverActive \<Rightarrow> 3 \<le> n \<and> odd n | RecoverSuspended \<Rightarrow> 4 \<le> n \<and> even n)
      | UserDeleted \<Rightarrow> 4 \<le> n)"

lemma even_word_iff: "v mod 2 = 0 \<longleftrightarrow> even (unat v)" for v :: u64
  by (simp add: word_unat_eq_iff unat_mod even_iff_mod_2_eq_zero)

lemma User_from_snapshot_iff:
  "User_from_snapshot i tenant v s = Inr u \<longleftrightarrow>
     usr_id u = i \<and> usr_tenant_id u = tenant \<and> usr_version u = v \<and> snapshot_state u = s
     \<and> version_fits (unat v) (usr_state u)"
proof -
  have "user_state_from_snapshot v s = Inr st \<longleftrightarrow>
      snapshot_state \<lparr>usr_id = i, usr_tenant_id = tenant, usr_version = v, usr_state = st\<rparr> = s
      \<and> version_fits (unat v) st" for st
    by (cases s; cases st)
       (auto simp: snapshot_state_def version_fits_def validated_state_def pending_state_from_snapshot_def
          valid_active_version_def valid_suspended_version_def valid_active_pending_version_def
          valid_suspended_pending_version_def UserVersion_initial_def even_word_iff
          word_le_nat_alt word_unat_eq_iff [of v 1] split: DeletionRecoveryState.splits if_splits)
  then show ?thesis by (cases u) (auto simp: User_from_snapshot_def results)
qed

lemma user_edge_fits:
  assumes "user_edge u action st" and "version_fits n (usr_state u)"
  shows "version_fits (Suc n) st"
  using assms
  by (cases; cases "usr_state u")
     (auto simp: version_fits_def split: DeletionRecoveryState.splits)

interpretation users: stored_aggregate user_init user_step "\<lambda>u. version_fits (unat (usr_version u)) (usr_state u)"
  usr_version "\<lambda>u. (usr_id u, usr_tenant_id u)"
  "\<lambda>u. (usr_id u, usr_tenant_id u, usr_version u, snapshot_state u)"
  "\<lambda>(i, tenant, v, s). User_from_snapshot i tenant v s"
proof
  show "version_fits (unat (usr_version u)) (usr_state u)" if "user_init u" for u
    using that by (auto simp: user_init_def version_fits_def User_invited_def UserVersion_initial_def)
  show "version_fits (unat (usr_version t)) (usr_state t)"
    if "version_fits (unat (usr_version u)) (usr_state u)" "user_step u command t" for u command t
    using that by (auto simp: user_step_def dest!: transition_user_ok dest: user_edge_fits)
  show "usr_version u = 1" if "user_init u" for u
    using that by (auto simp: user_init_def User_invited_def UserVersion_initial_def)
  show "unat (usr_version t) = unat (usr_version u) + 1" "(usr_id t, usr_tenant_id t) = (usr_id u, usr_tenant_id u)"
    if "user_step u command t" for u command t
    using that by (auto simp: user_step_def dest!: transition_user_ok)
  show "(\<lambda>(i, tenant, v, s). User_from_snapshot i tenant v s) (usr_id u, usr_tenant_id u, usr_version u, snapshot_state u) = Inr u"
    if "version_fits (unat (usr_version u)) (usr_state u)" for u
    using that by (simp add: User_from_snapshot_iff)
qed

lemma reachable_version_fits: "user_reachable u \<Longrightarrow> version_fits (unat (usr_version u)) (usr_state u)"
  unfolding user_reachable_def by (rule users.reachable_inv)

text \<open>Conversely: every fitting version is reached, by suspending and resuming often enough.\<close>

abbreviation user_at :: "UserId \<Rightarrow> TenantId \<Rightarrow> nat \<Rightarrow> UserState \<Rightarrow> UserAggregate" where
  "user_at i tenant n st \<equiv> \<lparr>usr_id = i, usr_tenant_id = tenant, usr_version = of_nat n, usr_state = st\<rparr>"

lemma reachable_edge:
  assumes "user_reachable (user_at i tenant n s)" and "user_edge (user_at i tenant n s) action st"
    and "Suc n < 2 ^ 64"
  shows "user_reachable (user_at i tenant (Suc n) st)"
proof -
  from assms(3) have "Suc (unat (usr_version (user_at i tenant n s))) < 2 ^ 64"
    by (simp add: unat_of_nat)
  from user_edge_is_taken [OF assms(2) this] obtain t where
      "transition_user (user_at i tenant n s)
         \<lparr>utc_expected_version = usr_version (user_at i tenant n s), utc_action = action\<rparr> = Inr t"
    and t: "ut_user t = (user_at i tenant n s)
              \<lparr>usr_version := usr_version (user_at i tenant n s) + 1, usr_state := st\<rparr>"
    by blast
  from user_moves [OF assms(1) this(1)] t show ?thesis by (simp add: add.commute)
qed

lemma active_and_suspended_reachable:
  "2 * k + 3 < 2 ^ 64 \<Longrightarrow>
     user_reachable (user_at i tenant (2 * k + 2) UserActive)
     \<and> user_reachable (user_at i tenant (2 * k + 3) UserSuspended)"
proof (induction k)
  case 0
  have "user_reachable (user_at i tenant 1 UserInvited)"
    using user_starts [of i tenant] by (simp add: User_invited_def UserVersion_initial_def)
  then have a: "user_reachable (user_at i tenant (Suc 1) UserActive)"
    by (rule reachable_edge) (auto intro: user_edge.intros)
  then have "user_reachable (user_at i tenant (Suc (Suc 1)) UserSuspended)"
    by (rule reachable_edge) (auto intro: user_edge.intros)
  with a show ?case by (simp add: numeral_eq_Suc)
next
  case (Suc k)
  then have "user_reachable (user_at i tenant (2 * k + 3) UserSuspended)"
    by simp
  then have a: "user_reachable (user_at i tenant (Suc (2 * k + 3)) UserActive)"
    by (rule reachable_edge) (use Suc.prems in \<open>auto intro: user_edge.intros\<close>)
  then have "user_reachable (user_at i tenant (Suc (Suc (2 * k + 3))) UserSuspended)"
    by (rule reachable_edge) (use Suc.prems in \<open>auto intro: user_edge.intros\<close>)
  with a show ?case by (simp add: numeral_eq_Suc)
qed

lemma restorable_reachable:
  assumes "version_fits n st" and "n < 2 ^ 64" and "st = UserActive \<or> st = UserSuspended"
  shows "user_reachable (user_at i tenant n st)"
proof (cases "even n")
  case True
  with assms have "st = UserActive" and n: "n = 2 * ((n - 2) div 2) + 2" "2 * ((n - 2) div 2) + 3 < 2 ^ 64"
    by (auto simp: version_fits_def)
  with active_and_suspended_reachable [OF n(2)] show ?thesis by (metis n(1))
next
  case False
  with assms have "st = UserSuspended" and n: "n = 2 * ((n - 3) div 2) + 3" "2 * ((n - 3) div 2) + 3 < 2 ^ 64"
    by (auto simp: version_fits_def elim!: oddE)
  with active_and_suspended_reachable [OF n(2)] show ?thesis by (metis n(1))
qed

lemma fitting_user_reachable:
  assumes "version_fits n st" and "n < 2 ^ 64"
  shows "user_reachable (user_at i tenant n st)"
proof -
  have pending: "user_reachable (user_at i tenant n (UserDeletionPending p))"
    if fits: "version_fits n (UserDeletionPending p)" and lt: "n < 2 ^ 64" for n p
  proof -
    have "version_fits (n - 1) (restored_user_state (pd_recovery_state p))" and n: "n = Suc (n - 1)"
      using fits by (auto simp: version_fits_def split: DeletionRecoveryState.splits)
    then have "user_reachable (user_at i tenant (n - 1) (restored_user_state (pd_recovery_state p)))"
      using lt by (intro restorable_reachable) (auto intro: DeletionRecoveryState.exhaust)
    moreover have "user_edge (user_at i tenant (n - 1) (restored_user_state (pd_recovery_state p)))
        (RequestDeletion (pd_requested_at p) (pd_not_before p)) (UserDeletionPending p)"
      using fits by (cases p) (auto simp: version_fits_def intro: user_edge.intros)
    ultimately show ?thesis
      using reachable_edge [of i tenant "n - 1"] lt n by metis
  qed
  show ?thesis
  proof (cases st)
    case UserInvited
    with assms(1) show ?thesis
      using user_starts [of i tenant] by (simp add: version_fits_def User_invited_def UserVersion_initial_def)
  next
    case (UserDeletionPending p)
    with assms pending show ?thesis by simp
  next
    case UserDeleted
    define p where "p = \<lparr>pd_requested_at = 0, pd_not_before = 1,
      pd_recovery_state = (if odd (n - 1) then RecoverActive else RecoverSuspended)\<rparr>"
    have "version_fits (n - 1) (UserDeletionPending p)" and n: "n = Suc (n - 1)"
      using assms(1) UserDeleted by (auto simp: version_fits_def p_def elim!: oddE)
    then have "user_reachable (user_at i tenant (n - 1) (UserDeletionPending p))"
      using assms(2) by (intro pending) auto
    moreover have "user_edge (user_at i tenant (n - 1) (UserDeletionPending p)) (CompleteDeletion 1) UserDeleted"
      by (rule user_edge.intros) (auto simp: p_def)
    ultimately show ?thesis
      using reachable_edge [of i tenant "n - 1"] assms(2) n UserDeleted by metis
  qed (use assms in \<open>auto intro: restorable_reachable\<close>)
qed

section \<open>Properties\<close>

text \<open>
  C23: A persisted snapshot is restored to a user exactly when that user is reached from its invitation by
  accepted lifecycle commands and has the identity, the tenant, the version and the lifecycle state
  of the snapshot: every reachable user survives being stored, and nothing else is restored.
\<close>

theorem snapshots_restore_reachable_users:
  "User_from_snapshot i tenant v s = Inr u \<longleftrightarrow>
     user_reachable u \<and> usr_id u = i \<and> usr_tenant_id u = tenant \<and> usr_version u = v \<and> snapshot_state u = s"
proof -
  have "user_reachable u \<longleftrightarrow> version_fits (unat (usr_version u)) (usr_state u)"
  proof
    assume fits: "version_fits (unat (usr_version u)) (usr_state u)"
    have "unat (usr_version u) < 2 ^ 64" using unat_lt_width [of "usr_version u"] by simp
    from fitting_user_reachable [OF fits this, of "usr_id u" "usr_tenant_id u"]
    show "user_reachable u" by (cases u) simp
  qed (rule reachable_version_fits)
  then show ?thesis by (auto simp: User_from_snapshot_iff)
qed

text \<open>
  Deletion takes its time and is final: a user becomes deleted only by completing a pending deletion
  at or after the stored boundary, which lies after the time of the request, and a deleted user
  refuses every command.
\<close>

theorem deletion_waits_and_is_final:
  assumes "user_reachable u" and "transition_user u command = Inr t"
  shows "usr_state u \<noteq> UserDeleted
    \<and> (usr_state (ut_user t) = UserDeleted \<longrightarrow>
         (\<exists>p at. usr_state u = UserDeletionPending p \<and> utc_action command = CompleteDeletion at
            \<and> pd_requested_at p < pd_not_before p \<and> pd_not_before p \<le> at))"
proof -
  from transition_user_ok [OF assms(2)]
  have edge: "user_edge u (utc_action command) (usr_state (ut_user t))" by simp
  then have "usr_state u \<noteq> UserDeleted" by (cases; simp)
  moreover have "\<exists>p at. usr_state u = UserDeletionPending p \<and> utc_action command = CompleteDeletion at
      \<and> pd_requested_at p < pd_not_before p \<and> pd_not_before p \<le> at"
    if "usr_state (ut_user t) = UserDeleted"
    using edge that reachable_version_fits [OF assms(1)]
    by (cases; simp) (auto simp: version_fits_def)
  ultimately show ?thesis by blast
qed

end
