(* ===== verification/Organization_Domain.thy ===== *)
theory Organization_Domain
  imports User_Domain Slices
begin

text \<open>
  The organization aggregate of \<open>ariadnion-organization\<close> (\<open>ids.rs\<close>, \<open>error.rs\<close>, \<open>model.rs\<close>,
  \<open>model/reachability.rs\<close>, \<open>model/transfer_validation.rs\<close>): memberships and teams, persisted snapshots
  and their validation, the evidence of an ownership transfer, and events. The commands are in
  \<open>Organization_Transition\<close>.
\<close>

section \<open>Errors, identities and versions\<close>

datatype OrganizationErrorCode =
  OrgInvalidArgument | OrgVersionConflict | OrgVersionExhausted | OrgCapacityExceeded
| MembershipNotFound | TeamNotFound | OrgDuplicateIdentity | OrgInvalidTransition | LastActiveOwner
| MembershipIneligible | TransferOrganizationMismatch | TransferReauthenticationStale
| TransferApproverConflict | TransferNotReady | TransferExpired | TransferEvidenceInvalid

fun OrganizationErrorCode_as_str :: "OrganizationErrorCode \<Rightarrow> string" where
  "OrganizationErrorCode_as_str OrgInvalidArgument = ''ORGANIZATION_INVALID_ARGUMENT''"
| "OrganizationErrorCode_as_str OrgVersionConflict = ''ORGANIZATION_VERSION_CONFLICT''"
| "OrganizationErrorCode_as_str OrgVersionExhausted = ''ORGANIZATION_VERSION_EXHAUSTED''"
| "OrganizationErrorCode_as_str OrgCapacityExceeded = ''ORGANIZATION_CAPACITY_EXCEEDED''"
| "OrganizationErrorCode_as_str MembershipNotFound = ''ORGANIZATION_MEMBERSHIP_NOT_FOUND''"
| "OrganizationErrorCode_as_str TeamNotFound = ''ORGANIZATION_TEAM_NOT_FOUND''"
| "OrganizationErrorCode_as_str OrgDuplicateIdentity = ''ORGANIZATION_DUPLICATE_IDENTITY''"
| "OrganizationErrorCode_as_str OrgInvalidTransition = ''ORGANIZATION_INVALID_TRANSITION''"
| "OrganizationErrorCode_as_str LastActiveOwner = ''ORGANIZATION_LAST_ACTIVE_OWNER''"
| "OrganizationErrorCode_as_str MembershipIneligible = ''ORGANIZATION_MEMBERSHIP_INELIGIBLE''"
| "OrganizationErrorCode_as_str TransferOrganizationMismatch = ''ORGANIZATION_TRANSFER_ORGANIZATION_MISMATCH''"
| "OrganizationErrorCode_as_str TransferReauthenticationStale = ''ORGANIZATION_TRANSFER_REAUTHENTICATION_STALE''"
| "OrganizationErrorCode_as_str TransferApproverConflict = ''ORGANIZATION_TRANSFER_APPROVER_CONFLICT''"
| "OrganizationErrorCode_as_str TransferNotReady = ''ORGANIZATION_TRANSFER_NOT_READY''"
| "OrganizationErrorCode_as_str TransferExpired = ''ORGANIZATION_TRANSFER_EXPIRED''"
| "OrganizationErrorCode_as_str TransferEvidenceInvalid = ''ORGANIZATION_TRANSFER_EVIDENCE_INVALID''"

record OrganizationError =
  oe_code :: OrganizationErrorCode

definition org_error :: "OrganizationErrorCode \<Rightarrow> OrganizationError" where
  "org_error code = \<lparr>oe_code = code\<rparr>"

type_synonym OrganizationId = string
type_synonym MembershipId = string
type_synonym TeamId = string
type_synonym OwnershipTransferId = string
type_synonym OrganizationVersion = u64

definition MAX_ORGANIZATION_ID_BYTES :: nat where "MAX_ORGANIZATION_ID_BYTES = 128"

definition is_organization_id_byte :: "char \<Rightarrow> bool" where
  "is_organization_id_byte c \<longleftrightarrow> is_alphanumeric c \<or> c \<in> {CHR ''.'', CHR ''-'', CHR ''_'', CHR '':''}"

definition valid_organization_id :: "string \<Rightarrow> bool" where
  "valid_organization_id value \<longleftrightarrow>
     value \<noteq> [] \<and> length value \<le> MAX_ORGANIZATION_ID_BYTES \<and> is_ascii value
     \<and> list_all is_organization_id_byte value"

text \<open>\<open>parse\<close> of the four types the macro \<open>bounded_id!\<close> generates.\<close>

definition organization_id_parse :: "string \<Rightarrow> (OrganizationError, string) result" where
  "organization_id_parse value =
     (if \<not> valid_organization_id value then Inl (org_error OrgInvalidArgument) else Inr value)"

definition OrganizationVersion_initial :: OrganizationVersion where "OrganizationVersion_initial = 1"

definition OrganizationVersion_new :: "u64 \<Rightarrow> (OrganizationError, OrganizationVersion) result" where
  "OrganizationVersion_new value = (if value = 0 then Inl (org_error OrgInvalidArgument) else Inr value)"

definition OrganizationVersion_next :: "OrganizationVersion \<Rightarrow> (OrganizationError, OrganizationVersion) result" where
  "OrganizationVersion_next v = ok_or (org_error OrgVersionExhausted) (checked_add v 1)"

section \<open>Memberships, teams and organizations\<close>

definition MAX_MEMBERSHIPS :: nat where "MAX_MEMBERSHIPS = 1024"
definition MAX_TEAMS :: nat where "MAX_TEAMS = 256"
definition MAX_TEAM_ASSIGNMENTS :: nat where "MAX_TEAM_ASSIGNMENTS = 64"
definition MAX_REAUTHENTICATION_AGE_SECONDS :: int where "MAX_REAUTHENTICATION_AGE_SECONDS = 300"

datatype OrganizationState = OrgActive | OrgFrozen
datatype MembershipKind = OwnerKind | MemberKind
datatype MembershipState = MembershipActive | MembershipSuspended | MembershipLeft
datatype MembershipOrigin = FounderOrigin | InvitationOrigin | AdministrativeOrigin

record OrganizationFounder =
  of_membership_id :: MembershipId
  of_user_id :: UserId

record Membership =
  mbr_id :: MembershipId
  mbr_user_id :: UserId
  mbr_kind :: MembershipKind
  mbr_state :: MembershipState
  mbr_origin :: MembershipOrigin
  mbr_expires_at :: "UserUtcTimestamp option"
  mbr_team_ids :: "TeamId list"

definition is_eligible_at :: "Membership \<Rightarrow> UserUtcTimestamp \<Rightarrow> bool" where
  "is_eligible_at m observed_at \<longleftrightarrow>
     mbr_state m = MembershipActive
     \<and> (case mbr_expires_at m of None \<Rightarrow> True | Some expires_at \<Rightarrow> observed_at < expires_at)"

definition active_team_ids_at :: "Membership \<Rightarrow> UserUtcTimestamp \<Rightarrow> TeamId list" where
  "active_team_ids_at m observed_at = (if is_eligible_at m observed_at then mbr_team_ids m else [])"

datatype MembershipSnapshot =
  ActiveMembership MembershipId UserId MembershipKind MembershipOrigin "UserUtcTimestamp option" "TeamId list"
| SuspendedMembership MembershipId UserId MembershipKind MembershipOrigin "UserUtcTimestamp option"
| LeftMembership MembershipId UserId MembershipKind MembershipOrigin "UserUtcTimestamp option"

fun msn_id :: "MembershipSnapshot \<Rightarrow> MembershipId" where
  "msn_id (ActiveMembership i _ _ _ _ _) = i"
| "msn_id (SuspendedMembership i _ _ _ _) = i"
| "msn_id (LeftMembership i _ _ _ _) = i"

fun msn_user_id :: "MembershipSnapshot \<Rightarrow> UserId" where
  "msn_user_id (ActiveMembership _ u _ _ _ _) = u"
| "msn_user_id (SuspendedMembership _ u _ _ _) = u"
| "msn_user_id (LeftMembership _ u _ _ _) = u"

fun msn_kind :: "MembershipSnapshot \<Rightarrow> MembershipKind" where
  "msn_kind (ActiveMembership _ _ k _ _ _) = k"
| "msn_kind (SuspendedMembership _ _ k _ _) = k"
| "msn_kind (LeftMembership _ _ k _ _) = k"

fun msn_state :: "MembershipSnapshot \<Rightarrow> MembershipState" where
  "msn_state (ActiveMembership _ _ _ _ _ _) = MembershipActive"
| "msn_state (SuspendedMembership _ _ _ _ _) = MembershipSuspended"
| "msn_state (LeftMembership _ _ _ _ _) = MembershipLeft"

fun msn_origin :: "MembershipSnapshot \<Rightarrow> MembershipOrigin" where
  "msn_origin (ActiveMembership _ _ _ og _ _) = og"
| "msn_origin (SuspendedMembership _ _ _ og _) = og"
| "msn_origin (LeftMembership _ _ _ og _) = og"

fun msn_expires_at :: "MembershipSnapshot \<Rightarrow> UserUtcTimestamp option" where
  "msn_expires_at (ActiveMembership _ _ _ _ e _) = e"
| "msn_expires_at (SuspendedMembership _ _ _ _ e) = e"
| "msn_expires_at (LeftMembership _ _ _ _ e) = e"

fun msn_team_ids :: "MembershipSnapshot \<Rightarrow> TeamId list" where
  "msn_team_ids (ActiveMembership _ _ _ _ _ ts) = ts"
| "msn_team_ids (SuspendedMembership _ _ _ _ _) = []"
| "msn_team_ids (LeftMembership _ _ _ _ _) = []"

fun into_membership :: "MembershipSnapshot \<Rightarrow> Membership" where
  "into_membership (ActiveMembership i u k og e ts) =
     \<lparr>mbr_id = i, mbr_user_id = u, mbr_kind = k, mbr_state = MembershipActive, mbr_origin = og,
      mbr_expires_at = e, mbr_team_ids = ts\<rparr>"
| "into_membership (SuspendedMembership i u k og e) =
     \<lparr>mbr_id = i, mbr_user_id = u, mbr_kind = k, mbr_state = MembershipSuspended, mbr_origin = og,
      mbr_expires_at = e, mbr_team_ids = []\<rparr>"
| "into_membership (LeftMembership i u k og e) =
     \<lparr>mbr_id = i, mbr_user_id = u, mbr_kind = k, mbr_state = MembershipLeft, mbr_origin = og,
      mbr_expires_at = e, mbr_team_ids = []\<rparr>"

definition snapshot_membership :: "Membership \<Rightarrow> MembershipSnapshot" where
  "snapshot_membership m =
     (case mbr_state m of
        MembershipActive \<Rightarrow>
          ActiveMembership (mbr_id m) (mbr_user_id m) (mbr_kind m) (mbr_origin m) (mbr_expires_at m)
            (mbr_team_ids m)
      | MembershipSuspended \<Rightarrow>
          SuspendedMembership (mbr_id m) (mbr_user_id m) (mbr_kind m) (mbr_origin m) (mbr_expires_at m)
      | MembershipLeft \<Rightarrow>
          LeftMembership (mbr_id m) (mbr_user_id m) (mbr_kind m) (mbr_origin m) (mbr_expires_at m))"

record Team =
  team_identity :: TeamId

record TeamSnapshot =
  ts_id :: TeamId

definition into_team :: "TeamSnapshot \<Rightarrow> Team" where
  "into_team s = \<lparr>team_identity = ts_id s\<rparr>"

record OrganizationSnapshot =
  os_state :: OrganizationState
  os_memberships :: "MembershipSnapshot list"
  os_teams :: "TeamSnapshot list"

record Organization =
  org_id :: OrganizationId
  org_tenant_id :: TenantId
  org_version :: OrganizationVersion
  org_state :: OrganizationState
  org_memberships :: "Membership list"
  org_teams :: "Team list"

definition org_snapshot_state :: "Organization \<Rightarrow> OrganizationSnapshot" where
  "org_snapshot_state g =
     \<lparr>os_state = org_state g, os_memberships = map snapshot_membership (org_memberships g),
      os_teams = map (\<lambda>team. \<lparr>ts_id = team_identity team\<rparr>) (org_teams g)\<rparr>"

definition org_membership :: "Organization \<Rightarrow> MembershipId \<Rightarrow> Membership option" where
  "org_membership g i = find (\<lambda>m. mbr_id m = i) (org_memberships g)"

definition org_team :: "Organization \<Rightarrow> TeamId \<Rightarrow> Team option" where
  "org_team g i = find (\<lambda>team. team_identity team = i) (org_teams g)"

section \<open>Validation of a snapshot\<close>

definition validate_snapshot_identity ::
  "OrganizationId \<Rightarrow> TenantId \<Rightarrow> OrganizationVersion \<Rightarrow> (OrganizationError, unit) result" where
  "validate_snapshot_identity i tenant v =
     (if i = [] \<or> tenant = [] \<or> v = 0 then Inl (org_error OrgInvalidArgument) else Inr ())"

definition validate_snapshot_capacity :: "OrganizationSnapshot \<Rightarrow> (OrganizationError, unit) result" where
  "validate_snapshot_capacity s =
     (if MAX_MEMBERSHIPS < length (os_memberships s) \<or> MAX_TEAMS < length (os_teams s)
      then Inl (org_error OrgCapacityExceeded) else Inr ())"

definition unique_team_ids :: "OrganizationSnapshot \<Rightarrow> (OrganizationError, TeamId set) result" where
  "unique_team_ids s =
     bind_result (insert_unique (org_error OrgDuplicateIdentity) [] (map ts_id (os_teams s))) (\<lambda>_.
     Inr (set (map ts_id (os_teams s))))"

fun unique_identities ::
  "MembershipId list \<Rightarrow> UserId list \<Rightarrow> MembershipSnapshot list \<Rightarrow> (OrganizationError, unit) result" where
  "unique_identities membership_ids user_ids [] = Inr ()"
| "unique_identities membership_ids user_ids (m # ms) =
     (if msn_id m \<in> set membership_ids \<or> msn_user_id m \<in> set user_ids
      then Inl (org_error OrgDuplicateIdentity)
      else unique_identities (msn_id m # membership_ids) (msn_user_id m # user_ids) ms)"

definition validate_membership_identity_uniqueness ::
  "OrganizationSnapshot \<Rightarrow> (OrganizationError, unit) result" where
  "validate_membership_identity_uniqueness s = unique_identities [] [] (os_memberships s)"

definition validate_membership_expiry :: "MembershipSnapshot \<Rightarrow> (OrganizationError, unit) result" where
  "validate_membership_expiry m =
     (if msn_expires_at m \<noteq> None \<and> (msn_kind m = OwnerKind \<or> msn_origin m = FounderOrigin)
      then Inl (org_error OrgInvalidArgument) else Inr ())"

definition validate_assignment_capacity :: "TeamId list \<Rightarrow> (OrganizationError, unit) result" where
  "validate_assignment_capacity assignments =
     (if MAX_TEAM_ASSIGNMENTS < length assignments then Inl (org_error OrgCapacityExceeded) else Inr ())"

definition validate_assignment_state ::
  "MembershipSnapshot \<Rightarrow> TeamId list \<Rightarrow> (OrganizationError, unit) result" where
  "validate_assignment_state m assignments =
     (if msn_state m \<noteq> MembershipActive \<and> assignments \<noteq> [] then Inl (org_error OrgInvalidArgument)
      else Inr ())"

fun assignments_known :: "TeamId list \<Rightarrow> TeamId set \<Rightarrow> TeamId list \<Rightarrow> (OrganizationError, unit) result" where
  "assignments_known assigned_ids team_ids [] = Inr ()"
| "assignments_known assigned_ids team_ids (t # ts) =
     (if t \<notin> team_ids \<or> t \<in> set assigned_ids then Inl (org_error OrgInvalidArgument)
      else assignments_known (t # assigned_ids) team_ids ts)"

definition validate_assignment_ids ::
  "TeamId list \<Rightarrow> TeamId set \<Rightarrow> (OrganizationError, unit) result" where
  "validate_assignment_ids assignments team_ids = assignments_known [] team_ids assignments"

definition validate_membership_assignments ::
  "MembershipSnapshot \<Rightarrow> TeamId set \<Rightarrow> (OrganizationError, unit) result" where
  "validate_membership_assignments m team_ids =
     bind_result (validate_assignment_capacity (msn_team_ids m)) (\<lambda>_.
     bind_result (validate_assignment_state m (msn_team_ids m)) (\<lambda>_.
     validate_assignment_ids (msn_team_ids m) team_ids))"

definition validate_membership :: "TeamId set \<Rightarrow> MembershipSnapshot \<Rightarrow> (OrganizationError, unit) result" where
  "validate_membership team_ids m =
     bind_result (validate_membership_expiry m) (\<lambda>_. validate_membership_assignments m team_ids)"

definition validate_memberships ::
  "OrganizationSnapshot \<Rightarrow> TeamId set \<Rightarrow> (OrganizationError, unit) result" where
  "validate_memberships s team_ids =
     bind_result (validate_membership_identity_uniqueness s) (\<lambda>_.
     check_each (validate_membership team_ids) (os_memberships s))"

definition validate_owner_invariant :: "OrganizationSnapshot \<Rightarrow> (OrganizationError, unit) result" where
  "validate_owner_invariant s =
     (let founder_count = length (filter (\<lambda>m. msn_origin m = FounderOrigin) (os_memberships s));
          active_owner_count =
            length (filter (\<lambda>m. msn_kind m = OwnerKind \<and> msn_state m = MembershipActive) (os_memberships s))
      in if founder_count \<noteq> 1 \<or> active_owner_count = 0 then Inl (org_error OrgInvalidArgument)
         else Inr ())"

definition validate_founder_order :: "OrganizationSnapshot \<Rightarrow> (OrganizationError, unit) result" where
  "validate_founder_order s =
     (let founder_is_first =
        (case os_memberships s of [] \<Rightarrow> False | m # _ \<Rightarrow> msn_origin m = FounderOrigin)
      in if \<not> founder_is_first then Inl (org_error OrgInvalidArgument) else Inr ())"

section \<open>Version reachability\<close>

text \<open>
  \<open>model/reachability.rs\<close>: the least version a snapshot can have, and the least odd number of
  additional steps its history can contain. A \<open>usize\<close> is a natural number with the width of the
  supported 64-bit targets written out where it is added with a check.
\<close>

definition usize_checked_add :: "nat \<Rightarrow> nat \<Rightarrow> nat option" where
  "usize_checked_add a b = (if a + b < 2 ^ 64 then Some (a + b) else None)"

definition invalid_argument :: OrganizationError where
  "invalid_argument = org_error OrgInvalidArgument"

definition add_version_cost :: "u64 \<Rightarrow> nat \<Rightarrow> (OrganizationError, u64) result" where
  "add_version_cost value cost =
     bind_result (ok_or invalid_argument (try_word cost)) (\<lambda>c.
     ok_or invalid_argument (checked_add value c))"

definition add_membership_version_cost :: "nat \<Rightarrow> MembershipSnapshot \<Rightarrow> (OrganizationError, nat) result" where
  "add_membership_version_cost cost m =
     bind_result (ok_or invalid_argument (usize_checked_add cost (length (msn_team_ids m)))) (\<lambda>sum.
     if msn_state m \<noteq> MembershipActive then ok_or invalid_argument (usize_checked_add sum 1)
     else Inr sum)"

fun membership_costs :: "nat \<Rightarrow> MembershipSnapshot list \<Rightarrow> (OrganizationError, nat) result" where
  "membership_costs cost [] = Inr cost"
| "membership_costs cost (m # ms) =
     bind_result (add_membership_version_cost cost m) (\<lambda>c. membership_costs c ms)"

definition membership_version_cost :: "OrganizationSnapshot \<Rightarrow> (OrganizationError, nat) result" where
  "membership_version_cost s = membership_costs 0 (os_memberships s)"

definition first_has_kind :: "MembershipKind \<Rightarrow> OrganizationSnapshot \<Rightarrow> bool" where
  "first_has_kind k s = (case os_memberships s of [] \<Rightarrow> False | m # _ \<Rightarrow> msn_kind m = k)"

definition add_founder_kind_version_cost ::
  "u64 \<Rightarrow> OrganizationSnapshot \<Rightarrow> (OrganizationError, u64) result" where
  "add_founder_kind_version_cost value s =
     (if first_has_kind MemberKind s then add_version_cost value 1 else Inr value)"

definition add_state_version_cost :: "u64 \<Rightarrow> OrganizationState \<Rightarrow> (OrganizationError, u64) result" where
  "add_state_version_cost value state =
     (if state = OrgFrozen then add_version_cost value 1 else Inr value)"

definition minimum_snapshot_version :: "OrganizationSnapshot \<Rightarrow> (OrganizationError, u64) result" where
  "minimum_snapshot_version s =
     bind_result (add_version_cost 1 (length (os_memberships s) - 1)) (\<lambda>a.
     bind_result (add_version_cost a (length (os_teams s))) (\<lambda>b.
     bind_result (membership_version_cost s) (\<lambda>cost.
     bind_result (add_version_cost b cost) (\<lambda>c.
     bind_result (add_founder_kind_version_cost c s) (\<lambda>d.
     add_state_version_cost d (os_state s))))))"

definition snapshot_owner_count :: "OrganizationSnapshot \<Rightarrow> nat" where
  "snapshot_owner_count s = length (filter (\<lambda>m. msn_kind m = OwnerKind) (os_memberships s))"

definition membership_can_suspend :: "MembershipSnapshot \<Rightarrow> nat \<Rightarrow> bool" where
  "membership_can_suspend m owner_count \<longleftrightarrow> msn_kind m \<noteq> OwnerKind \<or> 1 < owner_count"

definition membership_odd_surcharge ::
  "OrganizationSnapshot \<Rightarrow> MembershipSnapshot \<Rightarrow> nat \<Rightarrow> u64 option" where
  "membership_odd_surcharge s m owner_count =
     (if \<not> membership_can_suspend m owner_count then None
      else case msn_state m of
             MembershipActive \<Rightarrow> if os_teams s \<noteq> [] then Some 3 else None
           | MembershipSuspended \<Rightarrow> if os_teams s \<noteq> [] then Some 1 else None
           | MembershipLeft \<Rightarrow> Some 1)"

definition ownership_triangle_surcharge :: "OrganizationSnapshot \<Rightarrow> u64 option" where
  "ownership_triangle_surcharge s =
     (let participants = filter (\<lambda>m. msn_expires_at m = None) (os_memberships s) in
      if length participants < 3 then None
      else if list_ex (\<lambda>m. msn_kind m = OwnerKind) participants
              \<and> list_ex (\<lambda>m. msn_kind m = MemberKind) participants
      then Some 3 else None)"

definition supports_one_step_ownership_surcharge :: "OrganizationSnapshot \<Rightarrow> bool" where
  "supports_one_step_ownership_surcharge s =
     (let eligible_count = length (filter (\<lambda>m. msn_expires_at m = None) (os_memberships s)) in
      if eligible_count < 3 then False
      else if \<not> first_has_kind OwnerKind s then True
      else let participants = filter (\<lambda>m. msn_expires_at m = None) (drop 1 (os_memberships s)) in
           list_ex (\<lambda>m. msn_kind m = OwnerKind) participants
           \<and> list_ex (\<lambda>m. msn_kind m = MemberKind) participants)"

definition ownership_odd_surcharge :: "OrganizationSnapshot \<Rightarrow> u64 option" where
  "ownership_odd_surcharge s =
     (if supports_one_step_ownership_surcharge s then Some 1 else ownership_triangle_surcharge s)"

fun least_surcharge :: "OrganizationSnapshot \<Rightarrow> nat \<Rightarrow> u64 option \<Rightarrow> MembershipSnapshot list \<Rightarrow> u64 option" where
  "least_surcharge s owner_count minimum [] = minimum"
| "least_surcharge s owner_count minimum (m # ms) =
     least_surcharge s owner_count
       (case membership_odd_surcharge s m owner_count of
          None \<Rightarrow> minimum
        | Some candidate \<Rightarrow>
            Some (case minimum of None \<Rightarrow> candidate | Some current \<Rightarrow> min current candidate))
       ms"

definition minimum_odd_history_surcharge :: "OrganizationSnapshot \<Rightarrow> u64 option" where
  "minimum_odd_history_surcharge s =
     least_surcharge s (snapshot_owner_count s) (ownership_odd_surcharge s) (os_memberships s)"

definition validate_version_reachability ::
  "OrganizationVersion \<Rightarrow> OrganizationSnapshot \<Rightarrow> (OrganizationError, unit) result" where
  "validate_version_reachability v s =
     bind_result (minimum_snapshot_version s) (\<lambda>minimum.
     bind_result (ok_or invalid_argument (checked_sub v minimum)) (\<lambda>offset.
     if offset = 0 \<or> offset mod 2 = 0 then Inr ()
     else if (case minimum_odd_history_surcharge s of None \<Rightarrow> False | Some cost \<Rightarrow> cost \<le> offset)
     then Inr ()
     else Inl invalid_argument))"

definition validate_org_snapshot ::
  "OrganizationId \<Rightarrow> TenantId \<Rightarrow> OrganizationVersion \<Rightarrow> OrganizationSnapshot \<Rightarrow> (OrganizationError, unit) result" where
  "validate_org_snapshot i tenant v s =
     bind_result (validate_snapshot_identity i tenant v) (\<lambda>_.
     bind_result (validate_snapshot_capacity s) (\<lambda>_.
     bind_result (unique_team_ids s) (\<lambda>team_ids.
     bind_result (validate_memberships s team_ids) (\<lambda>_.
     bind_result (validate_founder_order s) (\<lambda>_.
     bind_result (validate_owner_invariant s) (\<lambda>_.
     validate_version_reachability v s))))))"

definition Organization_from_snapshot ::
  "OrganizationId \<Rightarrow> TenantId \<Rightarrow> OrganizationVersion \<Rightarrow> OrganizationSnapshot \<Rightarrow> (OrganizationError, Organization) result" where
  "Organization_from_snapshot i tenant v s =
     bind_result (validate_org_snapshot i tenant v s) (\<lambda>_.
     Inr \<lparr>org_id = i, org_tenant_id = tenant, org_version = v, org_state = os_state s,
          org_memberships = map into_membership (os_memberships s),
          org_teams = map into_team (os_teams s)\<rparr>)"

section \<open>Evidence of an ownership transfer\<close>

record PrincipalContext =
  pc_tenant_id :: TenantId
  pc_principal_id :: PrincipalId

record AuthenticatedUserBinding =
  aub_principal :: PrincipalContext
  aub_user_id :: UserId

record RecipientReauthenticationProof =
  rrp_authenticated_user :: AuthenticatedUserBinding
  rrp_authenticated_at :: UserUtcTimestamp

record OwnershipTransferEvidenceInput =
  oti_transfer_id :: OwnershipTransferId
  oti_tenant_id :: TenantId
  oti_organization_id :: OrganizationId
  oti_organization_version :: OrganizationVersion
  oti_initiating_owner_id :: MembershipId
  oti_initiating_user :: AuthenticatedUserBinding
  oti_recipient_id :: MembershipId
  oti_recipient_reauthentication :: RecipientReauthenticationProof
  oti_approving_principal :: PrincipalContext
  oti_not_before :: UserUtcTimestamp
  oti_expires_at :: UserUtcTimestamp

record OwnershipTransferEvidence =
  ote_transfer_id :: OwnershipTransferId
  ote_tenant_id :: TenantId
  ote_organization_id :: OrganizationId
  ote_organization_version :: OrganizationVersion
  ote_initiating_owner_id :: MembershipId
  ote_initiating_user :: AuthenticatedUserBinding
  ote_recipient_id :: MembershipId
  ote_recipient_reauthentication :: RecipientReauthenticationProof
  ote_approver :: PrincipalId
  ote_not_before :: UserUtcTimestamp
  ote_expires_at :: UserUtcTimestamp

definition MAX_TRANSFER_LIFETIME_SECONDS :: int where "MAX_TRANSFER_LIFETIME_SECONDS = 900"

definition valid_transfer_lifetime :: "int option \<Rightarrow> bool" where
  "valid_transfer_lifetime lifetime \<longleftrightarrow>
     (case lifetime of None \<Rightarrow> False
      | Some seconds \<Rightarrow> 0 < seconds \<and> seconds \<le> MAX_TRANSFER_LIFETIME_SECONDS)"

definition validate_transfer_principals ::
  "OwnershipTransferEvidenceInput \<Rightarrow> (OrganizationError, unit) result" where
  "validate_transfer_principals input =
     (if pc_tenant_id (aub_principal (oti_initiating_user input)) \<noteq> oti_tenant_id input
         \<or> pc_tenant_id (aub_principal (rrp_authenticated_user (oti_recipient_reauthentication input)))
             \<noteq> oti_tenant_id input
         \<or> pc_tenant_id (oti_approving_principal input) \<noteq> oti_tenant_id input
      then Inl (org_error TransferOrganizationMismatch)
      else if pc_principal_id (aub_principal (oti_initiating_user input))
              = pc_principal_id (oti_approving_principal input)
      then Inl (org_error TransferApproverConflict)
      else Inr ())"

definition validate_transfer_evidence_input ::
  "OwnershipTransferEvidenceInput \<Rightarrow> (OrganizationError, unit) result" where
  "validate_transfer_evidence_input input =
     bind_result (validate_transfer_principals input) (\<lambda>_.
     if oti_initiating_owner_id input = oti_recipient_id input
     then Inl (org_error TransferEvidenceInvalid)
     else let reauthentication = rrp_authenticated_at (oti_recipient_reauthentication input);
              delay = i64_checked_sub (oti_not_before input) reauthentication;
              lifetime = i64_checked_sub (oti_expires_at input) (oti_not_before input)
          in if (case delay of None \<Rightarrow> True | Some seconds \<Rightarrow> seconds \<le> 0)
                \<or> \<not> valid_transfer_lifetime lifetime
             then Inl (org_error TransferEvidenceInvalid) else Inr ())"

definition OwnershipTransferEvidence_new ::
  "OwnershipTransferEvidenceInput \<Rightarrow> (OrganizationError, OwnershipTransferEvidence) result" where
  "OwnershipTransferEvidence_new input =
     bind_result (validate_transfer_evidence_input input) (\<lambda>_.
     Inr \<lparr>ote_transfer_id = oti_transfer_id input,
          ote_tenant_id = oti_tenant_id input,
          ote_organization_id = oti_organization_id input,
          ote_organization_version = oti_organization_version input,
          ote_initiating_owner_id = oti_initiating_owner_id input,
          ote_initiating_user = oti_initiating_user input,
          ote_recipient_id = oti_recipient_id input,
          ote_recipient_reauthentication = oti_recipient_reauthentication input,
          ote_approver = pc_principal_id (oti_approving_principal input),
          ote_not_before = oti_not_before input,
          ote_expires_at = oti_expires_at input\<rparr>)"

section \<open>Events\<close>

datatype OrganizationEventKind =
  OrgCreated MembershipId UserId
| OrgStateChanged OrganizationState
| OrgMembershipAdded MembershipId UserId MembershipKind MembershipOrigin "UserUtcTimestamp option"
| OrgMembershipSuspended MembershipId nat
| OrgMembershipActivated MembershipId
| OrgMembershipLeft MembershipId nat
| OrgTeamCreated TeamId
| OrgTeamAssigned MembershipId TeamId
| OrgOwnershipTransferred OwnershipTransferId MembershipId MembershipId PrincipalId

record OrganizationEvent =
  oev_tenant_id :: TenantId
  oev_organization_id :: OrganizationId
  oev_actor :: PrincipalId
  oev_occurred_at :: UserUtcTimestamp
  oev_version :: OrganizationVersion
  oev_kind :: OrganizationEventKind

fun is_creation :: "OrganizationEventKind \<Rightarrow> bool" where
  "is_creation (OrgCreated _ _) = True"
| "is_creation _ = False"

definition validate_persisted_event_version ::
  "OrganizationVersion \<Rightarrow> OrganizationEventKind \<Rightarrow> (OrganizationError, unit) result" where
  "validate_persisted_event_version v kind =
     (if is_creation kind \<noteq> (v = OrganizationVersion_initial) then Inl (org_error OrgInvalidArgument)
      else Inr ())"

definition validate_membership_creation_facts ::
  "MembershipKind \<Rightarrow> MembershipOrigin \<Rightarrow> UserUtcTimestamp option \<Rightarrow> UserUtcTimestamp \<Rightarrow>
     (OrganizationError, unit) result" where
  "validate_membership_creation_facts kind origin expires_at occurred_at =
     (if origin = FounderOrigin then Inl (org_error OrgInvalidArgument)
      else if kind = OwnerKind \<and> expires_at \<noteq> None then Inl (org_error OrgInvalidArgument)
      else if (case expires_at of None \<Rightarrow> False | Some expiry \<Rightarrow> expiry \<le> occurred_at)
      then Inl (org_error OrgInvalidArgument)
      else Inr ())"

definition validate_removed_assignment_count :: "nat \<Rightarrow> (OrganizationError, unit) result" where
  "validate_removed_assignment_count n =
     (if MAX_TEAM_ASSIGNMENTS < n then Inl (org_error OrgInvalidArgument) else Inr ())"

definition validate_persisted_transfer ::
  "PrincipalId \<Rightarrow> MembershipId \<Rightarrow> MembershipId \<Rightarrow> PrincipalId \<Rightarrow> (OrganizationError, unit) result" where
  "validate_persisted_transfer actor previous_owner_id new_owner_id approver =
     (if previous_owner_id = new_owner_id \<or> actor = approver then Inl (org_error OrgInvalidArgument)
      else Inr ())"

fun validate_persisted_facts ::
  "PrincipalId \<Rightarrow> UserUtcTimestamp \<Rightarrow> OrganizationEventKind \<Rightarrow> (OrganizationError, unit) result" where
  "validate_persisted_facts actor occurred_at (OrgMembershipAdded _ _ kind origin expires_at) =
     validate_membership_creation_facts kind origin expires_at occurred_at"
| "validate_persisted_facts actor occurred_at (OrgMembershipSuspended _ n) = validate_removed_assignment_count n"
| "validate_persisted_facts actor occurred_at (OrgMembershipLeft _ n) = validate_removed_assignment_count n"
| "validate_persisted_facts actor occurred_at (OrgOwnershipTransferred _ previous_owner_id new_owner_id approver) =
     validate_persisted_transfer actor previous_owner_id new_owner_id approver"
| "validate_persisted_facts actor occurred_at _ = Inr ()"

definition validate_persisted_event ::
  "OrganizationVersion \<Rightarrow> PrincipalId \<Rightarrow> UserUtcTimestamp \<Rightarrow> OrganizationEventKind \<Rightarrow>
     (OrganizationError, unit) result" where
  "validate_persisted_event v actor occurred_at kind =
     bind_result (validate_persisted_event_version v kind) (\<lambda>_.
     validate_persisted_facts actor occurred_at kind)"

definition OrganizationEvent_from_persisted ::
  "TenantId \<Rightarrow> OrganizationId \<Rightarrow> PrincipalId \<Rightarrow> UserUtcTimestamp \<Rightarrow> OrganizationVersion \<Rightarrow>
     OrganizationEventKind \<Rightarrow> (OrganizationError, OrganizationEvent) result" where
  "OrganizationEvent_from_persisted tenant i actor occurred_at v kind =
     bind_result (validate_persisted_event v actor occurred_at kind) (\<lambda>_.
     Inr \<lparr>oev_tenant_id = tenant, oev_organization_id = i, oev_actor = actor,
          oev_occurred_at = occurred_at, oev_version = v, oev_kind = kind\<rparr>)"

record OrganizationTransition =
  otr_previous_snapshot :: "OrganizationSnapshot option"
  otr_organization :: Organization
  otr_event :: OrganizationEvent

end
