(* ===== verification/Organization_Transition.thy ===== *)
theory Organization_Transition
  imports Organization_Domain
begin

text \<open>
  The commands of \<open>ariadnion-organization\<close> (\<open>transition.rs\<close>): creation, changes of state, the
  lifecycle of memberships, teams, evidence-bound transfers of ownership, and the replay of a persisted
  event. The lemmas give one abstract edge per action, which the command and the replay of its event
  both take, and show that replaying what a command emitted gives back its transition.
\<close>

section \<open>Commands\<close>

record CreateOrganizationCommand =
  coc_organization_id :: OrganizationId
  coc_tenant_id :: TenantId
  coc_founder :: OrganizationFounder
  coc_expected_version :: OrganizationVersion
  coc_actor :: PrincipalId
  coc_occurred_at :: UserUtcTimestamp

datatype MembershipAction =
  AddMembership MembershipId UserId MembershipKind MembershipOrigin "UserUtcTimestamp option"
| SuspendMembership MembershipId
| ActivateMembership MembershipId
| LeaveMembership MembershipId

datatype TeamAction =
  CreateTeam TeamId
| AssignTeam MembershipId TeamId

datatype OrganizationAction =
  ChangeState OrganizationState
| MembershipAct MembershipAction
| TeamAct TeamAction
| TransferOwnership OwnershipTransferEvidence

record OrganizationCommand =
  oc_expected_version :: OrganizationVersion
  oc_actor :: PrincipalId
  oc_occurred_at :: UserUtcTimestamp
  oc_action :: OrganizationAction

record AuditContext =
  aud_actor :: PrincipalId
  aud_occurred_at :: UserUtcTimestamp

record NewMembership =
  nm_membership_id :: MembershipId
  nm_user_id :: UserId
  nm_kind :: MembershipKind
  nm_origin :: MembershipOrigin
  nm_expires_at :: "UserUtcTimestamp option"

section \<open>Creation\<close>

definition initial_organization :: "CreateOrganizationCommand \<Rightarrow> Organization" where
  "initial_organization command =
     \<lparr>org_id = coc_organization_id command, org_tenant_id = coc_tenant_id command,
      org_version = OrganizationVersion_initial, org_state = OrgActive,
      org_memberships =
        [\<lparr>mbr_id = of_membership_id (coc_founder command), mbr_user_id = of_user_id (coc_founder command),
          mbr_kind = OwnerKind, mbr_state = MembershipActive, mbr_origin = FounderOrigin,
          mbr_expires_at = None, mbr_team_ids = []\<rparr>],
      org_teams = []\<rparr>"

definition create_organization ::
  "CreateOrganizationCommand \<Rightarrow> (OrganizationError, OrganizationTransition) result" where
  "create_organization command =
     (if coc_expected_version command \<noteq> OrganizationVersion_initial
      then Inl (org_error OrgVersionConflict)
      else Inr \<lparr>otr_previous_snapshot = None,
                otr_organization = initial_organization command,
                otr_event =
                  \<lparr>oev_tenant_id = coc_tenant_id command,
                   oev_organization_id = coc_organization_id command,
                   oev_actor = coc_actor command,
                   oev_occurred_at = coc_occurred_at command,
                   oev_version = OrganizationVersion_initial,
                   oev_kind = OrgCreated (of_membership_id (coc_founder command))
                                (of_user_id (coc_founder command))\<rparr>\<rparr>)"

section \<open>Shared steps\<close>

definition finish_evolution ::
  "Organization \<Rightarrow> Organization \<Rightarrow> AuditContext \<Rightarrow> OrganizationEventKind \<Rightarrow>
     (OrganizationError, OrganizationTransition) result" where
  "finish_evolution current changed audit kind =
     bind_result (OrganizationVersion_next (org_version current)) (\<lambda>v.
     Inr \<lparr>otr_previous_snapshot = Some (org_snapshot_state current),
          otr_organization = changed\<lparr>org_version := v\<rparr>,
          otr_event =
            \<lparr>oev_tenant_id = org_tenant_id current, oev_organization_id = org_id current,
             oev_actor = aud_actor audit, oev_occurred_at = aud_occurred_at audit,
             oev_version = v, oev_kind = kind\<rparr>\<rparr>)"

definition membership_index :: "Organization \<Rightarrow> MembershipId \<Rightarrow> (OrganizationError, nat) result" where
  "membership_index current i =
     ok_or (org_error MembershipNotFound) (list_position (\<lambda>m. mbr_id m = i) (org_memberships current))"

definition membership_at :: "Organization \<Rightarrow> nat \<Rightarrow> (OrganizationError, Membership) result" where
  "membership_at current index =
     (if index < length (org_memberships current) then Inr (org_memberships current ! index)
      else Inl (org_error MembershipNotFound))"

text \<open>A change through the reference \<open>membership_at_mut\<close> returns.\<close>

definition membership_at_mut ::
  "Organization \<Rightarrow> nat \<Rightarrow> (Membership \<Rightarrow> Membership) \<Rightarrow> (OrganizationError, Organization) result" where
  "membership_at_mut current index f =
     (if index < length (org_memberships current)
      then Inr (current\<lparr>org_memberships := (org_memberships current)[index := f (org_memberships current ! index)]\<rparr>)
      else Inl (org_error MembershipNotFound))"

definition require_membership_state ::
  "Organization \<Rightarrow> nat \<Rightarrow> MembershipState \<Rightarrow> (OrganizationError, unit) result" where
  "require_membership_state current index required =
     bind_result (membership_at current index) (\<lambda>m.
     if mbr_state m \<noteq> required then Inl (org_error OrgInvalidTransition) else Inr ())"

definition set_membership_state ::
  "Organization \<Rightarrow> nat \<Rightarrow> MembershipState \<Rightarrow> (OrganizationError, Organization) result" where
  "set_membership_state current index state = membership_at_mut current index (\<lambda>m. m\<lparr>mbr_state := state\<rparr>)"

section \<open>State changes and memberships\<close>

definition change_state ::
  "Organization \<Rightarrow> AuditContext \<Rightarrow> OrganizationState \<Rightarrow> (OrganizationError, OrganizationTransition) result" where
  "change_state current audit state =
     (if org_state current = state then Inl (org_error OrgInvalidTransition)
      else finish_evolution current (current\<lparr>org_state := state\<rparr>) audit (OrgStateChanged state))"

definition ensure_membership_capacity :: "Organization \<Rightarrow> (OrganizationError, unit) result" where
  "ensure_membership_capacity current =
     (if MAX_MEMBERSHIPS \<le> length (org_memberships current) then Inl (org_error OrgCapacityExceeded)
      else Inr ())"

definition ensure_membership_identity_available ::
  "Organization \<Rightarrow> NewMembership \<Rightarrow> (OrganizationError, unit) result" where
  "ensure_membership_identity_available current input =
     (if list_ex (\<lambda>m. mbr_id m = nm_membership_id input) (org_memberships current)
         \<or> list_ex (\<lambda>m. mbr_user_id m = nm_user_id input) (org_memberships current)
      then Inl (org_error OrgDuplicateIdentity) else Inr ())"

definition validate_new_membership ::
  "Organization \<Rightarrow> UserUtcTimestamp \<Rightarrow> NewMembership \<Rightarrow> (OrganizationError, unit) result" where
  "validate_new_membership current occurred_at input =
     bind_result (ensure_membership_capacity current) (\<lambda>_.
     bind_result (ensure_membership_identity_available current input) (\<lambda>_.
     validate_membership_creation_facts (nm_kind input) (nm_origin input) (nm_expires_at input) occurred_at))"

definition add_membership ::
  "Organization \<Rightarrow> AuditContext \<Rightarrow> NewMembership \<Rightarrow> (OrganizationError, OrganizationTransition) result" where
  "add_membership current audit input =
     bind_result (validate_new_membership current (aud_occurred_at audit) input) (\<lambda>_.
     let membership = \<lparr>mbr_id = nm_membership_id input, mbr_user_id = nm_user_id input,
           mbr_kind = nm_kind input, mbr_state = MembershipActive, mbr_origin = nm_origin input,
           mbr_expires_at = nm_expires_at input, mbr_team_ids = []\<rparr>
     in finish_evolution current
          (current\<lparr>org_memberships := org_memberships current @ [membership]\<rparr>) audit
          (OrgMembershipAdded (nm_membership_id input) (nm_user_id input) (nm_kind input)
             (nm_origin input) (nm_expires_at input)))"

definition active_owner_count :: "Organization \<Rightarrow> nat" where
  "active_owner_count current =
     length (filter (\<lambda>m. mbr_kind m = OwnerKind \<and> mbr_state m = MembershipActive) (org_memberships current))"

definition protect_last_active_owner :: "Organization \<Rightarrow> nat \<Rightarrow> (OrganizationError, unit) result" where
  "protect_last_active_owner current index =
     bind_result (membership_at current index) (\<lambda>m.
     if (mbr_kind m = OwnerKind \<and> mbr_state m = MembershipActive) \<and> active_owner_count current = 1
     then Inl (org_error LastActiveOwner) else Inr ())"

definition change_state_and_clear_teams ::
  "Organization \<Rightarrow> nat \<Rightarrow> MembershipState \<Rightarrow> (OrganizationError, nat \<times> Organization) result" where
  "change_state_and_clear_teams current index state =
     bind_result (membership_at current index) (\<lambda>m.
     bind_result (membership_at_mut current index (\<lambda>m. m\<lparr>mbr_team_ids := [], mbr_state := state\<rparr>)) (\<lambda>g.
     Inr (length (mbr_team_ids m), g)))"

definition suspend_membership ::
  "Organization \<Rightarrow> AuditContext \<Rightarrow> MembershipId \<Rightarrow> (OrganizationError, OrganizationTransition) result" where
  "suspend_membership current audit i =
     bind_result (membership_index current i) (\<lambda>index.
     bind_result (require_membership_state current index MembershipActive) (\<lambda>_.
     bind_result (protect_last_active_owner current index) (\<lambda>_.
     bind_result (change_state_and_clear_teams current index MembershipSuspended) (\<lambda>(removed, changed).
     finish_evolution current changed audit (OrgMembershipSuspended i removed)))))"

definition activate_membership ::
  "Organization \<Rightarrow> AuditContext \<Rightarrow> MembershipId \<Rightarrow> (OrganizationError, OrganizationTransition) result" where
  "activate_membership current audit i =
     bind_result (membership_index current i) (\<lambda>index.
     bind_result (require_membership_state current index MembershipSuspended) (\<lambda>_.
     bind_result (membership_at current index) (\<lambda>m.
     if (case mbr_expires_at m of None \<Rightarrow> False | Some expires_at \<Rightarrow> expires_at \<le> aud_occurred_at audit)
     then Inl (org_error MembershipIneligible)
     else bind_result (set_membership_state current index MembershipActive) (\<lambda>changed.
          finish_evolution current changed audit (OrgMembershipActivated i)))))"

definition reject_left_membership :: "Organization \<Rightarrow> nat \<Rightarrow> (OrganizationError, unit) result" where
  "reject_left_membership current index =
     bind_result (membership_at current index) (\<lambda>m.
     if mbr_state m = MembershipLeft then Inl (org_error OrgInvalidTransition) else Inr ())"

definition leave_membership ::
  "Organization \<Rightarrow> AuditContext \<Rightarrow> MembershipId \<Rightarrow> (OrganizationError, OrganizationTransition) result" where
  "leave_membership current audit i =
     bind_result (membership_index current i) (\<lambda>index.
     bind_result (reject_left_membership current index) (\<lambda>_.
     bind_result (protect_last_active_owner current index) (\<lambda>_.
     bind_result (change_state_and_clear_teams current index MembershipLeft) (\<lambda>(removed, changed).
     finish_evolution current changed audit (OrgMembershipLeft i removed)))))"

fun apply_membership_action ::
  "Organization \<Rightarrow> AuditContext \<Rightarrow> MembershipAction \<Rightarrow> (OrganizationError, OrganizationTransition) result" where
  "apply_membership_action current audit (AddMembership i u k og e) =
     add_membership current audit
       \<lparr>nm_membership_id = i, nm_user_id = u, nm_kind = k, nm_origin = og, nm_expires_at = e\<rparr>"
| "apply_membership_action current audit (SuspendMembership i) = suspend_membership current audit i"
| "apply_membership_action current audit (ActivateMembership i) = activate_membership current audit i"
| "apply_membership_action current audit (LeaveMembership i) = leave_membership current audit i"

section \<open>Teams\<close>

definition create_team ::
  "Organization \<Rightarrow> AuditContext \<Rightarrow> TeamId \<Rightarrow> (OrganizationError, OrganizationTransition) result" where
  "create_team current audit team_id =
     (if MAX_TEAMS \<le> length (org_teams current) then Inl (org_error OrgCapacityExceeded)
      else if list_ex (\<lambda>team. team_identity team = team_id) (org_teams current)
      then Inl (org_error OrgDuplicateIdentity)
      else finish_evolution current
             (current\<lparr>org_teams := org_teams current @ [\<lparr>team_identity = team_id\<rparr>]\<rparr>) audit
             (OrgTeamCreated team_id))"

definition ensure_team_exists :: "Organization \<Rightarrow> TeamId \<Rightarrow> (OrganizationError, unit) result" where
  "ensure_team_exists current team_id =
     (if list_ex (\<lambda>team. team_identity team = team_id) (org_teams current) then Inr ()
      else Inl (org_error TeamNotFound))"

definition ensure_team_assignment_eligible ::
  "Membership \<Rightarrow> UserUtcTimestamp \<Rightarrow> TeamId \<Rightarrow> (OrganizationError, unit) result" where
  "ensure_team_assignment_eligible m observed_at team_id =
     (if \<not> is_eligible_at m observed_at then Inl (org_error MembershipIneligible)
      else if list_ex (\<lambda>assigned. assigned = team_id) (mbr_team_ids m)
      then Inl (org_error OrgDuplicateIdentity)
      else if MAX_TEAM_ASSIGNMENTS \<le> length (mbr_team_ids m) then Inl (org_error OrgCapacityExceeded)
      else Inr ())"

definition assign_team ::
  "Organization \<Rightarrow> AuditContext \<Rightarrow> MembershipId \<Rightarrow> TeamId \<Rightarrow>
     (OrganizationError, OrganizationTransition) result" where
  "assign_team current audit i team_id =
     bind_result (ensure_team_exists current team_id) (\<lambda>_.
     bind_result (membership_index current i) (\<lambda>index.
     bind_result (membership_at current index) (\<lambda>m.
     bind_result (ensure_team_assignment_eligible m (aud_occurred_at audit) team_id) (\<lambda>_.
     bind_result (membership_at_mut current index (\<lambda>m. m\<lparr>mbr_team_ids := mbr_team_ids m @ [team_id]\<rparr>)) (\<lambda>changed.
     finish_evolution current changed audit (OrgTeamAssigned i team_id))))))"

fun apply_team_action ::
  "Organization \<Rightarrow> AuditContext \<Rightarrow> TeamAction \<Rightarrow> (OrganizationError, OrganizationTransition) result" where
  "apply_team_action current audit (CreateTeam team_id) = create_team current audit team_id"
| "apply_team_action current audit (AssignTeam i team_id) = assign_team current audit i team_id"

section \<open>Transfers of ownership\<close>

definition validate_transfer_binding ::
  "Organization \<Rightarrow> OwnershipTransferEvidence \<Rightarrow> (OrganizationError, unit) result" where
  "validate_transfer_binding current ev =
     (if ote_tenant_id ev \<noteq> org_tenant_id current \<or> ote_organization_id ev \<noteq> org_id current
         \<or> ote_organization_version ev \<noteq> org_version current
      then Inl (org_error TransferOrganizationMismatch) else Inr ())"

definition validate_transfer_actors ::
  "AuditContext \<Rightarrow> OwnershipTransferEvidence \<Rightarrow> (OrganizationError, unit) result" where
  "validate_transfer_actors audit ev =
     (if pc_principal_id (aub_principal (ote_initiating_user ev)) \<noteq> aud_actor audit
      then Inl (org_error TransferEvidenceInvalid)
      else if ote_approver ev = pc_principal_id (aub_principal (ote_initiating_user ev))
      then Inl (org_error TransferApproverConflict)
      else Inr ())"

definition validate_transfer_window ::
  "UserUtcTimestamp \<Rightarrow> OwnershipTransferEvidence \<Rightarrow> (OrganizationError, unit) result" where
  "validate_transfer_window observed_at ev =
     (if observed_at < ote_not_before ev then Inl (org_error TransferNotReady)
      else if ote_expires_at ev < observed_at then Inl (org_error TransferExpired)
      else Inr ())"

definition validate_reauthentication_freshness ::
  "UserUtcTimestamp \<Rightarrow> UserUtcTimestamp \<Rightarrow> (OrganizationError, unit) result" where
  "validate_reauthentication_freshness observed_at reauthenticated_at =
     (if (case i64_checked_sub observed_at reauthenticated_at of
            None \<Rightarrow> True
          | Some seconds \<Rightarrow> \<not> (0 \<le> seconds \<and> seconds \<le> MAX_REAUTHENTICATION_AGE_SECONDS))
      then Inl (org_error TransferReauthenticationStale) else Inr ())"

definition validate_transfer_timing ::
  "AuditContext \<Rightarrow> OwnershipTransferEvidence \<Rightarrow> (OrganizationError, unit) result" where
  "validate_transfer_timing audit ev =
     bind_result (validate_transfer_actors audit ev) (\<lambda>_.
     bind_result (validate_transfer_window (aud_occurred_at audit) ev) (\<lambda>_.
     validate_reauthentication_freshness (aud_occurred_at audit)
       (rrp_authenticated_at (ote_recipient_reauthentication ev))))"

definition membership_index_for_transfer ::
  "Organization \<Rightarrow> MembershipId \<Rightarrow> (OrganizationError, nat) result" where
  "membership_index_for_transfer current i =
     map_err (\<lambda>_. org_error TransferEvidenceInvalid) (membership_index current i)"

definition validate_initiating_transfer_member ::
  "Membership \<Rightarrow> OwnershipTransferEvidence \<Rightarrow> (OrganizationError, unit) result" where
  "validate_initiating_transfer_member initiator ev =
     (if \<not> (mbr_kind initiator = OwnerKind \<and> mbr_state initiator = MembershipActive
             \<and> mbr_user_id initiator = aub_user_id (ote_initiating_user ev))
      then Inl (org_error TransferEvidenceInvalid) else Inr ())"

definition validate_recipient_transfer_member ::
  "Membership \<Rightarrow> AuditContext \<Rightarrow> OwnershipTransferEvidence \<Rightarrow> (OrganizationError, unit) result" where
  "validate_recipient_transfer_member recipient audit ev =
     (if \<not> (mbr_kind recipient = MemberKind
             \<and> mbr_user_id recipient
                 = aub_user_id (rrp_authenticated_user (ote_recipient_reauthentication ev))
             \<and> is_eligible_at recipient (aud_occurred_at audit))
      then Inl (org_error TransferEvidenceInvalid) else Inr ())"

definition validate_transfer_members ::
  "Organization \<Rightarrow> AuditContext \<Rightarrow> OwnershipTransferEvidence \<Rightarrow> nat \<Rightarrow> nat \<Rightarrow>
     (OrganizationError, unit) result" where
  "validate_transfer_members current audit ev initiating_index recipient_index =
     bind_result (membership_at current initiating_index) (\<lambda>initiator.
     bind_result (validate_initiating_transfer_member initiator ev) (\<lambda>_.
     bind_result (membership_at current recipient_index) (\<lambda>recipient.
     validate_recipient_transfer_member recipient audit ev)))"

definition demote_owner :: "Organization \<Rightarrow> nat \<Rightarrow> (OrganizationError, Organization) result" where
  "demote_owner current index = membership_at_mut current index (\<lambda>m. m\<lparr>mbr_kind := MemberKind\<rparr>)"

definition promote_recipient :: "Organization \<Rightarrow> nat \<Rightarrow> (OrganizationError, Organization) result" where
  "promote_recipient current index =
     membership_at_mut current index (\<lambda>m. m\<lparr>mbr_kind := OwnerKind, mbr_expires_at := None\<rparr>)"

definition transfer_ownership ::
  "Organization \<Rightarrow> AuditContext \<Rightarrow> OwnershipTransferEvidence \<Rightarrow>
     (OrganizationError, OrganizationTransition) result" where
  "transfer_ownership current audit ev =
     bind_result (validate_transfer_binding current ev) (\<lambda>_.
     bind_result (validate_transfer_timing audit ev) (\<lambda>_.
     bind_result (membership_index_for_transfer current (ote_initiating_owner_id ev)) (\<lambda>initiating_index.
     bind_result (membership_index_for_transfer current (ote_recipient_id ev)) (\<lambda>recipient_index.
     bind_result (validate_transfer_members current audit ev initiating_index recipient_index) (\<lambda>_.
     bind_result (demote_owner current initiating_index) (\<lambda>demoted.
     bind_result (promote_recipient demoted recipient_index) (\<lambda>changed.
     finish_evolution current changed audit
       (OrgOwnershipTransferred (ote_transfer_id ev) (ote_initiating_owner_id ev)
          (ote_recipient_id ev) (ote_approver ev)))))))))"

section \<open>Applying a command\<close>

fun dispatch_organization ::
  "Organization \<Rightarrow> AuditContext \<Rightarrow> OrganizationAction \<Rightarrow> (OrganizationError, OrganizationTransition) result" where
  "dispatch_organization current audit (ChangeState state) = change_state current audit state"
| "dispatch_organization current audit (MembershipAct action) = apply_membership_action current audit action"
| "dispatch_organization current audit (TeamAct action) = apply_team_action current audit action"
| "dispatch_organization current audit (TransferOwnership ev) = transfer_ownership current audit ev"

definition verify_organization_version ::
  "Organization \<Rightarrow> OrganizationVersion \<Rightarrow> (OrganizationError, unit) result" where
  "verify_organization_version current expected =
     (if org_version current \<noteq> expected then Inl (org_error OrgVersionConflict) else Inr ())"

definition transition_organization ::
  "Organization \<Rightarrow> OrganizationCommand \<Rightarrow> (OrganizationError, OrganizationTransition) result" where
  "transition_organization current command =
     bind_result (verify_organization_version current (oc_expected_version command)) (\<lambda>_.
     dispatch_organization current
       \<lparr>aud_actor = oc_actor command, aud_occurred_at = oc_occurred_at command\<rparr> (oc_action command))"

section \<open>Replaying a persisted event\<close>

definition validate_replay_binding ::
  "Organization \<Rightarrow> OrganizationEvent \<Rightarrow> (OrganizationError, unit) result" where
  "validate_replay_binding current event =
     bind_result (OrganizationVersion_next (org_version current)) (\<lambda>next_version.
     if \<not> (oev_tenant_id event = org_tenant_id current \<and> oev_organization_id event = org_id current
            \<and> oev_version event = next_version)
     then Inl (org_error OrgInvalidArgument) else Inr ())"

fun replay_membership_event ::
  "Organization \<Rightarrow> AuditContext \<Rightarrow> OrganizationEventKind \<Rightarrow>
     (OrganizationError, OrganizationTransition option) result" where
  "replay_membership_event current audit (OrgMembershipAdded i u k og e) =
     bind_result (add_membership current audit
       \<lparr>nm_membership_id = i, nm_user_id = u, nm_kind = k, nm_origin = og, nm_expires_at = e\<rparr>)
       (\<lambda>t. Inr (Some t))"
| "replay_membership_event current audit (OrgMembershipSuspended i _) =
     bind_result (suspend_membership current audit i) (\<lambda>t. Inr (Some t))"
| "replay_membership_event current audit (OrgMembershipActivated i) =
     bind_result (activate_membership current audit i) (\<lambda>t. Inr (Some t))"
| "replay_membership_event current audit (OrgMembershipLeft i _) =
     bind_result (leave_membership current audit i) (\<lambda>t. Inr (Some t))"
| "replay_membership_event current audit _ = Inr None"

definition validate_distinct_owner_indexes :: "nat \<Rightarrow> nat \<Rightarrow> (OrganizationError, unit) result" where
  "validate_distinct_owner_indexes previous_index new_index =
     (if previous_index = new_index then Inl (org_error OrgInvalidArgument) else Inr ())"

definition validate_replayed_owner_roles ::
  "Membership \<Rightarrow> Membership \<Rightarrow> UserUtcTimestamp \<Rightarrow> (OrganizationError, unit) result" where
  "validate_replayed_owner_roles previous new occurred_at =
     (let valid_previous = mbr_kind previous = OwnerKind \<and> mbr_state previous = MembershipActive;
          valid_new = mbr_kind new = MemberKind \<and> is_eligible_at new occurred_at
      in if \<not> valid_previous \<or> \<not> valid_new then Inl (org_error OrgInvalidArgument) else Inr ())"

definition validate_replayed_owners ::
  "Organization \<Rightarrow> AuditContext \<Rightarrow> nat \<Rightarrow> nat \<Rightarrow> (OrganizationError, unit) result" where
  "validate_replayed_owners current audit previous_index new_index =
     bind_result (validate_distinct_owner_indexes previous_index new_index) (\<lambda>_.
     bind_result (membership_at current previous_index) (\<lambda>previous.
     bind_result (membership_at current new_index) (\<lambda>new.
     validate_replayed_owner_roles previous new (aud_occurred_at audit))))"

definition replay_ownership_transfer ::
  "Organization \<Rightarrow> AuditContext \<Rightarrow> MembershipId \<Rightarrow> MembershipId \<Rightarrow> OrganizationEventKind \<Rightarrow>
     (OrganizationError, OrganizationTransition) result" where
  "replay_ownership_transfer current audit previous_owner_id new_owner_id kind =
     bind_result (membership_index current previous_owner_id) (\<lambda>previous_index.
     bind_result (membership_index current new_owner_id) (\<lambda>new_index.
     bind_result (validate_replayed_owners current audit previous_index new_index) (\<lambda>_.
     bind_result (demote_owner current previous_index) (\<lambda>demoted.
     bind_result (promote_recipient demoted new_index) (\<lambda>changed.
     finish_evolution current changed audit kind)))))"

fun replay_other_event ::
  "Organization \<Rightarrow> AuditContext \<Rightarrow> OrganizationEventKind \<Rightarrow> (OrganizationError, OrganizationTransition) result" where
  "replay_other_event current audit (OrgStateChanged state) = change_state current audit state"
| "replay_other_event current audit (OrgTeamCreated team_id) = create_team current audit team_id"
| "replay_other_event current audit (OrgTeamAssigned i team_id) = assign_team current audit i team_id"
| "replay_other_event current audit (OrgOwnershipTransferred transfer previous_owner_id new_owner_id approver) =
     replay_ownership_transfer current audit previous_owner_id new_owner_id
       (OrgOwnershipTransferred transfer previous_owner_id new_owner_id approver)"
| "replay_other_event current audit _ = Inl (org_error OrgInvalidArgument)"

definition require_exact_replay_transition ::
  "OrganizationTransition \<Rightarrow> OrganizationEvent \<Rightarrow> (OrganizationError, OrganizationTransition) result" where
  "require_exact_replay_transition t expected =
     (if otr_event t \<noteq> expected then Inl (org_error OrgInvalidArgument) else Inr t)"

definition replay_persisted_transition ::
  "Organization \<Rightarrow> OrganizationEvent \<Rightarrow> (OrganizationError, OrganizationTransition) result" where
  "replay_persisted_transition current event =
     bind_result (validate_replay_binding current event) (\<lambda>_.
     let audit = \<lparr>aud_actor = oev_actor event, aud_occurred_at = oev_occurred_at event\<rparr> in
     bind_result (replay_membership_event current audit (oev_kind event)) (\<lambda>replayed.
     bind_result
       (case replayed of
          Some t \<Rightarrow> Inr t
        | None \<Rightarrow> replay_other_event current audit (oev_kind event))
       (\<lambda>t. require_exact_replay_transition t event)))"

definition replay_persisted_event ::
  "Organization \<Rightarrow> OrganizationEvent \<Rightarrow> (OrganizationError, Organization) result" where
  "replay_persisted_event current event =
     bind_result (replay_persisted_transition current event) (\<lambda>t. Inr (otr_organization t))"

section \<open>The edges of the aggregate\<close>

text \<open>
  What an accepted action requires and what it changes: from an organization, at a time, the event it
  emits and the organization before its version is advanced.
\<close>

inductive org_edge :: "Organization \<Rightarrow> UserUtcTimestamp \<Rightarrow> OrganizationEventKind \<Rightarrow> Organization \<Rightarrow> bool"
  for g at where
  edge_state: "org_state g \<noteq> st \<Longrightarrow> org_edge g at (OrgStateChanged st) (g\<lparr>org_state := st\<rparr>)"
| edge_add:
    "\<lbrakk>length (org_memberships g) < MAX_MEMBERSHIPS;
      \<forall>m \<in> set (org_memberships g). mbr_id m \<noteq> i \<and> mbr_user_id m \<noteq> u;
      og \<noteq> FounderOrigin; k = OwnerKind \<longrightarrow> e = None; \<forall>x. e = Some x \<longrightarrow> at < x\<rbrakk> \<Longrightarrow>
     org_edge g at (OrgMembershipAdded i u k og e)
       (g\<lparr>org_memberships := org_memberships g @
            [\<lparr>mbr_id = i, mbr_user_id = u, mbr_kind = k, mbr_state = MembershipActive, mbr_origin = og,
              mbr_expires_at = e, mbr_team_ids = []\<rparr>]\<rparr>)"
| edge_suspend:
    "\<lbrakk>n < length (org_memberships g); m = org_memberships g ! n; mbr_state m = MembershipActive;
      mbr_kind m = OwnerKind \<longrightarrow> active_owner_count g \<noteq> 1\<rbrakk> \<Longrightarrow>
     org_edge g at (OrgMembershipSuspended (mbr_id m) (length (mbr_team_ids m)))
       (g\<lparr>org_memberships := (org_memberships g)
            [n := m\<lparr>mbr_team_ids := [], mbr_state := MembershipSuspended\<rparr>]\<rparr>)"
| edge_activate:
    "\<lbrakk>n < length (org_memberships g); m = org_memberships g ! n; mbr_state m = MembershipSuspended;
      \<forall>x. mbr_expires_at m = Some x \<longrightarrow> at < x\<rbrakk> \<Longrightarrow>
     org_edge g at (OrgMembershipActivated (mbr_id m))
       (g\<lparr>org_memberships := (org_memberships g)[n := m\<lparr>mbr_state := MembershipActive\<rparr>]\<rparr>)"
| edge_leave:
    "\<lbrakk>n < length (org_memberships g); m = org_memberships g ! n; mbr_state m \<noteq> MembershipLeft;
      mbr_kind m = OwnerKind \<and> mbr_state m = MembershipActive \<longrightarrow> active_owner_count g \<noteq> 1\<rbrakk> \<Longrightarrow>
     org_edge g at (OrgMembershipLeft (mbr_id m) (length (mbr_team_ids m)))
       (g\<lparr>org_memberships := (org_memberships g)
            [n := m\<lparr>mbr_team_ids := [], mbr_state := MembershipLeft\<rparr>]\<rparr>)"
| edge_team:
    "\<lbrakk>length (org_teams g) < MAX_TEAMS; \<forall>team \<in> set (org_teams g). team_identity team \<noteq> tid\<rbrakk> \<Longrightarrow>
     org_edge g at (OrgTeamCreated tid) (g\<lparr>org_teams := org_teams g @ [\<lparr>team_identity = tid\<rparr>]\<rparr>)"
| edge_assign:
    "\<lbrakk>n < length (org_memberships g); m = org_memberships g ! n; is_eligible_at m at;
      tid \<in> team_identity ` set (org_teams g); tid \<notin> set (mbr_team_ids m);
      length (mbr_team_ids m) < MAX_TEAM_ASSIGNMENTS\<rbrakk> \<Longrightarrow>
     org_edge g at (OrgTeamAssigned (mbr_id m) tid)
       (g\<lparr>org_memberships := (org_memberships g)[n := m\<lparr>mbr_team_ids := mbr_team_ids m @ [tid]\<rparr>]\<rparr>)"
| edge_transfer:
    "\<lbrakk>n < length (org_memberships g); m = org_memberships g ! n;
      n' < length (org_memberships g); m' = org_memberships g ! n'; n \<noteq> n';
      mbr_kind m = OwnerKind; mbr_state m = MembershipActive; mbr_kind m' = MemberKind; is_eligible_at m' at\<rbrakk> \<Longrightarrow>
     org_edge g at (OrgOwnershipTransferred transfer (mbr_id m) (mbr_id m') approver)
       (g\<lparr>org_memberships := (org_memberships g)
            [n := m\<lparr>mbr_kind := MemberKind\<rparr>,
             n' := m'\<lparr>mbr_kind := OwnerKind, mbr_expires_at := None\<rparr>]\<rparr>)"

lemma membership_index_ok [results]:
  "membership_index g i = Inr n \<Longrightarrow> n < length (org_memberships g) \<and> mbr_id (org_memberships g ! n) = i"
  by (auto simp: membership_index_def results dest: list_position_Some)

lemma membership_at_ok [results]:
  "membership_at g n = Inr m \<longleftrightarrow> n < length (org_memberships g) \<and> m = org_memberships g ! n"
  by (auto simp: membership_at_def)

lemma membership_at_mut_ok [results]:
  "membership_at_mut g n f = Inr g' \<longleftrightarrow>
     n < length (org_memberships g)
     \<and> g' = g\<lparr>org_memberships := (org_memberships g)[n := f (org_memberships g ! n)]\<rparr>"
  by (auto simp: membership_at_mut_def)

lemma finish_evolution_ok:
  "finish_evolution g changed audit kind = Inr t \<Longrightarrow>
     \<exists>v. unat v = unat (org_version g) + 1 \<and> otr_previous_snapshot t = Some (org_snapshot_state g)
       \<and> otr_organization t = changed\<lparr>org_version := v\<rparr>
       \<and> otr_event t = \<lparr>oev_tenant_id = org_tenant_id g, oev_organization_id = org_id g,
           oev_actor = aud_actor audit, oev_occurred_at = aud_occurred_at audit,
           oev_version = v, oev_kind = kind\<rparr>"
  by (auto simp: finish_evolution_def OrganizationVersion_next_def results machine)

definition evolves :: "Organization \<Rightarrow> AuditContext \<Rightarrow> OrganizationEventKind \<Rightarrow> OrganizationTransition \<Rightarrow> bool" where
  "evolves g audit kind t \<longleftrightarrow>
     (\<exists>changed. org_edge g (aud_occurred_at audit) kind changed \<and> finish_evolution g changed audit kind = Inr t)"

lemma evolvesI:
  "finish_evolution g changed audit kind = Inr t \<Longrightarrow> org_edge g (aud_occurred_at audit) kind changed \<Longrightarrow>
     evolves g audit kind t"
  by (auto simp: evolves_def)

lemma change_state_edge:
  "change_state g audit st = Inr t \<Longrightarrow> evolves g audit (OrgStateChanged st) t"
  by (auto simp: change_state_def split: if_splits intro!: evolvesI edge_state)

lemma add_membership_edge:
  "add_membership g audit input = Inr t \<Longrightarrow>
     evolves g audit (OrgMembershipAdded (nm_membership_id input) (nm_user_id input) (nm_kind input)
       (nm_origin input) (nm_expires_at input)) t"
  by (auto simp: add_membership_def validate_new_membership_def ensure_membership_capacity_def
      ensure_membership_identity_available_def validate_membership_creation_facts_def results Let_def
      list_ex_iff split: if_splits option.splits intro!: evolvesI edge_add)

lemma change_and_clear_ok:
  "change_state_and_clear_teams g n st = Inr (removed, g') \<longleftrightarrow>
     n < length (org_memberships g) \<and> removed = length (mbr_team_ids (org_memberships g ! n))
     \<and> g' = g\<lparr>org_memberships := (org_memberships g)
                 [n := (org_memberships g ! n)\<lparr>mbr_team_ids := [], mbr_state := st\<rparr>]\<rparr>"
  by (auto simp: change_state_and_clear_teams_def results)

lemma suspend_membership_edge:
  assumes "suspend_membership g audit i = Inr t"
  shows "\<exists>k. evolves g audit (OrgMembershipSuspended i k) t"
proof -
  from assms obtain n removed changed where n: "membership_index g i = Inr n"
    and s: "mbr_state (org_memberships g ! n) = MembershipActive"
    and p: "mbr_kind (org_memberships g ! n) = OwnerKind \<longrightarrow> active_owner_count g \<noteq> 1"
    and c: "change_state_and_clear_teams g n MembershipSuspended = Inr (removed, changed)"
    and f: "finish_evolution g changed audit (OrgMembershipSuspended i removed) = Inr t"
    by (auto simp: suspend_membership_def require_membership_state_def protect_last_active_owner_def
        results split: if_splits)
  from membership_index_ok [OF n] s p c
  have "org_edge g (aud_occurred_at audit) (OrgMembershipSuspended i removed) changed"
    using edge_suspend [of n g "org_memberships g ! n" "aud_occurred_at audit"]
    by (auto simp: change_and_clear_ok)
  with f show ?thesis by (auto intro: evolvesI)
qed

lemma leave_membership_edge:
  assumes "leave_membership g audit i = Inr t"
  shows "\<exists>k. evolves g audit (OrgMembershipLeft i k) t"
proof -
  from assms obtain n removed changed where n: "membership_index g i = Inr n"
    and s: "mbr_state (org_memberships g ! n) \<noteq> MembershipLeft"
    and p: "mbr_kind (org_memberships g ! n) = OwnerKind \<and> mbr_state (org_memberships g ! n) = MembershipActive
              \<longrightarrow> active_owner_count g \<noteq> 1"
    and c: "change_state_and_clear_teams g n MembershipLeft = Inr (removed, changed)"
    and f: "finish_evolution g changed audit (OrgMembershipLeft i removed) = Inr t"
    by (auto simp: leave_membership_def reject_left_membership_def protect_last_active_owner_def
        results split: if_splits)
  from membership_index_ok [OF n] s p c
  have "org_edge g (aud_occurred_at audit) (OrgMembershipLeft i removed) changed"
    using edge_leave [of n g "org_memberships g ! n" "aud_occurred_at audit"]
    by (auto simp: change_and_clear_ok)
  with f show ?thesis by (auto intro: evolvesI)
qed

lemma activate_membership_edge:
  assumes "activate_membership g audit i = Inr t"
  shows "evolves g audit (OrgMembershipActivated i) t"
proof -
  from assms obtain n changed where n: "membership_index g i = Inr n"
    and s: "mbr_state (org_memberships g ! n) = MembershipSuspended"
    and e: "\<forall>x. mbr_expires_at (org_memberships g ! n) = Some x \<longrightarrow> aud_occurred_at audit < x"
    and c: "changed = g\<lparr>org_memberships := (org_memberships g)
              [n := (org_memberships g ! n)\<lparr>mbr_state := MembershipActive\<rparr>]\<rparr>"
    and f: "finish_evolution g changed audit (OrgMembershipActivated i) = Inr t"
    by (auto simp: activate_membership_def require_membership_state_def set_membership_state_def
        results split: if_splits option.splits)
  from membership_index_ok [OF n] s e
  have "org_edge g (aud_occurred_at audit) (OrgMembershipActivated i) changed"
    using edge_activate [of n g "org_memberships g ! n" "aud_occurred_at audit"] by (auto simp: c)
  with f show ?thesis by (rule evolvesI)
qed

lemma create_team_edge:
  "create_team g audit tid = Inr t \<Longrightarrow> evolves g audit (OrgTeamCreated tid) t"
  by (auto simp: create_team_def list_ex_iff split: if_splits intro!: evolvesI edge_team)

lemma assign_team_edge:
  assumes "assign_team g audit i tid = Inr t"
  shows "evolves g audit (OrgTeamAssigned i tid) t"
proof -
  from assms obtain n changed where n: "membership_index g i = Inr n"
    and x: "tid \<in> team_identity ` set (org_teams g)"
    and e: "ensure_team_assignment_eligible (org_memberships g ! n) (aud_occurred_at audit) tid = Inr ()"
    and c: "changed = g\<lparr>org_memberships := (org_memberships g)
              [n := (org_memberships g ! n)\<lparr>mbr_team_ids := mbr_team_ids (org_memberships g ! n) @ [tid]\<rparr>]\<rparr>"
    and f: "finish_evolution g changed audit (OrgTeamAssigned i tid) = Inr t"
    by (auto simp: assign_team_def ensure_team_exists_def list_ex_iff results split: if_splits)
  from membership_index_ok [OF n] x e
  have "org_edge g (aud_occurred_at audit) (OrgTeamAssigned i tid) changed"
    using edge_assign [of n g "org_memberships g ! n" "aud_occurred_at audit" tid]
    by (auto simp: c ensure_team_assignment_eligible_def list_ex_iff split: if_splits)
  with f show ?thesis by (rule evolvesI)
qed

lemma swap_owners_ok:
  "demote_owner g n = Inr demoted \<Longrightarrow> promote_recipient demoted n' = Inr changed \<Longrightarrow> n \<noteq> n' \<Longrightarrow>
     changed = g\<lparr>org_memberships := (org_memberships g)
       [n := (org_memberships g ! n)\<lparr>mbr_kind := MemberKind\<rparr>,
        n' := (org_memberships g ! n')\<lparr>mbr_kind := OwnerKind, mbr_expires_at := None\<rparr>]\<rparr>"
  by (auto simp: demote_owner_def promote_recipient_def results)

text \<open>What the transfer checks of its members, as the replay checks it again.\<close>

lemma transfer_members_ok:
  assumes "validate_transfer_members g audit ev n n' = Inr ()"
  shows "n \<noteq> n' \<and> mbr_kind (org_memberships g ! n) = OwnerKind
    \<and> mbr_state (org_memberships g ! n) = MembershipActive
    \<and> mbr_kind (org_memberships g ! n') = MemberKind
    \<and> is_eligible_at (org_memberships g ! n') (aud_occurred_at audit)"
  using assms
  by (auto simp: validate_transfer_members_def validate_initiating_transfer_member_def
      validate_recipient_transfer_member_def results split: if_splits)

lemma transfer_ownership_ok:
  assumes "transfer_ownership g audit ev = Inr t"
  obtains n n' demoted changed where
    "membership_index g (ote_initiating_owner_id ev) = Inr n" "membership_index g (ote_recipient_id ev) = Inr n'"
    "validate_transfer_members g audit ev n n' = Inr ()"
    "demote_owner g n = Inr demoted" "promote_recipient demoted n' = Inr changed"
    "finish_evolution g changed audit
       (OrgOwnershipTransferred (ote_transfer_id ev) (ote_initiating_owner_id ev) (ote_recipient_id ev)
          (ote_approver ev)) = Inr t"
  using assms that
  by (auto simp: transfer_ownership_def membership_index_for_transfer_def results)

lemma transfer_ownership_edge:
  assumes "transfer_ownership g audit ev = Inr t"
  shows "evolves g audit
    (OrgOwnershipTransferred (ote_transfer_id ev) (ote_initiating_owner_id ev) (ote_recipient_id ev)
       (ote_approver ev)) t"
  using assms
proof (rule transfer_ownership_ok)
  fix n n' demoted changed
  assume n: "membership_index g (ote_initiating_owner_id ev) = Inr n"
    and n': "membership_index g (ote_recipient_id ev) = Inr n'"
    and v: "validate_transfer_members g audit ev n n' = Inr ()"
    and c: "demote_owner g n = Inr demoted" "promote_recipient demoted n' = Inr changed"
    and f: "finish_evolution g changed audit
       (OrgOwnershipTransferred (ote_transfer_id ev) (ote_initiating_owner_id ev) (ote_recipient_id ev)
          (ote_approver ev)) = Inr t"
  note m = membership_index_ok [OF n] membership_index_ok [OF n'] transfer_members_ok [OF v]
  have "org_edge g (aud_occurred_at audit)
      (OrgOwnershipTransferred (ote_transfer_id ev) (ote_initiating_owner_id ev) (ote_recipient_id ev)
         (ote_approver ev)) changed"
    using m swap_owners_ok [OF c]
      edge_transfer [of n g "org_memberships g ! n" n' "org_memberships g ! n'" "aud_occurred_at audit"
        "ote_transfer_id ev" "ote_approver ev"]
    by auto
  with f show ?thesis by (rule evolvesI)
qed

lemma dispatch_organization_edge:
  assumes "dispatch_organization g audit action = Inr t"
  shows "\<exists>kind. evolves g audit kind t"
proof (cases action)
  case (MembershipAct act)
  with assms show ?thesis
    by (cases act)
       (auto dest: add_membership_edge suspend_membership_edge activate_membership_edge leave_membership_edge)
next
  case (TeamAct act)
  with assms show ?thesis by (cases act) (auto dest: create_team_edge assign_team_edge)
qed (use assms in \<open>auto dest: change_state_edge transfer_ownership_edge\<close>)

lemma transition_organization_edge:
  assumes "transition_organization g command = Inr t"
  shows "evolves g \<lparr>aud_actor = oc_actor command, aud_occurred_at = oc_occurred_at command\<rparr>
    (oev_kind (otr_event t)) t"
proof -
  from assms have "dispatch_organization g
      \<lparr>aud_actor = oc_actor command, aud_occurred_at = oc_occurred_at command\<rparr> (oc_action command) = Inr t"
    by (auto simp: transition_organization_def results)
  from dispatch_organization_edge [OF this] obtain kind where
    e: "evolves g \<lparr>aud_actor = oc_actor command, aud_occurred_at = oc_occurred_at command\<rparr> kind t" ..
  then have "oev_kind (otr_event t) = kind"
    by (auto simp: evolves_def dest!: finish_evolution_ok)
  with e show ?thesis by simp
qed

section \<open>Replaying what a command emitted\<close>

definition replay_kind ::
  "Organization \<Rightarrow> AuditContext \<Rightarrow> OrganizationEventKind \<Rightarrow> (OrganizationError, OrganizationTransition) result" where
  "replay_kind g audit kind =
     bind_result (replay_membership_event g audit kind) (\<lambda>replayed.
       case replayed of Some t \<Rightarrow> Inr t | None \<Rightarrow> replay_other_event g audit kind)"

lemma evolves_kind: "evolves g audit kind t \<Longrightarrow> oev_kind (otr_event t) = kind"
  by (auto simp: evolves_def dest!: finish_evolution_ok)

lemma transfer_replays:
  assumes "transfer_ownership g audit ev = Inr t"
  shows "replay_kind g audit (oev_kind (otr_event t)) = Inr t"
  using assms
proof (rule transfer_ownership_ok)
  fix n n' demoted changed
  assume n: "membership_index g (ote_initiating_owner_id ev) = Inr n"
    and n': "membership_index g (ote_recipient_id ev) = Inr n'"
    and v: "validate_transfer_members g audit ev n n' = Inr ()"
    and c: "demote_owner g n = Inr demoted" "promote_recipient demoted n' = Inr changed"
    and f: "finish_evolution g changed audit
       (OrgOwnershipTransferred (ote_transfer_id ev) (ote_initiating_owner_id ev) (ote_recipient_id ev)
          (ote_approver ev)) = Inr t"
  note m = membership_index_ok [OF n] membership_index_ok [OF n'] transfer_members_ok [OF v]
  then have "validate_replayed_owners g audit n n' = Inr ()"
    by (simp add: validate_replayed_owners_def validate_distinct_owner_indexes_def
        validate_replayed_owner_roles_def membership_at_def)
  with n n' c f show ?thesis
    using evolves_kind [OF transfer_ownership_edge [OF assms]]
    by (simp add: replay_kind_def replay_ownership_transfer_def)
qed

lemma dispatched_action_replays:
  assumes "dispatch_organization g audit action = Inr t"
  shows "replay_kind g audit (oev_kind (otr_event t)) = Inr t"
proof (cases action)
  case (ChangeState st)
  with assms have "change_state g audit st = Inr t" by simp
  from this evolves_kind [OF change_state_edge [OF this]] show ?thesis by (simp add: replay_kind_def)
next
  case (MembershipAct act)
  show ?thesis
  proof (cases act)
    case (AddMembership i u k og e)
    with assms MembershipAct have *: "add_membership g audit
        \<lparr>nm_membership_id = i, nm_user_id = u, nm_kind = k, nm_origin = og, nm_expires_at = e\<rparr> = Inr t" by simp
    from this evolves_kind [OF add_membership_edge [OF this]] show ?thesis by (simp add: replay_kind_def)
  next
    case (SuspendMembership i)
    with assms MembershipAct have *: "suspend_membership g audit i = Inr t" by simp
    from suspend_membership_edge [OF this] obtain k where "oev_kind (otr_event t) = OrgMembershipSuspended i k"
      by (auto dest: evolves_kind)
    with * show ?thesis by (simp add: replay_kind_def)
  next
    case (ActivateMembership i)
    with assms MembershipAct have *: "activate_membership g audit i = Inr t" by simp
    from this evolves_kind [OF activate_membership_edge [OF this]] show ?thesis by (simp add: replay_kind_def)
  next
    case (LeaveMembership i)
    with assms MembershipAct have *: "leave_membership g audit i = Inr t" by simp
    from leave_membership_edge [OF this] obtain k where "oev_kind (otr_event t) = OrgMembershipLeft i k"
      by (auto dest: evolves_kind)
    with * show ?thesis by (simp add: replay_kind_def)
  qed
next
  case (TeamAct act)
  show ?thesis
  proof (cases act)
    case (CreateTeam tid)
    with assms TeamAct have "create_team g audit tid = Inr t" by simp
    from this evolves_kind [OF create_team_edge [OF this]] show ?thesis by (simp add: replay_kind_def)
  next
    case (AssignTeam i tid)
    with assms TeamAct have "assign_team g audit i tid = Inr t" by simp
    from this evolves_kind [OF assign_team_edge [OF this]] show ?thesis by (simp add: replay_kind_def)
  qed
next
  case (TransferOwnership ev)
  with assms show ?thesis by (simp add: transfer_replays)
qed

lemma transition_replays:
  assumes "transition_organization g command = Inr t"
  shows "replay_persisted_transition g (otr_event t) = Inr t"
proof -
  let ?audit = "\<lparr>aud_actor = oc_actor command, aud_occurred_at = oc_occurred_at command\<rparr>"
  from assms have d: "dispatch_organization g ?audit (oc_action command) = Inr t"
    by (auto simp: transition_organization_def results)
  from dispatch_organization_edge [OF this]
  obtain kind changed where f: "finish_evolution g changed ?audit kind = Inr t"
    by (auto simp: evolves_def)
  from finish_evolution_ok [OF this]
  have a: "oev_actor (otr_event t) = oc_actor command" "oev_occurred_at (otr_event t) = oc_occurred_at command"
    by auto
  from f have b: "validate_replay_binding g (otr_event t) = Inr ()"
    by (auto simp: finish_evolution_def validate_replay_binding_def results)
  from dispatched_action_replays [OF d]
  have "bind_result (replay_membership_event g ?audit (oev_kind (otr_event t)))
      (case_option (replay_other_event g ?audit (oev_kind (otr_event t))) Inr) = Inr t"
    by (simp add: replay_kind_def)
  with a b show ?thesis
    by (auto simp: replay_persisted_transition_def require_exact_replay_transition_def results Let_def)
qed

end
