(* ===== verification/Organization_Invariant.thy ===== *)
theory Organization_Invariant
  imports Organization_Transition
begin

text \<open>
  The invariant of reachable organizations: bounded collections of distinct identities, a founder in
  the first place, an active owner, memberships whose expiry and teams are consistent, and a version
  that the history costs of \<open>model/reachability.rs\<close> admit. The invariant is kept by every edge of
  the aggregate.
\<close>

section \<open>Structure\<close>

definition membership_ok :: "TeamId set \<Rightarrow> Membership \<Rightarrow> bool" where
  "membership_ok T m \<longleftrightarrow>
     (mbr_expires_at m \<noteq> None \<longrightarrow> mbr_kind m \<noteq> OwnerKind \<and> mbr_origin m \<noteq> FounderOrigin)
     \<and> distinct (mbr_team_ids m) \<and> set (mbr_team_ids m) \<subseteq> T
     \<and> length (mbr_team_ids m) \<le> MAX_TEAM_ASSIGNMENTS
     \<and> (mbr_state m \<noteq> MembershipActive \<longrightarrow> mbr_team_ids m = [])"

definition founder_first :: "Membership list \<Rightarrow> bool" where
  "founder_first ms \<longleftrightarrow>
     (case ms of [] \<Rightarrow> False
      | m # rest \<Rightarrow> mbr_origin m = FounderOrigin \<and> (\<forall>x \<in> set rest. mbr_origin x \<noteq> FounderOrigin))"

definition is_active_owner :: "Membership \<Rightarrow> bool" where
  "is_active_owner m \<longleftrightarrow> mbr_kind m = OwnerKind \<and> mbr_state m = MembershipActive"

definition org_ok :: "Organization \<Rightarrow> bool" where
  "org_ok g \<longleftrightarrow>
     length (org_memberships g) \<le> MAX_MEMBERSHIPS \<and> length (org_teams g) \<le> MAX_TEAMS
     \<and> distinct (map mbr_id (org_memberships g)) \<and> distinct (map mbr_user_id (org_memberships g))
     \<and> distinct (map team_identity (org_teams g))
     \<and> (\<forall>m \<in> set (org_memberships g). membership_ok (team_identity ` set (org_teams g)) m)
     \<and> founder_first (org_memberships g)
     \<and> (\<exists>m \<in> set (org_memberships g). is_active_owner m)"

lemma founder_first_map:
  "founder_first ms \<longleftrightarrow>
     map mbr_origin ms \<noteq> [] \<and> hd (map mbr_origin ms) = FounderOrigin
     \<and> FounderOrigin \<notin> set (tl (map mbr_origin ms))"
  by (cases ms) (force simp: founder_first_def)+

lemma map_update_same: "f y = f (xs ! n) \<Longrightarrow> map f (xs[n := y]) = map f xs"
  by (metis list_update_id map_update)

text \<open>Another membership than the one at an index is an active owner.\<close>

lemma other_active_owner:
  assumes "n < length (org_memberships g)" and "\<exists>m \<in> set (org_memberships g). is_active_owner m"
    and "is_active_owner (org_memberships g ! n) \<longrightarrow> active_owner_count g \<noteq> 1"
  obtains k where "k < length (org_memberships g)" "k \<noteq> n" "is_active_owner (org_memberships g ! k)"
proof (cases "is_active_owner (org_memberships g ! n)")
  case False
  with assms(2) that show ?thesis by (metis in_set_conv_nth)
next
  case True
  let ?I = "{k. k < length (org_memberships g) \<and> is_active_owner (org_memberships g ! k)}"
  have "active_owner_count g = card ?I"
    by (simp add: active_owner_count_def is_active_owner_def length_filter_conv_card)
  with True assms(3) have "card ?I \<noteq> 1" by simp
  moreover have "n \<in> ?I" using True assms(1) by simp
  ultimately have "?I \<noteq> {n}" by (metis card_1_singleton_iff One_nat_def)
  with \<open>n \<in> ?I\<close> obtain k where "k \<in> ?I" "k \<noteq> n" by blast
  with that show ?thesis by blast
qed

lemma active_owner_survives:
  assumes "k < length ms" "k \<noteq> n" "is_active_owner (ms ! k)"
  shows "\<exists>m \<in> set (ms[n := y]). is_active_owner m"
  using assms by (metis in_set_conv_nth length_list_update nth_list_update_neq)

lemma org_ok_update:
  assumes "org_ok g" and "n < length (org_memberships g)"
    and "mbr_id y = mbr_id (org_memberships g ! n)" "mbr_user_id y = mbr_user_id (org_memberships g ! n)"
      "mbr_origin y = mbr_origin (org_memberships g ! n)"
    and "membership_ok (team_identity ` set (org_teams g)) y"
    and "\<exists>m \<in> set ((org_memberships g)[n := y]). is_active_owner m"
  shows "org_ok (g\<lparr>org_memberships := (org_memberships g)[n := y]\<rparr>)"
  using assms
  by (auto simp: org_ok_def founder_first_map map_update_same set_update_distinct
      dest!: set_update_memI subsetD [OF set_update_subset_insert])

lemma membership_ok_mono: "membership_ok T m \<Longrightarrow> T \<subseteq> T' \<Longrightarrow> membership_ok T' m"
  by (auto simp: membership_ok_def)

lemma org_ok_nth:
  "org_ok g \<Longrightarrow> n < length (org_memberships g) \<Longrightarrow>
     membership_ok (team_identity ` set (org_teams g)) (org_memberships g ! n)"
  by (auto simp: org_ok_def)

lemma org_ok_clear:
  assumes ok: "org_ok g" and n: "n < length (org_memberships g)" and "st \<noteq> MembershipActive"
    and owner: "is_active_owner (org_memberships g ! n) \<longrightarrow> active_owner_count g \<noteq> 1"
  shows "org_ok (g\<lparr>org_memberships := (org_memberships g)
           [n := (org_memberships g ! n)\<lparr>mbr_team_ids := [], mbr_state := st\<rparr>]\<rparr>)"
proof (rule org_ok_update [OF ok n])
  from ok have "\<exists>m \<in> set (org_memberships g). is_active_owner m" by (simp add: org_ok_def)
  from other_active_owner [OF n this owner] obtain k where
    "k < length (org_memberships g)" "k \<noteq> n" "is_active_owner (org_memberships g ! k)" .
  then show "\<exists>m \<in> set ((org_memberships g)
      [n := (org_memberships g ! n)\<lparr>mbr_team_ids := [], mbr_state := st\<rparr>]). is_active_owner m"
    by (rule active_owner_survives)
qed (use org_ok_nth [OF ok n] in \<open>simp_all add: membership_ok_def\<close>)

text \<open>An update that keeps the kind and does not leave the active state keeps an active owner.\<close>

lemma active_owner_kept:
  assumes "\<exists>m \<in> set ms. is_active_owner m" and "is_active_owner (ms ! n) \<longrightarrow> is_active_owner y"
  shows "\<exists>m \<in> set (ms[n := y]). is_active_owner m"
proof -
  from assms(1) obtain k where k: "k < length ms" "is_active_owner (ms ! k)" by (auto simp: in_set_conv_nth)
  show ?thesis
  proof (cases "k = n")
    case True
    with k assms(2) show ?thesis by (metis set_update_memI)
  next
    case False
    with k show ?thesis by (auto intro: active_owner_survives)
  qed
qed

lemma edge_keeps_ok:
  assumes "org_edge g at kind changed" and ok: "org_ok g"
  shows "org_ok changed"
  using assms(1)
proof cases
  case (edge_state st)
  with ok show ?thesis by (simp add: org_ok_def)
next
  case (edge_add i u og k e)
  let ?m = "\<lparr>mbr_id = i, mbr_user_id = u, mbr_kind = k, mbr_state = MembershipActive, mbr_origin = og,
              mbr_expires_at = e, mbr_team_ids = []\<rparr>"
  have "membership_ok (team_identity ` set (org_teams g)) ?m"
    using edge_add by (auto simp: membership_ok_def)
  moreover have "founder_first (org_memberships g @ [?m])"
    using ok edge_add by (cases "org_memberships g") (auto simp: org_ok_def founder_first_def)
  ultimately show ?thesis
    using ok edge_add by (auto simp: org_ok_def)
next
  case (edge_suspend n m)
  with org_ok_clear [OF ok, of n MembershipSuspended] show ?thesis by (simp add: is_active_owner_def)
next
  case (edge_activate n m)
  have "org_ok (g\<lparr>org_memberships := (org_memberships g)[n := m\<lparr>mbr_state := MembershipActive\<rparr>]\<rparr>)"
  proof (rule org_ok_update [OF ok])
    show "\<exists>x \<in> set ((org_memberships g)[n := m\<lparr>mbr_state := MembershipActive\<rparr>]). is_active_owner x"
      using ok edge_activate by (intro active_owner_kept) (auto simp: org_ok_def is_active_owner_def)
  qed (use edge_activate org_ok_nth [OF ok, of n] in \<open>simp_all add: membership_ok_def\<close>)
  with edge_activate show ?thesis by simp
next
  case (edge_leave n m)
  with org_ok_clear [OF ok, of n MembershipLeft] show ?thesis by (simp add: is_active_owner_def)
next
  case (edge_team tid)
  with ok show ?thesis
    by (auto simp: org_ok_def image_iff intro: membership_ok_mono)
next
  case (edge_assign n m tid)
  let ?m = "m\<lparr>mbr_team_ids := mbr_team_ids m @ [tid]\<rparr>"
  have "org_ok (g\<lparr>org_memberships := (org_memberships g)[n := ?m]\<rparr>)"
  proof (rule org_ok_update [OF ok])
    show "\<exists>x \<in> set ((org_memberships g)[n := ?m]). is_active_owner x"
      using ok edge_assign by (intro active_owner_kept) (auto simp: org_ok_def is_active_owner_def)
    show "membership_ok (team_identity ` set (org_teams g)) ?m"
      using edge_assign org_ok_nth [OF ok, of n] by (auto simp: membership_ok_def is_eligible_at_def)
  qed (use edge_assign in simp_all)
  with edge_assign show ?thesis by simp
next
  case (edge_transfer n m n' m' transfer approver)
  let ?r = "m'\<lparr>mbr_kind := OwnerKind, mbr_expires_at := None\<rparr>" and ?p = "m\<lparr>mbr_kind := MemberKind\<rparr>"
  let ?g = "g\<lparr>org_memberships := (org_memberships g)[n' := ?r]\<rparr>"
  have promoted: "org_ok ?g"
  proof (rule org_ok_update [OF ok])
    show "\<exists>x \<in> set ((org_memberships g)[n' := ?r]). is_active_owner x"
      using edge_transfer by (intro bexI [of _ ?r])
        (auto simp: is_active_owner_def is_eligible_at_def intro: set_update_memI)
  qed (use edge_transfer org_ok_nth [OF ok, of n'] in \<open>auto simp: membership_ok_def is_eligible_at_def\<close>)
  have "org_ok (?g\<lparr>org_memberships := (org_memberships ?g)[n := ?p]\<rparr>)"
  proof (rule org_ok_update [OF promoted])
    show "\<exists>x \<in> set ((org_memberships ?g)[n := ?p]). is_active_owner x"
      using edge_transfer by (intro active_owner_survives [of n'])
        (auto simp: is_active_owner_def is_eligible_at_def)
  qed (use edge_transfer org_ok_nth [OF ok, of n] in \<open>auto simp: membership_ok_def\<close>)
  with edge_transfer show ?thesis by (simp add: list_update_swap)
qed

section \<open>Versions\<close>

text \<open>
  The cost of a history over natural numbers, the kinds and expiries that decide the ownership
  surcharges, and whether an odd surcharge of one or of three steps is available.
\<close>

definition member_cost :: "Membership \<Rightarrow> nat" where
  "member_cost m = length (mbr_team_ids m) + (if mbr_state m = MembershipActive then 0 else 1)"

definition kinds :: "Organization \<Rightarrow> (MembershipKind \<times> UserUtcTimestamp option) list" where
  "kinds g = map (\<lambda>m. (mbr_kind m, mbr_expires_at m)) (org_memberships g)"

definition history_cost :: "Organization \<Rightarrow> nat" where
  "history_cost g =
     (length (org_memberships g) - 1) + length (org_teams g)
     + sum_list (map member_cost (org_memberships g))
     + (if fst (hd (kinds g)) = MemberKind then 1 else 0)
     + (if org_state g = OrgFrozen then 1 else 0)"

definition lasting :: "(MembershipKind \<times> UserUtcTimestamp option) list \<Rightarrow> nat" where
  "lasting ks = length (filter (\<lambda>k. snd k = None) ks)"

definition owners :: "(MembershipKind \<times> UserUtcTimestamp option) list \<Rightarrow> nat" where
  "owners ks = length (filter (\<lambda>k. fst k = OwnerKind) ks)"

definition one_step_kinds :: "(MembershipKind \<times> UserUtcTimestamp option) list \<Rightarrow> bool" where
  "one_step_kinds ks \<longleftrightarrow>
     3 \<le> lasting ks
     \<and> (fst (hd ks) = MemberKind
        \<or> (OwnerKind, None) \<in> set (tl ks) \<and> (MemberKind, None) \<in> set (tl ks))"

definition three_step_kinds :: "(MembershipKind \<times> UserUtcTimestamp option) list \<Rightarrow> bool" where
  "three_step_kinds ks \<longleftrightarrow> 3 \<le> lasting ks \<and> (OwnerKind, None) \<in> set ks \<and> (MemberKind, None) \<in> set ks"

definition suspendable :: "Organization \<Rightarrow> Membership \<Rightarrow> bool" where
  "suspendable g m \<longleftrightarrow> mbr_kind m \<noteq> OwnerKind \<or> 1 < owners (kinds g)"

definition one_step :: "Organization \<Rightarrow> bool" where
  "one_step g \<longleftrightarrow>
     one_step_kinds (kinds g)
     \<or> (\<exists>m \<in> set (org_memberships g). suspendable g m
          \<and> (mbr_state m = MembershipLeft \<or> mbr_state m = MembershipSuspended \<and> org_teams g \<noteq> []))"

definition three_step :: "Organization \<Rightarrow> bool" where
  "three_step g \<longleftrightarrow>
     three_step_kinds (kinds g)
     \<or> (\<exists>m \<in> set (org_memberships g). suspendable g m \<and> mbr_state m = MembershipActive \<and> org_teams g \<noteq> [])"

definition version_admitted :: "Organization \<Rightarrow> nat \<Rightarrow> bool" where
  "version_admitted g v \<longleftrightarrow>
     (\<exists>offset. v = 1 + history_cost g + offset
        \<and> (odd offset \<longrightarrow> one_step g \<or> three_step g \<and> 3 \<le> offset))"

text \<open>The three ways a step keeps the version admitted.\<close>

lemma admitted_step:
  assumes "version_admitted g v" and "history_cost g' + d = history_cost g + 1"
    and "one_step g' \<and> 0 < d
      \<or> d = 0 \<and> (one_step g \<longrightarrow> one_step g') \<and> (three_step g \<longrightarrow> one_step g' \<or> three_step g')
      \<or> d = 2 \<and> (one_step g \<or> three_step g \<longrightarrow> one_step g' \<or> three_step g')"
  shows "version_admitted g' (v + 1)"
proof -
  from assms(1) obtain offset where v: "v = 1 + history_cost g + offset"
    and o: "odd offset \<longrightarrow> one_step g \<or> three_step g \<and> 3 \<le> offset"
    by (auto simp: version_admitted_def)
  have "v + 1 = 1 + history_cost g' + (offset + d)" using v assms(2) by simp
  moreover have "one_step g' \<or> three_step g' \<and> 3 \<le> offset + d" if "odd (offset + d)"
    using assms(3) that o by (auto elim: oddE)
  ultimately show ?thesis unfolding version_admitted_def by blast
qed

lemma sum_update:
  "n < length xs \<Longrightarrow> sum_list (map f (xs[n := y])) + f (xs ! n) = sum_list (map f xs) + (f y :: nat)"
proof (induction xs arbitrary: n)
  case (Cons x xs)
  then show ?case by (cases n) (auto simp: add.left_commute add.commute add.assoc)
qed simp

text \<open>A change of the state and the teams of one membership leaves the kinds as they are.\<close>

lemma member_update:
  assumes "n < length (org_memberships g)" and "mbr_kind y = mbr_kind (org_memberships g ! n)"
    and "mbr_expires_at y = mbr_expires_at (org_memberships g ! n)"
    and "g' = g\<lparr>org_memberships := (org_memberships g)[n := y]\<rparr>"
  shows "kinds g' = kinds g"
    and "history_cost g' + member_cost (org_memberships g ! n) = history_cost g + member_cost y"
    and "\<And>m. suspendable g' m = suspendable g m"
proof -
  show k: "kinds g' = kinds g"
    using assms by (auto simp: kinds_def map_update_same)
  then show "suspendable g' m = suspendable g m" for m
    by (simp add: suspendable_def)
  show "history_cost g' + member_cost (org_memberships g ! n) = history_cost g + member_cost y"
    using k sum_update [OF assms(1), of member_cost y] assms(4) by (simp add: history_cost_def)
qed

text \<open>Every other membership stays where it is.\<close>

lemma set_update_other:
  assumes "m \<in> set xs" and "m \<noteq> xs ! n"
  shows "m \<in> set (xs[n := y])"
  using assms by (metis in_set_conv_nth length_list_update nth_list_update_neq)

lemma count_at_least:
  assumes "I \<subseteq> {i. i < length xs \<and> P (xs ! i)}"
  shows "card I \<le> length (filter P xs)"
  unfolding length_filter_conv_card using assms by (intro card_mono) auto

lemma owners_iff: "owners (kinds g) = card {i. i < length (org_memberships g) \<and> mbr_kind (org_memberships g ! i) = OwnerKind}"
  by (auto simp: owners_def kinds_def length_filter_conv_card intro!: arg_cong [of _ _ card])

lemma lasting_three:
  assumes "i < length ks" "j < length ks" "k < length ks" "i \<noteq> j" "i \<noteq> k" "j \<noteq> k"
    and "snd (ks ! i) = None" "snd (ks ! j) = None" "snd (ks ! k) = None"
  shows "3 \<le> lasting ks"
  using assms count_at_least [of "{i, j, k}" ks "\<lambda>x. snd x = None"] by (auto simp: lasting_def)

lemma lasting_update: "lasting ks \<le> lasting (ks[i := (k, None)])"
proof (induction ks arbitrary: i)
  case (Cons x ks)
  then show ?case by (cases i) (auto simp: lasting_def intro: le_SucI)
qed simp

text \<open>A membership that may be suspended or left without losing the last active owner.\<close>

lemma guarded_is_suspendable:
  assumes ok: "org_ok g" and n: "n < length (org_memberships g)"
    and owner: "is_active_owner (org_memberships g ! n) \<longrightarrow> active_owner_count g \<noteq> 1"
  shows "suspendable g (org_memberships g ! n)"
proof (cases "mbr_kind (org_memberships g ! n) = OwnerKind")
  case True
  from ok have "\<exists>m \<in> set (org_memberships g). is_active_owner m" by (simp add: org_ok_def)
  from other_active_owner [OF n this owner] obtain k where
    k: "k < length (org_memberships g)" "k \<noteq> n" "is_active_owner (org_memberships g ! k)" .
  have "card {n, k} \<le> length (filter (\<lambda>m. mbr_kind m = OwnerKind) (org_memberships g))"
    using n k True by (intro count_at_least) (auto simp: is_active_owner_def)
  with k show ?thesis by (simp add: suspendable_def owners_iff length_filter_conv_card)
qed (simp add: suspendable_def)

lemma cleared_member_admitted:
  assumes ok: "org_ok g" and v: "version_admitted g v" and n: "n < length (org_memberships g)"
    and live: "mbr_state (org_memberships g ! n) \<noteq> MembershipLeft"
    and st: "st = MembershipLeft \<or> st = MembershipSuspended \<and> mbr_state (org_memberships g ! n) = MembershipActive"
    and owner: "is_active_owner (org_memberships g ! n) \<longrightarrow> active_owner_count g \<noteq> 1"
    and g': "g' = g\<lparr>org_memberships := (org_memberships g)
                [n := (org_memberships g ! n)\<lparr>mbr_team_ids := [], mbr_state := st\<rparr>]\<rparr>"
  shows "version_admitted g' (v + 1)"
proof -
  define m where "m = org_memberships g ! n"
  define y where "y = m\<lparr>mbr_team_ids := [], mbr_state := st\<rparr>"
  have y: "y \<in> set (org_memberships g')" using n by (simp add: g' y_def m_def set_update_memI)
  have stays: "x \<in> set (org_memberships g')" if "x \<in> set (org_memberships g)" "x \<noteq> m" for x
    using that by (simp add: g' m_def set_update_other)
  note u = member_update [OF n _ _ g', simplified]
  have teams: "org_teams g' = org_teams g" by (simp add: g')
  have "suspendable g m" unfolding m_def by (rule guarded_is_suspendable [OF ok n owner])
  then have sus: "suspendable g' y" by (simp add: u suspendable_def y_def)
  have cost: "history_cost g' + member_cost m = history_cost g + 1"
    using u(2) st by (auto simp: member_cost_def m_def)
  have ok_m: "membership_ok (team_identity ` set (org_teams g)) m"
    using org_ok_nth [OF ok n] by (simp add: m_def)
  have one: "one_step g'" if "st = MembershipLeft \<or> org_teams g \<noteq> []"
    using that st y sus teams by (auto simp: one_step_def y_def)
  show ?thesis
  proof (rule admitted_step [OF v cost])
    have "one_step g'" if "0 < member_cost m"
    proof (rule one)
      show "st = MembershipLeft \<or> org_teams g \<noteq> []"
        using that st ok_m by (auto simp: member_cost_def m_def membership_ok_def)
    qed
    moreover have "one_step g'" if "one_step g" "member_cost m = 0"
    proof -
      have "mbr_state m = MembershipActive"
        using \<open>member_cost m = 0\<close> by (auto simp: member_cost_def split: if_splits)
      with \<open>one_step g\<close> show ?thesis
        by (auto simp: one_step_def u teams dest!: stays)
    qed
    moreover have "one_step g' \<or> three_step g'" if "three_step g"
    proof (cases "three_step_kinds (kinds g)")
      case True
      then show ?thesis by (simp add: three_step_def u)
    next
      case False
      with that obtain x where x: "x \<in> set (org_memberships g)" "suspendable g x"
        "mbr_state x = MembershipActive" "org_teams g \<noteq> []"
        by (auto simp: three_step_def)
      show ?thesis
      proof (cases "x = m")
        case True
        with one x show ?thesis by blast
      next
        case False
        with x show ?thesis by (auto simp: three_step_def u teams dest: stays)
      qed
    qed
    ultimately show "one_step g' \<and> 0 < member_cost m
      \<or> member_cost m = 0 \<and> (one_step g \<longrightarrow> one_step g') \<and> (three_step g \<longrightarrow> one_step g' \<or> three_step g')
      \<or> member_cost m = 2 \<and> (one_step g \<or> three_step g \<longrightarrow> one_step g' \<or> three_step g')"
      by (cases "member_cost m = 0") auto
  qed
qed

text \<open>A transfer of ownership, over the kinds.\<close>

lemma set_update_two: "n < length xs \<Longrightarrow> n \<noteq> n' \<Longrightarrow> y \<in> set (xs[n := y, n' := z])"
  by (metis length_list_update list_update_swap set_update_memI)

lemma transferred_kinds:
  assumes ok: "org_ok g" and n: "n < length (org_memberships g)" "m = org_memberships g ! n" "mbr_kind m = OwnerKind"
    and n': "n' < length (org_memberships g)" "m' = org_memberships g ! n'" "mbr_kind m' = MemberKind"
    and g': "g' = g\<lparr>org_memberships := (org_memberships g)
                [n := m\<lparr>mbr_kind := MemberKind\<rparr>, n' := m'\<lparr>mbr_kind := OwnerKind, mbr_expires_at := None\<rparr>]\<rparr>"
  shows "kinds g' = (kinds g)[n := (MemberKind, None), n' := (OwnerKind, None)]"
    and "map member_cost (org_memberships g') = map member_cost (org_memberships g)"
    and "lasting (kinds g) \<le> lasting (kinds g')"
    and "1 < owners (kinds g) \<Longrightarrow> 3 \<le> lasting (kinds g')"
proof -
  have e: "mbr_expires_at m = None"
    using org_ok_nth [OF ok n(1)] n by (auto simp: membership_ok_def)
  then show k: "kinds g' = (kinds g)[n := (MemberKind, None), n' := (OwnerKind, None)]"
    using n by (simp add: g' kinds_def map_update)
  show "map member_cost (org_memberships g') = map member_cost (org_memberships g)"
  proof -
    have "member_cost (m\<lparr>mbr_kind := MemberKind\<rparr>) = member_cost m"
      "member_cost (m'\<lparr>mbr_kind := OwnerKind, mbr_expires_at := None\<rparr>) = member_cost m'"
      by (simp_all add: member_cost_def)
    moreover have "n \<noteq> n'" using n n' by auto
    ultimately show ?thesis using n n' by (simp add: g' map_update_same)
  qed
  show "lasting (kinds g) \<le> lasting (kinds g')"
    unfolding k by (rule order_trans [OF lasting_update lasting_update])
  show "3 \<le> lasting (kinds g')" if "1 < owners (kinds g)"
  proof -
    let ?I = "{i. i < length (org_memberships g) \<and> mbr_kind (org_memberships g ! i) = OwnerKind}"
    have "card ?I \<noteq> card {n}" using that unfolding owners_iff by simp
    then have "?I \<noteq> {n}" by (rule contrapos_nn) (rule arg_cong)
    moreover have "n \<in> ?I" using n by simp
    ultimately obtain j where j: "j \<in> ?I" "j \<noteq> n" by blast
    then have "j \<noteq> n'" "n \<noteq> n'" using n n' by auto
    moreover have "mbr_expires_at (org_memberships g ! j) = None"
      using org_ok_nth [OF ok, of j] j by (auto simp: membership_ok_def)
    ultimately show ?thesis
      unfolding k using n n' j by (intro lasting_three [of n _ n' j]) (auto simp: kinds_def)
  qed
qed

lemma hd_update: "xs \<noteq> [] \<Longrightarrow> hd (xs[n := y]) = (if n = 0 then y else hd xs)"
  by (cases xs; cases n) auto

lemma tl_update: "0 < n \<Longrightarrow> tl (xs[n := y]) = (tl xs)[n - 1 := y]"
  by (cases xs; cases n) auto

lemma transfer_admitted:
  assumes ok: "org_ok g" and v: "version_admitted g v"
    and n: "n < length (org_memberships g)" "m = org_memberships g ! n" "mbr_kind m = OwnerKind"
      "mbr_state m = MembershipActive"
    and n': "n' < length (org_memberships g)" "m' = org_memberships g ! n'" "mbr_kind m' = MemberKind"
      "mbr_state m' = MembershipActive"
    and g': "g' = g\<lparr>org_memberships := (org_memberships g)
                [n := m\<lparr>mbr_kind := MemberKind\<rparr>, n' := m'\<lparr>mbr_kind := OwnerKind, mbr_expires_at := None\<rparr>]\<rparr>"
  shows "version_admitted g' (v + 1)"
proof -
  note t = transferred_kinds [OF ok n(1-3) n'(1-3) g']
  have ne: "n \<noteq> n'" using n n' by auto
  have some: "kinds g \<noteq> []" "length (kinds g) = length (org_memberships g)" using n(1) by (auto simp: kinds_def)
  have kn: "kinds g ! n = (OwnerKind, mbr_expires_at m)" "kinds g ! n' = (MemberKind, mbr_expires_at m')"
    using n n' by (simp_all add: kinds_def)
  have hd_kinds: "fst (hd (kinds g')) = (if n = 0 then MemberKind else if n' = 0 then OwnerKind else fst (hd (kinds g)))"
    using some ne by (simp add: t(1) hd_update)
  have first: "fst (hd (kinds g)) = fst (kinds g ! 0)" "snd (kinds g ! 0) = None"
  proof -
    show "fst (hd (kinds g)) = fst (kinds g ! 0)" using some by (simp add: hd_conv_nth)
    have "mbr_origin (org_memberships g ! 0) = FounderOrigin"
      using ok by (cases "org_memberships g") (auto simp: org_ok_def founder_first_def)
    moreover have "0 < length (org_memberships g)" using n(1) by (rule le_less_trans [OF le0])
    ultimately show "snd (kinds g ! 0) = None"
      using org_ok_nth [OF ok, of 0] by (auto simp: membership_ok_def kinds_def)
  qed
  have lengths: "length (org_memberships g') = length (org_memberships g)" "org_teams g' = org_teams g"
    "org_state g' = org_state g" by (simp_all add: g')
  have cost: "history_cost g' + (if n = 0 then 0 else if n' = 0 then 2 else 1) = history_cost g + 1"
    using hd_kinds first ne kn by (auto simp: history_cost_def t(2) lengths)
  text \<open>Below three lasting memberships the demoted owner takes the place of the recipient.\<close>
  have demoted: "m\<lparr>mbr_kind := MemberKind\<rparr> \<in> set (org_memberships g')"
    using n ne by (simp add: g' set_update_two)
  have stays: "x \<in> set (org_memberships g')" if "x \<in> set (org_memberships g)" "x \<noteq> m" "x \<noteq> m'" for x
    using that n n' ne by (simp add: g' set_update_other)
  have one: "one_step g'" if "one_step g" "\<not> 3 \<le> lasting (kinds g')"
  proof -
    from that t obtain x where x: "x \<in> set (org_memberships g)" "mbr_kind x \<noteq> OwnerKind"
        "mbr_state x = MembershipLeft \<or> mbr_state x = MembershipSuspended \<and> org_teams g \<noteq> []"
      by (auto simp: one_step_def one_step_kinds_def suspendable_def)
    then have "x \<in> set (org_memberships g')" using n n' by (intro stays) auto
    with x show ?thesis by (auto simp: one_step_def suspendable_def lengths)
  qed
  have three: "three_step g'" if "three_step g" "\<not> 3 \<le> lasting (kinds g')"
  proof -
    from that t obtain x where "org_teams g \<noteq> []"
      by (auto simp: three_step_def three_step_kinds_def suspendable_def)
    with demoted n show ?thesis
      unfolding three_step_def
      by (intro disjI2 bexI [of _ "m\<lparr>mbr_kind := MemberKind\<rparr>"]) (simp_all add: suspendable_def lengths)
  qed
  show ?thesis
  proof (rule admitted_step [OF v cost])
    consider "n = 0" | "n \<noteq> 0" "n' = 0" | "n \<noteq> 0" "n' \<noteq> 0" by blast
    then show "one_step g' \<and> (0::nat) < (if n = 0 then 0 else if n' = 0 then 2 else 1)
      \<or> (if n = 0 then 0 else if n' = 0 then 2 else 1) = (0::nat)
         \<and> (one_step g \<longrightarrow> one_step g') \<and> (three_step g \<longrightarrow> one_step g' \<or> three_step g')
      \<or> (if n = 0 then 0 else if n' = 0 then 2 else 1) = (2::nat)
         \<and> (one_step g \<or> three_step g \<longrightarrow> one_step g' \<or> three_step g')"
    proof cases
      case 1
      have "one_step g'" if "3 \<le> lasting (kinds g')"
        using that hd_kinds 1 by (simp add: one_step_def one_step_kinds_def)
      with one three 1 show ?thesis by auto
    next
      case 2
      have "three_step g'" if "3 \<le> lasting (kinds g')"
      proof -
        have "(MemberKind, None) \<in> set (kinds g')" "(OwnerKind, None) \<in> set (kinds g')"
          using n n' ne some by (auto simp: t(1) intro: set_update_memI set_update_two)
        with that show ?thesis by (simp add: three_step_def three_step_kinds_def)
      qed
      with one three 2 show ?thesis by auto
    next
      case 3
      have "3 \<le> lasting (kinds g')"
        using 3 n n' ne first some by (intro lasting_three [of 0 _ n n']) (auto simp: t(1))
      moreover have "(MemberKind, None) \<in> set (tl (kinds g'))" "(OwnerKind, None) \<in> set (tl (kinds g'))"
        using 3 n n' ne some
        by (auto simp: t(1) tl_update intro!: set_update_memI set_update_two)
      ultimately have "one_step g'"
        by (simp add: one_step_def one_step_kinds_def)
      with 3 show ?thesis by simp
    qed
  qed
qed

lemma steps_kept:
  assumes "kinds g' = kinds g" and "org_teams g' = org_teams g"
    and image: "\<And>z. z \<in> set (org_memberships g) \<Longrightarrow>
      \<exists>x \<in> set (org_memberships g'). mbr_kind x = mbr_kind z \<and> mbr_state x = mbr_state z"
  shows "one_step g \<Longrightarrow> one_step g'" and "three_step g \<Longrightarrow> three_step g'"
proof -
  have kept: "\<exists>x \<in> set (org_memberships g'). suspendable g' x \<and> P (mbr_state x)"
    if "z \<in> set (org_memberships g)" "suspendable g z" "P (mbr_state z)" for z P
  proof -
    from image [OF that(1)] obtain x where
      "x \<in> set (org_memberships g')" "mbr_kind x = mbr_kind z" "mbr_state x = mbr_state z" by blast
    with that(2,3) assms(1) show ?thesis by (intro bexI [of _ x]) (simp_all add: suspendable_def)
  qed
  show "one_step g'" if "one_step g"
    using that kept [of _ "\<lambda>st. st = MembershipLeft \<or> st = MembershipSuspended \<and> org_teams g \<noteq> []"] assms(1,2)
    unfolding one_step_def by metis
  show "three_step g'" if "three_step g"
    using that kept [of _ "\<lambda>st. st = MembershipActive \<and> org_teams g \<noteq> []"] assms(1,2)
    unfolding three_step_def by metis
qed

lemma edge_keeps_admitted:
  assumes "org_edge g at kind g'" and ok: "org_ok g" and v: "version_admitted g v"
  shows "version_admitted g' (v + 1)"
  using assms(1)
proof cases
  case (edge_state st)
  then have same: "one_step g' = one_step g" "three_step g' = three_step g"
    and cost: "history_cost g' + (if st = OrgFrozen then 0 else 2) = history_cost g + 1"
    by (cases st; cases "org_state g"; simp add: one_step_def three_step_def suspendable_def kinds_def history_cost_def)+
  show ?thesis by (rule admitted_step [OF v cost]) (simp add: same)
next
  case (edge_add i u og k e)
  have some: "org_memberships g \<noteq> []" using ok by (auto simp: org_ok_def founder_first_def)
  then have k: "kinds g' = kinds g @ [(k, e)]" "kinds g \<noteq> []" using edge_add by (simp_all add: kinds_def)
  have mono: "lasting (kinds g) \<le> lasting (kinds g')" "owners (kinds g) \<le> owners (kinds g')"
    by (simp_all add: k lasting_def owners_def)
  then have "one_step_kinds (kinds g) \<Longrightarrow> one_step_kinds (kinds g')"
    "three_step_kinds (kinds g) \<Longrightarrow> three_step_kinds (kinds g')"
    using k by (auto simp: one_step_kinds_def three_step_kinds_def)
  moreover have "suspendable g m \<Longrightarrow> suspendable g' m" for m using mono by (auto simp: suspendable_def)
  ultimately have step: "one_step g \<longrightarrow> one_step g'" "three_step g \<longrightarrow> three_step g'"
    using edge_add by (auto simp: one_step_def three_step_def)
  have "history_cost g' + 0 = history_cost g + 1"
    using edge_add some k by (cases "org_memberships g") (auto simp: history_cost_def member_cost_def)
  from admitted_step [OF v this] step show ?thesis by blast
next
  case (edge_suspend n m)
  with cleared_member_admitted [OF ok v, of n MembershipSuspended g'] show ?thesis
    by (simp add: is_active_owner_def)
next
  case (edge_activate n m)
  define y where "y = m\<lparr>mbr_state := MembershipActive\<rparr>"
  have g': "g' = g\<lparr>org_memberships := (org_memberships g)[n := y]\<rparr>" using edge_activate by (simp add: y_def)
  have n: "n < length (org_memberships g)" using edge_activate by simp
  note u = member_update [OF n _ _ g'] 
  have same: "mbr_kind y = mbr_kind (org_memberships g ! n)" "mbr_expires_at y = mbr_expires_at (org_memberships g ! n)"
    using edge_activate by (simp_all add: y_def)
  have y: "y \<in> set (org_memberships g')" "mbr_kind y = mbr_kind m" "mbr_state y = MembershipActive"
    using n by (simp_all add: g' y_def set_update_memI)
  have teams: "org_teams g' = org_teams g" by (simp add: g')
  have "mbr_team_ids m = []" using org_ok_nth [OF ok n] edge_activate by (simp add: membership_ok_def)
  then have cost: "history_cost g' + 2 = history_cost g + 1"
    using u(2) [OF same] edge_activate by (simp add: member_cost_def y_def)
  have "one_step g' \<or> three_step g'" if "one_step g \<or> three_step g"
  proof (cases "one_step_kinds (kinds g) \<or> three_step_kinds (kinds g)")
    case True
    then show ?thesis using u(1) [OF same] by (auto simp: one_step_def three_step_def)
  next
    case False
    with that obtain x where x: "x \<in> set (org_memberships g)" "suspendable g x"
      "mbr_state x = MembershipLeft \<or> org_teams g \<noteq> []"
      by (auto simp: one_step_def three_step_def)
    show ?thesis
    proof (cases "x = m")
      case True
      with x edge_activate have "suspendable g' y" "org_teams g' \<noteq> []"
        using u(3) [OF same] y by (auto simp: suspendable_def teams)
      with y show ?thesis by (auto simp: three_step_def)
    next
      case False
      with x edge_activate have "x \<in> set (org_memberships g')" by (simp add: set_update_other)
      with x show ?thesis
        using u(3) [OF same] teams by (cases "mbr_state x") (auto simp: one_step_def three_step_def)
    qed
  qed
  with admitted_step [OF v cost] show ?thesis by blast
next
  case (edge_leave n m)
  with cleared_member_admitted [OF ok v, of n MembershipLeft g'] show ?thesis
    by (simp add: is_active_owner_def)
next
  case (edge_team tid)
  then have k: "kinds g' = kinds g" "org_memberships g' = org_memberships g" "org_teams g' \<noteq> []"
    by (simp_all add: kinds_def)
  then have step: "one_step g \<longrightarrow> one_step g'" "three_step g \<longrightarrow> three_step g'"
    by (auto simp: one_step_def three_step_def suspendable_def)
  have "history_cost g' + 0 = history_cost g + 1"
    using edge_team k by (simp add: history_cost_def)
  from admitted_step [OF v this] step show ?thesis by blast
next
  case (edge_assign n m tid)
  define y where "y = m\<lparr>mbr_team_ids := mbr_team_ids m @ [tid]\<rparr>"
  have g': "g' = g\<lparr>org_memberships := (org_memberships g)[n := y]\<rparr>" using edge_assign by (simp add: y_def)
  have n: "n < length (org_memberships g)" using edge_assign by simp
  note u = member_update [OF n _ _ g'] 
  have same: "mbr_kind y = mbr_kind (org_memberships g ! n)" "mbr_expires_at y = mbr_expires_at (org_memberships g ! n)"
    using edge_assign by (simp_all add: y_def)
  have step: "\<exists>x \<in> set (org_memberships g'). mbr_kind x = mbr_kind z \<and> mbr_state x = mbr_state z"
    if "z \<in> set (org_memberships g)" for z
  proof (cases "z = m")
    case True
    then show ?thesis using n by (intro bexI [of _ y]) (auto simp: y_def g' set_update_memI)
  next
    case False
    with that edge_assign show ?thesis by (intro bexI [of _ z]) (auto simp: set_update_other)
  qed
  have "one_step g \<longrightarrow> one_step g'" "three_step g \<longrightarrow> three_step g'"
    using steps_kept [OF u(1) [OF same] _ step] by (simp_all add: g')
  moreover have "history_cost g' + 0 = history_cost g + 1"
    using u(2) [OF same] edge_assign by (simp add: member_cost_def y_def)
  ultimately show ?thesis using admitted_step [OF v] by blast
next
  case (edge_transfer n m n' m' transfer approver)
  with transfer_admitted [OF ok v, of n m n' m' g'] show ?thesis by (simp add: is_eligible_at_def)
qed

end
