(* ===== verification/Organization_Properties.thy ===== *)
theory Organization_Properties
  imports Organization_Invariant
begin

text \<open>
  Properties of reachable organizations: they are restored from their own snapshots, the log of their
  events replays to the organization it was emitted by, and they always keep an owner.
\<close>

section \<open>Reachable organizations and their logs\<close>

text \<open>
  A command carries parsed identities: that of the organization is valid and that of the tenant is
  not empty.
\<close>

inductive org_history :: "CreateOrganizationCommand \<Rightarrow> OrganizationEvent list \<Rightarrow> Organization \<Rightarrow> bool"
  for creation where
  history_created:
    "organization_id_parse (coc_organization_id creation) = Inr (coc_organization_id creation) \<Longrightarrow>
     coc_tenant_id creation \<noteq> [] \<Longrightarrow> create_organization creation = Inr t \<Longrightarrow>
     org_history creation [otr_event t] (otr_organization t)"
| history_moves:
    "org_history creation events g \<Longrightarrow> transition_organization g command = Inr t \<Longrightarrow>
     org_history creation (events @ [otr_event t]) (otr_organization t)"

definition org_init :: "Organization \<Rightarrow> bool" where
  "org_init g \<longleftrightarrow>
     (\<exists>creation t. organization_id_parse (coc_organization_id creation) = Inr (coc_organization_id creation)
        \<and> coc_tenant_id creation \<noteq> [] \<and> create_organization creation = Inr t \<and> g = otr_organization t)"

definition org_step :: "Organization \<Rightarrow> OrganizationCommand \<Rightarrow> Organization \<Rightarrow> bool" where
  "org_step g command g' \<longleftrightarrow> (\<exists>t. transition_organization g command = Inr t \<and> g' = otr_organization t)"

definition org_reachable :: "Organization \<Rightarrow> bool" where
  "org_reachable g \<longleftrightarrow> reachable org_init org_step g"

lemma history_reachable: "org_history creation events g \<Longrightarrow> org_reachable g"
proof (induction rule: org_history.induct)
  case (history_created t)
  then have "org_init (otr_organization t)" by (auto simp: org_init_def)
  then show ?case by (simp add: org_reachable_def reachable_init)
next
  case (history_moves events g command t)
  then have "org_step g command (otr_organization t)" by (auto simp: org_step_def)
  with history_moves.IH show ?case unfolding org_reachable_def by (rule reachable_step)
qed

text \<open>The organization a log describes: its first event is the creation, the others are replayed.\<close>

fun replay_log :: "Organization \<Rightarrow> OrganizationEvent list \<Rightarrow> (OrganizationError, Organization) result" where
  "replay_log g [] = Inr g"
| "replay_log g (event # events) =
     bind_result (replay_persisted_event g event) (\<lambda>g'. replay_log g' events)"

lemma replay_log_append:
  "replay_log g (es @ fs) = bind_result (replay_log g es) (\<lambda>g'. replay_log g' fs)"
proof (induction es arbitrary: g)
  case (Cons e es)
  then show ?case by (cases "replay_persisted_event g e") simp_all
qed simp

lemma create_organization_ok:
  "create_organization creation = Inr t \<Longrightarrow>
     otr_organization t = initial_organization creation \<and> oev_version (otr_event t) = 1
     \<and> is_creation (oev_kind (otr_event t))"
  by (auto simp: create_organization_def OrganizationVersion_initial_def split: if_splits)

lemma initial_organization_ok:
  "org_ok (initial_organization creation) \<and> version_admitted (initial_organization creation) 1"
  by (auto simp: initial_organization_def org_ok_def MAX_MEMBERSHIPS_def MAX_TEAMS_def membership_ok_def
      founder_first_def is_active_owner_def version_admitted_def history_cost_def kinds_def member_cost_def
      MAX_TEAM_ASSIGNMENTS_def)

definition org_inv :: "Organization \<Rightarrow> bool" where
  "org_inv g \<longleftrightarrow>
     org_ok g \<and> version_admitted g (unat (org_version g)) \<and> org_id g \<noteq> [] \<and> org_tenant_id g \<noteq> []"

lemma transition_advances:
  assumes "transition_organization g command = Inr t"
  shows "unat (org_version (otr_organization t)) = unat (org_version g) + 1
    \<and> org_id (otr_organization t) = org_id g \<and> org_tenant_id (otr_organization t) = org_tenant_id g"
proof -
  from transition_organization_edge [OF assms] obtain at changed kind audit where
    e: "org_edge g at kind changed" and f: "finish_evolution g changed audit kind = Inr t"
    by (auto simp: evolves_def)
  from e have "org_id changed = org_id g \<and> org_tenant_id changed = org_tenant_id g" by cases auto
  with finish_evolution_ok [OF f] show ?thesis by auto
qed

lemma transition_keeps:
  assumes "transition_organization g command = Inr t" and "org_inv g"
  shows "org_inv (otr_organization t)"
proof -
  from transition_organization_edge [OF assms(1)] obtain at changed kind audit where
    e: "org_edge g at kind changed" and f: "finish_evolution g changed audit kind = Inr t"
    by (auto simp: evolves_def)
  from finish_evolution_ok [OF f] obtain v where v: "unat v = unat (org_version g) + 1"
    and t: "otr_organization t = changed\<lparr>org_version := v\<rparr>" by blast
  have "version_admitted changed (unat v)" "org_ok changed"
    using edge_keeps_admitted [OF e] edge_keeps_ok [OF e] assms(2) by (simp_all add: v org_inv_def)
  moreover have "org_ok (changed\<lparr>org_version := v\<rparr>) = org_ok changed"
    "version_admitted (changed\<lparr>org_version := v\<rparr>) n = version_admitted changed n" for n
    by (simp_all add: org_ok_def version_admitted_def history_cost_def kinds_def one_step_def three_step_def
        suspendable_def)
  ultimately show ?thesis
    using transition_advances [OF assms(1)] assms(2) by (simp add: t org_inv_def)
qed

lemma created_inv: "org_init g \<Longrightarrow> org_inv g \<and> org_version g = 1"
proof -
  assume "org_init g"
  then obtain creation where c: "organization_id_parse (coc_organization_id creation) = Inr (coc_organization_id creation)"
    "coc_tenant_id creation \<noteq> []" "g = initial_organization creation"
    by (auto simp: org_init_def create_organization_ok)
  moreover have "org_version (initial_organization creation) = 1"
    "org_id (initial_organization creation) = coc_organization_id creation"
    "org_tenant_id (initial_organization creation) = coc_tenant_id creation"
    by (simp_all add: initial_organization_def OrganizationVersion_initial_def)
  ultimately show ?thesis
    using initial_organization_ok [of creation]
    by (auto simp: org_inv_def organization_id_parse_def valid_organization_id_def split: if_splits)
qed

section \<open>Restoring a snapshot\<close>

lemma snapshot_membership_fields [simp]:
  "msn_id (snapshot_membership m) = mbr_id m"
  "msn_user_id (snapshot_membership m) = mbr_user_id m"
  "msn_kind (snapshot_membership m) = mbr_kind m"
  "msn_state (snapshot_membership m) = mbr_state m"
  "msn_origin (snapshot_membership m) = mbr_origin m"
  "msn_expires_at (snapshot_membership m) = mbr_expires_at m"
  by (cases "mbr_state m"; simp add: snapshot_membership_def)+

lemma snapshot_membership_teams:
  assumes "membership_ok T m"
  shows "msn_team_ids (snapshot_membership m) = mbr_team_ids m"
    and "into_membership (snapshot_membership m) = m"
  using assms
  by (cases "mbr_state m"; cases m; simp add: snapshot_membership_def membership_ok_def)+

lemma unique_identities_ok:
  "unique_identities ids us ms = Inr u \<longleftrightarrow>
     distinct (map msn_id ms) \<and> distinct (map msn_user_id ms)
     \<and> msn_id ` set ms \<inter> set ids = {} \<and> msn_user_id ` set ms \<inter> set us = {}"
  by (induction ids us ms rule: unique_identities.induct) auto

lemma assignments_known_ok:
  "assignments_known seen T ts = Inr u \<longleftrightarrow> distinct ts \<and> set ts \<subseteq> T \<and> set ts \<inter> set seen = {}"
  by (induction seen T ts rule: assignments_known.induct) auto

lemma validate_membership_snapshot:
  assumes "membership_ok T m"
  shows "validate_membership T (snapshot_membership m) = Inr ()"
  using assms snapshot_membership_teams [OF assms]
  by (auto simp: validate_membership_def validate_membership_expiry_def validate_membership_assignments_def
      validate_assignment_capacity_def validate_assignment_state_def validate_assignment_ids_def
      assignments_known_ok membership_ok_def results)

lemma add_version_cost_ok:
  assumes "unat value + cost < 2 ^ 64"
  shows "\<exists>w. add_version_cost value cost = Inr w \<and> unat w = unat value + cost"
proof -
  have "try_word cost = Some (of_nat cost :: u64)" using assms by (simp add: try_word_def)
  moreover have "checked_add value (of_nat cost) = Some (value + of_nat cost)"
    "unat (value + of_nat cost) = unat value + cost"
    using assms by (simp_all add: checked_add_def unat_of_nat unat_plus_exact)
  ultimately show ?thesis by (simp add: add_version_cost_def)
qed

lemma membership_costs_ok:
  assumes "cost + sum_list (map member_cost ms) < 2 ^ 64" and "\<forall>m \<in> set ms. membership_ok T m"
  shows "membership_costs cost (map snapshot_membership ms) = Inr (cost + sum_list (map member_cost ms))"
  using assms
proof (induction ms arbitrary: cost)
  case (Cons m ms)
  then have "cost + member_cost m < 2 ^ 64" "msn_team_ids (snapshot_membership m) = mbr_team_ids m"
    using snapshot_membership_teams(1) [of T m] by auto
  then have "add_membership_version_cost cost (snapshot_membership m) = Inr (cost + member_cost m)"
    by (cases "mbr_state m") (auto simp: add_membership_version_cost_def usize_checked_add_def member_cost_def)
  with Cons show ?case by (simp add: add.assoc)
qed simp

lemma minimum_version_ok:
  assumes ok: "org_ok g" and "1 + history_cost g < 2 ^ 64"
  obtains w where "minimum_snapshot_version (org_snapshot_state g) = Inr w" "unat w = 1 + history_cost g"
proof -
  let ?s = "org_snapshot_state g" and ?sum = "sum_list (map member_cost (org_memberships g))"
  have lt: "1 + (length (org_memberships g) - 1) + length (org_teams g) + ?sum
      + (if fst (hd (kinds g)) = MemberKind then 1 else 0) + (if org_state g = OrgFrozen then 1 else 0) < 2 ^ 64"
    using assms(2) by (simp add: history_cost_def)
  obtain a where a: "add_version_cost 1 (length (os_memberships ?s) - 1) = Inr a"
    "unat a = 1 + (length (org_memberships g) - 1)"
    using lt add_version_cost_ok [of 1 "length (org_memberships g) - 1"] by (auto simp: org_snapshot_state_def)
  obtain b where b: "add_version_cost a (length (os_teams ?s)) = Inr b"
    "unat b = unat a + length (org_teams g)"
    using lt a add_version_cost_ok [of a "length (org_teams g)"] by (auto simp: org_snapshot_state_def)
  have c: "membership_version_cost ?s = Inr ?sum"
    using ok lt membership_costs_ok [of 0 "org_memberships g" "team_identity ` set (org_teams g)"]
    by (simp add: membership_version_cost_def org_snapshot_state_def org_ok_def)
  obtain d where d: "add_version_cost b ?sum = Inr d" "unat d = unat b + ?sum"
    using lt a b add_version_cost_ok [of b ?sum] by auto
  have first: "first_has_kind MemberKind ?s \<longleftrightarrow> fst (hd (kinds g)) = MemberKind"
    using ok by (auto simp: first_has_kind_def org_snapshot_state_def kinds_def org_ok_def founder_first_def
        split: list.splits)
  obtain e where e: "add_founder_kind_version_cost d ?s = Inr e"
    "unat e = unat d + (if fst (hd (kinds g)) = MemberKind then 1 else 0)"
  proof (cases "fst (hd (kinds g)) = MemberKind")
    case True
    then have "unat d + 1 < 2 ^ 64" using lt a b d by simp
    from add_version_cost_ok [OF this] that True first show ?thesis
      by (auto simp: add_founder_kind_version_cost_def)
  qed (use that first in \<open>simp add: add_founder_kind_version_cost_def\<close>)
  obtain f where f: "add_state_version_cost e (os_state ?s) = Inr f"
    "unat f = unat e + (if org_state g = OrgFrozen then 1 else 0)"
  proof (cases "org_state g = OrgFrozen")
    case True
    then have "unat e + 1 < 2 ^ 64" using lt a b d e by simp
    from add_version_cost_ok [OF this] that True show ?thesis
      by (auto simp: add_state_version_cost_def org_snapshot_state_def)
  qed (use that in \<open>simp add: add_state_version_cost_def org_snapshot_state_def\<close>)
  show ?thesis
  proof (rule that)
    show "minimum_snapshot_version ?s = Inr f"
      using a b c d e f by (simp add: minimum_snapshot_version_def)
    show "unat f = 1 + history_cost g"
      using a b d e f by (simp add: history_cost_def)
  qed
qed

text \<open>An odd history surcharge within a bound is available from the ownership or from a membership.\<close>

lemma least_surcharge_within:
  "(\<exists>c. least_surcharge s k least ms = Some c \<and> c \<le> n) \<longleftrightarrow>
     (\<exists>c. least = Some c \<and> c \<le> n)
     \<or> (\<exists>m \<in> set ms. \<exists>c. membership_odd_surcharge s m k = Some c \<and> c \<le> n)"
proof (induction s k least ms rule: least_surcharge.induct)
  case (2 s k least m ms)
  then show ?case
    by (cases "membership_odd_surcharge s m k"; cases least) (auto simp: min_def)
qed simp

lemma has_participant:
  "list_ex (\<lambda>m. msn_kind m = k) (filter (\<lambda>m. msn_expires_at m = None) (map snapshot_membership ms)) \<longleftrightarrow>
     (k, None) \<in> set (map (\<lambda>m. (mbr_kind m, mbr_expires_at m)) ms)"
  by (induction ms) auto

lemma surcharge_available:
  assumes "one_step g \<or> three_step g \<and> 3 \<le> offset" and "1 \<le> offset"
  shows "\<exists>c. minimum_odd_history_surcharge (org_snapshot_state g) = Some c \<and> c \<le> offset"
proof -
  let ?s = "org_snapshot_state g"
  have owners: "snapshot_owner_count ?s = owners (kinds g)"
    by (simp add: snapshot_owner_count_def org_snapshot_state_def owners_def kinds_def filter_map o_def)
  have lasting: "length (filter (\<lambda>m. msn_expires_at m = None) (os_memberships ?s)) = lasting (kinds g)"
    by (simp add: org_snapshot_state_def lasting_def kinds_def filter_map o_def)
  have teams: "os_teams ?s = [] \<longleftrightarrow> org_teams g = []" by (simp add: org_snapshot_state_def)
  have members: "\<exists>c. membership_odd_surcharge ?s (snapshot_membership m) (snapshot_owner_count ?s) = Some c \<and> c \<le> offset"
    if "suspendable g m"
      "mbr_state m = MembershipLeft \<or> org_teams g \<noteq> [] \<and> (mbr_state m = MembershipActive \<longrightarrow> 3 \<le> offset)" for m
    using that assms(2) teams
    by (auto simp: membership_odd_surcharge_def membership_can_suspend_def owners suspendable_def
        split: MembershipState.splits)
  have ownership: "\<exists>c. ownership_odd_surcharge ?s = Some c \<and> c \<le> offset"
    if "one_step_kinds (kinds g) \<or> three_step_kinds (kinds g) \<and> 3 \<le> offset"
  proof -
    have one: "supports_one_step_ownership_surcharge ?s" if "one_step_kinds (kinds g)"
    proof (cases "org_memberships g")
      case Nil
      with that show ?thesis by (simp add: one_step_kinds_def kinds_def lasting_def)
    next
      case (Cons m ms)
      then have "os_memberships ?s = snapshot_membership m # map snapshot_membership ms"
        "kinds g = (mbr_kind m, mbr_expires_at m) # map (\<lambda>m. (mbr_kind m, mbr_expires_at m)) ms"
        by (simp_all add: org_snapshot_state_def kinds_def)
      with that lasting has_participant [of _ ms] show ?thesis
        by (auto simp: supports_one_step_ownership_surcharge_def one_step_kinds_def Let_def first_has_kind_def)
    qed
    have three: "ownership_triangle_surcharge ?s = Some 3" if "three_step_kinds (kinds g)"
      using that lasting has_participant [of _ "org_memberships g"]
      by (simp add: ownership_triangle_surcharge_def three_step_kinds_def Let_def org_snapshot_state_def kinds_def)
    show ?thesis using that one three assms(2) by (auto simp: ownership_odd_surcharge_def)
  qed
  show ?thesis
    unfolding minimum_odd_history_surcharge_def least_surcharge_within
  proof (cases "one_step_kinds (kinds g) \<or> three_step_kinds (kinds g) \<and> 3 \<le> offset")
    case True
    from ownership [OF this] show "(\<exists>c. ownership_odd_surcharge ?s = Some c \<and> c \<le> offset) \<or>
      (\<exists>m\<in>set (os_memberships ?s). \<exists>c. membership_odd_surcharge ?s m (snapshot_owner_count ?s) = Some c \<and> c \<le> offset)"
      by blast
  next
    case False
    with assms(1) obtain m where "m \<in> set (org_memberships g)" "suspendable g m"
      "mbr_state m = MembershipLeft \<or> org_teams g \<noteq> [] \<and> (mbr_state m = MembershipActive \<longrightarrow> 3 \<le> offset)"
      by (auto simp: one_step_def three_step_def)
    with members [of m] show "(\<exists>c. ownership_odd_surcharge ?s = Some c \<and> c \<le> offset) \<or>
      (\<exists>m\<in>set (os_memberships ?s). \<exists>c. membership_odd_surcharge ?s m (snapshot_owner_count ?s) = Some c \<and> c \<le> offset)"
      by (intro disjI2 bexI [of _ "snapshot_membership m"]) (auto simp: org_snapshot_state_def)
  qed
qed

lemma restored_version_ok:
  assumes ok: "org_ok g" and v: "version_admitted g (unat (org_version g))"
  shows "validate_version_reachability (org_version g) (org_snapshot_state g) = Inr ()"
proof -
  from v obtain offset where o: "unat (org_version g) = 1 + history_cost g + offset"
    "odd offset \<longrightarrow> one_step g \<or> three_step g \<and> 3 \<le> offset"
    by (auto simp: version_admitted_def)
  have bound: "unat (org_version g) < 2 ^ 64" using unat_lt_width [of "org_version g"] by simp
  with o have "1 + history_cost g < 2 ^ 64" by simp
  with ok obtain w where w: "minimum_snapshot_version (org_snapshot_state g) = Inr w" "unat w = 1 + history_cost g"
    by (rule minimum_version_ok)
  define d :: u64 where "d = of_nat offset"
  have d: "unat d = offset" using o bound by (simp add: d_def unat_of_nat)
  then have sub: "checked_sub (org_version g) w = Some d"
    using o w by (simp add: checked_sub_eq_Some)
  have "d mod 2 = 0" if "even offset"
    using that d by (simp add: even_word_iff)
  moreover have "\<exists>c. minimum_odd_history_surcharge (org_snapshot_state g) = Some c \<and> c \<le> d" if "odd offset"
  proof (rule surcharge_available)
    show "one_step g \<or> three_step g \<and> 3 \<le> d"
      using o(2) that d by (auto simp: word_le_nat_alt)
    show "1 \<le> d" using that d by (auto simp: word_le_nat_alt elim: oddE)
  qed
  ultimately show ?thesis
    using w sub by (cases "even offset") (auto simp: validate_version_reachability_def)
qed

lemma restored_snapshot_ok:
  assumes ok: "org_ok g" and v: "version_admitted g (unat (org_version g))"
    and ids: "org_id g \<noteq> []" "org_tenant_id g \<noteq> []"
  shows "Organization_from_snapshot (org_id g) (org_tenant_id g) (org_version g) (org_snapshot_state g) = Inr g"
proof -
  let ?s = "org_snapshot_state g" and ?T = "team_identity ` set (org_teams g)"
  have members: "os_memberships ?s = map snapshot_membership (org_memberships g)"
    "map ts_id (os_teams ?s) = map team_identity (org_teams g)" "length (os_teams ?s) = length (org_teams g)"
    by (simp_all add: org_snapshot_state_def)
  have "org_version g \<noteq> 0" using v by (auto simp: version_admitted_def)
  with ids have identity: "validate_snapshot_identity (org_id g) (org_tenant_id g) (org_version g) = Inr ()"
    by (simp add: validate_snapshot_identity_def)
  have capacity: "validate_snapshot_capacity ?s = Inr ()"
    using ok by (simp add: validate_snapshot_capacity_def members org_ok_def)
  have teams: "unique_team_ids ?s = Inr ?T"
  proof -
    have "insert_unique (org_error OrgDuplicateIdentity) [] (map ts_id (os_teams ?s)) = Inr ()"
      using ok by (simp add: insert_unique_ok members org_ok_def)
    then show ?thesis by (simp add: unique_team_ids_def members)
  qed
  have "validate_membership_identity_uniqueness ?s = Inr ()"
    using ok by (simp add: validate_membership_identity_uniqueness_def unique_identities_ok members
        org_ok_def o_def)
  moreover have "check_each (validate_membership ?T) (os_memberships ?s) = Inr ()"
    using ok by (auto simp: check_each_ok members org_ok_def validate_membership_snapshot)
  ultimately have memberships: "validate_memberships ?s ?T = Inr ()"
    by (simp add: validate_memberships_def)
  obtain f ms where f: "org_memberships g = f # ms" "mbr_origin f = FounderOrigin"
    "\<forall>x \<in> set ms. mbr_origin x \<noteq> FounderOrigin"
    using ok by (cases "org_memberships g") (auto simp: org_ok_def founder_first_def)
  then have founder: "validate_founder_order ?s = Inr ()"
    by (simp add: validate_founder_order_def members)
  have "filter (\<lambda>m. mbr_origin m = FounderOrigin) ms = []" using f by (simp add: filter_empty_conv)
  then have owner: "validate_owner_invariant ?s = Inr ()"
    using ok f by (auto simp: validate_owner_invariant_def members filter_map o_def org_ok_def is_active_owner_def
        filter_empty_conv)
  have "map into_membership (os_memberships ?s) = org_memberships g"
    using ok by (auto simp: members org_ok_def snapshot_membership_teams(2) intro!: map_idI)
  moreover have "map into_team (os_teams ?s) = org_teams g"
    by (auto simp: org_snapshot_state_def into_team_def intro!: map_idI)
  moreover have "os_state ?s = org_state g" by (simp add: org_snapshot_state_def)
  ultimately show ?thesis
    using identity capacity teams memberships founder owner restored_version_ok [OF ok v]
    by (simp add: Organization_from_snapshot_def validate_org_snapshot_def)
qed

interpretation organizations: stored_aggregate org_init org_step org_inv org_version
  "\<lambda>g. (org_id g, org_tenant_id g)"
  "\<lambda>g. (org_id g, org_tenant_id g, org_version g, org_snapshot_state g)"
  "\<lambda>(i, tenant, v, s). Organization_from_snapshot i tenant v s"
proof
  show "org_inv t" if "org_inv g" "org_step g command t" for g command t
    using that by (auto simp: org_step_def transition_keeps)
  show "unat (org_version t) = unat (org_version g) + 1" "(org_id t, org_tenant_id t) = (org_id g, org_tenant_id g)"
    if "org_step g command t" for g command t
    using that by (auto simp: org_step_def transition_advances)
  show "(\<lambda>(i, tenant, v, s). Organization_from_snapshot i tenant v s)
      (org_id g, org_tenant_id g, org_version g, org_snapshot_state g) = Inr g" if "org_inv g" for g
    using that by (auto simp: org_inv_def intro: restored_snapshot_ok)
qed (auto dest: created_inv)

lemma history_invariant: "org_history creation events g \<Longrightarrow> org_inv g"
  using history_reachable organizations.reachable_inv by (auto simp: org_reachable_def)

section \<open>Events\<close>

text \<open>What the evidence of an accepted transfer establishes.\<close>

definition transfer_authorized ::
  "Organization \<Rightarrow> PrincipalId \<Rightarrow> UserUtcTimestamp \<Rightarrow> OwnershipTransferEvidence \<Rightarrow> bool" where
  "transfer_authorized g actor at ev \<longleftrightarrow>
     ote_tenant_id ev = org_tenant_id g \<and> ote_organization_id ev = org_id g
     \<and> ote_organization_version ev = org_version g
     \<and> pc_principal_id (aub_principal (ote_initiating_user ev)) = actor \<and> ote_approver ev \<noteq> actor
     \<and> ote_not_before ev \<le> at \<and> at \<le> ote_expires_at ev
     \<and> rrp_authenticated_at (ote_recipient_reauthentication ev) \<le> at
     \<and> at - rrp_authenticated_at (ote_recipient_reauthentication ev) \<le> MAX_REAUTHENTICATION_AGE_SECONDS"

lemma transfer_ownership_authorized:
  assumes "transfer_ownership g audit ev = Inr t"
  shows "transfer_authorized g (aud_actor audit) (aud_occurred_at audit) ev"
proof -
  from assms have b: "validate_transfer_binding g ev = Inr ()" and v: "validate_transfer_timing audit ev = Inr ()"
    by (auto simp: transfer_ownership_def results)
  from v have a: "validate_transfer_actors audit ev = Inr ()"
    and w: "validate_transfer_window (aud_occurred_at audit) ev = Inr ()"
    and f: "validate_reauthentication_freshness (aud_occurred_at audit)
        (rrp_authenticated_at (ote_recipient_reauthentication ev)) = Inr ()"
    by (auto simp: validate_transfer_timing_def results)
  from f obtain age where "i64_checked_sub (aud_occurred_at audit)
      (rrp_authenticated_at (ote_recipient_reauthentication ev)) = Some age"
      "0 \<le> age" "age \<le> MAX_REAUTHENTICATION_AGE_SECONDS"
    by (auto simp: validate_reauthentication_freshness_def split: if_splits option.splits)
  then have "rrp_authenticated_at (ote_recipient_reauthentication ev) \<le> aud_occurred_at audit"
    "aud_occurred_at audit - rrp_authenticated_at (ote_recipient_reauthentication ev) \<le> MAX_REAUTHENTICATION_AGE_SECONDS"
    by (auto simp: i64_checked_sub_def split: if_splits)
  with a b w show ?thesis
    by (auto simp: transfer_authorized_def validate_transfer_actors_def validate_transfer_binding_def
        validate_transfer_window_def split: if_splits)
qed

lemma transition_action:
  assumes "transition_organization g command = Inr t"
  shows "dispatch_organization g \<lparr>aud_actor = oc_actor command, aud_occurred_at = oc_occurred_at command\<rparr>
    (oc_action command) = Inr t"
  using assms by (auto simp: transition_organization_def results)

text \<open>The commands that emit an addition and a transfer.\<close>

lemma event_action:
  assumes "transition_organization g command = Inr t"
  shows "case oev_kind (otr_event t) of
      OrgMembershipAdded i u k og e \<Rightarrow> oc_action command = MembershipAct (AddMembership i u k og e)
    | OrgOwnershipTransferred transfer previous new approver \<Rightarrow>
        (\<exists>ev. oc_action command = TransferOwnership ev \<and> ote_recipient_id ev = new \<and> ote_approver ev = approver
           \<and> transfer_authorized g (oc_actor command) (oc_occurred_at command) ev)
    | _ \<Rightarrow> True"
proof -
  let ?audit = "\<lparr>aud_actor = oc_actor command, aud_occurred_at = oc_occurred_at command\<rparr>"
  note d = transition_action [OF assms]
  show ?thesis
  proof (cases "oc_action command")
    case (ChangeState st)
    with d show ?thesis by (auto dest!: change_state_edge evolves_kind)
  next
    case (MembershipAct act)
    with d show ?thesis
      by (cases act) (auto dest!: add_membership_edge suspend_membership_edge activate_membership_edge
          leave_membership_edge evolves_kind)
  next
    case (TeamAct act)
    with d show ?thesis
      by (cases act) (auto dest!: create_team_edge assign_team_edge evolves_kind)
  next
    case (TransferOwnership ev)
    with d have t: "transfer_ownership g ?audit ev = Inr t" by simp
    from evolves_kind [OF transfer_ownership_edge [OF this]] transfer_ownership_authorized [OF t] TransferOwnership
    show ?thesis by simp
  qed
qed

text \<open>The facts of an emitted event pass the checks of a persisted one.\<close>

lemma emitted_event_persists:
  assumes t: "transition_organization g command = Inr t" and ok: "org_ok g"
    and positive: "version_admitted g (unat (org_version g))"
  shows "OrganizationEvent_from_persisted (org_tenant_id g) (org_id g) (oc_actor command)
    (oc_occurred_at command) (oev_version (otr_event t)) (oev_kind (otr_event t)) = Inr (otr_event t)"
    and "oev_version (otr_event t) = org_version (otr_organization t)"
    and "oev_tenant_id (otr_event t) = org_tenant_id g \<and> oev_organization_id (otr_event t) = org_id g
      \<and> oev_actor (otr_event t) = oc_actor command \<and> oev_occurred_at (otr_event t) = oc_occurred_at command"
proof -
  let ?audit = "\<lparr>aud_actor = oc_actor command, aud_occurred_at = oc_occurred_at command\<rparr>"
  from dispatch_organization_edge [OF transition_action [OF t]] obtain kind changed where
    e: "org_edge g (oc_occurred_at command) kind changed" and f: "finish_evolution g changed ?audit kind = Inr t"
    by (auto simp: evolves_def)
  from finish_evolution_ok [OF f] obtain v where v: "unat v = unat (org_version g) + 1"
    "otr_organization t = changed\<lparr>org_version := v\<rparr>"
    "otr_event t = \<lparr>oev_tenant_id = org_tenant_id g, oev_organization_id = org_id g,
       oev_actor = oc_actor command, oev_occurred_at = oc_occurred_at command, oev_version = v, oev_kind = kind\<rparr>"
    by auto
  have approver: "kind = OrgOwnershipTransferred transfer previous new approver \<Longrightarrow> approver \<noteq> oc_actor command"
    for transfer previous new approver
    using event_action [OF t] v(3) by (auto simp: transfer_authorized_def)
  from e have facts: "\<not> is_creation kind \<and> validate_persisted_facts (oc_actor command) (oc_occurred_at command) kind = Inr ()"
  proof cases
    case (edge_add i u og k x)
    then show ?thesis by (auto simp: validate_membership_creation_facts_def split: option.splits)
  next
    case (edge_suspend n m)
    with org_ok_nth [OF ok, of n] show ?thesis by (simp add: validate_removed_assignment_count_def membership_ok_def)
  next
    case (edge_leave n m)
    with org_ok_nth [OF ok, of n] show ?thesis by (simp add: validate_removed_assignment_count_def membership_ok_def)
  next
    case (edge_transfer n m n' m' transfer approver')
    moreover have "mbr_id m \<noteq> mbr_id m'"
      using edge_transfer ok nth_eq_iff_index_eq [of "map mbr_id (org_memberships g)" n n'] by (simp add: org_ok_def)
    ultimately show ?thesis using approver by (auto simp: validate_persisted_transfer_def)
  qed simp_all
  have "v \<noteq> 1" using v(1) positive by (auto simp: version_admitted_def)
  with facts v show "OrganizationEvent_from_persisted (org_tenant_id g) (org_id g) (oc_actor command)
    (oc_occurred_at command) (oev_version (otr_event t)) (oev_kind (otr_event t)) = Inr (otr_event t)"
    by (simp add: OrganizationEvent_from_persisted_def validate_persisted_event_def
        validate_persisted_event_version_def OrganizationVersion_initial_def)
  from v show "oev_version (otr_event t) = org_version (otr_organization t)" by simp
  from v show "oev_tenant_id (otr_event t) = org_tenant_id g \<and> oev_organization_id (otr_event t) = org_id g
      \<and> oev_actor (otr_event t) = oc_actor command \<and> oev_occurred_at (otr_event t) = oc_occurred_at command" by simp
qed

definition persists :: "OrganizationEvent \<Rightarrow> bool" where
  "persists e \<longleftrightarrow>
     OrganizationEvent_from_persisted (oev_tenant_id e) (oev_organization_id e) (oev_actor e)
       (oev_occurred_at e) (oev_version e) (oev_kind e) = Inr e"

lemma history_replays:
  "org_history creation events g \<Longrightarrow>
     \<exists>e es. events = e # es \<and> is_creation (oev_kind e)
       \<and> replay_log (initial_organization creation) es = Inr g
       \<and> list_all persists events \<and> map (\<lambda>e. unat (oev_version e)) events = [1..<Suc (unat (org_version g))]"
proof (induction rule: org_history.induct)
  case (history_created t)
  from create_organization_ok [OF history_created(3)] history_created(3) show ?case
    by (auto simp: create_organization_def persists_def OrganizationEvent_from_persisted_def
        validate_persisted_event_def validate_persisted_event_version_def initial_organization_def
        OrganizationVersion_initial_def split: if_splits)
next
  case (history_moves events g command t)
  from history_moves.IH obtain e es where es: "events = e # es" "is_creation (oev_kind e)"
    "replay_log (initial_organization creation) es = Inr g" "list_all persists events"
    "map (\<lambda>e. unat (oev_version e)) events = [1..<Suc (unat (org_version g))]" by blast
  from history_invariant [OF history_moves.hyps(1)]
  have ok: "org_ok g" and v: "version_admitted g (unat (org_version g))" by (auto simp: org_inv_def)
  note p = emitted_event_persists [OF history_moves.hyps(2) ok v]
  from transition_advances [OF history_moves.hyps(2)]
  have next_version: "unat (org_version (otr_organization t)) = unat (org_version g) + 1" by simp
  from transition_replays [OF history_moves.hyps(2)]
  have "replay_log (initial_organization creation) (es @ [otr_event t]) = Inr (otr_organization t)"
    using es(3) by (simp add: replay_log_append replay_persisted_event_def)
  moreover have "list_all persists (events @ [otr_event t])"
    using es(4) p by (simp add: persists_def)
  moreover have "map (\<lambda>e. unat (oev_version e)) (events @ [otr_event t])
      = [1..<Suc (unat (org_version (otr_organization t)))]"
    using es(5) p(2) next_version by simp
  ultimately show ?case using es by simp
qed

section \<open>Owners\<close>

lemma edge_new_owner:
  assumes "org_edge g at kind changed" and "m \<in> set (org_memberships changed)" and "mbr_kind m = OwnerKind"
  shows "(\<exists>x \<in> set (org_memberships g). mbr_id x = mbr_id m \<and> mbr_kind x = OwnerKind)
    \<or> (\<exists>u og. kind = OrgMembershipAdded (mbr_id m) u OwnerKind og None)
    \<or> (\<exists>transfer previous approver. kind = OrgOwnershipTransferred transfer previous (mbr_id m) approver)"
proof -
  have updated: "m = y \<or> m \<in> set ms" if "m \<in> set (ms[n := y])" for ms n and y :: Membership
    using that set_update_subset_insert [of ms n y] by auto
  from assms(1) show ?thesis
  proof cases
    case (edge_transfer n x n' x' transfer approver)
    with assms(2,3) show ?thesis by (auto dest!: updated)
  qed (use assms(2,3) in \<open>auto dest!: updated\<close>)
qed

section \<open>Running commands\<close>

fun run_commands ::
  "Organization \<Rightarrow> OrganizationCommand list \<Rightarrow> (OrganizationError, OrganizationEvent list \<times> Organization) result" where
  "run_commands g [] = Inr ([], g)"
| "run_commands g (command # commands) =
     bind_result (transition_organization g command) (\<lambda>t.
     bind_result (run_commands (otr_organization t) commands) (\<lambda>(events, g').
     Inr (otr_event t # events, g')))"

lemma run_commands_history:
  "org_history creation events g \<Longrightarrow> run_commands g commands = Inr (es, g') \<Longrightarrow>
     org_history creation (events @ es) g'"
proof (induction commands arbitrary: events g es)
  case (Cons command commands)
  from Cons.prems(2) obtain t fs where t: "transition_organization g command = Inr t"
    and fs: "run_commands (otr_organization t) commands = Inr (fs, g')" "es = otr_event t # fs"
    by (auto simp: results)
  from history_moves [OF Cons.prems(1) t] Cons.IH fs show ?case by fastforce
qed simp

definition demo_creation :: CreateOrganizationCommand where
  "demo_creation =
     \<lparr>coc_organization_id = ''org'', coc_tenant_id = ''tenant'',
      coc_founder = \<lparr>of_membership_id = ''m1'', of_user_id = ''u1''\<rparr>,
      coc_expected_version = 1, coc_actor = ''alice'', coc_occurred_at = 0\<rparr>"

definition demo_evidence :: OwnershipTransferEvidence where
  "demo_evidence =
     \<lparr>ote_transfer_id = ''x'', ote_tenant_id = ''tenant'', ote_organization_id = ''org'',
      ote_organization_version = 5, ote_initiating_owner_id = ''m1'',
      ote_initiating_user =
        \<lparr>aub_principal = \<lparr>pc_tenant_id = ''tenant'', pc_principal_id = ''alice''\<rparr>, aub_user_id = ''u1''\<rparr>,
      ote_recipient_id = ''m2'',
      ote_recipient_reauthentication =
        \<lparr>rrp_authenticated_user =
           \<lparr>aub_principal = \<lparr>pc_tenant_id = ''tenant'', pc_principal_id = ''bob''\<rparr>, aub_user_id = ''u2''\<rparr>,
         rrp_authenticated_at = 40\<rparr>,
      ote_approver = ''carol'', ote_not_before = 45, ote_expires_at = 90\<rparr>"

text \<open>A member joins a team and is suspended, resumed, made owner, and the founder leaves.\<close>

definition demo_commands :: "OrganizationCommand list" where
  "demo_commands =
     map (\<lambda>(v, at, action). \<lparr>oc_expected_version = v, oc_actor = ''alice'', oc_occurred_at = at, oc_action = action\<rparr>)
       [(1, 10, MembershipAct (AddMembership ''m2'' ''u2'' MemberKind AdministrativeOrigin (Some 1000))),
        (2, 20, TeamAct (CreateTeam ''team'')),
        (3, 30, MembershipAct (SuspendMembership ''m2'')),
        (4, 40, MembershipAct (ActivateMembership ''m2'')),
        (5, 50, TransferOwnership demo_evidence),
        (6, 60, TeamAct (AssignTeam ''m2'' ''team'')),
        (7, 70, MembershipAct (LeaveMembership ''m1''))]"

definition organization_run :: "OrganizationCommand list \<Rightarrow> OrganizationEvent list \<times> Organization" where
  "organization_run commands =
     (case create_organization demo_creation of
        Inl _ \<Rightarrow> ([], initial_organization demo_creation)
      | Inr t \<Rightarrow>
          (case run_commands (otr_organization t) commands of
             Inl _ \<Rightarrow> ([otr_event t], otr_organization t)
           | Inr (es, g) \<Rightarrow> (otr_event t # es, g)))"

lemma organization_run_history: "org_history demo_creation (fst (organization_run commands)) (snd (organization_run commands))"
proof -
  obtain t where t: "create_organization demo_creation = Inr t"
    by (simp add: create_organization_def demo_creation_def OrganizationVersion_initial_def)
  have "organization_id_parse (coc_organization_id demo_creation) = Inr (coc_organization_id demo_creation)"
    "coc_tenant_id demo_creation \<noteq> []"
    by code_simp+
  then have "org_history demo_creation [otr_event t] (otr_organization t)"
    using t by (rule history_created)
  from this run_commands_history [OF this] show ?thesis
    by (auto simp: organization_run_def t split: sum.splits prod.splits)
qed

lemmas organization_eval =
  initial_organization_def create_organization_def finish_evolution_def membership_index_def
  membership_at_def membership_at_mut_def require_membership_state_def set_membership_state_def
  change_state_def ensure_membership_capacity_def ensure_membership_identity_available_def
  validate_new_membership_def add_membership_def active_owner_count_def
  protect_last_active_owner_def change_state_and_clear_teams_def suspend_membership_def
  activate_membership_def reject_left_membership_def leave_membership_def create_team_def
  ensure_team_exists_def ensure_team_assignment_eligible_def assign_team_def
  validate_transfer_binding_def validate_transfer_actors_def validate_transfer_window_def
  validate_reauthentication_freshness_def validate_transfer_timing_def
  membership_index_for_transfer_def validate_initiating_transfer_member_def
  validate_recipient_transfer_member_def validate_transfer_members_def demote_owner_def
  promote_recipient_def transfer_ownership_def verify_organization_version_def
  transition_organization_def OrganizationVersion_initial_def OrganizationVersion_next_def
  MAX_MEMBERSHIPS_def MAX_TEAMS_def MAX_TEAM_ASSIGNMENTS_def MAX_REAUTHENTICATION_AGE_SECONDS_def
  is_eligible_at_def i64_checked_sub_def validate_membership_creation_facts_def checked_add_def
  demo_creation_def demo_commands_def demo_evidence_def

lemma organization_run_length: "length (fst (organization_run demo_commands)) = 8"
  by (simp add: organization_run_def organization_eval)

section \<open>Properties\<close>

text \<open>
  C22: Every reachable organization is restored from the snapshot that is stored of it: the validation of a
  snapshot, with its account of the versions a history can have, rejects no state that commands
  produce.
\<close>

theorem organizations_survive_storage:
  assumes "org_reachable g"
  shows "Organization_from_snapshot (org_id g) (org_tenant_id g) (org_version g) (org_snapshot_state g) = Inr g"
  using organizations.reachable_restores assms by (simp add: org_reachable_def)

theorem organizations_survive_storage_witness:
  "length (fst (organization_run demo_commands)) = 8
   \<and> Organization_from_snapshot (org_id (snd (organization_run demo_commands))) (org_tenant_id (snd (organization_run demo_commands)))
       (org_version (snd (organization_run demo_commands))) (org_snapshot_state (snd (organization_run demo_commands))) = Inr (snd (organization_run demo_commands))"
proof
  show "length (fst (organization_run demo_commands)) = 8" by (rule organization_run_length)
  have "org_reachable (snd (organization_run demo_commands))" by (rule history_reachable [OF organization_run_history])
  then show "Organization_from_snapshot (org_id (snd (organization_run demo_commands))) (org_tenant_id (snd (organization_run demo_commands)))
       (org_version (snd (organization_run demo_commands))) (org_snapshot_state (snd (organization_run demo_commands))) = Inr (snd (organization_run demo_commands))"
    by (rule organizations_survive_storage)
qed

text \<open>
  C15: The log of an organization rebuilds it: the events that its commands emitted have the versions from
  one to the current one, each is accepted when it is read back from storage, and replaying those after
  the creation gives the organization.
\<close>

theorem event_log_rebuilds_organization:
  assumes "org_history creation events g"
  shows "is_creation (oev_kind (hd events)) \<and> map (\<lambda>e. unat (oev_version e)) events = [1..<Suc (unat (org_version g))]
    \<and> list_all persists events \<and> replay_log (initial_organization creation) (tl events) = Inr g"
  using history_replays [OF assms] by auto

theorem event_log_rebuilds_organization_witness:
  "length (fst (organization_run demo_commands)) = 8 \<and> list_all persists (fst (organization_run demo_commands))
   \<and> replay_log (initial_organization demo_creation) (tl (fst (organization_run demo_commands))) = Inr (snd (organization_run demo_commands))"
  using event_log_rebuilds_organization [OF organization_run_history] organization_run_length by simp

text \<open>
  C14: Ownership is never lost and never taken: a reachable organization has an owner who is active at any
  time, and a membership that a command turns into an owner was added as one or is the recipient of a
  transfer whose evidence is bound to this tenant, organization and version, was initiated by the
  acting principal and approved by another, and is used within its window and five minutes after the
  recipient authenticated.
\<close>

theorem ownership_is_kept_and_authorized:
  assumes "org_reachable g" and "transition_organization g command = Inr t"
    and "m \<in> set (org_memberships (otr_organization t))" and "mbr_kind m = OwnerKind"
  shows "(\<exists>x \<in> set (org_memberships g). mbr_kind x = OwnerKind \<and> (\<forall>at. is_eligible_at x at))
    \<and> ((\<exists>x \<in> set (org_memberships g). mbr_id x = mbr_id m \<and> mbr_kind x = OwnerKind)
       \<or> (\<exists>u og. oc_action command = MembershipAct (AddMembership (mbr_id m) u OwnerKind og None))
       \<or> (\<exists>ev. oc_action command = TransferOwnership ev \<and> ote_recipient_id ev = mbr_id m
            \<and> transfer_authorized g (oc_actor command) (oc_occurred_at command) ev))"
proof -
  from assms(1) have "org_ok g"
    using organizations.reachable_inv by (simp add: org_reachable_def org_inv_def)
  then obtain x where x: "x \<in> set (org_memberships g)" "is_active_owner x"
    "membership_ok (team_identity ` set (org_teams g)) x"
    by (auto simp: org_ok_def)
  then have "mbr_kind x = OwnerKind \<and> (\<forall>at. is_eligible_at x at)"
    by (auto simp: is_active_owner_def membership_ok_def is_eligible_at_def)
  with x(1) have kept: "\<exists>x \<in> set (org_memberships g). mbr_kind x = OwnerKind \<and> (\<forall>at. is_eligible_at x at)"
    by blast
  from transition_organization_edge [OF assms(2)] obtain changed where
    "org_edge g (oc_occurred_at command) (oev_kind (otr_event t)) changed"
    "m \<in> set (org_memberships changed)"
    using assms(3) by (auto simp: evolves_def dest!: finish_evolution_ok)
  from edge_new_owner [OF this assms(4)] event_action [OF assms(2)] kept show ?thesis by auto
qed

theorem ownership_is_kept_and_authorized_witness:
  "\<exists>t. transition_organization (snd (organization_run (take 4 demo_commands))) (demo_commands ! 4) = Inr t
     \<and> mbr_id (org_memberships (otr_organization t) ! 1) = ''m2''
     \<and> mbr_kind (org_memberships (otr_organization t) ! 1) = OwnerKind
     \<and> (\<exists>ev. oc_action (demo_commands ! 4) = TransferOwnership ev
          \<and> transfer_authorized (snd (organization_run (take 4 demo_commands))) ''alice'' 50 ev)"
proof -
  let ?g = "snd (organization_run (take 4 demo_commands))" and ?c = "demo_commands ! 4"
  have "org_reachable ?g" by (rule history_reachable [OF organization_run_history])
  moreover obtain t where t: "transition_organization ?g ?c = Inr t"
      "1 < length (org_memberships (otr_organization t))"
      "mbr_id (org_memberships (otr_organization t) ! 1) = ''m2''"
      "mbr_kind (org_memberships (otr_organization t) ! 1) = OwnerKind"
    by (simp add: organization_run_def organization_eval)
  moreover have c: "oc_action ?c = TransferOwnership demo_evidence" "oc_actor ?c = ''alice''" "oc_occurred_at ?c = 50"
    by (simp_all add: demo_commands_def)
  moreover have "\<not> (\<exists>x \<in> set (org_memberships ?g). mbr_id x = ''m2'' \<and> mbr_kind x = OwnerKind)"
    by (simp add: organization_run_def organization_eval)
  ultimately have "\<exists>ev. oc_action ?c = TransferOwnership ev \<and> transfer_authorized ?g ''alice'' 50 ev"
    using ownership_is_kept_and_authorized [of ?g ?c t "org_memberships (otr_organization t) ! 1"] by auto
  with t show ?thesis by blast
qed

end
