(* ===== verification/Authorization.thy ===== *)
theory Authorization
  imports Organization_Domain
begin

text \<open>
  Role-based authorization (\<open>ariadnion-rbac\<close>): roles, scopes and assignments, subjects and requests,
  validated policies with their snapshots and versioned replacement, and the evaluation of a request.
  The lemmas relate the evaluation to an abstract entitlement and characterise which policies survive
  being stored.
\<close>

section \<open>Errors and identities\<close>

datatype AuthorizationErrorCode =
  AuthInvalidArgument | AuthResourceLimitExceeded | AuthDuplicateIdentity | AuthTenantMismatch
| AuthUnknownRole | AuthVersionConflict | AuthVersionExhausted

fun AuthorizationErrorCode_as_str :: "AuthorizationErrorCode \<Rightarrow> string" where
  "AuthorizationErrorCode_as_str AuthInvalidArgument = ''RBAC_INVALID_ARGUMENT''"
| "AuthorizationErrorCode_as_str AuthResourceLimitExceeded = ''RBAC_RESOURCE_LIMIT_EXCEEDED''"
| "AuthorizationErrorCode_as_str AuthDuplicateIdentity = ''RBAC_DUPLICATE_IDENTITY''"
| "AuthorizationErrorCode_as_str AuthTenantMismatch = ''RBAC_TENANT_MISMATCH''"
| "AuthorizationErrorCode_as_str AuthUnknownRole = ''RBAC_UNKNOWN_ROLE''"
| "AuthorizationErrorCode_as_str AuthVersionConflict = ''RBAC_VERSION_CONFLICT''"
| "AuthorizationErrorCode_as_str AuthVersionExhausted = ''RBAC_VERSION_EXHAUSTED''"

record AuthorizationError =
  aze_code :: AuthorizationErrorCode

definition auth_error :: "AuthorizationErrorCode \<Rightarrow> AuthorizationError" where
  "auth_error code = \<lparr>aze_code = code\<rparr>"

type_synonym AssignmentId = string
type_synonym DecisionId = string
type_synonym PermissionId = string
type_synonym ResourceId = string
type_synonym ResourceKind = string
type_synonym RoleId = string
type_synonym PolicyVersion = u64

definition MAX_AUTH_ID_BYTES :: nat where "MAX_AUTH_ID_BYTES = 128"

definition is_auth_id_byte :: "char \<Rightarrow> bool" where
  "is_auth_id_byte c \<longleftrightarrow> is_alphanumeric c \<or> c \<in> {CHR ''.'', CHR ''-'', CHR ''_'', CHR '':''}"

definition valid_auth_id :: "string \<Rightarrow> bool" where
  "valid_auth_id value \<longleftrightarrow>
     value \<noteq> [] \<and> length value \<le> MAX_AUTH_ID_BYTES \<and> is_ascii value \<and> list_all is_auth_id_byte value"

text \<open>\<open>parse\<close> of the six types the macro \<open>bounded_id!\<close> generates.\<close>

definition auth_id_parse :: "string \<Rightarrow> (AuthorizationError, string) result" where
  "auth_id_parse value =
     (if \<not> valid_auth_id value then Inl (auth_error AuthInvalidArgument) else Inr value)"

definition PolicyVersion_initial :: PolicyVersion where "PolicyVersion_initial = 1"

definition PolicyVersion_new :: "u64 \<Rightarrow> (AuthorizationError, PolicyVersion) result" where
  "PolicyVersion_new value = (if value = 0 then Inl (auth_error AuthInvalidArgument) else Inr value)"

definition PolicyVersion_next :: "PolicyVersion \<Rightarrow> (AuthorizationError, PolicyVersion) result" where
  "PolicyVersion_next v = ok_or (auth_error AuthVersionExhausted) (checked_add v 1)"

section \<open>Roles and scopes\<close>

definition MAX_ROLES :: nat where "MAX_ROLES = 256"
definition MAX_RULES_PER_ROLE :: nat where "MAX_RULES_PER_ROLE = 256"
definition MAX_ASSIGNMENTS :: nat where "MAX_ASSIGNMENTS = 4096"

datatype PermissionEffect = AllowEffect | DenyEffect

record PermissionRule =
  pr_permission_id :: PermissionId
  pr_effect :: PermissionEffect

record RoleDefinition =
  rd_id :: RoleId
  rd_tenant_id :: TenantId
  rd_rules :: "PermissionRule list"

definition validate_rules :: "PermissionRule list \<Rightarrow> (AuthorizationError, unit) result" where
  "validate_rules rules =
     (if rules = [] then Inl (auth_error AuthInvalidArgument)
      else if MAX_RULES_PER_ROLE < length rules then Inl (auth_error AuthResourceLimitExceeded)
      else insert_unique (auth_error AuthDuplicateIdentity) [] (map pr_permission_id rules))"

definition RoleDefinition_new ::
  "RoleId \<Rightarrow> TenantId \<Rightarrow> PermissionRule list \<Rightarrow> (AuthorizationError, RoleDefinition) result" where
  "RoleDefinition_new i tenant rules =
     bind_result (validate_rules rules) (\<lambda>_.
     Inr \<lparr>rd_id = i, rd_tenant_id = tenant, rd_rules = rules\<rparr>)"

datatype AuthorizationScope =
  TenantWideScope TenantId
| TenantResourceScope TenantId ResourceKind ResourceId
| OrganizationScope TenantId OrganizationId
| ResourceScope TenantId OrganizationId "ResourceId option" ResourceKind ResourceId

fun scope_validate :: "AuthorizationScope \<Rightarrow> (AuthorizationError, unit) result" where
  "scope_validate (ResourceScope _ _ parent _ resource) =
     (if parent = Some resource then Inl (auth_error AuthInvalidArgument) else Inr ())"
| "scope_validate _ = Inr ()"

definition scope_resource ::
  "TenantId \<Rightarrow> OrganizationId \<Rightarrow> ResourceId option \<Rightarrow> ResourceKind \<Rightarrow> ResourceId \<Rightarrow>
     (AuthorizationError, AuthorizationScope) result" where
  "scope_resource tenant organization parent kind resource =
     (let scope = ResourceScope tenant organization parent kind resource in
      bind_result (scope_validate scope) (\<lambda>_. Inr scope))"

fun scope_tenant_id :: "AuthorizationScope \<Rightarrow> TenantId" where
  "scope_tenant_id (TenantWideScope tenant) = tenant"
| "scope_tenant_id (TenantResourceScope tenant _ _) = tenant"
| "scope_tenant_id (OrganizationScope tenant _) = tenant"
| "scope_tenant_id (ResourceScope tenant _ _ _ _) = tenant"

fun scope_organization_id :: "AuthorizationScope \<Rightarrow> OrganizationId option" where
  "scope_organization_id (TenantWideScope _) = None"
| "scope_organization_id (TenantResourceScope _ _ _) = None"
| "scope_organization_id (OrganizationScope _ organization) = Some organization"
| "scope_organization_id (ResourceScope _ organization _ _ _) = Some organization"

fun tenant_resource_contains :: "ResourceKind \<Rightarrow> ResourceId \<Rightarrow> AuthorizationScope \<Rightarrow> bool" where
  "tenant_resource_contains assigned_kind assigned_id (TenantResourceScope _ kind resource) =
     (assigned_kind = kind \<and> assigned_id = resource)"
| "tenant_resource_contains assigned_kind assigned_id _ = False"

fun resource_scope_contains :: "AuthorizationScope \<Rightarrow> AuthorizationScope \<Rightarrow> bool" where
  "resource_scope_contains (ResourceScope _ organization _ kind resource)
     (ResourceScope _ requested_organization parent requested_kind requested_id) =
     (organization = requested_organization \<and> kind = requested_kind
      \<and> (resource = requested_id \<or> parent = Some resource))"
| "resource_scope_contains _ _ = False"

definition scope_contains :: "AuthorizationScope \<Rightarrow> AuthorizationScope \<Rightarrow> bool" where
  "scope_contains assigned requested =
     (if scope_tenant_id assigned \<noteq> scope_tenant_id requested then False
      else case assigned of
             TenantWideScope _ \<Rightarrow> True
           | TenantResourceScope _ kind resource \<Rightarrow> tenant_resource_contains kind resource requested
           | OrganizationScope _ organization \<Rightarrow> scope_organization_id requested = Some organization
           | ResourceScope _ _ _ _ _ \<Rightarrow> resource_scope_contains assigned requested)"

section \<open>Assignments and subjects\<close>

definition MAX_TEAM_IDS :: nat where "MAX_TEAM_IDS = 256"

record RoleAssignment =
  ra_id :: AssignmentId
  ra_principal_id :: PrincipalId
  ra_membership_id :: MembershipId
  ra_role_id :: RoleId
  ra_scope :: AuthorizationScope
  ra_expires_at :: "UserUtcTimestamp option"

definition assignment_is_active_at :: "RoleAssignment \<Rightarrow> UserUtcTimestamp \<Rightarrow> bool" where
  "assignment_is_active_at a now \<longleftrightarrow>
     (case ra_expires_at a of None \<Rightarrow> True | Some expires_at \<Rightarrow> now < expires_at)"

record MembershipAuthorizationIdentity =
  mai_tenant_id :: TenantId
  mai_organization_id :: OrganizationId
  mai_membership_id :: MembershipId
  mai_user_id :: UserId

record MembershipAuthorizationContext =
  mac_identity :: MembershipAuthorizationIdentity
  mac_organization_state :: OrganizationState
  mac_membership_state :: MembershipState
  mac_expires_at :: "UserUtcTimestamp option"
  mac_team_ids :: "TeamId list"

definition validate_team_ids :: "TeamId list \<Rightarrow> (AuthorizationError, unit) result" where
  "validate_team_ids team_ids =
     (if MAX_TEAM_IDS < length team_ids then Inl (auth_error AuthResourceLimitExceeded)
      else insert_unique (auth_error AuthDuplicateIdentity) [] team_ids)"

definition MembershipAuthorizationContext_new ::
  "MembershipAuthorizationIdentity \<Rightarrow> OrganizationState \<Rightarrow> MembershipState \<Rightarrow> UserUtcTimestamp option \<Rightarrow>
     TeamId list \<Rightarrow> (AuthorizationError, MembershipAuthorizationContext) result" where
  "MembershipAuthorizationContext_new identity organization_state membership_state expires_at team_ids =
     bind_result (validate_team_ids team_ids) (\<lambda>_.
     Inr \<lparr>mac_identity = identity, mac_organization_state = organization_state,
          mac_membership_state = membership_state, mac_expires_at = expires_at, mac_team_ids = team_ids\<rparr>)"

definition membership_is_active_at :: "MembershipAuthorizationContext \<Rightarrow> UserUtcTimestamp \<Rightarrow> bool" where
  "membership_is_active_at m now \<longleftrightarrow>
     mac_membership_state m = MembershipActive
     \<and> (case mac_expires_at m of None \<Rightarrow> True | Some expires_at \<Rightarrow> now < expires_at)"

record AuthorizationSubject =
  as_principal :: PrincipalContext
  as_user_id :: UserId
  as_user_state :: UserLifecycleState
  as_membership :: "MembershipAuthorizationContext option"

section \<open>Requests\<close>

datatype ResourceState = ResourceActive | ResourceRestricted | ResourceUnavailable | ResourceDeleted
datatype AuthorizationIntent = AccessIntent | RecoveryIntent

record AuthorizationTarget =
  at_permission_id :: PermissionId
  at_scope :: AuthorizationScope
  at_resource_state :: ResourceState
  at_intent :: AuthorizationIntent

definition AuthorizationTarget_new ::
  "PermissionId \<Rightarrow> AuthorizationScope \<Rightarrow> ResourceState \<Rightarrow> AuthorizationTarget" where
  "AuthorizationTarget_new permission scope state =
     \<lparr>at_permission_id = permission, at_scope = scope, at_resource_state = state, at_intent = AccessIntent\<rparr>"

definition for_recovery :: "PermissionId \<Rightarrow> AuthorizationScope \<Rightarrow> AuthorizationTarget" where
  "for_recovery permission scope =
     \<lparr>at_permission_id = permission, at_scope = scope, at_resource_state = ResourceRestricted,
      at_intent = RecoveryIntent\<rparr>"

record AuthorizationRequest =
  ar_decision_id :: DecisionId
  ar_policy_version :: PolicyVersion
  ar_subject :: AuthorizationSubject
  ar_target :: AuthorizationTarget
  ar_now :: UserUtcTimestamp

section \<open>Policies\<close>

record AuthorizationPolicy =
  azp_version :: PolicyVersion
  azp_tenant_id :: TenantId
  azp_roles :: "RoleDefinition list"
  azp_assignments :: "RoleAssignment list"

definition validate_policy_limits ::
  "RoleDefinition list \<Rightarrow> RoleAssignment list \<Rightarrow> (AuthorizationError, unit) result" where
  "validate_policy_limits roles assignments =
     (if MAX_ROLES < length roles \<or> MAX_ASSIGNMENTS < length assignments
      then Inl (auth_error AuthResourceLimitExceeded) else Inr ())"

definition validate_unique_policy_ids ::
  "RoleDefinition list \<Rightarrow> RoleAssignment list \<Rightarrow> (AuthorizationError, unit) result" where
  "validate_unique_policy_ids roles assignments =
     bind_result (insert_unique (auth_error AuthDuplicateIdentity) [] (map rd_id roles)) (\<lambda>_.
     insert_unique (auth_error AuthDuplicateIdentity) [] (map ra_id assignments))"

definition validate_policy_tenant ::
  "TenantId \<Rightarrow> RoleDefinition list \<Rightarrow> RoleAssignment list \<Rightarrow> (AuthorizationError, unit) result" where
  "validate_policy_tenant tenant roles assignments =
     (if list_ex (\<lambda>role. rd_tenant_id role \<noteq> tenant) roles then Inl (auth_error AuthTenantMismatch)
      else if list_ex (\<lambda>a. scope_tenant_id (ra_scope a) \<noteq> tenant) assignments
      then Inl (auth_error AuthTenantMismatch)
      else Inr ())"

definition validate_assignments ::
  "RoleDefinition list \<Rightarrow> RoleAssignment list \<Rightarrow> (AuthorizationError, unit) result" where
  "validate_assignments roles assignments =
     (if list_ex (\<lambda>a. \<not> list_ex (\<lambda>role. rd_id role = ra_role_id a) roles) assignments
      then Inl (auth_error AuthUnknownRole) else Inr ())"

definition AuthorizationPolicy_new ::
  "TenantId \<Rightarrow> PolicyVersion \<Rightarrow> RoleDefinition list \<Rightarrow> RoleAssignment list \<Rightarrow>
     (AuthorizationError, AuthorizationPolicy) result" where
  "AuthorizationPolicy_new tenant v roles assignments =
     bind_result (validate_policy_limits roles assignments) (\<lambda>_.
     bind_result (validate_unique_policy_ids roles assignments) (\<lambda>_.
     bind_result (validate_policy_tenant tenant roles assignments) (\<lambda>_.
     bind_result (validate_assignments roles assignments) (\<lambda>_.
     Inr \<lparr>azp_version = v, azp_tenant_id = tenant, azp_roles = roles, azp_assignments = assignments\<rparr>))))"

definition policy_role :: "AuthorizationPolicy \<Rightarrow> RoleId \<Rightarrow> RoleDefinition option" where
  "policy_role p i = find (\<lambda>role. rd_id role = i) (azp_roles p)"

section \<open>Decisions\<close>

datatype AuthorizationDecisionReason =
  ExplicitDeny | ExplicitAllow | NoAllow | PolicyVersionMismatch | DecisionTenantMismatch | UserInactive
| OrganizationFrozen | MembershipInactive | ResourceInactive

record MatchedRoleSummary =
  mrs_role_id :: RoleId
  mrs_effect :: PermissionEffect

record AuthorizationDecisionBinding =
  adb_decision_id :: DecisionId
  adb_policy_version :: PolicyVersion
  adb_tenant_id :: TenantId
  adb_principal_id :: PrincipalId
  adb_target :: AuthorizationTarget
  adb_evaluated_at :: UserUtcTimestamp

record AuthorizationDecision =
  ad_binding :: AuthorizationDecisionBinding
  ad_reason :: AuthorizationDecisionReason
  ad_matched_roles :: "MatchedRoleSummary list"

definition AuthorizationDecision_new ::
  "AuthorizationRequest \<Rightarrow> PolicyVersion \<Rightarrow> AuthorizationDecisionReason \<Rightarrow> MatchedRoleSummary list \<Rightarrow>
     AuthorizationDecision" where
  "AuthorizationDecision_new r v reason matched_roles =
     \<lparr>ad_binding =
        \<lparr>adb_decision_id = ar_decision_id r, adb_policy_version = v,
         adb_tenant_id = pc_tenant_id (as_principal (ar_subject r)),
         adb_principal_id = pc_principal_id (as_principal (ar_subject r)),
         adb_target = ar_target r, adb_evaluated_at = ar_now r\<rparr>,
      ad_reason = reason, ad_matched_roles = matched_roles\<rparr>"

definition allowed :: "AuthorizationDecision \<Rightarrow> bool" where
  "allowed d \<longleftrightarrow> ad_reason d = ExplicitAllow"

section \<open>Evaluation\<close>

definition tenant_mismatch :: "AuthorizationPolicy \<Rightarrow> AuthorizationRequest \<Rightarrow> bool" where
  "tenant_mismatch p r =
     (let principal_tenant = pc_tenant_id (as_principal (ar_subject r)) in
      azp_tenant_id p \<noteq> principal_tenant
      \<or> scope_tenant_id (at_scope (ar_target r)) \<noteq> principal_tenant
      \<or> (case as_membership (ar_subject r) of None \<Rightarrow> False
         | Some m \<Rightarrow> mai_tenant_id (mac_identity m) \<noteq> principal_tenant))"

definition membership_user_mismatch :: "AuthorizationRequest \<Rightarrow> bool" where
  "membership_user_mismatch r =
     (case as_membership (ar_subject r) of None \<Rightarrow> False
      | Some m \<Rightarrow> mai_user_id (mac_identity m) \<noteq> as_user_id (ar_subject r))"

definition membership_state_failure ::
  "MembershipAuthorizationContext \<Rightarrow> OrganizationId \<Rightarrow> UserUtcTimestamp \<Rightarrow> AuthorizationDecisionReason option" where
  "membership_state_failure m organization now =
     (if mai_organization_id (mac_identity m) \<noteq> organization then Some MembershipInactive
      else case mac_organization_state m of
             OrgFrozen \<Rightarrow> Some OrganizationFrozen
           | OrgActive \<Rightarrow> if membership_is_active_at m now then None else Some MembershipInactive)"

definition membership_context_failure ::
  "AuthorizationRequest \<Rightarrow> OrganizationId \<Rightarrow> AuthorizationDecisionReason option" where
  "membership_context_failure r organization =
     (case as_membership (ar_subject r) of
        Some m \<Rightarrow> membership_state_failure m organization (ar_now r)
      | None \<Rightarrow> Some MembershipInactive)"

definition membership_failure :: "AuthorizationRequest \<Rightarrow> AuthorizationDecisionReason option" where
  "membership_failure r =
     (if membership_user_mismatch r then Some MembershipInactive
      else case scope_organization_id (at_scope (ar_target r)) of
             Some organization \<Rightarrow> membership_context_failure r organization
           | None \<Rightarrow> None)"

definition resource_failure :: "AuthorizationRequest \<Rightarrow> AuthorizationDecisionReason option" where
  "resource_failure r =
     (case (at_intent (ar_target r), at_resource_state (ar_target r)) of
        (AccessIntent, ResourceActive) \<Rightarrow> None
      | (RecoveryIntent, ResourceRestricted) \<Rightarrow> None
      | _ \<Rightarrow> Some ResourceInactive)"

definition precondition_failure ::
  "AuthorizationPolicy \<Rightarrow> AuthorizationRequest \<Rightarrow> AuthorizationDecisionReason option" where
  "precondition_failure p r =
     (if ar_policy_version r \<noteq> azp_version p then Some PolicyVersionMismatch
      else if tenant_mismatch p r then Some DecisionTenantMismatch
      else if as_user_state (ar_subject r) \<noteq> LifecycleActive then Some UserInactive
      else case membership_failure r of Some reason \<Rightarrow> Some reason | None \<Rightarrow> resource_failure r)"

definition active_membership_matches :: "RoleAssignment \<Rightarrow> AuthorizationRequest \<Rightarrow> bool" where
  "active_membership_matches a r =
     (case as_membership (ar_subject r) of None \<Rightarrow> False
      | Some m \<Rightarrow>
          ra_membership_id a = mai_membership_id (mac_identity m)
          \<and> as_user_id (ar_subject r) = mai_user_id (mac_identity m)
          \<and> mac_organization_state m = OrgActive \<and> membership_is_active_at m (ar_now r))"

definition assignment_matches :: "RoleAssignment \<Rightarrow> AuthorizationRequest \<Rightarrow> bool" where
  "assignment_matches a r \<longleftrightarrow>
     ra_principal_id a = pc_principal_id (as_principal (ar_subject r))
     \<and> assignment_is_active_at a (ar_now r)
     \<and> scope_contains (ra_scope a) (at_scope (ar_target r))
     \<and> active_membership_matches a r"

definition matching_role ::
  "AuthorizationPolicy \<Rightarrow> AuthorizationRequest \<Rightarrow> RoleAssignment \<Rightarrow> MatchedRoleSummary option" where
  "matching_role p r a =
     (case policy_role p (ra_role_id a) of None \<Rightarrow> None
      | Some role \<Rightarrow>
          (case find (\<lambda>rule. pr_permission_id rule = at_permission_id (ar_target r)) (rd_rules role) of
             None \<Rightarrow> None
           | Some rule \<Rightarrow> Some \<lparr>mrs_role_id = rd_id role, mrs_effect = pr_effect rule\<rparr>))"

definition matching_roles :: "AuthorizationPolicy \<Rightarrow> AuthorizationRequest \<Rightarrow> MatchedRoleSummary list" where
  "matching_roles p r =
     List.map_filter (matching_role p r) (filter (\<lambda>a. assignment_matches a r) (azp_assignments p))"

definition permission_reason :: "MatchedRoleSummary list \<Rightarrow> AuthorizationDecisionReason" where
  "permission_reason matched_roles =
     (if list_ex (\<lambda>role. mrs_effect role = DenyEffect) matched_roles then ExplicitDeny
      else if list_ex (\<lambda>role. mrs_effect role = AllowEffect) matched_roles then ExplicitAllow
      else NoAllow)"

definition evaluate :: "AuthorizationPolicy \<Rightarrow> AuthorizationRequest \<Rightarrow> AuthorizationDecision" where
  "evaluate p r =
     (case precondition_failure p r of
        Some reason \<Rightarrow> AuthorizationDecision_new r (azp_version p) reason []
      | None \<Rightarrow>
          let matched_roles = matching_roles p r in
          AuthorizationDecision_new r (azp_version p) (permission_reason matched_roles) matched_roles)"

section \<open>Snapshots\<close>

record RoleDefinitionSnapshot =
  rds_id :: RoleId
  rds_tenant_id :: TenantId
  rds_rules :: "PermissionRule list"

record RoleAssignmentSnapshot =
  ras_id :: AssignmentId
  ras_principal_id :: PrincipalId
  ras_membership_id :: MembershipId
  ras_role_id :: RoleId
  ras_scope :: AuthorizationScope
  ras_expires_at :: "UserUtcTimestamp option"

record AuthorizationPolicySnapshot =
  azs_tenant_id :: TenantId
  azs_version :: PolicyVersion
  azs_roles :: "RoleDefinitionSnapshot list"
  azs_assignments :: "RoleAssignmentSnapshot list"

definition from_role :: "RoleDefinition \<Rightarrow> RoleDefinitionSnapshot" where
  "from_role role = \<lparr>rds_id = rd_id role, rds_tenant_id = rd_tenant_id role, rds_rules = rd_rules role\<rparr>"

definition into_role :: "RoleDefinitionSnapshot \<Rightarrow> (AuthorizationError, RoleDefinition) result" where
  "into_role s = RoleDefinition_new (rds_id s) (rds_tenant_id s) (rds_rules s)"

definition from_assignment :: "RoleAssignment \<Rightarrow> RoleAssignmentSnapshot" where
  "from_assignment a =
     \<lparr>ras_id = ra_id a, ras_principal_id = ra_principal_id a, ras_membership_id = ra_membership_id a,
      ras_role_id = ra_role_id a, ras_scope = ra_scope a, ras_expires_at = ra_expires_at a\<rparr>"

definition into_assignment :: "RoleAssignmentSnapshot \<Rightarrow> (AuthorizationError, RoleAssignment) result" where
  "into_assignment s =
     bind_result (scope_validate (ras_scope s)) (\<lambda>_.
     Inr \<lparr>ra_id = ras_id s, ra_principal_id = ras_principal_id s, ra_membership_id = ras_membership_id s,
          ra_role_id = ras_role_id s, ra_scope = ras_scope s, ra_expires_at = ras_expires_at s\<rparr>)"

definition policy_snapshot :: "AuthorizationPolicy \<Rightarrow> AuthorizationPolicySnapshot" where
  "policy_snapshot p =
     \<lparr>azs_tenant_id = azp_tenant_id p, azs_version = azp_version p,
      azs_roles = map from_role (azp_roles p), azs_assignments = map from_assignment (azp_assignments p)\<rparr>"

definition validate_snapshot_limits :: "AuthorizationPolicySnapshot \<Rightarrow> (AuthorizationError, unit) result" where
  "validate_snapshot_limits s =
     (if MAX_ROLES < length (azs_roles s) \<or> MAX_ASSIGNMENTS < length (azs_assignments s)
      then Inl (auth_error AuthResourceLimitExceeded) else Inr ())"

definition AuthorizationPolicy_from_snapshot ::
  "AuthorizationPolicySnapshot \<Rightarrow> (AuthorizationError, AuthorizationPolicy) result" where
  "AuthorizationPolicy_from_snapshot s =
     bind_result (validate_snapshot_limits s) (\<lambda>_.
     bind_result (collect_result into_role (azs_roles s)) (\<lambda>roles.
     bind_result (collect_result into_assignment (azs_assignments s)) (\<lambda>assignments.
     AuthorizationPolicy_new (azs_tenant_id s) (azs_version s) roles assignments)))"

section \<open>Publication and replacement\<close>

record AuthorizationPolicyChange =
  apc_tenant_id :: TenantId
  apc_expected_version :: PolicyVersion
  apc_roles :: "RoleDefinition list"
  apc_assignments :: "RoleAssignment list"
  apc_actor :: PrincipalId
  apc_occurred_at :: UserUtcTimestamp

datatype AuthorizationPolicyEventKind = PolicyPublished | PolicyReplaced

record AuthorizationPolicyEvent =
  ape_tenant_id :: TenantId
  ape_actor :: PrincipalId
  ape_occurred_at :: UserUtcTimestamp
  ape_version :: PolicyVersion
  ape_kind :: AuthorizationPolicyEventKind

record AuthorizationPolicyTransition =
  apt_tenant_id :: TenantId
  apt_expected_previous_version :: PolicyVersion
  apt_previous_snapshot :: "AuthorizationPolicySnapshot option"
  apt_policy :: AuthorizationPolicy
  apt_event :: AuthorizationPolicyEvent

definition build_transition ::
  "AuthorizationPolicySnapshot option \<Rightarrow> AuthorizationPolicyChange \<Rightarrow> PolicyVersion \<Rightarrow>
     AuthorizationPolicyEventKind \<Rightarrow> (AuthorizationError, AuthorizationPolicyTransition) result" where
  "build_transition previous change v kind =
     bind_result (AuthorizationPolicy_new (apc_tenant_id change) v (apc_roles change) (apc_assignments change)) (\<lambda>p.
     Inr \<lparr>apt_tenant_id = apc_tenant_id change,
          apt_expected_previous_version = apc_expected_version change,
          apt_previous_snapshot = previous, apt_policy = p,
          apt_event = \<lparr>ape_tenant_id = apc_tenant_id change, ape_actor = apc_actor change,
             ape_occurred_at = apc_occurred_at change, ape_version = v, ape_kind = kind\<rparr>\<rparr>)"

definition publish_authorization_policy ::
  "AuthorizationPolicyChange \<Rightarrow> (AuthorizationError, AuthorizationPolicyTransition) result" where
  "publish_authorization_policy change =
     (if apc_expected_version change \<noteq> PolicyVersion_initial then Inl (auth_error AuthVersionConflict)
      else build_transition None change PolicyVersion_initial PolicyPublished)"

definition replace_authorization_policy ::
  "AuthorizationPolicy \<Rightarrow> AuthorizationPolicyChange \<Rightarrow> (AuthorizationError, AuthorizationPolicyTransition) result" where
  "replace_authorization_policy current change =
     (if azp_version current \<noteq> apc_expected_version change then Inl (auth_error AuthVersionConflict)
      else if azp_tenant_id current \<noteq> apc_tenant_id change then Inl (auth_error AuthTenantMismatch)
      else bind_result (PolicyVersion_next (azp_version current)) (\<lambda>next_version.
           build_transition (Some (policy_snapshot current)) change next_version PolicyReplaced))"

section \<open>Reachable policies\<close>

text \<open>The fields of a role are private: every role was accepted by its constructor.\<close>

definition role_constructed :: "RoleDefinition \<Rightarrow> bool" where
  "role_constructed role \<longleftrightarrow> RoleDefinition_new (rd_id role) (rd_tenant_id role) (rd_rules role) = Inr role"

definition policy_init :: "AuthorizationPolicy \<Rightarrow> bool" where
  "policy_init p \<longleftrightarrow>
     (\<exists>change t. list_all role_constructed (apc_roles change) \<and> publish_authorization_policy change = Inr t
        \<and> p = apt_policy t)"

definition policy_step :: "AuthorizationPolicy \<Rightarrow> AuthorizationPolicyChange \<Rightarrow> AuthorizationPolicy \<Rightarrow> bool" where
  "policy_step p change p' \<longleftrightarrow>
     list_all role_constructed (apc_roles change)
     \<and> (\<exists>t. replace_authorization_policy p change = Inr t \<and> p' = apt_policy t)"

definition policy_reachable :: "AuthorizationPolicy \<Rightarrow> bool" where
  "policy_reachable p \<longleftrightarrow> reachable policy_init policy_step p"

definition auth_policy_ok :: "AuthorizationPolicy \<Rightarrow> bool" where
  "auth_policy_ok p \<longleftrightarrow>
     AuthorizationPolicy_new (azp_tenant_id p) (azp_version p) (azp_roles p) (azp_assignments p) = Inr p
     \<and> list_all role_constructed (azp_roles p)"

lemma build_transition_ok:
  assumes "build_transition previous change v kind = Inr t" and "list_all role_constructed (apc_roles change)"
  shows "auth_policy_ok (apt_policy t) \<and> azp_version (apt_policy t) = v
    \<and> azp_tenant_id (apt_policy t) = apc_tenant_id change"
proof -
  from assms(1) obtain p where p: "AuthorizationPolicy_new (apc_tenant_id change) v (apc_roles change)
      (apc_assignments change) = Inr p" "apt_policy t = p"
    by (auto simp: build_transition_def results)
  then have "p = \<lparr>azp_version = v, azp_tenant_id = apc_tenant_id change, azp_roles = apc_roles change,
      azp_assignments = apc_assignments change\<rparr>"
    by (auto simp: AuthorizationPolicy_new_def results)
  with p assms(2) show ?thesis by (simp add: auth_policy_ok_def)
qed

lemma policy_step_ok:
  assumes "policy_step p change p'"
  shows "auth_policy_ok p' \<and> unat (azp_version p') = unat (azp_version p) + 1 \<and> azp_tenant_id p' = azp_tenant_id p"
  using assms
  by (auto simp: policy_step_def replace_authorization_policy_def PolicyVersion_next_def results machine
      split: if_splits dest!: build_transition_ok)

interpretation policies: versioned_aggregate policy_init policy_step auth_policy_ok azp_version azp_tenant_id
proof
  show "auth_policy_ok p" "azp_version p = 1" if "policy_init p" for p
    using that by (auto simp: policy_init_def publish_authorization_policy_def PolicyVersion_initial_def
        split: if_splits dest!: build_transition_ok)
qed (auto dest: policy_step_ok)

lemma reachable_policy_ok: "policy_reachable p \<Longrightarrow> auth_policy_ok p"
  unfolding policy_reachable_def by (rule policies.reachable_inv)

lemma role_constructed_rules:
  "role_constructed role \<longleftrightarrow>
     rd_rules role \<noteq> [] \<and> length (rd_rules role) \<le> MAX_RULES_PER_ROLE
     \<and> distinct (map pr_permission_id (rd_rules role))"
  by (auto simp: role_constructed_def RoleDefinition_new_def validate_rules_def results split: if_splits)

lemma policy_new_ok:
  "AuthorizationPolicy_new tenant v roles assignments = Inr p \<longleftrightarrow>
     p = \<lparr>azp_version = v, azp_tenant_id = tenant, azp_roles = roles, azp_assignments = assignments\<rparr>
     \<and> length roles \<le> MAX_ROLES \<and> length assignments \<le> MAX_ASSIGNMENTS
     \<and> distinct (map rd_id roles) \<and> distinct (map ra_id assignments)
     \<and> (\<forall>role \<in> set roles. rd_tenant_id role = tenant)
     \<and> (\<forall>a \<in> set assignments. scope_tenant_id (ra_scope a) = tenant
          \<and> (\<exists>role \<in> set roles. rd_id role = ra_role_id a))"
  by (auto simp: AuthorizationPolicy_new_def validate_policy_limits_def validate_unique_policy_ids_def
      validate_policy_tenant_def validate_assignments_def list_ex_iff results split: if_splits)

section \<open>Entitlement\<close>

text \<open>The resources a scope stands for, stated over the requested scope.\<close>

definition scope_covers :: "AuthorizationScope \<Rightarrow> AuthorizationScope \<Rightarrow> bool" where
  "scope_covers assigned requested \<longleftrightarrow>
     scope_tenant_id requested = scope_tenant_id assigned
     \<and> (case assigned of
          TenantWideScope _ \<Rightarrow> True
        | TenantResourceScope _ _ _ \<Rightarrow> requested = assigned
        | OrganizationScope _ organization \<Rightarrow> scope_organization_id requested = Some organization
        | ResourceScope tenant organization _ kind resource \<Rightarrow>
            (\<exists>parent i. requested = ResourceScope tenant organization parent kind i
               \<and> (i = resource \<or> parent = Some resource)))"

lemma scope_contains_iff: "scope_contains assigned requested \<longleftrightarrow> scope_covers assigned requested"
  by (cases assigned; cases requested) (auto simp: scope_contains_def scope_covers_def)

text \<open>
  An unexpired assignment of the principal to the membership, active in an active organization, that
  the subject's user holds gives a role with a rule for the permission.
\<close>

definition entitled :: "AuthorizationPolicy \<Rightarrow> AuthorizationRequest \<Rightarrow> PermissionEffect \<Rightarrow> bool" where
  "entitled p r effect \<longleftrightarrow>
     (\<exists>a \<in> set (azp_assignments p). \<exists>role \<in> set (azp_roles p). \<exists>m.
        as_membership (ar_subject r) = Some m
        \<and> ra_principal_id a = pc_principal_id (as_principal (ar_subject r))
        \<and> ra_membership_id a = mai_membership_id (mac_identity m)
        \<and> mai_user_id (mac_identity m) = as_user_id (ar_subject r)
        \<and> mac_organization_state m = OrgActive \<and> membership_is_active_at m (ar_now r)
        \<and> assignment_is_active_at a (ar_now r)
        \<and> scope_covers (ra_scope a) (at_scope (ar_target r))
        \<and> rd_id role = ra_role_id a
        \<and> \<lparr>pr_permission_id = at_permission_id (ar_target r), pr_effect = effect\<rparr> \<in> set (rd_rules role))"

lemma matching_role_iff:
  assumes "auth_policy_ok p"
  shows "(\<exists>s. matching_role p r a = Some s \<and> mrs_effect s = effect) \<longleftrightarrow>
    (\<exists>role \<in> set (azp_roles p). rd_id role = ra_role_id a
       \<and> \<lparr>pr_permission_id = at_permission_id (ar_target r), pr_effect = effect\<rparr> \<in> set (rd_rules role))"
proof -
  have d: "distinct (map rd_id (azp_roles p))" and c: "\<forall>role \<in> set (azp_roles p). role_constructed role"
    using assms by (auto simp: auth_policy_ok_def policy_new_ok list_all_iff)
  have rule: "(\<exists>x. find (\<lambda>x. pr_permission_id x = i) (rd_rules role) = Some x \<and> pr_effect x = effect) \<longleftrightarrow>
      \<lparr>pr_permission_id = i, pr_effect = effect\<rparr> \<in> set (rd_rules role)"
    if "role \<in> set (azp_roles p)" for role i
  proof -
    have "distinct (map pr_permission_id (rd_rules role))"
      using c that by (simp add: role_constructed_rules)
    from find_by_distinct_key [OF this, of i] show ?thesis
      by (metis (full_types) PermissionRule.cases PermissionRule.select_convs)
  qed
  have "(\<exists>s. matching_role p r a = Some s \<and> mrs_effect s = effect) \<longleftrightarrow>
      (\<exists>role. policy_role p (ra_role_id a) = Some role
         \<and> (\<exists>x. find (\<lambda>x. pr_permission_id x = at_permission_id (ar_target r)) (rd_rules role) = Some x
              \<and> pr_effect x = effect))"
    by (auto simp: matching_role_def split: option.splits)
  also have "\<dots> \<longleftrightarrow> (\<exists>role \<in> set (azp_roles p). rd_id role = ra_role_id a
       \<and> \<lparr>pr_permission_id = at_permission_id (ar_target r), pr_effect = effect\<rparr> \<in> set (rd_rules role))"
    using rule by (auto simp: policy_role_def find_by_distinct_key [OF d])
  finally show ?thesis .
qed

lemma assignment_matches_iff:
  "assignment_matches a r \<longleftrightarrow>
     (\<exists>m. as_membership (ar_subject r) = Some m
        \<and> ra_principal_id a = pc_principal_id (as_principal (ar_subject r))
        \<and> ra_membership_id a = mai_membership_id (mac_identity m)
        \<and> mai_user_id (mac_identity m) = as_user_id (ar_subject r)
        \<and> mac_organization_state m = OrgActive \<and> membership_is_active_at m (ar_now r)
        \<and> assignment_is_active_at a (ar_now r)
        \<and> scope_covers (ra_scope a) (at_scope (ar_target r)))"
  by (auto simp: assignment_matches_def active_membership_matches_def scope_contains_iff split: option.splits)

lemma matching_effect_iff:
  assumes "auth_policy_ok p"
  shows "list_ex (\<lambda>s. mrs_effect s = effect) (matching_roles p r) \<longleftrightarrow> entitled p r effect"
proof -
  have "list_ex (\<lambda>s. mrs_effect s = effect) (matching_roles p r) \<longleftrightarrow>
      (\<exists>a \<in> set (azp_assignments p). assignment_matches a r
         \<and> (\<exists>s. matching_role p r a = Some s \<and> mrs_effect s = effect))"
    by (auto simp: matching_roles_def list_ex_iff map_filter_def)
  then show ?thesis
    unfolding matching_role_iff [OF assms] assignment_matches_iff entitled_def by blast
qed

text \<open>The facts a request is checked for before any role is consulted.\<close>

definition request_admissible :: "AuthorizationPolicy \<Rightarrow> AuthorizationRequest \<Rightarrow> bool" where
  "request_admissible p r \<longleftrightarrow>
     ar_policy_version r = azp_version p
     \<and> pc_tenant_id (as_principal (ar_subject r)) = azp_tenant_id p
     \<and> scope_tenant_id (at_scope (ar_target r)) = azp_tenant_id p
     \<and> as_user_state (ar_subject r) = LifecycleActive
     \<and> (\<forall>m. as_membership (ar_subject r) = Some m \<longrightarrow>
          mai_tenant_id (mac_identity m) = azp_tenant_id p
          \<and> (\<forall>organization. scope_organization_id (at_scope (ar_target r)) = Some organization \<longrightarrow>
               mai_organization_id (mac_identity m) = organization))
     \<and> (at_intent (ar_target r), at_resource_state (ar_target r))
         \<in> {(AccessIntent, ResourceActive), (RecoveryIntent, ResourceRestricted)}"

lemma resource_failure_None:
  "resource_failure r = None \<longleftrightarrow>
     (at_intent (ar_target r), at_resource_state (ar_target r))
       \<in> {(AccessIntent, ResourceActive), (RecoveryIntent, ResourceRestricted)}"
  by (cases "at_intent (ar_target r)"; cases "at_resource_state (ar_target r)") (auto simp: resource_failure_def)

lemma membership_failure_None:
  assumes "as_membership (ar_subject r) = Some m" and "mai_user_id (mac_identity m) = as_user_id (ar_subject r)"
    and "mac_organization_state m = OrgActive" and "membership_is_active_at m (ar_now r)"
  shows "membership_failure r = None \<longleftrightarrow>
    (\<forall>organization. scope_organization_id (at_scope (ar_target r)) = Some organization \<longrightarrow>
       mai_organization_id (mac_identity m) = organization)"
  using assms
  by (auto simp: membership_failure_def membership_user_mismatch_def membership_context_failure_def
      membership_state_failure_def split: option.splits)

lemma precondition_failure_None:
  assumes "entitled p r effect"
  shows "precondition_failure p r = None \<longleftrightarrow> request_admissible p r"
proof -
  from assms obtain m where m: "as_membership (ar_subject r) = Some m"
    "mai_user_id (mac_identity m) = as_user_id (ar_subject r)"
    "mac_organization_state m = OrgActive" "membership_is_active_at m (ar_now r)"
    by (auto simp: entitled_def)
  have "precondition_failure p r = None \<longleftrightarrow>
      ar_policy_version r = azp_version p \<and> \<not> tenant_mismatch p r
      \<and> as_user_state (ar_subject r) = LifecycleActive \<and> membership_failure r = None \<and> resource_failure r = None"
    by (auto simp: precondition_failure_def split: option.splits)
  then show ?thesis
    unfolding membership_failure_None [OF m] resource_failure_None request_admissible_def
    using m(1) by (auto simp: tenant_mismatch_def Let_def)
qed

section \<open>A published policy\<close>

definition reader_role :: RoleDefinition where
  "reader_role =
     \<lparr>rd_id = ''reader'', rd_tenant_id = ''tenant'',
      rd_rules = [\<lparr>pr_permission_id = ''read'', pr_effect = AllowEffect\<rparr>]\<rparr>"

definition reader_change :: "AuthorizationScope \<Rightarrow> AuthorizationPolicyChange" where
  "reader_change scope =
     \<lparr>apc_tenant_id = ''tenant'', apc_expected_version = 1, apc_roles = [reader_role],
      apc_assignments =
        [\<lparr>ra_id = ''a1'', ra_principal_id = ''alice'', ra_membership_id = ''m1'', ra_role_id = ''reader'',
          ra_scope = scope, ra_expires_at = Some 100\<rparr>],
      apc_actor = ''root'', apc_occurred_at = 0\<rparr>"

definition reader_policy :: "AuthorizationScope \<Rightarrow> AuthorizationPolicy" where
  "reader_policy scope =
     \<lparr>azp_version = 1, azp_tenant_id = ''tenant'', azp_roles = [reader_role],
      azp_assignments = apc_assignments (reader_change scope)\<rparr>"

definition read_request :: AuthorizationRequest where
  "read_request =
     \<lparr>ar_decision_id = ''d'', ar_policy_version = 1,
      ar_subject =
        \<lparr>as_principal = \<lparr>pc_tenant_id = ''tenant'', pc_principal_id = ''alice''\<rparr>, as_user_id = ''u1'',
         as_user_state = LifecycleActive,
         as_membership = Some
           \<lparr>mac_identity = \<lparr>mai_tenant_id = ''tenant'', mai_organization_id = ''org'',
              mai_membership_id = ''m1'', mai_user_id = ''u1''\<rparr>,
            mac_organization_state = OrgActive, mac_membership_state = MembershipActive,
            mac_expires_at = None, mac_team_ids = []\<rparr>\<rparr>,
      ar_target = AuthorizationTarget_new ''read''
        (ResourceScope ''tenant'' ''org'' (Some ''folder'') ''file'' ''note'') ResourceActive,
      ar_now = 50\<rparr>"

lemma reader_policy_reachable:
  assumes "scope_tenant_id scope = ''tenant''"
  shows "policy_reachable (reader_policy scope)"
proof -
  have role: "list_all role_constructed (apc_roles (reader_change scope))"
    by (simp add: reader_change_def reader_role_def role_constructed_rules MAX_RULES_PER_ROLE_def)
  have "AuthorizationPolicy_new ''tenant'' 1 [reader_role] (apc_assignments (reader_change scope))
      = Inr (reader_policy scope)"
    using assms by (simp add: policy_new_ok reader_policy_def reader_change_def reader_role_def MAX_ROLES_def
        MAX_ASSIGNMENTS_def)
  then obtain t where "publish_authorization_policy (reader_change scope) = Inr t" "apt_policy t = reader_policy scope"
    by (simp add: publish_authorization_policy_def build_transition_def PolicyVersion_initial_def reader_change_def)
  then have "policy_init (reader_policy scope)" using role by (force simp: policy_init_def)
  then show ?thesis by (simp add: policy_reachable_def reachable_init)
qed

section \<open>Properties\<close>

text \<open>
  C6: Authorization is explicit and fails closed: under a reachable policy a request is allowed exactly
  when its version, tenants, user, organization and resource state are admissible, the subject is
  entitled to the permission by some role, and no role of an entitlement denies it.
\<close>

theorem authorization_is_explicit:
  assumes "policy_reachable p"
  shows "allowed (evaluate p r) \<longleftrightarrow>
    request_admissible p r \<and> entitled p r AllowEffect \<and> \<not> entitled p r DenyEffect"
proof -
  from reachable_policy_ok [OF assms] have ok: "auth_policy_ok p" .
  have "allowed (evaluate p r) \<longleftrightarrow>
      precondition_failure p r = None \<and> permission_reason (matching_roles p r) = ExplicitAllow
      \<or> precondition_failure p r = Some ExplicitAllow"
    by (auto simp: allowed_def evaluate_def AuthorizationDecision_new_def Let_def split: option.splits)
  also have "\<dots> \<longleftrightarrow> precondition_failure p r = None \<and> permission_reason (matching_roles p r) = ExplicitAllow"
    by (auto simp: precondition_failure_def membership_failure_def membership_context_failure_def
        membership_state_failure_def resource_failure_def
        split: if_splits option.splits OrganizationState.splits AuthorizationIntent.splits ResourceState.splits)
  also have "\<dots> \<longleftrightarrow> precondition_failure p r = None \<and> entitled p r AllowEffect \<and> \<not> entitled p r DenyEffect"
    by (auto simp: permission_reason_def matching_effect_iff [OF ok])
  finally show ?thesis using precondition_failure_None [of p r AllowEffect] by blast
qed

theorem authorization_is_explicit_witness:
  "policy_reachable (reader_policy (ResourceScope ''tenant'' ''org'' None ''file'' ''folder''))
   \<and> allowed (evaluate (reader_policy (ResourceScope ''tenant'' ''org'' None ''file'' ''folder'')) read_request)"
proof
  let ?p = "reader_policy (ResourceScope ''tenant'' ''org'' None ''file'' ''folder'')"
  show p: "policy_reachable ?p" by (rule reader_policy_reachable) simp
  have "request_admissible ?p read_request"
    by (simp add: request_admissible_def reader_policy_def read_request_def AuthorizationTarget_new_def)
  moreover have "entitled ?p read_request AllowEffect" "\<not> entitled ?p read_request DenyEffect"
    by (simp_all add: entitled_def reader_policy_def reader_change_def reader_role_def read_request_def
        AuthorizationTarget_new_def scope_covers_def membership_is_active_at_def assignment_is_active_at_def)
  ultimately show "allowed (evaluate ?p read_request)"
    using authorization_is_explicit [OF p] by blast
qed

text \<open>
  C20: A reachable policy is restored from its snapshot exactly when every assignment has a scope that is
  not its own parent. Publication and replacement accept assignments with other scopes, whose public
  variants are built without a check: such a policy takes effect and cannot be read back.
\<close>

theorem policies_survive_storage_iff:
  assumes "policy_reachable p"
  shows "AuthorizationPolicy_from_snapshot (policy_snapshot p) = Inr p \<longleftrightarrow>
    list_all (\<lambda>a. scope_validate (ra_scope a) = Inr ()) (azp_assignments p)"
proof -
  from reachable_policy_ok [OF assms] have ok: "auth_policy_ok p" .
  have limits: "validate_snapshot_limits (policy_snapshot p) = Inr ()"
    using ok by (simp add: validate_snapshot_limits_def policy_snapshot_def auth_policy_ok_def policy_new_ok)
  have roles: "collect_result into_role (azs_roles (policy_snapshot p)) = Inr (azp_roles p)"
  proof -
    have "into_role (from_role role) = Inr role" if "role \<in> set (azp_roles p)" for role
      using ok that by (auto simp: auth_policy_ok_def role_constructed_def list_all_iff into_role_def from_role_def)
    then show ?thesis
      by (auto simp: collect_result_ok policy_snapshot_def list_all2_map1 list_all2_same)
  qed
  have assignment: "into_assignment (from_assignment a) = Inr b \<longleftrightarrow> scope_validate (ra_scope a) = Inr () \<and> b = a" for a b
    by (auto simp: into_assignment_def from_assignment_def results)
  have "collect_result into_assignment (azs_assignments (policy_snapshot p)) = Inr bs \<longleftrightarrow>
      bs = azp_assignments p \<and> list_all (\<lambda>a. scope_validate (ra_scope a) = Inr ()) (azp_assignments p)" for bs
    unfolding collect_result_ok policy_snapshot_def
    by (auto simp: list_all2_map1 assignment list_all2_conv_all_nth list_all_length intro: nth_equalityI)
  then show ?thesis
    using limits roles ok
    by (auto simp: AuthorizationPolicy_from_snapshot_def results auth_policy_ok_def policy_snapshot_def)
qed

theorem policies_survive_storage_iff_witness:
  "AuthorizationPolicy_from_snapshot (policy_snapshot (reader_policy (OrganizationScope ''tenant'' ''org'')))
     = Inr (reader_policy (OrganizationScope ''tenant'' ''org''))
   \<and> policy_reachable (reader_policy (ResourceScope ''tenant'' ''org'' (Some ''x'') ''file'' ''x''))
   \<and> AuthorizationPolicy_from_snapshot
       (policy_snapshot (reader_policy (ResourceScope ''tenant'' ''org'' (Some ''x'') ''file'' ''x'')))
     \<noteq> Inr (reader_policy (ResourceScope ''tenant'' ''org'' (Some ''x'') ''file'' ''x''))"
proof (intro conjI)
  let ?p = "reader_policy (OrganizationScope ''tenant'' ''org'')"
    and ?q = "reader_policy (ResourceScope ''tenant'' ''org'' (Some ''x'') ''file'' ''x'')"
  have "policy_reachable ?p" by (rule reader_policy_reachable) simp
  from policies_survive_storage_iff [OF this] show "AuthorizationPolicy_from_snapshot (policy_snapshot ?p) = Inr ?p"
    by (simp add: reader_policy_def reader_change_def)
  show q: "policy_reachable ?q" by (rule reader_policy_reachable) simp
  from policies_survive_storage_iff [OF q] show "AuthorizationPolicy_from_snapshot (policy_snapshot ?q) \<noteq> Inr ?q"
    by (simp add: reader_policy_def reader_change_def)
qed

end
