(* ===== verification/Auth_Session.thy ===== *)
theory Auth_Session
  imports User_Domain Slices
begin

text \<open>
  Browser session families of \<open>ariadnion-auth-session\<close> (\<open>ids.rs\<close>, \<open>error.rs\<close>, \<open>model.rs\<close>,
  \<open>model/snapshot.rs\<close>, \<open>transition.rs\<close>): a chain of leaf sessions of which one is active, rotation of
  the leaf against its token, revocation when a rotated token is presented again, expiry, and the
  restoration of a family from its snapshot. Digests are values; the digest function of the tokens is a
  parameter.
\<close>

section \<open>Errors, identities and versions\<close>

datatype SessionErrorCode =
  SessionInvalidArgument | SessionVersionConflict | SessionVersionExhausted | SessionResourceLimitExceeded
| SessionTenantMismatch | SessionUserMismatch | FamilyMismatch | SessionMismatch | TokenMismatch
| SessionNotYetValid | SessionErrorExpired | NotYetExpired | InactiveLeaf | FamilyTerminal | TokenReuseDetected

fun SessionErrorCode_as_str :: "SessionErrorCode \<Rightarrow> string" where
  "SessionErrorCode_as_str SessionInvalidArgument = ''SESSION_INVALID_ARGUMENT''"
| "SessionErrorCode_as_str SessionVersionConflict = ''SESSION_VERSION_CONFLICT''"
| "SessionErrorCode_as_str SessionVersionExhausted = ''SESSION_VERSION_EXHAUSTED''"
| "SessionErrorCode_as_str SessionResourceLimitExceeded = ''SESSION_RESOURCE_LIMIT_EXCEEDED''"
| "SessionErrorCode_as_str SessionTenantMismatch = ''SESSION_TENANT_MISMATCH''"
| "SessionErrorCode_as_str SessionUserMismatch = ''SESSION_USER_MISMATCH''"
| "SessionErrorCode_as_str FamilyMismatch = ''SESSION_FAMILY_MISMATCH''"
| "SessionErrorCode_as_str SessionMismatch = ''SESSION_SESSION_MISMATCH''"
| "SessionErrorCode_as_str TokenMismatch = ''SESSION_TOKEN_MISMATCH''"
| "SessionErrorCode_as_str SessionNotYetValid = ''SESSION_NOT_YET_VALID''"
| "SessionErrorCode_as_str SessionErrorExpired = ''SESSION_EXPIRED''"
| "SessionErrorCode_as_str NotYetExpired = ''SESSION_NOT_YET_EXPIRED''"
| "SessionErrorCode_as_str InactiveLeaf = ''SESSION_INACTIVE_LEAF''"
| "SessionErrorCode_as_str FamilyTerminal = ''SESSION_FAMILY_TERMINAL''"
| "SessionErrorCode_as_str TokenReuseDetected = ''SESSION_TOKEN_REUSE_DETECTED''"

record SessionError =
  se_code :: SessionErrorCode

definition session_error :: "SessionErrorCode \<Rightarrow> SessionError" where
  "session_error code = \<lparr>se_code = code\<rparr>"

type_synonym SessionFamilyId = string
type_synonym SessionId = string
type_synonym SessionFamilyVersion = u64
type_synonym SessionVersion = u64

definition MAX_SESSION_ID_BYTES :: nat where "MAX_SESSION_ID_BYTES = 128"

definition valid_session_identifier :: "string \<Rightarrow> bool" where
  "valid_session_identifier value \<longleftrightarrow>
     value \<noteq> [] \<and> length value \<le> MAX_SESSION_ID_BYTES \<and> is_ascii value
     \<and> list_all (\<lambda>c. is_alphanumeric c \<or> c \<in> {CHR ''.'', CHR ''-'', CHR ''_''}) value"

definition SessionFamilyId_parse :: "string \<Rightarrow> (SessionError, SessionFamilyId) result" where
  "SessionFamilyId_parse value =
     (if \<not> valid_session_identifier value then Inl (session_error SessionInvalidArgument) else Inr value)"

definition SessionId_parse :: "string \<Rightarrow> (SessionError, SessionId) result" where
  "SessionId_parse value =
     (if \<not> valid_session_identifier value then Inl (session_error SessionInvalidArgument) else Inr value)"

definition SessionFamilyVersion_initial :: SessionFamilyVersion where "SessionFamilyVersion_initial = 1"

definition SessionFamilyVersion_new :: "u64 \<Rightarrow> (SessionError, SessionFamilyVersion) result" where
  "SessionFamilyVersion_new value =
     (if value = 0 then Inl (session_error SessionInvalidArgument) else Inr value)"

definition SessionFamilyVersion_next :: "SessionFamilyVersion \<Rightarrow> (SessionError, SessionFamilyVersion) result" where
  "SessionFamilyVersion_next v = ok_or (session_error SessionVersionExhausted) (checked_add v 1)"

definition SessionVersion_initial :: SessionVersion where "SessionVersion_initial = 1"

definition SessionVersion_new :: "u64 \<Rightarrow> (SessionError, SessionVersion) result" where
  "SessionVersion_new value =
     (if value = 0 then Inl (session_error SessionInvalidArgument) else Inr value)"

definition SessionVersion_next :: "SessionVersion \<Rightarrow> (SessionError, SessionVersion) result" where
  "SessionVersion_next v = ok_or (session_error SessionVersionExhausted) (checked_add v 1)"

section \<open>Families and leaves\<close>

definition MAX_ABSOLUTE_LIFETIME_SECONDS :: int where "MAX_ABSOLUTE_LIFETIME_SECONDS = 30 * 24 * 60 * 60"
definition MAX_IDLE_LIFETIME_SECONDS :: int where "MAX_IDLE_LIFETIME_SECONDS = 12 * 60 * 60"
definition MIN_SESSION_TOKEN_BYTES :: nat where "MIN_SESSION_TOKEN_BYTES = 32"
definition MAX_SESSION_TOKEN_BYTES :: nat where "MAX_SESSION_TOKEN_BYTES = 256"
definition MAX_ROTATED_SESSIONS :: nat where "MAX_ROTATED_SESSIONS = 4096"

definition SESSION_TOKEN_DOMAIN :: string where
  "SESSION_TOKEN_DOMAIN = ''ariadnion.browser-session.token.v1'' @ [CHR 0x00]"

record SessionSubject =
  ss_tenant_id :: TenantId
  ss_user_id :: UserId

text \<open>The 32 bytes of a digest.\<close>

type_synonym SessionTokenDigest = string

definition domain_separated_digest :: "(string \<Rightarrow> SessionTokenDigest) \<Rightarrow> string \<Rightarrow> string \<Rightarrow> SessionTokenDigest" where
  "domain_separated_digest sha256 domain value = sha256 (domain @ value)"

definition SessionTokenDigest_from_token ::
  "(string \<Rightarrow> SessionTokenDigest) \<Rightarrow> string \<Rightarrow> (SessionError, SessionTokenDigest) result" where
  "SessionTokenDigest_from_token sha256 token =
     (if \<not> (MIN_SESSION_TOKEN_BYTES \<le> length token \<and> length token \<le> MAX_SESSION_TOKEN_BYTES)
      then Inl (session_error SessionInvalidArgument)
      else Inr (domain_separated_digest sha256 SESSION_TOKEN_DOMAIN token))"

datatype SessionState = LeafActive | LeafRotated | LeafRevoked | LeafExpired
datatype SessionFamilyState = FamilyActive | FamilyRevoked | FamilyExpired

record SessionIssueBinding =
  sib_family_id :: SessionFamilyId
  sib_session_id :: SessionId
  sib_subject :: SessionSubject
  sib_actor :: PrincipalId

record SessionValidityWindow =
  svw_issued_at :: UserUtcTimestamp
  svw_absolute_expires_at :: UserUtcTimestamp
  svw_idle_expires_at :: UserUtcTimestamp

record SessionIssueRequest =
  sir_binding :: SessionIssueBinding
  sir_token_digest :: SessionTokenDigest
  sir_validity :: SessionValidityWindow

record Session =
  leaf_id :: SessionId
  leaf_token_digest :: SessionTokenDigest
  leaf_issued_at :: UserUtcTimestamp
  leaf_last_seen_at :: UserUtcTimestamp
  leaf_idle_expires_at :: UserUtcTimestamp
  leaf_version :: SessionVersion
  leaf_state :: SessionState
  leaf_predecessor_id :: "SessionId option"

definition active_leaf ::
  "SessionId \<Rightarrow> SessionTokenDigest \<Rightarrow> UserUtcTimestamp \<Rightarrow> UserUtcTimestamp \<Rightarrow> SessionId option \<Rightarrow> Session" where
  "active_leaf i token issued_at idle_expires_at predecessor =
     \<lparr>leaf_id = i, leaf_token_digest = token, leaf_issued_at = issued_at, leaf_last_seen_at = issued_at,
      leaf_idle_expires_at = idle_expires_at, leaf_version = SessionVersion_initial,
      leaf_state = LeafActive, leaf_predecessor_id = predecessor\<rparr>"

definition leaf_with_state :: "SessionState \<Rightarrow> Session \<Rightarrow> (SessionError, Session) result" where
  "leaf_with_state state leaf =
     bind_result (SessionVersion_next (leaf_version leaf)) (\<lambda>v.
     Inr (leaf\<lparr>leaf_version := v, leaf_state := state\<rparr>))"

record SessionFamily =
  sf_id :: SessionFamilyId
  sf_subject :: SessionSubject
  sf_absolute_expires_at :: UserUtcTimestamp
  sf_issued_at :: UserUtcTimestamp
  sf_version :: SessionFamilyVersion
  sf_state :: SessionFamilyState
  sf_current :: Session
  sf_rotated :: "Session list"

definition SessionFamily_issued :: "SessionIssueRequest \<Rightarrow> SessionFamily" where
  "SessionFamily_issued request =
     \<lparr>sf_id = sib_family_id (sir_binding request), sf_subject = sib_subject (sir_binding request),
      sf_absolute_expires_at = svw_absolute_expires_at (sir_validity request),
      sf_issued_at = svw_issued_at (sir_validity request),
      sf_version = SessionFamilyVersion_initial, sf_state = FamilyActive,
      sf_current = active_leaf (sib_session_id (sir_binding request)) (sir_token_digest request)
        (svw_issued_at (sir_validity request)) (svw_idle_expires_at (sir_validity request)) None,
      sf_rotated = []\<rparr>"

definition family_advance ::
  "SessionFamily \<Rightarrow> SessionFamilyVersion \<Rightarrow> SessionFamilyState \<Rightarrow> Session \<Rightarrow> Session list \<Rightarrow> SessionFamily" where
  "family_advance f v state current rotated =
     f\<lparr>sf_version := v, sf_state := state, sf_current := current, sf_rotated := rotated\<rparr>"

section \<open>Commands and events\<close>

record SessionRotationEvidence =
  sre_family_id :: SessionFamilyId
  sre_session_id :: SessionId
  sre_subject :: SessionSubject
  sre_presented_token :: SessionTokenDigest

record SessionRotation =
  srt_evidence :: SessionRotationEvidence
  srt_successor_session_id :: SessionId
  srt_successor_token :: SessionTokenDigest
  srt_idle_expires_at :: UserUtcTimestamp

datatype SessionAction =
  RotateSession SessionRotation
| DetectReuse SessionFamilyId SessionId SessionSubject SessionTokenDigest
| RevokeSessions SessionSubject
| ExpireSessions SessionSubject

record SessionCommand =
  sc_expected_version :: SessionFamilyVersion
  sc_actor :: PrincipalId
  sc_occurred_at :: UserUtcTimestamp
  sc_action :: SessionAction

datatype SessionEventKind =
  SessionIssued | SessionRotated | SessionReuseRevoked | SessionRevoked | SessionExpired

record SessionEvent =
  sev_family_id :: SessionFamilyId
  sev_session_id :: SessionId
  sev_tenant_id :: TenantId
  sev_user_id :: UserId
  sev_actor :: PrincipalId
  sev_occurred_at :: UserUtcTimestamp
  sev_version :: SessionFamilyVersion
  sev_kind :: SessionEventKind

record SessionTransition =
  stn_family :: SessionFamily
  stn_event :: SessionEvent

definition session_event_from ::
  "SessionFamily \<Rightarrow> PrincipalId \<Rightarrow> UserUtcTimestamp \<Rightarrow> SessionEventKind \<Rightarrow> SessionEvent" where
  "session_event_from f actor occurred_at kind =
     \<lparr>sev_family_id = sf_id f, sev_session_id = leaf_id (sf_current f),
      sev_tenant_id = ss_tenant_id (sf_subject f), sev_user_id = ss_user_id (sf_subject f),
      sev_actor = actor, sev_occurred_at = occurred_at, sev_version = sf_version f, sev_kind = kind\<rparr>"

section \<open>Issue\<close>

definition validate_positive_window_order :: "int \<Rightarrow> int \<Rightarrow> int \<Rightarrow> (SessionError, unit) result" where
  "validate_positive_window_order issued absolute idle =
     (if absolute \<le> issued \<or> idle \<le> issued then Inl (session_error SessionInvalidArgument) else Inr ())"

definition validate_window_spans :: "int \<Rightarrow> int \<Rightarrow> int \<Rightarrow> (SessionError, unit) result" where
  "validate_window_spans issued absolute idle =
     bind_result (ok_or (session_error SessionInvalidArgument) (i64_checked_sub absolute issued)) (\<lambda>absolute_span.
     bind_result (ok_or (session_error SessionInvalidArgument) (i64_checked_sub idle issued)) (\<lambda>idle_span.
     if MAX_ABSOLUTE_LIFETIME_SECONDS < absolute_span \<or> MAX_IDLE_LIFETIME_SECONDS < idle_span
     then Inl (session_error SessionInvalidArgument) else Inr ()))"

definition validate_validity_window :: "SessionValidityWindow \<Rightarrow> (SessionError, unit) result" where
  "validate_validity_window w =
     bind_result (validate_positive_window_order (svw_issued_at w) (svw_absolute_expires_at w) (svw_idle_expires_at w)) (\<lambda>_.
     bind_result (validate_window_spans (svw_issued_at w) (svw_absolute_expires_at w) (svw_idle_expires_at w)) (\<lambda>_.
     if svw_absolute_expires_at w < svw_idle_expires_at w then Inl (session_error SessionInvalidArgument)
     else Inr ()))"

definition issue_session :: "SessionIssueRequest \<Rightarrow> (SessionError, SessionTransition) result" where
  "issue_session request =
     bind_result (validate_validity_window (sir_validity request)) (\<lambda>_.
     let family = SessionFamily_issued request in
     Inr \<lparr>stn_family = family,
          stn_event = session_event_from family (sib_actor (sir_binding request))
            (svw_issued_at (sir_validity request)) SessionIssued\<rparr>)"

section \<open>Checks\<close>

definition validate_session_version :: "SessionFamily \<Rightarrow> SessionFamilyVersion \<Rightarrow> (SessionError, unit) result" where
  "validate_session_version f expected =
     (if sf_version f \<noteq> expected then Inl (session_error SessionVersionConflict) else Inr ())"

definition validate_command_time :: "SessionFamily \<Rightarrow> UserUtcTimestamp \<Rightarrow> (SessionError, unit) result" where
  "validate_command_time f occurred_at =
     (if occurred_at < sf_issued_at f \<or> occurred_at < leaf_last_seen_at (sf_current f)
      then Inl (session_error SessionNotYetValid) else Inr ())"

definition validate_active_family :: "SessionFamily \<Rightarrow> (SessionError, unit) result" where
  "validate_active_family f =
     (if sf_state f \<noteq> FamilyActive then Inl (session_error FamilyTerminal)
      else if leaf_state (sf_current f) \<noteq> LeafActive then Inl (session_error InactiveLeaf)
      else Inr ())"

definition validate_session_subject :: "SessionFamily \<Rightarrow> SessionSubject \<Rightarrow> (SessionError, unit) result" where
  "validate_session_subject f subject =
     (if ss_tenant_id (sf_subject f) \<noteq> ss_tenant_id subject then Inl (session_error SessionTenantMismatch)
      else if ss_user_id (sf_subject f) \<noteq> ss_user_id subject then Inl (session_error SessionUserMismatch)
      else Inr ())"

definition validate_family_id :: "SessionFamily \<Rightarrow> SessionFamilyId \<Rightarrow> (SessionError, unit) result" where
  "validate_family_id f i = (if sf_id f \<noteq> i then Inl (session_error FamilyMismatch) else Inr ())"

definition validate_current_leaf :: "SessionFamily \<Rightarrow> SessionId \<Rightarrow> (SessionError, unit) result" where
  "validate_current_leaf f i =
     (if leaf_id (sf_current f) \<noteq> i then Inl (session_error SessionMismatch) else Inr ())"

definition validate_not_expired :: "SessionFamily \<Rightarrow> UserUtcTimestamp \<Rightarrow> (SessionError, unit) result" where
  "validate_not_expired f occurred_at =
     (if sf_absolute_expires_at f \<le> occurred_at \<or> leaf_idle_expires_at (sf_current f) \<le> occurred_at
      then Inl (session_error SessionErrorExpired) else Inr ())"

definition validate_idle_window ::
  "SessionFamily \<Rightarrow> UserUtcTimestamp \<Rightarrow> UserUtcTimestamp \<Rightarrow> (SessionError, unit) result" where
  "validate_idle_window f occurred_at idle_expires_at =
     (if idle_expires_at \<le> occurred_at then Inl (session_error SessionInvalidArgument)
      else bind_result (ok_or (session_error SessionInvalidArgument) (i64_checked_sub idle_expires_at occurred_at)) (\<lambda>idle_span.
           if MAX_IDLE_LIFETIME_SECONDS < idle_span then Inl (session_error SessionInvalidArgument)
           else if sf_absolute_expires_at f < idle_expires_at then Inl (session_error SessionInvalidArgument)
           else Inr ()))"

text \<open>The loops compare in constant time and join the answers.\<close>

definition session_id_was_used :: "SessionFamily \<Rightarrow> SessionId \<Rightarrow> bool" where
  "session_id_was_used f candidate =
     foldl (\<lambda>found leaf. found \<or> leaf_id leaf = candidate) (leaf_id (sf_current f) = candidate) (sf_rotated f)"

definition token_was_used :: "SessionFamily \<Rightarrow> SessionTokenDigest \<Rightarrow> bool" where
  "token_was_used f candidate =
     foldl (\<lambda>found leaf. found \<or> leaf_token_digest leaf = candidate)
       (leaf_token_digest (sf_current f) = candidate) (sf_rotated f)"

definition rotated_token_match_choice :: "SessionFamily \<Rightarrow> SessionTokenDigest \<Rightarrow> bool" where
  "rotated_token_match_choice f presented =
     foldl (\<lambda>found leaf. found \<or> leaf_token_digest leaf = presented) False (sf_rotated f)"

definition rotated_session_matches :: "SessionFamily \<Rightarrow> SessionId \<Rightarrow> SessionTokenDigest \<Rightarrow> bool" where
  "rotated_session_matches f i presented =
     foldl (\<lambda>found leaf. found \<or> (leaf_id leaf = i \<and> leaf_token_digest leaf = presented)) False (sf_rotated f)"

definition rotated_with_state :: "SessionFamily \<Rightarrow> SessionState \<Rightarrow> (SessionError, Session list) result" where
  "rotated_with_state f state = collect_result (leaf_with_state state) (sf_rotated f)"

definition validate_successor :: "SessionFamily \<Rightarrow> SessionRotation \<Rightarrow> (SessionError, unit) result" where
  "validate_successor f rotation =
     (if MAX_ROTATED_SESSIONS \<le> length (sf_rotated f) then Inl (session_error SessionResourceLimitExceeded)
      else if session_id_was_used f (srt_successor_session_id rotation)
              \<or> token_was_used f (srt_successor_token rotation)
      then Inl (session_error SessionInvalidArgument)
      else Inr ())"

section \<open>Transitions\<close>

datatype PresentedTokenOutcome = ActiveMatch | PreviousMatch | TokenUnknown

definition evaluate_presented_token :: "SessionFamily \<Rightarrow> SessionTokenDigest \<Rightarrow> PresentedTokenOutcome" where
  "evaluate_presented_token f presented =
     (if leaf_token_digest (sf_current f) = presented then ActiveMatch
      else if rotated_token_match_choice f presented then PreviousMatch
      else TokenUnknown)"

text \<open>
  The end of a family, which reuse, revocation and expiry share: every leaf takes the state.
\<close>

definition end_family ::
  "SessionFamily \<Rightarrow> PrincipalId \<Rightarrow> UserUtcTimestamp \<Rightarrow> SessionState \<Rightarrow> SessionFamilyState \<Rightarrow> SessionEventKind \<Rightarrow>
     (SessionError, SessionTransition) result" where
  "end_family f actor occurred_at leaf_end family_end kind =
     bind_result (SessionFamilyVersion_next (sf_version f)) (\<lambda>v.
     bind_result (leaf_with_state leaf_end (sf_current f)) (\<lambda>current_leaf.
     bind_result (rotated_with_state f leaf_end) (\<lambda>rotated.
     let family = family_advance f v family_end current_leaf rotated in
     Inr \<lparr>stn_family = family, stn_event = session_event_from family actor occurred_at kind\<rparr>)))"

definition revoke_for_reuse ::
  "SessionFamily \<Rightarrow> PrincipalId \<Rightarrow> UserUtcTimestamp \<Rightarrow> (SessionError, SessionTransition) result" where
  "revoke_for_reuse f actor occurred_at =
     end_family f actor occurred_at LeafRevoked FamilyRevoked SessionReuseRevoked"

definition rotate_active_leaf ::
  "SessionFamily \<Rightarrow> PrincipalId \<Rightarrow> UserUtcTimestamp \<Rightarrow> SessionRotation \<Rightarrow> (SessionError, SessionTransition) result" where
  "rotate_active_leaf f actor occurred_at rotation =
     bind_result (SessionFamilyVersion_next (sf_version f)) (\<lambda>v.
     bind_result (leaf_with_state LeafRotated (sf_current f)) (\<lambda>predecessor.
     let successor = active_leaf (srt_successor_session_id rotation) (srt_successor_token rotation)
           occurred_at (srt_idle_expires_at rotation) (Some (leaf_id predecessor));
         family = family_advance f v FamilyActive successor (sf_rotated f @ [predecessor])
     in Inr \<lparr>stn_family = family, stn_event = session_event_from family actor occurred_at SessionRotated\<rparr>))"

definition validate_rotation_preconditions ::
  "SessionFamily \<Rightarrow> UserUtcTimestamp \<Rightarrow> SessionRotation \<Rightarrow> (SessionError, unit) result" where
  "validate_rotation_preconditions f occurred_at rotation =
     bind_result (validate_active_family f) (\<lambda>_.
     bind_result (validate_session_subject f (sre_subject (srt_evidence rotation))) (\<lambda>_.
     bind_result (validate_family_id f (sre_family_id (srt_evidence rotation))) (\<lambda>_.
     bind_result (validate_current_leaf f (sre_session_id (srt_evidence rotation))) (\<lambda>_.
     validate_not_expired f occurred_at))))"

definition apply_rotation ::
  "SessionFamily \<Rightarrow> PrincipalId \<Rightarrow> UserUtcTimestamp \<Rightarrow> SessionRotation \<Rightarrow> (SessionError, SessionTransition) result" where
  "apply_rotation f actor occurred_at rotation =
     bind_result (validate_rotation_preconditions f occurred_at rotation) (\<lambda>_.
     case evaluate_presented_token f (sre_presented_token (srt_evidence rotation)) of
       ActiveMatch \<Rightarrow>
         bind_result (validate_idle_window f occurred_at (srt_idle_expires_at rotation)) (\<lambda>_.
         bind_result (validate_successor f rotation) (\<lambda>_.
         rotate_active_leaf f actor occurred_at rotation))
     | PreviousMatch \<Rightarrow> revoke_for_reuse f actor occurred_at
     | TokenUnknown \<Rightarrow> Inl (session_error TokenMismatch))"

definition apply_reuse_detection ::
  "SessionFamily \<Rightarrow> PrincipalId \<Rightarrow> UserUtcTimestamp \<Rightarrow> SessionFamilyId \<Rightarrow> SessionId \<Rightarrow> SessionSubject \<Rightarrow>
     SessionTokenDigest \<Rightarrow> (SessionError, SessionTransition) result" where
  "apply_reuse_detection f actor occurred_at family_id i subject presented =
     bind_result (validate_session_subject f subject) (\<lambda>_.
     bind_result (validate_family_id f family_id) (\<lambda>_.
     if sf_state f \<noteq> FamilyActive then Inl (session_error FamilyTerminal)
     else if \<not> rotated_session_matches f i presented then Inl (session_error TokenMismatch)
     else revoke_for_reuse f actor occurred_at))"

definition apply_revoke ::
  "SessionFamily \<Rightarrow> PrincipalId \<Rightarrow> UserUtcTimestamp \<Rightarrow> SessionSubject \<Rightarrow> (SessionError, SessionTransition) result" where
  "apply_revoke f actor occurred_at subject =
     bind_result (validate_session_subject f subject) (\<lambda>_.
     bind_result (validate_active_family f) (\<lambda>_.
     end_family f actor occurred_at LeafRevoked FamilyRevoked SessionRevoked))"

definition validate_expiration_time :: "SessionFamily \<Rightarrow> UserUtcTimestamp \<Rightarrow> (SessionError, unit) result" where
  "validate_expiration_time f occurred_at =
     (if occurred_at < sf_absolute_expires_at f \<and> occurred_at < leaf_idle_expires_at (sf_current f)
      then Inl (session_error NotYetExpired) else Inr ())"

definition apply_expire ::
  "SessionFamily \<Rightarrow> PrincipalId \<Rightarrow> UserUtcTimestamp \<Rightarrow> SessionSubject \<Rightarrow> (SessionError, SessionTransition) result" where
  "apply_expire f actor occurred_at subject =
     bind_result (validate_session_subject f subject) (\<lambda>_.
     bind_result (validate_active_family f) (\<lambda>_.
     bind_result (validate_expiration_time f occurred_at) (\<lambda>_.
     end_family f actor occurred_at LeafExpired FamilyExpired SessionExpired)))"

fun apply_session_action ::
  "SessionFamily \<Rightarrow> PrincipalId \<Rightarrow> UserUtcTimestamp \<Rightarrow> SessionAction \<Rightarrow> (SessionError, SessionTransition) result" where
  "apply_session_action f actor occurred_at (RotateSession rotation) = apply_rotation f actor occurred_at rotation"
| "apply_session_action f actor occurred_at (DetectReuse family_id i subject presented) =
     apply_reuse_detection f actor occurred_at family_id i subject presented"
| "apply_session_action f actor occurred_at (RevokeSessions subject) = apply_revoke f actor occurred_at subject"
| "apply_session_action f actor occurred_at (ExpireSessions subject) = apply_expire f actor occurred_at subject"

definition transition_session_family ::
  "SessionFamily \<Rightarrow> SessionCommand \<Rightarrow> (SessionError, SessionTransition) result" where
  "transition_session_family f command =
     bind_result (validate_session_version f (sc_expected_version command)) (\<lambda>_.
     bind_result (validate_command_time f (sc_occurred_at command)) (\<lambda>_.
     apply_session_action f (sc_actor command) (sc_occurred_at command) (sc_action command)))"

section \<open>Snapshots\<close>

record SessionSnapshot =
  sns_family_id :: SessionFamilyId
  sns_subject :: SessionSubject
  sns_id :: SessionId
  sns_token_digest :: SessionTokenDigest
  sns_issued_at :: UserUtcTimestamp
  sns_last_seen_at :: UserUtcTimestamp
  sns_idle_expires_at :: UserUtcTimestamp
  sns_version :: SessionVersion
  sns_state :: SessionState
  sns_predecessor_id :: "SessionId option"

record SessionFamilySnapshot =
  sfs_id :: SessionFamilyId
  sfs_subject :: SessionSubject
  sfs_issued_at :: UserUtcTimestamp
  sfs_absolute_expires_at :: UserUtcTimestamp
  sfs_version :: SessionFamilyVersion
  sfs_state :: SessionFamilyState
  sfs_current :: SessionSnapshot
  sfs_rotated :: "SessionSnapshot list"

definition into_session :: "SessionSnapshot \<Rightarrow> Session" where
  "into_session s =
     \<lparr>leaf_id = sns_id s, leaf_token_digest = sns_token_digest s, leaf_issued_at = sns_issued_at s,
      leaf_last_seen_at = sns_last_seen_at s, leaf_idle_expires_at = sns_idle_expires_at s,
      leaf_version = sns_version s, leaf_state = sns_state s, leaf_predecessor_id = sns_predecessor_id s\<rparr>"

definition snapshot_leaf :: "SessionFamily \<Rightarrow> Session \<Rightarrow> SessionSnapshot" where
  "snapshot_leaf f leaf =
     \<lparr>sns_family_id = sf_id f, sns_subject = sf_subject f, sns_id = leaf_id leaf,
      sns_token_digest = leaf_token_digest leaf, sns_issued_at = leaf_issued_at leaf,
      sns_last_seen_at = leaf_last_seen_at leaf, sns_idle_expires_at = leaf_idle_expires_at leaf,
      sns_version = leaf_version leaf, sns_state = leaf_state leaf,
      sns_predecessor_id = leaf_predecessor_id leaf\<rparr>"

definition session_snapshot_state :: "SessionFamily \<Rightarrow> SessionFamilySnapshot" where
  "session_snapshot_state f =
     \<lparr>sfs_id = sf_id f, sfs_subject = sf_subject f, sfs_issued_at = sf_issued_at f,
      sfs_absolute_expires_at = sf_absolute_expires_at f, sfs_version = sf_version f,
      sfs_state = sf_state f, sfs_current = snapshot_leaf f (sf_current f),
      sfs_rotated = map (snapshot_leaf f) (sf_rotated f)\<rparr>"

definition invalid_snapshot :: SessionError where
  "invalid_snapshot = session_error SessionInvalidArgument"

definition validate_session_capacity :: "SessionFamilySnapshot \<Rightarrow> (SessionError, unit) result" where
  "validate_session_capacity s =
     (if MAX_ROTATED_SESSIONS < length (sfs_rotated s) then Inl (session_error SessionResourceLimitExceeded)
      else Inr ())"

definition validate_family_window :: "SessionFamilySnapshot \<Rightarrow> (SessionError, unit) result" where
  "validate_family_window s =
     bind_result (ok_or invalid_snapshot (i64_checked_sub (sfs_absolute_expires_at s) (sfs_issued_at s))) (\<lambda>span.
     if \<not> (1 \<le> span \<and> span \<le> MAX_ABSOLUTE_LIFETIME_SECONDS) then Inl invalid_snapshot else Inr ())"

definition validate_family_version :: "SessionFamilySnapshot \<Rightarrow> (SessionError, unit) result" where
  "validate_family_version s =
     bind_result (ok_or invalid_snapshot (try_word (length (sfs_rotated s)))) (\<lambda>history.
     let transition_count = (case sfs_state s of FamilyActive \<Rightarrow> 1 | FamilyRevoked \<Rightarrow> 2 | FamilyExpired \<Rightarrow> 2) in
     bind_result (ok_or invalid_snapshot (checked_add history transition_count)) (\<lambda>expected.
     if sfs_version s \<noteq> expected then Inl invalid_snapshot else Inr ()))"

definition validate_leaf_binding ::
  "SessionFamilySnapshot \<Rightarrow> SessionSnapshot \<Rightarrow> (SessionError, unit) result" where
  "validate_leaf_binding s leaf =
     (if sns_family_id leaf \<noteq> sfs_id s then Inl (session_error FamilyMismatch)
      else if ss_tenant_id (sns_subject leaf) \<noteq> ss_tenant_id (sfs_subject s)
      then Inl (session_error SessionTenantMismatch)
      else if ss_user_id (sns_subject leaf) \<noteq> ss_user_id (sfs_subject s)
      then Inl (session_error SessionUserMismatch)
      else Inr ())"

definition validate_bindings :: "SessionFamilySnapshot \<Rightarrow> (SessionError, unit) result" where
  "validate_bindings s =
     bind_result (validate_leaf_binding s (sfs_current s)) (\<lambda>_.
     check_each (validate_leaf_binding s) (sfs_rotated s))"

record LifecycleExpectation =
  lce_current_state :: SessionState
  lce_current_version :: u64
  lce_rotated_state :: SessionState
  lce_rotated_version :: u64

fun lifecycle_expectation :: "SessionFamilyState \<Rightarrow> LifecycleExpectation" where
  "lifecycle_expectation FamilyActive =
     \<lparr>lce_current_state = LeafActive, lce_current_version = 1,
      lce_rotated_state = LeafRotated, lce_rotated_version = 2\<rparr>"
| "lifecycle_expectation FamilyRevoked =
     \<lparr>lce_current_state = LeafRevoked, lce_current_version = 2,
      lce_rotated_state = LeafRevoked, lce_rotated_version = 3\<rparr>"
| "lifecycle_expectation FamilyExpired =
     \<lparr>lce_current_state = LeafExpired, lce_current_version = 2,
      lce_rotated_state = LeafExpired, lce_rotated_version = 3\<rparr>"

definition validate_leaf_lifecycle ::
  "SessionState \<Rightarrow> u64 \<Rightarrow> SessionSnapshot \<Rightarrow> (SessionError, unit) result" where
  "validate_leaf_lifecycle expected_state expected_version leaf =
     (if sns_state leaf \<noteq> expected_state then Inl invalid_snapshot
      else if sns_version leaf \<noteq> expected_version then Inl invalid_snapshot
      else Inr ())"

definition validate_lifecycle :: "SessionFamilySnapshot \<Rightarrow> (SessionError, unit) result" where
  "validate_lifecycle s =
     (let expected = lifecycle_expectation (sfs_state s) in
      bind_result (validate_leaf_lifecycle (lce_current_state expected) (lce_current_version expected) (sfs_current s)) (\<lambda>_.
      check_each (validate_leaf_lifecycle (lce_rotated_state expected) (lce_rotated_version expected)) (sfs_rotated s)))"

definition validate_history_leaf ::
  "SessionSnapshot \<Rightarrow> SessionId option \<Rightarrow> UserUtcTimestamp \<Rightarrow> (SessionError, unit) result" where
  "validate_history_leaf leaf expected_predecessor preceding_issued_at =
     (if sns_predecessor_id leaf \<noteq> expected_predecessor then Inl invalid_snapshot
      else if sns_issued_at leaf < preceding_issued_at then Inl invalid_snapshot
      else Inr ())"

definition validate_current_order ::
  "SessionFamilySnapshot \<Rightarrow> SessionId option \<Rightarrow> UserUtcTimestamp \<Rightarrow> (SessionError, unit) result" where
  "validate_current_order s expected_predecessor preceding_issued_at =
     (if sns_predecessor_id (sfs_current s) \<noteq> expected_predecessor then Inl invalid_snapshot
      else if sns_issued_at (sfs_current s) < preceding_issued_at then Inl invalid_snapshot
      else let first_issued_at =
             (case sfs_rotated s of [] \<Rightarrow> sns_issued_at (sfs_current s) | leaf # _ \<Rightarrow> sns_issued_at leaf)
           in if first_issued_at \<noteq> sfs_issued_at s then Inl invalid_snapshot else Inr ())"

fun history_loop ::
  "SessionFamilySnapshot \<Rightarrow> SessionId option \<Rightarrow> UserUtcTimestamp \<Rightarrow> SessionSnapshot list \<Rightarrow> (SessionError, unit) result" where
  "history_loop s predecessor preceding_issued_at [] = validate_current_order s predecessor preceding_issued_at"
| "history_loop s predecessor preceding_issued_at (leaf # leaves) =
     bind_result (validate_history_leaf leaf predecessor preceding_issued_at) (\<lambda>_.
     history_loop s (Some (sns_id leaf)) (sns_issued_at leaf) leaves)"

definition validate_history_order :: "SessionFamilySnapshot \<Rightarrow> (SessionError, unit) result" where
  "validate_history_order s = history_loop s None (sfs_issued_at s) (sfs_rotated s)"

definition validate_leaf_time_order :: "SessionSnapshot \<Rightarrow> (SessionError, unit) result" where
  "validate_leaf_time_order leaf =
     (if sns_last_seen_at leaf < sns_issued_at leaf then Inl invalid_snapshot
      else if sns_idle_expires_at leaf \<le> sns_last_seen_at leaf then Inl invalid_snapshot
      else Inr ())"

definition validate_leaf_family_bounds ::
  "SessionFamilySnapshot \<Rightarrow> SessionSnapshot \<Rightarrow> (SessionError, unit) result" where
  "validate_leaf_family_bounds s leaf =
     (if sns_issued_at leaf < sfs_issued_at s then Inl invalid_snapshot
      else if sfs_absolute_expires_at s \<le> sns_issued_at leaf then Inl invalid_snapshot
      else if sfs_absolute_expires_at s < sns_idle_expires_at leaf then Inl invalid_snapshot
      else Inr ())"

definition validate_leaf_window :: "SessionFamilySnapshot \<Rightarrow> SessionSnapshot \<Rightarrow> (SessionError, unit) result" where
  "validate_leaf_window s leaf =
     bind_result (validate_leaf_time_order leaf) (\<lambda>_.
     bind_result (validate_leaf_family_bounds s leaf) (\<lambda>_.
     bind_result (ok_or invalid_snapshot (i64_checked_sub (sns_idle_expires_at leaf) (sns_last_seen_at leaf))) (\<lambda>idle_span.
     if MAX_IDLE_LIFETIME_SECONDS < idle_span then Inl invalid_snapshot else Inr ())))"

definition validate_leaf_windows :: "SessionFamilySnapshot \<Rightarrow> (SessionError, unit) result" where
  "validate_leaf_windows s =
     bind_result (validate_leaf_window s (sfs_current s)) (\<lambda>_.
     check_each (validate_leaf_window s) (sfs_rotated s))"

fun unique_leaves ::
  "SessionId list \<Rightarrow> SessionTokenDigest list \<Rightarrow> SessionSnapshot list \<Rightarrow> (SessionError, unit) result" where
  "unique_leaves ids digests [] = Inr ()"
| "unique_leaves ids digests (leaf # leaves) =
     (if sns_id leaf \<in> set ids then Inl invalid_snapshot
      else if sns_token_digest leaf \<in> set digests then Inl invalid_snapshot
      else unique_leaves (sns_id leaf # ids) (sns_token_digest leaf # digests) leaves)"

text \<open>The capacity computed first is that of a vector in memory and does not overflow.\<close>

definition validate_uniqueness :: "SessionFamilySnapshot \<Rightarrow> (SessionError, unit) result" where
  "validate_uniqueness s = unique_leaves [] [] (sfs_current s # sfs_rotated s)"

definition validate_session_snapshot :: "SessionFamilySnapshot \<Rightarrow> (SessionError, unit) result" where
  "validate_session_snapshot s =
     bind_result (validate_session_capacity s) (\<lambda>_.
     bind_result (validate_family_window s) (\<lambda>_.
     bind_result (validate_family_version s) (\<lambda>_.
     bind_result (validate_bindings s) (\<lambda>_.
     bind_result (validate_lifecycle s) (\<lambda>_.
     bind_result (validate_history_order s) (\<lambda>_.
     bind_result (validate_leaf_windows s) (\<lambda>_.
     validate_uniqueness s)))))))"

definition SessionFamily_from_snapshot :: "SessionFamilySnapshot \<Rightarrow> (SessionError, SessionFamily) result" where
  "SessionFamily_from_snapshot s =
     bind_result (validate_session_snapshot s) (\<lambda>_.
     Inr \<lparr>sf_id = sfs_id s, sf_subject = sfs_subject s,
          sf_absolute_expires_at = sfs_absolute_expires_at s, sf_issued_at = sfs_issued_at s,
          sf_version = sfs_version s, sf_state = sfs_state s,
          sf_current = into_session (sfs_current s), sf_rotated = map into_session (sfs_rotated s)\<rparr>)"

end
