(* ===== verification/Session_Properties.thy ===== *)
theory Session_Properties
  imports Auth_Session Aggregates
begin

text \<open>
  Properties of reachable session families: a token that a rotation consumed is single use, and every
  reachable family is restored from its own snapshot.
\<close>

section \<open>Reachable families\<close>

definition session_init :: "SessionFamily \<Rightarrow> bool" where
  "session_init f \<longleftrightarrow> (\<exists>request t. issue_session request = Inr t \<and> stn_family t = f)"

definition session_step :: "SessionFamily \<Rightarrow> SessionCommand \<Rightarrow> SessionFamily \<Rightarrow> bool" where
  "session_step f command g \<longleftrightarrow> (\<exists>t. transition_session_family f command = Inr t \<and> stn_family t = g)"

definition session_reachable :: "SessionFamily \<Rightarrow> bool" where
  "session_reachable = reachable session_init session_step"

definition leaves :: "SessionFamily \<Rightarrow> Session list" where
  "leaves f = sf_rotated f @ [sf_current f]"

fun linked :: "SessionId option \<Rightarrow> Session list \<Rightarrow> bool" where
  "linked predecessor [] \<longleftrightarrow> True"
| "linked predecessor (leaf # ls) \<longleftrightarrow>
     leaf_predecessor_id leaf = predecessor \<and> linked (Some (leaf_id leaf)) ls"

definition leaf_window_ok :: "SessionFamily \<Rightarrow> Session \<Rightarrow> bool" where
  "leaf_window_ok f leaf \<longleftrightarrow>
     leaf_last_seen_at leaf = leaf_issued_at leaf \<and> sf_issued_at f \<le> leaf_issued_at leaf
     \<and> leaf_issued_at leaf < leaf_idle_expires_at leaf
     \<and> leaf_idle_expires_at leaf - leaf_issued_at leaf \<le> MAX_IDLE_LIFETIME_SECONDS
     \<and> leaf_idle_expires_at leaf \<le> sf_absolute_expires_at f"

text \<open>The state and version of the leaves follow from the state of the family.\<close>

definition leaf_stage :: "SessionState \<Rightarrow> u64 \<Rightarrow> Session \<Rightarrow> bool" where
  "leaf_stage state v leaf \<longleftrightarrow> leaf_state leaf = state \<and> leaf_version leaf = v"

definition stages_ok :: "SessionFamily \<Rightarrow> bool" where
  "stages_ok f \<longleftrightarrow>
     (let expected = lifecycle_expectation (sf_state f) in
      leaf_stage (lce_current_state expected) (lce_current_version expected) (sf_current f)
      \<and> (\<forall>leaf \<in> set (sf_rotated f).
           leaf_stage (lce_rotated_state expected) (lce_rotated_version expected) leaf))"

definition family_ok :: "SessionFamily \<Rightarrow> bool" where
  "family_ok f \<longleftrightarrow>
     length (sf_rotated f) \<le> MAX_ROTATED_SESSIONS
     \<and> sf_absolute_expires_at f - sf_issued_at f \<le> MAX_ABSOLUTE_LIFETIME_SECONDS
     \<and> unat (sf_version f) = length (sf_rotated f) + (if sf_state f = FamilyActive then 1 else 2)
     \<and> stages_ok f
     \<and> linked None (leaves f)
     \<and> sorted (map leaf_issued_at (leaves f)) \<and> leaf_issued_at (hd (leaves f)) = sf_issued_at f
     \<and> list_all (leaf_window_ok f) (leaves f)
     \<and> distinct (map leaf_id (leaves f)) \<and> distinct (map leaf_token_digest (leaves f))"

section \<open>Scans of the leaves\<close>

lemma foldl_found: "foldl (\<lambda>found x. found \<or> P x) b xs \<longleftrightarrow> b \<or> (\<exists>x \<in> set xs. P x)"
  by (induction xs arbitrary: b) auto

lemma leaf_scans:
  "session_id_was_used f i \<longleftrightarrow> i \<in> leaf_id ` set (leaves f)"
  "token_was_used f token \<longleftrightarrow> token \<in> leaf_token_digest ` set (leaves f)"
  "rotated_token_match_choice f token \<longleftrightarrow> token \<in> leaf_token_digest ` set (sf_rotated f)"
  "rotated_session_matches f i token \<longleftrightarrow>
     (\<exists>leaf \<in> set (sf_rotated f). leaf_id leaf = i \<and> leaf_token_digest leaf = token)"
  by (auto simp: session_id_was_used_def token_was_used_def rotated_token_match_choice_def
        rotated_session_matches_def foldl_found leaves_def)

definition ended :: "SessionState \<Rightarrow> Session \<Rightarrow> Session" where
  "ended state leaf = leaf\<lparr>leaf_version := leaf_version leaf + 1, leaf_state := state\<rparr>"

lemma ended_fields [simp]:
  "leaf_id (ended s l) = leaf_id l" "leaf_token_digest (ended s l) = leaf_token_digest l"
  "leaf_issued_at (ended s l) = leaf_issued_at l" "leaf_last_seen_at (ended s l) = leaf_last_seen_at l"
  "leaf_idle_expires_at (ended s l) = leaf_idle_expires_at l"
  "leaf_predecessor_id (ended s l) = leaf_predecessor_id l"
  "leaf_state (ended s l) = s" "leaf_version (ended s l) = leaf_version l + 1"
  by (simp_all add: ended_def)

lemma ended_map [simp]:
  "leaf_id \<circ> ended s = leaf_id" "leaf_token_digest \<circ> ended s = leaf_token_digest"
  "leaf_issued_at \<circ> ended s = leaf_issued_at"
  by (auto simp: fun_eq_iff)

lemma leaf_with_state_ended:
  "leaf_version leaf = 1 \<or> leaf_version leaf = 2 \<Longrightarrow> leaf_with_state state leaf = Inr (ended state leaf)"
  by (auto simp: leaf_with_state_def SessionVersion_next_def checked_add_def ended_def)

lemma collect_ended:
  "\<forall>leaf \<in> set ls. leaf_version leaf = 1 \<or> leaf_version leaf = 2 \<Longrightarrow>
     collect_result (leaf_with_state state) ls = Inr (map (ended state) ls)"
  by (induction ls) (simp_all add: leaf_with_state_ended)

lemma linked_ended [simp]: "linked p (map (ended s) ls) \<longleftrightarrow> linked p ls"
  by (induction ls arbitrary: p) auto

lemma leaf_window_ok_ended [simp]: "leaf_window_ok f (ended s l) = leaf_window_ok f l"
  by (simp add: leaf_window_ok_def)

lemma linked_snoc:
  "linked p (ls @ [leaf]) \<longleftrightarrow>
     linked p ls \<and> leaf_predecessor_id leaf = (if ls = [] then p else Some (leaf_id (last ls)))"
  by (induction ls arbitrary: p) auto

section \<open>What a command does\<close>

text \<open>A rotation moves the current leaf to the history; every other accepted command ends the family.\<close>

definition rotated_family :: "SessionFamily \<Rightarrow> UserUtcTimestamp \<Rightarrow> SessionRotation \<Rightarrow> SessionFamily" where
  "rotated_family f at rotation =
     f\<lparr>sf_version := sf_version f + 1,
       sf_current := active_leaf (srt_successor_session_id rotation) (srt_successor_token rotation) at
         (srt_idle_expires_at rotation) (Some (leaf_id (sf_current f))),
       sf_rotated := sf_rotated f @ [ended LeafRotated (sf_current f)]\<rparr>"

definition ended_family :: "SessionFamily \<Rightarrow> SessionState \<Rightarrow> SessionFamilyState \<Rightarrow> SessionFamily" where
  "ended_family f leaf_end family_end =
     f\<lparr>sf_version := sf_version f + 1, sf_state := family_end, sf_current := ended leaf_end (sf_current f),
       sf_rotated := map (ended leaf_end) (sf_rotated f)\<rparr>"

definition rotation_admitted :: "SessionFamily \<Rightarrow> UserUtcTimestamp \<Rightarrow> SessionRotation \<Rightarrow> bool" where
  "rotation_admitted f at rotation \<longleftrightarrow>
     sre_session_id (srt_evidence rotation) = leaf_id (sf_current f)
     \<and> sre_presented_token (srt_evidence rotation) = leaf_token_digest (sf_current f)
     \<and> leaf_last_seen_at (sf_current f) \<le> at \<and> sf_issued_at f \<le> at
     \<and> at < srt_idle_expires_at rotation
     \<and> srt_idle_expires_at rotation - at \<le> MAX_IDLE_LIFETIME_SECONDS
     \<and> srt_idle_expires_at rotation \<le> sf_absolute_expires_at f
     \<and> length (sf_rotated f) < MAX_ROTATED_SESSIONS
     \<and> srt_successor_session_id rotation \<notin> leaf_id ` set (leaves f)
     \<and> srt_successor_token rotation \<notin> leaf_token_digest ` set (leaves f)"

text \<open>The token a command presents.\<close>

fun presented :: "SessionAction \<Rightarrow> SessionTokenDigest option" where
  "presented (RotateSession rotation) = Some (sre_presented_token (srt_evidence rotation))"
| "presented (DetectReuse _ _ _ token) = Some token"
| "presented (RevokeSessions _) = None"
| "presented (ExpireSessions _) = None"

inductive session_edge :: "SessionFamily \<Rightarrow> SessionCommand \<Rightarrow> SessionFamily \<Rightarrow> bool"
  for f command where
  edge_rotate: "sc_action command = RotateSession rotation \<Longrightarrow>
    rotation_admitted f (sc_occurred_at command) rotation \<Longrightarrow>
    session_edge f command (rotated_family f (sc_occurred_at command) rotation)"
| edge_reuse: "presented (sc_action command) = Some token \<Longrightarrow>
    token \<in> leaf_token_digest ` set (sf_rotated f) \<Longrightarrow>
    session_edge f command (ended_family f LeafRevoked FamilyRevoked)"
| edge_revoke: "sc_action command = RevokeSessions subject \<Longrightarrow>
    session_edge f command (ended_family f LeafRevoked FamilyRevoked)"
| edge_expire: "sc_action command = ExpireSessions subject \<Longrightarrow>
    session_edge f command (ended_family f LeafExpired FamilyExpired)"

lemmas active_checks = validate_active_family_def validate_session_subject_def validate_family_id_def
  validate_current_leaf_def validate_not_expired_def validate_rotation_preconditions_def

lemma ok_version_bound: "family_ok f \<Longrightarrow> unat (sf_version f) + 1 < 2 ^ 64"
  by (auto simp: family_ok_def MAX_ROTATED_SESSIONS_def)

lemma version_advances:
  assumes "family_ok f"
  shows "SessionFamilyVersion_next (sf_version f) = Inr (sf_version f + 1)"
    and "unat (sf_version f + 1) = unat (sf_version f) + 1"
proof -
  from ok_version_bound [OF assms] show "SessionFamilyVersion_next (sf_version f) = Inr (sf_version f + 1)"
    by (simp add: SessionFamilyVersion_next_def checked_add_def)
  from ok_version_bound [OF assms] show "unat (sf_version f + 1) = unat (sf_version f) + 1"
    by (simp add: unat_add_lem [THEN iffD1])
qed

lemma active_versions:
  assumes "family_ok f" and "sf_state f = FamilyActive"
  shows "leaf_version (sf_current f) = 1" and "leaf_state (sf_current f) = LeafActive"
    and "\<And>leaf. leaf \<in> set (sf_rotated f) \<Longrightarrow> leaf_version leaf = 2 \<and> leaf_state leaf = LeafRotated"
  using assms by (auto simp: family_ok_def stages_ok_def leaf_stage_def)

lemma end_family_active:
  assumes "family_ok f" and "sf_state f = FamilyActive"
  obtains event where "end_family f actor at leaf_end family_end kind =
    Inr \<lparr>stn_family = ended_family f leaf_end family_end, stn_event = event\<rparr>"
proof -
  note active = active_versions [OF assms]
  have "leaf_with_state leaf_end (sf_current f) = Inr (ended leaf_end (sf_current f))"
    by (rule leaf_with_state_ended) (simp add: active)
  moreover have "rotated_with_state f leaf_end = Inr (map (ended leaf_end) (sf_rotated f))"
    unfolding rotated_with_state_def by (rule collect_ended) (simp add: active)
  ultimately show ?thesis
    using that by (simp add: end_family_def version_advances [OF assms(1)] Let_def
        family_advance_def ended_family_def)
qed

lemma rotation_active:
  assumes "family_ok f" and "sf_state f = FamilyActive"
    and "apply_rotation f actor at rotation = Inr t"
    and "leaf_last_seen_at (sf_current f) \<le> at" "sf_issued_at f \<le> at"
  shows "(rotation_admitted f at rotation \<and> stn_family t = rotated_family f at rotation)
    \<or> (sre_presented_token (srt_evidence rotation) \<in> leaf_token_digest ` set (sf_rotated f)
       \<and> stn_family t = ended_family f LeafRevoked FamilyRevoked)"
proof (cases "evaluate_presented_token f (sre_presented_token (srt_evidence rotation))")
  case ActiveMatch
  from assms(3) ActiveMatch have
      pre: "validate_rotation_preconditions f at rotation = Inr ()"
    and idle: "validate_idle_window f at (srt_idle_expires_at rotation) = Inr ()"
    and succ: "validate_successor f rotation = Inr ()"
    and rot: "rotate_active_leaf f actor at rotation = Inr t"
    by (auto simp: apply_rotation_def results)
  have "leaf_with_state LeafRotated (sf_current f) = Inr (ended LeafRotated (sf_current f))"
    by (rule leaf_with_state_ended) (simp add: active_versions [OF assms(1,2)])
  with rot assms(2) have "stn_family t = rotated_family f at rotation"
    by (auto simp: rotate_active_leaf_def version_advances [OF assms(1)] Let_def family_advance_def
          rotated_family_def)
  moreover from ActiveMatch have
      "sre_presented_token (srt_evidence rotation) = leaf_token_digest (sf_current f)"
    by (auto simp: evaluate_presented_token_def split: if_splits)
  with pre idle succ assms(4,5) have "rotation_admitted f at rotation"
    by (auto simp: rotation_admitted_def active_checks validate_idle_window_def validate_successor_def
          leaf_scans results i64_checked_sub_def split: if_splits)
  ultimately show ?thesis by simp
next
  case PreviousMatch
  with assms(3) have "end_family f actor at LeafRevoked FamilyRevoked SessionReuseRevoked = Inr t"
    by (auto simp: apply_rotation_def revoke_for_reuse_def results)
  with end_family_active [OF assms(1,2)]
  have "stn_family t = ended_family f LeafRevoked FamilyRevoked"
    by (metis Inr_inject SessionTransition.select_convs(1))
  with PreviousMatch show ?thesis
    by (auto simp: evaluate_presented_token_def leaf_scans split: if_splits)
next
  case TokenUnknown
  with assms(3) show ?thesis by (auto simp: apply_rotation_def results)
qed

lemma terminal_refuses:
  assumes "sf_state f \<noteq> FamilyActive"
  shows "\<exists>e. transition_session_family f command = Inl e"
proof (cases "transition_session_family f command")
  case (Inr t)
  with assms have False
    by (cases "sc_action command")
       (auto simp: transition_session_family_def apply_rotation_def apply_reuse_detection_def
          apply_revoke_def apply_expire_def active_checks results split: if_splits)
  then show ?thesis ..
qed simp

lemma transition_edge:
  assumes "family_ok f" and "transition_session_family f command = Inr t"
  shows "sf_state f = FamilyActive \<and> session_edge f command (stn_family t)"
proof -
  from assms(2) have active: "sf_state f = FamilyActive"
    using terminal_refuses [of f command] by auto
  from assms(2) have time: "leaf_last_seen_at (sf_current f) \<le> sc_occurred_at command"
      "sf_issued_at f \<le> sc_occurred_at command"
    and act: "apply_session_action f (sc_actor command) (sc_occurred_at command) (sc_action command) = Inr t"
    by (auto simp: transition_session_family_def validate_command_time_def results split: if_splits)
  have ends: "stn_family t = ended_family f leaf_end family_end"
    if "end_family f (sc_actor command) (sc_occurred_at command) leaf_end family_end kind = Inr t"
    for leaf_end family_end kind
    using that end_family_active [OF assms(1) active]
    by (metis Inr_inject SessionTransition.select_convs(1))
  have "session_edge f command (stn_family t)"
  proof (cases "sc_action command")
    case (RotateSession rotation)
    with act have "apply_rotation f (sc_actor command) (sc_occurred_at command) rotation = Inr t" by simp
    from rotation_active [OF assms(1) active this time] show ?thesis
      using edge_rotate [OF RotateSession] edge_reuse [of command _ f] RotateSession by force
  next
    case (DetectReuse i s subject token)
    with act have "token \<in> leaf_token_digest ` set (sf_rotated f)"
      "stn_family t = ended_family f LeafRevoked FamilyRevoked"
      by (auto simp: apply_reuse_detection_def revoke_for_reuse_def leaf_scans results
            intro: ends split: if_splits)
    with DetectReuse show ?thesis by (auto intro: edge_reuse)
  next
    case (RevokeSessions subject)
    with act have "stn_family t = ended_family f LeafRevoked FamilyRevoked"
      by (auto simp: apply_revoke_def results intro: ends)
    with RevokeSessions show ?thesis by (auto intro: edge_revoke)
  next
    case (ExpireSessions subject)
    with act have "stn_family t = ended_family f LeafExpired FamilyExpired"
      by (auto simp: apply_expire_def results intro: ends)
    with ExpireSessions show ?thesis by (auto intro: edge_expire)
  qed
  with active show ?thesis by simp
qed

section \<open>The invariant\<close>

lemma leaves_ended [simp]:
  "leaves (ended_family f leaf_end family_end) = map (ended leaf_end) (leaves f)"
  by (simp add: leaves_def ended_family_def)

lemma ended_family_fields [simp]:
  "sf_id (ended_family f a b) = sf_id f" "sf_subject (ended_family f a b) = sf_subject f"
  "sf_state (ended_family f a b) = b" "sf_version (ended_family f a b) = sf_version f + 1"
  "sf_issued_at (ended_family f a b) = sf_issued_at f"
  "sf_absolute_expires_at (ended_family f a b) = sf_absolute_expires_at f"
  "sf_current (ended_family f a b) = ended a (sf_current f)"
  "sf_rotated (ended_family f a b) = map (ended a) (sf_rotated f)"
  by (simp_all add: ended_family_def)

lemma rotated_family_fields [simp]:
  "sf_id (rotated_family f at r) = sf_id f" "sf_subject (rotated_family f at r) = sf_subject f"
  "sf_state (rotated_family f at r) = sf_state f" "sf_version (rotated_family f at r) = sf_version f + 1"
  "sf_issued_at (rotated_family f at r) = sf_issued_at f"
  "sf_absolute_expires_at (rotated_family f at r) = sf_absolute_expires_at f"
  "sf_rotated (rotated_family f at r) = sf_rotated f @ [ended LeafRotated (sf_current f)]"
  by (simp_all add: rotated_family_def)

lemma leaf_window_ok_family:
  "sf_issued_at g = sf_issued_at f \<Longrightarrow> sf_absolute_expires_at g = sf_absolute_expires_at f \<Longrightarrow>
     leaf_window_ok g = leaf_window_ok f"
  by (auto simp: leaf_window_ok_def fun_eq_iff)

lemma leaves_not_empty [simp]: "leaves f \<noteq> []" by (simp add: leaves_def)

lemma hd_map_ended [simp]: "ls \<noteq> [] \<Longrightarrow> leaf_issued_at (hd (map (ended s) ls)) = leaf_issued_at (hd ls)"
  by (simp add: hd_map)

lemma ended_family_ok:
  assumes "family_ok f" and "sf_state f = FamilyActive"
    and "(leaf_end, family_end) \<in> {(LeafRevoked, FamilyRevoked), (LeafExpired, FamilyExpired)}"
  shows "family_ok (ended_family f leaf_end family_end)"
proof -
  note active = active_versions [OF assms(1,2)]
  have stages: "stages_ok (ended_family f leaf_end family_end)"
    using active assms(3) by (auto simp: stages_ok_def leaf_stage_def)
  have windows: "leaf_window_ok (ended_family f leaf_end family_end) = leaf_window_ok f"
    by (rule leaf_window_ok_family) simp_all
  show ?thesis
    using assms stages windows version_advances [OF assms(1)]
    by (auto simp: family_ok_def list.pred_map comp_def)
qed

lemma leaves_rotated:
  "leaves (rotated_family f at r) =
     sf_rotated f @ [ended LeafRotated (sf_current f), sf_current (rotated_family f at r)]"
  by (simp add: leaves_def)

lemma rotated_family_ok:
  assumes "family_ok f" and "sf_state f = FamilyActive" and r: "rotation_admitted f at rotation"
  shows "family_ok (rotated_family f at rotation)"
proof -
  let ?g = "rotated_family f at rotation"
  note active = active_versions [OF assms(1,2)]
  have cur: "sf_current ?g = active_leaf (srt_successor_session_id rotation) (srt_successor_token rotation) at
      (srt_idle_expires_at rotation) (Some (leaf_id (sf_current f)))"
    by (simp add: rotated_family_def)
  have windows: "leaf_window_ok ?g = leaf_window_ok f"
    by (rule leaf_window_ok_family) simp_all
  have maps: "map leaf_id (leaves ?g) = map leaf_id (leaves f) @ [srt_successor_session_id rotation]"
    "map leaf_token_digest (leaves ?g) = map leaf_token_digest (leaves f) @ [srt_successor_token rotation]"
    "map leaf_issued_at (leaves ?g) = map leaf_issued_at (leaves f) @ [at]"
    by (simp_all add: leaves_rotated cur active_leaf_def leaves_def)
  have stages: "stages_ok ?g"
    using active assms(2)
    by (auto simp: stages_ok_def leaf_stage_def cur active_leaf_def SessionVersion_initial_def)
  have "linked None (sf_rotated f @ [ended LeafRotated (sf_current f)])"
    using assms(1) by (simp add: family_ok_def leaves_def linked_snoc)
  then have link: "linked None (leaves ?g)"
    using linked_snoc [of None "sf_rotated f @ [ended LeafRotated (sf_current f)]" "sf_current ?g"]
    by (simp add: leaves_rotated cur active_leaf_def)
  have last_seen: "leaf_issued_at (sf_current f) \<le> at"
    using assms(1) r by (auto simp: family_ok_def rotation_admitted_def leaves_def leaf_window_ok_def)
  then have times: "sorted (map leaf_issued_at (leaves ?g))"
    using assms(1) unfolding maps by (force simp: family_ok_def leaves_def sorted_append)
  have first: "leaf_issued_at (hd (leaves ?g)) = sf_issued_at ?g"
    using assms(1) by (cases "sf_rotated f") (simp_all add: family_ok_def leaves_rotated leaves_def)
  have wins: "list_all (leaf_window_ok ?g) (leaves ?g)"
    using assms(1) r
    by (auto simp: windows family_ok_def leaves_rotated leaves_def leaf_window_ok_def cur active_leaf_def
          rotation_admitted_def)
  have fresh: "distinct (map leaf_id (leaves ?g))" "distinct (map leaf_token_digest (leaves ?g))"
    using assms(1) r unfolding maps by (auto simp: family_ok_def rotation_admitted_def)
  show ?thesis
    using assms stages link times first wins fresh version_advances [OF assms(1)]
    unfolding family_ok_def by (auto simp: rotation_admitted_def)
qed

lemma session_step_ok:
  assumes "family_ok f" and "transition_session_family f command = Inr t"
  shows "family_ok (stn_family t)"
proof -
  from transition_edge [OF assms] have active: "sf_state f = FamilyActive"
    and "session_edge f command (stn_family t)" by auto
  from this(2) show ?thesis
    by cases (auto intro!: rotated_family_ok ended_family_ok assms(1) active)
qed

lemma issue_session_ok:
  assumes "issue_session request = Inr t"
  shows "family_ok (stn_family t)"
proof -
  let ?w = "sir_validity request"
  have "svw_issued_at ?w < svw_idle_expires_at ?w"
    "svw_absolute_expires_at ?w - svw_issued_at ?w \<le> MAX_ABSOLUTE_LIFETIME_SECONDS"
    "svw_idle_expires_at ?w - svw_issued_at ?w \<le> MAX_IDLE_LIFETIME_SECONDS"
    "svw_idle_expires_at ?w \<le> svw_absolute_expires_at ?w"
    and "stn_family t = SessionFamily_issued request"
    using assms
    by (auto simp: issue_session_def Let_def validate_validity_window_def validate_positive_window_order_def
          validate_window_spans_def i64_checked_sub_def results split: if_splits)
  then show ?thesis
    by (auto simp: family_ok_def SessionFamily_issued_def leaves_def stages_ok_def leaf_stage_def
          active_leaf_def leaf_window_ok_def SessionVersion_initial_def SessionFamilyVersion_initial_def)
qed

section \<open>Restoration\<close>

lemma snapshot_leaf_fields [simp]:
  "sns_family_id (snapshot_leaf f l) = sf_id f" "sns_subject (snapshot_leaf f l) = sf_subject f"
  "sns_id (snapshot_leaf f l) = leaf_id l" "sns_token_digest (snapshot_leaf f l) = leaf_token_digest l"
  "sns_issued_at (snapshot_leaf f l) = leaf_issued_at l"
  "sns_last_seen_at (snapshot_leaf f l) = leaf_last_seen_at l"
  "sns_idle_expires_at (snapshot_leaf f l) = leaf_idle_expires_at l"
  "sns_version (snapshot_leaf f l) = leaf_version l" "sns_state (snapshot_leaf f l) = leaf_state l"
  "sns_predecessor_id (snapshot_leaf f l) = leaf_predecessor_id l"
  "into_session (snapshot_leaf f l) = l"
  by (simp_all add: snapshot_leaf_def into_session_def)

lemma family_snapshot_fields [simp]:
  "sfs_id (session_snapshot_state f) = sf_id f" "sfs_subject (session_snapshot_state f) = sf_subject f"
  "sfs_issued_at (session_snapshot_state f) = sf_issued_at f"
  "sfs_absolute_expires_at (session_snapshot_state f) = sf_absolute_expires_at f"
  "sfs_version (session_snapshot_state f) = sf_version f" "sfs_state (session_snapshot_state f) = sf_state f"
  "sfs_current (session_snapshot_state f) = snapshot_leaf f (sf_current f)"
  "sfs_rotated (session_snapshot_state f) = map (snapshot_leaf f) (sf_rotated f)"
  by (simp_all add: session_snapshot_state_def)

lemma history_loop_ok:
  assumes "linked p (ls @ [sf_current f])" and "sorted (at # map leaf_issued_at (ls @ [sf_current f]))"
    and "leaf_issued_at (hd (leaves f)) = sf_issued_at f"
  shows "history_loop (session_snapshot_state f) p at (map (snapshot_leaf f) ls) = Inr ()"
  using assms
proof (induction ls arbitrary: p at)
  case Nil
  then show ?case by (cases "sf_rotated f") (auto simp: validate_current_order_def leaves_def)
next
  case (Cons leaf ls)
  then show ?case by (auto simp: validate_history_leaf_def)
qed

lemma unique_leaves_ok:
  "unique_leaves ids digests ls = Inr u \<longleftrightarrow>
     distinct (map sns_id ls) \<and> distinct (map sns_token_digest ls)
     \<and> sns_id ` set ls \<inter> set ids = {} \<and> sns_token_digest ` set ls \<inter> set digests = {}"
  by (induction ids digests ls rule: unique_leaves.induct) auto

lemma leaf_window_validates:
  "leaf_window_ok f leaf \<Longrightarrow> validate_leaf_window (session_snapshot_state f) (snapshot_leaf f leaf) = Inr ()"
  by (auto simp: validate_leaf_window_def leaf_window_ok_def validate_leaf_time_order_def
        validate_leaf_family_bounds_def i64_checked_sub_def MAX_IDLE_LIFETIME_SECONDS_def)

lemma stages_validate: "stages_ok f \<Longrightarrow> validate_lifecycle (session_snapshot_state f) = Inr ()"
  by (auto simp: validate_lifecycle_def stages_ok_def leaf_stage_def validate_leaf_lifecycle_def Let_def results)

lemma family_version_validates:
  assumes "family_ok f"
  shows "validate_family_version (session_snapshot_state f) = Inr ()"
proof -
  have bound: "length (sf_rotated f) \<le> 4096"
    and v: "unat (sf_version f) = length (sf_rotated f) + (if sf_state f = FamilyActive then 1 else 2)"
    using assms by (auto simp: family_ok_def MAX_ROTATED_SESSIONS_def)
  have word: "(try_word (length (sf_rotated f)) :: u64 option) = Some (of_nat (length (sf_rotated f)))"
    using bound by (simp add: try_word_def)
  have small: "unat (of_nat (length (sf_rotated f)) :: u64) = length (sf_rotated f)"
    using bound by (simp add: unat_of_nat)
  have sum: "checked_add (of_nat (length (sf_rotated f)) :: u64)
      (case sf_state f of FamilyActive \<Rightarrow> 1 | FamilyRevoked \<Rightarrow> 2 | FamilyExpired \<Rightarrow> 2) = Some (sf_version f)"
    using v small by (cases "sf_state f") (simp_all add: machine)
  show ?thesis by (simp add: validate_family_version_def word sum Let_def)
qed

lemma family_restores:
  assumes "family_ok f"
  shows "SessionFamily_from_snapshot (session_snapshot_state f) = Inr f"
proof -
  let ?s = "session_snapshot_state f"
  have windows: "\<forall>leaf \<in> set (leaves f). leaf_window_ok f leaf"
    using assms by (simp add: family_ok_def list_all_iff)
  then have span: "1 \<le> sf_absolute_expires_at f - sf_issued_at f"
    by (force simp: leaves_def leaf_window_ok_def)
  have "validate_session_capacity ?s = Inr ()"
    using assms by (simp add: validate_session_capacity_def family_ok_def)
  moreover have "validate_family_window ?s = Inr ()"
    using assms span
    by (auto simp: validate_family_window_def family_ok_def i64_checked_sub_def MAX_ABSOLUTE_LIFETIME_SECONDS_def)
  moreover have "validate_bindings ?s = Inr ()"
    by (auto simp: validate_bindings_def validate_leaf_binding_def results)
  moreover have "validate_history_order ?s = Inr ()"
  proof -
    have "sorted (sf_issued_at f # map leaf_issued_at (sf_rotated f @ [sf_current f]))"
      using assms windows by (auto simp: family_ok_def leaves_def leaf_window_ok_def)
    with assms show ?thesis
      unfolding validate_history_order_def by (simp add: history_loop_ok family_ok_def leaves_def)
  qed
  moreover have "validate_leaf_windows ?s = Inr ()"
    using windows by (auto simp: validate_leaf_windows_def leaves_def results leaf_window_validates)
  moreover have "validate_uniqueness ?s = Inr ()"
    using assms by (auto simp: validate_uniqueness_def unique_leaves_ok family_ok_def leaves_def comp_def)
  moreover have "validate_lifecycle ?s = Inr ()" "validate_family_version ?s = Inr ()"
    using assms by (auto simp: family_ok_def intro: stages_validate family_version_validates)
  ultimately have "validate_session_snapshot ?s = Inr ()" by (simp add: validate_session_snapshot_def)
  then show ?thesis by (simp add: SessionFamily_from_snapshot_def comp_def)
qed

lemma transition_frame:
  assumes "transition_session_family f command = Inr t"
  shows "unat (sf_version (stn_family t)) = unat (sf_version f) + 1
    \<and> sf_id (stn_family t) = sf_id f \<and> sf_subject (stn_family t) = sf_subject f
    \<and> sf_issued_at (stn_family t) = sf_issued_at f
    \<and> sf_absolute_expires_at (stn_family t) = sf_absolute_expires_at f"
proof -
  let ?frame = "\<lambda>g. unat (sf_version g) = unat (sf_version f) + 1 \<and> sf_id g = sf_id f
    \<and> sf_subject g = sf_subject f \<and> sf_issued_at g = sf_issued_at f
    \<and> sf_absolute_expires_at g = sf_absolute_expires_at f"
  have ends: "?frame (stn_family t)" if "end_family f actor at a b k = Inr t" for actor at a b k
    using that
    by (auto simp: end_family_def family_advance_def SessionFamilyVersion_next_def Let_def results machine)
  have rotates: "?frame (stn_family t)" if "rotate_active_leaf f actor at r = Inr t" for actor at r
    using that
    by (auto simp: rotate_active_leaf_def family_advance_def SessionFamilyVersion_next_def Let_def results machine)
  from assms have
    "apply_session_action f (sc_actor command) (sc_occurred_at command) (sc_action command) = Inr t"
    by (auto simp: transition_session_family_def results)
  then show ?thesis
    by (cases "sc_action command")
       (auto simp: apply_rotation_def apply_reuse_detection_def apply_revoke_def apply_expire_def
          revoke_for_reuse_def results dest!: ends rotates split: PresentedTokenOutcome.splits if_splits)
qed

interpretation sessions: stored_aggregate session_init session_step family_ok sf_version
  "\<lambda>f. (sf_id f, sf_subject f, sf_issued_at f, sf_absolute_expires_at f)"
  session_snapshot_state SessionFamily_from_snapshot
proof
  show "family_ok f" if "session_init f" for f
    using that by (auto simp: session_init_def issue_session_ok)
  show "family_ok g" if "family_ok f" "session_step f command g" for f command g
    using that by (auto simp: session_step_def session_step_ok)
  show "sf_version f = 1" if "session_init f" for f
    using that by (auto simp: session_init_def issue_session_def Let_def results SessionFamily_issued_def
        SessionFamilyVersion_initial_def)
qed (auto simp: family_restores session_step_def dest!: transition_frame)

section \<open>Single use\<close>

definition in_history :: "SessionFamily \<Rightarrow> SessionId \<Rightarrow> SessionTokenDigest \<Rightarrow> bool" where
  "in_history f i token \<longleftrightarrow>
     (\<exists>leaf \<in> set (sf_rotated f). leaf_id leaf = i \<and> leaf_token_digest leaf = token)"

lemma edge_keeps_history:
  assumes "session_edge f command g" and "in_history f i token"
  shows "in_history g i token"
  using assms by cases (auto simp: in_history_def)

lemma run_keeps_history:
  assumes "run session_step f commands g" and "family_ok f" and "in_history f i token"
  shows "in_history g i token"
  using assms
proof (induction rule: run.induct)
  case (run_cons s l t ls u)
  then obtain tr where tr: "transition_session_family s l = Inr tr" "stn_family tr = t"
    by (auto simp: session_step_def)
  with run_cons.prems have "session_edge s l t" "family_ok t"
    using transition_edge [of s l tr] session_step_ok [of s l tr] by auto
  with run_cons show ?case by (auto intro: edge_keeps_history)
qed simp

lemma history_token_not_current:
  assumes "family_ok f" and "in_history f i token"
  shows "token \<noteq> leaf_token_digest (sf_current f)"
proof -
  from assms(1) have "leaf_token_digest (sf_current f) \<notin> leaf_token_digest ` set (sf_rotated f)"
    by (simp add: family_ok_def leaves_def)
  with assms(2) show ?thesis unfolding in_history_def by (metis imageI)
qed

lemma presenting_history_revokes:
  assumes ok: "family_ok f" and h: "in_history f i token"
    and t: "transition_session_family f command = Inr t" and p: "presented (sc_action command) = Some token"
  shows "stn_family t = ended_family f LeafRevoked FamilyRevoked"
proof -
  from transition_edge [OF ok t] have "session_edge f command (stn_family t)" by simp
  then show ?thesis
    using p history_token_not_current [OF ok h] by cases (auto simp: rotation_admitted_def)
qed

lemma reuse_detected:
  assumes ok: "family_ok f" and active: "sf_state f = FamilyActive" and h: "in_history f i token"
    and time: "sf_issued_at f \<le> at" "leaf_last_seen_at (sf_current f) \<le> at"
  shows "\<exists>t. transition_session_family f
      \<lparr>sc_expected_version = sf_version f, sc_actor = actor, sc_occurred_at = at,
       sc_action = DetectReuse (sf_id f) i (sf_subject f) token\<rparr> = Inr t
    \<and> stn_family t = ended_family f LeafRevoked FamilyRevoked"
proof -
  obtain event where e: "end_family f actor at LeafRevoked FamilyRevoked SessionReuseRevoked =
      Inr \<lparr>stn_family = ended_family f LeafRevoked FamilyRevoked, stn_event = event\<rparr>"
    by (rule end_family_active [OF ok active])
  have m: "rotated_session_matches f i token" using h by (auto simp: in_history_def leaf_scans)
  show ?thesis
    using time active m e
    by (simp add: transition_session_family_def validate_session_version_def validate_command_time_def
        apply_reuse_detection_def validate_session_subject_def validate_family_id_def revoke_for_reuse_def)
qed

definition everything_revoked :: "SessionFamily \<Rightarrow> bool" where
  "everything_revoked f \<longleftrightarrow>
     sf_state f = FamilyRevoked \<and> (\<forall>leaf \<in> set (leaves f). leaf_state leaf = LeafRevoked)"

lemma ended_family_revoked [simp]: "everything_revoked (ended_family f LeafRevoked FamilyRevoked)"
  by (simp add: everything_revoked_def)

lemma accepted_rotation_enters_history:
  assumes "family_ok f" and "sc_action command = RotateSession rotation"
    and "transition_session_family f command = Inr t" and "sf_state (stn_family t) = FamilyActive"
  shows "in_history (stn_family t) (sre_session_id (srt_evidence rotation))
    (sre_presented_token (srt_evidence rotation))"
proof -
  from transition_edge [OF assms(1,3)] have "session_edge f command (stn_family t)" by simp
  then show ?thesis using assms(2,4) by cases (auto simp: in_history_def rotation_admitted_def)
qed

section \<open>A family with two rotations\<close>

definition demo_subject :: SessionSubject where
  "demo_subject = \<lparr>ss_tenant_id = ''tenant'', ss_user_id = ''user''\<rparr>"

definition demo_issue_request :: SessionIssueRequest where
  "demo_issue_request =
     \<lparr>sir_binding = \<lparr>sib_family_id = ''family'', sib_session_id = ''s1'', sib_subject = demo_subject,
        sib_actor = ''user''\<rparr>,
      sir_token_digest = ''d1'',
      sir_validity = \<lparr>svw_issued_at = 0, svw_absolute_expires_at = 1000, svw_idle_expires_at = 100\<rparr>\<rparr>"

definition demo_rotate ::
  "u64 \<Rightarrow> UserUtcTimestamp \<Rightarrow> SessionId \<Rightarrow> SessionTokenDigest \<Rightarrow> SessionId \<Rightarrow> SessionTokenDigest \<Rightarrow> SessionCommand" where
  "demo_rotate v at i token successor successor_token =
     \<lparr>sc_expected_version = v, sc_actor = ''user'', sc_occurred_at = at,
      sc_action = RotateSession
        \<lparr>srt_evidence = \<lparr>sre_family_id = ''family'', sre_session_id = i, sre_subject = demo_subject,
           sre_presented_token = token\<rparr>,
         srt_successor_session_id = successor, srt_successor_token = successor_token,
         srt_idle_expires_at = at + 100\<rparr>\<rparr>"

definition demo_leaf :: "SessionId \<Rightarrow> SessionTokenDigest \<Rightarrow> UserUtcTimestamp \<Rightarrow> u64 \<Rightarrow> SessionState \<Rightarrow> SessionId option \<Rightarrow> Session" where
  "demo_leaf i token at v state predecessor =
     \<lparr>leaf_id = i, leaf_token_digest = token, leaf_issued_at = at, leaf_last_seen_at = at,
      leaf_idle_expires_at = at + 100, leaf_version = v, leaf_state = state,
      leaf_predecessor_id = predecessor\<rparr>"

definition demo_family :: "u64 \<Rightarrow> Session \<Rightarrow> Session list \<Rightarrow> SessionFamily" where
  "demo_family v current rotated =
     \<lparr>sf_id = ''family'', sf_subject = demo_subject, sf_absolute_expires_at = 1000, sf_issued_at = 0,
      sf_version = v, sf_state = FamilyActive, sf_current = current, sf_rotated = rotated\<rparr>"

abbreviation demo_second :: SessionFamily where
  "demo_second \<equiv> demo_family 2 (demo_leaf ''s2'' ''d2'' 10 1 LeafActive (Some ''s1''))
     [demo_leaf ''s1'' ''d1'' 0 2 LeafRotated None]"

abbreviation demo_third :: SessionFamily where
  "demo_third \<equiv> demo_family 3 (demo_leaf ''s3'' ''d3'' 20 1 LeafActive (Some ''s2''))
     [demo_leaf ''s1'' ''d1'' 0 2 LeafRotated None, demo_leaf ''s2'' ''d2'' 10 2 LeafRotated (Some ''s1'')]"

lemmas session_eval = transition_session_family_def validate_session_version_def validate_command_time_def
  apply_rotation_def active_checks evaluate_presented_token_def validate_idle_window_def validate_successor_def
  i64_checked_sub_def MAX_IDLE_LIFETIME_SECONDS_def MAX_ABSOLUTE_LIFETIME_SECONDS_def MAX_ROTATED_SESSIONS_def
  session_id_was_used_def token_was_used_def rotate_active_leaf_def leaf_with_state_def active_leaf_def
  SessionVersion_initial_def SessionFamilyVersion_next_def SessionVersion_next_def checked_add_def
  family_advance_def Let_def

lemma demo_issue:
  "\<exists>t. issue_session demo_issue_request = Inr t
     \<and> stn_family t = demo_family 1 (demo_leaf ''s1'' ''d1'' 0 1 LeafActive None) []"
  by (simp add: issue_session_def demo_issue_request_def validate_validity_window_def
      validate_positive_window_order_def validate_window_spans_def SessionFamily_issued_def
      SessionFamilyVersion_initial_def demo_family_def demo_leaf_def session_eval)

lemma demo_first_rotation:
  "\<exists>t. transition_session_family (demo_family 1 (demo_leaf ''s1'' ''d1'' 0 1 LeafActive None) [])
       (demo_rotate 1 10 ''s1'' ''d1'' ''s2'' ''d2'') = Inr t \<and> stn_family t = demo_second"
  by (simp add: session_eval demo_family_def demo_leaf_def demo_rotate_def demo_subject_def)

lemma demo_second_rotation:
  "\<exists>t. transition_session_family demo_second (demo_rotate 2 20 ''s2'' ''d2'' ''s3'' ''d3'') = Inr t
     \<and> stn_family t = demo_third"
  by (simp add: session_eval demo_family_def demo_leaf_def demo_rotate_def demo_subject_def)

lemma demo_reachable:
  "session_reachable (demo_family 1 (demo_leaf ''s1'' ''d1'' 0 1 LeafActive None) [])"
  unfolding session_reachable_def by (rule reachable_init) (use demo_issue in \<open>auto simp: session_init_def\<close>)

section \<open>Properties\<close>

text \<open>
  C7: A token is single use. After a rotation of a reachable family that consumed a token, and any
  further accepted commands, an accepted command that presents the token again revokes the family with
  every leaf of it, and no command is accepted after that. While the family is active such a command
  exists: detection of the reuse with the identity of the leaf and its token is accepted at every time
  that is not before the last one seen.
\<close>

theorem rotated_token_is_single_use:
  assumes "session_reachable f" and "sc_action command = RotateSession rotation"
    and "transition_session_family f command = Inr t" and "sf_state (stn_family t) = FamilyActive"
    and "run session_step (stn_family t) commands g"
  shows "(\<forall>later u. presented (sc_action later) = Some (sre_presented_token (srt_evidence rotation))
            \<and> transition_session_family g later = Inr u \<longrightarrow>
            everything_revoked (stn_family u)
            \<and> (\<forall>next_command. \<exists>e. transition_session_family (stn_family u) next_command = Inl e))
    \<and> (\<forall>actor at. sf_state g = FamilyActive \<and> sf_issued_at g \<le> at \<and> leaf_last_seen_at (sf_current g) \<le> at \<longrightarrow>
         (\<exists>u. transition_session_family g
            \<lparr>sc_expected_version = sf_version g, sc_actor = actor, sc_occurred_at = at,
             sc_action = DetectReuse (sf_id g) (sre_session_id (srt_evidence rotation)) (sf_subject g)
               (sre_presented_token (srt_evidence rotation))\<rparr> = Inr u
          \<and> everything_revoked (stn_family u)))"
proof -
  have ok: "family_ok f" using assms(1) unfolding session_reachable_def by (rule sessions.reachable_inv)
  then have ok': "family_ok (stn_family t)" using assms(3) by (rule session_step_ok)
  then have okg: "family_ok g" using assms(5) by (metis sessions.run_inv)
  have h: "in_history g (sre_session_id (srt_evidence rotation)) (sre_presented_token (srt_evidence rotation))"
    by (rule run_keeps_history [OF assms(5) ok' accepted_rotation_enters_history [OF ok assms(2,3,4)]])
  show ?thesis
  proof (intro conjI allI impI; elim conjE)
    fix later u
    assume "presented (sc_action later) = Some (sre_presented_token (srt_evidence rotation))"
      and "transition_session_family g later = Inr u"
    then have u: "stn_family u = ended_family g LeafRevoked FamilyRevoked"
      by (intro presenting_history_revokes [OF okg h])
    then show "everything_revoked (stn_family u)" by simp
    show "\<exists>e. transition_session_family (stn_family u) c = Inl e" for c
      by (rule terminal_refuses) (simp add: u)
  qed (use reuse_detected [OF okg _ h] in force)
qed

theorem rotated_token_is_single_use_witness:
  "\<exists>u. transition_session_family demo_third
      \<lparr>sc_expected_version = 3, sc_actor = ''user'', sc_occurred_at = 30,
       sc_action = DetectReuse ''family'' ''s1'' demo_subject ''d1''\<rparr> = Inr u \<and> everything_revoked (stn_family u)"
proof -
  obtain t where t: "transition_session_family (demo_family 1 (demo_leaf ''s1'' ''d1'' 0 1 LeafActive None) [])
      (demo_rotate 1 10 ''s1'' ''d1'' ''s2'' ''d2'') = Inr t" "stn_family t = demo_second"
    using demo_first_rotation by blast
  have "run session_step (stn_family t) [demo_rotate 2 20 ''s2'' ''d2'' ''s3'' ''d3''] demo_third"
    using demo_second_rotation t(2) by (auto simp: session_step_def run_Cons_iff)
  from rotated_token_is_single_use [OF demo_reachable _ t(1) _ this] t(2) show ?thesis
    by (auto simp: demo_rotate_def demo_family_def demo_leaf_def)
qed

text \<open>
  C40: Every reachable session family is restored from the snapshot that is stored of it: the validation
  of the identities, tokens, times, states, versions and predecessors of its leaves rejects no state that
  commands produce. The version counts the rotations and the end of the family, no two leaves share an
  identity or a token, a rotated leaf is never active, and the current one is active exactly while the
  family is.
\<close>

theorem session_families_survive_storage:
  assumes "session_reachable f"
  shows "SessionFamily_from_snapshot (session_snapshot_state f) = Inr f
    \<and> unat (sf_version f) = length (sf_rotated f) + (if sf_state f = FamilyActive then 1 else 2)
    \<and> length (sf_rotated f) \<le> MAX_ROTATED_SESSIONS
    \<and> distinct (map leaf_id (sf_rotated f @ [sf_current f]))
    \<and> distinct (map leaf_token_digest (sf_rotated f @ [sf_current f]))
    \<and> (\<forall>leaf \<in> set (sf_rotated f). leaf_state leaf \<noteq> LeafActive)
    \<and> (leaf_state (sf_current f) = LeafActive \<longleftrightarrow> sf_state f = FamilyActive)"
proof -
  have ok: "family_ok f" and "SessionFamily_from_snapshot (session_snapshot_state f) = Inr f"
    using assms sessions.reachable_restores [of f] sessions.reachable_inv [of f]
    unfolding session_reachable_def by auto
  moreover from ok have "(\<forall>leaf \<in> set (sf_rotated f). leaf_state leaf \<noteq> LeafActive)
      \<and> (leaf_state (sf_current f) = LeafActive \<longleftrightarrow> sf_state f = FamilyActive)"
    by (cases "sf_state f") (auto simp: family_ok_def stages_ok_def leaf_stage_def)
  ultimately show ?thesis by (simp add: family_ok_def leaves_def)
qed

theorem session_families_survive_storage_witness:
  "SessionFamily_from_snapshot (session_snapshot_state demo_third) = Inr demo_third
   \<and> distinct (map leaf_token_digest (sf_rotated demo_third @ [sf_current demo_third]))"
proof -
  have "session_step (demo_family 1 (demo_leaf ''s1'' ''d1'' 0 1 LeafActive None) [])
      (demo_rotate 1 10 ''s1'' ''d1'' ''s2'' ''d2'') demo_second"
    using demo_first_rotation by (simp add: session_step_def)
  with demo_reachable have "session_reachable demo_second"
    unfolding session_reachable_def by (rule reachable_step)
  moreover have "session_step demo_second (demo_rotate 2 20 ''s2'' ''d2'' ''s3'' ''d3'') demo_third"
    using demo_second_rotation by (simp add: session_step_def)
  ultimately have "session_reachable demo_third"
    unfolding session_reachable_def by (rule reachable_step)
  from session_families_survive_storage [OF this] show ?thesis by blast
qed

text \<open>
  Presenting a rotated token in a rotation that names the rotated leaf is refused before the tokens are
  compared, and the family stays active: only the detection of reuse revokes it then.
\<close>

lemma naming_the_rotated_leaf_is_refused:
  "transition_session_family demo_third (demo_rotate 3 30 ''s1'' ''d1'' ''s4'' ''d4'')
     = Inl (session_error SessionMismatch)"
  by (simp add: session_eval demo_family_def demo_leaf_def demo_rotate_def demo_subject_def)

end
