(* ===== verification/Spec2Isabelle.thy ===== *)
theory Spec2Isabelle
  imports Admission_Publication Circuit_Properties Circuit_Book Routing_Properties
    Core_Properties Lifecycle_Properties Bounded_Worker
    Selection_Policy Assembly_Properties Runtime_Properties Coordination_Properties
    Organization_Properties Authorization Session_Properties
begin

text \<open>
  Ariadnion is a gateway in front of AI providers. A small core (\<open>src/crates/ariadnion-core\<close>)
  supervises statically linked modules; the optional crates (\<open>src/crates/optional\<close>) decide whether
  a request may use a provider account and what it may consume. This development models the core's
  module supervision and the routing of a request: accounts and models, rate limits, budgets, circuit
  breakers, the coupling of rate limits and budgets, the filter and the coordination of one route, and the
  execution of a request over several attempts. Beside it stand the identities a request acts for: users,
  organizations, roles and browser sessions.

  \<^bold>\<open>Common ground.\<close> \<open>Prelude\<close> has machine integers with the checked and saturating operations of the
  source, \<open>Result\<close> values with the sequencing of the question-mark operator, \<open>BTreeMap\<close> as a list of
  entries in key order, sums of claims over the entries of a map, and binary search. \<open>Interfaces\<close> has
  runs and reachable states and the contracts shared by components, as locales: a transition system
  with an invariant (\<open>invariant_system\<close>), a component used inside a composed system (\<open>component\<close>) and
  version-checked publication (\<open>publication\<close>). \<open>Aggregates\<close> extends the first to aggregates whose version
  counts the accepted commands (\<open>versioned_aggregate\<close>) and which are restored from what is stored of them
  (\<open>stored_aggregate\<close>). Each is interpreted on the definitions of the components below.

  \<^bold>\<open>Rate limits\<close> (\<open>ariadnion-rate-limit\<close>). \<open>Rate_Limit\<close> models \<open>lib.rs\<close>: identities, keys, rules, policy
  sets and requests. \<open>Admission_Controller\<close> models \<open>controller.rs\<close>: the state under the mutex as a record
  and every call as a function on it, with lock poisoning as a flag. \<open>Admission_Publication\<close> models
  \<open>policy_publication.rs\<close>. \<open>Admission_Invariant\<close>, \<open>Admission_Reserve\<close> and \<open>Admission_Properties\<close> show that
  counters are exact sums over leases, that capacities and concurrency limits are never exceeded, that
  refusals consume nothing, that accepted work is always charged, and that commits succeed.

  \<^bold>\<open>Budgets\<close> (\<open>ariadnion-account-budget\<close>). \<open>Account_Budget\<close> models \<open>lib.rs\<close> and \<open>reservation.rs\<close>: policies,
  the ledger of reservations with reserve, commit, release and expiry, and the published policy book.
  \<open>Budget_Invariant\<close> and \<open>Budget_Properties\<close> show that usage is an exact sum within hard limits, that
  settling moves exact amounts and is final, that replays are idempotent and identities are granted
  once, and that expiry cannot fail.

  \<^bold>\<open>Circuits\<close> (\<open>ariadnion-account-circuit\<close>). \<open>Account_Circuit\<close> models \<open>lib.rs\<close>, \<open>Circuit_Book\<close> models
  \<open>snapshot_book.rs\<close>. \<open>Circuit_Invariant\<close> and \<open>Circuit_Properties\<close> show that the breaker refines an
  abstract four-state breaker (closed, open, half open, terminal), when it trips, that probes are
  bounded and answered once, and that terminal circuits need a reset.

  \<^bold>\<open>Coupled admission\<close> (\<open>ariadnion-routing-admission\<close>). \<open>Routing_Admission\<close> models \<open>lib.rs\<close> on top of the
  rate controller and the budget ledger, and the system of all open leases. \<open>Routing_Invariant\<close>,
  \<open>Routing_Ownership\<close>, \<open>Routing_Leases\<close> and \<open>Routing_Properties\<close> show that both stores stay in states of
  their own, that admission takes both capacities or none, that every open lease owns what it holds,
  and that settling or dropping a lease moves both capacities. \<open>Routing_Settlement\<close> shows what an owner
  that uses nothing but its own leases leaves behind: the leases it still holds, and no change to others.

  \<^bold>\<open>Selection and failover\<close> (\<open>ariadnion-routing-policy\<close>, \<open>ariadnion-routing-failover\<close>). \<open>Selection_Policy\<close>
  models the weighted least-load policy and shows that it selects the least candidate and explains the
  others truthfully. \<open>Failover\<close> models the planner and the retry plan of the coordinator's \<open>retry.rs\<close>, and
  describes a decision by the place of its candidate in the plan.

  \<^bold>\<open>Accounts\<close> (\<open>ariadnion-account-domain\<close>, \<open>-import\<close>, \<open>-pool\<close>, \<open>-proxy\<close>, \<open>-quota\<close>, \<open>-affinity\<close>, \<open>-schedule\<close>,
  \<open>-health\<close>). One theory per crate models its \<open>lib.rs\<close> (and \<open>port.rs\<close>, \<open>candidate.rs\<close>): \<open>Account_Domain\<close> the
  account aggregate and its life cycle, \<open>Account_Import\<close> batches, their classification and publication
  intents, \<open>Account_Pool\<close> candidate snapshots and their projection to routes, \<open>Account_Proxy\<close> egress profiles,
  \<open>Account_Quota\<close> quota snapshots and their expiry, \<open>Account_Affinity\<close> the registry of sticky bindings,
  \<open>Account_Schedule\<close> weekly windows in local time, \<open>Account_Health\<close> the health reducer. The versioned books
  among them interpret the contract \<open>publication\<close>; the life cycle, the quota book, the registry and the reducer are
  transition systems with an invariant. Their properties: revocation is final, a published pool offers exactly
  the routable records, affinity is sticky, availability is the calendar it means, and how an account
  leaves the unhealthy state.

  \<^bold>\<open>Models and prices\<close> (\<open>ariadnion-model-domain\<close>, \<open>-catalog\<close>, \<open>-pricing\<close>, \<open>ariadnion-routing-cost\<close>,
  \<open>-domain\<close>, \<open>-wasm\<close>). \<open>Model_Domain\<close> and \<open>Model_Catalog\<close> have descriptors, conflicts, visibility and the projection
  of a tenant, \<open>Model_Pricing\<close> schedules and quotes, \<open>Routing_Cost\<close> the evaluation of cost limits and its
  reference as a partition, \<open>Routing_Domain\<close> route snapshots and evaluations, \<open>Routing_Wasm\<close> the inputs and outputs of
  an installed policy. \<open>Slices\<close> has the operations on slices they share. Names resolve to one model, tenants see
  their models only, and quotes are unambiguous.

  \<^bold>\<open>Identities\<close> (\<open>ariadnion-user-domain\<close>, \<open>-organization\<close>, \<open>-rbac\<close>, \<open>-auth-session\<close>). Pure aggregates with
  version-checked commands, which interpret the locales of \<open>Aggregates\<close>. \<open>User_Domain\<close> models the life cycle of
  a user with its deletion, and shows that a snapshot is restored exactly when the user is reachable.
  \<open>Organization_Domain\<close> models \<open>ids.rs\<close>, \<open>model.rs\<close> and the two modules below it (snapshots, the versions they can
  have, transfer evidence, persisted events), \<open>Organization_Transition\<close> models \<open>transition.rs\<close> (every command, and
  the replay of events). \<open>Organization_Invariant\<close> has the edges of a command, their invariant and the account
  of versions, \<open>Organization_Properties\<close> shows that snapshots restore, that the log of events rebuilds the
  organization and that ownership is kept and passed on with evidence only. \<open>Authorization\<close> models roles, scopes,
  policies, their evaluation and restoration, and shows that a request is allowed exactly by an explicit
  permission without a denial. \<open>Auth_Session\<close> models session families, \<open>Session_Properties\<close> shows that a rotated
  token is single use and that families are restored from their snapshots.

  \<^bold>\<open>Coordination\<close> (\<open>ariadnion-routing-coordinator\<close>). \<open>Route_Coordinator\<close> models requests, the admission of
  the selected candidate (\<open>engine/admission.rs\<close>), the coordination of one route (\<open>engine.rs\<close>) and the
  assembly of a coordinator (\<open>admission_assembly.rs\<close>). \<open>Route_Selection\<close> models the candidate filter of
  \<open>engine.rs\<close> over the snapshots of every domain, up to \<open>prepare_selection\<close>. \<open>Selection_Filter\<close> states the contract
  of a stage of the filter (locale \<open>filter_stage\<close>, interpreted for every check and for their composition):
  a stage keeps the candidates and gives each that is still eligible one verdict. \<open>Selection_Safety\<close> adds
  the pricing, \<open>Selection_Properties\<close> the choice and its explanation, and \<open>Coordination_Properties\<close> the
  guarantees: a routed candidate passed every check, the reported reason is the first failing check, and
  every other candidate is explained. \<open>Assembly_Properties\<close> shows that an assembled coordinator enforces
  the persisted concurrency limit of every candidate. The execution below is proved for an arbitrary
  filter, so it holds for this one.

  \<^bold>\<open>Execution\<close> (\<open>ariadnion-routing-runtime\<close>). \<open>Circuit_Probe\<close> models \<open>circuit_probe.rs\<close>, and \<open>Probe_Registry\<close>
  shows that a call touches the circuit of its key alone and honours only its own leases.
  \<open>Routing_Runtime\<close>, \<open>Runtime_Attempt\<close> and \<open>Runtime_Loop\<close> model \<open>lib.rs\<close>, \<open>runtime_support.rs\<close>, \<open>execution.rs\<close>
  and \<open>error_code.rs\<close>: the checks, one attempt from the circuit probe to its settlement, and the loop of
  attempts. The state is the pair of admission stores, the probe registry and the list of dispatches.
  \<open>Runtime_Evidence\<close> follows the reported attempts, \<open>Runtime_Safety\<close> the retry plan, \<open>Runtime_Leases\<close> the
  admission leases, as a run of an owner's own calls, and the circuits, \<open>Runtime_Binding\<close> the identity of a
  dispatch, \<open>Runtime_Clock\<close> the times of retries; \<open>Runtime_Properties\<close> states the guarantees of an execution,
  among them that it leaves no unsettled capacity behind, and \<open>Runtime_Demo\<close> evaluates one.

  \<^bold>\<open>Core contracts\<close> (\<open>ariadnion-core\<close>). \<open>Core_Ids\<close> models \<open>error.rs\<close> and \<open>ids.rs\<close>, \<open>Core_Resource\<close> models
  \<open>resource.rs\<close>, \<open>Core_Module\<close> models \<open>capability.rs\<close>, \<open>module.rs\<close> and \<open>health.rs\<close>. Their lemmas and
  \<open>Core_Properties\<close> characterise what the validating constructors accept, show that versions survive
  printing and parsing, and that resolution binds the one registered provider whose version is accepted.

  \<^bold>\<open>Lifecycle supervisor\<close> (\<open>ariadnion-core/src/lifecycle.rs\<close>). \<open>Dependency_Graph\<close> holds the graph loops on
  plain dependency lists, \<open>Lifecycle\<close> the supervisor with all its operations, \<open>Bounded_Worker\<close> the
  hand-over between the supervisor and the thread that runs a module call. \<open>Lifecycle_Passes\<close> is the
  contract of a pass over the modules in dependency order (locales \<open>local_pass\<close> and \<open>module_pass\<close>,
  interpreted for cycle marking, validation, startup and shutdown), \<open>Lifecycle_Outcome\<close> derives what the
  operations do, \<open>Lifecycle_Invariant\<close> is the transition system and its invariant, \<open>Lifecycle_Demo\<close> a
  concrete supervisor, and \<open>Lifecycle_Properties\<close> the guarantees: cycles are found exactly and isolated,
  providers are validated and started before consumers and stopped after them, a module becomes ready
  exactly when it should, and reachable supervisors are consistent.

  \<^bold>\<open>Concurrency.\<close> Every critical section is one step and steps of different threads interleave freely:
  the controller, the ledger and the circuit run under one mutex per store, so an operation is a
  function on the protected state, and the properties quantify over all sequences of operations. The
  supervisor is used through \<open>&mut self\<close>; only its bounded workers run beside it, and their protocol is
  modelled separately, at the level of its two critical sections.

  \<^bold>\<open>Parameters.\<close> Clocks are arguments of the operations, as in the source, or, for the supervisor, fields
  of the record of module answers. What modules return, whether they panic and whether a worker meets its
  deadline are such fields too, without any assumption on them. The ports of an execution (clocks, the
  request context, the credential and vault ports, the provider executor, the loaded snapshots) are records
  of answers, one field per call, again without any assumption. The digests of affinity keys and of session
  tokens, the durable store of proxy snapshots and an installed policy evaluator are arbitrary functions.

  \<^bold>\<open>Termination and bounds.\<close> No definition uses fuel: loops over collections are structural recursions or
  folds, and the remaining ones (binary search, the cycle search, the startup and shutdown orders, decimal
  printing) are total functions with measures. Integers that can overflow in the source keep their width;
  \<open>usize\<close> values and durations are natural numbers, because the source bounds them far below their width.

  Records and calls that the source orders by \<open>derive(Ord)\<close> or an unstable sort by a key use the stable
  sort by the same key; where equal keys are refused the result is the same.

  \<^bold>\<open>Not modelled.\<close> \<open>Debug\<close> formatting; wakers and the event bus of the core, which rest on the asynchronous
  runtime; adapters for HTTP, files, storage and the command line, which perform I/O, with the
  repository ports and migration scripts of the identities; vaults, passwords, API keys and digests, which
  rest on cryptographic libraries; the WebAssembly runtime that executes a policy; the JSON wire formats. Of
  the domain crates, invitations, principal bindings, batches, exports and the configuration domain are left.
\<close>

end
